(* ===== verification/Krb_Prelude.thy ===== *)
theory Krb_Prelude
  imports "HOL-Library.Word"
begin

text \<open>
  Shared vocabulary of the development: bytes, Rust results, machine integers and their
  big- and little-endian encodings, Rust strings as their UTF-8 bytes, slices, and the
  generic lemmas the component theories use.  The collections \<open>result_simps\<close> (the result
  monad), \<open>codec_simps\<close> (lengths and inverses of the byte encodings) and \<open>str_simps\<close> (strings)
  are given to \<open>simp\<close> where a component needs them.

  A Rust \<open>String\<close> is a sequence of UTF-8 bytes; a HOL \<^typ>\<open>string\<close> is a list of 8-bit
  characters.  The model keeps a Rust string as the \<^typ>\<open>string\<close> of its UTF-8 bytes, so
  \<^term>\<open>length s\<close> is Rust's \<open>s.len()\<close>.  Signed integers \<open>i16\<close>, \<open>i32\<close> are words read by
  \<^const>\<open>sint\<close>; offsets and lengths (\<open>usize\<close>) are natural numbers whose checked arithmetic
  overflows at \<open>2 ^ 64\<close>.
\<close>

named_theorems result_simps
named_theorems codec_simps
named_theorems str_simps

type_synonym u8 = "8 word"
type_synonym u16 = "16 word"
type_synonym u32 = "32 word"
type_synonym u64 = "64 word"
type_synonym i16 = "16 word"
type_synonym i32 = "32 word"
type_synonym bytes = "u8 list"

text \<open>The kind of an I/O error, as far as the code looks at it, and what \<open>std::env::var\<close> returns.\<close>

datatype io_fault = NotFound | OtherFault

datatype env_var = VarSet string | VarNotPresent | VarNotUnicode

section \<open>Results\<close>

text \<open>
  \<open>Result<A, E>\<close> is \<^typ>\<open>'e + 'a\<close>; the \<open>?\<close> operator is \<open>rbind\<close>, a chain of
  early returns.
\<close>

definition rbind :: "'e + 'a \<Rightarrow> ('a \<Rightarrow> 'e + 'b) \<Rightarrow> 'e + 'b" where
  "rbind m f = (case m of Inl e \<Rightarrow> Inl e | Inr x \<Rightarrow> f x)"

definition ok_or :: "'a option \<Rightarrow> 'e \<Rightarrow> 'e + 'a" where
  "ok_or m e = (case m of None \<Rightarrow> Inl e | Some x \<Rightarrow> Inr x)"

definition map_err :: "('e \<Rightarrow> 'f) \<Rightarrow> 'e + 'a \<Rightarrow> 'f + 'a" where
  "map_err f m = (case m of Inl e \<Rightarrow> Inl (f e) | Inr x \<Rightarrow> Inr x)"

definition is_ok :: "'e + 'a \<Rightarrow> bool" where
  "is_ok m = (case m of Inl e \<Rightarrow> False | Inr x \<Rightarrow> True)"

lemma rbind_Inr [simp, result_simps]: "rbind (Inr x) f = f x"
  by (simp add: rbind_def)

lemma rbind_Inl [simp, result_simps]: "rbind (Inl e) f = Inl e"
  by (simp add: rbind_def)

lemma rbind_eq_Inr: "rbind m f = Inr y \<longleftrightarrow> (\<exists>x. m = Inr x \<and> f x = Inr y)"
  by (cases m) auto

lemma rbind_eq_Inl: "rbind m f = Inl e \<longleftrightarrow> m = Inl e \<or> (\<exists>x. m = Inr x \<and> f x = Inl e)"
  by (cases m) auto

lemma rbind_cong [fundef_cong]:
  "m = m' \<Longrightarrow> (\<And>x. m' = Inr x \<Longrightarrow> f x = f' x) \<Longrightarrow> rbind m f = rbind m' f'"
  by (cases m') auto

lemma rbindE:
  assumes "rbind m f = Inr y"
  obtains x where "m = Inr x" and "f x = Inr y"
  using assms by (auto simp: rbind_eq_Inr)

lemma ok_or_simps [simp, result_simps]: "ok_or None e = Inl e" "ok_or (Some x) e = Inr x"
  by (simp_all add: ok_or_def)

lemma ok_or_eq_Inr: "ok_or m e = Inr x \<longleftrightarrow> m = Some x"
  by (cases m) auto

lemma map_err_simps [simp, result_simps]:
  "map_err f (Inl e) = Inl (f e)" "map_err f (Inr x) = Inr x"
  by (simp_all add: map_err_def)

lemma map_err_eq_Inr: "map_err f m = Inr x \<longleftrightarrow> m = Inr x"
  by (cases m) auto

lemma is_ok_simps [simp, result_simps]: "is_ok (Inl e) = False" "is_ok (Inr x) = True"
  by (simp_all add: is_ok_def)

lemma is_ok_iff: "is_ok m \<longleftrightarrow> (\<exists>x. m = Inr x)"
  by (cases m) auto

section \<open>Lengths\<close>

text \<open>\<open>usize::checked_add\<close> on a 64-bit target.\<close>

definition usize_checked_add :: "nat \<Rightarrow> nat \<Rightarrow> nat option" where
  "usize_checked_add a b = (if a + b < 2 ^ 64 then Some (a + b) else None)"

text \<open>The slice \<open>&bytes[a..b]\<close>; the code only takes it with \<open>a \<le> b \<le> bytes.len()\<close>.\<close>

definition slice :: "'a list \<Rightarrow> nat \<Rightarrow> nat \<Rightarrow> 'a list" where
  "slice xs a b = take (b - a) (drop a xs)"

lemma slice_append_mid [simp, codec_simps]:
  "slice (xs @ ys @ zs) (length xs) (length xs + length ys) = ys"
  by (simp add: slice_def)

lemma length_slice: "b \<le> length xs \<Longrightarrow> length (slice xs a b) = b - a"
  by (simp add: slice_def)

lemma slice_full: "slice xs 0 (length xs) = xs"
  by (simp add: slice_def)

section \<open>Endian encodings\<close>

datatype endian = Big | Little

text \<open>Big-endian reading and writing of a natural number in a fixed number of bytes.\<close>

fun be_nat :: "bytes \<Rightarrow> nat" where
  "be_nat [] = 0"
| "be_nat (b # bs) = unat b * 256 ^ length bs + be_nat bs"

fun nat_be :: "nat \<Rightarrow> nat \<Rightarrow> bytes" where
  "nat_be 0 n = []"
| "nat_be (Suc k) n = nat_be k (n div 256) @ [word_of_nat (n mod 256)]"

lemma nat_be_numeral [simp]:
  "nat_be (numeral k) n = nat_be (pred_numeral k) (n div 256) @ [word_of_nat (n mod 256)]"
  by (subst numeral_eq_Suc) (simp only: nat_be.simps)

lemma length_nat_be [simp, codec_simps]: "length (nat_be k n) = k"
  by (induction k arbitrary: n) auto

lemma unat_lt_pow: "unat (w :: 'a::len word) < 2 ^ LENGTH('a)"
  by (rule unsigned_less)

lemma unat_byte_lt: "unat (b :: u8) < 256"
  using unat_lt_pow [of b] by simp

lemma pow_256_bytes:
  assumes "8 dvd n"
  shows "(256 :: nat) ^ (n div 8) = 2 ^ n"
proof -
  have "(256 :: nat) ^ (n div 8) = (2 ^ 8) ^ (n div 8)" by simp
  also have "\<dots> = 2 ^ (8 * (n div 8))" by (simp only: power_mult)
  finally show ?thesis using assms by simp
qed

lemma unat_of_nat_byte [simp]: "n < 256 \<Longrightarrow> unat (word_of_nat n :: u8) = n"
  by (simp add: unat_of_nat)

lemma be_nat_append: "be_nat (xs @ ys) = be_nat xs * 256 ^ length ys + be_nat ys"
  by (induction xs) (auto simp: algebra_simps power_add)

lemma be_nat_lt: "be_nat bs < 256 ^ length bs"
proof (induction bs)
  case (Cons b bs)
  have "be_nat (b # bs) < (unat b + 1) * 256 ^ length bs"
    using Cons.IH by simp
  also have "\<dots> \<le> 256 * 256 ^ length bs"
    using unat_byte_lt [of b] by (intro mult_right_mono) auto
  finally show ?case by simp
qed simp

lemma be_nat_nat_be [simp, codec_simps]: "be_nat (nat_be k n) = n mod 256 ^ k"
proof (induction k arbitrary: n)
  case (Suc k)
  have "be_nat (nat_be (Suc k) n) = (n div 256 mod 256 ^ k) * 256 + n mod 256"
    by (simp add: be_nat_append Suc.IH)
  also have "\<dots> = n mod (256 * 256 ^ k)"
    by (simp add: mod_mult2_eq algebra_simps)
  finally show ?case by simp
qed simp

lemma nat_be_be_nat: "nat_be (length bs) (be_nat bs) = bs"
proof (induction bs rule: rev_induct)
  case (snoc b bs)
  have "be_nat (bs @ [b]) mod 256 = unat b"
    using unat_byte_lt [of b] by (simp add: be_nat_append)
  moreover have "be_nat (bs @ [b]) div 256 = be_nat bs"
    using unat_byte_lt [of b] by (simp add: be_nat_append)
  ultimately show ?case using snoc.IH by simp
qed simp

text \<open>
  Rust's \<open>to_be_bytes\<close>, \<open>to_le_bytes\<close>, \<open>from_be_bytes\<close> and \<open>from_le_bytes\<close> at every
  width, selected by the endianness as the modules' \<open>match endian\<close> does.
\<close>

definition to_bytes_en :: "endian \<Rightarrow> 'a::len word \<Rightarrow> bytes" where
  "to_bytes_en en w =
     (case en of Big \<Rightarrow> nat_be (LENGTH('a) div 8) (unat w)
      | Little \<Rightarrow> rev (nat_be (LENGTH('a) div 8) (unat w)))"

definition from_bytes_en :: "endian \<Rightarrow> bytes \<Rightarrow> 'a::len word" where
  "from_bytes_en en bs =
     (case en of Big \<Rightarrow> word_of_nat (be_nat bs) | Little \<Rightarrow> word_of_nat (be_nat (rev bs)))"

lemma length_to_bytes_en [simp, codec_simps]:
  "length (to_bytes_en en (w :: 'a::len word)) = LENGTH('a) div 8"
  by (simp add: to_bytes_en_def split: endian.split)

lemma from_to_bytes_en [simp, codec_simps]:
  assumes "8 dvd LENGTH('a)"
  shows "from_bytes_en en (to_bytes_en en (w :: 'a::len word)) = w"
proof -
  have "unat w mod 256 ^ (LENGTH('a) div 8) = unat w"
    using unat_lt_pow [of w] by (simp add: pow_256_bytes [OF assms])
  then show ?thesis
    by (simp add: from_bytes_en_def to_bytes_en_def split: endian.split)
qed

lemma to_from_bytes_en:
  assumes "8 dvd LENGTH('a)" and "length bs = LENGTH('a) div 8"
  shows "to_bytes_en en (from_bytes_en en bs :: 'a::len word) = bs"
proof -
  have lt: "be_nat cs < 2 ^ LENGTH('a)" if "length cs = LENGTH('a) div 8" for cs
    using be_nat_lt [of cs] that by (simp add: pow_256_bytes [OF assms(1)])
  have "unat (word_of_nat (be_nat cs) :: 'a word) = be_nat cs" if "length cs = LENGTH('a) div 8" for cs
    using lt [OF that] by (simp add: unat_of_nat)
  then show ?thesis
    using nat_be_be_nat [of bs] nat_be_be_nat [of "rev bs"] assms(2)
    by (simp add: from_bytes_en_def to_bytes_en_def split: endian.split)
qed

section \<open>Strings\<close>

definition byte_of_char :: "char \<Rightarrow> u8" where
  "byte_of_char c = word_of_nat (of_char c)"

definition char_of_byte :: "u8 \<Rightarrow> char" where
  "char_of_byte b = char_of (unat b)"

definition str_bytes :: "string \<Rightarrow> bytes" where
  "str_bytes s = map byte_of_char s"

definition bytes_str :: "bytes \<Rightarrow> string" where
  "bytes_str bs = map char_of_byte bs"

lemma of_char_nat_lt: "(of_char c :: nat) < 256"
proof -
  have "(of_char c :: nat) = of_char c mod 256"
    by (metis char_of_char of_char_of)
  also have "\<dots> < 256" by simp
  finally show ?thesis .
qed

lemma char_of_byte_of_char [simp, str_simps]: "char_of_byte (byte_of_char c) = c"
  by (simp add: char_of_byte_def byte_of_char_def of_char_nat_lt)

lemma byte_of_char_of_byte [simp, str_simps]: "byte_of_char (char_of_byte b) = b"
  using unat_byte_lt [of b] by (simp add: char_of_byte_def byte_of_char_def)

lemma bytes_str_bytes [simp, str_simps]: "bytes_str (str_bytes s) = s"
  by (simp add: bytes_str_def str_bytes_def comp_def)

lemma str_bytes_str [simp, str_simps]: "str_bytes (bytes_str bs) = bs"
  by (simp add: bytes_str_def str_bytes_def comp_def)

lemma length_str_bytes [simp, str_simps]: "length (str_bytes s) = length s"
  by (simp add: str_bytes_def)

text \<open>
  \<open>std::str::from_utf8\<close> accepts exactly the well-formed byte sequences of the Unicode
  standard (table 3-7): no overlong form, no surrogate, nothing above U+10FFFF.
\<close>

definition in_range :: "nat \<Rightarrow> nat \<Rightarrow> u8 \<Rightarrow> bool" where
  "in_range lo hi b \<longleftrightarrow> lo \<le> unat b \<and> unat b \<le> hi"

fun utf8_valid :: "bytes \<Rightarrow> bool" where
  "utf8_valid [] = True"
| "utf8_valid (b # bs) =
     (if in_range 0x00 0x7F b then utf8_valid bs
      else (case bs of [] \<Rightarrow> False | c # cs \<Rightarrow>
        if in_range 0xC2 0xDF b then in_range 0x80 0xBF c \<and> utf8_valid cs
        else (case cs of [] \<Rightarrow> False | d # ds \<Rightarrow>
          if in_range 0xE0 0xEF b then
            in_range (if unat b = 0xE0 then 0xA0 else 0x80) (if unat b = 0xED then 0x9F else 0xBF) c
            \<and> in_range 0x80 0xBF d \<and> utf8_valid ds
          else (case ds of [] \<Rightarrow> False | e # es \<Rightarrow>
            in_range 0xF0 0xF4 b
            \<and> in_range (if unat b = 0xF0 then 0x90 else 0x80) (if unat b = 0xF4 then 0x8F else 0xBF) c
            \<and> in_range 0x80 0xBF d \<and> in_range 0x80 0xBF e \<and> utf8_valid es))))"

text \<open>A value of type \<open>String\<close> always holds well-formed UTF-8.\<close>

definition str_ok :: "string \<Rightarrow> bool" where
  "str_ok s \<longleftrightarrow> utf8_valid (str_bytes s)"

lemma utf8_valid_ascii: "\<forall>b \<in> set bs. unat b < 128 \<Longrightarrow> utf8_valid bs"
  by (induction bs rule: utf8_valid.induct) (auto simp: in_range_def)

lemma str_ok_Nil [simp]: "str_ok []"
  by (simp add: str_ok_def str_bytes_def)

lemma str_ok_Cons_ascii [simp]: "(of_char c :: nat) < 128 \<Longrightarrow> str_ok (c # s) = str_ok s"
  by (simp add: str_ok_def str_bytes_def byte_of_char_def in_range_def)

section \<open>Text\<close>

definition ascii_lower :: "char \<Rightarrow> char" where
  "ascii_lower c =
     (if 65 \<le> (of_char c :: nat) \<and> (of_char c :: nat) \<le> 90 then char_of ((of_char c :: nat) + 32) else c)"

definition eq_ignore_ascii_case :: "string \<Rightarrow> string \<Rightarrow> bool" where
  "eq_ignore_ascii_case s t \<longleftrightarrow> map ascii_lower s = map ascii_lower t"

text \<open>\<open>str::split_once\<close> at a single-byte character.\<close>

fun split_once :: "char \<Rightarrow> string \<Rightarrow> (string \<times> string) option" where
  "split_once d [] = None"
| "split_once d (c # cs) =
     (if c = d then Some ([], cs)
      else map_option (\<lambda>(a, b). (c # a, b)) (split_once d cs))"

text \<open>\<open>str::split\<close> and \<open>join\<close> at a single-byte separator.\<close>

fun split_on :: "char \<Rightarrow> string \<Rightarrow> string list" where
  "split_on d [] = [[]]"
| "split_on d (c # cs) =
     (if c = d then [] # split_on d cs
      else (case split_on d cs of [] \<Rightarrow> [[c]] | p # ps \<Rightarrow> (c # p) # ps))"

fun join_with :: "char \<Rightarrow> string list \<Rightarrow> string" where
  "join_with d [] = []"
| "join_with d [p] = p"
| "join_with d (p # ps) = p @ [d] @ join_with d ps"

lemma split_once_None_iff: "split_once d s = None \<longleftrightarrow> d \<notin> set s"
  by (induction s) auto

lemma split_once_Some: "split_once d s = Some (a, b) \<longleftrightarrow> s = a @ d # b \<and> d \<notin> set a"
proof (induction s arbitrary: a)
  case (Cons c s)
  then show ?case
    by (cases a) (auto split: if_splits)
qed simp

lemma break_at:
  assumes "d \<notin> set p"
  shows "takeWhile (\<lambda>c. c \<noteq> d) (p @ d # r) = p" and "dropWhile (\<lambda>c. c \<noteq> d) (p @ d # r) = d # r"
  using assms by (induction p) auto

lemma split_on_not_Nil [simp]: "split_on d s \<noteq> []"
  by (induction s) (auto split: list.splits)

lemma join_split_on: "join_with d (split_on d s) = s"
proof (induction s)
  case (Cons c s)
  then show ?case
    by (cases "split_on d s"; cases "tl (split_on d s)") (auto split: list.splits)
qed simp

lemma split_on_no_sep: "d \<notin> set p \<Longrightarrow> split_on d p = [p]"
  by (induction p) auto

lemma split_on_append: "d \<notin> set p \<Longrightarrow> split_on d (p @ d # s) = p # split_on d s"
  by (induction p) auto

lemma split_join_with:
  assumes "ps \<noteq> []" and "\<forall>p \<in> set ps. d \<notin> set p"
  shows "split_on d (join_with d ps) = ps"
  using assms
proof (induction d ps rule: join_with.induct)
  case (3 d p q ps)
  then show ?case by (simp add: split_on_append)
qed (auto simp: split_on_no_sep)

end
