(* ===== verification/Byte_Cursor.thy ===== *)
theory Byte_Cursor
  imports Krb_Prelude
begin

text \<open>
  The cursor functions that \<open>keytab.rs\<close> and \<open>ccache.rs\<close> each define for themselves with the
  same bodies: bounds-checked reads at a mutable offset and checked writes to an output
  vector.  A read \<open>f(bytes, &mut offset, endian)\<close> is a function from the buffer and the
  offset to an error or the value with the new offset; a write \<open>f(&mut out, value, endian)\<close>
  takes and returns the output.  The interface \<open>file_codec\<close> states what a reader and a writer of one
  format promise about a pure encoding, and carries the lemmas on counted repetitions once.
\<close>

section \<open>Errors of the file formats\<close>

text \<open>
  \<open>keytab::Error\<close> and \<open>ccache::Error\<close> share most variants; the model has one datatype with
  the variants of both that the modelled operations can return.
\<close>

datatype store_error =
    Io io_fault
  | DefaultKeytabName env_var
  | DefaultCacheName env_var
  | InvalidKeytabName
  | UnsupportedKeytabType string
  | InvalidCacheName
  | UnsupportedCacheType string
  | InvalidPrincipalName
  | TooShort nat
  | InvalidFirstByte u8
  | InvalidVersion u8
  | Truncated nat nat nat \<comment> \<open>offset, needed, remaining\<close>
  | NegativeLength int
  | LengthOverflow
  | TimestampBeforeUnixEpoch
  | TimestampOverflow
  | InvalidString
  | UnsupportedEtype i32
  | CryptoError
  | NoMatchingKey string string u32 i32 \<comment> \<open>principal, realm, kvno, etype\<close>
  | InvalidHeaderField u16 nat
  | InvalidHeaderLength

section \<open>Reads\<close>

definition checked_end :: "bytes \<Rightarrow> nat \<Rightarrow> nat \<Rightarrow> store_error + nat" where
  "checked_end bs off len =
     rbind (ok_or (usize_checked_add off len) LengthOverflow) (\<lambda>end.
       if end > length bs then Inl (Truncated off len (length bs - off)) else Inr end)"

definition checked_advance :: "bytes \<Rightarrow> nat \<Rightarrow> nat \<Rightarrow> store_error + nat" where
  "checked_advance bs off len = checked_end bs off len"

definition read_bytes :: "bytes \<Rightarrow> nat \<Rightarrow> nat \<Rightarrow> store_error + (bytes \<times> nat)" where
  "read_bytes bs off len =
     rbind (checked_end bs off len) (\<lambda>end. Inr (slice bs off end, end))"

definition read_u8 :: "bytes \<Rightarrow> nat \<Rightarrow> store_error + (u8 \<times> nat)" where
  "read_u8 bs off = rbind (read_bytes bs off 1) (\<lambda>(raw, off). Inr (raw ! 0, off))"

definition read_i16 :: "bytes \<Rightarrow> nat \<Rightarrow> endian \<Rightarrow> store_error + (i16 \<times> nat)" where
  "read_i16 bs off en =
     rbind (read_bytes bs off 2) (\<lambda>(raw, off). Inr (from_bytes_en en [raw ! 0, raw ! 1], off))"

definition read_u16 :: "bytes \<Rightarrow> nat \<Rightarrow> endian \<Rightarrow> store_error + (u16 \<times> nat)" where
  "read_u16 bs off en =
     rbind (read_bytes bs off 2) (\<lambda>(raw, off). Inr (from_bytes_en en [raw ! 0, raw ! 1], off))"

definition read_i32 :: "bytes \<Rightarrow> nat \<Rightarrow> endian \<Rightarrow> store_error + (i32 \<times> nat)" where
  "read_i32 bs off en =
     rbind (read_bytes bs off 4) (\<lambda>(raw, off).
       Inr (from_bytes_en en [raw ! 0, raw ! 1, raw ! 2, raw ! 3], off))"

definition read_u32 :: "bytes \<Rightarrow> nat \<Rightarrow> endian \<Rightarrow> store_error + (u32 \<times> nat)" where
  "read_u32 bs off en =
     rbind (read_bytes bs off 4) (\<lambda>(raw, off).
       Inr (from_bytes_en en [raw ! 0, raw ! 1, raw ! 2, raw ! 3], off))"

text \<open>\<open>std::str::from_utf8(raw)?.to_owned()\<close>.\<close>

definition from_utf8 :: "bytes \<Rightarrow> store_error + string" where
  "from_utf8 raw = (if utf8_valid raw then Inr (bytes_str raw) else Inl InvalidString)"

text \<open>The loop \<open>for _ in 0..count { xs.push(read(bytes, offset)?) }\<close>.\<close>

fun read_n :: "(bytes \<Rightarrow> nat \<Rightarrow> 'e + ('a \<times> nat)) \<Rightarrow> nat \<Rightarrow> bytes \<Rightarrow> nat \<Rightarrow> 'e + ('a list \<times> nat)" where
  "read_n rd 0 bs off = Inr ([], off)"
| "read_n rd (Suc n) bs off =
     rbind (rd bs off) (\<lambda>(x, off).
     rbind (read_n rd n bs off) (\<lambda>(xs, off). Inr (x # xs, off)))"

section \<open>Writes\<close>

definition write_i32 :: "bytes \<Rightarrow> i32 \<Rightarrow> endian \<Rightarrow> bytes" where
  "write_i32 out v en = out @ to_bytes_en en v"

definition write_u32 :: "bytes \<Rightarrow> u32 \<Rightarrow> endian \<Rightarrow> bytes" where
  "write_u32 out v en = out @ to_bytes_en en v"

definition write_u16 :: "bytes \<Rightarrow> u16 \<Rightarrow> endian \<Rightarrow> bytes" where
  "write_u16 out v en = out @ to_bytes_en en v"

text \<open>
  The checked writers are generic over \<open>TryInto\<close>; the value is passed as the integer it
  denotes, and the conversion fails outside the target type's range.
\<close>

definition write_u16_checked :: "bytes \<Rightarrow> int \<Rightarrow> endian \<Rightarrow> store_error + bytes" where
  "write_u16_checked out v en =
     (if 0 \<le> v \<and> v < 2 ^ 16 then Inr (out @ to_bytes_en en (word_of_int v :: u16))
      else Inl LengthOverflow)"

definition write_i16_checked :: "bytes \<Rightarrow> int \<Rightarrow> endian \<Rightarrow> store_error + bytes" where
  "write_i16_checked out v en =
     (if - (2 ^ 15) \<le> v \<and> v < 2 ^ 15 then Inr (out @ to_bytes_en en (word_of_int v :: i16))
      else Inl LengthOverflow)"

definition write_i32_len_checked :: "bytes \<Rightarrow> int \<Rightarrow> endian \<Rightarrow> store_error + bytes" where
  "write_i32_len_checked out v en =
     (if - (2 ^ 31) \<le> v \<and> v < 2 ^ 31 then Inr (write_i32 out (word_of_int v) en)
      else Inl LengthOverflow)"

text \<open>The loop \<open>for x in &xs { write(out, x)?; }\<close>.\<close>

fun write_list :: "(bytes \<Rightarrow> 'a \<Rightarrow> 'e + bytes) \<Rightarrow> bytes \<Rightarrow> 'a list \<Rightarrow> 'e + bytes" where
  "write_list wr out [] = Inr out"
| "write_list wr out (x # xs) = rbind (wr out x) (\<lambda>out. write_list wr out xs)"

section \<open>Facts about single reads\<close>

lemma checked_end_eq_Inr:
  "checked_end bs off len = Inr e \<longleftrightarrow> e = off + len \<and> off + len \<le> length bs \<and> off + len < 2 ^ 64"
  by (auto simp: checked_end_def usize_checked_add_def)

lemma read_bytes_eq_Inr:
  "read_bytes bs off len = Inr (raw, off') \<longleftrightarrow>
     off' = off + len \<and> raw = slice bs off off' \<and> off' \<le> length bs \<and> off' < 2 ^ 64"
  by (auto simp: read_bytes_def rbind_eq_Inr checked_end_eq_Inr)

lemma read_bytes_length: "read_bytes bs off len = Inr (raw, off') \<Longrightarrow> length raw = len"
  by (auto simp: read_bytes_eq_Inr length_slice)

text \<open>
  \<open>has_at bs off xs\<close>: the bytes \<open>xs\<close> stand in the buffer at the offset.  A layout that is a
  concatenation splits into one such fact per field, at the offset the cursor has when the
  reader gets there.
\<close>

definition has_at :: "bytes \<Rightarrow> nat \<Rightarrow> bytes \<Rightarrow> bool" where
  "has_at bs off xs \<longleftrightarrow> off + length xs \<le> length bs \<and> take (length xs) (drop off bs) = xs"

lemma has_at_append [simp]:
  "has_at bs off (xs @ ys) \<longleftrightarrow> has_at bs off xs \<and> has_at bs (off + length xs) ys"
  by (auto simp: has_at_def take_add drop_drop add.commute add.left_commute)

lemma has_at_Cons_append [simp]:
  "has_at bs off (x # xs @ ys) \<longleftrightarrow> has_at bs off [x] \<and> has_at bs (Suc off) (xs @ ys)"
  using has_at_append [of bs off "[x]" "xs @ ys"] by simp

lemma has_at_mid [simp]: "has_at (pre @ xs @ post) (length pre) xs"
  by (simp add: has_at_def)

lemma has_at_self [simp]: "has_at xs 0 xs"
  by (simp add: has_at_def)

lemma has_at_self_append [simp]: "has_at (xs @ post) 0 xs"
  by (simp add: has_at_def)

lemma has_at_length: "has_at bs off xs \<Longrightarrow> off + length xs \<le> length bs"
  by (simp add: has_at_def)

lemma read_bytes_at:
  assumes "has_at bs off raw" and "length bs < 2 ^ 64"
  shows "read_bytes bs off (length raw) = Inr (raw, off + length raw)"
  using assms by (auto simp: read_bytes_eq_Inr has_at_def slice_def)

lemma list2: "length raw = 2 \<Longrightarrow> [raw ! 0, raw ! 1] = raw"
  by (cases raw; cases "tl raw") auto

lemma list4: "length raw = 4 \<Longrightarrow> [raw ! 0, raw ! 1, raw ! 2, raw ! 3] = raw"
  by (auto simp: list_eq_iff_nth_eq nth_Cons less_Suc_eq numeral_eq_Suc split: nat.split)

lemma read_u8_at:
  "has_at bs off [b] \<Longrightarrow> length bs < 2 ^ 64 \<Longrightarrow> read_u8 bs off = Inr (b, off + 1)"
  using read_bytes_at [of bs off "[b]"] by (simp add: read_u8_def)

lemma read_i16_at:
  "has_at bs off (to_bytes_en en w) \<Longrightarrow> length bs < 2 ^ 64 \<Longrightarrow>
   read_i16 bs off en = Inr (w, off + 2)"
  using read_bytes_at [of bs off "to_bytes_en en w"]
  by (simp add: read_i16_def list2 del: One_nat_def)

lemma read_u16_at:
  "has_at bs off (to_bytes_en en w) \<Longrightarrow> length bs < 2 ^ 64 \<Longrightarrow>
   read_u16 bs off en = Inr (w, off + 2)"
  using read_bytes_at [of bs off "to_bytes_en en w"]
  by (simp add: read_u16_def list2 del: One_nat_def)

lemma read_i32_at:
  "has_at bs off (to_bytes_en en w) \<Longrightarrow> length bs < 2 ^ 64 \<Longrightarrow>
   read_i32 bs off en = Inr (w, off + 4)"
  using read_bytes_at [of bs off "to_bytes_en en w"]
  by (simp add: read_i32_def list4 del: One_nat_def)

lemma read_u32_at:
  "has_at bs off (to_bytes_en en w) \<Longrightarrow> length bs < 2 ^ 64 \<Longrightarrow>
   read_u32 bs off en = Inr (w, off + 4)"
  using read_bytes_at [of bs off "to_bytes_en en w"]
  by (simp add: read_u32_def list4 del: One_nat_def)

lemma read_advance:
  "read_u8 bs off = Inr (v8, off') \<Longrightarrow> off' = off + 1 \<and> off' \<le> length bs"
  "read_i16 bs off en = Inr (v, off') \<Longrightarrow> off' = off + 2 \<and> off' \<le> length bs"
  "read_u16 bs off en = Inr (v, off') \<Longrightarrow> off' = off + 2 \<and> off' \<le> length bs"
  "read_i32 bs off en = Inr (w, off') \<Longrightarrow> off' = off + 4 \<and> off' \<le> length bs"
  "read_u32 bs off en = Inr (w, off') \<Longrightarrow> off' = off + 4 \<and> off' \<le> length bs"
  by (auto simp: read_u8_def read_i16_def read_u16_def read_i32_def read_u32_def
      rbind_eq_Inr read_bytes_eq_Inr)

lemma from_utf8_eq_Inr: "from_utf8 raw = Inr s \<longleftrightarrow> str_ok s \<and> raw = str_bytes s"
  by (auto simp: from_utf8_def str_ok_def)

lemma from_utf8_str_bytes: "str_ok s \<Longrightarrow> from_utf8 (str_bytes s) = Inr s"
  by (simp add: from_utf8_eq_Inr)

section \<open>Signed and unsigned lengths\<close>

lemma sint_word_of_int_16:
  "- (2 ^ 15) \<le> v \<Longrightarrow> v < 2 ^ 15 \<Longrightarrow> sint (word_of_int v :: 16 word) = v"
  by (simp add: signed_of_int signed_take_bit_int_eq_self)

lemma sint_word_of_int_32:
  "- (2 ^ 31) \<le> v \<Longrightarrow> v < 2 ^ 31 \<Longrightarrow> sint (word_of_int v :: 32 word) = v"
  by (simp add: signed_of_int signed_take_bit_int_eq_self)

lemma sint_range_16: "- 32768 \<le> sint (w :: 16 word)" "sint (w :: 16 word) < 32768"
  using sint_greater_eq [of w] sint_less [of w] by simp_all

lemma sint_range_32: "- 2147483648 \<le> sint (w :: 32 word)" "sint (w :: 32 word) < 2147483648"
  using sint_greater_eq [of w] sint_less [of w] by simp_all

lemma sint_len_16: "n < 2 ^ 15 \<Longrightarrow> sint (word_of_nat n :: 16 word) = int n"
  using sint_word_of_int_16 [of "int n"] by simp

lemma sint_len_32: "n < 2 ^ 31 \<Longrightarrow> sint (word_of_nat n :: 32 word) = int n"
  using sint_word_of_int_32 [of "int n"] by simp

lemma nat_int_Suc: "nat (int (Suc n) - 1) = n"
  by simp

lemma scast_16:
  assumes "- (2 ^ 15) \<le> sint t" and "sint t < 2 ^ 15"
  shows "scast (word_of_int (sint t) :: 16 word) = (t :: 32 word)"
proof -
  have "scast (word_of_int (sint t) :: 16 word) = (word_of_int (sint t) :: 32 word)"
    by (simp only: scast_eq sint_word_of_int_16 [OF assms])
  then show ?thesis by simp
qed

lemma sint_scast_16: "sint (scast (w :: 16 word) :: 32 word) = sint w"
proof -
  have "sint (scast w :: 32 word) = sint (word_of_int (sint w) :: 32 word)"
    by (simp only: scast_eq)
  also have "\<dots> = sint w" using sint_range_16 [of w] by (intro sint_word_of_int_32) auto
  finally show ?thesis .
qed

section \<open>The codec interface\<close>

text \<open>
  One format: \<open>enc\<close> is the pure byte layout, \<open>write\<close> appends it, \<open>read\<close> takes it back from any
  place in a buffer and leaves the cursor right behind it.  \<open>ok\<close> says which values the format
  represents.
\<close>

locale file_codec =
  fixes enc :: "'a \<Rightarrow> bytes"
    and wr :: "bytes \<Rightarrow> 'a \<Rightarrow> 'e + bytes"
    and rd :: "bytes \<Rightarrow> nat \<Rightarrow> 'e + ('a \<times> nat)"
    and ok :: "'a \<Rightarrow> bool"
  assumes write_enc: "ok x \<Longrightarrow> wr out x = Inr (out @ enc x)"
    and read_enc: "ok x \<Longrightarrow> has_at bs off (enc x) \<Longrightarrow> length bs < 2 ^ 64 \<Longrightarrow>
      rd bs off = Inr (x, off + length (enc x))"
begin

lemma write_list_enc:
  "\<forall>x \<in> set xs. ok x \<Longrightarrow> write_list wr out xs = Inr (out @ concat (map enc xs))"
  by (induction xs arbitrary: out) (auto simp: write_enc)

lemma read_n_enc:
  assumes "\<forall>x \<in> set xs. ok x" and "has_at bs off (concat (map enc xs))" and "length bs < 2 ^ 64"
  shows "read_n rd (length xs) bs off = Inr (xs, off + length (concat (map enc xs)))"
  using assms
proof (induction xs arbitrary: off)
  case (Cons x xs)
  then show ?case by (simp add: read_enc [of x])
qed simp

lemma read_write:
  assumes "ok x" and "wr pre x = Inr out" and "length out + length post < 2 ^ 64"
  shows "rd (out @ post) (length pre) = Inr (x, length out)"
  using assms read_enc [of x "pre @ enc x @ post" "length pre"] by (auto simp: write_enc)

end

text \<open>A loop over a writer that fails with one error exactly outside \<open>P\<close>.\<close>

lemma write_list_cases:
  assumes "\<And>x out. x \<in> set xs \<Longrightarrow> wr out x = (if P x then Inr (out @ enc x) else Inl e)"
  shows "write_list wr out xs = (if list_all P xs then Inr (out @ concat (map enc xs)) else Inl e)"
  using assms by (induction xs arbitrary: out) auto

lemma read_n_length: "read_n rd n bs off = Inr (xs, off') \<Longrightarrow> length xs = n"
  by (induction n arbitrary: off xs) (auto simp: rbind_eq_Inr)

lemma read_n_all:
  assumes "read_n rd n bs off = Inr (xs, off')"
    and "\<And>off x off'. rd bs off = Inr (x, off') \<Longrightarrow> P x"
  shows "\<forall>x \<in> set xs. P x"
  using assms(1)
proof (induction n arbitrary: off xs)
  case (Suc n)
  then show ?case using assms(2) by (auto simp: rbind_eq_Inr)
qed simp

lemma read_n_mono:
  assumes "read_n rd n bs off = Inr (xs, off')"
    and "\<And>off x off'. rd bs off = Inr (x, off') \<Longrightarrow> off \<le> off'"
  shows "off \<le> off'"
  using assms(1)
proof (induction n arbitrary: off xs)
  case (Suc n)
  then show ?case using assms(2) by (fastforce simp: rbind_eq_Inr)
qed simp

end
