(* ===== verification/File_Name.thy ===== *)
theory File_Name
  imports Krb_Prelude "HOL-Library.Sublist"
begin

text \<open>
  \<open>src/file_name.rs\<close>: resolving MIT-style \<open>TYPE:path\<close> names of keytabs and credential
  caches to file paths.  A \<open>PathBuf\<close> is the string it was built from.  The process
  environment is a parameter \<open>env\<close>, which gives the value of a variable that is set and
  valid Unicode.
\<close>

type_synonym environment = "string \<rightharpoonup> string"

datatype file_name_error = Empty | UnsupportedType string

section \<open>Path tokens\<close>

text \<open>\<open>str::contains\<close> and \<open>str::replace\<close> with a non-empty pattern.\<close>

fun contains_str :: "string \<Rightarrow> string \<Rightarrow> bool" where
  "contains_str pat [] = (pat = [])"
| "contains_str pat (c # cs) = (prefix pat (c # cs) \<or> contains_str pat cs)"

function replace_str :: "string \<Rightarrow> string \<Rightarrow> string \<Rightarrow> string" where
  "replace_str pat rep [] = []"
| "replace_str pat rep (c # cs) =
     (if pat \<noteq> [] \<and> prefix pat (c # cs) then rep @ replace_str pat rep (drop (length pat) (c # cs))
      else c # replace_str pat rep cs)"
  by pat_completeness auto
termination
  by (relation "measure (\<lambda>(pat, rep, s). length s)") (auto simp: neq_Nil_conv)

definition expand_path_tokens :: "environment \<Rightarrow> string \<Rightarrow> string" where
  "expand_path_tokens env value =
     (if \<not> contains_str ''%{'' value then value
      else let uid = (case env ''UID'' of Some u \<Rightarrow> u | None \<Rightarrow> ''0'')
           in replace_str ''%{euid}'' uid (replace_str ''%{uid}'' uid value))"

section \<open>Names\<close>

definition is_ascii_alphabetic :: "char \<Rightarrow> bool" where
  "is_ascii_alphabetic c \<longleftrightarrow>
     (65 \<le> (of_char c :: nat) \<and> (of_char c :: nat) \<le> 90) \<or>
     (97 \<le> (of_char c :: nat) \<and> (of_char c :: nat) \<le> 122)"

definition starts_with_char :: "string \<Rightarrow> char \<Rightarrow> bool" where
  "starts_with_char s c = (case s of [] \<Rightarrow> False | d # _ \<Rightarrow> d = c)"

definition is_windows_drive_path :: "string \<Rightarrow> string \<Rightarrow> bool" where
  "is_windows_drive_path pfx path \<longleftrightarrow>
     length pfx = 1 \<and> is_ascii_alphabetic (pfx ! 0) \<and>
     (starts_with_char path (CHR 0x5C) \<or> starts_with_char path (CHR ''/''))"

definition file_path_from_name ::
  "environment \<Rightarrow> string \<Rightarrow> string list \<Rightarrow> file_name_error + string" where
  "file_path_from_name env name allowed_types =
     (if name = [] then Inl Empty
      else (case split_once (CHR '':'') name of
        None \<Rightarrow> Inr (expand_path_tokens env name)
      | Some (pfx, path) \<Rightarrow>
          if is_windows_drive_path pfx path then Inr (expand_path_tokens env name)
          else if list_ex (\<lambda>allowed. eq_ignore_ascii_case pfx allowed) allowed_types then
            (if path = [] then Inl Empty else Inr (expand_path_tokens env path))
          else Inl (UnsupportedType pfx)))"

section \<open>Laws\<close>

lemma contains_str_iff: "contains_str pat s \<longleftrightarrow> sublist pat s"
  by (induction s) (auto simp: sublist_Cons_right)

lemma replace_str_absent: "\<not> sublist pat s \<Longrightarrow> replace_str pat rep s = s"
  by (induction s) (auto simp: sublist_Cons_right)

text \<open>Expanding changes nothing unless one of the two tokens is present.\<close>

lemma expand_path_tokens_absent:
  assumes "\<not> sublist ''%{uid}'' v" and "\<not> sublist ''%{euid}'' v"
  shows "expand_path_tokens env v = v"
  using assms by (simp add: expand_path_tokens_def replace_str_absent Let_def)

lemma file_path_from_name_plain:
  "name \<noteq> [] \<Longrightarrow> CHR '':'' \<notin> set name \<Longrightarrow>
   file_path_from_name env name types = Inr (expand_path_tokens env name)"
  by (simp add: file_path_from_name_def split_once_None_iff [THEN iffD2])

lemma file_path_from_name_typed:
  assumes "CHR '':'' \<notin> set pfx" and "\<not> is_windows_drive_path pfx path"
  shows "file_path_from_name env (pfx @ CHR '':'' # path) types =
    (if list_ex (\<lambda>allowed. eq_ignore_ascii_case pfx allowed) types then
       (if path = [] then Inl Empty else Inr (expand_path_tokens env path))
     else Inl (UnsupportedType pfx))"
proof -
  have "split_once (CHR '':'') (pfx @ CHR '':'' # path) = Some (pfx, path)"
    using assms(1) by (simp add: split_once_Some)
  then show ?thesis using assms(2) by (simp add: file_path_from_name_def)
qed

end
