(* ===== verification/Keytab.thy ===== *)
theory Keytab
  imports Byte_Cursor File_Name
begin

text \<open>
  \<open>src/keytab.rs\<close>: the MIT keytab file format.  The record \<open>keytab\<close> is the parsed file;
  \<open>keytab_parse\<close> and \<open>keytab_to_bytes\<close> are \<open>Keytab::parse\<close> and \<open>Keytab::to_bytes\<close>, and
  \<open>find_key\<close> is the key lookup the service uses.  The lemmas show that the writer emits a
  pure layout (\<open>enc_entry\<close>), that the reader inverts it (an instance of \<open>file_codec\<close> per
  record), which values survive a round trip, and what the lookup selects.  The parameter
  \<open>le\<close> is \<open>cfg!(target_endian = "little")\<close>.
\<close>

section \<open>Data\<close>

record kt_principal =
  kt_realm :: string
  kt_components :: "string list"
  kt_name_type :: i32

record kt_key =
  kt_etype :: i32
  kt_value :: bytes

record kt_entry =
  kt_principal :: kt_principal
  kt_timestamp :: u32
  kt_kvno8 :: u8
  kt_key :: kt_key
  kt_kvno :: u32

record keytab =
  kt_version :: u8
  kt_entries :: "kt_entry list"

datatype keytab_name = KeytabFile string

definition KEYTAB_FIRST_BYTE :: u8 where
  "KEYTAB_FIRST_BYTE = 5"

definition keytab_new :: keytab where
  "keytab_new = \<lparr>kt_version = 2, kt_entries = []\<rparr>"

definition kt_endian_for_version :: "bool \<Rightarrow> u8 \<Rightarrow> endian" where
  "kt_endian_for_version le version = (if version = 1 \<and> le then Little else Big)"

section \<open>Names and principals\<close>

definition file_path_from_keytab_name :: "environment \<Rightarrow> string \<Rightarrow> store_error + string" where
  "file_path_from_keytab_name env name =
     map_err (\<lambda>error. case error of
         Empty \<Rightarrow> InvalidKeytabName
       | UnsupportedType name_type \<Rightarrow> UnsupportedKeytabType name_type)
       (file_path_from_name env name [''FILE'', ''WRFILE''])"

definition keytab_name_parse :: "environment \<Rightarrow> string \<Rightarrow> store_error + keytab_name" where
  "keytab_name_parse env name =
     rbind (file_path_from_keytab_name env name) (\<lambda>path. Inr (KeytabFile path))"

definition kt_principal_new :: "string \<Rightarrow> i32 \<Rightarrow> string list \<Rightarrow> kt_principal" where
  "kt_principal_new realm name_type components =
     \<lparr>kt_realm = realm, kt_components = components, kt_name_type = name_type\<rparr>"

definition kt_principal_from_name :: "string \<Rightarrow> i32 \<Rightarrow> string \<Rightarrow> store_error + kt_principal" where
  "kt_principal_from_name realm name_type principal_name =
     (if principal_name = [] then Inl InvalidPrincipalName
      else let components = split_on (CHR ''/'') principal_name
           in if list_ex (\<lambda>c. c = []) components then Inl InvalidPrincipalName
              else Inr (kt_principal_new realm name_type components))"

definition kt_default_password_salt :: "kt_principal \<Rightarrow> string" where
  "kt_default_password_salt p = foldl (\<lambda>salt c. salt @ c) (kt_realm p) (kt_components p)"

definition kt_name_string :: "kt_principal \<Rightarrow> string" where
  "kt_name_string p = join_with (CHR ''/'') (kt_components p)"

definition kt_principal_string :: "kt_principal \<Rightarrow> string" where
  "kt_principal_string p = kt_name_string p @ ''@'' @ kt_realm p"

section \<open>Parsing\<close>

definition kt_read_counted_string :: "bytes \<Rightarrow> nat \<Rightarrow> endian \<Rightarrow> store_error + (string \<times> nat)" where
  "kt_read_counted_string bs off en =
     rbind (read_i16 bs off en) (\<lambda>(len, off).
       if sint len < 0 then Inl (NegativeLength (sint len))
       else rbind (read_bytes bs off (nat (sint len))) (\<lambda>(raw, off).
            rbind (from_utf8 raw) (\<lambda>s. Inr (s, off))))"

text \<open>\<open>i16::checked_sub(1)\<close> fails at \<open>i16::MIN\<close> only.\<close>

definition kt_principal_parse ::
  "bytes \<Rightarrow> nat \<Rightarrow> u8 \<Rightarrow> endian \<Rightarrow> store_error + (kt_principal \<times> nat)" where
  "kt_principal_parse bs off version en =
     rbind (read_i16 bs off en) (\<lambda>(count, off).
     rbind (if version = 1
            then (if sint count = - (2 ^ 15) then Inl LengthOverflow else Inr (sint count - 1))
            else Inr (sint count)) (\<lambda>component_count.
       if component_count < 0 then Inl (NegativeLength component_count)
       else
         rbind (kt_read_counted_string bs off en) (\<lambda>(realm, off).
         rbind (read_n (\<lambda>bs off. kt_read_counted_string bs off en) (nat component_count) bs off)
           (\<lambda>(components, off).
         rbind (if version = 1 then Inr (0, off) else read_i32 bs off en) (\<lambda>(name_type, off).
           Inr (\<lparr>kt_realm = realm, kt_components = components, kt_name_type = name_type\<rparr>, off))))))"

text \<open>The body of the loop of \<open>Keytab::parse\<close> on one entry's bytes.\<close>

definition kt_entry_parse :: "u8 \<Rightarrow> endian \<Rightarrow> bytes \<Rightarrow> store_error + kt_entry" where
  "kt_entry_parse version en entry_bytes =
     rbind (kt_principal_parse entry_bytes 0 version en) (\<lambda>(principal, off).
     rbind (read_u32 entry_bytes off en) (\<lambda>(timestamp, off).
     rbind (read_u8 entry_bytes off) (\<lambda>(kvno8, off).
     rbind (read_i16 entry_bytes off en) (\<lambda>(etype, off).
     rbind (read_i16 entry_bytes off en) (\<lambda>(key_len, off).
       if sint key_len < 0 then Inl (NegativeLength (sint key_len))
       else
         rbind (read_bytes entry_bytes off (nat (sint key_len))) (\<lambda>(key_value, off).
         rbind (if length entry_bytes - off \<ge> 4 then read_u32 entry_bytes off en
                else Inr (ucast kvno8, off)) (\<lambda>(kvno, off).
           Inr \<lparr>kt_principal = principal, kt_timestamp = timestamp, kt_kvno8 = kvno8,
                kt_key = \<lparr>kt_etype = scast etype, kt_value = key_value\<rparr>,
                kt_kvno = (if kvno = 0 then ucast kvno8 else kvno)\<rparr>)))))))"

text \<open>\<open>i32::checked_abs\<close>: the absolute value, or nothing at \<open>i32::MIN\<close>.\<close>

definition i32_checked_abs :: "i32 \<Rightarrow> nat option" where
  "i32_checked_abs v = (if sint v = - (2 ^ 31) then None else Some (nat \<bar>sint v\<bar>))"

text \<open>
  The \<open>while\<close> loop of \<open>Keytab::parse\<close>: a zero length ends the file, a negative one is a
  hole that is skipped, a positive one an entry.
\<close>

function kt_parse_entries ::
  "u8 \<Rightarrow> endian \<Rightarrow> bytes \<Rightarrow> nat \<Rightarrow> kt_entry list \<Rightarrow> store_error + kt_entry list" where
  "kt_parse_entries version en bs off entries =
     (if length bs - off < 4 then Inr entries
      else
        rbind (read_i32 bs off en) (\<lambda>(entry_len, off).
          if entry_len = 0 then Inr entries
          else if sint entry_len < 0 then
            rbind (ok_or (i32_checked_abs entry_len) LengthOverflow) (\<lambda>skip.
            rbind (checked_advance bs off skip) (\<lambda>off.
              kt_parse_entries version en bs off entries))
          else
            rbind (checked_end bs off (nat (sint entry_len))) (\<lambda>end.
            rbind (kt_entry_parse version en (slice bs off end)) (\<lambda>entry.
              kt_parse_entries version en bs end (entries @ [entry])))))"
  by pat_completeness auto
termination
  by (relation "measure (\<lambda>(version, en, bs, off, entries). length bs - off)")
    (auto simp: checked_advance_def checked_end_eq_Inr dest!: read_advance)

declare kt_parse_entries.simps [simp del]

definition keytab_parse :: "bool \<Rightarrow> bytes \<Rightarrow> store_error + keytab" where
  "keytab_parse le bs =
     (if length bs < 2 then Inl (TooShort (length bs))
      else if bs ! 0 \<noteq> KEYTAB_FIRST_BYTE then Inl (InvalidFirstByte (bs ! 0))
      else let version = bs ! 1 in
        if version \<noteq> 1 \<and> version \<noteq> 2 then Inl (InvalidVersion version)
        else
          rbind (kt_parse_entries version (kt_endian_for_version le version) bs 2 []) (\<lambda>entries.
            Inr \<lparr>kt_version = version, kt_entries = entries\<rparr>))"

section \<open>Serializing\<close>

definition kt_write_counted_string :: "bytes \<Rightarrow> string \<Rightarrow> endian \<Rightarrow> store_error + bytes" where
  "kt_write_counted_string out value en =
     rbind (write_u16_checked out (int (length value)) en) (\<lambda>out. Inr (out @ str_bytes value))"

definition kt_principal_write_to ::
  "kt_principal \<Rightarrow> bytes \<Rightarrow> u8 \<Rightarrow> endian \<Rightarrow> store_error + bytes" where
  "kt_principal_write_to p out version en =
     rbind (if version = 1 then ok_or (usize_checked_add (length (kt_components p)) 1) LengthOverflow
            else Inr (length (kt_components p))) (\<lambda>component_count.
     rbind (write_u16_checked out (int component_count) en) (\<lambda>out.
     rbind (kt_write_counted_string out (kt_realm p) en) (\<lambda>out.
     rbind (write_list (\<lambda>out c. kt_write_counted_string out c en) out (kt_components p)) (\<lambda>out.
       Inr (if version \<noteq> 1 then write_i32 out (kt_name_type p) en else out)))))"

text \<open>The body of the loop of \<open>Keytab::to_bytes\<close>.\<close>

definition kt_entry_write :: "u8 \<Rightarrow> endian \<Rightarrow> bytes \<Rightarrow> kt_entry \<Rightarrow> store_error + bytes" where
  "kt_entry_write version en out entry =
     rbind (kt_principal_write_to (kt_principal entry) [] version en) (\<lambda>body.
     let body = write_u32 body (kt_timestamp entry) en; body = body @ [kt_kvno8 entry] in
     rbind (write_u16_checked body (sint (kt_etype (kt_key entry))) en) (\<lambda>body.
     rbind (write_u16_checked body (int (length (kt_value (kt_key entry)))) en) (\<lambda>body.
     let body = body @ kt_value (kt_key entry); body = write_u32 body (kt_kvno entry) en in
     rbind (if length body < 2 ^ 31 then Inr (word_of_nat (length body)) else Inl LengthOverflow)
       (\<lambda>body_len. Inr (write_i32 out body_len en @ body)))))"

definition keytab_to_bytes :: "bool \<Rightarrow> keytab \<Rightarrow> store_error + bytes" where
  "keytab_to_bytes le kt =
     (let en = kt_endian_for_version le (kt_version kt) in
      write_list (kt_entry_write (kt_version kt) en) [KEYTAB_FIRST_BYTE, kt_version kt] (kt_entries kt))"

section \<open>Lookup and construction\<close>

definition kt_entry_matches :: "string list \<Rightarrow> string \<Rightarrow> u32 \<Rightarrow> i32 \<Rightarrow> kt_entry \<Rightarrow> bool" where
  "kt_entry_matches comps realm kvno etype entry \<longleftrightarrow>
     kt_realm (kt_principal entry) = realm
     \<and> length (kt_components (kt_principal entry)) = length comps
     \<and> list_all (\<lambda>(left, right). left = right) (zip (kt_components (kt_principal entry)) comps)
     \<and> kt_etype (kt_key entry) = etype
     \<and> (kvno = 0 \<or> kt_kvno entry = kvno)"

fun kt_select ::
  "string list \<Rightarrow> string \<Rightarrow> u32 \<Rightarrow> i32 \<Rightarrow> kt_entry list \<Rightarrow> kt_entry option \<Rightarrow> kt_entry option" where
  "kt_select comps realm kvno etype [] selected = selected"
| "kt_select comps realm kvno etype (entry # entries) selected =
     kt_select comps realm kvno etype entries
       (if kt_entry_matches comps realm kvno etype entry
        then (case selected of
                Some current \<Rightarrow> if kt_timestamp current \<ge> kt_timestamp entry then selected else Some entry
              | None \<Rightarrow> Some entry)
        else selected)"

definition find_key ::
  "keytab \<Rightarrow> string list \<Rightarrow> string \<Rightarrow> u32 \<Rightarrow> i32 \<Rightarrow> store_error + (kt_key \<times> u32)" where
  "find_key kt comps realm kvno etype =
     ok_or (map_option (\<lambda>entry. (kt_key entry, kt_kvno entry))
              (kt_select comps realm kvno etype (kt_entries kt) None))
       (NoMatchingKey (join_with (CHR ''/'') comps) realm kvno etype)"

text \<open>
  A \<open>SystemTime\<close> is its distance from the Unix epoch in nanoseconds, negative before it.
\<close>

definition system_time_to_u32_seconds :: "int \<Rightarrow> store_error + u32" where
  "system_time_to_u32_seconds t =
     (if t < 0 then Inl TimestampBeforeUnixEpoch
      else if t div 10 ^ 9 < 2 ^ 32 then Inr (word_of_int (t div 10 ^ 9))
      else Inl TimestampOverflow)"

section \<open>The layout, and which values it represents\<close>

definition kt_enc_string :: "endian \<Rightarrow> string \<Rightarrow> bytes" where
  "kt_enc_string en s = to_bytes_en en (word_of_nat (length s) :: u16) @ str_bytes s"

definition kt_enc_principal :: "u8 \<Rightarrow> endian \<Rightarrow> kt_principal \<Rightarrow> bytes" where
  "kt_enc_principal v en p =
     to_bytes_en en (word_of_nat (length (kt_components p) + (if v = 1 then 1 else 0)) :: u16)
     @ kt_enc_string en (kt_realm p)
     @ concat (map (kt_enc_string en) (kt_components p))
     @ (if v = 1 then [] else to_bytes_en en (kt_name_type p))"

definition kt_enc_body :: "u8 \<Rightarrow> endian \<Rightarrow> kt_entry \<Rightarrow> bytes" where
  "kt_enc_body v en e =
     kt_enc_principal v en (kt_principal e)
     @ to_bytes_en en (kt_timestamp e) @ [kt_kvno8 e]
     @ to_bytes_en en (word_of_int (sint (kt_etype (kt_key e))) :: u16)
     @ to_bytes_en en (word_of_nat (length (kt_value (kt_key e))) :: u16)
     @ kt_value (kt_key e) @ to_bytes_en en (kt_kvno e)"

definition kt_enc_entry :: "u8 \<Rightarrow> endian \<Rightarrow> kt_entry \<Rightarrow> bytes" where
  "kt_enc_entry v en e =
     to_bytes_en en (word_of_nat (length (kt_enc_body v en e)) :: i32) @ kt_enc_body v en e"

definition kt_string_ok :: "string \<Rightarrow> bool" where
  "kt_string_ok s \<longleftrightarrow> str_ok s \<and> length s < 2 ^ 15"

definition kt_principal_ok :: "u8 \<Rightarrow> kt_principal \<Rightarrow> bool" where
  "kt_principal_ok v p \<longleftrightarrow>
     kt_string_ok (kt_realm p) \<and> list_all kt_string_ok (kt_components p)
     \<and> length (kt_components p) + (if v = 1 then 1 else 0) < 2 ^ 15
     \<and> (v = 1 \<longrightarrow> kt_name_type p = 0)"

definition kt_entry_ok :: "u8 \<Rightarrow> kt_entry \<Rightarrow> bool" where
  "kt_entry_ok v e \<longleftrightarrow>
     kt_principal_ok v (kt_principal e)
     \<and> - (2 ^ 15) \<le> sint (kt_etype (kt_key e)) \<and> sint (kt_etype (kt_key e)) < 2 ^ 15
     \<and> length (kt_value (kt_key e)) < 2 ^ 15
     \<and> (kt_kvno e = 0 \<longrightarrow> kt_kvno8 e = 0)"

text \<open>
  \<open>keytab_ok\<close> is what the format represents; a keytab of the program can also be written when,
  in addition, no encryption type is negative.
\<close>

definition keytab_ok :: "keytab \<Rightarrow> bool" where
  "keytab_ok kt \<longleftrightarrow>
     (kt_version kt = 1 \<or> kt_version kt = 2) \<and> list_all (kt_entry_ok (kt_version kt)) (kt_entries kt)"

definition kt_etypes_nonneg :: "keytab \<Rightarrow> bool" where
  "kt_etypes_nonneg kt \<longleftrightarrow> list_all (\<lambda>e. 0 \<le> sint (kt_etype (kt_key e))) (kt_entries kt)"

lemma length_kt_enc_string [simp]: "length (kt_enc_string en s) = length s + 2"
  by (simp add: kt_enc_string_def)

interpretation kstr: file_codec "kt_enc_string en" "\<lambda>out s. kt_write_counted_string out s en"
  "\<lambda>bs off. kt_read_counted_string bs off en" kt_string_ok for en
proof
  fix s :: string and out
  assume "kt_string_ok s"
  then show "kt_write_counted_string out s en = Inr (out @ kt_enc_string en s)"
    by (simp add: kt_write_counted_string_def write_u16_checked_def kt_enc_string_def kt_string_ok_def)
next
  fix s bs off
  assume ok: "kt_string_ok s" and at: "has_at bs off (kt_enc_string en s)" and l: "length bs < 2 ^ 64"
  have "read_bytes bs (off + 2) (length s) = Inr (str_bytes s, off + 2 + length s)"
    using read_bytes_at [of bs "off + 2" "str_bytes s"] at l by (simp add: kt_enc_string_def)
  then show "kt_read_counted_string bs off en = Inr (s, off + length (kt_enc_string en s))"
    using ok at l
    by (simp add: kt_read_counted_string_def kt_enc_string_def kt_string_ok_def
        read_i16_at [of _ _ _ "word_of_nat (length s)"] sint_len_16 from_utf8_str_bytes)
qed

interpretation kprin: file_codec "kt_enc_principal v en" "\<lambda>out p. kt_principal_write_to p out v en"
  "\<lambda>bs off. kt_principal_parse bs off v en" "kt_principal_ok v" for v en
proof
  fix p :: kt_principal and out
  assume "kt_principal_ok v p"
  then show "kt_principal_write_to p out v en = Inr (out @ kt_enc_principal v en p)"
    by (simp add: kt_principal_write_to_def kt_principal_ok_def kt_enc_principal_def list_all_iff
        usize_checked_add_def write_u16_checked_def write_i32_def kstr.write_enc kstr.write_list_enc
        add.commute)
next
  fix p bs off
  assume ok: "kt_principal_ok v p" and at: "has_at bs off (kt_enc_principal v en p)"
    and l: "length bs < 2 ^ 64"
  show "kt_principal_parse bs off v en = Inr (p, off + length (kt_enc_principal v en p))"
    using ok at l
    by (cases "v = 1") (simp_all add: kt_principal_parse_def kt_principal_ok_def kt_enc_principal_def list_all_iff
        read_i16_at [of _ _ _ "word_of_nat (length (kt_components p))"]
        read_i16_at [of _ _ _ "word_of_nat (Suc (length (kt_components p)))"]
        sint_len_16 kstr.read_enc [of "kt_realm p"] kstr.read_n_enc [of "kt_components p"]
        read_i32_at [of _ _ _ "kt_name_type p"] nat_int_Suc add.assoc del: of_nat_Suc)
qed

lemma length_kt_enc_strings: "length (concat (map (kt_enc_string en) ss)) = sum_list (map length ss) + 2 * length ss"
  by (induction ss) auto

lemma sum_list_bound: "\<forall>x \<in> set xs. f x \<le> b \<Longrightarrow> sum_list (map f xs) \<le> b * length (xs :: 'a list)"
  for f :: "'a \<Rightarrow> nat"
  by (induction xs) (auto simp: algebra_simps add_mono)

text \<open>An entry that the format represents never reaches the 31-bit limit of the record length.\<close>

lemma kt_body_lt:
  assumes "kt_entry_ok v e"
  shows "length (kt_enc_body v en e) < 2 ^ 31"
proof -
  define p where "p = kt_principal e"
  have comps: "\<forall>c \<in> set (kt_components p). length c \<le> 32767"
    and n: "length (kt_components p) \<le> 32767" and r: "length (kt_realm p) \<le> 32767"
    and k: "length (kt_value (kt_key e)) \<le> 32767"
    using assms by (auto simp: kt_entry_ok_def kt_principal_ok_def kt_string_ok_def list_all_iff p_def
        split: if_splits)
  have "sum_list (map length (kt_components p)) \<le> 32767 * length (kt_components p)"
    using comps by (rule sum_list_bound)
  also have "\<dots> \<le> 32767 * 32767" using n by simp
  finally show ?thesis
    using n r k by (simp add: kt_enc_body_def kt_enc_principal_def length_kt_enc_strings flip: p_def)
qed

lemma kt_body_pos: "0 < length (kt_enc_body v en e)"
  by (simp add: kt_enc_body_def kt_enc_principal_def)

lemma kt_entry_write_enc:
  assumes "kt_entry_ok v e" and "0 \<le> sint (kt_etype (kt_key e))"
  shows "kt_entry_write v en out e = Inr (out @ kt_enc_entry v en e)"
proof -
  have "kt_principal_write_to (kt_principal e) [] v en = Inr (kt_enc_principal v en (kt_principal e))"
    using assms(1) kprin.write_enc [of v "kt_principal e" "[]"] by (simp add: kt_entry_ok_def)
  then show ?thesis
    using assms kt_body_lt [OF assms(1), of en]
    by (simp add: kt_entry_write_def kt_entry_ok_def kt_enc_entry_def kt_enc_body_def Let_def
        write_u32_def write_i32_def write_u16_checked_def)
qed

lemma kt_entry_parse_at:
  assumes ok: "kt_entry_ok v e" and at: "has_at bs 0 (kt_enc_body v en e)" and l: "length bs < 2 ^ 64"
  shows "kt_entry_parse v en bs = Inr e"
proof -
  have len: "length (kt_enc_principal v en (kt_principal e)) + 13 + length (kt_value (kt_key e)) \<le> length bs"
    using has_at_length [OF at] by (simp add: kt_enc_body_def)
  then have kv: "4 \<le> length bs - (length (kt_enc_principal v en (kt_principal e)) + 9 + length (kt_value (kt_key e)))"
    by arith
  show ?thesis
    using ok at l kv
    by (simp add: kt_entry_parse_def kt_entry_ok_def kt_enc_body_def
        kprin.read_enc [of v "kt_principal e"] read_u32_at [of _ _ _ "kt_timestamp e"]
        read_u8_at [of _ _ "kt_kvno8 e"] read_u32_at [of _ _ _ "kt_kvno e"]
        read_i16_at [of _ _ _ "word_of_int (sint (kt_etype (kt_key e)))"]
        read_i16_at [of _ _ _ "word_of_nat (length (kt_value (kt_key e)))"]
        read_bytes_at [of _ _ "kt_value (kt_key e)"] sint_len_16 scast_16
        add.commute add.left_commute del: of_int_sint)
qed

section \<open>The entry loop\<close>

lemma kt_parse_entries_step:
  assumes ok: "kt_entry_ok v e" and at: "has_at bs off (kt_enc_entry v en e)" and l: "length bs < 2 ^ 64"
  shows "kt_parse_entries v en bs off acc =
    kt_parse_entries v en bs (off + length (kt_enc_entry v en e)) (acc @ [e])"
proof -
  let ?n = "length (kt_enc_body v en e)"
  have n: "?n < 2 ^ 31" "0 < ?n" using kt_body_lt [OF ok] kt_body_pos by auto
  have at4: "has_at bs off (to_bytes_en en (word_of_nat ?n :: i32))"
    and atb: "has_at bs (off + 4) (kt_enc_body v en e)"
    using at by (simp_all add: kt_enc_entry_def)
  have s: "sint (word_of_nat ?n :: 32 word) = int ?n" using n(1) by (rule sint_len_32)
  then have nz: "(word_of_nat ?n :: 32 word) \<noteq> 0" using n(2) by force
  have len: "off + 4 + ?n \<le> length bs" using has_at_length [OF atb] by simp
  have "slice bs (off + 4) (off + 4 + ?n) = kt_enc_body v en e"
    using atb by (simp add: has_at_def slice_def)
  then have "kt_entry_parse v en (slice bs (off + 4) (off + 4 + ?n)) = Inr e"
    using ok n by (simp add: kt_entry_parse_at)
  moreover have "\<not> length bs - off < 4" using len by arith
  ultimately show ?thesis
    using len l s nz
    by (subst kt_parse_entries.simps)
      (simp add: read_i32_at [OF at4] checked_end_eq_Inr [THEN iffD2] kt_enc_entry_def add.assoc)
qed

lemma kt_parse_entries_enc:
  assumes "\<forall>e \<in> set es. kt_entry_ok v e" and "has_at bs off (concat (map (kt_enc_entry v en) es))"
    and "length bs = off + length (concat (map (kt_enc_entry v en) es))" and "length bs < 2 ^ 64"
  shows "kt_parse_entries v en bs off acc = Inr (acc @ es)"
  using assms
proof (induction es arbitrary: off acc)
  case Nil
  then show ?case by (simp add: kt_parse_entries.simps)
next
  case (Cons e es)
  then show ?case by (simp add: kt_parse_entries_step [of v e bs off])
qed

text \<open>A record with a negative length (a deleted entry) is skipped.\<close>

lemma kt_parse_entries_hole:
  assumes at: "has_at bs off (to_bytes_en en (w :: i32))" and neg: "sint w < 0" "sint w \<noteq> - (2 ^ 31)"
    and len: "off + 4 + nat (- sint w) \<le> length bs" and l: "length bs < 2 ^ 64"
  shows "kt_parse_entries v en bs off acc = kt_parse_entries v en bs (off + 4 + nat (- sint w)) acc"
proof -
  have nz: "w \<noteq> 0" using neg(1) by auto
  have "\<not> length bs - off < 4" using len by arith
  then show ?thesis
    using len l neg nz
    by (subst kt_parse_entries.simps)
      (simp add: read_i32_at [OF at] i32_checked_abs_def checked_advance_def
        checked_end_eq_Inr [THEN iffD2])
qed

section \<open>What a parse returns\<close>

lemma kt_read_counted_string_ok:
  assumes "kt_read_counted_string bs off en = Inr (s, off')"
  shows "kt_string_ok s"
proof -
  from assms obtain len off1 raw where "read_bytes bs off1 (nat (sint (len :: i16))) = Inr (raw, off')"
    and "from_utf8 raw = Inr s"
    by (auto simp: kt_read_counted_string_def rbind_eq_Inr split: if_splits)
  then show ?thesis
    using sint_range_16 [of len] by (auto simp: kt_string_ok_def from_utf8_eq_Inr dest!: read_bytes_length)
qed

lemma kt_principal_parse_elim:
  assumes "kt_principal_parse bs off v en = Inr (p, off')"
  obtains n off1 off2 off3 where "n + (if v = 1 then 1 else 0) < 2 ^ 15"
    and "kt_read_counted_string bs off1 en = Inr (kt_realm p, off2)"
    and "read_n (\<lambda>bs off. kt_read_counted_string bs off en) n bs off2 = Inr (kt_components p, off3)"
    and "v = 1 \<longrightarrow> kt_name_type p = 0"
proof -
  from assms obtain count off1 where r: "read_i16 bs off en = Inr (count, off1)"
    by (auto simp: kt_principal_parse_def rbind_eq_Inr)
  let ?cc = "if v = 1 then sint count - 1 else sint count"
  have cc: "nat ?cc + (if v = 1 then 1 else 0) < 2 ^ 15"
    using sint_range_16 [of count] by auto
  have m: "(if v = 1 then (if sint count = - (2 ^ 15) then Inl LengthOverflow else Inr (sint count - 1))
            else Inr (sint count)) = (Inr ?cc :: store_error + int) \<or>
           (if v = 1 then (if sint count = - (2 ^ 15) then Inl LengthOverflow else Inr (sint count - 1))
            else Inr (sint count)) = (Inl LengthOverflow :: store_error + int)"
    by simp
  from assms r m show thesis
    unfolding kt_principal_parse_def
    by (elim disjE) (auto simp: rbind_eq_Inr simp del: if_split split: prod.splits if_split_asm
        intro!: that [OF cc])
qed

lemma kt_principal_parse_ok:
  assumes "kt_principal_parse bs off v en = Inr (p, off')"
  shows "kt_principal_ok v p"
proof -
  from assms obtain n off1 off2 off3 where n: "n + (if v = 1 then 1 else 0) < 2 ^ 15"
    and realm: "kt_read_counted_string bs off1 en = Inr (kt_realm p, off2)"
    and comps: "read_n (\<lambda>bs off. kt_read_counted_string bs off en) n bs off2 = Inr (kt_components p, off3)"
    and nt: "v = 1 \<longrightarrow> kt_name_type p = 0"
    by (rule kt_principal_parse_elim)
  have "\<forall>c \<in> set (kt_components p). kt_string_ok c"
    using comps by (rule read_n_all) (rule kt_read_counted_string_ok)
  then show ?thesis
    using n nt read_n_length [OF comps] kt_read_counted_string_ok [OF realm]
    by (simp add: kt_principal_ok_def list_all_iff)
qed

lemma ucast_u8_eq_0: "(ucast (b :: u8) :: u32) = 0 \<longleftrightarrow> b = 0"
  by transfer simp

lemma kt_entry_parse_ok:
  assumes "kt_entry_parse v en bs = Inr e"
  shows "kt_entry_ok v e"
proof -
  from assms obtain off1 etype key_len off2 off3 where
    "kt_principal_parse bs 0 v en = Inr (kt_principal e, off1)"
    and "kt_etype (kt_key e) = scast (etype :: i16)"
    and key: "read_bytes bs off2 (nat (sint (key_len :: i16))) = Inr (kt_value (kt_key e), off3)"
    and "kt_kvno e = 0 \<longrightarrow> kt_kvno8 e = 0"
    by (auto simp: kt_entry_parse_def rbind_eq_Inr ucast_u8_eq_0 split: if_splits prod.splits)
  then show ?thesis
    using sint_range_16 [of etype] sint_range_16 [of key_len] read_bytes_length [OF key]
    by (auto simp: kt_entry_ok_def sint_scast_16 dest: kt_principal_parse_ok)
qed

lemma kt_parse_entries_ok:
  "kt_parse_entries v en bs off acc = Inr es \<Longrightarrow> list_all (kt_entry_ok v) acc \<Longrightarrow> list_all (kt_entry_ok v) es"
proof (induction v en bs off acc rule: kt_parse_entries.induct)
  case (1 v en bs off acc)
  show ?case
  proof (cases "length bs - off < 4")
    case True
    with "1.prems" show ?thesis by (simp add: kt_parse_entries.simps [of v en bs off acc])
  next
    case False
    with "1.prems"(1) obtain n off1 where n: "read_i32 bs off en = Inr (n, off1)"
      by (auto simp: kt_parse_entries.simps [of v en bs off acc] rbind_eq_Inr)
    consider "n = 0" | "n \<noteq> 0" "sint n < 0" | "n \<noteq> 0" "\<not> sint n < 0" by blast
    then show ?thesis
    proof cases
      case 1
      with False n "1.prems" show ?thesis by (simp add: kt_parse_entries.simps [of v en bs off acc])
    next
      case 2
      with False n "1.prems"(1) obtain skip off2 where
        "ok_or (i32_checked_abs n) LengthOverflow = Inr skip" "checked_advance bs off1 skip = Inr off2"
        "kt_parse_entries v en bs off2 acc = Inr es"
        by (auto simp: kt_parse_entries.simps [of v en bs off acc] rbind_eq_Inr)
      with "1.IH"(1) [OF False n refl 2] "1.prems"(2) show ?thesis by blast
    next
      case 3
      with False n "1.prems"(1) obtain e x where
        "checked_end bs off1 (nat (sint n)) = Inr e" "kt_entry_parse v en (slice bs off1 e) = Inr x"
        "kt_parse_entries v en bs e (acc @ [x]) = Inr es"
        by (auto simp: kt_parse_entries.simps [of v en bs off acc] rbind_eq_Inr)
      with "1.IH"(2) [OF False n refl 3] "1.prems"(2) show ?thesis by (simp add: kt_entry_parse_ok)
    qed
  qed
qed

section \<open>Round trips\<close>

lemma kt_entry_write_cases:
  assumes "kt_entry_ok v e"
  shows "kt_entry_write v en out e =
    (if 0 \<le> sint (kt_etype (kt_key e)) then Inr (out @ kt_enc_entry v en e) else Inl LengthOverflow)"
proof (cases "0 \<le> sint (kt_etype (kt_key e))")
  case True
  then show ?thesis using kt_entry_write_enc [OF assms] by simp
next
  case False
  have "kt_principal_write_to (kt_principal e) [] v en = Inr (kt_enc_principal v en (kt_principal e))"
    using assms kprin.write_enc [of v "kt_principal e" "[]"] by (simp add: kt_entry_ok_def)
  with False show ?thesis by (simp add: kt_entry_write_def Let_def write_u16_checked_def)
qed

lemma keytab_to_bytes_cases:
  assumes "keytab_ok kt"
  shows "keytab_to_bytes le kt =
    (if kt_etypes_nonneg kt then
       Inr (KEYTAB_FIRST_BYTE # kt_version kt #
         concat (map (kt_enc_entry (kt_version kt) (kt_endian_for_version le (kt_version kt))) (kt_entries kt)))
     else Inl LengthOverflow)"
proof -
  have "kt_entry_write (kt_version kt) en out e =
      (if 0 \<le> sint (kt_etype (kt_key e)) then Inr (out @ kt_enc_entry (kt_version kt) en e)
       else Inl LengthOverflow)" if "e \<in> set (kt_entries kt)" for en out e
    using assms that by (intro kt_entry_write_cases) (auto simp: keytab_ok_def list_all_iff)
  from write_list_cases [of "kt_entries kt", OF this] show ?thesis
    by (simp add: keytab_to_bytes_def kt_etypes_nonneg_def Let_def)
qed

lemma keytab_parse_enc:
  fixes kt le
  defines "v \<equiv> kt_version kt" and "en \<equiv> kt_endian_for_version le (kt_version kt)"
  defines "out \<equiv> KEYTAB_FIRST_BYTE # v # concat (map (kt_enc_entry v en) (kt_entries kt))"
  assumes "keytab_ok kt" and "length out < 2 ^ 64"
  shows "keytab_parse le out = Inr kt"
proof -
  have "has_at ([KEYTAB_FIRST_BYTE, v] @ concat (map (kt_enc_entry v en) (kt_entries kt)) @ [])
      (length [KEYTAB_FIRST_BYTE, v]) (concat (map (kt_enc_entry v en) (kt_entries kt)))"
    by (rule has_at_mid)
  then have "has_at out 2 (concat (map (kt_enc_entry v en) (kt_entries kt)))"
    by (simp add: out_def numeral_2_eq_2)
  then have "kt_parse_entries v en out 2 [] = Inr ([] @ kt_entries kt)"
    using assms(4,5) by (intro kt_parse_entries_enc) (auto simp: keytab_ok_def v_def out_def list_all_iff)
  then show ?thesis
    using assms(4) by (auto simp: keytab_parse_def keytab_ok_def out_def v_def en_def Let_def)
qed

text \<open>
  C19: A keytab of version 1 or 2 whose strings, key lengths and component counts fit the
  signed 16-bit fields, whose encryption types are not negative, and whose 32-bit key version
  is zero only when the 8-bit one is, is written by \<open>to_bytes\<close>, and parsing the bytes gives
  the same keytab back.
\<close>

theorem keytab_roundtrip:
  assumes "keytab_ok kt" and "kt_etypes_nonneg kt"
  shows "\<exists>out. keytab_to_bytes le kt = Inr out \<and> (length out < 2 ^ 64 \<longrightarrow> keytab_parse le out = Inr kt)"
  using assms keytab_parse_enc [of kt le] by (simp add: keytab_to_bytes_cases)

lemma keytab_parse_ok:
  assumes "keytab_parse le bs = Inr kt"
  shows "keytab_ok kt"
  using assms
  by (auto simp: keytab_parse_def keytab_ok_def Let_def rbind_eq_Inr dest!: kt_parse_entries_ok split: if_splits)

text \<open>
  Whatever bytes \<open>Keytab::parse\<close> accepts, the keytab it returns is well formed: version
  1 or 2, every string valid UTF-8 and shorter than 32768 bytes, every key shorter than 32768
  bytes, every encryption type in the 16-bit range, name type 0 in version 1, and a zero key
  version only where the 8-bit one is zero; so writing it fails only on a negative encryption
  type, and otherwise the written file parses to the same keytab.
\<close>

lemma keytab_parse_normalizes:
  assumes "keytab_parse le bs = Inr kt"
  shows "keytab_ok kt \<and>
    (case keytab_to_bytes le kt of
       Inl e \<Rightarrow> e = LengthOverflow \<and> \<not> kt_etypes_nonneg kt
     | Inr out \<Rightarrow> kt_etypes_nonneg kt \<and> (length out < 2 ^ 64 \<longrightarrow> keytab_parse le out = Inr kt))"
  using keytab_parse_ok [OF assms] keytab_parse_enc [of kt le] by (simp add: keytab_to_bytes_cases)

section \<open>Key lookup\<close>

lemma kt_entry_matches_iff:
  "kt_entry_matches comps realm kvno etype e \<longleftrightarrow>
     kt_realm (kt_principal e) = realm \<and> kt_components (kt_principal e) = comps
     \<and> kt_etype (kt_key e) = etype \<and> (kvno = 0 \<or> kt_kvno e = kvno)"
  by (auto simp: kt_entry_matches_def list_all_iff list_eq_iff_zip_eq split_def)

text \<open>The invariant of the selection loop: \<open>sel\<close> is the newest match of the entries seen.\<close>

definition kt_newest :: "(kt_entry \<Rightarrow> bool) \<Rightarrow> kt_entry list \<Rightarrow> kt_entry option \<Rightarrow> bool" where
  "kt_newest m es sel \<longleftrightarrow>
     (case sel of
        None \<Rightarrow> \<forall>e \<in> set es. \<not> m e
      | Some e \<Rightarrow> \<exists>before after. es = before @ e # after \<and> m e
          \<and> (\<forall>x \<in> set before. m x \<longrightarrow> kt_timestamp x < kt_timestamp e)
          \<and> (\<forall>x \<in> set after. m x \<longrightarrow> kt_timestamp x \<le> kt_timestamp e))"

lemma kt_newest_last:
  assumes "m e" and "\<forall>x \<in> set es. m x \<longrightarrow> kt_timestamp x < kt_timestamp e"
  shows "kt_newest m (es @ [e]) (Some e)"
  unfolding kt_newest_def option.case using assms
  by (intro exI [of _ es] exI [of _ "[]"]) auto

lemma kt_newest_snoc:
  assumes "kt_newest m es sel"
  shows "kt_newest m (es @ [e])
    (if m e then (case sel of Some c \<Rightarrow> if kt_timestamp c \<ge> kt_timestamp e then sel else Some e | None \<Rightarrow> Some e)
     else sel)"
proof (cases sel)
  case None
  with assms show ?thesis using kt_newest_last [of m e es] by (auto simp: kt_newest_def)
next
  case (Some c)
  with assms obtain before after where d: "es = before @ c # after" "m c"
    "\<forall>x \<in> set before. m x \<longrightarrow> kt_timestamp x < kt_timestamp c"
    "\<forall>x \<in> set after. m x \<longrightarrow> kt_timestamp x \<le> kt_timestamp c"
    by (auto simp: kt_newest_def)
  show ?thesis
  proof (cases "m e \<and> kt_timestamp c < kt_timestamp e")
    case True
    with d have "\<forall>x \<in> set es. m x \<longrightarrow> kt_timestamp x < kt_timestamp e"
      by (auto dest: order.strict_trans order.strict_trans1)
    with True Some show ?thesis using kt_newest_last [of m e es] by auto
  next
    case False
    with d have "es @ [e] = before @ c # after @ [e]"
      "\<forall>x \<in> set (after @ [e]). m x \<longrightarrow> kt_timestamp x \<le> kt_timestamp c"
      by auto
    with d(2,3) have "kt_newest m (es @ [e]) sel" unfolding kt_newest_def Some option.case
      by (intro exI [of _ before] exI [of _ "after @ [e]"]) auto
    with False Some show ?thesis by auto
  qed
qed

lemma kt_select_newest:
  assumes "kt_newest (kt_entry_matches comps realm kvno etype) seen sel"
  shows "kt_newest (kt_entry_matches comps realm kvno etype) (seen @ es)
    (kt_select comps realm kvno etype es sel)"
  using assms
proof (induction es arbitrary: seen sel)
  case (Cons e es)
  from Cons.IH [OF kt_newest_snoc [OF Cons.prems, of e]] show ?case by simp
qed simp

text \<open>
  C21: \<open>find_key\<close> either returns the key and version number of an entry whose realm,
  components, encryption type and (unless 0 is asked for) key version match, such that no
  matching entry is newer and no earlier one is as new, or fails with \<open>NoMatchingKey\<close> carrying
  the query, and then no entry matches.
\<close>

theorem find_key_newest:
  "case find_key kt comps realm kvno etype of
     Inr (key, vno) \<Rightarrow> \<exists>before e after. kt_entries kt = before @ e # after
       \<and> key = kt_key e \<and> vno = kt_kvno e
       \<and> kt_realm (kt_principal e) = realm \<and> kt_components (kt_principal e) = comps
       \<and> kt_etype (kt_key e) = etype \<and> (kvno = 0 \<or> kt_kvno e = kvno)
       \<and> (\<forall>x \<in> set before. kt_entry_matches comps realm kvno etype x \<longrightarrow> kt_timestamp x < kt_timestamp e)
       \<and> (\<forall>x \<in> set after. kt_entry_matches comps realm kvno etype x \<longrightarrow> kt_timestamp x \<le> kt_timestamp e)
   | Inl err \<Rightarrow> err = NoMatchingKey (join_with (CHR ''/'') comps) realm kvno etype
       \<and> (\<forall>e \<in> set (kt_entries kt). \<not> kt_entry_matches comps realm kvno etype e)"
proof -
  let ?m = "kt_entry_matches comps realm kvno etype"
  let ?sel = "kt_select comps realm kvno etype (kt_entries kt) None"
  have n: "kt_newest ?m (kt_entries kt) ?sel"
    using kt_select_newest [of comps realm kvno etype "[]" None "kt_entries kt"]
    by (simp add: kt_newest_def)
  show ?thesis
  proof (cases ?sel)
    case None
    with n show ?thesis by (simp add: find_key_def kt_newest_def)
  next
    case (Some e)
    with n obtain before after where "kt_entries kt = before @ e # after" "?m e"
      "\<forall>x \<in> set before. ?m x \<longrightarrow> kt_timestamp x < kt_timestamp e"
      "\<forall>x \<in> set after. ?m x \<longrightarrow> kt_timestamp x \<le> kt_timestamp e"
      by (auto simp: kt_newest_def)
    with Some show ?thesis by (auto simp: find_key_def kt_entry_matches_iff)
  qed
qed

section \<open>Holes, names, principals\<close>

text \<open>A record with negative length \<open>-n\<close> (an entry that was deleted in place) contributes
  nothing: parsing from it continues \<open>n\<close> bytes after its length field with the entries
  collected so far, unless the length is \<open>i32::MIN\<close> or the hole runs past the end of the
  file, which are errors.
\<close>

lemma keytab_hole_skipped:
  assumes "length bs < 2 ^ 63" and "has_at bs off (to_bytes_en en (w :: i32))" and "sint w < 0"
  shows "kt_parse_entries v en bs off acc =
    (if sint w = - (2 ^ 31) then Inl LengthOverflow
     else if off + 4 + nat (- sint w) \<le> length bs
       then kt_parse_entries v en bs (off + 4 + nat (- sint w)) acc
     else Inl (Truncated (off + 4) (nat (- sint w)) (length bs - (off + 4))))"
proof -
  have len: "off + 4 \<le> length bs" using has_at_length [OF assms(2)] by simp
  have nz: "w \<noteq> 0" using assms(3) by auto
  show ?thesis
  proof (cases "sint w \<noteq> - (2 ^ 31) \<and> off + 4 + nat (- sint w) \<le> length bs")
    case True
    then show ?thesis using kt_parse_entries_hole [OF assms(2,3)] assms(1) by simp
  next
    case False
    have "nat (- sint w) \<le> 2 ^ 31" using sint_range_32 [of w] by simp
    moreover have "\<not> length bs - off < 4" using len by arith
    moreover have "off + 4 + nat (- sint w) < 2 ^ 64" using assms(1) len calculation(1) by simp
    ultimately show ?thesis
      using False len assms nz
      by (subst kt_parse_entries.simps)
        (simp add: read_i32_at [OF assms(2)] i32_checked_abs_def checked_advance_def checked_end_def
          usize_checked_add_def)
  qed
qed

text \<open>
  The keytab names the module takes are bare paths, drive paths and the types \<open>FILE\<close> and
  \<open>WRFILE\<close> in any case; every other \<open>type:rest\<close> is refused with the type in the error, and an
  empty name or an empty path is invalid.
\<close>

lemma keytab_name_parse_cases:
  "keytab_name_parse env name =
    (if name = [] then Inl InvalidKeytabName
     else if CHR '':'' \<notin> set name then Inr (KeytabFile (expand_path_tokens env name))
     else let pfx = takeWhile (\<lambda>c. c \<noteq> CHR '':'') name; path = tl (dropWhile (\<lambda>c. c \<noteq> CHR '':'') name) in
       if is_windows_drive_path pfx path then Inr (KeytabFile (expand_path_tokens env name))
       else if \<not> (eq_ignore_ascii_case pfx ''FILE'' \<or> eq_ignore_ascii_case pfx ''WRFILE'')
         then Inl (UnsupportedKeytabType pfx)
       else if path = [] then Inl InvalidKeytabName
       else Inr (KeytabFile (expand_path_tokens env path)))"
proof (cases "split_once (CHR '':'') name")
  case None
  then have "CHR '':'' \<notin> set name" by (simp add: split_once_None_iff)
  with None show ?thesis
    by (simp add: keytab_name_parse_def file_path_from_keytab_name_def file_path_from_name_def)
next
  case (Some pp)
  then obtain pfx path where pp: "pp = (pfx, path)" "name = pfx @ CHR '':'' # path" "CHR '':'' \<notin> set pfx"
    by (cases pp) (auto simp: split_once_Some)
  then have "takeWhile (\<lambda>c. c \<noteq> CHR '':'') name = pfx" "dropWhile (\<lambda>c. c \<noteq> CHR '':'') name = CHR '':'' # path"
    by (simp_all add: break_at)
  with Some pp show ?thesis
    by (simp add: keytab_name_parse_def file_path_from_keytab_name_def file_path_from_name_def Let_def)
qed

text \<open>A principal made from a name has exactly the non-empty components between the slashes:
  printing it gives the name back, and the construction fails exactly for a name with an
  empty component; conversely the name printed for non-empty, slash-free components is read
  back to them.
\<close>

lemma kt_principal_name_roundtrip:
  "(case kt_principal_from_name realm nt name of
      Inr p \<Rightarrow> kt_name_string p = name \<and> kt_realm p = realm \<and> kt_name_type p = nt \<and> [] \<notin> set (kt_components p)
    | Inl e \<Rightarrow> e = InvalidPrincipalName \<and> [] \<in> set (split_on (CHR ''/'') name)) \<and>
   (comps \<noteq> [] \<and> (\<forall>c \<in> set comps. c \<noteq> [] \<and> CHR ''/'' \<notin> set c) \<longrightarrow>
     kt_principal_from_name realm nt (kt_name_string (kt_principal_new realm nt comps))
       = Inr (kt_principal_new realm nt comps))"
proof -
  have "join_with (CHR ''/'') comps \<noteq> []" if "comps \<noteq> []" "\<forall>c \<in> set comps. c \<noteq> []"
    using that by (cases comps; cases "tl comps") auto
  then show ?thesis
    by (auto simp: kt_principal_from_name_def kt_name_string_def kt_principal_new_def Let_def
        join_split_on list_ex_iff split_join_with)
qed

section \<open>Witnesses\<close>

definition ex_entry :: "u32 \<Rightarrow> u32 \<Rightarrow> kt_entry" where
  "ex_entry ts vno =
     \<lparr>kt_principal = \<lparr>kt_realm = ''R.ORG'', kt_components = [''HTTP'', ''h''], kt_name_type = 3\<rparr>,
      kt_timestamp = ts, kt_kvno8 = 2, kt_key = \<lparr>kt_etype = 18, kt_value = [1, 2, 255]\<rparr>, kt_kvno = vno\<rparr>"

definition ex_keytab :: keytab where
  "ex_keytab = \<lparr>kt_version = 2, kt_entries = [ex_entry 10 2, ex_entry 30 3, ex_entry 30 4]\<rparr>"

lemma ex_keytab_ok: "keytab_ok ex_keytab"
  by (simp add: keytab_ok_def ex_keytab_def ex_entry_def kt_entry_ok_def kt_principal_ok_def kt_string_ok_def)

lemma ex_keytab_nonneg: "kt_etypes_nonneg ex_keytab"
  by (simp add: kt_etypes_nonneg_def ex_keytab_def ex_entry_def)

theorem keytab_roundtrip_witness:
  "keytab_ok ex_keytab \<and> kt_etypes_nonneg ex_keytab \<and>
   (\<exists>out. keytab_to_bytes True ex_keytab = Inr out \<and> (length out < 2 ^ 64 \<longrightarrow> keytab_parse True out = Inr ex_keytab))"
  using ex_keytab_ok ex_keytab_nonneg keytab_roundtrip [OF ex_keytab_ok ex_keytab_nonneg, of True] by blast
abbreviation ex_keytab_file :: bytes where
  "ex_keytab_file \<equiv> KEYTAB_FIRST_BYTE # kt_version ex_keytab #
     concat (map (kt_enc_entry (kt_version ex_keytab) (kt_endian_for_version True (kt_version ex_keytab)))
       (kt_entries ex_keytab))"

lemma ex_keytab_file_parse: "keytab_parse True ex_keytab_file = Inr ex_keytab"
  by (rule keytab_parse_enc [OF ex_keytab_ok])
    (simp add: ex_keytab_def ex_entry_def kt_enc_entry_def kt_enc_body_def kt_enc_principal_def)

lemma keytab_parse_normalizes_witness:
  "keytab_parse True ex_keytab_file = Inr ex_keytab \<and> keytab_ok ex_keytab \<and>
   is_ok (keytab_to_bytes True ex_keytab)"
  using keytab_parse_normalizes [OF ex_keytab_file_parse] ex_keytab_file_parse ex_keytab_nonneg
  by (auto split: sum.splits)

theorem find_key_newest_witness:
  "find_key ex_keytab [''HTTP'', ''h''] ''R.ORG'' 0 18 = Inr (kt_key (ex_entry 30 3), 3)
   \<and> (\<exists>before e after. kt_entries ex_keytab = before @ e # after \<and> kt_kvno e = 3
        \<and> (\<forall>x \<in> set after. kt_timestamp x \<le> kt_timestamp e))"
proof -
  have f: "find_key ex_keytab [''HTTP'', ''h''] ''R.ORG'' 0 18 = Inr (kt_key (ex_entry 30 3), 3)"
    by (simp add: find_key_def ex_keytab_def ex_entry_def kt_entry_matches_def)
  have m: "\<forall>x \<in> set (kt_entries ex_keytab). kt_entry_matches [''HTTP'', ''h''] ''R.ORG'' 0 18 x"
    by (simp add: ex_keytab_def ex_entry_def kt_entry_matches_def)
  show ?thesis
    using find_key_newest [where kt = ex_keytab and comps = "[''HTTP'', ''h'']" and realm = "''R.ORG''"
        and kvno = 0 and etype = 18] m unfolding f
    by (fastforce simp: f)
qed

lemma keytab_hole_skipped_witness:
  "kt_parse_entries 2 Big [5, 2, 255, 255, 255, 254, 7, 7] 2 [] = Inr []"
proof -
  have "has_at [5, 2, 255, 255, 255, 254, 7, 7] 2 (to_bytes_en Big (- 2 :: i32))"
    by (simp add: has_at_def to_bytes_en_def)
  then show ?thesis
    using keytab_hole_skipped [of "[5, 2, 255, 255, 255, 254, 7, 7]" 2 Big "- 2 :: i32" 2 "[]"]
    by (simp add: kt_parse_entries.simps)
qed

lemma kt_principal_name_roundtrip_witness:
  "kt_principal_from_name ''R'' 1 (kt_name_string (kt_principal_new ''R'' 1 [''HTTP'', ''h'']))
     = Inr (kt_principal_new ''R'' 1 [''HTTP'', ''h''])"
  using kt_principal_name_roundtrip [where realm = "''R''" and nt = 1 and comps = "[''HTTP'', ''h'']"] by simp

text \<open>
  A keytab file with a negative encryption type is parsed, but the parsed keytab cannot be
  written back: \<open>to_bytes\<close> converts the signed type to \<open>u16\<close> and fails with \<open>LengthOverflow\<close>.
\<close>

lemma keytab_negative_etype_unwritable:
  "\<exists>bs kt. keytab_parse le bs = Inr kt \<and> keytab_to_bytes le kt = Inl LengthOverflow"
proof -
  define e where "e = (ex_entry 10 2)\<lparr>kt_key := \<lparr>kt_etype = - 133, kt_value = []\<rparr>\<rparr>"
  define kt where "kt = \<lparr>kt_version = 2, kt_entries = [e]\<rparr>"
  have ok: "keytab_ok kt"
    by (simp add: keytab_ok_def kt_def e_def ex_entry_def kt_entry_ok_def kt_principal_ok_def kt_string_ok_def)
  have neg: "\<not> kt_etypes_nonneg kt"
    by (simp add: kt_etypes_nonneg_def kt_def e_def)
  have "keytab_parse le (KEYTAB_FIRST_BYTE # kt_version kt # concat (map (kt_enc_entry (kt_version kt)
      (kt_endian_for_version le (kt_version kt))) (kt_entries kt))) = Inr kt"
    by (rule keytab_parse_enc [OF ok])
      (simp add: kt_def e_def ex_entry_def kt_enc_entry_def kt_enc_body_def kt_enc_principal_def)
  then show ?thesis using keytab_to_bytes_cases [OF ok, of le] neg by auto
qed

end
