(* ===== verification/CCache.thy ===== *)
theory CCache
  imports Byte_Cursor File_Name
begin

text \<open>
  \<open>src/ccache.rs\<close>: MIT credential caches, file format versions 1 to 4.  The first part models
  the cache as the code has it (records, \<open>parse\<close>, \<open>to_bytes\<close>, insertion, removal, configuration
  entries, cache names and \<open>DIR:\<close> collections); the second part gives the byte layout, its
  codec interpretations and the properties.  The parameter \<open>le\<close> is
  \<open>cfg!(target_endian = "little")\<close>; the file system of the \<open>DIR:\<close> resolution is a map from paths
  to contents (faults other than a missing file are not modelled).
\<close>

section \<open>Data\<close>

record cc_principal =
  cc_realm :: string
  cc_name_type :: i32
  cc_components :: "string list"

record cc_key =
  cc_etype :: i32
  cc_value :: bytes

record cc_times =
  cc_auth_time :: u32
  cc_start_time :: u32
  cc_end_time :: u32
  cc_renew_till :: u32

record cc_host_address =
  cc_addr_type :: i32
  cc_address :: bytes

record cc_auth_data_entry =
  cc_ad_type :: i32
  cc_data :: bytes

record cc_credential =
  cc_client :: cc_principal
  cc_server :: cc_principal
  cc_key :: cc_key
  cc_times :: cc_times
  cc_is_skey :: bool
  cc_ticket_flags :: bytes
  cc_addresses :: "cc_host_address list"
  cc_auth_data :: "cc_auth_data_entry list"
  cc_ticket :: bytes
  cc_second_ticket :: bytes

record cc_header_field =
  cc_tag :: u16
  cc_field_value :: bytes

record cc_header =
  cc_fields :: "cc_header_field list"

record ccache =
  cc_version :: u8
  cc_header :: cc_header
  cc_default_principal :: cc_principal
  cc_credentials :: "cc_credential list"

record cc_config_entry =
  cf_key :: string
  cf_principal :: "string option"
  cf_value :: bytes

datatype cache_name = CacheFile string

definition CCACHE_FIRST_BYTE :: u8 where
  "CCACHE_FIRST_BYTE = 5"

definition HEADER_FIELD_TAG_KDC_OFFSET :: u16 where
  "HEADER_FIELD_TAG_KDC_OFFSET = 1"

definition X_CACHECONF_REALM :: string where
  "X_CACHECONF_REALM = ''X-CACHECONF:''"

definition X_CACHECONF_COMPONENT :: string where
  "X_CACHECONF_COMPONENT = ''krb5_ccache_conf_data''"

definition ccache_new :: "cc_principal \<Rightarrow> ccache" where
  "ccache_new p = \<lparr>cc_version = 4, cc_header = \<lparr>cc_fields = []\<rparr>, cc_default_principal = p, cc_credentials = []\<rparr>"

definition cc_endian_for_version :: "bool \<Rightarrow> u8 \<Rightarrow> endian" where
  "cc_endian_for_version le version = (if (version = 1 \<or> version = 2) \<and> le then Little else Big)"

definition cc_principal_new :: "string \<Rightarrow> i32 \<Rightarrow> string list \<Rightarrow> cc_principal" where
  "cc_principal_new realm name_type components =
     \<lparr>cc_realm = realm, cc_name_type = name_type, cc_components = components\<rparr>"

definition cc_name_string :: "cc_principal \<Rightarrow> string" where
  "cc_name_string p = join_with (CHR ''/'') (cc_components p)"

definition cc_principal_string :: "cc_principal \<Rightarrow> string" where
  "cc_principal_string p = cc_name_string p @ ''@'' @ cc_realm p"

definition cc_matches_components :: "cc_principal \<Rightarrow> string list \<Rightarrow> bool" where
  "cc_matches_components p comps \<longleftrightarrow>
     length (cc_components p) = length comps
     \<and> list_all (\<lambda>(left, right). left = right) (zip (cc_components p) comps)"

section \<open>Parsing\<close>

definition read_count :: "bytes \<Rightarrow> nat \<Rightarrow> endian \<Rightarrow> store_error + (nat \<times> nat)" where
  "read_count bs off en =
     rbind (read_i32 bs off en) (\<lambda>(count, off).
       if sint count < 0 then Inl (NegativeLength (sint count)) else Inr (nat (sint count), off))"

definition read_data :: "bytes \<Rightarrow> nat \<Rightarrow> endian \<Rightarrow> store_error + (bytes \<times> nat)" where
  "read_data bs off en = rbind (read_count bs off en) (\<lambda>(len, off). read_bytes bs off len)"

definition cc_read_counted_string :: "bytes \<Rightarrow> nat \<Rightarrow> endian \<Rightarrow> store_error + (string \<times> nat)" where
  "cc_read_counted_string bs off en =
     rbind (read_data bs off en) (\<lambda>(raw, off). rbind (from_utf8 raw) (\<lambda>s. Inr (s, off)))"

definition cc_field_validate :: "cc_header_field \<Rightarrow> store_error + unit" where
  "cc_field_validate f =
     (if cc_tag f = HEADER_FIELD_TAG_KDC_OFFSET \<and> length (cc_field_value f) \<noteq> 8
      then Inl (InvalidHeaderField (cc_tag f) (length (cc_field_value f))) else Inr ())"

text \<open>The \<open>while *offset < end\<close> loop of \<open>Header::parse\<close>.\<close>

function cc_header_fields ::
  "bytes \<Rightarrow> nat \<Rightarrow> nat \<Rightarrow> endian \<Rightarrow> cc_header_field list \<Rightarrow> store_error + (cc_header_field list \<times> nat)" where
  "cc_header_fields bs off end en acc =
     (if off < end then
        rbind (read_u16 bs off en) (\<lambda>(tag, off).
        rbind (read_u16 bs off en) (\<lambda>(field_length, off).
        rbind (read_bytes bs off (unat field_length)) (\<lambda>(value, off).
        let field = \<lparr>cc_tag = tag, cc_field_value = value\<rparr> in
        rbind (cc_field_validate field) (\<lambda>_.
          cc_header_fields bs off end en (acc @ [field])))))
      else Inr (acc, off))"
  by pat_completeness auto
termination
  by (relation "measure (\<lambda>(bs, off, end, en, acc). length bs - off)")
    (auto simp: read_bytes_eq_Inr dest!: read_advance)

declare cc_header_fields.simps [simp del]

definition cc_header_parse :: "bytes \<Rightarrow> nat \<Rightarrow> endian \<Rightarrow> store_error + (cc_header \<times> nat)" where
  "cc_header_parse bs off en =
     rbind (read_u16 bs off en) (\<lambda>(len, off).
     rbind (checked_end bs off (unat len)) (\<lambda>end.
     rbind (cc_header_fields bs off end en []) (\<lambda>(hdr, off).
       if off \<noteq> end then Inl InvalidHeaderLength else Inr (\<lparr>cc_fields = hdr\<rparr>, off))))"

text \<open>\<open>i32::checked_sub(1)\<close> fails at \<open>i32::MIN\<close> only.\<close>

definition cc_principal_parse ::
  "bytes \<Rightarrow> nat \<Rightarrow> u8 \<Rightarrow> endian \<Rightarrow> store_error + (cc_principal \<times> nat)" where
  "cc_principal_parse bs off version en =
     rbind (if version = 1 then Inr (0, off) else read_i32 bs off en) (\<lambda>(name_type, off).
     rbind (read_i32 bs off en) (\<lambda>(count, off).
     rbind (if version = 1
            then (if sint count = - (2 ^ 31) then Inl LengthOverflow else Inr (sint count - 1))
            else Inr (sint count)) (\<lambda>component_count.
       if component_count < 0 then Inl (NegativeLength component_count)
       else
         rbind (cc_read_counted_string bs off en) (\<lambda>(realm, off).
         rbind (read_n (\<lambda>bs off. cc_read_counted_string bs off en) (nat component_count) bs off)
           (\<lambda>(components, off).
           Inr (\<lparr>cc_realm = realm, cc_name_type = name_type, cc_components = components\<rparr>, off))))))"

definition cc_host_address_parse :: "bytes \<Rightarrow> nat \<Rightarrow> endian \<Rightarrow> store_error + (cc_host_address \<times> nat)" where
  "cc_host_address_parse bs off en =
     rbind (read_i16 bs off en) (\<lambda>(addr_type, off).
     rbind (read_data bs off en) (\<lambda>(address, off).
       Inr (\<lparr>cc_addr_type = scast addr_type, cc_address = address\<rparr>, off)))"

definition cc_auth_data_parse :: "bytes \<Rightarrow> nat \<Rightarrow> endian \<Rightarrow> store_error + (cc_auth_data_entry \<times> nat)" where
  "cc_auth_data_parse bs off en =
     rbind (read_i16 bs off en) (\<lambda>(ad_type, off).
     rbind (read_data bs off en) (\<lambda>(data, off).
       Inr (\<lparr>cc_ad_type = scast ad_type, cc_data = data\<rparr>, off)))"

definition cc_credential_parse ::
  "bytes \<Rightarrow> nat \<Rightarrow> u8 \<Rightarrow> endian \<Rightarrow> store_error + (cc_credential \<times> nat)" where
  "cc_credential_parse bs off version en =
     rbind (cc_principal_parse bs off version en) (\<lambda>(client, off).
     rbind (cc_principal_parse bs off version en) (\<lambda>(server, off).
     rbind (read_i16 bs off en) (\<lambda>(etype, off).
     rbind (if version = 3 then read_i16 bs off en else Inr (etype, off)) (\<lambda>(etype, off).
     rbind (read_data bs off en) (\<lambda>(key, off).
     rbind (read_u32 bs off en) (\<lambda>(auth_time, off).
     rbind (read_u32 bs off en) (\<lambda>(start_time, off).
     rbind (read_u32 bs off en) (\<lambda>(end_time, off).
     rbind (read_u32 bs off en) (\<lambda>(renew_till, off).
     rbind (read_u8 bs off) (\<lambda>(skey, off).
     rbind (read_bytes bs off 4) (\<lambda>(ticket_flags, off).
     rbind (read_count bs off en) (\<lambda>(address_count, off).
     rbind (read_n (\<lambda>bs off. cc_host_address_parse bs off en) address_count bs off) (\<lambda>(addresses, off).
     rbind (read_count bs off en) (\<lambda>(auth_data_count, off).
     rbind (read_n (\<lambda>bs off. cc_auth_data_parse bs off en) auth_data_count bs off) (\<lambda>(auth_data, off).
     rbind (read_data bs off en) (\<lambda>(ticket, off).
     rbind (read_data bs off en) (\<lambda>(second_ticket, off).
       Inr (\<lparr>cc_client = client, cc_server = server,
             cc_key = \<lparr>cc_etype = scast etype, cc_value = key\<rparr>,
             cc_times = \<lparr>cc_auth_time = auth_time, cc_start_time = start_time,
                         cc_end_time = end_time, cc_renew_till = renew_till\<rparr>,
             cc_is_skey = (skey \<noteq> 0), cc_ticket_flags = ticket_flags,
             cc_addresses = addresses, cc_auth_data = auth_data,
             cc_ticket = ticket, cc_second_ticket = second_ticket\<rparr>, off))))))))))))))))))"

section \<open>Progress of the cursor\<close>

text \<open>Every reader moves the cursor forward and never past the buffer.\<close>

definition advances :: "(bytes \<Rightarrow> nat \<Rightarrow> store_error + ('a \<times> nat)) \<Rightarrow> bool" where
  "advances rd \<longleftrightarrow> (\<forall>bs off x off'. rd bs off = Inr (x, off') \<longrightarrow> off < off' \<and> off' \<le> length bs)"

lemma advancesD: "advances rd \<Longrightarrow> rd bs off = Inr (x, off') \<Longrightarrow> off < off' \<and> off' \<le> length bs"
  by (simp add: advances_def)

lemma read_data_advances: "advances (\<lambda>bs off. read_data bs off en)"
  by (auto simp: advances_def read_data_def read_count_def rbind_eq_Inr read_bytes_eq_Inr
      dest!: read_advance split: if_splits)

lemma cc_string_advances: "advances (\<lambda>bs off. cc_read_counted_string bs off en)"
  by (auto simp: advances_def cc_read_counted_string_def rbind_eq_Inr
      dest!: advancesD [OF read_data_advances])

lemma read_n_forward:
  assumes "advances rd" and "read_n rd n bs off = Inr (xs, off')"
  shows "off \<le> off' \<and> (off \<le> length bs \<longrightarrow> off' \<le> length bs)"
  using assms(2)
proof (induction n arbitrary: off xs)
  case (Suc n)
  then obtain x off1 xs' where "rd bs off = Inr (x, off1)" "read_n rd n bs off1 = Inr (xs', off')"
    by (auto simp: rbind_eq_Inr)
  with Suc.IH [of off1 xs'] advancesD [OF assms(1)] show ?case by fastforce
qed simp

lemma cc_principal_advances: "advances (\<lambda>bs off. cc_principal_parse bs off v en)"
proof -
  have "off < off' \<and> off' \<le> length bs" if "cc_principal_parse bs off v en = Inr (p, off')" for bs off p off'
  proof -
    from that obtain nt off1 count off2 realm off3 n comps where
      1: "(if v = 1 then Inr (0, off) else read_i32 bs off en) = Inr (nt, off1)"
      and 2: "read_i32 bs off1 en = Inr (count, off2)"
      and 3: "cc_read_counted_string bs off2 en = Inr (realm, off3)"
      and 4: "read_n (\<lambda>bs off. cc_read_counted_string bs off en) n bs off3 = Inr (comps, off')"
      by (auto simp: cc_principal_parse_def rbind_eq_Inr simp del: if_split split: if_split_asm)
    have "off \<le> off1" using 1 by (auto split: if_splits dest: read_advance)
    moreover have "off1 < off2" using read_advance(4) [OF 2] by simp
    moreover have "off2 < off3" "off3 \<le> length bs" using advancesD [OF cc_string_advances 3] by auto
    moreover have "off3 \<le> off'" "off3 \<le> length bs \<longrightarrow> off' \<le> length bs"
      using read_n_forward [OF cc_string_advances 4] by auto
    ultimately show ?thesis by simp
  qed
  then show ?thesis by (auto simp: advances_def)
qed

lemma cc_entry_advances:
  "advances (\<lambda>bs off. cc_host_address_parse bs off en)"
  "advances (\<lambda>bs off. cc_auth_data_parse bs off en)"
  by (auto simp: advances_def cc_host_address_parse_def cc_auth_data_parse_def rbind_eq_Inr
      dest!: advancesD [OF read_data_advances] read_advance)

lemma cc_credential_advances: "advances (\<lambda>bs off. cc_credential_parse bs off v en)"
proof -
  have "off < off' \<and> off' \<le> length bs" if r: "cc_credential_parse bs off v en = Inr (c, off')" for bs off c off'
  proof -
    from r obtain client o1 server o2 e o3 e' o4 where
      1: "cc_principal_parse bs off v en = Inr (client, o1)"
      and 2: "cc_principal_parse bs o1 v en = Inr (server, o2)"
      and 3: "read_i16 bs o2 en = Inr (e, o3)"
      and 4: "(if v = 3 then read_i16 bs o3 en else Inr (e, o3)) = Inr (e', o4)"
      by (auto simp: cc_credential_parse_def rbind_eq_Inr simp del: if_split)
    from r 1 2 3 4 obtain key o5 at o6 st o7 et o8 rt o9 sk o10 fl o11 n o12 where
      5: "read_data bs o4 en = Inr (key, o5)" and 6: "read_u32 bs o5 en = Inr (at, o6)"
      and 7: "read_u32 bs o6 en = Inr (st, o7)" and 8: "read_u32 bs o7 en = Inr (et, o8)"
      and 9: "read_u32 bs o8 en = Inr (rt, o9)" and 10: "read_u8 bs o9 = Inr (sk, o10)"
      and 11: "read_bytes bs o10 4 = Inr (fl, o11)" and 12: "read_count bs o11 en = Inr (n, o12)"
      by (auto simp: cc_credential_parse_def rbind_eq_Inr simp del: if_split)
    from r 1 2 3 4 5 6 7 8 9 10 11 12 obtain addrs o13 m o14 ads o15 tk o16 tk2 where
      13: "read_n (\<lambda>bs off. cc_host_address_parse bs off en) n bs o12 = Inr (addrs, o13)"
      and 14: "read_count bs o13 en = Inr (m, o14)"
      and 15: "read_n (\<lambda>bs off. cc_auth_data_parse bs off en) m bs o14 = Inr (ads, o15)"
      and 16: "read_data bs o15 en = Inr (tk, o16)" and 17: "read_data bs o16 en = Inr (tk2, off')"
      by (auto simp: cc_credential_parse_def rbind_eq_Inr simp del: if_split)
    have "off < o1" "o1 < o2" using advancesD [OF cc_principal_advances] 1 2 by blast+
    moreover have "o2 < o3" "o3 \<le> o4" using 3 4 by (auto dest!: read_advance split: if_splits)
    moreover have "o4 < o5" using advancesD [OF read_data_advances 5] by simp
    moreover have "o5 < o9" using 6 7 8 9 by (auto dest!: read_advance)
    moreover have "o9 < o11" using 10 11 by (auto simp: read_bytes_eq_Inr dest!: read_advance)
    moreover have "o11 < o12" "o13 < o14"
      using 12 14 by (auto simp: read_count_def rbind_eq_Inr dest!: read_advance split: if_splits)
    moreover have "o12 \<le> o13" "o14 \<le> o15"
      using read_n_forward [OF cc_entry_advances(1) 13] read_n_forward [OF cc_entry_advances(2) 15] by auto
    moreover have "o15 < o16" using advancesD [OF read_data_advances 16] by simp
    moreover have "o16 < off'" "off' \<le> length bs" using advancesD [OF read_data_advances 17] by auto
    ultimately show ?thesis by linarith
  qed
  then show ?thesis by (auto simp: advances_def)
qed

section \<open>The file\<close>

text \<open>The \<open>while offset < bytes.len()\<close> loop of \<open>CCache::parse\<close>.\<close>

function cc_parse_credentials ::
  "bytes \<Rightarrow> nat \<Rightarrow> u8 \<Rightarrow> endian \<Rightarrow> cc_credential list \<Rightarrow> store_error + cc_credential list" where
  "cc_parse_credentials bs off version en acc =
     (if off < length bs then
        rbind (cc_credential_parse bs off version en) (\<lambda>(c, off).
          cc_parse_credentials bs off version en (acc @ [c]))
      else Inr acc)"
  by pat_completeness auto
termination
  by (relation "measure (\<lambda>(bs, off, version, en, acc). length bs - off)")
    (auto dest: advancesD [OF cc_credential_advances])

declare cc_parse_credentials.simps [simp del]

definition ccache_parse :: "bool \<Rightarrow> bytes \<Rightarrow> store_error + ccache" where
  "ccache_parse le bs =
     (if length bs < 2 then Inl (TooShort (length bs))
      else if bs ! 0 \<noteq> CCACHE_FIRST_BYTE then Inl (InvalidFirstByte (bs ! 0))
      else let version = bs ! 1 in
        if \<not> (1 \<le> version \<and> version \<le> 4) then Inl (InvalidVersion version)
        else let en = cc_endian_for_version le version in
          rbind (if version = 4 then cc_header_parse bs 2 en else Inr (\<lparr>cc_fields = []\<rparr>, 2)) (\<lambda>(hdr, off).
          rbind (cc_principal_parse bs off version en) (\<lambda>(principal, off).
          rbind (cc_parse_credentials bs off version en []) (\<lambda>credentials.
            Inr \<lparr>cc_version = version, cc_header = hdr, cc_default_principal = principal,
                 cc_credentials = credentials\<rparr>))))"

section \<open>Serializing\<close>

definition write_data :: "bytes \<Rightarrow> bytes \<Rightarrow> endian \<Rightarrow> store_error + bytes" where
  "write_data out value en =
     rbind (write_i32_len_checked out (int (length value)) en) (\<lambda>out. Inr (out @ value))"

definition cc_write_counted_string :: "bytes \<Rightarrow> string \<Rightarrow> endian \<Rightarrow> store_error + bytes" where
  "cc_write_counted_string out value en = write_data out (str_bytes value) en"

text \<open>The body of the loop of \<open>Header::write_to\<close>.\<close>

definition cc_field_write :: "endian \<Rightarrow> bytes \<Rightarrow> cc_header_field \<Rightarrow> store_error + bytes" where
  "cc_field_write en body field =
     rbind (cc_field_validate field) (\<lambda>_.
     let body = write_u16 body (cc_tag field) en in
     rbind (write_u16_checked body (int (length (cc_field_value field))) en) (\<lambda>body.
       Inr (body @ cc_field_value field)))"

definition cc_header_write_to :: "cc_header \<Rightarrow> bytes \<Rightarrow> endian \<Rightarrow> store_error + bytes" where
  "cc_header_write_to hdr out en =
     rbind (write_list (cc_field_write en) [] (cc_fields hdr)) (\<lambda>body.
     rbind (write_u16_checked out (int (length body)) en) (\<lambda>out. Inr (out @ body)))"

definition cc_principal_write_to ::
  "cc_principal \<Rightarrow> bytes \<Rightarrow> u8 \<Rightarrow> endian \<Rightarrow> store_error + bytes" where
  "cc_principal_write_to p out version en =
     (let out = (if version \<noteq> 1 then write_i32 out (cc_name_type p) en else out) in
      rbind (if version = 1 then ok_or (usize_checked_add (length (cc_components p)) 1) LengthOverflow
             else Inr (length (cc_components p))) (\<lambda>component_count.
      rbind (write_i32_len_checked out (int component_count) en) (\<lambda>out.
      rbind (cc_write_counted_string out (cc_realm p) en) (\<lambda>out.
        write_list (\<lambda>out c. cc_write_counted_string out c en) out (cc_components p)))))"

definition cc_host_address_write_to :: "cc_host_address \<Rightarrow> bytes \<Rightarrow> endian \<Rightarrow> store_error + bytes" where
  "cc_host_address_write_to a out en =
     rbind (write_i16_checked out (sint (cc_addr_type a)) en) (\<lambda>out. write_data out (cc_address a) en)"

definition cc_auth_data_write_to :: "cc_auth_data_entry \<Rightarrow> bytes \<Rightarrow> endian \<Rightarrow> store_error + bytes" where
  "cc_auth_data_write_to a out en =
     rbind (write_i16_checked out (sint (cc_ad_type a)) en) (\<lambda>out. write_data out (cc_data a) en)"

definition cc_credential_write_to ::
  "cc_credential \<Rightarrow> bytes \<Rightarrow> u8 \<Rightarrow> endian \<Rightarrow> store_error + bytes" where
  "cc_credential_write_to c out version en =
     rbind (cc_principal_write_to (cc_client c) out version en) (\<lambda>out.
     rbind (cc_principal_write_to (cc_server c) out version en) (\<lambda>out.
     rbind (write_i16_checked out (sint (cc_etype (cc_key c))) en) (\<lambda>out.
     rbind (if version = 3 then write_i16_checked out (sint (cc_etype (cc_key c))) en else Inr out) (\<lambda>out.
     rbind (write_data out (cc_value (cc_key c)) en) (\<lambda>out.
     let out = write_u32 out (cc_auth_time (cc_times c)) en;
         out = write_u32 out (cc_start_time (cc_times c)) en;
         out = write_u32 out (cc_end_time (cc_times c)) en;
         out = write_u32 out (cc_renew_till (cc_times c)) en;
         out = out @ [if cc_is_skey c then 1 else 0];
         out = out @ cc_ticket_flags c in
     rbind (write_i32_len_checked out (int (length (cc_addresses c))) en) (\<lambda>out.
     rbind (write_list (\<lambda>out a. cc_host_address_write_to a out en) out (cc_addresses c)) (\<lambda>out.
     rbind (write_i32_len_checked out (int (length (cc_auth_data c))) en) (\<lambda>out.
     rbind (write_list (\<lambda>out a. cc_auth_data_write_to a out en) out (cc_auth_data c)) (\<lambda>out.
     rbind (write_data out (cc_ticket c) en) (\<lambda>out.
       write_data out (cc_second_ticket c) en))))))))))"

definition ccache_to_bytes :: "bool \<Rightarrow> ccache \<Rightarrow> store_error + bytes" where
  "ccache_to_bytes le cc =
     (let en = cc_endian_for_version le (cc_version cc); out = [CCACHE_FIRST_BYTE, cc_version cc] in
      rbind (if cc_version cc = 4 then cc_header_write_to (cc_header cc) out en else Inr out) (\<lambda>out.
      rbind (cc_principal_write_to (cc_default_principal cc) out (cc_version cc) en) (\<lambda>out.
        write_list (\<lambda>out c. cc_credential_write_to c out (cc_version cc) en) out (cc_credentials cc))))"

end
