(* ===== verification/CCache_Format.thy ===== *)
theory CCache_Format
  imports CCache
begin

text \<open>
  The byte layout of a credential cache file as pure functions, the values it represents, and
  the proof that the reader and the writer of \<open>CCache\<close> are a codec for it: one interpretation
  of \<open>file_codec\<close> per record, then the header and the file.
\<close>

section \<open>Layout\<close>

definition cc_enc_data :: "endian \<Rightarrow> bytes \<Rightarrow> bytes" where
  "cc_enc_data en d = to_bytes_en en (word_of_nat (length d) :: i32) @ d"

definition cc_enc_principal :: "u8 \<Rightarrow> endian \<Rightarrow> cc_principal \<Rightarrow> bytes" where
  "cc_enc_principal v en p =
     (if v = 1 then [] else to_bytes_en en (cc_name_type p))
     @ to_bytes_en en (word_of_nat (length (cc_components p) + (if v = 1 then 1 else 0)) :: i32)
     @ cc_enc_data en (str_bytes (cc_realm p))
     @ concat (map (\<lambda>s. cc_enc_data en (str_bytes s)) (cc_components p))"

definition cc_enc_tagged :: "endian \<Rightarrow> i32 \<Rightarrow> bytes \<Rightarrow> bytes" where
  "cc_enc_tagged en t d = to_bytes_en en (word_of_int (sint t) :: i16) @ cc_enc_data en d"

definition cc_enc_credential :: "u8 \<Rightarrow> endian \<Rightarrow> cc_credential \<Rightarrow> bytes" where
  "cc_enc_credential v en c =
     cc_enc_principal v en (cc_client c) @ cc_enc_principal v en (cc_server c)
     @ (if v = 3 then to_bytes_en en (word_of_int (sint (cc_etype (cc_key c))) :: i16) else [])
     @ to_bytes_en en (word_of_int (sint (cc_etype (cc_key c))) :: i16)
     @ cc_enc_data en (cc_value (cc_key c))
     @ to_bytes_en en (cc_auth_time (cc_times c)) @ to_bytes_en en (cc_start_time (cc_times c))
     @ to_bytes_en en (cc_end_time (cc_times c)) @ to_bytes_en en (cc_renew_till (cc_times c))
     @ [if cc_is_skey c then 1 else 0] @ cc_ticket_flags c
     @ to_bytes_en en (word_of_nat (length (cc_addresses c)) :: i32)
     @ concat (map (\<lambda>a. cc_enc_tagged en (cc_addr_type a) (cc_address a)) (cc_addresses c))
     @ to_bytes_en en (word_of_nat (length (cc_auth_data c)) :: i32)
     @ concat (map (\<lambda>a. cc_enc_tagged en (cc_ad_type a) (cc_data a)) (cc_auth_data c))
     @ cc_enc_data en (cc_ticket c) @ cc_enc_data en (cc_second_ticket c)"

definition cc_enc_field :: "endian \<Rightarrow> cc_header_field \<Rightarrow> bytes" where
  "cc_enc_field en f =
     to_bytes_en en (cc_tag f) @ to_bytes_en en (word_of_nat (length (cc_field_value f)) :: u16)
     @ cc_field_value f"

definition cc_enc_header :: "endian \<Rightarrow> cc_header \<Rightarrow> bytes" where
  "cc_enc_header en h =
     to_bytes_en en (word_of_nat (length (concat (map (cc_enc_field en) (cc_fields h)))) :: u16)
     @ concat (map (cc_enc_field en) (cc_fields h))"

definition ccache_enc :: "bool \<Rightarrow> ccache \<Rightarrow> bytes" where
  "ccache_enc le cc =
     (let v = cc_version cc; en = cc_endian_for_version le v in
      [CCACHE_FIRST_BYTE, v] @ (if v = 4 then cc_enc_header en (cc_header cc) else [])
      @ cc_enc_principal v en (cc_default_principal cc)
      @ concat (map (cc_enc_credential v en) (cc_credentials cc)))"

section \<open>Represented values\<close>

definition data_ok :: "bytes \<Rightarrow> bool" where
  "data_ok d \<longleftrightarrow> length d < 2 ^ 31"

definition cc_string_ok :: "string \<Rightarrow> bool" where
  "cc_string_ok s \<longleftrightarrow> str_ok s \<and> length s < 2 ^ 31"

definition type_ok :: "i32 \<Rightarrow> bool" where
  "type_ok t \<longleftrightarrow> - (2 ^ 15) \<le> sint t \<and> sint t < 2 ^ 15"

definition cc_principal_ok :: "u8 \<Rightarrow> cc_principal \<Rightarrow> bool" where
  "cc_principal_ok v p \<longleftrightarrow>
     cc_string_ok (cc_realm p) \<and> list_all cc_string_ok (cc_components p)
     \<and> length (cc_components p) + (if v = 1 then 1 else 0) < 2 ^ 31
     \<and> (v = 1 \<longrightarrow> cc_name_type p = 0)"

definition cc_credential_ok :: "u8 \<Rightarrow> cc_credential \<Rightarrow> bool" where
  "cc_credential_ok v c \<longleftrightarrow>
     cc_principal_ok v (cc_client c) \<and> cc_principal_ok v (cc_server c)
     \<and> type_ok (cc_etype (cc_key c)) \<and> data_ok (cc_value (cc_key c))
     \<and> length (cc_ticket_flags c) = 4
     \<and> length (cc_addresses c) < 2 ^ 31
     \<and> list_all (\<lambda>a. type_ok (cc_addr_type a) \<and> data_ok (cc_address a)) (cc_addresses c)
     \<and> length (cc_auth_data c) < 2 ^ 31
     \<and> list_all (\<lambda>a. type_ok (cc_ad_type a) \<and> data_ok (cc_data a)) (cc_auth_data c)
     \<and> data_ok (cc_ticket c) \<and> data_ok (cc_second_ticket c)"

definition cc_field_ok :: "cc_header_field \<Rightarrow> bool" where
  "cc_field_ok f \<longleftrightarrow>
     (cc_tag f = HEADER_FIELD_TAG_KDC_OFFSET \<longrightarrow> length (cc_field_value f) = 8)
     \<and> length (cc_field_value f) < 2 ^ 16"

text \<open>The header is stored by version 4 only, and its length field has 16 bits.\<close>

definition ccache_ok :: "ccache \<Rightarrow> bool" where
  "ccache_ok cc \<longleftrightarrow>
     1 \<le> cc_version cc \<and> cc_version cc \<le> 4
     \<and> (cc_version cc \<noteq> 4 \<longrightarrow> cc_fields (cc_header cc) = [])
     \<and> list_all cc_field_ok (cc_fields (cc_header cc))
     \<and> sum_list (map (\<lambda>f. 4 + length (cc_field_value f)) (cc_fields (cc_header cc))) < 2 ^ 16
     \<and> cc_principal_ok (cc_version cc) (cc_default_principal cc)
     \<and> list_all (cc_credential_ok (cc_version cc)) (cc_credentials cc)"

section \<open>Codecs\<close>

lemma length_cc_enc_data [simp]: "length (cc_enc_data en d) = length d + 4"
  by (simp add: cc_enc_data_def)

lemma write_len_32: "n < 2 ^ 31 \<Longrightarrow>
   write_i32_len_checked out (int n) en = Inr (out @ to_bytes_en en (word_of_nat n :: i32))"
  by (simp add: write_i32_len_checked_def write_i32_def)

lemma read_count_at:
  assumes "n < 2 ^ 31" and "has_at bs off (to_bytes_en en (word_of_nat n :: i32))" and "length bs < 2 ^ 64"
  shows "read_count bs off en = Inr (n, off + 4)"
  using assms by (simp add: read_count_def read_i32_at [of bs off en "word_of_nat n"] sint_len_32)

interpretation cdata: file_codec "cc_enc_data en" "\<lambda>out d. write_data out d en"
  "\<lambda>bs off. read_data bs off en" data_ok for en
proof
  fix d :: bytes and out
  assume "data_ok d"
  then show "write_data out d en = Inr (out @ cc_enc_data en d)"
    by (simp add: write_data_def write_len_32 cc_enc_data_def data_ok_def)
next
  fix d bs off
  assume "data_ok d" and "has_at bs off (cc_enc_data en d)" and "length bs < 2 ^ 64"
  then show "read_data bs off en = Inr (d, off + length (cc_enc_data en d))"
    by (simp add: read_data_def cc_enc_data_def read_count_at [of "length d"] read_bytes_at data_ok_def)
qed

interpretation cstr: file_codec "\<lambda>s. cc_enc_data en (str_bytes s)"
  "\<lambda>out s. cc_write_counted_string out s en" "\<lambda>bs off. cc_read_counted_string bs off en" cc_string_ok for en
proof
  fix s :: string and out
  assume "cc_string_ok s"
  then show "cc_write_counted_string out s en = Inr (out @ cc_enc_data en (str_bytes s))"
    by (simp add: cc_write_counted_string_def cc_string_ok_def cdata.write_enc data_ok_def)
next
  fix s bs off
  assume "cc_string_ok s" and "has_at bs off (cc_enc_data en (str_bytes s))" and "length bs < 2 ^ 64"
  then show "cc_read_counted_string bs off en = Inr (s, off + length (cc_enc_data en (str_bytes s)))"
    by (simp add: cc_read_counted_string_def cc_string_ok_def cdata.read_enc [of "str_bytes s"]
        data_ok_def from_utf8_str_bytes)
qed

interpretation cprin: file_codec "cc_enc_principal v en" "\<lambda>out p. cc_principal_write_to p out v en"
  "\<lambda>bs off. cc_principal_parse bs off v en" "cc_principal_ok v" for v en
proof
  fix p :: cc_principal and out
  assume ok: "cc_principal_ok v p"
  then have "write_i32_len_checked out (int (length (cc_components p) + (if v = 1 then 1 else 0))) en =
      Inr (out @ to_bytes_en en (word_of_nat (length (cc_components p) + (if v = 1 then 1 else 0)) :: i32))"
    for out by (intro write_len_32) (simp add: cc_principal_ok_def)
  then show "cc_principal_write_to p out v en = Inr (out @ cc_enc_principal v en p)"
    using ok
    by (cases "v = 1") (simp_all add: cc_principal_write_to_def cc_principal_ok_def cc_enc_principal_def
        list_all_iff usize_checked_add_def write_i32_def cstr.write_enc cstr.write_list_enc)
next
  fix p bs off
  assume ok: "cc_principal_ok v p" and at: "has_at bs off (cc_enc_principal v en p)"
    and l: "length bs < 2 ^ 64"
  show "cc_principal_parse bs off v en = Inr (p, off + length (cc_enc_principal v en p))"
    using ok at l
    by (cases "v = 1") (simp_all add: cc_principal_parse_def cc_principal_ok_def cc_enc_principal_def list_all_iff
        read_i32_at [of _ _ _ "word_of_nat (length (cc_components p))"]
        read_i32_at [of _ _ _ "word_of_nat (Suc (length (cc_components p)))"]
        sint_len_32 cstr.read_enc [of "cc_realm p"] cstr.read_n_enc [of "cc_components p"]
        read_i32_at [of _ _ _ "cc_name_type p"] nat_int_Suc add.assoc del: of_nat_Suc)
qed

lemma scast_type_ok: "type_ok t \<Longrightarrow> scast (word_of_int (sint t) :: 16 word) = t"
  by (rule scast_16) (auto simp: type_ok_def)

lemma write_type: "type_ok t \<Longrightarrow>
   write_i16_checked out (sint t) en = Inr (out @ to_bytes_en en (word_of_int (sint t) :: i16))"
  by (simp add: write_i16_checked_def type_ok_def del: of_int_sint)

interpretation caddr: file_codec "\<lambda>a. cc_enc_tagged en (cc_addr_type a) (cc_address a)"
  "\<lambda>out a. cc_host_address_write_to a out en" "\<lambda>bs off. cc_host_address_parse bs off en"
  "\<lambda>a. type_ok (cc_addr_type a) \<and> data_ok (cc_address a)" for en
proof
  fix a :: cc_host_address and out
  assume "type_ok (cc_addr_type a) \<and> data_ok (cc_address a)"
  then show "cc_host_address_write_to a out en = Inr (out @ cc_enc_tagged en (cc_addr_type a) (cc_address a))"
    by (simp add: cc_host_address_write_to_def write_type cdata.write_enc cc_enc_tagged_def del: of_int_sint)
next
  fix a :: cc_host_address and bs off
  assume "type_ok (cc_addr_type a) \<and> data_ok (cc_address a)"
    and "has_at bs off (cc_enc_tagged en (cc_addr_type a) (cc_address a))" and "length bs < 2 ^ 64"
  then show "cc_host_address_parse bs off en =
      Inr (a, off + length (cc_enc_tagged en (cc_addr_type a) (cc_address a)))"
    by (simp add: cc_host_address_parse_def cc_enc_tagged_def scast_type_ok
        read_i16_at [of _ _ _ "word_of_int (sint (cc_addr_type a))"]
        cdata.read_enc [of "cc_address a"] del: of_int_sint)
qed

interpretation cad: file_codec "\<lambda>a. cc_enc_tagged en (cc_ad_type a) (cc_data a)"
  "\<lambda>out a. cc_auth_data_write_to a out en" "\<lambda>bs off. cc_auth_data_parse bs off en"
  "\<lambda>a. type_ok (cc_ad_type a) \<and> data_ok (cc_data a)" for en
proof
  fix a :: cc_auth_data_entry and out
  assume "type_ok (cc_ad_type a) \<and> data_ok (cc_data a)"
  then show "cc_auth_data_write_to a out en = Inr (out @ cc_enc_tagged en (cc_ad_type a) (cc_data a))"
    by (simp add: cc_auth_data_write_to_def write_type cdata.write_enc cc_enc_tagged_def del: of_int_sint)
next
  fix a :: cc_auth_data_entry and bs off
  assume "type_ok (cc_ad_type a) \<and> data_ok (cc_data a)"
    and "has_at bs off (cc_enc_tagged en (cc_ad_type a) (cc_data a))" and "length bs < 2 ^ 64"
  then show "cc_auth_data_parse bs off en =
      Inr (a, off + length (cc_enc_tagged en (cc_ad_type a) (cc_data a)))"
    by (simp add: cc_auth_data_parse_def cc_enc_tagged_def scast_type_ok
        read_i16_at [of _ _ _ "word_of_int (sint (cc_ad_type a))"]
        cdata.read_enc [of "cc_data a"] del: of_int_sint)
qed

lemma bool_byte: "((if b then 1 else 0 :: u8) \<noteq> 0) = b"
  by simp

interpretation ccred: file_codec "cc_enc_credential v en" "\<lambda>out c. cc_credential_write_to c out v en"
  "\<lambda>bs off. cc_credential_parse bs off v en" "cc_credential_ok v" for v en
proof
  fix c :: cc_credential and out
  assume "cc_credential_ok v c"
  then show "cc_credential_write_to c out v en = Inr (out @ cc_enc_credential v en c)"
    by (cases "v = 3") (simp_all add: cc_credential_write_to_def cc_credential_ok_def cc_enc_credential_def list_all_iff
        cprin.write_enc write_type cdata.write_enc write_u32_def write_len_32 caddr.write_list_enc
        cad.write_list_enc Let_def del: of_int_sint)
next
  fix c bs off
  assume ok: "cc_credential_ok v c" and at: "has_at bs off (cc_enc_credential v en c)"
    and l: "length bs < 2 ^ 64"
  have flags: "read_bytes bs off' 4 = Inr (cc_ticket_flags c, off' + 4)"
    if "has_at bs off' (cc_ticket_flags c)" for off'
    using read_bytes_at [OF that l] ok by (simp add: cc_credential_ok_def)
  show "cc_credential_parse bs off v en = Inr (c, off + length (cc_enc_credential v en c))"
    using ok at l
    by (cases "v = 3"; simp add: cc_credential_parse_def cc_credential_ok_def cc_enc_credential_def list_all_iff
        cprin.read_enc [of _ "cc_client c"] cprin.read_enc [of _ "cc_server c"]
        read_i16_at [of _ _ _ "word_of_int (sint (cc_etype (cc_key c)))"] scast_type_ok
        cdata.read_enc [of "cc_value (cc_key c)"] cdata.read_enc [of "cc_ticket c"]
        cdata.read_enc [of "cc_second_ticket c"]
        read_u32_at [of _ _ _ "cc_auth_time (cc_times c)"] read_u32_at [of _ _ _ "cc_start_time (cc_times c)"]
        read_u32_at [of _ _ _ "cc_end_time (cc_times c)"] read_u32_at [of _ _ _ "cc_renew_till (cc_times c)"]
        read_u8_at [of _ _ "if cc_is_skey c then 1 else 0"] bool_byte flags
        read_count_at [of "length (cc_addresses c)"] caddr.read_n_enc [of "cc_addresses c"]
        read_count_at [of "length (cc_auth_data c)"] cad.read_n_enc [of "cc_auth_data c"]
        add.assoc del: of_int_sint if_split)
qed

section \<open>The header\<close>

lemma length_cc_enc_fields:
  "length (concat (map (cc_enc_field en) fs)) = sum_list (map (\<lambda>f. 4 + length (cc_field_value f)) fs)"
  by (induction fs) (auto simp: cc_enc_field_def)

lemma write_len_16: "n < 2 ^ 16 \<Longrightarrow>
   write_u16_checked out (int n) en = Inr (out @ to_bytes_en en (word_of_nat n :: u16))"
  by (simp add: write_u16_checked_def)

lemma cc_field_write_enc: "cc_field_ok f \<Longrightarrow> cc_field_write en body f = Inr (body @ cc_enc_field en f)"
  by (auto simp: cc_field_write_def cc_field_ok_def cc_field_validate_def cc_enc_field_def
      write_u16_def write_u16_checked_def)

lemma cc_fields_write_enc:
  "list_all cc_field_ok fs \<Longrightarrow>
   write_list (cc_field_write en) body fs = Inr (body @ concat (map (cc_enc_field en) fs))"
  by (induction fs arbitrary: body) (auto simp: cc_field_write_enc)

lemma cc_header_fields_step:
  assumes ok: "cc_field_ok f" and at: "has_at bs off (cc_enc_field en f)" and l: "length bs < 2 ^ 64"
    and "off < end"
  shows "cc_header_fields bs off end en acc =
    cc_header_fields bs (off + length (cc_enc_field en f)) end en (acc @ [f])"
proof -
  obtain t d where f: "f = \<lparr>cc_tag = t, cc_field_value = d\<rparr>" by (cases f)
  have "unat (word_of_nat (length d) :: u16) = length d"
    using ok by (simp add: f cc_field_ok_def unat_of_nat)
  moreover have "cc_field_validate f = Inr ()" using ok by (simp add: cc_field_validate_def cc_field_ok_def)
  ultimately show ?thesis
    using at l \<open>off < end\<close> unfolding f
    by (subst cc_header_fields.simps)
      (simp add: Let_def cc_enc_field_def read_bytes_at [of _ _ d]
        read_u16_at [of _ _ _ t] read_u16_at [of _ _ _ "word_of_nat (length d)"])
qed

lemma cc_header_fields_enc:
  assumes "list_all cc_field_ok fs" and "has_at bs off (concat (map (cc_enc_field en) fs))"
    and "length bs < 2 ^ 64"
  shows "cc_header_fields bs off (off + length (concat (map (cc_enc_field en) fs))) en acc =
    Inr (acc @ fs, off + length (concat (map (cc_enc_field en) fs)))"
  using assms
proof (induction fs arbitrary: off acc)
  case Nil
  then show ?case by (simp add: cc_header_fields.simps)
next
  case (Cons f fs)
  have "0 < length (cc_enc_field en f)" by (simp add: cc_enc_field_def)
  with Cons show ?case
    by (simp add: cc_header_fields_step [of f bs off] flip: add.assoc)
qed

definition cc_header_ok :: "cc_header \<Rightarrow> bool" where
  "cc_header_ok h \<longleftrightarrow>
     list_all cc_field_ok (cc_fields h)
     \<and> sum_list (map (\<lambda>f. 4 + length (cc_field_value f)) (cc_fields h)) < 2 ^ 16"

interpretation chdr: file_codec "cc_enc_header en" "\<lambda>out h. cc_header_write_to h out en"
  "\<lambda>bs off. cc_header_parse bs off en" cc_header_ok for en
proof
  fix h :: cc_header and out
  assume "cc_header_ok h"
  then show "cc_header_write_to h out en = Inr (out @ cc_enc_header en h)"
    by (simp add: cc_header_write_to_def cc_header_ok_def cc_fields_write_enc cc_enc_header_def
        write_len_16 [of "length (concat (map (cc_enc_field en) (cc_fields h)))", unfolded length_cc_enc_fields]
        length_cc_enc_fields)
next
  fix h :: cc_header and bs off
  let ?b = "concat (map (cc_enc_field en) (cc_fields h))"
  assume ok: "cc_header_ok h" and at: "has_at bs off (cc_enc_header en h)" and l: "length bs < 2 ^ 64"
  then have b: "length ?b < 2 ^ 16" by (simp add: cc_header_ok_def length_cc_enc_fields)
  have a1: "has_at bs off (to_bytes_en en (word_of_nat (length ?b) :: u16))" and a2: "has_at bs (off + 2) ?b"
    using at by (simp_all add: cc_enc_header_def)
  have "unat (word_of_nat (length ?b) :: u16) = length ?b" using b by (simp add: unat_of_nat)
  moreover have "checked_end bs (off + 2) (length ?b) = Inr (off + 2 + length ?b)"
    using has_at_length [OF a2] l by (simp add: checked_end_eq_Inr)
  moreover have "cc_header_fields bs (off + 2) (off + 2 + length ?b) en [] =
      Inr ([] @ cc_fields h, off + 2 + length ?b)"
    using ok a2 l by (intro cc_header_fields_enc) (simp add: cc_header_ok_def)
  ultimately show "cc_header_parse bs off en = Inr (h, off + length (cc_enc_header en h))"
    using read_u16_at [OF a1 l] by (simp add: cc_header_parse_def cc_enc_header_def)
qed

section \<open>The file\<close>

lemma cc_parse_credentials_enc:
  assumes "list_all (cc_credential_ok v) cs" and "has_at bs off (concat (map (cc_enc_credential v en) cs))"
    and "length bs = off + length (concat (map (cc_enc_credential v en) cs))" and "length bs < 2 ^ 64"
  shows "cc_parse_credentials bs off v en acc = Inr (acc @ cs)"
  using assms
proof (induction cs arbitrary: off acc)
  case Nil
  then show ?case by (simp add: cc_parse_credentials.simps)
next
  case (Cons c cs)
  have "0 < length (cc_enc_credential v en c)" by (simp add: cc_enc_credential_def)
  with Cons show ?case
    by (subst cc_parse_credentials.simps) (simp add: ccred.read_enc [of v c])
qed

lemma ccache_ok_header: "ccache_ok cc \<Longrightarrow> cc_header_ok (cc_header cc)"
  by (simp add: ccache_ok_def cc_header_ok_def)

lemma ccache_to_bytes_enc:
  assumes "ccache_ok cc"
  shows "ccache_to_bytes le cc = Inr (ccache_enc le cc)"
proof -
  have "\<forall>c \<in> set (cc_credentials cc). cc_credential_ok (cc_version cc) c"
    using assms by (simp add: ccache_ok_def list_all_iff)
  then show ?thesis
    using assms ccache_ok_header [OF assms]
    by (simp add: ccache_to_bytes_def ccache_enc_def ccache_ok_def Let_def chdr.write_enc
        cprin.write_enc ccred.write_list_enc)
qed

lemma ccache_parse_enc:
  assumes ok: "ccache_ok cc" and l: "length (ccache_enc le cc) < 2 ^ 64"
  shows "ccache_parse le (ccache_enc le cc) = Inr cc"
proof -
  define v en bs where "v = cc_version cc" and "en = cc_endian_for_version le v" and "bs = ccache_enc le cc"
  let ?h = "if v = 4 then cc_enc_header en (cc_header cc) else []"
  let ?p = "cc_enc_principal v en (cc_default_principal cc)"
  let ?c = "concat (map (cc_enc_credential v en) (cc_credentials cc))"
  have bs: "bs = [CCACHE_FIRST_BYTE, v] @ ?h @ ?p @ ?c"
    by (simp add: bs_def ccache_enc_def v_def en_def Let_def)
  have "has_at bs 0 ([CCACHE_FIRST_BYTE, v] @ ?h @ ?p @ ?c)"
    unfolding bs by (rule has_at_self)
  then have at: "has_at bs 2 ?h" "has_at bs (2 + length ?h) ?p" "has_at bs (2 + length ?h + length ?p) ?c"
    by (simp_all only: has_at_append) (simp_all add: numeral_2_eq_2)
  have "(if v = 4 then cc_header_parse bs 2 en else Inr (\<lparr>cc_fields = []\<rparr>, 2)) = Inr (cc_header cc, 2 + length ?h)"
    using ok ccache_ok_header [OF ok] at(1) l chdr.read_enc [of "cc_header cc" bs 2 en]
    by (auto simp: ccache_ok_def v_def bs_def)
  moreover have "cc_principal_parse bs (2 + length ?h) v en = Inr (cc_default_principal cc, 2 + length ?h + length ?p)"
    using ok at(2) l by (intro cprin.read_enc) (auto simp: ccache_ok_def v_def bs_def)
  moreover have "cc_parse_credentials bs (2 + length ?h + length ?p) v en [] = Inr ([] @ cc_credentials cc)"
    using ok at(3) l by (intro cc_parse_credentials_enc) (auto simp: ccache_ok_def v_def bs bs_def [symmetric])
  moreover have "bs ! 0 = CCACHE_FIRST_BYTE" "bs ! 1 = v" "\<not> length bs < 2" by (simp_all add: bs)
  moreover have "1 \<le> v" "v \<le> 4" "cc_version cc = v" using ok by (auto simp: ccache_ok_def v_def)
  ultimately have "ccache_parse le bs = Inr cc"
    unfolding ccache_parse_def by (simp add: Let_def flip: en_def del: One_nat_def if_split)
  then show ?thesis by (simp add: bs_def)
qed

text \<open>
  C20: A credential cache of any of the four file versions that satisfies the format's limits
  (16-bit types, 31-bit lengths and counts, a header only in version 4 and within its 16-bit
  length, a KDC offset field of 8 bytes, name types only from version 2 on) is written by
  \<open>to_bytes\<close>, and parsing the written bytes gives the same cache back.
\<close>

theorem ccache_roundtrip:
  assumes "ccache_ok cc"
  shows "\<exists>out. ccache_to_bytes le cc = Inr out \<and> (length out < 2 ^ 64 \<longrightarrow> ccache_parse le out = Inr cc)"
  using ccache_to_bytes_enc [OF assms] ccache_parse_enc [OF assms] by simp

section \<open>What a parse returns\<close>

lemma read_data_ok:
  assumes "read_data bs off en = Inr (d, off')"
  shows "data_ok d"
proof -
  from assms obtain n :: i32 and off1 where "read_bytes bs off1 (nat (sint n)) = Inr (d, off')"
    by (auto simp: read_data_def read_count_def rbind_eq_Inr split: if_splits)
  from read_bytes_length [OF this] show ?thesis using sint_range_32 [of n] by (simp add: data_ok_def)
qed

lemma read_count_lt:
  assumes "read_count bs off en = Inr (n, off')"
  shows "n < 2 ^ 31"
proof -
  from assms obtain w :: i32 where "n = nat (sint w)"
    by (auto simp: read_count_def rbind_eq_Inr split: if_splits)
  then show ?thesis using sint_range_32 [of w] by simp
qed

lemma cc_read_counted_string_ok:
  assumes "cc_read_counted_string bs off en = Inr (s, off')"
  shows "cc_string_ok s"
proof -
  from assms obtain raw where "read_data bs off en = Inr (raw, off')" and "from_utf8 raw = Inr s"
    by (auto simp: cc_read_counted_string_def rbind_eq_Inr)
  then show ?thesis
    using read_data_ok by (auto simp: cc_string_ok_def from_utf8_eq_Inr data_ok_def dest!: read_data_ok)
qed

lemma cc_principal_parse_elim:
  assumes "cc_principal_parse bs off v en = Inr (p, off')"
  obtains n off1 off2 where "n + (if v = 1 then 1 else 0) < 2 ^ 31"
    and "cc_read_counted_string bs off1 en = Inr (cc_realm p, off2)"
    and "read_n (\<lambda>bs off. cc_read_counted_string bs off en) n bs off2 = Inr (cc_components p, off')"
    and "v = 1 \<longrightarrow> cc_name_type p = 0"
proof (cases "v = 1")
  case True
  with assms obtain count :: i32 and off1 off2 where "1 \<le> sint count"
    "cc_read_counted_string bs off1 en = Inr (cc_realm p, off2)"
    "read_n (\<lambda>bs off. cc_read_counted_string bs off en) (nat (sint count - 1)) bs off2 = Inr (cc_components p, off')"
    "cc_name_type p = 0"
    by (auto simp: cc_principal_parse_def rbind_eq_Inr not_less split: if_splits)
  then show ?thesis using True that [of "nat (sint count - 1)"] sint_range_32 [of count] by auto
next
  case False
  with assms obtain count :: i32 and off1 off2 where
    "cc_read_counted_string bs off1 en = Inr (cc_realm p, off2)"
    "read_n (\<lambda>bs off. cc_read_counted_string bs off en) (nat (sint count)) bs off2 = Inr (cc_components p, off')"
    by (auto simp: cc_principal_parse_def rbind_eq_Inr split: if_splits)
  then show ?thesis using False that [of "nat (sint count)"] sint_range_32 [of count] by auto
qed

lemma cc_principal_parse_ok:
  assumes "cc_principal_parse bs off v en = Inr (p, off')"
  shows "cc_principal_ok v p"
proof -
  from assms obtain n off1 off2 where n: "n + (if v = 1 then 1 else 0) < 2 ^ 31"
    and realm: "cc_read_counted_string bs off1 en = Inr (cc_realm p, off2)"
    and comps: "read_n (\<lambda>bs off. cc_read_counted_string bs off en) n bs off2 = Inr (cc_components p, off')"
    and nt: "v = 1 \<longrightarrow> cc_name_type p = 0"
    by (rule cc_principal_parse_elim)
  have "\<forall>c \<in> set (cc_components p). cc_string_ok c"
    using comps by (rule read_n_all) (rule cc_read_counted_string_ok)
  then show ?thesis
    using n nt read_n_length [OF comps] cc_read_counted_string_ok [OF realm]
    by (simp add: cc_principal_ok_def list_all_iff)
qed

lemma type_ok_scast: "type_ok (scast (w :: i16))"
  using sint_range_16 [of w] by (simp add: type_ok_def sint_scast_16)

lemma cc_entry_parse_ok:
  "cc_host_address_parse bs off en = Inr (a, off') \<Longrightarrow> type_ok (cc_addr_type a) \<and> data_ok (cc_address a)"
  "cc_auth_data_parse bs off en = Inr (d, off') \<Longrightarrow> type_ok (cc_ad_type d) \<and> data_ok (cc_data d)"
  by (auto simp: cc_host_address_parse_def cc_auth_data_parse_def rbind_eq_Inr type_ok_scast dest: read_data_ok)

lemma cc_credential_parse_ok:
  assumes "cc_credential_parse bs off v en = Inr (c, off')"
  shows "cc_credential_ok v c"
proof -
  from assms obtain o1 o2 o4 o5 e o10 o11 n o12 o13 m o14 o15 o16 o17 o18 where
    p: "cc_principal_parse bs off v en = Inr (cc_client c, o1)"
      "cc_principal_parse bs o1 v en = Inr (cc_server c, o2)"
    and e: "cc_etype (cc_key c) = scast (e :: i16)" "read_data bs o4 en = Inr (cc_value (cc_key c), o5)"
    and f: "read_bytes bs o10 4 = Inr (cc_ticket_flags c, o11)"
    and a: "read_count bs o11 en = Inr (n, o12)"
      "read_n (\<lambda>bs off. cc_host_address_parse bs off en) n bs o12 = Inr (cc_addresses c, o13)"
    and d: "read_count bs o13 en = Inr (m, o14)"
      "read_n (\<lambda>bs off. cc_auth_data_parse bs off en) m bs o14 = Inr (cc_auth_data c, o15)"
    and t: "read_data bs o15 en = Inr (cc_ticket c, o16)" "read_data bs o17 en = Inr (cc_second_ticket c, o18)"
    by (auto simp: cc_credential_parse_def rbind_eq_Inr simp del: if_split)
  have "list_all (\<lambda>a. type_ok (cc_addr_type a) \<and> data_ok (cc_address a)) (cc_addresses c)"
    "list_all (\<lambda>a. type_ok (cc_ad_type a) \<and> data_ok (cc_data a)) (cc_auth_data c)"
    unfolding list_all_iff
    using read_n_all [OF a(2), of "\<lambda>a. type_ok (cc_addr_type a) \<and> data_ok (cc_address a)"]
      read_n_all [OF d(2), of "\<lambda>a. type_ok (cc_ad_type a) \<and> data_ok (cc_data a)"] cc_entry_parse_ok by blast+
  then show ?thesis
    using p e t read_count_lt [OF a(1)] read_count_lt [OF d(1)] read_n_length [OF a(2)] read_n_length [OF d(2)]
      read_bytes_length [OF f]
    by (auto simp: cc_credential_ok_def type_ok_scast dest: cc_principal_parse_ok read_data_ok)
qed

lemma cc_parse_credentials_ok:
  "cc_parse_credentials bs off v en acc = Inr cs \<Longrightarrow> list_all (cc_credential_ok v) acc \<Longrightarrow>
   list_all (cc_credential_ok v) cs"
proof (induction bs off v en acc rule: cc_parse_credentials.induct)
  case (1 bs off v en acc)
  show ?case
  proof (cases "off < length bs")
    case True
    with "1.prems"(1) obtain c off1 where c: "cc_credential_parse bs off v en = Inr (c, off1)"
      and r: "cc_parse_credentials bs off1 v en (acc @ [c]) = Inr cs"
      by (auto simp: cc_parse_credentials.simps [of bs off v en acc] rbind_eq_Inr)
    show ?thesis
      using "1.IH" [OF True c refl r] "1.prems"(2) cc_credential_parse_ok [OF c] by simp
  next
    case False
    with "1.prems" show ?thesis by (simp add: cc_parse_credentials.simps [of bs off v en acc])
  qed
qed

lemma cc_header_fields_ok:
  "cc_header_fields bs off end en acc = Inr (fs, off') \<Longrightarrow> list_all cc_field_ok acc \<Longrightarrow>
   list_all cc_field_ok fs
   \<and> off' + sum_list (map (\<lambda>f. 4 + length (cc_field_value f)) acc) =
       off + sum_list (map (\<lambda>f. 4 + length (cc_field_value f)) fs)"
proof (induction bs off "end" en acc rule: cc_header_fields.induct)
  case (1 bs off "end" en acc)
  show ?case
  proof (cases "off < end")
    case True
    with "1.prems"(1) obtain tag o1 n o2 val o3 where
      r1: "read_u16 bs off en = Inr (tag, o1)" and r2: "read_u16 bs o1 en = Inr (n, o2)"
      and r3: "read_bytes bs o2 (unat n) = Inr (val, o3)"
      and v: "cc_field_validate \<lparr>cc_tag = tag, cc_field_value = val\<rparr> = Inr ()"
      and r: "cc_header_fields bs o3 end en (acc @ [\<lparr>cc_tag = tag, cc_field_value = val\<rparr>]) = Inr (fs, off')"
      by (auto simp: cc_header_fields.simps [of bs off "end" en acc] rbind_eq_Inr Let_def)
    have o3: "o3 = off + 4 + length val" and n: "length val < 2 ^ 16"
      using read_advance(3) [OF r1] read_advance(3) [OF r2] read_bytes_length [OF r3] r3 unat_lt_pow [of n]
      by (auto simp: read_bytes_eq_Inr)
    have "cc_field_ok \<lparr>cc_tag = tag, cc_field_value = val\<rparr>"
      using v n by (auto simp: cc_field_validate_def cc_field_ok_def split: if_splits)
    then show ?thesis
      using "1.IH" [OF True r1 refl r2 refl r3 refl refl v r] "1.prems"(2) o3 by simp
  next
    case False
    with "1.prems" show ?thesis by (simp add: cc_header_fields.simps [of bs off "end" en acc])
  qed
qed

lemma cc_header_parse_ok:
  assumes "cc_header_parse bs off en = Inr (h, off')"
  shows "cc_header_ok h"
proof -
  from assms obtain n :: u16 and o1 where
    "cc_header_fields bs o1 (o1 + unat n) en [] = Inr (cc_fields h, o1 + unat n)"
    by (auto simp: cc_header_parse_def rbind_eq_Inr checked_end_eq_Inr split: if_splits)
  from cc_header_fields_ok [OF this] show ?thesis
    using unat_lt_pow [of n] by (simp add: cc_header_ok_def)
qed

lemma ccache_parse_ok:
  assumes "ccache_parse le bs = Inr cc"
  shows "ccache_ok cc"
proof -
  define v en where "v = bs ! 1" and "en = cc_endian_for_version le v"
  from assms obtain off1 off2 where v: "1 \<le> v" "v \<le> 4" "cc_version cc = v"
    and h: "(if v = 4 then cc_header_parse bs 2 en else Inr (\<lparr>cc_fields = []\<rparr>, 2)) = Inr (cc_header cc, off1)"
    and p: "cc_principal_parse bs off1 v en = Inr (cc_default_principal cc, off2)"
    and c: "cc_parse_credentials bs off2 v en [] = Inr (cc_credentials cc)"
    by (auto simp: ccache_parse_def Let_def rbind_eq_Inr v_def en_def simp del: if_split split: if_split_asm)
  have "v \<noteq> 4 \<longrightarrow> cc_header cc = \<lparr>cc_fields = []\<rparr>" using h by auto
  moreover have "v = 4 \<longrightarrow> cc_header_ok (cc_header cc)" using h by (auto dest: cc_header_parse_ok)
  ultimately have "cc_header_ok (cc_header cc)" "v \<noteq> 4 \<longrightarrow> cc_fields (cc_header cc) = []"
    by (auto simp: cc_header_ok_def)
  then show ?thesis
    using v cc_principal_parse_ok [OF p] cc_parse_credentials_ok [OF c]
    by (auto simp: ccache_ok_def cc_header_ok_def)
qed

text \<open>
  Every cache that \<open>CCache::parse\<close> returns satisfies the format's limits, so it can
  always be written, and the file written for it parses to the same cache: reading a cache
  and saving it unchanged loses nothing.
\<close>

lemma ccache_parse_normalizes:
  assumes "ccache_parse le bs = Inr cc"
  shows "ccache_ok cc \<and>
    (\<exists>out. ccache_to_bytes le cc = Inr out \<and> (length out < 2 ^ 64 \<longrightarrow> ccache_parse le out = Inr cc))"
  using ccache_parse_ok [OF assms] ccache_to_bytes_enc ccache_parse_enc by blast

section \<open>Witnesses\<close>

definition ex_fmt_cc :: ccache where
  "ex_fmt_cc =
     \<lparr>cc_version = 4, cc_header = \<lparr>cc_fields = [\<lparr>cc_tag = 1, cc_field_value = [0, 0, 0, 0, 0, 0, 0, 9]\<rparr>]\<rparr>,
      cc_default_principal = \<lparr>cc_realm = ''R'', cc_name_type = 1, cc_components = [''u'']\<rparr>,
      cc_credentials =
       [\<lparr>cc_client = \<lparr>cc_realm = ''R'', cc_name_type = 1, cc_components = [''u'']\<rparr>,
         cc_server = \<lparr>cc_realm = ''R'', cc_name_type = 2, cc_components = [''krbtgt'', ''R'']\<rparr>,
         cc_key = \<lparr>cc_etype = - 3, cc_value = [1, 2]\<rparr>,
         cc_times = \<lparr>cc_auth_time = 1, cc_start_time = 1, cc_end_time = 9, cc_renew_till = 0\<rparr>,
         cc_is_skey = True, cc_ticket_flags = [0, 1, 0, 0],
         cc_addresses = [\<lparr>cc_addr_type = 2, cc_address = [127, 0, 0, 1]\<rparr>],
         cc_auth_data = [], cc_ticket = [97], cc_second_ticket = []\<rparr>]\<rparr>"

lemma ex_fmt_cc_ok: "ccache_ok ex_fmt_cc"
  by (simp add: ex_fmt_cc_def ccache_ok_def cc_field_ok_def cc_principal_ok_def cc_string_ok_def
      cc_credential_ok_def type_ok_def data_ok_def)

lemma ex_fmt_cc_parse: "ccache_parse True (ccache_enc True ex_fmt_cc) = Inr ex_fmt_cc"
  by (rule ccache_parse_enc [OF ex_fmt_cc_ok])
    (simp add: ex_fmt_cc_def ccache_enc_def cc_enc_header_def cc_enc_field_def cc_enc_principal_def
      cc_enc_credential_def cc_enc_tagged_def Let_def)

theorem ccache_roundtrip_witness:
  "\<exists>out. ccache_to_bytes True ex_fmt_cc = Inr out \<and> (length out < 2 ^ 64 \<longrightarrow> ccache_parse True out = Inr ex_fmt_cc)"
  by (rule ccache_roundtrip [OF ex_fmt_cc_ok])

lemma ccache_parse_normalizes_witness: "ccache_ok ex_fmt_cc \<and> is_ok (ccache_to_bytes True ex_fmt_cc)"
  using ccache_parse_normalizes [OF ex_fmt_cc_parse] by auto

end
