(* ===== verification/Keyed_Store.thy ===== *)
theory Keyed_Store
  imports Main
begin

text \<open>
  The contract of a container that holds at most one visible value per key and replaces it on
  insertion: what the program expects of its credential lists and caches.  \<open>view\<close> is the
  abstract content, \<open>put\<close> the insertion.
\<close>

locale keyed_store =
  fixes key :: "'v \<Rightarrow> 'k"
    and view :: "'s \<Rightarrow> 'k \<rightharpoonup> 'v"
    and put :: "'s \<Rightarrow> 'v \<Rightarrow> 's"
  assumes view_put: "view (put s v) = (view s)(key v \<mapsto> v)"
begin

lemma view_put_same: "view (put s v) (key v) = Some v"
  by (simp add: view_put)

lemma view_put_other: "k \<noteq> key v \<Longrightarrow> view (put s v) k = view s k"
  by (simp add: view_put)

text \<open>The last insertion for a key wins, and insertions for different keys commute.\<close>

lemma put_overwrites: "key v = key w \<Longrightarrow> view (put (put s v) w) = view (put s w)"
  by (simp add: view_put)

lemma put_commutes: "key v \<noteq> key w \<Longrightarrow> view (put (put s v) w) = view (put (put s w) v)"
  by (simp add: view_put fun_upd_twist)

text \<open>A sequence of insertions leaves for each key the last value inserted for it.\<close>

lemma view_foldl:
  "view (foldl put s vs) = view s ++ map_of (rev (map (\<lambda>v. (key v, v)) vs))"
proof (induction vs arbitrary: s)
  case (Cons v vs)
  then show ?case by (simp add: view_put map_add_def fun_eq_iff split: option.split)
qed simp

end

end
