(* ===== verification/Files.thy ===== *)
theory Files
  imports Byte_Cursor File_Name
begin

text \<open>
  Files, paths and environment variables as the stores of the library use them.  The operating system is the record \<open>file_env\<close>:
  \<open>std::fs::read\<close> and \<open>std::fs::write\<close> as functions on a state of any type, \<open>Path::is_file\<close> and \<open>std::env::var_os\<close>.  What the
  round trips rely on is \<open>files_ok\<close>: a file that was written is read back, and the files at other paths stay as they are.
\<close>

record 'w file_env =
  fe_read :: "string \<Rightarrow> 'w \<Rightarrow> io_fault + bytes"
  fe_write :: "string \<Rightarrow> bytes \<Rightarrow> 'w \<Rightarrow> (io_fault + unit) \<times> 'w"
  fe_is_file :: "string \<Rightarrow> 'w \<Rightarrow> bool"
  fe_var_os :: "string \<Rightarrow> string option"

section \<open>Environment variables\<close>

text \<open>\<open>std::env::var\<close>, and the variables that are set and valid Unicode.\<close>

definition fe_var :: "'w file_env \<Rightarrow> string \<Rightarrow> env_var" where
  "fe_var F name = (case fe_var_os F name of
      None \<Rightarrow> VarNotPresent | Some v \<Rightarrow> if str_ok v then VarSet v else VarNotUnicode)"

definition fe_environment :: "'w file_env \<Rightarrow> environment" where
  "fe_environment F name = (case fe_var F name of VarSet v \<Rightarrow> Some v | _ \<Rightarrow> None)"

section \<open>Reading\<close>

definition file_bytes :: "'w file_env \<Rightarrow> string \<Rightarrow> 'w \<Rightarrow> store_error + bytes" where
  "file_bytes F path w = map_err Io (fe_read F path w)"

text \<open>\<open>std::fs::read_to_string\<close> reports contents that are not UTF-8 as an I/O error of another kind.\<close>

definition read_to_string :: "'w file_env \<Rightarrow> string \<Rightarrow> 'w \<Rightarrow> io_fault + string" where
  "read_to_string F path w =
     rbind (fe_read F path w) (\<lambda>raw. if utf8_valid raw then Inr (bytes_str raw) else Inl OtherFault)"

section \<open>Paths\<close>

text \<open>
  \<open>std::path::Path\<close> on Unix: the components of a path are the root, if it starts with a slash,
  and its segments without the empty ones and without \<open>.\<close> except in front of a relative path.
\<close>

datatype path_component = RootDir | CurDir | ParentDir | Normal string

definition path_segment :: "string \<Rightarrow> path_component list" where
  "path_segment s = (if s = [] \<or> s = ''.'' then [] else if s = ''..'' then [ParentDir] else [Normal s])"

definition path_components :: "string \<Rightarrow> path_component list" where
  "path_components path =
     (let segs = split_on (CHR ''/'') path
      in (if starts_with_char path (CHR ''/'') then [RootDir]
          else if hd segs = ''.'' then [CurDir] else []) @ concat (map path_segment segs))"

definition path_file_name :: "string \<Rightarrow> string option" where
  "path_file_name path =
     (case rev (path_components path) of Normal s # _ \<Rightarrow> Some s | _ \<Rightarrow> None)"

text \<open>\<open>path.parent()\<close> is some non-empty path: there is a component before the last one.\<close>

definition path_has_parent :: "string \<Rightarrow> bool" where
  "path_has_parent path \<longleftrightarrow> 2 \<le> length (path_components path)"

definition path_join :: "string \<Rightarrow> string \<Rightarrow> string" where
  "path_join dir p =
     (if starts_with_char p (CHR ''/'') then p
      else if dir = [] \<or> last dir = CHR ''/'' then dir @ p else dir @ ''/'' @ p)"

definition plain_name :: "string \<Rightarrow> bool" where
  "plain_name s \<longleftrightarrow> s \<noteq> [] \<and> s \<noteq> ''.'' \<and> s \<noteq> ''..'' \<and> CHR ''/'' \<notin> set s"

lemma split_on_last: "d \<notin> set p \<Longrightarrow> split_on d (s @ d # p) = split_on d s @ [p]"
  by (induction s) (auto simp: split_on_no_sep split: list.splits)

text \<open>The last component of a path that a plain name was joined to is that name.\<close>

lemma path_file_name_join:
  assumes "plain_name p"
  shows "path_file_name (path_join dir p) = Some p"
proof -
  have p: "path_segment p = [Normal p]" "CHR ''/'' \<notin> set p" using assms by (auto simp: plain_name_def path_segment_def)
  have "\<exists>cs. path_components (path_join dir p) = cs @ [Normal p]"
  proof (cases "dir = []")
    case True
    then show ?thesis using assms p split_on_no_sep [OF p(2)]
      by (auto simp: path_join_def path_components_def plain_name_def)
  next
    case False
    have b: "butlast dir @ ''/'' = dir" if "last dir = CHR ''/''"
      using append_butlast_last_id [OF False] that by simp
    have "path_join dir p = (if last dir = CHR ''/'' then butlast dir else dir) @ CHR ''/'' # p"
    proof (cases "last dir = CHR ''/''")
      case True
      then have "butlast dir @ CHR ''/'' # p = dir @ p" using b by (metis append_Cons append_assoc append_Nil)
      then show ?thesis using True assms by (auto simp: path_join_def plain_name_def starts_with_char_def split: list.splits)
    qed (use False assms in \<open>auto simp: path_join_def plain_name_def starts_with_char_def split: list.splits\<close>)
    then show ?thesis using p split_on_last [OF p(2)] by (simp add: path_components_def Let_def)
  qed
  then show ?thesis by (auto simp: path_file_name_def)
qed

section \<open>The file system\<close>

definition files_ok :: "'w file_env \<Rightarrow> bool" where
  "files_ok F \<longleftrightarrow> (\<forall>p bs w w'. fe_write F p bs w = (Inr (), w') \<longrightarrow>
     fe_read F p w' = Inr bs \<and> (\<forall>q. path_components q \<noteq> path_components p \<longrightarrow> fe_read F q w' = fe_read F q w))"

lemma files_ok_written:
  assumes "files_ok F" and "fe_write F p bs w = (Inr (), w')"
  shows "fe_read F p w' = Inr bs"
    and "path_components q \<noteq> path_components p \<Longrightarrow> fe_read F q w' = fe_read F q w"
  using assms by (auto simp: files_ok_def)

text \<open>A file system that is a map from paths to contents, without directories and permissions.\<close>

definition map_files :: "(string \<Rightarrow> string option) \<Rightarrow> (path_component list \<rightharpoonup> bytes) file_env" where
  "map_files vars = \<lparr>fe_read = (\<lambda>p w. case w (path_components p) of Some bs \<Rightarrow> Inr bs | None \<Rightarrow> Inl NotFound),
     fe_write = (\<lambda>p bs w. (Inr (), w(path_components p \<mapsto> bs))),
     fe_is_file = (\<lambda>p w. w (path_components p) \<noteq> None), fe_var_os = vars\<rparr>"

lemma map_files_ok: "files_ok (map_files vars)"
  by (simp add: files_ok_def map_files_def)

end
