(* ===== verification/CCache_Ops.thy ===== *)
theory CCache_Ops
  imports CCache Keyed_Store Files
begin

text \<open>
  The operations of \<open>src/ccache.rs\<close> on a parsed cache (insertion, removal, configuration
  entries, lookups, redacted metadata) and its cache names, with the properties of each.
\<close>

section \<open>Operations on the credentials\<close>

definition cc_same_principal_identity :: "cc_principal \<Rightarrow> cc_principal \<Rightarrow> bool" where
  "cc_same_principal_identity left right \<longleftrightarrow>
     cc_realm left = cc_realm right \<and> cc_components left = cc_components right"

definition cc_parse_config_entry :: "cc_credential \<Rightarrow> cc_config_entry option" where
  "cc_parse_config_entry c =
     (if cc_realm (cc_server c) \<noteq> X_CACHECONF_REALM then None
      else let components = cc_components (cc_server c) in
        if \<not> (2 \<le> length components \<and> length components \<le> 3)
           \<or> components ! 0 \<noteq> X_CACHECONF_COMPONENT then None
        else Some \<lparr>cf_key = components ! 1,
                   cf_principal = (if 2 < length components then Some (components ! 2) else None),
                   cf_value = cc_ticket c\<rparr>)"

definition cc_is_config_credential :: "cc_credential \<Rightarrow> bool" where
  "cc_is_config_credential c \<longleftrightarrow> cc_parse_config_entry c \<noteq> None"

definition cc_credential_config_entry ::
  "cc_principal \<Rightarrow> string \<Rightarrow> string option \<Rightarrow> bytes \<Rightarrow> cc_credential" where
  "cc_credential_config_entry client key prin val =
     \<lparr>cc_client = client,
      cc_server = cc_principal_new X_CACHECONF_REALM 0
        ([X_CACHECONF_COMPONENT, key] @ (case prin of Some p \<Rightarrow> [p] | None \<Rightarrow> [])),
      cc_key = \<lparr>cc_etype = 0, cc_value = []\<rparr>,
      cc_times = \<lparr>cc_auth_time = 0, cc_start_time = 0, cc_end_time = 0, cc_renew_till = 0\<rparr>,
      cc_is_skey = False, cc_ticket_flags = [0, 0, 0, 0], cc_addresses = [], cc_auth_data = [],
      cc_ticket = val, cc_second_ticket = []\<rparr>"

text \<open>
  \<open>iter_mut().find(..)\<close> and \<open>mem::replace\<close>: the replaced credential, if any, and the new list.
\<close>

fun cc_replace_first :: "cc_credential \<Rightarrow> cc_credential list \<Rightarrow> cc_credential option \<times> cc_credential list" where
  "cc_replace_first c [] = (None, [])"
| "cc_replace_first c (x # xs) =
     (if cc_client x = cc_client c \<and> cc_server x = cc_server c then (Some x, c # xs)
      else let (old, ys) = cc_replace_first c xs in (old, x # ys))"

definition upsert_credential :: "ccache \<Rightarrow> cc_credential \<Rightarrow> cc_credential option \<times> ccache" where
  "upsert_credential cc c =
     (case cc_replace_first c (cc_credentials cc) of
        (Some old, creds) \<Rightarrow> (Some old, cc\<lparr>cc_credentials := creds\<rparr>)
      | (None, _) \<Rightarrow> (None, cc\<lparr>cc_credentials := cc_credentials cc @ [c]\<rparr>))"

definition upsert_config_entry ::
  "ccache \<Rightarrow> string \<Rightarrow> string option \<Rightarrow> bytes \<Rightarrow> cc_credential option \<times> ccache" where
  "upsert_config_entry cc key prin val =
     upsert_credential cc (cc_credential_config_entry (cc_default_principal cc) key prin val)"

text \<open>The \<open>while index < len\<close> loop with \<open>Vec::remove\<close>.\<close>

function cc_remove_loop ::
  "cc_principal \<Rightarrow> cc_credential list \<Rightarrow> nat \<Rightarrow> cc_credential list \<Rightarrow> cc_credential list \<times> cc_credential list" where
  "cc_remove_loop client creds index removed =
     (if index < length creds then
        (if cc_same_principal_identity (cc_client (creds ! index)) client
            \<and> \<not> cc_is_config_credential (creds ! index)
         then cc_remove_loop client (take index creds @ drop (Suc index) creds) index (removed @ [creds ! index])
         else cc_remove_loop client creds (Suc index) removed)
      else (removed, creds))"
  by pat_completeness auto
termination
  by (relation "measure (\<lambda>(client, creds, index, removed). length creds - index)") auto

declare cc_remove_loop.simps [simp del]

definition remove_entries_for_client :: "ccache \<Rightarrow> cc_principal \<Rightarrow> cc_credential list \<times> ccache" where
  "remove_entries_for_client cc client =
     (let (removed, creds) = cc_remove_loop client (cc_credentials cc) 0 []
      in (removed, cc\<lparr>cc_credentials := creds\<rparr>))"

definition cc_entries :: "ccache \<Rightarrow> cc_credential list" where
  "cc_entries cc = filter (\<lambda>c. \<not> cc_is_config_credential c) (cc_credentials cc)"

definition config_entries :: "ccache \<Rightarrow> cc_config_entry list" where
  "config_entries cc = List.map_filter cc_parse_config_entry (cc_credentials cc)"

definition config_entry_value :: "ccache \<Rightarrow> string \<Rightarrow> string option \<Rightarrow> bytes option" where
  "config_entry_value cc key prin =
     map_option cf_value (find (\<lambda>e. cf_key e = key \<and> cf_principal e = prin) (config_entries cc))"

definition get_entry :: "ccache \<Rightarrow> string list \<Rightarrow> cc_credential option" where
  "get_entry cc components = find (\<lambda>c. cc_matches_components (cc_server c) components) (cc_credentials cc)"

definition contains_server :: "ccache \<Rightarrow> string list \<Rightarrow> bool" where
  "contains_server cc components = (get_entry cc components \<noteq> None)"

record cc_metadata =
  cm_client :: string
  cm_server :: string
  cm_client_realm :: string
  cm_server_realm :: string
  cm_client_components :: "string list"
  cm_server_components :: "string list"
  cm_etype :: i32
  cm_key_length :: nat
  cm_times :: cc_times
  cm_is_skey :: bool
  cm_ticket_flags :: bytes
  cm_address_count :: nat
  cm_auth_data_count :: nat
  cm_ticket_length :: nat
  cm_second_ticket_length :: nat
  cm_is_config_entry :: bool

definition cc_metadata_from_credential :: "cc_credential \<Rightarrow> cc_metadata" where
  "cc_metadata_from_credential c =
     \<lparr>cm_client = cc_principal_string (cc_client c), cm_server = cc_principal_string (cc_server c),
      cm_client_realm = cc_realm (cc_client c), cm_server_realm = cc_realm (cc_server c),
      cm_client_components = cc_components (cc_client c), cm_server_components = cc_components (cc_server c),
      cm_etype = cc_etype (cc_key c), cm_key_length = length (cc_value (cc_key c)),
      cm_times = cc_times c, cm_is_skey = cc_is_skey c, cm_ticket_flags = cc_ticket_flags c,
      cm_address_count = length (cc_addresses c), cm_auth_data_count = length (cc_auth_data c),
      cm_ticket_length = length (cc_ticket c), cm_second_ticket_length = length (cc_second_ticket c),
      cm_is_config_entry = cc_is_config_credential c\<rparr>"

definition credential_metadata :: "ccache \<Rightarrow> cc_metadata list" where
  "credential_metadata cc = map cc_metadata_from_credential (cc_credentials cc)"

section \<open>Cache names\<close>

definition dir_subsidiary_path :: "string \<Rightarrow> string option" where
  "dir_subsidiary_path name =
     (case split_once (CHR '':'') name of
        None \<Rightarrow> None
      | Some (pfx, residual) \<Rightarrow>
          if eq_ignore_ascii_case pfx ''DIR'' \<and> starts_with_char residual (CHR '':'')
          then Some (tl residual) else None)"

definition dir_collection_path :: "string \<Rightarrow> string option" where
  "dir_collection_path name =
     (case split_once (CHR '':'') name of
        None \<Rightarrow> None
      | Some (pfx, residual) \<Rightarrow>
          if eq_ignore_ascii_case pfx ''DIR'' \<and> \<not> starts_with_char residual (CHR '':'')
          then Some residual else None)"

definition validate_dir_subsidiary_path :: "environment \<Rightarrow> string \<Rightarrow> store_error + string" where
  "validate_dir_subsidiary_path env path =
     (if path = [] then Inl InvalidCacheName
      else let path = expand_path_tokens env path in
        case path_file_name path of
          None \<Rightarrow> Inl InvalidCacheName
        | Some filename \<Rightarrow>
            if \<not> path_has_parent path \<or> \<not> prefix ''tkt'' filename then Inl InvalidCacheName
            else Inr path)"

definition direct_file_path_from_cache_name :: "environment \<Rightarrow> string \<Rightarrow> store_error + string" where
  "direct_file_path_from_cache_name env name =
     (case dir_subsidiary_path name of
        Some path \<Rightarrow> validate_dir_subsidiary_path env path
      | None \<Rightarrow>
          map_err (\<lambda>error. case error of
              Empty \<Rightarrow> InvalidCacheName
            | UnsupportedType name_type \<Rightarrow> UnsupportedCacheType name_type)
            (file_path_from_name env name [''FILE'', ''WRFILE'']))"

definition cache_name_parse :: "environment \<Rightarrow> string \<Rightarrow> store_error + cache_name" where
  "cache_name_parse env name =
     rbind (direct_file_path_from_cache_name env name) (\<lambda>path. Inr (CacheFile path))"

definition parse_dir_primary_name :: "string \<Rightarrow> store_error + string" where
  "parse_dir_primary_name contents =
     (case split_once (CHR 0x0A) contents of
        None \<Rightarrow> Inl InvalidCacheName
      | Some (line, _) \<Rightarrow>
          if \<not> prefix ''tkt'' line \<or> CHR ''/'' \<in> set line \<or> CHR 0x5C \<in> set line
          then Inl InvalidCacheName else Inr line)"

text \<open>
  The resolution of a \<open>DIR:\<close> collection reads the \<open>primary\<close> file and creates it when it is
  missing; the state of the file system is threaded through.
\<close>

definition dir_collection_primary_path :: "'w file_env \<Rightarrow> string \<Rightarrow> 'w \<Rightarrow> (store_error + string) \<times> 'w" where
  "dir_collection_primary_path F directory w =
     (if directory = [] then (Inl InvalidCacheName, w)
      else let directory = expand_path_tokens (fe_environment F) directory; primary_path = path_join directory ''primary'' in
        case read_to_string F primary_path w of
          Inr contents \<Rightarrow>
            (rbind (parse_dir_primary_name contents) (\<lambda>primary. Inr (path_join directory primary)), w)
        | Inl NotFound \<Rightarrow>
            (case fe_write F primary_path (str_bytes (''tkt'' @ [CHR 0x0A])) w of
               (Inl e, w) \<Rightarrow> (Inl (Io e), w)
             | (Inr _, w) \<Rightarrow> (Inr (path_join directory ''tkt''), w))
        | Inl OtherFault \<Rightarrow> (Inl (Io OtherFault), w))"

definition file_path_from_cache_name :: "'w file_env \<Rightarrow> string \<Rightarrow> 'w \<Rightarrow> (store_error + string) \<times> 'w" where
  "file_path_from_cache_name F name w =
     (case dir_collection_path name of
        Some directory \<Rightarrow> dir_collection_primary_path F directory w
      | None \<Rightarrow> (direct_file_path_from_cache_name (fe_environment F) name, w))"

section \<open>Insertion\<close>

definition cred_key :: "cc_credential \<Rightarrow> cc_principal \<times> cc_principal" where
  "cred_key c = (cc_client c, cc_server c)"

text \<open>The cache as a map from client and server principal to the first credential for them.\<close>

definition cc_view :: "ccache \<Rightarrow> (cc_principal \<times> cc_principal) \<rightharpoonup> cc_credential" where
  "cc_view cc k = find (\<lambda>c. cred_key c = k) (cc_credentials cc)"

lemma cc_replace_first_None:
  "fst (cc_replace_first c xs) = None \<longleftrightarrow> (\<forall>x \<in> set xs. cred_key x \<noteq> cred_key c)"
  by (induction xs) (auto simp: cred_key_def split: prod.splits)

lemma cc_replace_first_split:
  assumes "fst (cc_replace_first c xs) = Some old"
  obtains ys zs where "xs = ys @ old # zs" and "cred_key old = cred_key c"
    and "\<forall>y \<in> set ys. cred_key y \<noteq> cred_key c" and "snd (cc_replace_first c xs) = ys @ c # zs"
  using assms
proof (induction xs arbitrary: thesis)
  case (Cons x xs)
  show ?case
  proof (cases "cred_key x = cred_key c")
    case True
    with Cons.prems show ?thesis by (intro Cons.prems(1) [of "[]" xs]) (auto simp: cred_key_def)
  next
    case False
    with Cons.prems(2) have "fst (cc_replace_first c xs) = Some old"
      by (auto simp: cred_key_def split: prod.splits)
    then obtain ys zs where "xs = ys @ old # zs" "cred_key old = cred_key c"
      "\<forall>y \<in> set ys. cred_key y \<noteq> cred_key c" "snd (cc_replace_first c xs) = ys @ c # zs"
      using Cons.IH by blast
    with False show ?thesis by (intro Cons.prems(1) [of "x # ys" zs]) (auto simp: cred_key_def split: prod.splits)
  qed
qed simp

lemma find_append: "find P (xs @ ys) = (case find P xs of None \<Rightarrow> find P ys | Some x \<Rightarrow> Some x)"
  by (induction xs) auto

lemma find_None: "\<forall>x \<in> set xs. \<not> P x \<Longrightarrow> find P xs = None"
  by (induction xs) auto

text \<open>
  The two outcomes of an insertion: the first credential with the same principals is replaced
  in place, or the new one is appended.
\<close>

lemma upsert_credential_cases:
  obtains (replaced) ys old zs where "cc_credentials cc = ys @ old # zs" "cred_key old = cred_key c"
      "\<forall>y \<in> set ys. cred_key y \<noteq> cred_key c"
      "upsert_credential cc c = (Some old, cc\<lparr>cc_credentials := ys @ c # zs\<rparr>)"
  | (appended) "\<forall>x \<in> set (cc_credentials cc). cred_key x \<noteq> cred_key c"
      "upsert_credential cc c = (None, cc\<lparr>cc_credentials := cc_credentials cc @ [c]\<rparr>)"
proof (cases "fst (cc_replace_first c (cc_credentials cc))")
  case None
  then obtain ys where "cc_replace_first c (cc_credentials cc) = (None, ys)"
    by (cases "cc_replace_first c (cc_credentials cc)") auto
  moreover have "\<forall>x \<in> set (cc_credentials cc). cred_key x \<noteq> cred_key c"
    using None cc_replace_first_None by blast
  ultimately show ?thesis by (intro appended) (auto simp: upsert_credential_def)
next
  case (Some old)
  then obtain ys zs where r: "cc_credentials cc = ys @ old # zs" "cred_key old = cred_key c"
    "\<forall>y \<in> set ys. cred_key y \<noteq> cred_key c" "snd (cc_replace_first c (cc_credentials cc)) = ys @ c # zs"
    by (rule cc_replace_first_split)
  moreover have "cc_replace_first c (cc_credentials cc) = (Some old, ys @ c # zs)"
    using Some r(4) by (simp add: prod_eq_iff)
  ultimately show ?thesis by (intro replaced) (auto simp: upsert_credential_def)
qed

lemma cc_view_upsert: "cc_view (snd (upsert_credential cc c)) = (cc_view cc)(cred_key c \<mapsto> c)"
proof (rule ext)
  fix k
  show "cc_view (snd (upsert_credential cc c)) k = ((cc_view cc)(cred_key c \<mapsto> c)) k"
    by (cases rule: upsert_credential_cases [of cc c])
      (auto simp: cc_view_def find_append find_None split: option.splits)
qed

interpretation cred: keyed_store cred_key cc_view "\<lambda>cc c. snd (upsert_credential cc c)"
  by unfold_locales (rule cc_view_upsert)

text \<open>
  C35: Seen as a map from (client, server) to the credential found for them, inserting a
  credential is exactly a map update, and the insertion returns what the map held before; the
  other fields of the cache are kept, and a cache with one credential per pair keeps that
  property.
\<close>

theorem upsert_credential_refines:
  "cc_view (snd (upsert_credential cc c)) = (cc_view cc)((cc_client c, cc_server c) \<mapsto> c)
   \<and> fst (upsert_credential cc c) = cc_view cc (cc_client c, cc_server c)
   \<and> cc_version (snd (upsert_credential cc c)) = cc_version cc
   \<and> cc_header (snd (upsert_credential cc c)) = cc_header cc
   \<and> cc_default_principal (snd (upsert_credential cc c)) = cc_default_principal cc
   \<and> (distinct (map (\<lambda>x. (cc_client x, cc_server x)) (cc_credentials cc)) \<longrightarrow>
       distinct (map (\<lambda>x. (cc_client x, cc_server x)) (cc_credentials (snd (upsert_credential cc c)))))"
proof -
  have k: "(\<lambda>x. (cc_client x, cc_server x)) = cred_key" by (simp add: cred_key_def fun_eq_iff)
  have "fst (upsert_credential cc c) = cc_view cc (cred_key c) \<and>
      (distinct (map cred_key (cc_credentials cc)) \<longrightarrow>
       distinct (map cred_key (cc_credentials (snd (upsert_credential cc c)))))"
    by (cases rule: upsert_credential_cases [of cc c]) (auto simp: cc_view_def find_append find_None)
  moreover have "cc_version (snd (upsert_credential cc c)) = cc_version cc
      \<and> cc_header (snd (upsert_credential cc c)) = cc_header cc
      \<and> cc_default_principal (snd (upsert_credential cc c)) = cc_default_principal cc"
    by (cases rule: upsert_credential_cases [of cc c]) auto
  ultimately show ?thesis
    unfolding k using cred.view_put [of cc c] by (simp add: cred_key_def)
qed

section \<open>Removal\<close>

lemma cc_remove_loop_filter:
  "index \<le> length creds \<Longrightarrow>
   cc_remove_loop client creds index removed =
     (let P = (\<lambda>c. cc_same_principal_identity (cc_client c) client \<and> \<not> cc_is_config_credential c)
      in (removed @ filter P (drop index creds), take index creds @ filter (\<lambda>c. \<not> P c) (drop index creds)))"
proof (induction client creds index removed rule: cc_remove_loop.induct)
  case (1 client creds index removed)
  show ?case
  proof (cases "index < length creds")
    case False
    with "1.prems" show ?thesis by (simp add: cc_remove_loop.simps [of client creds])
  next
    case True
    then have d: "drop index creds = creds ! index # drop (Suc index) creds"
      by (rule Cons_nth_drop_Suc [symmetric])
    have t: "take (Suc index) creds = take index creds @ [creds ! index]"
      using True by (rule take_Suc_conv_app_nth)
    show ?thesis
      using "1.IH" True
      by (simp add: cc_remove_loop.simps [of client creds] d t Let_def)
  qed
qed

text \<open>
  Removing a client's entries takes out exactly the credentials of that client (by realm
  and components, whatever the name type) that are not configuration entries, in order, and
  keeps every other credential in order; in particular every configuration entry stays.
\<close>

lemma remove_entries_for_client_filter:
  "remove_entries_for_client cc client =
     (filter (\<lambda>c. cc_same_principal_identity (cc_client c) client \<and> \<not> cc_is_config_credential c) (cc_credentials cc),
      cc\<lparr>cc_credentials :=
        filter (\<lambda>c. \<not> (cc_same_principal_identity (cc_client c) client \<and> \<not> cc_is_config_credential c))
          (cc_credentials cc)\<rparr>)
   \<and> config_entries (snd (remove_entries_for_client cc client)) = config_entries cc"
proof -
  let ?P = "\<lambda>c. cc_same_principal_identity (cc_client c) client \<and> \<not> cc_is_config_credential c"
  have r: "remove_entries_for_client cc client =
     (filter ?P (cc_credentials cc), cc\<lparr>cc_credentials := filter (\<lambda>c. \<not> ?P c) (cc_credentials cc)\<rparr>)"
    by (simp add: remove_entries_for_client_def cc_remove_loop_filter Let_def)
  moreover have "List.map_filter cc_parse_config_entry (filter (\<lambda>c. \<not> ?P c) xs)
      = List.map_filter cc_parse_config_entry xs" for xs
    by (induction xs) (auto simp: List.map_filter_def cc_is_config_credential_def)
  ultimately show ?thesis by (simp add: config_entries_def)
qed

section \<open>Configuration entries\<close>

lemma parse_config_credential:
  "cc_parse_config_entry (cc_credential_config_entry client key prin val) =
     Some \<lparr>cf_key = key, cf_principal = prin, cf_value = val\<rparr>"
  by (cases prin) (simp_all add: cc_parse_config_entry_def cc_credential_config_entry_def cc_principal_new_def Let_def)

text \<open>Credentials with the same server principal are configuration entries for the same key.\<close>

lemma parse_config_same_server:
  assumes "cc_server c = cc_server d"
  shows "map_option (\<lambda>e. (cf_key e, cf_principal e)) (cc_parse_config_entry c) =
    map_option (\<lambda>e. (cf_key e, cf_principal e)) (cc_parse_config_entry d)"
  using assms by (simp add: cc_parse_config_entry_def Let_def)

definition config_for :: "string \<Rightarrow> string option \<Rightarrow> cc_credential \<Rightarrow> bool" where
  "config_for key prin c \<longleftrightarrow>
     map_option (\<lambda>e. (cf_key e, cf_principal e)) (cc_parse_config_entry c) = Some (key, prin)"

lemma config_for_server:
  assumes "config_for key prin c"
  shows "cc_realm (cc_server c) = X_CACHECONF_REALM"
    and "cc_components (cc_server c) = [X_CACHECONF_COMPONENT, key] @ (case prin of Some p \<Rightarrow> [p] | None \<Rightarrow> [])"
proof -
  define cs where "cs = cc_components (cc_server c)"
  have r: "cc_realm (cc_server c) = X_CACHECONF_REALM" and l: "2 \<le> length cs" "length cs \<le> 3"
    and n: "cs ! 0 = X_CACHECONF_COMPONENT" "cs ! 1 = key"
      "prin = (if 2 < length cs then Some (cs ! 2) else None)"
    using assms by (auto simp: config_for_def cc_parse_config_entry_def Let_def cs_def split: if_splits)
  have "cs = [cs ! 0, cs ! 1] @ (if 2 < length cs then [cs ! 2] else [])"
  proof (cases cs)
    case (Cons a as)
    then obtain b bs where "cs = a # b # bs" using l by (cases as) auto
    with l show ?thesis by (cases bs) auto
  qed (use l in simp)
  with n have "cs = [X_CACHECONF_COMPONENT, key] @ (case prin of Some p \<Rightarrow> [p] | None \<Rightarrow> [])" by auto
  with r show "cc_realm (cc_server c) = X_CACHECONF_REALM"
    and "cc_components (cc_server c) = [X_CACHECONF_COMPONENT, key] @ (case prin of Some p \<Rightarrow> [p] | None \<Rightarrow> [])"
    by (simp_all add: cs_def)
qed

lemma config_entry_value_find:
  "config_entry_value cc key prin = map_option cc_ticket (find (config_for key prin) (cc_credentials cc))"
proof -
  have v: "cc_parse_config_entry c = Some e \<Longrightarrow> cf_value e = cc_ticket c" for c e
    by (auto simp: cc_parse_config_entry_def Let_def split: if_splits)
  have "map_option cf_value (find (\<lambda>e. cf_key e = key \<and> cf_principal e = prin)
      (List.map_filter cc_parse_config_entry xs)) = map_option cc_ticket (find (config_for key prin) xs)" for xs
  proof (induction xs)
    case (Cons x xs)
    then show ?case
      by (cases "cc_parse_config_entry x") (auto simp: List.map_filter_simps config_for_def v)
  qed (simp add: List.map_filter_simps)
  then show ?thesis by (simp add: config_entry_value_def config_entries_def)
qed

text \<open>
  Setting a configuration entry makes it the value read back for its key and principal,
  provided the entries already stored for that key and principal are the default client's own
  under the standard name; and it never changes what is read for any other key or principal.
\<close>

lemma config_entry_set_get:
  assumes own: "\<forall>c \<in> set (cc_credentials cc). config_for key prin c \<longrightarrow>
      cc_client c = cc_default_principal cc \<and> cc_name_type (cc_server c) = 0"
  shows "config_entry_value (snd (upsert_config_entry cc key prin val)) key prin = Some val
    \<and> ((key', prin') \<noteq> (key, prin) \<longrightarrow>
        config_entry_value (snd (upsert_config_entry cc key prin val)) key' prin' =
        config_entry_value cc key' prin')"
proof -
  let ?c = "cc_credential_config_entry (cc_default_principal cc) key prin val"
  have c: "config_for k p ?c \<longleftrightarrow> (k, p) = (key, prin)" for k p
    by (auto simp: config_for_def parse_config_credential)
  have same: "config_for k p x = config_for k p ?c" if "cred_key x = cred_key ?c" for k p x
    using that parse_config_same_server [of x ?c] by (simp add: config_for_def cred_key_def)
  have server: "cc_server x = cc_server ?c" if "config_for key prin x" "cc_name_type (cc_server x) = 0" for x
    using config_for_server [OF that(1)] that(2)
    by (simp add: cc_credential_config_entry_def cc_principal_new_def)
  have own': "cred_key x = cred_key ?c" if "x \<in> set (cc_credentials cc)" "config_for key prin x" for x
    using own that server [of x] by (simp add: cred_key_def cc_credential_config_entry_def)
  show ?thesis
  proof (cases rule: upsert_credential_cases [of cc ?c])
    case (replaced ys old zs)
    then have "\<forall>y \<in> set ys. \<not> config_for key prin y" using own' by auto
    then show ?thesis
      using replaced c same [of old] c
      by (simp add: upsert_config_entry_def config_entry_value_find find_append find_None
          cc_credential_config_entry_def split: option.split)
  next
    case appended
    then have "\<forall>y \<in> set (cc_credentials cc). \<not> config_for key prin y" using own' by auto
    then show ?thesis
      using appended c
      by (simp add: upsert_config_entry_def config_entry_value_find find_append find_None
          cc_credential_config_entry_def split: option.split)
  qed
qed

text \<open>
  Without that provision the value set is not the value read: when the cache holds an
  entry for the same key under another name type (or another client), \<open>upsert_config_entry\<close>
  does not replace it but appends a second one, and \<open>config_entry_value\<close> keeps returning the
  old value.
\<close>

lemma config_entry_set_shadowed:
  "\<exists>cc. config_entry_value cc ''k'' None = Some [1]
    \<and> config_entry_value (snd (upsert_config_entry cc ''k'' None [2])) ''k'' None = Some [1]"
proof -
  define old where "old = (cc_credential_config_entry (cc_principal_new ''R'' 1 [''u'']) ''k'' None [1])
    \<lparr>cc_server := cc_principal_new X_CACHECONF_REALM 1 [X_CACHECONF_COMPONENT, ''k'']\<rparr>"
  define cc where "cc = (ccache_new (cc_principal_new ''R'' 1 [''u'']))\<lparr>cc_credentials := [old]\<rparr>"
  show ?thesis
    by (rule exI [of _ cc])
      (simp add: cc_def old_def ccache_new_def config_entry_value_def config_entries_def
        upsert_config_entry_def upsert_credential_def cc_credential_config_entry_def cc_principal_new_def
        cc_parse_config_entry_def X_CACHECONF_REALM_def X_CACHECONF_COMPONENT_def List.map_filter_simps)
qed

section \<open>Redaction\<close>

text \<open>
  The metadata shown for a cache is independent of the secret bytes: replacing the session
  key and both tickets of any credential by other bytes of the same lengths changes nothing
  in it.
\<close>

lemma credential_metadata_redacted:
  assumes "\<And>c. length (f c) = length (cc_value (cc_key c))"
    and "\<And>c. length (g c) = length (cc_ticket c)" and "\<And>c. length (h c) = length (cc_second_ticket c)"
  shows "credential_metadata (cc\<lparr>cc_credentials := map (\<lambda>c.
      c\<lparr>cc_key := (cc_key c)\<lparr>cc_value := f c\<rparr>, cc_ticket := g c, cc_second_ticket := h c\<rparr>) (cc_credentials cc)\<rparr>)
    = credential_metadata cc"
proof -
  have "cc_is_config_credential (c\<lparr>cc_key := k, cc_ticket := t, cc_second_ticket := u\<rparr>) = cc_is_config_credential c"
    for c k t u
    by (simp add: cc_is_config_credential_def cc_parse_config_entry_def Let_def)
  then show ?thesis
    using assms by (simp add: credential_metadata_def cc_metadata_from_credential_def)
qed

section \<open>Cache names\<close>

lemma parse_dir_primary_name_Inr:
  "parse_dir_primary_name contents = Inr line \<Longrightarrow>
   prefix ''tkt'' line \<and> CHR ''/'' \<notin> set line \<and> CHR 0x5C \<notin> set line"
  by (auto simp: parse_dir_primary_name_def split: option.splits if_splits)

lemma parse_dir_primary_default: "parse_dir_primary_name (''tkt'' @ [CHR 0x0A]) = Inr ''tkt''"
  by (simp add: parse_dir_primary_name_def)

text \<open>
  Resolving a \<open>DIR:\<close> collection stays inside the directory: a resolved path is the
  directory joined with one name that starts with \<open>tkt\<close> and contains no slash or backslash.
  Writing to this path does not disturb the resolution, which gives the same answer afterwards and changes
  nothing further.
\<close>

lemma tkt_path_apart:
  assumes "prefix ''tkt'' name" and "CHR ''/'' \<notin> set name"
  shows "path_components (path_join dir ''primary'') \<noteq> path_components (path_join dir name)"
proof -
  have "name \<noteq> ''primary''" "plain_name name" using assms by (auto simp: plain_name_def prefix_def)
  moreover have "plain_name ''primary''" by (simp add: plain_name_def)
  ultimately show ?thesis using path_file_name_join [of name dir] path_file_name_join [of "''primary''" dir]
    by (auto simp: path_file_name_def)
qed

lemma dir_collection_confined:
  assumes "files_ok F" and "dir_collection_primary_path F dir w = (Inr path, w1)"
  shows "(\<exists>name. path = path_join (expand_path_tokens (fe_environment F) dir) name
      \<and> prefix ''tkt'' name \<and> CHR ''/'' \<notin> set name \<and> CHR 0x5C \<notin> set name)
    \<and> dir_collection_primary_path F dir w1 = (Inr path, w1)
    \<and> (\<forall>bs w2. fe_write F path bs w1 = (Inr (), w2) \<longrightarrow> dir_collection_primary_path F dir w2 = (Inr path, w2))"
proof -
  let ?d = "expand_path_tokens (fe_environment F) dir"
  let ?p = "path_join ?d ''primary''"
  have dir: "dir \<noteq> []" using assms(2) by (auto simp: dir_collection_primary_path_def)
  have "\<exists>contents name. read_to_string F ?p w1 = Inr contents \<and> parse_dir_primary_name contents = Inr name \<and> path = path_join ?d name"
  proof (cases "read_to_string F ?p w")
    case (Inr contents)
    then show ?thesis using assms(2) dir by (auto simp: dir_collection_primary_path_def Let_def rbind_eq_Inr)
  next
    case (Inl e)
    then have "e = NotFound" and w: "fe_write F ?p (str_bytes (''tkt'' @ [CHR 0x0A])) w = (Inr (), w1)" and "path = path_join ?d ''tkt''"
      using assms(2) dir by (auto simp: dir_collection_primary_path_def Let_def split: io_fault.splits sum.splits prod.splits)
    moreover have "utf8_valid (str_bytes (''tkt'' @ [CHR 0x0A]))" by code_simp
    ultimately show ?thesis using files_ok_written(1) [OF assms(1) w] parse_dir_primary_default
      by (auto simp: read_to_string_def)
  qed
  then obtain contents name where c: "read_to_string F ?p w1 = Inr contents" "parse_dir_primary_name contents = Inr name"
      "path = path_join ?d name" by blast
  note n = parse_dir_primary_name_Inr [OF c(2)]
  have "dir_collection_primary_path F dir w2 = (Inr path, w2)" if "read_to_string F ?p w2 = Inr contents" for w2
    using that c dir by (simp add: dir_collection_primary_path_def Let_def)
  moreover have "read_to_string F ?p w2 = Inr contents" if "fe_write F path bs w1 = (Inr (), w2)" for bs w2
    using files_ok_written(2) [OF assms(1) that, of ?p] tkt_path_apart [of name ?d] n c by (simp add: read_to_string_def)
  ultimately show ?thesis using c n by blast
qed

text \<open>
  A direct cache name resolves to a file only if it is a bare path, a drive path, a \<open>FILE\<close>
  or \<open>WRFILE\<close> name, or a \<open>DIR::\<close> path below some directory whose last component starts with
  \<open>tkt\<close>; a \<open>DIR:\<close> collection and every other store type are refused with their type.
\<close>

lemma cache_name_direct_cases:
  assumes "CHR '':'' \<notin> set pfx" and "\<not> is_windows_drive_path pfx rest"
  shows "cache_name_parse env (pfx @ '':'' @ rest) =
    (if eq_ignore_ascii_case pfx ''DIR'' \<and> starts_with_char rest (CHR '':'') then
       (let path = expand_path_tokens env (tl rest) in
        if tl rest \<noteq> [] \<and> path_has_parent path
           \<and> (\<exists>name. path_file_name path = Some name \<and> prefix ''tkt'' name)
        then Inr (CacheFile path) else Inl InvalidCacheName)
     else if eq_ignore_ascii_case pfx ''FILE'' \<or> eq_ignore_ascii_case pfx ''WRFILE'' then
       (if rest = [] then Inl InvalidCacheName else Inr (CacheFile (expand_path_tokens env rest)))
     else Inl (UnsupportedCacheType pfx))"
proof -
  have s: "split_once (CHR '':'') (pfx @ '':'' @ rest) = Some (pfx, rest)"
    using assms(1) by (simp add: split_once_Some)
  have f: "file_path_from_name env (pfx @ '':'' @ rest) [''FILE'', ''WRFILE''] =
     (if eq_ignore_ascii_case pfx ''FILE'' \<or> eq_ignore_ascii_case pfx ''WRFILE'' then
        (if rest = [] then Inl Empty else Inr (expand_path_tokens env rest))
      else Inl (UnsupportedType pfx))"
    using file_path_from_name_typed [OF assms] by simp
  show ?thesis
    unfolding cache_name_parse_def direct_file_path_from_cache_name_def dir_subsidiary_path_def s f
    by (auto simp: validate_dir_subsidiary_path_def Let_def split: option.splits)
qed

section \<open>Witnesses\<close>

definition ex_cc :: ccache where
  "ex_cc = (ccache_new (cc_principal_new ''R'' 1 [''u'']))
     \<lparr>cc_credentials := [cc_credential_config_entry (cc_principal_new ''R'' 1 [''u'']) ''k'' None [1]]\<rparr>"

theorem upsert_credential_refines_witness:
  "distinct (map (\<lambda>x. (cc_client x, cc_server x)) (cc_credentials (snd (upsert_credential ex_cc
     (cc_credential_config_entry (cc_principal_new ''R'' 1 [''u'']) ''k'' None [2])))))"
  using upsert_credential_refines [of ex_cc] by (simp add: ex_cc_def)

lemma config_entry_set_get_witness:
  "config_entry_value (snd (upsert_config_entry ex_cc ''k'' None [7])) ''k'' None = Some [7]"
proof -
  have "\<forall>c \<in> set (cc_credentials ex_cc). config_for ''k'' None c \<longrightarrow>
      cc_client c = cc_default_principal ex_cc \<and> cc_name_type (cc_server c) = 0"
    by (simp add: ex_cc_def ccache_new_def cc_credential_config_entry_def cc_principal_new_def)
  then show ?thesis using config_entry_set_get by blast
qed

lemma credential_metadata_redacted_witness:
  "credential_metadata (ex_cc\<lparr>cc_credentials := map (\<lambda>c.
      c\<lparr>cc_key := (cc_key c)\<lparr>cc_value := map (\<lambda>_. 0) (cc_value (cc_key c))\<rparr>, cc_ticket := rev (cc_ticket c),
         cc_second_ticket := map (\<lambda>_. 0) (cc_second_ticket c)\<rparr>) (cc_credentials ex_cc)\<rparr>)
    = credential_metadata ex_cc"
  by (rule credential_metadata_redacted) simp_all

lemma cache_name_direct_cases_witness:
  "cache_name_parse Map.empty (''KCM'' @ '':'' @ ''0'') = Inl (UnsupportedCacheType ''KCM'')"
  by (subst cache_name_direct_cases)
    (simp_all add: is_windows_drive_path_def eq_ignore_ascii_case_def ascii_lower_def)

end
