(* ===== verification/Block_Modes.thy ===== *)
theory Block_Modes
  imports Krb_Prelude
begin

text \<open>
  The block modes of \<open>src/crypto.rs\<close>: zero padding, CBC, AES with ciphertext stealing, and
  triple-DES CBC.  The block ciphers are crates outside the repository, so the single-block
  encryption \<open>E\<close> and decryption \<open>D\<close> under a fixed key are parameters; what the modes rely on is
  \<open>block_perm E D n\<close>: both map \<open>n\<close>-byte blocks to \<open>n\<close>-byte blocks and \<open>D\<close> inverts \<open>E\<close>.
\<close>

unbundle bit_operations_syntax

section \<open>Errors\<close>

datatype crypto_error =
    InvalidKeyLength nat nat \<comment> \<open>expected, actual\<close>
  | InvalidConfounderLength nat nat \<comment> \<open>expected, actual\<close>
  | CiphertextTooShort nat nat \<comment> \<open>minimum, actual\<close>
  | PlaintextTooShort nat nat \<comment> \<open>minimum, actual\<close>
  | IntegrityCheckFailed
  | InvalidS2kParamsLength nat
  | InvalidS2kParamsHex char
  | UnsupportedIterationCountZero
  | InvalidStringToKeySecret
  | NonEmptyDes3S2kParams
  | InvalidSeedLength nat nat \<comment> \<open>expected, actual\<close>
  | EmptyNfoldInput
  | EmptyUsage
  | InvalidNfoldOutputBits nat
  | EmptyPlaintext
  | InvalidCiphertextBlockSize nat nat \<comment> \<open>block size, actual\<close>

abbreviation (input) AES_BLOCK_SIZE :: nat where
  "AES_BLOCK_SIZE \<equiv> 16"

abbreviation (input) DES3_BLOCK_SIZE :: nat where
  "DES3_BLOCK_SIZE \<equiv> 8"

section \<open>Blocks\<close>

text \<open>\<open>slice::chunks_exact\<close>: the full chunks, without the remainder.\<close>

function chunks_exact :: "nat \<Rightarrow> 'a list \<Rightarrow> 'a list list" where
  "chunks_exact n xs =
     (if n = 0 \<or> length xs < n then [] else take n xs # chunks_exact n (drop n xs))"
  by pat_completeness auto
termination
  by (relation "measure (\<lambda>(n, xs). length xs)") auto

declare chunks_exact.simps [simp del]

definition xor_block :: "bytes \<Rightarrow> bytes \<Rightarrow> bytes" where
  "xor_block a b = map2 (XOR) a b"

definition zero_pad :: "bytes \<Rightarrow> nat \<Rightarrow> bytes" where
  "zero_pad bs block_size =
     (let remainder = length bs mod block_size
      in if remainder \<noteq> 0 then bs @ replicate (block_size - remainder) 0 else bs)"

definition swap_at :: "'a list \<Rightarrow> nat \<Rightarrow> nat \<Rightarrow> 'a list" where
  "swap_at xs i j = xs[i := xs ! j, j := xs ! i]"

definition swap_last_two_blocks :: "bytes \<Rightarrow> bytes" where
  "swap_last_two_blocks bs =
     (let len = length bs
      in foldl (\<lambda>xs i. swap_at xs (len - 2 * AES_BLOCK_SIZE + i) (len - AES_BLOCK_SIZE + i))
           bs [0..<AES_BLOCK_SIZE])"

section \<open>CBC\<close>

text \<open>The loops over the chunks with the running \<open>previous\<close> block.\<close>

fun cbc_encrypt_loop :: "(bytes \<Rightarrow> bytes) \<Rightarrow> bytes \<Rightarrow> bytes list \<Rightarrow> bytes" where
  "cbc_encrypt_loop E previous [] = []"
| "cbc_encrypt_loop E previous (chunk # chunks) =
     (let block = E (xor_block chunk previous) in block @ cbc_encrypt_loop E block chunks)"

fun cbc_decrypt_loop :: "(bytes \<Rightarrow> bytes) \<Rightarrow> bytes \<Rightarrow> bytes list \<Rightarrow> bytes" where
  "cbc_decrypt_loop D previous [] = []"
| "cbc_decrypt_loop D previous (chunk # chunks) =
     xor_block (D chunk) previous @ cbc_decrypt_loop D chunk chunks"

definition cbc_encrypt :: "(bytes \<Rightarrow> bytes) \<Rightarrow> bytes \<Rightarrow> bytes \<Rightarrow> bytes" where
  "cbc_encrypt E iv plaintext = cbc_encrypt_loop E iv (chunks_exact AES_BLOCK_SIZE plaintext)"

definition cbc_decrypt :: "(bytes \<Rightarrow> bytes) \<Rightarrow> bytes \<Rightarrow> bytes \<Rightarrow> bytes" where
  "cbc_decrypt D iv ciphertext = cbc_decrypt_loop D iv (chunks_exact AES_BLOCK_SIZE ciphertext)"

definition last_block :: "nat \<Rightarrow> bytes \<Rightarrow> bytes" where
  "last_block n bs = drop (length bs - n) bs"

section \<open>AES with ciphertext stealing\<close>

definition aes_cts_encrypt :: "(bytes \<Rightarrow> bytes) \<Rightarrow> bytes \<Rightarrow> crypto_error + (bytes \<times> bytes)" where
  "aes_cts_encrypt E plaintext =
     (if plaintext = [] then Inl EmptyPlaintext
      else let iv = replicate AES_BLOCK_SIZE 0 in
        if length plaintext \<le> AES_BLOCK_SIZE then
          let encrypted = cbc_encrypt E iv (zero_pad plaintext AES_BLOCK_SIZE)
          in Inr (encrypted, encrypted)
        else if length plaintext mod AES_BLOCK_SIZE = 0 then
          let encrypted = cbc_encrypt E iv plaintext;
              next_iv = last_block AES_BLOCK_SIZE encrypted
          in Inr (next_iv, swap_last_two_blocks encrypted)
        else
          let padded = zero_pad plaintext AES_BLOCK_SIZE;
              regular_len = length padded - 2 * AES_BLOCK_SIZE;
              regular_plain = take regular_len padded; tail = drop regular_len padded;
              penultimate_plain = take AES_BLOCK_SIZE tail; last_plain = drop AES_BLOCK_SIZE tail;
              regular_cipher = (if regular_plain \<noteq> [] then cbc_encrypt E iv regular_plain else []);
              chained_iv = (if regular_plain \<noteq> [] then last_block AES_BLOCK_SIZE regular_cipher else iv);
              penultimate_block = cbc_encrypt E chained_iv penultimate_plain;
              lst_block = cbc_encrypt E penultimate_block last_plain
          in Inr (lst_block,
               take (length plaintext) (regular_cipher @ lst_block @ penultimate_block)))"

definition aes_cts_decrypt :: "(bytes \<Rightarrow> bytes) \<Rightarrow> bytes \<Rightarrow> crypto_error + bytes" where
  "aes_cts_decrypt D ciphertext =
     (if length ciphertext < AES_BLOCK_SIZE
      then Inl (CiphertextTooShort AES_BLOCK_SIZE (length ciphertext))
      else let iv = replicate AES_BLOCK_SIZE 0 in
        if length ciphertext mod AES_BLOCK_SIZE = 0 then
          (if length ciphertext = AES_BLOCK_SIZE then Inr (cbc_decrypt D iv ciphertext)
           else Inr (cbc_decrypt D iv (swap_last_two_blocks ciphertext)))
        else
          let short_len = length ciphertext mod AES_BLOCK_SIZE;
              regular_len = length ciphertext - AES_BLOCK_SIZE - short_len;
              regular_cipher = take regular_len ciphertext; tail = drop regular_len ciphertext;
              penultimate_cipher = take AES_BLOCK_SIZE tail; last_cipher = drop AES_BLOCK_SIZE tail;
              regular_plain = (if regular_cipher \<noteq> [] then cbc_decrypt D iv regular_cipher else []);
              chain_iv = (if regular_cipher \<noteq> [] then last_block AES_BLOCK_SIZE regular_cipher else iv);
              penultimate_plain = cbc_decrypt D iv penultimate_cipher;
              pad_len = AES_BLOCK_SIZE - short_len;
              completed_last_cipher = last_cipher @ drop (AES_BLOCK_SIZE - pad_len) penultimate_plain;
              last_plain = cbc_decrypt D chain_iv completed_last_cipher;
              penultimate_plain = cbc_decrypt D completed_last_cipher penultimate_cipher
          in Inr (take (length ciphertext) (regular_plain @ last_plain @ penultimate_plain)))"

section \<open>Triple-DES CBC\<close>

fun des3_last_block :: "(bytes \<Rightarrow> bytes) \<Rightarrow> bytes \<Rightarrow> bytes list \<Rightarrow> bytes" where
  "des3_last_block E previous [] = previous"
| "des3_last_block E previous (chunk # chunks) = des3_last_block E (E (xor_block chunk previous)) chunks"

definition des3_cbc_encrypt :: "(bytes \<Rightarrow> bytes) \<Rightarrow> bytes \<Rightarrow> crypto_error + (bytes \<times> bytes)" where
  "des3_cbc_encrypt E plaintext =
     (if plaintext = [] then Inl EmptyPlaintext
      else let chunks = chunks_exact DES3_BLOCK_SIZE (zero_pad plaintext DES3_BLOCK_SIZE);
               iv = replicate DES3_BLOCK_SIZE 0
           in Inr (des3_last_block E iv chunks, cbc_encrypt_loop E iv chunks))"

definition des3_cbc_decrypt :: "(bytes \<Rightarrow> bytes) \<Rightarrow> bytes \<Rightarrow> crypto_error + bytes" where
  "des3_cbc_decrypt D ciphertext =
     (if length ciphertext < DES3_BLOCK_SIZE
      then Inl (CiphertextTooShort DES3_BLOCK_SIZE (length ciphertext))
      else if length ciphertext mod DES3_BLOCK_SIZE \<noteq> 0
      then Inl (InvalidCiphertextBlockSize DES3_BLOCK_SIZE (length ciphertext))
      else Inr (cbc_decrypt_loop D (replicate DES3_BLOCK_SIZE 0) (chunks_exact DES3_BLOCK_SIZE ciphertext)))"

section \<open>Lemmas on blocks\<close>

definition block_perm :: "(bytes \<Rightarrow> bytes) \<Rightarrow> (bytes \<Rightarrow> bytes) \<Rightarrow> nat \<Rightarrow> bool" where
  "block_perm E D n \<longleftrightarrow>
     (\<forall>b. length b = n \<longrightarrow> length (E b) = n \<and> length (D b) = n \<and> D (E b) = b)"

lemma block_permD:
  assumes "block_perm E D n" and "length b = n"
  shows "length (E b) = n" and "length (D b) = n" and "D (E b) = b"
  using assms by (auto simp: block_perm_def)

lemma length_xor_block [simp]: "length (xor_block a b) = min (length a) (length b)"
  by (simp add: xor_block_def)

lemma xor_block_cancel: "length a = length b \<Longrightarrow> xor_block (xor_block a b) b = a"
  by (auto simp: xor_block_def list_eq_iff_nth_eq xor.assoc)

lemma xor_block_zero: "length a \<le> n \<Longrightarrow> xor_block a (replicate n 0) = a"
  by (auto simp: xor_block_def list_eq_iff_nth_eq)

lemma drop_xor_block: "drop d (xor_block a b) = xor_block (drop d a) (drop d b)"
  by (simp add: xor_block_def drop_map drop_zip)

lemma xor_zero_block: "length b \<le> n \<Longrightarrow> xor_block (replicate n 0) b = b"
  by (auto simp: xor_block_def list_eq_iff_nth_eq)

lemma chunks_exact_append:
  "0 < n \<Longrightarrow> length b = n \<Longrightarrow> chunks_exact n (b @ xs) = b # chunks_exact n xs"
  by (subst chunks_exact.simps) simp

lemma chunks_exact_short: "length xs < n \<Longrightarrow> chunks_exact n xs = []"
  by (subst chunks_exact.simps) simp

lemma chunks_exact_one: "0 < n \<Longrightarrow> length b = n \<Longrightarrow> chunks_exact n b = [b]"
  using chunks_exact_append [of n b "[]"] by (simp add: chunks_exact_short)

lemma chunks_exact_concat:
  "0 < n \<Longrightarrow> \<forall>b \<in> set bs. length b = n \<Longrightarrow> chunks_exact n (concat bs) = bs"
  by (induction bs) (auto simp: chunks_exact_append chunks_exact_short)

text \<open>A multiple of the block size is a sequence of blocks.\<close>

lemma blocks_of:
  assumes "0 < n" and "n dvd length xs"
  shows "concat (chunks_exact n xs) = xs \<and> (\<forall>b \<in> set (chunks_exact n xs). length b = n)"
  using assms
proof (induction n xs rule: chunks_exact.induct)
  case (1 n xs)
  show ?case
  proof (cases "length xs < n")
    case True
    with "1.prems" have "xs = []" by (auto dest: dvd_imp_le)
    then show ?thesis by (simp add: chunks_exact_short "1.prems")
  next
    case False
    with "1.prems" have dvd: "n dvd length (drop n xs)" by (simp add: dvd_minus_self)
    have go: "\<not> (n = 0 \<or> length xs < n)" using False "1.prems" by blast
    note IH = "1.IH" [OF go "1.prems"(1) dvd]
    have eq: "chunks_exact n xs = take n xs # chunks_exact n (drop n xs)"
      by (subst chunks_exact.simps) (simp only: go if_False)
    have "concat (chunks_exact n xs) = xs"
      unfolding eq concat.simps conjunct1 [OF IH] by (rule append_take_drop_id)
    moreover have "\<forall>b \<in> set (chunks_exact n xs). length b = n"
      unfolding eq list.set ball_simps using conjunct2 [OF IH] go
      by (auto simp only: length_take min.absorb2 not_less)
    ultimately show ?thesis ..
  qed
qed

lemma length_zero_pad:
  assumes "0 < n"
  shows "n dvd length (zero_pad bs n)" and "length bs \<le> length (zero_pad bs n)"
    and "length (zero_pad bs n) < length bs + n"
proof -
  have "n dvd length bs + (n - length bs mod n)"
    using mod_less_divisor [OF assms, of "length bs"]
    by (metis dvd_eq_mod_eq_0 le_add_diff_inverse less_imp_le mod_add_left_eq mod_self)
  then show "n dvd length (zero_pad bs n)" by (auto simp: zero_pad_def Let_def)
  show "length bs \<le> length (zero_pad bs n)" "length (zero_pad bs n) < length bs + n"
    using mod_less_divisor [OF assms, of "length bs"] by (auto simp: zero_pad_def Let_def)
qed

lemma take_zero_pad: "take (length bs) (zero_pad bs n) = bs"
  by (simp add: zero_pad_def Let_def)

lemma zero_pad_id: "n dvd length bs \<Longrightarrow> zero_pad bs n = bs"
  by (simp add: zero_pad_def Let_def)


lemma zero_pad_split:
  assumes "0 < n"
  shows "zero_pad bs n = bs @ replicate (length (zero_pad bs n) - length bs) 0"
  using assms by (auto simp: zero_pad_def Let_def)

section \<open>CBC decryption inverts CBC encryption\<close>

lemma length_cbc_encrypt_loop:
  assumes "block_perm E D n" and "\<forall>b \<in> set bs. length b = n" and "length iv = n"
  shows "length (cbc_encrypt_loop E iv bs) = n * length bs"
  using assms(2,3) by (induction bs arbitrary: iv) (auto simp: Let_def block_permD [OF assms(1)])

lemma length_cbc_decrypt_loop:
  assumes "block_perm E D n" and "\<forall>b \<in> set bs. length b = n" and "length iv = n"
  shows "length (cbc_decrypt_loop D iv bs) = n * length bs"
  using assms(2,3) by (induction bs arbitrary: iv) (auto simp: block_permD [OF assms(1)])

lemma cbc_loop_inverse:
  assumes "block_perm E D n" and "0 < n" and "\<forall>b \<in> set bs. length b = n" and "length iv = n"
  shows "cbc_decrypt_loop D iv (chunks_exact n (cbc_encrypt_loop E iv bs)) = concat bs"
  using assms(3,4)
proof (induction bs arbitrary: iv)
  case Nil
  then show ?case by (simp add: chunks_exact_short assms(2))
next
  case (Cons b bs)
  define c where "c = E (xor_block b iv)"
  have c: "length c = n" "D c = xor_block b iv"
    using Cons.prems block_permD [OF assms(1), of "xor_block b iv"] by (auto simp: c_def)
  with Cons show ?case
    by (simp add: Let_def c_def [symmetric] chunks_exact_append assms(2) xor_block_cancel)
qed

lemma length_chunks_exact:
  assumes "0 < n" and "n dvd length xs"
  shows "n * length (chunks_exact n xs) = length xs"
proof -
  have "length (concat bs) = n * length bs" if "\<forall>b \<in> set bs. length b = n" for bs :: "'a list list"
    using that by (induction bs) auto
  then show ?thesis using blocks_of [OF assms] by metis
qed

lemma length_cbc_encrypt:
  assumes "block_perm E D 16" and "16 dvd length xs" and "length iv = 16"
  shows "length (cbc_encrypt E iv xs) = length xs"
  using blocks_of [of 16 xs] length_cbc_encrypt_loop [OF assms(1), of "chunks_exact 16 xs" iv]
    length_chunks_exact [of 16 xs] assms
  by (simp add: cbc_encrypt_def)

lemma length_cbc_decrypt:
  assumes "block_perm E D 16" and "16 dvd length xs" and "length iv = 16"
  shows "length (cbc_decrypt D iv xs) = length xs"
  using blocks_of [of 16 xs] length_cbc_decrypt_loop [OF assms(1), of "chunks_exact 16 xs" iv]
    length_chunks_exact [of 16 xs] assms
  by (simp add: cbc_decrypt_def)

lemma cbc_inverse:
  assumes "block_perm E D 16" and "16 dvd length xs" and "length iv = 16"
  shows "cbc_decrypt D iv (cbc_encrypt E iv xs) = xs"
  using blocks_of [of 16 xs] cbc_loop_inverse [OF assms(1), of "chunks_exact 16 xs" iv] assms
  by (simp add: cbc_encrypt_def cbc_decrypt_def)

lemma cbc_encrypt_block:
  "length b = 16 \<Longrightarrow> cbc_encrypt E iv b = E (xor_block b iv)"
  by (simp add: cbc_encrypt_def chunks_exact_one Let_def)

lemma cbc_decrypt_block:
  "length b = 16 \<Longrightarrow> cbc_decrypt D iv b = xor_block (D b) iv"
  by (simp add: cbc_decrypt_def chunks_exact_one)

section \<open>Swapping the last two blocks\<close>

lemma length_swap_at [simp]: "length (swap_at xs i j) = length xs"
  by (simp add: swap_at_def)

lemma swap_at_mid:
  "swap_at (p @ x # q @ y # r) (length p) (length p + 1 + length q) = p @ y # q @ x # r"
  by (simp add: swap_at_def list_update_append nth_append)

text \<open>After \<open>k\<close> rounds the first \<open>k\<close> bytes of both blocks are exchanged.\<close>

lemma swap_blocks_fold:
  assumes "length a = n" and "length b = n" and "k \<le> n"
  shows "foldl (\<lambda>xs i. swap_at xs (length r + i) (length r + n + i)) (r @ a @ b) [0..<k]
       = r @ (take k b @ drop k a) @ (take k a @ drop k b)"
  using assms(3)
proof (induction k)
  case (Suc k)
  define p where "p = r @ take k b"
  define q where "q = drop (Suc k) a @ take k a"
  have ab: "drop k a = a ! k # drop (Suc k) a" "drop k b = b ! k # drop (Suc k) b"
    using Suc.prems assms by (simp_all add: Cons_nth_drop_Suc)
  have len: "length p = length r + k" "length p + 1 + length q = length r + n + k"
    using Suc.prems assms by (simp_all add: p_def q_def)
  have "foldl (\<lambda>xs i. swap_at xs (length r + i) (length r + n + i)) (r @ a @ b) [0..<Suc k]
      = swap_at (p @ a ! k # q @ b ! k # drop (Suc k) b) (length p) (length p + 1 + length q)"
    using Suc unfolding len(2) unfolding len(1) by (simp add: ab p_def q_def)
  also have "\<dots> = p @ b ! k # q @ a ! k # drop (Suc k) b" by (rule swap_at_mid)
  also have "\<dots> = r @ (take (Suc k) b @ drop (Suc k) a) @ (take (Suc k) a @ drop (Suc k) b)"
    using Suc.prems assms by (simp add: p_def q_def take_Suc_conv_app_nth)
  finally show ?case .
qed simp

lemma swap_last_two_blocks_eq:
  assumes "length a = 16" and "length b = 16"
  shows "swap_last_two_blocks (r @ a @ b) = r @ b @ a"
  using swap_blocks_fold [OF assms, of 16 r] assms
  by (simp add: swap_last_two_blocks_def Let_def add.commute add.left_commute)

lemma split_last_two:
  assumes "32 \<le> length xs"
  obtains r a b where "xs = r @ a @ b" and "length a = 16" and "length b = (16::nat)"
proof
  show "xs = take (length xs - 32) xs @ take 16 (drop (length xs - 32) xs) @ drop 16 (drop (length xs - 32) xs)"
    by (simp only: append_take_drop_id)
qed (use assms in auto)

lemma swap_last_two_blocks_twice:
  assumes "32 \<le> length xs"
  shows "swap_last_two_blocks (swap_last_two_blocks xs) = xs"
    and "length (swap_last_two_blocks xs) = length xs"
  using assms by (auto elim!: split_last_two simp: swap_last_two_blocks_eq)

section \<open>Ciphertext stealing\<close>

lemma last_block_append: "length b = n \<Longrightarrow> last_block n (r @ b) = b"
  by (simp add: last_block_def)

lemma length_last_block: "n \<le> length bs \<Longrightarrow> length (last_block n bs) = n"
  by (simp add: last_block_def)

text \<open>The stealing branch, on an input \<open>r @ p @ l\<close> of full blocks followed by a last block \<open>l\<close> that is
  cut to \<open>s\<close> bytes.\<close>

lemma aes_cts_encrypt_steal:
  assumes "length r mod 16 = 0" and "length p = 16" and "length l = s" and "0 < s" and "s < 16"
  shows "aes_cts_encrypt E (r @ p @ l) =
    (let c = (if r \<noteq> [] then cbc_encrypt E (replicate 16 0) r else []);
         iv = (if r \<noteq> [] then last_block 16 c else replicate 16 0);
         p' = cbc_encrypt E iv p; l' = cbc_encrypt E p' (l @ replicate (16 - s) 0)
     in Inr (l', take (length r + 16 + s) (c @ l' @ p')))"
proof -
  have m: "(length r + (16 + s)) mod 16 = s" using assms by (metis add.commute add.left_commute mod_add_self1 mod_add_right_eq add.right_neutral mod_less)
  have pad: "zero_pad (r @ p @ l) 16 = r @ p @ l @ replicate (16 - s) 0"
    using assms m by (simp add: zero_pad_def)
  have len: "length (zero_pad (r @ p @ l) 16) - 2 * 16 = length r"
    using assms by (simp add: pad)
  show ?thesis
    unfolding aes_cts_encrypt_def Let_def len unfolding pad using assms m
    by (auto simp: add.assoc)
qed

lemma aes_cts_decrypt_steal:
  assumes "length c mod 16 = 0" and "length l = 16" and "length p = s" and "0 < s" and "s < 16"
  shows "aes_cts_decrypt D (c @ l @ p) =
    (let r = (if c \<noteq> [] then cbc_decrypt D (replicate 16 0) c else []);
         iv = (if c \<noteq> [] then last_block 16 c else replicate 16 0);
         p' = p @ drop s (cbc_decrypt D (replicate 16 0) l)
     in Inr (take (length c + 16 + s) (r @ cbc_decrypt D iv p' @ cbc_decrypt D p' l)))"
proof -
  have m: "(length c + (16 + s)) mod 16 = s" using assms by (metis add.commute add.left_commute mod_add_self1 mod_add_right_eq add.right_neutral mod_less)
  show ?thesis
    unfolding aes_cts_decrypt_def Let_def using assms m
    by (auto simp: add.assoc)
qed

text \<open>Splitting a length that is not a multiple of the block size.\<close>

lemma split_steal:
  assumes "16 < length xs" and "length xs mod 16 \<noteq> 0"
  obtains r p l where "xs = r @ p @ l" and "length r mod 16 = 0" and "length p = 16"
    and "length l = length xs mod (16::nat)"
proof
  define k where "k = length xs - 16 - length xs mod 16"
  have q: "length xs = 16 * (length xs div 16) + length xs mod 16" by simp
  with assms have "1 \<le> length xs div 16" by linarith
  then have k16: "k = 16 * (length xs div 16 - 1)" using q unfolding k_def by linarith
  have k: "k + 16 + length xs mod 16 = length xs" "k mod 16 = 0"
    using \<open>1 \<le> length xs div 16\<close> q unfolding k16 by linarith simp
  show "xs = take k xs @ take 16 (drop k xs) @ drop 16 (drop k xs)"
    by (simp only: append_take_drop_id)
  show "length (take k xs) mod 16 = 0" "length (take 16 (drop k xs)) = 16"
    "length (drop 16 (drop k xs)) = length xs mod 16"
    using k by auto
qed

lemma length_cbc_if:
  assumes "block_perm E D 16" and "length r mod 16 = 0"
  shows "length (if r \<noteq> [] then cbc_encrypt E (replicate 16 0) r else []) = length r"
  using assms by (auto simp: length_cbc_encrypt mod_eq_0_iff_dvd)

lemma aes_cts_steal_roundtrip:
  assumes perm: "block_perm E D 16" and "16 < length xs" and "length xs mod 16 \<noteq> 0"
  shows "\<exists>iv ct. aes_cts_encrypt E xs = Inr (iv, ct) \<and> length ct = length xs \<and> length iv = 16
    \<and> aes_cts_decrypt D ct = Inr xs"
proof -
  obtain r p l where xs: "xs = r @ p @ l" and r: "length r mod 16 = 0" and p: "length p = 16"
    and l: "length l = length xs mod 16"
    using split_steal assms by blast
  define s where "s = length l"
  have s: "0 < s" "s < 16" using assms l by (auto simp: s_def)
  define c where "c = (if r \<noteq> [] then cbc_encrypt E (replicate 16 0) r else [])"
  define iv where "iv = (if r \<noteq> [] then last_block 16 c else replicate 16 0)"
  define p' where "p' = cbc_encrypt E iv p"
  define l' where "l' = cbc_encrypt E p' (l @ replicate (16 - s) 0)"
  have c: "length c = length r" using length_cbc_if [OF perm r] by (simp add: c_def)
  have iv: "length iv = 16"
    using r c by (auto simp: iv_def intro!: length_last_block dvd_imp_le mod_0_imp_dvd)
  have p': "length p' = 16" "xor_block (D p') iv = p"
    using p iv block_permD [OF perm, of "xor_block p iv"]
    by (auto simp: p'_def cbc_encrypt_block xor_block_cancel)
  have l': "length l' = 16" "D l' = xor_block (l @ replicate (16 - s) 0) p'"
    using s p' block_permD [OF perm, of "xor_block (l @ replicate (16 - s) 0) p'"]
    by (auto simp: l'_def s_def cbc_encrypt_block)
  have cut: "take (length r + 16 + s) (c @ l' @ p') = c @ l' @ take s p'"
    using c l' s by simp
  have enc: "aes_cts_encrypt E xs = Inr (l', c @ l' @ take s p')"
    unfolding xs aes_cts_encrypt_steal [OF r p s_def [symmetric] s] Let_def c_def [symmetric]
    unfolding iv_def [symmetric] unfolding p'_def [symmetric] unfolding l'_def [symmetric] cut ..
  have tl: "drop s (cbc_decrypt D (replicate 16 0) l') = drop s p'"
    using l' p' s by (simp add: cbc_decrypt_block drop_xor_block xor_block_zero s_def xor_zero_block)
  have cne: "c \<noteq> [] \<longleftrightarrow> r \<noteq> []" using c by (cases r; cases c) auto
  have rdec: "(if c \<noteq> [] then cbc_decrypt D (replicate 16 0) c else []) = r"
    using r unfolding cne by (auto simp: c_def intro!: cbc_inverse [OF perm])
  have civ: "(if c \<noteq> [] then last_block 16 c else replicate 16 0) = iv"
    unfolding cne iv_def ..
  have comp: "take s p' @ drop s (cbc_decrypt D (replicate 16 0) l') = p'" by (simp add: tl)
  have blocks: "cbc_decrypt D iv p' = p" "cbc_decrypt D p' l' = l @ replicate (16 - s) 0"
    using p' l' s by (simp_all add: cbc_decrypt_block xor_block_cancel s_def)
  have prems: "length c mod 16 = 0" "length (take s p') = s" using c r p' s by auto
  have "aes_cts_decrypt D (c @ l' @ take s p')
      = Inr (take (length c + 16 + s) (r @ p @ l @ replicate (16 - s) 0))"
    unfolding aes_cts_decrypt_steal [OF prems(1) l'(1) prems(2) s] Let_def rdec civ comp blocks ..
  also have "\<dots> = Inr xs" using c p by (simp add: xs s_def)
  finally show ?thesis using enc c l' s p' r p by (auto simp: xs s_def)
qed

lemma aes_cts_inverse:
  assumes perm: "block_perm E D 16" and ne: "xs \<noteq> []"
  shows "\<exists>iv ct. aes_cts_encrypt E xs = Inr (iv, ct) \<and> length ct = max 16 (length xs) \<and> length iv = 16
    \<and> aes_cts_decrypt D ct = Inr (if length xs < 16 then zero_pad xs 16 else xs)"
proof -
  consider (small) "length xs \<le> 16" | (full) "16 < length xs" "length xs mod 16 = 0"
    | (steal) "16 < length xs" "length xs mod 16 \<noteq> 0" by linarith
  then show ?thesis
  proof cases
    case small
    have len: "length (zero_pad xs 16) = 16"
    proof -
      obtain q where q: "length (zero_pad xs 16) = 16 * q"
        using length_zero_pad(1) [of 16 xs] by (auto elim: dvdE)
      have "0 < length xs" using ne by simp
      moreover have "length xs \<le> length (zero_pad xs 16)" "length (zero_pad xs 16) < length xs + 16"
        using length_zero_pad [of 16 xs] by simp_all
      ultimately have "q = 1" using q small by arith
      then show ?thesis using q by simp
    qed
    have "zero_pad xs 16 = xs" if "\<not> length xs < 16" using small that by (auto intro: zero_pad_id)
    with len small ne show ?thesis
      using cbc_inverse [OF perm, of "zero_pad xs 16" "replicate 16 0"]
        length_cbc_encrypt [OF perm, of "zero_pad xs 16" "replicate 16 0"]
      by (auto simp: aes_cts_encrypt_def aes_cts_decrypt_def Let_def)
  next
    case full
    define ct where "ct = cbc_encrypt E (replicate 16 0) xs"
    have ct: "length ct = length xs" "cbc_decrypt D (replicate 16 0) ct = xs"
      using full cbc_inverse [OF perm, of xs "replicate 16 0"]
        length_cbc_encrypt [OF perm, of xs "replicate 16 0"] by (auto simp: ct_def)
    have big: "32 \<le> length ct" using full ct by presburger
    with ct full ne show ?thesis
      by (auto simp: aes_cts_encrypt_def aes_cts_decrypt_def Let_def ct_def [symmetric]
          swap_last_two_blocks_twice [OF big] length_last_block)
  next
    case steal
    then show ?thesis using aes_cts_steal_roundtrip [OF perm, of xs] by auto
  qed
qed

section \<open>CBC over a split input\<close>

lemma cbc_encrypt_append:
  assumes "block_perm E D 16" and "16 dvd length r" and "length iv = 16"
  shows "cbc_encrypt E iv (r @ xs) = (let c = cbc_encrypt E iv r
    in c @ cbc_encrypt E (if r = [] then iv else last_block 16 c) xs)"
proof -
  have loop: "chunks_exact 16 (concat bs @ ys) = bs @ chunks_exact 16 ys \<and>
      cbc_encrypt_loop E iv (bs @ cs) = (let c = cbc_encrypt_loop E iv bs
        in c @ cbc_encrypt_loop E (if bs = [] then iv else last_block 16 c) cs)"
    if "\<forall>b \<in> set bs. length b = 16" "length iv = 16" for bs cs :: "bytes list" and ys iv :: bytes
    using that
  proof (induction bs arbitrary: iv)
    case (Cons b bs)
    define c where "c = E (xor_block b iv)"
    have len: "length c = 16" using Cons.prems block_permD [OF assms(1), of "xor_block b iv"] by (simp add: c_def)
    have "last_block 16 (c @ d) = last_block 16 d" if "16 \<le> length d" for d
      using that by (simp add: last_block_def)
    moreover have "bs \<noteq> [] \<Longrightarrow> 16 \<le> length (cbc_encrypt_loop E c bs)"
      using Cons.prems len length_cbc_encrypt_loop [OF assms(1), of bs c] by (cases bs) auto
    ultimately show ?case
      using Cons len by (auto simp: Let_def c_def [symmetric] chunks_exact_append last_block_def)
  qed (simp add: Let_def)
  have bl: "concat (chunks_exact 16 r) = r" "\<forall>b \<in> set (chunks_exact 16 r). length b = 16"
    using blocks_of [of 16 r] assms(2) by auto
  have ne: "chunks_exact 16 r = [] \<longleftrightarrow> r = []" using bl by (metis chunks_exact_short concat.simps(1) list.size(3) zero_less_numeral)
  show ?thesis
    using loop [OF bl(2) assms(3), of xs "chunks_exact 16 xs"]
    by (simp add: cbc_encrypt_def bl ne Let_def)
qed

section \<open>Triple-DES CBC\<close>

lemma des3_cbc_inverse:
  assumes "block_perm E D 8" and "xs \<noteq> []"
  shows "\<exists>iv ct. des3_cbc_encrypt E xs = Inr (iv, ct) \<and> length ct = length (zero_pad xs 8)
    \<and> des3_cbc_decrypt D ct = Inr (zero_pad xs 8)"
proof -
  have dvd: "8 dvd length (zero_pad xs 8)" using length_zero_pad(1) [of 8 xs] by simp
  note bl = blocks_of [OF _ dvd]
  have "0 < length (zero_pad xs 8)"
    using assms(2) length_zero_pad(2) [of 8 xs] by (cases xs) auto
  with dvd have "8 \<le> length (zero_pad xs 8)" by (simp add: dvd_imp_le)
  moreover have "length (cbc_encrypt_loop E (replicate 8 0) (chunks_exact 8 (zero_pad xs 8))) = length (zero_pad xs 8)"
    using length_cbc_encrypt_loop [OF assms(1), of "chunks_exact 8 (zero_pad xs 8)" "replicate 8 0"] bl
      length_chunks_exact [OF _ dvd] by simp
  ultimately show ?thesis
    using cbc_loop_inverse [OF assms(1), of "chunks_exact 8 (zero_pad xs 8)" "replicate 8 0"] bl dvd assms(2)
    by (simp add: des3_cbc_encrypt_def des3_cbc_decrypt_def Let_def)
qed

section \<open>Ciphertext stealing against the textbook definition\<close>

text \<open>The reference: CBC over the zero-padded input, the last two blocks exchanged, and the result cut to
  the length of the input.\<close>

definition cts_reference :: "(bytes \<Rightarrow> bytes) \<Rightarrow> bytes \<Rightarrow> bytes" where
  "cts_reference E xs =
     take (length xs) (swap_last_two_blocks (cbc_encrypt E (replicate 16 0) (zero_pad xs 16)))"

lemma cts_reference_steal:
  assumes perm: "block_perm E D 16" and r: "length r mod 16 = 0" and p: "length p = 16"
    and s: "length l = s" "0 < s" "s < 16"
  shows "aes_cts_encrypt E (r @ p @ l) =
    Inr (last_block 16 (cbc_encrypt E (replicate 16 0) (zero_pad (r @ p @ l) 16)), cts_reference E (r @ p @ l))"
proof -
  define c where "c = (if r \<noteq> [] then cbc_encrypt E (replicate 16 0) r else [])"
  define iv where "iv = (if r \<noteq> [] then last_block 16 c else replicate 16 0)"
  define p' where "p' = cbc_encrypt E iv p"
  define l' where "l' = cbc_encrypt E p' (l @ replicate (16 - s) 0)"
  have m: "(length r + (16 + s)) mod 16 = s"
    using r s by (metis add.commute add.left_commute mod_add_self1 mod_add_right_eq add.right_neutral mod_less)
  have pad: "zero_pad (r @ p @ l) 16 = r @ p @ l @ replicate (16 - s) 0"
    using assms m by (simp add: zero_pad_def)
  have c: "length c = length r" using length_cbc_if [OF perm r] by (simp add: c_def)
  have iv: "length iv = 16"
    using r c by (auto simp: iv_def intro!: length_last_block dvd_imp_le mod_0_imp_dvd)
  have p': "length p' = 16" using length_cbc_encrypt [OF perm, of p iv] p iv by (simp add: p'_def)
  have l': "length l' = 16"
    using length_cbc_encrypt [OF perm, of "l @ replicate (16 - s) 0" p'] p' s by (simp add: l'_def)
  have inner: "cbc_encrypt E iv (p @ l @ replicate (16 - s) 0) = p' @ l'"
    using cbc_encrypt_append [OF perm, of p iv "l @ replicate (16 - s) 0"] p iv p'
    by (auto simp: Let_def p'_def [symmetric] l'_def [symmetric] last_block_def)
  have c0: "cbc_encrypt E (replicate 16 0) r = c" by (auto simp: c_def cbc_encrypt_def chunks_exact_short)
  have all: "cbc_encrypt E (replicate 16 0) (zero_pad (r @ p @ l) 16) = c @ p' @ l'"
    using cbc_encrypt_append [OF perm mod_0_imp_dvd [OF r], of "replicate 16 0" "p @ l @ replicate (16 - s) 0"] inner
    unfolding pad c0 Let_def iv_def by (cases "r = []") simp_all
  have "aes_cts_encrypt E (r @ p @ l) = Inr (l', take (length r + 16 + s) (c @ l' @ p'))"
    unfolding aes_cts_encrypt_steal [OF r p s] Let_def c_def [symmetric]
    unfolding iv_def [symmetric] unfolding p'_def [symmetric] unfolding l'_def [symmetric] ..
  then show ?thesis
    unfolding cts_reference_def all using swap_last_two_blocks_eq [OF p' l', of c] p' l' c p s
    by (simp add: last_block_def add.assoc)
qed

text \<open>C36: On every input longer than a block \<open>aes_cts_encrypt\<close> is the textbook ciphertext stealing
  (CBC3): CBC-encrypt the zero-padded input under the zero IV, exchange the last two blocks, cut
  to the input's length; the chaining value returned is the last CBC block.  The code's separate
  branches for multiples of the block size and for a short last block both compute it.\<close>

theorem aes_cts_encrypt_reference:
  assumes perm: "block_perm E D 16" and big: "16 < length xs"
  shows "aes_cts_encrypt E xs =
    Inr (last_block 16 (cbc_encrypt E (replicate 16 0) (zero_pad xs 16)), cts_reference E xs)"
proof (cases "length xs mod 16 = 0")
  case True
  have "xs \<noteq> []" using big by auto
  moreover have "length (cbc_encrypt E (replicate 16 0) xs) = length xs"
    using length_cbc_encrypt [OF perm, of xs "replicate 16 0"] True by auto
  moreover have "32 \<le> length xs" using big True by presburger
  ultimately show ?thesis
    using True big swap_last_two_blocks_twice(2) [of "cbc_encrypt E (replicate 16 0) xs"]
      zero_pad_id [OF mod_0_imp_dvd [OF True]]
    by (simp add: aes_cts_encrypt_def cts_reference_def Let_def)
next
  case False
  then obtain r p l where "xs = r @ p @ l" "length r mod 16 = 0" "length p = 16" "length l = length xs mod 16"
    using split_steal big by blast
  then show ?thesis using cts_reference_steal [OF perm, of r p l "length xs mod 16"] False by simp
qed

text \<open>A stand-in cipher for the witnesses: XOR with the key.\<close>

definition xor_cipher :: "bytes \<Rightarrow> bytes \<Rightarrow> bytes" where
  "xor_cipher k b = xor_block b k"

lemma xor_cipher_perm: "length k = n \<Longrightarrow> block_perm (xor_cipher k) (xor_cipher k) n"
  by (simp add: block_perm_def xor_cipher_def xor_block_cancel)

theorem aes_cts_encrypt_reference_witness:
  "aes_cts_encrypt (xor_cipher (replicate 16 7)) (replicate 20 1) =
     Inr (replicate 4 0 @ replicate 12 1, replicate 4 0 @ replicate 12 1 @ replicate 4 6)"
  unfolding aes_cts_encrypt_reference [OF xor_cipher_perm [of "replicate 16 7" 16, simplified],
    of "replicate 20 1", simplified]
  by code_simp

end
