(* ===== verification/Nfold.thy ===== *)
theory Nfold
  imports Block_Modes
begin

text \<open>
  The n-fold operation of RFC 3961 as \<open>src/crypto.rs\<close> computes it, bit by bit on byte vectors:
  \<open>get_bit\<close>, \<open>set_bit\<close>, \<open>rotate_right\<close>, \<open>ones_complement_addition\<close>, \<open>lcm\<close>, \<open>gcd\<close> and \<open>nfold\<close>.
  Sizes are naturals: they are lengths of vectors and small constants, far from the bounds of
  \<open>usize\<close>.  The lemmas relate the bit loops to arithmetic on the big-endian value of the vector.
\<close>

unbundle bit_operations_syntax

section \<open>Bits of a byte vector\<close>

definition get_bit :: "bytes \<Rightarrow> nat \<Rightarrow> u8" where
  "get_bit bs position =
     (let byte_index = position div 8; bit_index = position mod 8
      in drop_bit (7 - bit_index) (bs ! byte_index) AND 1)"

definition set_bit_at :: "bytes \<Rightarrow> nat \<Rightarrow> u8 \<Rightarrow> bytes" where
  "set_bit_at bs position v =
     (let byte_index = position div 8; bit_index = position mod 8
      in bs[byte_index := bs ! byte_index OR push_bit (7 - bit_index) v])"

definition rotate_right :: "bytes \<Rightarrow> nat \<Rightarrow> bytes" where
  "rotate_right bs steps =
     (let bit_len = length bs * 8
      in foldl (\<lambda>out i. set_bit_at out ((i + steps) mod bit_len) (get_bit bs i))
           (replicate (length bs) 0) [0..<bit_len])"

section \<open>One's complement addition\<close>

text \<open>One round of the loop over the bits, from the least significant one; \<open>sum\<close> is at most 3.\<close>

definition add_bit_step :: "bytes \<Rightarrow> bytes \<Rightarrow> bytes \<times> u8 \<Rightarrow> nat \<Rightarrow> bytes \<times> u8" where
  "add_bit_step left right st bit_index =
     (let out = fst st; carry = snd st;
          sum = get_bit left bit_index + get_bit right bit_index + carry
      in if sum = 0 then (out, 0)
         else if sum = 1 then (set_bit_at out bit_index 1, 0)
         else if sum = 2 then (out, 1)
         else (set_bit_at out bit_index 1, 1))"

definition add_bits :: "bytes \<Rightarrow> bytes \<Rightarrow> bytes \<times> u8" where
  "add_bits left right =
     foldl (add_bit_step left right) (replicate (length left) 0, 0) (rev [0..<length left * 8])"

section \<open>Bits and values\<close>

definition bit_at :: "bytes \<Rightarrow> nat \<Rightarrow> bool" where
  "bit_at bs i \<longleftrightarrow> bit (bs ! (i div 8)) (7 - i mod 8)"

lemma get_bit_bit_at: "get_bit bs i = of_bool (bit_at bs i)"
  by (simp add: get_bit_def bit_at_def Let_def and_one_eq bit_iff_odd_drop_bit mod2_eq_if)

lemma length_set_bit_at [simp]: "length (set_bit_at bs p v) = length bs"
  by (simp add: set_bit_at_def Let_def)

lemma bit_shifted_flag: "m < 8 \<Longrightarrow> bit (push_bit n (of_bool v) :: u8) m \<longleftrightarrow> v \<and> n = m"
  by (cases v) (auto simp: bit_exp_iff)

lemma bit_at_set:
  assumes "q < 8 * length bs"
  shows "bit_at (set_bit_at bs p (of_bool v)) q \<longleftrightarrow> bit_at bs q \<or> (v \<and> p = q)"
proof (cases "p div 8 = q div 8")
  case True
  have "q div 8 < length bs" using assms by simp
  moreover have "7 - q mod 8 < 8" by simp
  moreover have "7 - q mod 8 = 7 - p mod 8 \<longleftrightarrow> p = q"
    using True mod_less_divisor [of 8 p] mod_less_divisor [of 8 q] div_mult_mod_eq [of p 8] div_mult_mod_eq [of q 8]
    by linarith
  ultimately show ?thesis
    using True by (auto simp: bit_at_def set_bit_at_def Let_def bit_or_iff bit_shifted_flag)
next
  case False
  then show ?thesis by (auto simp: bit_at_def set_bit_at_def Let_def)
qed

lemma bit_at_zero: "i < 8 * n \<Longrightarrow> \<not> bit_at (replicate n 0) i"
  by (simp add: bit_at_def)

definition bit_sum :: "nat \<Rightarrow> (nat \<Rightarrow> bool) \<Rightarrow> nat \<Rightarrow> nat" where
  "bit_sum n f k = (\<Sum>i = k..<n. of_bool (f i) * 2 ^ (n - 1 - i))"

lemma bit_sum_step: "k < n \<Longrightarrow> bit_sum n f k = of_bool (f k) * 2 ^ (n - 1 - k) + bit_sum n f (Suc k)"
  unfolding bit_sum_def by (rule sum.atLeast_Suc_lessThan)

lemma bit_sum_end [simp]: "bit_sum n f n = 0"
  by (simp add: bit_sum_def)

lemma bit_sum_cong: "(\<And>i. k \<le> i \<Longrightarrow> i < n \<Longrightarrow> f i = g i) \<Longrightarrow> bit_sum n f k = bit_sum n g k"
  by (simp add: bit_sum_def)

lemma byte_bits:
  fixes b :: u8
  shows "unat b = (\<Sum>i = 0..<8. of_bool (bit b (7 - i)) * 2 ^ (7 - i))"
proof -
  have "unat b = take_bit 8 (unat b)"
    by (simp add: take_bit_nat_eq_self unat_byte_lt)
  also have "\<dots> = horner_sum of_bool 2 (map (bit (unat b)) [0..<8])"
    by (simp add: horner_sum_bit_eq_take_bit)
  also have "\<dots> = (\<Sum>i < 8. of_bool (bit b i) * 2 ^ i)"
    by (simp add: horner_sum_eq_sum bit_unsigned_iff atLeast0LessThan del: sum_of_bool_mult_eq)
  also have "\<dots> = (\<Sum>i = 0..<8. of_bool (bit b (7 - i)) * 2 ^ (7 - i))"
    using sum.nat_diff_reindex [of "\<lambda>i. of_bool (bit b i) * 2 ^ i" 8, symmetric]
    by (simp add: atLeast0LessThan del: sum_of_bool_mult_eq)
  finally show ?thesis .
qed

lemma be_nat_bit_sum: "be_nat bs = bit_sum (8 * length bs) (bit_at bs) 0"
proof (induction bs)
  case (Cons b bs)
  let ?n = "8 * length bs"
  have low: "(\<Sum>i = 8..<8 + ?n. of_bool (bit_at (b # bs) i) * (2 :: nat) ^ (8 + ?n - 1 - i)) = be_nat bs"
  proof -
    have "bit_at (b # bs) (i + 8) = bit_at bs i" for i by (simp add: bit_at_def div_add_self2)
    then show ?thesis
      using sum.shift_bounds_nat_ivl [of "\<lambda>i. of_bool (bit_at (b # bs) i) * (2 :: nat) ^ (8 + ?n - 1 - i)" 0 8 ?n]
      unfolding Cons.IH bit_sum_def by (simp add: add.commute del: sum_of_bool_mult_eq)
  qed
  have "(\<Sum>i = 0..<8. of_bool (bit_at (b # bs) i) * (2 :: nat) ^ (8 + ?n - 1 - i))
      = (\<Sum>i = 0..<8. of_bool (bit b (7 - i)) * 2 ^ (7 - i) * 2 ^ ?n)"
    by (intro sum.cong) (auto simp: bit_at_def simp flip: power_add)
  also have "\<dots> = unat b * 256 ^ length bs"
    unfolding byte_bits [of b] sum_distrib_right [symmetric] by (simp add: power_mult)
  finally have high: "(\<Sum>i = 0..<8. of_bool (bit_at (b # bs) i) * (2 :: nat) ^ (8 + ?n - 1 - i)) = unat b * 256 ^ length bs" .
  have "bit_sum (8 + ?n) (bit_at (b # bs)) 0 = unat b * 256 ^ length bs + be_nat bs"
    unfolding bit_sum_def high [symmetric] low [symmetric] by (rule sum.atLeastLessThan_concat [symmetric]) auto
  then show ?case by simp
qed (simp add: bit_sum_def)

section \<open>The addition loop\<close>

text \<open>After the bits from \<open>k\<close> on are added: the output has the sum of the low parts, but for the carry.\<close>

lemma carry_arith:
  fixes s :: nat
  assumes "s + 2 * c' = a + b + c" and "X + c * P = L + R"
  shows "(s * P + X) + c' * (2 * P) = (a * P + L) + (b * P + R)"
proof -
  have "(s + 2 * c') * P = (a + b + c) * P" using assms(1) by (rule arg_cong)
  then have "s * P + c' * (2 * P) = a * P + b * P + c * P" by (simp only: algebra_simps)
  with assms(2) show ?thesis by linarith
qed

lemma add_bits_invariant:
  assumes len: "length r = length l" and n: "n = 8 * length l" and k: "k \<le> n"
  shows "\<exists>out c. foldl (add_bit_step l r) (replicate (length l) 0, 0) (rev [k..<n]) = (out, of_bool c)
    \<and> length out = length l \<and> (\<forall>i < k. \<not> bit_at out i)
    \<and> bit_sum n (bit_at out) k + of_bool c * 2 ^ (n - k) = bit_sum n (bit_at l) k + bit_sum n (bit_at r) k"
  using k
proof (induction "n - k" arbitrary: k)
  case 0
  then have "k = n" by simp
  then show ?case using n by (auto simp: bit_at_zero intro: exI [of _ False])
next
  case (Suc d)
  then have k: "k < n" and IH: "\<exists>out c.
      foldl (add_bit_step l r) (replicate (length l) 0, 0) (rev [Suc k..<n]) = (out, of_bool c)
      \<and> length out = length l \<and> (\<forall>i < Suc k. \<not> bit_at out i)
      \<and> bit_sum n (bit_at out) (Suc k) + of_bool c * 2 ^ (n - Suc k)
        = bit_sum n (bit_at l) (Suc k) + bit_sum n (bit_at r) (Suc k)"
    using Suc.hyps(1) [of "Suc k"] by auto
  then obtain out c where fold: "foldl (add_bit_step l r) (replicate (length l) 0, 0) (rev [Suc k..<n]) = (out, of_bool c)"
    and out: "length out = length l" "\<forall>i < Suc k. \<not> bit_at out i"
    and sum: "bit_sum n (bit_at out) (Suc k) + of_bool c * 2 ^ (n - Suc k)
        = bit_sum n (bit_at l) (Suc k) + bit_sum n (bit_at r) (Suc k)" by blast
  define c' where "c' = ((bit_at l k \<and> bit_at r k) \<or> (bit_at l k \<and> c) \<or> (bit_at r k \<and> c))"
  define s where "s = (bit_at l k \<noteq> (bit_at r k \<noteq> c))"
  define out' where "out' = (if s then set_bit_at out k 1 else out)"
  have step: "add_bit_step l r (out, of_bool c) k = (out', of_bool c')"
    by (cases "bit_at l k"; cases "bit_at r k"; cases c)
      (simp_all add: add_bit_step_def get_bit_bit_at out'_def s_def c'_def)
  have upt: "rev [k..<n] = rev [Suc k..<n] @ [k]" using k by (simp add: upt_conv_Cons)
  have bits: "bit_at out' i \<longleftrightarrow> bit_at out i \<or> (s \<and> i = k)" if "i < n" for i
    using that bit_at_set [of i out k True] out(1) n by (auto simp: out'_def)
  have pow: "(2::nat) ^ (n - k) = 2 * 2 ^ (n - Suc k)" using k by (metis Suc_diff_Suc power_Suc)
  have bitk: "bit_at out' k = s" using bits [OF k] out(2) by simp
  have key: "of_bool s + 2 * of_bool c' = of_bool (bit_at l k) + of_bool (bit_at r k) + (of_bool c :: nat)"
    by (cases "bit_at l k"; cases "bit_at r k"; cases c) (simp_all add: s_def c'_def)
  have low: "bit_sum n (bit_at out') (Suc k) = bit_sum n (bit_at out) (Suc k)"
    by (rule bit_sum_cong) (use bits in auto)
  have "bit_sum n (bit_at out') k + of_bool c' * 2 ^ (n - k) = bit_sum n (bit_at l) k + bit_sum n (bit_at r) k"
    unfolding bit_sum_step [OF k] low pow diff_diff_left plus_1_eq_Suc bitk
    by (rule carry_arith [OF key sum])
  moreover have "length out' = length l" "\<forall>i < k. \<not> bit_at out' i"
    using out bits k by (auto simp: out'_def)
  moreover have "foldl (add_bit_step l r) (replicate (length l) 0, 0) (rev [k..<n]) = (out', of_bool c')"
    unfolding upt foldl_append fold by (simp only: foldl.simps step)
  ultimately show ?case by blast
qed

lemma add_bits_value:
  assumes "length r = length l"
  shows "\<exists>out c. add_bits l r = (out, of_bool c) \<and> length out = length l
    \<and> be_nat out + of_bool c * 2 ^ (8 * length l) = be_nat l + be_nat r"
proof -
  obtain out c where "add_bits l r = (out, of_bool c)" and len: "length out = length l"
    and "bit_sum (8 * length l) (bit_at out) 0 + of_bool c * 2 ^ (8 * length l)
      = bit_sum (8 * length l) (bit_at l) 0 + bit_sum (8 * length l) (bit_at r) 0"
    using add_bits_invariant [OF assms refl, of 0]
    unfolding add_bits_def mult.commute [of "length l" 8] diff_zero by blast
  then show ?thesis unfolding be_nat_bit_sum [of l] be_nat_bit_sum [of r] assms
    by (metis be_nat_bit_sum)
qed

lemma be_nat_bit_lt: "be_nat bs < 2 ^ (8 * length bs)"
  using be_nat_lt [of bs] by (simp add: power_mult)

text \<open>The end-around carry.  The recursive call cannot carry again, which is why it terminates.\<close>

definition carry_array :: "nat \<Rightarrow> bytes" where
  "carry_array n = (replicate n 0)[n - 1 := 1]"

lemma be_nat_carry_array: "be_nat (carry_array (Suc n)) = 1"
proof -
  have zero: "be_nat (replicate n 0) = 0" for n by (induction n) auto
  have "carry_array (Suc n) = replicate n 0 @ [1]"
    unfolding carry_array_def replicate_Suc replicate_append_same [symmetric]
    by (simp add: list_update_append)
  then show ?thesis by (simp add: be_nat_append zero)
qed

lemma length_carry_array [simp]: "length (carry_array n) = n"
  by (simp add: carry_array_def)

lemma add_bits_carry:
  assumes "length r = length l"
  shows "snd (add_bits l r) = 1 \<longleftrightarrow> 2 ^ (8 * length l) \<le> be_nat l + be_nat r"
    and "snd (add_bits l r) = 1 \<Longrightarrow>
      be_nat (fst (add_bits l r)) = be_nat l + be_nat r - 2 ^ (8 * length l)"
    and "snd (add_bits l r) \<noteq> 1 \<Longrightarrow> be_nat (fst (add_bits l r)) = be_nat l + be_nat r"
    and "length (fst (add_bits l r)) = length l"
proof -
  obtain out c where add: "add_bits l r = (out, of_bool c)" and len: "length out = length l"
    and val: "be_nat out + of_bool c * 2 ^ (8 * length l) = be_nat l + be_nat r"
    using add_bits_value [OF assms] by blast
  have lt: "be_nat out < 2 ^ (8 * length l)" using be_nat_bit_lt [of out] len by simp
  show "snd (add_bits l r) = 1 \<longleftrightarrow> 2 ^ (8 * length l) \<le> be_nat l + be_nat r"
    using val lt by (cases c) (simp_all add: add)
  show "snd (add_bits l r) = 1 \<Longrightarrow> be_nat (fst (add_bits l r)) = be_nat l + be_nat r - 2 ^ (8 * length l)"
    using val by (cases c) (simp_all add: add)
  show "snd (add_bits l r) \<noteq> 1 \<Longrightarrow> be_nat (fst (add_bits l r)) = be_nat l + be_nat r"
    using val by (cases c) (simp_all add: add)
  show "length (fst (add_bits l r)) = length l" by (simp add: add len)
qed

lemma add_bits_nil [simp]: "add_bits [] r = ([], 0)"
  by (simp add: add_bits_def)

lemma length_add_bits: "length (fst (add_bits l r)) = length l"
proof -
  have "length (fst (foldl (add_bit_step l r) st is)) = length (fst st)" for st "is"
    by (induction "is" arbitrary: st) (auto simp: add_bit_step_def Let_def)
  then show ?thesis by (simp add: add_bits_def)
qed

lemma add_bits_second_carry:
  assumes "length r = length l" and "snd (add_bits l r) = 1"
  shows "be_nat (fst (add_bits l r)) + 1 < 2 ^ (8 * length l)"
proof -
  have "be_nat l < 2 ^ (8 * length l)" "be_nat r < 2 ^ (8 * length l)"
    using be_nat_bit_lt [of l] be_nat_bit_lt [of r] assms(1) by simp_all
  then show ?thesis using add_bits_carry(1,2) [OF assms(1)] assms(2) by linarith
qed

function ones_complement_addition :: "bytes \<Rightarrow> bytes \<Rightarrow> bytes" where
  "ones_complement_addition left right =
     (let (out, carry) = add_bits left right
      in if carry = 1 then ones_complement_addition out (carry_array (length left)) else out)"
  by pat_completeness auto
termination
proof (relation "measure (\<lambda>(l, r). if length r \<noteq> length l then 2 else if snd (add_bits l r) = 1 then 1 else 0)",
    goal_cases)
  case (2 l r x out carry)
  then have out: "out = fst (add_bits l r)" and carry: "snd (add_bits l r) = 1" by (auto simp: prod_eq_iff)
  then have ne: "l \<noteq> []" by auto
  have len: "length out = length l" by (simp add: out length_add_bits)
  obtain n where n: "length l = Suc n" using ne by (cases l) auto
  have "snd (add_bits out (carry_array (length l))) \<noteq> 1" if eq: "length r = length l"
    using add_bits_second_carry [OF eq carry] add_bits_carry(1) [of "carry_array (length l)" out] len n
    by (simp add: out [symmetric] be_nat_carry_array del: One_nat_def)
  then show ?case using len carry by auto
qed simp

declare ones_complement_addition.simps [simp del]

lemma ones_complement_addition_value:
  assumes "length r = length l"
  shows "length (ones_complement_addition l r) = length l" (is ?len)
    and "be_nat (ones_complement_addition l r) =
      (let s = be_nat l + be_nat r in if s < 2 ^ (8 * length l) then s else s - 2 ^ (8 * length l) + 1)" (is ?val)
proof -
  define out where "out = fst (add_bits l r)"
  have len: "length out = length l" by (simp add: out_def length_add_bits)
  have "?len \<and> ?val"
  proof (cases "snd (add_bits l r) = 1")
    case False
    then have "ones_complement_addition l r = out"
      by (subst ones_complement_addition.simps) (simp add: out_def case_prod_beta)
    with False show ?thesis
      using add_bits_carry(1,3) [OF assms] len by (auto simp: Let_def out_def)
  next
    case True
    then have ne: "l \<noteq> []" by auto
    then obtain n where n: "length l = Suc n" by (cases l) auto
    have nc: "snd (add_bits out (carry_array (length l))) \<noteq> 1"
      using add_bits_second_carry [OF assms True] add_bits_carry(1) [of "carry_array (length l)" out] len n
      by (simp add: out_def [symmetric] be_nat_carry_array del: One_nat_def)
    have "ones_complement_addition l r = ones_complement_addition out (carry_array (length l))"
      using True by (subst ones_complement_addition.simps) (simp add: out_def case_prod_beta)
    also have "\<dots> = fst (add_bits out (carry_array (length l)))"
      using nc by (subst ones_complement_addition.simps) (simp add: case_prod_beta)
    finally have eq: "ones_complement_addition l r = fst (add_bits out (carry_array (length l)))" .
    have "?len" by (simp add: eq length_add_bits len)
    moreover have "be_nat (ones_complement_addition l r) = be_nat out + 1"
      using add_bits_carry(3) [OF _ nc] len n by (simp add: eq be_nat_carry_array del: One_nat_def)
    ultimately show ?thesis
      using add_bits_carry(1,2) [OF assms] True by (simp add: Let_def out_def del: One_nat_def)
  qed
  then show ?len ?val by blast+
qed

section \<open>Least common multiple\<close>

function gcd_usize :: "nat \<Rightarrow> nat \<Rightarrow> nat" where
  "gcd_usize left right = (if right \<noteq> 0 then gcd_usize right (left mod right) else left)"
  by pat_completeness auto
termination
  by (relation "measure snd") auto

declare gcd_usize.simps [simp del]

definition lcm_usize :: "nat \<Rightarrow> nat \<Rightarrow> nat" where
  "lcm_usize left right = (left * right) div gcd_usize left right"

lemma gcd_usize_gcd: "gcd_usize a b = gcd a b"
proof (induction a b rule: gcd_usize.induct)
  case (1 a b)
  then show ?case
    by (cases "b = 0") (subst gcd_usize.simps, simp add: gcd_red_nat [of a b])+
qed

lemma lcm_usize_lcm: "lcm_usize a b = lcm a b"
  by (simp add: lcm_usize_def gcd_usize_gcd lcm_nat_def)

section \<open>n-fold\<close>

definition nfold :: "bytes \<Rightarrow> nat \<Rightarrow> crypto_error + bytes" where
  "nfold input output_bits =
     (if input = [] then Inl EmptyNfoldInput
      else if output_bits = 0 \<or> output_bits mod 8 \<noteq> 0 then Inl (InvalidNfoldOutputBits output_bits)
      else let input_bits = length input * 8;
               lcm_bits = lcm_usize output_bits input_bits;
               replicas = lcm_bits div input_bits;
               sum_bytes = concat (map (\<lambda>i. rotate_right input (13 * i)) [0..<replicas]);
               output_len = output_bits div 8
           in Inr (foldl ones_complement_addition (replicate output_len 0) (chunks_exact output_len sum_bytes)))"

lemma length_set_bits [simp]:
  "length (foldl (\<lambda>out i. set_bit_at out (p i) (v i)) st is) = length st"
  by (induction "is" arbitrary: st) auto

lemma length_rotate_right [simp]: "length (rotate_right bs s) = length bs"
  by (simp add: rotate_right_def Let_def)

lemma bit_at_set_bits:
  assumes "q < 8 * length st"
  shows "bit_at (foldl (\<lambda>out i. set_bit_at out (p i) (of_bool (v i))) st is) q
    \<longleftrightarrow> bit_at st q \<or> (\<exists>i \<in> set is. p i = q \<and> v i)"
  using assms by (induction "is" arbitrary: st) (auto simp: bit_at_set)

text \<open>One's complement addition is addition modulo \<open>2 ^ n - 1\<close>.\<close>

lemma ones_complement_addition_mod:
  assumes "length r = length l"
  shows "be_nat (ones_complement_addition l r) mod (2 ^ (8 * length l) - 1)
    = (be_nat l + be_nat r) mod (2 ^ (8 * length l) - 1)"
proof -
  define m :: nat where "m = 2 ^ (8 * length l) - 1"
  define s where "s = be_nat l + be_nat r"
  have m: "2 ^ (8 * length l) = m + 1" by (simp add: m_def)
  have "s - (m + 1) + 1 = s - m" if "\<not> s < m + 1" using that by simp
  moreover have "(s - m) mod m = s mod m" if "\<not> s < m + 1"
    using that by (simp add: le_mod_geq)
  ultimately have "(if s < m + 1 then s else s - (m + 1) + 1) mod m = s mod m" by presburger
  then show ?thesis
    unfolding ones_complement_addition_value(2) [OF assms] Let_def m_def [symmetric] s_def [symmetric] m by simp
qed

lemma foldl_ones_complement:
  assumes "\<forall>c \<in> set cs. length c = n" and "length st = n"
  shows "length (foldl ones_complement_addition st cs) = n \<and>
    be_nat (foldl ones_complement_addition st cs) mod (2 ^ (8 * n) - 1)
      = (be_nat st + sum_list (map be_nat cs)) mod (2 ^ (8 * n) - 1)"
  using assms
proof (induction cs arbitrary: st)
  case (Cons c cs)
  have len: "length (ones_complement_addition st c) = n"
    using Cons.prems ones_complement_addition_value(1) [of c st] by simp
  have "be_nat (ones_complement_addition st c) mod (2 ^ (8 * n) - 1) = (be_nat st + be_nat c) mod (2 ^ (8 * n) - 1)"
    using ones_complement_addition_mod [of c st] Cons.prems by simp
  then have "(be_nat (ones_complement_addition st c) + k) mod (2 ^ (8 * n) - 1)
      = (be_nat st + (be_nat c + k)) mod (2 ^ (8 * n) - 1)" for k
    by (metis add.assoc mod_add_left_eq)
  with Cons.IH [OF _ len] Cons.prems show ?case by simp
qed simp

lemma nfold_length:
  assumes "input \<noteq> []" and "0 < n"
  shows "\<exists>out. nfold input (n * 8) = Inr out \<and> length out = n"
proof -
  have "length b = n" if "b \<in> set (chunks_exact n xs)" for b and xs :: bytes
    using that
  proof (induction n xs rule: chunks_exact.induct)
    case (1 n xs)
    then show ?case by (auto simp: chunks_exact.simps [of n xs] split: if_splits)
  qed
  then show ?thesis
    using assms foldl_ones_complement [of "chunks_exact n _" n "replicate n 0"]
    by (simp add: nfold_def Let_def)
qed

lemma rotate_index_inj:
  assumes "i < n" and "j < n" and "(i + s) mod n = (j + s) mod (n::nat)"
  shows "i = j"
proof -
  have "int (i + s) mod int n = int (j + s) mod int n" using assms(3) by (metis zmod_int)
  then have "int n dvd int i - int j" by (simp add: mod_eq_dvd_iff)
  then have "int i - int j = 0" using assms(1,2) dvd_imp_le_int [of "int i - int j" "int n"] by linarith
  then show ?thesis by simp
qed

text \<open>The function \<open>rotate_right\<close> moves bit \<open>i\<close> (counted from the most significant bit of the first byte) to
  position \<open>i + steps\<close> modulo the number of bits, and keeps the length.\<close>

lemma rotate_right_bits:
  assumes "i < 8 * length bs"
  shows "length (rotate_right bs steps) = length bs \<and>
    get_bit (rotate_right bs steps) ((i + steps) mod (8 * length bs)) = get_bit bs i"
proof -
  let ?n = "8 * length bs"
  have pos: "(i + steps) mod ?n < 8 * length (replicate (length bs) (0::u8))"
    unfolding length_replicate by (rule mod_less_divisor) (use assms in linarith)
  have "bit_at (rotate_right bs steps) ((i + steps) mod ?n) \<longleftrightarrow> bit_at bs i"
    unfolding rotate_right_def Let_def get_bit_bit_at mult.commute [of "length bs" 8] bit_at_set_bits [OF pos]
    using assms bit_at_zero [OF pos [unfolded length_replicate]] rotate_index_inj [of _ ?n i steps]
    by (metis atLeastLessThan_iff bot_nat_0.extremum set_upt)
  then show ?thesis by (simp add: get_bit_bit_at)
qed

lemma rotate_right_bits_witness:
  "get_bit (rotate_right [0x80, 0x01] 13) ((0 + 13) mod (8 * 2)) = 1"
  using rotate_right_bits [of 0 "[0x80, 0x01]" 13] by (simp add: get_bit_def)

text \<open>\<open>nfold\<close> computes what RFC 3961 asks for: on a non-empty input and a positive number of output
  bytes it succeeds; the copies of the input, the \<open>i\<close>-th rotated right by \<open>13 * i\<close> bits, fill the
  least common multiple of the two sizes, split without remainder into chunks of the output's
  size, and the output is their sum in one's complement arithmetic, that is modulo \<open>2 ^ n - 1\<close>
  on their big-endian values.\<close>

lemma nfold_ones_complement_sum:
  assumes "input \<noteq> []" and "0 < n"
  shows "\<exists>out chunks. nfold input (8 * n) = Inr out \<and> length out = n
    \<and> concat chunks = concat (map (\<lambda>i. rotate_right input (13 * i)) [0..<lcm n (length input) div length input])
    \<and> (\<forall>c \<in> set chunks. length c = n)
    \<and> be_nat out mod (2 ^ (8 * n) - 1) = sum_list (map be_nat chunks) mod (2 ^ (8 * n) - 1)"
proof -
  define k where "k = lcm n (length input) div length input"
  define sum_bytes where "sum_bytes = concat (map (\<lambda>i. rotate_right input (13 * i)) [0..<k])"
  have lcm8: "lcm (8 * n) (length input * 8) div (length input * 8) = k"
    unfolding k_def mult.commute [of "length input" 8] 
    by (simp add: lcm_mult_left)
  have "length sum_bytes = k * length input"
    by (simp add: sum_bytes_def length_concat comp_def sum_list_triv)
  also have "\<dots> = lcm n (length input)" unfolding k_def by simp
  finally have dvd: "n dvd length sum_bytes" by simp
  note blocks = blocks_of [OF assms(2) dvd]
  have zero: "be_nat (replicate n 0) = 0" for n by (induction n) auto
  have "nfold input (8 * n) = Inr (foldl ones_complement_addition (replicate n 0) (chunks_exact n sum_bytes))"
    using assms lcm8 by (simp add: nfold_def Let_def lcm_usize_lcm sum_bytes_def)
  moreover have "length (foldl ones_complement_addition (replicate n 0) (chunks_exact n sum_bytes)) = n"
    "be_nat (foldl ones_complement_addition (replicate n 0) (chunks_exact n sum_bytes)) mod (2 ^ (8 * n) - 1)
      = sum_list (map be_nat (chunks_exact n sum_bytes)) mod (2 ^ (8 * n) - 1)"
    using foldl_ones_complement [OF conjunct2 [OF blocks], of "replicate n 0"] unfolding zero by simp_all
  ultimately show ?thesis
    using blocks unfolding k_def [symmetric] sum_bytes_def [symmetric] by blast
qed

lemma upt_8: "[0..<8] = [0, 1, 2, 3, 4, 5, 6, 7 :: nat]"
  by (simp add: upt_rec)

lemma upt_16: "[0..<16] = [0, 1, 2, 3, 4, 5, 6, 7, 8, 9, 10, 11, 12, 13, 14, 15 :: nat]"
  by (simp add: upt_rec)

lemmas bit_loop_eval =
  rotate_right_def add_bits_def add_bit_step_def set_bit_at_def get_bit_def upt_8 upt_16 Let_def

lemma rotate_right_example: "rotate_right [0xff, 0x02] 0 = [0xff, 0x02]"
  by (simp add: bit_loop_eval)

lemma addition_example:
  "ones_complement_addition (ones_complement_addition [0x00] [0xff]) [0x02] = [0x02]"
  by (simp add: ones_complement_addition.simps bit_loop_eval carry_array_def)

lemma nfold_ones_complement_sum_witness:
  "nfold [0xff, 0x02] 8 = Inr [0x02]
   \<and> (\<exists>out chunks. nfold [0xff, 0x02] 8 = Inr out \<and> length out = 1 \<and> concat chunks = [0xff, 0x02]
     \<and> (\<forall>c \<in> set chunks. length c = 1)
     \<and> be_nat out mod 255 = sum_list (map be_nat chunks) mod 255)"
proof
  have "lcm_usize 8 16 = 16" by (simp add: lcm_usize_def gcd_usize.simps)
  moreover have "chunks_exact 1 [0xff, 0x02 :: u8] = [[0xff], [0x02]]" by (simp add: chunks_exact.simps)
  moreover have "[0..<1] = [0 :: nat]" "replicate 1 (0 :: u8) = [0]" by simp_all
  ultimately show "nfold [0xff, 0x02] 8 = Inr [0x02]"
    by (simp add: nfold_def rotate_right_example addition_example del: One_nat_def)
  have copies: "concat (map (\<lambda>i. rotate_right [0xff, 0x02] (13 * i)) [0..<lcm 1 (length [0xff, 0x02 :: u8]) div length [0xff, 0x02 :: u8]])
      = [0xff, 0x02]" by (simp add: rotate_right_example)
  show "\<exists>out chunks. nfold [0xff, 0x02] 8 = Inr out \<and> length out = 1 \<and> concat chunks = [0xff, 0x02]
     \<and> (\<forall>c \<in> set chunks. length c = 1) \<and> be_nat out mod 255 = sum_list (map be_nat chunks) mod 255"
    using nfold_ones_complement_sum [of "[0xff, 0x02]" 1] unfolding copies by simp
qed

end
