(* ===== verification/Crypto_Prims.thy ===== *)
theory Crypto_Prims
  imports Nfold
begin

text \<open>
  The primitives the encryption types of \<open>src/crypto.rs\<close> are built from.  The hash, HMAC, PBKDF2, AES,
  triple-DES and RC4 implementations are crates outside the repository: they are the fields of
  \<open>crypto_prims\<close>, and \<open>prims_ok\<close> says what their documentation promises and the code relies on
  (output sizes, that decryption inverts encryption, that RC4 is its own inverse).  The code's own
  helpers are modelled here: key-size dispatch, usage constants, the RC4 message type, iteration
  counts in hexadecimal, the DES3 key schedule with odd parity and weak keys, and the
  constant-time comparison.
\<close>

unbundle bit_operations_syntax

section \<open>Crates\<close>

record crypto_prims =
  Aes128_encrypt :: "bytes \<Rightarrow> bytes \<Rightarrow> bytes" \<comment> \<open>key, block\<close>
  Aes128_decrypt :: "bytes \<Rightarrow> bytes \<Rightarrow> bytes"
  Aes256_encrypt :: "bytes \<Rightarrow> bytes \<Rightarrow> bytes"
  Aes256_decrypt :: "bytes \<Rightarrow> bytes \<Rightarrow> bytes"
  TdesEde3_encrypt :: "bytes \<Rightarrow> bytes \<Rightarrow> bytes"
  TdesEde3_decrypt :: "bytes \<Rightarrow> bytes \<Rightarrow> bytes"
  Rc4_apply :: "bytes \<Rightarrow> bytes \<Rightarrow> bytes option" \<comment> \<open>\<open>None\<close>: the key size is refused\<close>
  Hmac_Sha1 :: "bytes \<Rightarrow> bytes \<Rightarrow> bytes" \<comment> \<open>key, data\<close>
  Hmac_Md5 :: "bytes \<Rightarrow> bytes \<Rightarrow> bytes"
  Hmac_Sha256 :: "bytes \<Rightarrow> bytes \<Rightarrow> bytes"
  Hmac_Sha384 :: "bytes \<Rightarrow> bytes \<Rightarrow> bytes"
  Md4_digest :: "bytes \<Rightarrow> bytes"
  Md5_digest :: "bytes \<Rightarrow> bytes"
  Pbkdf2_Sha1 :: "bytes \<Rightarrow> bytes \<Rightarrow> u32 \<Rightarrow> nat \<Rightarrow> bytes" \<comment> \<open>secret, salt, iterations, size\<close>
  Pbkdf2_Sha256 :: "bytes \<Rightarrow> bytes \<Rightarrow> u32 \<Rightarrow> nat \<Rightarrow> bytes"
  Pbkdf2_Sha384 :: "bytes \<Rightarrow> bytes \<Rightarrow> u32 \<Rightarrow> nat \<Rightarrow> bytes"

definition prims_ok :: "crypto_prims \<Rightarrow> bool" where
  "prims_ok P \<longleftrightarrow>
     (\<forall>k. length k = 16 \<longrightarrow> block_perm (Aes128_encrypt P k) (Aes128_decrypt P k) 16)
     \<and> (\<forall>k. length k = 32 \<longrightarrow> block_perm (Aes256_encrypt P k) (Aes256_decrypt P k) 16)
     \<and> (\<forall>k. length k = 24 \<longrightarrow> block_perm (TdesEde3_encrypt P k) (TdesEde3_decrypt P k) 8)
     \<and> (\<forall>k x. length k = 16 \<longrightarrow> (\<exists>y. Rc4_apply P k x = Some y \<and> length y = length x \<and> Rc4_apply P k y = Some x))
     \<and> (\<forall>k x. length (Hmac_Sha1 P k x) = 20 \<and> length (Hmac_Md5 P k x) = 16
          \<and> length (Hmac_Sha256 P k x) = 32 \<and> length (Hmac_Sha384 P k x) = 48)
     \<and> (\<forall>x. length (Md4_digest P x) = 16 \<and> length (Md5_digest P x) = 16)
     \<and> (\<forall>s t i n. length (Pbkdf2_Sha1 P s t i n) = n \<and> length (Pbkdf2_Sha256 P s t i n) = n
          \<and> length (Pbkdf2_Sha384 P s t i n) = n)"

section \<open>Key sizes\<close>

abbreviation (input) DES3_KEY_SIZE :: nat where "DES3_KEY_SIZE \<equiv> 24"
abbreviation (input) DES3_SEED_SIZE :: nat where "DES3_SEED_SIZE \<equiv> 21"
abbreviation (input) RC4_HMAC_KEY_SIZE :: nat where "RC4_HMAC_KEY_SIZE \<equiv> 16"
abbreviation (input) RC4_HMAC_CONFOUNDER_SIZE :: nat where "RC4_HMAC_CONFOUNDER_SIZE \<equiv> 8"
abbreviation (input) HMAC_SHA1_96_SIZE :: nat where "HMAC_SHA1_96_SIZE \<equiv> 12"
abbreviation (input) HMAC_SHA1_SIZE :: nat where "HMAC_SHA1_SIZE \<equiv> 20"
abbreviation (input) HMAC_SHA256_128_SIZE :: nat where "HMAC_SHA256_128_SIZE \<equiv> 16"
abbreviation (input) HMAC_SHA384_192_SIZE :: nat where "HMAC_SHA384_192_SIZE \<equiv> 24"
abbreviation (input) HMAC_MD5_SIZE :: nat where "HMAC_MD5_SIZE \<equiv> 16"

text \<open>The other key sizes are \<open>unreachable!\<close> in the code: every caller has checked the key's length, and
  the model leaves the block as it is there.\<close>

definition encrypt_block :: "crypto_prims \<Rightarrow> bytes \<Rightarrow> bytes \<Rightarrow> bytes" where
  "encrypt_block P key block =
     (if length key = 16 then Aes128_encrypt P key block
      else if length key = 32 then Aes256_encrypt P key block
      else block)"

definition decrypt_block :: "crypto_prims \<Rightarrow> bytes \<Rightarrow> bytes \<Rightarrow> bytes" where
  "decrypt_block P key block =
     (if length key = 16 then Aes128_decrypt P key block
      else if length key = 32 then Aes256_decrypt P key block
      else block)"

definition des3_encrypt_block :: "crypto_prims \<Rightarrow> bytes \<Rightarrow> bytes \<Rightarrow> bytes" where
  "des3_encrypt_block P key block = TdesEde3_encrypt P key block"

definition des3_decrypt_block :: "crypto_prims \<Rightarrow> bytes \<Rightarrow> bytes \<Rightarrow> bytes" where
  "des3_decrypt_block P key block = TdesEde3_decrypt P key block"

definition rc4_hmac_crypt :: "crypto_prims \<Rightarrow> bytes \<Rightarrow> bytes \<Rightarrow> crypto_error + bytes" where
  "rc4_hmac_crypt P key input =
     ok_or (Rc4_apply P key input) (InvalidKeyLength RC4_HMAC_KEY_SIZE (length key))"

definition hmac_sha1 :: "crypto_prims \<Rightarrow> bytes \<Rightarrow> bytes \<Rightarrow> bytes" where
  "hmac_sha1 P key data = Hmac_Sha1 P key data"

definition hmac_sha1_96 :: "crypto_prims \<Rightarrow> bytes \<Rightarrow> bytes \<Rightarrow> bytes" where
  "hmac_sha1_96 P key data = take HMAC_SHA1_96_SIZE (hmac_sha1 P key data)"

definition hmac_md5 :: "crypto_prims \<Rightarrow> bytes \<Rightarrow> bytes \<Rightarrow> bytes" where
  "hmac_md5 P key data = Hmac_Md5 P key data"

definition hmac_sha256 :: "crypto_prims \<Rightarrow> bytes \<Rightarrow> bytes \<Rightarrow> bytes" where
  "hmac_sha256 P key data = Hmac_Sha256 P key data"

definition hmac_sha384 :: "crypto_prims \<Rightarrow> bytes \<Rightarrow> bytes \<Rightarrow> bytes" where
  "hmac_sha384 P key data = Hmac_Sha384 P key data"

section \<open>Key usage\<close>

definition usage_constant :: "u32 \<Rightarrow> u8 \<Rightarrow> bytes" where
  "usage_constant usage suffix = to_bytes_en Big usage @ [suffix]"

fun ms_msg_type_loop :: "nat \<Rightarrow> u32 \<Rightarrow> bytes" where
  "ms_msg_type_loop 0 usage = []"
| "ms_msg_type_loop (Suc k) usage =
     (if usage < 0x80 then ucast usage # replicate k 0
      else ((ucast usage AND 0x7f) OR 0x80) # ms_msg_type_loop k (drop_bit 7 usage))"

definition rc4_hmac_usage_to_ms_msg_type :: "u32 \<Rightarrow> bytes" where
  "rc4_hmac_usage_to_ms_msg_type usage =
     ms_msg_type_loop 4 (if usage = 3 \<or> usage = 9 then 8 else if usage = 23 then 13 else usage)"

definition RC4_HMAC_SIGNATURE_KEY :: bytes where
  "RC4_HMAC_SIGNATURE_KEY = str_bytes ''signaturekey'' @ [0]"

definition KERBEROS_CONSTANT :: bytes where
  "KERBEROS_CONSTANT = str_bytes ''kerberos''"

definition kerb_checksum_hmac_md5 :: "crypto_prims \<Rightarrow> bytes \<Rightarrow> bytes \<Rightarrow> u32 \<Rightarrow> bytes" where
  "kerb_checksum_hmac_md5 P protocol_key data usage =
     (let signing_key = hmac_md5 P protocol_key RC4_HMAC_SIGNATURE_KEY;
          digest = Md5_digest P (rc4_hmac_usage_to_ms_msg_type usage @ data)
      in hmac_md5 P signing_key digest)"

section \<open>Constant-time comparison\<close>

definition constant_time_eq :: "bytes \<Rightarrow> bytes \<Rightarrow> bool" where
  "constant_time_eq a b =
     (if length a \<noteq> length b then False
      else foldl (\<lambda>diff (left, right). diff OR (left XOR right)) 0 (zip a b) = 0)"

section \<open>Iteration counts in hexadecimal\<close>

definition hex_digit :: "u8 \<Rightarrow> char" where
  "hex_digit v = ''0123456789abcdef'' ! unat v"

definition hex_encode :: "bytes \<Rightarrow> string" where
  "hex_encode bs = concat (map (\<lambda>b. [hex_digit (drop_bit 4 b), hex_digit (b AND 0x0f)]) bs)"

definition hex_value :: "u8 \<Rightarrow> crypto_error + u8" where
  "hex_value b =
     (if 48 \<le> b \<and> b \<le> 57 then Inr (b - 48)
      else if 97 \<le> b \<and> b \<le> 102 then Inr (b - 97 + 10)
      else if 65 \<le> b \<and> b \<le> 70 then Inr (b - 65 + 10)
      else Inl (InvalidS2kParamsHex (char_of_byte b)))"

definition hex_pair :: "u8 \<Rightarrow> u8 \<Rightarrow> crypto_error + u8" where
  "hex_pair high low =
     rbind (hex_value high) (\<lambda>h. rbind (hex_value low) (\<lambda>l. Inr (push_bit 4 h OR l)))"

definition iterations_to_s2kparams :: "u32 \<Rightarrow> string" where
  "iterations_to_s2kparams iterations = hex_encode (to_bytes_en Big iterations)"

fun hex_pairs :: "bytes \<Rightarrow> crypto_error + bytes" where
  "hex_pairs (high # low # rest) =
     rbind (hex_pair high low) (\<lambda>b. rbind (hex_pairs rest) (\<lambda>bs. Inr (b # bs)))"
| "hex_pairs _ = Inr []"

definition s2kparams_to_iterations :: "string \<Rightarrow> crypto_error + u32" where
  "s2kparams_to_iterations s2kparams =
     (if length s2kparams \<noteq> 8 then Inl (InvalidS2kParamsLength (length s2kparams))
      else rbind (hex_pairs (str_bytes s2kparams)) (\<lambda>bs.
        let iterations = from_bytes_en Big bs
        in if iterations = 0 then Inl UnsupportedIterationCountZero else Inr iterations))"

section \<open>DES3 keys\<close>

definition des3_calc_odd_parity :: "u8 \<Rightarrow> u8 \<times> u8" where
  "des3_calc_odd_parity byte =
     (let lowest_bit = byte AND 1;
          count = foldl (\<lambda>count position. if byte AND push_bit position 1 \<noteq> 0 then count + 1 else count)
                    (0 :: nat) [1..<8];
          byte = (if count mod 2 = 0 then byte OR 1 else byte AND NOT 1)
      in (lowest_bit, byte))"

text \<open>The loop over the seven seed bytes with the running \<open>last_byte\<close>.\<close>

definition des3_stretch_56_bits :: "bytes \<Rightarrow> bytes" where
  "des3_stretch_56_bits bs =
     (let last_byte = foldl (\<lambda>acc (idx, byte). if fst (des3_calc_odd_parity byte) \<noteq> 0
                                            then acc OR push_bit (idx + 1) 1 else acc)
                        0 (enumerate 0 bs)
      in map (\<lambda>byte. snd (des3_calc_odd_parity byte)) bs @ [snd (des3_calc_odd_parity last_byte)])"

definition WEAK_KEYS :: "bytes list" where
  "WEAK_KEYS = [
     [0x01, 0x01, 0x01, 0x01, 0x01, 0x01, 0x01, 0x01],
     [0xfe, 0xfe, 0xfe, 0xfe, 0xfe, 0xfe, 0xfe, 0xfe],
     [0xe0, 0xe0, 0xe0, 0xe0, 0xf1, 0xf1, 0xf1, 0xf1],
     [0x1f, 0x1f, 0x1f, 0x1f, 0x0e, 0x0e, 0x0e, 0x0e],
     [0x01, 0x1f, 0x01, 0x1f, 0x01, 0x0e, 0x01, 0x0e],
     [0x1f, 0x01, 0x1f, 0x01, 0x0e, 0x01, 0x0e, 0x01],
     [0x01, 0xe0, 0x01, 0xe0, 0x01, 0xf1, 0x01, 0xf1],
     [0xe0, 0x01, 0xe0, 0x01, 0xf1, 0x01, 0xf1, 0x01],
     [0x01, 0xfe, 0x01, 0xfe, 0x01, 0xfe, 0x01, 0xfe],
     [0xfe, 0x01, 0xfe, 0x01, 0xfe, 0x01, 0xfe, 0x01],
     [0x1f, 0xe0, 0x1f, 0xe0, 0x0e, 0xf1, 0x0e, 0xf1],
     [0xe0, 0x1f, 0xe0, 0x1f, 0xf1, 0x0e, 0xf1, 0x0e],
     [0x1f, 0xfe, 0x1f, 0xfe, 0x0e, 0xfe, 0x0e, 0xfe],
     [0xfe, 0x1f, 0xfe, 0x1f, 0xfe, 0x0e, 0xfe, 0x0e],
     [0xe0, 0xfe, 0xe0, 0xfe, 0xf1, 0xfe, 0xf1, 0xfe],
     [0xfe, 0xe0, 0xfe, 0xe0, 0xfe, 0xf1, 0xfe, 0xf1]]"

definition des3_is_weak_key :: "bytes \<Rightarrow> bool" where
  "des3_is_weak_key block \<longleftrightarrow> block \<in> set WEAK_KEYS"

definition des3_fix_weak_key :: "bytes \<Rightarrow> bytes" where
  "des3_fix_weak_key block =
     (if des3_is_weak_key block
      then block[DES3_BLOCK_SIZE - 1 := block ! (DES3_BLOCK_SIZE - 1) XOR 0xf0] else block)"

definition des3_random_to_key :: "bytes \<Rightarrow> crypto_error + bytes" where
  "des3_random_to_key bs =
     (if length bs \<noteq> DES3_SEED_SIZE then Inl (InvalidSeedLength DES3_SEED_SIZE (length bs))
      else Inr (concat (map (\<lambda>seed. des3_fix_weak_key (des3_stretch_56_bits seed)) (chunks_exact 7 bs))))"

section \<open>Lemmas on the primitives\<close>

lemma encrypt_block_perm:
  assumes "prims_ok P" and "length k = 16 \<or> length k = 32"
  shows "block_perm (encrypt_block P k) (decrypt_block P k) 16"
  using assms by (auto simp: prims_ok_def block_perm_def encrypt_block_def decrypt_block_def)

lemma des3_block_perm:
  assumes "prims_ok P" and "length k = 24"
  shows "block_perm (des3_encrypt_block P k) (des3_decrypt_block P k) 8"
  using assms by (auto simp: prims_ok_def block_perm_def des3_encrypt_block_def des3_decrypt_block_def)

lemma rc4_hmac_crypt_ok:
  assumes "prims_ok P" and "length k = 16"
  shows "\<exists>y. rc4_hmac_crypt P k x = Inr y \<and> length y = length x \<and> rc4_hmac_crypt P k y = Inr x"
proof -
  obtain y where "Rc4_apply P k x = Some y" "length y = length x" "Rc4_apply P k y = Some x"
    using assms unfolding prims_ok_def by meson
  then show ?thesis by (simp add: rc4_hmac_crypt_def)
qed

lemma hmac_lengths:
  assumes "prims_ok P"
  shows "length (hmac_sha1 P k x) = 20" and "length (hmac_sha1_96 P k x) = 12"
    and "length (hmac_md5 P k x) = 16" and "length (hmac_sha256 P k x) = 32"
    and "length (hmac_sha384 P k x) = 48"
  using assms
  by (simp_all add: prims_ok_def hmac_sha1_def hmac_sha1_96_def hmac_md5_def hmac_sha256_def hmac_sha384_def)

lemma length_usage_constant [simp]: "length (usage_constant u s) = 5"
  by (simp add: usage_constant_def length_to_bytes_en)

lemma usage_constant_ne [simp]: "usage_constant u s \<noteq> []"
  by (simp add: usage_constant_def)

lemma constant_time_eq_iff [simp]: "constant_time_eq a b \<longleftrightarrow> a = b"
proof (cases "length a = length b")
  case True
  have "foldl (\<lambda>diff (left, right). diff OR (left XOR right)) d (zip a b) = 0 \<longleftrightarrow> d = 0 \<and> a = b" for d
    using True
  proof (induction a b arbitrary: d rule: list_induct2)
    case (Cons x xs y ys)
    have "d OR (x XOR y) = 0 \<longleftrightarrow> d = 0 \<and> x = y"
      by (auto simp: bit_eq_iff bit_or_iff bit_xor_iff)
    with Cons show ?case by auto
  qed simp
  with True show ?thesis by (simp add: constant_time_eq_def)
qed (auto simp: constant_time_eq_def)

section \<open>Iteration counts\<close>

lemma hex_value_digit: "v < 16 \<Longrightarrow> hex_value (byte_of_char (hex_digit v)) = Inr v"
proof -
  assume "v < 16"
  then have "unat v < 16" by (simp add: word_less_nat_alt)
  then have "unat v \<in> set [0..<16]" by simp
  then have "v \<in> word_of_nat ` set [0..<16]" by (metis image_eqI of_nat_unat ucast_id)
  then show ?thesis
    by (simp add: upt_16) (elim disjE; simp add: hex_value_def hex_digit_def byte_of_char_def)
qed

lemma nibbles:
  fixes b :: u8
  shows "drop_bit 4 b < 16" and "b AND 0x0f < 16" and "push_bit 4 (drop_bit 4 b) OR (b AND 0x0f) = b"
proof -
  show "drop_bit 4 b < 16"
    using unat_byte_lt [of b] by (simp add: word_less_nat_alt drop_bit_eq_div unat_div)
  have m: "(0x0f :: u8) = mask 4" by (simp add: mask_eq_exp_minus_1)
  show "b AND 0x0f < 16"
    using le_less_trans [OF word_and_le1 [of b "0x0f"], of 16] by simp
  show "push_bit 4 (drop_bit 4 b) OR (b AND 0x0f) = b"
    unfolding m by (intro bit_word_eqI) (auto simp: bit_simps)
qed

lemma hex_pairs_encode: "hex_pairs (str_bytes (hex_encode bs)) = Inr bs"
proof (induction bs)
  case (Cons b bs)
  then show ?case
    by (simp add: hex_encode_def str_bytes_def hex_pair_def hex_value_digit nibbles)
qed (simp add: hex_encode_def str_bytes_def)

lemma length_hex_encode: "length (hex_encode bs) = 2 * length bs"
  by (induction bs) (simp_all add: hex_encode_def)

text \<open>An iteration count survives the trip through its string-to-key parameters: it is written as
  eight hexadecimal digits and read back, except that zero, which RFC 3962 reads as \<open>2 ^ 32\<close>
  iterations, is refused.\<close>

lemma s2kparams_roundtrip:
  "length (iterations_to_s2kparams n) = 8 \<and>
   s2kparams_to_iterations (iterations_to_s2kparams n)
     = (if n = 0 then Inl UnsupportedIterationCountZero else Inr n)"
  by (simp add: iterations_to_s2kparams_def s2kparams_to_iterations_def length_hex_encode
      length_to_bytes_en hex_pairs_encode from_to_bytes_en Let_def)

section \<open>DES3 keys: parity and weak keys\<close>

definition odd_parity :: "u8 \<Rightarrow> bool" where
  "odd_parity b \<longleftrightarrow> odd (length (filter (bit b) [0..<8]))"

lemma foldl_count: "foldl (\<lambda>c x. if Q x then c + 1 else c) a xs = a + length (filter Q xs)" for a :: nat
  by (induction xs arbitrary: a) auto

lemma parity_bits:
  fixes b :: u8
  assumes "p < 8"
  shows "b AND push_bit p 1 \<noteq> 0 \<longleftrightarrow> bit b p"
  using assms bit_iff_and_push_bit_not_eq_0 [of b p] by simp

lemma calc_odd_parity: "odd_parity (snd (des3_calc_odd_parity b))"
proof -
  define n where "n = length (filter (bit b) [1..<8])"
  define r where "r = (if n mod 2 = 0 then b OR 1 else b AND NOT 1)"
  have "filter (\<lambda>p. b AND push_bit p 1 \<noteq> 0) [1..<8] = filter (bit b) [1..<8]"
    by (rule filter_cong) (simp_all add: parity_bits del: push_bit_of_1)
  then have r: "snd (des3_calc_odd_parity b) = r"
    by (simp add: des3_calc_odd_parity_def Let_def r_def n_def foldl_count del: push_bit_of_1)
  have high: "filter (bit r) [1..<8] = filter (bit b) [1..<8]"
    by (rule filter_cong) (auto simp: r_def bit_simps)
  have "bit r 0 \<longleftrightarrow> even n" by (auto simp: r_def bit_simps)
  moreover have "[0..<8] = 0 # [1..<8]" by (simp add: upt_rec)
  ultimately show ?thesis unfolding r odd_parity_def by (simp add: high n_def del: One_nat_def)
qed

lemma stretch_parity: "\<forall>b \<in> set (des3_stretch_56_bits seed). odd_parity b"
  by (auto simp: des3_stretch_56_bits_def Let_def calc_odd_parity)

lemma length_stretch [simp]: "length (des3_stretch_56_bits seed) = length seed + 1"
  by (simp add: des3_stretch_56_bits_def Let_def)

lemma weak_keys_fixed:
  "\<forall>w \<in> set WEAK_KEYS. w[7 := w ! 7 XOR 0xf0] \<notin> set WEAK_KEYS \<and> length w = 8"
  by (simp add: WEAK_KEYS_def)

lemma weak_last_bytes: "\<forall>w \<in> set WEAK_KEYS. w ! 7 \<in> {0x01, 0xfe, 0xf1, 0x0e}"
  by (simp add: WEAK_KEYS_def)

lemma odd_parity_fixed: "b \<in> {0x01, 0xfe, 0xf1, 0x0e} \<Longrightarrow> odd_parity (b XOR 0xf0)"
  by (elim insertE emptyE; simp add: odd_parity_def upt_8)

lemma fix_weak_key:
  assumes "length block = 8" and "\<forall>b \<in> set block. odd_parity b"
  shows "\<not> des3_is_weak_key (des3_fix_weak_key block)" and "length (des3_fix_weak_key block) = 8"
    and "\<forall>b \<in> set (des3_fix_weak_key block). odd_parity b"
proof -
  show "\<not> des3_is_weak_key (des3_fix_weak_key block)" "length (des3_fix_weak_key block) = 8"
    using weak_keys_fixed assms by (auto simp: des3_fix_weak_key_def des3_is_weak_key_def)
  show "\<forall>b \<in> set (des3_fix_weak_key block). odd_parity b"
    using weak_last_bytes odd_parity_fixed assms(2)
    by (auto simp: des3_fix_weak_key_def des3_is_weak_key_def dest!: subsetD [OF set_update_subset_insert])
qed

lemma des3_random_to_key_blocks:
  assumes "length seed = 21"
  obtains blocks where "des3_random_to_key seed = Inr (concat blocks)" and "length blocks = 3"
    and "\<forall>b \<in> set blocks. length b = 8 \<and> \<not> des3_is_weak_key b \<and> (\<forall>x \<in> set b. odd_parity x)"
proof
  let ?blocks = "map (\<lambda>seed. des3_fix_weak_key (des3_stretch_56_bits seed)) (chunks_exact 7 seed)"
  have dvd: "7 dvd length seed" using assms by simp
  show "des3_random_to_key seed = Inr (concat ?blocks)" using assms by (simp add: des3_random_to_key_def)
  show "length ?blocks = 3" using length_chunks_exact [OF _ dvd] assms by simp
  show "\<forall>b \<in> set ?blocks. length b = 8 \<and> \<not> des3_is_weak_key b \<and> (\<forall>x \<in> set b. odd_parity x)"
    using blocks_of [OF _ dvd] fix_weak_key [OF _ stretch_parity] by auto
qed

lemma des3_random_to_key_length:
  assumes "length seed = 21"
  shows "\<exists>k. des3_random_to_key seed = Inr k \<and> length k = 24"
proof -
  obtain bs where "des3_random_to_key seed = Inr (concat bs)" "length bs = 3" "\<forall>b \<in> set bs. length b = 8"
    using des3_random_to_key_blocks [OF assms] by metis
  moreover have "length (concat bs) = 8 * length bs" if "\<forall>b \<in> set bs. length b = 8" for bs :: "bytes list"
    using that by (induction bs) auto
  ultimately show ?thesis by auto
qed

text \<open>From a seed of 21 bytes \<open>des3_random_to_key\<close> always makes a well-formed triple-DES key: 24
  bytes, each of odd parity, and none of the three 8-byte DES keys is weak or semi-weak.  A seed of any
  other length is refused.\<close>

lemma des3_random_to_key_wellformed:
  "if length seed = 21
   then \<exists>k. des3_random_to_key seed = Inr k \<and> length k = 24 \<and> list_all odd_parity k
      \<and> list_all (\<lambda>block. \<not> des3_is_weak_key block) (chunks_exact 8 k)
   else des3_random_to_key seed = Inl (InvalidSeedLength 21 (length seed))"
proof (cases "length seed = 21")
  case True
  obtain bs where "des3_random_to_key seed = Inr (concat bs)"
    and bs: "\<forall>b \<in> set bs. length b = 8 \<and> \<not> des3_is_weak_key b \<and> (\<forall>x \<in> set b. odd_parity x)"
    using des3_random_to_key_blocks [OF True] by metis
  moreover have "chunks_exact 8 (concat bs) = bs" using bs by (intro chunks_exact_concat) auto
  ultimately show ?thesis
    using True des3_random_to_key_length [OF True] by (auto simp: list_all_iff)
qed (simp add: des3_random_to_key_def)

end
