(* ===== verification/Etypes.thy ===== *)
theory Etypes
  imports Crypto_Prims
begin

text \<open>
  The encryption types of \<open>src/crypto.rs\<close>: \<open>AesSha1Etype\<close> (RFC 3962), \<open>AesSha2Etype\<close> (RFC 8009),
  \<open>Des3CbcSha1KdEtype\<close> (RFC 3961) and \<open>Rc4HmacEtype\<close> (RFC 4757), and \<open>KerberosEtype\<close>, which dispatches
  to them.  Each method is one definition; \<open>P\<close> is the record of the crates' primitives.
\<close>

unbundle bit_operations_syntax

section \<open>Shared loops\<close>

text \<open>The loop of \<open>derive_random\<close>, which collects encrypted blocks until \<open>want\<close> bytes are there.  An
  encrypted block is never empty; on an empty one, where the code would spin, the model stops.\<close>

function dr_loop :: "(bytes \<Rightarrow> crypto_error + bytes) \<Rightarrow> nat \<Rightarrow> bytes \<Rightarrow> bytes \<Rightarrow> crypto_error + bytes" where
  "dr_loop enc want out block =
     (if length out < want then
        let remaining = want - length out;
            out = out @ take (min remaining (length block)) block
        in if length out < want \<and> block \<noteq> []
           then rbind (enc block) (\<lambda>next. dr_loop enc want out next)
           else Inr out
      else Inr out)"
  by pat_completeness auto
termination
  by (relation "measure (\<lambda>(enc, want, out, block). want - length out)") (auto simp: neq_Nil_conv)

declare dr_loop.simps [simp del]

definition check_key_len :: "nat \<Rightarrow> bytes \<Rightarrow> crypto_error + unit" where
  "check_key_len expected key =
     (if length key \<noteq> expected then Inl (InvalidKeyLength expected (length key)) else Inr ())"

section \<open>AES-CTS-HMAC-SHA1-96\<close>

datatype aes_sha1_etype = Aes128Sha1 | Aes256Sha1

definition aes1_from_etype_id :: "i32 \<Rightarrow> aes_sha1_etype option" where
  "aes1_from_etype_id etype_id =
     (if etype_id = 17 then Some Aes128Sha1 else if etype_id = 18 then Some Aes256Sha1 else None)"

fun aes1_etype_id :: "aes_sha1_etype \<Rightarrow> i32" where
  "aes1_etype_id Aes128Sha1 = 17"
| "aes1_etype_id Aes256Sha1 = 18"

fun aes1_checksum_type_id :: "aes_sha1_etype \<Rightarrow> i32" where
  "aes1_checksum_type_id Aes128Sha1 = 15"
| "aes1_checksum_type_id Aes256Sha1 = 16"

fun aes1_key_len :: "aes_sha1_etype \<Rightarrow> nat" where
  "aes1_key_len Aes128Sha1 = 16"
| "aes1_key_len Aes256Sha1 = 32"

definition aes1_confounder_len :: "aes_sha1_etype \<Rightarrow> nat" where
  "aes1_confounder_len e = AES_BLOCK_SIZE"

definition aes1_hmac_len :: "aes_sha1_etype \<Rightarrow> nat" where
  "aes1_hmac_len e = HMAC_SHA1_96_SIZE"

definition aes1_default_s2kparams :: "aes_sha1_etype \<Rightarrow> string" where
  "aes1_default_s2kparams e = ''00001000''"

definition aes1_string_to_pbkdf2 :: "crypto_prims \<Rightarrow> aes_sha1_etype \<Rightarrow> bytes \<Rightarrow> bytes \<Rightarrow> u32 \<Rightarrow> bytes" where
  "aes1_string_to_pbkdf2 P e secret salt iterations = Pbkdf2_Sha1 P secret salt iterations (aes1_key_len e)"

definition aes1_validate_key :: "aes_sha1_etype \<Rightarrow> bytes \<Rightarrow> crypto_error + unit" where
  "aes1_validate_key e key = check_key_len (aes1_key_len e) key"

definition aes1_encrypt_data :: "crypto_prims \<Rightarrow> aes_sha1_etype \<Rightarrow> bytes \<Rightarrow> bytes \<Rightarrow> crypto_error + (bytes \<times> bytes)" where
  "aes1_encrypt_data P e key plaintext =
     rbind (aes1_validate_key e key) (\<lambda>_. aes_cts_encrypt (encrypt_block P key) plaintext)"

definition aes1_decrypt_data :: "crypto_prims \<Rightarrow> aes_sha1_etype \<Rightarrow> bytes \<Rightarrow> bytes \<Rightarrow> crypto_error + bytes" where
  "aes1_decrypt_data P e key ciphertext =
     rbind (aes1_validate_key e key) (\<lambda>_. aes_cts_decrypt (decrypt_block P key) ciphertext)"

definition aes1_derive_random :: "crypto_prims \<Rightarrow> aes_sha1_etype \<Rightarrow> bytes \<Rightarrow> bytes \<Rightarrow> crypto_error + bytes" where
  "aes1_derive_random P e protocol_key usage =
     rbind (aes1_validate_key e protocol_key) (\<lambda>_.
       if usage = [] then Inl EmptyUsage
       else rbind (nfold usage (AES_BLOCK_SIZE * 8)) (\<lambda>folded_usage.
         rbind (aes1_encrypt_data P e protocol_key folded_usage) (\<lambda>(_, block).
           dr_loop (\<lambda>b. rbind (aes1_encrypt_data P e protocol_key b) (\<lambda>(_, next). Inr next))
             (aes1_key_len e) [] block)))"

definition aes1_derive_key :: "crypto_prims \<Rightarrow> aes_sha1_etype \<Rightarrow> bytes \<Rightarrow> bytes \<Rightarrow> crypto_error + bytes" where
  "aes1_derive_key P e protocol_key usage =
     rbind (aes1_validate_key e protocol_key) (\<lambda>_. aes1_derive_random P e protocol_key usage)"

definition aes1_string_to_key :: "crypto_prims \<Rightarrow> aes_sha1_etype \<Rightarrow> bytes \<Rightarrow> bytes \<Rightarrow> string \<Rightarrow> crypto_error + bytes" where
  "aes1_string_to_key P e secret salt s2kparams =
     rbind (s2kparams_to_iterations s2kparams) (\<lambda>iterations.
       let tkey = aes1_string_to_pbkdf2 P e secret salt iterations
       in aes1_derive_key P e tkey KERBEROS_CONSTANT)"

definition aes1_checksum :: "crypto_prims \<Rightarrow> aes_sha1_etype \<Rightarrow> bytes \<Rightarrow> bytes \<Rightarrow> u32 \<Rightarrow> crypto_error + bytes" where
  "aes1_checksum P e protocol_key data usage =
     rbind (aes1_derive_key P e protocol_key (usage_constant usage 0x99)) (\<lambda>key.
       Inr (hmac_sha1_96 P key data))"

definition is_ok_and :: "'e + 'a \<Rightarrow> ('a \<Rightarrow> bool) \<Rightarrow> bool" where
  "is_ok_and m f = (case m of Inl e \<Rightarrow> False | Inr x \<Rightarrow> f x)"

definition aes1_verify_checksum :: "crypto_prims \<Rightarrow> aes_sha1_etype \<Rightarrow> bytes \<Rightarrow> bytes \<Rightarrow> bytes \<Rightarrow> u32 \<Rightarrow> bool" where
  "aes1_verify_checksum P e protocol_key data checksum usage =
     is_ok_and (aes1_checksum P e protocol_key data usage) (\<lambda>expected. constant_time_eq expected checksum)"

definition aes1_encrypt_message_with_confounder ::
    "crypto_prims \<Rightarrow> aes_sha1_etype \<Rightarrow> bytes \<Rightarrow> bytes \<Rightarrow> u32 \<Rightarrow> bytes \<Rightarrow> crypto_error + bytes" where
  "aes1_encrypt_message_with_confounder P e protocol_key message usage confounder =
     rbind (aes1_validate_key e protocol_key) (\<lambda>_.
       if length confounder \<noteq> aes1_confounder_len e
       then Inl (InvalidConfounderLength (aes1_confounder_len e) (length confounder))
       else let plain = confounder @ message in
         rbind (aes1_derive_key P e protocol_key (usage_constant usage 0xaa)) (\<lambda>encryption_key.
         rbind (aes1_encrypt_data P e encryption_key plain) (\<lambda>(_, encrypted).
         rbind (aes1_derive_key P e protocol_key (usage_constant usage 0x55)) (\<lambda>integrity_key.
           Inr (encrypted @ hmac_sha1_96 P integrity_key plain)))))"

definition aes1_decrypt_message ::
    "crypto_prims \<Rightarrow> aes_sha1_etype \<Rightarrow> bytes \<Rightarrow> bytes \<Rightarrow> u32 \<Rightarrow> crypto_error + bytes" where
  "aes1_decrypt_message P e protocol_key ciphertext usage =
     rbind (aes1_validate_key e protocol_key) (\<lambda>_.
       if length ciphertext < aes1_hmac_len e + aes1_confounder_len e
       then Inl (CiphertextTooShort (aes1_hmac_len e + aes1_confounder_len e) (length ciphertext))
       else let at = length ciphertext - aes1_hmac_len e;
                encrypted = take at ciphertext; mac = drop at ciphertext in
         rbind (aes1_derive_key P e protocol_key (usage_constant usage 0xaa)) (\<lambda>encryption_key.
         rbind (aes1_decrypt_data P e encryption_key encrypted) (\<lambda>plain.
           if length plain < aes1_confounder_len e
           then Inl (PlaintextTooShort (aes1_confounder_len e) (length plain))
           else rbind (aes1_derive_key P e protocol_key (usage_constant usage 0x55)) (\<lambda>integrity_key.
             let expected = hmac_sha1_96 P integrity_key plain
             in if \<not> constant_time_eq expected mac then Inl IntegrityCheckFailed
                else Inr (drop (aes1_confounder_len e) plain)))))"

section \<open>AES-CTS-HMAC-SHA2\<close>

datatype aes_sha2_etype = Aes128Sha2 | Aes256Sha2

definition aes2_from_etype_id :: "i32 \<Rightarrow> aes_sha2_etype option" where
  "aes2_from_etype_id etype_id =
     (if etype_id = 19 then Some Aes128Sha2 else if etype_id = 20 then Some Aes256Sha2 else None)"

fun aes2_etype_id :: "aes_sha2_etype \<Rightarrow> i32" where
  "aes2_etype_id Aes128Sha2 = 19"
| "aes2_etype_id Aes256Sha2 = 20"

fun aes2_checksum_type_id :: "aes_sha2_etype \<Rightarrow> i32" where
  "aes2_checksum_type_id Aes128Sha2 = 19"
| "aes2_checksum_type_id Aes256Sha2 = 20"

fun aes2_ename :: "aes_sha2_etype \<Rightarrow> string" where
  "aes2_ename Aes128Sha2 = ''aes128-cts-hmac-sha256-128''"
| "aes2_ename Aes256Sha2 = ''aes256-cts-hmac-sha384-192''"

fun aes2_key_len :: "aes_sha2_etype \<Rightarrow> nat" where
  "aes2_key_len Aes128Sha2 = 16"
| "aes2_key_len Aes256Sha2 = 32"

definition aes2_confounder_len :: "aes_sha2_etype \<Rightarrow> nat" where
  "aes2_confounder_len e = AES_BLOCK_SIZE"

fun aes2_hmac_len :: "aes_sha2_etype \<Rightarrow> nat" where
  "aes2_hmac_len Aes128Sha2 = HMAC_SHA256_128_SIZE"
| "aes2_hmac_len Aes256Sha2 = HMAC_SHA384_192_SIZE"

definition aes2_default_s2kparams :: "aes_sha2_etype \<Rightarrow> string" where
  "aes2_default_s2kparams e = ''00008000''"

definition aes2_saltp :: "aes_sha2_etype \<Rightarrow> bytes \<Rightarrow> bytes" where
  "aes2_saltp e salt = str_bytes (aes2_ename e) @ [0] @ salt"

fun aes2_string_to_pbkdf2 :: "crypto_prims \<Rightarrow> aes_sha2_etype \<Rightarrow> bytes \<Rightarrow> bytes \<Rightarrow> u32 \<Rightarrow> bytes" where
  "aes2_string_to_pbkdf2 P Aes128Sha2 secret salt iterations =
     Pbkdf2_Sha256 P secret salt iterations (aes2_key_len Aes128Sha2)"
| "aes2_string_to_pbkdf2 P Aes256Sha2 secret salt iterations =
     Pbkdf2_Sha384 P secret salt iterations (aes2_key_len Aes256Sha2)"

definition aes2_validate_protocol_key :: "aes_sha2_etype \<Rightarrow> bytes \<Rightarrow> crypto_error + unit" where
  "aes2_validate_protocol_key e key = check_key_len (aes2_key_len e) key"

definition aes2_validate_encrypt_key :: "aes_sha2_etype \<Rightarrow> bytes \<Rightarrow> crypto_error + unit" where
  "aes2_validate_encrypt_key e key = aes2_validate_protocol_key e key"

fun aes2_derive_key_bits :: "aes_sha2_etype \<Rightarrow> bytes \<Rightarrow> nat" where
  "aes2_derive_key_bits Aes128Sha2 label = 128"
| "aes2_derive_key_bits Aes256Sha2 label =
     (if label = KERBEROS_CONSTANT then 256
      else if label \<noteq> [] \<and> last label = 0xaa then 256
      else 192)"

fun aes2_hash_len :: "aes_sha2_etype \<Rightarrow> nat" where
  "aes2_hash_len Aes128Sha2 = 32"
| "aes2_hash_len Aes256Sha2 = 48"

definition aes2_kdf_hmac_sha2 :: "crypto_prims \<Rightarrow> aes_sha2_etype \<Rightarrow> bytes \<Rightarrow> bytes \<Rightarrow> bytes \<Rightarrow> nat \<Rightarrow> bytes" where
  "aes2_kdf_hmac_sha2 P e protocol_key label ctxt output_bits =
     (let input = to_bytes_en Big (1 :: u32) @ label @ [0] @ ctxt @ to_bytes_en Big (word_of_nat output_bits :: u32);
          output = (case e of Aes128Sha2 \<Rightarrow> hmac_sha256 P protocol_key input
                            | Aes256Sha2 \<Rightarrow> hmac_sha384 P protocol_key input)
      in take (output_bits div 8) output)"

definition aes2_truncated_hmac :: "crypto_prims \<Rightarrow> aes_sha2_etype \<Rightarrow> bytes \<Rightarrow> bytes \<Rightarrow> bytes" where
  "aes2_truncated_hmac P e key data =
     (case e of Aes128Sha2 \<Rightarrow> take (aes2_hmac_len e) (hmac_sha256 P key data)
              | Aes256Sha2 \<Rightarrow> take (aes2_hmac_len e) (hmac_sha384 P key data))"

definition aes2_derive_key :: "crypto_prims \<Rightarrow> aes_sha2_etype \<Rightarrow> bytes \<Rightarrow> bytes \<Rightarrow> crypto_error + bytes" where
  "aes2_derive_key P e protocol_key label =
     rbind (aes2_validate_protocol_key e protocol_key) (\<lambda>_.
       if label = [] then Inl EmptyUsage
       else Inr (aes2_kdf_hmac_sha2 P e protocol_key label [] (aes2_derive_key_bits e label)))"

definition aes2_derive_random :: "crypto_prims \<Rightarrow> aes_sha2_etype \<Rightarrow> bytes \<Rightarrow> bytes \<Rightarrow> crypto_error + bytes" where
  "aes2_derive_random P e protocol_key usage =
     rbind (aes2_validate_protocol_key e protocol_key) (\<lambda>_.
       if usage = [] then Inl EmptyUsage
       else Inr (aes2_kdf_hmac_sha2 P e protocol_key (str_bytes ''prf'') usage (aes2_hash_len e * 8)))"

definition aes2_string_to_key :: "crypto_prims \<Rightarrow> aes_sha2_etype \<Rightarrow> bytes \<Rightarrow> bytes \<Rightarrow> string \<Rightarrow> crypto_error + bytes" where
  "aes2_string_to_key P e secret salt s2kparams =
     rbind (s2kparams_to_iterations s2kparams) (\<lambda>iterations.
       let saltp = aes2_saltp e salt;
           tkey = aes2_string_to_pbkdf2 P e secret saltp iterations
       in aes2_derive_key P e tkey KERBEROS_CONSTANT)"

definition aes2_checksum :: "crypto_prims \<Rightarrow> aes_sha2_etype \<Rightarrow> bytes \<Rightarrow> bytes \<Rightarrow> u32 \<Rightarrow> crypto_error + bytes" where
  "aes2_checksum P e protocol_key data usage =
     rbind (aes2_derive_key P e protocol_key (usage_constant usage 0x99)) (\<lambda>key.
       Inr (aes2_truncated_hmac P e key data))"

definition aes2_verify_checksum :: "crypto_prims \<Rightarrow> aes_sha2_etype \<Rightarrow> bytes \<Rightarrow> bytes \<Rightarrow> bytes \<Rightarrow> u32 \<Rightarrow> bool" where
  "aes2_verify_checksum P e protocol_key data checksum usage =
     is_ok_and (aes2_checksum P e protocol_key data usage) (\<lambda>expected. constant_time_eq expected checksum)"

definition aes2_encrypt_data :: "crypto_prims \<Rightarrow> aes_sha2_etype \<Rightarrow> bytes \<Rightarrow> bytes \<Rightarrow> crypto_error + (bytes \<times> bytes)" where
  "aes2_encrypt_data P e key plaintext =
     rbind (aes2_validate_encrypt_key e key) (\<lambda>_. aes_cts_encrypt (encrypt_block P key) plaintext)"

definition aes2_decrypt_data :: "crypto_prims \<Rightarrow> aes_sha2_etype \<Rightarrow> bytes \<Rightarrow> bytes \<Rightarrow> crypto_error + bytes" where
  "aes2_decrypt_data P e key ciphertext =
     rbind (aes2_validate_encrypt_key e key) (\<lambda>_. aes_cts_decrypt (decrypt_block P key) ciphertext)"

definition aes2_integrity_hash :: "crypto_prims \<Rightarrow> aes_sha2_etype \<Rightarrow> bytes \<Rightarrow> u32 \<Rightarrow> bytes \<Rightarrow> crypto_error + bytes" where
  "aes2_integrity_hash P e protocol_key usage encrypted =
     rbind (aes2_derive_key P e protocol_key (usage_constant usage 0x55)) (\<lambda>integrity_key.
       Inr (aes2_truncated_hmac P e integrity_key (replicate AES_BLOCK_SIZE 0 @ encrypted)))"

definition aes2_encrypt_message_with_confounder ::
    "crypto_prims \<Rightarrow> aes_sha2_etype \<Rightarrow> bytes \<Rightarrow> bytes \<Rightarrow> u32 \<Rightarrow> bytes \<Rightarrow> crypto_error + bytes" where
  "aes2_encrypt_message_with_confounder P e protocol_key message usage confounder =
     rbind (aes2_validate_protocol_key e protocol_key) (\<lambda>_.
       if length confounder \<noteq> aes2_confounder_len e
       then Inl (InvalidConfounderLength (aes2_confounder_len e) (length confounder))
       else let plain = confounder @ message in
         rbind (aes2_derive_key P e protocol_key (usage_constant usage 0xaa)) (\<lambda>encryption_key.
         rbind (aes2_encrypt_data P e encryption_key plain) (\<lambda>(_, encrypted).
         rbind (aes2_integrity_hash P e protocol_key usage encrypted) (\<lambda>mac.
           Inr (encrypted @ mac)))))"

definition aes2_decrypt_message ::
    "crypto_prims \<Rightarrow> aes_sha2_etype \<Rightarrow> bytes \<Rightarrow> bytes \<Rightarrow> u32 \<Rightarrow> crypto_error + bytes" where
  "aes2_decrypt_message P e protocol_key ciphertext usage =
     rbind (aes2_validate_protocol_key e protocol_key) (\<lambda>_.
       if length ciphertext < aes2_hmac_len e + aes2_confounder_len e
       then Inl (CiphertextTooShort (aes2_hmac_len e + aes2_confounder_len e) (length ciphertext))
       else let at = length ciphertext - aes2_hmac_len e;
                encrypted = take at ciphertext; mac = drop at ciphertext in
         rbind (aes2_derive_key P e protocol_key (usage_constant usage 0xaa)) (\<lambda>encryption_key.
         rbind (aes2_decrypt_data P e encryption_key encrypted) (\<lambda>plain.
           if length plain < aes2_confounder_len e
           then Inl (PlaintextTooShort (aes2_confounder_len e) (length plain))
           else rbind (aes2_integrity_hash P e protocol_key usage encrypted) (\<lambda>expected.
             if \<not> constant_time_eq expected mac then Inl IntegrityCheckFailed
             else Inr (drop (aes2_confounder_len e) plain)))))"

section \<open>DES3-CBC-SHA1-KD\<close>

definition des3_from_etype_id :: "i32 \<Rightarrow> unit option" where
  "des3_from_etype_id etype_id = (if etype_id = 16 then Some () else None)"

definition des3_from_checksum_type_id :: "i32 \<Rightarrow> unit option" where
  "des3_from_checksum_type_id checksum_type_id = (if checksum_type_id = 12 then Some () else None)"

definition des3_etype_id :: i32 where
  "des3_etype_id = 16"

definition des3_checksum_type_id :: i32 where
  "des3_checksum_type_id = 12"

definition des3_key_len :: nat where
  "des3_key_len = DES3_KEY_SIZE"

definition des3_confounder_len :: nat where
  "des3_confounder_len = DES3_BLOCK_SIZE"

definition des3_hmac_len :: nat where
  "des3_hmac_len = HMAC_SHA1_SIZE"

definition des3_default_s2kparams :: string where
  "des3_default_s2kparams = []"

definition des3_validate_key :: "bytes \<Rightarrow> crypto_error + unit" where
  "des3_validate_key key = check_key_len des3_key_len key"

definition des3_encrypt_data :: "crypto_prims \<Rightarrow> bytes \<Rightarrow> bytes \<Rightarrow> crypto_error + (bytes \<times> bytes)" where
  "des3_encrypt_data P key plaintext =
     rbind (des3_validate_key key) (\<lambda>_. des3_cbc_encrypt (des3_encrypt_block P key) plaintext)"

definition des3_decrypt_data :: "crypto_prims \<Rightarrow> bytes \<Rightarrow> bytes \<Rightarrow> crypto_error + bytes" where
  "des3_decrypt_data P key ciphertext =
     rbind (des3_validate_key key) (\<lambda>_. des3_cbc_decrypt (des3_decrypt_block P key) ciphertext)"

definition des3_derive_random :: "crypto_prims \<Rightarrow> bytes \<Rightarrow> bytes \<Rightarrow> crypto_error + bytes" where
  "des3_derive_random P protocol_key usage =
     rbind (des3_validate_key protocol_key) (\<lambda>_.
       if usage = [] then Inl EmptyUsage
       else rbind (nfold usage (DES3_BLOCK_SIZE * 8)) (\<lambda>folded_usage.
         rbind (des3_encrypt_data P protocol_key folded_usage) (\<lambda>(_, block).
           dr_loop (\<lambda>b. rbind (des3_encrypt_data P protocol_key b) (\<lambda>(_, next). Inr next))
             DES3_SEED_SIZE [] block)))"

definition des3_derive_key :: "crypto_prims \<Rightarrow> bytes \<Rightarrow> bytes \<Rightarrow> crypto_error + bytes" where
  "des3_derive_key P protocol_key usage =
     rbind (des3_derive_random P protocol_key usage) des3_random_to_key"

definition des3_string_to_key :: "crypto_prims \<Rightarrow> bytes \<Rightarrow> bytes \<Rightarrow> string \<Rightarrow> crypto_error + bytes" where
  "des3_string_to_key P secret salt s2kparams =
     (if s2kparams \<noteq> [] then Inl NonEmptyDes3S2kParams
      else rbind (nfold (secret @ salt) (DES3_SEED_SIZE * 8)) (\<lambda>folded.
        rbind (des3_random_to_key folded) (\<lambda>tkey. des3_derive_key P tkey KERBEROS_CONSTANT)))"

definition des3_checksum :: "crypto_prims \<Rightarrow> bytes \<Rightarrow> bytes \<Rightarrow> u32 \<Rightarrow> crypto_error + bytes" where
  "des3_checksum P protocol_key data usage =
     rbind (des3_derive_key P protocol_key (usage_constant usage 0x99)) (\<lambda>key. Inr (hmac_sha1 P key data))"

definition des3_verify_checksum :: "crypto_prims \<Rightarrow> bytes \<Rightarrow> bytes \<Rightarrow> bytes \<Rightarrow> u32 \<Rightarrow> bool" where
  "des3_verify_checksum P protocol_key data checksum usage =
     is_ok_and (des3_checksum P protocol_key data usage) (\<lambda>expected. constant_time_eq expected checksum)"

definition des3_encrypt_message_with_confounder ::
    "crypto_prims \<Rightarrow> bytes \<Rightarrow> bytes \<Rightarrow> u32 \<Rightarrow> bytes \<Rightarrow> crypto_error + bytes" where
  "des3_encrypt_message_with_confounder P protocol_key message usage confounder =
     rbind (des3_validate_key protocol_key) (\<lambda>_.
       if length confounder \<noteq> des3_confounder_len
       then Inl (InvalidConfounderLength des3_confounder_len (length confounder))
       else let plain = zero_pad (confounder @ message) DES3_BLOCK_SIZE in
         rbind (des3_derive_key P protocol_key (usage_constant usage 0xaa)) (\<lambda>encryption_key.
         rbind (des3_encrypt_data P encryption_key plain) (\<lambda>(_, encrypted).
         rbind (des3_derive_key P protocol_key (usage_constant usage 0x55)) (\<lambda>integrity_key.
           Inr (encrypted @ hmac_sha1 P integrity_key plain)))))"

definition des3_decrypt_message :: "crypto_prims \<Rightarrow> bytes \<Rightarrow> bytes \<Rightarrow> u32 \<Rightarrow> crypto_error + bytes" where
  "des3_decrypt_message P protocol_key ciphertext usage =
     rbind (des3_validate_key protocol_key) (\<lambda>_.
       if length ciphertext < des3_hmac_len + des3_confounder_len
       then Inl (CiphertextTooShort (des3_hmac_len + des3_confounder_len) (length ciphertext))
       else let at = length ciphertext - des3_hmac_len;
                encrypted = take at ciphertext; mac = drop at ciphertext in
         rbind (des3_derive_key P protocol_key (usage_constant usage 0xaa)) (\<lambda>encryption_key.
         rbind (des3_decrypt_data P encryption_key encrypted) (\<lambda>plain.
           if length plain < des3_confounder_len
           then Inl (PlaintextTooShort des3_confounder_len (length plain))
           else rbind (des3_derive_key P protocol_key (usage_constant usage 0x55)) (\<lambda>integrity_key.
             let expected = hmac_sha1 P integrity_key plain
             in if \<not> constant_time_eq expected mac then Inl IntegrityCheckFailed
                else Inr (drop des3_confounder_len plain)))))"

section \<open>RC4-HMAC\<close>

text \<open>\<open>str::encode_utf16\<close>: the scalar values of well-formed UTF-8, and their UTF-16 code units.\<close>

fun utf8_scalars :: "bytes \<Rightarrow> nat list" where
  "utf8_scalars [] = []"
| "utf8_scalars (b # bs) =
     (if unat b < 0x80 then unat b # utf8_scalars bs
      else (case bs of [] \<Rightarrow> [] | c # cs \<Rightarrow>
        if unat b < 0xE0 then ((unat b - 0xC0) * 64 + (unat c - 0x80)) # utf8_scalars cs
        else (case cs of [] \<Rightarrow> [] | d # ds \<Rightarrow>
          if unat b < 0xF0
          then ((unat b - 0xE0) * 4096 + (unat c - 0x80) * 64 + (unat d - 0x80)) # utf8_scalars ds
          else (case ds of [] \<Rightarrow> [] | e # es \<Rightarrow>
            ((unat b - 0xF0) * 262144 + (unat c - 0x80) * 4096 + (unat d - 0x80) * 64 + (unat e - 0x80))
              # utf8_scalars es))))"

definition utf16_units :: "nat \<Rightarrow> u16 list" where
  "utf16_units c =
     (if c < 0x10000 then [word_of_nat c]
      else [word_of_nat (0xD800 + (c - 0x10000) div 0x400), word_of_nat (0xDC00 + (c - 0x10000) mod 0x400)])"

definition encode_utf16 :: "bytes \<Rightarrow> u16 list" where
  "encode_utf16 bs = concat (map utf16_units (utf8_scalars bs))"

definition rc4_from_etype_id :: "i32 \<Rightarrow> unit option" where
  "rc4_from_etype_id etype_id = (if etype_id = 23 then Some () else None)"

definition rc4_from_checksum_type_id :: "i32 \<Rightarrow> unit option" where
  "rc4_from_checksum_type_id checksum_type_id = (if checksum_type_id = - 138 then Some () else None)"

definition rc4_etype_id :: i32 where
  "rc4_etype_id = 23"

definition rc4_checksum_type_id :: i32 where
  "rc4_checksum_type_id = - 138"

definition rc4_key_len :: nat where
  "rc4_key_len = RC4_HMAC_KEY_SIZE"

definition rc4_confounder_len :: nat where
  "rc4_confounder_len = RC4_HMAC_CONFOUNDER_SIZE"

definition rc4_hmac_len :: nat where
  "rc4_hmac_len = HMAC_MD5_SIZE"

definition rc4_default_s2kparams :: string where
  "rc4_default_s2kparams = []"

definition rc4_validate_key :: "bytes \<Rightarrow> crypto_error + unit" where
  "rc4_validate_key key = check_key_len rc4_key_len key"

definition rc4_string_to_key :: "crypto_prims \<Rightarrow> bytes \<Rightarrow> bytes \<Rightarrow> string \<Rightarrow> crypto_error + bytes" where
  "rc4_string_to_key P secret salt s2kparams =
     (if \<not> utf8_valid secret then Inl InvalidStringToKeySecret
      else Inr (Md4_digest P (concat (map (to_bytes_en Little) (encode_utf16 secret)))))"

definition rc4_random_to_key :: "crypto_prims \<Rightarrow> bytes \<Rightarrow> bytes" where
  "rc4_random_to_key P bs = Md4_digest P bs"

definition rc4_derive_key :: "crypto_prims \<Rightarrow> bytes \<Rightarrow> bytes \<Rightarrow> crypto_error + bytes" where
  "rc4_derive_key P protocol_key usage =
     rbind (rc4_validate_key protocol_key) (\<lambda>_.
       if usage = [] then Inl EmptyUsage else Inr (hmac_md5 P protocol_key usage))"

definition rc4_checksum :: "crypto_prims \<Rightarrow> bytes \<Rightarrow> bytes \<Rightarrow> u32 \<Rightarrow> crypto_error + bytes" where
  "rc4_checksum P protocol_key data usage =
     rbind (rc4_validate_key protocol_key) (\<lambda>_. Inr (kerb_checksum_hmac_md5 P protocol_key data usage))"

definition rc4_verify_checksum :: "crypto_prims \<Rightarrow> bytes \<Rightarrow> bytes \<Rightarrow> bytes \<Rightarrow> u32 \<Rightarrow> bool" where
  "rc4_verify_checksum P protocol_key data checksum usage =
     is_ok_and (rc4_checksum P protocol_key data usage) (\<lambda>expected. constant_time_eq expected checksum)"

definition rc4_encrypt_data :: "crypto_prims \<Rightarrow> bytes \<Rightarrow> bytes \<Rightarrow> crypto_error + bytes" where
  "rc4_encrypt_data P key plaintext = rbind (rc4_validate_key key) (\<lambda>_. rc4_hmac_crypt P key plaintext)"

definition rc4_decrypt_data :: "crypto_prims \<Rightarrow> bytes \<Rightarrow> bytes \<Rightarrow> crypto_error + bytes" where
  "rc4_decrypt_data P key ciphertext = rbind (rc4_validate_key key) (\<lambda>_. rc4_hmac_crypt P key ciphertext)"

definition rc4_encrypt_message_with_confounder ::
    "crypto_prims \<Rightarrow> bytes \<Rightarrow> bytes \<Rightarrow> u32 \<Rightarrow> bytes \<Rightarrow> crypto_error + bytes" where
  "rc4_encrypt_message_with_confounder P protocol_key message usage confounder =
     rbind (rc4_validate_key protocol_key) (\<lambda>_.
       if length confounder \<noteq> rc4_confounder_len
       then Inl (InvalidConfounderLength rc4_confounder_len (length confounder))
       else let plain = confounder @ message;
                usage_key = hmac_md5 P protocol_key (rc4_hmac_usage_to_ms_msg_type usage);
                checksum = hmac_md5 P usage_key plain;
                encryption_key = hmac_md5 P usage_key checksum
            in rbind (rc4_hmac_crypt P encryption_key plain) (\<lambda>encrypted. Inr (checksum @ encrypted)))"

definition rc4_decrypt_message :: "crypto_prims \<Rightarrow> bytes \<Rightarrow> bytes \<Rightarrow> u32 \<Rightarrow> crypto_error + bytes" where
  "rc4_decrypt_message P protocol_key ciphertext usage =
     rbind (rc4_validate_key protocol_key) (\<lambda>_.
       if length ciphertext < rc4_hmac_len + rc4_confounder_len
       then Inl (CiphertextTooShort (rc4_hmac_len + rc4_confounder_len) (length ciphertext))
       else let checksum = take rc4_hmac_len ciphertext; encrypted = drop rc4_hmac_len ciphertext;
                usage_key = hmac_md5 P protocol_key (rc4_hmac_usage_to_ms_msg_type usage);
                encryption_key = hmac_md5 P usage_key checksum
            in rbind (rc4_hmac_crypt P encryption_key encrypted) (\<lambda>plain.
              if length plain < rc4_confounder_len
              then Inl (PlaintextTooShort rc4_confounder_len (length plain))
              else let expected = hmac_md5 P usage_key plain
                   in if \<not> constant_time_eq expected checksum then Inl IntegrityCheckFailed
                      else Inr (drop rc4_confounder_len plain)))"

section \<open>Dispatch\<close>

datatype kerberos_etype = Sha1 aes_sha1_etype | Sha2 aes_sha2_etype | Des3CbcSha1Kd | Rc4Hmac

definition or_else :: "'a option \<Rightarrow> 'a option \<Rightarrow> 'a option" where
  "or_else a b = (case a of None \<Rightarrow> b | Some x \<Rightarrow> Some x)"

definition ket_from_etype_id :: "i32 \<Rightarrow> kerberos_etype option" where
  "ket_from_etype_id etype_id =
     or_else (map_option Sha1 (aes1_from_etype_id etype_id))
       (or_else (map_option Sha2 (aes2_from_etype_id etype_id))
         (or_else (map_option (\<lambda>_. Des3CbcSha1Kd) (des3_from_etype_id etype_id))
           (map_option (\<lambda>_. Rc4Hmac) (rc4_from_etype_id etype_id))))"

definition ket_from_checksum_type_id :: "i32 \<Rightarrow> kerberos_etype option" where
  "ket_from_checksum_type_id checksum_type_id =
     (if checksum_type_id = 12 then Some Des3CbcSha1Kd
      else if checksum_type_id = 15 then Some (Sha1 Aes128Sha1)
      else if checksum_type_id = 16 then Some (Sha1 Aes256Sha1)
      else if checksum_type_id = 19 then Some (Sha2 Aes128Sha2)
      else if checksum_type_id = 20 then Some (Sha2 Aes256Sha2)
      else map_option (\<lambda>_. Rc4Hmac) (rc4_from_checksum_type_id checksum_type_id))"

fun ket_etype_id :: "kerberos_etype \<Rightarrow> i32" where
  "ket_etype_id (Sha1 e) = aes1_etype_id e"
| "ket_etype_id (Sha2 e) = aes2_etype_id e"
| "ket_etype_id Des3CbcSha1Kd = des3_etype_id"
| "ket_etype_id Rc4Hmac = rc4_etype_id"

fun ket_checksum_type_id :: "kerberos_etype \<Rightarrow> i32" where
  "ket_checksum_type_id (Sha1 e) = aes1_checksum_type_id e"
| "ket_checksum_type_id (Sha2 e) = aes2_checksum_type_id e"
| "ket_checksum_type_id Des3CbcSha1Kd = des3_checksum_type_id"
| "ket_checksum_type_id Rc4Hmac = rc4_checksum_type_id"

fun ket_key_len :: "kerberos_etype \<Rightarrow> nat" where
  "ket_key_len (Sha1 e) = aes1_key_len e"
| "ket_key_len (Sha2 e) = aes2_key_len e"
| "ket_key_len Des3CbcSha1Kd = des3_key_len"
| "ket_key_len Rc4Hmac = rc4_key_len"

fun ket_confounder_len :: "kerberos_etype \<Rightarrow> nat" where
  "ket_confounder_len (Sha1 e) = aes1_confounder_len e"
| "ket_confounder_len (Sha2 e) = aes2_confounder_len e"
| "ket_confounder_len Des3CbcSha1Kd = des3_confounder_len"
| "ket_confounder_len Rc4Hmac = rc4_confounder_len"

fun ket_hmac_len :: "kerberos_etype \<Rightarrow> nat" where
  "ket_hmac_len (Sha1 e) = aes1_hmac_len e"
| "ket_hmac_len (Sha2 e) = aes2_hmac_len e"
| "ket_hmac_len Des3CbcSha1Kd = des3_hmac_len"
| "ket_hmac_len Rc4Hmac = rc4_hmac_len"

fun ket_default_s2kparams :: "kerberos_etype \<Rightarrow> string" where
  "ket_default_s2kparams (Sha1 e) = aes1_default_s2kparams e"
| "ket_default_s2kparams (Sha2 e) = aes2_default_s2kparams e"
| "ket_default_s2kparams Des3CbcSha1Kd = des3_default_s2kparams"
| "ket_default_s2kparams Rc4Hmac = rc4_default_s2kparams"

fun ket_string_to_key ::
    "crypto_prims \<Rightarrow> kerberos_etype \<Rightarrow> bytes \<Rightarrow> bytes \<Rightarrow> string \<Rightarrow> crypto_error + bytes" where
  "ket_string_to_key P (Sha1 e) secret salt s2kparams =
     aes1_string_to_key P e secret salt s2kparams"
| "ket_string_to_key P (Sha2 e) secret salt s2kparams =
     aes2_string_to_key P e secret salt s2kparams"
| "ket_string_to_key P Des3CbcSha1Kd secret salt s2kparams =
     des3_string_to_key P secret salt s2kparams"
| "ket_string_to_key P Rc4Hmac secret salt s2kparams =
     rc4_string_to_key P secret salt s2kparams"

fun ket_checksum ::
    "crypto_prims \<Rightarrow> kerberos_etype \<Rightarrow> bytes \<Rightarrow> bytes \<Rightarrow> u32 \<Rightarrow> crypto_error + bytes" where
  "ket_checksum P (Sha1 e) protocol_key data usage =
     aes1_checksum P e protocol_key data usage"
| "ket_checksum P (Sha2 e) protocol_key data usage =
     aes2_checksum P e protocol_key data usage"
| "ket_checksum P Des3CbcSha1Kd protocol_key data usage =
     des3_checksum P protocol_key data usage"
| "ket_checksum P Rc4Hmac protocol_key data usage =
     rc4_checksum P protocol_key data usage"

fun ket_verify_checksum ::
    "crypto_prims \<Rightarrow> kerberos_etype \<Rightarrow> bytes \<Rightarrow> bytes \<Rightarrow> bytes \<Rightarrow> u32 \<Rightarrow> bool" where
  "ket_verify_checksum P (Sha1 e) protocol_key data checksum usage =
     aes1_verify_checksum P e protocol_key data checksum usage"
| "ket_verify_checksum P (Sha2 e) protocol_key data checksum usage =
     aes2_verify_checksum P e protocol_key data checksum usage"
| "ket_verify_checksum P Des3CbcSha1Kd protocol_key data checksum usage =
     des3_verify_checksum P protocol_key data checksum usage"
| "ket_verify_checksum P Rc4Hmac protocol_key data checksum usage =
     rc4_verify_checksum P protocol_key data checksum usage"

fun ket_encrypt_message_with_confounder ::
    "crypto_prims \<Rightarrow> kerberos_etype \<Rightarrow> bytes \<Rightarrow> bytes \<Rightarrow> u32 \<Rightarrow> bytes \<Rightarrow> crypto_error + bytes" where
  "ket_encrypt_message_with_confounder P (Sha1 e) protocol_key message usage confounder =
     aes1_encrypt_message_with_confounder P e protocol_key message usage confounder"
| "ket_encrypt_message_with_confounder P (Sha2 e) protocol_key message usage confounder =
     aes2_encrypt_message_with_confounder P e protocol_key message usage confounder"
| "ket_encrypt_message_with_confounder P Des3CbcSha1Kd protocol_key message usage confounder =
     des3_encrypt_message_with_confounder P protocol_key message usage confounder"
| "ket_encrypt_message_with_confounder P Rc4Hmac protocol_key message usage confounder =
     rc4_encrypt_message_with_confounder P protocol_key message usage confounder"

fun ket_decrypt_message ::
    "crypto_prims \<Rightarrow> kerberos_etype \<Rightarrow> bytes \<Rightarrow> bytes \<Rightarrow> u32 \<Rightarrow> crypto_error + bytes" where
  "ket_decrypt_message P (Sha1 e) protocol_key ciphertext usage =
     aes1_decrypt_message P e protocol_key ciphertext usage"
| "ket_decrypt_message P (Sha2 e) protocol_key ciphertext usage =
     aes2_decrypt_message P e protocol_key ciphertext usage"
| "ket_decrypt_message P Des3CbcSha1Kd protocol_key ciphertext usage =
     des3_decrypt_message P protocol_key ciphertext usage"
| "ket_decrypt_message P Rc4Hmac protocol_key ciphertext usage =
     rc4_decrypt_message P protocol_key ciphertext usage"

end
