(* ===== verification/Etype_Props.thy ===== *)
theory Etype_Props
  imports Etypes
begin

text \<open>
  Correctness of the encryption types.  The interface \<open>message_cipher\<close> states what the protocol layers
  rely on: an encrypted message decrypts to the message, and only ciphertexts that encryption
  produces are accepted.  It is interpreted on each of the four encryption types and on the dispatching
  \<open>KerberosEtype\<close>, for any primitives that satisfy \<open>prims_ok\<close>.
\<close>

unbundle bit_operations_syntax

section \<open>The interface\<close>

locale message_cipher =
  fixes ok :: "crypto_prims \<Rightarrow> bool"
    and enc :: "crypto_prims \<Rightarrow> bytes \<Rightarrow> bytes \<Rightarrow> u32 \<Rightarrow> bytes \<Rightarrow> crypto_error + bytes"
    and dec :: "crypto_prims \<Rightarrow> bytes \<Rightarrow> bytes \<Rightarrow> u32 \<Rightarrow> crypto_error + bytes"
    and klen :: nat and clen :: nat and delivered :: "bytes \<Rightarrow> bytes"
  assumes enc_dec: "ok P \<Longrightarrow> length key = klen \<Longrightarrow> length conf = clen \<Longrightarrow>
      \<exists>ct. enc P key m u conf = Inr ct \<and> dec P key ct u = Inr (delivered m)"
    and dec_enc: "ok P \<Longrightarrow> length key = klen \<Longrightarrow> dec P key ct u = Inr m \<Longrightarrow>
      delivered m = m \<and> (\<exists>conf. length conf = clen \<and> enc P key m u conf = Inr ct)"
begin

lemma dec_iff:
  assumes "ok P" and "length key = klen"
  shows "dec P key ct u = Inr m \<longleftrightarrow>
    delivered m = m \<and> (\<exists>conf. length conf = clen \<and> enc P key m u conf = Inr ct)"
  using dec_enc [OF assms] enc_dec [OF assms] by (metis sum.inject(2))

lemma enc_determines_message:
  assumes "ok P" and "length key = klen" and "length c = clen" and "length c' = clen"
    and "enc P key m u c = enc P key m' u c'"
  shows "delivered m = delivered m'"
  using enc_dec [OF assms(1,2,3), of m u] enc_dec [OF assms(1,2,4), of m' u] assms(5) by auto

end

section \<open>Keys and data\<close>

lemma check_key_len_ok [simp]: "check_key_len n key = Inr () \<longleftrightarrow> length key = n"
  by (simp add: check_key_len_def)

lemma check_key_len_if: "length key = n \<Longrightarrow> check_key_len n key = Inr ()"
  by (simp add: check_key_len_def)

lemma finite_bytes_length: "finite {xs :: bytes. length xs = n}"
  using finite_lists_length_eq [of "UNIV :: u8 set" n] by simp

text \<open>On byte strings of one length an injective encryption is onto, so what decrypts was encrypted.\<close>

lemma left_inverse_onto:
  assumes "\<And>x. length x = n \<Longrightarrow> \<exists>iv y. f x = Inr (iv, y) \<and> length y = n \<and> g y = Inr x"
    and "length (y :: bytes) = n"
  obtains iv x where "f (x :: bytes) = Inr (iv :: bytes, y)" and "length x = n" and "g y = (Inr x :: crypto_error + bytes)"
proof -
  define h where "h x = (SOME y. \<exists>iv. f x = Inr (iv, y))" for x
  have h: "length (h x) = n \<and> g (h x) = Inr x \<and> (\<exists>iv. f x = Inr (iv, h x))" if "length x = n" for x
    using assms(1) [OF that] by (auto simp: h_def)
  have "inj_on h {x. length x = n}"
    using h by (metis (mono_tags, lifting) inj_onI mem_Collect_eq sum.inject(2))
  moreover have "h ` {x. length x = n} \<subseteq> {x. length x = n}" using h by auto
  ultimately have "h ` {x. length x = n} = {x. length x = n}"
    using finite_bytes_length by (metis endo_inj_surj)
  then obtain x where x: "length x = n" "y = h x" using assms(2) by blast
  with h [OF x(1)] that show thesis by auto
qed

lemma aes_cts_onto:
  assumes "block_perm E D 16" and "16 \<le> length y"
  obtains iv x where "aes_cts_encrypt E x = Inr (iv, y)" and "length x = length y"
    and "aes_cts_decrypt D y = Inr x"
proof (rule left_inverse_onto [of "length y" "aes_cts_encrypt E" "aes_cts_decrypt D" y])
  fix x :: bytes
  assume "length x = length y"
  moreover from this have "x \<noteq> []" using assms(2) by auto
  ultimately show "\<exists>iv ct. aes_cts_encrypt E x = Inr (iv, ct) \<and> length ct = length y \<and> aes_cts_decrypt D ct = Inr x"
    using aes_cts_inverse [OF assms(1), of x] assms(2) by auto
qed auto

lemma des3_cbc_onto:
  assumes "block_perm E D 8" and "8 dvd length y" and "y \<noteq> []"
  obtains iv x where "des3_cbc_encrypt E x = Inr (iv, y)" and "length x = length y"
    and "des3_cbc_decrypt D y = Inr x"
proof (rule left_inverse_onto [of "length y" "des3_cbc_encrypt E" "des3_cbc_decrypt D" y])
  fix x :: bytes
  assume "length x = length y"
  moreover from this have "x \<noteq> []" "zero_pad x 8 = x" using assms by (auto intro: zero_pad_id)
  ultimately show "\<exists>iv ct. des3_cbc_encrypt E x = Inr (iv, ct) \<and> length ct = length y \<and> des3_cbc_decrypt D ct = Inr x"
    using des3_cbc_inverse [OF assms(1), of x] by auto
qed auto

section \<open>Derived keys\<close>

lemma dr_loop_length:
  assumes enc: "\<And>b. length b = n \<Longrightarrow> \<exists>b'. enc b = Inr b' \<and> length b' = n" and n: "0 < n"
    and "length block = n" and "length out \<le> want"
  shows "\<exists>r. dr_loop enc want out block = Inr r \<and> length r = want"
  using assms(3,4)
proof (induction "want - length out" arbitrary: out block rule: less_induct)
  case less
  define out' where "out' = out @ take (min (want - length out) (length block)) block"
  have step: "dr_loop enc want out block =
      (if length out < want
       then if length out' < want \<and> block \<noteq> [] then rbind (enc block) (\<lambda>b. dr_loop enc want out' b) else Inr out'
       else Inr out)"
    by (subst dr_loop.simps) (simp add: out'_def Let_def)
  have le: "length out' \<le> want" using less.prems by (simp add: out'_def)
  show ?case
  proof (cases "length out < want \<and> length out' < want")
    case True
    then have grow: "want - length out' < want - length out"
    proof -
      have "length out < length out'" using True less.prems(1) n unfolding out'_def by simp
      with le show ?thesis by linarith
    qed
    obtain b where b: "enc block = Inr b" "length b = n" using enc [OF less.prems(1)] by blast
    have ne: "block \<noteq> []" using less.prems(1) n by auto
    from less.hyps [OF grow b(2) le] True b(1) ne show ?thesis unfolding step by auto
  next
    case False
    with le less.prems show ?thesis unfolding step by auto
  qed
qed

lemma aes_key_lens: "aes1_key_len e = 16 \<or> aes1_key_len e = 32" "aes2_key_len e' = 16 \<or> aes2_key_len e' = 32"
  by (cases e; simp) (cases e'; simp)

lemma aes1_encrypt_data_eq:
  "length key = aes1_key_len e \<Longrightarrow> aes1_encrypt_data P e key x = aes_cts_encrypt (encrypt_block P key) x"
  "length key = aes1_key_len e \<Longrightarrow> aes1_decrypt_data P e key x = aes_cts_decrypt (decrypt_block P key) x"
  by (simp_all add: aes1_encrypt_data_def aes1_decrypt_data_def aes1_validate_key_def check_key_len_if)

lemma aes1_perm:
  "prims_ok P \<Longrightarrow> length key = aes1_key_len e \<Longrightarrow> block_perm (encrypt_block P key) (decrypt_block P key) 16"
  using aes_key_lens(1) [of e] by (auto intro: encrypt_block_perm)

lemma aes1_derive_key_length:
  assumes "prims_ok P" and key: "length key = aes1_key_len e" and "usage \<noteq> []"
  shows "\<exists>k. aes1_derive_key P e key usage = Inr k \<and> length k = aes1_key_len e"
proof -
  let ?enc = "\<lambda>b. rbind (aes1_encrypt_data P e key b) (\<lambda>(_, next). Inr next)"
  have block: "\<exists>iv c. aes1_encrypt_data P e key b = Inr (iv, c) \<and> length c = 16" if "length b = 16" for b
    using aes_cts_inverse [OF aes1_perm [OF assms(1) key], of b] that key
    by (cases "b = []") (auto simp: aes1_encrypt_data_eq)
  have enc: "\<exists>b'. ?enc b = Inr b' \<and> length b' = 16" if "length b = 16" for b
    using block [OF that] by auto
  obtain f where f: "nfold usage (16 * 8) = Inr f" "length f = 16"
    using nfold_length [OF assms(3), of 16] by auto
  obtain iv c where c: "aes1_encrypt_data P e key f = Inr (iv, c)" "length c = 16" using block [OF f(2)] by blast
  obtain r where "dr_loop ?enc (aes1_key_len e) [] c = Inr r" "length r = aes1_key_len e"
    using dr_loop_length [of 16 ?enc c "[]" "aes1_key_len e"] enc c(2) by auto
  then show ?thesis
    using key assms(3) f c
    by (simp add: aes1_derive_key_def aes1_derive_random_def aes1_validate_key_def check_key_len_if)
qed

lemma des3_encrypt_data_eq:
  "length key = 24 \<Longrightarrow> des3_encrypt_data P key x = des3_cbc_encrypt (des3_encrypt_block P key) x"
  "length key = 24 \<Longrightarrow> des3_decrypt_data P key x = des3_cbc_decrypt (des3_decrypt_block P key) x"
  by (simp_all add: des3_encrypt_data_def des3_decrypt_data_def des3_validate_key_def des3_key_len_def check_key_len_if)

lemma des3_derive_key_length:
  assumes "prims_ok P" and key: "length key = 24" and "usage \<noteq> []"
  shows "\<exists>k. des3_derive_key P key usage = Inr k \<and> length k = 24"
proof -
  let ?enc = "\<lambda>b. rbind (des3_encrypt_data P key b) (\<lambda>(_, next). Inr next)"
  have block: "\<exists>iv c. des3_encrypt_data P key b = Inr (iv, c) \<and> length c = 8" if "length b = 8" for b
    using des3_cbc_inverse [OF des3_block_perm [OF assms(1) key], of b] that key zero_pad_id [of 8 b]
    by (cases "b = []") (auto simp: des3_encrypt_data_eq)
  have enc: "\<exists>b'. ?enc b = Inr b' \<and> length b' = 8" if "length b = 8" for b
    using block [OF that] by auto
  obtain f where f: "nfold usage (8 * 8) = Inr f" "length f = 8"
    using nfold_length [OF assms(3), of 8] by auto
  obtain iv c where c: "des3_encrypt_data P key f = Inr (iv, c)" "length c = 8" using block [OF f(2)] by blast
  obtain r where "dr_loop ?enc 21 [] c = Inr r" "length r = 21"
    using dr_loop_length [of 8 ?enc c "[]" 21] enc c(2) by auto
  then show ?thesis
    using key assms(3) f c des3_random_to_key_length [of r]
    by (auto simp: des3_derive_key_def des3_derive_random_def des3_validate_key_def des3_key_len_def check_key_len_if)
qed

lemma aes2_derive_key_ok:
  assumes "length key = aes2_key_len e" and "label \<noteq> []"
  shows "\<exists>k. aes2_derive_key P e key label = Inr k"
  using assms by (simp add: aes2_derive_key_def aes2_validate_protocol_key_def check_key_len_if)

lemma aes2_derive_encryption_key:
  assumes "prims_ok P" and "length key = aes2_key_len e"
  shows "\<exists>k. aes2_derive_key P e key (usage_constant u 0xaa) = Inr k \<and> length k = aes2_key_len e"
  using assms
  by (cases e) (auto simp: aes2_derive_key_def aes2_validate_protocol_key_def check_key_len_if aes2_kdf_hmac_sha2_def
      hmac_lengths usage_constant_def)

section \<open>Sealed messages\<close>

text \<open>The common shape of \<open>decrypt_message\<close> where the integrity hash follows the ciphertext.\<close>

definition open_sealed ::
    "nat \<Rightarrow> nat \<Rightarrow> (bytes \<Rightarrow> crypto_error + bytes) \<Rightarrow> (bytes \<Rightarrow> bytes \<Rightarrow> crypto_error + bytes) \<Rightarrow> bytes \<Rightarrow> crypto_error + bytes"
where
  "open_sealed hlen clen dec mac ct =
     (if length ct < hlen + clen then Inl (CiphertextTooShort (hlen + clen) (length ct))
      else let at = length ct - hlen in
        rbind (dec (take at ct)) (\<lambda>plain.
          if length plain < clen then Inl (PlaintextTooShort clen (length plain))
          else rbind (mac (take at ct) plain) (\<lambda>expected.
            if expected \<noteq> drop at ct then Inl IntegrityCheckFailed else Inr (drop clen plain))))"

lemma open_sealed_append:
  assumes "dec body = Inr (conf @ m)" and "length conf = clen" and "mac body (conf @ m) = Inr h"
    and "length h' = hlen" and "clen \<le> length body"
  shows "open_sealed hlen clen dec mac (body @ h') = (if h' = h then Inr m else Inl IntegrityCheckFailed)"
  using assms by (auto simp: open_sealed_def Let_def)

lemma open_sealed_Inr:
  assumes "open_sealed hlen clen dec mac ct = Inr m"
  obtains body h conf where "ct = body @ h" and "length h = hlen" and "clen \<le> length body"
    and "length conf = clen" and "dec body = Inr (conf @ m)" and "mac body (conf @ m) = Inr h"
proof -
  define body where "body = take (length ct - hlen) ct"
  define h where "h = drop (length ct - hlen) ct"
  have len: "hlen + clen \<le> length ct" using assms by (auto simp: open_sealed_def split: if_splits)
  obtain plain where dec: "dec body = Inr plain" and pl: "clen \<le> length plain" and mac: "mac body plain = Inr h"
    and m: "m = drop clen plain"
    using assms len
    by (auto simp: open_sealed_def Let_def rbind_eq_Inr body_def h_def split: if_splits)
  show thesis
  proof (rule that [of body h "take clen plain"])
    show "ct = body @ h" by (simp add: body_def h_def)
    show "length h = hlen" "clen \<le> length body" using len by (simp_all add: body_def h_def)
    show "length (take clen plain) = clen" using pl by simp
    show "dec body = Inr (take clen plain @ m)" "mac body (take clen plain @ m) = Inr h"
      using dec mac m by simp_all
  qed
qed

section \<open>AES-SHA1\<close>

abbreviation (input) aes1_dec where
  "aes1_dec P e key u \<equiv> \<lambda>ct. rbind (aes1_derive_key P e key (usage_constant u 0xaa)) (\<lambda>k. aes1_decrypt_data P e k ct)"

abbreviation (input) aes1_mac where
  "aes1_mac P e key u \<equiv> \<lambda>(_ :: bytes) plain. rbind (aes1_derive_key P e key (usage_constant u 0x55))
     (\<lambda>k. Inr (hmac_sha1_96 P k plain))"

lemma rbind_assoc: "rbind (rbind m f) g = rbind m (\<lambda>x. rbind (f x) g)"
  by (cases m) auto

lemma aes1_decrypt_open:
  assumes "length key = aes1_key_len e"
  shows "aes1_decrypt_message P e key ct u = open_sealed 12 16 (aes1_dec P e key u) (aes1_mac P e key u) ct"
  unfolding aes1_decrypt_message_def aes1_validate_key_def check_key_len_if [OF assms] open_sealed_def
    aes1_hmac_len_def aes1_confounder_len_def Let_def rbind_assoc constant_time_eq_iff rbind_Inr by simp

lemma aes1_encrypt_ok:
  assumes "prims_ok P" and key: "length key = aes1_key_len e" and conf: "length conf = 16"
  shows "\<exists>body h. aes1_encrypt_message_with_confounder P e key m u conf = Inr (body @ h) \<and> length h = 12
    \<and> 16 \<le> length body \<and> aes1_dec P e key u body = Inr (conf @ m) \<and> aes1_mac P e key u body (conf @ m) = Inr h"
proof -
  obtain ke where ke: "aes1_derive_key P e key (usage_constant u 0xaa) = Inr ke" "length ke = aes1_key_len e"
    using aes1_derive_key_length [OF assms(1) key usage_constant_ne] by blast
  obtain ki where ki: "aes1_derive_key P e key (usage_constant u 0x55) = Inr ki"
    using aes1_derive_key_length [OF assms(1) key usage_constant_ne] by blast
  obtain iv body where body: "aes_cts_encrypt (encrypt_block P ke) (conf @ m) = Inr (iv, body)"
    and len: "length body = max 16 (length (conf @ m))"
    and dec: "aes_cts_decrypt (decrypt_block P ke) body = Inr (conf @ m)"
    using aes_cts_inverse [OF aes1_perm [OF assms(1) ke(2)], of "conf @ m"] conf by fastforce
  show ?thesis
    using ke ki body len dec key conf hmac_lengths(2) [OF assms(1)]
    by (intro exI [of _ body] exI [of _ "hmac_sha1_96 P ki (conf @ m)"])
      (simp add: aes1_encrypt_message_with_confounder_def aes1_validate_key_def check_key_len_if
        aes1_confounder_len_def aes1_encrypt_data_eq)
qed

lemma aes1_open_enc:
  assumes "prims_ok P" and key: "length key = aes1_key_len e" and conf: "length conf = 16" and body: "16 \<le> length body"
    and dec: "aes1_dec P e key u body = Inr (conf @ m)" and mac: "aes1_mac P e key u body (conf @ m) = Inr h"
  shows "aes1_encrypt_message_with_confounder P e key m u conf = Inr (body @ h)"
proof -
  obtain ke where ke: "aes1_derive_key P e key (usage_constant u 0xaa) = Inr ke" "length ke = aes1_key_len e"
    using aes1_derive_key_length [OF assms(1) key usage_constant_ne] by blast
  obtain iv x where x: "aes_cts_encrypt (encrypt_block P ke) x = Inr (iv, body)" "aes_cts_decrypt (decrypt_block P ke) body = Inr x"
    using aes_cts_onto [OF aes1_perm [OF assms(1) ke(2)] body] by metis
  from dec ke x have "x = conf @ m" by (simp add: aes1_encrypt_data_eq)
  with x ke mac key conf show ?thesis
    by (auto simp: aes1_encrypt_message_with_confounder_def aes1_validate_key_def check_key_len_if
        aes1_confounder_len_def aes1_encrypt_data_eq rbind_eq_Inr)
qed

interpretation aes1: message_cipher prims_ok "\<lambda>P. aes1_encrypt_message_with_confounder P e"
    "\<lambda>P. aes1_decrypt_message P e" "aes1_key_len e" 16 "\<lambda>m. m" for e
proof unfold_locales
  fix P and key conf m :: bytes and u
  assume a: "prims_ok P" "length key = aes1_key_len e" "length conf = 16"
  show "\<exists>ct. aes1_encrypt_message_with_confounder P e key m u conf = Inr ct \<and> aes1_decrypt_message P e key ct u = Inr m"
  proof -
    obtain body h where enc: "aes1_encrypt_message_with_confounder P e key m u conf = Inr (body @ h)"
      and h: "length h = 12" and b: "16 \<le> length body"
      and d: "aes1_dec P e key u body = Inr (conf @ m)" and mac: "aes1_mac P e key u body (conf @ m) = Inr h"
      using aes1_encrypt_ok [OF a, of m u] by blast
    show ?thesis
      unfolding enc aes1_decrypt_open [OF a(2)]
      using open_sealed_append [where dec = "aes1_dec P e key u" and mac = "aes1_mac P e key u" and body = body, OF d a(3) mac h b] by simp
  qed
next
  fix P and key ct m :: bytes and u
  assume a: "prims_ok P" "length key = aes1_key_len e" and d: "aes1_decrypt_message P e key ct u = Inr m"
  from d have "open_sealed 12 16 (aes1_dec P e key u) (aes1_mac P e key u) ct = Inr m"
    by (simp only: aes1_decrypt_open [OF a(2)])
  then obtain body h conf where "ct = body @ h" "16 \<le> length body" "length conf = 16"
    "aes1_dec P e key u body = Inr (conf @ m)" "aes1_mac P e key u body (conf @ m) = Inr h"
    by (rule open_sealed_Inr)
  with aes1_open_enc [OF a, of conf body u m h]
  show "m = m \<and> (\<exists>conf. length conf = 16 \<and> aes1_encrypt_message_with_confounder P e key m u conf = Inr ct)" by blast
qed

section \<open>AES-SHA2\<close>

abbreviation (input) aes2_dec where
  "aes2_dec P e key u \<equiv> \<lambda>ct. rbind (aes2_derive_key P e key (usage_constant u 0xaa)) (\<lambda>k. aes2_decrypt_data P e k ct)"

abbreviation (input) aes2_mac where
  "aes2_mac P e key u \<equiv> \<lambda>body (_ :: bytes). aes2_integrity_hash P e key u body"

lemma aes2_encrypt_data_eq:
  "length key = aes2_key_len e \<Longrightarrow> aes2_encrypt_data P e key x = aes_cts_encrypt (encrypt_block P key) x"
  "length key = aes2_key_len e \<Longrightarrow> aes2_decrypt_data P e key x = aes_cts_decrypt (decrypt_block P key) x"
  by (simp_all add: aes2_encrypt_data_def aes2_decrypt_data_def aes2_validate_encrypt_key_def
      aes2_validate_protocol_key_def check_key_len_if)

lemma aes2_perm:
  "prims_ok P \<Longrightarrow> length key = aes2_key_len e \<Longrightarrow> block_perm (encrypt_block P key) (decrypt_block P key) 16"
  using aes_key_lens(2) [of e] by (auto intro: encrypt_block_perm)

lemma aes2_decrypt_open:
  assumes "length key = aes2_key_len e"
  shows "aes2_decrypt_message P e key ct u =
    open_sealed (aes2_hmac_len e) 16 (aes2_dec P e key u) (aes2_mac P e key u) ct"
  unfolding aes2_decrypt_message_def aes2_validate_protocol_key_def check_key_len_if [OF assms] open_sealed_def
    aes2_confounder_len_def Let_def rbind_assoc constant_time_eq_iff rbind_Inr by simp

lemma aes2_integrity_hash_ok:
  assumes "prims_ok P" and "length key = aes2_key_len e"
  shows "\<exists>h. aes2_integrity_hash P e key u body = Inr h \<and> length h = aes2_hmac_len e"
  using aes2_derive_key_ok [OF assms(2) usage_constant_ne, of P u "0x55"] assms
  by (cases e) (auto simp: aes2_integrity_hash_def aes2_truncated_hmac_def hmac_lengths)

lemma aes2_encrypt_ok:
  assumes "prims_ok P" and key: "length key = aes2_key_len e" and conf: "length conf = 16"
  shows "\<exists>body h. aes2_encrypt_message_with_confounder P e key m u conf = Inr (body @ h)
    \<and> length h = aes2_hmac_len e \<and> 16 \<le> length body
    \<and> aes2_dec P e key u body = Inr (conf @ m) \<and> aes2_mac P e key u body (conf @ m) = Inr h"
proof -
  obtain ke where ke: "aes2_derive_key P e key (usage_constant u 0xaa) = Inr ke" "length ke = aes2_key_len e"
    using aes2_derive_encryption_key [OF assms(1) key] by blast
  obtain iv body where body: "aes_cts_encrypt (encrypt_block P ke) (conf @ m) = Inr (iv, body)"
    and len: "length body = max 16 (length (conf @ m))"
    and dec: "aes_cts_decrypt (decrypt_block P ke) body = Inr (conf @ m)"
    using aes_cts_inverse [OF aes2_perm [OF assms(1) ke(2)], of "conf @ m"] conf by fastforce
  obtain h where h: "aes2_integrity_hash P e key u body = Inr h" "length h = aes2_hmac_len e"
    using aes2_integrity_hash_ok [OF assms(1) key] by blast
  show ?thesis
    using ke body len dec h key conf
    by (intro exI [of _ body] exI [of _ h])
      (simp add: aes2_encrypt_message_with_confounder_def aes2_validate_protocol_key_def check_key_len_if
        aes2_confounder_len_def aes2_encrypt_data_eq)
qed

lemma aes2_open_enc:
  assumes "prims_ok P" and key: "length key = aes2_key_len e" and conf: "length conf = 16" and body: "16 \<le> length body"
    and dec: "aes2_dec P e key u body = Inr (conf @ m)" and mac: "aes2_mac P e key u body (conf @ m) = Inr h"
  shows "aes2_encrypt_message_with_confounder P e key m u conf = Inr (body @ h)"
proof -
  obtain ke where ke: "aes2_derive_key P e key (usage_constant u 0xaa) = Inr ke" "length ke = aes2_key_len e"
    using aes2_derive_encryption_key [OF assms(1) key] by blast
  obtain iv x where x: "aes_cts_encrypt (encrypt_block P ke) x = Inr (iv, body)" "aes_cts_decrypt (decrypt_block P ke) body = Inr x"
    using aes_cts_onto [OF aes2_perm [OF assms(1) ke(2)] body] by metis
  from dec ke x have "x = conf @ m" by (simp add: aes2_encrypt_data_eq)
  with x ke mac key conf show ?thesis
    by (auto simp: aes2_encrypt_message_with_confounder_def aes2_validate_protocol_key_def check_key_len_if
        aes2_confounder_len_def aes2_encrypt_data_eq rbind_eq_Inr)
qed

interpretation aes2: message_cipher prims_ok "\<lambda>P. aes2_encrypt_message_with_confounder P e"
    "\<lambda>P. aes2_decrypt_message P e" "aes2_key_len e" 16 "\<lambda>m. m" for e
proof unfold_locales
  fix P and key conf m :: bytes and u
  assume a: "prims_ok P" "length key = aes2_key_len e" "length conf = 16"
  show "\<exists>ct. aes2_encrypt_message_with_confounder P e key m u conf = Inr ct \<and> aes2_decrypt_message P e key ct u = Inr m"
  proof -
    obtain body h where enc: "aes2_encrypt_message_with_confounder P e key m u conf = Inr (body @ h)"
      and h: "length h = aes2_hmac_len e" and b: "16 \<le> length body"
      and d: "aes2_dec P e key u body = Inr (conf @ m)" and mac: "aes2_mac P e key u body (conf @ m) = Inr h"
      using aes2_encrypt_ok [OF a, of m u] by blast
    show ?thesis
      unfolding enc aes2_decrypt_open [OF a(2)]
      using open_sealed_append [where dec = "aes2_dec P e key u" and mac = "aes2_mac P e key u" and body = body, OF d a(3) mac h b] by simp
  qed
next
  fix P and key ct m :: bytes and u
  assume a: "prims_ok P" "length key = aes2_key_len e" and d: "aes2_decrypt_message P e key ct u = Inr m"
  from d have "open_sealed (aes2_hmac_len e) 16 (aes2_dec P e key u) (aes2_mac P e key u) ct = Inr m"
    by (simp only: aes2_decrypt_open [OF a(2)])
  then obtain body h conf where "ct = body @ h" "16 \<le> length body" "length conf = 16"
    "aes2_dec P e key u body = Inr (conf @ m)" "aes2_mac P e key u body (conf @ m) = Inr h"
    by (rule open_sealed_Inr)
  with aes2_open_enc [OF a, of conf body u m h]
  show "m = m \<and> (\<exists>conf. length conf = 16 \<and> aes2_encrypt_message_with_confounder P e key m u conf = Inr ct)" by blast
qed

section \<open>DES3\<close>

abbreviation (input) des3_dec where
  "des3_dec P key u \<equiv> \<lambda>ct. rbind (des3_derive_key P key (usage_constant u 0xaa)) (\<lambda>k. des3_decrypt_data P k ct)"

abbreviation (input) des3_mac where
  "des3_mac P key u \<equiv> \<lambda>(_ :: bytes) plain. rbind (des3_derive_key P key (usage_constant u 0x55))
     (\<lambda>k. Inr (hmac_sha1 P k plain))"

lemma des3_decrypt_open:
  assumes "length key = 24"
  shows "des3_decrypt_message P key ct u = open_sealed 20 8 (des3_dec P key u) (des3_mac P key u) ct"
  unfolding des3_decrypt_message_def des3_validate_key_def des3_key_len_def check_key_len_if [OF assms] open_sealed_def
    des3_hmac_len_def des3_confounder_len_def Let_def rbind_assoc constant_time_eq_iff rbind_Inr by simp

lemma zero_pad_confounder: "length conf = 8 \<Longrightarrow> zero_pad (conf @ m) 8 = conf @ zero_pad m 8"
  by (simp add: zero_pad_def Let_def)

lemma zero_pad_twice: "zero_pad (zero_pad m 8) 8 = zero_pad m 8"
  using length_zero_pad(1) [of 8 m] by (simp add: zero_pad_id)

lemma des3_encrypt_ok:
  assumes "prims_ok P" and key: "length key = 24" and conf: "length conf = 8"
  shows "\<exists>body h. des3_encrypt_message_with_confounder P key m u conf = Inr (body @ h) \<and> length h = 20
    \<and> 8 \<le> length body \<and> des3_dec P key u body = Inr (conf @ zero_pad m 8)
    \<and> des3_mac P key u body (conf @ zero_pad m 8) = Inr h"
proof -
  define plain where "plain = conf @ zero_pad m 8"
  obtain ke where ke: "des3_derive_key P key (usage_constant u 0xaa) = Inr ke" "length ke = 24"
    using des3_derive_key_length [OF assms(1) key usage_constant_ne] by blast
  obtain ki where ki: "des3_derive_key P key (usage_constant u 0x55) = Inr ki"
    using des3_derive_key_length [OF assms(1) key usage_constant_ne] by blast
  have pad: "zero_pad plain 8 = plain" "zero_pad (conf @ m) 8 = plain" "plain \<noteq> []" "8 \<le> length plain"
    using conf zero_pad_twice [of m] by (auto simp: plain_def zero_pad_confounder)
  obtain iv body where body: "des3_cbc_encrypt (des3_encrypt_block P ke) plain = Inr (iv, body)"
    and len: "length body = length plain"
    and dec: "des3_cbc_decrypt (des3_decrypt_block P ke) body = Inr plain"
    using des3_cbc_inverse [OF des3_block_perm [OF assms(1) ke(2)] pad(3)] pad(1) by auto
  show ?thesis
    unfolding plain_def [symmetric]
    using ke ki body len dec key conf pad hmac_lengths(1) [OF assms(1)]
    by (intro exI [of _ body] exI [of _ "hmac_sha1 P ki plain"])
      (simp add: des3_encrypt_message_with_confounder_def des3_validate_key_def des3_key_len_def check_key_len_if
        des3_confounder_len_def des3_encrypt_data_eq)
qed

lemma des3_open_enc:
  assumes "prims_ok P" and key: "length key = 24" and conf: "length conf = 8" and body: "8 \<le> length body"
    and dec: "des3_dec P key u body = Inr (conf @ m)" and mac: "des3_mac P key u body (conf @ m) = Inr h"
  shows "des3_encrypt_message_with_confounder P key m u conf = Inr (body @ h) \<and> zero_pad m 8 = m"
proof -
  obtain ke where ke: "des3_derive_key P key (usage_constant u 0xaa) = Inr ke" "length ke = 24"
    using des3_derive_key_length [OF assms(1) key usage_constant_ne] by blast
  from dec ke have dec': "des3_cbc_decrypt (des3_decrypt_block P ke) body = Inr (conf @ m)"
    by (simp add: des3_encrypt_data_eq)
  then have dvd: "8 dvd length body" by (auto simp: des3_cbc_decrypt_def split: if_splits)
  obtain iv x where x: "des3_cbc_encrypt (des3_encrypt_block P ke) x = Inr (iv, body)" "length x = length body"
    "des3_cbc_decrypt (des3_decrypt_block P ke) body = Inr x"
    using des3_cbc_onto [OF des3_block_perm [OF assms(1) ke(2)] dvd] body by (metis list.size(3) not_numeral_le_zero)
  from dec' x have xeq: "x = conf @ m" by simp
  with x(2) dvd have "zero_pad (conf @ m) 8 = conf @ m" by (simp add: zero_pad_id)
  moreover from this have "zero_pad m 8 = m" using conf by (simp add: zero_pad_confounder)
  ultimately show ?thesis using x(1) xeq ke mac key conf
    by (auto simp: des3_encrypt_message_with_confounder_def des3_validate_key_def des3_key_len_def check_key_len_if
        des3_confounder_len_def des3_encrypt_data_eq rbind_eq_Inr)
qed

interpretation des3: message_cipher prims_ok des3_encrypt_message_with_confounder des3_decrypt_message
    24 8 "\<lambda>m. zero_pad m 8"
proof unfold_locales
  fix P and key conf m :: bytes and u
  assume a: "prims_ok P" "length key = 24" "length conf = 8"
  show "\<exists>ct. des3_encrypt_message_with_confounder P key m u conf = Inr ct \<and> des3_decrypt_message P key ct u = Inr (zero_pad m 8)"
  proof -
    obtain body h where enc: "des3_encrypt_message_with_confounder P key m u conf = Inr (body @ h)"
      and h: "length h = 20" and b: "8 \<le> length body"
      and d: "des3_dec P key u body = Inr (conf @ zero_pad m 8)" and mac: "des3_mac P key u body (conf @ zero_pad m 8) = Inr h"
      using des3_encrypt_ok [OF a, of m u] by blast
    show ?thesis
      unfolding enc des3_decrypt_open [OF a(2)]
      using open_sealed_append [where dec = "des3_dec P key u" and mac = "des3_mac P key u" and body = body, OF d a(3) mac h b] by simp
  qed
next
  fix P and key ct m :: bytes and u
  assume a: "prims_ok P" "length key = 24" and d: "des3_decrypt_message P key ct u = Inr m"
  from d have "open_sealed 20 8 (des3_dec P key u) (des3_mac P key u) ct = Inr m"
    by (simp only: des3_decrypt_open [OF a(2)])
  then obtain body h conf where "ct = body @ h" "8 \<le> length body" "length conf = 8"
    "des3_dec P key u body = Inr (conf @ m)" "des3_mac P key u body (conf @ m) = Inr h"
    by (rule open_sealed_Inr)
  with des3_open_enc [OF a, of conf body u m h]
  show "zero_pad m 8 = m \<and> (\<exists>conf. length conf = 8 \<and> des3_encrypt_message_with_confounder P key m u conf = Inr ct)" by blast
qed

section \<open>RC4-HMAC\<close>

interpretation rc4: message_cipher prims_ok rc4_encrypt_message_with_confounder rc4_decrypt_message
    16 8 "\<lambda>m. m"
proof unfold_locales
  fix P and key conf m :: bytes and u
  assume a: "prims_ok P" "length key = 16" "length conf = 8"
  define uk where "uk = hmac_md5 P key (rc4_hmac_usage_to_ms_msg_type u)"
  define ck where "ck = hmac_md5 P uk (conf @ m)"
  have len: "length ck = 16" "length (hmac_md5 P uk ck) = 16" using hmac_lengths(3) [OF a(1)] by (simp_all add: ck_def)
  obtain y where y: "rc4_hmac_crypt P (hmac_md5 P uk ck) (conf @ m) = Inr y" "length y = length (conf @ m)"
    "rc4_hmac_crypt P (hmac_md5 P uk ck) y = Inr (conf @ m)"
    using rc4_hmac_crypt_ok [OF a(1) len(2)] by blast
  have "rc4_encrypt_message_with_confounder P key m u conf = Inr (ck @ y)"
    using a y by (simp add: rc4_encrypt_message_with_confounder_def rc4_validate_key_def rc4_key_len_def check_key_len_if
        rc4_confounder_len_def uk_def ck_def Let_def)
  moreover have "rc4_decrypt_message P key (ck @ y) u = Inr m"
    using a y len by (simp add: rc4_decrypt_message_def rc4_validate_key_def rc4_key_len_def check_key_len_if
        rc4_confounder_len_def rc4_hmac_len_def uk_def [symmetric] ck_def [symmetric] Let_def)
  ultimately show "\<exists>ct. rc4_encrypt_message_with_confounder P key m u conf = Inr ct \<and> rc4_decrypt_message P key ct u = Inr m"
    by blast
next
  fix P and key ct m :: bytes and u
  assume a: "prims_ok P" "length key = 16" and d: "rc4_decrypt_message P key ct u = Inr m"
  define uk where "uk = hmac_md5 P key (rc4_hmac_usage_to_ms_msg_type u)"
  define ck where "ck = take 16 ct"
  obtain plain where len: "24 \<le> length ct" and dec: "rc4_hmac_crypt P (hmac_md5 P uk ck) (drop 16 ct) = Inr plain"
    and mac: "hmac_md5 P uk plain = ck" and pl: "8 \<le> length plain" and m: "m = drop 8 plain"
    using d a by (auto simp: rc4_decrypt_message_def rc4_validate_key_def rc4_key_len_def check_key_len_if
        rc4_confounder_len_def rc4_hmac_len_def uk_def ck_def Let_def rbind_eq_Inr split: if_splits)
  have enc: "rc4_hmac_crypt P (hmac_md5 P uk ck) plain = Inr (drop 16 ct)"
    using rc4_hmac_crypt_ok [OF a(1) hmac_lengths(3) [OF a(1)]] dec by (metis sum.inject(2))
  have "rc4_encrypt_message_with_confounder P key m u (take 8 plain) = Inr (ck @ drop 16 ct)"
    using a enc mac pl m
    by (simp add: rc4_encrypt_message_with_confounder_def rc4_validate_key_def rc4_key_len_def check_key_len_if
        rc4_confounder_len_def uk_def [symmetric] Let_def)
  then show "m = m \<and> (\<exists>conf. length conf = 8 \<and> rc4_encrypt_message_with_confounder P key m u conf = Inr ct)"
    using pl by (auto simp: ck_def intro!: exI [of _ "take 8 plain"])
qed

section \<open>All encryption types\<close>

text \<open>What the receiver sees of a message: DES3 keeps the zero padding.\<close>

fun ket_delivered :: "kerberos_etype \<Rightarrow> bytes \<Rightarrow> bytes" where
  "ket_delivered Des3CbcSha1Kd m = zero_pad m DES3_BLOCK_SIZE"
| "ket_delivered _ m = m"

lemmas ket_size_defs = aes1_confounder_len_def aes2_confounder_len_def des3_confounder_len_def rc4_confounder_len_def
  des3_key_len_def rc4_key_len_def

interpretation ket: message_cipher prims_ok "\<lambda>P. ket_encrypt_message_with_confounder P e"
    "\<lambda>P. ket_decrypt_message P e" "ket_key_len e" "ket_confounder_len e" "ket_delivered e" for e
proof (cases e)
  case (Sha1 x1)
  then show "message_cipher prims_ok (\<lambda>P. ket_encrypt_message_with_confounder P e) (\<lambda>P. ket_decrypt_message P e)
      (ket_key_len e) (ket_confounder_len e) (ket_delivered e)"
    using aes1.message_cipher_axioms [of x1] unfolding message_cipher_def by (simp add: ket_size_defs)
next
  case (Sha2 x2)
  then show "message_cipher prims_ok (\<lambda>P. ket_encrypt_message_with_confounder P e) (\<lambda>P. ket_decrypt_message P e)
      (ket_key_len e) (ket_confounder_len e) (ket_delivered e)"
    using aes2.message_cipher_axioms [of x2] unfolding message_cipher_def by (simp add: ket_size_defs)
next
  case Des3CbcSha1Kd
  then show "message_cipher prims_ok (\<lambda>P. ket_encrypt_message_with_confounder P e) (\<lambda>P. ket_decrypt_message P e)
      (ket_key_len e) (ket_confounder_len e) (ket_delivered e)"
    using des3.message_cipher_axioms unfolding message_cipher_def by (simp add: ket_size_defs)
next
  case Rc4Hmac
  then show "message_cipher prims_ok (\<lambda>P. ket_encrypt_message_with_confounder P e) (\<lambda>P. ket_decrypt_message P e)
      (ket_key_len e) (ket_confounder_len e) (ket_delivered e)"
    using rc4.message_cipher_axioms unfolding message_cipher_def by (simp add: ket_size_defs)
qed

section \<open>Sample primitives\<close>

text \<open>Stand-ins for the crates, for the witnesses: XOR ciphers and truncating hashes.\<close>

definition fit :: "nat \<Rightarrow> bytes \<Rightarrow> bytes" where
  "fit n bs = take n (bs @ replicate n 0)"

lemma length_fit [simp]: "length (fit n bs) = n"
  by (simp add: fit_def)

definition sample_prims :: crypto_prims where
  "sample_prims = \<lparr>
     Aes128_encrypt = \<lambda>k b. xor_cipher (fit 16 k) b, Aes128_decrypt = \<lambda>k b. xor_cipher (fit 16 k) b,
     Aes256_encrypt = \<lambda>k b. xor_cipher (fit 16 k) b, Aes256_decrypt = \<lambda>k b. xor_cipher (fit 16 k) b,
     TdesEde3_encrypt = \<lambda>k b. xor_cipher (fit 8 k) b, TdesEde3_decrypt = \<lambda>k b. xor_cipher (fit 8 k) b,
     Rc4_apply = \<lambda>k x. if length k = 16 then Some (map (\<lambda>b. b XOR hd k) x) else None,
     Hmac_Sha1 = \<lambda>k x. fit 20 (k @ x), Hmac_Md5 = \<lambda>k x. fit 16 x,
     Hmac_Sha256 = \<lambda>k x. fit 32 (k @ x), Hmac_Sha384 = \<lambda>k x. fit 48 (k @ x),
     Md4_digest = fit 16, Md5_digest = fit 16,
     Pbkdf2_Sha1 = \<lambda>s t i n. fit n (s @ t), Pbkdf2_Sha256 = \<lambda>s t i n. fit n (s @ t),
     Pbkdf2_Sha384 = \<lambda>s t i n. fit n (s @ t)\<rparr>"

lemma xor_twice: "(b XOR c) XOR c = (b :: u8)"
  by (simp add: xor.assoc)

lemma sample_prims_ok: "prims_ok sample_prims"
  by (simp add: prims_ok_def sample_prims_def xor_cipher_perm comp_def xor_twice)

section \<open>Messages\<close>

text \<open>C16: Every encryption type decrypts what it encrypted: under a key and a confounder of the right sizes
  \<open>encrypt_message_with_confounder\<close> succeeds for every message and key usage, and
  \<open>decrypt_message\<close> with the same key and usage returns the message, with the zero padding
  that DES3 adds.\<close>

theorem ket_message_roundtrip:
  assumes "prims_ok P" and "length key = ket_key_len e" and "length conf = ket_confounder_len e"
  shows "\<exists>ct. ket_encrypt_message_with_confounder P e key message usage conf = Inr ct
    \<and> ket_decrypt_message P e key ct usage = Inr (ket_delivered e message)"
  using assms by (rule ket.enc_dec)

theorem ket_message_roundtrip_witness:
  "\<exists>ct. ket_encrypt_message_with_confounder sample_prims Des3CbcSha1Kd (replicate 24 3) [1, 2, 3] 11 (replicate 8 9) = Inr ct
    \<and> ket_decrypt_message sample_prims Des3CbcSha1Kd (replicate 24 3) ct 11 = Inr [1, 2, 3, 0, 0, 0, 0, 0]"
proof -
  have "replicate 5 (0 :: u8) = [0, 0, 0, 0, 0]" by (simp add: eval_nat_numeral)
  then have "zero_pad [1, 2, 3] 8 = [1, 2, 3, 0, 0, 0, 0, 0]" by (simp add: zero_pad_def)
  then show ?thesis
    using ket_message_roundtrip [OF sample_prims_ok, of "replicate 24 3" Des3CbcSha1Kd "replicate 8 9" "[1, 2, 3]" 11]
    by (simp add: ket_size_defs)
qed

text \<open>C17: \<open>decrypt_message\<close> accepts a ciphertext, and delivers \<open>m\<close>, exactly when the ciphertext is an
  encryption of \<open>m\<close> under the same key and key usage for some confounder.  So no ciphertext with
  an altered body, confounder, integrity hash or length is accepted unless it is itself what
  the sender could have produced.\<close>

theorem ket_decrypt_accepts_iff:
  assumes "prims_ok P" and "length key = ket_key_len e"
  shows "ket_decrypt_message P e key ct usage = Inr m \<longleftrightarrow>
    ket_delivered e m = m \<and>
    (\<exists>conf. length conf = ket_confounder_len e \<and> ket_encrypt_message_with_confounder P e key m usage conf = Inr ct)"
  using assms by (rule ket.dec_iff)

theorem ket_decrypt_accepts_iff_witness:
  "\<forall>m. ket_decrypt_message sample_prims Rc4Hmac (replicate 16 5) (replicate 30 1) 3 = Inr m \<longleftrightarrow>
   (\<exists>conf. length conf = 8
     \<and> ket_encrypt_message_with_confounder sample_prims Rc4Hmac (replicate 16 5) m 3 conf = Inr (replicate 30 1))"
  using ket_decrypt_accepts_iff [OF sample_prims_ok, of "replicate 16 5" Rc4Hmac "replicate 30 1" 3]
  by (simp add: ket_size_defs)

section \<open>Checksums\<close>

lemma ket_checksum_ok:
  assumes P: "prims_ok P" and key: "length key = ket_key_len e"
  shows "\<exists>c. ket_checksum P e key data usage = Inr c \<and> length c = ket_hmac_len e"
proof (cases e)
  case (Sha1 x)
  then show ?thesis
    using aes1_derive_key_length [OF P, of key x "usage_constant usage 0x99"] key hmac_lengths(2) [OF P]
    by (auto simp: aes1_checksum_def aes1_hmac_len_def)
next
  case (Sha2 x)
  then show ?thesis
    using aes2_derive_key_ok [of key x "usage_constant usage 0x99" P] key hmac_lengths [OF P]
    by (cases x) (auto simp: aes2_checksum_def aes2_truncated_hmac_def)
next
  case Des3CbcSha1Kd
  then show ?thesis
    using des3_derive_key_length [OF P, of key "usage_constant usage 0x99"] key hmac_lengths(1) [OF P]
    by (auto simp: des3_checksum_def des3_hmac_len_def ket_size_defs)
next
  case Rc4Hmac
  then show ?thesis
    using key hmac_lengths(3) [OF P]
    by (auto simp: rc4_checksum_def rc4_validate_key_def check_key_len_if kerb_checksum_hmac_md5_def rc4_hmac_len_def Let_def)
qed

lemma ket_verify_eq:
  "ket_verify_checksum P e key data checksum usage = is_ok_and (ket_checksum P e key data usage) (\<lambda>c. c = checksum)"
  by (cases e) (simp_all add: aes1_verify_checksum_def aes2_verify_checksum_def des3_verify_checksum_def rc4_verify_checksum_def)

text \<open>Under a key of the right size the keyed checksum of every encryption type is defined, has the
  size the type announces, and \<open>verify_checksum\<close> accepts this checksum and no other byte string,
  of whatever length.\<close>

lemma ket_verify_checksum_exact:
  assumes "prims_ok P" and "length key = ket_key_len e"
  shows "\<exists>c. ket_checksum P e key data usage = Inr c \<and> length c = ket_hmac_len e
    \<and> {checksum. ket_verify_checksum P e key data checksum usage} = {c}"
  using ket_checksum_ok [OF assms, of data usage] by (auto simp: ket_verify_eq is_ok_and_def)

lemma ket_verify_checksum_exact_witness:
  "\<exists>c. ket_checksum sample_prims (Sha1 Aes128Sha1) (replicate 16 2) [1] 6 = Inr c \<and> length c = 12
    \<and> {checksum. ket_verify_checksum sample_prims (Sha1 Aes128Sha1) (replicate 16 2) [1] checksum 6} = {c}"
  using ket_verify_checksum_exact [OF sample_prims_ok, of "replicate 16 2" "Sha1 Aes128Sha1" "[1]" 6]
  by (simp add: aes1_hmac_len_def)

section \<open>Identifiers, key sizes\<close>

text \<open>The Kerberos numbers identify the encryption types: \<open>from_etype_id\<close> and
  \<open>from_checksum_type_id\<close> return a type exactly for its own encryption type number and
  checksum type number, and nothing for any other number.\<close>

lemma ket_ids_identify:
  "(ket_from_etype_id i = Some e \<longleftrightarrow> ket_etype_id e = i) \<and>
   (ket_from_checksum_type_id i = Some e \<longleftrightarrow> ket_checksum_type_id e = i)"
proof
  note ids = ket_from_etype_id_def aes1_from_etype_id_def aes2_from_etype_id_def des3_from_etype_id_def
    rc4_from_etype_id_def or_else_def des3_etype_id_def rc4_etype_id_def
    ket_from_checksum_type_id_def rc4_from_checksum_type_id_def des3_checksum_type_id_def rc4_checksum_type_id_def
  have cases: "e = Sha1 Aes128Sha1 \<or> e = Sha1 Aes256Sha1 \<or> e = Sha2 Aes128Sha2 \<or> e = Sha2 Aes256Sha2
      \<or> e = Des3CbcSha1Kd \<or> e = Rc4Hmac"
    by (metis aes_sha1_etype.exhaust aes_sha2_etype.exhaust kerberos_etype.exhaust)
  show "ket_from_etype_id i = Some e \<longleftrightarrow> ket_etype_id e = i"
    using cases by (elim disjE) (auto simp: ids)
  show "ket_from_checksum_type_id i = Some e \<longleftrightarrow> ket_checksum_type_id e = i"
    using cases by (elim disjE) (auto simp: ids)
qed

lemma check_key_len_bad: "length key \<noteq> n \<Longrightarrow> check_key_len n key = Inl (InvalidKeyLength n (length key))"
  by (simp add: check_key_len_def)

lemmas validate_defs = aes1_validate_key_def aes2_validate_protocol_key_def aes2_validate_encrypt_key_def
  des3_validate_key_def rc4_validate_key_def

text \<open>A key of the wrong size never reaches a cipher: encryption, decryption and checksums of every
  type fail with \<open>InvalidKeyLength\<close> naming the expected and the actual size, and
  \<open>verify_checksum\<close> answers false.\<close>

lemma ket_rejects_bad_key:
  assumes "length key \<noteq> ket_key_len e"
  shows "ket_encrypt_message_with_confounder P e key message usage conf = Inl (InvalidKeyLength (ket_key_len e) (length key))
    \<and> ket_decrypt_message P e key ct usage = Inl (InvalidKeyLength (ket_key_len e) (length key))
    \<and> ket_checksum P e key data usage = Inl (InvalidKeyLength (ket_key_len e) (length key))
    \<and> \<not> ket_verify_checksum P e key data checksum usage"
  using assms check_key_len_bad [OF assms]
  by (cases e) (auto simp: ket_verify_eq is_ok_and_def validate_defs
      aes1_encrypt_message_with_confounder_def aes1_decrypt_message_def aes1_checksum_def aes1_derive_key_def
      aes2_encrypt_message_with_confounder_def aes2_decrypt_message_def aes2_checksum_def aes2_derive_key_def
      des3_encrypt_message_with_confounder_def des3_decrypt_message_def des3_checksum_def des3_derive_key_def
      des3_derive_random_def rc4_encrypt_message_with_confounder_def rc4_decrypt_message_def rc4_checksum_def)

lemma ket_rejects_bad_key_witness:
  "ket_decrypt_message sample_prims (Sha2 Aes256Sha2) [1, 2] [3] 4 = Inl (InvalidKeyLength 32 2)"
  using ket_rejects_bad_key [of "[1, 2]" "Sha2 Aes256Sha2" sample_prims "[]" 4 "[]" "[3]" "[]" "[]"] by simp

section \<open>Passwords\<close>

lemma default_iterations:
  "s2kparams_to_iterations ''00001000'' = Inr 4096" "s2kparams_to_iterations ''00008000'' = Inr 32768"
  by (simp_all add: s2kparams_to_iterations_def str_bytes_def byte_of_char_def hex_pair_def hex_value_def
      from_bytes_en_def Let_def)

text \<open>With the default string-to-key parameters every encryption type derives from a non-empty UTF-8
  password, and any salt, a protocol key of the size the type requires.\<close>

lemma ket_string_to_key_default:
  assumes P: "prims_ok P" and "secret \<noteq> []" and "utf8_valid secret"
  shows "\<exists>k. ket_string_to_key P e secret salt (ket_default_s2kparams e) = Inr k \<and> length k = ket_key_len e"
proof (cases e)
  case (Sha1 x)
  have "length (Pbkdf2_Sha1 P secret salt 4096 (aes1_key_len x)) = aes1_key_len x" using P by (simp add: prims_ok_def)
  from aes1_derive_key_length [OF P this, of KERBEROS_CONSTANT] Sha1 show ?thesis
    by (simp add: aes1_string_to_key_def aes1_default_s2kparams_def default_iterations aes1_string_to_pbkdf2_def
        KERBEROS_CONSTANT_def str_bytes_def)
next
  case (Sha2 x)
  have "length (aes2_string_to_pbkdf2 P x secret (aes2_saltp x salt) 32768) = aes2_key_len x"
    using P by (cases x) (simp_all add: prims_ok_def)
  then show ?thesis using Sha2 hmac_lengths [OF P]
    by (cases x) (simp_all add: aes2_string_to_key_def aes2_default_s2kparams_def default_iterations aes2_derive_key_def
        aes2_validate_protocol_key_def check_key_len_if aes2_kdf_hmac_sha2_def KERBEROS_CONSTANT_def str_bytes_def Let_def)
next
  case Des3CbcSha1Kd
  obtain f where f: "nfold (secret @ salt) (21 * 8) = Inr f" "length f = 21"
    using nfold_length [of "secret @ salt" 21] assms(2) by auto
  obtain t where t: "des3_random_to_key f = Inr t" "length t = 24" using des3_random_to_key_length [OF f(2)] by blast
  from des3_derive_key_length [OF P t(2), of KERBEROS_CONSTANT] f t Des3CbcSha1Kd show ?thesis
    by (simp add: des3_string_to_key_def des3_default_s2kparams_def KERBEROS_CONSTANT_def str_bytes_def ket_size_defs)
next
  case Rc4Hmac
  then show ?thesis using assms by (simp add: rc4_string_to_key_def prims_ok_def ket_size_defs)
qed

lemma ket_string_to_key_default_witness:
  "\<exists>k. ket_string_to_key sample_prims Des3CbcSha1Kd (str_bytes ''password'') (str_bytes ''TEST.GOKRB5testuser1'') [] = Inr k
    \<and> length k = 24"
proof -
  have "utf8_valid (str_bytes ''password'')" "str_bytes ''password'' \<noteq> []"
    by (simp_all add: str_bytes_def byte_of_char_def in_range_def)
  then show ?thesis
    using ket_string_to_key_default [OF sample_prims_ok, of "str_bytes ''password''" Des3CbcSha1Kd "str_bytes ''TEST.GOKRB5testuser1''"]
    by (simp add: des3_default_s2kparams_def ket_size_defs)
qed

section \<open>The RC4 message type\<close>

lemma replicate_numeral: "replicate (numeral k) x = x # replicate (pred_numeral k) x"
  by (simp add: numeral_eq_Suc)

lemma ms_msg_type_loop_numeral:
  "ms_msg_type_loop (numeral k) usage =
     (if usage < 0x80 then ucast usage # replicate (pred_numeral k) 0
      else ((ucast usage AND 0x7f) OR 0x80) # ms_msg_type_loop (pred_numeral k) (drop_bit 7 usage))"
  by (subst numeral_eq_Suc) (simp only: ms_msg_type_loop.simps)

text \<open>For the key usages below 128 the RC4 message type is the usage, with the translations of RFC 4757
  (3 and 9 become 8, 23 becomes 13), as four little-endian bytes; from 128 on the code's
  base-128 encoding is not the little-endian one: usage 1024 is encoded as 80 08 00 00.\<close>

lemma rc4_msg_type_little_endian:
  assumes "u < 128"
  shows "rc4_hmac_usage_to_ms_msg_type u
      = to_bytes_en Little (if u = 3 \<or> u = 9 then 8 else if u = 23 then 13 else u)
    \<and> rc4_hmac_usage_to_ms_msg_type 1024 = [0x80, 0x08, 0, 0]
    \<and> to_bytes_en Little (1024 :: u32) = [0, 4, 0, 0]"
proof (intro conjI)
  have le: "to_bytes_en Little v = [ucast v, 0, 0, 0]" if "v < 128" for v :: u32
  proof -
    have "unat v < 128" using that by (simp add: word_less_nat_alt)
    then show ?thesis
      by (simp add: to_bytes_en_def of_nat_unat)
  qed
  have loop: "ms_msg_type_loop 4 v = [ucast v, 0, 0, 0]" if "v < 128" for v :: u32
    using that by (simp add: ms_msg_type_loop_numeral replicate_numeral)
  show "rc4_hmac_usage_to_ms_msg_type u = to_bytes_en Little (if u = 3 \<or> u = 9 then 8 else if u = 23 then 13 else u)"
    using assms by (simp add: rc4_hmac_usage_to_ms_msg_type_def loop le)
  show "rc4_hmac_usage_to_ms_msg_type 1024 = [0x80, 0x08, 0, 0]"
    by (simp add: rc4_hmac_usage_to_ms_msg_type_def ms_msg_type_loop_numeral replicate_numeral)
  show "to_bytes_en Little (1024 :: u32) = [0, 4, 0, 0]"
    by (simp add: to_bytes_en_def nat_be_numeral)
qed

lemma rc4_msg_type_little_endian_witness:
  "rc4_hmac_usage_to_ms_msg_type 9 = to_bytes_en Little (8 :: u32)"
  using rc4_msg_type_little_endian [of 9] by simp

end
