(* ===== verification/Gss_Tokens.thy ===== *)
theory Gss_Tokens
  imports Etype_Props Keytab
begin

text \<open>
  The RFC 4121 per-message tokens of \<open>src/spnego.rs\<close>: \<open>MicToken\<close> and \<open>WrapToken\<close>, their wire format,
  checksums, and sealed (encrypted) bodies with right rotation.  A method on \<open>&mut self\<close> returns the
  token after the call together with its result, since \<open>encrypt_payload_with_confounder\<close> changes the
  flags before it can fail.
\<close>

unbundle bit_operations_syntax

section \<open>Errors\<close>

datatype gss_error =
    GssTokenTooShort nat nat \<comment> \<open>minimum, actual\<close>
  | InvalidGssTokenId bytes bytes \<comment> \<open>expected, actual\<close>
  | UnexpectedGssTokenSender bool bool \<comment> \<open>expected from the acceptor, actual\<close>
  | InvalidGssFiller
  | MissingGssPayload
  | MissingGssChecksum
  | GssChecksumAlreadySet
  | MissingGssEncryptedBody
  | GssEncryptedBodyAlreadySet
  | SealedGssTokenNeedsEncryption
  | GssTokenNotSealed
  | InvalidGssChecksumLength nat nat \<comment> \<open>expected, actual\<close>
  | InconsistentWrapChecksumLength nat nat \<comment> \<open>token length, checksum length\<close>
  | GssChecksumMismatch
  | GssDecryptedTokenTooShort nat nat \<comment> \<open>minimum, actual\<close>
  | InvalidGssEncryptedHeader
  | GssUnsupportedEtype i32
  | GssCrypto crypto_error

section \<open>Constants and helpers\<close>

definition TOK_ID_GSS_MIC :: bytes where
  "TOK_ID_GSS_MIC = [0x04, 0x04]"

definition TOK_ID_GSS_WRAP :: bytes where
  "TOK_ID_GSS_WRAP = [0x05, 0x04]"

definition GSS_MIC_FILLER :: bytes where
  "GSS_MIC_FILLER = [0xff, 0xff, 0xff, 0xff, 0xff]"

abbreviation (input) GSS_MIC_HEADER_LEN :: nat where "GSS_MIC_HEADER_LEN \<equiv> 16"
abbreviation (input) GSS_WRAP_HEADER_LEN :: nat where "GSS_WRAP_HEADER_LEN \<equiv> 16"
abbreviation (input) GSS_WRAP_FILLER :: u8 where "GSS_WRAP_FILLER \<equiv> 0xff"
abbreviation (input) GSS_TOKEN_FLAG_SENT_BY_ACCEPTOR :: u8 where "GSS_TOKEN_FLAG_SENT_BY_ACCEPTOR \<equiv> 0x01"
abbreviation (input) GSS_TOKEN_FLAG_SEALED :: u8 where "GSS_TOKEN_FLAG_SEALED \<equiv> 0x02"
abbreviation (input) GSSAPI_INITIATOR_SEAL_USAGE :: u32 where "GSSAPI_INITIATOR_SEAL_USAGE \<equiv> 24"
abbreviation (input) GSSAPI_INITIATOR_SIGN_USAGE :: u32 where "GSSAPI_INITIATOR_SIGN_USAGE \<equiv> 25"

definition validate_gss_token_id :: "bytes \<Rightarrow> bytes \<Rightarrow> gss_error + unit" where
  "validate_gss_token_id actual expected =
     (if actual \<noteq> expected then Inl (InvalidGssTokenId expected actual) else Inr ())"

definition validate_gss_sender :: "u8 \<Rightarrow> bool \<Rightarrow> gss_error + unit" where
  "validate_gss_sender flags expect_from_acceptor =
     (let actual_from_acceptor = (flags AND GSS_TOKEN_FLAG_SENT_BY_ACCEPTOR \<noteq> 0)
      in if actual_from_acceptor \<noteq> expect_from_acceptor
         then Inl (UnexpectedGssTokenSender expect_from_acceptor actual_from_acceptor) else Inr ())"

definition gss_rotate_right :: "bytes \<Rightarrow> nat \<Rightarrow> bytes" where
  "gss_rotate_right bs count =
     (if bs = [] then []
      else let count = count mod length bs
           in if count = 0 then bs
              else let split = length bs - count in drop split bs @ take split bs)"

definition gss_rotate_left :: "bytes \<Rightarrow> nat \<Rightarrow> bytes" where
  "gss_rotate_left bs count =
     (if bs = [] then []
      else let count = count mod length bs
           in if count = 0 then bs else drop count bs @ take count bs)"

definition wrap_header :: "u8 \<Rightarrow> u16 \<Rightarrow> u16 \<Rightarrow> u64 \<Rightarrow> bytes" where
  "wrap_header flags ec rrc snd_seq_num =
     TOK_ID_GSS_WRAP @ [flags, GSS_WRAP_FILLER] @ to_bytes_en Big ec @ to_bytes_en Big rrc @ to_bytes_en Big snd_seq_num"

definition wrap_checksum_header :: "u8 \<Rightarrow> u64 \<Rightarrow> bytes" where
  "wrap_checksum_header flags snd_seq_num = wrap_header flags 0 0 snd_seq_num"

section \<open>MIC tokens\<close>

record mic_token =
  mic_flags :: u8
  mic_snd_seq_num :: u64
  mic_payload :: "bytes option"
  mic_checksum :: "bytes option"

definition mic_new :: "u8 \<Rightarrow> u64 \<Rightarrow> mic_token" where
  "mic_new flags snd_seq_num =
     \<lparr>mic_flags = flags, mic_snd_seq_num = snd_seq_num, mic_payload = None, mic_checksum = None\<rparr>"

definition mic_checksum_header :: "mic_token \<Rightarrow> bytes" where
  "mic_checksum_header t =
     TOK_ID_GSS_MIC @ [mic_flags t] @ GSS_MIC_FILLER @ to_bytes_en Big (mic_snd_seq_num t)"

definition mic_decode :: "bytes \<Rightarrow> bool \<Rightarrow> gss_error + mic_token" where
  "mic_decode bs expect_from_acceptor =
     (if length bs < GSS_MIC_HEADER_LEN then Inl (GssTokenTooShort GSS_MIC_HEADER_LEN (length bs))
      else rbind (validate_gss_token_id (take 2 bs) TOK_ID_GSS_MIC) (\<lambda>_.
        rbind (validate_gss_sender (bs ! 2) expect_from_acceptor) (\<lambda>_.
          if slice bs 3 8 \<noteq> GSS_MIC_FILLER then Inl InvalidGssFiller
          else Inr \<lparr>mic_flags = bs ! 2, mic_snd_seq_num = from_bytes_en Big (slice bs 8 16),
                    mic_payload = None, mic_checksum = Some (drop GSS_MIC_HEADER_LEN bs)\<rparr>)))"

definition mic_encode :: "mic_token \<Rightarrow> gss_error + bytes" where
  "mic_encode t =
     rbind (ok_or (mic_checksum t) MissingGssChecksum) (\<lambda>checksum. Inr (mic_checksum_header t @ checksum))"

definition mic_with_payload :: "mic_token \<Rightarrow> bytes \<Rightarrow> mic_token" where
  "mic_with_payload t payload = t\<lparr>mic_payload := Some payload\<rparr>"

definition mic_compute_checksum :: "crypto_prims \<Rightarrow> mic_token \<Rightarrow> kt_key \<Rightarrow> u32 \<Rightarrow> gss_error + bytes" where
  "mic_compute_checksum P t key key_usage =
     rbind (ok_or (mic_payload t) MissingGssPayload) (\<lambda>payload.
       let data = payload @ mic_checksum_header t in
       rbind (ok_or (ket_from_etype_id (kt_etype key)) (GssUnsupportedEtype (kt_etype key))) (\<lambda>etype.
         map_err GssCrypto (ket_checksum P etype (kt_value key) data key_usage)))"

definition mic_set_checksum :: "crypto_prims \<Rightarrow> mic_token \<Rightarrow> kt_key \<Rightarrow> u32 \<Rightarrow> mic_token \<times> (gss_error + unit)" where
  "mic_set_checksum P t key key_usage =
     (if mic_checksum t \<noteq> None then (t, Inl GssChecksumAlreadySet)
      else (case mic_compute_checksum P t key key_usage of
              Inl e \<Rightarrow> (t, Inl e)
            | Inr c \<Rightarrow> (t\<lparr>mic_checksum := Some c\<rparr>, Inr ())))"

definition mic_verify :: "crypto_prims \<Rightarrow> mic_token \<Rightarrow> kt_key \<Rightarrow> u32 \<Rightarrow> gss_error + bool" where
  "mic_verify P t key key_usage =
     rbind (mic_compute_checksum P t key key_usage) (\<lambda>expected.
       rbind (ok_or (mic_checksum t) MissingGssChecksum) (\<lambda>actual.
         if \<not> constant_time_eq expected actual then Inl GssChecksumMismatch else Inr True))"

definition mic_new_initiator :: "crypto_prims \<Rightarrow> bytes \<Rightarrow> kt_key \<Rightarrow> gss_error + mic_token" where
  "mic_new_initiator P payload key =
     (let token = \<lparr>mic_flags = 0, mic_snd_seq_num = 0, mic_payload = Some payload, mic_checksum = None\<rparr>;
          (token, r) = mic_set_checksum P token key GSSAPI_INITIATOR_SIGN_USAGE
      in rbind r (\<lambda>_. Inr token))"

section \<open>Wrap tokens\<close>

record wrap_token =
  wrap_flags :: u8
  wrap_ec :: u16
  wrap_rrc :: u16
  wrap_snd_seq_num :: u64
  wrap_payload :: "bytes option"
  wrap_checksum :: "bytes option"
  wrap_encrypted_body :: "bytes option"

definition wrap_new :: "u8 \<Rightarrow> u64 \<Rightarrow> wrap_token" where
  "wrap_new flags snd_seq_num =
     \<lparr>wrap_flags = flags, wrap_ec = 0, wrap_rrc = 0, wrap_snd_seq_num = snd_seq_num,
      wrap_payload = None, wrap_checksum = None, wrap_encrypted_body = None\<rparr>"

definition wrap_is_sealed :: "wrap_token \<Rightarrow> bool" where
  "wrap_is_sealed t \<longleftrightarrow> wrap_flags t AND GSS_TOKEN_FLAG_SEALED \<noteq> 0"

definition wrap_token_header :: "wrap_token \<Rightarrow> u16 \<Rightarrow> bytes" where
  "wrap_token_header t rrc = wrap_header (wrap_flags t) (wrap_ec t) rrc (wrap_snd_seq_num t)"

definition wrap_decode :: "bytes \<Rightarrow> bool \<Rightarrow> gss_error + wrap_token" where
  "wrap_decode bs expect_from_acceptor =
     (if length bs < GSS_WRAP_HEADER_LEN then Inl (GssTokenTooShort GSS_WRAP_HEADER_LEN (length bs))
      else rbind (validate_gss_token_id (take 2 bs) TOK_ID_GSS_WRAP) (\<lambda>_.
        rbind (validate_gss_sender (bs ! 2) expect_from_acceptor) (\<lambda>_.
          if bs ! 3 \<noteq> GSS_WRAP_FILLER then Inl InvalidGssFiller
          else
            let ec = from_bytes_en Big (slice bs 4 6); rrc = from_bytes_en Big (slice bs 6 8);
                snd_seq_num = from_bytes_en Big (slice bs 8 16)
            in if bs ! 2 AND GSS_TOKEN_FLAG_SEALED \<noteq> 0 then
                 let encrypted_body = drop GSS_WRAP_HEADER_LEN bs
                 in if encrypted_body = [] then Inl MissingGssEncryptedBody
                    else Inr \<lparr>wrap_flags = bs ! 2, wrap_ec = ec, wrap_rrc = rrc, wrap_snd_seq_num = snd_seq_num,
                              wrap_payload = None, wrap_checksum = None,
                              wrap_encrypted_body = Some encrypted_body\<rparr>
               else
                 let checksum_len = unat ec
                 in if checksum_len > length bs - GSS_WRAP_HEADER_LEN
                    then Inl (InconsistentWrapChecksumLength (length bs) checksum_len)
                    else let checksum_start = length bs - checksum_len
                         in Inr \<lparr>wrap_flags = bs ! 2, wrap_ec = ec, wrap_rrc = rrc, wrap_snd_seq_num = snd_seq_num,
                                 wrap_payload = Some (slice bs GSS_WRAP_HEADER_LEN checksum_start),
                                 wrap_checksum = Some (drop checksum_start bs),
                                 wrap_encrypted_body = None\<rparr>)))"

definition wrap_encode :: "wrap_token \<Rightarrow> gss_error + bytes" where
  "wrap_encode t =
     (if wrap_is_sealed t then
        rbind (ok_or (wrap_encrypted_body t) MissingGssEncryptedBody) (\<lambda>encrypted_body.
          Inr (wrap_token_header t (wrap_rrc t) @ encrypted_body))
      else
        rbind (ok_or (wrap_payload t) MissingGssPayload) (\<lambda>payload.
        rbind (ok_or (wrap_checksum t) MissingGssChecksum) (\<lambda>checksum.
          if length checksum \<noteq> unat (wrap_ec t)
          then Inl (InvalidGssChecksumLength (unat (wrap_ec t)) (length checksum))
          else Inr (wrap_token_header t (wrap_rrc t) @ payload @ checksum))))"

definition wrap_with_payload :: "wrap_token \<Rightarrow> bytes \<Rightarrow> wrap_token" where
  "wrap_with_payload t payload = t\<lparr>wrap_payload := Some payload\<rparr>"

definition wrap_compute_checksum :: "crypto_prims \<Rightarrow> wrap_token \<Rightarrow> kt_key \<Rightarrow> u32 \<Rightarrow> gss_error + bytes" where
  "wrap_compute_checksum P t key key_usage =
     rbind (ok_or (wrap_payload t) MissingGssPayload) (\<lambda>payload.
       let data = payload @ wrap_checksum_header (wrap_flags t) (wrap_snd_seq_num t) in
       rbind (ok_or (ket_from_etype_id (kt_etype key)) (GssUnsupportedEtype (kt_etype key))) (\<lambda>etype.
         map_err GssCrypto (ket_checksum P etype (kt_value key) data key_usage)))"

text \<open>\<open>u16::try_from\<close> on a length.\<close>

definition u16_try_from :: "nat \<Rightarrow> u16 option" where
  "u16_try_from n = (if n < 2 ^ 16 then Some (word_of_nat n) else None)"

definition wrap_set_checksum :: "crypto_prims \<Rightarrow> wrap_token \<Rightarrow> kt_key \<Rightarrow> u32 \<Rightarrow> wrap_token \<times> (gss_error + unit)" where
  "wrap_set_checksum P t key key_usage =
     (if wrap_checksum t \<noteq> None then (t, Inl GssChecksumAlreadySet)
      else if wrap_is_sealed t then (t, Inl SealedGssTokenNeedsEncryption)
      else (case wrap_compute_checksum P t key key_usage of
              Inl e \<Rightarrow> (t, Inl e)
            | Inr checksum \<Rightarrow>
                if wrap_ec t = 0 then
                  (case u16_try_from (length checksum) of
                     None \<Rightarrow> (t, Inl (InvalidGssChecksumLength 65535 (length checksum)))
                   | Some ec \<Rightarrow> (t\<lparr>wrap_ec := ec, wrap_checksum := Some checksum\<rparr>, Inr ()))
                else (t\<lparr>wrap_checksum := Some checksum\<rparr>, Inr ())))"

definition wrap_encrypt_payload_with_confounder ::
    "crypto_prims \<Rightarrow> wrap_token \<Rightarrow> kt_key \<Rightarrow> u32 \<Rightarrow> bytes \<Rightarrow> wrap_token \<times> (gss_error + unit)" where
  "wrap_encrypt_payload_with_confounder P t key key_usage confounder =
     (if wrap_encrypted_body t \<noteq> None then (t, Inl GssEncryptedBodyAlreadySet)
      else let t = t\<lparr>wrap_flags := wrap_flags t OR GSS_TOKEN_FLAG_SEALED\<rparr> in
        case wrap_payload t of
          None \<Rightarrow> (t, Inl MissingGssPayload)
        | Some payload \<Rightarrow>
            (case ket_from_etype_id (kt_etype key) of
               None \<Rightarrow> (t, Inl (GssUnsupportedEtype (kt_etype key)))
             | Some etype \<Rightarrow>
                 let plaintext = payload @ replicate (unat (wrap_ec t)) 0 @ wrap_token_header t 0 in
                 (case ket_encrypt_message_with_confounder P etype (kt_value key) plaintext key_usage confounder of
                    Inl e \<Rightarrow> (t, Inl (GssCrypto e))
                  | Inr encrypted \<Rightarrow>
                      (t\<lparr>wrap_encrypted_body := Some (gss_rotate_right encrypted (unat (wrap_rrc t))),
                         wrap_checksum := None\<rparr>, Inr ()))))"

definition wrap_decrypt_payload :: "crypto_prims \<Rightarrow> wrap_token \<Rightarrow> kt_key \<Rightarrow> u32 \<Rightarrow> gss_error + bytes" where
  "wrap_decrypt_payload P t key key_usage =
     (if \<not> wrap_is_sealed t then Inl GssTokenNotSealed
      else rbind (ok_or (wrap_encrypted_body t) MissingGssEncryptedBody) (\<lambda>encrypted_body.
        let encrypted = gss_rotate_left encrypted_body (unat (wrap_rrc t)) in
        rbind (ok_or (ket_from_etype_id (kt_etype key)) (GssUnsupportedEtype (kt_etype key))) (\<lambda>etype.
        rbind (map_err GssCrypto (ket_decrypt_message P etype (kt_value key) encrypted key_usage)) (\<lambda>plaintext.
          let trailer_len = GSS_WRAP_HEADER_LEN + unat (wrap_ec t) in
          if length plaintext < trailer_len
          then Inl (GssDecryptedTokenTooShort trailer_len (length plaintext))
          else let header_start = length plaintext - GSS_WRAP_HEADER_LEN;
                   embedded_header = drop header_start plaintext;
                   expected_header = wrap_token_header t 0
               in if embedded_header \<noteq> expected_header then Inl InvalidGssEncryptedHeader
                  else Inr (take (length plaintext - trailer_len) plaintext)))))"

definition wrap_decrypt_and_set_payload ::
    "crypto_prims \<Rightarrow> wrap_token \<Rightarrow> kt_key \<Rightarrow> u32 \<Rightarrow> wrap_token \<times> (gss_error + bytes)" where
  "wrap_decrypt_and_set_payload P t key key_usage =
     (case wrap_decrypt_payload P t key key_usage of
        Inl e \<Rightarrow> (t, Inl e)
      | Inr payload \<Rightarrow> (t\<lparr>wrap_payload := Some payload\<rparr>, Inr payload))"

definition wrap_verify :: "crypto_prims \<Rightarrow> wrap_token \<Rightarrow> kt_key \<Rightarrow> u32 \<Rightarrow> gss_error + bool" where
  "wrap_verify P t key key_usage =
     (if wrap_is_sealed t then rbind (wrap_decrypt_payload P t key key_usage) (\<lambda>_. Inr True)
      else rbind (wrap_compute_checksum P t key key_usage) (\<lambda>expected.
        rbind (ok_or (wrap_checksum t) MissingGssChecksum) (\<lambda>actual.
          if \<not> constant_time_eq expected actual then Inl GssChecksumMismatch else Inr True)))"

definition wrap_new_initiator :: "crypto_prims \<Rightarrow> bytes \<Rightarrow> kt_key \<Rightarrow> gss_error + wrap_token" where
  "wrap_new_initiator P payload key =
     rbind (ok_or (ket_from_etype_id (kt_etype key)) (GssUnsupportedEtype (kt_etype key))) (\<lambda>etype.
       rbind (ok_or (u16_try_from (ket_hmac_len etype)) (InvalidGssChecksumLength 65535 (ket_hmac_len etype))) (\<lambda>ec.
         let token = \<lparr>wrap_flags = 0, wrap_ec = ec, wrap_rrc = 0, wrap_snd_seq_num = 0,
                      wrap_payload = Some payload, wrap_checksum = None, wrap_encrypted_body = None\<rparr>;
             (token, r) = wrap_set_checksum P token key GSSAPI_INITIATOR_SEAL_USAGE
         in rbind r (\<lambda>_. Inr token)))"

definition wrap_new_initiator_sealed_with_confounder ::
    "crypto_prims \<Rightarrow> bytes \<Rightarrow> kt_key \<Rightarrow> bytes \<Rightarrow> gss_error + wrap_token" where
  "wrap_new_initiator_sealed_with_confounder P payload key confounder =
     (let token = \<lparr>wrap_flags = GSS_TOKEN_FLAG_SEALED, wrap_ec = 0, wrap_rrc = 0, wrap_snd_seq_num = 0,
                   wrap_payload = Some payload, wrap_checksum = None, wrap_encrypted_body = None\<rparr>;
          (token, r) = wrap_encrypt_payload_with_confounder P token key GSSAPI_INITIATOR_SEAL_USAGE confounder
      in rbind r (\<lambda>_. Inr token))"

text \<open>The confounder is drawn from \<open>getrandom\<close>, a parameter: the bytes it fills in, or its failure.\<close>

definition wrap_new_initiator_sealed ::
    "crypto_prims \<Rightarrow> (nat \<Rightarrow> gss_error + bytes) \<Rightarrow> bytes \<Rightarrow> kt_key \<Rightarrow> gss_error + wrap_token" where
  "wrap_new_initiator_sealed P fill payload key =
     rbind (ok_or (ket_from_etype_id (kt_etype key)) (GssUnsupportedEtype (kt_etype key))) (\<lambda>etype.
       rbind (fill (ket_confounder_len etype)) (\<lambda>confounder.
         wrap_new_initiator_sealed_with_confounder P payload key confounder))"

section \<open>Lemmas\<close>

lemma gss_rotate_inverse [simp]: "gss_rotate_left (gss_rotate_right bs n) n = bs"
proof (cases "bs = [] \<or> n mod length bs = 0")
  case True
  then show ?thesis by (auto simp: gss_rotate_left_def gss_rotate_right_def)
next
  case False
  define c where "c = n mod length bs"
  have c: "0 < c" "c < length bs" using False by (auto simp: c_def)
  have r: "gss_rotate_right bs n = drop (length bs - c) bs @ take (length bs - c) bs"
    using False by (simp add: gss_rotate_right_def c_def Let_def)
  have len: "length (gss_rotate_right bs n) = length bs" by (simp add: r)
  show ?thesis
    using c unfolding gss_rotate_left_def len c_def [symmetric] Let_def by (auto simp: r)
qed

lemma length_gss_rotate_right [simp]: "length (gss_rotate_right bs n) = length bs"
  by (auto simp: gss_rotate_right_def Let_def)

lemma length_wrap_header [simp]: "length (wrap_header f ec rrc s) = 16"
  by (simp add: wrap_header_def TOK_ID_GSS_WRAP_def)

lemma split_2_4_6_8_16:
  assumes "16 \<le> length bs"
  shows "take 2 bs @ [bs ! 2, bs ! 3] @ slice bs 4 6 @ slice bs 6 8 @ slice bs 8 16 @ drop 16 bs = bs"
proof -
  have "slice bs 8 16 @ drop 16 bs = drop 8 bs"
    using append_take_drop_id [of 8 "drop 8 bs"] by (simp add: slice_def)
  moreover have "slice bs 6 8 @ drop 8 bs = drop 6 bs"
    using append_take_drop_id [of 2 "drop 6 bs"] by (simp add: slice_def)
  moreover have "slice bs 4 6 @ drop 6 bs = drop 4 bs"
    using append_take_drop_id [of 2 "drop 4 bs"] by (simp add: slice_def)
  moreover have "bs ! 2 # bs ! 3 # drop 4 bs = drop 2 bs"
    using Cons_nth_drop_Suc [of 2 bs] Cons_nth_drop_Suc [of 3 bs] assms by simp
  ultimately show ?thesis by simp
qed

lemma wrap_header_parts:
  "take 2 (wrap_header f ec rrc s @ xs) = TOK_ID_GSS_WRAP"
  "(wrap_header f ec rrc s @ xs) ! 2 = f" "(wrap_header f ec rrc s @ xs) ! 3 = 0xff"
  "slice (wrap_header f ec rrc s @ xs) 4 6 = to_bytes_en Big ec"
  "slice (wrap_header f ec rrc s @ xs) 6 8 = to_bytes_en Big rrc"
  "slice (wrap_header f ec rrc s @ xs) 8 16 = to_bytes_en Big s"
  by (simp_all add: wrap_header_def TOK_ID_GSS_WRAP_def slice_def)

text \<open>What a wrap token on the wire can carry.\<close>

definition wrap_wire :: "wrap_token \<Rightarrow> bool" where
  "wrap_wire t \<longleftrightarrow>
     (if wrap_is_sealed t
      then wrap_payload t = None \<and> wrap_checksum t = None
        \<and> (\<exists>b. wrap_encrypted_body t = Some b \<and> b \<noteq> [])
      else wrap_encrypted_body t = None \<and> wrap_payload t \<noteq> None
        \<and> (\<exists>c. wrap_checksum t = Some c \<and> length c = unat (wrap_ec t)))"

definition from_acceptor :: "u8 \<Rightarrow> bool" where
  "from_acceptor flags \<longleftrightarrow> flags AND GSS_TOKEN_FLAG_SENT_BY_ACCEPTOR \<noteq> 0"

lemma wrap_decode_header:
  "wrap_decode (wrap_header f ec rrc s @ xs) (from_acceptor f) =
     (if f AND 2 \<noteq> 0 then
        (if xs = [] then Inl MissingGssEncryptedBody
         else Inr \<lparr>wrap_flags = f, wrap_ec = ec, wrap_rrc = rrc, wrap_snd_seq_num = s,
                   wrap_payload = None, wrap_checksum = None, wrap_encrypted_body = Some xs\<rparr>)
      else if unat ec > length xs then Inl (InconsistentWrapChecksumLength (16 + length xs) (unat ec))
      else Inr \<lparr>wrap_flags = f, wrap_ec = ec, wrap_rrc = rrc, wrap_snd_seq_num = s,
                wrap_payload = Some (take (length xs - unat ec) xs),
                wrap_checksum = Some (drop (length xs - unat ec) xs), wrap_encrypted_body = None\<rparr>)"
proof -
  have "slice (wrap_header f ec rrc s @ xs) 16 (16 + length xs - unat ec) = take (length xs - unat ec) xs"
    if "\<not> unat ec > length xs"
    using that by (simp add: slice_def)
  moreover have "drop (16 + length xs - unat ec) (wrap_header f ec rrc s @ xs) = drop (length xs - unat ec) xs"
    if "\<not> unat ec > length xs"
    using that by simp
  ultimately show ?thesis
    unfolding wrap_decode_def Let_def wrap_header_parts
    by (simp add: validate_gss_token_id_def validate_gss_sender_def from_acceptor_def)
qed

section \<open>Properties\<close>

text \<open>A wrap token that can travel (sealed with a non-empty body, or unsealed with payload and a
  checksum of the announced length) is encoded and decoded back to itself by a receiver that
  expects its sender.\<close>

lemma wrap_token_roundtrip:
  assumes "wrap_wire t"
  shows "\<exists>bs. wrap_encode t = Inr bs \<and> wrap_decode bs (from_acceptor (wrap_flags t)) = Inr t"
proof (cases "wrap_is_sealed t")
  case True
  with assms show ?thesis
    by (auto simp: wrap_wire_def wrap_encode_def wrap_token_header_def wrap_decode_header wrap_is_sealed_def)
next
  case False
  with assms obtain p c where "wrap_payload t = Some p" "wrap_checksum t = Some c" "length c = unat (wrap_ec t)"
    "wrap_encrypted_body t = None"
    by (auto simp: wrap_wire_def)
  with False show ?thesis
    by (simp add: wrap_encode_def wrap_token_header_def wrap_decode_header wrap_is_sealed_def)
qed

lemma wrap_token_roundtrip_witness:
  "\<exists>bs. wrap_encode \<lparr>wrap_flags = 1, wrap_ec = 2, wrap_rrc = 0, wrap_snd_seq_num = 7, wrap_payload = Some [9],
      wrap_checksum = Some [3, 4], wrap_encrypted_body = None\<rparr> = Inr bs
    \<and> wrap_decode bs True = Inr \<lparr>wrap_flags = 1, wrap_ec = 2, wrap_rrc = 0, wrap_snd_seq_num = 7,
      wrap_payload = Some [9], wrap_checksum = Some [3, 4], wrap_encrypted_body = None\<rparr>"
  using wrap_token_roundtrip [of "\<lparr>wrap_flags = 1, wrap_ec = 2, wrap_rrc = 0, wrap_snd_seq_num = 7,
      wrap_payload = Some [9], wrap_checksum = Some [3, 4], wrap_encrypted_body = None\<rparr>"]
  by (simp add: wrap_wire_def wrap_is_sealed_def from_acceptor_def)

text \<open>Decoding is exact: every token that \<open>WrapToken::decode\<close> accepts comes from the expected sender
  and encodes to the very bytes it was read from, so no byte of the wire form is ignored.\<close>

lemma wrap_decode_exact:
  assumes "wrap_decode bs d = Inr t"
  shows "wrap_encode t = Inr bs \<and> wrap_wire t \<and> from_acceptor (wrap_flags t) = d"
proof -
  have len: "16 \<le> length bs" using assms by (auto simp: wrap_decode_def split: if_splits)
  define f where "f = bs ! 2"
  define ec :: u16 where "ec = from_bytes_en Big (slice bs 4 6)"
  define rrc :: u16 where "rrc = from_bytes_en Big (slice bs 6 8)"
  define s :: u64 where "s = from_bytes_en Big (slice bs 8 16)"
  have ok: "take 2 bs = TOK_ID_GSS_WRAP" "bs ! 3 = 0xff" "from_acceptor f = d"
    using assms len
    by (auto simp: wrap_decode_def validate_gss_token_id_def validate_gss_sender_def from_acceptor_def f_def
        Let_def split: if_splits)
  have "slice bs 4 6 = to_bytes_en Big ec" "slice bs 6 8 = to_bytes_en Big rrc" "slice bs 8 16 = to_bytes_en Big s"
    using len by (simp_all add: ec_def rrc_def s_def to_from_bytes_en length_slice)
  moreover define xs where "xs = drop 16 bs"
  ultimately have bs: "bs = wrap_header f ec rrc s @ xs"
    using split_2_4_6_8_16 [OF len] ok by (simp add: wrap_header_def f_def xs_def)
  have "wrap_decode (wrap_header f ec rrc s @ xs) (from_acceptor f) = Inr t"
    using assms ok(3) bs by simp
  then have t: "(f AND 2 \<noteq> 0 \<and> xs \<noteq> [] \<and>
      t = \<lparr>wrap_flags = f, wrap_ec = ec, wrap_rrc = rrc, wrap_snd_seq_num = s,
           wrap_payload = None, wrap_checksum = None, wrap_encrypted_body = Some (xs)\<rparr>)
    \<or> (\<not> f AND 2 \<noteq> 0 \<and> unat ec \<le> length (xs) \<and>
      t = \<lparr>wrap_flags = f, wrap_ec = ec, wrap_rrc = rrc, wrap_snd_seq_num = s,
           wrap_payload = Some (take (length (xs) - unat ec) (xs)),
           wrap_checksum = Some (drop (length (xs) - unat ec) (xs)), wrap_encrypted_body = None\<rparr>)"
    unfolding wrap_decode_header by (simp only: split: if_splits) simp_all
  have "wrap_encode t = Inr (wrap_header f ec rrc s @ xs)" "wrap_wire t" "wrap_flags t = f"
    using t by (auto simp: wrap_encode_def wrap_wire_def wrap_token_header_def wrap_is_sealed_def)
  then show ?thesis using bs ok by simp
qed

lemma wrap_decode_exact_witness:
  "wrap_encode \<lparr>wrap_flags = 2, wrap_ec = 0, wrap_rrc = 1, wrap_snd_seq_num = 5,
      wrap_payload = None, wrap_checksum = None, wrap_encrypted_body = Some [8, 9]\<rparr>
    = Inr [5, 4, 2, 0xff, 0, 0, 0, 1, 0, 0, 0, 0, 0, 0, 0, 5, 8, 9]"
  using wrap_decode_exact [of "[5, 4, 2, 0xff, 0, 0, 0, 1, 0, 0, 0, 0, 0, 0, 0, 5, 8, 9]" False
      "\<lparr>wrap_flags = 2, wrap_ec = 0, wrap_rrc = 1, wrap_snd_seq_num = 5,
      wrap_payload = None, wrap_checksum = None, wrap_encrypted_body = Some [8, 9]\<rparr>"]
  by (simp add: wrap_decode_def validate_gss_token_id_def validate_gss_sender_def TOK_ID_GSS_WRAP_def slice_def
      from_bytes_en_def)

section \<open>Sealed tokens\<close>

text \<open>A header shifted by DES3 padding is never the header itself.\<close>

lemma wrap_header_shifted:
  assumes "0 < k" and "k < 8" and "f AND 2 \<noteq> 0"
  shows "drop k (wrap_header f ec 0 s) @ replicate k 0 \<noteq> wrap_header f ec 0 s"
proof
  assume eq: "drop k (wrap_header f ec 0 s) @ replicate k 0 = wrap_header f ec 0 s"
  have "length (to_bytes_en Big ec) = 2" by simp
  then have "\<exists>e0 e1. to_bytes_en Big ec = [e0, e1]"
    by (metis (no_types, opaque_lifting) One_nat_def Suc_1 length_0_conv length_Suc_conv)
  then obtain e0 e1 where e: "to_bytes_en Big ec = [e0, e1]" by blast
  define h where "h = [5, 4, f, 0xff, e0, e1, 0, 0] @ to_bytes_en Big s"
  have "to_bytes_en Big (0 :: u16) = [0, 0]" by (simp add: to_bytes_en_def)
  then have h: "wrap_header f ec 0 s = h" by (simp add: wrap_header_def TOK_ID_GSS_WRAP_def e h_def)
  have nth: "h ! (k + i) = h ! i" if "i < 3" for i
  proof -
    have "i < length (drop k h)" using that assms by (simp add: h_def)
    then have "(drop k h @ replicate k 0) ! i = h ! (k + i)" by (simp add: nth_append)
    with eq h show ?thesis by simp
  qed
  have f5: "f \<noteq> 5" "f \<noteq> 0" using assms(3) by auto
  have "k \<in> {1, 2, 3, 4, 5, 6, 7}" using assms(1,2) by auto
  then show False
    using nth [of 0] nth [of 1] nth [of 2] f5 by (elim insertE emptyE) (simp_all add: h_def)
qed

lemma des3_shift:
  assumes "0 < (length p + n) mod 8" and "length h = 16"
  defines "k \<equiv> 8 - (length p + n) mod 8"
  shows "zero_pad (p @ replicate n 0 @ h) 8 = p @ replicate n 0 @ h @ replicate k 0"
proof -
  have "(m + 16) mod 8 = m mod 8" for m :: nat by presburger
  then show ?thesis using assms(1,2) by (simp add: zero_pad_def Let_def k_def add.assoc [symmetric])
qed

text \<open>C33: A sealed wrap token can be opened by its receiver: encrypting a payload under any supported key,
  with any extra count, rotation count and sequence number, and decrypting it with the same
  key and usage returns the payload; except under DES3, where the zero padding of the cipher
  moves the embedded header unless payload and filler together fill whole blocks, and the
  token is refused with \<open>InvalidGssEncryptedHeader\<close>.\<close>

theorem wrap_seal_open:
  assumes P: "prims_ok P" and e: "ket_from_etype_id (kt_etype key) = Some e"
    and key: "length (kt_value key) = ket_key_len e" and conf: "length confounder = ket_confounder_len e"
    and t: "wrap_payload t = Some payload" "wrap_encrypted_body t = None"
  shows "\<exists>t'. wrap_encrypt_payload_with_confounder P t key usage confounder = (t', Inr ())
    \<and> wrap_is_sealed t'
    \<and> wrap_decrypt_payload P t' key usage =
       (if e = Des3CbcSha1Kd \<and> (length payload + unat (wrap_ec t)) mod 8 \<noteq> 0
        then Inl InvalidGssEncryptedHeader else Inr payload)"
proof -
  define t1 where "t1 = t\<lparr>wrap_flags := wrap_flags t OR 2\<rparr>"
  define n where "n = unat (wrap_ec t)"
  define h where "h = wrap_token_header t1 0"
  define plain where "plain = payload @ replicate n 0 @ h"
  obtain ct where enc: "ket_encrypt_message_with_confounder P e (kt_value key) plain usage confounder = Inr ct"
    and dec: "ket_decrypt_message P e (kt_value key) ct usage = Inr (ket_delivered e plain)"
    using ket.enc_dec [OF P key conf] by blast
  define t' where "t' = t1\<lparr>wrap_encrypted_body := Some (gss_rotate_right ct (unat (wrap_rrc t))), wrap_checksum := None\<rparr>"
  have encrypted: "wrap_encrypt_payload_with_confounder P t key usage confounder = (t', Inr ())"
    using t e enc by (simp add: wrap_encrypt_payload_with_confounder_def t'_def t1_def plain_def n_def h_def)
  have "(wrap_flags t OR 2) AND 2 = 2" by (simp add: bit_eq_iff bit_simps)
  then have sealed: "wrap_is_sealed t'" and flag: "wrap_flags t1 AND 2 \<noteq> 0"
    by (simp_all add: wrap_is_sealed_def t'_def t1_def)
  have h': "wrap_token_header t' 0 = h" "length h = 16" by (simp_all add: h_def t'_def wrap_token_header_def)
  have open_eq: "wrap_decrypt_payload P t' key usage =
      (let pt = ket_delivered e plain
       in if length pt < 16 + n then Inl (GssDecryptedTokenTooShort (16 + n) (length pt))
          else if drop (length pt - 16) pt \<noteq> h then Inl InvalidGssEncryptedHeader
          else Inr (take (length pt - (16 + n)) pt))"
    using sealed e dec h' by (simp add: wrap_decrypt_payload_def t'_def t1_def n_def Let_def)
  show ?thesis
  proof (cases "e = Des3CbcSha1Kd \<and> (length payload + n) mod 8 \<noteq> 0")
    case False
    have "ket_delivered e plain = plain"
    proof (cases "e = Des3CbcSha1Kd")
      case True
      with False have "8 dvd length plain" using h'(2) by (simp add: plain_def mod_eq_0_iff_dvd add.assoc [symmetric])
      with True show ?thesis by (simp add: zero_pad_id)
    qed (cases e; simp)
    then have "wrap_decrypt_payload P t' key usage = Inr payload"
      unfolding open_eq using h'(2) by (simp add: plain_def Let_def)
    with encrypted sealed False show ?thesis by (auto simp: n_def)
  next
    case True
    define k where "k = 8 - (length payload + n) mod 8"
    have k: "0 < k" "k < 8" using True mod_less_divisor [of 8 "length payload + n"] by (simp_all add: k_def)
    have d: "ket_delivered e plain = payload @ replicate n 0 @ h @ replicate k 0"
      using True des3_shift [of payload n h] h'(2) by (simp add: plain_def k_def)
    have tail: "drop (length (ket_delivered e plain) - 16) (ket_delivered e plain) = drop k h @ replicate k 0"
      unfolding d using h'(2) k by simp
    have "drop k h @ replicate k 0 \<noteq> h"
      using wrap_header_shifted [OF k flag] by (simp add: h_def wrap_token_header_def)
    then have "wrap_decrypt_payload P t' key usage = Inl InvalidGssEncryptedHeader"
      unfolding open_eq Let_def tail unfolding d using h'(2) by simp
    with encrypted sealed True show ?thesis by (auto simp: n_def)
  qed
qed

theorem wrap_seal_open_witness:
  "\<exists>t'. wrap_encrypt_payload_with_confounder sample_prims ((wrap_new 0 3)\<lparr>wrap_payload := Some [1]\<rparr>)
      \<lparr>kt_etype = 16, kt_value = replicate 24 3\<rparr> 24 (replicate 8 9) = (t', Inr ())
    \<and> wrap_decrypt_payload sample_prims t' \<lparr>kt_etype = 16, kt_value = replicate 24 3\<rparr> 24 = Inl InvalidGssEncryptedHeader"
proof -
  have e: "ket_from_etype_id (kt_etype \<lparr>kt_etype = 16, kt_value = replicate 24 3\<rparr>) = Some Des3CbcSha1Kd"
    by (simp add: ket_from_etype_id_def aes1_from_etype_id_def aes2_from_etype_id_def des3_from_etype_id_def or_else_def)
  show ?thesis
    using wrap_seal_open [OF sample_prims_ok e, of "replicate 8 9" "(wrap_new 0 3)\<lparr>wrap_payload := Some [1]\<rparr>" "[1]" 24]
    by (auto simp: ket_size_defs wrap_new_def)
qed

section \<open>Signed tokens\<close>

lemma mic_header_parts:
  "take 2 (mic_checksum_header t @ xs) = TOK_ID_GSS_MIC"
  "(mic_checksum_header t @ xs) ! 2 = mic_flags t"
  "slice (mic_checksum_header t @ xs) 3 8 = GSS_MIC_FILLER"
  "slice (mic_checksum_header t @ xs) 8 16 = to_bytes_en Big (mic_snd_seq_num t)"
  "length (mic_checksum_header t) = 16"
  by (simp_all add: mic_checksum_header_def TOK_ID_GSS_MIC_def GSS_MIC_FILLER_def slice_def)

lemma mic_decode_encoded:
  "mic_decode (mic_checksum_header t @ c) (from_acceptor (mic_flags t))
     = Inr (t\<lparr>mic_payload := None, mic_checksum := Some c\<rparr>)"
  unfolding mic_decode_def mic_header_parts length_append
  by (simp add: validate_gss_token_id_def validate_gss_sender_def from_acceptor_def mic_header_parts)

text \<open>A signed message arrives: under a supported key of the right size \<open>MicToken::new_initiator\<close> signs
  every payload; the receiver decodes the token, attaches the payload and the checksum
  verifies.  With any other checksum, of whatever length, or a token announced as coming from
  the acceptor, it does not.\<close>

lemma mic_sign_verify:
  assumes P: "prims_ok P" and e: "ket_from_etype_id (kt_etype key) = Some e"
    and key: "length (kt_value key) = ket_key_len e"
  shows "\<exists>t bs t'. mic_new_initiator P payload key = Inr t \<and> mic_encode t = Inr bs
    \<and> mic_decode bs False = Inr t' \<and> mic_verify P (mic_with_payload t' payload) key 25 = Inr True
    \<and> {c. mic_verify P ((mic_with_payload t' payload)\<lparr>mic_checksum := Some c\<rparr>) key 25 = Inr True} = {the (mic_checksum t)}
    \<and> mic_decode bs True = Inl (UnexpectedGssTokenSender True False)"
proof -
  define t0 where "t0 = \<lparr>mic_flags = 0, mic_snd_seq_num = 0, mic_payload = Some payload, mic_checksum = None\<rparr>"
  define data where "data = payload @ mic_checksum_header t0"
  obtain c where c: "ket_checksum P e (kt_value key) data 25 = Inr c"
    using ket_checksum_ok [OF P key] by blast
  define t where "t = t0\<lparr>mic_checksum := Some c\<rparr>"
  have comp: "mic_compute_checksum P (t0\<lparr>mic_checksum := x\<rparr>) key 25 = Inr c" for x
    using e c by (simp add: mic_compute_checksum_def t0_def data_def mic_checksum_header_def)
  have new: "mic_new_initiator P payload key = Inr t"
    using comp [of None] by (simp add: mic_new_initiator_def mic_set_checksum_def t0_def t_def)
  have hdr: "mic_checksum_header t = mic_checksum_header t0" by (simp add: mic_checksum_header_def t_def)
  have enc: "mic_encode t = Inr (mic_checksum_header t @ c)" by (simp add: mic_encode_def t_def)
  have dec: "mic_decode (mic_checksum_header t @ c) False = Inr (t\<lparr>mic_payload := None, mic_checksum := Some c\<rparr>)"
    using mic_decode_encoded [of t c] by (simp add: from_acceptor_def t_def t0_def)
  have restored: "mic_with_payload (t\<lparr>mic_payload := None, mic_checksum := Some c\<rparr>) payload = t0\<lparr>mic_checksum := Some c\<rparr>"
    by (simp add: mic_with_payload_def t_def t0_def)
  have ver: "mic_verify P (t0\<lparr>mic_checksum := Some x\<rparr>) key 25 = (if x = c then Inr True else Inl GssChecksumMismatch)" for x
    by (simp add: mic_verify_def comp)
  have bad: "mic_decode (mic_checksum_header t @ c) True = Inl (UnexpectedGssTokenSender True False)"
    unfolding mic_decode_def mic_header_parts length_append
    by (simp add: validate_gss_token_id_def validate_gss_sender_def t_def t0_def mic_header_parts)
  have "{x. mic_verify P ((t0\<lparr>mic_checksum := Some c\<rparr>)\<lparr>mic_checksum := Some x\<rparr>) key 25 = Inr True} = {the (mic_checksum t)}"
    using ver by (auto simp: t_def)
  with new enc dec bad ver [of c] show ?thesis
    by (rule_tac x = t in exI, rule_tac x = "mic_checksum_header t @ c" in exI,
        rule_tac x = "t\<lparr>mic_payload := None, mic_checksum := Some c\<rparr>" in exI)
      (simp only: restored simp_thms if_True)
qed

lemma mic_sign_verify_witness:
  "\<exists>t bs t'. mic_new_initiator sample_prims [1, 2] \<lparr>kt_etype = 23, kt_value = replicate 16 3\<rparr> = Inr t
    \<and> mic_encode t = Inr bs \<and> mic_decode bs False = Inr t'
    \<and> mic_verify sample_prims (mic_with_payload t' [1, 2]) \<lparr>kt_etype = 23, kt_value = replicate 16 3\<rparr> 25 = Inr True"
proof -
  have e: "ket_from_etype_id (kt_etype \<lparr>kt_etype = 23, kt_value = replicate 16 3\<rparr>) = Some Rc4Hmac"
    by (simp add: ket_from_etype_id_def aes1_from_etype_id_def aes2_from_etype_id_def des3_from_etype_id_def
        rc4_from_etype_id_def or_else_def)
  show ?thesis
    using mic_sign_verify [OF sample_prims_ok e, of "[1, 2]"] by (auto simp: ket_size_defs)
qed

end
