(* ===== verification/Krb_Time.thy ===== *)
theory Krb_Time
  imports Krb_Prelude
begin

text \<open>
  Times as the modules use them.  A \<open>SystemTime\<close> is the integer number of nanoseconds since
  the Unix epoch, a \<open>Duration\<close> the natural number of nanoseconds; \<open>checked_add\<close> and \<open>checked_sub\<close> fail
  outside the range of a 64-bit count of seconds, \<open>duration_since\<close> fails when the other time is later.
  A \<open>KerberosTime\<close> wraps a \<open>chrono\<close> date of which the code only uses the count of
  seconds and the nanoseconds within the second.
\<close>

type_synonym system_time = int
type_synonym duration = nat

definition NANOS :: int where
  "NANOS = 1000000000"

definition system_time_in_range :: "int \<Rightarrow> bool" where
  "system_time_in_range t \<longleftrightarrow> - (2 ^ 63) * NANOS \<le> t \<and> t < 2 ^ 63 * NANOS"

definition st_checked_add :: "system_time \<Rightarrow> duration \<Rightarrow> system_time option" where
  "st_checked_add t d = (if system_time_in_range (t + int d) then Some (t + int d) else None)"

definition st_checked_sub :: "system_time \<Rightarrow> duration \<Rightarrow> system_time option" where
  "st_checked_sub t d = (if system_time_in_range (t - int d) then Some (t - int d) else None)"

definition duration_since :: "system_time \<Rightarrow> system_time \<Rightarrow> duration option" where
  "duration_since t earlier = (if earlier \<le> t then Some (nat (t - earlier)) else None)"

definition from_micros :: "nat \<Rightarrow> duration" where
  "from_micros n = n * 1000"

definition from_secs :: "nat \<Rightarrow> duration" where
  "from_secs n = n * 1000000000"

record kerberos_time =
  kt_seconds :: int
  kt_subsec_nanos :: nat

text \<open>\<open>Integer::to_string().parse::<u32>()\<close>.\<close>

definition int_parse_u32 :: "int \<Rightarrow> u32 option" where
  "int_parse_u32 v = (if 0 \<le> v \<and> v < 2 ^ 32 then Some (word_of_int v) else None)"

lemma duration_since_Some: "duration_since t e = Some d \<longleftrightarrow> e \<le> t \<and> int d = t - e"
  by (auto simp: duration_since_def)

lemma int_parse_u32_of_u32 [simp]: "int_parse_u32 (uint (w :: u32)) = Some w"
  using unsigned_less [of w] by (simp add: int_parse_u32_def)

section \<open>Decimal and hexadecimal text\<close>

text \<open>\<open>Display\<close> of an unsigned integer.\<close>

fun dec_str :: "nat \<Rightarrow> string" where
  "dec_str n = (if n < 10 then [char_of (48 + n)] else dec_str (n div 10) @ [char_of (48 + n mod 10)])"

declare dec_str.simps [simp del]

text \<open>The number a decimal digit string denotes.\<close>

definition dec_val :: "string \<Rightarrow> nat" where
  "dec_val s = foldl (\<lambda>v c. v * 10 + (of_char c - 48)) 0 s"

lemma of_char_digit: "d < (10 :: nat) \<Longrightarrow> of_char (char_of (48 + d) :: char) = 48 + d"
  by (simp add: of_char_of take_bit_nat_eq_self)

lemma dec_val_dec_str [simp]: "dec_val (dec_str n) = n"
proof (induction n rule: dec_str.induct)
  case (1 n)
  show ?case
  proof (cases "n < 10")
    case True
    then show ?thesis by (subst dec_str.simps) (simp add: dec_val_def of_char_digit)
  next
    case False
    then have "dec_val (dec_str n) = dec_val (dec_str (n div 10)) * 10 + n mod 10"
      by (subst dec_str.simps) (simp add: dec_val_def of_char_digit)
    then show ?thesis using "1.IH" [OF False] by simp
  qed
qed

lemma dec_str_inject [simp]: "dec_str m = dec_str n \<longleftrightarrow> m = n"
  by (metis dec_val_dec_str)

lemma dec_str_digits: "c \<in> set (dec_str n) \<Longrightarrow> 48 \<le> (of_char c :: nat) \<and> (of_char c :: nat) \<le> 57"
proof (induction n rule: dec_str.induct)
  case (1 n)
  have d: "of_char (char_of (48 + n mod 10) :: char) = 48 + n mod 10" by (rule of_char_digit) simp
  show ?case
  proof (cases "n < 10")
    case True
    then have "c = char_of (48 + n)" using "1.prems" by (subst (asm) dec_str.simps) simp
    then show ?thesis using True by (simp add: of_char_digit)
  next
    case False
    then have "c \<in> set (dec_str (n div 10)) \<or> c = char_of (48 + n mod 10)"
      using "1.prems" by (subst (asm) dec_str.simps) auto
    then show ?thesis using "1.IH" [OF False] d by auto
  qed
qed

end
