(* ===== verification/Krb_Messages.thy ===== *)
theory Krb_Messages
  imports Krb_Time Keytab
begin

text \<open>
  The protocol messages the modules exchange.  The message types belong to the crate
  \<open>rasn_kerberos\<close>; the records here hold the components the source reads and writes.  An ASN.1
  \<open>INTEGER\<close> is an \<^typ>\<open>int\<close>, a \<open>KerberosString\<close> its bytes, a bit string a list of booleans.  The DER codec and
  the calendar are crates outside the repository: they are the fields of the parameter \<open>A\<close>
  of type \<open>asn1\<close>, and \<open>asn1_ok\<close> names what is relied on.
\<close>

record encrypted_data =
  ed_etype :: i32
  ed_kvno :: "u32 option"
  ed_cipher :: bytes

record principal_name =
  pn_type :: i32
  pn_string :: "bytes list"

record rasn_key =
  rk_type :: i32
  rk_value :: bytes

record ad_entry =
  ad_type :: i32
  ad_data :: bytes

record rasn_checksum =
  ck_type :: i32
  ck_checksum :: bytes

record rasn_address =
  ra_addr_type :: i32
  ra_address :: bytes

record ticket =
  tkt_vno :: int
  tkt_realm :: bytes
  tkt_sname :: principal_name
  tkt_enc_part :: encrypted_data

record enc_ticket_part =
  et_flags :: "bool list"
  et_key :: rasn_key
  et_crealm :: bytes
  et_cname :: principal_name
  et_auth_time :: kerberos_time
  et_start_time :: "kerberos_time option"
  et_end_time :: kerberos_time
  et_renew_till :: "kerberos_time option"
  et_caddr :: "rasn_address list option"
  et_authorization_data :: "ad_entry list option"

record authenticator =
  au_vno :: int
  au_crealm :: bytes
  au_cname :: principal_name
  au_cksum :: "rasn_checksum option"
  au_cusec :: int
  au_ctime :: kerberos_time
  au_subkey :: "rasn_key option"
  au_seq_number :: "u32 option"
  au_authorization_data :: "ad_entry list option"

record ap_req =
  ar_pvno :: int
  ar_msg_type :: int
  ar_ap_options :: "bool list"
  ar_ticket :: ticket
  ar_authenticator :: encrypted_data

record ap_rep =
  ap_pvno :: int
  ap_msg_type :: int
  ap_enc_part :: encrypted_data

record enc_ap_rep_part =
  ep_ctime :: kerberos_time
  ep_cusec :: int
  ep_subkey :: "rasn_key option"
  ep_seq_number :: "u32 option"

section \<open>The codec\<close>

record asn1 =
  dec_ticket :: "bytes \<Rightarrow> ticket option"
  enc_ticket :: "ticket \<Rightarrow> bytes option"
  dec_enc_ticket_part :: "bytes \<Rightarrow> enc_ticket_part option"
  enc_enc_ticket_part :: "enc_ticket_part \<Rightarrow> bytes option"
  dec_authenticator :: "bytes \<Rightarrow> authenticator option"
  enc_authenticator :: "authenticator \<Rightarrow> bytes option"
  dec_ap_req :: "bytes \<Rightarrow> ap_req option"
  enc_ap_req :: "ap_req \<Rightarrow> bytes option"
  dec_ap_rep :: "bytes \<Rightarrow> ap_rep option"
  enc_ap_rep :: "ap_rep \<Rightarrow> bytes option"
  dec_enc_ap_rep_part :: "bytes \<Rightarrow> enc_ap_rep_part option"
  enc_enc_ap_rep_part :: "enc_ap_rep_part \<Rightarrow> bytes option"
  dec_authorization_data :: "bytes \<Rightarrow> ad_entry list option"
  from_timestamp :: "int \<Rightarrow> nat \<Rightarrow> kerberos_time option"
  general_string :: "bytes \<Rightarrow> bool"

section \<open>Zero padding behind a DER value\<close>

text \<open>\<open>src/der.rs\<close>: where the first value of a buffer ends, and cutting zero bytes behind it (the block
  padding of triple-DES).  An index out of range gives \<open>None\<close> as \<open>get(..)?\<close> does.\<close>

definition byte_at :: "bytes \<Rightarrow> nat \<Rightarrow> u8 option" where
  "byte_at bs i = (if i < length bs then Some (bs ! i) else None)"

unbundle bit_operations_syntax

text \<open>The loop over the bytes of a high tag number: the offset behind the first byte without the
  continuation bit.\<close>

function skip_high_tag :: "bytes \<Rightarrow> nat \<Rightarrow> nat option" where
  "skip_high_tag bs offset =
     (if offset < length bs
      then if bs ! offset AND 0x80 = 0 then Some (offset + 1) else skip_high_tag bs (offset + 1)
      else None)"
  by pat_completeness auto
termination
  by (relation "measure (\<lambda>(bs, offset). length bs - offset)") auto

declare skip_high_tag.simps [simp del]

definition der_length_at :: "bytes \<Rightarrow> nat \<Rightarrow> (nat \<times> nat) option" where
  "der_length_at bs offset =
     Option.bind (byte_at bs offset) (\<lambda>first_len.
       let offset = offset + 1 in
       if first_len AND 0x80 = 0 then Some (unat first_len, offset)
       else let count = unat (first_len AND 0x7f) in
         if count = 0 \<or> count > 8 then None
         else Option.bind (usize_checked_add offset count) (\<lambda>end.
           if end > length bs then None
           else Some (be_nat (slice bs offset end), offset + count)))"

definition top_level_der_end :: "bytes \<Rightarrow> nat option" where
  "top_level_der_end bs =
     (if bs = [] then None
      else Option.bind (if bs ! 0 AND 0x1f = 0x1f then skip_high_tag bs 1 else Some 1) (\<lambda>offset.
        Option.bind (der_length_at bs offset) (\<lambda>(len, offset).
        Option.bind (usize_checked_add offset len) (\<lambda>end.
          if end \<le> length bs then Some end else None))))"

definition trim_zero_padded_der :: "bytes \<Rightarrow> bytes" where
  "trim_zero_padded_der bs =
     (case top_level_der_end bs of
        None \<Rightarrow> bs
      | Some end \<Rightarrow> if list_all (\<lambda>b. b = 0) (drop end bs) then take end bs else bs)"

section \<open>Laws of the codec\<close>

text \<open>
  What is relied on of \<open>rasn::der\<close>: decoding inverts encoding (for the time stamps the code
  produces, which have no fraction of a second), an encoded message is one DER value, and the parts of
  a decoded sequence are shorter than its encoding.  \<open>chrono\<close> keeps the count of seconds it was built from.
\<close>

definition whole_seconds :: "kerberos_time \<Rightarrow> bool" where
  "whole_seconds t \<longleftrightarrow> kt_subsec_nanos t = 0"

definition asn1_ok :: "asn1 \<Rightarrow> bool" where
  "asn1_ok A \<longleftrightarrow>
     (\<forall>t bs. enc_ticket A t = Some bs \<longrightarrow> dec_ticket A bs = Some t)
   \<and> (\<forall>t bs. enc_enc_ticket_part A t = Some bs \<and> whole_seconds (et_auth_time t) \<and> whole_seconds (et_end_time t)
        \<and> pred_option whole_seconds (et_start_time t) \<and> pred_option whole_seconds (et_renew_till t)
        \<longrightarrow> dec_enc_ticket_part A bs = Some t \<and> top_level_der_end bs = Some (length bs))
   \<and> (\<forall>t bs. enc_authenticator A t = Some bs \<and> whole_seconds (au_ctime t)
        \<longrightarrow> dec_authenticator A bs = Some t \<and> top_level_der_end bs = Some (length bs))
   \<and> (\<forall>t bs. enc_ap_req A t = Some bs \<longrightarrow> dec_ap_req A bs = Some t \<and> bs \<noteq> [])
   \<and> (\<forall>t bs. enc_ap_rep A t = Some bs \<longrightarrow> dec_ap_rep A bs = Some t \<and> bs \<noteq> [])
   \<and> (\<forall>t bs. enc_enc_ap_rep_part A t = Some bs \<and> whole_seconds (ep_ctime t)
        \<longrightarrow> dec_enc_ap_rep_part A bs = Some t)
   \<and> (\<forall>s n t. from_timestamp A s n = Some t \<longrightarrow> kt_seconds t = s \<and> kt_subsec_nanos t = n)"

definition ad_size :: "ad_entry list \<Rightarrow> nat" where
  "ad_size es = sum_list (map (\<lambda>e. length (ad_data e)) es)"

definition ad_decoder_shrinks :: "(bytes \<Rightarrow> ad_entry list option) \<Rightarrow> bool" where
  "ad_decoder_shrinks dec \<longleftrightarrow> (\<forall>bs es. dec bs = Some es \<longrightarrow> es = [] \<or> ad_size es < length bs)"

section \<open>Lemmas\<close>

lemma trim_zero_padded_der_exact:
  assumes "top_level_der_end bs = Some (length bs)"
  shows "trim_zero_padded_der bs = bs"
  using assms by (simp add: trim_zero_padded_der_def)

end
