(* ===== verification/Ap_Exchange.thy ===== *)
theory Ap_Exchange
  imports Krb_Messages Etype_Props
begin

text \<open>
  \<open>src/ticket.rs\<close>, \<open>src/ap_req.rs\<close> and \<open>src/ap_rep.rs\<close>: decoding, checking, decrypting and building
  tickets, AP-REQ and AP-REP messages, and the client's AP-REQ of \<open>src/client.rs\<close>.  Random
  bytes are the parameter \<open>fill\<close>.  The lemmas show that each part that is built is opened again with the same key.
\<close>

unbundle bit_operations_syntax

section \<open>Errors\<close>

text \<open>The three modules have an error type of the same shape.\<close>

datatype message_error =
    MsgDecode string
  | MsgEncode string
  | MsgInvalidMessage string int int \<comment> \<open>field, expected, actual\<close>
  | MsgUnsupportedEtype i32
  | MsgKeyEtypeMismatch i32 i32 \<comment> \<open>of the key, of the encrypted data\<close>
  | MsgRandom
  | MsgCrypto crypto_error

definition validate_integer :: "string \<Rightarrow> int \<Rightarrow> int \<Rightarrow> message_error + unit" where
  "validate_integer field actual expected =
     (if actual \<noteq> expected then Inl (MsgInvalidMessage field expected actual) else Inr ())"

definition etype_of_key :: "kt_key \<Rightarrow> message_error + kerberos_etype" where
  "etype_of_key key = ok_or (ket_from_etype_id (kt_etype key)) (MsgUnsupportedEtype (kt_etype key))"

definition random_confounder :: "(nat \<Rightarrow> bytes option) \<Rightarrow> kt_key \<Rightarrow> message_error + bytes" where
  "random_confounder fill key =
     rbind (etype_of_key key) (\<lambda>etype. ok_or (fill (ket_confounder_len etype)) MsgRandom)"

section \<open>Tickets\<close>

definition KRB5_TKT_VNO :: int where
  "KRB5_TKT_VNO = 5"

definition validate_ticket :: "ticket \<Rightarrow> message_error + unit" where
  "validate_ticket t = validate_integer ''tkt-vno'' (tkt_vno t) KRB5_TKT_VNO"

definition decode_ticket :: "asn1 \<Rightarrow> bytes \<Rightarrow> message_error + ticket" where
  "decode_ticket A bs =
     rbind (ok_or (dec_ticket A bs) (MsgDecode ''Ticket'')) (\<lambda>t. rbind (validate_ticket t) (\<lambda>_. Inr t))"

definition encode_ticket :: "asn1 \<Rightarrow> ticket \<Rightarrow> message_error + bytes" where
  "encode_ticket A t = ok_or (enc_ticket A t) (MsgEncode ''Ticket'')"

definition decode_enc_ticket_part :: "asn1 \<Rightarrow> bytes \<Rightarrow> message_error + enc_ticket_part" where
  "decode_enc_ticket_part A bs = ok_or (dec_enc_ticket_part A bs) (MsgDecode ''EncTicketPart'')"

definition decrypt_ticket_enc_part :: "asn1 \<Rightarrow> crypto_prims \<Rightarrow> ticket \<Rightarrow> kt_key \<Rightarrow> message_error + enc_ticket_part" where
  "decrypt_ticket_enc_part A P t key =
     (if kt_etype key \<noteq> ed_etype (tkt_enc_part t)
      then Inl (MsgKeyEtypeMismatch (kt_etype key) (ed_etype (tkt_enc_part t)))
      else rbind (etype_of_key key) (\<lambda>etype.
        rbind (map_err MsgCrypto (ket_decrypt_message P etype (kt_value key) (ed_cipher (tkt_enc_part t)) 2)) (\<lambda>plaintext.
          decode_enc_ticket_part A (trim_zero_padded_der plaintext))))"

definition build_ticket_with_confounder ::
  "asn1 \<Rightarrow> crypto_prims \<Rightarrow> bytes \<Rightarrow> principal_name \<Rightarrow> enc_ticket_part \<Rightarrow> kt_key \<Rightarrow> u32 option \<Rightarrow> bytes \<Rightarrow> message_error + ticket" where
  "build_ticket_with_confounder A P realm sname enc_part key kvno confounder =
     rbind (ok_or (enc_enc_ticket_part A enc_part) (MsgEncode ''EncTicketPart'')) (\<lambda>plaintext.
     rbind (etype_of_key key) (\<lambda>etype.
     rbind (map_err MsgCrypto (ket_encrypt_message_with_confounder P etype (kt_value key) plaintext 2 confounder)) (\<lambda>cipher.
       Inr \<lparr>tkt_vno = KRB5_TKT_VNO, tkt_realm = realm, tkt_sname = sname,
            tkt_enc_part = \<lparr>ed_etype = kt_etype key, ed_kvno = kvno, ed_cipher = cipher\<rparr>\<rparr>)))"

definition build_ticket ::
  "asn1 \<Rightarrow> crypto_prims \<Rightarrow> (nat \<Rightarrow> bytes option) \<Rightarrow> bytes \<Rightarrow> principal_name \<Rightarrow> enc_ticket_part \<Rightarrow> kt_key \<Rightarrow> u32 option \<Rightarrow> message_error + ticket" where
  "build_ticket A P fill realm sname enc_part key kvno =
     rbind (random_confounder fill key) (\<lambda>confounder. build_ticket_with_confounder A P realm sname enc_part key kvno confounder)"

definition encode_build_ticket_with_confounder ::
  "asn1 \<Rightarrow> crypto_prims \<Rightarrow> bytes \<Rightarrow> principal_name \<Rightarrow> enc_ticket_part \<Rightarrow> kt_key \<Rightarrow> u32 option \<Rightarrow> bytes \<Rightarrow> message_error + bytes" where
  "encode_build_ticket_with_confounder A P realm sname enc_part key kvno confounder =
     rbind (build_ticket_with_confounder A P realm sname enc_part key kvno confounder) (encode_ticket A)"

definition encode_build_ticket ::
  "asn1 \<Rightarrow> crypto_prims \<Rightarrow> (nat \<Rightarrow> bytes option) \<Rightarrow> bytes \<Rightarrow> principal_name \<Rightarrow> enc_ticket_part \<Rightarrow> kt_key \<Rightarrow> u32 option \<Rightarrow> message_error + bytes" where
  "encode_build_ticket A P fill realm sname enc_part key kvno =
     rbind (build_ticket A P fill realm sname enc_part key kvno) (encode_ticket A)"

section \<open>AP-REQ\<close>

definition KRB5_PVNO :: int where
  "KRB5_PVNO = 5"

definition KRB_AP_REQ_MSG_TYPE :: int where
  "KRB_AP_REQ_MSG_TYPE = 14"

definition ap_req_validate :: "ap_req \<Rightarrow> message_error + unit" where
  "ap_req_validate m =
     rbind (validate_integer ''pvno'' (ar_pvno m) KRB5_PVNO) (\<lambda>_.
       validate_integer ''msg-type'' (ar_msg_type m) KRB_AP_REQ_MSG_TYPE)"

definition decode_ap_req :: "asn1 \<Rightarrow> bytes \<Rightarrow> message_error + ap_req" where
  "decode_ap_req A bs =
     rbind (ok_or (dec_ap_req A bs) (MsgDecode ''AP-REQ'')) (\<lambda>m. rbind (ap_req_validate m) (\<lambda>_. Inr m))"

definition encode_ap_req :: "asn1 \<Rightarrow> ap_req \<Rightarrow> message_error + bytes" where
  "encode_ap_req A m = ok_or (enc_ap_req A m) (MsgEncode ''AP-REQ'')"

definition decode_authenticator :: "asn1 \<Rightarrow> bytes \<Rightarrow> message_error + authenticator" where
  "decode_authenticator A bs = ok_or (dec_authenticator A bs) (MsgDecode ''Authenticator'')"

definition encode_authenticator :: "asn1 \<Rightarrow> authenticator \<Rightarrow> message_error + bytes" where
  "encode_authenticator A a = ok_or (enc_authenticator A a) (MsgEncode ''Authenticator'')"

definition decrypt_ap_req_authenticator ::
  "asn1 \<Rightarrow> crypto_prims \<Rightarrow> ap_req \<Rightarrow> kt_key \<Rightarrow> u32 \<Rightarrow> message_error + authenticator" where
  "decrypt_ap_req_authenticator A P m key usage =
     (if kt_etype key \<noteq> ed_etype (ar_authenticator m)
      then Inl (MsgKeyEtypeMismatch (kt_etype key) (ed_etype (ar_authenticator m)))
      else rbind (etype_of_key key) (\<lambda>etype.
        rbind (map_err MsgCrypto (ket_decrypt_message P etype (kt_value key) (ed_cipher (ar_authenticator m)) usage)) (\<lambda>plaintext.
          decode_authenticator A (trim_zero_padded_der plaintext))))"

definition authenticator_usage_for_ticket :: "ticket \<Rightarrow> u32" where
  "authenticator_usage_for_ticket t =
     (case pn_string (tkt_sname t) of
        component # _ \<Rightarrow> if component = str_bytes ''krbtgt'' then 7 else 11
      | [] \<Rightarrow> 11)"

definition ap_options_from_bits :: "u32 \<Rightarrow> bool list" where
  "ap_options_from_bits bits = map (\<lambda>i. bit bits (31 - i)) [0..<32]"

definition build_ap_req_with_confounder ::
  "asn1 \<Rightarrow> crypto_prims \<Rightarrow> ticket \<Rightarrow> bool list \<Rightarrow> authenticator \<Rightarrow> kt_key \<Rightarrow> u32 \<Rightarrow> u32 option \<Rightarrow> bytes \<Rightarrow> message_error + ap_req" where
  "build_ap_req_with_confounder A P t ap_options auth key usage kvno confounder =
     rbind (encode_authenticator A auth) (\<lambda>plaintext.
     rbind (etype_of_key key) (\<lambda>etype.
     rbind (map_err MsgCrypto (ket_encrypt_message_with_confounder P etype (kt_value key) plaintext usage confounder)) (\<lambda>cipher.
       Inr \<lparr>ar_pvno = KRB5_PVNO, ar_msg_type = KRB_AP_REQ_MSG_TYPE, ar_ap_options = ap_options, ar_ticket = t,
            ar_authenticator = \<lparr>ed_etype = kt_etype key, ed_kvno = kvno, ed_cipher = cipher\<rparr>\<rparr>)))"

definition build_ap_req ::
  "asn1 \<Rightarrow> crypto_prims \<Rightarrow> (nat \<Rightarrow> bytes option) \<Rightarrow> ticket \<Rightarrow> bool list \<Rightarrow> authenticator \<Rightarrow> kt_key \<Rightarrow> u32 \<Rightarrow> u32 option \<Rightarrow> message_error + ap_req" where
  "build_ap_req A P fill t ap_options auth key usage kvno =
     rbind (random_confounder fill key) (\<lambda>confounder. build_ap_req_with_confounder A P t ap_options auth key usage kvno confounder)"

definition encode_build_ap_req_with_confounder ::
  "asn1 \<Rightarrow> crypto_prims \<Rightarrow> ticket \<Rightarrow> bool list \<Rightarrow> authenticator \<Rightarrow> kt_key \<Rightarrow> u32 \<Rightarrow> u32 option \<Rightarrow> bytes \<Rightarrow> message_error + bytes" where
  "encode_build_ap_req_with_confounder A P t ap_options auth key usage kvno confounder =
     rbind (build_ap_req_with_confounder A P t ap_options auth key usage kvno confounder) (encode_ap_req A)"

definition encode_build_ap_req ::
  "asn1 \<Rightarrow> crypto_prims \<Rightarrow> (nat \<Rightarrow> bytes option) \<Rightarrow> ticket \<Rightarrow> bool list \<Rightarrow> authenticator \<Rightarrow> kt_key \<Rightarrow> u32 \<Rightarrow> u32 option \<Rightarrow> message_error + bytes" where
  "encode_build_ap_req A P fill t ap_options auth key usage kvno =
     rbind (build_ap_req A P fill t ap_options auth key usage kvno) (encode_ap_req A)"

section \<open>AP-REP\<close>

definition KRB_AP_REP_MSG_TYPE :: int where
  "KRB_AP_REP_MSG_TYPE = 15"

definition validate_ap_rep :: "ap_rep \<Rightarrow> message_error + unit" where
  "validate_ap_rep m =
     rbind (validate_integer ''pvno'' (ap_pvno m) KRB5_PVNO) (\<lambda>_.
       validate_integer ''msg-type'' (ap_msg_type m) KRB_AP_REP_MSG_TYPE)"

definition decode_ap_rep :: "asn1 \<Rightarrow> bytes \<Rightarrow> message_error + ap_rep" where
  "decode_ap_rep A bs =
     rbind (ok_or (dec_ap_rep A bs) (MsgDecode ''AP-REP'')) (\<lambda>m. rbind (validate_ap_rep m) (\<lambda>_. Inr m))"

definition encode_ap_rep :: "asn1 \<Rightarrow> ap_rep \<Rightarrow> message_error + bytes" where
  "encode_ap_rep A m = ok_or (enc_ap_rep A m) (MsgEncode ''AP-REP'')"

definition decode_enc_ap_rep_part :: "asn1 \<Rightarrow> bytes \<Rightarrow> message_error + enc_ap_rep_part" where
  "decode_enc_ap_rep_part A bs = ok_or (dec_enc_ap_rep_part A bs) (MsgDecode ''EncApRepPart'')"

definition decrypt_ap_rep_enc_part :: "asn1 \<Rightarrow> crypto_prims \<Rightarrow> ap_rep \<Rightarrow> kt_key \<Rightarrow> message_error + enc_ap_rep_part" where
  "decrypt_ap_rep_enc_part A P m key =
     (if kt_etype key \<noteq> ed_etype (ap_enc_part m)
      then Inl (MsgKeyEtypeMismatch (kt_etype key) (ed_etype (ap_enc_part m)))
      else rbind (etype_of_key key) (\<lambda>etype.
        rbind (map_err MsgCrypto (ket_decrypt_message P etype (kt_value key) (ed_cipher (ap_enc_part m)) 12)) (\<lambda>plaintext.
          decode_enc_ap_rep_part A plaintext)))"

definition build_ap_rep_with_confounder ::
  "asn1 \<Rightarrow> crypto_prims \<Rightarrow> enc_ap_rep_part \<Rightarrow> kt_key \<Rightarrow> u32 option \<Rightarrow> bytes \<Rightarrow> message_error + ap_rep" where
  "build_ap_rep_with_confounder A P enc_part key kvno confounder =
     rbind (ok_or (enc_enc_ap_rep_part A enc_part) (MsgEncode ''EncApRepPart'')) (\<lambda>plaintext.
     rbind (etype_of_key key) (\<lambda>etype.
     rbind (map_err MsgCrypto (ket_encrypt_message_with_confounder P etype (kt_value key) plaintext 12 confounder)) (\<lambda>cipher.
       Inr \<lparr>ap_pvno = KRB5_PVNO, ap_msg_type = KRB_AP_REP_MSG_TYPE,
            ap_enc_part = \<lparr>ed_etype = kt_etype key, ed_kvno = kvno, ed_cipher = cipher\<rparr>\<rparr>)))"

definition build_ap_rep ::
  "asn1 \<Rightarrow> crypto_prims \<Rightarrow> (nat \<Rightarrow> bytes option) \<Rightarrow> enc_ap_rep_part \<Rightarrow> kt_key \<Rightarrow> u32 option \<Rightarrow> message_error + ap_rep" where
  "build_ap_rep A P fill enc_part key kvno =
     rbind (random_confounder fill key) (\<lambda>confounder. build_ap_rep_with_confounder A P enc_part key kvno confounder)"

definition encode_build_ap_rep_with_confounder ::
  "asn1 \<Rightarrow> crypto_prims \<Rightarrow> enc_ap_rep_part \<Rightarrow> kt_key \<Rightarrow> u32 option \<Rightarrow> bytes \<Rightarrow> message_error + bytes" where
  "encode_build_ap_rep_with_confounder A P enc_part key kvno confounder =
     rbind (build_ap_rep_with_confounder A P enc_part key kvno confounder) (encode_ap_rep A)"

definition encode_build_ap_rep ::
  "asn1 \<Rightarrow> crypto_prims \<Rightarrow> (nat \<Rightarrow> bytes option) \<Rightarrow> enc_ap_rep_part \<Rightarrow> kt_key \<Rightarrow> u32 option \<Rightarrow> message_error + bytes" where
  "encode_build_ap_rep A P fill enc_part key kvno =
     rbind (build_ap_rep A P fill enc_part key kvno) (encode_ap_rep A)"

section \<open>Padding behind a value\<close>

lemma skip_high_tag_append:
  "skip_high_tag bs k = Some n \<Longrightarrow> skip_high_tag (bs @ zs) k = Some n"
proof (induction bs k rule: skip_high_tag.induct)
  case (1 bs offset)
  have off: "offset < length bs" using "1.prems" by (simp add: skip_high_tag.simps [of bs offset] split: if_splits)
  then have at: "(bs @ zs) ! offset = bs ! offset" "offset < length (bs @ zs)" by (simp_all add: nth_append)
  show ?case
  proof (cases "bs ! offset AND 0x80 = 0")
    case True
    then show ?thesis using "1.prems" off at by (simp add: skip_high_tag.simps [of bs offset] skip_high_tag.simps [of "bs @ zs" offset])
  next
    case False
    then show ?thesis using "1.prems" "1.IH" off at
      by (simp add: skip_high_tag.simps [of bs offset] skip_high_tag.simps [of "bs @ zs" offset])
  qed
qed

lemma der_length_at_append:
  assumes "der_length_at bs k = Some x"
  shows "der_length_at (bs @ zs) k = Some x"
proof -
  have k: "k < length bs" using assms by (auto simp: der_length_at_def byte_at_def split: if_splits)
  define b where "b = bs ! k"
  define n where "n = unat (b AND 0x7f)"
  have at: "byte_at bs k = Some b" "byte_at (bs @ zs) k = Some b" using k by (simp_all add: byte_at_def b_def nth_append)
  show ?thesis
  proof (cases "b AND 0x80 = 0")
    case True
    then show ?thesis using assms at by (simp add: der_length_at_def)
  next
    case False
    have long: "der_length_at xs k = (if n = 0 \<or> n > 8 then None
        else Option.bind (usize_checked_add (k + 1) n) (\<lambda>end.
          if end > length xs then None else Some (be_nat (slice xs (k + 1) end), k + 1 + n)))"
      if "byte_at xs k = Some b" for xs
      unfolding der_length_at_def that Let_def n_def Option.bind.simps using False by (simp only: if_False)
    obtain "end" where e: "\<not> (n = 0 \<or> n > 8)" "usize_checked_add (k + 1) n = Some end" "end \<le> length bs"
      and x: "x = (be_nat (slice bs (k + 1) end), k + 1 + n)"
      using assms unfolding long [OF at(1)] by (auto simp: bind_eq_Some_conv split: if_splits)
    have "slice (bs @ zs) (k + 1) end = slice bs (k + 1) end" using e(3) by (auto simp: slice_def)
    then show ?thesis unfolding long [OF at(2)] using e x by simp
  qed
qed

lemma top_level_der_end_append:
  assumes "top_level_der_end bs = Some n"
  shows "top_level_der_end (bs @ zs) = Some n"
proof -
  have ne: "bs \<noteq> []" using assms by (auto simp: top_level_der_end_def)
  then have tag: "(bs @ zs) ! 0 = bs ! 0" by (simp add: nth_append)
  obtain k len off where k: "(if bs ! 0 AND 0x1f = 0x1f then skip_high_tag bs 1 else Some 1) = Some k"
    and l: "der_length_at bs k = Some (len, off)" and n: "usize_checked_add off len = Some n" "n \<le> length bs"
    using assms ne by (auto simp: top_level_der_end_def bind_eq_Some_conv split: if_splits)
  have "(if bs ! 0 AND 0x1f = 0x1f then skip_high_tag (bs @ zs) 1 else Some 1) = Some k"
    using k by (auto intro: skip_high_tag_append split: if_splits)
  then show ?thesis
    using ne n der_length_at_append [OF l, of zs] unfolding top_level_der_end_def tag by simp
qed

lemma trim_delivered:
  assumes "top_level_der_end m = Some (length m)"
  shows "trim_zero_padded_der (ket_delivered e m) = m"
proof (cases e)
  case Des3CbcSha1Kd
  show ?thesis
    using top_level_der_end_append [OF assms, of "replicate (DES3_BLOCK_SIZE - length m mod DES3_BLOCK_SIZE) 0"] assms
    by (simp add: Des3CbcSha1Kd zero_pad_def Let_def trim_zero_padded_der_def list_all_iff)
qed (simp_all add: trim_zero_padded_der_exact assms)

section \<open>Opening what was built\<close>

definition key_fits :: "kt_key \<Rightarrow> kerberos_etype \<Rightarrow> bool" where
  "key_fits key e \<longleftrightarrow> ket_from_etype_id (kt_etype key) = Some e \<and> length (kt_value key) = ket_key_len e"

lemma etype_of_fitting_key: "key_fits key e \<Longrightarrow> etype_of_key key = Inr e"
  by (simp add: key_fits_def etype_of_key_def)

lemma open_sealed:
  assumes "prims_ok P" and "key_fits key e" and "length conf = ket_confounder_len e"
    and "ket_encrypt_message_with_confounder P e (kt_value key) m usage conf = Inr ct"
  shows "ket_decrypt_message P e (kt_value key) ct usage = Inr (ket_delivered e m)"
  using ket.enc_dec [OF assms(1) _ assms(3), of "kt_value key" m usage] assms(2,4) by (auto simp: key_fits_def)

lemma sealable:
  assumes "prims_ok P" and "key_fits key e" and "length conf = ket_confounder_len e"
  obtains ct where "ket_encrypt_message_with_confounder P e (kt_value key) m usage conf = Inr ct"
  using ket.enc_dec [OF assms(1) _ assms(3), of "kt_value key" m usage] assms(2) by (auto simp: key_fits_def)

definition ticket_part_whole :: "enc_ticket_part \<Rightarrow> bool" where
  "ticket_part_whole t \<longleftrightarrow> whole_seconds (et_auth_time t) \<and> whole_seconds (et_end_time t)
     \<and> pred_option whole_seconds (et_start_time t) \<and> pred_option whole_seconds (et_renew_till t)"

lemma asn1_okD:
  assumes "asn1_ok A"
  shows "enc_ticket A t = Some bs \<Longrightarrow> dec_ticket A bs = Some t"
    and "enc_enc_ticket_part A etp = Some bs \<Longrightarrow> ticket_part_whole etp \<Longrightarrow> dec_enc_ticket_part A bs = Some etp \<and> top_level_der_end bs = Some (length bs)"
    and "enc_authenticator A au = Some bs \<Longrightarrow> whole_seconds (au_ctime au) \<Longrightarrow> dec_authenticator A bs = Some au \<and> top_level_der_end bs = Some (length bs)"
    and "enc_ap_req A m = Some bs \<Longrightarrow> dec_ap_req A bs = Some m \<and> bs \<noteq> []"
    and "enc_ap_rep A r = Some bs \<Longrightarrow> dec_ap_rep A bs = Some r \<and> bs \<noteq> []"
    and "enc_enc_ap_rep_part A ep = Some bs \<Longrightarrow> whole_seconds (ep_ctime ep) \<Longrightarrow> dec_enc_ap_rep_part A bs = Some ep"
    and "from_timestamp A s n = Some k \<Longrightarrow> kt_seconds k = s \<and> kt_subsec_nanos k = n"
  using assms unfolding asn1_ok_def ticket_part_whole_def by blast+

lemma decrypt_built_ticket:
  assumes "prims_ok P" and "asn1_ok A" and "key_fits key e" and "length conf = ket_confounder_len e"
    and "ticket_part_whole part" and "build_ticket_with_confounder A P realm sname part key kvno conf = Inr t"
  shows "decrypt_ticket_enc_part A P t key = Inr part"
    and "tkt_realm t = realm \<and> tkt_sname t = sname \<and> ed_etype (tkt_enc_part t) = kt_etype key \<and> ed_kvno (tkt_enc_part t) = kvno \<and> tkt_vno t = 5"
proof -
  obtain m ct where m: "enc_enc_ticket_part A part = Some m"
    and ct: "ket_encrypt_message_with_confounder P e (kt_value key) m 2 conf = Inr ct"
    and t: "t = \<lparr>tkt_vno = KRB5_TKT_VNO, tkt_realm = realm, tkt_sname = sname,
      tkt_enc_part = \<lparr>ed_etype = kt_etype key, ed_kvno = kvno, ed_cipher = ct\<rparr>\<rparr>"
    using assms(6) by (auto simp: build_ticket_with_confounder_def rbind_eq_Inr ok_or_eq_Inr map_err_eq_Inr etype_of_fitting_key [OF assms(3)])
  note d = asn1_okD(2) [OF assms(2) m assms(5)]
  show "decrypt_ticket_enc_part A P t key = Inr part"
    using open_sealed [OF assms(1,3,4) ct] d trim_delivered [of m e]
    by (simp add: decrypt_ticket_enc_part_def t etype_of_fitting_key [OF assms(3)] decode_enc_ticket_part_def)
  show "tkt_realm t = realm \<and> tkt_sname t = sname \<and> ed_etype (tkt_enc_part t) = kt_etype key \<and> ed_kvno (tkt_enc_part t) = kvno \<and> tkt_vno t = 5"
    by (simp add: t KRB5_TKT_VNO_def)
qed

lemma decrypt_built_ap_req:
  assumes "prims_ok P" and "asn1_ok A" and "key_fits key e" and "length conf = ket_confounder_len e"
    and "whole_seconds (au_ctime auth)" and "build_ap_req_with_confounder A P t opts auth key usage kvno conf = Inr m"
  shows "decrypt_ap_req_authenticator A P m key usage = Inr auth" and "ar_ticket m = t" and "ap_req_validate m = Inr ()"
proof -
  obtain p ct where p: "enc_authenticator A auth = Some p"
    and ct: "ket_encrypt_message_with_confounder P e (kt_value key) p usage conf = Inr ct"
    and m: "m = \<lparr>ar_pvno = KRB5_PVNO, ar_msg_type = KRB_AP_REQ_MSG_TYPE, ar_ap_options = opts, ar_ticket = t,
      ar_authenticator = \<lparr>ed_etype = kt_etype key, ed_kvno = kvno, ed_cipher = ct\<rparr>\<rparr>"
    using assms(6) by (auto simp: build_ap_req_with_confounder_def encode_authenticator_def rbind_eq_Inr ok_or_eq_Inr map_err_eq_Inr
        etype_of_fitting_key [OF assms(3)])
  note d = asn1_okD(3) [OF assms(2) p assms(5)]
  show "decrypt_ap_req_authenticator A P m key usage = Inr auth"
    using open_sealed [OF assms(1,3,4) ct] d trim_delivered [of p e]
    by (simp add: decrypt_ap_req_authenticator_def m etype_of_fitting_key [OF assms(3)] decode_authenticator_def)
  show "ar_ticket m = t" "ap_req_validate m = Inr ()"
    by (simp_all add: m ap_req_validate_def validate_integer_def)
qed

text \<open>The encrypted part of an AP-REP is decoded without cutting the padding, so it is only opened again
  when the encryption type delivers it unpadded.\<close>

lemma decrypt_built_ap_rep:
  assumes "prims_ok P" and "asn1_ok A" and "key_fits key e" and "length conf = ket_confounder_len e" and "e \<noteq> Des3CbcSha1Kd"
    and "whole_seconds (ep_ctime part)" and "build_ap_rep_with_confounder A P part key kvno conf = Inr m"
  shows "decrypt_ap_rep_enc_part A P m key = Inr part" and "validate_ap_rep m = Inr ()"
proof -
  obtain p ct where p: "enc_enc_ap_rep_part A part = Some p"
    and ct: "ket_encrypt_message_with_confounder P e (kt_value key) p 12 conf = Inr ct"
    and m: "m = \<lparr>ap_pvno = KRB5_PVNO, ap_msg_type = KRB_AP_REP_MSG_TYPE,
      ap_enc_part = \<lparr>ed_etype = kt_etype key, ed_kvno = kvno, ed_cipher = ct\<rparr>\<rparr>"
    using assms(7) by (auto simp: build_ap_rep_with_confounder_def rbind_eq_Inr ok_or_eq_Inr map_err_eq_Inr etype_of_fitting_key [OF assms(3)])
  have "ket_delivered e p = p" using assms(5) by (cases e) simp_all
  then show "decrypt_ap_rep_enc_part A P m key = Inr part"
    using open_sealed [OF assms(1,3,4) ct] asn1_okD(6) [OF assms(2) p assms(6)]
    by (simp add: decrypt_ap_rep_enc_part_def m etype_of_fitting_key [OF assms(3)] decode_enc_ap_rep_part_def)
  show "validate_ap_rep m = Inr ()" by (simp add: m validate_ap_rep_def validate_integer_def)
qed

end
