(* ===== verification/Pac_Ndr.thy ===== *)
theory Pac_Ndr
  imports Etypes
begin

text \<open>
  \<open>src/pac/reader.rs\<close> and \<open>src/pac/ndr.rs\<close>: the little-endian reader of the privilege attribute
  certificate and its NDR primitives (aligned integers, counted arrays, unicode strings, security
  identifiers, claims).  A reader function takes the \<open>Reader\<close> and returns an error or a value with the
  advanced reader; \<open>pbind\<close> is the \<open>?\<close> operator over it.  Conversions from \<open>u16\<close> and \<open>u32\<close> to \<open>usize\<close> never
  fail on a 64-bit target.
\<close>

section \<open>Errors\<close>

datatype pac_error =
    PacTooShort string nat nat \<comment> \<open>target, minimum, actual\<close>
  | PacTruncated nat nat nat \<comment> \<open>offset, needed, remaining\<close>
  | PacLengthOverflow
  | BufferOffsetNotAligned u32 u64
  | BufferOutOfBounds u32 u64 u32 nat
  | PacOutOfBounds string nat nat nat
  | UnsupportedChecksumType u32
  | UnsupportedEncryptionType i32
  | UnsupportedClaimsCompressionFormat u16
  | ClaimsDecompression u16
  | ClaimsDecompressedSizeMismatch u16 nat nat
  | UnsupportedClaimType u16
  | InvalidClaimUnionTag u16 u16
  | MissingRequiredBuffer string
  | InvalidCredentialsInfoVersion u32
  | CredentialKeyTypeMismatch i32 i32
  | InvalidNtlmSupplementalCredentialVersion u32
  | ServerChecksumVerificationFailed
  | PacDerDecode
  | InvalidNdrHeader
  | InvalidNdrObjectLength nat nat
  | MissingNdrPointer string
  | UnreasonableNdrCount string u32
  | InvalidNdrArrayBounds string u32 u32 u32
  | CountMismatch string u32 u32
  | InvalidRpcUnicodeString string u16 u16
  | InvalidRpcUnicodeStringData string nat nat
  | InvalidUtf16Length string nat
  | InvalidUtf16 string
  | InvalidSidRevision u8
  | InvalidSidSubAuthorityCount string u32 u8
  | TrailingNdrBytes nat
  | TrailingNdrBytesAfter string nat
  | InvalidAlignment nat
  | PacCrypto crypto_error

section \<open>The reader\<close>

record pac_reader =
  pr_bytes :: bytes
  pr_offset :: nat

type_synonym 'a pread = "pac_reader \<Rightarrow> pac_error + 'a \<times> pac_reader"

definition pret :: "'a \<Rightarrow> 'a pread" where
  "pret x r = Inr (x, r)"

definition pfail :: "pac_error \<Rightarrow> 'a pread" where
  "pfail e r = Inl e"

definition pbind :: "'a pread \<Rightarrow> ('a \<Rightarrow> 'b pread) \<Rightarrow> 'b pread" where
  "pbind m f r = rbind (m r) (\<lambda>(x, r'). f x r')"

definition pr_new :: "bytes \<Rightarrow> pac_reader" where
  "pr_new bs = \<lparr>pr_bytes = bs, pr_offset = 0\<rparr>"

definition pr_remaining :: "pac_reader \<Rightarrow> nat" where
  "pr_remaining r = length (pr_bytes r) - pr_offset r"

definition pr_len :: "pac_reader \<Rightarrow> nat" where
  "pr_len r = length (pr_bytes r)"

definition pr_remaining_bytes :: "pac_reader \<Rightarrow> bytes" where
  "pr_remaining_bytes r = drop (pr_offset r) (pr_bytes r)"

definition pr_read_bytes :: "nat \<Rightarrow> bytes pread" where
  "pr_read_bytes len r =
     rbind (ok_or (usize_checked_add (pr_offset r) len) PacLengthOverflow) (\<lambda>end.
       if end > length (pr_bytes r) then Inl (PacTruncated (pr_offset r) len (pr_remaining r))
       else Inr (slice (pr_bytes r) (pr_offset r) end, r\<lparr>pr_offset := end\<rparr>))"

definition pr_read_u8 :: "u8 pread" where
  "pr_read_u8 = pbind (pr_read_bytes 1) (\<lambda>bs. pret (bs ! 0))"

definition pr_read_u16 :: "u16 pread" where
  "pr_read_u16 = pbind (pr_read_bytes 2) (\<lambda>bs. pret (from_bytes_en Little bs))"

definition pr_read_u32 :: "u32 pread" where
  "pr_read_u32 = pbind (pr_read_bytes 4) (\<lambda>bs. pret (from_bytes_en Little bs))"

definition pr_read_u64 :: "u64 pread" where
  "pr_read_u64 = pbind (pr_read_bytes 8) (\<lambda>bs. pret (from_bytes_en Little bs))"

text \<open>\<open>FileTime\<close> is a newtype of its ticks.\<close>

type_synonym file_time = u64

definition pr_read_filetime :: "file_time pread" where
  "pr_read_filetime = pr_read_u64"

text \<open>\<open>usize::is_power_of_two\<close>.\<close>

fun is_power_of_two :: "nat \<Rightarrow> bool" where
  "is_power_of_two n = (if n \<le> 1 then n = 1 else if even n then is_power_of_two (n div 2) else False)"

declare is_power_of_two.simps [simp del]

text \<open>Rounding up to a power of two: \<open>(offset + alignment - 1) & !(alignment - 1)\<close>.\<close>

definition pr_align :: "nat \<Rightarrow> unit pread" where
  "pr_align alignment r =
     (if alignment = 0 \<or> \<not> is_power_of_two alignment then Inl (InvalidAlignment alignment)
      else let aligned = (pr_offset r + alignment - 1) div alignment * alignment
           in if aligned > length (pr_bytes r)
              then Inl (PacTruncated (pr_offset r) (aligned - pr_offset r) (pr_remaining r))
              else Inr ((), r\<lparr>pr_offset := aligned\<rparr>))"

text \<open>\<open>for _ in 0..count { out.push(m(reader)?) }\<close> and \<open>for x in xs { out.push(f(reader, x)?) }\<close>.\<close>

primrec pr_many :: "nat \<Rightarrow> 'a pread \<Rightarrow> 'a list pread" where
  "pr_many 0 m = pret []"
| "pr_many (Suc n) m = pbind m (\<lambda>x. pbind (pr_many n m) (\<lambda>xs. pret (x # xs)))"

primrec pr_each :: "('a \<Rightarrow> 'b pread) \<Rightarrow> 'a list \<Rightarrow> 'b list pread" where
  "pr_each f [] = pret []"
| "pr_each f (x # xs) = pbind (f x) (\<lambda>y. pbind (pr_each f xs) (\<lambda>ys. pret (y # ys)))"

section \<open>UTF-16\<close>

text \<open>\<open>String::from_utf16\<close>: surrogate pairs are combined, a lone surrogate is an error; the string is
  kept as its UTF-8 bytes.\<close>

definition utf8_encode :: "nat \<Rightarrow> string" where
  "utf8_encode c =
     map char_of (if c < 0x80 then [c]
      else if c < 0x800 then [0xC0 + c div 64, 0x80 + c mod 64]
      else if c < 0x10000 then [0xE0 + c div 4096, 0x80 + c div 64 mod 64, 0x80 + c mod 64]
      else [0xF0 + c div 262144, 0x80 + c div 4096 mod 64, 0x80 + c div 64 mod 64, 0x80 + c mod 64])"

fun from_utf16 :: "u16 list \<Rightarrow> string option" where
  "from_utf16 [] = Some []"
| "from_utf16 (u # us) =
     (let n = unat u in
      if n < 0xD800 \<or> 0xDFFF < n then map_option (\<lambda>s. utf8_encode n @ s) (from_utf16 us)
      else if 0xDC00 \<le> n then None
      else (case us of
          [] \<Rightarrow> None
        | v # vs \<Rightarrow>
            if 0xDC00 \<le> unat v \<and> unat v \<le> 0xDFFF
            then map_option (\<lambda>s. utf8_encode (0x10000 + (n - 0xD800) * 0x400 + (unat v - 0xDC00)) @ s) (from_utf16 vs)
            else None))"

fun u16_chunks :: "bytes \<Rightarrow> u16 list" where
  "u16_chunks (a # b # rest) = from_bytes_en Little [a, b] # u16_chunks rest"
| "u16_chunks _ = []"

definition utf16le_bytes_to_string :: "bytes \<Rightarrow> string \<Rightarrow> pac_error + string" where
  "utf16le_bytes_to_string bs target =
     (if length bs mod 2 \<noteq> 0 then Inl (InvalidUtf16Length target (length bs))
      else ok_or (from_utf16 (u16_chunks bs)) (InvalidUtf16 target))"

section \<open>Data\<close>

record rpc_unicode_string =
  rus_length :: u16
  rus_maximum_length :: u16
  rus_value :: string

record rpc_unicode_string_descriptor =
  rud_length :: u16
  rud_maximum_length :: u16
  rud_referent_id :: u32

record group_membership =
  gm_relative_id :: u32
  gm_attributes :: u32

record sid =
  sid_revision :: u8
  sid_identifier_authority :: bytes
  sid_sub_authorities :: "u32 list"

record sid_and_attributes =
  saa_sid :: sid
  saa_attributes :: u32

record domain_group_membership =
  dgm_domain_id :: sid
  dgm_group_count :: u32
  dgm_group_ids :: "group_membership list"

record secpkg_supplemental_credential =
  ssc_package_name :: rpc_unicode_string
  ssc_credential_size :: u32
  ssc_credentials :: bytes

datatype claim_values =
    ClaimInt64 "u64 list" \<comment> \<open>\<open>i64\<close>, read by \<open>sint\<close>\<close>
  | ClaimUInt64 "u64 list"
  | ClaimString "string list"
  | ClaimBoolean "bool list"

record claim_entry =
  ce_id :: string
  ce_claim_type :: u16
  ce_values :: claim_values

record claims_array =
  ca_claims_source_type :: u16
  ca_claims_count :: u32
  ca_claim_entries :: "claim_entry list"

record claims_array_descriptor =
  cad_claims_source_type :: u16
  cad_claims_count :: u32
  cad_claim_entries_ref :: u32

record claim_entry_descriptor =
  ced_id_ref :: u32
  ced_claim_type :: u16
  ced_value_count :: u32
  ced_values_ref :: u32

section \<open>Primitives\<close>

definition MAX_REASONABLE_NDR_COUNT :: u32 where
  "MAX_REASONABLE_NDR_COUNT = 1000000"

definition rud_read :: "rpc_unicode_string_descriptor pread" where
  "rud_read =
     pbind pr_read_u16 (\<lambda>len. pbind pr_read_u16 (\<lambda>maximum_length. pbind pr_read_u32 (\<lambda>referent_id.
       pret \<lparr>rud_length = len, rud_maximum_length = maximum_length, rud_referent_id = referent_id\<rparr>)))"

text \<open>The header behind the length check; \<open>total_len\<close> is \<open>reader.len()\<close>.\<close>

definition read_ndr_header :: "string \<Rightarrow> nat \<Rightarrow> unit pread" where
  "read_ndr_header target total_len =
     pbind pr_read_u8 (\<lambda>integer_endian. pbind pr_read_u8 (\<lambda>character_set.
     pbind pr_read_u8 (\<lambda>floating_point. pbind pr_read_u8 (\<lambda>reserved.
       if integer_endian \<noteq> 1 \<or> character_set \<noteq> 0x10 \<or> floating_point \<noteq> 0x08 \<or> reserved \<noteq> 0
       then pfail InvalidNdrHeader
       else
         pbind pr_read_u32 (\<lambda>fill. pbind pr_read_u32 (\<lambda>object_len. pbind pr_read_u32 (\<lambda>reserved2.
           if unat object_len > total_len - 16 then pfail (InvalidNdrObjectLength (unat object_len) (total_len - 16))
           else pbind pr_read_u32 (\<lambda>top_level_referent.
             if top_level_referent = 0 then pfail (MissingNdrPointer target) else pret ()))))))))"

definition read_ndr_wrapper :: "string \<Rightarrow> unit pread" where
  "read_ndr_wrapper target r =
     (if pr_len r < 20 then Inl (PacTooShort target 20 (pr_len r)) else read_ndr_header target (pr_len r) r)"

definition read_ndr_u16 :: "u16 pread" where
  "read_ndr_u16 = pbind (pr_align 2) (\<lambda>_. pr_read_u16)"

definition read_ndr_u32 :: "u32 pread" where
  "read_ndr_u32 = pbind (pr_align 4) (\<lambda>_. pr_read_u32)"

definition read_ndr_u64 :: "u64 pread" where
  "read_ndr_u64 = pbind (pr_align 8) (\<lambda>_. pr_read_u64)"

definition read_ndr_reasonable_count :: "string \<Rightarrow> u32 pread" where
  "read_ndr_reasonable_count target = pbind read_ndr_u32 (\<lambda>count.
     if count > MAX_REASONABLE_NDR_COUNT then pfail (UnreasonableNdrCount target count) else pret count)"

definition read_reasonable_count :: "string \<Rightarrow> u32 pread" where
  "read_reasonable_count target = pbind pr_read_u32 (\<lambda>count.
     if count > MAX_REASONABLE_NDR_COUNT then pfail (UnreasonableNdrCount target count) else pret count)"

definition ensure_zero_trailing :: "string \<Rightarrow> unit pread" where
  "ensure_zero_trailing target = pbind (pr_align 4) (\<lambda>_ r.
     if list_ex (\<lambda>b. b \<noteq> 0) (pr_remaining_bytes r) then Inl (TrailingNdrBytesAfter target (pr_remaining r))
     else Inr ((), r))"

text \<open>
  The deferred arrays share their opening: a null pointer stands for the empty array, otherwise the
  conformant count is read with \<open>read_count\<close> and must agree with the embedded count.
\<close>

definition deferred_array ::
  "(string \<Rightarrow> u32 pread) \<Rightarrow> u32 \<Rightarrow> u32 \<Rightarrow> string \<Rightarrow> (nat \<Rightarrow> 'a list pread) \<Rightarrow> 'a list pread" where
  "deferred_array read_count referent_id count target body =
     (if referent_id = 0 then (if count = 0 then pret [] else pfail (MissingNdrPointer target))
      else pbind (read_count target) (\<lambda>max_count.
        if max_count \<noteq> count then pfail (CountMismatch target count max_count) else body (unat count)))"

definition read_deferred_u8_array :: "u32 \<Rightarrow> u32 \<Rightarrow> string \<Rightarrow> bytes pread" where
  "read_deferred_u8_array referent_id count target =
     deferred_array read_ndr_reasonable_count referent_id count target (\<lambda>len.
       pbind (pr_read_bytes len) (\<lambda>bs. pbind (pr_align 4) (\<lambda>_. pret bs)))"

definition read_deferred_unicode_string :: "rpc_unicode_string_descriptor \<Rightarrow> string \<Rightarrow> rpc_unicode_string pread" where
  "read_deferred_unicode_string d target =
     (if rud_maximum_length d < rud_length d
      then pfail (InvalidRpcUnicodeString target (rud_length d) (rud_maximum_length d))
      else if unat (rud_length d) mod 2 \<noteq> 0 then pfail (InvalidUtf16Length target (unat (rud_length d)))
      else if rud_referent_id d = 0
      then pret \<lparr>rus_length = rud_length d, rus_maximum_length = rud_maximum_length d, rus_value = []\<rparr>
      else
        pbind (read_reasonable_count target) (\<lambda>max_count. pbind pr_read_u32 (\<lambda>offset.
        pbind (read_reasonable_count target) (\<lambda>actual_count.
          if offset > max_count \<or> unat actual_count > unat max_count - unat offset
          then pfail (InvalidNdrArrayBounds target max_count offset actual_count)
          else pbind (pr_many (unat actual_count) pr_read_u16) (\<lambda>units. pbind (pr_align 4) (\<lambda>_.
            let logical_len = unat (rud_length d) div 2
            in if logical_len > length units
               then pfail (InvalidRpcUnicodeStringData target logical_len (length units))
               else (case from_utf16 (take logical_len units) of
                   None \<Rightarrow> pfail (InvalidUtf16 target)
                 | Some v \<Rightarrow> pret \<lparr>rus_length = rud_length d, rus_maximum_length = rud_maximum_length d, rus_value = v\<rparr>)))))))"

definition read_counted_supplemental_credentials :: "u32 \<Rightarrow> secpkg_supplemental_credential list pread" where
  "read_counted_supplemental_credentials count =
     (if count = 0 then pret []
      else
        pbind (pr_many (unat count) (pbind rud_read (\<lambda>d. pbind read_ndr_u32 (\<lambda>credential_size.
            pbind read_ndr_u32 (\<lambda>credentials_ref. pret (d, credential_size, credentials_ref)))))) (\<lambda>descriptors.
        pr_each (\<lambda>(d, credential_size, credentials_ref).
            pbind (read_deferred_unicode_string d ''SECPKGSupplementalCred.PackageName'') (\<lambda>package_name.
            pbind (read_deferred_u8_array credentials_ref credential_size ''SECPKGSupplementalCred.Credentials'') (\<lambda>bs.
              pret \<lparr>ssc_package_name = package_name, ssc_credential_size = credential_size, ssc_credentials = bs\<rparr>)))
          descriptors))"

definition read_deferred_rpc_unicode_strings :: "u32 \<Rightarrow> u32 \<Rightarrow> string \<Rightarrow> rpc_unicode_string list pread" where
  "read_deferred_rpc_unicode_strings referent_id count target =
     deferred_array read_ndr_reasonable_count referent_id count target (\<lambda>n.
       pbind (pr_many n rud_read) (\<lambda>descriptors.
         pr_each (\<lambda>d. read_deferred_unicode_string d target) descriptors))"

section \<open>Security identifiers and groups\<close>

definition read_deferred_group_memberships :: "u32 \<Rightarrow> u32 \<Rightarrow> string \<Rightarrow> group_membership list pread" where
  "read_deferred_group_memberships referent_id count target =
     deferred_array read_reasonable_count referent_id count target (\<lambda>n.
       pr_many n (pbind pr_read_u32 (\<lambda>relative_id. pbind pr_read_u32 (\<lambda>attributes.
         pret \<lparr>gm_relative_id = relative_id, gm_attributes = attributes\<rparr>))))"

definition read_deferred_sid :: "u32 \<Rightarrow> string \<Rightarrow> sid option pread" where
  "read_deferred_sid referent_id target =
     (if referent_id = 0 then pret None
      else
        pbind (read_reasonable_count target) (\<lambda>max_sub_authority_count.
        pbind pr_read_u8 (\<lambda>revision. pbind pr_read_u8 (\<lambda>sub_authority_count.
          if revision \<noteq> 1 then pfail (InvalidSidRevision revision)
          else if unat sub_authority_count > unat max_sub_authority_count \<or> sub_authority_count > 15
          then pfail (InvalidSidSubAuthorityCount target max_sub_authority_count sub_authority_count)
          else pbind (pr_read_bytes 6) (\<lambda>identifier_authority.
            pbind (pr_many (unat sub_authority_count) pr_read_u32) (\<lambda>sub_authorities.
            pbind (pr_align 4) (\<lambda>_.
              pret (Some \<lparr>sid_revision = revision, sid_identifier_authority = identifier_authority,
                          sid_sub_authorities = sub_authorities\<rparr>))))))))"

definition require_sid :: "string \<Rightarrow> sid option \<Rightarrow> sid pread" where
  "require_sid target s = (case s of None \<Rightarrow> pfail (MissingNdrPointer target) | Some sid \<Rightarrow> pret sid)"

definition read_deferred_sid_and_attributes :: "u32 \<Rightarrow> u32 \<Rightarrow> string \<Rightarrow> sid_and_attributes list pread" where
  "read_deferred_sid_and_attributes referent_id count target =
     deferred_array read_reasonable_count referent_id count target (\<lambda>n.
       pbind (pr_many n (pbind pr_read_u32 (\<lambda>sid_ref. pbind pr_read_u32 (\<lambda>attributes. pret (sid_ref, attributes))))) (\<lambda>rs.
         pr_each (\<lambda>(sid_ref, attributes).
             pbind (read_deferred_sid sid_ref target) (\<lambda>s. pbind (require_sid target s) (\<lambda>sid.
               pret \<lparr>saa_sid = sid, saa_attributes = attributes\<rparr>))) rs))"

definition read_deferred_domain_group_memberships :: "u32 \<Rightarrow> u32 \<Rightarrow> string \<Rightarrow> domain_group_membership list pread" where
  "read_deferred_domain_group_memberships referent_id count target =
     deferred_array read_reasonable_count referent_id count target (\<lambda>n.
       pbind (pr_many n (pbind pr_read_u32 (\<lambda>domain_id_ref. pbind pr_read_u32 (\<lambda>group_count.
           pbind pr_read_u32 (\<lambda>group_ids_ref. pret (domain_id_ref, group_count, group_ids_ref)))))) (\<lambda>descriptors.
         pr_each (\<lambda>(domain_id_ref, group_count, group_ids_ref).
             pbind (read_deferred_sid domain_id_ref target) (\<lambda>s. pbind (require_sid target s) (\<lambda>domain_id.
             pbind (read_deferred_group_memberships group_ids_ref group_count target) (\<lambda>group_ids.
               pret \<lparr>dgm_domain_id = domain_id, dgm_group_count = group_count, dgm_group_ids = group_ids\<rparr>)))) descriptors))"

section \<open>Claims\<close>

definition read_deferred_claim_string :: "u32 \<Rightarrow> string \<Rightarrow> string pread" where
  "read_deferred_claim_string referent_id target =
     (if referent_id = 0 then pfail (MissingNdrPointer target)
      else
        pbind (read_ndr_reasonable_count target) (\<lambda>max_count. pbind read_ndr_u32 (\<lambda>offset.
        pbind (read_ndr_reasonable_count target) (\<lambda>actual_count.
          if offset > max_count \<or> unat actual_count > unat max_count - unat offset
          then pfail (InvalidNdrArrayBounds target max_count offset actual_count)
          else pbind (pr_many (unat actual_count) pr_read_u16) (\<lambda>units. pbind (pr_align 4) (\<lambda>_.
            let units = (if units \<noteq> [] \<and> last units = 0 then butlast units else units)
            in (case from_utf16 units of None \<Rightarrow> pfail (InvalidUtf16 target) | Some v \<Rightarrow> pret v)))))))"

definition read_deferred_u64_array :: "u32 \<Rightarrow> u32 \<Rightarrow> string \<Rightarrow> u64 list pread" where
  "read_deferred_u64_array referent_id count target =
     deferred_array read_ndr_reasonable_count referent_id count target (\<lambda>n. pr_many n read_ndr_u64)"

definition read_deferred_i64_array :: "u32 \<Rightarrow> u32 \<Rightarrow> string \<Rightarrow> u64 list pread" where
  "read_deferred_i64_array referent_id count target =
     deferred_array read_ndr_reasonable_count referent_id count target (\<lambda>n. pr_many n read_ndr_u64)"

definition read_deferred_bool_array :: "u32 \<Rightarrow> u32 \<Rightarrow> string \<Rightarrow> bool list pread" where
  "read_deferred_bool_array referent_id count target =
     deferred_array read_ndr_reasonable_count referent_id count target (\<lambda>n.
       pbind (pr_many n (pbind pr_read_u8 (\<lambda>b. pret (b \<noteq> 0)))) (\<lambda>vs. pbind (pr_align 4) (\<lambda>_. pret vs)))"

definition read_deferred_lpwstr_array :: "u32 \<Rightarrow> u32 \<Rightarrow> string \<Rightarrow> string list pread" where
  "read_deferred_lpwstr_array referent_id count target =
     deferred_array read_ndr_reasonable_count referent_id count target (\<lambda>n.
       pbind (pr_many n read_ndr_u32) (\<lambda>string_refs.
         pr_each (\<lambda>string_ref. read_deferred_claim_string string_ref target) string_refs))"

definition read_claim_entry_descriptor :: "claim_entry_descriptor pread" where
  "read_claim_entry_descriptor =
     pbind read_ndr_u32 (\<lambda>id_ref. pbind read_ndr_u16 (\<lambda>claim_type. pbind read_ndr_u16 (\<lambda>union_tag.
       if union_tag \<noteq> claim_type then pfail (InvalidClaimUnionTag claim_type union_tag)
       else pbind read_ndr_u32 (\<lambda>value_count. pbind read_ndr_u32 (\<lambda>values_ref.
         pret \<lparr>ced_id_ref = id_ref, ced_claim_type = claim_type, ced_value_count = value_count, ced_values_ref = values_ref\<rparr>)))))"

definition read_claim_values :: "claim_entry_descriptor \<Rightarrow> claim_values pread" where
  "read_claim_values d =
     (if ced_claim_type d = 1 then
        pbind (read_deferred_i64_array (ced_values_ref d) (ced_value_count d) ''ClaimEntry.Int64Values'') (\<lambda>v. pret (ClaimInt64 v))
      else if ced_claim_type d = 2 then
        pbind (read_deferred_u64_array (ced_values_ref d) (ced_value_count d) ''ClaimEntry.UInt64Values'') (\<lambda>v. pret (ClaimUInt64 v))
      else if ced_claim_type d = 3 then
        pbind (read_deferred_lpwstr_array (ced_values_ref d) (ced_value_count d) ''ClaimEntry.StringValues'') (\<lambda>v. pret (ClaimString v))
      else if ced_claim_type d = 6 then
        pbind (read_deferred_bool_array (ced_values_ref d) (ced_value_count d) ''ClaimEntry.BooleanValues'') (\<lambda>v. pret (ClaimBoolean v))
      else pfail (UnsupportedClaimType (ced_claim_type d)))"

definition read_deferred_claim_entries :: "u32 \<Rightarrow> u32 \<Rightarrow> string \<Rightarrow> claim_entry list pread" where
  "read_deferred_claim_entries referent_id count target =
     deferred_array read_ndr_reasonable_count referent_id count target (\<lambda>n.
       pbind (pr_many n read_claim_entry_descriptor) (\<lambda>descriptors.
         pr_each (\<lambda>d.
             pbind (read_deferred_claim_string (ced_id_ref d) ''ClaimEntry.ID'') (\<lambda>id.
             pbind (read_claim_values d) (\<lambda>vs.
               pret \<lparr>ce_id = id, ce_claim_type = ced_claim_type d, ce_values = vs\<rparr>))) descriptors))"

definition read_deferred_claims_arrays :: "u32 \<Rightarrow> u32 \<Rightarrow> string \<Rightarrow> claims_array list pread" where
  "read_deferred_claims_arrays referent_id count target =
     deferred_array read_ndr_reasonable_count referent_id count target (\<lambda>n.
       pbind (pr_many n (pbind read_ndr_u16 (\<lambda>claims_source_type. pbind read_ndr_u32 (\<lambda>claims_count.
           pbind read_ndr_u32 (\<lambda>claim_entries_ref.
             pret \<lparr>cad_claims_source_type = claims_source_type, cad_claims_count = claims_count,
                   cad_claim_entries_ref = claim_entries_ref\<rparr>))))) (\<lambda>descriptors.
         pr_each (\<lambda>d.
             pbind (read_deferred_claim_entries (cad_claim_entries_ref d) (cad_claims_count d) ''ClaimsArray.ClaimEntries'') (\<lambda>es.
               pret \<lparr>ca_claims_source_type = cad_claims_source_type d, ca_claims_count = cad_claims_count d,
                     ca_claim_entries = es\<rparr>)) descriptors))"

end
