(* ===== verification/Pac.thy ===== *)
theory Pac
  imports Pac_Ndr Krb_Messages
begin

text \<open>
  \<open>src/pac.rs\<close>: the container of the privilege attribute certificate, its buffers, the server
  checksum and the search in authorization data.  The decompression of claims is a
  crate outside the repository, the parameter \<open>Z\<close>.
\<close>

unbundle bit_operations_syntax

section \<open>File times\<close>

definition WINDOWS_TICKS_PER_SECOND :: nat where
  "WINDOWS_TICKS_PER_SECOND = 10000000"

definition WINDOWS_TO_UNIX_SECONDS :: nat where
  "WINDOWS_TO_UNIX_SECONDS = 11644473600"

definition filetime_tick_duration :: "nat \<Rightarrow> duration" where
  "filetime_tick_duration ticks =
     from_secs (ticks div WINDOWS_TICKS_PER_SECOND) + ticks mod WINDOWS_TICKS_PER_SECOND * 100"

definition file_time_system_time :: "file_time \<Rightarrow> system_time" where
  "file_time_system_time t =
     (let unix_epoch_ticks = WINDOWS_TO_UNIX_SECONDS * WINDOWS_TICKS_PER_SECOND in
      if unat t \<ge> unix_epoch_ticks then int (filetime_tick_duration (unat t - unix_epoch_ticks))
      else - int (filetime_tick_duration (unix_epoch_ticks - unat t)))"

section \<open>Signatures and client information\<close>

record signature_data =
  sd_signature_type :: u32
  sd_signature :: bytes
  sd_rodc_identifier :: "u16 option"
  sd_zeroed_data :: bytes

definition checksum_signature_len :: "u32 \<Rightarrow> nat option" where
  "checksum_signature_len signature_type =
     (if signature_type = 0xffffff76 then Some 16
      else if signature_type = 15 \<or> signature_type = 16 then Some 12
      else if signature_type = 19 then Some 16
      else if signature_type = 20 then Some 24
      else None)"

definition signature_data_parse :: "bytes \<Rightarrow> pac_error + signature_data" where
  "signature_data_parse bs =
     rbind (pbind pr_read_u32 (\<lambda>signature_type.
       case checksum_signature_len signature_type of
         None \<Rightarrow> pfail (UnsupportedChecksumType signature_type)
       | Some signature_len \<Rightarrow>
           pbind (pr_read_bytes signature_len) (\<lambda>signature.
           pbind (\<lambda>r. if pr_remaining r \<ge> 2 then pbind pr_read_u16 (\<lambda>w. pret (Some w)) r else pret None r) (\<lambda>rodc_identifier.
             pret \<lparr>sd_signature_type = signature_type, sd_signature = signature, sd_rodc_identifier = rodc_identifier,
                   sd_zeroed_data = take 4 bs @ replicate signature_len 0 @ drop (4 + signature_len) bs\<rparr>)))
       (pr_new bs)) (\<lambda>(sd, _). Inr sd)"

record client_info =
  ci_client_id :: file_time
  ci_name_length :: u16
  ci_name :: string

definition client_info_parse :: "bytes \<Rightarrow> pac_error + client_info" where
  "client_info_parse bs =
     rbind (pbind pr_read_filetime (\<lambda>client_id. pbind pr_read_u16 (\<lambda>name_length.
        pbind (pr_read_bytes (unat name_length)) (\<lambda>name_bytes. pret (client_id, name_length, name_bytes)))) (pr_new bs))
       (\<lambda>((client_id, name_length, name_bytes), _).
         rbind (utf16le_bytes_to_string name_bytes ''ClientInfo.Name'') (\<lambda>name.
           Inr \<lparr>ci_client_id = client_id, ci_name_length = name_length, ci_name = name\<rparr>))"

record upn_dns_info =
  udi_upn_length :: u16
  udi_upn_offset :: u16
  udi_dns_domain_name_length :: u16
  udi_dns_domain_name_offset :: u16
  udi_flags :: u32
  udi_upn :: string
  udi_dns_domain :: string

definition checked_slice :: "bytes \<Rightarrow> nat \<Rightarrow> nat \<Rightarrow> string \<Rightarrow> pac_error + bytes" where
  "checked_slice bs offset len target =
     rbind (ok_or (usize_checked_add offset len) PacLengthOverflow) (\<lambda>end.
       if end > length bs then Inl (PacOutOfBounds target offset len (length bs))
       else Inr (slice bs offset end))"

definition upn_dns_info_parse :: "bytes \<Rightarrow> pac_error + upn_dns_info" where
  "upn_dns_info_parse bs =
     rbind (pbind pr_read_u16 (\<lambda>upn_length. pbind pr_read_u16 (\<lambda>upn_offset.
        pbind pr_read_u16 (\<lambda>dns_length. pbind pr_read_u16 (\<lambda>dns_offset. pbind pr_read_u32 (\<lambda>flags.
          pret (upn_length, upn_offset, dns_length, dns_offset, flags)))))) (pr_new bs))
       (\<lambda>((upn_length, upn_offset, dns_length, dns_offset, flags), _).
         rbind (checked_slice bs (unat upn_offset) (unat upn_length) ''UPN_DNS_INFO.UPN'') (\<lambda>upn_bytes.
         rbind (utf16le_bytes_to_string upn_bytes ''UPN_DNS_INFO.UPN'') (\<lambda>upn.
         rbind (checked_slice bs (unat dns_offset) (unat dns_length) ''UPN_DNS_INFO.DNSDomain'') (\<lambda>dns_bytes.
         rbind (utf16le_bytes_to_string dns_bytes ''UPN_DNS_INFO.DNSDomain'') (\<lambda>dns_domain.
           Inr \<lparr>udi_upn_length = upn_length, udi_upn_offset = upn_offset, udi_dns_domain_name_length = dns_length,
                udi_dns_domain_name_offset = dns_offset, udi_flags = flags, udi_upn = upn, udi_dns_domain = dns_domain\<rparr>)))))"

section \<open>Credentials\<close>

record credentials_info =
  cri_version :: u32
  cri_encryption_type :: u32
  cri_encrypted_credential_data :: bytes

record credential_data =
  cd_credential_count :: u32
  cd_credentials :: "secpkg_supplemental_credential list"

record ntlm_supplemental_credential =
  nsc_version :: u32
  nsc_flags :: u32
  nsc_lm_password :: "bytes option"
  nsc_nt_password :: "bytes option"

definition credentials_info_parse :: "bytes \<Rightarrow> pac_error + credentials_info" where
  "credentials_info_parse bs =
     rbind (pbind pr_read_u32 (\<lambda>version.
        if version \<noteq> 0 then pfail (InvalidCredentialsInfoVersion version)
        else pbind pr_read_u32 (\<lambda>encryption_type r.
          pbind (pr_read_bytes (pr_remaining r)) (\<lambda>rest.
            pret \<lparr>cri_version = version, cri_encryption_type = encryption_type, cri_encrypted_credential_data = rest\<rparr>) r))
       (pr_new bs)) (\<lambda>(ci, _). Inr ci)"

definition credential_data_parse :: "bytes \<Rightarrow> pac_error + credential_data" where
  "credential_data_parse bs =
     rbind (pbind (read_ndr_wrapper ''CredentialData'') (\<lambda>_. pbind read_ndr_u32 (\<lambda>credential_count.
        pbind (read_counted_supplemental_credentials credential_count) (\<lambda>credentials.
        pbind (ensure_zero_trailing ''CredentialData'') (\<lambda>_.
          pret \<lparr>cd_credential_count = credential_count, cd_credentials = credentials\<rparr>)))) (pr_new bs)) (\<lambda>(cd, _). Inr cd)"

definition i32_try_from_u32 :: "u32 \<Rightarrow> i32 option" where
  "i32_try_from_u32 w = (if unat w < 2 ^ 31 then Some w else None)"

definition decrypt_credential_data :: "crypto_prims \<Rightarrow> credentials_info \<Rightarrow> kt_key \<Rightarrow> pac_error + credential_data" where
  "decrypt_credential_data P ci key =
     rbind (ok_or (i32_try_from_u32 (cri_encryption_type ci)) PacLengthOverflow) (\<lambda>encryption_type.
       if kt_etype key \<noteq> encryption_type then Inl (CredentialKeyTypeMismatch encryption_type (kt_etype key))
       else rbind (ok_or (ket_from_etype_id encryption_type) (UnsupportedEncryptionType encryption_type)) (\<lambda>etype.
         rbind (map_err PacCrypto (ket_decrypt_message P etype (kt_value key) (cri_encrypted_credential_data ci) 16))
           credential_data_parse))"

text \<open>The flag index counts from the most significant bit of every byte of the little-endian flags.\<close>

definition ntlm_supplemental_flag_set :: "u32 \<Rightarrow> nat \<Rightarrow> bool" where
  "ntlm_supplemental_flag_set flags flag =
     (let byte = flag div 8; bit = 7 - (flag - 8 * byte)
      in (to_bytes_en Little flags ! byte) AND push_bit bit 1 \<noteq> 0)"

definition ntlm_supplemental_credential_parse :: "bytes \<Rightarrow> pac_error + ntlm_supplemental_credential" where
  "ntlm_supplemental_credential_parse bs =
     rbind (pbind pr_read_u32 (\<lambda>version.
        if version \<noteq> 0 then pfail (InvalidNtlmSupplementalCredentialVersion version)
        else pbind pr_read_u32 (\<lambda>flags.
          pbind (if ntlm_supplemental_flag_set flags 31 then pbind (pr_read_bytes 16) (\<lambda>k. pret (Some k)) else pret None) (\<lambda>lm.
          pbind (if ntlm_supplemental_flag_set flags 30 then pbind (pr_read_bytes 16) (\<lambda>k. pret (Some k)) else pret None) (\<lambda>nt.
            pret \<lparr>nsc_version = version, nsc_flags = flags, nsc_lm_password = lm, nsc_nt_password = nt\<rparr>))))
       (pr_new bs)) (\<lambda>(c, _). Inr c)"

definition has_lm_password :: "ntlm_supplemental_credential \<Rightarrow> bool" where
  "has_lm_password c = ntlm_supplemental_flag_set (nsc_flags c) 31"

definition has_nt_password :: "ntlm_supplemental_credential \<Rightarrow> bool" where
  "has_nt_password c = ntlm_supplemental_flag_set (nsc_flags c) 30"

section \<open>Delegation and devices\<close>

record s4u_delegation_info =
  s4u_proxy_target :: rpc_unicode_string
  s4u_transited_list_size :: u32
  s4u_transited_services :: "rpc_unicode_string list"

definition s4u_delegation_info_parse :: "bytes \<Rightarrow> pac_error + s4u_delegation_info" where
  "s4u_delegation_info_parse bs =
     rbind (pbind (read_ndr_wrapper ''S4UDelegationInfo'') (\<lambda>_.
        pbind rud_read (\<lambda>target. pbind read_ndr_u32 (\<lambda>transited_list_size. pbind read_ndr_u32 (\<lambda>services_ref.
        pbind (read_deferred_unicode_string target ''S4U2proxyTarget'') (\<lambda>target.
        pbind (read_deferred_rpc_unicode_strings services_ref transited_list_size ''S4UTransitedServices'') (\<lambda>services.
        pbind (ensure_zero_trailing ''S4UDelegationInfo'') (\<lambda>_.
          pret \<lparr>s4u_proxy_target = target, s4u_transited_list_size = transited_list_size,
                s4u_transited_services = services\<rparr>))))))) (pr_new bs)) (\<lambda>(i, _). Inr i)"

record device_info =
  di_user_id :: u32
  di_primary_group_id :: u32
  di_account_domain_id :: "sid option"
  di_account_group_count :: u32
  di_account_group_ids :: "group_membership list"
  di_sid_count :: u32
  di_extra_sids :: "sid_and_attributes list"
  di_domain_group_count :: u32
  di_domain_group :: "domain_group_membership list"

definition device_info_parse :: "bytes \<Rightarrow> pac_error + device_info" where
  "device_info_parse bs =
     rbind (pbind (read_ndr_wrapper ''DeviceInfo'') (\<lambda>_.
        pbind read_ndr_u32 (\<lambda>user_id. pbind read_ndr_u32 (\<lambda>primary_group_id. pbind read_ndr_u32 (\<lambda>account_domain_id_ref.
        pbind read_ndr_u32 (\<lambda>account_group_count. pbind read_ndr_u32 (\<lambda>account_group_ids_ref. pbind read_ndr_u32 (\<lambda>sid_count.
        pbind read_ndr_u32 (\<lambda>extra_sids_ref. pbind read_ndr_u32 (\<lambda>domain_group_count. pbind read_ndr_u32 (\<lambda>domain_group_ref.
        pbind (read_deferred_sid account_domain_id_ref ''DeviceInfo.AccountDomainID'') (\<lambda>account_domain_id.
        pbind (read_deferred_group_memberships account_group_ids_ref account_group_count ''DeviceInfo.AccountGroupIDs'') (\<lambda>account_group_ids.
        pbind (read_deferred_sid_and_attributes extra_sids_ref sid_count ''DeviceInfo.ExtraSIDs'') (\<lambda>extra_sids.
        pbind (read_deferred_domain_group_memberships domain_group_ref domain_group_count ''DeviceInfo.DomainGroup'') (\<lambda>domain_group.
        pbind (ensure_zero_trailing ''DeviceInfo'') (\<lambda>_.
          pret \<lparr>di_user_id = user_id, di_primary_group_id = primary_group_id, di_account_domain_id = account_domain_id,
                di_account_group_count = account_group_count, di_account_group_ids = account_group_ids,
                di_sid_count = sid_count, di_extra_sids = extra_sids,
                di_domain_group_count = domain_group_count, di_domain_group = domain_group\<rparr>))))))))))))))) (pr_new bs))
       (\<lambda>(i, _). Inr i)"

section \<open>Claims\<close>

record claims_codec =
  cz_lznt1 :: "bytes \<Rightarrow> nat \<Rightarrow> bytes option"
  cz_xpress :: "bytes \<Rightarrow> nat \<Rightarrow> bytes option"
  cz_xpress_huffman :: "bytes \<Rightarrow> nat \<Rightarrow> bytes option"

record claims_set =
  cs_claims_array_count :: u32
  cs_claims_arrays :: "claims_array list"
  cs_reserved_type :: u16
  cs_reserved_field_size :: u32
  cs_reserved_field :: bytes

record claims_set_metadata =
  csm_claims_set_size :: u32
  csm_claims_set_bytes :: bytes
  csm_compression_format :: u16
  csm_uncompressed_claims_set_size :: u32
  csm_reserved_type :: u16
  csm_reserved_field_size :: u32
  csm_reserved_field :: bytes

record claims_info =
  cli_metadata :: claims_set_metadata
  cli_claims_set :: claims_set

definition claims_set_parse :: "bytes \<Rightarrow> pac_error + claims_set" where
  "claims_set_parse bs =
     rbind (pbind (read_ndr_wrapper ''ClaimsSet'') (\<lambda>_.
        pbind read_ndr_u32 (\<lambda>claims_array_count. pbind read_ndr_u32 (\<lambda>claims_arrays_ref.
        pbind read_ndr_u16 (\<lambda>reserved_type. pbind read_ndr_u32 (\<lambda>reserved_field_size. pbind read_ndr_u32 (\<lambda>reserved_field_ref.
        pbind (read_deferred_claims_arrays claims_arrays_ref claims_array_count ''ClaimsSet.ClaimsArrays'') (\<lambda>claims_arrays.
        pbind (read_deferred_u8_array reserved_field_ref reserved_field_size ''ClaimsSet.ReservedField'') (\<lambda>reserved_field.
        pbind (ensure_zero_trailing ''ClaimsSet'') (\<lambda>_.
          pret \<lparr>cs_claims_array_count = claims_array_count, cs_claims_arrays = claims_arrays, cs_reserved_type = reserved_type,
                cs_reserved_field_size = reserved_field_size, cs_reserved_field = reserved_field\<rparr>))))))))) (pr_new bs))
       (\<lambda>(i, _). Inr i)"

definition claims_set_metadata_parse :: "bytes \<Rightarrow> pac_error + claims_set_metadata" where
  "claims_set_metadata_parse bs =
     rbind (pbind (read_ndr_wrapper ''ClaimsSetMetadata'') (\<lambda>_.
        pbind read_ndr_u32 (\<lambda>claims_set_size. pbind read_ndr_u32 (\<lambda>claims_set_bytes_ref.
        pbind read_ndr_u16 (\<lambda>compression_format. pbind read_ndr_u32 (\<lambda>uncompressed_claims_set_size.
        pbind read_ndr_u16 (\<lambda>reserved_type. pbind read_ndr_u32 (\<lambda>reserved_field_size. pbind read_ndr_u32 (\<lambda>reserved_field_ref.
        pbind (read_deferred_u8_array claims_set_bytes_ref claims_set_size ''ClaimsSetMetadata.ClaimsSetBytes'') (\<lambda>claims_set_bytes.
        pbind (read_deferred_u8_array reserved_field_ref reserved_field_size ''ClaimsSetMetadata.ReservedField'') (\<lambda>reserved_field.
        pbind (ensure_zero_trailing ''ClaimsSetMetadata'') (\<lambda>_.
          pret \<lparr>csm_claims_set_size = claims_set_size, csm_claims_set_bytes = claims_set_bytes,
                csm_compression_format = compression_format, csm_uncompressed_claims_set_size = uncompressed_claims_set_size,
                csm_reserved_type = reserved_type, csm_reserved_field_size = reserved_field_size,
                csm_reserved_field = reserved_field\<rparr>))))))))))) (pr_new bs))
       (\<lambda>(i, _). Inr i)"

definition decompress_claims_set_bytes :: "(bytes \<Rightarrow> nat \<Rightarrow> bytes option) \<Rightarrow> u16 \<Rightarrow> bytes \<Rightarrow> u32 \<Rightarrow> pac_error + bytes" where
  "decompress_claims_set_bytes decompress compression_format bs uncompressed_size =
     rbind (ok_or (decompress bs (unat uncompressed_size)) (ClaimsDecompression compression_format)) (\<lambda>decoded.
       if length decoded \<noteq> unat uncompressed_size
       then Inl (ClaimsDecompressedSizeMismatch compression_format (unat uncompressed_size) (length decoded))
       else Inr decoded)"

definition decoded_claims_set_bytes :: "claims_codec \<Rightarrow> claims_set_metadata \<Rightarrow> pac_error + bytes" where
  "decoded_claims_set_bytes Z md =
     (let fmt = csm_compression_format md; bs = csm_claims_set_bytes md; n = csm_uncompressed_claims_set_size md in
      if fmt = 0 then Inr bs
      else if fmt = 2 then decompress_claims_set_bytes (cz_lznt1 Z) fmt bs n
      else if fmt = 3 then decompress_claims_set_bytes (cz_xpress Z) fmt (to_bytes_en Little (ucast n :: u64) @ bs) n
      else if fmt = 4 then decompress_claims_set_bytes (cz_xpress_huffman Z) fmt (to_bytes_en Little n @ bs) n
      else Inl (UnsupportedClaimsCompressionFormat fmt))"

definition metadata_claims_set :: "claims_codec \<Rightarrow> claims_set_metadata \<Rightarrow> pac_error + claims_set" where
  "metadata_claims_set Z md = rbind (decoded_claims_set_bytes Z md) claims_set_parse"

definition claims_info_parse :: "claims_codec \<Rightarrow> bytes \<Rightarrow> pac_error + claims_info" where
  "claims_info_parse Z bs =
     rbind (claims_set_metadata_parse bs) (\<lambda>md. rbind (metadata_claims_set Z md) (\<lambda>cs.
       Inr \<lparr>cli_metadata = md, cli_claims_set = cs\<rparr>))"

fun claim_values_len :: "claim_values \<Rightarrow> nat" where
  "claim_values_len (ClaimInt64 vs) = length vs"
| "claim_values_len (ClaimUInt64 vs) = length vs"
| "claim_values_len (ClaimString vs) = length vs"
| "claim_values_len (ClaimBoolean vs) = length vs"

section \<open>Logon information\<close>

record kerb_validation_info =
  kvi_logon_time :: file_time
  kvi_logoff_time :: file_time
  kvi_kickoff_time :: file_time
  kvi_password_last_set :: file_time
  kvi_password_can_change :: file_time
  kvi_password_must_change :: file_time
  kvi_effective_name :: rpc_unicode_string
  kvi_full_name :: rpc_unicode_string
  kvi_logon_script :: rpc_unicode_string
  kvi_profile_path :: rpc_unicode_string
  kvi_home_directory :: rpc_unicode_string
  kvi_home_directory_drive :: rpc_unicode_string
  kvi_logon_count :: u16
  kvi_bad_password_count :: u16
  kvi_user_id :: u32
  kvi_primary_group_id :: u32
  kvi_group_count :: u32
  kvi_group_ids :: "group_membership list"
  kvi_user_flags :: u32
  kvi_user_session_key :: bytes
  kvi_logon_server :: rpc_unicode_string
  kvi_logon_domain_name :: rpc_unicode_string
  kvi_logon_domain_id :: "sid option"
  kvi_reserved1 :: "u32 \<times> u32"
  kvi_user_account_control :: u32
  kvi_sub_auth_status :: u32
  kvi_last_successful_ilogon :: file_time
  kvi_last_failed_ilogon :: file_time
  kvi_failed_ilogon_count :: u32
  kvi_reserved3 :: u32
  kvi_sid_count :: u32
  kvi_extra_sids :: "sid_and_attributes list"
  kvi_resource_group_domain_sid :: "sid option"
  kvi_resource_group_count :: u32
  kvi_resource_group_ids :: "group_membership list"

definition kvi_end :: "unit pread" where
  "kvi_end = pbind (pr_align 4) (\<lambda>_ r.
     if list_ex (\<lambda>b. b \<noteq> 0) (pr_remaining_bytes r) then Inl (TrailingNdrBytes (pr_remaining r)) else Inr ((), r))"

definition kerb_validation_info_read :: "kerb_validation_info pread" where
  "kerb_validation_info_read =
     pbind (read_ndr_wrapper ''KERB_VALIDATION_INFO'') (\<lambda>_.
     pbind pr_read_filetime (\<lambda>logon_time. pbind pr_read_filetime (\<lambda>logoff_time. pbind pr_read_filetime (\<lambda>kickoff_time.
     pbind pr_read_filetime (\<lambda>password_last_set. pbind pr_read_filetime (\<lambda>password_can_change. pbind pr_read_filetime (\<lambda>password_must_change.
     pbind rud_read (\<lambda>effective_name. pbind rud_read (\<lambda>full_name. pbind rud_read (\<lambda>logon_script.
     pbind rud_read (\<lambda>profile_path. pbind rud_read (\<lambda>home_directory. pbind rud_read (\<lambda>home_directory_drive.
     pbind pr_read_u16 (\<lambda>logon_count. pbind pr_read_u16 (\<lambda>bad_password_count. pbind pr_read_u32 (\<lambda>user_id.
     pbind pr_read_u32 (\<lambda>primary_group_id. pbind pr_read_u32 (\<lambda>group_count. pbind pr_read_u32 (\<lambda>group_ids_ref.
     pbind pr_read_u32 (\<lambda>user_flags. pbind (pr_read_bytes 16) (\<lambda>user_session_key.
     pbind rud_read (\<lambda>logon_server. pbind rud_read (\<lambda>logon_domain_name. pbind pr_read_u32 (\<lambda>logon_domain_id_ref.
     pbind pr_read_u32 (\<lambda>reserved1a. pbind pr_read_u32 (\<lambda>reserved1b. pbind pr_read_u32 (\<lambda>user_account_control.
     pbind pr_read_u32 (\<lambda>sub_auth_status. pbind pr_read_filetime (\<lambda>last_successful_ilogon. pbind pr_read_filetime (\<lambda>last_failed_ilogon.
     pbind pr_read_u32 (\<lambda>failed_ilogon_count. pbind pr_read_u32 (\<lambda>reserved3. pbind pr_read_u32 (\<lambda>sid_count.
     pbind pr_read_u32 (\<lambda>extra_sids_ref. pbind pr_read_u32 (\<lambda>resource_group_domain_sid_ref.
     pbind pr_read_u32 (\<lambda>resource_group_count. pbind pr_read_u32 (\<lambda>resource_group_ids_ref.
     pbind (read_deferred_unicode_string effective_name ''EffectiveName'') (\<lambda>effective_name.
     pbind (read_deferred_unicode_string full_name ''FullName'') (\<lambda>full_name.
     pbind (read_deferred_unicode_string logon_script ''LogonScript'') (\<lambda>logon_script.
     pbind (read_deferred_unicode_string profile_path ''ProfilePath'') (\<lambda>profile_path.
     pbind (read_deferred_unicode_string home_directory ''HomeDirectory'') (\<lambda>home_directory.
     pbind (read_deferred_unicode_string home_directory_drive ''HomeDirectoryDrive'') (\<lambda>home_directory_drive.
     pbind (read_deferred_group_memberships group_ids_ref group_count ''GroupIDs'') (\<lambda>group_ids.
     pbind (read_deferred_unicode_string logon_server ''LogonServer'') (\<lambda>logon_server.
     pbind (read_deferred_unicode_string logon_domain_name ''LogonDomainName'') (\<lambda>logon_domain_name.
     pbind (read_deferred_sid logon_domain_id_ref ''LogonDomainID'') (\<lambda>logon_domain_id.
     pbind (read_deferred_sid_and_attributes extra_sids_ref sid_count ''ExtraSIDs'') (\<lambda>extra_sids.
     pbind (read_deferred_sid resource_group_domain_sid_ref ''ResourceGroupDomainSID'') (\<lambda>resource_group_domain_sid.
     pbind (read_deferred_group_memberships resource_group_ids_ref resource_group_count ''ResourceGroupIDs'') (\<lambda>resource_group_ids.
     pbind kvi_end (\<lambda>_.
       pret \<lparr>kvi_logon_time = logon_time, kvi_logoff_time = logoff_time, kvi_kickoff_time = kickoff_time,
             kvi_password_last_set = password_last_set, kvi_password_can_change = password_can_change,
             kvi_password_must_change = password_must_change, kvi_effective_name = effective_name,
             kvi_full_name = full_name, kvi_logon_script = logon_script, kvi_profile_path = profile_path,
             kvi_home_directory = home_directory, kvi_home_directory_drive = home_directory_drive,
             kvi_logon_count = logon_count, kvi_bad_password_count = bad_password_count, kvi_user_id = user_id,
             kvi_primary_group_id = primary_group_id, kvi_group_count = group_count, kvi_group_ids = group_ids,
             kvi_user_flags = user_flags, kvi_user_session_key = user_session_key, kvi_logon_server = logon_server,
             kvi_logon_domain_name = logon_domain_name, kvi_logon_domain_id = logon_domain_id,
             kvi_reserved1 = (reserved1a, reserved1b), kvi_user_account_control = user_account_control,
             kvi_sub_auth_status = sub_auth_status, kvi_last_successful_ilogon = last_successful_ilogon,
             kvi_last_failed_ilogon = last_failed_ilogon, kvi_failed_ilogon_count = failed_ilogon_count,
             kvi_reserved3 = reserved3, kvi_sid_count = sid_count, kvi_extra_sids = extra_sids,
             kvi_resource_group_domain_sid = resource_group_domain_sid, kvi_resource_group_count = resource_group_count,
             kvi_resource_group_ids = resource_group_ids\<rparr>)))))))))))))))))))))))))))))))))))))))))))))))))))"

definition kerb_validation_info_parse :: "bytes \<Rightarrow> pac_error + kerb_validation_info" where
  "kerb_validation_info_parse bs = rbind (kerb_validation_info_read (pr_new bs)) (\<lambda>(i, _). Inr i)"

section \<open>Identifiers as text\<close>

text \<open>\<open>Display\<close> for \<open>Sid\<close>.\<close>

definition sid_display :: "sid \<Rightarrow> string" where
  "sid_display s =
     (let authority = be_nat (sid_identifier_authority s);
          head = (if authority > 2 ^ 32 - 1
            then ''S-'' @ dec_str (unat (sid_revision s)) @ ''-0x'' @ hex_encode (sid_identifier_authority s)
            else ''S-'' @ dec_str (unat (sid_revision s)) @ ''-'' @ dec_str authority)
      in head @ concat (map (\<lambda>a. ''-'' @ dec_str (unat a)) (sid_sub_authorities s)))"

definition member_sid :: "sid \<Rightarrow> group_membership \<Rightarrow> string" where
  "member_sid d g = sid_display d @ ''-'' @ dec_str (unat (gm_relative_id g))"

definition push_new :: "string list \<Rightarrow> string \<Rightarrow> string list" where
  "push_new sids sid = (if sid \<in> set sids then sids else sids @ [sid])"

definition group_membership_sids :: "kerb_validation_info \<Rightarrow> string list" where
  "group_membership_sids i =
     (let sids = (case kvi_logon_domain_id i of None \<Rightarrow> []
            | Some domain_sid \<Rightarrow> map (member_sid domain_sid) (kvi_group_ids i));
          sids = foldl push_new sids (map (\<lambda>e. sid_display (saa_sid e)) (kvi_extra_sids i))
      in case kvi_resource_group_domain_sid i of None \<Rightarrow> sids
         | Some resource_domain_sid \<Rightarrow> foldl push_new sids (map (member_sid resource_domain_sid) (kvi_resource_group_ids i)))"

definition device_group_membership_sids :: "device_info \<Rightarrow> string list" where
  "device_group_membership_sids i =
     (let sids = (case di_account_domain_id i of None \<Rightarrow> []
            | Some account_domain_sid \<Rightarrow> map (member_sid account_domain_sid) (di_account_group_ids i));
          sids = foldl push_new sids (map (\<lambda>e. sid_display (saa_sid e)) (di_extra_sids i))
      in foldl (\<lambda>sids dg. foldl push_new sids (map (member_sid (dgm_domain_id dg)) (dgm_group_ids dg))) sids (di_domain_group i))"

record ad_credentials =
  adc_effective_name :: string
  adc_full_name :: string
  adc_user_id :: u32
  adc_primary_group_id :: u32
  adc_logon_time :: system_time
  adc_logoff_time :: system_time
  adc_password_last_set :: system_time
  adc_group_membership_sids :: "string list"
  adc_logon_domain_name :: string
  adc_logon_domain_id :: "string option"
  adc_logon_server :: string

definition kvi_ad_credentials :: "kerb_validation_info \<Rightarrow> ad_credentials" where
  "kvi_ad_credentials i =
     \<lparr>adc_effective_name = rus_value (kvi_effective_name i), adc_full_name = rus_value (kvi_full_name i),
      adc_user_id = kvi_user_id i, adc_primary_group_id = kvi_primary_group_id i,
      adc_logon_time = file_time_system_time (kvi_logon_time i),
      adc_logoff_time = file_time_system_time (kvi_logoff_time i),
      adc_password_last_set = file_time_system_time (kvi_password_last_set i),
      adc_group_membership_sids = group_membership_sids i,
      adc_logon_domain_name = rus_value (kvi_logon_domain_name i),
      adc_logon_domain_id = map_option sid_display (kvi_logon_domain_id i),
      adc_logon_server = rus_value (kvi_logon_server i)\<rparr>"

section \<open>The container\<close>

record info_buffer =
  ib_ul_type :: u32
  ib_cb_buffer_size :: u32
  ib_offset :: u64

record pac =
  pac_c_buffers :: u32
  pac_version :: u32
  pac_buffers :: "info_buffer list"
  pac_data :: bytes
  pac_zero_signature_data :: bytes
  pac_kerb_validation_info :: "kerb_validation_info option"
  pac_server_checksum :: "signature_data option"
  pac_kdc_checksum :: "signature_data option"
  pac_credentials_info :: "credentials_info option"
  pac_client_info :: "client_info option"
  pac_upn_dns_info :: "upn_dns_info option"
  pac_s4u_delegation_info :: "s4u_delegation_info option"
  pac_device_info :: "device_info option"
  pac_client_claims_info :: "claims_info option"
  pac_device_claims_info :: "claims_info option"

definition ib_validate :: "info_buffer \<Rightarrow> nat \<Rightarrow> pac_error + unit" where
  "ib_validate b total_len =
     (if unat (ib_offset b) mod 8 \<noteq> 0 then Inl (BufferOffsetNotAligned (ib_ul_type b) (ib_offset b))
      else case usize_checked_add (unat (ib_offset b)) (unat (ib_cb_buffer_size b)) of
          Some end \<Rightarrow> if end \<le> total_len then Inr ()
             else Inl (BufferOutOfBounds (ib_ul_type b) (ib_offset b) (ib_cb_buffer_size b) total_len)
        | None \<Rightarrow> Inl (BufferOutOfBounds (ib_ul_type b) (ib_offset b) (ib_cb_buffer_size b) total_len))"

definition ib_slice :: "info_buffer \<Rightarrow> bytes \<Rightarrow> pac_error + bytes" where
  "ib_slice b bs =
     rbind (ib_validate b (length bs)) (\<lambda>_.
       Inr (slice bs (unat (ib_offset b)) (unat (ib_offset b) + unat (ib_cb_buffer_size b))))"

definition ib_copy_zeroed_signature :: "info_buffer \<Rightarrow> bytes \<Rightarrow> signature_data \<Rightarrow> pac_error + bytes" where
  "ib_copy_zeroed_signature b zero_signature_data sig =
     (let offset = unat (ib_offset b); len = unat (ib_cb_buffer_size b) in
      rbind (ok_or (usize_checked_add offset len) PacLengthOverflow) (\<lambda>end.
        if end > length zero_signature_data \<or> len \<noteq> length (sd_zeroed_data sig)
        then Inl (BufferOutOfBounds (ib_ul_type b) (ib_offset b) (ib_cb_buffer_size b) (length zero_signature_data))
        else Inr (take offset zero_signature_data @ sd_zeroed_data sig @ drop end zero_signature_data)))"

definition ib_read :: "info_buffer pread" where
  "ib_read = pbind pr_read_u32 (\<lambda>ul_type. pbind pr_read_u32 (\<lambda>cb_buffer_size. pbind pr_read_u64 (\<lambda>offset.
     pret \<lparr>ib_ul_type = ul_type, ib_cb_buffer_size = cb_buffer_size, ib_offset = offset\<rparr>)))"

fun ib_validate_all :: "info_buffer list \<Rightarrow> nat \<Rightarrow> pac_error + unit" where
  "ib_validate_all [] n = Inr ()"
| "ib_validate_all (b # bs) n = rbind (ib_validate b n) (\<lambda>_. ib_validate_all bs n)"

definition pac_parse :: "bytes \<Rightarrow> pac_error + pac" where
  "pac_parse bs =
     rbind (pbind pr_read_u32 (\<lambda>c_buffers. pbind pr_read_u32 (\<lambda>version.
       let minimum = 8 + unat c_buffers * 16 in
       if length bs < minimum then pfail (PacTooShort ''PAC info buffer table'' minimum (length bs))
       else pbind (pr_many (unat c_buffers) ib_read) (\<lambda>buffers. pret (c_buffers, version, buffers)))) (pr_new bs))
     (\<lambda>((c_buffers, version, buffers), _).
       rbind (ib_validate_all buffers (length bs)) (\<lambda>_.
         Inr \<lparr>pac_c_buffers = c_buffers, pac_version = version, pac_buffers = buffers, pac_data = bs,
              pac_zero_signature_data = bs, pac_kerb_validation_info = None, pac_server_checksum = None,
              pac_kdc_checksum = None, pac_credentials_info = None, pac_client_info = None, pac_upn_dns_info = None,
              pac_s4u_delegation_info = None, pac_device_info = None, pac_client_claims_info = None,
              pac_device_claims_info = None\<rparr>))"

definition pac_process_buffer :: "claims_codec \<Rightarrow> pac \<Rightarrow> info_buffer \<Rightarrow> pac_error + pac" where
  "pac_process_buffer Z p b =
     rbind (ib_slice b (pac_data p)) (\<lambda>bs.
       if ib_ul_type b = 1 \<and> pac_kerb_validation_info p = None then
         rbind (kerb_validation_info_parse bs) (\<lambda>i. Inr (p\<lparr>pac_kerb_validation_info := Some i\<rparr>))
       else if ib_ul_type b = 6 \<and> pac_server_checksum p = None then
         rbind (signature_data_parse bs) (\<lambda>checksum.
         rbind (ib_copy_zeroed_signature b (pac_zero_signature_data p) checksum) (\<lambda>z.
           Inr (p\<lparr>pac_zero_signature_data := z, pac_server_checksum := Some checksum\<rparr>)))
       else if ib_ul_type b = 7 \<and> pac_kdc_checksum p = None then
         rbind (signature_data_parse bs) (\<lambda>checksum.
         rbind (ib_copy_zeroed_signature b (pac_zero_signature_data p) checksum) (\<lambda>z.
           Inr (p\<lparr>pac_zero_signature_data := z, pac_kdc_checksum := Some checksum\<rparr>)))
       else if ib_ul_type b = 2 \<and> pac_credentials_info p = None then
         rbind (credentials_info_parse bs) (\<lambda>i. Inr (p\<lparr>pac_credentials_info := Some i\<rparr>))
       else if ib_ul_type b = 10 \<and> pac_client_info p = None then
         rbind (client_info_parse bs) (\<lambda>i. Inr (p\<lparr>pac_client_info := Some i\<rparr>))
       else if ib_ul_type b = 12 \<and> pac_upn_dns_info p = None then
         rbind (upn_dns_info_parse bs) (\<lambda>i. Inr (p\<lparr>pac_upn_dns_info := Some i\<rparr>))
       else if ib_ul_type b = 11 \<and> pac_s4u_delegation_info p = None then
         rbind (s4u_delegation_info_parse bs) (\<lambda>i. Inr (p\<lparr>pac_s4u_delegation_info := Some i\<rparr>))
       else if ib_ul_type b = 14 \<and> pac_device_info p = None then
         rbind (device_info_parse bs) (\<lambda>i. Inr (p\<lparr>pac_device_info := Some i\<rparr>))
       else if ib_ul_type b = 13 \<and> pac_client_claims_info p = None then
         rbind (claims_info_parse Z bs) (\<lambda>i. Inr (p\<lparr>pac_client_claims_info := Some i\<rparr>))
       else if ib_ul_type b = 15 \<and> pac_device_claims_info p = None then
         rbind (claims_info_parse Z bs) (\<lambda>i. Inr (p\<lparr>pac_device_claims_info := Some i\<rparr>))
       else Inr p)"

fun pac_process_loop :: "claims_codec \<Rightarrow> pac \<Rightarrow> info_buffer list \<Rightarrow> pac_error + pac" where
  "pac_process_loop Z p [] = Inr p"
| "pac_process_loop Z p (b # bs) = rbind (pac_process_buffer Z p b) (\<lambda>p'. pac_process_loop Z p' bs)"

definition pac_process_buffers :: "claims_codec \<Rightarrow> pac \<Rightarrow> pac_error + pac" where
  "pac_process_buffers Z p = pac_process_loop Z p (pac_buffers p)"

definition pac_parse_and_process :: "claims_codec \<Rightarrow> bytes \<Rightarrow> pac_error + pac" where
  "pac_parse_and_process Z bs = rbind (pac_parse bs) (pac_process_buffers Z)"

definition pac_ad_credentials :: "pac \<Rightarrow> ad_credentials option" where
  "pac_ad_credentials p = map_option kvi_ad_credentials (pac_kerb_validation_info p)"

definition pac_buffer :: "pac \<Rightarrow> u32 \<Rightarrow> info_buffer option" where
  "pac_buffer p ul_type = List.find (\<lambda>b. ib_ul_type b = ul_type) (pac_buffers p)"

definition pac_buffer_bytes :: "pac \<Rightarrow> info_buffer \<Rightarrow> pac_error + bytes" where
  "pac_buffer_bytes p b = ib_slice b (pac_data p)"

section \<open>Verification\<close>

definition require_service_buffers :: "pac \<Rightarrow> pac_error + unit" where
  "require_service_buffers p =
     (if pac_kerb_validation_info p = None then Inl (MissingRequiredBuffer ''KerbValidationInfo'')
      else if pac_server_checksum p = None then Inl (MissingRequiredBuffer ''ServerChecksum'')
      else if pac_kdc_checksum p = None then Inl (MissingRequiredBuffer ''KDCChecksum'')
      else if pac_client_info p = None then Inl (MissingRequiredBuffer ''ClientInfo'')
      else Inr ())"

definition kerberos_etype_for_checksum_type :: "u32 \<Rightarrow> kerberos_etype option" where
  "kerberos_etype_for_checksum_type signature_type =
     Option.bind (i32_try_from_u32 signature_type) ket_from_checksum_type_id"

definition verify_server_checksum :: "crypto_prims \<Rightarrow> pac \<Rightarrow> kt_key \<Rightarrow> pac_error + bool" where
  "verify_server_checksum P p key =
     rbind (ok_or (pac_server_checksum p) (MissingRequiredBuffer ''ServerChecksum'')) (\<lambda>checksum.
     rbind (ok_or (kerberos_etype_for_checksum_type (sd_signature_type checksum))
         (UnsupportedChecksumType (sd_signature_type checksum))) (\<lambda>etype.
       if kt_etype key \<noteq> ket_etype_id etype then Inr False
       else Inr (ket_verify_checksum P etype (kt_value key) (pac_zero_signature_data p) (sd_signature checksum) 17)))"

definition pac_verify :: "crypto_prims \<Rightarrow> pac \<Rightarrow> kt_key \<Rightarrow> pac_error + unit" where
  "pac_verify P p key =
     rbind (require_service_buffers p) (\<lambda>_.
     rbind (verify_server_checksum P p key) (\<lambda>ok.
       if ok then Inr () else Inl ServerChecksumVerificationFailed))"

section \<open>Authorization data\<close>

text \<open>
  \<open>find_pac_in_authorization_data\<close> recurses into the DER-encoded content of \<open>AD-IF-RELEVANT\<close>
  entries.  The nesting is bounded by fuel; \<open>NestingExhausted\<close> stands for a recursion deeper than the
  fuel, which a decoder that returns shorter parts never reaches with more fuel than \<open>ad_size\<close>.
\<close>

datatype pac_search = PacFound pac | PacAbsent | PacFailed pac_error | NestingExhausted

fun find_pac_loop :: "(bytes \<Rightarrow> ad_entry list option) \<Rightarrow> claims_codec \<Rightarrow> nat \<Rightarrow> ad_entry list \<Rightarrow> pac_search" where
  "find_pac_loop dec Z n [] = PacAbsent"
| "find_pac_loop dec Z n (e # es) =
     (if ad_type e = 128 then
        (case pac_parse_and_process Z (ad_data e) of Inl er \<Rightarrow> PacFailed er | Inr p \<Rightarrow> PacFound p)
      else if ad_type e = 1 then
        (case dec (ad_data e) of
           None \<Rightarrow> PacFailed PacDerDecode
         | Some nested \<Rightarrow>
             (case n of
                0 \<Rightarrow> NestingExhausted
              | Suc m \<Rightarrow>
                  (case find_pac_loop dec Z m nested of
                     PacAbsent \<Rightarrow> find_pac_loop dec Z n es
                   | found \<Rightarrow> found)))
      else find_pac_loop dec Z n es)"

definition find_pac_in_authorization_data :: "asn1 \<Rightarrow> claims_codec \<Rightarrow> ad_entry list \<Rightarrow> pac_search" where
  "find_pac_in_authorization_data A Z es = find_pac_loop (dec_authorization_data A) Z (Suc (ad_size es)) es"

end
