(* ===== verification/Service.thy ===== *)
theory Service
  imports Ap_Exchange Pac
begin

text \<open>
  \<open>src/service.rs\<close>: the acceptor of AP-REQ messages.  \<open>validator\<close> is \<open>ServiceValidator\<close>;
  \<open>validate_ap_req\<close> is the whole handler, every check in the order of the code and the replay cache as
  its only effect.  A shared replay cache is an \<open>Arc<Mutex<ReplayCache>>\<close>: the validator holds a reference and
  the caches live in a store that is passed along, so that validators can share one.  The handler reads
  the clock twice (\<open>c1\<close> for the ticket times, \<open>c2\<close> for the skew and the replay cache); a clock set with
  \<open>with_now\<close> overrides both.
\<close>

section \<open>Data\<close>

record principal =
  p_realm :: string
  p_name_type :: i32
  p_components :: "string list"

definition p_name :: "principal \<Rightarrow> string" where
  "p_name p = join_with (CHR ''/'') (p_components p)"

record host_address =
  ha_addr_type :: i32
  ha_address :: bytes

definition host_address_ipv4 :: "bytes \<Rightarrow> host_address" where
  "host_address_ipv4 a = \<lparr>ha_addr_type = 2, ha_address = a\<rparr>"

record validated_ap_req =
  va_client :: principal
  va_service :: principal
  va_session_key :: kt_key
  va_subkey :: "kt_key option"
  va_sequence_number :: "u32 option"
  va_ticket_start :: system_time
  va_ticket_end :: system_time
  va_authenticator_ctime :: system_time
  va_authenticator_cusec :: u32
  va_authenticator_time :: system_time
  va_pac :: "pac option"

record ap_rep_options =
  aro_subkey :: "kt_key option"
  aro_sequence_number :: "u32 option"
  aro_kvno :: "u32 option"

record verified_ap_rep =
  vr_ctime :: system_time
  vr_cusec :: u32
  vr_authenticator_time :: system_time
  vr_subkey :: "kt_key option"
  vr_sequence_number :: "u32 option"

record replay_key =
  rpk_service :: principal
  rpk_client :: principal
  rpk_ctime_seconds :: int
  rpk_cusec :: u32

datatype service_error =
    SvcDecode string
  | SvcEncode string
  | InvalidString
  | IntegerOutOfRange string int
  | SvcInvalidMessage string int int
  | SvcUnsupportedEtype i32
  | ApRepKeyEtypeMismatch i32 i32
  | ApReqKeyEtypeMismatch i32 i32
  | TicketKeyEtypeMismatch i32 i32
  | SvcKeytab store_error
  | SvcCrypto crypto_error
  | SvcRandom
  | SvcPac pac_error
  | PacNesting \<comment> \<open>the recursion into authorization data did not end\<close>
  | TicketNotYetValid string string \<comment> \<open>service, realm\<close>
  | TicketExpired string string
  | ClientPrincipalMismatch string string \<comment> \<open>of the ticket, of the authenticator\<close>
  | ClockSkew duration
  | Replay
  | ReplayCachePoisoned
  | ApRepTimestampMismatch system_time system_time
  | BadClientAddress string string
  | RequiredClientAddressMissing string string
  | TimeOverflow

fun ap_req_error :: "message_error \<Rightarrow> service_error" where
  "ap_req_error (MsgDecode t) = SvcDecode t"
| "ap_req_error (MsgEncode t) = SvcEncode t"
| "ap_req_error (MsgInvalidMessage f e a) = SvcInvalidMessage f e a"
| "ap_req_error (MsgUnsupportedEtype e) = SvcUnsupportedEtype e"
| "ap_req_error (MsgKeyEtypeMismatch k d) = ApReqKeyEtypeMismatch k d"
| "ap_req_error MsgRandom = SvcRandom"
| "ap_req_error (MsgCrypto e) = SvcCrypto e"

fun ticket_error :: "message_error \<Rightarrow> service_error" where
  "ticket_error (MsgDecode t) = SvcDecode t"
| "ticket_error (MsgEncode t) = SvcEncode t"
| "ticket_error (MsgInvalidMessage f e a) = SvcInvalidMessage f e a"
| "ticket_error (MsgUnsupportedEtype e) = SvcUnsupportedEtype e"
| "ticket_error (MsgKeyEtypeMismatch k d) = TicketKeyEtypeMismatch k d"
| "ticket_error MsgRandom = SvcRandom"
| "ticket_error (MsgCrypto e) = SvcCrypto e"

fun ap_rep_error :: "message_error \<Rightarrow> service_error" where
  "ap_rep_error (MsgDecode t) = SvcDecode t"
| "ap_rep_error (MsgEncode t) = SvcEncode t"
| "ap_rep_error (MsgInvalidMessage f e a) = SvcInvalidMessage f e a"
| "ap_rep_error (MsgUnsupportedEtype e) = SvcUnsupportedEtype e"
| "ap_rep_error (MsgKeyEtypeMismatch k d) = ApRepKeyEtypeMismatch k d"
| "ap_rep_error MsgRandom = SvcRandom"
| "ap_rep_error (MsgCrypto e) = SvcCrypto e"

section \<open>Conversions\<close>

definition kerberos_string_to_string :: "bytes \<Rightarrow> service_error + string" where
  "kerberos_string_to_string bs = (if utf8_valid bs then Inr (bytes_str bs) else Inl InvalidString)"

fun kerberos_strings :: "bytes list \<Rightarrow> service_error + string list" where
  "kerberos_strings [] = Inr []"
| "kerberos_strings (b # bs) =
     rbind (kerberos_string_to_string b) (\<lambda>s. rbind (kerberos_strings bs) (\<lambda>ss. Inr (s # ss)))"

definition principal_from_parts :: "bytes \<Rightarrow> principal_name \<Rightarrow> service_error + principal" where
  "principal_from_parts realm name =
     rbind (kerberos_string_to_string realm) (\<lambda>r.
     rbind (kerberos_strings (pn_string name)) (\<lambda>comps.
       Inr \<lparr>p_realm = r, p_name_type = pn_type name, p_components = comps\<rparr>))"

definition encryption_key_from_rasn :: "rasn_key \<Rightarrow> kt_key" where
  "encryption_key_from_rasn k = \<lparr>kt_etype = rk_type k, kt_value = rk_value k\<rparr>"

definition encryption_key_to_rasn :: "kt_key \<Rightarrow> rasn_key" where
  "encryption_key_to_rasn k = \<lparr>rk_type = kt_etype k, rk_value = kt_value k\<rparr>"

text \<open>For times before the epoch the fraction is subtracted as well.\<close>

definition system_time_from_kerberos_time :: "kerberos_time \<Rightarrow> service_error + system_time" where
  "system_time_from_kerberos_time t =
     ok_or (if kt_seconds t \<ge> 0
            then st_checked_add 0 (nat (kt_seconds t) * 1000000000 + kt_subsec_nanos t)
            else st_checked_sub 0 (nat (- kt_seconds t) * 1000000000 + kt_subsec_nanos t)) TimeOverflow"

definition ticket_start_time :: "enc_ticket_part \<Rightarrow> service_error + system_time" where
  "ticket_start_time t =
     system_time_from_kerberos_time (case et_start_time t of Some s \<Rightarrow> s | None \<Rightarrow> et_auth_time t)"

definition unix_timestamp_parts :: "system_time \<Rightarrow> service_error + (int \<times> nat)" where
  "unix_timestamp_parts t =
     (case duration_since t 0 of
        Some d \<Rightarrow>
          if d div 1000000000 < 2 ^ 63 then Inr (int (d div 1000000000), d mod 1000000000) else Inl TimeOverflow
      | None \<Rightarrow>
          let d = nat (- t) in
          if d div 1000000000 < 2 ^ 63 then
            if d mod 1000000000 = 0 then Inr (- int (d div 1000000000), 0)
            else if d div 1000000000 + 1 < 2 ^ 63
            then Inr (- int (d div 1000000000 + 1), 1000000000 - d mod 1000000000)
            else Inl TimeOverflow
          else Inl TimeOverflow)"

definition kerberos_time_from_system_time :: "asn1 \<Rightarrow> system_time \<Rightarrow> service_error + kerberos_time" where
  "kerberos_time_from_system_time A t =
     rbind (unix_timestamp_parts t) (\<lambda>(seconds, nanos). ok_or (from_timestamp A seconds nanos) TimeOverflow)"

definition integer_to_u32 :: "string \<Rightarrow> int \<Rightarrow> service_error + u32" where
  "integer_to_u32 field v = ok_or (int_parse_u32 v) (IntegerOutOfRange field v)"

definition has_invalid_flag :: "bool list \<Rightarrow> bool" where
  "has_invalid_flag flags \<longleftrightarrow> 7 < length flags \<and> flags ! 7"

definition starts_after_skew :: "system_time \<Rightarrow> system_time \<Rightarrow> duration \<Rightarrow> bool" where
  "starts_after_skew start now max_clock_skew =
     (case duration_since start now of Some delta \<Rightarrow> delta > max_clock_skew | None \<Rightarrow> False)"

definition expired_after_skew :: "system_time \<Rightarrow> system_time \<Rightarrow> duration \<Rightarrow> bool" where
  "expired_after_skew now end max_clock_skew =
     (case duration_since now end of Some delta \<Rightarrow> delta > max_clock_skew | None \<Rightarrow> False)"

definition abs_duration :: "system_time \<Rightarrow> system_time \<Rightarrow> duration" where
  "abs_duration l r = (case duration_since l r of Some d \<Rightarrow> d | None \<Rightarrow> (case duration_since r l of Some d \<Rightarrow> d | None \<Rightarrow> 0))"

section \<open>The replay cache\<close>

type_synonym replay_cache = "replay_key \<rightharpoonup> system_time"

definition replay_cache_new :: replay_cache where
  "replay_cache_new = Map.empty"

definition replay_cache_clear :: "replay_cache \<Rightarrow> replay_cache" where
  "replay_cache_clear c = Map.empty"

definition replay_cache_len :: "replay_cache \<Rightarrow> nat" where
  "replay_cache_len c = card (dom c)"

definition replay_cache_is_empty :: "replay_cache \<Rightarrow> bool" where
  "replay_cache_is_empty c \<longleftrightarrow> dom c = {}"

text \<open>An entry stays when its age is at most \<open>max_age\<close> or when it lies in the future.\<close>

definition replay_keep :: "duration \<Rightarrow> system_time \<Rightarrow> system_time \<Rightarrow> bool" where
  "replay_keep max_age now presented_at =
     (case duration_since now presented_at of Some age \<Rightarrow> age \<le> max_age | None \<Rightarrow> True)"

definition clear_older_than_at :: "replay_cache \<Rightarrow> duration \<Rightarrow> system_time \<Rightarrow> replay_cache \<times> nat" where
  "clear_older_than_at c max_age now =
     (let c' = (\<lambda>k. case c k of Some t \<Rightarrow> if replay_keep max_age now t then Some t else None | None \<Rightarrow> None)
      in (c', card (dom c) - card (dom c')))"

definition replay_cache_insert :: "replay_cache \<Rightarrow> replay_key \<Rightarrow> system_time \<Rightarrow> replay_cache \<times> bool" where
  "replay_cache_insert c key presented_at = (c(key \<mapsto> presented_at), c key = None)"

text \<open>A mutex is poisoned when a thread panicked while holding it.\<close>

record shared_cache =
  sc_cache :: replay_cache
  sc_poisoned :: bool

type_synonym cache_ref = nat
type_synonym cache_store = "cache_ref \<Rightarrow> shared_cache"

definition shared_from_cache :: "replay_cache \<Rightarrow> shared_cache" where
  "shared_from_cache c = \<lparr>sc_cache = c, sc_poisoned = False\<rparr>"

definition with_cache :: "cache_store \<Rightarrow> cache_ref \<Rightarrow> (replay_cache \<Rightarrow> 'r) \<Rightarrow> service_error + 'r" where
  "with_cache S r f = (if sc_poisoned (S r) then Inl ReplayCachePoisoned else Inr (f (sc_cache (S r))))"

definition with_cache_mut ::
  "cache_store \<Rightarrow> cache_ref \<Rightarrow> (replay_cache \<Rightarrow> replay_cache \<times> 'r) \<Rightarrow> (service_error + 'r) \<times> cache_store" where
  "with_cache_mut S r f =
     (if sc_poisoned (S r) then (Inl ReplayCachePoisoned, S)
      else (case f (sc_cache (S r)) of (c', x) \<Rightarrow> (Inr x, S(r := (S r)\<lparr>sc_cache := c'\<rparr>))))"

definition shared_clear :: "cache_store \<Rightarrow> cache_ref \<Rightarrow> (service_error + unit) \<times> cache_store" where
  "shared_clear S r = with_cache_mut S r (\<lambda>c. (replay_cache_clear c, ()))"

definition shared_len :: "cache_store \<Rightarrow> cache_ref \<Rightarrow> service_error + nat" where
  "shared_len S r = with_cache S r replay_cache_len"

definition shared_is_empty :: "cache_store \<Rightarrow> cache_ref \<Rightarrow> service_error + bool" where
  "shared_is_empty S r = with_cache S r replay_cache_is_empty"

definition shared_clear_older_than_at ::
  "cache_store \<Rightarrow> cache_ref \<Rightarrow> duration \<Rightarrow> system_time \<Rightarrow> (service_error + nat) \<times> cache_store" where
  "shared_clear_older_than_at S r max_age now = with_cache_mut S r (\<lambda>c. clear_older_than_at c max_age now)"

definition shared_insert :: "cache_store \<Rightarrow> cache_ref \<Rightarrow> replay_key \<Rightarrow> system_time \<Rightarrow> (service_error + bool) \<times> cache_store" where
  "shared_insert S r key presented_at = with_cache_mut S r (\<lambda>c. replay_cache_insert c key presented_at)"

section \<open>The validator\<close>

record validator =
  sv_keytab :: keytab
  sv_max_clock_skew :: duration
  sv_now :: "system_time option"
  sv_keytab_principal :: "string list option"
  sv_client_address :: "host_address option"
  sv_require_client_address :: bool
  sv_replay_cache :: replay_cache
  sv_shared_replay_cache :: "cache_ref option"

definition DEFAULT_MAX_CLOCK_SKEW :: duration where
  "DEFAULT_MAX_CLOCK_SKEW = from_secs (5 * 60)"

definition validator_new :: "keytab \<Rightarrow> validator" where
  "validator_new kt = \<lparr>sv_keytab = kt, sv_max_clock_skew = DEFAULT_MAX_CLOCK_SKEW, sv_now = None,
     sv_keytab_principal = None, sv_client_address = None, sv_require_client_address = False,
     sv_replay_cache = replay_cache_new, sv_shared_replay_cache = None\<rparr>"

definition with_now :: "validator \<Rightarrow> system_time \<Rightarrow> validator" where
  "with_now v now = v\<lparr>sv_now := Some now\<rparr>"

definition with_max_clock_skew :: "validator \<Rightarrow> duration \<Rightarrow> validator" where
  "with_max_clock_skew v d = v\<lparr>sv_max_clock_skew := d\<rparr>"

definition with_keytab_principal :: "validator \<Rightarrow> string list \<Rightarrow> validator" where
  "with_keytab_principal v comps = v\<lparr>sv_keytab_principal := Some comps\<rparr>"

definition with_client_address :: "validator \<Rightarrow> host_address \<Rightarrow> validator" where
  "with_client_address v a = v\<lparr>sv_client_address := Some a\<rparr>"

definition require_client_address :: "validator \<Rightarrow> bool \<Rightarrow> validator" where
  "require_client_address v b = v\<lparr>sv_require_client_address := b\<rparr>"

definition with_shared_replay_cache :: "validator \<Rightarrow> cache_ref \<Rightarrow> validator" where
  "with_shared_replay_cache v r = v\<lparr>sv_shared_replay_cache := Some r\<rparr>"

definition without_shared_replay_cache :: "validator \<Rightarrow> validator" where
  "without_shared_replay_cache v = v\<lparr>sv_shared_replay_cache := None\<rparr>"

definition validator_now :: "validator \<Rightarrow> system_time \<Rightarrow> system_time" where
  "validator_now v clock = (case sv_now v of Some n \<Rightarrow> n | None \<Rightarrow> clock)"

definition record_replay ::
  "validator \<Rightarrow> cache_store \<Rightarrow> replay_key \<Rightarrow> system_time \<Rightarrow> (service_error + unit) \<times> validator \<times> cache_store" where
  "record_replay v S key now =
     (case sv_shared_replay_cache v of
        Some r \<Rightarrow>
          (case shared_insert S r key now of
             (Inl e, S') \<Rightarrow> (Inl e, v, S')
           | (Inr inserted, S') \<Rightarrow> (if inserted then Inr () else Inl Replay, v, S'))
      | None \<Rightarrow>
          (case replay_cache_insert (sv_replay_cache v) key now of
             (c, inserted) \<Rightarrow> (if inserted then Inr () else Inl Replay, v\<lparr>sv_replay_cache := c\<rparr>, S)))"

definition validate_ticket_times :: "validator \<Rightarrow> system_time \<Rightarrow> principal \<Rightarrow> enc_ticket_part \<Rightarrow> service_error + unit" where
  "validate_ticket_times v clock service t =
     (let now = validator_now v clock in
      rbind (ticket_start_time t) (\<lambda>start.
        if starts_after_skew start now (sv_max_clock_skew v) \<or> has_invalid_flag (et_flags t)
        then Inl (TicketNotYetValid (p_name service) (p_realm service))
        else rbind (system_time_from_kerberos_time (et_end_time t)) (\<lambda>end.
          if expired_after_skew now end (sv_max_clock_skew v)
          then Inl (TicketExpired (p_name service) (p_realm service))
          else Inr ())))"

definition validate_client_address :: "validator \<Rightarrow> principal \<Rightarrow> enc_ticket_part \<Rightarrow> service_error + unit" where
  "validate_client_address v service t =
     (case et_caddr t of
        None \<Rightarrow>
          if sv_require_client_address v then Inl (RequiredClientAddressMissing (p_name service) (p_realm service))
          else Inr ()
      | Some ticket_addresses \<Rightarrow>
          (case sv_client_address v of
             None \<Rightarrow> Inl (BadClientAddress (p_name service) (p_realm service))
           | Some a \<Rightarrow>
               if list_ex (\<lambda>x. ra_addr_type x = ha_addr_type a \<and> ra_address x = ha_address a) ticket_addresses
               then Inr ()
               else Inl (BadClientAddress (p_name service) (p_realm service))))"

definition check_pac :: "asn1 \<Rightarrow> crypto_prims \<Rightarrow> claims_codec \<Rightarrow> enc_ticket_part \<Rightarrow> kt_key \<Rightarrow> service_error + pac option" where
  "check_pac A P Z t service_key =
     (case et_authorization_data t of
        None \<Rightarrow> Inr None
      | Some ad \<Rightarrow>
          (case find_pac_in_authorization_data A Z ad of
             PacFailed e \<Rightarrow> Inl (SvcPac e)
           | NestingExhausted \<Rightarrow> Inl PacNesting
           | PacAbsent \<Rightarrow> Inr None
           | PacFound p \<Rightarrow> rbind (map_err SvcPac (pac_verify P p service_key)) (\<lambda>_. Inr (Some p))))"

definition keytab_components :: "validator \<Rightarrow> principal \<Rightarrow> string list" where
  "keytab_components v ticket_service = (case sv_keytab_principal v of Some c \<Rightarrow> c | None \<Rightarrow> p_components ticket_service)"

definition ticket_kvno :: "ticket \<Rightarrow> u32" where
  "ticket_kvno t = (case ed_kvno (tkt_enc_part t) of Some k \<Rightarrow> k | None \<Rightarrow> 0)"

text \<open>The handler up to the replay check; it returns what is entered into the cache and what is answered.\<close>

record checked_ap_req =
  ck_key :: replay_key
  ck_now :: system_time
  ck_ticket :: enc_ticket_part
  ck_authenticator :: authenticator
  ck_service :: principal
  ck_client :: principal
  ck_session_key :: kt_key
  ck_ctime :: system_time
  ck_cusec :: u32
  ck_time :: system_time
  ck_pac :: "pac option"

definition check_ap_req ::
  "asn1 \<Rightarrow> crypto_prims \<Rightarrow> claims_codec \<Rightarrow> validator \<Rightarrow> system_time \<Rightarrow> system_time \<Rightarrow> bytes \<Rightarrow> service_error + checked_ap_req" where
  "check_ap_req A P Z v c1 c2 bs =
     rbind (map_err ap_req_error (decode_ap_req A bs)) (\<lambda>m.
     rbind (principal_from_parts (tkt_realm (ar_ticket m)) (tkt_sname (ar_ticket m))) (\<lambda>ticket_service.
     let ticket_etype = ed_etype (tkt_enc_part (ar_ticket m)) in
     rbind (map_err SvcKeytab (find_key (sv_keytab v) (keytab_components v ticket_service) (p_realm ticket_service)
         (ticket_kvno (ar_ticket m)) ticket_etype)) (\<lambda>service_key.
     rbind (map_err ticket_error (decrypt_ticket_enc_part A P (ar_ticket m) (fst service_key))) (\<lambda>enc_ticket.
     rbind (validate_ticket_times v c1 ticket_service enc_ticket) (\<lambda>_.
     rbind (validate_client_address v ticket_service enc_ticket) (\<lambda>_.
     rbind (check_pac A P Z enc_ticket (fst service_key)) (\<lambda>pac.
     let session_key = encryption_key_from_rasn (et_key enc_ticket);
         usage = authenticator_usage_for_ticket (ar_ticket m)
     in
     rbind (map_err ap_req_error (decrypt_ap_req_authenticator A P m session_key usage)) (\<lambda>auth.
     rbind (principal_from_parts (et_crealm enc_ticket) (et_cname enc_ticket)) (\<lambda>ticket_client.
     rbind (principal_from_parts (au_crealm auth) (au_cname auth)) (\<lambda>authenticator_client.
     if p_components authenticator_client \<noteq> p_components ticket_client
     then Inl (ClientPrincipalMismatch (p_name ticket_client) (p_name authenticator_client))
     else
     rbind (integer_to_u32 ''authenticator.cusec'' (au_cusec auth)) (\<lambda>cusec.
     rbind (system_time_from_kerberos_time (au_ctime auth)) (\<lambda>authenticator_ctime.
     rbind (ok_or (st_checked_add authenticator_ctime (from_micros (unat cusec))) TimeOverflow) (\<lambda>authenticator_time.
     let now = validator_now v c2 in
     if abs_duration now authenticator_time > sv_max_clock_skew v then Inl (ClockSkew (sv_max_clock_skew v))
     else Inr \<lparr>ck_key = \<lparr>rpk_service = ticket_service, rpk_client = authenticator_client,
                 rpk_ctime_seconds = kt_seconds (au_ctime auth), rpk_cusec = cusec\<rparr>,
               ck_now = now, ck_ticket = enc_ticket, ck_authenticator = auth,
               ck_service = ticket_service, ck_client = authenticator_client, ck_session_key = session_key,
               ck_ctime = authenticator_ctime, ck_cusec = cusec, ck_time = authenticator_time, ck_pac = pac\<rparr>)))))))))))))"

definition answer_ap_req :: "checked_ap_req \<Rightarrow> service_error + validated_ap_req" where
  "answer_ap_req c =
     rbind (ticket_start_time (ck_ticket c)) (\<lambda>start.
     rbind (system_time_from_kerberos_time (et_end_time (ck_ticket c))) (\<lambda>end.
       Inr \<lparr>va_client = ck_client c, va_service = ck_service c, va_session_key = ck_session_key c,
            va_subkey = map_option encryption_key_from_rasn (au_subkey (ck_authenticator c)),
            va_sequence_number = au_seq_number (ck_authenticator c),
            va_ticket_start = start, va_ticket_end = end, va_authenticator_ctime = ck_ctime c,
            va_authenticator_cusec = ck_cusec c, va_authenticator_time = ck_time c, va_pac = ck_pac c\<rparr>))"

definition validate_ap_req ::
  "asn1 \<Rightarrow> crypto_prims \<Rightarrow> claims_codec \<Rightarrow> validator \<Rightarrow> cache_store \<Rightarrow> system_time \<Rightarrow> system_time \<Rightarrow> bytes
    \<Rightarrow> (service_error + validated_ap_req) \<times> validator \<times> cache_store" where
  "validate_ap_req A P Z v S c1 c2 bs =
     (case check_ap_req A P Z v c1 c2 bs of
        Inl e \<Rightarrow> (Inl e, v, S)
      | Inr c \<Rightarrow>
          (case record_replay v S (ck_key c) (ck_now c) of
             (Inl e, v', S') \<Rightarrow> (Inl e, v', S')
           | (Inr _, v', S') \<Rightarrow> (answer_ap_req c, v', S')))"

section \<open>Mutual authentication\<close>

definition va_build_ap_rep_with_confounder ::
  "asn1 \<Rightarrow> crypto_prims \<Rightarrow> validated_ap_req \<Rightarrow> bytes \<Rightarrow> ap_rep_options \<Rightarrow> service_error + bytes" where
  "va_build_ap_rep_with_confounder A P va confounder options =
     rbind (kerberos_time_from_system_time A (va_authenticator_ctime va)) (\<lambda>ctime.
     let enc_part = \<lparr>ep_ctime = ctime, ep_cusec = uint (va_authenticator_cusec va),
           ep_subkey = map_option encryption_key_to_rasn (aro_subkey options),
           ep_seq_number = aro_sequence_number options\<rparr>
     in
     rbind (map_err ap_rep_error (build_ap_rep_with_confounder A P enc_part (va_session_key va) (aro_kvno options) confounder)) (\<lambda>m.
       map_err ap_rep_error (encode_ap_rep A m)))"

definition va_verify_ap_rep :: "asn1 \<Rightarrow> crypto_prims \<Rightarrow> validated_ap_req \<Rightarrow> bytes \<Rightarrow> service_error + verified_ap_rep" where
  "va_verify_ap_rep A P va bs =
     rbind (map_err ap_rep_error (decode_ap_rep A bs)) (\<lambda>m.
     rbind (map_err ap_rep_error (decrypt_ap_rep_enc_part A P m (va_session_key va))) (\<lambda>enc_part.
     rbind (system_time_from_kerberos_time (ep_ctime enc_part)) (\<lambda>ctime.
     rbind (integer_to_u32 ''ap-rep.cusec'' (ep_cusec enc_part)) (\<lambda>cusec.
     rbind (ok_or (st_checked_add ctime (from_micros (unat cusec))) TimeOverflow) (\<lambda>authenticator_time.
       if ctime \<noteq> va_authenticator_ctime va \<or> cusec \<noteq> va_authenticator_cusec va
       then Inl (ApRepTimestampMismatch (va_authenticator_time va) authenticator_time)
       else Inr \<lparr>vr_ctime = ctime, vr_cusec = cusec, vr_authenticator_time = authenticator_time,
                 vr_subkey = map_option encryption_key_from_rasn (ep_subkey enc_part),
                 vr_sequence_number = ep_seq_number enc_part\<rparr>)))))"

end
