(* ===== verification/Service_Props.thy ===== *)
theory Service_Props
  imports Service
begin

text \<open>
  What the acceptor guarantees: exactly which requests it accepts, that no request is accepted twice while the
  replay cache is kept as long as twice the clock skew, and what the checks leave open.
\<close>

section \<open>Times\<close>

lemma abs_duration_eq: "int (abs_duration a b) = \<bar>a - b\<bar>"
  by (auto simp: abs_duration_def duration_since_def)

lemma abs_duration_le: "abs_duration a b \<le> d \<longleftrightarrow> \<bar>a - b\<bar> \<le> int d"
  using abs_duration_eq [of a b] by linarith

lemma starts_after_skew_iff: "starts_after_skew start now d \<longleftrightarrow> start > now + int d"
  by (auto simp: starts_after_skew_def duration_since_def)

lemma expired_after_skew_iff: "expired_after_skew now end d \<longleftrightarrow> now > end + int d"
  by (auto simp: expired_after_skew_def duration_since_def)

lemma replay_keep_iff: "replay_keep d now t \<longleftrightarrow> now \<le> t + int d"
  by (auto simp: replay_keep_def duration_since_def)

lemmas skew_iffs = abs_duration_le starts_after_skew_iff expired_after_skew_iff replay_keep_iff

lemma system_time_from_kerberos_time_whole:
  assumes "kt_subsec_nanos t = 0"
  shows "system_time_from_kerberos_time t = (if system_time_in_range (kt_seconds t * 1000000000) then Inr (kt_seconds t * 1000000000) else Inl TimeOverflow)"
  using assms by (auto simp: system_time_from_kerberos_time_def st_checked_add_def st_checked_sub_def)

section \<open>What is accepted\<close>

text \<open>The conditions under which a request passes every check before the replay cache.\<close>

definition ap_req_ok ::
  "asn1 \<Rightarrow> crypto_prims \<Rightarrow> claims_codec \<Rightarrow> validator \<Rightarrow> system_time \<Rightarrow> system_time \<Rightarrow> bytes \<Rightarrow> checked_ap_req \<Rightarrow> bool" where
  "ap_req_ok A P Z v c1 c2 bs c \<longleftrightarrow> (\<exists>m key kvno tc start end.
     decode_ap_req A bs = Inr m
   \<and> principal_from_parts (tkt_realm (ar_ticket m)) (tkt_sname (ar_ticket m)) = Inr (ck_service c)
   \<and> find_key (sv_keytab v) (keytab_components v (ck_service c)) (p_realm (ck_service c))
       (ticket_kvno (ar_ticket m)) (ed_etype (tkt_enc_part (ar_ticket m))) = Inr (key, kvno)
   \<and> decrypt_ticket_enc_part A P (ar_ticket m) key = Inr (ck_ticket c)
   \<and> ticket_start_time (ck_ticket c) = Inr start \<and> start \<le> validator_now v c1 + int (sv_max_clock_skew v)
   \<and> \<not> has_invalid_flag (et_flags (ck_ticket c))
   \<and> system_time_from_kerberos_time (et_end_time (ck_ticket c)) = Inr end \<and> validator_now v c1 \<le> end + int (sv_max_clock_skew v)
   \<and> validate_client_address v (ck_service c) (ck_ticket c) = Inr ()
   \<and> check_pac A P Z (ck_ticket c) key = Inr (ck_pac c)
   \<and> ck_session_key c = encryption_key_from_rasn (et_key (ck_ticket c))
   \<and> decrypt_ap_req_authenticator A P m (ck_session_key c) (authenticator_usage_for_ticket (ar_ticket m)) = Inr (ck_authenticator c)
   \<and> principal_from_parts (et_crealm (ck_ticket c)) (et_cname (ck_ticket c)) = Inr tc
   \<and> principal_from_parts (au_crealm (ck_authenticator c)) (au_cname (ck_authenticator c)) = Inr (ck_client c)
   \<and> p_components (ck_client c) = p_components tc
   \<and> int_parse_u32 (au_cusec (ck_authenticator c)) = Some (ck_cusec c)
   \<and> system_time_from_kerberos_time (au_ctime (ck_authenticator c)) = Inr (ck_ctime c)
   \<and> st_checked_add (ck_ctime c) (from_micros (unat (ck_cusec c))) = Some (ck_time c)
   \<and> ck_now c = validator_now v c2 \<and> \<bar>ck_now c - ck_time c\<bar> \<le> int (sv_max_clock_skew v)
   \<and> ck_key c = \<lparr>rpk_service = ck_service c, rpk_client = ck_client c,
       rpk_ctime_seconds = kt_seconds (au_ctime (ck_authenticator c)), rpk_cusec = ck_cusec c\<rparr>)"

lemma validate_ticket_times_Inr:
  "validate_ticket_times v clock service t = Inr () \<longleftrightarrow> (\<exists>start end.
     ticket_start_time t = Inr start \<and> start \<le> validator_now v clock + int (sv_max_clock_skew v) \<and> \<not> has_invalid_flag (et_flags t)
   \<and> system_time_from_kerberos_time (et_end_time t) = Inr end \<and> validator_now v clock \<le> end + int (sv_max_clock_skew v))"
  by (auto simp: validate_ticket_times_def Let_def rbind_eq_Inr skew_iffs not_less)

lemma check_ap_req_Inr: "check_ap_req A P Z v c1 c2 bs = Inr c \<longleftrightarrow> ap_req_ok A P Z v c1 c2 bs c"
proof
  assume "check_ap_req A P Z v c1 c2 bs = Inr c"
  then show "ap_req_ok A P Z v c1 c2 bs c"
    unfolding check_ap_req_def ap_req_ok_def Let_def
    by (clarsimp simp: rbind_eq_Inr map_err_eq_Inr validate_ticket_times_Inr integer_to_u32_def ok_or_eq_Inr
        abs_duration_le not_less split: if_split_asm)
next
  assume "ap_req_ok A P Z v c1 c2 bs c"
  then show "check_ap_req A P Z v c1 c2 bs = Inr c"
    unfolding check_ap_req_def ap_req_ok_def Let_def
    by (cases c) (clarsimp simp: rbind_eq_Inr map_err_eq_Inr validate_ticket_times_Inr integer_to_u32_def ok_or_eq_Inr
        abs_duration_le not_less; metis)
qed

lemma ap_req_ok_determined:
  assumes c: "ap_req_ok A P Z v c1 c2 bs c" and c': "ap_req_ok A P Z v' c1' c2' bs c'"
    and same: "sv_keytab v' = sv_keytab v" "sv_keytab_principal v' = sv_keytab_principal v"
  shows "ck_key c' = ck_key c \<and> ck_time c' = ck_time c"
proof -
  obtain m key where m: "decode_ap_req A bs = Inr m"
    "principal_from_parts (tkt_realm (ar_ticket m)) (tkt_sname (ar_ticket m)) = Inr (ck_service c)"
    "find_key (sv_keytab v) (keytab_components v (ck_service c)) (p_realm (ck_service c)) (ticket_kvno (ar_ticket m))
       (ed_etype (tkt_enc_part (ar_ticket m))) = Inr key"
    "decrypt_ticket_enc_part A P (ar_ticket m) (fst key) = Inr (ck_ticket c)"
    "ck_session_key c = encryption_key_from_rasn (et_key (ck_ticket c))"
    "decrypt_ap_req_authenticator A P m (ck_session_key c) (authenticator_usage_for_ticket (ar_ticket m)) = Inr (ck_authenticator c)"
    using c unfolding ap_req_ok_def by fastforce
  obtain m' key' where m': "decode_ap_req A bs = Inr m'"
    "principal_from_parts (tkt_realm (ar_ticket m')) (tkt_sname (ar_ticket m')) = Inr (ck_service c')"
    "find_key (sv_keytab v') (keytab_components v' (ck_service c')) (p_realm (ck_service c')) (ticket_kvno (ar_ticket m'))
       (ed_etype (tkt_enc_part (ar_ticket m'))) = Inr key'"
    "decrypt_ticket_enc_part A P (ar_ticket m') (fst key') = Inr (ck_ticket c')"
    "ck_session_key c' = encryption_key_from_rasn (et_key (ck_ticket c'))"
    "decrypt_ap_req_authenticator A P m' (ck_session_key c') (authenticator_usage_for_ticket (ar_ticket m')) = Inr (ck_authenticator c')"
    using c' unfolding ap_req_ok_def by fastforce
  have mm: "m' = m" using m(1) m'(1) by simp
  then have s: "ck_service c' = ck_service c" using m(2) m'(2) by simp
  have "keytab_components v' p = keytab_components v p" for p using same by (simp add: keytab_components_def)
  then have "key' = key" using m(3) m'(3) same(1) unfolding mm s by simp
  then have t: "ck_ticket c' = ck_ticket c" using m(4) m'(4) mm by simp
  then have a: "ck_authenticator c' = ck_authenticator c" using m(5,6) m'(5,6) mm by simp
  then have "ck_client c' = ck_client c" "ck_cusec c' = ck_cusec c" "ck_ctime c' = ck_ctime c"
    using c c' unfolding ap_req_ok_def by auto
  then show ?thesis using c c' a s unfolding ap_req_ok_def by auto
qed

section \<open>Runs of an acceptor\<close>

text \<open>
  A service of validators that share one replay cache, the same keytab and at most the clock skew \<open>K\<close>.  Its steps
  are validations, housekeeping with a maximal age of at least twice the skew, changes to other caches, and the
  poisoning of the lock; the clock never goes back.  An event records the request that was handled and the answer.
\<close>

datatype svc_event = Handled bytes "service_error + validated_ap_req" | Tidied | Internal

record svc_state =
  ss_store :: cache_store
  ss_clock :: system_time

inductive svc_step ::
  "asn1 \<Rightarrow> crypto_prims \<Rightarrow> claims_codec \<Rightarrow> keytab \<Rightarrow> string list option \<Rightarrow> cache_ref \<Rightarrow> nat \<Rightarrow> svc_state \<Rightarrow> svc_event \<Rightarrow> svc_state \<Rightarrow> bool"
  for A P Z kt kp r K where
  handle: "\<lbrakk>sv_shared_replay_cache v = Some r; sv_now v = None; sv_max_clock_skew v \<le> K; sv_keytab v = kt; sv_keytab_principal v = kp;
     ss_clock s \<le> c1; c1 \<le> c2; validate_ap_req A P Z v (ss_store s) c1 c2 bs = (res, v', S')\<rbrakk>
    \<Longrightarrow> svc_step A P Z kt kp r K s (Handled bs res) \<lparr>ss_store = S', ss_clock = c2\<rparr>"
| tidy: "\<lbrakk>ss_clock s \<le> now; 2 * K \<le> max_age; shared_clear_older_than_at (ss_store s) r max_age now = (res, S')\<rbrakk>
    \<Longrightarrow> svc_step A P Z kt kp r K s Tidied \<lparr>ss_store = S', ss_clock = now\<rparr>"
| poison: "svc_step A P Z kt kp r K s Internal (s\<lparr>ss_store := (ss_store s)(r := (ss_store s r)\<lparr>sc_poisoned := True\<rparr>)\<rparr>)"
| elsewhere: "S' r = ss_store s r \<Longrightarrow> svc_step A P Z kt kp r K s Internal (s\<lparr>ss_store := S'\<rparr>)"

inductive svc_run ::
  "asn1 \<Rightarrow> crypto_prims \<Rightarrow> claims_codec \<Rightarrow> keytab \<Rightarrow> string list option \<Rightarrow> cache_ref \<Rightarrow> nat \<Rightarrow> svc_state \<Rightarrow> svc_event list \<Rightarrow> svc_state \<Rightarrow> bool"
  for A P Z kt kp r K where
  start: "svc_run A P Z kt kp r K s [] s"
| more: "svc_run A P Z kt kp r K s es t \<Longrightarrow> svc_step A P Z kt kp r K t e u \<Longrightarrow> svc_run A P Z kt kp r K s (es @ [e]) u"

inductive_cases svc_stepE: "svc_step A P Z kt kp r K s e t"

definition accepted :: "svc_event \<Rightarrow> bytes option" where
  "accepted e = (case e of Handled bs (Inr va) \<Rightarrow> Some bs | _ \<Rightarrow> None)"

definition accepted_requests :: "svc_event list \<Rightarrow> bytes list" where
  "accepted_requests es = concat (map (\<lambda>e. case accepted e of None \<Rightarrow> [] | Some bs \<Rightarrow> [bs]) es)"

text \<open>The replay cache remembers every request accepted so far that could still pass the skew check.\<close>

definition remembered ::
  "asn1 \<Rightarrow> crypto_prims \<Rightarrow> claims_codec \<Rightarrow> keytab \<Rightarrow> string list option \<Rightarrow> cache_ref \<Rightarrow> nat \<Rightarrow> bytes \<Rightarrow> svc_state \<Rightarrow> bool" where
  "remembered A P Z kt kp r K bs s \<longleftrightarrow>
     (\<forall>v c1 c2 c. sv_keytab v = kt \<and> sv_keytab_principal v = kp \<and> ap_req_ok A P Z v c1 c2 bs c \<and> ss_clock s \<le> ck_time c + int K
        \<longrightarrow> (\<exists>p. sc_cache (ss_store s r) (ck_key c) = Some p \<and> ck_time c - int K \<le> p \<and> p \<le> ss_clock s))"

lemma remembered_mono:
  assumes "remembered A P Z kt kp r K bs s" and "ss_clock s \<le> ss_clock t"
    and "\<And>k p. sc_cache (ss_store s r) k = Some p \<Longrightarrow> p \<le> ss_clock s \<Longrightarrow> ss_clock t \<le> p + 2 * int K \<Longrightarrow>
      \<exists>q. sc_cache (ss_store t r) k = Some q \<and> p \<le> q \<and> q \<le> ss_clock t"
  shows "remembered A P Z kt kp r K bs t"
  unfolding remembered_def
proof (intro allI impI, elim conjE)
  fix v c1 c2 c
  assume v: "sv_keytab v = kt" "sv_keytab_principal v = kp" "ap_req_ok A P Z v c1 c2 bs c" and t: "ss_clock t \<le> ck_time c + int K"
  have "ss_clock s \<le> ck_time c + int K" using assms(2) t by linarith
  then obtain p where p: "sc_cache (ss_store s r) (ck_key c) = Some p" "ck_time c - int K \<le> p" "p \<le> ss_clock s"
    using assms(1) v unfolding remembered_def by blast
  moreover have "ss_clock t \<le> p + 2 * int K" using p(2) t by linarith
  ultimately show "\<exists>p. sc_cache (ss_store t r) (ck_key c) = Some p \<and> ck_time c - int K \<le> p \<and> p \<le> ss_clock t"
    using assms(3) by fastforce
qed

lemma validate_shared:
  assumes "sv_shared_replay_cache v = Some r" and "validate_ap_req A P Z v S c1 c2 bs = (res, v', S')"
  shows "(S' = S \<and> (\<exists>e. res = Inl e))
    \<or> (\<exists>c. ap_req_ok A P Z v c1 c2 bs c \<and> S' = S(r := (S r)\<lparr>sc_cache := (sc_cache (S r))(ck_key c \<mapsto> ck_now c)\<rparr>)
         \<and> \<not> sc_poisoned (S r) \<and> res = (if sc_cache (S r) (ck_key c) = None then answer_ap_req c else Inl Replay))"
proof (cases "check_ap_req A P Z v c1 c2 bs")
  case (Inl e)
  then show ?thesis using assms by (auto simp: validate_ap_req_def)
next
  case (Inr c)
  then have ok: "ap_req_ok A P Z v c1 c2 bs c" by (simp add: check_ap_req_Inr)
  show ?thesis
  proof (cases "sc_poisoned (S r)")
    case True
    then show ?thesis
      using assms Inr by (auto simp: validate_ap_req_def record_replay_def shared_insert_def with_cache_mut_def)
  next
    case False
    then show ?thesis
      using assms Inr ok
      by (intro disjI2 exI [of _ c])
        (auto simp: validate_ap_req_def record_replay_def shared_insert_def with_cache_mut_def replay_cache_insert_def split: if_splits)
  qed
qed

lemma svc_step_clock: "svc_step A P Z kt kp r K s e t \<Longrightarrow> ss_clock s \<le> ss_clock t"
  by (auto elim: svc_stepE)

lemma svc_step_remembers:
  assumes step: "svc_step A P Z kt kp r K s e t" and rem: "remembered A P Z kt kp r K bs s"
  shows "remembered A P Z kt kp r K bs t"
  using step
proof (cases rule: svc_step.cases)
  case (handle v c1 c2 bs' res v' S')
  show ?thesis
  proof (rule remembered_mono [OF rem svc_step_clock [OF step]])
    fix k p
    assume k: "sc_cache (ss_store s r) k = Some p" "p \<le> ss_clock s"
    have now: "ck_now c = c2" if "ap_req_ok A P Z v c1 c2 bs' c" for c
      using that handle(4) by (auto simp: ap_req_ok_def validator_now_def)
    show "\<exists>q. sc_cache (ss_store t r) k = Some q \<and> p \<le> q \<and> q \<le> ss_clock t"
      using validate_shared [OF handle(3,10)] k handle(2,8,9) now by auto
  qed
next
  case (tidy now max_age res S')
  show ?thesis
  proof (rule remembered_mono [OF rem svc_step_clock [OF step]])
    fix k p
    assume k: "sc_cache (ss_store s r) k = Some p" "p \<le> ss_clock s" "ss_clock t \<le> p + 2 * int K"
    then have "replay_keep max_age now p" using tidy by (simp add: replay_keep_iff)
    then show "\<exists>q. sc_cache (ss_store t r) k = Some q \<and> p \<le> q \<and> q \<le> ss_clock t"
      using tidy k by (auto simp: shared_clear_older_than_at_def with_cache_mut_def clear_older_than_at_def Let_def split: if_splits)
  qed
next
  case poison
  then show ?thesis using rem by (simp add: remembered_def)
next
  case (elsewhere S')
  then show ?thesis using rem by (simp add: remembered_def)
qed

lemma svc_accept_remembers:
  assumes "svc_step A P Z kt kp r K s e t" and "accepted e = Some bs"
  shows "remembered A P Z kt kp r K bs t"
  using assms(1)
proof (cases rule: svc_step.cases)
  case (handle v c1 c2 bs' res v' S')
  then obtain va where res: "res = Inr va" and bs: "bs' = bs"
    using assms(2) by (auto simp: accepted_def split: sum.splits)
  obtain c where c: "ap_req_ok A P Z v c1 c2 bs c" and S': "sc_cache (S' r) (ck_key c) = Some (ck_now c)"
    using validate_shared [OF handle(3,10)] res bs by auto
  have now: "ck_now c = c2" "\<bar>c2 - ck_time c\<bar> \<le> int K"
    using c handle(4,5) by (auto simp: ap_req_ok_def validator_now_def)
  show ?thesis
    unfolding remembered_def
  proof (intro allI impI, elim conjE)
    fix w d1 d2 d
    assume w: "sv_keytab w = kt" "sv_keytab_principal w = kp" "ap_req_ok A P Z w d1 d2 bs d"
    then have "ck_key d = ck_key c" "ck_time d = ck_time c"
      using ap_req_ok_determined [OF c w(3)] handle(6,7) by simp_all
    then show "\<exists>p. sc_cache (ss_store t r) (ck_key d) = Some p \<and> ck_time d - int K \<le> p \<and> p \<le> ss_clock t"
      using handle(2) S' now by auto
  qed
qed (use assms(2) in \<open>simp_all add: accepted_def\<close>)

lemma svc_remembered_refused:
  assumes "svc_step A P Z kt kp r K s e t" and "remembered A P Z kt kp r K bs s"
  shows "accepted e \<noteq> Some bs"
  using assms(1)
proof (cases rule: svc_step.cases)
  case (handle v c1 c2 bs' res v' S')
  show ?thesis
  proof
    assume acc: "accepted e = Some bs"
    then obtain va where res: "res = Inr va" and bs: "bs' = bs"
      using handle(1) by (auto simp: accepted_def split: sum.splits)
    obtain c where c: "ap_req_ok A P Z v c1 c2 bs c" and new: "sc_cache (ss_store s r) (ck_key c) = None"
      using validate_shared [OF handle(3,10)] res bs by (auto split: if_splits)
    have "ck_now c = c2" "\<bar>c2 - ck_time c\<bar> \<le> int K"
      using c handle(4,5) by (auto simp: ap_req_ok_def validator_now_def)
    then have "ss_clock s \<le> ck_time c + int K" using handle(8,9) by linarith
    then show False using assms(2) handle(6,7) c new unfolding remembered_def by fastforce
  qed
qed (simp_all add: accepted_def)

lemma svc_run_distinct:
  assumes "svc_run A P Z kt kp r K s es t"
  shows "distinct (accepted_requests es) \<and> (\<forall>bs \<in> set (accepted_requests es). remembered A P Z kt kp r K bs t)"
  using assms
proof (induction rule: svc_run.induct)
  case (start s)
  then show ?case by (simp add: accepted_requests_def)
next
  case (more s es t e u)
  have app: "accepted_requests (es @ [e]) = accepted_requests es @ (case accepted e of None \<Rightarrow> [] | Some bs \<Rightarrow> [bs])"
    by (simp add: accepted_requests_def)
  have "\<forall>bs \<in> set (accepted_requests es). remembered A P Z kt kp r K bs u"
    using more.IH svc_step_remembers [OF more.hyps(2)] by blast
  moreover have "bs \<notin> set (accepted_requests es) \<and> remembered A P Z kt kp r K bs u" if "accepted e = Some bs" for bs
    using more.IH svc_remembered_refused [OF more.hyps(2)] svc_accept_remembers [OF more.hyps(2) that] that by blast
  ultimately show ?case using more.IH unfolding app by (auto split: option.splits)
qed

section \<open>The handler as a whole\<close>

text \<open>The replay cache a validator consults: its own one or the shared one, unless that is poisoned.\<close>

definition active_cache :: "validator \<Rightarrow> cache_store \<Rightarrow> replay_cache option" where
  "active_cache v S =
     (case sv_shared_replay_cache v of
        Some r \<Rightarrow> if sc_poisoned (S r) then None else Some (sc_cache (S r))
      | None \<Rightarrow> Some (sv_replay_cache v))"

definition put_active :: "validator \<Rightarrow> cache_store \<Rightarrow> replay_cache \<Rightarrow> validator \<times> cache_store" where
  "put_active v S c =
     (case sv_shared_replay_cache v of
        Some r \<Rightarrow> (v, S(r := (S r)\<lparr>sc_cache := c\<rparr>))
      | None \<Rightarrow> (v\<lparr>sv_replay_cache := c\<rparr>, S))"

lemma active_put:
  "active_cache v S = Some d \<Longrightarrow> put_active v S c = (v', S') \<Longrightarrow> active_cache v' S' = Some c"
  by (auto simp: active_cache_def put_active_def split: option.splits if_splits)

lemma record_replay_active:
  "record_replay v S key now =
     (case active_cache v S of
        None \<Rightarrow> (Inl ReplayCachePoisoned, v, S)
      | Some c \<Rightarrow> (if c key = None then Inr () else Inl Replay, put_active v S (c(key \<mapsto> now))))"
  by (auto simp: record_replay_def shared_insert_def with_cache_mut_def replay_cache_insert_def active_cache_def put_active_def
      split: option.splits)

lemma answer_ap_req_total:
  assumes "ap_req_ok A P Z v c1 c2 bs c"
  obtains va where "answer_ap_req c = Inr va"
proof -
  from assms obtain start "end" where "ticket_start_time (ck_ticket c) = Inr start"
    "system_time_from_kerberos_time (et_end_time (ck_ticket c)) = Inr end"
    unfolding ap_req_ok_def by blast
  then show ?thesis using that by (simp add: answer_ap_req_def)
qed

lemma validate_ap_req_ok:
  assumes "ap_req_ok A P Z v c1 c2 bs c"
  shows "validate_ap_req A P Z v S c1 c2 bs =
     (case active_cache v S of
        None \<Rightarrow> (Inl ReplayCachePoisoned, v, S)
      | Some d \<Rightarrow> (if d (ck_key c) = None then answer_ap_req c else Inl Replay, put_active v S (d(ck_key c \<mapsto> ck_now c))))"
proof -
  have ok: "check_ap_req A P Z v c1 c2 bs = Inr c" using assms by (simp add: check_ap_req_Inr)
  show ?thesis
    unfolding validate_ap_req_def ok sum.case record_replay_active
    by (simp split: option.split prod.split)
qed

lemma validate_ap_req_not_ok:
  assumes "\<And>c. \<not> ap_req_ok A P Z v c1 c2 bs c"
  shows "\<exists>e. validate_ap_req A P Z v S c1 c2 bs = (Inl e, v, S)"
proof (cases "check_ap_req A P Z v c1 c2 bs")
  case (Inl e)
  then show ?thesis by (simp add: validate_ap_req_def)
next
  case (Inr c)
  then show ?thesis using assms [of c] by (simp only: check_ap_req_Inr)
qed

lemma ap_req_ok_unique: "ap_req_ok A P Z v c1 c2 bs c \<Longrightarrow> ap_req_ok A P Z v c1 c2 bs d \<Longrightarrow> d = c"
  by (simp add: check_ap_req_Inr [symmetric])

end
