(* ===== verification/Spnego_Der.thy ===== *)
theory Spnego_Der
  imports Krb_Prelude
begin

text \<open>
  The DER reader and writer of \<open>src/spnego/der.rs\<close> and the object identifiers of
  \<open>src/spnego/oid.rs\<close>.  \<open>DerReader\<close> is a record of the buffer and the offset; a read returns an error
  or the value with the advanced reader.  Lengths of buffers are below \<open>2 ^ 64\<close>, the size of
  the address space.
\<close>

unbundle bit_operations_syntax

section \<open>Errors\<close>

type_synonym oid = "u32 list"

datatype spnego_error =
    EmptyInput
  | TruncatedDer
  | HighTagNumber
  | IndefiniteLength
  | LengthExceedsInput
  | UnexpectedTag u8 u8 \<comment> \<open>expected, actual\<close>
  | TrailingData
  | InvalidOid
  | InvalidOidEncoding
  | UnexpectedSpnegoOid oid
  | UnsupportedMechanism oid
  | UnknownKrb5TokenId bytes
  | MissingKerberosMessage
  | MissingMechTypes
  | MissingMechToken
  | MissingApReq
  | MissingApRep
  | WrongNegotiationToken string string \<comment> \<open>expected, actual\<close>
  | InvalidNegState u32
  | InvalidInteger
  | InvalidNegotiateHeader
  | Base64Error

section \<open>Object identifiers\<close>

definition oid_krb5 :: oid where
  "oid_krb5 = [1, 2, 840, 113554, 1, 2, 2]"

definition oid_ms_legacy_krb5 :: oid where
  "oid_ms_legacy_krb5 = [1, 2, 840, 48018, 1, 2, 2]"

definition oid_spnego :: oid where
  "oid_spnego = [1, 3, 6, 1, 5, 5, 2]"

definition validate_arcs :: "u32 list \<Rightarrow> spnego_error + unit" where
  "validate_arcs arcs =
     (if length arcs < 2 then Inl InvalidOid
      else if arcs ! 0 > 2 \<or> (arcs ! 0 < 2 \<and> arcs ! 1 \<ge> 40) then Inl InvalidOid
      else Inr ())"

definition oid_from_arcs :: "u32 list \<Rightarrow> spnego_error + oid" where
  "oid_from_arcs arcs = rbind (validate_arcs arcs) (\<lambda>_. Inr arcs)"

definition is_kerberos_mechanism :: "oid \<Rightarrow> bool" where
  "is_kerberos_mechanism oid \<longleftrightarrow> oid = oid_krb5 \<or> oid = oid_ms_legacy_krb5"

section \<open>The reader\<close>

record tlv =
  tlv_tag :: u8
  tlv_value :: bytes

record der_reader =
  der_bytes :: bytes
  der_offset :: nat

definition der_new :: "bytes \<Rightarrow> der_reader" where
  "der_new bs = \<lparr>der_bytes = bs, der_offset = 0\<rparr>"

definition der_remaining :: "der_reader \<Rightarrow> bytes" where
  "der_remaining r = drop (der_offset r) (der_bytes r)"

definition der_finish :: "der_reader \<Rightarrow> spnego_error + unit" where
  "der_finish r = (if der_offset r = length (der_bytes r) then Inr () else Inl TrailingData)"

definition der_read_len :: "der_reader \<Rightarrow> spnego_error + (nat \<times> der_reader)" where
  "der_read_len r =
     (if der_offset r \<ge> length (der_bytes r) then Inl TruncatedDer
      else let first = der_bytes r ! der_offset r;
               r = r\<lparr>der_offset := der_offset r + 1\<rparr>
           in if first AND 0x80 = 0 then Inr (unat first, r)
              else let count = unat (first AND 0x7f)
                   in if count = 0 then Inl IndefiniteLength
                      else if count > 8 \<or> der_offset r + count > length (der_bytes r) then Inl LengthExceedsInput
                      else let len = foldl (\<lambda>len byte. len * 256 + unat byte) 0
                                       (slice (der_bytes r) (der_offset r) (der_offset r + count))
                           in Inr (len, r\<lparr>der_offset := der_offset r + count\<rparr>))"

definition der_read_tlv :: "der_reader \<Rightarrow> spnego_error + (tlv \<times> der_reader)" where
  "der_read_tlv r =
     (if der_offset r \<ge> length (der_bytes r) then Inl TruncatedDer
      else let tag = der_bytes r ! der_offset r;
               r = r\<lparr>der_offset := der_offset r + 1\<rparr>
           in if tag AND 0x1f = 0x1f then Inl HighTagNumber
              else rbind (der_read_len r) (\<lambda>(len, r).
                rbind (ok_or (usize_checked_add (der_offset r) len) LengthExceedsInput) (\<lambda>end.
                  if end > length (der_bytes r) then Inl LengthExceedsInput
                  else Inr (\<lparr>tlv_tag = tag, tlv_value = slice (der_bytes r) (der_offset r) end\<rparr>,
                            r\<lparr>der_offset := end\<rparr>))))"

definition der_read_bytes :: "der_reader \<Rightarrow> nat \<Rightarrow> spnego_error + (bytes \<times> der_reader)" where
  "der_read_bytes r len =
     rbind (ok_or (usize_checked_add (der_offset r) len) TruncatedDer) (\<lambda>end.
       if end > length (der_bytes r) then Inl TruncatedDer
       else Inr (slice (der_bytes r) (der_offset r) end, r\<lparr>der_offset := end\<rparr>))"

definition read_single_tlv :: "bytes \<Rightarrow> u8 \<Rightarrow> spnego_error + tlv" where
  "read_single_tlv bs expected_tag =
     rbind (der_read_tlv (der_new bs)) (\<lambda>(tlv, r).
       rbind (der_finish r) (\<lambda>_.
         if tlv_tag tlv \<noteq> expected_tag then Inl (UnexpectedTag expected_tag (tlv_tag tlv)) else Inr tlv))"

section \<open>Decoding values\<close>

text \<open>\<open>checked_shl(7)\<close> only checks the shift distance, so the bits shifted out of the arc are lost.\<close>

fun decode_arc :: "u32 \<Rightarrow> bytes \<Rightarrow> spnego_error + (u32 \<times> bytes)" where
  "decode_arc arc [] = Inl InvalidOidEncoding"
| "decode_arc arc (byte # rest) =
     (let arc = push_bit 7 arc OR ucast (byte AND 0x7f)
      in if byte AND 0x80 = 0 then Inr (arc, rest) else decode_arc arc rest)"

lemma decode_arc_shorter: "decode_arc arc bs = Inr (a, rest) \<Longrightarrow> length rest < length bs"
  by (induction arc bs rule: decode_arc.induct) (auto simp: Let_def split: if_splits)

function decode_arcs :: "bytes \<Rightarrow> spnego_error + u32 list" where
  "decode_arcs bs =
     (if bs = [] then Inr []
      else rbind (decode_arc 0 bs) (\<lambda>(arc, rest). rbind (decode_arcs rest) (\<lambda>arcs. Inr (arc # arcs))))"
  by pat_completeness auto
termination
  by (relation "measure length") (auto dest: decode_arc_shorter)

declare decode_arcs.simps [simp del]

definition decode_oid_value :: "bytes \<Rightarrow> spnego_error + oid" where
  "decode_oid_value v =
     (if v = [] then Inl InvalidOidEncoding
      else let first = v ! 0; first_arc = ucast (first div 40); second_arc = ucast (first mod 40)
           in rbind (decode_arcs (drop 1 v)) (\<lambda>arcs. oid_from_arcs (first_arc # second_arc # arcs)))"

definition decode_oid_tlv :: "tlv \<Rightarrow> spnego_error + oid" where
  "decode_oid_tlv tlv =
     (if tlv_tag tlv \<noteq> 0x06 then Inl (UnexpectedTag 0x06 (tlv_tag tlv)) else decode_oid_value (tlv_value tlv))"

definition decode_u32 :: "bytes \<Rightarrow> spnego_error + u32" where
  "decode_u32 bs =
     (if bs = [] \<or> length bs > 5 then Inl InvalidInteger
      else if bs ! 0 AND 0x80 \<noteq> 0 then Inl InvalidInteger
      else Inr (foldl (\<lambda>v byte. push_bit 8 v OR ucast byte) 0 bs))"

section \<open>Encoding\<close>

definition encode_len :: "nat \<Rightarrow> bytes" where
  "encode_len len =
     (if len < 128 then [word_of_nat len]
      else let length_bytes = dropWhile (\<lambda>b. b = 0) (nat_be 8 len)
           in (0x80 OR word_of_nat (length length_bytes)) # length_bytes)"

definition encode_tlv :: "u8 \<Rightarrow> bytes \<Rightarrow> bytes" where
  "encode_tlv tag v = [tag] @ encode_len (length v) @ v"

definition encode_explicit :: "u8 \<Rightarrow> bytes \<Rightarrow> bytes" where
  "encode_explicit tag inner_der = encode_tlv tag inner_der"

function base128_groups :: "u32 \<Rightarrow> bytes \<Rightarrow> bytes" where
  "base128_groups v acc =
     (if v > 0 then base128_groups (drop_bit 7 v) ((ucast (v AND 0x7f) OR 0x80) # acc) else acc)"
  by pat_completeness auto
termination
proof (relation "measure (\<lambda>(v, acc). unat v)", goal_cases)
  case (2 v acc)
  then have "0 < unat v" by (simp add: word_less_nat_alt)
  moreover have "unat (drop_bit 7 v) = unat v div 128" by (simp add: drop_bit_eq_div unat_div)
  ultimately show ?case by simp
qed simp

declare base128_groups.simps [simp del]

definition encode_base128 :: "u32 \<Rightarrow> bytes" where
  "encode_base128 v = base128_groups (drop_bit 7 v) [ucast (v AND 0x7f)]"

definition encode_oid :: "oid \<Rightarrow> spnego_error + bytes" where
  "encode_oid oid =
     rbind (validate_arcs oid) (\<lambda>_.
       let first = unat (oid ! 0) * 40 + unat (oid ! 1)
       in if first \<ge> 2 ^ 32 then Inl InvalidOid
          else Inr (encode_tlv 0x06 (encode_base128 (word_of_nat first) @ concat (map encode_base128 (drop 2 oid)))))"

definition encode_u32 :: "u32 \<Rightarrow> bytes" where
  "encode_u32 v =
     (let bs = to_bytes_en Big v;
          encoded = (if list_all (\<lambda>b. b = 0) bs then drop (length bs - 1) bs else dropWhile (\<lambda>b. b = 0) bs)
      in if encoded ! 0 AND 0x80 \<noteq> 0 then 0 # encoded else encoded)"

section \<open>A reader at a position\<close>

definition rd :: "bytes \<Rightarrow> bytes \<Rightarrow> der_reader" where
  "rd pre post = \<lparr>der_bytes = pre @ post, der_offset = length pre\<rparr>"

lemma der_new_rd [simp]: "der_new bs = rd [] bs"
  by (simp add: der_new_def rd_def)

lemma der_remaining_rd [simp]: "der_remaining (rd pre post) = post"
  by (simp add: der_remaining_def rd_def)

lemma der_finish_rd [simp]: "der_finish (rd pre post) = (if post = [] then Inr () else Inl TrailingData)"
  by (simp add: der_finish_def rd_def)

lemma foldl_be_nat: "foldl (\<lambda>len byte. len * 256 + unat byte) n bs = n * 256 ^ length bs + be_nat bs"
  by (induction bs arbitrary: n) (simp_all add: algebra_simps)

lemma be_nat_dropWhile: "be_nat (dropWhile (\<lambda>b. b = 0) bs) = be_nat bs"
  by (induction bs) auto

lemma length_dropWhile_nat_be:
  assumes "0 < n" and "n < 256 ^ 8"
  shows "0 < length (dropWhile (\<lambda>b. b = 0) (nat_be 8 n))" and "length (dropWhile (\<lambda>b. b = 0) (nat_be 8 n)) \<le> 8"
proof -
  have "be_nat (dropWhile (\<lambda>b. b = 0) (nat_be 8 n)) = n"
    using assms unfolding be_nat_dropWhile be_nat_nat_be by simp
  with assms show "0 < length (dropWhile (\<lambda>b. b = 0) (nat_be 8 n))" by (metis be_nat.simps(1) length_greater_0_conv less_irrefl)
  show "length (dropWhile (\<lambda>b. b = 0) (nat_be 8 n)) \<le> 8"
    using length_dropWhile_le [of "\<lambda>b. b = 0" "nat_be 8 n"] unfolding length_nat_be .
qed

lemma long_length_byte:
  assumes "0 < n" and "n \<le> (8 :: nat)"
  shows "(0x80 OR word_of_nat n :: u8) AND 0x80 \<noteq> 0" and "unat ((0x80 OR word_of_nat n :: u8) AND 0x7f) = n"
proof -
  have "n \<in> {1, 2, 3, 4, 5, 6, 7, 8}" using assms by auto
  then show "(0x80 OR word_of_nat n :: u8) AND 0x80 \<noteq> 0" "unat ((0x80 OR word_of_nat n :: u8) AND 0x7f) = n"
    by (elim insertE emptyE; simp)+
qed

lemma short_length_byte:
  assumes "n < 128"
  shows "(word_of_nat n :: u8) AND 0x80 = 0" and "unat (word_of_nat n :: u8) = n"
proof -
  show u: "unat (word_of_nat n :: u8) = n" using assms by simp
  have "(word_of_nat n :: u8) < 128" using u assms by (simp add: word_less_nat_alt)
  then have "\<not> bit (word_of_nat n :: u8) 7" by (simp add: bit_iff_odd div_word_less)
  then show "(word_of_nat n :: u8) AND 0x80 = 0"
    using bit_iff_and_push_bit_not_eq_0 [of "word_of_nat n :: u8" 7] by simp
qed

lemma der_read_len_rd:
  assumes "len < 2 ^ 64"
  shows "der_read_len (rd pre (encode_len len @ post)) = Inr (len, rd (pre @ encode_len len) post)"
proof (cases "len < 128")
  case True
  then show ?thesis
    using short_length_byte [OF True]
    by (simp add: der_read_len_def rd_def encode_len_def nth_append)
next
  case False
  define L where "L = dropWhile (\<lambda>b. b = 0) (nat_be 8 len)"
  have lt: "len < 256 ^ 8" using assms by simp
  have n: "0 < length L" "length L \<le> 8"
    using length_dropWhile_nat_be [OF _ lt] False unfolding L_def [symmetric] by auto
  have val: "be_nat L = len" unfolding L_def be_nat_dropWhile be_nat_nat_be using lt by simp
  define b :: u8 where "b = 0x80 OR word_of_nat (length L)"
  have enc: "encode_len len = b # L" 
    unfolding encode_len_def Let_def L_def [symmetric] b_def using False by (simp only: if_False)
  have b: "b AND 0x80 \<noteq> 0" "unat (b AND 0x7f) = length L"
    unfolding b_def by (rule long_length_byte [OF n])+
  have sl: "slice (pre @ b # L @ post) (Suc (length pre)) (Suc (length pre + length L)) = L"
    by (simp add: slice_def)
  have at: "(pre @ b # L @ post) ! length pre = b" by (simp add: nth_append)
  show ?thesis
    unfolding enc der_read_len_def Let_def using n
    by (simp add: rd_def at b foldl_be_nat val sl)
qed

lemma encode_len_length: "0 < length (encode_len n)"
  by (simp add: encode_len_def Let_def)

lemma der_read_tlv_rd:
  assumes tag: "tag AND 0x1f \<noteq> 0x1f" and len: "length (pre @ encode_tlv tag v) < 2 ^ 64"
  shows "der_read_tlv (rd pre (encode_tlv tag v @ post)) =
    Inr (\<lparr>tlv_tag = tag, tlv_value = v\<rparr>, rd (pre @ encode_tlv tag v) post)"
proof -
  have lt: "length v < 2 ^ 64" using len by (simp add: encode_tlv_def)
  define pre1 where "pre1 = pre @ [tag]"
  have "rd pre (encode_tlv tag v @ post)\<lparr>der_offset := der_offset (rd pre (encode_tlv tag v @ post)) + 1\<rparr>
      = rd pre1 (encode_len (length v) @ v @ post)"
    by (simp add: rd_def pre1_def encode_tlv_def)
  moreover have "usize_checked_add (length (pre1 @ encode_len (length v))) (length v)
      = Some (length (pre1 @ encode_len (length v)) + length v)"
    using len by (simp add: usize_checked_add_def pre1_def encode_tlv_def)
  moreover have "der_bytes (rd pre (encode_tlv tag v @ post)) ! der_offset (rd pre (encode_tlv tag v @ post)) = tag"
    "\<not> der_offset (rd pre (encode_tlv tag v @ post)) \<ge> length (der_bytes (rd pre (encode_tlv tag v @ post)))"
    by (simp_all add: rd_def encode_tlv_def nth_append)
  moreover have "slice (pre1 @ encode_len (length v) @ v @ post) (length (pre1 @ encode_len (length v)))
      (length (pre1 @ encode_len (length v)) + length v) = v"
    by (simp add: slice_def)
  ultimately show ?thesis
    unfolding der_read_tlv_def Let_def using tag der_read_len_rd [OF lt, of pre1 "v @ post"]
    by (simp add: rd_def pre1_def encode_tlv_def)
qed

section \<open>Base-128 groups\<close>

lemma mask7: "(0x7f :: 'a::len word) = mask 7"
  by (simp add: mask_eq_exp_minus_1)

lemma exp7: "(0x80 :: u8) = push_bit 7 1"
  by simp

lemma group_parts:
  fixes v :: u32
  shows "push_bit 7 (drop_bit 7 v) OR (v AND 0x7f) = v"
    and "(ucast (v AND 0x7f) :: u8) AND 0x80 = 0"
    and "(ucast (v AND 0x7f) OR 0x80 :: u8) AND 0x80 \<noteq> 0"
    and "(ucast ((ucast (v AND 0x7f) :: u8) AND 0x7f) :: u32) = v AND 0x7f"
    and "(ucast ((ucast (v AND 0x7f) OR 0x80 :: u8) AND 0x7f) :: u32) = v AND 0x7f"
proof -
  show "push_bit 7 (drop_bit 7 v) OR (v AND 0x7f) = v"
    unfolding mask7 by (intro bit_word_eqI) (auto simp: bit_simps)
  have b7: "\<not> bit (ucast (v AND 0x7f) :: u8) 7" unfolding mask7 by (simp add: bit_simps)
  show "(ucast (v AND 0x7f) :: u8) AND 0x80 = 0"
    using bit_iff_and_push_bit_not_eq_0 [of "ucast (v AND 0x7f) :: u8" 7] b7 by simp
  have "bit (ucast (v AND 0x7f) OR 0x80 :: u8) 7" unfolding exp7 by (simp add: bit_simps)
  then show "(ucast (v AND 0x7f) OR 0x80 :: u8) AND 0x80 \<noteq> 0"
    using bit_iff_and_push_bit_not_eq_0 [of "ucast (v AND 0x7f) OR 0x80 :: u8" 7] by simp
  show low: "(ucast ((ucast (v AND 0x7f) :: u8) AND 0x7f) :: u32) = v AND 0x7f"
    unfolding mask7 by (intro bit_word_eqI) (auto simp: bit_simps)
  show "(ucast ((ucast (v AND 0x7f) OR 0x80 :: u8) AND 0x7f) :: u32) = v AND 0x7f"
  proof -
    have "(ucast (v AND 0x7f) OR 0x80 :: u8) AND 0x7f = ucast (v AND 0x7f) AND 0x7f"
      by (simp add: bit.conj_disj_distrib2)
    then show ?thesis using low by simp
  qed
qed

lemma decode_arc_groups: "decode_arc 0 (base128_groups v acc @ rest) = decode_arc v (acc @ rest)"
proof (induction v acc rule: base128_groups.induct)
  case (1 v acc)
  show ?case
  proof (cases "v > 0")
    case True
    then have "base128_groups v acc = base128_groups (drop_bit 7 v) ((ucast (v AND 0x7f) OR 0x80) # acc)"
      by (subst base128_groups.simps) simp
    then show ?thesis
      using "1.IH" [OF True] group_parts(1,3,5) [of v] by (simp add: Let_def del: append.simps) (simp add: Let_def)
  next
    case False
    then have "v = 0" by (simp add: word_neq_0_conv [symmetric])
    then show ?thesis by (subst base128_groups.simps) simp
  qed
qed

lemma decode_arc_base128: "decode_arc 0 (encode_base128 v @ rest) = Inr (v, rest)"
  using group_parts(1,2,4) [of v] by (simp add: encode_base128_def decode_arc_groups)

lemma encode_base128_not_Nil: "encode_base128 v \<noteq> []"
  using decode_arc_base128 [of v "[]"] by (cases "encode_base128 v") auto

lemma decode_arcs_base128: "decode_arcs (concat (map encode_base128 arcs)) = Inr arcs"
proof (induction arcs)
  case Nil
  then show ?case by (subst decode_arcs.simps) simp
next
  case (Cons a arcs)
  then show ?case by (subst decode_arcs.simps) (simp add: encode_base128_not_Nil decode_arc_base128)
qed

lemma encode_base128_small:
  assumes "v < 128"
  shows "encode_base128 v = [ucast v]"
proof -
  have "drop_bit 7 v = 0" using assms by (simp add: drop_bit_eq_div div_word_less)
  moreover have "v AND 0x7f = v"
    unfolding mask7 take_bit_eq_mask [symmetric] take_bit_eq_mod using assms by (simp add: mod_word_less)
  ultimately show ?thesis
    by (simp add: encode_base128_def base128_groups.simps)
qed

section \<open>Object identifiers on the wire\<close>

text \<open>The identifiers whose first two arcs share one byte.\<close>

definition oid_plain :: "oid \<Rightarrow> bool" where
  "oid_plain oid \<longleftrightarrow> 2 \<le> length oid \<and> oid ! 0 \<le> 2 \<and> oid ! 1 < 40"

lemma oid_plain_valid: "oid_plain oid \<Longrightarrow> validate_arcs oid = Inr ()"
  by (auto simp: oid_plain_def validate_arcs_def)

definition oid_value :: "oid \<Rightarrow> bytes" where
  "oid_value oid = encode_base128 (word_of_nat (unat (oid ! 0) * 40 + unat (oid ! 1))) @ concat (map encode_base128 (drop 2 oid))"

lemma oid_plain_first:
  assumes "oid_plain oid"
  shows "unat (oid ! 0) * 40 + unat (oid ! 1) < 120"
proof -
  have "unat (oid ! 0) \<le> 2" "unat (oid ! 1) < 40"
    using assms by (simp_all add: oid_plain_def word_le_nat_alt word_less_nat_alt)
  then show ?thesis by linarith
qed

lemma encode_oid_plain: "oid_plain oid \<Longrightarrow> encode_oid oid = Inr (encode_tlv 0x06 (oid_value oid))"
  using oid_plain_first [of oid] by (simp add: encode_oid_def oid_plain_valid oid_value_def Let_def)

lemma unat_numeral_40: "unat (40 :: u8) = 40"
  by simp

lemma decode_oid_value_plain:
  assumes "oid_plain oid"
  shows "decode_oid_value (oid_value oid) = Inr oid"
proof -
  define f where "f = unat (oid ! 0) * 40 + unat (oid ! 1)"
  have f: "f < 120" using oid_plain_first [OF assms] by (simp add: f_def)
  have u1: "unat (oid ! 1) < 40" using assms by (simp add: oid_plain_def word_less_nat_alt)
  have uf: "unat (word_of_nat f :: u8) = f" using f by simp
  have "unat (ucast (word_of_nat f :: u32) :: u8) = unat (word_of_nat f :: u8)"
    using f by (simp add: unsigned_ucast_eq unat_of_nat take_bit_nat_eq_self)
  then have uc: "ucast (word_of_nat f :: u32) = (word_of_nat f :: u8)" by (rule unsigned_word_eqI)
  have "(word_of_nat f :: u32) < 128" using f by (simp add: word_less_nat_alt unat_of_nat)
  then have v: "oid_value oid = word_of_nat f # concat (map encode_base128 (drop 2 oid))"
    unfolding oid_value_def f_def [symmetric] using uc by (simp add: encode_base128_small)
  have d: "f div 40 = unat (oid ! 0)" "f mod 40 = unat (oid ! 1)" using u1 by (simp_all add: f_def)
  have up: "unat (ucast w :: u32) = unat w" for w :: u8
    using unat_byte_lt [of w] by (simp add: unsigned_ucast_eq take_bit_nat_eq_self)
  have "unat (ucast ((word_of_nat f :: u8) div 40) :: u32) = unat (oid ! 0)"
    by (simp only: up unat_div uf d(1) unat_numeral_40)
  then have a0: "ucast ((word_of_nat f :: u8) div 40) = oid ! 0" by (rule unsigned_word_eqI)
  have "unat (ucast ((word_of_nat f :: u8) mod 40) :: u32) = unat (oid ! 1)"
    by (simp only: up unat_mod uf d(2) unat_numeral_40)
  then have a1: "ucast ((word_of_nat f :: u8) mod 40) = oid ! 1" by (rule unsigned_word_eqI)
  have "oid = oid ! 0 # oid ! 1 # drop 2 oid"
    using assms by (cases oid; cases "tl oid") (auto simp: oid_plain_def numeral_2_eq_2)
  then show ?thesis
    using oid_plain_valid [OF assms]
    by (simp add: v decode_oid_value_def decode_arcs_base128 a0 a1 oid_from_arcs_def)
qed

lemma read_single_tlv_encoded:
  assumes "tag AND 0x1f \<noteq> 0x1f" and "length (encode_tlv tag v) < 2 ^ 64"
  shows "read_single_tlv (encode_tlv tag v) tag = Inr \<lparr>tlv_tag = tag, tlv_value = v\<rparr>"
  using der_read_tlv_rd [of tag "[]" v "[]"] assms by (simp add: read_single_tlv_def)

lemma length_encode_tlv: "length v < length (encode_tlv tag v)"
  using encode_len_length [of "length v"] by (simp add: encode_tlv_def)

section \<open>Integers\<close>

lemma push_or_byte: "push_bit 8 v OR ucast (b :: u8) = v * 256 + (ucast b :: u32)"
proof -
  have "push_bit 8 v + ucast b = push_bit 8 v OR (ucast b :: u32)"
    by (rule disjunctive_add) (auto simp: bit_simps dest: bit_imp_le_length)
  then show ?thesis by (simp add: push_bit_eq_mult)
qed

lemma foldl_u32: "foldl (\<lambda>v byte. push_bit 8 v OR ucast byte) (word_of_nat n) bs = (word_of_nat (n * 256 ^ length bs + be_nat bs) :: u32)"
proof (induction bs arbitrary: n)
  case (Cons b bs)
  have "(word_of_nat n :: u32) * 256 + ucast b = word_of_nat (n * 256 + unat b)"
    by (simp add: of_nat_unat)
  then show ?case using Cons.IH [of "n * 256 + unat b"] by (simp add: push_or_byte algebra_simps)
qed simp

lemma decode_u32_value:
  assumes "bs \<noteq> []" and "length bs \<le> 5" and "bs ! 0 AND 0x80 = 0"
  shows "decode_u32 bs = Inr (word_of_nat (be_nat bs))"
  using assms foldl_u32 [of 0 bs] by (simp add: decode_u32_def)

lemma be_nat_to_bytes: "be_nat (to_bytes_en Big (v :: u32)) = unat v"
  using unat_lt_pow [of v] by (simp add: to_bytes_en_def del: nat_be_numeral)

lemma decode_encode_u32: "decode_u32 (encode_u32 v) = Inr v"
proof -
  define bs where "bs = to_bytes_en Big v"
  define e where "e = (if list_all (\<lambda>b. b = 0) bs then drop (length bs - 1) bs else dropWhile (\<lambda>b. b = 0) bs)"
  have len: "length bs = 4" by (simp add: bs_def)
  have zero: "be_nat xs = 0" if "list_all (\<lambda>b. b = 0) xs" for xs :: bytes
    using that by (induction xs) auto
  have e: "e \<noteq> []" "length e \<le> 4" "be_nat e = be_nat bs"
  proof -
    show "e \<noteq> []" using len by (auto simp: e_def list_all_iff dropWhile_eq_Nil_conv)
    show "length e \<le> 4"
      using len length_dropWhile_le [of "\<lambda>b. b = 0" bs] by (auto simp: e_def)
    show "be_nat e = be_nat bs"
      using zero [of bs] zero [of "drop (length bs - 1) bs"] set_drop_subset [of "length bs - 1" bs]
      by (auto simp: e_def be_nat_dropWhile list_all_iff)
  qed
  have enc: "encode_u32 v = (if e ! 0 AND 0x80 \<noteq> 0 then 0 # e else e)"
    by (simp add: encode_u32_def bs_def e_def Let_def)
  have "decode_u32 (encode_u32 v) = Inr (word_of_nat (be_nat e))"
    using e decode_u32_value [of "0 # e"] decode_u32_value [of e] unfolding enc by (cases "e ! 0 AND 0x80 = 0") auto
  then show ?thesis by (simp add: e(3) bs_def be_nat_to_bytes)
qed

end
