(* ===== verification/Unicode_Text.thy ===== *)
theory Unicode_Text
  imports Krb_Prelude
begin

text \<open>
  The Unicode-aware string methods of the standard library that the parsers use, on strings kept as
  their UTF-8 bytes: \<open>char::is_whitespace\<close> (the \<open>White_Space\<close> property), \<open>trim\<close>, \<open>trim_start\<close>,
  \<open>trim_end\<close>, \<open>splitn(2, char::is_whitespace)\<close>.
\<close>

text \<open>The number of bytes of the white-space character a string starts with, 0 when it starts with none.\<close>

definition ws_len :: "string \<Rightarrow> nat" where
  "ws_len s =
     (case map of_char (take 3 s) :: nat list of
        [] \<Rightarrow> 0
      | a # r \<Rightarrow>
          if (9 \<le> a \<and> a \<le> 13) \<or> a = 32 then 1
          else (case r of
            [] \<Rightarrow> 0
          | b # q \<Rightarrow>
              if a = 0xC2 \<and> (b = 0x85 \<or> b = 0xA0) then 2
              else (case q of
                [] \<Rightarrow> 0
              | c # _ \<Rightarrow>
                  if (a = 0xE1 \<and> b = 0x9A \<and> c = 0x80)
                    \<or> (a = 0xE2 \<and> b = 0x80 \<and> ((0x80 \<le> c \<and> c \<le> 0x8A) \<or> c = 0xA8 \<or> c = 0xA9 \<or> c = 0xAF))
                    \<or> (a = 0xE2 \<and> b = 0x81 \<and> c = 0x9F)
                    \<or> (a = 0xE3 \<and> b = 0x80 \<and> c = 0x80)
                  then 3 else 0)))"

lemma ws_len_le: "ws_len s \<le> length s"
  by (cases s rule: list.exhaust; cases "tl s"; cases "tl (tl s)") (auto simp: ws_len_def)

lemma ws_len_Nil [simp]: "ws_len [] = 0"
  by (simp add: ws_len_def)

function trim_start :: "string \<Rightarrow> string" where
  "trim_start s = (if ws_len s = 0 then s else trim_start (drop (ws_len s) s))"
  by pat_completeness auto
termination
proof (relation "measure length", goal_cases)
  case (2 s)
  then show ?case using ws_len_le [of s] by (cases s) auto
qed simp

declare trim_start.simps [simp del]

fun trim_end :: "string \<Rightarrow> string" where
  "trim_end [] = []"
| "trim_end (c # cs) = (if trim_start (c # cs) = [] then [] else c # trim_end cs)"

definition trim :: "string \<Rightarrow> string" where
  "trim s = trim_end (trim_start s)"

text \<open>\<open>splitn(2, char::is_whitespace)\<close>: the part before the first white-space character and, when
  there is one, the part behind it.\<close>

fun split_ws_once :: "string \<Rightarrow> string \<times> string option" where
  "split_ws_once [] = ([], None)"
| "split_ws_once (c # cs) =
     (if ws_len (c # cs) > 0 then ([], Some (drop (ws_len (c # cs)) (c # cs)))
      else (case split_ws_once cs of (a, b) \<Rightarrow> (c # a, b)))"

section \<open>Printable ASCII\<close>

definition graphic :: "char \<Rightarrow> bool" where
  "graphic c \<longleftrightarrow> 32 < (of_char c :: nat) \<and> (of_char c :: nat) < 127"

lemma ws_len_graphic [simp]: "graphic c \<Longrightarrow> ws_len (c # s) = 0"
  by (cases s; cases "tl s") (auto simp: ws_len_def graphic_def)

lemma trim_start_graphic: "graphic c \<Longrightarrow> trim_start (c # s) = c # s"
  by (subst trim_start.simps) simp

lemma trim_graphic: "\<forall>c \<in> set s. graphic c \<Longrightarrow> trim s = s"
proof -
  assume g: "\<forall>c \<in> set s. graphic c"
  have "trim_start s = s" using g by (cases s) (simp_all add: trim_start_graphic trim_start.simps [of "[]"])
  moreover have "trim_end s = s" using g by (induction s) (simp_all add: trim_start_graphic)
  ultimately show ?thesis by (simp add: trim_def)
qed

lemma split_ws_once_space:
  assumes "\<forall>c \<in> set a. graphic c"
  shows "split_ws_once (a @ CHR 0x20 # b) = (a, Some b)"
  using assms
proof (induction a)
  case Nil
  have "ws_len (CHR 0x20 # b) = 1" by (cases b; cases "tl b") (simp_all add: ws_len_def)
  then show ?case by simp
qed simp

end
