(* ===== verification/Spnego.thy ===== *)
theory Spnego
  imports Spnego_Der Unicode_Text
begin

text \<open>
  The negotiation tokens of \<open>src/spnego.rs\<close>: GSS-API Kerberos mechanism tokens, \<open>NegTokenInit\<close>,
  \<open>NegTokenResp\<close>, the full SPNEGO token and the HTTP \<open>Negotiate\<close> header.  Base64 is a crate outside
  the repository: its two functions are the parameter \<open>B\<close>.
\<close>

unbundle bit_operations_syntax

section \<open>Mechanism tokens\<close>

datatype krb5_token_id = ApReq | ApRep | KrbError

fun krb5_token_id_bytes :: "krb5_token_id \<Rightarrow> bytes" where
  "krb5_token_id_bytes ApReq = [0x01, 0x00]"
| "krb5_token_id_bytes ApRep = [0x02, 0x00]"
| "krb5_token_id_bytes KrbError = [0x03, 0x00]"

definition krb5_token_id_from_bytes :: "bytes \<Rightarrow> spnego_error + krb5_token_id" where
  "krb5_token_id_from_bytes bs =
     (if bs = [0x01, 0x00] then Inr ApReq
      else if bs = [0x02, 0x00] then Inr ApRep
      else if bs = [0x03, 0x00] then Inr KrbError
      else Inl (UnknownKrb5TokenId bs))"

record krb5_mech_token =
  k5_oid :: oid
  k5_token_id :: krb5_token_id
  k5_message :: bytes

definition krb5_mech_token_new :: "krb5_token_id \<Rightarrow> bytes \<Rightarrow> krb5_mech_token" where
  "krb5_mech_token_new token_id message = \<lparr>k5_oid = oid_krb5, k5_token_id = token_id, k5_message = message\<rparr>"

definition krb5_mech_token_decode :: "bytes \<Rightarrow> spnego_error + krb5_mech_token" where
  "krb5_mech_token_decode bs =
     rbind (der_read_tlv (der_new bs)) (\<lambda>(token, outer).
     rbind (der_finish outer) (\<lambda>_.
       if tlv_tag token \<noteq> 0x60 then Inl (UnexpectedTag 0x60 (tlv_tag token))
       else
         rbind (der_read_tlv (der_new (tlv_value token))) (\<lambda>(oid_tlv, content).
         rbind (decode_oid_tlv oid_tlv) (\<lambda>oid.
           if oid \<noteq> oid_krb5 then Inl (UnsupportedMechanism oid)
           else
             rbind (der_read_bytes content 2) (\<lambda>(tok_id, content).
             rbind (krb5_token_id_from_bytes [tok_id ! 0, tok_id ! 1]) (\<lambda>token_id.
               let message = der_remaining content
               in if message = [] then Inl MissingKerberosMessage
                  else Inr \<lparr>k5_oid = oid, k5_token_id = token_id, k5_message = message\<rparr>))))))"

definition krb5_mech_token_encode :: "krb5_mech_token \<Rightarrow> spnego_error + bytes" where
  "krb5_mech_token_encode t =
     (if k5_message t = [] then Inl MissingKerberosMessage
      else rbind (encode_oid (k5_oid t)) (\<lambda>content.
        Inr (encode_tlv 0x60 (content @ krb5_token_id_bytes (k5_token_id t) @ k5_message t))))"

definition ap_req_bytes :: "krb5_mech_token \<Rightarrow> bytes option" where
  "ap_req_bytes t = (if k5_token_id t = ApReq then Some (k5_message t) else None)"

definition ap_rep_bytes :: "krb5_mech_token \<Rightarrow> bytes option" where
  "ap_rep_bytes t = (if k5_token_id t = ApRep then Some (k5_message t) else None)"

section \<open>Negotiation tokens\<close>

datatype neg_state = AcceptCompleted | AcceptIncomplete | Reject | RequestMic

fun neg_state_value :: "neg_state \<Rightarrow> u32" where
  "neg_state_value AcceptCompleted = 0"
| "neg_state_value AcceptIncomplete = 1"
| "neg_state_value Reject = 2"
| "neg_state_value RequestMic = 3"

definition neg_state_from_value :: "u32 \<Rightarrow> spnego_error + neg_state" where
  "neg_state_from_value v =
     (if v = 0 then Inr AcceptCompleted else if v = 1 then Inr AcceptIncomplete
      else if v = 2 then Inr Reject else if v = 3 then Inr RequestMic else Inl (InvalidNegState v))"

record neg_token_init =
  ni_mech_types :: "oid list"
  ni_req_flags :: "bytes option"
  ni_mech_token :: "bytes option"
  ni_mech_list_mic :: "bytes option"

record neg_token_resp =
  nr_neg_state :: "neg_state option"
  nr_supported_mech :: "oid option"
  nr_response_token :: "bytes option"
  nr_mech_list_mic :: "bytes option"

datatype negotiation_token = NegInit neg_token_init | NegResp neg_token_resp

datatype spnego_token = SpnegoInit neg_token_init | SpnegoResp neg_token_resp

definition neg_token_init_krb5 :: "bytes \<Rightarrow> neg_token_init" where
  "neg_token_init_krb5 mech_token =
     \<lparr>ni_mech_types = [oid_krb5], ni_req_flags = None, ni_mech_token = Some mech_token, ni_mech_list_mic = None\<rparr>"

definition neg_resp_accept_completed :: neg_token_resp where
  "neg_resp_accept_completed = \<lparr>nr_neg_state = Some AcceptCompleted, nr_supported_mech = Some oid_krb5,
     nr_response_token = None, nr_mech_list_mic = None\<rparr>"

definition neg_resp_accept_incomplete_krb5 :: neg_token_resp where
  "neg_resp_accept_incomplete_krb5 = \<lparr>nr_neg_state = Some AcceptIncomplete, nr_supported_mech = Some oid_krb5,
     nr_response_token = None, nr_mech_list_mic = None\<rparr>"

definition neg_resp_reject :: neg_token_resp where
  "neg_resp_reject = \<lparr>nr_neg_state = Some Reject, nr_supported_mech = None,
     nr_response_token = None, nr_mech_list_mic = None\<rparr>"

definition neg_resp_with_response_token :: "neg_token_resp \<Rightarrow> bytes \<Rightarrow> neg_token_resp" where
  "neg_resp_with_response_token t tok = t\<lparr>nr_response_token := Some tok\<rparr>"

section \<open>Encoding\<close>

definition opt_field :: "u8 \<Rightarrow> u8 \<Rightarrow> bytes option \<Rightarrow> bytes" where
  "opt_field ctx tag f = (case f of None \<Rightarrow> [] | Some v \<Rightarrow> encode_explicit ctx (encode_tlv tag v))"

fun encode_oids :: "oid list \<Rightarrow> spnego_error + bytes" where
  "encode_oids [] = Inr []"
| "encode_oids (oid # oids) = rbind (encode_oid oid) (\<lambda>bs. rbind (encode_oids oids) (\<lambda>rest. Inr (bs @ rest)))"

definition neg_token_init_encode :: "neg_token_init \<Rightarrow> spnego_error + bytes" where
  "neg_token_init_encode t =
     (if ni_mech_types t = [] then Inl MissingMechTypes
      else rbind (encode_oids (ni_mech_types t)) (\<lambda>mech_types.
        let fs = encode_explicit 0xa0 (encode_tlv 0x30 mech_types)
               @ opt_field 0xa1 0x03 (ni_req_flags t)
               @ opt_field 0xa2 0x04 (ni_mech_token t)
               @ opt_field 0xa3 0x04 (ni_mech_list_mic t)
        in Inr (encode_explicit 0xa0 (encode_tlv 0x30 fs))))"

definition neg_token_resp_encode :: "neg_token_resp \<Rightarrow> spnego_error + bytes" where
  "neg_token_resp_encode t =
     rbind (case nr_supported_mech t of None \<Rightarrow> Inr []
            | Some oid \<Rightarrow> rbind (encode_oid oid) (\<lambda>bs. Inr (encode_explicit 0xa1 bs))) (\<lambda>mech.
       let fs = opt_field 0xa0 0x0a (map_option (\<lambda>s. encode_u32 (neg_state_value s)) (nr_neg_state t))
              @ mech
              @ opt_field 0xa2 0x04 (nr_response_token t)
              @ opt_field 0xa3 0x04 (nr_mech_list_mic t)
       in Inr (encode_explicit 0xa1 (encode_tlv 0x30 fs)))"

fun negotiation_token_encode :: "negotiation_token \<Rightarrow> spnego_error + bytes" where
  "negotiation_token_encode (NegInit t) = neg_token_init_encode t"
| "negotiation_token_encode (NegResp t) = neg_token_resp_encode t"

fun spnego_token_encode :: "spnego_token \<Rightarrow> spnego_error + bytes" where
  "spnego_token_encode (SpnegoInit t) =
     rbind (encode_oid oid_spnego) (\<lambda>content.
       rbind (neg_token_init_encode t) (\<lambda>bs. Inr (encode_tlv 0x60 (content @ bs))))"
| "spnego_token_encode (SpnegoResp t) = neg_token_resp_encode t"

section \<open>Decoding\<close>

lemma der_read_len_offset: "der_read_len r = Inr (n, r') \<Longrightarrow> der_bytes r' = der_bytes r \<and> der_offset r < der_offset r'"
  by (auto simp: der_read_len_def Let_def split: if_splits)

lemma der_read_tlv_progress:
  assumes "der_read_tlv r = Inr (t, r')"
  shows "length (der_remaining r') < length (der_remaining r)"
proof -
  have "der_bytes r' = der_bytes r \<and> der_offset r < der_offset r' \<and> der_offset r < length (der_bytes r)"
    using assms
    by (auto simp: der_read_tlv_def Let_def rbind_eq_Inr ok_or_eq_Inr usize_checked_add_def
        dest!: der_read_len_offset split: if_splits)
  then show ?thesis by (auto simp: der_remaining_def)
qed

function decode_oids :: "der_reader \<Rightarrow> spnego_error + oid list" where
  "decode_oids r =
     (if der_remaining r = [] then Inr []
      else rbind (der_read_tlv r) (\<lambda>(tlv, r').
        rbind (decode_oid_tlv tlv) (\<lambda>oid. rbind (decode_oids r') (\<lambda>oids. Inr (oid # oids)))))"
  by pat_completeness auto
termination
  by (relation "measure (\<lambda>r. length (der_remaining r))") (auto dest: der_read_tlv_progress)

declare decode_oids.simps [simp del]

text \<open>The local variables of the field loop of \<open>decode_neg_token_init\<close>.\<close>

record init_fields =
  if_mech_types :: "oid list option"
  if_req_flags :: "bytes option"
  if_mech_token :: "bytes option"
  if_mech_list_mic :: "bytes option"

definition decode_init_field :: "tlv \<Rightarrow> init_fields \<Rightarrow> spnego_error + init_fields" where
  "decode_init_field field st =
     (if tlv_tag field = 0xa0 then
        rbind (read_single_tlv (tlv_value field) 0x30) (\<lambda>sequence.
          rbind (decode_oids (der_new (tlv_value sequence))) (\<lambda>oids. Inr (st\<lparr>if_mech_types := Some oids\<rparr>)))
      else if tlv_tag field = 0xa1 then
        rbind (read_single_tlv (tlv_value field) 0x03) (\<lambda>t. Inr (st\<lparr>if_req_flags := Some (tlv_value t)\<rparr>))
      else if tlv_tag field = 0xa2 then
        rbind (read_single_tlv (tlv_value field) 0x04) (\<lambda>t. Inr (st\<lparr>if_mech_token := Some (tlv_value t)\<rparr>))
      else if tlv_tag field = 0xa3 then
        rbind (read_single_tlv (tlv_value field) 0x04) (\<lambda>t. Inr (st\<lparr>if_mech_list_mic := Some (tlv_value t)\<rparr>))
      else Inl (UnexpectedTag 0xa0 (tlv_tag field)))"

function decode_init_loop :: "der_reader \<Rightarrow> init_fields \<Rightarrow> spnego_error + init_fields" where
  "decode_init_loop r st =
     (if der_remaining r = [] then Inr st
      else rbind (der_read_tlv r) (\<lambda>(field, r').
        rbind (decode_init_field field st) (\<lambda>st'. decode_init_loop r' st')))"
  by pat_completeness auto
termination
  by (relation "measure (\<lambda>(r, st). length (der_remaining r))") (auto dest: der_read_tlv_progress)

declare decode_init_loop.simps [simp del]

definition decode_neg_token_init :: "bytes \<Rightarrow> spnego_error + neg_token_init" where
  "decode_neg_token_init bs =
     rbind (read_single_tlv bs 0x30) (\<lambda>sequence.
       rbind (decode_init_loop (der_new (tlv_value sequence))
           \<lparr>if_mech_types = None, if_req_flags = None, if_mech_token = None, if_mech_list_mic = None\<rparr>) (\<lambda>st.
         rbind (ok_or (if_mech_types st) MissingMechTypes) (\<lambda>mech_types.
           if mech_types = [] then Inl MissingMechTypes
           else Inr \<lparr>ni_mech_types = mech_types, ni_req_flags = if_req_flags st,
                     ni_mech_token = if_mech_token st, ni_mech_list_mic = if_mech_list_mic st\<rparr>)))"

definition decode_resp_field :: "tlv \<Rightarrow> neg_token_resp \<Rightarrow> spnego_error + neg_token_resp" where
  "decode_resp_field field st =
     (if tlv_tag field = 0xa0 then
        rbind (read_single_tlv (tlv_value field) 0x0a) (\<lambda>enumerated.
          rbind (decode_u32 (tlv_value enumerated)) (\<lambda>v.
            rbind (neg_state_from_value v) (\<lambda>s. Inr (st\<lparr>nr_neg_state := Some s\<rparr>))))
      else if tlv_tag field = 0xa1 then
        rbind (read_single_tlv (tlv_value field) 0x06) (\<lambda>t.
          rbind (decode_oid_tlv t) (\<lambda>oid. Inr (st\<lparr>nr_supported_mech := Some oid\<rparr>)))
      else if tlv_tag field = 0xa2 then
        rbind (read_single_tlv (tlv_value field) 0x04) (\<lambda>t. Inr (st\<lparr>nr_response_token := Some (tlv_value t)\<rparr>))
      else if tlv_tag field = 0xa3 then
        rbind (read_single_tlv (tlv_value field) 0x04) (\<lambda>t. Inr (st\<lparr>nr_mech_list_mic := Some (tlv_value t)\<rparr>))
      else Inl (UnexpectedTag 0xa0 (tlv_tag field)))"

function decode_resp_loop :: "der_reader \<Rightarrow> neg_token_resp \<Rightarrow> spnego_error + neg_token_resp" where
  "decode_resp_loop r st =
     (if der_remaining r = [] then Inr st
      else rbind (der_read_tlv r) (\<lambda>(field, r').
        rbind (decode_resp_field field st) (\<lambda>st'. decode_resp_loop r' st')))"
  by pat_completeness auto
termination
  by (relation "measure (\<lambda>(r, st). length (der_remaining r))") (auto dest: der_read_tlv_progress)

declare decode_resp_loop.simps [simp del]

definition decode_neg_token_resp :: "bytes \<Rightarrow> spnego_error + neg_token_resp" where
  "decode_neg_token_resp bs =
     rbind (read_single_tlv bs 0x30) (\<lambda>sequence.
       decode_resp_loop (der_new (tlv_value sequence))
         \<lparr>nr_neg_state = None, nr_supported_mech = None, nr_response_token = None, nr_mech_list_mic = None\<rparr>)"

definition decode_negotiation_choice :: "tlv \<Rightarrow> spnego_error + negotiation_token" where
  "decode_negotiation_choice choice =
     (if tlv_tag choice = 0xa0 then rbind (decode_neg_token_init (tlv_value choice)) (\<lambda>t. Inr (NegInit t))
      else if tlv_tag choice = 0xa1 then rbind (decode_neg_token_resp (tlv_value choice)) (\<lambda>t. Inr (NegResp t))
      else Inl (UnexpectedTag 0xa0 (tlv_tag choice)))"

definition negotiation_token_decode :: "bytes \<Rightarrow> spnego_error + negotiation_token" where
  "negotiation_token_decode bs =
     rbind (der_read_tlv (der_new bs)) (\<lambda>(choice, outer).
       rbind (der_finish outer) (\<lambda>_. decode_negotiation_choice choice))"

definition neg_token_init_decode :: "bytes \<Rightarrow> spnego_error + neg_token_init" where
  "neg_token_init_decode bs =
     rbind (negotiation_token_decode bs) (\<lambda>t. case t of
         NegInit t \<Rightarrow> Inr t
       | NegResp _ \<Rightarrow> Inl (WrongNegotiationToken ''NegTokenInit'' ''NegTokenResp''))"

definition neg_token_resp_decode :: "bytes \<Rightarrow> spnego_error + neg_token_resp" where
  "neg_token_resp_decode bs =
     rbind (negotiation_token_decode bs) (\<lambda>t. case t of
         NegInit _ \<Rightarrow> Inl (WrongNegotiationToken ''NegTokenResp'' ''NegTokenInit'')
       | NegResp t \<Rightarrow> Inr t)"

definition spnego_token_decode :: "bytes \<Rightarrow> spnego_error + spnego_token" where
  "spnego_token_decode bs =
     (if bs = [] then Inl EmptyInput
      else if bs ! 0 = 0x60 then
        rbind (der_read_tlv (der_new bs)) (\<lambda>(token, outer).
        rbind (der_finish outer) (\<lambda>_.
        rbind (der_read_tlv (der_new (tlv_value token))) (\<lambda>(oid_tlv, content).
        rbind (decode_oid_tlv oid_tlv) (\<lambda>oid.
          if oid \<noteq> oid_spnego then Inl (UnexpectedSpnegoOid oid)
          else rbind (negotiation_token_decode (der_remaining content)) (\<lambda>t. case t of
              NegInit t \<Rightarrow> Inr (SpnegoInit t)
            | NegResp _ \<Rightarrow> Inl (WrongNegotiationToken ''NegTokenInit'' ''NegTokenResp''))))))
      else rbind (negotiation_token_decode bs) (\<lambda>t. case t of
          NegInit t \<Rightarrow> Inr (SpnegoInit t)
        | NegResp t \<Rightarrow> Inr (SpnegoResp t)))"

section \<open>The Kerberos request inside\<close>

definition ensure_kerberos_mechanism :: "oid list \<Rightarrow> spnego_error + unit" where
  "ensure_kerberos_mechanism mech_types =
     (if mech_types = [] then Inl MissingMechTypes
      else if list_ex is_kerberos_mechanism mech_types then Inr ()
      else Inl (UnsupportedMechanism (mech_types ! 0)))"

definition neg_token_init_krb5_ap_req :: "neg_token_init \<Rightarrow> spnego_error + bytes" where
  "neg_token_init_krb5_ap_req t =
     rbind (ensure_kerberos_mechanism (ni_mech_types t)) (\<lambda>_.
     rbind (ok_or (ni_mech_token t) MissingMechToken) (\<lambda>token.
     rbind (krb5_mech_token_decode token) (\<lambda>krb5.
       if k5_token_id krb5 \<noteq> ApReq then Inl MissingApReq else Inr (k5_message krb5))))"

fun spnego_krb5_ap_req :: "spnego_token \<Rightarrow> spnego_error + bytes" where
  "spnego_krb5_ap_req (SpnegoInit t) = neg_token_init_krb5_ap_req t"
| "spnego_krb5_ap_req (SpnegoResp t) =
     rbind (ok_or (nr_supported_mech t) MissingMechTypes) (\<lambda>mech.
     rbind (ensure_kerberos_mechanism [mech]) (\<lambda>_.
     rbind (ok_or (nr_response_token t) MissingMechToken) (\<lambda>response.
     rbind (krb5_mech_token_decode response) (\<lambda>krb5.
       if k5_token_id krb5 \<noteq> ApReq then Inl MissingApReq else Inr (k5_message krb5)))))"

section \<open>HTTP headers\<close>

record base64 =
  b64_encode :: "bytes \<Rightarrow> string"
  b64_decode :: "string \<Rightarrow> bytes option"

definition b64_ok :: "base64 \<Rightarrow> bool" where
  "b64_ok B \<longleftrightarrow> (\<forall>bs. b64_decode B (b64_encode B bs) = Some bs
     \<and> (\<forall>c \<in> set (b64_encode B bs). graphic c) \<and> (b64_encode B bs = [] \<longrightarrow> bs = []))"

definition raw_krb5_negotiate_token :: "bytes \<Rightarrow> spnego_error \<Rightarrow> spnego_error + spnego_token" where
  "raw_krb5_negotiate_token bs spnego_error =
     (case krb5_mech_token_decode bs of
        Inl _ \<Rightarrow> Inl spnego_error
      | Inr krb5 \<Rightarrow>
          (case k5_token_id krb5 of
             ApReq \<Rightarrow> Inr (SpnegoInit (neg_token_init_krb5 bs))
           | ApRep \<Rightarrow> Inr (SpnegoResp (neg_resp_with_response_token neg_resp_accept_completed bs))
           | KrbError \<Rightarrow> Inr (SpnegoResp (neg_resp_with_response_token neg_resp_reject bs))))"

definition parse_negotiate_header :: "base64 \<Rightarrow> string \<Rightarrow> spnego_error + spnego_token" where
  "parse_negotiate_header B header =
     (let (scheme, rest) = split_ws_once header in
      rbind (ok_or rest InvalidNegotiateHeader) (\<lambda>encoded.
        if \<not> eq_ignore_ascii_case scheme ''Negotiate'' \<or> trim encoded = [] then Inl InvalidNegotiateHeader
        else rbind (ok_or (b64_decode B (trim encoded)) Base64Error) (\<lambda>bs.
          case spnego_token_decode bs of
            Inr t \<Rightarrow> Inr t
          | Inl e \<Rightarrow> raw_krb5_negotiate_token bs e)))"

definition negotiate_header :: "base64 \<Rightarrow> spnego_token \<Rightarrow> spnego_error + string" where
  "negotiate_header B token =
     rbind (spnego_token_encode token) (\<lambda>bs. Inr (''Negotiate '' @ b64_encode B bs))"

definition response_token_header :: "base64 \<Rightarrow> neg_token_resp \<Rightarrow> spnego_error + string" where
  "response_token_header B token =
     rbind (neg_token_resp_encode token) (\<lambda>bs. Inr (''Negotiate '' @ b64_encode B bs))"

definition accept_completed_header :: "base64 \<Rightarrow> spnego_error + string" where
  "accept_completed_header B = response_token_header B neg_resp_accept_completed"

definition accept_incomplete_krb5_header :: "base64 \<Rightarrow> spnego_error + string" where
  "accept_incomplete_krb5_header B = response_token_header B neg_resp_accept_incomplete_krb5"

definition reject_header :: "base64 \<Rightarrow> spnego_error + string" where
  "reject_header B = response_token_header B neg_resp_reject"

section \<open>The authenticator checksum\<close>

definition authenticator_checksum :: "u32 list \<Rightarrow> bytes" where
  "authenticator_checksum flags =
     foldl (\<lambda>checksum flag.
         let checksum = (if flag = 1 \<and> length checksum < 28 then checksum @ replicate (28 - length checksum) 0 else checksum);
             current = (from_bytes_en Little (slice checksum 20 24) :: u32) OR flag
         in take 20 checksum @ to_bytes_en Little current @ drop 24 checksum)
       (to_bytes_en Little (16 :: u32) @ replicate 20 0) flags"

end
