(* ===== verification/Spnego_Props.thy ===== *)
theory Spnego_Props
  imports Spnego
begin

text \<open>
  Round trips of the negotiation tokens and of the HTTP header, and the extraction of the Kerberos
  request from them.
\<close>

unbundle bit_operations_syntax

section \<open>Reading what was written\<close>

lemma der_read_oid:
  assumes "oid_plain oid" and "length (pre @ encode_tlv 0x06 (oid_value oid)) < 2 ^ 64"
  shows "rbind (der_read_tlv (rd pre (encode_tlv 0x06 (oid_value oid) @ post))) (\<lambda>(t, r).
           rbind (decode_oid_tlv t) (\<lambda>oid'. k oid' r))
       = k oid (rd (pre @ encode_tlv 0x06 (oid_value oid)) post)"
  using der_read_tlv_rd [of "0x06" pre "oid_value oid" post] assms
  by (simp add: decode_oid_tlv_def decode_oid_value_plain)

lemma encode_tlv_Cons: "encode_tlv tag v = tag # encode_len (length v) @ v"
  by (simp add: encode_tlv_def)

lemma oid_plain_krb5 [simp]: "oid_plain oid_krb5" "oid_plain oid_spnego" "oid_plain oid_ms_legacy_krb5"
  by (simp_all add: oid_plain_def oid_krb5_def oid_spnego_def oid_ms_legacy_krb5_def)

lemma encode_oids_plain:
  "list_all oid_plain oids \<Longrightarrow> encode_oids oids = Inr (concat (map (\<lambda>oid. encode_tlv 0x06 (oid_value oid)) oids))"
  by (induction oids) (simp_all add: encode_oid_plain)

lemma decode_oids_plain:
  assumes "list_all oid_plain oids"
    and "length (pre @ concat (map (\<lambda>oid. encode_tlv 0x06 (oid_value oid)) oids)) < 2 ^ 64"
  shows "decode_oids (rd pre (concat (map (\<lambda>oid. encode_tlv 0x06 (oid_value oid)) oids))) = Inr oids"
  using assms
proof (induction oids arbitrary: pre)
  case Nil
  then show ?case by (subst decode_oids.simps) simp
next
  case (Cons oid oids)
  have ne: "encode_tlv 0x06 (oid_value oid) \<noteq> []" by (simp add: encode_tlv_Cons)
  show ?case
    using Cons.IH [of "pre @ encode_tlv 0x06 (oid_value oid)"] Cons.prems ne
      der_read_tlv_rd [of "0x06" pre "oid_value oid"]
    by (subst decode_oids.simps) (simp add: decode_oid_tlv_def decode_oid_value_plain)
qed

section \<open>The field loops\<close>

lemma decode_init_loop_Nil [simp]: "decode_init_loop (rd pre []) st = Inr st"
  by (subst decode_init_loop.simps) simp

lemma decode_init_loop_field:
  assumes "tag AND 0x1f \<noteq> 0x1f" and "length (pre @ encode_tlv tag v) < 2 ^ 64"
    and "decode_init_field \<lparr>tlv_tag = tag, tlv_value = v\<rparr> st = Inr st'"
  shows "decode_init_loop (rd pre (encode_tlv tag v @ post)) st = decode_init_loop (rd (pre @ encode_tlv tag v) post) st'"
  using der_read_tlv_rd [of tag pre v post] assms
  by (subst decode_init_loop.simps) (simp add: encode_tlv_Cons)

lemma decode_resp_loop_Nil [simp]: "decode_resp_loop (rd pre []) st = Inr st"
  by (subst decode_resp_loop.simps) simp

lemma decode_resp_loop_field:
  assumes "tag AND 0x1f \<noteq> 0x1f" and "length (pre @ encode_tlv tag v) < 2 ^ 64"
    and "decode_resp_field \<lparr>tlv_tag = tag, tlv_value = v\<rparr> st = Inr st'"
  shows "decode_resp_loop (rd pre (encode_tlv tag v @ post)) st = decode_resp_loop (rd (pre @ encode_tlv tag v) post) st'"
  using der_read_tlv_rd [of tag pre v post] assms
  by (subst decode_resp_loop.simps) (simp add: encode_tlv_Cons)

lemma read_single_inner:
  assumes "tag AND 0x1f \<noteq> 0x1f" and "length (pre @ encode_tlv outer (encode_tlv tag v)) < 2 ^ 64"
  shows "read_single_tlv (encode_tlv tag v) tag = Inr \<lparr>tlv_tag = tag, tlv_value = v\<rparr>"
  using read_single_tlv_encoded [OF assms(1), of v] length_encode_tlv [of "encode_tlv tag v" outer] assms(2)
  by simp

text \<open>Reading an optional field runs its setter when the field is there and nothing otherwise.\<close>

lemma decode_init_loop_opt:
  assumes "length (pre @ opt_field ctx tag f) < 2 ^ 64"
    and "(ctx, tag, g) \<in> {(0xa1, 0x03, \<lambda>v st. st\<lparr>if_req_flags := Some v\<rparr>),
           (0xa2, 0x04, \<lambda>v st. st\<lparr>if_mech_token := Some v\<rparr>), (0xa3, 0x04, \<lambda>v st. st\<lparr>if_mech_list_mic := Some v\<rparr>)}"
  shows "decode_init_loop (rd pre (opt_field ctx tag f @ post)) st
       = decode_init_loop (rd (pre @ opt_field ctx tag f) post) (case f of None \<Rightarrow> st | Some v \<Rightarrow> g v st)"
proof (cases f)
  case (Some v)
  have tags: "ctx AND 0x1f \<noteq> 0x1f" "tag AND 0x1f \<noteq> 0x1f" using assms(2) by auto
  have len: "length (pre @ encode_tlv ctx (encode_tlv tag v)) < 2 ^ 64"
    using assms(1) by (simp add: opt_field_def encode_explicit_def Some)
  have "decode_init_field \<lparr>tlv_tag = ctx, tlv_value = encode_tlv tag v\<rparr> st = Inr (g v st)"
    using read_single_inner [OF tags(2) len] assms(2) by (auto simp: decode_init_field_def)
  then show ?thesis
    using decode_init_loop_field [OF tags(1) len, of st "g v st" post]
    by (simp add: opt_field_def encode_explicit_def Some)
qed (simp add: opt_field_def)

lemma neg_state_roundtrip [simp]: "neg_state_from_value (neg_state_value s) = Inr s"
  by (cases s) (simp_all add: neg_state_from_value_def)

lemma decode_resp_loop_opt:
  assumes "length (pre @ opt_field ctx tag f) < 2 ^ 64"
    and "\<And>v. f = Some v \<Longrightarrow> (ctx, tag, g v) \<in> {(0xa2, 0x04, \<lambda>st. st\<lparr>nr_response_token := Some v\<rparr>),
           (0xa3, 0x04, \<lambda>st. st\<lparr>nr_mech_list_mic := Some v\<rparr>)}"
  shows "decode_resp_loop (rd pre (opt_field ctx tag f @ post)) st
       = decode_resp_loop (rd (pre @ opt_field ctx tag f) post) (case f of None \<Rightarrow> st | Some v \<Rightarrow> g v st)"
proof (cases f)
  case (Some v)
  have tags: "ctx AND 0x1f \<noteq> 0x1f" "tag AND 0x1f \<noteq> 0x1f" using assms(2) [OF Some] by auto
  have len: "length (pre @ encode_tlv ctx (encode_tlv tag v)) < 2 ^ 64"
    using assms(1) by (simp add: opt_field_def encode_explicit_def Some)
  have "decode_resp_field \<lparr>tlv_tag = ctx, tlv_value = encode_tlv tag v\<rparr> st = Inr (g v st)"
    using read_single_inner [OF tags(2) len] assms(2) [OF Some] by (auto simp: decode_resp_field_def)
  then show ?thesis
    using decode_resp_loop_field [OF tags(1) len, of st "g v st" post]
    by (simp add: opt_field_def encode_explicit_def Some)
qed (simp add: opt_field_def)

lemma decode_resp_loop_state:
  assumes "length (pre @ opt_field 0xa0 0x0a (map_option (\<lambda>s. encode_u32 (neg_state_value s)) f)) < 2 ^ 64"
  shows "decode_resp_loop (rd pre (opt_field 0xa0 0x0a (map_option (\<lambda>s. encode_u32 (neg_state_value s)) f) @ post)) st
       = decode_resp_loop (rd (pre @ opt_field 0xa0 0x0a (map_option (\<lambda>s. encode_u32 (neg_state_value s)) f)) post)
           (case f of None \<Rightarrow> st | Some s \<Rightarrow> st\<lparr>nr_neg_state := Some s\<rparr>)"
proof (cases f)
  case (Some s)
  let ?v = "encode_u32 (neg_state_value s)"
  have len: "length (pre @ encode_tlv 0xa0 (encode_tlv 0x0a ?v)) < 2 ^ 64"
    using assms(1) by (simp add: opt_field_def encode_explicit_def Some)
  have "decode_resp_field \<lparr>tlv_tag = 0xa0, tlv_value = encode_tlv 0x0a ?v\<rparr> st = Inr (st\<lparr>nr_neg_state := Some s\<rparr>)"
    using read_single_inner [OF _ len] by (simp add: decode_resp_field_def decode_encode_u32)
  then show ?thesis
    using decode_resp_loop_field [OF _ len, of st "st\<lparr>nr_neg_state := Some s\<rparr>" post]
    by (simp add: opt_field_def encode_explicit_def Some)
qed (simp add: opt_field_def)

section \<open>Mechanism tokens\<close>

lemma krb5_mech_token_decode_encoded:
  assumes "k5_oid t = oid_krb5" and "krb5_mech_token_encode t = Inr bs" and "length bs < 2 ^ 64"
  shows "krb5_mech_token_decode bs = Inr t"
proof -
  define m where "m = k5_message t"
  define o' where "o' = encode_tlv 0x06 (oid_value oid_krb5)"
  define v where "v = o' @ krb5_token_id_bytes (k5_token_id t) @ m"
  have m: "m \<noteq> []" and bs: "bs = encode_tlv 0x60 v"
    using assms(1,2) by (auto simp: krb5_mech_token_encode_def encode_oid_plain v_def o'_def m_def split: if_splits)
  have lv: "length v < 2 ^ 64" using assms(3) length_encode_tlv [of v "0x60"] by (simp add: bs)
  then have lo: "length ([] @ encode_tlv 0x06 (oid_value oid_krb5)) < 2 ^ 64" by (simp add: v_def o'_def)
  have outer: "der_read_tlv (rd [] bs) = Inr (\<lparr>tlv_tag = 0x60, tlv_value = v\<rparr>, rd bs [])"
    using der_read_tlv_rd [of "0x60" "[]" v "[]"] assms(3) by (simp add: bs)
  have inner: "der_read_tlv (rd [] v)
      = Inr (\<lparr>tlv_tag = 0x06, tlv_value = oid_value oid_krb5\<rparr>, rd o' (krb5_token_id_bytes (k5_token_id t) @ m))"
    using der_read_tlv_rd [of "0x06" "[]" "oid_value oid_krb5" "krb5_token_id_bytes (k5_token_id t) @ m"] lo
    by (simp add: v_def o'_def)
  obtain a b where id: "krb5_token_id_bytes (k5_token_id t) = [a, b]"
    and idr: "krb5_token_id_from_bytes [a, b] = Inr (k5_token_id t)"
    by (cases "k5_token_id t") (simp_all add: krb5_token_id_from_bytes_def)
  have "der_read_bytes (rd o' (krb5_token_id_bytes (k5_token_id t) @ m)) 2
      = Inr ([a, b], rd (o' @ [a, b]) m)"
    using lv by (simp add: der_read_bytes_def rd_def usize_checked_add_def id v_def slice_def)
  with outer inner idr m show ?thesis
    using assms(1) by (simp add: krb5_mech_token_decode_def decode_oid_tlv_def decode_oid_value_plain m_def)
qed

section \<open>Negotiation tokens\<close>

text \<open>The tokens whose mechanism identifiers survive the one-byte encoding of their first two arcs.\<close>

fun neg_token_plain :: "negotiation_token \<Rightarrow> bool" where
  "neg_token_plain (NegInit t) = list_all oid_plain (ni_mech_types t)"
| "neg_token_plain (NegResp t) = pred_option oid_plain (nr_supported_mech t)"

lemma decode_neg_token_init_encoded:
  assumes plain: "list_all oid_plain (ni_mech_types t)"
    and enc: "neg_token_init_encode t = Inr bs" and len: "length bs < 2 ^ 64"
  obtains v where "bs = encode_tlv 0xa0 v" and "decode_neg_token_init v = Inr t"
proof -
  define oids where "oids = concat (map (\<lambda>oid. encode_tlv 0x06 (oid_value oid)) (ni_mech_types t))"
  define f0 where "f0 = encode_tlv 0xa0 (encode_tlv 0x30 oids)"
  define f1 where "f1 = opt_field 0xa1 0x03 (ni_req_flags t)"
  define f2 where "f2 = opt_field 0xa2 0x04 (ni_mech_token t)"
  define f3 where "f3 = opt_field 0xa3 0x04 (ni_mech_list_mic t)"
  define fs where "fs = f0 @ f1 @ f2 @ f3"
  have ne: "ni_mech_types t \<noteq> []" and bs: "bs = encode_tlv 0xa0 (encode_tlv 0x30 fs)"
    using enc encode_oids_plain [OF plain]
    by (auto simp: neg_token_init_encode_def encode_explicit_def Let_def fs_def f0_def f1_def f2_def f3_def oids_def
        split: if_splits)
  have l1: "length (encode_tlv 0x30 fs) < 2 ^ 64" using len length_encode_tlv [of "encode_tlv 0x30 fs" "0xa0"] by (simp add: bs)
  then have lfs: "length fs < 2 ^ 64" using length_encode_tlv [of fs "0x30"] by simp
  have l0: "length ([] @ encode_tlv 0xa0 (encode_tlv 0x30 oids)) < 2 ^ 64" using lfs by (simp add: fs_def f0_def)
  have lo: "length oids < 2 ^ 64"
    using l0 length_encode_tlv [of oids "0x30"] length_encode_tlv [of "encode_tlv 0x30 oids" "0xa0"] by simp
  let ?st0 = "\<lparr>if_mech_types = None, if_req_flags = None, if_mech_token = None, if_mech_list_mic = None\<rparr>"
  have "decode_init_field \<lparr>tlv_tag = 0xa0, tlv_value = encode_tlv 0x30 oids\<rparr> ?st0
      = Inr (?st0\<lparr>if_mech_types := Some (ni_mech_types t)\<rparr>)"
    using read_single_inner [OF _ l0] decode_oids_plain [OF plain, of "[]"] lo
    by (simp add: decode_init_field_def oids_def)
  then have "decode_init_loop (rd [] fs) ?st0
      = decode_init_loop (rd f0 (f1 @ f2 @ f3)) (?st0\<lparr>if_mech_types := Some (ni_mech_types t)\<rparr>)"
    using decode_init_loop_field [OF _ l0] by (simp add: fs_def f0_def)
  also have "\<dots> = decode_init_loop (rd (f0 @ f1) (f2 @ f3))
      (?st0\<lparr>if_mech_types := Some (ni_mech_types t), if_req_flags := ni_req_flags t\<rparr>)"
    unfolding f1_def
    by (subst decode_init_loop_opt [where g = "\<lambda>v st. st\<lparr>if_req_flags := Some v\<rparr>"])
      (use lfs in \<open>auto simp: fs_def f1_def split: option.splits\<close>)
  also have "\<dots> = decode_init_loop (rd (f0 @ f1 @ f2) f3)
      (?st0\<lparr>if_mech_types := Some (ni_mech_types t), if_req_flags := ni_req_flags t, if_mech_token := ni_mech_token t\<rparr>)"
    unfolding f2_def
    by (subst decode_init_loop_opt [where g = "\<lambda>v st. st\<lparr>if_mech_token := Some v\<rparr>"])
      (use lfs in \<open>auto simp: fs_def f2_def split: option.splits\<close>)
  also have "\<dots> = Inr (?st0\<lparr>if_mech_types := Some (ni_mech_types t), if_req_flags := ni_req_flags t,
      if_mech_token := ni_mech_token t, if_mech_list_mic := ni_mech_list_mic t\<rparr>)"
    unfolding f3_def
    using decode_init_loop_opt [where g = "\<lambda>v st. st\<lparr>if_mech_list_mic := Some v\<rparr>" and pre = "f0 @ f1 @ f2" and post = "[]"
        and ctx = "0xa3" and tag = "0x04" and f = "ni_mech_list_mic t"] lfs
    by (auto simp: fs_def f3_def split: option.splits)
  finally have "decode_neg_token_init (encode_tlv 0x30 fs) = Inr t"
    using read_single_tlv_encoded [OF _ l1] ne by (simp add: decode_neg_token_init_def)
  with bs that show ?thesis by blast
qed

lemma decode_neg_token_resp_encoded:
  assumes plain: "pred_option oid_plain (nr_supported_mech t)"
    and enc: "neg_token_resp_encode t = Inr bs" and len: "length bs < 2 ^ 64"
  obtains v where "bs = encode_tlv 0xa1 v" and "decode_neg_token_resp v = Inr t"
proof -
  define f0 where "f0 = opt_field 0xa0 0x0a (map_option (\<lambda>s. encode_u32 (neg_state_value s)) (nr_neg_state t))"
  define f1 where "f1 = opt_field 0xa1 0x06 (map_option oid_value (nr_supported_mech t))"
  define f2 where "f2 = opt_field 0xa2 0x04 (nr_response_token t)"
  define f3 where "f3 = opt_field 0xa3 0x04 (nr_mech_list_mic t)"
  define fs where "fs = f0 @ f1 @ f2 @ f3"
  have bs: "bs = encode_tlv 0xa1 (encode_tlv 0x30 fs)"
    using enc plain
    by (cases "nr_supported_mech t")
      (auto simp: neg_token_resp_encode_def encode_explicit_def Let_def fs_def f0_def f1_def f2_def f3_def encode_oid_plain opt_field_def)
  have l1: "length (encode_tlv 0x30 fs) < 2 ^ 64" using len length_encode_tlv [of "encode_tlv 0x30 fs" "0xa1"] by (simp add: bs)
  then have lfs: "length fs < 2 ^ 64" using length_encode_tlv [of fs "0x30"] by simp
  let ?st0 = "\<lparr>nr_neg_state = None, nr_supported_mech = None, nr_response_token = None, nr_mech_list_mic = None\<rparr>"
  have "decode_resp_loop (rd [] fs) ?st0
      = decode_resp_loop (rd f0 (f1 @ f2 @ f3)) (?st0\<lparr>nr_neg_state := nr_neg_state t\<rparr>)"
    using decode_resp_loop_state [of "[]" "nr_neg_state t" "f1 @ f2 @ f3" ?st0] lfs
    by (auto simp: fs_def f0_def split: option.splits)
  also have "\<dots> = decode_resp_loop (rd (f0 @ f1) (f2 @ f3))
      (?st0\<lparr>nr_neg_state := nr_neg_state t, nr_supported_mech := nr_supported_mech t\<rparr>)"
  proof (cases "nr_supported_mech t")
    case (Some oid)
    have l: "length (f0 @ encode_tlv 0xa1 (encode_tlv 0x06 (oid_value oid))) < 2 ^ 64"
      using lfs by (simp add: fs_def f1_def opt_field_def encode_explicit_def Some)
    have "decode_resp_field \<lparr>tlv_tag = 0xa1, tlv_value = encode_tlv 0x06 (oid_value oid)\<rparr> st = Inr (st\<lparr>nr_supported_mech := Some oid\<rparr>)" for st
      using read_single_inner [OF _ l] plain
      by (simp add: decode_resp_field_def decode_oid_tlv_def decode_oid_value_plain Some)
    then show ?thesis
      using decode_resp_loop_field [OF _ l] by (simp add: f1_def opt_field_def encode_explicit_def Some)
  qed (simp add: f1_def opt_field_def)
  also have "\<dots> = decode_resp_loop (rd (f0 @ f1 @ f2) f3)
      (?st0\<lparr>nr_neg_state := nr_neg_state t, nr_supported_mech := nr_supported_mech t, nr_response_token := nr_response_token t\<rparr>)"
    unfolding f2_def
    by (subst decode_resp_loop_opt [where g = "\<lambda>v st. st\<lparr>nr_response_token := Some v\<rparr>"])
      (use lfs in \<open>auto simp: fs_def f2_def split: option.splits\<close>)
  also have "\<dots> = Inr t"
    unfolding f3_def
    using decode_resp_loop_opt [where g = "\<lambda>v st. st\<lparr>nr_mech_list_mic := Some v\<rparr>" and pre = "f0 @ f1 @ f2" and post = "[]"
        and ctx = "0xa3" and tag = "0x04" and f = "nr_mech_list_mic t"] lfs
    by (auto simp: fs_def f3_def split: option.splits)
  finally have "decode_neg_token_resp (encode_tlv 0x30 fs) = Inr t"
    using read_single_tlv_encoded [OF _ l1] by (simp add: decode_neg_token_resp_def)
  with bs that show ?thesis by blast
qed

lemma negotiation_token_decode_encoded:
  assumes plain: "neg_token_plain t"
    and enc: "negotiation_token_encode t = Inr bs" and len: "length bs < 2 ^ 64"
  shows "negotiation_token_decode bs = Inr t"
proof (cases t)
  case (NegInit i)
  then obtain v where "bs = encode_tlv 0xa0 v" and "decode_neg_token_init v = Inr i"
    using decode_neg_token_init_encoded [of i bs] assms by auto
  then show ?thesis
    using der_read_tlv_rd [of "0xa0" "[]" v "[]"] len
    by (simp add: negotiation_token_decode_def decode_negotiation_choice_def NegInit)
next
  case (NegResp r)
  then obtain v where "bs = encode_tlv 0xa1 v" and "decode_neg_token_resp v = Inr r"
    using decode_neg_token_resp_encoded [of r bs] assms by auto
  then show ?thesis
    using der_read_tlv_rd [of "0xa1" "[]" v "[]"] len
    by (simp add: negotiation_token_decode_def decode_negotiation_choice_def NegResp)
qed

fun spnego_plain :: "spnego_token \<Rightarrow> bool" where
  "spnego_plain (SpnegoInit t) = neg_token_plain (NegInit t)"
| "spnego_plain (SpnegoResp t) = neg_token_plain (NegResp t)"

lemma spnego_token_decode_encoded:
  assumes plain: "spnego_plain t"
    and enc: "spnego_token_encode t = Inr bs" and len: "length bs < 2 ^ 64"
  shows "spnego_token_decode bs = Inr t"
proof (cases t)
  case (SpnegoResp r)
  then obtain v where "bs = encode_tlv 0xa1 v"
    using decode_neg_token_resp_encoded [of r bs] assms by auto
  then show ?thesis
    using negotiation_token_decode_encoded [of "NegResp r" bs] assms
    by (simp add: spnego_token_decode_def SpnegoResp encode_tlv_Cons)
next
  case (SpnegoInit i)
  define o' where "o' = encode_tlv 0x06 (oid_value oid_spnego)"
  obtain c where c: "neg_token_init_encode i = Inr c" and bs: "bs = encode_tlv 0x60 (o' @ c)"
    using enc by (auto simp: SpnegoInit encode_oid_plain o'_def rbind_eq_Inr)
  have l: "length (o' @ c) < 2 ^ 64" using len length_encode_tlv [of "o' @ c" "0x60"] by (simp add: bs)
  have "der_read_tlv (rd [] bs) = Inr (\<lparr>tlv_tag = 0x60, tlv_value = o' @ c\<rparr>, rd bs [])"
    using der_read_tlv_rd [of "0x60" "[]" "o' @ c" "[]"] len by (simp add: bs)
  moreover have "der_read_tlv (rd [] (o' @ c)) = Inr (\<lparr>tlv_tag = 0x06, tlv_value = oid_value oid_spnego\<rparr>, rd o' c)"
    using der_read_tlv_rd [of "0x06" "[]" "oid_value oid_spnego" c] l by (simp add: o'_def)
  moreover have "negotiation_token_decode c = Inr (NegInit i)"
    using negotiation_token_decode_encoded [of "NegInit i" c] plain c l by (simp add: SpnegoInit)
  moreover have "bs \<noteq> []" "bs ! 0 = 0x60" by (simp_all add: bs encode_tlv_Cons)
  ultimately show ?thesis
    by (simp add: spnego_token_decode_def decode_oid_tlv_def decode_oid_value_plain SpnegoInit)
qed

section \<open>Sizes\<close>

lemma length_encode_len: "length (encode_len n) \<le> 9"
  using length_dropWhile_le [of "\<lambda>b. b = 0" "nat_be 8 n"] length_nat_be [of 8 n]
  by (simp add: encode_len_def Let_def del: nat_be_numeral)

lemma length_encode_tlv_le: "length (encode_tlv tag v) \<le> length v + 10"
  using length_encode_len [of "length v"] by (simp add: encode_tlv_def)

lemma oid_krb5_encoded: "encode_tlv 0x06 (oid_value oid_krb5) = [0x06, 0x09, 0x2a, 0x86, 0x48, 0x86, 0xf7, 0x12, 0x01, 0x02, 0x02]"
  by (simp add: oid_krb5_def oid_value_def encode_base128_def base128_groups.simps drop_bit_eq_div encode_tlv_def encode_len_def)

lemma oid_spnego_encoded: "encode_tlv 0x06 (oid_value oid_spnego) = [0x06, 0x06, 0x2b, 0x06, 0x01, 0x05, 0x05, 0x02]"
  by (simp add: oid_spnego_def oid_value_def encode_base128_def base128_groups.simps drop_bit_eq_div encode_tlv_def encode_len_def)

section \<open>Sample base64 alphabet\<close>

definition hexish_encode :: "bytes \<Rightarrow> string" where
  "hexish_encode bs = concat (map (\<lambda>b. [char_of (65 + unat b div 16), char_of (65 + unat b mod 16)]) bs)"

fun hexish_decode :: "string \<Rightarrow> bytes option" where
  "hexish_decode [] = Some []"
| "hexish_decode [c] = None"
| "hexish_decode (a # b # r) = map_option (\<lambda>bs. word_of_nat ((of_char a - 65) * 16 + (of_char b - 65)) # bs) (hexish_decode r)"

definition hexish :: base64 where
  "hexish = \<lparr>b64_encode = hexish_encode, b64_decode = hexish_decode\<rparr>"

lemma hexish_ok: "b64_ok hexish"
proof -
  have "hexish_decode (hexish_encode bs) = Some bs" for bs
  proof (induction bs)
    case (Cons b bs)
    have "unat b < 256" by (rule unat_byte_lt)
    then have "of_char (char_of (65 + unat b div 16) :: char) = 65 + unat b div 16"
      "of_char (char_of (65 + unat b mod 16) :: char) = 65 + unat b mod 16"
      by (simp_all add: of_char_of take_bit_nat_eq_self)
    with Cons show ?case by (simp add: hexish_encode_def)
  qed (simp add: hexish_encode_def)
  moreover have "graphic c" if c: "c \<in> set (hexish_encode bs)" for c bs
  proof -
    obtain n :: nat where "n < 16" "c = char_of (65 + n)"
    proof -
      from c obtain b where "b \<in> set bs" "c = char_of (65 + unat b div 16) \<or> c = char_of (65 + unat b mod 16)"
        by (auto simp: hexish_encode_def)
      moreover have "unat b div 16 < 16" using unat_byte_lt [of b] by simp
      ultimately show ?thesis using that by (metis mod_less_divisor zero_less_numeral)
    qed
    then show ?thesis by (simp add: graphic_def of_char_of take_bit_nat_eq_self)
  qed
  moreover have "hexish_encode bs = [] \<Longrightarrow> bs = []" for bs by (cases bs) (simp_all add: hexish_encode_def)
  ultimately show ?thesis by (simp add: b64_ok_def hexish_def)
qed

section \<open>Headers\<close>

lemma parse_negotiate_header_encoded:
  assumes B: "b64_ok B" and "bs \<noteq> []"
  shows "parse_negotiate_header B (''Negotiate '' @ b64_encode B bs) =
    (case spnego_token_decode bs of Inr t \<Rightarrow> Inr t | Inl e \<Rightarrow> raw_krb5_negotiate_token bs e)"
proof -
  have "trim (b64_encode B bs) = b64_encode B bs" and ne: "b64_encode B bs \<noteq> []"
    using B assms(2) by (auto simp: b64_ok_def intro: trim_graphic)
  moreover have "split_ws_once (''Negotiate '' @ b64_encode B bs) = (''Negotiate'', Some (b64_encode B bs))"
  proof -
    have split: "''Negotiate '' @ b64_encode B bs = ''Negotiate'' @ CHR 0x20 # b64_encode B bs" by simp
    show ?thesis unfolding split by (rule split_ws_once_space) (simp add: graphic_def)
  qed
  moreover have "eq_ignore_ascii_case ''Negotiate'' ''Negotiate''" by (simp add: eq_ignore_ascii_case_def)
  moreover have "b64_decode B (b64_encode B bs) = Some bs" using B by (simp add: b64_ok_def)
  ultimately show ?thesis
    unfolding parse_negotiate_header_def Let_def by (simp del: append.simps)
qed

text \<open>The SPNEGO codec loses nothing.  Every token that can be encoded, has only mechanism
  identifiers whose second arc is below 40 and fits the address space is decoded back to itself; a
  mechanism token of the Kerberos mechanism as well; and the HTTP header built from a SPNEGO token
  is parsed back to that token.\<close>

lemma spnego_token_roundtrip:
  assumes "b64_ok B" and "spnego_plain t" and "k5_oid k = oid_krb5"
    and "spnego_token_encode t = Inr bs" and "length bs < 2 ^ 64"
    and "krb5_mech_token_encode k = Inr ks" and "length ks < 2 ^ 64"
  shows "spnego_token_decode bs = Inr t \<and> krb5_mech_token_decode ks = Inr k
    \<and> rbind (negotiate_header B t) (parse_negotiate_header B) = Inr t"
proof -
  have d: "spnego_token_decode bs = Inr t" by (rule spnego_token_decode_encoded [OF assms(2,4,5)])
  then have "bs \<noteq> []" by (auto simp: spnego_token_decode_def)
  with d assms(4) parse_negotiate_header_encoded [OF assms(1), of bs] krb5_mech_token_decode_encoded [OF assms(3,6,7)]
  show ?thesis by (simp add: negotiate_header_def)
qed

lemma spnego_token_roundtrip_witness:
  "spnego_token_decode [0xa1, 0x07, 0x30, 0x05, 0xa0, 0x03, 0x0a, 0x01, 0x02] = Inr (SpnegoResp neg_resp_reject)
    \<and> krb5_mech_token_decode [0x60, 0x0e, 0x06, 0x09, 0x2a, 0x86, 0x48, 0x86, 0xf7, 0x12, 0x01, 0x02, 0x02, 0x01, 0x00, 0x7f]
        = Inr (krb5_mech_token_new ApReq [0x7f])
    \<and> rbind (negotiate_header hexish (SpnegoResp neg_resp_reject)) (parse_negotiate_header hexish) = Inr (SpnegoResp neg_resp_reject)"
proof -
  have 1: "spnego_token_encode (SpnegoResp neg_resp_reject) = Inr [0xa1, 0x07, 0x30, 0x05, 0xa0, 0x03, 0x0a, 0x01, 0x02]"
    by (simp add: neg_resp_reject_def neg_token_resp_encode_def opt_field_def encode_explicit_def encode_tlv_def encode_len_def
        encode_u32_def to_bytes_en_def)
  have 2: "krb5_mech_token_encode (krb5_mech_token_new ApReq [0x7f])
      = Inr [0x60, 0x0e, 0x06, 0x09, 0x2a, 0x86, 0x48, 0x86, 0xf7, 0x12, 0x01, 0x02, 0x02, 0x01, 0x00, 0x7f]"
    using oid_krb5_encoded
    by (simp add: krb5_mech_token_encode_def krb5_mech_token_new_def encode_oid_plain) (simp add: encode_tlv_def encode_len_def)
  show ?thesis
    using spnego_token_roundtrip [OF hexish_ok _ _ 1 _ 2]
    by (simp add: neg_resp_reject_def krb5_mech_token_new_def)
qed

lemma krb5_token_built:
  assumes "msg \<noteq> []"
  obtains tok where "krb5_mech_token_encode (krb5_mech_token_new tid msg) = Inr tok" and "length tok \<le> length msg + 30"
proof -
  have "krb5_mech_token_encode (krb5_mech_token_new tid msg)
      = Inr (encode_tlv 0x60 (encode_tlv 0x06 (oid_value oid_krb5) @ krb5_token_id_bytes tid @ msg))" (is "_ = Inr ?tok")
    using assms by (simp add: krb5_mech_token_encode_def krb5_mech_token_new_def encode_oid_plain)
  moreover have "length (krb5_token_id_bytes tid) = 2" by (cases tid) simp_all
  then have "length ?tok \<le> length msg + 30"
    using length_encode_tlv_le [of "0x60" "encode_tlv 0x06 (oid_value oid_krb5) @ krb5_token_id_bytes tid @ msg"]
    by (simp add: oid_krb5_encoded)
  ultimately show ?thesis using that by blast
qed

lemma spnego_init_built:
  obtains bs where "spnego_token_encode (SpnegoInit (neg_token_init_krb5 tok)) = Inr bs" and "length bs \<le> length tok + 200"
proof -
  let ?o = "encode_tlv 0x06 (oid_value oid_krb5)" and ?s = "encode_tlv 0x06 (oid_value oid_spnego)"
  define f0 where "f0 = encode_tlv 0xa0 (encode_tlv 0x30 ?o)"
  define f2 where "f2 = encode_tlv 0xa2 (encode_tlv 0x04 tok)"
  define c where "c = encode_tlv 0xa0 (encode_tlv 0x30 (f0 @ f2))"
  have "length f0 \<le> 31"
    using length_encode_tlv_le [of "0xa0" "encode_tlv 0x30 ?o"] length_encode_tlv_le [of "0x30" ?o]
    by (simp add: f0_def oid_krb5_encoded)
  moreover have "length f2 \<le> length tok + 20"
    using length_encode_tlv_le [of "0xa2" "encode_tlv 0x04 tok"] length_encode_tlv_le [of "0x04" tok] by (simp add: f2_def)
  ultimately have "length c \<le> length tok + 100"
    using length_encode_tlv_le [of "0xa0" "encode_tlv 0x30 (f0 @ f2)"] length_encode_tlv_le [of "0x30" "f0 @ f2"] by (simp add: c_def)
  then have "length (encode_tlv 0x60 (?s @ c)) \<le> length tok + 200"
    using length_encode_tlv_le [of "0x60" "?s @ c"] by (simp add: oid_spnego_encoded)
  moreover have "spnego_token_encode (SpnegoInit (neg_token_init_krb5 tok)) = Inr (encode_tlv 0x60 (?s @ c))"
    by (simp add: encode_oid_plain neg_token_init_encode_def neg_token_init_krb5_def opt_field_def encode_explicit_def c_def f0_def f2_def)
  ultimately show ?thesis using that by blast
qed

text \<open>C34: a client that wraps an AP-REQ as a Kerberos mechanism token and sends it in a
  \<open>Negotiate\<close> header reaches the server: header and token can be built for every non-empty request
  that fits the address space, and the server's parse extracts exactly that request.  A bare mechanism
  token in the header (without the SPNEGO frame) is accepted as well.\<close>

theorem negotiate_delivers_ap_req:
  assumes B: "b64_ok B" and msg: "msg \<noteq> []" "length msg < 2 ^ 63"
  shows "\<exists>tok h. krb5_mech_token_encode (krb5_mech_token_new ApReq msg) = Inr tok
    \<and> negotiate_header B (SpnegoInit (neg_token_init_krb5 tok)) = Inr h
    \<and> rbind (parse_negotiate_header B h) spnego_krb5_ap_req = Inr msg
    \<and> rbind (parse_negotiate_header B (''Negotiate '' @ b64_encode B tok)) spnego_krb5_ap_req = Inr msg"
proof -
  obtain tok where tok: "krb5_mech_token_encode (krb5_mech_token_new ApReq msg) = Inr tok" "length tok \<le> length msg + 30"
    using krb5_token_built [OF msg(1)] .
  obtain bs where bs: "spnego_token_encode (SpnegoInit (neg_token_init_krb5 tok)) = Inr bs" "length bs \<le> length tok + 200"
    using spnego_init_built .
  have len: "length tok < 2 ^ 64" "length bs < 2 ^ 64" using tok(2) bs(2) msg(2) by simp_all
  have k: "krb5_mech_token_decode tok = Inr (krb5_mech_token_new ApReq msg)"
    using krb5_mech_token_decode_encoded [OF _ tok(1) len(1)] by (simp add: krb5_mech_token_new_def)
  have d: "spnego_token_decode bs = Inr (SpnegoInit (neg_token_init_krb5 tok))"
    by (rule spnego_token_decode_encoded [OF _ bs(1) len(2)]) (simp add: neg_token_init_krb5_def)
  have ap: "spnego_krb5_ap_req (SpnegoInit (neg_token_init_krb5 tok)) = Inr msg"
    using k by (simp add: neg_token_init_krb5_ap_req_def neg_token_init_krb5_def ensure_kerberos_mechanism_def
        is_kerberos_mechanism_def krb5_mech_token_new_def)
  have ne: "bs \<noteq> []" "tok \<noteq> []"
    using d k by (auto simp: spnego_token_decode_def krb5_mech_token_decode_def der_read_tlv_def rd_def)
  have raw: "spnego_token_decode tok = Inl (UnexpectedSpnegoOid oid_krb5)"
  proof -
    let ?o = "encode_tlv 0x06 (oid_value oid_krb5)"
    have t: "tok = encode_tlv 0x60 (?o @ krb5_token_id_bytes ApReq @ msg)"
      using tok(1) msg(1) by (simp add: krb5_mech_token_encode_def krb5_mech_token_new_def encode_oid_plain)
    let ?v = "?o @ krb5_token_id_bytes ApReq @ msg"
    have "der_read_tlv (rd [] tok) = Inr (\<lparr>tlv_tag = 0x60, tlv_value = ?v\<rparr>, rd tok [])"
      using der_read_tlv_rd [of "0x60" "[]" ?v "[]"] len(1) by (simp add: t)
    moreover have "der_read_tlv (rd [] ?v) = Inr (\<lparr>tlv_tag = 0x06, tlv_value = oid_value oid_krb5\<rparr>, rd ?o (krb5_token_id_bytes ApReq @ msg))"
      using der_read_tlv_rd [of "0x06" "[]" "oid_value oid_krb5" "krb5_token_id_bytes ApReq @ msg"] by (simp add: oid_krb5_encoded)
    moreover have "tok ! 0 = 0x60" by (simp add: t encode_tlv_Cons)
    moreover have "oid_krb5 \<noteq> oid_spnego" by (simp add: oid_krb5_def oid_spnego_def)
    ultimately show ?thesis using ne(2) by (simp add: spnego_token_decode_def decode_oid_tlv_def decode_oid_value_plain)
  qed
  have "parse_negotiate_header B (''Negotiate '' @ b64_encode B bs) = Inr (SpnegoInit (neg_token_init_krb5 tok))"
    using parse_negotiate_header_encoded [OF B ne(1)] d by simp
  moreover have "parse_negotiate_header B (''Negotiate '' @ b64_encode B tok) = Inr (SpnegoInit (neg_token_init_krb5 tok))"
    using parse_negotiate_header_encoded [OF B ne(2)] raw k
    by (simp add: raw_krb5_negotiate_token_def krb5_mech_token_new_def)
  ultimately show ?thesis using tok(1) bs(1) ap by (simp add: negotiate_header_def)
qed

theorem negotiate_delivers_ap_req_witness:
  "\<exists>tok h. krb5_mech_token_encode (krb5_mech_token_new ApReq [0x6e, 0x00]) = Inr tok
    \<and> negotiate_header hexish (SpnegoInit (neg_token_init_krb5 tok)) = Inr h
    \<and> rbind (parse_negotiate_header hexish h) spnego_krb5_ap_req = Inr [0x6e, 0x00]
    \<and> rbind (parse_negotiate_header hexish (''Negotiate '' @ b64_encode hexish tok)) spnego_krb5_ap_req = Inr [0x6e, 0x00]"
  by (rule negotiate_delivers_ap_req [OF hexish_ok]) simp_all

text \<open>Three gaps of the object identifier and integer codecs.  \<open>checked_shl(7)\<close> checks the shift
  distance and not the value, so an arc of more than 32 bits is reduced modulo \<open>2 ^ 32\<close> and the
  encoding of a different identifier is taken for the Kerberos mechanism; an identifier of arc 2
  whose second arc is 40 or more is encoded, but the decoder splits its first byte wrongly; and an
  \<open>ENUMERATED\<close> of five bytes is reduced modulo \<open>2 ^ 32\<close>.\<close>

lemma oid_encoding_gaps:
  "decode_oid_value [0x2a, 0x86, 0x48, 0x86, 0xf7, 0x12, 0x01, 0x02, 0x90, 0x80, 0x80, 0x80, 0x02] = Inr oid_krb5
   \<and> (\<exists>bs. encode_oid [2, 40] = Inr (encode_tlv 0x06 bs) \<and> decode_oid_value bs = Inl InvalidOid)
   \<and> decode_u32 [0x01, 0x00, 0x00, 0x00, 0x02] = Inr 2"
proof (intro conjI exI)
  show "decode_oid_value [0x2a, 0x86, 0x48, 0x86, 0xf7, 0x12, 0x01, 0x02, 0x90, 0x80, 0x80, 0x80, 0x02] = Inr oid_krb5"
    by (simp add: decode_oid_value_def decode_arcs.simps push_bit_eq_mult oid_from_arcs_def validate_arcs_def oid_krb5_def)
  show "encode_oid [2, 40] = Inr (encode_tlv 0x06 [0x78])"
    by (simp add: encode_oid_def validate_arcs_def encode_base128_def base128_groups.simps drop_bit_eq_div)
  show "decode_oid_value [0x78] = Inl InvalidOid"
    by (simp add: decode_oid_value_def decode_arcs.simps oid_from_arcs_def validate_arcs_def)
  show "decode_u32 [0x01, 0x00, 0x00, 0x00, 0x02] = Inr 2"
    by (simp add: decode_u32_def push_bit_eq_mult)
qed

end
