(* ===== verification/Sec_Context.thy ===== *)
theory Sec_Context
  imports Service_Props Spnego_Props
begin

text \<open>
  Security contexts of \<open>src/spnego.rs\<close>: the initiator builds an AP-REQ (\<open>build_ap_req_with_confounder\<close> of
  \<open>src/client.rs\<close>) and a \<open>Negotiate\<close> header from a service ticket, the acceptor validates it and answers with an AP-REP,
  and the initiator verifies the answer.  The theorem of this theory composes the client, the
  negotiation codec, the encryption types, the messages, the keytab and the acceptor.
\<close>

section \<open>The client's AP-REQ\<close>

text \<open>\<open>AsRepSession\<close>, of which \<open>TgsRepSession\<close> is a synonym.\<close>

record rep_session =
  rs_client :: principal
  rs_service :: principal
  rs_session_key :: kt_key
  rs_ticket :: bytes
  rs_ticket_flags :: bytes
  rs_auth_time :: system_time
  rs_start_time :: system_time
  rs_end_time :: system_time
  rs_renew_till :: "system_time option"
  rs_key_expiration :: "system_time option"

text \<open>The variants of \<open>client::Error\<close> that building an AP-REQ can produce.\<close>

datatype client_error =
    CliDecode string
  | CliEncode string
  | CliInvalidMessage string int int
  | CliInvalidKerberosString
  | CliUnsupportedEtype i32
  | CliApReqKeyEtypeMismatch i32 i32
  | CliTicketKeyEtypeMismatch i32 i32
  | CliRandom
  | CliCrypto crypto_error
  | CliTimeOverflow

fun client_ap_req_error :: "message_error \<Rightarrow> client_error" where
  "client_ap_req_error (MsgDecode t) = CliDecode t"
| "client_ap_req_error (MsgEncode t) = CliEncode t"
| "client_ap_req_error (MsgInvalidMessage f e a) = CliInvalidMessage f e a"
| "client_ap_req_error (MsgUnsupportedEtype e) = CliUnsupportedEtype e"
| "client_ap_req_error (MsgKeyEtypeMismatch k d) = CliApReqKeyEtypeMismatch k d"
| "client_ap_req_error MsgRandom = CliRandom"
| "client_ap_req_error (MsgCrypto e) = CliCrypto e"

fun client_ticket_error :: "message_error \<Rightarrow> client_error" where
  "client_ticket_error (MsgDecode t) = CliDecode t"
| "client_ticket_error (MsgEncode t) = CliEncode t"
| "client_ticket_error (MsgInvalidMessage f e a) = CliInvalidMessage f e a"
| "client_ticket_error (MsgUnsupportedEtype e) = CliUnsupportedEtype e"
| "client_ticket_error (MsgKeyEtypeMismatch k d) = CliTicketKeyEtypeMismatch k d"
| "client_ticket_error MsgRandom = CliRandom"
| "client_ticket_error (MsgCrypto e) = CliCrypto e"

definition kerberos_string :: "asn1 \<Rightarrow> string \<Rightarrow> client_error + bytes" where
  "kerberos_string A s = (if general_string A (str_bytes s) then Inr (str_bytes s) else Inl CliInvalidKerberosString)"

fun kerberos_string_list :: "asn1 \<Rightarrow> string list \<Rightarrow> client_error + bytes list" where
  "kerberos_string_list A [] = Inr []"
| "kerberos_string_list A (s # ss) =
     rbind (kerberos_string A s) (\<lambda>b. rbind (kerberos_string_list A ss) (\<lambda>bs. Inr (b # bs)))"

definition principal_to_rasn :: "asn1 \<Rightarrow> principal \<Rightarrow> client_error + principal_name" where
  "principal_to_rasn A p =
     rbind (kerberos_string_list A (p_components p)) (\<lambda>comps. Inr \<lparr>pn_type = p_name_type p, pn_string = comps\<rparr>)"

text \<open>Unlike the acceptor's, the client's conversion drops the fraction of a second.\<close>

definition client_kerberos_time :: "asn1 \<Rightarrow> system_time \<Rightarrow> client_error + kerberos_time" where
  "client_kerberos_time A t =
     rbind (map_err (\<lambda>_. CliTimeOverflow) (unix_timestamp_parts t)) (\<lambda>(seconds, _).
       ok_or (from_timestamp A seconds 0) CliTimeOverflow)"

record ap_req_options =
  arq_ap_option_bits :: u32
  arq_checksum :: "rasn_checksum option"
  arq_subkey :: "kt_key option"
  arq_sequence_number :: "u32 option"

definition ap_req_options_new :: ap_req_options where
  "ap_req_options_new = \<lparr>arq_ap_option_bits = 0, arq_checksum = None, arq_subkey = None, arq_sequence_number = None\<rparr>"

record built_ap_req =
  ba_message :: ap_req
  ba_der :: bytes
  ba_client :: principal
  ba_service :: principal
  ba_session_key :: kt_key
  ba_authenticator_ctime :: system_time
  ba_authenticator_cusec :: u32
  ba_authenticator_time :: system_time
  ba_sequence_number :: "u32 option"
  ba_subkey :: "kt_key option"

definition client_build_ap_req_with_confounder ::
  "asn1 \<Rightarrow> crypto_prims \<Rightarrow> rep_session \<Rightarrow> ap_req_options \<Rightarrow> system_time \<Rightarrow> u32 \<Rightarrow> bytes \<Rightarrow> client_error + built_ap_req" where
  "client_build_ap_req_with_confounder A P st options timestamp cusec confounder =
     rbind (map_err client_ticket_error (decode_ticket A (rs_ticket st))) (\<lambda>t.
     rbind (kerberos_string A (p_realm (rs_client st))) (\<lambda>crealm.
     rbind (principal_to_rasn A (rs_client st)) (\<lambda>cname.
     rbind (client_kerberos_time A timestamp) (\<lambda>ctime.
     let auth = \<lparr>au_vno = KRB5_PVNO, au_crealm = crealm, au_cname = cname, au_cksum = arq_checksum options,
           au_cusec = uint cusec, au_ctime = ctime, au_subkey = map_option encryption_key_to_rasn (arq_subkey options),
           au_seq_number = arq_sequence_number options, au_authorization_data = None\<rparr>
     in
     rbind (map_err client_ap_req_error (build_ap_req_with_confounder A P t (ap_options_from_bits (arq_ap_option_bits options)) auth
         (rs_session_key st) (authenticator_usage_for_ticket t) (ed_kvno (tkt_enc_part t)) confounder)) (\<lambda>message.
     rbind (map_err client_ap_req_error (encode_ap_req A message)) (\<lambda>der.
     rbind (ok_or (st_checked_add timestamp (from_micros (unat cusec))) CliTimeOverflow) (\<lambda>authenticator_time.
       Inr \<lparr>ba_message = message, ba_der = der, ba_client = rs_client st, ba_service = rs_service st,
            ba_session_key = rs_session_key st, ba_authenticator_ctime = timestamp, ba_authenticator_cusec = cusec,
            ba_authenticator_time = authenticator_time, ba_sequence_number = arq_sequence_number options,
            ba_subkey = arq_subkey options\<rparr>)))))))"

section \<open>Errors of the contexts\<close>

datatype context_error =
    CtxSpnego spnego_error
  | CtxDecode string
  | CtxEncode string
  | CtxInvalidKerberosString
  | CtxIntegerOutOfRange string int
  | CtxInvalidMessage string int int
  | CtxUnsupportedEtype i32
  | CtxApRepKeyEtypeMismatch i32 i32
  | CtxCrypto crypto_error
  | CtxRandom
  | CtxTimeOverflow
  | CtxApRepTimestampMismatch system_time system_time
  | CtxService service_error
  | CtxClient client_error

fun context_ap_rep_error :: "message_error \<Rightarrow> context_error" where
  "context_ap_rep_error (MsgDecode t) = CtxDecode t"
| "context_ap_rep_error (MsgEncode t) = CtxEncode t"
| "context_ap_rep_error (MsgInvalidMessage f e a) = CtxInvalidMessage f e a"
| "context_ap_rep_error (MsgUnsupportedEtype e) = CtxUnsupportedEtype e"
| "context_ap_rep_error (MsgKeyEtypeMismatch k d) = CtxApRepKeyEtypeMismatch k d"
| "context_ap_rep_error MsgRandom = CtxRandom"
| "context_ap_rep_error (MsgCrypto e) = CtxCrypto e"

fun client_error_to_spnego :: "client_error \<Rightarrow> context_error" where
  "client_error_to_spnego (CliDecode t) = CtxDecode t"
| "client_error_to_spnego (CliEncode t) = CtxEncode t"
| "client_error_to_spnego CliInvalidKerberosString = CtxInvalidKerberosString"
| "client_error_to_spnego (CliUnsupportedEtype e) = CtxUnsupportedEtype e"
| "client_error_to_spnego (CliCrypto e) = CtxCrypto e"
| "client_error_to_spnego CliRandom = CtxRandom"
| "client_error_to_spnego CliTimeOverflow = CtxTimeOverflow"
| "client_error_to_spnego other = CtxClient other"

section \<open>The initiator\<close>

record initiator_options =
  io_context_flags :: "u32 list"
  io_ap_option_bits :: u32
  io_subkey :: "kt_key option"
  io_sequence_number :: "u32 option"

definition initiator_options_new :: initiator_options where
  "initiator_options_new = \<lparr>io_context_flags = [32, 16], io_ap_option_bits = 0, io_subkey = None, io_sequence_number = None\<rparr>"

record initiator_context =
  ic_ap_req :: ap_req
  ic_ap_req_der :: bytes
  ic_krb5_token :: krb5_mech_token
  ic_spnego_token :: spnego_token
  ic_header :: string
  ic_client :: principal
  ic_service :: principal
  ic_session_key :: kt_key
  ic_authenticator_ctime :: system_time
  ic_authenticator_cusec :: u32
  ic_authenticator_time :: system_time
  ic_sequence_number :: "u32 option"

definition GSSAPI_CHECKSUM_TYPE :: i32 where
  "GSSAPI_CHECKSUM_TYPE = 32771"

definition init_sec_context_with_confounder ::
  "asn1 \<Rightarrow> crypto_prims \<Rightarrow> base64 \<Rightarrow> rep_session \<Rightarrow> initiator_options \<Rightarrow> system_time \<Rightarrow> u32 \<Rightarrow> bytes \<Rightarrow> context_error + initiator_context" where
  "init_sec_context_with_confounder A P B st options timestamp cusec confounder =
     (let ap_req_options = \<lparr>arq_ap_option_bits = io_ap_option_bits options,
            arq_checksum = Some \<lparr>ck_type = GSSAPI_CHECKSUM_TYPE, ck_checksum = authenticator_checksum (io_context_flags options)\<rparr>,
            arq_subkey = io_subkey options, arq_sequence_number = io_sequence_number options\<rparr>
      in
      rbind (map_err client_error_to_spnego (client_build_ap_req_with_confounder A P st ap_req_options timestamp cusec confounder)) (\<lambda>built.
      let krb5_token = krb5_mech_token_new ApReq (ba_der built) in
      rbind (map_err CtxSpnego (krb5_mech_token_encode krb5_token)) (\<lambda>krb5_token_der.
      let token = SpnegoInit (neg_token_init_krb5 krb5_token_der) in
      rbind (map_err CtxSpnego (negotiate_header B token)) (\<lambda>header.
        Inr \<lparr>ic_ap_req = ba_message built, ic_ap_req_der = ba_der built, ic_krb5_token = krb5_token,
             ic_spnego_token = token, ic_header = header, ic_client = ba_client built, ic_service = ba_service built,
             ic_session_key = ba_session_key built, ic_authenticator_ctime = ba_authenticator_ctime built,
             ic_authenticator_cusec = ba_authenticator_cusec built, ic_authenticator_time = ba_authenticator_time built,
             ic_sequence_number = ba_sequence_number built\<rparr>))))"

text \<open>The clock reading \<open>now\<close> and the random bytes of the two calls are arguments.\<close>

definition current_time :: "system_time \<Rightarrow> context_error + (system_time \<times> u32)" where
  "current_time now =
     rbind (ok_or (duration_since now 0) CtxTimeOverflow) (\<lambda>elapsed.
       Inr (int (from_secs (elapsed div 1000000000)), word_of_nat (elapsed mod 1000000000 div 1000)))"

unbundle bit_operations_syntax

definition random_sequence_number :: "(nat \<Rightarrow> bytes option) \<Rightarrow> context_error + u32" where
  "random_sequence_number fill =
     rbind (ok_or (fill 4) CtxRandom) (\<lambda>bs. Inr (from_bytes_en Big bs AND 0x3fffffff))"

definition init_sec_context ::
  "asn1 \<Rightarrow> crypto_prims \<Rightarrow> base64 \<Rightarrow> (nat \<Rightarrow> bytes option) \<Rightarrow> (nat \<Rightarrow> bytes option) \<Rightarrow> system_time \<Rightarrow> rep_session \<Rightarrow> initiator_options
    \<Rightarrow> context_error + initiator_context" where
  "init_sec_context A P B fill_seq fill_conf now st options =
     rbind (current_time now) (\<lambda>(timestamp, cusec).
     rbind (if io_sequence_number options = None
            then rbind (random_sequence_number fill_seq) (\<lambda>n. Inr (options\<lparr>io_sequence_number := Some n\<rparr>))
            else Inr options) (\<lambda>options.
     rbind (ok_or (ket_from_etype_id (kt_etype (rs_session_key st))) (CtxUnsupportedEtype (kt_etype (rs_session_key st)))) (\<lambda>etype.
     rbind (ok_or (fill_conf (ket_confounder_len etype)) CtxRandom) (\<lambda>confounder.
       init_sec_context_with_confounder A P B st options timestamp cusec confounder))))"

definition authorization_header ::
  "asn1 \<Rightarrow> crypto_prims \<Rightarrow> base64 \<Rightarrow> (nat \<Rightarrow> bytes option) \<Rightarrow> (nat \<Rightarrow> bytes option) \<Rightarrow> system_time \<Rightarrow> rep_session \<Rightarrow> initiator_options
    \<Rightarrow> context_error + string" where
  "authorization_header A P B fill_seq fill_conf now st options =
     rbind (init_sec_context A P B fill_seq fill_conf now st options) (\<lambda>ctx. Inr (ic_header ctx))"

definition context_time :: "kerberos_time \<Rightarrow> context_error + system_time" where
  "context_time t = map_err (\<lambda>_. CtxTimeOverflow) (system_time_from_kerberos_time t)"

definition ic_verify_ap_rep :: "asn1 \<Rightarrow> crypto_prims \<Rightarrow> initiator_context \<Rightarrow> bytes \<Rightarrow> context_error + verified_ap_rep" where
  "ic_verify_ap_rep A P ctx bs =
     rbind (map_err context_ap_rep_error (decode_ap_rep A bs)) (\<lambda>m.
     rbind (map_err context_ap_rep_error (decrypt_ap_rep_enc_part A P m (ic_session_key ctx))) (\<lambda>enc_part.
     rbind (context_time (ep_ctime enc_part)) (\<lambda>ctime.
     rbind (ok_or (int_parse_u32 (ep_cusec enc_part)) (CtxIntegerOutOfRange ''ap-rep.cusec'' (ep_cusec enc_part))) (\<lambda>cusec.
     rbind (ok_or (st_checked_add ctime (from_micros (unat cusec))) CtxTimeOverflow) (\<lambda>authenticator_time.
       if ctime \<noteq> ic_authenticator_ctime ctx \<or> cusec \<noteq> ic_authenticator_cusec ctx
       then Inl (CtxApRepTimestampMismatch (ic_authenticator_time ctx) authenticator_time)
       else Inr \<lparr>vr_ctime = ctime, vr_cusec = cusec, vr_authenticator_time = authenticator_time,
                 vr_subkey = map_option encryption_key_from_rasn (ep_subkey enc_part),
                 vr_sequence_number = ep_seq_number enc_part\<rparr>)))))"

definition verify_ap_rep_response_header ::
  "asn1 \<Rightarrow> crypto_prims \<Rightarrow> base64 \<Rightarrow> initiator_context \<Rightarrow> string \<Rightarrow> context_error + verified_ap_rep" where
  "verify_ap_rep_response_header A P B ctx header =
     rbind (map_err CtxSpnego (parse_negotiate_header B header)) (\<lambda>token.
     case token of
       SpnegoInit _ \<Rightarrow> Inl (CtxSpnego (WrongNegotiationToken ''NegTokenResp'' ''NegTokenInit''))
     | SpnegoResp response \<Rightarrow>
         rbind (ok_or (nr_response_token response) (CtxSpnego MissingMechToken)) (\<lambda>response_token.
         rbind (map_err CtxSpnego (krb5_mech_token_decode response_token)) (\<lambda>krb5.
           if k5_token_id krb5 \<noteq> ApRep then Inl (CtxSpnego MissingApRep)
           else ic_verify_ap_rep A P ctx (k5_message krb5))))"

section \<open>The acceptor\<close>

record accepted_context =
  ac_ap_req :: validated_ap_req

definition accept_sec_context_header ::
  "asn1 \<Rightarrow> crypto_prims \<Rightarrow> claims_codec \<Rightarrow> base64 \<Rightarrow> validator \<Rightarrow> cache_store \<Rightarrow> system_time \<Rightarrow> system_time \<Rightarrow> string
    \<Rightarrow> (context_error + accepted_context) \<times> validator \<times> cache_store" where
  "accept_sec_context_header A P Z B v S c1 c2 header =
     (case rbind (parse_negotiate_header B header) spnego_krb5_ap_req of
        Inl e \<Rightarrow> (Inl (CtxSpnego e), v, S)
      | Inr ap_req \<Rightarrow>
          (case validate_ap_req A P Z v S c1 c2 ap_req of
             (Inl e, v', S') \<Rightarrow> (Inl (CtxService e), v', S')
           | (Inr va, v', S') \<Rightarrow> (Inr \<lparr>ac_ap_req = va\<rparr>, v', S')))"

definition ap_rep_response_header_with_confounder ::
  "asn1 \<Rightarrow> crypto_prims \<Rightarrow> base64 \<Rightarrow> accepted_context \<Rightarrow> bytes \<Rightarrow> ap_rep_options \<Rightarrow> context_error + string" where
  "ap_rep_response_header_with_confounder A P B ctx confounder options =
     rbind (map_err CtxService (va_build_ap_rep_with_confounder A P (ac_ap_req ctx) confounder options)) (\<lambda>ap_rep.
     rbind (map_err CtxSpnego (krb5_mech_token_encode (krb5_mech_token_new ApRep ap_rep))) (\<lambda>krb5_token.
       map_err CtxSpnego (response_token_header B (neg_resp_with_response_token neg_resp_accept_completed krb5_token))))"

definition ap_rep_response_header ::
  "asn1 \<Rightarrow> crypto_prims \<Rightarrow> base64 \<Rightarrow> (nat \<Rightarrow> bytes option) \<Rightarrow> accepted_context \<Rightarrow> ap_rep_options \<Rightarrow> context_error + string" where
  "ap_rep_response_header A P B fill ctx options =
     rbind (ok_or (ket_from_etype_id (kt_etype (va_session_key (ac_ap_req ctx))))
         (CtxUnsupportedEtype (kt_etype (va_session_key (ac_ap_req ctx))))) (\<lambda>etype.
     rbind (ok_or (fill (ket_confounder_len etype)) CtxRandom) (\<lambda>confounder.
       ap_rep_response_header_with_confounder A P B ctx confounder options))"

end
