(* ===== verification/Pac_Props.thy ===== *)
theory Pac_Props
  imports Pac Etype_Props
begin

text \<open>
  A small program logic for the readers of \<open>Pac_Ndr\<close> (\<open>pspec B m Q\<close>: a successful read in the buffer \<open>B\<close> stays inside it,
  only moves forward and returns a value with \<open>Q\<close>; \<open>preads m Q\<close>: the value and the bytes that were consumed for it are
  in the relation \<open>Q\<close>), the well-formedness of what the parsers accept, what the server checksum covers, and the termination of the search in authorization data.
\<close>

named_theorems pspec_rules

section \<open>The logic\<close>

definition pr_ok :: "pac_reader \<Rightarrow> bool" where
  "pr_ok r \<longleftrightarrow> pr_offset r \<le> length (pr_bytes r)"

definition pspec :: "bytes \<Rightarrow> 'a pread \<Rightarrow> ('a \<Rightarrow> bool) \<Rightarrow> bool" where
  "pspec B m Q \<longleftrightarrow> (\<forall>r x r'. pr_ok r \<and> pr_bytes r = B \<and> m r = Inr (x, r') \<longrightarrow>
     Q x \<and> pr_bytes r' = B \<and> pr_offset r \<le> pr_offset r' \<and> pr_ok r')"

lemma pspecD:
  assumes "pspec B m Q" and "pr_ok r" and "pr_bytes r = B" and "m r = Inr (x, r')"
  shows "Q x" and "pr_bytes r' = B" and "pr_offset r \<le> pr_offset r'" and "pr_ok r'"
  using assms unfolding pspec_def by blast+

lemma pspec_mono: "pspec B m Q \<Longrightarrow> (\<And>x. Q x \<Longrightarrow> R x) \<Longrightarrow> pspec B m R"
  unfolding pspec_def by blast

lemma pspec_pret [pspec_rules]: "Q x \<Longrightarrow> pspec B (pret x) Q"
  by (simp add: pspec_def pret_def)

lemma pspec_pfail [pspec_rules]: "pspec B (pfail e) Q"
  by (simp add: pspec_def pfail_def)

lemma pspec_pbind:
  assumes "pspec B m Q" and "\<And>x. Q x \<Longrightarrow> pspec B (f x) R"
  shows "pspec B (pbind m f) R"
  unfolding pspec_def
proof (intro allI impI)
  fix r y r'
  assume "pr_ok r \<and> pr_bytes r = B \<and> pbind m f r = Inr (y, r')"
  then obtain x s where m: "m r = Inr (x, s)" and f: "f x s = Inr (y, r')" and r: "pr_ok r" "pr_bytes r = B"
    by (auto simp: pbind_def rbind_eq_Inr)
  note s = pspecD [OF assms(1) r m]
  show "R y \<and> pr_bytes r' = B \<and> pr_offset r \<le> pr_offset r' \<and> pr_ok r'"
    using pspecD [OF assms(2) [OF s(1)] s(4,2) f] s by simp
qed

lemma pspec_if [pspec_rules]:
  "(c \<Longrightarrow> pspec B m Q) \<Longrightarrow> (\<not> c \<Longrightarrow> pspec B m' Q) \<Longrightarrow> pspec B (if c then m else m') Q"
  by simp

lemma pspec_read_bytes: "pspec B (pr_read_bytes n) (\<lambda>bs. length bs = n)"
  by (auto simp: pspec_def pr_read_bytes_def rbind_eq_Inr ok_or_eq_Inr usize_checked_add_def pr_ok_def length_slice
      split: if_splits)

lemma is_power_of_two_pos: "is_power_of_two n \<Longrightarrow> 0 < n"
  by (cases n) (simp_all add: is_power_of_two.simps)

lemma pspec_align: "pspec B (pr_align a) (\<lambda>_. True)"
proof -
  have "n \<le> (n + a - 1) div a * a" if "0 < a" for n
  proof -
    have "(n + a - 1) div a * a = n + a - 1 - (n + a - 1) mod a" by (simp add: minus_mod_eq_div_mult)
    moreover have "(n + a - 1) mod a < a" using that by simp
    ultimately show ?thesis by linarith
  qed
  then show ?thesis
    by (auto simp: pspec_def pr_align_def Let_def pr_ok_def split: if_splits)
qed

lemma pspec_many:
  assumes "pspec B m Q"
  shows "pspec B (pr_many n m) (\<lambda>xs. length xs = n \<and> list_all Q xs)"
proof (induction n)
  case (Suc n)
  show ?case
    unfolding pr_many.simps
    by (rule pspec_pbind [OF assms], rule pspec_pbind [OF Suc], rule pspec_pret) simp
qed (simp add: pspec_pret)

lemma pspec_each:
  assumes "\<And>x. x \<in> set xs \<Longrightarrow> pspec B (f x) (Q x)"
  shows "pspec B (pr_each f xs) (\<lambda>ys. list_all2 Q xs ys)"
  using assms
proof (induction xs)
  case (Cons x xs)
  show ?case
    unfolding pr_each.simps
    by (rule pspec_pbind [OF Cons.prems], simp, rule pspec_pbind [OF Cons.IH])
      (simp_all add: Cons.prems pspec_pret)
qed (simp add: pspec_pret)

lemma pspec_u8: "pspec B pr_read_u8 (\<lambda>_. True)"
  unfolding pr_read_u8_def by (rule pspec_pbind [OF pspec_read_bytes], rule pspec_pret) simp

lemma pspec_u16: "pspec B pr_read_u16 (\<lambda>_. True)"
  unfolding pr_read_u16_def by (rule pspec_pbind [OF pspec_read_bytes], rule pspec_pret) simp

lemma pspec_u32: "pspec B pr_read_u32 (\<lambda>_. True)"
  unfolding pr_read_u32_def by (rule pspec_pbind [OF pspec_read_bytes], rule pspec_pret) simp

lemma pspec_u64: "pspec B pr_read_u64 (\<lambda>_. True)"
  unfolding pr_read_u64_def by (rule pspec_pbind [OF pspec_read_bytes], rule pspec_pret) simp

lemma pspec_filetime: "pspec B pr_read_filetime (\<lambda>_. True)"
  unfolding pr_read_filetime_def by (rule pspec_u64)

lemma pspec_ndr_u32: "pspec B read_ndr_u32 (\<lambda>_. True)"
  unfolding read_ndr_u32_def by (rule pspec_pbind [OF pspec_align pspec_u32])

lemma pspec_rud_read: "pspec B rud_read (\<lambda>_. True)"
  unfolding rud_read_def
  by (rule pspec_pbind [OF pspec_u16], rule pspec_pbind [OF pspec_u16], rule pspec_pbind [OF pspec_u32], rule pspec_pret) simp

lemma pspec_reasonable_count: "pspec B (read_reasonable_count target) (\<lambda>n. unat n \<le> 1000000)"
  unfolding read_reasonable_count_def
  by (rule pspec_pbind [OF pspec_u32], rule pspec_if)
    (auto intro!: pspec_pret pspec_pfail simp: MAX_REASONABLE_NDR_COUNT_def word_less_nat_alt not_less)

lemma pspec_ndr_wrapper: "pspec B (read_ndr_wrapper target) (\<lambda>_. True)"
proof -
  have "pspec B (read_ndr_header target n) (\<lambda>_. True)" for n
    unfolding read_ndr_header_def
    by (intro pspec_rules TrueI pspec_pbind [OF pspec_u8] pspec_pbind [OF pspec_u32])
  then show ?thesis unfolding pspec_def read_ndr_wrapper_def by (metis Inl_Inr_False)
qed

section \<open>Well-formed values\<close>

text \<open>The bytes stand somewhere in the buffer, without a gap.\<close>

definition occurs_in :: "bytes \<Rightarrow> bytes \<Rightarrow> bool" where
  "occurs_in bs B \<longleftrightarrow> (\<exists>xs ys. B = xs @ bs @ ys)"

lemma occurs_in_trans: "occurs_in a b \<Longrightarrow> occurs_in b c \<Longrightarrow> occurs_in a c"
  unfolding occurs_in_def by (metis append.assoc)

lemma occurs_in_append: "occurs_in a (xs @ a @ ys)"
  by (auto simp: occurs_in_def)

text \<open>The representation of a security identifier: the revision, the number of its sub-authorities, the authority and the
  sub-authorities, as the buffer has them.\<close>

definition sid_bytes :: "sid \<Rightarrow> bytes" where
  "sid_bytes s = [sid_revision s, of_nat (length (sid_sub_authorities s))] @ sid_identifier_authority s
     @ concat (map (to_bytes_en Little) (sid_sub_authorities s))"

definition sid_ok :: "bytes \<Rightarrow> sid \<Rightarrow> bool" where
  "sid_ok B s \<longleftrightarrow> sid_revision s = 1 \<and> length (sid_identifier_authority s) = 6 \<and> length (sid_sub_authorities s) \<le> 15
   \<and> occurs_in (sid_bytes s) B"

text \<open>The text of a string is empty (its pointer is null), whatever the announced length, or it decodes UTF-16 units of the buffer, half as
  many as the announced length in bytes.\<close>

definition rus_ok :: "bytes \<Rightarrow> rpc_unicode_string \<Rightarrow> bool" where
  "rus_ok B s \<longleftrightarrow> rus_length s \<le> rus_maximum_length s \<and> even (unat (rus_length s)) \<and> str_ok (rus_value s)
   \<and> (rus_value s = [] \<or> (\<exists>units. 2 * length units = unat (rus_length s) \<and> from_utf16 units = Some (rus_value s)
        \<and> occurs_in (concat (map (to_bytes_en Little) units)) B))"

definition count_ok :: "'a list \<Rightarrow> u32 \<Rightarrow> bool" where
  "count_ok xs n \<longleftrightarrow> length xs = unat n \<and> length xs \<le> 1000000"

section \<open>The bytes of a value\<close>

definition preads :: "'a pread \<Rightarrow> ('a \<Rightarrow> bytes \<Rightarrow> bool) \<Rightarrow> bool" where
  "preads m Q \<longleftrightarrow> (\<forall>r x r'. pr_ok r \<and> m r = Inr (x, r') \<longrightarrow> pr_bytes r' = pr_bytes r \<and> pr_offset r \<le> pr_offset r' \<and> pr_ok r'
     \<and> Q x (slice (pr_bytes r) (pr_offset r) (pr_offset r')))"

lemma preadsD:
  assumes "preads m Q" and "pr_ok r" and "m r = Inr (x, r')"
  shows "pr_bytes r' = pr_bytes r" and "pr_offset r \<le> pr_offset r'" and "pr_ok r'" and "Q x (slice (pr_bytes r) (pr_offset r) (pr_offset r'))"
  using assms by (auto simp: preads_def)

lemma slice_occurs: "occurs_in (slice B a b) B"
proof -
  have "B = take a B @ slice B a b @ drop (b - a) (drop a B)" by (simp add: slice_def del: drop_drop)
  then show ?thesis unfolding occurs_in_def by blast
qed

lemma pspec_preads: "preads m P \<Longrightarrow> (\<And>x c. P x c \<Longrightarrow> occurs_in c B \<Longrightarrow> Q x) \<Longrightarrow> pspec B m Q"
  unfolding pspec_def preads_def using slice_occurs by metis

lemma preads_pspec: "(\<And>B. pspec B m (\<lambda>_. True)) \<Longrightarrow> preads m (\<lambda>_ _. True)"
  unfolding pspec_def preads_def by blast

lemma preads_mono: "preads m Q \<Longrightarrow> (\<And>x c. Q x c \<Longrightarrow> R x c) \<Longrightarrow> preads m R"
  unfolding preads_def by blast

lemma preads_pret [pspec_rules]: "Q x [] \<Longrightarrow> preads (pret x) Q"
  by (simp add: preads_def pret_def slice_def)

lemma preads_pfail [pspec_rules]: "preads (pfail e) Q"
  by (simp add: preads_def pfail_def)

lemma preads_if [pspec_rules]:
  "(c \<Longrightarrow> preads m Q) \<Longrightarrow> (\<not> c \<Longrightarrow> preads m' Q) \<Longrightarrow> preads (if c then m else m') Q"
  by simp

lemma slice_join: "a \<le> b \<Longrightarrow> b \<le> c \<Longrightarrow> slice xs a b @ slice xs b c = slice xs a c"
  using take_add [of "b - a" "c - b" "drop a xs"] by (simp add: slice_def)

lemma preads_pbind:
  assumes "preads m P" and "\<And>x c. P x c \<Longrightarrow> preads (f x) (\<lambda>y d. Q y (c @ d))"
  shows "preads (pbind m f) Q"
  unfolding preads_def
proof (intro allI impI)
  fix r y r'
  assume "pr_ok r \<and> pbind m f r = Inr (y, r')"
  then obtain x s where m: "m r = Inr (x, s)" and f: "f x s = Inr (y, r')" and r: "pr_ok r" by (auto simp: pbind_def rbind_eq_Inr)
  note s = preadsD [OF assms(1) r m]
  note t = preadsD [OF assms(2) [OF s(4)] s(3) f]
  show "pr_bytes r' = pr_bytes r \<and> pr_offset r \<le> pr_offset r' \<and> pr_ok r' \<and> Q y (slice (pr_bytes r) (pr_offset r) (pr_offset r'))"
    using s t slice_join [of "pr_offset r" "pr_offset s" "pr_offset r'" "pr_bytes r"] by simp
qed

lemma preads_bytes: "preads (pr_read_bytes n) (\<lambda>x c. x = c \<and> length c = n)"
  by (auto simp: preads_def pr_read_bytes_def rbind_eq_Inr ok_or_eq_Inr usize_checked_add_def pr_ok_def length_slice split: if_splits)

lemma preads_u8: "preads pr_read_u8 (\<lambda>x c. c = [x])"
  unfolding pr_read_u8_def by (rule preads_pbind [OF preads_bytes], rule preads_pret) (auto simp: length_Suc_conv)

lemma preads_word:
  assumes "8 dvd LENGTH('a::len)" and "n = LENGTH('a) div 8"
  shows "preads (pbind (pr_read_bytes n) (\<lambda>bs. pret (from_bytes_en Little bs :: 'a word))) (\<lambda>x c. c = to_bytes_en Little x)"
  by (rule preads_pbind [OF preads_bytes], rule preads_pret) (simp add: assms to_from_bytes_en)

lemma preads_u16: "preads pr_read_u16 (\<lambda>x c. c = to_bytes_en Little x)"
  unfolding pr_read_u16_def by (rule preads_word) simp_all

lemma preads_u32: "preads pr_read_u32 (\<lambda>x c. c = to_bytes_en Little x)"
  unfolding pr_read_u32_def by (rule preads_word) simp_all

lemma preads_many:
  assumes "preads m (\<lambda>x c. c = enc x)"
  shows "preads (pr_many n m) (\<lambda>xs c. length xs = n \<and> c = concat (map enc xs))"
proof (induction n)
  case (Suc n)
  show ?case unfolding pr_many.simps by (rule preads_pbind [OF assms], rule preads_pbind [OF Suc], rule preads_pret) simp
qed (simp add: preads_pret)

lemma preads_align: "preads (pr_align a) (\<lambda>_ _. True)"
  by (rule preads_pspec [OF pspec_align])

lemma preads_count: "preads (read_reasonable_count target) (\<lambda>_ _. True)"
  by (rule preads_pspec, rule pspec_mono [OF pspec_reasonable_count]) simp

section \<open>Decoded text is UTF-8\<close>

lemma in_range_char: "n < 256 \<Longrightarrow> in_range lo hi (byte_of_char (char_of n)) \<longleftrightarrow> lo \<le> n \<and> n \<le> hi"
  by (simp add: in_range_def byte_of_char_def of_char_of take_bit_nat_eq_self)

lemma unat_byte_of_char_of: "n < 256 \<Longrightarrow> unat (byte_of_char (char_of n)) = n"
  by (simp add: byte_of_char_def of_char_of take_bit_nat_eq_self)

lemma digits3: "(c :: nat) = 4096 * (c div 4096) + 64 * (c div 64 mod 64) + c mod 64"
proof -
  have "c = 64 * (c div 64) + c mod 64" by simp
  moreover have "c div 64 = 64 * (c div 4096) + c div 64 mod 64"
    using div_mult2_eq [of c 64 64] by simp
  ultimately show ?thesis by linarith
qed

lemma digits4: "(c :: nat) = 262144 * (c div 262144) + 4096 * (c div 4096 mod 64) + 64 * (c div 64 mod 64) + c mod 64"
proof -
  have "c div 4096 = 64 * (c div 262144) + c div 4096 mod 64"
    using div_mult2_eq [of c 4096 64] by simp
  then show ?thesis using digits3 [of c] by linarith
qed

lemma utf8_encode_valid:
  assumes c: "c < 0x110000" "c < 0xD800 \<or> 0xDFFF < c"
  shows "str_ok (utf8_encode c @ s) \<longleftrightarrow> str_ok s"
proof -
  have "c mod 64 < 64" "c div 64 mod 64 < 64" "c div 4096 mod 64 < 64" by simp_all
  then have m: "c mod 64 \<le> 63" "c div 64 mod 64 \<le> 63" "c div 4096 mod 64 \<le> 63" by linarith+
  consider "c < 0x80" | "0x80 \<le> c" "c < 0x800" | "0x800 \<le> c" "c < 0x10000" | "0x10000 \<le> c" by linarith
  then show ?thesis
  proof cases
    case 1
    then show ?thesis by (simp add: utf8_encode_def str_ok_def str_bytes_def in_range_char)
  next
    case 2
    have "c = 64 * (c div 64) + c mod 64" by simp
    then have "2 \<le> c div 64" "c div 64 \<le> 31" using 2 m by linarith+
    then show ?thesis using 2 m by (simp add: utf8_encode_def str_ok_def str_bytes_def in_range_char)
  next
    case 3
    define k a l where "k = c div 4096" and "a = c div 64 mod 64" and "l = c mod 64"
    note d = k_def [symmetric] a_def [symmetric] l_def [symmetric]
    have "k \<le> 15" "k = 0 \<Longrightarrow> 32 \<le> a" "k = 13 \<Longrightarrow> a \<le> 31" "a \<le> 63" "l \<le> 63"
      using digits3 [of c] 3 c m unfolding d by linarith+
    then show ?thesis using 3 unfolding utf8_encode_def d
      by (simp add: str_ok_def str_bytes_def in_range_char unat_byte_of_char_of)
  next
    case 4
    define k a b l where "k = c div 262144" and "a = c div 4096 mod 64" and "b = c div 64 mod 64" and "l = c mod 64"
    note d = k_def [symmetric] a_def [symmetric] b_def [symmetric] l_def [symmetric]
    have "k \<le> 4" "k = 0 \<Longrightarrow> 16 \<le> a" "k = 4 \<Longrightarrow> a \<le> 15" "a \<le> 63" "b \<le> 63" "l \<le> 63"
      using digits4 [of c] 4 c m unfolding d by linarith+
    then show ?thesis using 4 unfolding utf8_encode_def d
      by (simp add: str_ok_def str_bytes_def in_range_char unat_byte_of_char_of)
  qed
qed

lemma from_utf16_ok: "from_utf16 us = Some s \<Longrightarrow> str_ok s"
proof (induction us arbitrary: s rule: from_utf16.induct)
  case (2 u us)
  have u: "unat u < 65536" using unat_lt_pow [of u] by simp
  show ?case
  proof (cases "unat u < 0xD800 \<or> 0xDFFF < unat u")
    case True
    then obtain t where "from_utf16 us = Some t" "s = utf8_encode (unat u) @ t"
      using "2.prems" by (auto simp: Let_def)
    then show ?thesis using "2.IH"(1) [OF refl True] u True utf8_encode_valid [of "unat u" t] by simp
  next
    case False
    then obtain v vs t where us: "us = v # vs" and v: "0xDC00 \<le> unat v" "unat v \<le> 0xDFFF" and lo: "unat u < 0xDC00"
      and t: "from_utf16 vs = Some t"
      and s: "s = utf8_encode (0x10000 + (unat u - 0xD800) * 0x400 + (unat v - 0xDC00)) @ t"
      using "2.prems" by (auto simp: Let_def split: list.splits if_splits)
    have "str_ok t" using "2.IH"(2) [OF refl False _ us] lo v t by simp
    moreover have "0x10000 + (unat u - 0xD800) * 0x400 + (unat v - 0xDC00) < 0x110000"
      using lo v False by linarith
    ultimately show ?thesis unfolding s by (subst utf8_encode_valid) auto
  qed
qed simp

section \<open>The parsers\<close>

lemma concat_map_prefix: "occurs_in (concat (map f (take n xs))) (concat (map f xs))"
  using occurs_in_append [of "concat (map f (take n xs))" "[]" "concat (map f (drop n xs))"]
  by (simp flip: concat_append map_append)

lemma rus_ok_units:
  assumes "\<not> rud_maximum_length d < rud_length d" and "unat (rud_length d) mod 2 = 0" and "unat (rud_length d) div 2 \<le> length units"
    and "from_utf16 (take (unat (rud_length d) div 2) units) = Some v" and "occurs_in (concat (map (to_bytes_en Little) units)) B"
  shows "rus_ok B \<lparr>rus_length = rud_length d, rus_maximum_length = rud_maximum_length d, rus_value = v\<rparr>"
proof -
  let ?units = "take (unat (rud_length d) div 2) units"
  have "2 * length ?units = unat (rud_length d)" using assms(2,3) by auto
  moreover have "occurs_in (concat (map (to_bytes_en Little) ?units)) B" by (rule occurs_in_trans [OF concat_map_prefix assms(5)])
  ultimately show ?thesis
    using assms(1,2,4) from_utf16_ok [OF assms(4)] unfolding rus_ok_def by (auto simp: not_less even_iff_mod_2_eq_zero)
qed

lemma preads_unicode_string: "preads (read_deferred_unicode_string d target) (\<lambda>s c. rus_ok c s)"
proof -
  have null: "rus_ok c \<lparr>rus_length = rud_length d, rus_maximum_length = rud_maximum_length d, rus_value = []\<rparr>"
    if "\<not> rud_maximum_length d < rud_length d" "unat (rud_length d) mod 2 = 0" for c
    using that by (simp add: rus_ok_def not_less even_iff_mod_2_eq_zero str_ok_def str_bytes_def)
  have units: "preads (case from_utf16 (take (unat (rud_length d) div 2) us) of None \<Rightarrow> pfail (InvalidUtf16 target)
      | Some v \<Rightarrow> pret \<lparr>rus_length = rud_length d, rus_maximum_length = rud_maximum_length d, rus_value = v\<rparr>)
      (\<lambda>s c. rus_ok (a @ b @ b' @ concat (map (to_bytes_en Little) us) @ e @ c) s)"
    if "\<not> rud_maximum_length d < rud_length d" "unat (rud_length d) mod 2 = 0" "unat (rud_length d) div 2 \<le> length us" for us a b b' e
  proof -
    have "occurs_in (concat (map (to_bytes_en Little) us)) (a @ b @ b' @ concat (map (to_bytes_en Little) us) @ e @ c)" for c
      using occurs_in_append [of "concat (map (to_bytes_en Little) us)" "a @ b @ b'" "e @ c"] by simp
    then show ?thesis using rus_ok_units [OF that] by (auto intro!: pspec_rules split: option.splits)
  qed
  show ?thesis
    unfolding read_deferred_unicode_string_def Let_def
    by (intro pspec_rules preads_pbind [OF preads_count] preads_pbind [OF preads_u32] preads_pbind [OF preads_many [OF preads_u16]]
        preads_pbind [OF preads_align]) (use null units in \<open>auto simp: not_less\<close>)
qed

lemma rus_ok_mono: "rus_ok c s \<Longrightarrow> occurs_in c B \<Longrightarrow> rus_ok B s"
  by (auto simp: rus_ok_def intro: occurs_in_trans)

lemma pspec_unicode_string: "pspec B (read_deferred_unicode_string d target) (rus_ok B)"
  by (rule pspec_preads [OF preads_unicode_string]) (rule rus_ok_mono)

lemma preads_sid: "preads (read_deferred_sid ref target) (\<lambda>s c. pred_option (sid_ok c) s)"
  unfolding read_deferred_sid_def
  by (intro pspec_rules preads_pbind [OF preads_count] preads_pbind [OF preads_u8] preads_pbind [OF preads_many [OF preads_u32]]
      preads_pbind [OF preads_align] preads_pbind [OF preads_bytes])
    (auto simp: sid_ok_def sid_bytes_def not_less word_le_nat_alt occurs_in_def)

lemma pspec_sid: "pspec B (read_deferred_sid ref target) (pred_option (sid_ok B))"
  by (rule pspec_preads [OF preads_sid]) (auto simp: sid_ok_def pred_option_def intro: occurs_in_trans)

lemma pspec_deferred_array:
  assumes "pspec B (read_count target) (\<lambda>n. unat n \<le> 1000000)" and "\<And>n. pspec B (body n) (\<lambda>xs. length xs = n \<and> Q xs)" and "Q []"
  shows "pspec B (deferred_array read_count ref count target body) (\<lambda>xs. count_ok xs count \<and> Q xs)"
  unfolding deferred_array_def
  by (intro pspec_rules pspec_pbind [OF assms(1)])
    (auto simp: count_ok_def assms(3) intro: pspec_mono [OF assms(2)])

lemma pspec_groups: "pspec B (read_deferred_group_memberships ref count target) (\<lambda>gs. count_ok gs count)"
proof -
  have "pspec B (pbind pr_read_u32 (\<lambda>i. pbind pr_read_u32 (\<lambda>a. pret \<lparr>gm_relative_id = i, gm_attributes = a\<rparr>))) (\<lambda>_. True)"
    by (intro pspec_rules TrueI pspec_pbind [OF pspec_u32])
  from pspec_many [OF this] show ?thesis
    unfolding read_deferred_group_memberships_def
    by (intro pspec_mono [OF pspec_deferred_array [where Q = "\<lambda>_. True"]]) (simp_all add: pspec_reasonable_count list_all_iff)
qed

lemma pspec_sids:
  "pspec B (read_deferred_sid_and_attributes ref count target) (\<lambda>ss. count_ok ss count \<and> list_all (\<lambda>e. sid_ok B (saa_sid e)) ss)"
  unfolding read_deferred_sid_and_attributes_def
proof (rule pspec_deferred_array [OF pspec_reasonable_count])
  fix n
  let ?m = "pbind pr_read_u32 (\<lambda>sid_ref. pbind pr_read_u32 (\<lambda>attributes. pret (sid_ref, attributes)))"
  let ?f = "\<lambda>(sid_ref, attributes). pbind (read_deferred_sid sid_ref target) (\<lambda>s. pbind (require_sid target s) (\<lambda>sid.
               pret \<lparr>saa_sid = sid, saa_attributes = attributes\<rparr>))"
  have m: "pspec B (pr_many n ?m) (\<lambda>xs. length xs = n \<and> list_all (\<lambda>_. True) xs)"
    by (intro pspec_many pspec_rules TrueI pspec_pbind [OF pspec_u32])
  have req: "pspec B (require_sid target s) (sid_ok B)" if "pred_option (sid_ok B) s" for s
    using that by (cases s) (simp_all add: require_sid_def pspec_rules)
  have f: "pspec B (?f x) (\<lambda>e. sid_ok B (saa_sid e))" for x
    by (cases x) (auto intro!: pspec_pbind [OF pspec_sid] pspec_pbind [OF req] pspec_rules)
  have "pspec B (pr_each ?f xs) (\<lambda>ys. list_all2 (\<lambda>x e. sid_ok B (saa_sid e)) xs ys)" for xs
    by (rule pspec_each) (rule f)
  then show "pspec B (pbind (pr_many n ?m) (pr_each ?f)) (\<lambda>xs. length xs = n \<and> list_all (\<lambda>e. sid_ok B (saa_sid e)) xs)"
    by (rule pspec_pbind [OF m, OF pspec_mono]) (auto simp: list_all2_conv_all_nth list_all_length)
qed simp

lemma pspec_kvi_end: "pspec B kvi_end (\<lambda>_. True)"
  unfolding kvi_end_def by (rule pspec_pbind [OF pspec_align]) (auto simp: pspec_def)

definition kvi_ok :: "bytes \<Rightarrow> kerb_validation_info \<Rightarrow> bool" where
  "kvi_ok B i \<longleftrightarrow>
     list_all (rus_ok B) [kvi_effective_name i, kvi_full_name i, kvi_logon_script i, kvi_profile_path i, kvi_home_directory i,
       kvi_home_directory_drive i, kvi_logon_server i, kvi_logon_domain_name i]
   \<and> count_ok (kvi_group_ids i) (kvi_group_count i)
   \<and> count_ok (kvi_extra_sids i) (kvi_sid_count i) \<and> list_all (\<lambda>e. sid_ok B (saa_sid e)) (kvi_extra_sids i)
   \<and> count_ok (kvi_resource_group_ids i) (kvi_resource_group_count i)
   \<and> pred_option (sid_ok B) (kvi_logon_domain_id i) \<and> pred_option (sid_ok B) (kvi_resource_group_domain_sid i)
   \<and> length (kvi_user_session_key i) = 16"

lemma pspec_kvi: "pspec B kerb_validation_info_read (kvi_ok B)"
  unfolding kerb_validation_info_read_def
  by (intro pspec_pbind [OF pspec_ndr_wrapper] pspec_pbind [OF pspec_filetime] pspec_pbind [OF pspec_rud_read]
      pspec_pbind [OF pspec_u16] pspec_pbind [OF pspec_u32] pspec_pbind [OF pspec_read_bytes]
      pspec_pbind [OF pspec_unicode_string] pspec_pbind [OF pspec_groups] pspec_pbind [OF pspec_sid]
      pspec_pbind [OF pspec_sids] pspec_pbind [OF pspec_kvi_end] pspec_pret)
    (simp add: kvi_ok_def)

lemma pr_ok_new [simp]: "pr_ok (pr_new bs)"
  by (simp add: pr_ok_def pr_new_def)

section \<open>What the server checksum covers\<close>

definition sig_field :: "info_buffer \<Rightarrow> signature_data \<Rightarrow> nat set" where
  "sig_field b sd = {unat (ib_offset b) + 4 ..< unat (ib_offset b) + 4 + length (sd_signature sd)}"

definition sig_of :: "bytes \<Rightarrow> info_buffer \<Rightarrow> signature_data \<Rightarrow> bool" where
  "sig_of bs b sd \<longleftrightarrow> rbind (ib_slice b bs) signature_data_parse = Inr sd"

definition first_of :: "u32 \<Rightarrow> info_buffer list \<Rightarrow> info_buffer option" where
  "first_of ty = List.find (\<lambda>b. ib_ul_type b = ty)"

text \<open>The state of the buffer loop: the signatures recorded so far are those of the first buffers of
  their types, and the copy of the data differs from it only by zeros in their signature fields.\<close>

definition sig_state :: "bytes \<Rightarrow> info_buffer option \<Rightarrow> signature_data option \<Rightarrow> bool" where
  "sig_state bs b sd \<longleftrightarrow> (case (b, sd) of (None, None) \<Rightarrow> True | (Some b, Some sd) \<Rightarrow> sig_of bs b sd | _ \<Rightarrow> False)"

definition opt_field_set :: "info_buffer option \<Rightarrow> signature_data option \<Rightarrow> nat set" where
  "opt_field_set b sd = (case (b, sd) of (Some b, Some sd) \<Rightarrow> sig_field b sd | _ \<Rightarrow> {})"

definition zeroed_in :: "bytes \<Rightarrow> bytes \<Rightarrow> nat set \<Rightarrow> bool" where
  "zeroed_in bs z I \<longleftrightarrow> length z = length bs \<and> (\<forall>i < length bs. z ! i = bs ! i \<or> (z ! i = 0 \<and> i \<in> I))"

definition process_inv :: "bytes \<Rightarrow> info_buffer list \<Rightarrow> pac \<Rightarrow> bool" where
  "process_inv bs seen p \<longleftrightarrow> pac_data p = bs
     \<and> sig_state bs (first_of 6 seen) (pac_server_checksum p) \<and> sig_state bs (first_of 7 seen) (pac_kdc_checksum p)
     \<and> zeroed_in bs (pac_zero_signature_data p)
         (opt_field_set (first_of 6 seen) (pac_server_checksum p) \<union> opt_field_set (first_of 7 seen) (pac_kdc_checksum p))"

lemma ib_slice_bounds:
  "ib_slice b bs = Inr s \<Longrightarrow> unat (ib_offset b) + unat (ib_cb_buffer_size b) \<le> length bs
     \<and> s = slice bs (unat (ib_offset b)) (unat (ib_offset b) + unat (ib_cb_buffer_size b))"
  by (auto simp: ib_slice_def ib_validate_def rbind_eq_Inr usize_checked_add_def split: option.splits if_splits)

lemma pr_read_bytes_eq:
  "pr_read_bytes n r = Inr (x, r') \<longleftrightarrow> pr_offset r + n < 2 ^ 64 \<and> pr_offset r + n \<le> length (pr_bytes r)
     \<and> x = slice (pr_bytes r) (pr_offset r) (pr_offset r + n) \<and> r' = r\<lparr>pr_offset := pr_offset r + n\<rparr>"
  by (auto simp: pr_read_bytes_def rbind_eq_Inr ok_or_eq_Inr usize_checked_add_def split: if_splits)

lemma pbind_eq_Inr: "pbind m f r = Inr y \<longleftrightarrow> (\<exists>x r'. m r = Inr (x, r') \<and> f x r' = Inr y)"
  by (auto simp: pbind_def rbind_eq_Inr)

lemma signature_data_parse_parts:
  assumes "signature_data_parse bs = Inr sd"
  shows "4 + length (sd_signature sd) \<le> length bs"
    and "sd_zeroed_data sd = take 4 bs @ replicate (length (sd_signature sd)) 0 @ drop (4 + length (sd_signature sd)) bs"
proof -
  obtain ty n r1 where ty: "pr_read_u32 (pr_new bs) = Inr (ty, r1)" and n: "checksum_signature_len ty = Some n"
    and rest: "\<exists>r'. pbind (pr_read_bytes n) (\<lambda>signature.
         pbind (\<lambda>r. if pr_remaining r \<ge> 2 then pbind pr_read_u16 (\<lambda>w. pret (Some w)) r else pret None r) (\<lambda>rodc.
             pret \<lparr>sd_signature_type = ty, sd_signature = signature, sd_rodc_identifier = rodc,
                   sd_zeroed_data = take 4 bs @ replicate n 0 @ drop (4 + n) bs\<rparr>)) r1 = Inr (sd, r')"
    using assms
    by (auto simp: signature_data_parse_def rbind_eq_Inr pbind_eq_Inr pfail_def split: option.splits)
  have r1: "r1 = \<lparr>pr_bytes = bs, pr_offset = 4\<rparr>"
    using ty by (auto simp: pr_read_u32_def pbind_eq_Inr pr_read_bytes_eq pr_new_def pret_def)
  obtain sig where sig: "pr_read_bytes n r1 = Inr (sig, r1\<lparr>pr_offset := 4 + n\<rparr>)" and sd: "sd_signature sd = sig"
    "sd_zeroed_data sd = take 4 bs @ replicate n 0 @ drop (4 + n) bs"
    using rest by (auto simp: pbind_eq_Inr pret_def pr_read_bytes_eq r1)
  have len: "4 + n \<le> length bs" "length sig = n"
    using sig by (auto simp: pr_read_bytes_eq r1 length_slice)
  then show "4 + length (sd_signature sd) \<le> length bs"
    "sd_zeroed_data sd = take 4 bs @ replicate (length (sd_signature sd)) 0 @ drop (4 + length (sd_signature sd)) bs"
    using sd by simp_all
qed

lemma copy_zeroed:
  assumes s: "ib_slice b bs = Inr s" and sd: "signature_data_parse s = Inr sd"
    and z: "zeroed_in bs z I" and c: "ib_copy_zeroed_signature b z sd = Inr z'"
  shows "zeroed_in bs z' (I \<union> sig_field b sd)"
proof -
  define off len where "off = unat (ib_offset b)" and "len = unat (ib_cb_buffer_size b)"
  define k where "k = length (sd_signature sd)"
  have bounds: "off + len \<le> length bs" and s': "s = slice bs off (off + len)"
    using ib_slice_bounds [OF s] by (simp_all add: off_def len_def)
  have zd: "sd_zeroed_data sd = take 4 s @ replicate k 0 @ drop (4 + k) s" and k: "4 + k \<le> length s"
    using signature_data_parse_parts [OF sd] by (simp_all add: k_def)
  have lz: "length z = length bs" using z by (simp add: zeroed_in_def)
  have ls: "length s = len" using bounds by (simp add: s' length_slice)
  have z': "z' = take off z @ sd_zeroed_data sd @ drop (off + len) z"
    using c by (auto simp: ib_copy_zeroed_signature_def Let_def rbind_eq_Inr ok_or_eq_Inr usize_checked_add_def
        off_def len_def split: if_splits)
  have lzd: "length (sd_zeroed_data sd) = len" using k by (simp add: zd ls)
  have si: "s ! j = bs ! (off + j)" if "j < len" for j
    using that bounds by (simp add: s' slice_def)
  have "z' ! i = bs ! i \<or> (z' ! i = 0 \<and> i \<in> I \<union> sig_field b sd)" if i: "i < length bs" for i
  proof -
    have zi: "z ! i = bs ! i \<or> (z ! i = 0 \<and> i \<in> I)" using z i by (simp add: zeroed_in_def)
    consider "i < off" | "off \<le> i" "i < off + len" | "off + len \<le> i" by linarith
    then show ?thesis
    proof cases
      case 1
      then have "z' ! i = z ! i" using bounds lz by (simp add: z' nth_append)
      then show ?thesis using zi by auto
    next
      case 2
      define j where "j = i - off"
      have j: "j < len" "i = off + j" using 2 by (simp_all add: j_def)
      have "z' ! i = sd_zeroed_data sd ! j"
        using j bounds lz lzd by (simp add: z' nth_append)
      moreover have "sd_zeroed_data sd ! j = (if 4 \<le> j \<and> j < 4 + k then 0 else s ! j)"
        using j k ls by (auto simp: zd nth_append)
      ultimately show ?thesis using si [OF j(1)] j by (auto simp: sig_field_def off_def [symmetric] k_def [symmetric])
    next
      case 3
      then have "\<not> i < off" "\<not> i - off < len" "off + len + (i - off - len) = i" by linarith+
      then have "z' ! i = z ! i" using bounds lz lzd i by (simp add: z' nth_append)
      then show ?thesis using zi by auto
    qed
  qed
  moreover have "length z' = length bs" using bounds lz lzd by (simp add: z')
  ultimately show ?thesis by (simp add: zeroed_in_def)
qed

lemma first_of_snoc: "first_of ty (bs @ [b]) = (case first_of ty bs of None \<Rightarrow> if ib_ul_type b = ty then Some b else None | Some x \<Rightarrow> Some x)"
  unfolding first_of_def by (induction bs) auto

lemma sig_state_other: "ib_ul_type b \<noteq> ty \<Longrightarrow> first_of ty (seen @ [b]) = first_of ty seen"
  by (auto simp: first_of_snoc split: option.splits)

lemma sig_state_later: "sig_state bs (first_of ty seen) (Some sd) \<Longrightarrow> first_of ty (seen @ [b]) = first_of ty seen"
  by (auto simp: first_of_snoc sig_state_def split: option.splits)

lemma pac_process_buffer_frame:
  assumes "pac_process_buffer Z p b = Inr p'"
  shows "pac_data p' = pac_data p \<and> pac_buffers p' = pac_buffers p
    \<and> (\<not> (ib_ul_type b = 6 \<and> pac_server_checksum p = None) \<and> \<not> (ib_ul_type b = 7 \<and> pac_kdc_checksum p = None) \<longrightarrow>
         pac_server_checksum p' = pac_server_checksum p \<and> pac_kdc_checksum p' = pac_kdc_checksum p
         \<and> pac_zero_signature_data p' = pac_zero_signature_data p)"
  using assms unfolding pac_process_buffer_def
  by (elim rbindE) (split if_split_asm; (elim rbindE)?; simp?; hypsubst?; simp?)+

lemma process_inv_step:
  assumes inv: "process_inv bs seen p" and step: "pac_process_buffer Z p b = Inr p'"
  shows "process_inv bs (seen @ [b]) p'"
proof -
  have pd: "pac_data p = bs" using inv by (simp add: process_inv_def)
  obtain s where s: "ib_slice b bs = Inr s" using step by (auto simp: pac_process_buffer_def rbind_eq_Inr pd)
  note zi = inv [unfolded process_inv_def]
  show ?thesis
  proof (cases "ib_ul_type b = 6 \<and> pac_server_checksum p = None")
    case True
    then obtain sd z where sd: "signature_data_parse s = Inr sd"
      and z: "ib_copy_zeroed_signature b (pac_zero_signature_data p) sd = Inr z"
      and p': "p' = p\<lparr>pac_zero_signature_data := z, pac_server_checksum := Some sd\<rparr>"
      using step s by (auto simp: pac_process_buffer_def rbind_eq_Inr pd)
    have n6: "first_of 6 seen = None" using zi True by (auto simp: sig_state_def split: option.splits)
    then have f6: "first_of 6 (seen @ [b]) = Some b" using True by (simp add: first_of_snoc)
    have f7: "first_of 7 (seen @ [b]) = first_of 7 seen" using True by (intro sig_state_other) simp
    show ?thesis
      using copy_zeroed [OF s sd _ z, of "opt_field_set (first_of 7 seen) (pac_kdc_checksum p)"] zi True n6 s sd
      unfolding process_inv_def f6 f7
      by (simp add: p' sig_state_def sig_of_def opt_field_set_def Un_commute)
  next
    case not6: False
    then have f6: "first_of 6 (seen @ [b]) = first_of 6 seen"
      using zi by (cases "ib_ul_type b = 6") (auto intro: sig_state_other sig_state_later)
    show ?thesis
    proof (cases "ib_ul_type b = 7 \<and> pac_kdc_checksum p = None")
      case True
      then obtain sd z where sd: "signature_data_parse s = Inr sd"
        and z: "ib_copy_zeroed_signature b (pac_zero_signature_data p) sd = Inr z"
        and p': "p' = p\<lparr>pac_zero_signature_data := z, pac_kdc_checksum := Some sd\<rparr>"
        using step s by (auto simp: pac_process_buffer_def rbind_eq_Inr pd)
      have n7: "first_of 7 seen = None" using zi True by (auto simp: sig_state_def split: option.splits)
      then have f7: "first_of 7 (seen @ [b]) = Some b" using True by (simp add: first_of_snoc)
      show ?thesis
        using copy_zeroed [OF s sd _ z, of "opt_field_set (first_of 6 seen) (pac_server_checksum p)"] zi True n7 s sd
        unfolding process_inv_def f6 f7
        by (simp add: p' sig_state_def sig_of_def opt_field_set_def)
    next
      case False
      then have f7: "first_of 7 (seen @ [b]) = first_of 7 seen"
        using zi by (cases "ib_ul_type b = 7") (auto intro: sig_state_other sig_state_later)
      have "pac_data p' = pac_data p \<and> pac_server_checksum p' = pac_server_checksum p
          \<and> pac_kdc_checksum p' = pac_kdc_checksum p \<and> pac_zero_signature_data p' = pac_zero_signature_data p"
        using pac_process_buffer_frame [OF step] not6 False by simp
      then show ?thesis using zi unfolding process_inv_def f6 f7 by simp
    qed
  qed
qed

lemma process_inv_loop:
  "process_inv bs seen p \<Longrightarrow> pac_process_loop Z p rest = Inr p' \<Longrightarrow> process_inv bs (seen @ rest) p'"
proof (induction rest arbitrary: seen p)
  case (Cons b rest)
  obtain q where q: "pac_process_buffer Z p b = Inr q" and "pac_process_loop Z q rest = Inr p'"
    using Cons.prems(2) by (auto simp: rbind_eq_Inr)
  then show ?case using Cons.IH [OF process_inv_step [OF Cons.prems(1) q]] by simp
qed simp

lemma pac_process_loop_buffers:
  "pac_process_loop Z p rest = Inr p' \<Longrightarrow> pac_buffers p' = pac_buffers p"
proof (induction rest arbitrary: p)
  case (Cons b rest)
  then obtain q where q: "pac_process_buffer Z p b = Inr q" and "pac_process_loop Z q rest = Inr p'"
    by (auto simp: rbind_eq_Inr)
  then show ?case using Cons.IH pac_process_buffer_frame [OF q] by simp
qed simp

text \<open>C18: the server checksum protects the whole certificate.  When a parsed and processed
  certificate verifies under a service key, the keyed checksum stored in the first server signature
  buffer, of the type that belongs to the key, has been verified over a copy of the certificate that
  differs from it at most by zeros inside the signature fields of the first server and the first KDC
  signature buffers; logon information, client information and both signatures are present.\<close>

theorem pac_verify_covers:
  assumes parsed: "pac_parse_and_process Z bs = Inr p" and ok: "pac_verify P p key = Inr ()"
  shows "\<exists>sb kb ssig ksig et z. pac_buffer p 6 = Some sb \<and> pac_buffer p 7 = Some kb
    \<and> rbind (pac_buffer_bytes p sb) signature_data_parse = Inr ssig \<and> rbind (pac_buffer_bytes p kb) signature_data_parse = Inr ksig
    \<and> pac_kerb_validation_info p \<noteq> None \<and> pac_client_info p \<noteq> None \<and> pac_data p = bs
    \<and> kerberos_etype_for_checksum_type (sd_signature_type ssig) = Some et \<and> ket_etype_id et = kt_etype key
    \<and> ket_verify_checksum P et (kt_value key) z (sd_signature ssig) 17 \<and> length z = length bs
    \<and> (\<forall>i < length bs. z ! i \<noteq> bs ! i \<longrightarrow> z ! i = 0 \<and> i \<in> sig_field sb ssig \<union> sig_field kb ksig)"
proof -
  obtain p0 where p0: "pac_parse bs = Inr p0" and lp: "pac_process_loop Z p0 (pac_buffers p0) = Inr p"
    using parsed by (auto simp: pac_parse_and_process_def pac_process_buffers_def rbind_eq_Inr)
  have "process_inv bs [] p0"
    using p0 by (auto simp: pac_parse_def rbind_eq_Inr process_inv_def sig_state_def first_of_def zeroed_in_def)
  then have inv: "process_inv bs (pac_buffers p) p"
    using process_inv_loop [OF _ lp] pac_process_loop_buffers [OF lp] by fastforce
  obtain ssig ksig et where req: "pac_kerb_validation_info p \<noteq> None" "pac_client_info p \<noteq> None"
    and s: "pac_server_checksum p = Some ssig" "pac_kdc_checksum p = Some ksig"
    and et: "kerberos_etype_for_checksum_type (sd_signature_type ssig) = Some et" "ket_etype_id et = kt_etype key"
    and v: "ket_verify_checksum P et (kt_value key) (pac_zero_signature_data p) (sd_signature ssig) 17"
    using ok by (auto simp: pac_verify_def require_service_buffers_def verify_server_checksum_def rbind_eq_Inr ok_or_eq_Inr
        split: if_splits)
  obtain sb kb where b: "first_of 6 (pac_buffers p) = Some sb" "first_of 7 (pac_buffers p) = Some kb"
    using inv s by (auto simp: process_inv_def sig_state_def split: option.splits)
  have "sig_of bs sb ssig" "sig_of bs kb ksig" "pac_data p = bs"
    "zeroed_in bs (pac_zero_signature_data p) (sig_field sb ssig \<union> sig_field kb ksig)"
    using inv s b by (simp_all add: process_inv_def sig_state_def opt_field_set_def)
  with b req et v show ?thesis
    unfolding pac_buffer_def first_of_def sig_of_def pac_buffer_bytes_def zeroed_in_def
    by (intro exI [of _ sb] exI [of _ kb] exI [of _ ssig] exI [of _ ksig] exI [of _ et] exI [of _ "pac_zero_signature_data p"]) auto
qed

section \<open>Reading at a position\<close>

definition pr_at :: "nat \<Rightarrow> bytes \<Rightarrow> pac_reader" where
  "pr_at k bs = \<lparr>pr_bytes = bs, pr_offset = k\<rparr>"

lemma pr_new_at: "pr_new bs = pr_at 0 bs"
  by (simp add: pr_new_def pr_at_def)

lemma pr_len_at [simp]: "pr_len (pr_at k bs) = length bs" "pr_remaining (pr_at k bs) = length bs - k"
  "pr_remaining_bytes (pr_at k bs) = drop k bs"
  by (simp_all add: pr_len_def pr_at_def pr_remaining_def pr_remaining_bytes_def)

lemma pr_read_bytes_at:
  "k + n \<le> length bs \<Longrightarrow> length bs < 2 ^ 64 \<Longrightarrow> pr_read_bytes n (pr_at k bs) = Inr (take n (drop k bs), pr_at (k + n) bs)"
  by (simp add: pr_read_bytes_eq pr_at_def slice_def)

lemma pr_align_at:
  "k mod 4 = 0 \<Longrightarrow> k \<le> length bs \<Longrightarrow> pr_align 4 (pr_at k bs) = Inr ((), pr_at k bs)"
proof -
  assume "k mod 4 = 0" "k \<le> length bs"
  moreover from this obtain q where "k = q * 4" by (auto simp: mod_eq_0_iff_dvd elim: dvdE)
  then have "(k + 4 - 1) div 4 * 4 = k" by simp
  moreover have "is_power_of_two 4" by (simp add: is_power_of_two.simps)
  ultimately show ?thesis by (simp add: pr_align_def pr_at_def)
qed

text \<open>Runs of zeros read as zeros.\<close>

definition zeros_from :: "nat \<Rightarrow> nat \<Rightarrow> bytes \<Rightarrow> bool" where
  "zeros_from k n bs \<longleftrightarrow> length bs < 2 ^ 64 \<and> k + n \<le> length bs \<and> take n (drop k bs) = replicate n 0"

lemma zeros_from_part:
  assumes "zeros_from a n bs" and "a \<le> k" and "k + m \<le> a + n"
  shows "pr_read_bytes m (pr_at k bs) = Inr (replicate m 0, pr_at (k + m) bs)"
proof -
  define i where "i = k - a"
  have i: "k = a + i" "i + m \<le> n" using assms(2,3) by (simp_all add: i_def)
  have "take m (drop k bs) = take m (drop i (take n (drop a bs)))"
    using i by (simp add: drop_take add.commute)
  also have "\<dots> = replicate m 0" using assms(1) i by (simp add: zeros_from_def)
  finally show ?thesis using assms(1) i by (simp add: zeros_from_def pr_read_bytes_at)
qed

lemma from_bytes_zeros [simp]: "from_bytes_en en (replicate n 0) = 0"
proof -
  have "be_nat (replicate n 0) = 0" by (induction n) simp_all
  then show ?thesis by (simp add: from_bytes_en_def split: endian.split)
qed

lemma read_zero:
  assumes "zeros_from a n bs" and "a \<le> k"
  shows "k + 2 \<le> a + n \<Longrightarrow> pr_read_u16 (pr_at k bs) = Inr (0, pr_at (k + 2) bs)"
    and "k + 4 \<le> a + n \<Longrightarrow> pr_read_u32 (pr_at k bs) = Inr (0, pr_at (k + 4) bs)"
    and "k + 8 \<le> a + n \<Longrightarrow> pr_read_filetime (pr_at k bs) = Inr (0, pr_at (k + 8) bs)"
    and "k + 8 \<le> a + n \<Longrightarrow> rud_read (pr_at k bs) = Inr (\<lparr>rud_length = 0, rud_maximum_length = 0, rud_referent_id = 0\<rparr>, pr_at (k + 8) bs)"
proof -
  note part = zeros_from_part [OF assms(1)]
  have sums: "k + 2 + 2 = k + 4" "k + 4 + 4 = k + 8" by simp_all
  show "k + 2 \<le> a + n \<Longrightarrow> pr_read_u16 (pr_at k bs) = Inr (0, pr_at (k + 2) bs)"
    using part [OF assms(2), of 2] by (simp add: pr_read_u16_def pbind_def pret_def)
  show "k + 4 \<le> a + n \<Longrightarrow> pr_read_u32 (pr_at k bs) = Inr (0, pr_at (k + 4) bs)"
    using part [OF assms(2), of 4] by (simp add: pr_read_u32_def pbind_def pret_def)
  show "k + 8 \<le> a + n \<Longrightarrow> pr_read_filetime (pr_at k bs) = Inr (0, pr_at (k + 8) bs)"
    using part [OF assms(2), of 8] by (simp add: pr_read_filetime_def pr_read_u64_def pbind_def pret_def)
  show "k + 8 \<le> a + n \<Longrightarrow> rud_read (pr_at k bs) = Inr (\<lparr>rud_length = 0, rud_maximum_length = 0, rud_referent_id = 0\<rparr>, pr_at (k + 8) bs)"
    using part [OF assms(2), of 2] part [of "k + 2" 2, unfolded sums] part [of "k + 4" 4, unfolded sums] assms(2)
    by (simp add: rud_read_def pr_read_u16_def pr_read_u32_def pbind_def pret_def del: add_2_eq_Suc add_2_eq_Suc')
qed

text \<open>The smallest logon information: the header and 216 zero bytes.\<close>

definition kvi_header :: bytes where
  "kvi_header = [1, 0x10, 8, 0, 0xcc, 0xcc, 0xcc, 0xcc, 0, 0, 0, 0, 0, 0, 0, 0, 4, 0, 2, 0]"

definition null_string :: rpc_unicode_string where
  "null_string = \<lparr>rus_length = 0, rus_maximum_length = 0, rus_value = []\<rparr>"

definition null_kvi :: kerb_validation_info where
  "null_kvi = \<lparr>kvi_logon_time = 0, kvi_logoff_time = 0, kvi_kickoff_time = 0,
     kvi_password_last_set = 0, kvi_password_can_change = 0, kvi_password_must_change = 0,
     kvi_effective_name = null_string, kvi_full_name = null_string, kvi_logon_script = null_string,
     kvi_profile_path = null_string, kvi_home_directory = null_string, kvi_home_directory_drive = null_string,
     kvi_logon_count = 0, kvi_bad_password_count = 0, kvi_user_id = 0, kvi_primary_group_id = 0,
     kvi_group_count = 0, kvi_group_ids = [], kvi_user_flags = 0, kvi_user_session_key = replicate 16 0,
     kvi_logon_server = null_string, kvi_logon_domain_name = null_string, kvi_logon_domain_id = None,
     kvi_reserved1 = (0, 0), kvi_user_account_control = 0, kvi_sub_auth_status = 0,
     kvi_last_successful_ilogon = 0, kvi_last_failed_ilogon = 0, kvi_failed_ilogon_count = 0, kvi_reserved3 = 0,
     kvi_sid_count = 0, kvi_extra_sids = [], kvi_resource_group_domain_sid = None,
     kvi_resource_group_count = 0, kvi_resource_group_ids = []\<rparr>"

lemma read_kvi_header:
  assumes "length bs = 216"
  shows "read_ndr_wrapper t (pr_at 0 (kvi_header @ bs)) = Inr ((), pr_at 20 (kvi_header @ bs))"
  using assms
  by (simp add: read_ndr_wrapper_def read_ndr_header_def pbind_def pret_def pr_read_u8_def pr_read_u32_def pr_read_bytes_at
      kvi_header_def from_bytes_en_def)

lemma kvi_zero_parse: "kerb_validation_info_parse (kvi_header @ replicate 216 0) = Inr null_kvi"
proof -
  define bs where "bs = kvi_header @ replicate 216 0"
  have lh: "length kvi_header = 20" by (simp add: kvi_header_def)
  then have z: "zeros_from 20 216 bs" and lb: "length bs = 236" by (simp_all add: zeros_from_def bs_def)
  have w: "read_ndr_wrapper t (pr_at 0 bs) = Inr ((), pr_at 20 bs)" for t
    unfolding bs_def by (rule read_kvi_header) simp
  have key: "pr_read_bytes 16 (pr_at k bs) = Inr (replicate 16 0, pr_at (k + 16) bs)" if "20 \<le> k" "k + 16 \<le> 236" for k
    using zeros_from_part [OF z that(1), of 16] that by simp
  note zeros = read_zero [OF z]
  show ?thesis
    unfolding kerb_validation_info_parse_def pr_new_at kerb_validation_info_read_def bs_def [symmetric] null_kvi_def null_string_def
    by (simp add: pbind_def w zeros key read_deferred_unicode_string_def pret_def read_deferred_group_memberships_def
        read_deferred_sid_def read_deferred_sid_and_attributes_def deferred_array_def kvi_end_def pr_align_at lb
        )
qed

text \<open>C31: whatever bytes a ticket carries, logon information is only accepted in good form: the announced length of every string is even
  and at most its maximum, and its text is UTF-8 that either is empty (for a null pointer, whatever length is announced) or decodes
  exactly half as many UTF-16 units as the length announces, which stand in the buffer; the group and identifier lists have exactly the
  announced lengths and at most a million elements; every security identifier has revision 1, a six-byte authority and at most fifteen
  sub-authorities, and stands in the buffer as these, preceded by their count; the session key has sixteen bytes; and the parser never
  leaves its buffer.\<close>

theorem kerb_validation_info_wf:
  assumes "kerb_validation_info_parse bs = Inr i"
  shows "kvi_ok bs i \<and> (\<exists>n. kerb_validation_info_read (pr_new bs) = Inr (i, \<lparr>pr_bytes = bs, pr_offset = n\<rparr>) \<and> n \<le> length bs)"
proof -
  obtain r where r: "kerb_validation_info_read (pr_new bs) = Inr (i, r)"
    using assms by (auto simp: kerb_validation_info_parse_def rbind_eq_Inr)
  have b: "pr_bytes (pr_new bs) = bs" by (simp add: pr_new_def)
  note s = pspecD [OF pspec_kvi pr_ok_new b r]
  have "r = \<lparr>pr_bytes = bs, pr_offset = pr_offset r\<rparr>" using s(2) by simp
  moreover have "pr_offset r \<le> length bs" using s(2,4) by (simp add: pr_ok_def)
  ultimately show ?thesis using r s(1) by metis
qed

theorem kerb_validation_info_wf_witness:
  "kvi_ok (kvi_header @ replicate 216 0) null_kvi \<and> (\<exists>n. kerb_validation_info_read (pr_new (kvi_header @ replicate 216 0))
      = Inr (null_kvi, \<lparr>pr_bytes = kvi_header @ replicate 216 0, pr_offset = n\<rparr>) \<and> n \<le> length (kvi_header @ replicate 216 (0 :: u8)))"
  using kerb_validation_info_wf [OF kvi_zero_parse] .

section \<open>A certificate\<close>

definition sample_pac_table :: bytes where
  "sample_pac_table =
     [4, 0, 0, 0, 0, 0, 0, 0,
      1, 0, 0, 0, 236, 0, 0, 0, 72, 0, 0, 0, 0, 0, 0, 0,
      10, 0, 0, 0, 10, 0, 0, 0, 0x38, 1, 0, 0, 0, 0, 0, 0,
      6, 0, 0, 0, 20, 0, 0, 0, 0x48, 1, 0, 0, 0, 0, 0, 0,
      7, 0, 0, 0, 20, 0, 0, 0, 0x60, 1, 0, 0, 0, 0, 0, 0]"

definition sample_sig :: "u8 \<Rightarrow> bytes" where
  "sample_sig b = [19, 0, 0, 0] @ replicate 16 b"

definition sample_pac :: bytes where
  "sample_pac = sample_pac_table @ (kvi_header @ replicate 216 0) @ replicate 4 0 @ replicate 16 0
     @ sample_sig 7 @ replicate 4 0 @ sample_sig 9"

definition sample_buffers :: "info_buffer list" where
  "sample_buffers = [\<lparr>ib_ul_type = 1, ib_cb_buffer_size = 236, ib_offset = 72\<rparr>,
     \<lparr>ib_ul_type = 10, ib_cb_buffer_size = 10, ib_offset = 312\<rparr>,
     \<lparr>ib_ul_type = 6, ib_cb_buffer_size = 20, ib_offset = 328\<rparr>,
     \<lparr>ib_ul_type = 7, ib_cb_buffer_size = 20, ib_offset = 352\<rparr>]"

lemma sample_lengths: "length sample_pac_table = 72" "length kvi_header = 20" "length (sample_sig b) = 20" "length sample_pac = 372"
  by (simp_all add: sample_pac_table_def kvi_header_def sample_sig_def sample_pac_def)

lemma pr_many_numeral:
  "pr_many (numeral k) m = pbind m (\<lambda>x. pbind (pr_many (pred_numeral k) m) (\<lambda>xs. pret (x # xs)))"
  by (subst numeral_eq_Suc) (simp only: pr_many.simps)

lemma sample_ib_read:
  "pr_many 4 ib_read (pr_at 8 sample_pac) = Inr (sample_buffers, pr_at 72 sample_pac)"
proof -
  have at: "take n (drop k sample_pac) = take n (drop k sample_pac_table)" if "k + n \<le> 72" for k n
    using that by (simp add: sample_pac_def sample_lengths)
  have rd: "pr_read_bytes n (pr_at k sample_pac) = Inr (take n (drop k sample_pac_table), pr_at (k + n) sample_pac)" if "k + n \<le> 72" for k n
    using that by (subst pr_read_bytes_at) (simp_all add: sample_lengths at)
  show ?thesis
    by (simp add: pr_many_numeral ib_read_def pr_read_u32_def pr_read_u64_def pbind_def pret_def rd from_bytes_en_def sample_pac_table_def
        sample_buffers_def)
qed

definition sample_parsed :: pac where
  "sample_parsed =
     \<lparr>pac_c_buffers = 4, pac_version = 0, pac_buffers = sample_buffers, pac_data = sample_pac,
      pac_zero_signature_data = sample_pac, pac_kerb_validation_info = None, pac_server_checksum = None,
      pac_kdc_checksum = None, pac_credentials_info = None, pac_client_info = None, pac_upn_dns_info = None,
      pac_s4u_delegation_info = None, pac_device_info = None, pac_client_claims_info = None, pac_device_claims_info = None\<rparr>"

lemma sample_pac_parse: "pac_parse sample_pac = Inr sample_parsed"
proof -
  have "take 4 sample_pac = [4, 0, 0, 0]" "take 4 (drop 4 sample_pac) = [0, 0, 0, 0]"
    by (simp_all add: sample_pac_def sample_pac_table_def)
  then have "pr_read_u32 (pr_at 0 sample_pac) = Inr (4, pr_at 4 sample_pac)" "pr_read_u32 (pr_at 4 sample_pac) = Inr (0, pr_at 8 sample_pac)"
    by (simp_all add: pr_read_u32_def pbind_def pr_read_bytes_at sample_lengths pret_def from_bytes_en_def)
  moreover have "ib_validate_all sample_buffers 372 = Inr ()"
    by (simp add: sample_buffers_def ib_validate_def usize_checked_add_def)
  ultimately show ?thesis
    by (simp add: pac_parse_def pr_new_at pbind_def sample_ib_read pret_def sample_lengths sample_parsed_def)
qed

lemma sample_slices:
  "slice sample_pac 72 308 = kvi_header @ replicate 216 0" "slice sample_pac 312 322 = replicate 10 0"
  "slice sample_pac 328 348 = sample_sig 7" "slice sample_pac 352 372 = sample_sig 9"
  by (simp_all add: slice_def sample_pac_def sample_lengths del: replicate.simps) 

lemma sample_sig_parse:
  "signature_data_parse (sample_sig b) = Inr \<lparr>sd_signature_type = 19, sd_signature = replicate 16 b, sd_rodc_identifier = None,
     sd_zeroed_data = [19, 0, 0, 0] @ replicate 16 0\<rparr>"
proof -
  have "pr_read_u32 (pr_at 0 (sample_sig b)) = Inr (19, pr_at 4 (sample_sig b))"
    by (simp add: pr_read_u32_def pbind_def pr_read_bytes_at sample_lengths pret_def from_bytes_en_def) (simp add: sample_sig_def)
  moreover have "pr_read_bytes 16 (pr_at 4 (sample_sig b)) = Inr (replicate 16 b, pr_at 20 (sample_sig b))"
    by (simp add: pr_read_bytes_at sample_lengths) (simp add: sample_sig_def)
  ultimately show ?thesis
    by (simp add: signature_data_parse_def pr_new_at pbind_def checksum_signature_len_def sample_lengths pret_def)
      (simp add: sample_sig_def)
qed

lemma client_zero_parse: "client_info_parse (replicate 10 0) = Inr \<lparr>ci_client_id = 0, ci_name_length = 0, ci_name = []\<rparr>"
proof -
  have z: "zeros_from 0 10 (replicate 10 0)" by (simp add: zeros_from_def)
  show ?thesis
    using read_zero(3) [OF z, of 0] read_zero(1) [OF z, of 8] zeros_from_part [OF z, of 10 0]
    by (simp add: client_info_parse_def pr_new_at pbind_def pret_def utf16le_bytes_to_string_def)
qed

lemma sample_pac_process:
  "\<exists>p. pac_parse_and_process Z sample_pac = Inr p \<and> pac_kerb_validation_info p \<noteq> None \<and> pac_client_info p \<noteq> None
     \<and> pac_kdc_checksum p \<noteq> None \<and> pac_server_checksum p = Some \<lparr>sd_signature_type = 19, sd_signature = replicate 16 7,
         sd_rodc_identifier = None, sd_zeroed_data = [19, 0, 0, 0] @ replicate 16 0\<rparr>"
proof -
  have slices: "ib_slice \<lparr>ib_ul_type = 1, ib_cb_buffer_size = 236, ib_offset = 72\<rparr> sample_pac = Inr (kvi_header @ replicate 216 0)"
    "ib_slice \<lparr>ib_ul_type = 10, ib_cb_buffer_size = 10, ib_offset = 312\<rparr> sample_pac = Inr (replicate 10 0)"
    "ib_slice \<lparr>ib_ul_type = 6, ib_cb_buffer_size = 20, ib_offset = 328\<rparr> sample_pac = Inr (sample_sig 7)"
    "ib_slice \<lparr>ib_ul_type = 7, ib_cb_buffer_size = 20, ib_offset = 352\<rparr> sample_pac = Inr (sample_sig 9)"
    by (simp_all add: ib_slice_def ib_validate_def usize_checked_add_def sample_lengths sample_slices)
  show ?thesis
    by (simp add: pac_parse_and_process_def sample_pac_parse pac_process_buffers_def sample_parsed_def sample_buffers_def
        pac_process_buffer_def slices kvi_zero_parse client_zero_parse sample_sig_parse ib_copy_zeroed_signature_def
        usize_checked_add_def sample_lengths)
qed

definition no_claims :: claims_codec where
  "no_claims = \<lparr>cz_lznt1 = \<lambda>bs n. None, cz_xpress = \<lambda>bs n. None, cz_xpress_huffman = \<lambda>bs n. None\<rparr>"

definition sample_key :: kt_key where
  "sample_key = \<lparr>kt_etype = 19, kt_value = replicate 16 7\<rparr>"

lemma sample_hmac: "hmac_sha256 sample_prims (replicate 16 7) x = fit 32 (replicate 16 7 @ x)"
  by (simp add: hmac_sha256_def sample_prims_def)

lemma sample_checksum: "ket_verify_checksum sample_prims (Sha2 Aes128Sha2) (replicate 16 7) x (replicate 16 7) 17"
proof -
  have "take 16 (fit 32 (replicate 16 7 @ x)) = replicate 16 7" for x by (simp add: fit_def)
  then show ?thesis
    by (simp add: aes2_verify_checksum_def aes2_checksum_def aes2_derive_key_def aes2_validate_protocol_key_def
        aes2_kdf_hmac_sha2_def aes2_truncated_hmac_def sample_hmac usage_constant_def check_key_len_def
        is_ok_and_def Let_def)
qed

lemma sample_pac_verify:
  assumes "pac_parse_and_process Z sample_pac = Inr p"
  shows "pac_verify sample_prims p sample_key = Inr ()"
  using sample_pac_process [of Z] assms sample_checksum
  by (simp add: pac_verify_def require_service_buffers_def verify_server_checksum_def kerberos_etype_for_checksum_type_def
      i32_try_from_u32_def ket_from_checksum_type_id_def sample_key_def)

theorem pac_verify_covers_witness:
  "\<exists>p sb kb ssig ksig et z. pac_parse_and_process no_claims sample_pac = Inr p
    \<and> pac_buffer p 6 = Some sb \<and> pac_buffer p 7 = Some kb
    \<and> rbind (pac_buffer_bytes p sb) signature_data_parse = Inr ssig \<and> rbind (pac_buffer_bytes p kb) signature_data_parse = Inr ksig
    \<and> ket_verify_checksum sample_prims et (kt_value sample_key) z (sd_signature ssig) 17 \<and> length z = length sample_pac
    \<and> (\<forall>i < length sample_pac. z ! i \<noteq> sample_pac ! i \<longrightarrow> z ! i = 0 \<and> i \<in> sig_field sb ssig \<union> sig_field kb ksig)"
proof -
  obtain p where p: "pac_parse_and_process no_claims sample_pac = Inr p" using sample_pac_process by blast
  show ?thesis using pac_verify_covers [OF p sample_pac_verify [OF p]] p by blast
qed

section \<open>The RC4 checksum type\<close>

text \<open>A certificate signed with the HMAC-MD5 checksum is parsed but can never be verified.  Its
  type \<open>0xffffff76\<close> is the unsigned image of \<open>-138\<close>, which the encryption types know as RC4, but
  the conversion from \<open>u32\<close> to \<open>i32\<close> refuses it, so that verification fails with \<open>UnsupportedChecksumType\<close>
  for every key, an RC4 key with the right checksum included.\<close>

lemma pac_rc4_never_verifies:
  "ket_from_checksum_type_id 0xffffff76 = Some Rc4Hmac
   \<and> (\<forall>sig. length sig = 16 \<longrightarrow> is_ok (signature_data_parse ([0x76, 0xff, 0xff, 0xff] @ sig)))
   \<and> (\<forall>P p key sd. pac_server_checksum p = Some sd \<and> sd_signature_type sd = 0xffffff76 \<longrightarrow>
        verify_server_checksum P p key = Inl (UnsupportedChecksumType 0xffffff76) \<and> \<not> is_ok (pac_verify P p key))"
proof (intro conjI allI impI)
  show "ket_from_checksum_type_id 0xffffff76 = Some Rc4Hmac"
    by (simp add: ket_from_checksum_type_id_def rc4_from_checksum_type_id_def)
  show "is_ok (signature_data_parse ([0x76, 0xff, 0xff, 0xff] @ sig))" if "length sig = 16" for sig
  proof -
    define bs where "bs = [0x76, 0xff, 0xff, 0xff] @ sig"
    have "pr_read_u32 (pr_at 0 bs) = Inr (0xffffff76, pr_at 4 bs)"
      using that by (simp add: pr_read_u32_def pbind_def pr_read_bytes_at pret_def from_bytes_en_def bs_def)
    moreover have "pr_read_bytes 16 (pr_at 4 bs) = Inr (sig, pr_at 20 bs)"
      using that by (simp add: pr_read_bytes_at bs_def)
    moreover have "length bs = 20" using that by (simp add: bs_def)
    ultimately show ?thesis
      unfolding bs_def [symmetric]
      by (simp add: signature_data_parse_def pr_new_at pbind_def checksum_signature_len_def pret_def)
  qed
  fix P and p :: pac and key sd
  assume "pac_server_checksum p = Some sd \<and> sd_signature_type sd = 0xffffff76"
  then show v: "verify_server_checksum P p key = Inl (UnsupportedChecksumType 0xffffff76)"
    by (simp add: verify_server_checksum_def kerberos_etype_for_checksum_type_def i32_try_from_u32_def)
  show "\<not> is_ok (pac_verify P p key)"
    by (cases "require_service_buffers p") (simp_all add: pac_verify_def v)
qed

lemma pac_rc4_never_verifies_witness:
  "is_ok (signature_data_parse ([0x76, 0xff, 0xff, 0xff] @ replicate 16 1))
   \<and> verify_server_checksum sample_prims (sample_parsed\<lparr>pac_server_checksum := Some \<lparr>sd_signature_type = 0xffffff76,
        sd_signature = replicate 16 1, sd_rodc_identifier = None, sd_zeroed_data = []\<rparr>\<rparr>) sample_key
      = Inl (UnsupportedChecksumType 0xffffff76)"
  using pac_rc4_never_verifies by simp

section \<open>The search in authorization data\<close>

lemma find_pac_fuel:
  assumes "ad_decoder_shrinks dec" and "ad_size es < n" and "n \<le> m"
  shows "find_pac_loop dec Z n es \<noteq> NestingExhausted \<and> find_pac_loop dec Z m es = find_pac_loop dec Z n es"
  using assms
proof (induction dec Z n es arbitrary: m rule: find_pac_loop.induct)
  case (2 dec Z n e es)
  obtain n' where n: "n = Suc n'" using "2.prems"(2) by (cases n) auto
  obtain m' where m: "m = Suc m'" "n' \<le> m'" using "2.prems"(3) n by (cases m) auto
  have es: "ad_size es < n" using "2.prems"(2) by (simp add: ad_size_def)
  show ?case
  proof (cases "ad_type e = 128 \<or> ad_type e \<noteq> 1 \<or> dec (ad_data e) = None")
    case True
    then show ?thesis
      using "2.IH"(3) [OF _ _ "2.prems"(1) es "2.prems"(3)] by (auto split: sum.splits)
  next
    case False
    then obtain nested where d: "ad_type e = 1" "ad_type e \<noteq> 128" "dec (ad_data e) = Some nested" by auto
    have "find_pac_loop dec Z n' nested \<noteq> NestingExhausted \<and> find_pac_loop dec Z m' nested = find_pac_loop dec Z n' nested"
    proof (cases "nested = []")
      case nonempty: False
      then have "ad_size nested < length (ad_data e)"
        using "2.prems"(1) d(3) by (auto simp: ad_decoder_shrinks_def)
      also have "\<dots> \<le> ad_size (e # es)" by (simp add: ad_size_def)
      finally have "ad_size nested < n'" using "2.prems"(2) n by linarith
      then show ?thesis using "2.IH"(1) [OF d(2,1,3) n "2.prems"(1) _ m(2)] by simp
    qed simp
    moreover have "find_pac_loop dec Z n es \<noteq> NestingExhausted \<and> find_pac_loop dec Z m es = find_pac_loop dec Z n es"
      if "find_pac_loop dec Z n' nested = PacAbsent"
      using "2.IH"(2) [OF d(2,1,3) n that "2.prems"(1) es "2.prems"(3)] .
    moreover have "find_pac_loop dec Z (Suc k) (e # es) =
        (case find_pac_loop dec Z k nested of PacAbsent \<Rightarrow> find_pac_loop dec Z (Suc k) es | found \<Rightarrow> found)" for k
      using d by simp
    ultimately show ?thesis
      unfolding n m(1) by (cases "find_pac_loop dec Z n' nested") (simp_all del: find_pac_loop.simps)
  qed
qed simp

text \<open>C32: the search for a certificate in nested authorization data ends.  When the parts the DER
  decoder returns are shorter than its input, the fuel of the model is never exhausted and any larger
  amount gives the same answer, so the recursion of the code terminates with that answer.\<close>

theorem find_pac_terminates:
  assumes "ad_decoder_shrinks (dec_authorization_data A)"
  shows "find_pac_in_authorization_data A Z es \<noteq> NestingExhausted
    \<and> (\<forall>n > ad_size es. find_pac_loop (dec_authorization_data A) Z n es = find_pac_in_authorization_data A Z es)"
proof (intro conjI allI impI)
  show "find_pac_in_authorization_data A Z es \<noteq> NestingExhausted"
    unfolding find_pac_in_authorization_data_def by (rule conjunct1 [OF find_pac_fuel [OF assms]]) auto
  show "find_pac_loop (dec_authorization_data A) Z n es = find_pac_in_authorization_data A Z es" if "n > ad_size es" for n
    unfolding find_pac_in_authorization_data_def by (rule conjunct2 [OF find_pac_fuel [OF assms]]) (use that in auto)
qed

definition nested_asn1 :: asn1 where
  "nested_asn1 = \<lparr>dec_ticket = \<lambda>_. None, enc_ticket = \<lambda>_. None, dec_enc_ticket_part = \<lambda>_. None,
     enc_enc_ticket_part = \<lambda>_. None, dec_authenticator = \<lambda>_. None, enc_authenticator = \<lambda>_. None,
     dec_ap_req = \<lambda>_. None, enc_ap_req = \<lambda>_. None, dec_ap_rep = \<lambda>_. None, enc_ap_rep = \<lambda>_. None,
     dec_enc_ap_rep_part = \<lambda>_. None, enc_enc_ap_rep_part = \<lambda>_. None,
     dec_authorization_data = \<lambda>bs. case bs of [] \<Rightarrow> None | b # r \<Rightarrow> Some [\<lparr>ad_type = ucast b, ad_data = r\<rparr>],
     from_timestamp = \<lambda>s n. None, general_string = \<lambda>_. True\<rparr>"

theorem find_pac_terminates_witness:
  "find_pac_in_authorization_data nested_asn1 no_claims [\<lparr>ad_type = 1, ad_data = [1, 1, 5]\<rparr>] \<noteq> NestingExhausted"
proof -
  have "ad_decoder_shrinks (dec_authorization_data nested_asn1)"
    by (auto simp: ad_decoder_shrinks_def nested_asn1_def ad_size_def split: list.splits)
  from conjunct1 [OF find_pac_terminates [OF this]] show ?thesis .
qed

end
