(* ===== verification/Exchange_Props.thy ===== *)
theory Exchange_Props
  imports Sec_Context Pac_Props
begin

text \<open>
  The exchange of a client and an acceptor as a whole: the client's context, the header, the acceptor's
  checks, its answer and the client's verification of the answer, composed from the lemmas of the
  components; the properties of the acceptor over runs; and two requests it accepts that it should not.
\<close>

section \<open>Delivery of the two headers\<close>

lemma ap_req_header_delivered:
  assumes B: "b64_ok B" and msg: "msg \<noteq> []" "length msg < 2 ^ 63"
    and tok: "krb5_mech_token_encode (krb5_mech_token_new ApReq msg) = Inr tok"
    and h: "negotiate_header B (SpnegoInit (neg_token_init_krb5 tok)) = Inr h"
  shows "rbind (parse_negotiate_header B h) spnego_krb5_ap_req = Inr msg"
proof -
  have lt: "length tok \<le> length msg + 30" using krb5_token_built [OF msg(1), of ApReq] tok by auto
  obtain bs where bs: "spnego_token_encode (SpnegoInit (neg_token_init_krb5 tok)) = Inr bs" "length bs \<le> length tok + 200"
    using spnego_init_built .
  have len: "length tok < 2 ^ 64" "length bs < 2 ^ 64" using lt bs(2) msg(2) by simp_all
  have k: "krb5_mech_token_decode tok = Inr (krb5_mech_token_new ApReq msg)"
    using krb5_mech_token_decode_encoded [OF _ tok len(1)] by (simp add: krb5_mech_token_new_def)
  have d: "spnego_token_decode bs = Inr (SpnegoInit (neg_token_init_krb5 tok))"
    by (rule spnego_token_decode_encoded [OF _ bs(1) len(2)]) (simp add: neg_token_init_krb5_def)
  then have "bs \<noteq> []" by (auto simp: spnego_token_decode_def)
  moreover have "spnego_krb5_ap_req (SpnegoInit (neg_token_init_krb5 tok)) = Inr msg"
    using k by (simp add: neg_token_init_krb5_ap_req_def neg_token_init_krb5_def ensure_kerberos_mechanism_def
        is_kerberos_mechanism_def krb5_mech_token_new_def)
  moreover have "h = ''Negotiate '' @ b64_encode B bs" using h bs(1) by (simp add: negotiate_header_def)
  ultimately show ?thesis using parse_negotiate_header_encoded [OF B, of bs] d by simp
qed

lemma spnego_resp_built:
  obtains bs where "neg_token_resp_encode (neg_resp_with_response_token neg_resp_accept_completed tok) = Inr bs"
    and "length bs \<le> length tok + 200"
proof -
  let ?o = "encode_tlv 0x06 (oid_value oid_krb5)"
  define f0 where "f0 = encode_tlv 0xa0 (encode_tlv 0x0a (encode_u32 (neg_state_value AcceptCompleted)))"
  define f1 where "f1 = encode_tlv 0xa1 ?o"
  define f2 where "f2 = encode_tlv 0xa2 (encode_tlv 0x04 tok)"
  have "length (encode_u32 (neg_state_value AcceptCompleted)) \<le> 5" by (simp add: encode_u32_def to_bytes_en_def)
  then have "length f0 \<le> 25"
    using length_encode_tlv_le [of "0xa0" "encode_tlv 0x0a (encode_u32 (neg_state_value AcceptCompleted))"]
      length_encode_tlv_le [of "0x0a" "encode_u32 (neg_state_value AcceptCompleted)"] by (simp add: f0_def)
  moreover have "length f1 \<le> 21"
    using length_encode_tlv_le [of "0xa1" ?o] by (simp add: f1_def oid_krb5_encoded)
  moreover have "length f2 \<le> length tok + 20"
    using length_encode_tlv_le [of "0xa2" "encode_tlv 0x04 tok"] length_encode_tlv_le [of "0x04" tok] by (simp add: f2_def)
  ultimately have "length (encode_tlv 0xa1 (encode_tlv 0x30 (f0 @ f1 @ f2))) \<le> length tok + 200"
    using length_encode_tlv_le [of "0xa1" "encode_tlv 0x30 (f0 @ f1 @ f2)"] length_encode_tlv_le [of "0x30" "f0 @ f1 @ f2"] by simp
  moreover have "neg_token_resp_encode (neg_resp_with_response_token neg_resp_accept_completed tok)
      = Inr (encode_tlv 0xa1 (encode_tlv 0x30 (f0 @ f1 @ f2)))"
    by (simp add: neg_token_resp_encode_def neg_resp_with_response_token_def neg_resp_accept_completed_def encode_oid_plain
        opt_field_def encode_explicit_def f0_def f1_def f2_def)
  ultimately show ?thesis using that by blast
qed

lemma ap_rep_header_delivered:
  assumes B: "b64_ok B" and msg: "msg \<noteq> []" "length msg < 2 ^ 63"
  obtains tok h where "krb5_mech_token_encode (krb5_mech_token_new ApRep msg) = Inr tok"
    and "response_token_header B (neg_resp_with_response_token neg_resp_accept_completed tok) = Inr h"
    and "parse_negotiate_header B h = Inr (SpnegoResp (neg_resp_with_response_token neg_resp_accept_completed tok))"
    and "krb5_mech_token_decode tok = Inr (krb5_mech_token_new ApRep msg)"
proof -
  obtain tok where tok: "krb5_mech_token_encode (krb5_mech_token_new ApRep msg) = Inr tok" "length tok \<le> length msg + 30"
    using krb5_token_built [OF msg(1)] .
  let ?r = "neg_resp_with_response_token neg_resp_accept_completed tok"
  obtain bs where bs: "neg_token_resp_encode ?r = Inr bs" "length bs \<le> length tok + 200"
    using spnego_resp_built .
  have len: "length tok < 2 ^ 64" "length bs < 2 ^ 64" using tok(2) bs(2) msg(2) by simp_all
  have d: "spnego_token_decode bs = Inr (SpnegoResp ?r)"
  proof (rule spnego_token_decode_encoded [OF _ _ len(2)])
    show "spnego_plain (SpnegoResp ?r)" by (simp add: neg_resp_with_response_token_def neg_resp_accept_completed_def)
    show "spnego_token_encode (SpnegoResp ?r) = Inr bs" by (simp add: bs(1))
  qed
  then have "bs \<noteq> []" by (auto simp: spnego_token_decode_def)
  then have "parse_negotiate_header B (''Negotiate '' @ b64_encode B bs) = Inr (SpnegoResp ?r)"
    using parse_negotiate_header_encoded [OF B, of bs] d by simp
  moreover have "krb5_mech_token_decode tok = Inr (krb5_mech_token_new ApRep msg)"
    using krb5_mech_token_decode_encoded [OF _ tok(1) len(1)] by (simp add: krb5_mech_token_new_def)
  ultimately show ?thesis using that [OF tok(1)] bs(1) by (simp add: response_token_header_def)
qed

section \<open>What the client puts into the request\<close>

definition principal_text :: "principal \<Rightarrow> bool" where
  "principal_text p \<longleftrightarrow> utf8_valid (str_bytes (p_realm p)) \<and> list_all (\<lambda>s. utf8_valid (str_bytes s)) (p_components p)"

lemma kerberos_strings_sent:
  "list_all (\<lambda>s. utf8_valid (str_bytes s)) ss \<Longrightarrow> kerberos_string_list A ss = Inr bs \<Longrightarrow> kerberos_strings bs = Inr ss"
proof (induction ss arbitrary: bs)
  case (Cons s ss)
  then show ?case
    by (auto simp: rbind_eq_Inr kerberos_string_def kerberos_string_to_string_def split: if_splits)
qed simp

lemma principal_sent:
  assumes "principal_text p" and "kerberos_string A (p_realm p) = Inr r" and "principal_to_rasn A p = Inr n"
  shows "principal_from_parts r n = Inr p"
  using assms kerberos_strings_sent [of "p_components p" A]
  by (auto simp: principal_text_def kerberos_string_def kerberos_string_to_string_def principal_to_rasn_def principal_from_parts_def
      rbind_eq_Inr split: if_splits)

text \<open>The initiator's clock reading is split into whole seconds and microseconds.\<close>

lemma current_time_whole:
  assumes "current_time now = Inr (ts, cusec)"
  obtains n where "ts = int n * NANOS"
  using assms that by (auto simp: current_time_def rbind_eq_Inr from_secs_def NANOS_def)

lemma unix_timestamp_parts_whole:
  assumes "unix_timestamp_parts (int n * NANOS) = Inr (s, nanos)"
  shows "s = int n \<and> nanos = 0 \<and> n < 2 ^ 63"
proof -
  have "nat (int n * NANOS) = n * 1000000000" by (simp add: NANOS_def nat_mult_distrib)
  then show ?thesis using assms by (auto simp: unix_timestamp_parts_def duration_since_def NANOS_def split: if_splits)
qed

lemma client_time_delivered:
  assumes "asn1_ok A" and "client_kerberos_time A (int n * NANOS) = Inr t"
  shows "whole_seconds t \<and> kt_seconds t = int n \<and> system_time_from_kerberos_time t = Inr (int n * NANOS)
    \<and> kerberos_time_from_system_time A (int n * NANOS) = Inr t"
proof -
  obtain s nanos where p: "unix_timestamp_parts (int n * NANOS) = Inr (s, nanos)" and f: "from_timestamp A s 0 = Some t"
    using assms(2) by (auto simp: client_kerberos_time_def rbind_eq_Inr map_err_eq_Inr ok_or_eq_Inr)
  note w = unix_timestamp_parts_whole [OF p]
  have t: "kt_seconds t = int n" "kt_subsec_nanos t = 0" using asn1_okD(7) [OF assms(1) f] w by simp_all
  have "system_time_in_range (int n * NANOS)" using w by (simp add: system_time_in_range_def NANOS_def)
  then show ?thesis
    using t w p f by (simp add: whole_seconds_def system_time_from_kerberos_time_whole kerberos_time_from_system_time_def NANOS_def)
qed

text \<open>What a successful initiation leaves in the context and in the request that it sends.\<close>

definition carries_request ::
  "asn1 \<Rightarrow> crypto_prims \<Rightarrow> base64 \<Rightarrow> rep_session \<Rightarrow> initiator_options \<Rightarrow> initiator_context \<Rightarrow> ticket \<Rightarrow> ap_req \<Rightarrow> authenticator \<Rightarrow> bool" where
  "carries_request A P B st opts ctx t m auth \<longleftrightarrow>
     decode_ticket A (rs_ticket st) = Inr t \<and> ic_session_key ctx = rs_session_key st
   \<and> decode_ap_req A (ic_ap_req_der ctx) = Inr m \<and> ic_ap_req_der ctx \<noteq> [] \<and> ar_ticket m = t
   \<and> decrypt_ap_req_authenticator A P m (rs_session_key st) (authenticator_usage_for_ticket t) = Inr auth
   \<and> principal_from_parts (au_crealm auth) (au_cname auth) = Inr (rs_client st)
   \<and> au_cusec auth = uint (ic_authenticator_cusec ctx) \<and> whole_seconds (au_ctime auth)
   \<and> kt_seconds (au_ctime auth) = ic_authenticator_ctime ctx div NANOS
   \<and> system_time_from_kerberos_time (au_ctime auth) = Inr (ic_authenticator_ctime ctx)
   \<and> kerberos_time_from_system_time A (ic_authenticator_ctime ctx) = Inr (au_ctime auth)
   \<and> st_checked_add (ic_authenticator_ctime ctx) (from_micros (unat (ic_authenticator_cusec ctx))) = Some (ic_authenticator_time ctx)
   \<and> au_subkey auth = map_option encryption_key_to_rasn (io_subkey opts) \<and> au_seq_number auth = ic_sequence_number ctx
   \<and> (\<exists>tok. krb5_mech_token_encode (krb5_mech_token_new ApReq (ic_ap_req_der ctx)) = Inr tok
        \<and> negotiate_header B (SpnegoInit (neg_token_init_krb5 tok)) = Inr (ic_header ctx))"

lemma client_build_carries:
  assumes P: "prims_ok P" and A: "asn1_ok A" and k: "key_fits (rs_session_key st) e" and conf: "length conf = ket_confounder_len e"
    and utf8: "principal_text (rs_client st)"
    and built: "client_build_ap_req_with_confounder A P st ro (int n * NANOS) cusec conf = Inr b"
  obtains t auth where "decode_ticket A (rs_ticket st) = Inr t"
    and "decode_ap_req A (ba_der b) = Inr (ba_message b)" and "ba_der b \<noteq> []" and "ar_ticket (ba_message b) = t"
    and "decrypt_ap_req_authenticator A P (ba_message b) (rs_session_key st) (authenticator_usage_for_ticket t) = Inr auth"
    and "principal_from_parts (au_crealm auth) (au_cname auth) = Inr (rs_client st)"
    and "au_cusec auth = uint cusec" and "whole_seconds (au_ctime auth)" and "kt_seconds (au_ctime auth) = int n * NANOS div NANOS"
    and "system_time_from_kerberos_time (au_ctime auth) = Inr (int n * NANOS)"
    and "kerberos_time_from_system_time A (int n * NANOS) = Inr (au_ctime auth)"
    and "au_subkey auth = map_option encryption_key_to_rasn (arq_subkey ro)" and "au_seq_number auth = arq_sequence_number ro"
    and "st_checked_add (int n * NANOS) (from_micros (unat cusec)) = Some (ba_authenticator_time b)"
    and "ba_session_key b = rs_session_key st" and "ba_authenticator_ctime b = int n * NANOS" and "ba_authenticator_cusec b = cusec"
    and "ba_sequence_number b = arq_sequence_number ro" and "ba_subkey b = arq_subkey ro"
proof -
  obtain t crealm cname ctime m der time where t: "decode_ticket A (rs_ticket st) = Inr t"
    and name: "kerberos_string A (p_realm (rs_client st)) = Inr crealm" "principal_to_rasn A (rs_client st) = Inr cname"
    and ctime: "client_kerberos_time A (int n * NANOS) = Inr ctime"
    and m: "build_ap_req_with_confounder A P t (ap_options_from_bits (arq_ap_option_bits ro))
        \<lparr>au_vno = KRB5_PVNO, au_crealm = crealm, au_cname = cname, au_cksum = arq_checksum ro,
           au_cusec = uint cusec, au_ctime = ctime, au_subkey = map_option encryption_key_to_rasn (arq_subkey ro),
           au_seq_number = arq_sequence_number ro, au_authorization_data = None\<rparr>
        (rs_session_key st) (authenticator_usage_for_ticket t) (ed_kvno (tkt_enc_part t)) conf = Inr m" (is "build_ap_req_with_confounder _ _ _ _ ?auth _ _ _ _ = _")
    and der: "encode_ap_req A m = Inr der"
    and time: "st_checked_add (int n * NANOS) (from_micros (unat cusec)) = Some time"
    and b: "b = \<lparr>ba_message = m, ba_der = der, ba_client = rs_client st, ba_service = rs_service st,
            ba_session_key = rs_session_key st, ba_authenticator_ctime = int n * NANOS, ba_authenticator_cusec = cusec,
            ba_authenticator_time = time, ba_sequence_number = arq_sequence_number ro, ba_subkey = arq_subkey ro\<rparr>"
    using built unfolding client_build_ap_req_with_confounder_def Let_def
    by (auto simp: rbind_eq_Inr map_err_eq_Inr ok_or_eq_Inr)
  note ct = client_time_delivered [OF A ctime]
  note d = decrypt_built_ap_req [OF P A k conf _ m]
  have "enc_ap_req A m = Some der" using der by (simp add: encode_ap_req_def ok_or_eq_Inr)
  then have "decode_ap_req A der = Inr m \<and> der \<noteq> []"
    using asn1_okD(4) [OF A, of m der] d(3) ct by (simp add: decode_ap_req_def)
  moreover have "int n * NANOS div NANOS = int n" by (simp add: NANOS_def)
  ultimately show ?thesis
    using that [of t ?auth] t d(1,2) ct time principal_sent [OF utf8 name] by (simp add: b)
qed

lemma init_sec_context_carries:
  assumes P: "prims_ok P" and A: "asn1_ok A" and k: "key_fits (rs_session_key st) e" and utf8: "principal_text (rs_client st)"
    and fill: "\<And>n bs. fc n = Some bs \<Longrightarrow> length bs = n"
    and init: "init_sec_context A P B fs fc now st opts = Inr ctx"
  obtains t m auth where "carries_request A P B st opts ctx t m auth"
proof -
  obtain ts cusec opts' conf where now: "current_time now = Inr (ts, cusec)"
    and seq: "(if io_sequence_number opts = None
        then rbind (random_sequence_number fs) (\<lambda>n. Inr (opts\<lparr>io_sequence_number := Some n\<rparr>)) else Inr opts) = Inr opts'"
    and conf: "fc (ket_confounder_len e) = Some conf"
    and ctx: "init_sec_context_with_confounder A P B st opts' ts cusec conf = Inr ctx"
    using init k unfolding init_sec_context_def key_fits_def by (elim rbindE) (auto elim!: rbindE simp: ok_or_eq_Inr)
  have opts': "io_subkey opts' = io_subkey opts" using seq by (auto simp: rbind_eq_Inr split: if_split_asm)
  obtain n where ts: "ts = int n * NANOS" using current_time_whole [OF now] .
  let ?ro = "\<lparr>arq_ap_option_bits = io_ap_option_bits opts',
            arq_checksum = Some \<lparr>ck_type = GSSAPI_CHECKSUM_TYPE, ck_checksum = authenticator_checksum (io_context_flags opts')\<rparr>,
            arq_subkey = io_subkey opts', arq_sequence_number = io_sequence_number opts'\<rparr>"
  obtain b tok h where b: "client_build_ap_req_with_confounder A P st ?ro (int n * NANOS) cusec conf = Inr b"
    and tok: "krb5_mech_token_encode (krb5_mech_token_new ApReq (ba_der b)) = Inr tok"
    and h: "negotiate_header B (SpnegoInit (neg_token_init_krb5 tok)) = Inr h"
    and c: "ic_ap_req_der ctx = ba_der b" "ic_header ctx = h" "ic_session_key ctx = ba_session_key b"
      "ic_authenticator_ctime ctx = ba_authenticator_ctime b" "ic_authenticator_cusec ctx = ba_authenticator_cusec b"
      "ic_authenticator_time ctx = ba_authenticator_time b" "ic_sequence_number ctx = ba_sequence_number b"
    using ctx unfolding init_sec_context_with_confounder_def Let_def ts by (auto simp: rbind_eq_Inr map_err_eq_Inr)
  show ?thesis
    by (rule client_build_carries [OF P A k fill [OF conf] utf8 b], rule that)
      (use tok h opts' in \<open>auto simp: carries_request_def c\<close>)
qed

section \<open>Acceptance and the answer\<close>

text \<open>The session of the client holds a ticket for the service \<open>svc\<close>, sealed with the key of the service.\<close>

definition issued_ticket :: "asn1 \<Rightarrow> crypto_prims \<Rightarrow> rep_session \<Rightarrow> principal \<Rightarrow> kt_key \<Rightarrow> u32 option \<Rightarrow> enc_ticket_part \<Rightarrow> bool" where
  "issued_ticket A P st svc skey kvno part \<longleftrightarrow> (\<exists>es realm sname conf t tc.
     key_fits skey es \<and> length conf = ket_confounder_len es \<and> ticket_part_whole part
   \<and> build_ticket_with_confounder A P realm sname part skey kvno conf = Inr t \<and> encode_ticket A t = Inr (rs_ticket st)
   \<and> principal_from_parts realm sname = Inr svc \<and> et_key part = encryption_key_to_rasn (rs_session_key st)
   \<and> principal_from_parts (et_crealm part) (et_cname part) = Inr tc \<and> p_components tc = p_components (rs_client st))"

text \<open>The acceptor has the key, the ticket is in its time window and fits the peer address, and the
  authenticator's time is within the skew.\<close>

definition acceptor_ready ::
  "validator \<Rightarrow> system_time \<Rightarrow> system_time \<Rightarrow> principal \<Rightarrow> kt_key \<Rightarrow> u32 option \<Rightarrow> enc_ticket_part \<Rightarrow> system_time \<Rightarrow> bool" where
  "acceptor_ready v c1 c2 svc skey kvno part time \<longleftrightarrow>
     (\<exists>kv. find_key (sv_keytab v) (keytab_components v svc) (p_realm svc) (case kvno of Some k \<Rightarrow> k | None \<Rightarrow> 0) (kt_etype skey) = Inr (skey, kv))
   \<and> validate_ticket_times v c1 svc part = Inr () \<and> validate_client_address v svc part = Inr ()
   \<and> \<bar>validator_now v c2 - time\<bar> \<le> int (sv_max_clock_skew v)"

definition request_key :: "principal \<Rightarrow> initiator_context \<Rightarrow> principal \<Rightarrow> replay_key" where
  "request_key client ctx svc = \<lparr>rpk_service = svc, rpk_client = client,
     rpk_ctime_seconds = ic_authenticator_ctime ctx div NANOS, rpk_cusec = ic_authenticator_cusec ctx\<rparr>"

lemma key_rasn_inverse [simp]: "encryption_key_from_rasn (encryption_key_to_rasn k) = k"
  by (simp add: encryption_key_from_rasn_def encryption_key_to_rasn_def)

lemma key_rasn_inverse_option [simp]: "map_option encryption_key_from_rasn (map_option encryption_key_to_rasn k) = k"
  by (cases k) simp_all

lemma request_passes:
  assumes P: "prims_ok P" and A: "asn1_ok A"
    and req: "carries_request A P B st opts ctx t m auth"
    and issued: "issued_ticket A P st svc skey kvno part"
    and ready: "acceptor_ready v c1 c2 svc skey kvno part (ic_authenticator_time ctx)"
    and pac: "check_pac A P Z part skey = Inr pac"
  obtains c where "ap_req_ok A P Z v c1 c2 (ic_ap_req_der ctx) c" and "ck_key c = request_key (rs_client st) ctx svc"
    and "ck_service c = svc" and "ck_client c = rs_client st" and "ck_session_key c = rs_session_key st"
    and "ck_authenticator c = auth" and "ck_pac c = pac"
    and "ck_ctime c = ic_authenticator_ctime ctx" and "ck_cusec c = ic_authenticator_cusec ctx"
proof -
  obtain es realm sname conf u tc where key: "key_fits skey es" and conf: "length conf = ket_confounder_len es"
    and whole: "ticket_part_whole part" and u: "build_ticket_with_confounder A P realm sname part skey kvno conf = Inr u"
    and enc: "encode_ticket A u = Inr (rs_ticket st)" and svc: "principal_from_parts realm sname = Inr svc"
    and sk: "et_key part = encryption_key_to_rasn (rs_session_key st)"
    and tc: "principal_from_parts (et_crealm part) (et_cname part) = Inr tc" "p_components tc = p_components (rs_client st)"
    using issued unfolding issued_ticket_def by blast
  note d = decrypt_built_ticket [OF P A key conf whole u]
  have "dec_ticket A (rs_ticket st) = Some u" using asn1_okD(1) [OF A] enc by (simp add: encode_ticket_def ok_or_eq_Inr)
  then have t: "t = u" using req by (auto simp: carries_request_def decode_ticket_def rbind_eq_Inr)
  let ?c = "\<lparr>ck_key = request_key (rs_client st) ctx svc, ck_now = validator_now v c2, ck_ticket = part, ck_authenticator = auth,
     ck_service = svc, ck_client = rs_client st, ck_session_key = rs_session_key st, ck_ctime = ic_authenticator_ctime ctx,
     ck_cusec = ic_authenticator_cusec ctx, ck_time = ic_authenticator_time ctx, ck_pac = pac\<rparr>"
  obtain kv where kv: "find_key (sv_keytab v) (keytab_components v svc) (p_realm svc) (ticket_kvno u) (kt_etype skey) = Inr (skey, kv)"
    using ready d(2) by (auto simp: acceptor_ready_def ticket_kvno_def)
  have "validate_ticket_times v c1 svc part = Inr ()" using ready by (simp add: acceptor_ready_def)
  then have "ap_req_ok A P Z v c1 c2 (ic_ap_req_der ctx) ?c"
    using req ready d kv svc pac tc sk unfolding ap_req_ok_def validate_ticket_times_Inr
    by (auto simp: t carries_request_def acceptor_ready_def request_key_def)
  then show ?thesis by (rule that) simp_all
qed

lemma answer_verified:
  assumes P: "prims_ok P" and A: "asn1_ok A" and B: "b64_ok B" and k: "key_fits (rs_session_key st) e" and e: "e \<noteq> Des3CbcSha1Kd"
    and req: "carries_request A P B st opts ctx t m auth"
    and va: "va_session_key va = rs_session_key st" "va_authenticator_ctime va = ic_authenticator_ctime ctx"
      "va_authenticator_cusec va = ic_authenticator_cusec ctx"
    and conf: "length conf = ket_confounder_len e"
    and rep: "va_build_ap_rep_with_confounder A P va conf ro = Inr rep" "length rep < 2 ^ 63"
  shows "\<exists>h r. ap_rep_response_header_with_confounder A P B \<lparr>ac_ap_req = va\<rparr> conf ro = Inr h
    \<and> verify_ap_rep_response_header A P B ctx h = Inr r
    \<and> vr_ctime r = ic_authenticator_ctime ctx \<and> vr_cusec r = ic_authenticator_cusec ctx
    \<and> vr_subkey r = aro_subkey ro \<and> vr_sequence_number r = aro_sequence_number ro"
proof -
  let ?ep = "\<lparr>ep_ctime = au_ctime auth, ep_cusec = uint (ic_authenticator_cusec ctx),
     ep_subkey = map_option encryption_key_to_rasn (aro_subkey ro), ep_seq_number = aro_sequence_number ro\<rparr>"
  obtain n where n: "build_ap_rep_with_confounder A P ?ep (rs_session_key st) (aro_kvno ro) conf = Inr n"
    and enc: "enc_ap_rep A n = Some rep"
    using rep(1) req va
    by (auto simp: va_build_ap_rep_with_confounder_def carries_request_def rbind_eq_Inr map_err_eq_Inr encode_ap_rep_def ok_or_eq_Inr)
  have w: "whole_seconds (ep_ctime ?ep)" using req by (simp add: carries_request_def)
  note d = decrypt_built_ap_rep [OF P A k conf e w n]
  have dec: "decode_ap_rep A rep = Inr n" and ne: "rep \<noteq> []"
    using asn1_okD(5) [OF A enc] d(2) by (simp_all add: decode_ap_rep_def)
  obtain tok h where tok: "krb5_mech_token_encode (krb5_mech_token_new ApRep rep) = Inr tok"
    and h: "response_token_header B (neg_resp_with_response_token neg_resp_accept_completed tok) = Inr h"
    and p: "parse_negotiate_header B h = Inr (SpnegoResp (neg_resp_with_response_token neg_resp_accept_completed tok))"
    and kd: "krb5_mech_token_decode tok = Inr (krb5_mech_token_new ApRep rep)"
    using ap_rep_header_delivered [OF B ne rep(2)] .
  have "ic_session_key ctx = rs_session_key st" "system_time_from_kerberos_time (au_ctime auth) = Inr (ic_authenticator_ctime ctx)"
    "st_checked_add (ic_authenticator_ctime ctx) (from_micros (unat (ic_authenticator_cusec ctx))) = Some (ic_authenticator_time ctx)"
    using req by (simp_all add: carries_request_def)
  then have "ic_verify_ap_rep A P ctx rep = Inr \<lparr>vr_ctime = ic_authenticator_ctime ctx, vr_cusec = ic_authenticator_cusec ctx,
      vr_authenticator_time = ic_authenticator_time ctx, vr_subkey = aro_subkey ro, vr_sequence_number = aro_sequence_number ro\<rparr>"
    using d(1) by (simp add: ic_verify_ap_rep_def dec context_time_def)
  then show ?thesis
    using rep(1) tok h p kd
    by (simp add: ap_rep_response_header_with_confounder_def verify_ap_rep_response_header_def krb5_mech_token_new_def
        neg_resp_with_response_token_def)
qed

lemma token_accepted:
  assumes P: "prims_ok P" and A: "asn1_ok A" and B: "b64_ok B"
    and req: "carries_request A P B st opts ctx t m auth"
    and issued: "issued_ticket A P st svc skey kvno part" and len: "length (ic_ap_req_der ctx) < 2 ^ 63"
    and ready: "acceptor_ready v c1 c2 svc skey kvno part (ic_authenticator_time ctx)" and pac: "check_pac A P Z part skey = Inr pac"
    and cache: "active_cache v S = Some cache" "cache (request_key (rs_client st) ctx svc) = None"
  obtains va v' S' where "accept_sec_context_header A P Z B v S c1 c2 (ic_header ctx) = (Inr \<lparr>ac_ap_req = va\<rparr>, v', S')"
    and "va_client va = rs_client st" and "va_service va = svc" and "va_session_key va = rs_session_key st"
    and "va_subkey va = io_subkey opts" and "va_sequence_number va = ic_sequence_number ctx" and "va_pac va = pac"
    and "va_authenticator_ctime va = ic_authenticator_ctime ctx" and "va_authenticator_cusec va = ic_authenticator_cusec ctx"
proof -
  obtain c where c: "ap_req_ok A P Z v c1 c2 (ic_ap_req_der ctx) c" "ck_key c = request_key (rs_client st) ctx svc"
    "ck_service c = svc" "ck_client c = rs_client st" "ck_session_key c = rs_session_key st" "ck_authenticator c = auth" "ck_pac c = pac"
    "ck_ctime c = ic_authenticator_ctime ctx" "ck_cusec c = ic_authenticator_cusec ctx"
    using request_passes [OF P A req issued ready pac] .
  obtain va where va: "answer_ap_req c = Inr va" using answer_ap_req_total [OF c(1)] .
  then have f: "va_client va = rs_client st" "va_service va = svc" "va_session_key va = rs_session_key st"
    "va_subkey va = io_subkey opts" "va_sequence_number va = ic_sequence_number ctx" "va_pac va = pac"
    "va_authenticator_ctime va = ic_authenticator_ctime ctx" "va_authenticator_cusec va = ic_authenticator_cusec ctx"
    using c req by (auto simp: answer_ap_req_def rbind_eq_Inr carries_request_def)
  have "rbind (parse_negotiate_header B (ic_header ctx)) spnego_krb5_ap_req = Inr (ic_ap_req_der ctx)"
    using ap_req_header_delivered [OF B _ len] req by (auto simp: carries_request_def)
  moreover have "validate_ap_req A P Z v S c1 c2 (ic_ap_req_der ctx) = (Inr va, put_active v S (cache(ck_key c \<mapsto> ck_now c)))"
    using validate_ap_req_ok [OF c(1), of S] cache va c(2) by simp
  ultimately have "\<exists>v' S'. accept_sec_context_header A P Z B v S c1 c2 (ic_header ctx) = (Inr \<lparr>ac_ap_req = va\<rparr>, v', S')"
    by (auto simp: accept_sec_context_header_def split: prod.split)
  then show ?thesis using that f by blast
qed

text \<open>C1: mutual authentication succeeds.  A client with a session whose ticket was sealed with the
  service's key builds a \<open>Negotiate\<close> header; the acceptor that has this key, in the time window of the
  ticket and the authenticator and with no replay entry, accepts the header and reports exactly the client, the
  service, the session key, the sub-key, the sequence number and the certificate of the ticket; and for every AP-REP it
  builds from that, the answer header is verified by the client, which learns the acceptor's sub-key and
  sequence number.  The session key must not be of type des3-cbc-sha1-kd.\<close>

theorem mutual_authentication:
  assumes "prims_ok P" and "asn1_ok A" and "b64_ok B"
    and "key_fits (rs_session_key st) e" and "e \<noteq> Des3CbcSha1Kd" and "principal_text (rs_client st)"
    and "\<forall>n bs. fc n = Some bs \<longrightarrow> length bs = n"
    and "issued_ticket A P st svc skey kvno part"
    and "init_sec_context A P B fs fc now st opts = Inr ctx" and "length (ic_ap_req_der ctx) < 2 ^ 63"
    and "acceptor_ready v c1 c2 svc skey kvno part (ic_authenticator_time ctx)"
    and "check_pac A P Z part skey = Inr pac"
    and "active_cache v S = Some cache" and "cache (request_key (rs_client st) ctx svc) = None"
  shows "\<exists>va v' S'. accept_sec_context_header A P Z B v S c1 c2 (ic_header ctx) = (Inr \<lparr>ac_ap_req = va\<rparr>, v', S')
    \<and> va_client va = rs_client st \<and> va_service va = svc \<and> va_session_key va = rs_session_key st
    \<and> va_subkey va = io_subkey opts \<and> va_sequence_number va = ic_sequence_number ctx \<and> va_pac va = pac
    \<and> va_authenticator_ctime va = ic_authenticator_ctime ctx \<and> va_authenticator_cusec va = ic_authenticator_cusec ctx
    \<and> (\<forall>conf ro rep. length conf = ket_confounder_len e \<and> va_build_ap_rep_with_confounder A P va conf ro = Inr rep
          \<and> length rep < 2 ^ 63 \<longrightarrow>
        (\<exists>h r. ap_rep_response_header_with_confounder A P B \<lparr>ac_ap_req = va\<rparr> conf ro = Inr h
           \<and> verify_ap_rep_response_header A P B ctx h = Inr r
           \<and> vr_ctime r = ic_authenticator_ctime ctx \<and> vr_cusec r = ic_authenticator_cusec ctx
           \<and> vr_subkey r = aro_subkey ro \<and> vr_sequence_number r = aro_sequence_number ro))"
proof -
  note P = assms(1) and A = assms(2) and B = assms(3) and k = assms(4)
  obtain t m auth where req: "carries_request A P B st opts ctx t m auth"
    using init_sec_context_carries [OF P A k assms(6) _ assms(9)] assms(7) by blast
  obtain va v' S' where acc: "accept_sec_context_header A P Z B v S c1 c2 (ic_header ctx) = (Inr \<lparr>ac_ap_req = va\<rparr>, v', S')"
    and f: "va_client va = rs_client st" "va_service va = svc" "va_session_key va = rs_session_key st"
    "va_subkey va = io_subkey opts" "va_sequence_number va = ic_sequence_number ctx" "va_pac va = pac"
    "va_authenticator_ctime va = ic_authenticator_ctime ctx" "va_authenticator_cusec va = ic_authenticator_cusec ctx"
    using token_accepted [OF P A B req assms(8,10-14)] .
  then show ?thesis
    using answer_verified [OF P A B k assms(5) req f(3,7,8)] by blast
qed

section \<open>The acceptor\<close>

text \<open>C5: exactly which requests are accepted, and what the handler does to the replay cache.  A
  request is accepted if and only if it meets every condition of \<open>ap_req_ok\<close> (version and type, a key of the
  keytab, the integrity of the ticket and the authenticator, the ticket's time window and flags, the peer
  address, the verified certificate, the matching client name, the skew) and its key is not in a usable replay
  cache; the answer is then the one of the ticket and the authenticator.  A request that fails
  before the replay check changes nothing, and one that reaches it leaves its key in the cache.\<close>

theorem validate_ap_req_accepts_iff:
  "((\<exists>v' S'. validate_ap_req A P Z v S c1 c2 bs = (Inr va, v', S')) \<longleftrightarrow>
      (\<exists>c cache. ap_req_ok A P Z v c1 c2 bs c \<and> answer_ap_req c = Inr va \<and> active_cache v S = Some cache \<and> cache (ck_key c) = None))
   \<and> snd (validate_ap_req A P Z v S c1 c2 bs) =
       (case check_ap_req A P Z v c1 c2 bs of
          Inl _ \<Rightarrow> (v, S)
        | Inr c \<Rightarrow> (case active_cache v S of None \<Rightarrow> (v, S) | Some cache \<Rightarrow> put_active v S (cache(ck_key c \<mapsto> ck_now c))))"
proof (cases "check_ap_req A P Z v c1 c2 bs")
  case (Inl e)
  then have no: "\<not> ap_req_ok A P Z v c1 c2 bs c" for c by (simp flip: check_ap_req_Inr)
  show ?thesis using Inl no by (simp add: validate_ap_req_def)
next
  case (Inr c)
  then have ok: "ap_req_ok A P Z v c1 c2 bs c" by (simp only: check_ap_req_Inr)
  have only: "ap_req_ok A P Z v c1 c2 bs d \<longleftrightarrow> d = c" for d using ok ap_req_ok_unique by blast
  show ?thesis
    unfolding validate_ap_req_ok [OF ok] only Inr
    by (cases "active_cache v S") (auto simp: prod_eq_iff)
qed

text \<open>C15: no request is accepted twice.  In every run of validators that share one replay cache, one
  keytab and at most the skew \<open>K\<close>, with a clock that does not go back, any interleaving of
  requests, housekeeping that keeps entries for at least twice the skew, changes to other caches and a poisoned lock,
  the requests that were accepted are pairwise different.\<close>

theorem no_request_accepted_twice:
  assumes "svc_run A P Z kt kp r K s es t"
  shows "distinct (accepted_requests es)"
  using svc_run_distinct [OF assms] by blast

lemma ap_req_ok_put_active:
  assumes "put_active v S d = (v', S')"
  shows "ap_req_ok A P Z v' c1 c2 bs c \<longleftrightarrow> ap_req_ok A P Z v c1 c2 bs c"
proof (cases "sv_shared_replay_cache v")
  case None
  then have v': "v' = v\<lparr>sv_replay_cache := d\<rparr>" using assms by (simp add: put_active_def)
  have "keytab_components v' = keytab_components v" "validator_now v' = validator_now v" "validate_client_address v' = validate_client_address v"
    by (simp_all add: v' fun_eq_iff keytab_components_def validator_now_def validate_client_address_def cong: option.case_cong)
  then show ?thesis by (simp add: ap_req_ok_def v')
next
  case (Some r)
  then show ?thesis using assms by (simp add: put_active_def)
qed

text \<open>The ticket's service name is not protected by the seal; the parts of it that select the key are
  the realm and, unless the validator names its keytab principal, the components.\<close>

lemma ap_req_ok_renamed:
  assumes c: "ap_req_ok A P Z v c1 c2 bs c" and m: "decode_ap_req A bs = Inr m"
    and m': "decode_ap_req A bs' = Inr (m\<lparr>ar_ticket := (ar_ticket m)\<lparr>tkt_sname := (tkt_sname (ar_ticket m))\<lparr>pn_type := nt\<rparr>\<rparr>\<rparr>)"
  shows "ap_req_ok A P Z v c1 c2 bs' (c\<lparr>ck_service := (ck_service c)\<lparr>p_name_type := nt\<rparr>,
    ck_key := (ck_key c)\<lparr>rpk_service := (ck_service c)\<lparr>p_name_type := nt\<rparr>\<rparr>\<rparr>)"
proof -
  have same: "decrypt_ticket_enc_part A P ((ar_ticket m)\<lparr>tkt_sname := n\<rparr>) k = decrypt_ticket_enc_part A P (ar_ticket m) k"
    "decrypt_ap_req_authenticator A P (m\<lparr>ar_ticket := t\<rparr>) k u = decrypt_ap_req_authenticator A P m k u" for n k t u
    by (simp_all add: decrypt_ticket_enc_part_def decrypt_ap_req_authenticator_def)
  have usage: "authenticator_usage_for_ticket ((ar_ticket m)\<lparr>tkt_sname := (tkt_sname (ar_ticket m))\<lparr>pn_type := nt\<rparr>\<rparr>)
      = authenticator_usage_for_ticket (ar_ticket m)"
    by (simp add: authenticator_usage_for_ticket_def)
  have svc: "principal_from_parts realm (n\<lparr>pn_type := nt\<rparr>) = Inr (p\<lparr>p_name_type := nt\<rparr>)" if "principal_from_parts realm n = Inr p" for realm n p
    using that by (auto simp: principal_from_parts_def rbind_eq_Inr)
  have key: "keytab_components v (p\<lparr>p_name_type := nt\<rparr>) = keytab_components v p" "ticket_kvno (t\<lparr>tkt_sname := n\<rparr>) = ticket_kvno t" for p t n
    by (auto simp: keytab_components_def ticket_kvno_def split: option.splits)
  have addr: "validate_client_address v (p\<lparr>p_name_type := nt\<rparr>) t = Inr () \<longleftrightarrow> validate_client_address v p t = Inr ()" for p t
    by (auto simp: validate_client_address_def split: option.splits)
  show ?thesis
    using c unfolding ap_req_ok_def m m'
    by (auto simp: same usage svc addr key)
qed

text \<open>C29: the replay check can be evaded.  The key under which a request is remembered contains the
  name type of the ticket's service name, which is sent in the clear and is not used to find the
  service's key.  Once a request was accepted, a copy of it whose ticket carries another name type is accepted
  again, for the same client, session key and authenticator time.\<close>

theorem replay_evaded_by_name_type:
  assumes "ap_req_ok A P Z v c1 c2 bs c" and "decode_ap_req A bs = Inr m"
    and "decode_ap_req A bs' = Inr (m\<lparr>ar_ticket := (ar_ticket m)\<lparr>tkt_sname := (tkt_sname (ar_ticket m))\<lparr>pn_type := nt\<rparr>\<rparr>\<rparr>)"
    and "nt \<noteq> p_name_type (ck_service c)" and "active_cache v S = Some cache" and "cache (ck_key c) = None"
    and "cache ((ck_key c)\<lparr>rpk_service := (ck_service c)\<lparr>p_name_type := nt\<rparr>\<rparr>) = None"
  shows "\<exists>va v' S' va' v'' S''. validate_ap_req A P Z v S c1 c2 bs = (Inr va, v', S')
    \<and> validate_ap_req A P Z v' S' c1 c2 bs' = (Inr va', v'', S'')
    \<and> va_client va' = va_client va \<and> va_session_key va' = va_session_key va
    \<and> va_authenticator_time va' = va_authenticator_time va"
proof -
  let ?c = "c\<lparr>ck_service := (ck_service c)\<lparr>p_name_type := nt\<rparr>, ck_key := (ck_key c)\<lparr>rpk_service := (ck_service c)\<lparr>p_name_type := nt\<rparr>\<rparr>\<rparr>"
  note c' = ap_req_ok_renamed [OF assms(1-3)]
  obtain va where va: "answer_ap_req c = Inr va" using answer_ap_req_total [OF assms(1)] .
  obtain va' where va': "answer_ap_req ?c = Inr va'" using answer_ap_req_total [OF c'] .
  obtain v' S' where put: "put_active v S (cache(ck_key c \<mapsto> ck_now c)) = (v', S')" by fastforce
  have first: "validate_ap_req A P Z v S c1 c2 bs = (Inr va, v', S')"
    using validate_ap_req_ok [OF assms(1), of S] assms(5,6) va put by simp
  have "rpk_service (ck_key c) = ck_service c" using assms(1) by (auto simp: ap_req_ok_def)
  then have "p_name_type (rpk_service (ck_key ?c)) \<noteq> p_name_type (rpk_service (ck_key c))" using assms(4) by simp
  then have "ck_key ?c \<noteq> ck_key c" by metis
  then have "(cache(ck_key c \<mapsto> ck_now c)) (ck_key ?c) = None" using assms(7) by simp
  then have second: "fst (validate_ap_req A P Z v' S' c1 c2 bs') = Inr va'"
    using validate_ap_req_ok [of A P Z v' c1 c2 bs' ?c S'] c' ap_req_ok_put_active [OF put] active_put [OF assms(5) put] va' by simp
  have "va_client va' = va_client va \<and> va_session_key va' = va_session_key va \<and> va_authenticator_time va' = va_authenticator_time va"
    using va va' by (auto simp: answer_ap_req_def rbind_eq_Inr)
  then show ?thesis using first second by (metis prod.collapse)
qed

text \<open>C30: the realm of the client is taken from the authenticator and never compared with the ticket.
  A client that puts another realm into the authenticator, which it seals itself, is accepted under the
  identity of the same name in that realm.\<close>

theorem client_realm_unchecked:
  assumes "ap_req_ok A P Z v c1 c2 bs c" and "decode_ap_req A bs = Inr m" and "decode_ap_req A bs' = Inr m'"
    and "ar_ticket m' = ar_ticket m" and "utf8_valid r"
    and "decrypt_ap_req_authenticator A P m' (ck_session_key c) (authenticator_usage_for_ticket (ar_ticket m)) = Inr ((ck_authenticator c)\<lparr>au_crealm := r\<rparr>)"
    and "active_cache v S = Some cache" and "cache ((ck_key c)\<lparr>rpk_client := (ck_client c)\<lparr>p_realm := bytes_str r\<rparr>\<rparr>) = None"
  shows "\<exists>va v' S'. validate_ap_req A P Z v S c1 c2 bs' = (Inr va, v', S') \<and> va_client va = (ck_client c)\<lparr>p_realm := bytes_str r\<rparr>"
proof -
  let ?c = "c\<lparr>ck_client := (ck_client c)\<lparr>p_realm := bytes_str r\<rparr>, ck_authenticator := (ck_authenticator c)\<lparr>au_crealm := r\<rparr>,
     ck_key := (ck_key c)\<lparr>rpk_client := (ck_client c)\<lparr>p_realm := bytes_str r\<rparr>\<rparr>\<rparr>"
  have client: "principal_from_parts r n = Inr (p\<lparr>p_realm := bytes_str r\<rparr>)" if "principal_from_parts r0 n = Inr p" for r0 n p
    using that assms(5) by (auto simp: principal_from_parts_def kerberos_string_to_string_def rbind_eq_Inr split: if_splits)
  have ok: "ap_req_ok A P Z v c1 c2 bs' ?c"
    using assms(1) unfolding ap_req_ok_def assms(2,3) by (auto simp: assms(4,6) client)
  obtain va where va: "answer_ap_req ?c = Inr va" using answer_ap_req_total [OF ok] .
  have "validate_ap_req A P Z v S c1 c2 bs' = (Inr va, put_active v S (cache(ck_key ?c \<mapsto> ck_now ?c)))"
    using validate_ap_req_ok [OF ok, of S] assms(7,8) va by simp
  moreover have "va_client va = (ck_client c)\<lparr>p_realm := bytes_str r\<rparr>" using va by (auto simp: answer_ap_req_def rbind_eq_Inr)
  ultimately show ?thesis by (metis prod.collapse)
qed

section \<open>A small exchange\<close>

text \<open>A codec for the messages of one exchange, with the stand-ins for the crates: the service \<open>HTTP@R\<close>
  with one key, the client \<open>a@R\<close>, tickets and requests that differ in the name type of the service, and
  authenticators for the realms \<open>R\<close> and \<open>S\<close>.\<close>

definition demo_ticket :: "u8 \<Rightarrow> bytes \<Rightarrow> ticket" where
  "demo_ticket nt c = \<lparr>tkt_vno = 5, tkt_realm = str_bytes ''R'', tkt_sname = \<lparr>pn_type = ucast nt, pn_string = [str_bytes ''HTTP'']\<rparr>,
     tkt_enc_part = \<lparr>ed_etype = 23, ed_kvno = Some 1, ed_cipher = c\<rparr>\<rparr>"

definition demo_part :: enc_ticket_part where
  "demo_part = \<lparr>et_flags = [], et_key = \<lparr>rk_type = 23, rk_value = replicate 16 5\<rparr>, et_crealm = str_bytes ''R'',
     et_cname = \<lparr>pn_type = 1, pn_string = [str_bytes ''a'']\<rparr>, et_auth_time = \<lparr>kt_seconds = 1000, kt_subsec_nanos = 0\<rparr>,
     et_start_time = None, et_end_time = \<lparr>kt_seconds = 9000, kt_subsec_nanos = 0\<rparr>, et_renew_till = None,
     et_caddr = None, et_authorization_data = None\<rparr>"

definition demo_auth :: "u8 \<Rightarrow> authenticator" where
  "demo_auth realm = \<lparr>au_vno = 5, au_crealm = [realm], au_cname = \<lparr>pn_type = 1, pn_string = [str_bytes ''a'']\<rparr>,
     au_cksum = Some \<lparr>ck_type = GSSAPI_CHECKSUM_TYPE, ck_checksum = authenticator_checksum [32, 16]\<rparr>,
     au_cusec = 0, au_ctime = \<lparr>kt_seconds = 2000, kt_subsec_nanos = 0\<rparr>, au_subkey = None, au_seq_number = Some 7,
     au_authorization_data = None\<rparr>"

definition demo_req :: "u8 \<Rightarrow> bytes \<Rightarrow> bytes \<Rightarrow> ap_req" where
  "demo_req nt c d = \<lparr>ar_pvno = 5, ar_msg_type = 14, ar_ap_options = ap_options_from_bits 0, ar_ticket = demo_ticket nt c,
     ar_authenticator = \<lparr>ed_etype = 23, ed_kvno = Some 1, ed_cipher = d\<rparr>\<rparr>"

definition demo_rep :: "bytes \<Rightarrow> ap_rep" where
  "demo_rep c = \<lparr>ap_pvno = 5, ap_msg_type = 15, ap_enc_part = \<lparr>ed_etype = 23, ed_kvno = None, ed_cipher = c\<rparr>\<rparr>"

definition demo_rep_part :: enc_ap_rep_part where
  "demo_rep_part = \<lparr>ep_ctime = \<lparr>kt_seconds = 2000, kt_subsec_nanos = 0\<rparr>, ep_cusec = 0,
     ep_subkey = Some \<lparr>rk_type = 23, rk_value = replicate 16 9\<rparr>, ep_seq_number = Some 8\<rparr>"

definition demo_nt :: "ticket \<Rightarrow> u8" where
  "demo_nt t = ucast (pn_type (tkt_sname t))"

definition demo_asn1 :: asn1 where
  "demo_asn1 = \<lparr>
     dec_ticket = \<lambda>bs. case bs of [] \<Rightarrow> None | nt # c \<Rightarrow> Some (demo_ticket nt c),
     enc_ticket = \<lambda>t. let c = ed_cipher (tkt_enc_part t) in if t = demo_ticket (demo_nt t) c then Some (demo_nt t # c) else None,
     dec_enc_ticket_part = \<lambda>bs. if bs = [0x63, 0] then Some demo_part else None,
     enc_enc_ticket_part = \<lambda>p. if p = demo_part then Some [0x63, 0] else None,
     dec_authenticator = \<lambda>bs. case bs of [t, n, realm] \<Rightarrow> Some (demo_auth realm) | _ \<Rightarrow> None,
     enc_authenticator = \<lambda>a. if a = demo_auth (hd (au_crealm a)) then Some [0x62, 1, hd (au_crealm a)] else None,
     dec_ap_req = \<lambda>bs. case bs of t # nt # n # r \<Rightarrow> Some (demo_req nt (take (unat n) r) (drop (unat n) r)) | _ \<Rightarrow> None,
     enc_ap_req = \<lambda>m. let c = ed_cipher (tkt_enc_part (ar_ticket m)); d = ed_cipher (ar_authenticator m); nt = demo_nt (ar_ticket m) in
       if m = demo_req nt c d \<and> length c < 256 then Some (0x6e # nt # word_of_nat (length c) # c @ d) else None,
     dec_ap_rep = \<lambda>bs. case bs of [] \<Rightarrow> None | t # c \<Rightarrow> Some (demo_rep c),
     enc_ap_rep = \<lambda>r. let c = ed_cipher (ap_enc_part r) in if r = demo_rep c then Some (0x6f # c) else None,
     dec_enc_ap_rep_part = \<lambda>bs. if bs = [0x7b, 0] then Some demo_rep_part else None,
     enc_enc_ap_rep_part = \<lambda>p. if p = demo_rep_part then Some [0x7b, 0] else None,
     dec_authorization_data = \<lambda>bs. None,
     from_timestamp = \<lambda>s n. Some \<lparr>kt_seconds = s, kt_subsec_nanos = n\<rparr>,
     general_string = \<lambda>bs. True\<rparr>"

lemma demo_asn1_ok: "asn1_ok demo_asn1"
proof -
  have "top_level_der_end [0x63, 0] = Some 2" "top_level_der_end [0x62, 1, realm] = Some 3" for realm
    by (simp_all add: top_level_der_end_def der_length_at_def byte_at_def usize_checked_add_def)
  then show ?thesis
    unfolding asn1_ok_def demo_asn1_def asn1.simps Let_def
    by (intro conjI allI impI) (auto split: if_split_asm)
qed

definition demo_seal :: "bytes \<Rightarrow> bytes" where
  "demo_seal m = fit 16 (replicate 8 0 @ m) @ replicate 8 0 @ m"

lemma length_demo_seal [simp]: "length (demo_seal m) = 24 + length m"
  by (simp add: demo_seal_def)

lemma demo_sealed [simp]:
  "rc4_encrypt_message_with_confounder sample_prims (replicate 16 k) m u (replicate 8 0) = Inr (demo_seal m)"
  by (simp add: rc4_encrypt_message_with_confounder_def rc4_validate_key_def check_key_len_def rc4_hmac_crypt_def hmac_md5_def
      sample_prims_def demo_seal_def Let_def ket_size_defs fit_def comp_def)

lemma demo_key_fits: "key_fits \<lparr>kt_etype = 23, kt_value = replicate 16 k\<rparr> Rc4Hmac"
  by (simp add: key_fits_def ket_size_defs ket_from_etype_id_def aes1_from_etype_id_def aes2_from_etype_id_def des3_from_etype_id_def
      rc4_from_etype_id_def or_else_def)

lemma demo_opened [simp]: "rc4_decrypt_message sample_prims (replicate 16 k) (demo_seal m) u = Inr m"
  using open_sealed [OF sample_prims_ok demo_key_fits [of k], of "replicate 8 0" m u "demo_seal m"]
  by (simp add: ket_size_defs)

definition demo_der :: "u8 \<Rightarrow> u8 \<Rightarrow> bytes" where
  "demo_der nt realm = 0x6e # nt # 26 # demo_seal [0x63, 0] @ demo_seal [0x62, 1, realm]"

definition demo_keytab :: keytab where
  "demo_keytab = \<lparr>kt_version = 2, kt_entries = [\<lparr>kt_principal = \<lparr>kt_realm = ''R'', kt_components = [''HTTP''], kt_name_type = 2\<rparr>,
     kt_timestamp = 0, kt_kvno8 = 1, kt_key = \<lparr>kt_etype = 23, kt_value = replicate 16 6\<rparr>, kt_kvno = 1\<rparr>]\<rparr>"

definition demo_service :: "u8 \<Rightarrow> principal" where
  "demo_service nt = \<lparr>p_realm = ''R'', p_name_type = ucast nt, p_components = [''HTTP'']\<rparr>"

definition demo_client :: "u8 \<Rightarrow> principal" where
  "demo_client realm = \<lparr>p_realm = bytes_str [realm], p_name_type = 1, p_components = [''a'']\<rparr>"

definition demo_time :: system_time where
  "demo_time = 2000 * NANOS"

definition demo_checked :: "u8 \<Rightarrow> u8 \<Rightarrow> checked_ap_req" where
  "demo_checked nt realm = \<lparr>ck_key = \<lparr>rpk_service = demo_service nt, rpk_client = demo_client realm, rpk_ctime_seconds = 2000, rpk_cusec = 0\<rparr>,
     ck_now = demo_time, ck_ticket = demo_part, ck_authenticator = demo_auth realm, ck_service = demo_service nt,
     ck_client = demo_client realm, ck_session_key = \<lparr>kt_etype = 23, kt_value = replicate 16 5\<rparr>, ck_ctime = demo_time, ck_cusec = 0,
     ck_time = demo_time, ck_pac = None\<rparr>"

lemma demo_decode: "decode_ap_req demo_asn1 (demo_der nt realm) = Inr (demo_req nt (demo_seal [0x63, 0]) (demo_seal [0x62, 1, realm]))"
  by (simp add: decode_ap_req_def demo_asn1_def demo_der_def demo_req_def ap_req_validate_def validate_integer_def KRB5_PVNO_def
      KRB_AP_REQ_MSG_TYPE_def)

lemma demo_etype: "etype_of_key \<lparr>kt_etype = 23, kt_value = replicate 16 k\<rparr> = Inr Rc4Hmac"
  by (rule etype_of_fitting_key [OF demo_key_fits])

lemma demo_trim: "trim_zero_padded_der [0x63, 0] = [0x63, 0]" "trim_zero_padded_der [0x62, 1, realm] = [0x62, 1, realm]"
  by (simp_all add: trim_zero_padded_der_def top_level_der_end_def der_length_at_def byte_at_def usize_checked_add_def)

lemma demo_open_ticket:
  "decrypt_ticket_enc_part demo_asn1 sample_prims (demo_ticket nt (demo_seal [0x63, 0])) \<lparr>kt_etype = 23, kt_value = replicate 16 6\<rparr> = Inr demo_part"
  by (simp add: decrypt_ticket_enc_part_def demo_ticket_def demo_etype demo_trim decode_enc_ticket_part_def demo_asn1_def)

lemma demo_open_authenticator:
  "decrypt_ap_req_authenticator demo_asn1 sample_prims (demo_req nt c (demo_seal [0x62, 1, realm])) \<lparr>kt_etype = 23, kt_value = replicate 16 5\<rparr> u
    = Inr (demo_auth realm)"
  by (simp add: decrypt_ap_req_authenticator_def demo_req_def demo_etype demo_trim decode_authenticator_def demo_asn1_def)

lemma demo_find_key:
  "find_key demo_keytab [''HTTP''] ''R'' 1 23 = Inr (\<lparr>kt_etype = 23, kt_value = replicate 16 6\<rparr>, 1)"
  by (simp add: find_key_def demo_keytab_def kt_entry_matches_def)

abbreviation demo_validator :: validator where
  "demo_validator \<equiv> validator_new demo_keytab"

lemma demo_utf8: "utf8_valid (str_bytes ''a'')" "utf8_valid (str_bytes ''R'')" "utf8_valid (str_bytes ''HTTP'')" "str_bytes ''R'' = [0x52]" "str_bytes ''S'' = [0x53]"
  by (simp_all add: str_bytes_def byte_of_char_def in_range_def)

lemma demo_realms: "bytes_str [0x52] = ''R''" "bytes_str [0x53] = ''S''"
  using bytes_str_bytes [of "''R''"] bytes_str_bytes [of "''S''"] unfolding demo_utf8 by simp_all

lemma demo_names:
  assumes "utf8_valid [realm]"
  shows "principal_from_parts (et_crealm demo_part) (et_cname demo_part) = Inr (demo_client 0x52)"
    and "principal_from_parts (au_crealm (demo_auth realm)) (au_cname (demo_auth realm)) = Inr (demo_client realm)"
    and "principal_from_parts (str_bytes ''R'') \<lparr>pn_type = ucast nt, pn_string = [str_bytes ''HTTP'']\<rparr> = Inr (demo_service nt)"
  using assms demo_utf8 demo_realms by (simp_all add: principal_from_parts_def kerberos_string_to_string_def demo_part_def demo_auth_def demo_client_def
      demo_service_def del: utf8_valid.simps)

lemma demo_ok:
  assumes "utf8_valid [realm]"
  shows "ap_req_ok demo_asn1 sample_prims no_claims demo_validator demo_time demo_time (demo_der nt realm) (demo_checked nt realm)"
proof -
  note client = demo_names [OF assms]
  have times: "ticket_start_time demo_part = Inr (1000 * NANOS)" "system_time_from_kerberos_time (et_end_time demo_part) = Inr (9000 * NANOS)"
    "system_time_from_kerberos_time (au_ctime (demo_auth realm)) = Inr demo_time"
    "st_checked_add demo_time (from_micros (unat (0 :: u32))) = Some demo_time"
    by (simp_all add: ticket_start_time_def demo_part_def demo_auth_def system_time_from_kerberos_time_whole system_time_in_range_def NANOS_def
        demo_time_def st_checked_add_def from_micros_def)
  have pac: "check_pac demo_asn1 sample_prims no_claims demo_part key = Inr None" for key by (simp add: check_pac_def demo_part_def)
  have addr: "validate_client_address demo_validator (demo_service nt) demo_part = Inr ()"
    by (simp add: validate_client_address_def validator_new_def demo_part_def)
  have rest: "sv_keytab demo_validator = demo_keytab" "keytab_components demo_validator (demo_service nt) = [''HTTP'']"
    "p_realm (demo_service nt) = ''R''" "ticket_kvno (demo_ticket nt c) = 1" "validator_now demo_validator demo_time = demo_time"
    "\<not> has_invalid_flag (et_flags demo_part)" "encryption_key_from_rasn (et_key demo_part) = \<lparr>kt_etype = 23, kt_value = replicate 16 5\<rparr>"
    "p_components (demo_client r) = [''a'']" "int_parse_u32 (au_cusec (demo_auth realm)) = Some 0" "kt_seconds (au_ctime (demo_auth realm)) = 2000"
    "1000 * NANOS \<le> demo_time + int d" "demo_time \<le> 9000 * NANOS + int d" for c r d
    by (simp_all add: validator_new_def keytab_components_def demo_service_def ticket_kvno_def demo_ticket_def validator_now_def has_invalid_flag_def
        demo_part_def encryption_key_from_rasn_def demo_client_def demo_auth_def int_parse_u32_def demo_time_def NANOS_def)
  have req: "ar_ticket (demo_req nt c d) = demo_ticket nt c" "tkt_realm (demo_ticket nt c) = str_bytes ''R''"
    "tkt_sname (demo_ticket nt c) = \<lparr>pn_type = ucast nt, pn_string = [str_bytes ''HTTP'']\<rparr>" "ed_etype (tkt_enc_part (demo_ticket nt c)) = 23" for c d
    by (simp_all add: demo_req_def demo_ticket_def)
  show ?thesis
    unfolding ap_req_ok_def
    by (rule exI [of _ "demo_req nt (demo_seal [0x63, 0]) (demo_seal [0x62, 1, realm])"],
        rule exI [of _ "\<lparr>kt_etype = 23, kt_value = replicate 16 6\<rparr>"], rule exI [of _ 1], rule exI [of _ "demo_client 0x52"],
        rule exI [of _ "1000 * NANOS"], rule exI [of _ "9000 * NANOS"])
      (use client times pac addr demo_find_key demo_open_ticket demo_open_authenticator in
        \<open>simp add: demo_decode demo_checked_def rest req\<close>)
qed

lemma demo_cache: "active_cache demo_validator S = Some Map.empty"
  by (simp add: active_cache_def validator_new_def replay_cache_new_def)

theorem client_realm_unchecked_witness:
  "\<exists>va v' S'. validate_ap_req demo_asn1 sample_prims no_claims demo_validator (\<lambda>r. shared_from_cache Map.empty) demo_time demo_time (demo_der 2 0x53)
      = (Inr va, v', S') \<and> va_client va = \<lparr>p_realm = ''S'', p_name_type = 1, p_components = [''a'']\<rparr>"
proof -
  have "utf8_valid [0x52]" "utf8_valid [0x53]" by (simp_all add: in_range_def)
  with demo_realms show ?thesis
    using client_realm_unchecked [OF demo_ok [of "0x52" 2] demo_decode [of 2 "0x52"] demo_decode [of 2 "0x53"] _ \<open>utf8_valid [0x53]\<close> _ demo_cache]
    by (simp add: demo_req_def [of 2] demo_checked_def demo_auth_def demo_client_def demo_open_authenticator [unfolded demo_req_def demo_auth_def]
        del: utf8_valid.simps)
qed

theorem replay_evaded_by_name_type_witness:
  "\<exists>va v' S' va' v'' S''. validate_ap_req demo_asn1 sample_prims no_claims demo_validator (\<lambda>r. shared_from_cache Map.empty) demo_time demo_time (demo_der 2 0x52)
      = (Inr va, v', S')
    \<and> validate_ap_req demo_asn1 sample_prims no_claims v' S' demo_time demo_time (demo_der 1 0x52) = (Inr va', v'', S'')
    \<and> va_client va' = va_client va \<and> va_session_key va' = va_session_key va
    \<and> va_authenticator_time va' = va_authenticator_time va"
proof -
  have "utf8_valid [0x52]" by (simp add: in_range_def)
  moreover have "decode_ap_req demo_asn1 (demo_der 1 0x52) = Inr ((demo_req 2 (demo_seal [0x63, 0]) (demo_seal [0x62, 1, 0x52]))
      \<lparr>ar_ticket := (ar_ticket (demo_req 2 (demo_seal [0x63, 0]) (demo_seal [0x62, 1, 0x52])))
        \<lparr>tkt_sname := (tkt_sname (ar_ticket (demo_req 2 (demo_seal [0x63, 0]) (demo_seal [0x62, 1, 0x52]))))\<lparr>pn_type := 1\<rparr>\<rparr>\<rparr>)"
    by (simp add: demo_decode demo_req_def demo_ticket_def)
  ultimately show ?thesis
    using replay_evaded_by_name_type [OF demo_ok [of "0x52" 2] demo_decode, of "demo_der 1 0x52" 1 "\<lambda>r. shared_from_cache Map.empty" Map.empty] demo_cache
    by (simp add: demo_checked_def demo_service_def del: utf8_valid.simps)
qed

definition demo_shared :: validator where
  "demo_shared = with_shared_replay_cache demo_validator 0"

lemma demo_shared_ok:
  "ap_req_ok demo_asn1 sample_prims no_claims demo_shared demo_time demo_time (demo_der 2 0x52) (demo_checked 2 0x52)"
proof -
  have "keytab_components demo_shared = keytab_components demo_validator" "validator_now demo_shared = validator_now demo_validator"
    "validate_client_address demo_shared = validate_client_address demo_validator"
    by (simp_all add: demo_shared_def with_shared_replay_cache_def fun_eq_iff keytab_components_def validator_now_def validate_client_address_def
        cong: option.case_cong)
  then show ?thesis
    using demo_ok [of "0x52" 2] by (simp add: ap_req_ok_def demo_shared_def with_shared_replay_cache_def in_range_def)
qed

theorem no_request_accepted_twice_witness:
  "\<exists>va t. svc_run demo_asn1 sample_prims no_claims demo_keytab None 0 (300 * 10 ^ 9)
        \<lparr>ss_store = \<lambda>r. shared_from_cache Map.empty, ss_clock = demo_time\<rparr>
        [Handled (demo_der 2 0x52) (Inr va), Handled (demo_der 2 0x52) (Inl Replay)] t
    \<and> distinct (accepted_requests [Handled (demo_der 2 0x52) (Inr va), Handled (demo_der 2 0x52) (Inl Replay)])"
proof -
  let ?S = "\<lambda>r. shared_from_cache Map.empty" and ?k = "ck_key (demo_checked 2 0x52)"
  let ?S' = "?S(0 := (?S 0)\<lparr>sc_cache := [?k \<mapsto> demo_time]\<rparr>)"
  have v: "sv_shared_replay_cache demo_shared = Some 0" "sv_now demo_shared = None" "sv_max_clock_skew demo_shared \<le> 300 * 10 ^ 9"
    "sv_keytab demo_shared = demo_keytab" "sv_keytab_principal demo_shared = None"
    by (simp_all add: demo_shared_def with_shared_replay_cache_def validator_new_def DEFAULT_MAX_CLOCK_SKEW_def from_secs_def)
  obtain va where va: "answer_ap_req (demo_checked 2 0x52) = Inr va" using answer_ap_req_total [OF demo_shared_ok] .
  have now: "ck_now (demo_checked 2 0x52) = demo_time" by (simp add: demo_checked_def)
  have 1: "validate_ap_req demo_asn1 sample_prims no_claims demo_shared ?S demo_time demo_time (demo_der 2 0x52) = (Inr va, demo_shared, ?S')"
    using validate_ap_req_ok [OF demo_shared_ok, of ?S] v va now by (simp add: active_cache_def put_active_def shared_from_cache_def)
  have 2: "\<exists>S''. validate_ap_req demo_asn1 sample_prims no_claims demo_shared ?S' demo_time demo_time (demo_der 2 0x52) = (Inl Replay, demo_shared, S'')"
    using validate_ap_req_ok [OF demo_shared_ok, of ?S'] v by (simp add: active_cache_def put_active_def shared_from_cache_def)
  then obtain S'' where S'': "validate_ap_req demo_asn1 sample_prims no_claims demo_shared ?S' demo_time demo_time (demo_der 2 0x52) = (Inl Replay, demo_shared, S'')" ..
  have step: "svc_step demo_asn1 sample_prims no_claims demo_keytab None 0 (300 * 10 ^ 9) \<lparr>ss_store = T, ss_clock = demo_time\<rparr>
      (Handled (demo_der 2 0x52) res) \<lparr>ss_store = T', ss_clock = demo_time\<rparr>"
    if "validate_ap_req demo_asn1 sample_prims no_claims demo_shared T demo_time demo_time (demo_der 2 0x52) = (res, demo_shared, T')" for T T' res
    by (rule svc_step.handle [where v = demo_shared and v' = demo_shared, OF v]) (use that in simp_all)
  have "svc_run demo_asn1 sample_prims no_claims demo_keytab None 0 (300 * 10 ^ 9) \<lparr>ss_store = ?S, ss_clock = demo_time\<rparr>
      (([] @ [Handled (demo_der 2 0x52) (Inr va)]) @ [Handled (demo_der 2 0x52) (Inl Replay)]) \<lparr>ss_store = S'', ss_clock = demo_time\<rparr>"
    by (rule svc_run.more [OF svc_run.more [OF svc_run.start step [OF 1]] step [OF S'']])
  then have run: "svc_run demo_asn1 sample_prims no_claims demo_keytab None 0 (300 * 10 ^ 9) \<lparr>ss_store = ?S, ss_clock = demo_time\<rparr>
      [Handled (demo_der 2 0x52) (Inr va), Handled (demo_der 2 0x52) (Inl Replay)] \<lparr>ss_store = S'', ss_clock = demo_time\<rparr>" by simp
  from run no_request_accepted_twice [OF run] show ?thesis by blast
qed

definition demo_session :: rep_session where
  "demo_session = \<lparr>rs_client = demo_client 0x52, rs_service = demo_service 2, rs_session_key = \<lparr>kt_etype = 23, kt_value = replicate 16 5\<rparr>,
     rs_ticket = 2 # demo_seal [0x63, 0], rs_ticket_flags = [], rs_auth_time = 0, rs_start_time = 0, rs_end_time = 0,
     rs_renew_till = None, rs_key_expiration = None\<rparr>"

definition demo_options :: initiator_options where
  "demo_options = initiator_options_new\<lparr>io_sequence_number := Some 7\<rparr>"

definition demo_fill :: "nat \<Rightarrow> bytes option" where
  "demo_fill n = Some (replicate n 0)"

lemma demo_built:
  "\<exists>b. client_build_ap_req_with_confounder demo_asn1 sample_prims demo_session
      \<lparr>arq_ap_option_bits = 0, arq_checksum = Some \<lparr>ck_type = GSSAPI_CHECKSUM_TYPE, ck_checksum = authenticator_checksum [32, 16]\<rparr>,
       arq_subkey = None, arq_sequence_number = Some 7\<rparr> demo_time 0 (replicate 8 0) = Inr b
    \<and> ba_der b = demo_der 2 0x52 \<and> ba_authenticator_time b = demo_time \<and> ba_authenticator_ctime b = demo_time \<and> ba_authenticator_cusec b = 0"
proof -
  have t: "decode_ticket demo_asn1 (2 # demo_seal [0x63, 0]) = Inr (demo_ticket 2 (demo_seal [0x63, 0]))"
    by (simp add: decode_ticket_def demo_asn1_def validate_ticket_def validate_integer_def demo_ticket_def KRB5_TKT_VNO_def)
  have time: "client_kerberos_time demo_asn1 demo_time = Inr \<lparr>kt_seconds = 2000, kt_subsec_nanos = 0\<rparr>"
    "st_checked_add demo_time (from_micros (unat (0 :: u32))) = Some demo_time"
    by (simp_all add: client_kerberos_time_def unix_timestamp_parts_def duration_since_def demo_time_def NANOS_def demo_asn1_def
        st_checked_add_def system_time_in_range_def from_micros_def)
  have name: "kerberos_string demo_asn1 s = Inr (str_bytes s)" for s by (simp add: kerberos_string_def demo_asn1_def)
  have "encode_authenticator demo_asn1 (demo_auth realm) = Inr [0x62, 1, realm]" for realm
    by (simp add: encode_authenticator_def demo_asn1_def) (simp add: demo_auth_def)
  then have "build_ap_req_with_confounder demo_asn1 sample_prims (demo_ticket 2 (demo_seal [0x63, 0])) (ap_options_from_bits 0) (demo_auth 0x52)
      \<lparr>kt_etype = 23, kt_value = replicate 16 5\<rparr> u (Some 1) (replicate 8 0) = Inr (demo_req 2 (demo_seal [0x63, 0]) (demo_seal [0x62, 1, 0x52]))" for u
    by (simp add: build_ap_req_with_confounder_def demo_etype demo_req_def KRB5_PVNO_def KRB_AP_REQ_MSG_TYPE_def)
  moreover have "encode_ap_req demo_asn1 (demo_req 2 (demo_seal [0x63, 0]) (demo_seal [0x62, 1, 0x52])) = Inr (demo_der 2 0x52)"
    by (simp add: encode_ap_req_def demo_asn1_def demo_req_def demo_ticket_def demo_nt_def demo_der_def Let_def)
  moreover have "ed_kvno (tkt_enc_part (demo_ticket nt c)) = Some 1" for nt c by (simp add: demo_ticket_def)
  ultimately show ?thesis
    using t time unfolding demo_auth_def
    by (simp add: client_build_ap_req_with_confounder_def demo_session_def demo_client_def principal_to_rasn_def name KRB5_PVNO_def Let_def)
qed

lemma demo_init:
  obtains ctx where "init_sec_context demo_asn1 sample_prims hexish demo_fill demo_fill demo_time demo_session demo_options = Inr ctx"
    and "ic_ap_req_der ctx = demo_der 2 0x52" and "ic_authenticator_time ctx = demo_time"
    and "ic_authenticator_ctime ctx = demo_time" and "ic_authenticator_cusec ctx = 0"
proof -
  obtain b where b: "client_build_ap_req_with_confounder demo_asn1 sample_prims demo_session
      \<lparr>arq_ap_option_bits = 0, arq_checksum = Some \<lparr>ck_type = GSSAPI_CHECKSUM_TYPE, ck_checksum = authenticator_checksum [32, 16]\<rparr>,
       arq_subkey = None, arq_sequence_number = Some 7\<rparr> demo_time 0 (replicate 8 0) = Inr b"
    "ba_der b = demo_der 2 0x52" "ba_authenticator_time b = demo_time" "ba_authenticator_ctime b = demo_time" "ba_authenticator_cusec b = 0"
    using demo_built by blast
  have now: "current_time demo_time = Inr (demo_time, 0)"
    by (simp add: current_time_def duration_since_def demo_time_def NANOS_def from_secs_def)
  have k: "ket_from_etype_id (kt_etype (rs_session_key demo_session)) = Some Rc4Hmac"
    using demo_key_fits [of 5] by (simp add: key_fits_def demo_session_def)
  obtain tok where tok: "krb5_mech_token_encode (krb5_mech_token_new ApReq (demo_der 2 0x52)) = Inr tok"
    using krb5_token_built [of "demo_der 2 0x52" ApReq] by (auto simp: demo_der_def)
  obtain bs where bs: "spnego_token_encode (SpnegoInit (neg_token_init_krb5 tok)) = Inr bs" using spnego_init_built .
  have "\<exists>ctx. init_sec_context demo_asn1 sample_prims hexish demo_fill demo_fill demo_time demo_session demo_options = Inr ctx
      \<and> ic_ap_req_der ctx = demo_der 2 0x52 \<and> ic_authenticator_time ctx = demo_time
      \<and> ic_authenticator_ctime ctx = demo_time \<and> ic_authenticator_cusec ctx = 0"
    using b now k tok bs
    by (simp add: init_sec_context_def demo_options_def initiator_options_new_def demo_fill_def
        init_sec_context_with_confounder_def negotiate_header_def ket_size_defs Let_def)
  then show ?thesis using that by blast
qed

lemma demo_answer:
  assumes "va_session_key va = \<lparr>kt_etype = 23, kt_value = replicate 16 5\<rparr>" and "va_authenticator_ctime va = demo_time"
    and "va_authenticator_cusec va = 0"
  shows "va_build_ap_rep_with_confounder demo_asn1 sample_prims va (replicate 8 0)
      \<lparr>aro_subkey = Some \<lparr>kt_etype = 23, kt_value = replicate 16 9\<rparr>, aro_sequence_number = Some 8, aro_kvno = None\<rparr>
    = Inr (0x6f # demo_seal [0x7b, 0])"
proof -
  have "kerberos_time_from_system_time demo_asn1 demo_time = Inr \<lparr>kt_seconds = 2000, kt_subsec_nanos = 0\<rparr>"
    by (simp add: kerberos_time_from_system_time_def unix_timestamp_parts_def duration_since_def demo_time_def NANOS_def demo_asn1_def)
  moreover have "enc_enc_ap_rep_part demo_asn1 demo_rep_part = Some [0x7b, 0]" "enc_ap_rep demo_asn1 (demo_rep c) = Some (0x6f # c)" for c
    by (simp_all add: demo_asn1_def demo_rep_def Let_def)
  ultimately show ?thesis
    using assms unfolding demo_rep_def demo_rep_part_def
    by (simp add: va_build_ap_rep_with_confounder_def build_ap_rep_with_confounder_def encryption_key_to_rasn_def encode_ap_rep_def
        demo_etype KRB5_PVNO_def KRB_AP_REP_MSG_TYPE_def)
qed

lemma demo_issued:
  "issued_ticket demo_asn1 sample_prims demo_session (demo_service 2) \<lparr>kt_etype = 23, kt_value = replicate 16 6\<rparr> (Some 1) demo_part"
proof -
  have u: "utf8_valid [0x52]" by (simp add: in_range_def)
  have "enc_enc_ticket_part demo_asn1 demo_part = Some [0x63, 0]" by (simp add: demo_asn1_def)
  then have "build_ticket_with_confounder demo_asn1 sample_prims (str_bytes ''R'') \<lparr>pn_type = 2, pn_string = [str_bytes ''HTTP'']\<rparr> demo_part
      \<lparr>kt_etype = 23, kt_value = replicate 16 6\<rparr> (Some 1) (replicate 8 0) = Inr (demo_ticket 2 (demo_seal [0x63, 0]))"
    by (simp add: build_ticket_with_confounder_def demo_etype demo_ticket_def KRB5_TKT_VNO_def)
  moreover have "encode_ticket demo_asn1 (demo_ticket 2 (demo_seal [0x63, 0])) = Inr (rs_ticket demo_session)"
    by (simp add: encode_ticket_def demo_asn1_def demo_ticket_def demo_nt_def demo_session_def Let_def)
  moreover have "et_key demo_part = encryption_key_to_rasn (rs_session_key demo_session)" "rs_client demo_session = demo_client 0x52"
    "ticket_part_whole demo_part"
    by (simp_all add: demo_part_def demo_session_def encryption_key_to_rasn_def ticket_part_whole_def whole_seconds_def)
  moreover have "length (replicate 8 0 :: bytes) = ket_confounder_len Rc4Hmac" by (simp add: ket_size_defs)
  moreover have "principal_from_parts (str_bytes ''R'') \<lparr>pn_type = 2, pn_string = [str_bytes ''HTTP'']\<rparr> = Inr (demo_service 2)"
    using demo_names(3) [OF u, of 2] by simp
  ultimately show ?thesis
    using demo_key_fits [of 6] demo_names(1) [OF u] unfolding issued_ticket_def by metis
qed

theorem mutual_authentication_witness:
  "\<exists>ctx va v' S' rep h r. init_sec_context demo_asn1 sample_prims hexish demo_fill demo_fill demo_time demo_session demo_options = Inr ctx
    \<and> accept_sec_context_header demo_asn1 sample_prims no_claims hexish demo_validator (\<lambda>r. shared_from_cache Map.empty) demo_time demo_time (ic_header ctx)
        = (Inr \<lparr>ac_ap_req = va\<rparr>, v', S')
    \<and> va_client va = \<lparr>p_realm = ''R'', p_name_type = 1, p_components = [''a'']\<rparr>
    \<and> va_build_ap_rep_with_confounder demo_asn1 sample_prims va (replicate 8 0)
        \<lparr>aro_subkey = Some \<lparr>kt_etype = 23, kt_value = replicate 16 9\<rparr>, aro_sequence_number = Some 8, aro_kvno = None\<rparr> = Inr rep
    \<and> ap_rep_response_header_with_confounder demo_asn1 sample_prims hexish \<lparr>ac_ap_req = va\<rparr> (replicate 8 0)
        \<lparr>aro_subkey = Some \<lparr>kt_etype = 23, kt_value = replicate 16 9\<rparr>, aro_sequence_number = Some 8, aro_kvno = None\<rparr> = Inr h
    \<and> verify_ap_rep_response_header demo_asn1 sample_prims hexish ctx h = Inr r \<and> vr_sequence_number r = Some 8"
  (is "\<exists>ctx va v' S' rep h r. ?I ctx \<and> ?A ctx va v' S' \<and> _ va \<and> va_build_ap_rep_with_confounder _ _ va _ ?ro = _ \<and> ?H va h \<and> ?V ctx h r \<and> ?Q r")
proof -
  obtain ctx where ctx: "?I ctx" "ic_ap_req_der ctx = demo_der 2 0x52" "ic_authenticator_time ctx = demo_time"
    "ic_authenticator_ctime ctx = demo_time" "ic_authenticator_cusec ctx = 0"
    using demo_init .
  have k: "key_fits (rs_session_key demo_session) Rc4Hmac" using demo_key_fits [of 5] by (simp add: demo_session_def)
  have u: "utf8_valid [0x52]" by (simp add: in_range_def)
  have client: "rs_client demo_session = demo_client 0x52" by (simp add: demo_session_def)
  have nm: "principal_text (rs_client demo_session)"
    using demo_utf8 demo_realms by (simp add: client principal_text_def demo_client_def del: utf8_valid.simps)
  have ready: "acceptor_ready demo_validator demo_time demo_time (demo_service 2) \<lparr>kt_etype = 23, kt_value = replicate 16 6\<rparr> (Some 1) demo_part (ic_authenticator_time ctx)"
    using demo_ok [of "0x52" 2] demo_find_key ctx(3)
    by (auto simp: acceptor_ready_def ap_req_ok_def validate_ticket_times_Inr demo_checked_def in_range_def keytab_components_def validator_new_def
        demo_service_def validator_now_def)
  have issued: "issued_ticket demo_asn1 sample_prims demo_session (demo_service 2) \<lparr>kt_etype = 23, kt_value = replicate 16 6\<rparr> (Some 1) demo_part"
    by (rule demo_issued)
  have fill: "\<forall>n bs. demo_fill n = Some bs \<longrightarrow> length bs = n" by (simp add: demo_fill_def)
  have pac: "check_pac demo_asn1 sample_prims no_claims demo_part \<lparr>kt_etype = 23, kt_value = replicate 16 6\<rparr> = Inr None"
    by (simp add: check_pac_def demo_part_def)
  have len: "length (ic_ap_req_der ctx) < 2 ^ 63" by (simp add: ctx(2) demo_der_def)
  obtain va v' S' where acc: "?A ctx va v' S'" and va: "va_client va = rs_client demo_session" "va_session_key va = rs_session_key demo_session"
      "va_authenticator_ctime va = demo_time" "va_authenticator_cusec va = 0"
    and ans: "\<And>conf ro rep. length conf = ket_confounder_len Rc4Hmac \<Longrightarrow> va_build_ap_rep_with_confounder demo_asn1 sample_prims va conf ro = Inr rep
        \<Longrightarrow> length rep < 2 ^ 63 \<Longrightarrow> \<exists>h r. ap_rep_response_header_with_confounder demo_asn1 sample_prims hexish \<lparr>ac_ap_req = va\<rparr> conf ro = Inr h
           \<and> verify_ap_rep_response_header demo_asn1 sample_prims hexish ctx h = Inr r \<and> vr_sequence_number r = aro_sequence_number ro"
    using mutual_authentication [OF sample_prims_ok demo_asn1_ok hexish_ok k _ nm fill issued ctx(1) len ready pac demo_cache
        [of "\<lambda>r. shared_from_cache Map.empty"]] ctx(4,5) by fastforce
  have rep: "va_build_ap_rep_with_confounder demo_asn1 sample_prims va (replicate 8 0) ?ro = Inr (0x6f # demo_seal [0x7b, 0])"
    using va by (simp add: demo_answer demo_session_def)
  have "va_client va = \<lparr>p_realm = ''R'', p_name_type = 1, p_components = [''a'']\<rparr>"
    using va(1) demo_realms by (simp add: client demo_client_def)
  moreover obtain h r where "?H va h" "?V ctx h r" "?Q r"
    using ans [OF _ rep] by (auto simp: ket_size_defs)
  ultimately show ?thesis using acc ctx(1) rep by blast
qed

end
