(* ===== verification/Client_Principal.thy ===== *)
theory Client_Principal
  imports Service
begin

text \<open>
  \<open>src/client/principal.rs\<close>: principals of the client and the parsing of their textual form with escaped
  separators.  A string is its UTF-8 bytes; the separators and the escape character are ASCII, so
  scanning bytes finds the same positions as scanning characters.  The record \<open>principal\<close> is that of \<open>Service\<close>: the
  two structures have the same fields.
\<close>

datatype principal_error = InvalidPrincipalName string string \<comment> \<open>value, reason\<close>

definition KRB_NT_PRINCIPAL :: i32 where
  "KRB_NT_PRINCIPAL = 1"

definition KRB_NT_SRV_INST :: i32 where
  "KRB_NT_SRV_INST = 2"

definition principal_new :: "string \<Rightarrow> i32 \<Rightarrow> string list \<Rightarrow> principal" where
  "principal_new realm name_type comps = \<lparr>p_realm = realm, p_name_type = name_type, p_components = comps\<rparr>"

definition principal_user :: "string \<Rightarrow> string \<Rightarrow> principal" where
  "principal_user realm name = principal_new realm KRB_NT_PRINCIPAL [name]"

definition tgt_service :: "string \<Rightarrow> principal" where
  "tgt_service realm = principal_new realm KRB_NT_SRV_INST [''krbtgt'', realm]"

section \<open>Scanning\<close>

text \<open>The loop over the characters with the state \<open>escaped\<close>; \<open>i\<close> is the index of the next byte.\<close>

fun separator_loop :: "char \<Rightarrow> bool \<Rightarrow> nat \<Rightarrow> string \<Rightarrow> nat list" where
  "separator_loop sep escaped i [] = []"
| "separator_loop sep escaped i (c # cs) =
     (if escaped then separator_loop sep False (i + 1) cs
      else if c = CHR 0x5C then separator_loop sep True (i + 1) cs
      else if c = sep then i # separator_loop sep False (i + 1) cs
      else separator_loop sep False (i + 1) cs)"

definition unescaped_separator_indices :: "string \<Rightarrow> char \<Rightarrow> nat list" where
  "unescaped_separator_indices value sep = separator_loop sep False 0 value"

fun unescape_loop :: "bool \<Rightarrow> string \<Rightarrow> string option" where
  "unescape_loop escaped [] = (if escaped then None else Some [])"
| "unescape_loop escaped (c # cs) =
     (if escaped then map_option (Cons c) (unescape_loop False cs)
      else if c = CHR 0x5C then unescape_loop True cs
      else map_option (Cons c) (unescape_loop False cs))"

definition unescape_principal_component :: "string \<Rightarrow> string \<Rightarrow> principal_error + string" where
  "unescape_principal_component value component =
     ok_or (unescape_loop False component) (InvalidPrincipalName value ''principal contains a trailing escape character'')"

section \<open>Parsing\<close>

definition parse_name_and_realm :: "string \<Rightarrow> principal_error + (string \<times> string)" where
  "parse_name_and_realm value =
     (if value = [] then Inl (InvalidPrincipalName value ''principal name is empty'')
      else (case unescaped_separator_indices value (CHR ''@'') of
        [separator] \<Rightarrow>
          (let name = take separator value; realm = drop (separator + 1) value in
           if name = [] then Inl (InvalidPrincipalName value ''principal name component is empty'')
           else rbind (unescape_principal_component value realm) (\<lambda>realm.
             if realm = [] then Inl (InvalidPrincipalName value ''principal realm is empty'') else Inr (name, realm)))
      | separators \<Rightarrow>
          Inl (InvalidPrincipalName value
            (if separators = [] then ''principal realm separator is missing''
             else ''principal contains more than one unescaped realm separator''))))"

fun component_loop :: "string \<Rightarrow> string \<Rightarrow> nat \<Rightarrow> nat list \<Rightarrow> principal_error + string list" where
  "component_loop value name start [] = rbind (unescape_principal_component value (drop start name)) (\<lambda>c. Inr [c])"
| "component_loop value name start (separator # separators) =
     rbind (unescape_principal_component value (slice name start separator)) (\<lambda>c.
       rbind (component_loop value name (separator + 1) separators) (\<lambda>cs. Inr (c # cs)))"

definition parse_principal_components :: "string \<Rightarrow> string \<Rightarrow> principal_error + string list" where
  "parse_principal_components value name =
     rbind (component_loop value name 0 (unescaped_separator_indices name (CHR ''/''))) (\<lambda>components.
       if list_ex (\<lambda>c. c = []) components
       then Inl (InvalidPrincipalName value ''principal contains an empty name component'')
       else Inr components)"

definition parse_user :: "string \<Rightarrow> principal_error + principal" where
  "parse_user value =
     rbind (parse_name_and_realm value) (\<lambda>(name, realm).
     rbind (parse_principal_components value name) (\<lambda>components.
       case components of
         [c] \<Rightarrow> Inr (principal_user realm c)
       | _ \<Rightarrow> Inl (InvalidPrincipalName value ''user principal must contain exactly one name component'')))"

definition parse_service :: "string \<Rightarrow> principal_error + principal" where
  "parse_service value =
     rbind (parse_name_and_realm value) (\<lambda>(name, realm).
     rbind (parse_principal_components value name) (\<lambda>components.
       if length components \<noteq> 2
       then Inl (InvalidPrincipalName value ''service principal must contain service and host components'')
       else Inr (principal_new realm KRB_NT_SRV_INST components)))"

definition host_based_service_principal :: "string \<Rightarrow> string \<Rightarrow> string \<Rightarrow> principal_error + principal" where
  "host_based_service_principal service host realm =
     (if service = [] then Inl (InvalidPrincipalName service ''host-based service name is empty'')
      else if host = [] then Inl (InvalidPrincipalName host ''host-based service host is empty'')
      else Inr (principal_new realm KRB_NT_SRV_INST [service, host]))"

definition host_based_service :: "string \<Rightarrow> string \<Rightarrow> principal_error + principal" where
  "host_based_service service host = host_based_service_principal service host []"

definition host_based_service_in_realm :: "string \<Rightarrow> string \<Rightarrow> string \<Rightarrow> principal_error + principal" where
  "host_based_service_in_realm service host realm =
     (if realm = [] then Inl (InvalidPrincipalName realm ''host-based service realm is empty'')
      else host_based_service_principal service host realm)"

section \<open>Escaped text\<close>

text \<open>The printer that parsing inverts: separators and the escape character are escaped.\<close>

definition escape_component :: "string \<Rightarrow> string" where
  "escape_component s = concat (map (\<lambda>c. if c \<in> {CHR 0x5C, CHR ''/'', CHR ''@''} then [CHR 0x5C, c] else [c]) s)"

lemma escape_component_simps [simp]:
  "escape_component [] = []"
  "escape_component (c # s) = (if c \<in> {CHR 0x5C, CHR ''/'', CHR ''@''} then [CHR 0x5C, c] else [c]) @ escape_component s"
  by (simp_all add: escape_component_def)

lemma escape_component_eq_Nil [simp]: "escape_component s = [] \<longleftrightarrow> s = []"
  by (cases s) simp_all

lemma unescape_escaped: "unescape_loop False (escape_component s) = Some s"
  by (induction s) simp_all

text \<open>An escaped part hides its separators from the scan.\<close>

lemma separator_loop_escaped:
  assumes "sep \<in> {CHR ''/'', CHR ''@''}"
  shows "separator_loop sep False i (escape_component s @ r) = separator_loop sep False (i + length (escape_component s)) r"
  using assms by (induction s arbitrary: i) (auto simp: add.assoc)

lemma separator_loop_plain:
  "separator_loop (CHR ''/'') False i (escape_component s @ CHR ''@'' # r) = separator_loop (CHR ''/'') False (i + length (escape_component s) + 1) r"
  by (simp add: separator_loop_escaped)

lemma at_sign_found:
  assumes "name = escape_component a \<or> name = escape_component a @ CHR ''/'' # escape_component b"
  shows "unescaped_separator_indices (name @ CHR ''@'' # escape_component realm) (CHR ''@'') = [length name]"
  using assms separator_loop_escaped [of "CHR ''@''" _ realm "[]"]
  by (auto simp: unescaped_separator_indices_def separator_loop_escaped)

lemma name_and_realm_escaped:
  assumes name: "name = escape_component a \<or> name = escape_component a @ CHR ''/'' # escape_component b"
    and ne: "name \<noteq> []" "realm \<noteq> []"
  shows "parse_name_and_realm (name @ CHR ''@'' # escape_component realm) = Inr (name, realm)"
  using at_sign_found [OF name, of realm] ne
  by (simp add: parse_name_and_realm_def unescape_principal_component_def unescape_escaped Let_def)

lemma one_component: "a \<noteq> [] \<Longrightarrow> parse_principal_components value (escape_component a) = Inr [a]"
  using separator_loop_escaped [of "CHR ''/''" 0 a "[]"]
  by (simp add: parse_principal_components_def unescaped_separator_indices_def unescape_principal_component_def unescape_escaped)

lemma two_components:
  assumes "a \<noteq> []" and "b \<noteq> []"
  shows "parse_principal_components value (escape_component a @ CHR ''/'' # escape_component b) = Inr [a, b]"
proof -
  let ?n = "length (escape_component a)"
  have "unescaped_separator_indices (escape_component a @ CHR ''/'' # escape_component b) (CHR ''/'') = [?n]"
    using separator_loop_escaped [of "CHR ''/''" _ b "[]"] by (simp add: unescaped_separator_indices_def separator_loop_escaped)
  then show ?thesis
    using assms by (simp add: parse_principal_components_def unescape_principal_component_def unescape_escaped slice_def)
qed

section \<open>What parsing accepts\<close>

lemma separator_loop_range: "p \<in> set (separator_loop sep e i s) \<Longrightarrow> i \<le> p \<and> p < i + length s"
  by (induction sep e i s rule: separator_loop.induct) (auto split: if_splits)

text \<open>C37: principal names survive their escaped text: a user name and a service name with a host, in any
  realm and with any characters in the parts, are parsed back from the text in which separators
  and escape characters are escaped.  Conversely an accepted text has a non-empty realm and one (two)
  non-empty components.\<close>

theorem principal_text_roundtrip:
  assumes "a \<noteq> []" and "b \<noteq> []" and "realm \<noteq> []"
  shows "parse_user (escape_component a @ CHR ''@'' # escape_component realm) = Inr (principal_user realm a)
    \<and> parse_service (escape_component a @ CHR ''/'' # escape_component b @ CHR ''@'' # escape_component realm)
        = Inr (principal_new realm KRB_NT_SRV_INST [a, b])
    \<and> (\<forall>value p. parse_user value = Inr p \<longrightarrow> p_realm p \<noteq> [] \<and> (\<exists>c. c \<noteq> [] \<and> p_components p = [c]))
    \<and> (\<forall>value p. parse_service value = Inr p \<longrightarrow> p_realm p \<noteq> [] \<and> (\<exists>c d. c \<noteq> [] \<and> d \<noteq> [] \<and> p_components p = [c, d]))"
proof (intro conjI allI impI)
  show "parse_user (escape_component a @ CHR ''@'' # escape_component realm) = Inr (principal_user realm a)"
    using name_and_realm_escaped [of "escape_component a" a] assms by (simp add: parse_user_def one_component)
  have "parse_name_and_realm ((escape_component a @ CHR ''/'' # escape_component b) @ CHR ''@'' # escape_component realm)
      = Inr (escape_component a @ CHR ''/'' # escape_component b, realm)"
    by (rule name_and_realm_escaped [of _ a b]) (use assms in simp_all)
  then show "parse_service (escape_component a @ CHR ''/'' # escape_component b @ CHR ''@'' # escape_component realm)
      = Inr (principal_new realm KRB_NT_SRV_INST [a, b])"
    using assms by (simp add: parse_service_def two_components)
next
  fix v p
  have realm: "r \<noteq> []" if "parse_name_and_realm v = Inr (n, r)" for n r
    using that by (auto simp: parse_name_and_realm_def Let_def rbind_eq_Inr split: if_splits list.splits)
  have comps: "[] \<notin> set cs" if "parse_principal_components v n = Inr cs" for n cs
    using that by (auto simp: parse_principal_components_def rbind_eq_Inr list_ex_iff split: if_splits)
  have user: "\<exists>n r c. parse_name_and_realm v = Inr (n, r) \<and> parse_principal_components v n = Inr [c] \<and> p = principal_user r c"
    if asm: "parse_user v = Inr p"
  proof -
    obtain n r cs where cs: "parse_name_and_realm v = Inr (n, r)" "parse_principal_components v n = Inr cs"
      "(case cs of [c] \<Rightarrow> Inr (principal_user r c)
        | _ \<Rightarrow> Inl (InvalidPrincipalName v ''user principal must contain exactly one name component'')) = Inr p"
      using asm unfolding parse_user_def by (elim rbindE) (auto elim!: rbindE)
    moreover obtain c where "cs = [c]" using cs(3) by (cases cs; cases "tl cs") simp_all
    ultimately show ?thesis by auto
  qed
  show "p_realm p \<noteq> []" if "parse_user v = Inr p"
    using user [OF that] realm by (auto simp: principal_user_def principal_new_def)
  show "\<exists>c. c \<noteq> [] \<and> p_components p = [c]" if "parse_user v = Inr p"
    using user [OF that] comps by (fastforce simp: principal_user_def principal_new_def)
  show "p_realm p \<noteq> []" if "parse_service v = Inr p"
    using that realm by (auto simp: parse_service_def rbind_eq_Inr principal_new_def split: if_splits)
  show "\<exists>c d. c \<noteq> [] \<and> d \<noteq> [] \<and> p_components p = [c, d]" if asm: "parse_service v = Inr p"
  proof -
    obtain n r cs where cs: "parse_principal_components v n = Inr cs" "length cs = 2" "p = principal_new r KRB_NT_SRV_INST cs"
      using asm by (auto simp: parse_service_def rbind_eq_Inr split: if_splits)
    then obtain c d where "cs = [c, d]" by (auto simp: length_Suc_conv numeral_2_eq_2)
    then show ?thesis using comps [OF cs(1)] cs(3) by (auto simp: principal_new_def)
  qed
qed

theorem principal_text_roundtrip_witness:
  "parse_user ''a@R'' = Inr (principal_user ''R'' ''a'')
    \<and> parse_service ''a/h@R'' = Inr (principal_new ''R'' KRB_NT_SRV_INST [''a'', ''h''])"
  using principal_text_roundtrip [of "''a''" "''h''" "''R''"] by simp

end
