(* ===== verification/Config_Text.thy ===== *)
theory Config_Text
  imports Unicode_Text Krb_Time
begin

text \<open>
  The string and number methods of the standard library that the configuration parser uses:
  \<open>lines\<close>, \<open>find\<close>, \<open>split_whitespace\<close>, \<open>trim_end_matches\<close>, the integer parsers, checked \<open>Duration\<close> addition and
  \<open>IpAddr::from_str\<close>.
\<close>

section \<open>Lines and words\<close>

definition strip_cr :: "string \<Rightarrow> string" where
  "strip_cr s = (if s \<noteq> [] \<and> last s = CHR 0x0D then butlast s else s)"

text \<open>A carriage return is dropped in front of a line feed only; there is no empty last line.\<close>

definition str_lines :: "string \<Rightarrow> string list" where
  "str_lines s =
     (let parts = split_on (CHR 0x0A) s in
      map strip_cr (butlast parts) @ (if last parts = [] then [] else [last parts]))"

fun str_find :: "char \<Rightarrow> string \<Rightarrow> nat option" where
  "str_find d [] = None"
| "str_find d (c # cs) = (if c = d then Some 0 else map_option Suc (str_find d cs))"

definition to_ascii_lowercase :: "string \<Rightarrow> string" where
  "to_ascii_lowercase s = map ascii_lower s"

definition trim_end_char :: "char \<Rightarrow> string \<Rightarrow> string" where
  "trim_end_char d s = rev (dropWhile (\<lambda>c. c = d) (rev s))"

text \<open>\<open>str::contains\<close> of a literal.\<close>

definition str_contains :: "string \<Rightarrow> string \<Rightarrow> bool" where
  "str_contains p s \<longleftrightarrow> list_ex (\<lambda>i. take (length p) (drop i s) = p) [0..<Suc (length s)]"

function split_ws_loop :: "string \<Rightarrow> string \<Rightarrow> string list" where
  "split_ws_loop cur [] = (if cur = [] then [] else [cur])"
| "split_ws_loop cur (c # cs) =
     (if ws_len (c # cs) = 0 then split_ws_loop (cur @ [c]) cs
      else (if cur = [] then [] else [cur]) @ split_ws_loop [] (drop (ws_len (c # cs)) (c # cs)))"
  by pat_completeness auto
termination
  by (relation "measure (\<lambda>(cur, s). length s)") auto

definition split_whitespace :: "string \<Rightarrow> string list" where
  "split_whitespace s = split_ws_loop [] s"

section \<open>Numbers\<close>

definition ascii_digit :: "char \<Rightarrow> bool" where
  "ascii_digit c \<longleftrightarrow> 48 \<le> (of_char c :: nat) \<and> (of_char c :: nat) \<le> 57"

definition ascii_alphabetic :: "char \<Rightarrow> bool" where
  "ascii_alphabetic c \<longleftrightarrow> (65 \<le> (of_char c :: nat) \<and> (of_char c :: nat) \<le> 90) \<or> (97 \<le> (of_char c :: nat) \<and> (of_char c :: nat) \<le> 122)"

definition to_digit :: "nat \<Rightarrow> char \<Rightarrow> nat option" where
  "to_digit radix c =
     (let n = of_char c;
          d = (if 48 \<le> n \<and> n \<le> 57 then n - 48
               else if 65 \<le> n \<and> n \<le> 90 then n - 55
               else if 97 \<le> n \<and> n \<le> 122 then n - 87 else radix)
      in if d < radix then Some d else None)"

fun digits_loop :: "nat \<Rightarrow> nat \<Rightarrow> string \<Rightarrow> nat option" where
  "digits_loop radix acc [] = Some acc"
| "digits_loop radix acc (c # cs) = Option.bind (to_digit radix c) (\<lambda>d. digits_loop radix (acc * radix + d) cs)"

definition digits_value :: "nat \<Rightarrow> string \<Rightarrow> nat option" where
  "digits_value radix s = (if s = [] then None else digits_loop radix 0 s)"

definition strip_plus :: "string \<Rightarrow> string" where
  "strip_plus s = (case s of c # r \<Rightarrow> if c = CHR ''+'' then r else s | [] \<Rightarrow> s)"

definition parse_unsigned :: "nat \<Rightarrow> nat \<Rightarrow> string \<Rightarrow> nat option" where
  "parse_unsigned bits radix s =
     Option.bind (digits_value radix (strip_plus s)) (\<lambda>n. if n < 2 ^ bits then Some n else None)"

definition parse_u64 :: "string \<Rightarrow> nat option" where
  "parse_u64 s = parse_unsigned 64 10 s"

definition parse_i32_str :: "string \<Rightarrow> i32 option" where
  "parse_i32_str s =
     (case s of
        c # r \<Rightarrow>
          if c = CHR ''-''
          then Option.bind (digits_value 10 r) (\<lambda>n. if n \<le> 2 ^ 31 then Some (- word_of_nat n) else None)
          else Option.bind (digits_value 10 (strip_plus s)) (\<lambda>n. if n < 2 ^ 31 then Some (word_of_nat n) else None)
      | [] \<Rightarrow> None)"

text \<open>A \<open>Duration\<close> holds less than \<open>2 ^ 64\<close> seconds.\<close>

definition dur_checked_add :: "duration \<Rightarrow> duration \<Rightarrow> duration option" where
  "dur_checked_add a b = (if a + b < 2 ^ 64 * 1000000000 then Some (a + b) else None)"

definition u64_checked_mul :: "nat \<Rightarrow> nat \<Rightarrow> nat option" where
  "u64_checked_mul a b = (if a * b < 2 ^ 64 then Some (a * b) else None)"

definition u64_checked_add :: "nat \<Rightarrow> nat \<Rightarrow> nat option" where
  "u64_checked_add a b = (if a + b < 2 ^ 64 then Some (a + b) else None)"

section \<open>IP addresses\<close>

datatype ip_addr = V4 "u8 list" | V6 "u16 list"

text \<open>The parser of \<open>core::net\<close>: every reader takes the rest of the input and returns a value with the new rest.\<close>

type_synonym 'a ip_read = "string \<Rightarrow> ('a \<times> string) option"

definition ip_char :: "char \<Rightarrow> unit ip_read" where
  "ip_char d s = (case s of c # r \<Rightarrow> if c = d then Some ((), r) else None | [] \<Rightarrow> None)"

definition ip_number :: "nat \<Rightarrow> nat \<Rightarrow> nat \<Rightarrow> bool \<Rightarrow> nat ip_read" where
  "ip_number radix max_digits bound allow_zero_prefix s =
     (let ds = takeWhile (\<lambda>c. to_digit radix c \<noteq> None) s in
      Option.bind (digits_value radix ds) (\<lambda>n.
        if length ds > max_digits \<or> n > bound \<or> (\<not> allow_zero_prefix \<and> hd ds = CHR ''0'' \<and> length ds > 1) then None
        else Some (n, drop (length ds) s)))"

definition ip_separator :: "char \<Rightarrow> nat \<Rightarrow> 'a ip_read \<Rightarrow> 'a ip_read" where
  "ip_separator d i inner s = (if i > 0 then Option.bind (ip_char d s) (\<lambda>(_, r). inner r) else inner s)"

fun ip_v4_loop :: "nat \<Rightarrow> nat \<Rightarrow> u8 list ip_read" where
  "ip_v4_loop 0 i s = Some ([], s)"
| "ip_v4_loop (Suc k) i s =
     Option.bind (ip_separator (CHR ''.'') i (ip_number 10 3 255 False) s) (\<lambda>(n, r).
       Option.bind (ip_v4_loop k (i + 1) r) (\<lambda>(ns, r). Some (word_of_nat n # ns, r)))"

definition ip_v4 :: "u8 list ip_read" where
  "ip_v4 s = ip_v4_loop 4 0 s"

definition v4_groups :: "u8 list \<Rightarrow> u16 list" where
  "v4_groups a = [from_bytes_en Big (take 2 a), from_bytes_en Big (drop 2 a)]"

text \<open>Reads up to \<open>k\<close> further groups behind the \<open>i\<close> already read; the flag tells whether an embedded IPv4
  address ended them.\<close>

fun ip_groups :: "nat \<Rightarrow> nat \<Rightarrow> string \<Rightarrow> u16 list \<times> bool \<times> string" where
  "ip_groups 0 i s = ([], False, s)"
| "ip_groups (Suc k) i s =
     (case (if k > 0 then ip_separator (CHR '':'') i ip_v4 s else None) of
        Some (a, r) \<Rightarrow> (v4_groups a, True, r)
      | None \<Rightarrow>
          (case ip_separator (CHR '':'') i (ip_number 16 4 65535 True) s of
             None \<Rightarrow> ([], False, s)
           | Some (n, r) \<Rightarrow> (case ip_groups k (i + 1) r of (ns, v4, r) \<Rightarrow> (word_of_nat n # ns, v4, r))))"

definition ip_v6 :: "u16 list ip_read" where
  "ip_v6 s =
     (case ip_groups 8 0 s of (head, v4, r) \<Rightarrow>
        if length head = 8 then Some (head, r)
        else if v4 then None
        else Option.bind (ip_char (CHR '':'') r) (\<lambda>(_, r). Option.bind (ip_char (CHR '':'') r) (\<lambda>(_, r).
          case ip_groups (8 - (length head + 1)) 0 r of (tail, _, r) \<Rightarrow>
            Some (head @ replicate (8 - length head - length tail) 0 @ tail, r))))"

definition parse_ip_addr :: "string \<Rightarrow> ip_addr option" where
  "parse_ip_addr s =
     (case ip_v4 s of
        Some (a, r) \<Rightarrow> if r = [] then Some (V4 a) else None
      | None \<Rightarrow> (case ip_v6 s of Some (g, r) \<Rightarrow> if r = [] then Some (V6 g) else None | None \<Rightarrow> None))"

section \<open>Lemmas\<close>

lemma dropWhile_shorter: "takeWhile P xs \<noteq> [] \<Longrightarrow> length (dropWhile P xs) < length xs"
  by (cases xs) (auto simp: le_imp_less_Suc length_dropWhile_le split: if_splits)

lemma ascii_lower_idem [simp]: "ascii_lower (ascii_lower c) = ascii_lower c"
proof (cases "65 \<le> (of_char c :: nat) \<and> (of_char c :: nat) \<le> 90")
  case True
  then have "of_char (char_of ((of_char c :: nat) + 32) :: char) = (of_char c :: nat) + 32"
    by (simp add: of_char_of take_bit_nat_eq_self)
  then show ?thesis using True by (simp add: ascii_lower_def)
next
  case False
  then have "ascii_lower c = c" unfolding ascii_lower_def by (rule if_not_P)
  then show ?thesis by simp
qed

lemma to_ascii_lowercase_idem [simp]: "to_ascii_lowercase (to_ascii_lowercase s) = to_ascii_lowercase s"
  by (simp add: to_ascii_lowercase_def comp_def)

lemma to_digit_dec: "ascii_digit c \<Longrightarrow> to_digit 10 c = Some (of_char c - 48)"
  by (auto simp: to_digit_def ascii_digit_def Let_def)

lemma digits_loop_dec:
  "list_all ascii_digit s \<Longrightarrow> digits_loop 10 acc s = Some (foldl (\<lambda>v c. v * 10 + (of_char c - 48)) acc s)"
  by (induction s arbitrary: acc) (auto simp: to_digit_dec)

lemma dec_str_ascii_digits: "list_all ascii_digit (dec_str n)"
  using dec_str_digits [of _ n] by (auto simp: list_all_iff ascii_digit_def)

lemma dec_str_not_Nil [simp]: "dec_str n \<noteq> []"
  by (subst dec_str.simps) simp

lemma ascii_digit_plus: "\<not> ascii_digit (CHR ''+'')"
  by (simp add: ascii_digit_def)

lemma strip_plus_dec_str [simp]: "strip_plus (dec_str n) = dec_str n"
  using dec_str_ascii_digits [of n] ascii_digit_plus by (cases "dec_str n") (auto simp: strip_plus_def)

lemma parse_u64_dec_str: "n < 2 ^ 64 \<Longrightarrow> parse_u64 (dec_str n) = Some n"
  using digits_loop_dec [OF dec_str_ascii_digits, of 0 n] dec_val_dec_str [of n]
  by (simp add: parse_u64_def parse_unsigned_def digits_value_def dec_val_def)

end
