(* ===== verification/Config.thy ===== *)
theory Config
  imports Config_Text
begin

text \<open>
  \<open>src/config.rs\<close>: the \<open>krb5.conf\<close> parser and the lookups on a parsed configuration.  The environment
  variables that give defaults are the argument \<open>env\<close>; reading the files is left to the caller (\<open>load_paths\<close>
  takes their contents).
\<close>

section \<open>Data\<close>

definition DEFAULT_ENCTYPES :: "string list" where
  "DEFAULT_ENCTYPES = [''aes256-cts-hmac-sha1-96'', ''aes128-cts-hmac-sha1-96'', ''des3-cbc-sha1'', ''arcfour-hmac-md5'',
     ''camellia256-cts-cmac'', ''camellia128-cts-cmac'', ''des-cbc-crc'', ''des-cbc-md5'', ''des-cbc-md4'']"

definition DEFAULT_PREAUTH_TYPES :: "i32 list" where
  "DEFAULT_PREAUTH_TYPES = [17, 16, 15, 14]"

record lib_defaults =
  ld_allow_weak_crypto :: bool
  ld_canonicalize :: bool
  ld_ccache_type :: i32
  ld_clockskew :: duration
  ld_default_ccache_name :: string
  ld_default_client_keytab_name :: string
  ld_default_keytab_name :: string
  ld_default_realm :: string
  ld_default_tgs_enctypes :: "string list"
  ld_default_tkt_enctypes :: "string list"
  ld_default_tgs_enctype_ids :: "i32 list"
  ld_default_tkt_enctype_ids :: "i32 list"
  ld_dns_canonicalize_hostname :: bool
  ld_dns_lookup_kdc :: bool
  ld_dns_lookup_realm :: bool
  ld_extra_addresses :: "ip_addr list"
  ld_forwardable :: bool
  ld_ignore_acceptor_hostname :: bool
  ld_k5login_authoritative :: bool
  ld_k5login_directory :: string
  ld_kdc_default_options :: u32
  ld_kdc_time_sync :: i32
  ld_no_addresses :: bool
  ld_permitted_enctypes :: "string list"
  ld_permitted_enctype_ids :: "i32 list"
  ld_preferred_preauth_types :: "i32 list"
  ld_proxiable :: bool
  ld_rdns :: bool
  ld_realm_try_domains :: i32
  ld_renew_lifetime :: duration
  ld_safe_checksum_type :: i32
  ld_ticket_lifetime :: duration
  ld_udp_preference_limit :: i32
  ld_verify_ap_req_nofail :: bool

record realm =
  rlm_realm :: string
  rlm_admin_server :: "string list"
  rlm_default_domain :: string
  rlm_kdc :: "string list"
  rlm_kpasswd_server :: "string list"
  rlm_master_kdc :: "string list"

record config =
  cfg_libdefaults :: lib_defaults
  cfg_realms :: "realm list"
  cfg_domain_realm :: "string \<rightharpoonup> string"

datatype config_error =
    ConfigIo io_fault
  | DefaultConfigName
  | EmptyConfigPathList
  | NoDefaultConfig
  | InvalidLine string nat string
  | UnsupportedDirective string
  | InvalidBoolean string
  | InvalidDuration string
  | DurationOverflow string
  | InvalidInteger nat string string \<comment> \<open>line, key, value\<close>
  | InvalidIpAddress nat string string
  | InvalidRealmsSection string
  | NoRealm string
  | NoKdc string
  | NoKpasswdServer string

record conf_line =
  ln_number :: nat
  ln_text :: string

datatype section_kind = SecLibDefaults | SecRealms | SecDomainRealm | SecUnknown

section \<open>Values\<close>

text \<open>One round of the loop per number with its unit.\<close>

function unit_duration_loop :: "string \<Rightarrow> string \<Rightarrow> duration \<Rightarrow> config_error + duration" where
  "unit_duration_loop original rest acc =
     (if rest = [] then Inr acc
      else let digits = takeWhile ascii_digit rest; tail = dropWhile ascii_digit rest in
        if digits = [] then Inl (InvalidDuration original)
        else rbind (ok_or (parse_u64 digits) (InvalidDuration original)) (\<lambda>number.
          let unit = takeWhile ascii_alphabetic tail in
          rbind (if unit = ''h'' then ok_or (u64_checked_mul number (60 * 60)) (DurationOverflow original)
                 else if unit = ''m'' then ok_or (u64_checked_mul number 60) (DurationOverflow original)
                 else if unit = ''s'' then Inr number
                 else Inl (InvalidDuration original)) (\<lambda>seconds.
          rbind (ok_or (dur_checked_add acc (from_secs seconds)) (DurationOverflow original)) (\<lambda>acc.
            unit_duration_loop original (dropWhile ascii_alphabetic tail) acc))))"
  by pat_completeness auto
termination
proof (relation "measure (\<lambda>(original, rest, acc). length rest)", goal_cases)
  case (2 original rest acc digits tail number unit seconds acc')
  have "length (dropWhile ascii_alphabetic (dropWhile ascii_digit rest)) \<le> length (dropWhile ascii_digit rest)"
    by (rule length_dropWhile_le)
  also have "length (dropWhile ascii_digit rest) < length rest"
    by (rule dropWhile_shorter) (use 2 in simp)
  finally show ?case using 2 by simp
qed simp

declare unit_duration_loop.simps [simp del]

definition parse_unit_duration :: "string \<Rightarrow> string \<Rightarrow> config_error + duration" where
  "parse_unit_duration input original =
     (if input = [] then Inl (InvalidDuration original) else unit_duration_loop original input 0)"

definition parse_colon_duration :: "string \<Rightarrow> string \<Rightarrow> config_error + duration" where
  "parse_colon_duration input original =
     (let parts = split_on (CHR '':'') input in
      if \<not> (2 \<le> length parts \<and> length parts \<le> 3) then Inl (InvalidDuration original)
      else rbind (ok_or (parse_u64 (parts ! 0)) (InvalidDuration original)) (\<lambda>hours.
        rbind (ok_or (parse_u64 (parts ! 1)) (InvalidDuration original)) (\<lambda>minutes.
        rbind (if length parts = 3 then ok_or (parse_u64 (parts ! 2)) (InvalidDuration original) else Inr 0) (\<lambda>seconds.
          ok_or (map_option from_secs
            (Option.bind (u64_checked_mul hours (60 * 60)) (\<lambda>v.
             Option.bind (u64_checked_mul minutes 60) (\<lambda>w.
             Option.bind (u64_checked_add v w) (\<lambda>v. u64_checked_add v seconds))))) (DurationOverflow original)))))"

definition parse_duration :: "string \<Rightarrow> config_error + duration" where
  "parse_duration value =
     (let normalized = concat (split_whitespace value) in
      if normalized = [] then Inl (InvalidDuration value)
      else (case split_once (CHR ''d'') normalized of
        Some (days, rest) \<Rightarrow>
          rbind (ok_or (parse_u64 days) (InvalidDuration value)) (\<lambda>days.
          rbind (ok_or (u64_checked_mul days (24 * 60 * 60)) (DurationOverflow value)) (\<lambda>day_seconds.
            if rest = [] then Inr (from_secs day_seconds)
            else rbind (parse_unit_duration rest value) (\<lambda>more.
              ok_or (dur_checked_add (from_secs day_seconds) more) (DurationOverflow value))))
      | None \<Rightarrow>
          (case parse_unit_duration normalized value of
             Inr duration \<Rightarrow> Inr duration
           | Inl _ \<Rightarrow>
               (case parse_u64 normalized of
                  Some seconds \<Rightarrow>
                    if seconds > 0 then Inr (from_secs seconds)
                    else if CHR '':'' \<in> set normalized then parse_colon_duration normalized value
                    else Inl (InvalidDuration value)
                | None \<Rightarrow>
                    if CHR '':'' \<in> set normalized then parse_colon_duration normalized value
                    else Inl (InvalidDuration value)))))"

definition parse_boolean :: "string \<Rightarrow> config_error + bool" where
  "parse_boolean value =
     (let v = to_ascii_lowercase (trim value) in
      if v \<in> set [''1'', ''t'', ''true'', ''y'', ''yes''] then Inr True
      else if v \<in> set [''0'', ''f'', ''false'', ''n'', ''no''] then Inr False
      else Inl (InvalidBoolean value))"

definition supported_enctype_id :: "string \<Rightarrow> i32 option" where
  "supported_enctype_id value =
     (let v = to_ascii_lowercase value in
      if v \<in> set [''aes128-cts-hmac-sha1-96'', ''aes128-cts'', ''aes128-sha1''] then Some 17
      else if v \<in> set [''aes256-cts-hmac-sha1-96'', ''aes256-cts'', ''aes256-sha1''] then Some 18
      else if v \<in> set [''aes128-cts-hmac-sha256-128'', ''aes128-sha2''] then Some 19
      else if v \<in> set [''aes256-cts-hmac-sha384-192'', ''aes256-sha2''] then Some 20
      else if v = ''des3-cbc-sha1-kd'' then Some 16
      else if v \<in> set [''arcfour-hmac'', ''rc4-hmac'', ''arcfour-hmac-md5''] then Some 23
      else None)"

definition is_weak_enctype :: "string \<Rightarrow> bool" where
  "is_weak_enctype value \<longleftrightarrow> to_ascii_lowercase value \<in> set [''des-cbc-crc'', ''des-cbc-md4'', ''des-cbc-md5'', ''des-cbc-raw'',
     ''des3-cbc-raw'', ''des-hmac-sha1'', ''arcfour-hmac-exp'', ''rc4-hmac-exp'', ''arcfour-hmac-md5-exp'', ''des'']"

definition parse_supported_enctype_ids :: "string list \<Rightarrow> bool \<Rightarrow> i32 list" where
  "parse_supported_enctype_ids enctypes allow_weak_crypto =
     List.map_filter supported_enctype_id (filter (\<lambda>name. allow_weak_crypto \<or> \<not> is_weak_enctype name) enctypes)"

definition conf_parse_i32 :: "string \<Rightarrow> conf_line \<Rightarrow> string \<Rightarrow> config_error + i32" where
  "conf_parse_i32 value line key = ok_or (parse_i32_str value) (InvalidInteger (ln_number line) key value)"

fun conf_i32_loop :: "conf_line \<Rightarrow> string \<Rightarrow> string list \<Rightarrow> config_error + i32 list" where
  "conf_i32_loop line key [] = Inr []"
| "conf_i32_loop line key (part # parts) =
     rbind (conf_parse_i32 (trim part) line key) (\<lambda>n. rbind (conf_i32_loop line key parts) (\<lambda>ns. Inr (n # ns)))"

text \<open>The separators of the list are a comma, a space and a tab; equal ones are made commas first.\<close>

definition parse_i32_list :: "string \<Rightarrow> conf_line \<Rightarrow> string \<Rightarrow> config_error + i32 list" where
  "parse_i32_list value line key =
     conf_i32_loop line key (filter (\<lambda>part. trim part \<noteq> [])
       (split_on (CHR '','') (map (\<lambda>c. if c = CHR '' '' \<or> c = CHR 0x09 then CHR '','' else c) value)))"

fun trim_0x :: "string \<Rightarrow> string" where
  "trim_0x (a # b # r) = (if a = CHR ''0'' \<and> b = CHR ''x'' then trim_0x r else a # b # r)"
| "trim_0x s = s"

definition parse_hex_u32 :: "string \<Rightarrow> conf_line \<Rightarrow> string \<Rightarrow> config_error + u32" where
  "parse_hex_u32 value line key =
     (let value = trim_0x (trim value) in
      ok_or (map_option word_of_nat (parse_unsigned 32 16 value)) (InvalidInteger (ln_number line) key value))"

definition parse_ip_addresses :: "string \<Rightarrow> ip_addr list" where
  "parse_ip_addresses value = List.map_filter (\<lambda>part. parse_ip_addr (trim part)) (split_on (CHR '','') value)"

definition parse_words :: "string \<Rightarrow> string list" where
  "parse_words value = split_whitespace value"

section \<open>Libdefaults\<close>

definition refresh_enctype_ids :: "lib_defaults \<Rightarrow> lib_defaults" where
  "refresh_enctype_ids d = d\<lparr>
     ld_default_tgs_enctype_ids := parse_supported_enctype_ids (ld_default_tgs_enctypes d) (ld_allow_weak_crypto d),
     ld_default_tkt_enctype_ids := parse_supported_enctype_ids (ld_default_tkt_enctypes d) (ld_allow_weak_crypto d),
     ld_permitted_enctype_ids := parse_supported_enctype_ids (ld_permitted_enctypes d) (ld_allow_weak_crypto d)\<rparr>"

definition lib_defaults_new :: "(string \<Rightarrow> string option) \<Rightarrow> lib_defaults" where
  "lib_defaults_new env = refresh_enctype_ids \<lparr>
     ld_allow_weak_crypto = False, ld_canonicalize = False, ld_ccache_type = 4, ld_clockskew = from_secs 300,
     ld_default_ccache_name = [],
     ld_default_client_keytab_name =
       ''/usr/local/var/krb5/user/'' @ (case env ''UID'' of Some u \<Rightarrow> u | None \<Rightarrow> ''0'') @ ''/client.keytab'',
     ld_default_keytab_name = ''/etc/krb5.keytab'', ld_default_realm = [],
     ld_default_tgs_enctypes = DEFAULT_ENCTYPES, ld_default_tkt_enctypes = DEFAULT_ENCTYPES,
     ld_default_tgs_enctype_ids = [], ld_default_tkt_enctype_ids = [],
     ld_dns_canonicalize_hostname = True, ld_dns_lookup_kdc = False, ld_dns_lookup_realm = False,
     ld_extra_addresses = [], ld_forwardable = False, ld_ignore_acceptor_hostname = False,
     ld_k5login_authoritative = False, ld_k5login_directory = (case env ''HOME'' of Some h \<Rightarrow> h | None \<Rightarrow> []),
     ld_kdc_default_options = 0x10, ld_kdc_time_sync = 1, ld_no_addresses = True,
     ld_permitted_enctypes = DEFAULT_ENCTYPES, ld_permitted_enctype_ids = [],
     ld_preferred_preauth_types = DEFAULT_PREAUTH_TYPES, ld_proxiable = False, ld_rdns = True,
     ld_realm_try_domains = - 1, ld_renew_lifetime = 0, ld_safe_checksum_type = 8,
     ld_ticket_lifetime = from_secs (24 * 60 * 60), ld_udp_preference_limit = 1465, ld_verify_ap_req_nofail = False\<rparr>"

definition parse_assignment :: "conf_line \<Rightarrow> string \<Rightarrow> config_error + (string \<times> string)" where
  "parse_assignment line sec =
     rbind (ok_or (split_once (CHR ''='') (ln_text line)) (InvalidLine sec (ln_number line) (ln_text line))) (\<lambda>(key, value).
       Inr (trim key, trim value))"

definition V4_UNSUPPORTED :: config_error where
  "V4_UNSUPPORTED = UnsupportedDirective ''v4 configurations are not supported''"

text \<open>The match on the key of one line.\<close>

definition lib_defaults_set :: "lib_defaults \<Rightarrow> conf_line \<Rightarrow> string \<Rightarrow> string \<Rightarrow> config_error + lib_defaults" where
  "lib_defaults_set d line key value =
     (let bool = (\<lambda>f. rbind (parse_boolean value) (\<lambda>b. Inr (f (\<lambda>_. b) d)));
          int = (\<lambda>f. rbind (conf_parse_i32 value line key) (\<lambda>n. Inr (f (\<lambda>_. n) d)));
          dur = (\<lambda>f. rbind (parse_duration value) (\<lambda>t. Inr (f (\<lambda>_. t) d)));
          str = (\<lambda>f. Inr (f (\<lambda>_. value) d));
          words = (\<lambda>f. Inr (f (\<lambda>_. parse_words value) d))
      in if key = ''allow_weak_crypto'' then bool ld_allow_weak_crypto_update
      else if key = ''canonicalize'' then bool ld_canonicalize_update
      else if key = ''ccache_type'' then int ld_ccache_type_update
      else if key = ''clockskew'' then dur ld_clockskew_update
      else if key = ''default_ccache_name'' then str ld_default_ccache_name_update
      else if key = ''default_client_keytab_name'' then str ld_default_client_keytab_name_update
      else if key = ''default_keytab_name'' then str ld_default_keytab_name_update
      else if key = ''default_realm'' then str ld_default_realm_update
      else if key = ''default_tgs_enctypes'' then words ld_default_tgs_enctypes_update
      else if key = ''default_tkt_enctypes'' then words ld_default_tkt_enctypes_update
      else if key = ''dns_canonicalize_hostname'' then bool ld_dns_canonicalize_hostname_update
      else if key = ''dns_lookup_kdc'' then bool ld_dns_lookup_kdc_update
      else if key = ''dns_lookup_realm'' then bool ld_dns_lookup_realm_update
      else if key = ''extra_addresses'' then Inr (d\<lparr>ld_extra_addresses := parse_ip_addresses value\<rparr>)
      else if key = ''forwardable'' then bool ld_forwardable_update
      else if key = ''ignore_acceptor_hostname'' then bool ld_ignore_acceptor_hostname_update
      else if key = ''k5login_authoritative'' then bool ld_k5login_authoritative_update
      else if key = ''k5login_directory'' then str ld_k5login_directory_update
      else if key = ''kdc_default_options'' then rbind (parse_hex_u32 value line key) (\<lambda>n. Inr (d\<lparr>ld_kdc_default_options := n\<rparr>))
      else if key = ''kdc_timesync'' then int ld_kdc_time_sync_update
      else if key = ''noaddresses'' \<or> key = ''no_addresses'' then bool ld_no_addresses_update
      else if key = ''permitted_enctypes'' then words ld_permitted_enctypes_update
      else if key = ''preferred_preauth_types'' then rbind (parse_i32_list value line key) (\<lambda>ns. Inr (d\<lparr>ld_preferred_preauth_types := ns\<rparr>))
      else if key = ''proxiable'' then bool ld_proxiable_update
      else if key = ''rdns'' then bool ld_rdns_update
      else if key = ''realm_try_domains'' then int ld_realm_try_domains_update
      else if key = ''renew_lifetime'' then dur ld_renew_lifetime_update
      else if key = ''safe_checksum_type'' then int ld_safe_checksum_type_update
      else if key = ''ticket_lifetime'' then dur ld_ticket_lifetime_update
      else if key = ''udp_preference_limit'' then int ld_udp_preference_limit_update
      else if key = ''verify_ap_req_nofail'' then bool ld_verify_ap_req_nofail_update
      else Inr d)"

fun lib_defaults_loop :: "lib_defaults \<Rightarrow> conf_line list \<Rightarrow> config_error + lib_defaults" where
  "lib_defaults_loop d [] = Inr d"
| "lib_defaults_loop d (line # lines) =
     rbind (parse_assignment line ''libdefaults'') (\<lambda>(key, value).
     let key = to_ascii_lowercase key in
     if str_contains ''v4_'' key then Inl V4_UNSUPPORTED
     else rbind (lib_defaults_set d line key value) (\<lambda>d. lib_defaults_loop d lines))"

definition lib_defaults_parse_lines :: "lib_defaults \<Rightarrow> conf_line list \<Rightarrow> config_error + lib_defaults" where
  "lib_defaults_parse_lines d lines = rbind (lib_defaults_loop d lines) (\<lambda>d. Inr (refresh_enctype_ids d))"

section \<open>Realms\<close>

definition add_default_port :: "string \<Rightarrow> nat \<Rightarrow> string" where
  "add_default_port value port =
     (let trimmed = trim value;
          final_marker = (trimmed \<noteq> [] \<and> last trimmed = CHR ''*'');
          host = trim (trim_end_char (CHR ''*'') trimmed)
      in if CHR '':'' \<in> set host then (if final_marker then host @ ''*'' else host)
         else if final_marker then host @ '':'' @ dec_str port @ ''*''
         else host @ '':'' @ dec_str port)"

definition append_until_final :: "string list \<Rightarrow> string \<Rightarrow> bool \<Rightarrow> string list \<times> bool" where
  "append_until_final values value final_seen =
     (if final_seen then (values, final_seen)
      else let value = trim value in
        if value \<noteq> [] \<and> last value = CHR ''*'' then (values @ [trim_end (butlast value)], True)
        else (values @ [value], final_seen))"

definition realm_new :: "string \<Rightarrow> realm" where
  "realm_new name = \<lparr>rlm_realm = name, rlm_admin_server = [], rlm_default_domain = [], rlm_kdc = [],
     rlm_kpasswd_server = [], rlm_master_kdc = []\<rparr>"

text \<open>The loop of \<open>Realm::parse\<close> with its four flags (admin, kdc, kpasswd, master).\<close>

fun realm_loop :: "realm \<Rightarrow> bool \<times> bool \<times> bool \<times> bool \<Rightarrow> conf_line list \<Rightarrow> config_error + realm" where
  "realm_loop r flags [] = Inr r"
| "realm_loop r (af, kf, pf, mf) (line # lines) =
     rbind (parse_assignment line ''realms'') (\<lambda>(key, value).
     let key = to_ascii_lowercase key in
     if str_contains ''v4_'' key then Inl V4_UNSUPPORTED
     else if key = ''admin_server''
     then (case append_until_final (rlm_admin_server r) value af of (vs, af) \<Rightarrow> realm_loop (r\<lparr>rlm_admin_server := vs\<rparr>) (af, kf, pf, mf) lines)
     else if key = ''default_domain'' then realm_loop (r\<lparr>rlm_default_domain := value\<rparr>) (af, kf, pf, mf) lines
     else if key = ''kdc''
     then (case append_until_final (rlm_kdc r) (add_default_port value 88) kf of (vs, kf) \<Rightarrow> realm_loop (r\<lparr>rlm_kdc := vs\<rparr>) (af, kf, pf, mf) lines)
     else if key = ''kpasswd_server''
     then (case append_until_final (rlm_kpasswd_server r) value pf of (vs, pf) \<Rightarrow> realm_loop (r\<lparr>rlm_kpasswd_server := vs\<rparr>) (af, kf, pf, mf) lines)
     else if key = ''master_kdc''
     then (case append_until_final (rlm_master_kdc r) value mf of (vs, mf) \<Rightarrow> realm_loop (r\<lparr>rlm_master_kdc := vs\<rparr>) (af, kf, pf, mf) lines)
     else realm_loop r (af, kf, pf, mf) lines)"

definition realm_parse :: "string \<Rightarrow> conf_line list \<Rightarrow> config_error + realm" where
  "realm_parse name lines =
     rbind (realm_loop (realm_new name) (False, False, False, False) lines) (\<lambda>r.
       Inr (if rlm_kpasswd_server r = []
            then r\<lparr>rlm_kpasswd_server := map (\<lambda>admin. hd (split_on (CHR '':'') admin) @ '':464'') (rlm_admin_server r)\<rparr>
            else r))"

definition brace_delta :: "string \<Rightarrow> int" where
  "brace_delta value = int (count_list value (CHR ''{'')) - int (count_list value (CHR ''}''))"

text \<open>The inner loop of \<open>parse_realms\<close>: the lines of the block, its depth at the end and the lines behind it.\<close>

fun realm_block :: "int \<Rightarrow> conf_line list \<Rightarrow> conf_line list \<Rightarrow> config_error + (conf_line list \<times> int \<times> conf_line list)" where
  "realm_block depth block [] = Inr (block, depth, [])"
| "realm_block depth block (line # lines) =
     (if depth \<le> 0 then Inr (block, depth, line # lines)
      else let t = trim (ln_text line);
               block = (if depth = 1 \<and> \<not> (t \<noteq> [] \<and> hd t = CHR ''}'') then block @ [line] else block);
               depth = depth + brace_delta (ln_text line)
           in if depth < 0 then Inl (InvalidRealmsSection ''unpaired closing brace'')
              else realm_block depth block lines)"

lemma realm_block_length: "realm_block depth block lines = Inr (b, d, rest) \<Longrightarrow> length rest \<le> length lines"
  by (induction lines arbitrary: depth block) (auto simp: Let_def intro: le_SucI split: if_splits)

function parse_realms :: "conf_line list \<Rightarrow> config_error + realm list" where
  "parse_realms [] = Inr []"
| "parse_realms (line # lines) =
     rbind (parse_assignment line ''realms'') (\<lambda>(name, value).
     if CHR ''{'' \<notin> set value
     then Inl (InvalidRealmsSection (''realm block for '' @ name @ '' does not start with '' @ [CHR 0x27, CHR ''{'', CHR 0x27]))
     else if brace_delta value < 0 then Inl (InvalidRealmsSection ''unpaired closing brace'')
     else rbind (realm_block (brace_delta value) [] lines) (\<lambda>(block, depth, rest).
       if depth \<noteq> 0 then Inl (InvalidRealmsSection (''realm block for '' @ name @ '' is not closed''))
       else rbind (realm_parse name block) (\<lambda>r. rbind (parse_realms rest) (\<lambda>rs. Inr (r # rs)))))"
  by pat_completeness auto
termination
  by (relation "measure length") (auto simp: le_imp_less_Suc realm_block_length)

fun parse_domain_realm :: "(string \<rightharpoonup> string) \<Rightarrow> conf_line list \<Rightarrow> config_error + (string \<rightharpoonup> string)" where
  "parse_domain_realm m [] = Inr m"
| "parse_domain_realm m (line # lines) =
     rbind (parse_assignment line ''domain_realm'') (\<lambda>(domain, realm). parse_domain_realm (m(to_ascii_lowercase domain \<mapsto> realm)) lines)"

section \<open>The parser\<close>

definition config_new :: "(string \<Rightarrow> string option) \<Rightarrow> config" where
  "config_new env = \<lparr>cfg_libdefaults = lib_defaults_new env, cfg_realms = [], cfg_domain_realm = Map.empty\<rparr>"

definition section_kind_parse :: "string \<Rightarrow> section_kind option" where
  "section_kind_parse line =
     Option.bind (str_find (CHR '']'') line) (\<lambda>close.
       case line of
         c # rest \<Rightarrow>
           if c = CHR ''['' then
             (let sec = to_ascii_lowercase (trim (take (close - 1) rest)) in
              Some (if sec = ''libdefaults'' then SecLibDefaults
                    else if sec = ''realms'' then SecRealms
                    else if sec = ''domain_realm'' then SecDomainRealm
                    else SecUnknown))
           else None
       | [] \<Rightarrow> None)"

definition apply_section :: "config \<Rightarrow> section_kind \<Rightarrow> conf_line list \<Rightarrow> config_error + config" where
  "apply_section c sec lines =
     (case sec of
        SecLibDefaults \<Rightarrow> rbind (lib_defaults_parse_lines (cfg_libdefaults c) lines) (\<lambda>d. Inr (c\<lparr>cfg_libdefaults := d\<rparr>))
      | SecRealms \<Rightarrow> rbind (parse_realms lines) (\<lambda>rs. Inr (c\<lparr>cfg_realms := rs\<rparr>))
      | SecDomainRealm \<Rightarrow> rbind (parse_domain_realm (cfg_domain_realm c) lines) (\<lambda>m. Inr (c\<lparr>cfg_domain_realm := m\<rparr>))
      | SecUnknown \<Rightarrow> Inr c)"

definition strip_comments :: "string \<Rightarrow> string" where
  "strip_comments line =
     (case (str_find (CHR ''#'') line, str_find (CHR '';'') line) of
        (Some l, Some r) \<Rightarrow> take (min l r) line
      | (Some i, None) \<Rightarrow> take i line
      | (None, Some i) \<Rightarrow> take i line
      | (None, None) \<Rightarrow> line)"

text \<open>The loop over the lines: the configuration so far, the current section and its lines.\<close>

fun config_loop :: "config \<Rightarrow> section_kind \<Rightarrow> conf_line list \<Rightarrow> nat \<Rightarrow> string list \<Rightarrow> config_error + config" where
  "config_loop c current lines index [] = apply_section c current lines"
| "config_loop c current lines index (raw # raws) =
     (let cleaned = trim (strip_comments raw) in
      if cleaned = [] then config_loop c current lines (index + 1) raws
      else (case section_kind_parse cleaned of
        Some sec \<Rightarrow> rbind (apply_section c current lines) (\<lambda>c. config_loop c sec [] (index + 1) raws)
      | None \<Rightarrow>
          config_loop c current (if current \<noteq> SecUnknown then lines @ [\<lparr>ln_number = index + 1, ln_text = cleaned\<rparr>] else lines)
            (index + 1) raws))"

definition config_parse :: "(string \<Rightarrow> string option) \<Rightarrow> string \<Rightarrow> config_error + config" where
  "config_parse env input = config_loop (config_new env) SecUnknown [] 0 (str_lines input)"

text \<open>The files of a path list, with their contents; an empty path is skipped.\<close>

fun load_loop :: "string \<Rightarrow> nat \<Rightarrow> (string \<times> string) list \<Rightarrow> string \<times> nat" where
  "load_loop input loaded [] = (input, loaded)"
| "load_loop input loaded ((path, content) # files) =
     (if path = [] then load_loop input loaded files
      else load_loop ((if loaded > 0 then input @ [CHR 0x0A] else input) @ content @ [CHR 0x0A]) (loaded + 1) files)"

definition load_paths :: "(string \<Rightarrow> string option) \<Rightarrow> (string \<times> string) list \<Rightarrow> config_error + config" where
  "load_paths env files =
     (case load_loop [] 0 files of (input, loaded) \<Rightarrow>
        if loaded = 0 then Inl EmptyConfigPathList else config_parse env input)"

text \<open>The default paths that name a file come with its contents.\<close>

definition load_default_paths :: "(string \<Rightarrow> string option) \<Rightarrow> (string \<times> string option) list \<Rightarrow> config_error + config" where
  "load_default_paths env paths =
     (let existing = List.map_filter (\<lambda>(p, c). map_option (Pair p) c) paths in
      if existing = [] then Inl NoDefaultConfig else load_paths env existing)"

definition load_default_or_parse_paths ::
  "(string \<Rightarrow> string option) \<Rightarrow> string \<Rightarrow> (string \<times> string option) list \<Rightarrow> config_error + config" where
  "load_default_or_parse_paths env embedded paths =
     (case load_default_paths env paths of
        Inr c \<Rightarrow> Inr c
      | Inl e \<Rightarrow> if e = NoDefaultConfig then config_parse env embedded else Inl e)"

section \<open>Lookups\<close>

definition config_realm :: "config \<Rightarrow> string \<Rightarrow> realm option" where
  "config_realm c name = List.find (\<lambda>r. rlm_realm r = name) (cfg_realms c)"

fun resolve_loop :: "(string \<rightharpoonup> string) \<Rightarrow> string list \<Rightarrow> string option" where
  "resolve_loop m [] = None"
| "resolve_loop m (p # parts) =
     (if parts = [] then None
      else (case m (CHR ''.'' # join_with (CHR ''.'') parts) of Some r \<Rightarrow> Some r | None \<Rightarrow> resolve_loop m parts))"

definition resolve_realm :: "config \<Rightarrow> string \<Rightarrow> string option" where
  "resolve_realm c domain_name =
     (let domain_name = trim_end_char (CHR ''.'') domain_name in
      case cfg_domain_realm c domain_name of
        Some r \<Rightarrow> Some r
      | None \<Rightarrow> resolve_loop (cfg_domain_realm c) (split_on (CHR ''.'') domain_name))"

definition configured_kdcs :: "config \<Rightarrow> string \<Rightarrow> config_error + string list" where
  "configured_kdcs c name =
     rbind (ok_or (config_realm c name) (NoRealm name)) (\<lambda>r. if rlm_kdc r = [] then Inl (NoKdc name) else Inr (rlm_kdc r))"

definition configured_kpasswd_servers :: "config \<Rightarrow> string \<Rightarrow> config_error + string list" where
  "configured_kpasswd_servers c name =
     rbind (ok_or (config_realm c name) (NoRealm name)) (\<lambda>r.
       if rlm_kpasswd_server r = [] then Inl (NoKpasswdServer name) else Inr (rlm_kpasswd_server r))"

end
