(* ===== verification/Config_Props.thy ===== *)
theory Config_Props
  imports Config
begin

text \<open>
  Properties of the configuration: what the domain lookup finds, an invariant of every parsed
  configuration, which durations the notations denote.
\<close>

section \<open>White space\<close>

lemma ws_taken: "c \<in> set (take (ws_len s) s) \<Longrightarrow> \<not> graphic c"
  by (cases s rule: list.exhaust; cases "tl s"; cases "tl (tl s)") (auto simp: ws_len_def graphic_def split: if_splits)

lemma trim_start_keeps: "graphic c \<Longrightarrow> c \<in> set s \<Longrightarrow> c \<in> set (trim_start s)"
proof (induction s rule: trim_start.induct)
  case (1 s)
  have "c \<in> set (drop (ws_len s) s)"
    using 1(2,3) ws_taken [of c s] by (metis Un_iff append_take_drop_id set_append)
  then show ?case using 1 by (subst trim_start.simps) auto
qed

lemma trim_end_keeps: "graphic c \<Longrightarrow> c \<in> set s \<Longrightarrow> c \<in> set (trim_end s)"
proof (induction s)
  case (Cons a s)
  have "trim_start (a # s) \<noteq> []" using trim_start_keeps [of c "a # s"] Cons.prems by auto
  then show ?case using Cons by auto
qed simp

lemma trim_keeps: "graphic c \<Longrightarrow> c \<in> set s \<Longrightarrow> c \<in> set (trim s)"
  by (simp add: trim_def trim_start_keeps trim_end_keeps)

text \<open>Trimmed text stays as it is, also with printable characters behind it.\<close>

lemma ws_len_prefix: "ws_len p \<noteq> 0 \<Longrightarrow> ws_len (p @ q) = ws_len p"
  by (cases p rule: list.exhaust; cases "tl p"; cases "tl (tl p)") (auto simp: ws_len_def split: if_splits list.splits)

lemma ws_len_graphic_behind: "ws_len h = 0 \<Longrightarrow> graphic c \<Longrightarrow> ws_len (h @ c # t) = 0"
  by (cases h rule: list.exhaust; cases "tl h"; cases "tl (tl h)")
    (auto simp: ws_len_def graphic_def split: if_splits list.splits)

lemma ws_len_trim_start: "ws_len (trim_start s) = 0"
proof (induction s rule: trim_start.induct)
  case (1 s)
  then show ?case by (cases "ws_len s = 0") (simp_all add: trim_start.simps [of s])
qed

lemma trim_start_append: "trim_start p = [] \<Longrightarrow> trim_start (p @ q) = trim_start q"
proof (induction p rule: trim_start.induct)
  case (1 p)
  show ?case
  proof (cases "ws_len p = 0")
    case True
    then show ?thesis using 1(2) by (simp add: trim_start.simps [of p])
  next
    case False
    then have "drop (ws_len (p @ q)) (p @ q) = drop (ws_len p) p @ q" using ws_len_prefix [of p q] ws_len_le [of p] by simp
    moreover have "trim_start (drop (ws_len p) p) = []" using 1(2) False by (simp add: trim_start.simps [of p])
    ultimately show ?thesis using 1(1) [OF False] False ws_len_prefix [of p q] by (simp add: trim_start.simps [of "p @ q"])
  qed
qed

lemma trim_end_split: "\<exists>q. s = trim_end s @ q \<and> trim_start q = []"
  by (induction s) (auto simp: trim_start.simps [of "[]"])

lemma trim_end_trim_end: "trim_end (trim_end s) = trim_end s"
proof (induction s)
  case (Cons c s)
  obtain q where q: "s = trim_end s @ q" "trim_start q = []" using trim_end_split by blast
  have "trim_start (c # trim_end s) \<noteq> []" if "trim_start (c # s) \<noteq> []"
  proof
    assume "trim_start (c # trim_end s) = []"
    from trim_start_append [OF this, of q] q that show False by simp
  qed
  with Cons show ?case by auto
qed simp

lemma ws_len_trim: "ws_len (trim s) = 0"
  using ws_len_trim_start [of s] trim_end_split [of "trim_start s"] ws_len_prefix [of "trim s"] unfolding trim_def by metis

lemma trim_idem: "trim (trim s) = trim s" and trim_end_trim: "trim_end (trim s) = trim s"
  using ws_len_trim [of s] by (simp_all add: trim_def trim_start.simps [of "trim_end (trim_start s)"] trim_end_trim_end)

lemma trim_end_last: "graphic c \<Longrightarrow> trim_end (s @ [c]) = s @ [c]"
proof (induction s)
  case (Cons a s)
  have "trim_start (a # s @ [c]) \<noteq> []" using trim_start_keeps [OF Cons.prems, of "a # s @ [c]"] by auto
  then show ?case using Cons by simp
qed (simp add: trim_start_graphic)

lemma trim_behind: "graphic c \<Longrightarrow> graphic d \<Longrightarrow> trim (trim s @ c # t @ [d]) = trim s @ c # t @ [d]"
  using ws_len_graphic_behind [OF ws_len_trim, of c s "t @ [d]"] trim_end_last [of d "trim s @ c # t"]
  by (simp add: trim_def trim_start.simps [of "trim_end (trim_start s) @ c # t @ [d]"])

lemma trim_behind_one: "graphic c \<Longrightarrow> trim (trim s @ [c]) = trim s @ [c]"
  using ws_len_graphic_behind [OF ws_len_trim, of c s "[]"] trim_end_last [of c "trim s"]
  by (simp add: trim_def trim_start.simps [of "trim_end (trim_start s) @ [c]"])

lemma split_whitespace_graphic:
  assumes "list_all graphic s" and "s \<noteq> []"
  shows "split_whitespace s = [s]"
proof -
  have "split_ws_loop cur t = (if cur @ t = [] then [] else [cur @ t])" if "list_all graphic t" for cur t
    using that by (induction t arbitrary: cur) simp_all
  then show ?thesis using assms by (simp add: split_whitespace_def)
qed

section \<open>Domain lookup\<close>

text \<open>\<open>s\<close> is the longest suffix behind a dot that is mapped.\<close>

definition longest_suffix :: "(string \<rightharpoonup> string) \<Rightarrow> string \<Rightarrow> string \<Rightarrow> string \<Rightarrow> bool" where
  "longest_suffix m d s r \<longleftrightarrow> (\<exists>pre. d = pre @ CHR ''.'' # s) \<and> m (CHR ''.'' # s) = Some r
     \<and> (\<forall>pre s'. d = pre @ CHR ''.'' # s' \<and> length s < length s' \<longrightarrow> m (CHR ''.'' # s') = None)"

lemma dot_split:
  assumes "CHR ''.'' \<notin> set p"
  shows "p @ CHR ''.'' # t = pre @ CHR ''.'' # s \<longleftrightarrow> (pre = p \<and> s = t) \<or> (\<exists>q. pre = p @ CHR ''.'' # q \<and> t = q @ CHR ''.'' # s)"
  using assms by (induction p arbitrary: pre) (auto simp: Cons_eq_append_conv)

lemma longest_suffix_step:
  assumes "CHR ''.'' \<notin> set p"
  shows "(\<exists>s. longest_suffix m (p @ CHR ''.'' # t) s r) \<longleftrightarrow>
    (case m (CHR ''.'' # t) of Some q \<Rightarrow> q = r | None \<Rightarrow> \<exists>s. longest_suffix m t s r)"
proof (cases "m (CHR ''.'' # t)")
  case None
  have "longest_suffix m (p @ CHR ''.'' # t) s r \<longleftrightarrow> longest_suffix m t s r" for s
    using None unfolding longest_suffix_def dot_split [OF assms] by auto
  then show ?thesis using None by simp
next
  case (Some q)
  have "longest_suffix m (p @ CHR ''.'' # t) s r \<longleftrightarrow> s = t \<and> q = r" for s
    using Some unfolding longest_suffix_def dot_split [OF assms] by auto
  then show ?thesis using Some by simp
qed

lemma resolve_loop_iff:
  assumes "\<forall>p \<in> set parts. CHR ''.'' \<notin> set p"
  shows "resolve_loop m parts = Some r \<longleftrightarrow> (\<exists>s. longest_suffix m (join_with (CHR ''.'') parts) s r)"
  using assms
proof (induction m parts rule: resolve_loop.induct)
  case (1 m)
  then show ?case by (simp add: longest_suffix_def)
next
  case (2 m p parts)
  show ?case
  proof (cases parts)
    case Nil
    have "\<not> (\<exists>pre s. p = pre @ CHR ''.'' # s)" using 2(2) by auto
    then show ?thesis using Nil by (simp add: longest_suffix_def)
  next
    case (Cons q qs)
    then have j: "join_with (CHR ''.'') (p # parts) = p @ CHR ''.'' # join_with (CHR ''.'') parts" by simp
    have "CHR ''.'' \<notin> set p" using 2(2) by simp
    then show ?thesis
      using 2 Cons unfolding j longest_suffix_step [OF \<open>CHR ''.'' \<notin> set p\<close>] by (auto split: option.splits)
  qed
qed

lemma split_on_parts: "p \<in> set (split_on d s) \<Longrightarrow> d \<notin> set p"
  by (induction d s arbitrary: p rule: split_on.induct) (auto split: list.splits if_splits)

text \<open>The realm of a host is the one mapped to the name itself (without trailing dots), or else the one
  mapped to its longest proper suffix that starts with a dot; there is none only if neither is mapped.\<close>

lemma resolve_realm_longest_suffix:
  "resolve_realm c name = Some r \<longleftrightarrow>
     cfg_domain_realm c (trim_end_char (CHR ''.'') name) = Some r
   \<or> (cfg_domain_realm c (trim_end_char (CHR ''.'') name) = None
      \<and> (\<exists>s. longest_suffix (cfg_domain_realm c) (trim_end_char (CHR ''.'') name) s r))"
proof -
  let ?d = "trim_end_char (CHR ''.'') name"
  have "resolve_loop (cfg_domain_realm c) (split_on (CHR ''.'') ?d) = Some r \<longleftrightarrow> (\<exists>s. longest_suffix (cfg_domain_realm c) ?d s r)"
    using resolve_loop_iff [of "split_on (CHR ''.'') ?d" "cfg_domain_realm c" r] split_on_parts by (fastforce simp: join_split_on)
  then show ?thesis by (auto simp: resolve_realm_def Let_def split: option.splits)
qed

section \<open>An invariant of parsed configurations\<close>

definition enctypes_synced :: "lib_defaults \<Rightarrow> bool" where
  "enctypes_synced d \<longleftrightarrow>
     ld_default_tgs_enctype_ids d = parse_supported_enctype_ids (ld_default_tgs_enctypes d) (ld_allow_weak_crypto d)
   \<and> ld_default_tkt_enctype_ids d = parse_supported_enctype_ids (ld_default_tkt_enctypes d) (ld_allow_weak_crypto d)
   \<and> ld_permitted_enctype_ids d = parse_supported_enctype_ids (ld_permitted_enctypes d) (ld_allow_weak_crypto d)"

text \<open>What a \<open>kdc\<close> line of the file stands for: the value without white space and without the mark \<open>*\<close> of a last entry, and with the port
  88 when it has no colon.  A value with a colon is kept as it is, also when there is no port behind the colon.\<close>

definition kdc_entry :: "string \<Rightarrow> string" where
  "kdc_entry v = (let host = trim (trim_end_char (CHR ''*'') (trim v)) in if CHR '':'' \<in> set host then host else host @ '':88'')"

lemma kdc_entry_examples:
  "kdc_entry '' k.r * '' = ''k.r:88''" "kdc_entry ''k.r:750'' = ''k.r:750''" "kdc_entry ''[::1]'' = ''[::1]''" "kdc_entry ''k.r:'' = ''k.r:''"
  by code_simp+

definition kdc_written :: "conf_line set \<Rightarrow> string \<Rightarrow> bool" where
  "kdc_written L k \<longleftrightarrow>
     (\<exists>line \<in> L. \<exists>key v. parse_assignment line ''realms'' = Inr (key, v) \<and> to_ascii_lowercase key = ''kdc'' \<and> k = kdc_entry v)"

definition kdcs_written :: "conf_line set \<Rightarrow> realm \<Rightarrow> bool" where
  "kdcs_written L r \<longleftrightarrow> (\<forall>k \<in> set (rlm_kdc r). kdc_written L k)"

definition realm_ok :: "conf_line set \<Rightarrow> realm \<Rightarrow> bool" where
  "realm_ok L r \<longleftrightarrow> kdcs_written L r \<and> (rlm_admin_server r \<noteq> [] \<longrightarrow> rlm_kpasswd_server r \<noteq> [])"

definition lower_keys :: "(string \<rightharpoonup> string) \<Rightarrow> bool" where
  "lower_keys m \<longleftrightarrow> (\<forall>k \<in> dom m. to_ascii_lowercase k = k)"

definition config_wf :: "conf_line set \<Rightarrow> config \<Rightarrow> bool" where
  "config_wf L c \<longleftrightarrow> enctypes_synced (cfg_libdefaults c) \<and> (\<forall>r \<in> set (cfg_realms c). realm_ok L r) \<and> lower_keys (cfg_domain_realm c)"

text \<open>The numbered lines of the input, without comments and surrounding white space.\<close>

definition input_lines :: "nat \<Rightarrow> string list \<Rightarrow> conf_line set" where
  "input_lines index raws = {\<lparr>ln_number = index + i + 1, ln_text = trim (strip_comments (raws ! i))\<rparr> | i. i < length raws}"

lemma refresh_synced: "enctypes_synced (refresh_enctype_ids d)"
  by (simp add: enctypes_synced_def refresh_enctype_ids_def)

lemma graphic_marks [simp]: "graphic (CHR '':'')" "graphic (CHR ''*'')" "graphic (CHR ''8'')"
  by (simp_all add: graphic_def)

lemma no_mark: "s = [] \<or> last s \<noteq> d \<Longrightarrow> trim_end_char d s = s"
  by (cases s rule: rev_cases) (auto simp: trim_end_char_def)

lemma kdc_appended:
  "append_until_final vs (add_default_port v 88) f = (if f then (vs, f) else (vs @ [kdc_entry v], trim v \<noteq> [] \<and> last (trim v) = CHR ''*''))"
proof -
  let ?h = "trim (trim_end_char (CHR ''*'') (trim v))"
  have port: "dec_str 88 = ''88''" by code_simp
  have plain: "?h = trim v" if "\<not> (trim v \<noteq> [] \<and> last (trim v) = CHR ''*'')"
    using that no_mark [of "trim v" "CHR ''*''"] by (auto simp: trim_idem)
  have t: "trim (?h @ '':88*'') = ?h @ '':88*''" "trim (?h @ '':88'') = ?h @ '':88''" "trim (?h @ ''*'') = ?h @ ''*''"
    using trim_behind [of "CHR '':''" "CHR ''*''" "trim_end_char (CHR ''*'') (trim v)" "''88''"]
      trim_behind [of "CHR '':''" "CHR ''8''" "trim_end_char (CHR ''*'') (trim v)" "''8''"]
      trim_behind_one [of "CHR ''*''" "trim_end_char (CHR ''*'') (trim v)"] by simp_all
  have e: "trim_end (?h @ '':88'') = ?h @ '':88''" using trim_end_last [of "CHR ''8''" "?h @ '':8''"] by simp
  show ?thesis
    using plain t e
    by (auto simp: append_until_final_def add_default_port_def kdc_entry_def Let_def port trim_idem trim_end_trim butlast_append)
qed

lemma kdcs_written_updates [simp]:
  "kdcs_written L (r\<lparr>rlm_admin_server := a\<rparr>) = kdcs_written L r" "kdcs_written L (r\<lparr>rlm_default_domain := d\<rparr>) = kdcs_written L r"
  "kdcs_written L (r\<lparr>rlm_kpasswd_server := a\<rparr>) = kdcs_written L r" "kdcs_written L (r\<lparr>rlm_master_kdc := a\<rparr>) = kdcs_written L r"
  by (simp_all add: kdcs_written_def)

lemma realm_loop_kdcs: "realm_loop r flags lines = Inr r' \<Longrightarrow> set lines \<subseteq> L \<Longrightarrow> kdcs_written L r \<Longrightarrow> kdcs_written L r'"
proof (induction lines arbitrary: r flags)
  case (Cons line lines)
  obtain af kf pf mf where flags: "flags = (af, kf, pf, mf)" by (cases flags) auto
  obtain key v where p: "parse_assignment line ''realms'' = Inr (key, v)"
    using Cons.prems(1) unfolding flags by (auto simp: rbind_eq_Inr)
  have kdc: "kdcs_written L (r\<lparr>rlm_kdc := ws\<rparr>)"
    if "to_ascii_lowercase key = ''kdc''" "append_until_final (rlm_kdc r) (add_default_port v 88) kf = (ws, g)" for ws g
  proof -
    have "kdc_written L (kdc_entry v)" using p that(1) Cons.prems(2) by (auto simp: kdc_written_def)
    then show ?thesis using that(2) Cons.prems(3) by (auto simp: kdc_appended kdcs_written_def split: if_splits)
  qed
  have lines: "set lines \<subseteq> L" using Cons.prems(2) by simp
  show ?case
    using Cons.prems(1,3) p kdc unfolding flags
    by (auto simp: Let_def split: if_split_asm prod.split_asm intro: Cons.IH [OF _ lines])
qed simp

lemma realm_parse_ok:
  assumes "realm_parse name lines = Inr r" and "set lines \<subseteq> L"
  shows "realm_ok L r"
proof -
  obtain x where x: "realm_loop (realm_new name) (False, False, False, False) lines = Inr x"
    and r: "r = (if rlm_kpasswd_server x = []
      then x\<lparr>rlm_kpasswd_server := map (\<lambda>admin. hd (split_on (CHR '':'') admin) @ '':464'') (rlm_admin_server x)\<rparr> else x)"
    using assms(1) unfolding realm_parse_def rbind_eq_Inr by auto
  have "kdcs_written L x" by (rule realm_loop_kdcs [OF x assms(2)]) (simp add: kdcs_written_def realm_new_def)
  then show ?thesis by (cases "rlm_kpasswd_server x = []") (simp_all add: r realm_ok_def)
qed

lemma realm_block_lines:
  "realm_block depth block lines = Inr (b, d, rest) \<Longrightarrow> set b \<subseteq> set block \<union> set lines \<and> set rest \<subseteq> set lines"
  by (induction lines arbitrary: depth block) (fastforce simp: Let_def split: if_splits)+

lemma parse_realms_ok: "parse_realms lines = Inr rs \<Longrightarrow> set lines \<subseteq> L \<Longrightarrow> r \<in> set rs \<Longrightarrow> realm_ok L r"
proof (induction lines arbitrary: rs rule: parse_realms.induct)
  case (2 line lines)
  obtain name v block depth rest r' rs' where p: "parse_assignment line ''realms'' = Inr (name, v)"
      "\<not> CHR ''{'' \<notin> set v" "\<not> brace_delta v < 0" "realm_block (brace_delta v) [] lines = Inr (block, depth, rest)" "\<not> depth \<noteq> 0"
      "realm_parse name block = Inr r'" "parse_realms rest = Inr rs'" "rs = r' # rs'"
    using 2(2) by (auto simp: rbind_eq_Inr split: if_splits)
  have sub: "set block \<subseteq> L" "set rest \<subseteq> L" using realm_block_lines [OF p(4)] 2(3) by auto
  show ?case
    using 2(1) [OF p(1) refl p(2,3) p(4) refl refl p(5) p(6) p(7) sub(2)] realm_parse_ok [OF p(6) sub(1)] 2(4) p(8) by auto
qed simp

lemma parse_domain_realm_lower: "parse_domain_realm m lines = Inr m' \<Longrightarrow> lower_keys m \<Longrightarrow> lower_keys m'"
proof (induction lines arbitrary: m)
  case (Cons line lines)
  then obtain k v where p: "parse_domain_realm (m(to_ascii_lowercase k \<mapsto> v)) lines = Inr m'"
    by (auto simp: rbind_eq_Inr)
  have "lower_keys (m(to_ascii_lowercase k \<mapsto> v))" using Cons.prems(2) by (auto simp: lower_keys_def)
  then show ?case by (rule Cons.IH [OF p])
qed simp

lemma apply_section_wf:
  assumes "apply_section c sec lines = Inr c'" and "config_wf L c" and "set lines \<subseteq> L"
  shows "config_wf L c'"
  using assms refresh_synced parse_realms_ok parse_domain_realm_lower
  by (auto simp: apply_section_def rbind_eq_Inr config_wf_def lib_defaults_parse_lines_def split: section_kind.splits)

lemma input_lines_Cons:
  "input_lines index (raw # raws) = insert \<lparr>ln_number = index + 1, ln_text = trim (strip_comments raw)\<rparr> (input_lines (index + 1) raws)"
  (is "?l = ?r")
proof
  show "?l \<subseteq> ?r"
  proof
    fix x assume "x \<in> ?l"
    then obtain i where "i < length (raw # raws)" "x = \<lparr>ln_number = index + i + 1, ln_text = trim (strip_comments ((raw # raws) ! i))\<rparr>"
      by (auto simp: input_lines_def)
    then show "x \<in> ?r" by (cases i) (auto simp: input_lines_def)
  qed
  have "\<exists>j. Suc (index + i) = index + j \<and> trim (strip_comments (raws ! i)) = trim (strip_comments ((raw # raws) ! j)) \<and> j < Suc (length raws)"
    if "i < length raws" for i
    using that by (intro exI [of _ "Suc i"]) simp
  then show "?r \<subseteq> ?l" by (fastforce simp: input_lines_def)
qed

lemma config_loop_wf:
  "config_loop c sec lines i raws = Inr c' \<Longrightarrow> config_wf L c \<Longrightarrow> set lines \<subseteq> L \<Longrightarrow> input_lines i raws \<subseteq> L \<Longrightarrow> config_wf L c'"
proof (induction c sec lines i raws rule: config_loop.induct)
  case (2 c current lines index raw raws)
  then show ?case
    by (fastforce simp: Let_def rbind_eq_Inr input_lines_Cons dest: apply_section_wf split: if_splits option.splits)
qed (auto dest: apply_section_wf)

lemma config_new_wf: "config_wf L (config_new env)"
  by (simp add: config_wf_def config_new_def lib_defaults_new_def refresh_synced lower_keys_def)

lemma config_parse_wf: "config_parse env input = Inr c \<Longrightarrow> config_wf (input_lines 0 (str_lines input)) c"
  unfolding config_parse_def by (rule config_loop_wf [OF _ config_new_wf]) (rule order_refl | simp)+

text \<open>C38: every configuration the parser returns is consistent: the encryption type numbers are those of
  the configured names under the final weak-crypto setting, whatever the order of the lines; every KDC entry is the host of a \<open>kdc\<close> line
  of the input, with the port 88 appended exactly when it contains no colon (so an IPv6 address or a host with a bare colon is
  kept as it is written); a realm with an administration server has a password server; and domain keys are in lower case.\<close>

theorem config_parse_invariant:
  assumes "config_parse env input = Inr c"
  shows "config_wf (input_lines 0 (str_lines input)) c"
  by (rule config_parse_wf [OF assms])

text \<open>The lookup of a host name in the domain map is case sensitive although the keys were lowered: with a
  capital letter in the last label no realm is found, whatever the configuration maps.\<close>

lemma resolve_realm_case_sensitive:
  assumes "config_parse env input = Inr c" and "trim_end_char (CHR ''.'') name = pre @ lab" and "ascii_lower x \<noteq> x"
    and "x \<in> set lab" and "CHR ''.'' \<notin> set lab"
  shows "resolve_realm c name = None"
proof -
  have m: "cfg_domain_realm c k = None" if "x \<in> set k" for k
  proof (rule ccontr)
    assume "cfg_domain_realm c k \<noteq> None"
    then have "to_ascii_lowercase k = k" using config_parse_wf [OF assms(1)] by (auto simp: config_wf_def lower_keys_def)
    then have "map ascii_lower k = map (\<lambda>c. c) k" by (simp add: to_ascii_lowercase_def)
    then show False using that assms(3) unfolding map_eq_conv by blast
  qed
  have "x \<in> set s" if "pre @ lab = p @ CHR ''.'' # s" for p s
    using that assms(4,5) by (auto simp: append_eq_append_conv2 append_eq_Cons_conv)
  then have "\<not> longest_suffix (cfg_domain_realm c) (pre @ lab) s r" for s r
    using m [of "CHR ''.'' # s"] unfolding longest_suffix_def by (auto simp: assms(2))
  moreover have "cfg_domain_realm c (pre @ lab) = None" using m [of "pre @ lab"] assms(4) by simp
  ultimately have no: "resolve_realm c name \<noteq> Some r" for r
    using resolve_loop_iff [of "split_on (CHR ''.'') (pre @ lab)" "cfg_domain_realm c" r] split_on_parts
    by (fastforce simp: resolve_realm_def Let_def assms(2) join_split_on)
  show ?thesis using no by (cases "resolve_realm c name") auto
qed

definition demo_input :: string where
  "demo_input = ''[domain_realm]'' @ [CHR 0x0A] @ ''a=R''"

lemma demo_parsed: "config_parse (\<lambda>_. None) demo_input = Inr ((config_new (\<lambda>_. None))\<lparr>cfg_domain_realm := [''a'' \<mapsto> ''R'']\<rparr>)"
proof -
  have lines: "str_lines demo_input = [''[domain_realm]'', ''a=R'']"
    by (simp add: demo_input_def str_lines_def strip_cr_def Let_def)
  have t: "trim s = s" if "list_all graphic s" for s
    using that by (intro trim_graphic) (simp add: list_all_iff)
  have clean: "trim (strip_comments ''[domain_realm]'') = ''[domain_realm]''" "trim (strip_comments ''a=R'') = ''a=R''"
    by (simp_all add: strip_comments_def t graphic_def)
  have sec: "section_kind_parse ''[domain_realm]'' = Some SecDomainRealm" "section_kind_parse ''a=R'' = None"
    by (simp_all add: section_kind_parse_def t graphic_def to_ascii_lowercase_def ascii_lower_def Let_def)
  have "parse_assignment \<lparr>ln_number = Suc (Suc 0), ln_text = ''a=R''\<rparr> ''domain_realm'' = Inr (''a'', ''R'')"
    by (simp add: parse_assignment_def t graphic_def)
  then show ?thesis
    using clean sec
    by (simp add: config_parse_def lines apply_section_def to_ascii_lowercase_def ascii_lower_def config_new_def Let_def)
qed

theorem config_parse_invariant_witness: "config_wf (input_lines 0 (str_lines demo_input)) ((config_new (\<lambda>_. None))\<lparr>cfg_domain_realm := [''a'' \<mapsto> ''R'']\<rparr>)"
  by (rule config_parse_invariant [OF demo_parsed])

lemma resolve_realm_case_sensitive_witness:
  "resolve_realm ((config_new (\<lambda>_. None))\<lparr>cfg_domain_realm := [''a'' \<mapsto> ''R'']\<rparr>) ''A'' = None
    \<and> resolve_realm ((config_new (\<lambda>_. None))\<lparr>cfg_domain_realm := [''a'' \<mapsto> ''R'']\<rparr>) ''a'' = Some ''R''"
  using resolve_realm_case_sensitive [OF demo_parsed, of "''A''" "[]" "''A''" "CHR ''A''"]
  by (simp add: trim_end_char_def ascii_lower_def resolve_realm_def)

section \<open>Durations\<close>

lemma takeWhile_dec: "\<not> ascii_digit c \<Longrightarrow> takeWhile ascii_digit (dec_str n @ c # r) = dec_str n"
  "\<not> ascii_digit c \<Longrightarrow> dropWhile ascii_digit (dec_str n @ c # r) = c # r"
  using dec_str_ascii_digits [of n] by (simp_all add: list_all_iff takeWhile_append2 dropWhile_append2)

lemma ascii_units [simp]:
  "\<not> ascii_digit (CHR ''h'')" "\<not> ascii_digit (CHR ''m'')" "\<not> ascii_digit (CHR ''s'')" "\<not> ascii_digit (CHR '':'')"
  "ascii_alphabetic (CHR ''h'')" "ascii_alphabetic (CHR ''m'')" "ascii_alphabetic (CHR ''s'')" "\<not> ascii_alphabetic (CHR '':'')"
  by (simp_all add: ascii_digit_def ascii_alphabetic_def)

text \<open>What a unit multiplies by.\<close>

definition unit_seconds :: "char \<Rightarrow> nat" where
  "unit_seconds u = (if u = CHR ''h'' then 3600 else if u = CHR ''m'' then 60 else 1)"

lemma unit_duration_step:
  assumes u: "u \<in> {CHR ''h'', CHR ''m'', CHR ''s''}" and r: "r = [] \<or> \<not> ascii_alphabetic (hd r)"
    and n: "n * unit_seconds u < 2 ^ 64" and a: "acc + from_secs (n * unit_seconds u) < 2 ^ 64 * 1000000000"
  shows "unit_duration_loop original (dec_str n @ u # r) acc = unit_duration_loop original r (acc + from_secs (n * unit_seconds u))"
proof -
  have nd: "\<not> ascii_digit u" "ascii_alphabetic u" using u by auto
  have "takeWhile ascii_alphabetic (u # r) = [u]" "dropWhile ascii_alphabetic (u # r) = r"
    using r nd by (cases r; simp)+
  moreover have "n < 2 ^ 64" using n u by (auto simp: unit_seconds_def split: if_splits)
  ultimately show ?thesis
    using u n a by (subst unit_duration_loop.simps)
      (auto simp: takeWhile_dec [OF nd(1)] parse_u64_dec_str u64_checked_mul_def dur_checked_add_def unit_seconds_def Let_def)
qed

lemma dec_str_head: "ascii_digit (hd (dec_str n @ r))" "\<not> ascii_alphabetic (hd (dec_str n @ r))"
proof -
  have "ascii_digit (hd (dec_str n))" using dec_str_ascii_digits [of n] by (cases "dec_str n") simp_all
  then show "ascii_digit (hd (dec_str n @ r))" "\<not> ascii_alphabetic (hd (dec_str n @ r))"
    by (auto simp: hd_append ascii_digit_def ascii_alphabetic_def)
qed

lemma dec_str_graphic: "list_all graphic (dec_str n)"
  using dec_str_digits [of _ n] by (fastforce simp: list_all_iff graphic_def)

lemma parse_duration_graphic:
  assumes "list_all graphic s" and "s \<noteq> []" and "CHR ''d'' \<notin> set s" and "parse_unit_duration s s = Inr t"
  shows "parse_duration s = Inr t"
  using split_once_None_iff [THEN iffD2, OF assms(3)] assms by (simp add: parse_duration_def split_whitespace_graphic)

lemma dec_str_plain: "c \<in> set (dec_str n) \<Longrightarrow> ascii_digit c"
  using dec_str_ascii_digits [of n] by (simp add: list_all_iff)

lemma digit_not_letter: "\<not> ascii_digit (CHR ''d'')"
  by (simp add: ascii_digit_def)

lemma dec_str_no [simp]: "CHR ''d'' \<notin> set (dec_str n)" "CHR '':'' \<notin> set (dec_str n)"
  using dec_str_plain [of "CHR ''d''" n] dec_str_plain [of "CHR '':''" n] digit_not_letter by auto

lemma unit_duration_no_unit:
  assumes "r = [] \<or> (\<not> ascii_digit (hd r) \<and> \<not> ascii_alphabetic (hd r))"
  shows "\<exists>e. parse_unit_duration (dec_str n @ r) original = Inl e"
proof -
  have "takeWhile ascii_digit (dec_str n @ r) = dec_str n" "dropWhile ascii_digit (dec_str n @ r) = r"
    using assms dec_str_ascii_digits [of n] by (cases r; simp add: list_all_iff takeWhile_append2 dropWhile_append2)+
  moreover have "takeWhile ascii_alphabetic r = []" using assms by (cases r) simp_all
  ultimately show ?thesis
    unfolding parse_unit_duration_def by (subst unit_duration_loop.simps) (auto simp: Let_def rbind_def ok_or_def split: option.split)
qed

lemma colon_not_number: "CHR '':'' \<in> set s \<Longrightarrow> parse_u64 s = None"
proof -
  have "digits_loop 10 acc s = None" if "CHR '':'' \<in> set s" for acc s
    using that by (induction s arbitrary: acc) (auto simp: to_digit_def Let_def bind_eq_None_conv)
  moreover have "CHR '':'' \<in> set (strip_plus s)" if "CHR '':'' \<in> set s"
    using that by (cases s) (auto simp: strip_plus_def)
  ultimately show "CHR '':'' \<in> set s \<Longrightarrow> parse_u64 s = None"
    by (simp add: parse_u64_def parse_unsigned_def digits_value_def)
qed

text \<open>What the notations of a duration mean.  Hours, minutes and seconds with unit letters or separated by colons
  denote the sum, days with the letter d and plain positive numbers of seconds as well, as long as the
  total fits 64 bits; a plain zero is refused.\<close>

lemma duration_notations:
  assumes bound: "h * 3600 + m * 60 + s < 2 ^ 64" and day: "d * 86400 < 2 ^ 64" and pos: "0 < s"
  shows "parse_duration (dec_str h @ ''h'' @ dec_str m @ ''m'' @ dec_str s @ ''s'') = Inr (from_secs (h * 3600 + m * 60 + s))
    \<and> parse_duration (dec_str h @ '':'' @ dec_str m @ '':'' @ dec_str s) = Inr (from_secs (h * 3600 + m * 60 + s))
    \<and> parse_duration (dec_str d @ ''d'') = Inr (from_secs (d * 86400))
    \<and> parse_duration (dec_str s) = Inr (from_secs s)
    \<and> parse_duration ''0'' = Inl (InvalidDuration ''0'')"
proof (intro conjI)
  let ?u = "dec_str h @ ''h'' @ dec_str m @ ''m'' @ dec_str s @ ''s''"
  have lim: "h < 2 ^ 64" "m < 2 ^ 64" "s < 2 ^ 64" "h * 3600 < 2 ^ 64" "m * 60 < 2 ^ 64" "d < 2 ^ 64" using bound day by linarith+
  have "unit_duration_loop ?u ?u 0 = unit_duration_loop ?u (dec_str m @ ''m'' @ dec_str s @ ''s'') (from_secs (h * 3600))"
    using unit_duration_step [of "CHR ''h''" "dec_str m @ ''m'' @ dec_str s @ ''s''" h 0 ?u] lim dec_str_head(2) [of m]
    by (simp add: unit_seconds_def from_secs_def)
  also have "\<dots> = unit_duration_loop ?u (dec_str s @ ''s'') (from_secs (h * 3600) + from_secs (m * 60))"
    using unit_duration_step [of "CHR ''m''" "dec_str s @ ''s''" m "from_secs (h * 3600)" ?u] lim bound dec_str_head(2) [of s]
    by (simp add: unit_seconds_def from_secs_def)
  also have "\<dots> = unit_duration_loop ?u [] (from_secs (h * 3600) + from_secs (m * 60) + from_secs s)"
    using unit_duration_step [of "CHR ''s''" "[]" s "from_secs (h * 3600) + from_secs (m * 60)" ?u] lim bound
    by (simp add: unit_seconds_def from_secs_def)
  also have "\<dots> = Inr (from_secs (h * 3600 + m * 60 + s))"
    by (subst unit_duration_loop.simps) (simp add: from_secs_def algebra_simps)
  finally have "parse_unit_duration ?u ?u = Inr (from_secs (h * 3600 + m * 60 + s))" by (simp add: parse_unit_duration_def)
  then show "parse_duration ?u = Inr (from_secs (h * 3600 + m * 60 + s))"
    by (intro parse_duration_graphic) (simp_all add: dec_str_graphic graphic_def)
next
  have lim: "h < 2 ^ 64" "m < 2 ^ 64" "s < 2 ^ 64" "h * 3600 < 2 ^ 64" "m * 60 < 2 ^ 64" "h * 3600 + m * 60 < 2 ^ 64"
    using bound by linarith+
  let ?c = "dec_str h @ '':'' @ dec_str m @ '':'' @ dec_str s"
  have g: "list_all graphic ?c" "CHR '':'' \<in> set ?c" "CHR ''d'' \<notin> set ?c" by (simp_all add: dec_str_graphic)
  have "split_on (CHR '':'') ?c = [dec_str h, dec_str m, dec_str s]"
    by (simp add: split_on_append split_on_no_sep)
  then have "parse_colon_duration ?c ?c = Inr (from_secs (h * 3600 + m * 60 + s))"
    using lim bound by (simp add: parse_colon_duration_def parse_u64_dec_str u64_checked_mul_def u64_checked_add_def Let_def)
  moreover obtain e where "parse_unit_duration ?c ?c = Inl e"
    using unit_duration_no_unit [of "'':'' @ dec_str m @ '':'' @ dec_str s" h ?c] by auto
  moreover have "concat (split_whitespace ?c) = ?c" "?c \<noteq> []" using split_whitespace_graphic [OF g(1)] by simp_all
  ultimately show "parse_duration ?c = Inr (from_secs (h * 3600 + m * 60 + s))"
    unfolding parse_duration_def using split_once_None_iff [THEN iffD2, OF g(3)] colon_not_number [OF g(2)] g(2) by simp
next
  have "concat (split_whitespace (dec_str d @ ''d'')) = dec_str d @ ''d''"
    using split_whitespace_graphic [of "dec_str d @ ''d''"] dec_str_graphic [of d] by (simp add: graphic_def)
  moreover have "split_once (CHR ''d'') (dec_str d @ ''d'') = Some (dec_str d, [])"
    using split_once_Some [of "CHR ''d''" "dec_str d @ ''d''" "dec_str d" "[]"] by simp
  moreover have "d < 2 ^ 64" using day by linarith
  ultimately show "parse_duration (dec_str d @ ''d'') = Inr (from_secs (d * 86400))"
    using day by (simp add: parse_duration_def parse_u64_dec_str u64_checked_mul_def)
next
  obtain e where "parse_unit_duration (dec_str s) (dec_str s) = Inl e" using unit_duration_no_unit [of "[]" s "dec_str s"] by auto
  moreover have "split_once (CHR ''d'') (dec_str s) = None" by (simp add: split_once_None_iff)
  moreover have "s < 2 ^ 64" using bound by linarith
  ultimately show "parse_duration (dec_str s) = Inr (from_secs s)"
    using pos by (simp add: parse_duration_def split_whitespace_graphic dec_str_graphic parse_u64_dec_str)
next
  have num: "parse_u64 ''0'' = Some 0"
    by (simp add: parse_u64_def parse_unsigned_def strip_plus_def digits_value_def to_digit_def)
  moreover have "parse_unit_duration ''0'' ''0'' = Inl (InvalidDuration ''0'')"
    unfolding parse_unit_duration_def by (subst unit_duration_loop.simps) (simp add: num ascii_digit_def)
  ultimately show "parse_duration ''0'' = Inl (InvalidDuration ''0'')"
    using split_whitespace_graphic [of "''0''"] by (simp add: parse_duration_def graphic_def)
qed

lemma duration_notations_witness:
  "parse_duration (dec_str 1 @ ''h'' @ dec_str 2 @ ''m'' @ dec_str 3 @ ''s'') = Inr (from_secs 3723)
    \<and> parse_duration (dec_str 2 @ ''d'') = Inr (from_secs 172800)"
  using duration_notations [of 1 2 3 2] by simp

lemma resolve_realm_longest_suffix_witness:
  "resolve_realm ((config_new (\<lambda>_. None))\<lparr>cfg_domain_realm := [''.b'' \<mapsto> ''R'']\<rparr>) ''a.b.'' = Some ''R''
    \<and> (\<exists>s. longest_suffix [''.b'' \<mapsto> ''R''] ''a.b'' s ''R'')"
proof -
  have "resolve_realm ((config_new (\<lambda>_. None))\<lparr>cfg_domain_realm := [''.b'' \<mapsto> ''R'']\<rparr>) ''a.b.'' = Some ''R''"
    by (simp add: resolve_realm_def trim_end_char_def)
  then show ?thesis
    using resolve_realm_longest_suffix [of "(config_new (\<lambda>_. None))\<lparr>cfg_domain_realm := [''.b'' \<mapsto> ''R'']\<rparr>" "''a.b.''" "''R''"]
    by (simp add: trim_end_char_def)
qed

end
