(* ===== verification/Krb_Wire.thy ===== *)
theory Krb_Wire
  imports Service
begin

text \<open>
  The remaining messages of \<open>rasn_kerberos\<close> and of \<open>src/messages.rs\<close> as records: KRB-PRIV, KRB-SAFE, KRB-CRED, the
  requests and replies of the KDC, KRB-ERROR and the pre-authentication data.  Each type has a pair of
  functions \<open>codec\<close> for its DER coding; the record \<open>kdc_asn1\<close> collects them beside the codec \<open>asn1\<close> of tickets
  and the AP exchange, and \<open>kdc_asn1_ok\<close> names what is relied on.
\<close>

section \<open>Messages\<close>

record krb_priv =
  kp_pvno :: int
  kp_msg_type :: int
  kp_enc_part :: encrypted_data

record enc_krb_priv_part =
  kpp_user_data :: bytes
  kpp_timestamp :: "kerberos_time option"
  kpp_usec :: "int option"
  kpp_seq_number :: "u32 option"
  kpp_sender_address :: rasn_address
  kpp_recipient_address :: "rasn_address option"

record krb_safe_body =
  ksb_user_data :: bytes
  ksb_timestamp :: "kerberos_time option"
  ksb_usec :: "int option"
  ksb_seq_number :: "u32 option"
  ksb_sender_address :: rasn_address
  ksb_recipient_address :: "rasn_address option"

record krb_safe =
  ks_pvno :: int
  ks_msg_type :: int
  ks_body :: krb_safe_body
  ks_cksum :: rasn_checksum

record krb_cred_info =
  kci_key :: rasn_key
  kci_prealm :: "bytes option"
  kci_pname :: "principal_name option"
  kci_flags :: "bool list option"
  kci_auth_time :: "kerberos_time option"
  kci_start_time :: "kerberos_time option"
  kci_end_time :: "kerberos_time option"
  kci_renew_till :: "kerberos_time option"
  kci_srealm :: "bytes option"
  kci_sname :: "principal_name option"
  kci_caddr :: "rasn_address list option"

record enc_krb_cred_part =
  kcp_ticket_info :: "krb_cred_info list"
  kcp_nonce :: "u32 option"
  kcp_timestamp :: "kerberos_time option"
  kcp_usec :: "int option"
  kcp_sender_address :: "rasn_address option"
  kcp_recipient_address :: "rasn_address option"

record krb_cred =
  kc_pvno :: int
  kc_msg_type :: int
  kc_tickets :: "ticket list"
  kc_enc_part :: encrypted_data

record pa_data =
  pa_type :: i32
  pa_value :: bytes

record kdc_req_body =
  rb_kdc_options :: "bool list"
  rb_cname :: "principal_name option"
  rb_realm :: bytes
  rb_sname :: "principal_name option"
  rb_from :: "kerberos_time option"
  rb_till :: kerberos_time
  rb_rtime :: "kerberos_time option"
  rb_nonce :: u32
  rb_etype :: "i32 list"
  rb_addresses :: "rasn_address list option"
  rb_enc_authorization_data :: "encrypted_data option"
  rb_additional_tickets :: "ticket list option"

record kdc_req =
  kq_pvno :: int
  kq_msg_type :: int
  kq_padata :: "pa_data list option"
  kq_req_body :: kdc_req_body

record kdc_rep =
  kr_pvno :: int
  kr_msg_type :: int
  kr_padata :: "pa_data list option"
  kr_crealm :: bytes
  kr_cname :: principal_name
  kr_ticket :: ticket
  kr_enc_part :: encrypted_data

text \<open>\<open>last_req\<close>, which no code of the repository reads, is the list of type and time.\<close>

record enc_kdc_rep_part =
  kx_key :: rasn_key
  kx_last_req :: "(i32 \<times> kerberos_time) list"
  kx_nonce :: u32
  kx_key_expiration :: "kerberos_time option"
  kx_flags :: "bool list"
  kx_auth_time :: kerberos_time
  kx_start_time :: "kerberos_time option"
  kx_end_time :: kerberos_time
  kx_renew_till :: "kerberos_time option"
  kx_srealm :: bytes
  kx_sname :: principal_name
  kx_caddr :: "rasn_address list option"
  kx_encrypted_pa_data :: "pa_data list option"

record krb_error =
  ke_pvno :: int
  ke_msg_type :: int
  ke_ctime :: "kerberos_time option"
  ke_cusec :: "int option"
  ke_stime :: kerberos_time
  ke_susec :: int
  ke_error_code :: i32
  ke_crealm :: "bytes option"
  ke_cname :: "principal_name option"
  ke_realm :: bytes
  ke_sname :: principal_name
  ke_e_text :: "bytes option"
  ke_e_data :: "bytes option"

record etype_info2_entry =
  ei2_etype :: i32
  ei2_salt :: "bytes option"
  ei2_s2kparams :: "bytes option"

record etype_info_entry =
  ei_etype :: i32
  ei_salt :: "bytes option"

record pa_enc_ts_enc =
  pet_patimestamp :: kerberos_time
  pet_pausec :: "int option"

text \<open>Types of \<open>src/messages.rs\<close>: \<open>EncryptedData\<close> with a raw \<open>kvno\<close>, and padata values.\<close>

record raw_encrypted_data =
  red_etype :: i32
  red_kvno :: "int option"
  red_cipher :: bytes

record pa_for_user =
  pfu_user_name :: principal_name
  pfu_user_realm :: bytes
  pfu_cksum :: rasn_checksum
  pfu_auth_package :: bytes

record pa_pac_options =
  ppo_flags :: "bool list"

record pa_req_enc_pa_rep =
  prp_checksum_type :: i32
  prp_checksum :: bytes

text \<open>\<open>ChangePasswdData\<close> of \<open>src/kadmin.rs\<close>.\<close>

record change_passwd_data =
  cpd_new_passwd :: bytes
  cpd_targ_name :: "principal_name option"
  cpd_targ_realm :: "bytes option"

section \<open>Codecs\<close>

record 'a codec =
  c_dec :: "bytes \<Rightarrow> 'a option"
  c_enc :: "'a \<Rightarrow> bytes option"

text \<open>Decoding inverts encoding on the values \<open>good\<close>, and an encoding is exactly one DER value.\<close>

definition codec_ok :: "('a \<Rightarrow> bool) \<Rightarrow> 'a codec \<Rightarrow> bool" where
  "codec_ok good c \<longleftrightarrow>
     (\<forall>x bs. c_enc c x = Some bs \<and> good x \<longrightarrow> c_dec c bs = Some x \<and> top_level_der_end bs = Some (length bs))"

lemma codec_okD:
  assumes "codec_ok good c" and "c_enc c x = Some bs" and "good x"
  shows "c_dec c bs = Some x" and "top_level_der_end bs = Some (length bs)"
  using assms unfolding codec_ok_def by blast+

record kdc_asn1 =
  k_base :: asn1
  k_krb_priv :: "krb_priv codec"
  k_enc_krb_priv_part :: "enc_krb_priv_part codec"
  k_krb_safe :: "krb_safe codec"
  k_krb_safe_body :: "krb_safe_body codec"
  k_krb_cred :: "krb_cred codec"
  k_enc_krb_cred_part :: "enc_krb_cred_part codec"
  k_kdc_req_body :: "kdc_req_body codec"
  k_as_req :: "kdc_req codec"
  k_tgs_req :: "kdc_req codec"
  k_as_rep :: "kdc_rep codec"
  k_tgs_rep :: "kdc_rep codec"
  k_enc_as_rep_part :: "enc_kdc_rep_part codec"
  k_enc_tgs_rep_part :: "enc_kdc_rep_part codec"
  k_krb_error :: "krb_error codec"
  k_method_data :: "pa_data list codec"
  k_etype_info2 :: "etype_info2_entry list codec"
  k_etype_info :: "etype_info_entry list codec"
  k_pa_enc_ts_enc :: "pa_enc_ts_enc codec"
  k_encrypted_data :: "encrypted_data codec"
  k_pa_for_user :: "pa_for_user codec"
  k_pa_pac_options :: "pa_pac_options codec"
  k_pa_req_enc_pa_rep :: "pa_req_enc_pa_rep codec"
  k_change_passwd_data :: "change_passwd_data codec"

section \<open>Laws of the codecs\<close>

text \<open>
  Times are coded without a fraction of a second, and an application tag identifies the message: a
  reply is not read as an error, and the encrypted part of a TGS reply is not read as that of an AS reply.
\<close>

definition whole :: "kerberos_time option \<Rightarrow> bool" where
  "whole t \<longleftrightarrow> pred_option whole_seconds t"

definition priv_part_whole :: "enc_krb_priv_part \<Rightarrow> bool" where
  "priv_part_whole p \<longleftrightarrow> whole (kpp_timestamp p)"

definition cred_info_whole :: "krb_cred_info \<Rightarrow> bool" where
  "cred_info_whole i \<longleftrightarrow> whole (kci_auth_time i) \<and> whole (kci_start_time i) \<and> whole (kci_end_time i) \<and> whole (kci_renew_till i)"

definition cred_part_whole :: "enc_krb_cred_part \<Rightarrow> bool" where
  "cred_part_whole p \<longleftrightarrow> whole (kcp_timestamp p) \<and> list_all cred_info_whole (kcp_ticket_info p)"

definition rep_part_whole :: "enc_kdc_rep_part \<Rightarrow> bool" where
  "rep_part_whole p \<longleftrightarrow> whole_seconds (kx_auth_time p) \<and> whole_seconds (kx_end_time p) \<and> whole (kx_start_time p)
     \<and> whole (kx_renew_till p) \<and> whole (kx_key_expiration p) \<and> list_all (\<lambda>(_, t). whole_seconds t) (kx_last_req p)"

definition req_body_whole :: "kdc_req_body \<Rightarrow> bool" where
  "req_body_whole b \<longleftrightarrow> whole (rb_from b) \<and> whole_seconds (rb_till b) \<and> whole (rb_rtime b)"

definition kdc_asn1_ok :: "kdc_asn1 \<Rightarrow> bool" where
  "kdc_asn1_ok K \<longleftrightarrow> asn1_ok (k_base K)
   \<and> codec_ok (\<lambda>_. True) (k_krb_priv K) \<and> codec_ok priv_part_whole (k_enc_krb_priv_part K)
   \<and> codec_ok (\<lambda>m. whole (ksb_timestamp (ks_body m))) (k_krb_safe K)
   \<and> codec_ok (\<lambda>_. True) (k_krb_cred K) \<and> codec_ok cred_part_whole (k_enc_krb_cred_part K)
   \<and> codec_ok req_body_whole (k_kdc_req_body K)
   \<and> codec_ok (\<lambda>m. req_body_whole (kq_req_body m)) (k_as_req K) \<and> codec_ok (\<lambda>m. req_body_whole (kq_req_body m)) (k_tgs_req K)
   \<and> codec_ok (\<lambda>_. True) (k_as_rep K) \<and> codec_ok (\<lambda>_. True) (k_tgs_rep K)
   \<and> codec_ok rep_part_whole (k_enc_as_rep_part K) \<and> codec_ok rep_part_whole (k_enc_tgs_rep_part K)
   \<and> codec_ok (\<lambda>_. True) (k_method_data K)
   \<and> codec_ok (\<lambda>t. whole_seconds (pet_patimestamp t)) (k_pa_enc_ts_enc K) \<and> codec_ok (\<lambda>_. True) (k_encrypted_data K)
   \<and> codec_ok (\<lambda>_. True) (k_pa_for_user K) \<and> codec_ok (\<lambda>_. True) (k_pa_req_enc_pa_rep K)
   \<and> codec_ok (\<lambda>e. whole (ke_ctime e) \<and> whole_seconds (ke_stime e)) (k_krb_error K) \<and> codec_ok (\<lambda>_. True) (k_change_passwd_data K)
   \<and> (\<forall>r bs. c_enc (k_as_rep K) r = Some bs \<or> c_enc (k_tgs_rep K) r = Some bs \<longrightarrow> c_dec (k_krb_error K) bs = None)
   \<and> (\<forall>p bs. c_enc (k_enc_tgs_rep_part K) p = Some bs \<longrightarrow> c_dec (k_enc_as_rep_part K) bs = None)"

lemma kdc_asn1_okD:
  assumes "kdc_asn1_ok K"
  shows "asn1_ok (k_base K)"
    and "codec_ok (\<lambda>_. True) (k_krb_priv K)" and "codec_ok priv_part_whole (k_enc_krb_priv_part K)"
    and "codec_ok (\<lambda>_. True) (k_krb_cred K)" and "codec_ok cred_part_whole (k_enc_krb_cred_part K)"
    and "codec_ok req_body_whole (k_kdc_req_body K)" and "codec_ok (\<lambda>m. req_body_whole (kq_req_body m)) (k_tgs_req K)"
    and "codec_ok (\<lambda>_. True) (k_as_rep K)" and "codec_ok (\<lambda>_. True) (k_tgs_rep K)"
    and "codec_ok rep_part_whole (k_enc_as_rep_part K)" and "codec_ok rep_part_whole (k_enc_tgs_rep_part K)"
    and "codec_ok (\<lambda>m. req_body_whole (kq_req_body m)) (k_as_req K)"
    and "codec_ok (\<lambda>t. whole_seconds (pet_patimestamp t)) (k_pa_enc_ts_enc K)" and "codec_ok (\<lambda>_. True) (k_encrypted_data K)"
    and "codec_ok (\<lambda>e. whole (ke_ctime e) \<and> whole_seconds (ke_stime e)) (k_krb_error K)" and "codec_ok (\<lambda>_. True) (k_change_passwd_data K)"
  using assms unfolding kdc_asn1_ok_def by blast+

lemma kdc_asn1_tags:
  assumes "kdc_asn1_ok K"
  shows "c_enc (k_as_rep K) r = Some bs \<Longrightarrow> c_dec (k_krb_error K) bs = None"
    and "c_enc (k_tgs_rep K) r = Some bs \<Longrightarrow> c_dec (k_krb_error K) bs = None"
    and "c_enc (k_enc_tgs_rep_part K) p = Some bs \<Longrightarrow> c_dec (k_enc_as_rep_part K) bs = None"
  using assms unfolding kdc_asn1_ok_def by blast+

section \<open>Sealing and opening one encoded part\<close>

text \<open>Every encrypted part is sealed and opened in the same way: encode, encrypt; decrypt, cut the
  padding, decode.\<close>

lemma open_sealed_part:
  assumes "prims_ok P" and "key_fits key e" and "length conf = ket_confounder_len e"
    and "codec_ok good c" and "c_enc c x = Some m" and "good x"
    and "ket_encrypt_message_with_confounder P e (kt_value key) m usage conf = Inr ct"
  shows "\<exists>p. ket_decrypt_message P e (kt_value key) ct usage = Inr p \<and> trim_zero_padded_der p = m \<and> c_dec c m = Some x"
  using open_sealed [OF assms(1,2,3,7)] trim_delivered codec_okD [OF assms(4,5,6)] by blast

text \<open>Whatever decrypts was encrypted under that key and usage.\<close>

lemma opened_was_sealed:
  assumes "prims_ok P" and "key_fits key e" and "ket_decrypt_message P e (kt_value key) ct usage = Inr p"
  shows "\<exists>conf. length conf = ket_confounder_len e \<and> ket_encrypt_message_with_confounder P e (kt_value key) p usage conf = Inr ct"
  using ket.dec_enc [OF assms(1) _ assms(3)] assms(2) by (simp add: key_fits_def)

end
