(* ===== verification/Krb_Protected.thy ===== *)
theory Krb_Protected
  imports Krb_Wire
begin

text \<open>
  \<open>src/krb_priv.rs\<close> and \<open>src/krb_safe.rs\<close>: application data under encryption (KRB-PRIV) and under a keyed
  checksum (KRB-SAFE).  A sealed KRB-PRIV is opened to exactly the part that was sealed; a KRB-SAFE is
  accepted exactly when it carries the checksum that building it would produce.
\<close>

section \<open>KRB-PRIV\<close>

definition KRB_PRIV_PVNO :: int where
  "KRB_PRIV_PVNO = 5"

definition KRB_PRIV_MSG_TYPE :: int where
  "KRB_PRIV_MSG_TYPE = 21"

definition KRB_PRIV_ENCPART_USAGE :: u32 where
  "KRB_PRIV_ENCPART_USAGE = 13"

record enc_krb_priv_part_options =
  po_timestamp :: "kerberos_time option"
  po_usec :: "int option"
  po_seq_number :: "u32 option"
  po_sender_address :: rasn_address
  po_recipient_address :: "rasn_address option"

definition priv_options_new :: "rasn_address \<Rightarrow> enc_krb_priv_part_options" where
  "priv_options_new sender = \<lparr>po_timestamp = None, po_usec = None, po_seq_number = None,
     po_sender_address = sender, po_recipient_address = None\<rparr>"

definition priv_with_timestamp :: "enc_krb_priv_part_options \<Rightarrow> kerberos_time \<Rightarrow> u32 \<Rightarrow> enc_krb_priv_part_options" where
  "priv_with_timestamp o1 t usec = o1\<lparr>po_timestamp := Some t, po_usec := Some (uint usec)\<rparr>"

definition priv_with_sequence_number :: "enc_krb_priv_part_options \<Rightarrow> u32 \<Rightarrow> enc_krb_priv_part_options" where
  "priv_with_sequence_number o1 n = o1\<lparr>po_seq_number := Some n\<rparr>"

definition priv_with_recipient_address :: "enc_krb_priv_part_options \<Rightarrow> rasn_address \<Rightarrow> enc_krb_priv_part_options" where
  "priv_with_recipient_address o1 a = o1\<lparr>po_recipient_address := Some a\<rparr>"

definition rasn_host_address :: "i32 \<Rightarrow> bytes \<Rightarrow> rasn_address" where
  "rasn_host_address t a = \<lparr>ra_addr_type = t, ra_address = a\<rparr>"

definition ipv4_host_address :: "bytes \<Rightarrow> rasn_address" where
  "ipv4_host_address octets = rasn_host_address 2 octets"

definition ipv6_host_address :: "bytes \<Rightarrow> rasn_address" where
  "ipv6_host_address octets = rasn_host_address 24 octets"

definition build_enc_krb_priv_part :: "bytes \<Rightarrow> enc_krb_priv_part_options \<Rightarrow> enc_krb_priv_part" where
  "build_enc_krb_priv_part user_data opts = \<lparr>kpp_user_data = user_data, kpp_timestamp = po_timestamp opts,
     kpp_usec = po_usec opts, kpp_seq_number = po_seq_number opts, kpp_sender_address = po_sender_address opts,
     kpp_recipient_address = po_recipient_address opts\<rparr>"

definition validate_krb_priv :: "krb_priv \<Rightarrow> message_error + unit" where
  "validate_krb_priv m =
     rbind (validate_integer ''pvno'' (kp_pvno m) KRB_PRIV_PVNO) (\<lambda>_.
       validate_integer ''msg-type'' (kp_msg_type m) KRB_PRIV_MSG_TYPE)"

definition decode_krb_priv :: "kdc_asn1 \<Rightarrow> bytes \<Rightarrow> message_error + krb_priv" where
  "decode_krb_priv K bs =
     rbind (ok_or (c_dec (k_krb_priv K) bs) (MsgDecode ''KRB-PRIV'')) (\<lambda>m. rbind (validate_krb_priv m) (\<lambda>_. Inr m))"

definition encode_krb_priv :: "kdc_asn1 \<Rightarrow> krb_priv \<Rightarrow> message_error + bytes" where
  "encode_krb_priv K m = ok_or (c_enc (k_krb_priv K) m) (MsgEncode ''KRB-PRIV'')"

definition decode_enc_krb_priv_part :: "kdc_asn1 \<Rightarrow> bytes \<Rightarrow> message_error + enc_krb_priv_part" where
  "decode_enc_krb_priv_part K bs = ok_or (c_dec (k_enc_krb_priv_part K) bs) (MsgDecode ''EncKrbPrivPart'')"

definition encode_enc_krb_priv_part :: "kdc_asn1 \<Rightarrow> enc_krb_priv_part \<Rightarrow> message_error + bytes" where
  "encode_enc_krb_priv_part K p = ok_or (c_enc (k_enc_krb_priv_part K) p) (MsgEncode ''EncKrbPrivPart'')"

definition encrypt_krb_priv_enc_part ::
  "crypto_prims \<Rightarrow> bytes \<Rightarrow> kt_key \<Rightarrow> u32 option \<Rightarrow> bytes \<Rightarrow> message_error + encrypted_data" where
  "encrypt_krb_priv_enc_part P plaintext key kvno confounder =
     rbind (etype_of_key key) (\<lambda>etype.
     rbind (map_err MsgCrypto (ket_encrypt_message_with_confounder P etype (kt_value key) plaintext KRB_PRIV_ENCPART_USAGE confounder)) (\<lambda>cipher.
       Inr \<lparr>ed_etype = kt_etype key, ed_kvno = kvno, ed_cipher = cipher\<rparr>))"

definition build_krb_priv_with_confounder ::
  "kdc_asn1 \<Rightarrow> crypto_prims \<Rightarrow> bytes \<Rightarrow> enc_krb_priv_part_options \<Rightarrow> kt_key \<Rightarrow> u32 option \<Rightarrow> bytes \<Rightarrow> message_error + krb_priv" where
  "build_krb_priv_with_confounder K P user_data opts key kvno confounder =
     rbind (encode_enc_krb_priv_part K (build_enc_krb_priv_part user_data opts)) (\<lambda>plaintext.
     rbind (encrypt_krb_priv_enc_part P plaintext key kvno confounder) (\<lambda>encrypted_data.
       Inr \<lparr>kp_pvno = KRB_PRIV_PVNO, kp_msg_type = KRB_PRIV_MSG_TYPE, kp_enc_part = encrypted_data\<rparr>))"

definition build_krb_priv ::
  "kdc_asn1 \<Rightarrow> crypto_prims \<Rightarrow> (nat \<Rightarrow> bytes option) \<Rightarrow> bytes \<Rightarrow> enc_krb_priv_part_options \<Rightarrow> kt_key \<Rightarrow> u32 option \<Rightarrow> message_error + krb_priv" where
  "build_krb_priv K P fill user_data opts key kvno =
     rbind (random_confounder fill key) (\<lambda>confounder. build_krb_priv_with_confounder K P user_data opts key kvno confounder)"

definition decrypt_krb_priv_enc_part :: "kdc_asn1 \<Rightarrow> crypto_prims \<Rightarrow> krb_priv \<Rightarrow> kt_key \<Rightarrow> message_error + enc_krb_priv_part" where
  "decrypt_krb_priv_enc_part K P m key =
     (if ed_etype (kp_enc_part m) \<noteq> kt_etype key
      then Inl (MsgKeyEtypeMismatch (kt_etype key) (ed_etype (kp_enc_part m)))
      else rbind (ok_or (ket_from_etype_id (ed_etype (kp_enc_part m))) (MsgUnsupportedEtype (ed_etype (kp_enc_part m)))) (\<lambda>etype.
        rbind (map_err MsgCrypto (ket_decrypt_message P etype (kt_value key) (ed_cipher (kp_enc_part m)) KRB_PRIV_ENCPART_USAGE)) (\<lambda>plaintext.
          decode_enc_krb_priv_part K (trim_zero_padded_der plaintext))))"

section \<open>KRB-SAFE\<close>

definition KRB_SAFE_MSG_TYPE :: int where
  "KRB_SAFE_MSG_TYPE = 20"

definition KRB_SAFE_CHECKSUM_USAGE :: u32 where
  "KRB_SAFE_CHECKSUM_USAGE = 15"

datatype krb_safe_error =
    SafeDecode string
  | SafeEncode string
  | SafeInvalidMessage string int int
  | SafeUnsupportedEtype i32
  | SafeUnsupportedChecksumType i32
  | SafeKeyChecksumTypeMismatch i32 i32 \<comment> \<open>of the key, checksum type\<close>
  | SafeChecksumMismatch
  | SafeCrypto crypto_error

definition safe_validate_integer :: "string \<Rightarrow> int \<Rightarrow> int \<Rightarrow> krb_safe_error + unit" where
  "safe_validate_integer field actual expected =
     (if actual \<noteq> expected then Inl (SafeInvalidMessage field expected actual) else Inr ())"

definition decode_krb_safe :: "kdc_asn1 \<Rightarrow> bytes \<Rightarrow> krb_safe_error + krb_safe" where
  "decode_krb_safe K bs =
     rbind (ok_or (c_dec (k_krb_safe K) bs) (SafeDecode ''KRB-SAFE'')) (\<lambda>m.
     rbind (safe_validate_integer ''pvno'' (ks_pvno m) KRB5_PVNO) (\<lambda>_.
     rbind (safe_validate_integer ''msg-type'' (ks_msg_type m) KRB_SAFE_MSG_TYPE) (\<lambda>_. Inr m)))"

definition encode_krb_safe :: "kdc_asn1 \<Rightarrow> krb_safe \<Rightarrow> krb_safe_error + bytes" where
  "encode_krb_safe K m = ok_or (c_enc (k_krb_safe K) m) (SafeEncode ''KRB-SAFE'')"

definition krb_safe_checksum :: "kdc_asn1 \<Rightarrow> crypto_prims \<Rightarrow> krb_safe_body \<Rightarrow> kt_key \<Rightarrow> krb_safe_error + rasn_checksum" where
  "krb_safe_checksum K P body key =
     rbind (ok_or (ket_from_etype_id (kt_etype key)) (SafeUnsupportedEtype (kt_etype key))) (\<lambda>etype.
     rbind (ok_or (c_enc (k_krb_safe_body K) body) (SafeEncode ''KrbSafeBody'')) (\<lambda>body_der.
     rbind (map_err SafeCrypto (ket_checksum P etype (kt_value key) body_der KRB_SAFE_CHECKSUM_USAGE)) (\<lambda>c.
       Inr \<lparr>ck_type = ket_checksum_type_id etype, ck_checksum = c\<rparr>)))"

definition build_krb_safe :: "kdc_asn1 \<Rightarrow> crypto_prims \<Rightarrow> krb_safe_body \<Rightarrow> kt_key \<Rightarrow> krb_safe_error + krb_safe" where
  "build_krb_safe K P body key =
     rbind (krb_safe_checksum K P body key) (\<lambda>cksum.
       Inr \<lparr>ks_pvno = KRB5_PVNO, ks_msg_type = KRB_SAFE_MSG_TYPE, ks_body = body, ks_cksum = cksum\<rparr>)"

definition verify_krb_safe_checksum :: "kdc_asn1 \<Rightarrow> crypto_prims \<Rightarrow> krb_safe \<Rightarrow> kt_key \<Rightarrow> krb_safe_error + unit" where
  "verify_krb_safe_checksum K P m key =
     rbind (ok_or (ket_from_checksum_type_id (ck_type (ks_cksum m))) (SafeUnsupportedChecksumType (ck_type (ks_cksum m)))) (\<lambda>etype.
       if ket_etype_id etype \<noteq> kt_etype key
       then Inl (SafeKeyChecksumTypeMismatch (kt_etype key) (ck_type (ks_cksum m)))
       else rbind (ok_or (c_enc (k_krb_safe_body K) (ks_body m)) (SafeEncode ''KrbSafeBody'')) (\<lambda>body_der.
         if \<not> ket_verify_checksum P etype (kt_value key) body_der (ck_checksum (ks_cksum m)) KRB_SAFE_CHECKSUM_USAGE
         then Inl SafeChecksumMismatch
         else Inr ()))"

section \<open>Sealed data is delivered\<close>

lemma decrypt_built_krb_priv:
  assumes "prims_ok P" and "kdc_asn1_ok K" and "key_fits key e" and "length conf = ket_confounder_len e"
    and "whole (po_timestamp opts)" and "build_krb_priv_with_confounder K P user_data opts key kvno conf = Inr m"
  shows "decrypt_krb_priv_enc_part K P m key = Inr (build_enc_krb_priv_part user_data opts)" and "validate_krb_priv m = Inr ()"
proof -
  obtain p ct where p: "c_enc (k_enc_krb_priv_part K) (build_enc_krb_priv_part user_data opts) = Some p"
    and ct: "ket_encrypt_message_with_confounder P e (kt_value key) p KRB_PRIV_ENCPART_USAGE conf = Inr ct"
    and m: "m = \<lparr>kp_pvno = KRB_PRIV_PVNO, kp_msg_type = KRB_PRIV_MSG_TYPE,
      kp_enc_part = \<lparr>ed_etype = kt_etype key, ed_kvno = kvno, ed_cipher = ct\<rparr>\<rparr>"
    using assms(6) by (auto simp: build_krb_priv_with_confounder_def encode_enc_krb_priv_part_def encrypt_krb_priv_enc_part_def
        rbind_eq_Inr ok_or_eq_Inr map_err_eq_Inr etype_of_fitting_key [OF assms(3)])
  have good: "priv_part_whole (build_enc_krb_priv_part user_data opts)"
    using assms(5) by (simp add: priv_part_whole_def build_enc_krb_priv_part_def)
  show "decrypt_krb_priv_enc_part K P m key = Inr (build_enc_krb_priv_part user_data opts)"
    using open_sealed_part [OF assms(1,3,4) kdc_asn1_okD(3) [OF assms(2)] p good ct] assms(3)
    by (auto simp: decrypt_krb_priv_enc_part_def decode_enc_krb_priv_part_def m key_fits_def)
  show "validate_krb_priv m = Inr ()" by (simp add: m validate_krb_priv_def validate_integer_def)
qed

text \<open>Application data sent as KRB-PRIV arrives: for every supported key a message can be built around data whose part
  has an encoding, its bytes are decoded and checked, and opening them with the same key gives the data with
  the time stamp, sequence number and addresses it was sent with.  Opening it with a key of another
  encryption type is refused as such.\<close>

lemma krb_priv_delivers:
  assumes "prims_ok P" and "kdc_asn1_ok K" and "key_fits key e" and "length conf = ket_confounder_len e"
    and "whole (po_timestamp opts)" and "c_enc (k_enc_krb_priv_part K) (build_enc_krb_priv_part user_data opts) = Some p"
  shows "\<exists>m. build_krb_priv_with_confounder K P user_data opts key kvno conf = Inr m
    \<and> decrypt_krb_priv_enc_part K P m key = Inr (build_enc_krb_priv_part user_data opts)
    \<and> (\<forall>bs. encode_krb_priv K m = Inr bs \<longrightarrow> decode_krb_priv K bs = Inr m)
    \<and> (\<forall>k. kt_etype k \<noteq> kt_etype key \<longrightarrow> decrypt_krb_priv_enc_part K P m k = Inl (MsgKeyEtypeMismatch (kt_etype k) (kt_etype key)))"
proof -
  obtain ct where ct: "ket_encrypt_message_with_confounder P e (kt_value key) p KRB_PRIV_ENCPART_USAGE conf = Inr ct"
    using sealable [OF assms(1,3,4)] by blast
  define m where "m = \<lparr>kp_pvno = KRB_PRIV_PVNO, kp_msg_type = KRB_PRIV_MSG_TYPE,
      kp_enc_part = \<lparr>ed_etype = kt_etype key, ed_kvno = kvno, ed_cipher = ct\<rparr>\<rparr>"
  have b: "build_krb_priv_with_confounder K P user_data opts key kvno conf = Inr m"
    using ct by (simp add: build_krb_priv_with_confounder_def encode_enc_krb_priv_part_def encrypt_krb_priv_enc_part_def
        etype_of_fitting_key [OF assms(3)] assms(6) m_def)
  have "decode_krb_priv K bs = Inr m" if "encode_krb_priv K m = Inr bs" for bs
    using that codec_okD(1) [OF kdc_asn1_okD(2) [OF assms(2)]] decrypt_built_krb_priv(2) [OF assms(1-5) b]
    by (simp add: encode_krb_priv_def decode_krb_priv_def ok_or_eq_Inr)
  moreover have "decrypt_krb_priv_enc_part K P m k = Inl (MsgKeyEtypeMismatch (kt_etype k) (kt_etype key))"
    if "kt_etype k \<noteq> kt_etype key" for k
    using that by (simp add: decrypt_krb_priv_enc_part_def m_def)
  ultimately show ?thesis using b decrypt_built_krb_priv(1) [OF assms(1-5) b] by blast
qed

section \<open>Checksummed data is accepted exactly when it is genuine\<close>

lemma verify_checksum_iff: "ket_verify_checksum P e k d c u \<longleftrightarrow> ket_checksum P e k d u = Inr c"
  by (auto simp: ket_verify_eq is_ok_and_def split: sum.splits)

lemma verify_krb_safe_iff:
  assumes "prims_ok P" and "key_fits key e"
  shows "verify_krb_safe_checksum K P m key = Inr () \<longleftrightarrow> krb_safe_checksum K P (ks_body m) key = Inr (ks_cksum m)"
proof -
  have ids: "ket_from_etype_id i = Some x \<longleftrightarrow> ket_etype_id x = i"
    "ket_from_checksum_type_id i = Some x \<longleftrightarrow> ket_checksum_type_id x = i" for i x
    using ket_ids_identify [of i x] by blast+
  have id: "ket_etype_id e = kt_etype key" "ket_from_etype_id (kt_etype key) = Some e"
    using assms(2) ids(1) by (auto simp: key_fits_def)
  have same: "ket_etype_id x = ket_etype_id e \<longleftrightarrow> x = e" for x using ids(1) [of "ket_etype_id e"] by (metis option.inject)
  have "verify_krb_safe_checksum K P m key = Inr () \<longleftrightarrow> ck_type (ks_cksum m) = ket_checksum_type_id e
      \<and> (\<exists>b. c_enc (k_krb_safe_body K) (ks_body m) = Some b
           \<and> ket_checksum P e (kt_value key) b KRB_SAFE_CHECKSUM_USAGE = Inr (ck_checksum (ks_cksum m)))"
    unfolding verify_krb_safe_checksum_def
    by (auto simp: rbind_eq_Inr ok_or_eq_Inr ids(2) id(1) [symmetric] same verify_checksum_iff split: if_splits)
  also have "\<dots> \<longleftrightarrow> krb_safe_checksum K P (ks_body m) key = Inr (ks_cksum m)"
    by (cases "ks_cksum m") (auto simp: krb_safe_checksum_def id(2) rbind_eq_Inr ok_or_eq_Inr map_err_eq_Inr)
  finally show ?thesis .
qed

lemma built_krb_safe_verifies:
  assumes "prims_ok P" and "key_fits key e" and "build_krb_safe K P body key = Inr m"
  shows "verify_krb_safe_checksum K P m key = Inr () \<and> ks_body m = body"
  using assms(3) verify_krb_safe_iff [OF assms(1,2), of K m] by (auto simp: build_krb_safe_def rbind_eq_Inr)

text \<open>C39: a KRB-SAFE message verifies under a key of the right size exactly when it carries the checksum
  that the sender with that key would have put on its body, type and value (so a body without an encoding is refused);
  every message that is built verifies and keeps its body.\<close>

theorem krb_safe_verifies_iff:
  assumes "prims_ok P" and "key_fits key e"
  shows "(verify_krb_safe_checksum K P m key = Inr () \<longleftrightarrow> krb_safe_checksum K P (ks_body m) key = Inr (ks_cksum m))
    \<and> (\<forall>body b. build_krb_safe K P body key = Inr b \<longrightarrow> verify_krb_safe_checksum K P b key = Inr () \<and> ks_body b = body)"
  using verify_krb_safe_iff [OF assms] built_krb_safe_verifies [OF assms] by blast

end
