(* ===== verification/Kdc_Messages.thy ===== *)
theory Kdc_Messages
  imports Krb_Protected
begin

text \<open>
  \<open>src/messages.rs\<close>, \<open>src/kdc_req.rs\<close>, \<open>src/kdc_rep.rs\<close> and \<open>src/krb_error.rs\<close>: the messages between client and KDC.
  Requests and replies are checked for version, type and the version of nested tickets; the
  encrypted part of a reply is sealed and opened; an error is summarised in \<open>krb_error_info\<close>.
\<close>

unbundle bit_operations_syntax

section \<open>Bit strings\<close>

text \<open>\<open>KerberosFlags::from_slice\<close> and \<open>as_raw_slice\<close> of the bit string crate: the first bit is the most
  significant bit of the first byte; the bits behind the end of the last byte are clear.\<close>

definition byte_bits :: "u8 \<Rightarrow> bool list" where
  "byte_bits b = rev (map (bit b) [0..<8])"

definition byte_of_bits :: "bool list \<Rightarrow> u8" where
  "byte_of_bits bs = horner_sum of_bool 2 (rev (bs @ replicate (8 - length bs) False))"

definition from_slice :: "bytes \<Rightarrow> bool list" where
  "from_slice bs = concat (map byte_bits bs)"

function raw_slice :: "bool list \<Rightarrow> bytes" where
  "raw_slice bits = (if bits = [] then [] else byte_of_bits (take 8 bits) # raw_slice (drop 8 bits))"
  by pat_completeness auto
termination
  by (relation "measure length") auto

declare raw_slice.simps [simp del]

text \<open>The first four bytes, missing ones zero.\<close>

definition ticket_flags_to_bytes :: "bool list \<Rightarrow> bytes" where
  "ticket_flags_to_bytes flags =
     (let raw = raw_slice flags in map (\<lambda>i. if i < length raw then raw ! i else 0) [0..<4])"

lemma byte_of_byte_bits [simp]: "byte_of_bits (byte_bits b) = b"
  by (simp add: byte_of_bits_def byte_bits_def horner_sum_bit_eq_take_bit take_bit_word_eq_self)

lemma length_byte_bits [simp]: "length (byte_bits b) = 8"
  by (simp add: byte_bits_def)

lemma raw_from_slice [simp]: "raw_slice (from_slice bs) = bs"
proof (induction bs)
  case Nil
  then show ?case by (subst raw_slice.simps) (simp add: from_slice_def)
next
  case (Cons b bs)
  have "from_slice (b # bs) = byte_bits b @ from_slice bs" "byte_bits b \<noteq> []"
    using length_byte_bits [of b] by (auto simp: from_slice_def simp del: length_byte_bits)
  then show ?case using Cons.IH by (subst raw_slice.simps) simp
qed

lemma flags_of_four_bytes [simp]:
  assumes "length bs = 4"
  shows "ticket_flags_to_bytes (from_slice bs) = bs"
  using assms by (auto simp: ticket_flags_to_bytes_def intro: nth_equalityI)

lemma length_ticket_flags [simp]: "length (ticket_flags_to_bytes flags) = 4"
  by (simp add: ticket_flags_to_bytes_def Let_def)

section \<open>Wrappers of messages.rs\<close>

text \<open>\<open>messages::Error\<close>.  \<open>krb_error::Error\<close> has the same variants and its \<open>message_error\<close> maps each to the same one.\<close>

datatype krb_msg_error =
    KmDecode string
  | KmEncode string
  | KmInvalidString
  | KmIntegerOutOfRange string int
  | KmInvalidMessage string int int
  | KmKvnoOutOfRange string int
  | KmTimeOverflow

definition pac_options_from_bits :: "u32 \<Rightarrow> pa_pac_options" where
  "pac_options_from_bits bits = \<lparr>ppo_flags = from_slice (to_bytes_en Big bits)\<rparr>"

definition pac_options_bits :: "pa_pac_options \<Rightarrow> u32" where
  "pac_options_bits o1 = from_bytes_en Big (ticket_flags_to_bytes (ppo_flags o1))"

definition pac_options_encode_der :: "kdc_asn1 \<Rightarrow> pa_pac_options \<Rightarrow> krb_msg_error + bytes" where
  "pac_options_encode_der K v = ok_or (c_enc (k_pa_pac_options K) v) (KmEncode ''PA-PAC-OPTIONS'')"

definition pac_options_decode_der :: "kdc_asn1 \<Rightarrow> bytes \<Rightarrow> krb_msg_error + pa_pac_options" where
  "pac_options_decode_der K bs = ok_or (c_dec (k_pa_pac_options K) bs) (KmDecode ''PA-PAC-OPTIONS'')"

definition pa_for_user_encode_der :: "kdc_asn1 \<Rightarrow> pa_for_user \<Rightarrow> krb_msg_error + bytes" where
  "pa_for_user_encode_der K v = ok_or (c_enc (k_pa_for_user K) v) (KmEncode ''PA-FOR-USER'')"

definition pa_for_user_decode_der :: "kdc_asn1 \<Rightarrow> bytes \<Rightarrow> krb_msg_error + pa_for_user" where
  "pa_for_user_decode_der K bs = ok_or (c_dec (k_pa_for_user K) bs) (KmDecode ''PA-FOR-USER'')"

definition pa_req_enc_pa_rep_from_checksum :: "rasn_checksum \<Rightarrow> pa_req_enc_pa_rep" where
  "pa_req_enc_pa_rep_from_checksum c = \<lparr>prp_checksum_type = ck_type c, prp_checksum = ck_checksum c\<rparr>"

definition pa_req_enc_pa_rep_to_checksum :: "pa_req_enc_pa_rep \<Rightarrow> rasn_checksum" where
  "pa_req_enc_pa_rep_to_checksum p = \<lparr>ck_type = prp_checksum_type p, ck_checksum = prp_checksum p\<rparr>"

definition pa_req_enc_pa_rep_encode_der :: "kdc_asn1 \<Rightarrow> pa_req_enc_pa_rep \<Rightarrow> krb_msg_error + bytes" where
  "pa_req_enc_pa_rep_encode_der K v = ok_or (c_enc (k_pa_req_enc_pa_rep K) v) (KmEncode ''PA-REQ-ENC-PA-REP'')"

definition pa_req_enc_pa_rep_decode_der :: "kdc_asn1 \<Rightarrow> bytes \<Rightarrow> krb_msg_error + pa_req_enc_pa_rep" where
  "pa_req_enc_pa_rep_decode_der K bs = ok_or (c_dec (k_pa_req_enc_pa_rep K) bs) (KmDecode ''PA-REQ-ENC-PA-REP'')"

definition raw_from_rasn :: "encrypted_data \<Rightarrow> raw_encrypted_data" where
  "raw_from_rasn v = \<lparr>red_etype = ed_etype v, red_kvno = map_option uint (ed_kvno v), red_cipher = ed_cipher v\<rparr>"

definition raw_kvno_i32 :: "raw_encrypted_data \<Rightarrow> krb_msg_error + i32 option" where
  "raw_kvno_i32 d =
     (case red_kvno d of
        None \<Rightarrow> Inr None
      | Some k \<Rightarrow> if - (2 ^ 31) \<le> k \<and> k < 2 ^ 31 then Inr (Some (word_of_int k)) else Inl (KmKvnoOutOfRange ''i32'' k))"

definition raw_kvno_u32 :: "raw_encrypted_data \<Rightarrow> krb_msg_error + u32 option" where
  "raw_kvno_u32 d =
     (case red_kvno d of
        None \<Rightarrow> Inr None
      | Some k \<Rightarrow> rbind (ok_or (int_parse_u32 k) (KmKvnoOutOfRange ''u32'' k)) (\<lambda>v. Inr (Some v)))"

definition raw_try_to_rasn :: "raw_encrypted_data \<Rightarrow> krb_msg_error + encrypted_data" where
  "raw_try_to_rasn d =
     rbind (raw_kvno_u32 d) (\<lambda>kvno. Inr \<lparr>ed_etype = red_etype d, ed_kvno = kvno, ed_cipher = red_cipher d\<rparr>)"

lemma pac_options_roundtrip: "pac_options_bits (pac_options_from_bits b) = b"
  by (simp add: pac_options_bits_def pac_options_from_bits_def)

lemma raw_try_from_rasn: "raw_try_to_rasn (raw_from_rasn d) = Inr d"
  by (cases "ed_kvno d") (simp_all add: raw_try_to_rasn_def raw_from_rasn_def raw_kvno_u32_def)

section \<open>KRB-ERROR\<close>

record krb_error_info =
  kei_ctime :: "system_time option"
  kei_cusec :: "u32 option"
  kei_stime :: system_time
  kei_susec :: u32
  kei_error_code :: i32
  kei_client :: "principal option"
  kei_service :: principal
  kei_e_text :: "string option"
  kei_e_data :: "bytes option"

definition km_validate_integer :: "string \<Rightarrow> int \<Rightarrow> int \<Rightarrow> krb_msg_error + unit" where
  "km_validate_integer field actual expected =
     (if actual \<noteq> expected then Inl (KmInvalidMessage field expected actual) else Inr ())"

definition km_integer_to_u32 :: "string \<Rightarrow> int \<Rightarrow> krb_msg_error + u32" where
  "km_integer_to_u32 field v = ok_or (int_parse_u32 v) (KmIntegerOutOfRange field v)"

text \<open>The conversions of names and times are those of \<open>src/service.rs\<close>, with the one error they can raise renamed.\<close>

definition km_string :: "bytes \<Rightarrow> krb_msg_error + string" where
  "km_string bs = map_err (\<lambda>_. KmInvalidString) (kerberos_string_to_string bs)"

definition km_principal :: "bytes \<Rightarrow> principal_name \<Rightarrow> krb_msg_error + principal" where
  "km_principal realm name = map_err (\<lambda>_. KmInvalidString) (principal_from_parts realm name)"

definition km_system_time :: "kerberos_time \<Rightarrow> krb_msg_error + system_time" where
  "km_system_time t = map_err (\<lambda>_. KmTimeOverflow) (system_time_from_kerberos_time t)"

text \<open>\<open>Option::map\<close> followed by \<open>transpose\<close>.\<close>

fun traverse :: "('a \<Rightarrow> 'e + 'b) \<Rightarrow> 'a option \<Rightarrow> 'e + 'b option" where
  "traverse f None = Inr None"
| "traverse f (Some x) = rbind (f x) (\<lambda>y. Inr (Some y))"

lemma traverse_eq_Inr: "traverse f v = Inr w \<longleftrightarrow> (case v of None \<Rightarrow> w = None | Some x \<Rightarrow> \<exists>y. f x = Inr y \<and> w = Some y)"
  by (cases v) (auto simp: rbind_eq_Inr)

text \<open>\<open>collect\<close> of an iterator of results: the first error wins.\<close>

fun rmap :: "('a \<Rightarrow> 'e + 'b) \<Rightarrow> 'a list \<Rightarrow> 'e + 'b list" where
  "rmap f [] = Inr []"
| "rmap f (x # xs) = rbind (f x) (\<lambda>y. rbind (rmap f xs) (\<lambda>ys. Inr (y # ys)))"

lemma rmap_eq_Inr: "rmap f xs = Inr ys \<longleftrightarrow> list_all2 (\<lambda>x y. f x = Inr y) xs ys"
  by (induction xs arbitrary: ys) (auto simp: rbind_eq_Inr list_all2_Cons1)

definition KRB_ERROR_MSG_TYPE :: int where
  "KRB_ERROR_MSG_TYPE = 30"

definition krb_error_info :: "krb_error \<Rightarrow> krb_msg_error + krb_error_info" where
  "krb_error_info e =
     rbind (km_validate_integer ''pvno'' (ke_pvno e) KRB5_PVNO) (\<lambda>_.
     rbind (km_validate_integer ''msg-type'' (ke_msg_type e) KRB_ERROR_MSG_TYPE) (\<lambda>_.
     rbind (case (ke_crealm e, ke_cname e) of
              (Some realm, Some name) \<Rightarrow> rbind (km_principal realm name) (\<lambda>p. Inr (Some p))
            | _ \<Rightarrow> Inr None) (\<lambda>client.
     rbind (traverse km_system_time (ke_ctime e)) (\<lambda>ctime.
     rbind (traverse (km_integer_to_u32 ''cusec'') (ke_cusec e)) (\<lambda>cusec.
     rbind (km_system_time (ke_stime e)) (\<lambda>stime.
     rbind (km_integer_to_u32 ''susec'' (ke_susec e)) (\<lambda>susec.
     rbind (km_principal (ke_realm e) (ke_sname e)) (\<lambda>service.
     rbind (traverse km_string (ke_e_text e)) (\<lambda>e_text.
       Inr \<lparr>kei_ctime = ctime, kei_cusec = cusec, kei_stime = stime, kei_susec = susec,
            kei_error_code = ke_error_code e, kei_client = client, kei_service = service,
            kei_e_text = e_text, kei_e_data = ke_e_data e\<rparr>)))))))))"

definition validate_krb_error :: "krb_error \<Rightarrow> krb_msg_error + unit" where
  "validate_krb_error e = rbind (krb_error_info e) (\<lambda>_. Inr ())"

definition decode_krb_error :: "kdc_asn1 \<Rightarrow> bytes \<Rightarrow> krb_msg_error + krb_error" where
  "decode_krb_error K bs =
     rbind (ok_or (c_dec (k_krb_error K) bs) (KmDecode ''KRB-ERROR'')) (\<lambda>e. rbind (validate_krb_error e) (\<lambda>_. Inr e))"

definition encode_krb_error :: "kdc_asn1 \<Rightarrow> krb_error \<Rightarrow> krb_msg_error + bytes" where
  "encode_krb_error K e = ok_or (c_enc (k_krb_error K) e) (KmEncode ''KRB-ERROR'')"

definition decode_krb_error_info :: "kdc_asn1 \<Rightarrow> bytes \<Rightarrow> krb_msg_error + krb_error_info" where
  "decode_krb_error_info K bs = rbind (decode_krb_error K bs) krb_error_info"

definition decode_method_data :: "kdc_asn1 \<Rightarrow> bytes \<Rightarrow> krb_msg_error + pa_data list" where
  "decode_method_data K bs = ok_or (c_dec (k_method_data K) bs) (KmDecode ''METHOD-DATA'')"

definition encode_method_data :: "kdc_asn1 \<Rightarrow> pa_data list \<Rightarrow> krb_msg_error + bytes" where
  "encode_method_data K d = ok_or (c_enc (k_method_data K) d) (KmEncode ''METHOD-DATA'')"

definition preauth_method_data :: "kdc_asn1 \<Rightarrow> krb_error \<Rightarrow> i32 \<Rightarrow> krb_msg_error + pa_data list" where
  "preauth_method_data K e preauth_required_error_code =
     rbind (krb_error_info e) (\<lambda>info.
       if kei_error_code info \<noteq> preauth_required_error_code then Inr []
       else (case kei_e_data info of None \<Rightarrow> Inr [] | Some bs \<Rightarrow> decode_method_data K bs))"

section \<open>Requests\<close>

text \<open>\<open>kdc_rep::Error\<close>; \<open>kdc_req::Error\<close> has the same variants but \<open>KdcKeyEtypeMismatch\<close>.\<close>

datatype kdc_msg_error =
    KdcDecode string
  | KdcEncode string
  | KdcInvalidMessage string int int
  | KdcUnsupportedEtype i32
  | KdcKeyEtypeMismatch i32 i32
  | KdcTicketKeyEtypeMismatch i32 i32
  | KdcRandom
  | KdcCrypto crypto_error

fun kdc_ticket_error :: "message_error \<Rightarrow> kdc_msg_error" where
  "kdc_ticket_error (MsgDecode t) = KdcDecode t"
| "kdc_ticket_error (MsgEncode t) = KdcEncode t"
| "kdc_ticket_error (MsgInvalidMessage f e a) = KdcInvalidMessage f e a"
| "kdc_ticket_error (MsgUnsupportedEtype e) = KdcUnsupportedEtype e"
| "kdc_ticket_error (MsgKeyEtypeMismatch k d) = KdcTicketKeyEtypeMismatch k d"
| "kdc_ticket_error MsgRandom = KdcRandom"
| "kdc_ticket_error (MsgCrypto e) = KdcCrypto e"

definition kdc_validate_integer :: "string \<Rightarrow> int \<Rightarrow> int \<Rightarrow> kdc_msg_error + unit" where
  "kdc_validate_integer field actual expected =
     (if actual \<noteq> expected then Inl (KdcInvalidMessage field expected actual) else Inr ())"

definition KRB_AS_REQ_MSG_TYPE :: int where
  "KRB_AS_REQ_MSG_TYPE = 10"

definition KRB_TGS_REQ_MSG_TYPE :: int where
  "KRB_TGS_REQ_MSG_TYPE = 12"

fun validate_tickets :: "ticket list \<Rightarrow> kdc_msg_error + unit" where
  "validate_tickets [] = Inr ()"
| "validate_tickets (t # ts) = rbind (map_err kdc_ticket_error (validate_ticket t)) (\<lambda>_. validate_tickets ts)"

definition validate_kdc_req_body :: "kdc_req_body \<Rightarrow> kdc_msg_error + unit" where
  "validate_kdc_req_body b = (case rb_additional_tickets b of Some ts \<Rightarrow> validate_tickets ts | None \<Rightarrow> Inr ())"

definition decode_kdc_req_body :: "kdc_asn1 \<Rightarrow> bytes \<Rightarrow> kdc_msg_error + kdc_req_body" where
  "decode_kdc_req_body K bs =
     rbind (ok_or (c_dec (k_kdc_req_body K) bs) (KdcDecode ''KDC-REQ-BODY'')) (\<lambda>b. rbind (validate_kdc_req_body b) (\<lambda>_. Inr b))"

definition encode_kdc_req_body :: "kdc_asn1 \<Rightarrow> kdc_req_body \<Rightarrow> kdc_msg_error + bytes" where
  "encode_kdc_req_body K b = ok_or (c_enc (k_kdc_req_body K) b) (KdcEncode ''KDC-REQ-BODY'')"

definition validate_kdc_req :: "kdc_req \<Rightarrow> int \<Rightarrow> kdc_msg_error + unit" where
  "validate_kdc_req r msg_type =
     rbind (kdc_validate_integer ''pvno'' (kq_pvno r) KRB5_PVNO) (\<lambda>_.
     rbind (kdc_validate_integer ''msg-type'' (kq_msg_type r) msg_type) (\<lambda>_. validate_kdc_req_body (kq_req_body r)))"

definition validate_as_req :: "kdc_req \<Rightarrow> kdc_msg_error + unit" where
  "validate_as_req r = validate_kdc_req r KRB_AS_REQ_MSG_TYPE"

definition decode_as_req :: "kdc_asn1 \<Rightarrow> bytes \<Rightarrow> kdc_msg_error + kdc_req" where
  "decode_as_req K bs =
     rbind (ok_or (c_dec (k_as_req K) bs) (KdcDecode ''AS-REQ'')) (\<lambda>r. rbind (validate_as_req r) (\<lambda>_. Inr r))"

definition encode_as_req :: "kdc_asn1 \<Rightarrow> kdc_req \<Rightarrow> kdc_msg_error + bytes" where
  "encode_as_req K r = ok_or (c_enc (k_as_req K) r) (KdcEncode ''AS-REQ'')"

definition kdc_build_as_req :: "kdc_req_body \<Rightarrow> pa_data list option \<Rightarrow> kdc_req" where
  "kdc_build_as_req req_body padata =
     \<lparr>kq_pvno = KRB5_PVNO, kq_msg_type = KRB_AS_REQ_MSG_TYPE, kq_padata = padata, kq_req_body = req_body\<rparr>"

definition encode_build_as_req :: "kdc_asn1 \<Rightarrow> kdc_req_body \<Rightarrow> pa_data list option \<Rightarrow> kdc_msg_error + bytes" where
  "encode_build_as_req K req_body padata = encode_as_req K (kdc_build_as_req req_body padata)"

definition validate_tgs_req :: "kdc_req \<Rightarrow> kdc_msg_error + unit" where
  "validate_tgs_req r = validate_kdc_req r KRB_TGS_REQ_MSG_TYPE"

definition decode_tgs_req :: "kdc_asn1 \<Rightarrow> bytes \<Rightarrow> kdc_msg_error + kdc_req" where
  "decode_tgs_req K bs =
     rbind (ok_or (c_dec (k_tgs_req K) bs) (KdcDecode ''TGS-REQ'')) (\<lambda>r. rbind (validate_tgs_req r) (\<lambda>_. Inr r))"

definition encode_tgs_req :: "kdc_asn1 \<Rightarrow> kdc_req \<Rightarrow> kdc_msg_error + bytes" where
  "encode_tgs_req K r = ok_or (c_enc (k_tgs_req K) r) (KdcEncode ''TGS-REQ'')"

definition kdc_build_tgs_req :: "kdc_req_body \<Rightarrow> pa_data list option \<Rightarrow> kdc_req" where
  "kdc_build_tgs_req req_body padata =
     \<lparr>kq_pvno = KRB5_PVNO, kq_msg_type = KRB_TGS_REQ_MSG_TYPE, kq_padata = padata, kq_req_body = req_body\<rparr>"

definition encode_build_tgs_req :: "kdc_asn1 \<Rightarrow> kdc_req_body \<Rightarrow> pa_data list option \<Rightarrow> kdc_msg_error + bytes" where
  "encode_build_tgs_req K req_body padata = encode_tgs_req K (kdc_build_tgs_req req_body padata)"

lemma validate_tickets_ok: "validate_tickets ts = Inr () \<longleftrightarrow> list_all (\<lambda>t. tkt_vno t = KRB5_TKT_VNO) ts"
  by (induction ts) (auto simp: rbind_eq_Inr map_err_eq_Inr validate_ticket_def validate_integer_def)

section \<open>Replies\<close>

definition KRB_AS_REP_MSG_TYPE :: int where
  "KRB_AS_REP_MSG_TYPE = 11"

definition KRB_TGS_REP_MSG_TYPE :: int where
  "KRB_TGS_REP_MSG_TYPE = 13"

definition AS_REP_ENCPART_USAGE :: u32 where
  "AS_REP_ENCPART_USAGE = 3"

definition TGS_REP_ENCPART_SESSION_KEY_USAGE :: u32 where
  "TGS_REP_ENCPART_SESSION_KEY_USAGE = 8"

definition validate_kdc_rep :: "kdc_rep \<Rightarrow> int \<Rightarrow> kdc_msg_error + unit" where
  "validate_kdc_rep r msg_type =
     rbind (kdc_validate_integer ''pvno'' (kr_pvno r) KRB5_PVNO) (\<lambda>_.
     rbind (kdc_validate_integer ''msg-type'' (kr_msg_type r) msg_type) (\<lambda>_.
       map_err kdc_ticket_error (validate_ticket (kr_ticket r))))"

definition validate_as_rep :: "kdc_rep \<Rightarrow> kdc_msg_error + unit" where
  "validate_as_rep r = validate_kdc_rep r KRB_AS_REP_MSG_TYPE"

definition decode_as_rep :: "kdc_asn1 \<Rightarrow> bytes \<Rightarrow> kdc_msg_error + kdc_rep" where
  "decode_as_rep K bs =
     rbind (ok_or (c_dec (k_as_rep K) bs) (KdcDecode ''AS-REP'')) (\<lambda>r. rbind (validate_as_rep r) (\<lambda>_. Inr r))"

definition encode_as_rep :: "kdc_asn1 \<Rightarrow> kdc_rep \<Rightarrow> kdc_msg_error + bytes" where
  "encode_as_rep K r = ok_or (c_enc (k_as_rep K) r) (KdcEncode ''AS-REP'')"

definition validate_tgs_rep :: "kdc_rep \<Rightarrow> kdc_msg_error + unit" where
  "validate_tgs_rep r = validate_kdc_rep r KRB_TGS_REP_MSG_TYPE"

definition decode_tgs_rep :: "kdc_asn1 \<Rightarrow> bytes \<Rightarrow> kdc_msg_error + kdc_rep" where
  "decode_tgs_rep K bs =
     rbind (ok_or (c_dec (k_tgs_rep K) bs) (KdcDecode ''TGS-REP'')) (\<lambda>r. rbind (validate_tgs_rep r) (\<lambda>_. Inr r))"

definition encode_tgs_rep :: "kdc_asn1 \<Rightarrow> kdc_rep \<Rightarrow> kdc_msg_error + bytes" where
  "encode_tgs_rep K r = ok_or (c_enc (k_tgs_rep K) r) (KdcEncode ''TGS-REP'')"

definition decode_enc_kdc_rep_part :: "kdc_asn1 \<Rightarrow> bytes \<Rightarrow> kdc_msg_error + enc_kdc_rep_part" where
  "decode_enc_kdc_rep_part K bs =
     (case c_dec (k_enc_as_rep_part K) bs of
        Some p \<Rightarrow> Inr p
      | None \<Rightarrow> ok_or (c_dec (k_enc_tgs_rep_part K) bs) (KdcDecode ''EncAsRepPart''))"

definition encode_enc_as_rep_part :: "kdc_asn1 \<Rightarrow> enc_kdc_rep_part \<Rightarrow> kdc_msg_error + bytes" where
  "encode_enc_as_rep_part K p = ok_or (c_enc (k_enc_as_rep_part K) p) (KdcEncode ''EncAsRepPart'')"

definition encode_enc_tgs_rep_part :: "kdc_asn1 \<Rightarrow> enc_kdc_rep_part \<Rightarrow> kdc_msg_error + bytes" where
  "encode_enc_tgs_rep_part K p = ok_or (c_enc (k_enc_tgs_rep_part K) p) (KdcEncode ''EncTgsRepPart'')"

definition kdc_etype_of_key :: "kt_key \<Rightarrow> kdc_msg_error + kerberos_etype" where
  "kdc_etype_of_key key = ok_or (ket_from_etype_id (kt_etype key)) (KdcUnsupportedEtype (kt_etype key))"

definition decrypt_kdc_rep_enc_part ::
  "kdc_asn1 \<Rightarrow> crypto_prims \<Rightarrow> encrypted_data \<Rightarrow> kt_key \<Rightarrow> u32 \<Rightarrow> kdc_msg_error + enc_kdc_rep_part" where
  "decrypt_kdc_rep_enc_part K P d key usage =
     (if kt_etype key \<noteq> ed_etype d then Inl (KdcKeyEtypeMismatch (kt_etype key) (ed_etype d))
      else rbind (kdc_etype_of_key key) (\<lambda>etype.
        rbind (map_err KdcCrypto (ket_decrypt_message P etype (kt_value key) (ed_cipher d) usage)) (\<lambda>plaintext.
          decode_enc_kdc_rep_part K (trim_zero_padded_der plaintext))))"

definition decrypt_as_rep_enc_part :: "kdc_asn1 \<Rightarrow> crypto_prims \<Rightarrow> kdc_rep \<Rightarrow> kt_key \<Rightarrow> kdc_msg_error + enc_kdc_rep_part" where
  "decrypt_as_rep_enc_part K P r key = decrypt_kdc_rep_enc_part K P (kr_enc_part r) key AS_REP_ENCPART_USAGE"

definition decrypt_tgs_rep_enc_part :: "kdc_asn1 \<Rightarrow> crypto_prims \<Rightarrow> kdc_rep \<Rightarrow> kt_key \<Rightarrow> kdc_msg_error + enc_kdc_rep_part" where
  "decrypt_tgs_rep_enc_part K P r key = decrypt_kdc_rep_enc_part K P (kr_enc_part r) key TGS_REP_ENCPART_SESSION_KEY_USAGE"

definition encrypt_kdc_rep_enc_part ::
  "crypto_prims \<Rightarrow> bytes \<Rightarrow> kt_key \<Rightarrow> u32 option \<Rightarrow> u32 \<Rightarrow> bytes \<Rightarrow> kdc_msg_error + encrypted_data" where
  "encrypt_kdc_rep_enc_part P plaintext key kvno usage confounder =
     rbind (kdc_etype_of_key key) (\<lambda>etype.
     rbind (map_err KdcCrypto (ket_encrypt_message_with_confounder P etype (kt_value key) plaintext usage confounder)) (\<lambda>cipher.
       Inr \<lparr>ed_etype = kt_etype key, ed_kvno = kvno, ed_cipher = cipher\<rparr>))"

definition kdc_random_confounder :: "(nat \<Rightarrow> bytes option) \<Rightarrow> kt_key \<Rightarrow> kdc_msg_error + bytes" where
  "kdc_random_confounder fill key =
     rbind (kdc_etype_of_key key) (\<lambda>etype. ok_or (fill (ket_confounder_len etype)) KdcRandom)"

definition encrypt_as_rep_enc_part_with_confounder ::
  "kdc_asn1 \<Rightarrow> crypto_prims \<Rightarrow> enc_kdc_rep_part \<Rightarrow> kt_key \<Rightarrow> u32 option \<Rightarrow> bytes \<Rightarrow> kdc_msg_error + encrypted_data" where
  "encrypt_as_rep_enc_part_with_confounder K P p key kvno confounder =
     rbind (encode_enc_as_rep_part K p) (\<lambda>m. encrypt_kdc_rep_enc_part P m key kvno AS_REP_ENCPART_USAGE confounder)"

definition encrypt_as_rep_enc_part ::
  "kdc_asn1 \<Rightarrow> crypto_prims \<Rightarrow> (nat \<Rightarrow> bytes option) \<Rightarrow> enc_kdc_rep_part \<Rightarrow> kt_key \<Rightarrow> u32 option \<Rightarrow> kdc_msg_error + encrypted_data" where
  "encrypt_as_rep_enc_part K P fill p key kvno =
     rbind (kdc_random_confounder fill key) (encrypt_as_rep_enc_part_with_confounder K P p key kvno)"

definition encrypt_tgs_rep_enc_part_with_confounder ::
  "kdc_asn1 \<Rightarrow> crypto_prims \<Rightarrow> enc_kdc_rep_part \<Rightarrow> kt_key \<Rightarrow> u32 option \<Rightarrow> bytes \<Rightarrow> kdc_msg_error + encrypted_data" where
  "encrypt_tgs_rep_enc_part_with_confounder K P p key kvno confounder =
     rbind (encode_enc_tgs_rep_part K p) (\<lambda>m. encrypt_kdc_rep_enc_part P m key kvno TGS_REP_ENCPART_SESSION_KEY_USAGE confounder)"

definition encrypt_tgs_rep_enc_part ::
  "kdc_asn1 \<Rightarrow> crypto_prims \<Rightarrow> (nat \<Rightarrow> bytes option) \<Rightarrow> enc_kdc_rep_part \<Rightarrow> kt_key \<Rightarrow> u32 option \<Rightarrow> kdc_msg_error + encrypted_data" where
  "encrypt_tgs_rep_enc_part K P fill p key kvno =
     rbind (kdc_random_confounder fill key) (encrypt_tgs_rep_enc_part_with_confounder K P p key kvno)"

section \<open>Sealed replies are opened\<close>

lemma kdc_etype_of_fitting_key: "key_fits key e \<Longrightarrow> kdc_etype_of_key key = Inr e"
  by (simp add: key_fits_def kdc_etype_of_key_def)

lemma decrypt_kdc_rep_sealed:
  assumes "prims_ok P" and "key_fits key e" and "length conf = ket_confounder_len e"
    and "codec_ok good c" and "c_enc c p = Some m" and "good p"
    and "decode_enc_kdc_rep_part K m = Inr p" and "encrypt_kdc_rep_enc_part P m key kvno usage conf = Inr d"
  shows "decrypt_kdc_rep_enc_part K P d key usage = Inr p"
proof -
  obtain ct where ct: "ket_encrypt_message_with_confounder P e (kt_value key) m usage conf = Inr ct"
    and d: "d = \<lparr>ed_etype = kt_etype key, ed_kvno = kvno, ed_cipher = ct\<rparr>"
    using assms(8) by (auto simp: encrypt_kdc_rep_enc_part_def rbind_eq_Inr map_err_eq_Inr kdc_etype_of_fitting_key [OF assms(2)])
  show ?thesis
    using open_sealed_part [OF assms(1,2,3,4,5,6) ct] assms(7)
    by (auto simp: decrypt_kdc_rep_enc_part_def d kdc_etype_of_fitting_key [OF assms(2)])
qed

lemma decrypt_built_as_rep:
  assumes "prims_ok P" and "kdc_asn1_ok K" and "key_fits key e" and "length conf = ket_confounder_len e"
    and "rep_part_whole p" and "encrypt_as_rep_enc_part_with_confounder K P p key kvno conf = Inr d"
  shows "decrypt_kdc_rep_enc_part K P d key AS_REP_ENCPART_USAGE = Inr p"
proof -
  obtain m where m: "c_enc (k_enc_as_rep_part K) p = Some m" "encrypt_kdc_rep_enc_part P m key kvno AS_REP_ENCPART_USAGE conf = Inr d"
    using assms(6) by (auto simp: encrypt_as_rep_enc_part_with_confounder_def encode_enc_as_rep_part_def rbind_eq_Inr ok_or_eq_Inr)
  have "decode_enc_kdc_rep_part K m = Inr p"
    using codec_okD(1) [OF kdc_asn1_okD(10) [OF assms(2)] m(1) assms(5)] by (simp add: decode_enc_kdc_rep_part_def)
  then show ?thesis
    by (rule decrypt_kdc_rep_sealed [OF assms(1,3,4) kdc_asn1_okD(10) [OF assms(2)] m(1) assms(5) _ m(2)])
qed

lemma decrypt_built_tgs_rep:
  assumes "prims_ok P" and "kdc_asn1_ok K" and "key_fits key e" and "length conf = ket_confounder_len e"
    and "rep_part_whole p" and "encrypt_tgs_rep_enc_part_with_confounder K P p key kvno conf = Inr d"
  shows "decrypt_kdc_rep_enc_part K P d key TGS_REP_ENCPART_SESSION_KEY_USAGE = Inr p"
proof -
  obtain m where m: "c_enc (k_enc_tgs_rep_part K) p = Some m"
      "encrypt_kdc_rep_enc_part P m key kvno TGS_REP_ENCPART_SESSION_KEY_USAGE conf = Inr d"
    using assms(6) by (auto simp: encrypt_tgs_rep_enc_part_with_confounder_def encode_enc_tgs_rep_part_def rbind_eq_Inr ok_or_eq_Inr)
  have "decode_enc_kdc_rep_part K m = Inr p"
    using codec_okD(1) [OF kdc_asn1_okD(11) [OF assms(2)] m(1) assms(5)] kdc_asn1_tags(3) [OF assms(2) m(1)]
    by (simp add: decode_enc_kdc_rep_part_def)
  then show ?thesis
    by (rule decrypt_kdc_rep_sealed [OF assms(1,3,4) kdc_asn1_okD(11) [OF assms(2)] m(1) assms(5) _ m(2)])
qed

text \<open>What is opened was sealed under that key.\<close>

lemma decrypted_rep_was_sealed:
  assumes "prims_ok P" and "key_fits key e" and "decrypt_kdc_rep_enc_part K P d key usage = Inr p"
  shows "ed_etype d = kt_etype key \<and> (\<exists>m conf. ket_encrypt_message_with_confounder P e (kt_value key) m usage conf = Inr (ed_cipher d)
    \<and> length conf = ket_confounder_len e \<and> decode_enc_kdc_rep_part K (trim_zero_padded_der m) = Inr p)"
proof -
  obtain m where m: "ket_decrypt_message P e (kt_value key) (ed_cipher d) usage = Inr m"
    "decode_enc_kdc_rep_part K (trim_zero_padded_der m) = Inr p" "ed_etype d = kt_etype key"
    using assms(3) by (auto simp: decrypt_kdc_rep_enc_part_def rbind_eq_Inr map_err_eq_Inr kdc_etype_of_fitting_key [OF assms(2)] split: if_splits)
  then show ?thesis using opened_was_sealed [OF assms(1,2) m(1)] by blast
qed

end
