(* ===== verification/Kadmin.thy ===== *)
theory Kadmin
  imports Krb_Protected Kdc_Messages
begin

text \<open>
  \<open>src/kadmin.rs\<close>: the frames of the password-change protocol (RFC 3244).  A request holds an AP-REQ and a KRB-PRIV
  with the new password, a reply either an AP-REP and a KRB-PRIV or a KRB-ERROR with the result in the clear.
  A frame that was built is parsed to its parts, and a server that holds the session key of the ticket reads the
  new password.
\<close>

section \<open>Data\<close>

definition CHANGE_PASSWORD_REQUEST_VERSION :: u16 where "CHANGE_PASSWORD_REQUEST_VERSION = 0xff80"
definition CHANGE_PASSWORD_REPLY_VERSION :: u16 where "CHANGE_PASSWORD_REPLY_VERSION = 1"
definition KPASSWD_SUCCESS :: u16 where "KPASSWD_SUCCESS = 0"
definition HEADER_LEN :: nat where "HEADER_LEN = 6"

datatype kadmin_error =
    KaFrameTooShort nat
  | KaInvalidMessageLength u16
  | KaInvalidKerberosMessage string int int
  | KaTruncatedFrame nat nat \<comment> \<open>expected, actual\<close>
  | KaInvalidReplyVersion u16
  | KaInvalidRequestVersion u16
  | KaInvalidApReqLength u16 nat
  | KaInvalidApRepLength u16 nat
  | KaResponseTooShort nat
  | KaMissingReplyResult
  | KaMissingKrbPriv
  | KaMissingKrbError
  | KaMissingApRep
  | KaInvalidErrorReplyPayload
  | KaUnsupportedEtype i32
  | KaKeyEtypeMismatch i32 i32
  | KaCrypto "crypto_error option" \<comment> \<open>\<open>None\<close>: no random bytes\<close>
  | KaPasswordChangeFailed u16 string
  | KaDecode string
  | KaEncode string
  | KaInvalidKerberosString
  | KaApReqTooLarge nat
  | KaFrameTooLarge nat

record kpasswd_frame =
  kf_message_length :: u16
  kf_version :: u16
  kf_payload_length :: u16
  kf_body :: bytes

record kpasswd_request =
  kr_ap_req :: ap_req
  kr_krb_priv :: krb_priv

record built_change_password_request =
  bc_request :: kpasswd_request
  bc_der :: bytes
  bc_reply_key :: kt_key

record change_password_result =
  cr_code :: u16
  cr_text :: string

record kpasswd_reply =
  ky_message_length :: u16
  ky_version :: u16
  ky_ap_rep_length :: u16
  ky_ap_rep :: "ap_rep option"
  ky_krb_priv :: "krb_priv option"
  ky_krb_error :: "krb_error option"
  ky_result :: "change_password_result option"

record change_passwd_message_options =
  cm_timestamp :: kerberos_time
  cm_cusec :: u32
  cm_sequence_number :: u32
  cm_sender_address :: rasn_address
  cm_recipient_address :: "rasn_address option"

definition change_message_options_new :: "kerberos_time \<Rightarrow> u32 \<Rightarrow> u32 \<Rightarrow> rasn_address \<Rightarrow> change_passwd_message_options" where
  "change_message_options_new t cusec sequence_number sender =
     \<lparr>cm_timestamp = t, cm_cusec = cusec, cm_sequence_number = sequence_number, cm_sender_address = sender,
      cm_recipient_address = None\<rparr>"

section \<open>Error conversions\<close>

fun ka_ap_req_error :: "message_error \<Rightarrow> kadmin_error" where
  "ka_ap_req_error (MsgDecode t) = KaDecode t"
| "ka_ap_req_error (MsgEncode t) = KaEncode t"
| "ka_ap_req_error (MsgInvalidMessage f e a) = KaInvalidKerberosMessage f e a"
| "ka_ap_req_error _ = KaDecode ''AP-REQ''"

fun ka_ap_rep_error :: "message_error \<Rightarrow> kadmin_error" where
  "ka_ap_rep_error (MsgDecode t) = KaDecode t"
| "ka_ap_rep_error (MsgEncode t) = KaEncode t"
| "ka_ap_rep_error (MsgInvalidMessage f e a) = KaInvalidKerberosMessage f e a"
| "ka_ap_rep_error _ = KaDecode ''AP-REP''"

fun ka_krb_error_error :: "krb_msg_error \<Rightarrow> kadmin_error" where
  "ka_krb_error_error (KmDecode t) = KaDecode t"
| "ka_krb_error_error (KmEncode t) = KaEncode t"
| "ka_krb_error_error (KmInvalidMessage f e a) = KaInvalidKerberosMessage f e a"
| "ka_krb_error_error _ = KaDecode ''KRB-ERROR''"

fun ka_krb_priv_error :: "message_error \<Rightarrow> kadmin_error" where
  "ka_krb_priv_error (MsgDecode t) = KaDecode t"
| "ka_krb_priv_error (MsgEncode t) = KaEncode t"
| "ka_krb_priv_error (MsgInvalidMessage f e a) = KaInvalidKerberosMessage f e a"
| "ka_krb_priv_error (MsgUnsupportedEtype e) = KaUnsupportedEtype e"
| "ka_krb_priv_error (MsgKeyEtypeMismatch k d) = KaKeyEtypeMismatch k d"
| "ka_krb_priv_error (MsgCrypto e) = KaCrypto (Some e)"
| "ka_krb_priv_error MsgRandom = KaCrypto None"

section \<open>New passwords\<close>

definition ka_kerberos_string :: "asn1 \<Rightarrow> string \<Rightarrow> kadmin_error + bytes" where
  "ka_kerberos_string A s = (if general_string A (str_bytes s) then Inr (str_bytes s) else Inl KaInvalidKerberosString)"

definition ka_principal_name :: "asn1 \<Rightarrow> i32 \<Rightarrow> string list \<Rightarrow> kadmin_error + principal_name" where
  "ka_principal_name A name_type components =
     rbind (rmap (ka_kerberos_string A) components) (\<lambda>ss. Inr \<lparr>pn_type = name_type, pn_string = ss\<rparr>)"

definition change_passwd_data_new :: "bytes \<Rightarrow> change_passwd_data" where
  "change_passwd_data_new new_passwd = \<lparr>cpd_new_passwd = new_passwd, cpd_targ_name = None, cpd_targ_realm = None\<rparr>"

definition change_passwd_data_for_target ::
  "asn1 \<Rightarrow> bytes \<Rightarrow> i32 \<Rightarrow> string list \<Rightarrow> string \<Rightarrow> kadmin_error + change_passwd_data" where
  "change_passwd_data_for_target A new_passwd name_type components realm =
     rbind (ka_principal_name A name_type components) (\<lambda>name.
     rbind (ka_kerberos_string A realm) (\<lambda>r.
       Inr \<lparr>cpd_new_passwd = new_passwd, cpd_targ_name = Some name, cpd_targ_realm = Some r\<rparr>))"

definition change_passwd_data_decode_der :: "kdc_asn1 \<Rightarrow> bytes \<Rightarrow> kadmin_error + change_passwd_data" where
  "change_passwd_data_decode_der K bs = ok_or (c_dec (k_change_passwd_data K) bs) (KaDecode ''ChangePasswdData'')"

definition change_passwd_data_encode_der :: "kdc_asn1 \<Rightarrow> change_passwd_data \<Rightarrow> kadmin_error + bytes" where
  "change_passwd_data_encode_der K d = ok_or (c_enc (k_change_passwd_data K) d) (KaEncode ''ChangePasswdData'')"

section \<open>Frames\<close>

text \<open>The callers check that both bytes are there.\<close>

definition ka_read_u16 :: "bytes \<Rightarrow> nat \<Rightarrow> u16" where
  "ka_read_u16 bs offset = from_bytes_en Big (take 2 (drop offset bs))"

definition parse_header :: "bytes \<Rightarrow> kadmin_error + kpasswd_frame" where
  "parse_header bs =
     (if length bs < HEADER_LEN then Inl (KaFrameTooShort (length bs))
      else let message_length = ka_read_u16 bs 0; frame_len = unat message_length in
        if frame_len < HEADER_LEN then Inl (KaInvalidMessageLength message_length)
        else if frame_len > length bs then Inl (KaTruncatedFrame frame_len (length bs))
        else Inr \<lparr>kf_message_length = message_length, kf_version = ka_read_u16 bs 2, kf_payload_length = ka_read_u16 bs 4,
                  kf_body = drop HEADER_LEN (take frame_len bs)\<rparr>)"

definition kpasswd_request_parse :: "kdc_asn1 \<Rightarrow> bytes \<Rightarrow> kadmin_error + kpasswd_request" where
  "kpasswd_request_parse K bs =
     rbind (parse_header bs) (\<lambda>frame.
     if kf_version frame \<noteq> CHANGE_PASSWORD_REQUEST_VERSION then Inl (KaInvalidRequestVersion (kf_version frame))
     else let ap_req_end = unat (kf_payload_length frame) in
       if ap_req_end = 0 \<or> ap_req_end \<ge> length (kf_body frame)
       then Inl (KaInvalidApReqLength (kf_payload_length frame) (length (kf_body frame)))
       else
         rbind (map_err ka_ap_req_error (decode_ap_req (k_base K) (take ap_req_end (kf_body frame)))) (\<lambda>ap_req.
         rbind (map_err ka_krb_priv_error (decode_krb_priv K (drop ap_req_end (kf_body frame)))) (\<lambda>krb_priv.
           Inr \<lparr>kr_ap_req = ap_req, kr_krb_priv = krb_priv\<rparr>)))"

definition kpasswd_frame_bytes :: "u16 \<Rightarrow> bytes \<Rightarrow> bytes \<Rightarrow> bytes" where
  "kpasswd_frame_bytes version first rest =
     to_bytes_en Big (word_of_nat (HEADER_LEN + length first + length rest) :: u16)
       @ to_bytes_en Big version @ to_bytes_en Big (word_of_nat (length first) :: u16) @ first @ rest"

definition kpasswd_request_encode :: "kdc_asn1 \<Rightarrow> kpasswd_request \<Rightarrow> kadmin_error + bytes" where
  "kpasswd_request_encode K r =
     rbind (map_err ka_ap_req_error (encode_ap_req (k_base K) (kr_ap_req r))) (\<lambda>ap_req.
     rbind (map_err ka_krb_priv_error (encode_krb_priv K (kr_krb_priv r))) (\<lambda>krb_priv.
     if length ap_req > 65535 then Inl (KaApReqTooLarge (length ap_req))
     else let message_length = HEADER_LEN + length ap_req + length krb_priv in
       if message_length > 65535 then Inl (KaFrameTooLarge message_length)
       else Inr (kpasswd_frame_bytes CHANGE_PASSWORD_REQUEST_VERSION ap_req krb_priv)))"

section \<open>Building requests\<close>

definition build_change_password_request_from_parts ::
  "kdc_asn1 \<Rightarrow> ap_req \<Rightarrow> krb_priv \<Rightarrow> kt_key \<Rightarrow> kadmin_error + built_change_password_request" where
  "build_change_password_request_from_parts K ap_req krb_priv reply_key =
     (let request = \<lparr>kr_ap_req = ap_req, kr_krb_priv = krb_priv\<rparr> in
      rbind (kpasswd_request_encode K request) (\<lambda>der.
        Inr \<lparr>bc_request = request, bc_der = der, bc_reply_key = reply_key\<rparr>))"

definition build_change_password_request_with_confounder ::
  "kdc_asn1 \<Rightarrow> crypto_prims \<Rightarrow> ap_req \<Rightarrow> change_passwd_data \<Rightarrow> kt_key \<Rightarrow> enc_krb_priv_part_options \<Rightarrow> bytes
    \<Rightarrow> kadmin_error + built_change_password_request" where
  "build_change_password_request_with_confounder K P ap_req change_data reply_key opts confounder =
     rbind (change_passwd_data_encode_der K change_data) (\<lambda>der.
     rbind (map_err ka_krb_priv_error (build_krb_priv_with_confounder K P der opts reply_key None confounder)) (\<lambda>krb_priv.
       build_change_password_request_from_parts K ap_req krb_priv reply_key))"

definition build_change_password_request ::
  "kdc_asn1 \<Rightarrow> crypto_prims \<Rightarrow> (nat \<Rightarrow> bytes option) \<Rightarrow> ap_req \<Rightarrow> change_passwd_data \<Rightarrow> kt_key \<Rightarrow> enc_krb_priv_part_options
    \<Rightarrow> kadmin_error + built_change_password_request" where
  "build_change_password_request K P fill ap_req change_data reply_key opts =
     rbind (change_passwd_data_encode_der K change_data) (\<lambda>der.
     rbind (map_err ka_krb_priv_error (build_krb_priv K P fill der opts reply_key None)) (\<lambda>krb_priv.
       build_change_password_request_from_parts K ap_req krb_priv reply_key))"

definition message_priv_options :: "change_passwd_message_options \<Rightarrow> enc_krb_priv_part_options" where
  "message_priv_options opts =
     (let o1 = priv_with_sequence_number (priv_with_timestamp (priv_options_new (cm_sender_address opts)) (cm_timestamp opts) (cm_cusec opts))
                 (cm_sequence_number opts)
      in case cm_recipient_address opts of Some a \<Rightarrow> priv_with_recipient_address o1 a | None \<Rightarrow> o1)"

definition build_change_password_message_with_confounders ::
  "kdc_asn1 \<Rightarrow> crypto_prims \<Rightarrow> principal_name \<Rightarrow> string \<Rightarrow> change_passwd_data \<Rightarrow> ticket \<Rightarrow> kt_key
    \<Rightarrow> change_passwd_message_options \<Rightarrow> kt_key \<Rightarrow> bytes \<Rightarrow> bytes \<Rightarrow> kadmin_error + built_change_password_request" where
  "build_change_password_message_with_confounders K P client_principal client_realm change_data service_ticket session_key
       opts reply_key ap_req_confounder krb_priv_confounder =
     rbind (ka_kerberos_string (k_base K) client_realm) (\<lambda>crealm.
     let auth = \<lparr>au_vno = 5, au_crealm = crealm, au_cname = client_principal, au_cksum = None,
           au_cusec = uint (cm_cusec opts), au_ctime = cm_timestamp opts, au_subkey = Some (encryption_key_to_rasn reply_key),
           au_seq_number = Some (cm_sequence_number opts), au_authorization_data = None\<rparr>
     in
     rbind (map_err ka_ap_req_error (build_ap_req_with_confounder (k_base K) P service_ticket (ap_options_from_bits 0) auth session_key
         (authenticator_usage_for_ticket service_ticket) (ed_kvno (tkt_enc_part service_ticket)) ap_req_confounder)) (\<lambda>ap_req.
       build_change_password_request_with_confounder K P ap_req change_data reply_key (message_priv_options opts) krb_priv_confounder))"

text \<open>\<open>fill i n\<close> are the \<open>n\<close> bytes of the \<open>i\<close>-th call of the random generator.\<close>

definition random_key_material :: "(nat \<Rightarrow> bytes option) \<Rightarrow> nat \<Rightarrow> kadmin_error + bytes" where
  "random_key_material fill n = ok_or (fill n) (KaCrypto None)"

definition build_change_password_message ::
  "kdc_asn1 \<Rightarrow> crypto_prims \<Rightarrow> (nat \<Rightarrow> nat \<Rightarrow> bytes option) \<Rightarrow> principal_name \<Rightarrow> string \<Rightarrow> change_passwd_data \<Rightarrow> ticket \<Rightarrow> kt_key
    \<Rightarrow> change_passwd_message_options \<Rightarrow> kadmin_error + built_change_password_request" where
  "build_change_password_message K P fill client_principal client_realm change_data service_ticket session_key opts =
     rbind (ok_or (ket_from_etype_id (kt_etype session_key)) (KaUnsupportedEtype (kt_etype session_key))) (\<lambda>etype.
     rbind (random_key_material (fill 0) (ket_key_len etype)) (\<lambda>reply.
     rbind (random_key_material (fill 1) (ket_confounder_len etype)) (\<lambda>ap_req_confounder.
     rbind (random_key_material (fill 2) (ket_confounder_len etype)) (\<lambda>krb_priv_confounder.
       build_change_password_message_with_confounders K P client_principal client_realm change_data service_ticket session_key opts
         \<lparr>kt_etype = kt_etype session_key, kt_value = reply\<rparr> ap_req_confounder krb_priv_confounder))))"

section \<open>Replies\<close>

text \<open>\<open>String::from_utf8_lossy\<close>: every maximal part of an ill-formed sequence becomes U+FFFD.\<close>

definition replacement :: bytes where
  "replacement = [0xEF, 0xBF, 0xBD]"

fun utf8_lossy :: "bytes \<Rightarrow> bytes" where
  "utf8_lossy [] = []"
| "utf8_lossy (b # bs) =
     (let second = (\<lambda>c.
            if in_range 0xC2 0xDF b then in_range 0x80 0xBF c
            else if in_range 0xE0 0xEF b
            then in_range (if unat b = 0xE0 then 0xA0 else 0x80) (if unat b = 0xED then 0x9F else 0xBF) c
            else in_range 0xF0 0xF4 b
              \<and> in_range (if unat b = 0xF0 then 0x90 else 0x80) (if unat b = 0xF4 then 0x8F else 0xBF) c)
      in
      if in_range 0x00 0x7F b then b # utf8_lossy bs
      else (case bs of [] \<Rightarrow> replacement | c # cs \<Rightarrow>
        if \<not> second c then replacement @ utf8_lossy bs
        else if in_range 0xC2 0xDF b then b # c # utf8_lossy cs
        else (case cs of [] \<Rightarrow> replacement | d # ds \<Rightarrow>
          if \<not> in_range 0x80 0xBF d then replacement @ utf8_lossy cs
          else if in_range 0xE0 0xEF b then b # c # d # utf8_lossy ds
          else (case ds of [] \<Rightarrow> replacement | e # es \<Rightarrow>
            if \<not> in_range 0x80 0xBF e then replacement @ utf8_lossy ds
            else b # c # d # e # utf8_lossy es))))"

definition change_password_result_parse :: "bytes \<Rightarrow> kadmin_error + change_password_result" where
  "change_password_result_parse bs =
     (if length bs < 2 then Inl (KaResponseTooShort (length bs))
      else Inr \<lparr>cr_code = ka_read_u16 bs 0, cr_text = bytes_str (utf8_lossy (drop 2 bs))\<rparr>)"

definition is_success :: "change_password_result \<Rightarrow> bool" where
  "is_success r \<longleftrightarrow> cr_code r = KPASSWD_SUCCESS"

definition ensure_success :: "change_password_result \<Rightarrow> kadmin_error + unit" where
  "ensure_success r = (if is_success r then Inr () else Inl (KaPasswordChangeFailed (cr_code r) (cr_text r)))"

definition kpasswd_reply_parse :: "kdc_asn1 \<Rightarrow> bytes \<Rightarrow> kadmin_error + kpasswd_reply" where
  "kpasswd_reply_parse K bs =
     rbind (parse_header bs) (\<lambda>frame.
     if kf_version frame \<noteq> CHANGE_PASSWORD_REPLY_VERSION then Inl (KaInvalidReplyVersion (kf_version frame))
     else if kf_payload_length frame = 0 then
       rbind (map_err ka_krb_error_error (decode_krb_error K (kf_body frame))) (\<lambda>krb_error.
       rbind (traverse change_password_result_parse (ke_e_data krb_error)) (\<lambda>result.
         Inr \<lparr>ky_message_length = kf_message_length frame, ky_version = kf_version frame, ky_ap_rep_length = kf_payload_length frame,
              ky_ap_rep = None, ky_krb_priv = None, ky_krb_error = Some krb_error, ky_result = result\<rparr>))
     else let ap_rep_end = unat (kf_payload_length frame) in
       if ap_rep_end \<ge> length (kf_body frame)
       then Inl (KaInvalidApRepLength (kf_payload_length frame) (length (kf_body frame)))
       else
         rbind (map_err ka_ap_rep_error (decode_ap_rep (k_base K) (take ap_rep_end (kf_body frame)))) (\<lambda>ap_rep.
         rbind (map_err ka_krb_priv_error (decode_krb_priv K (drop ap_rep_end (kf_body frame)))) (\<lambda>krb_priv.
           Inr \<lparr>ky_message_length = kf_message_length frame, ky_version = kf_version frame, ky_ap_rep_length = kf_payload_length frame,
                ky_ap_rep = Some ap_rep, ky_krb_priv = Some krb_priv, ky_krb_error = None, ky_result = None\<rparr>)))"

definition is_krb_error :: "kpasswd_reply \<Rightarrow> bool" where
  "is_krb_error r \<longleftrightarrow> ky_krb_error r \<noteq> None"

definition decrypt_result :: "kdc_asn1 \<Rightarrow> crypto_prims \<Rightarrow> kpasswd_reply \<Rightarrow> kt_key \<Rightarrow> kadmin_error + change_password_result" where
  "decrypt_result K P r key =
     (case ky_result r of
        Some result \<Rightarrow> Inr result
      | None \<Rightarrow>
          if ky_krb_error r \<noteq> None then Inl KaMissingReplyResult
          else rbind (ok_or (ky_krb_priv r) KaMissingKrbPriv) (\<lambda>krb_priv.
            rbind (map_err ka_krb_priv_error (decrypt_krb_priv_enc_part K P krb_priv key)) (\<lambda>enc_part.
              change_password_result_parse (kpp_user_data enc_part))))"

definition kpasswd_reply_encode :: "kdc_asn1 \<Rightarrow> kpasswd_reply \<Rightarrow> kadmin_error + bytes" where
  "kpasswd_reply_encode K r =
     (if is_krb_error r then
        if ky_ap_rep r \<noteq> None \<or> ky_krb_priv r \<noteq> None then Inl KaInvalidErrorReplyPayload
        else rbind (ok_or (ky_krb_error r) KaMissingKrbError) (\<lambda>e.
          rbind (map_err ka_krb_error_error (encode_krb_error K e)) (\<lambda>body.
          let frame_length = 2 + 2 + 2 + length body in
          if frame_length > 65535 then Inl (KaFrameTooLarge frame_length)
          else Inr (kpasswd_frame_bytes CHANGE_PASSWORD_REPLY_VERSION [] body)))
      else
        rbind (ok_or (ky_ap_rep r) KaMissingApRep) (\<lambda>ap_rep.
        rbind (ok_or (ky_krb_priv r) KaMissingKrbPriv) (\<lambda>krb_priv.
        rbind (map_err ka_ap_rep_error (encode_ap_rep (k_base K) ap_rep)) (\<lambda>encoded_ap_rep.
        if length encoded_ap_rep > 65535 then Inl (KaFrameTooLarge (length encoded_ap_rep))
        else
          rbind (map_err ka_krb_priv_error (encode_krb_priv K krb_priv)) (\<lambda>encoded_krb_priv.
          let frame_length = 2 + 2 + 2 + length encoded_ap_rep + length encoded_krb_priv in
          if frame_length > 65535 then Inl (KaFrameTooLarge frame_length)
          else Inr (kpasswd_frame_bytes CHANGE_PASSWORD_REPLY_VERSION encoded_ap_rep encoded_krb_priv))))))"

end
