(* ===== verification/Client_Exchange.thy ===== *)
theory Client_Exchange
  imports Kadmin Client_Principal Sec_Context Config
begin

text \<open>
  \<open>src/client.rs\<close> (with \<open>src/client/options.rs\<close>): the AS and TGS exchanges of the client.  Requests are built from a
  principal or from a ticket session, replies are opened and compared with the request, errors of the KDC carry the hints for
  pre-authentication, and the login functions combine these over a transport.  What is outside the program, the
  clock, random bytes and the KDC, is the record \<open>kdc_env\<close> over an arbitrary world that every call passes on.
\<close>

unbundle bit_operations_syntax

section \<open>Data\<close>

record preauth_key_info =
  pk_etype :: i32
  pk_salt :: "string option"
  pk_s2kparams :: "bytes option"

record kdc_error =
  kd_ctime :: "system_time option"
  kd_cusec :: "u32 option"
  kd_stime :: system_time
  kd_susec :: u32
  kd_error_code :: i32
  kd_text :: "string option"
  kd_client :: "principal option"
  kd_service :: principal
  kd_e_data :: "bytes option"
  kd_method_data :: "pa_data list"
  kd_preauth_key_info :: "preauth_key_info list"

text \<open>\<open>KdcProtocol\<close> of \<open>src/client/transport.rs\<close>.\<close>

datatype kdc_protocol = Udp | Tcp | Auto

text \<open>\<open>client::Error\<close>; \<open>XClient\<close> holds the variants of building an AP-REQ.  The failures of several endpoints are
  kept as pairs of the endpoint and its error, which the code formats into a text.\<close>

datatype exchange_error =
    XClient client_error
  | XInvalidString
  | XInvalidUnsignedInteger string int
  | XEmptyEtypes
  | XKeyEtypeMismatch i32 i32
  | XClientPrincipalMismatch string string \<comment> \<open>expected, actual\<close>
  | XServicePrincipalMismatch string string
  | XNonceMismatch u32 u32
  | XInvalidFastNegotiationResponse
  | XUnsupportedChecksumType i32
  | XFastNegotiationChecksumMismatch
  | XMaxReferralDepth nat
  | XInvalidReferralTicket string
  | XInvalidTgtSession string
  | XNoClientCredentials
  | XMissingClientName
  | XMissingClientRealm
  | XNoConfiguredKdc string
  | XNoTgtSession
  | XKeytab store_error
  | XMessage krb_msg_error
  | XContext context_error
  | XKdc kdc_error
  | XNoSupportedPreauthEtype "i32 list"
  | XTransport string
  | XNoDefaultCCacheName
  | XDefaultClientKeytabName
  | XConfig config_error
  | XCCache store_error
  | XKadmin kadmin_error
  | XPrincipal principal_error
  | XApRepKeyEtypeMismatch i32 i32
  | XMissingKpasswdApRep
  | XKpasswdApRepTimestampMismatch system_time system_time
  | XIo
  | XInvalidKdcEndpoint string
  | XDnsResolverConfig
  | XDnsSrvLookup string kdc_protocol
  | XNoKdcEndpoints string kdc_protocol
  | XKdcEndpointFailures string kdc_protocol "(string \<times> exchange_error) list"
  | XTransportTimeout duration
  | XUdpRequestTooLarge nat nat
  | XTcpRequestTooLarge nat
  | XTcpResponseTooLarge u32 nat
  | XEmptyKdcResponse

record built_as_req =
  bq_message :: kdc_req
  bq_der :: bytes
  bq_client :: principal
  bq_service :: principal
  bq_nonce :: u32

record built_tgs_req =
  bt_message :: kdc_req
  bt_der :: bytes
  bt_client :: principal
  bt_service :: principal
  bt_kdc_realm :: string
  bt_nonce :: u32

section \<open>Options\<close>

definition DEFAULT_TICKET_LIFETIME :: duration where
  "DEFAULT_TICKET_LIFETIME = from_secs (24 * 60 * 60)"

definition DEFAULT_TKT_ENCTYPES :: "i32 list" where
  "DEFAULT_TKT_ENCTYPES = [20, 19, 18, 17]"

definition KDC_OPTION_RENEWABLE :: u32 where
  "KDC_OPTION_RENEWABLE = 0x00800000"

definition KDC_OPTION_CANONICALIZE :: u32 where
  "KDC_OPTION_CANONICALIZE = 0x00010000"

definition KDC_OPTION_CNAME_IN_ADDL_TKT :: u32 where
  "KDC_OPTION_CNAME_IN_ADDL_TKT = 0x00020000"

definition KDC_OPTION_RENEW :: u32 where
  "KDC_OPTION_RENEW = 0x00000002"

definition request_kdc_option_bits :: "u32 \<Rightarrow> duration option \<Rightarrow> u32" where
  "request_kdc_option_bits bits renew_lifetime = (if renew_lifetime \<noteq> None then bits OR KDC_OPTION_RENEWABLE else bits)"

definition renewal_kdc_option_bits :: "u32 \<Rightarrow> u32" where
  "renewal_kdc_option_bits bits = bits OR KDC_OPTION_RENEWABLE OR KDC_OPTION_RENEW"

definition kdc_options_from_bits :: "u32 \<Rightarrow> bool list" where
  "kdc_options_from_bits bits = from_slice (to_bytes_en Big bits)"

record as_req_options =
  aq_now :: system_time
  aq_ticket_lifetime :: duration
  aq_renew_lifetime :: "duration option"
  aq_nonce :: u32
  aq_etypes :: "i32 list"
  aq_kdc_option_bits :: u32
  aq_padata :: "pa_data list"
  aq_assume_preauthentication :: bool
  aq_fast_negotiation :: bool

definition as_req_options_new :: "system_time \<Rightarrow> u32 \<Rightarrow> as_req_options" where
  "as_req_options_new now nonce = \<lparr>aq_now = now, aq_ticket_lifetime = DEFAULT_TICKET_LIFETIME, aq_renew_lifetime = None,
     aq_nonce = nonce, aq_etypes = DEFAULT_TKT_ENCTYPES, aq_kdc_option_bits = 0, aq_padata = [],
     aq_assume_preauthentication = False, aq_fast_negotiation = True\<rparr>"

definition as_req_options_from_libdefaults :: "system_time \<Rightarrow> u32 \<Rightarrow> lib_defaults \<Rightarrow> as_req_options" where
  "as_req_options_from_libdefaults now nonce d = (as_req_options_new now nonce)\<lparr>
     aq_ticket_lifetime := ld_ticket_lifetime d,
     aq_renew_lifetime := (if ld_renew_lifetime d \<noteq> 0 then Some (ld_renew_lifetime d) else None),
     aq_etypes := (if ld_default_tkt_enctype_ids d = [] then DEFAULT_TKT_ENCTYPES else ld_default_tkt_enctype_ids d),
     aq_kdc_option_bits := (if ld_canonicalize d then ld_kdc_default_options d OR KDC_OPTION_CANONICALIZE
                            else ld_kdc_default_options d)\<rparr>"

record tgs_req_options =
  tq_now :: system_time
  tq_ticket_lifetime :: duration
  tq_renew_lifetime :: "duration option"
  tq_nonce :: u32
  tq_etypes :: "i32 list"
  tq_kdc_option_bits :: u32
  tq_padata :: "pa_data list"
  tq_additional_tickets :: "ticket list"

definition tgs_req_options_new :: "system_time \<Rightarrow> u32 \<Rightarrow> tgs_req_options" where
  "tgs_req_options_new now nonce = \<lparr>tq_now = now, tq_ticket_lifetime = DEFAULT_TICKET_LIFETIME, tq_renew_lifetime = None,
     tq_nonce = nonce, tq_etypes = DEFAULT_TKT_ENCTYPES, tq_kdc_option_bits = 0, tq_padata = [], tq_additional_tickets = []\<rparr>"

definition tgs_req_options_from_libdefaults :: "system_time \<Rightarrow> u32 \<Rightarrow> lib_defaults \<Rightarrow> tgs_req_options" where
  "tgs_req_options_from_libdefaults now nonce d = (tgs_req_options_new now nonce)\<lparr>
     tq_ticket_lifetime := ld_ticket_lifetime d,
     tq_renew_lifetime := (if ld_renew_lifetime d \<noteq> 0 then Some (ld_renew_lifetime d) else None),
     tq_etypes := (if ld_default_tgs_enctype_ids d = [] then DEFAULT_TKT_ENCTYPES else ld_default_tgs_enctype_ids d),
     tq_kdc_option_bits := (if ld_canonicalize d then ld_kdc_default_options d OR KDC_OPTION_CANONICALIZE
                            else ld_kdc_default_options d)\<rparr>"

definition tgs_with_renewal :: "tgs_req_options \<Rightarrow> tgs_req_options" where
  "tgs_with_renewal o1 = o1\<lparr>tq_kdc_option_bits := renewal_kdc_option_bits (tq_kdc_option_bits o1)\<rparr>"

section \<open>Errors and conversions\<close>

fun kdc_rep_error :: "kdc_msg_error \<Rightarrow> exchange_error" where
  "kdc_rep_error (KdcDecode t) = XClient (CliDecode t)"
| "kdc_rep_error (KdcEncode t) = XClient (CliEncode t)"
| "kdc_rep_error (KdcInvalidMessage f e a) = XClient (CliInvalidMessage f e a)"
| "kdc_rep_error (KdcUnsupportedEtype e) = XClient (CliUnsupportedEtype e)"
| "kdc_rep_error (KdcKeyEtypeMismatch k d) = XKeyEtypeMismatch k d"
| "kdc_rep_error (KdcTicketKeyEtypeMismatch k d) = XClient (CliTicketKeyEtypeMismatch k d)"
| "kdc_rep_error KdcRandom = XClient CliRandom"
| "kdc_rep_error (KdcCrypto e) = XClient (CliCrypto e)"

text \<open>\<open>kdc_req_error\<close> maps the same variants in the same way.\<close>

abbreviation kdc_req_error :: "kdc_msg_error \<Rightarrow> exchange_error" where
  "kdc_req_error \<equiv> kdc_rep_error"

fun krb_error_error :: "krb_msg_error \<Rightarrow> exchange_error" where
  "krb_error_error (KmDecode t) = XClient (CliDecode t)"
| "krb_error_error (KmEncode t) = XClient (CliEncode t)"
| "krb_error_error (KmInvalidMessage f e a) = XClient (CliInvalidMessage f e a)"
| "krb_error_error (KmIntegerOutOfRange f v) = XInvalidUnsignedInteger f v"
| "krb_error_error KmTimeOverflow = XClient CliTimeOverflow"
| "krb_error_error other = XClient (CliDecode ''KRB-ERROR'')"

definition x_string :: "bytes \<Rightarrow> exchange_error + string" where
  "x_string bs = map_err (\<lambda>_. XInvalidString) (kerberos_string_to_string bs)"

definition x_principal :: "bytes \<Rightarrow> principal_name \<Rightarrow> exchange_error + principal" where
  "x_principal realm name = map_err (\<lambda>_. XInvalidString) (principal_from_parts realm name)"

definition x_system_time :: "kerberos_time \<Rightarrow> exchange_error + system_time" where
  "x_system_time t = map_err (\<lambda>_. XClient CliTimeOverflow) (system_time_from_kerberos_time t)"

definition principal_matches :: "principal \<Rightarrow> principal \<Rightarrow> bool" where
  "principal_matches l r \<longleftrightarrow> p_realm l = p_realm r \<and> p_components l = p_components r"

definition is_tgt_principal :: "principal \<Rightarrow> bool" where
  "is_tgt_principal p =
     (case p_components p of [] \<Rightarrow> False | c # _ \<Rightarrow> eq_ignore_ascii_case c ''krbtgt'' \<and> length (p_components p) \<ge> 2)"

definition tgt_realm :: "rep_session \<Rightarrow> string option" where
  "tgt_realm s = (if is_tgt_principal (rs_service s) then Some (last (p_components (rs_service s))) else None)"

section \<open>AS requests\<close>

definition PA_ENC_TIMESTAMP :: i32 where "PA_ENC_TIMESTAMP = 2"
definition PA_TGS_REQ :: i32 where "PA_TGS_REQ = 1"
definition PA_ETYPE_INFO :: i32 where "PA_ETYPE_INFO = 11"
definition PA_ETYPE_INFO2 :: i32 where "PA_ETYPE_INFO2 = 19"
definition PA_REQ_ENC_PA_REP :: i32 where "PA_REQ_ENC_PA_REP = 149"
definition PA_FX_FAST :: i32 where "PA_FX_FAST = 136"
definition PA_PAC_OPTIONS :: i32 where "PA_PAC_OPTIONS = 167"
definition PA_FOR_USER :: i32 where "PA_FOR_USER = 129"
definition KDC_ERR_PREAUTH_REQUIRED :: i32 where "KDC_ERR_PREAUTH_REQUIRED = 25"
definition AS_REQ_PA_ENC_TIMESTAMP_USAGE :: u32 where "AS_REQ_PA_ENC_TIMESTAMP_USAGE = 1"
definition AS_REQ_CHECKSUM_USAGE :: u32 where "AS_REQ_CHECKSUM_USAGE = 56"
definition TGS_REQ_AUTHENTICATOR_CHECKSUM_USAGE :: u32 where "TGS_REQ_AUTHENTICATOR_CHECKSUM_USAGE = 6"
definition TGS_REQ_AUTHENTICATOR_USAGE :: u32 where "TGS_REQ_AUTHENTICATOR_USAGE = 7"
definition PA_FOR_USER_CHECKSUM_USAGE :: u32 where "PA_FOR_USER_CHECKSUM_USAGE = 17"
definition TICKET_FLAG_ENC_PA_REP :: u32 where "TICKET_FLAG_ENC_PA_REP = 0x00010000"

definition request_times :: "system_time \<Rightarrow> duration \<Rightarrow> duration option \<Rightarrow> exchange_error + (system_time \<times> system_time option)" where
  "request_times now ticket_lifetime renew_lifetime =
     rbind (ok_or (st_checked_add now ticket_lifetime) (XClient CliTimeOverflow)) (\<lambda>till.
     rbind (traverse (\<lambda>d. ok_or (st_checked_add now d) (XClient CliTimeOverflow)) renew_lifetime) (\<lambda>renew_till.
       Inr (till, renew_till)))"

definition build_as_req :: "kdc_asn1 \<Rightarrow> principal \<Rightarrow> principal \<Rightarrow> as_req_options \<Rightarrow> exchange_error + built_as_req" where
  "build_as_req K client service opts =
     (if aq_etypes opts = [] then Inl XEmptyEtypes
      else rbind (request_times (aq_now opts) (aq_ticket_lifetime opts) (aq_renew_lifetime opts)) (\<lambda>(till, renew_till).
        rbind (map_err XClient (principal_to_rasn (k_base K) client)) (\<lambda>cname.
        rbind (map_err XClient (kerberos_string (k_base K) (p_realm client))) (\<lambda>realm.
        rbind (map_err XClient (principal_to_rasn (k_base K) service)) (\<lambda>sname.
        rbind (map_err XClient (client_kerberos_time (k_base K) till)) (\<lambda>till.
        rbind (traverse (\<lambda>t. map_err XClient (client_kerberos_time (k_base K) t)) renew_till) (\<lambda>rtime.
        let req_body = \<lparr>rb_kdc_options = kdc_options_from_bits (request_kdc_option_bits (aq_kdc_option_bits opts) (aq_renew_lifetime opts)),
              rb_cname = Some cname, rb_realm = realm, rb_sname = Some sname, rb_from = None, rb_till = till, rb_rtime = rtime,
              rb_nonce = aq_nonce opts, rb_etype = aq_etypes opts, rb_addresses = None, rb_enc_authorization_data = None,
              rb_additional_tickets = None\<rparr>;
            message = kdc_build_as_req req_body (if aq_padata opts = [] then None else Some (aq_padata opts))
        in
        rbind (map_err kdc_req_error (encode_as_req K message)) (\<lambda>der.
          Inr \<lparr>bq_message = message, bq_der = der, bq_client = client, bq_service = service, bq_nonce = aq_nonce opts\<rparr>))))))))"

definition build_tgt_as_req :: "kdc_asn1 \<Rightarrow> principal \<Rightarrow> as_req_options \<Rightarrow> exchange_error + built_as_req" where
  "build_tgt_as_req K client opts = build_as_req K client (tgt_service (p_realm client)) opts"

definition x_etype_of_key :: "kt_key \<Rightarrow> exchange_error + kerberos_etype" where
  "x_etype_of_key key = ok_or (ket_from_etype_id (kt_etype key)) (XClient (CliUnsupportedEtype (kt_etype key)))"

definition pa_enc_timestamp_with_confounder ::
  "kdc_asn1 \<Rightarrow> crypto_prims \<Rightarrow> kt_key \<Rightarrow> system_time \<Rightarrow> u32 \<Rightarrow> bytes \<Rightarrow> u32 option \<Rightarrow> exchange_error + pa_data" where
  "pa_enc_timestamp_with_confounder K P key timestamp cusec confounder kvno =
     rbind (map_err XClient (client_kerberos_time (k_base K) timestamp)) (\<lambda>t.
     rbind (ok_or (c_enc (k_pa_enc_ts_enc K) \<lparr>pet_patimestamp = t, pet_pausec = Some (uint cusec)\<rparr>) (XClient (CliEncode ''PA-ENC-TS-ENC''))) (\<lambda>plaintext.
     rbind (x_etype_of_key key) (\<lambda>etype.
     rbind (map_err (XClient \<circ> CliCrypto)
         (ket_encrypt_message_with_confounder P etype (kt_value key) plaintext AS_REQ_PA_ENC_TIMESTAMP_USAGE confounder)) (\<lambda>cipher.
     rbind (ok_or (c_enc (k_encrypted_data K) \<lparr>ed_etype = kt_etype key, ed_kvno = kvno, ed_cipher = cipher\<rparr>) (XClient (CliEncode ''PA-ENC-TIMESTAMP''))) (\<lambda>v.
       Inr \<lparr>pa_type = PA_ENC_TIMESTAMP, pa_value = v\<rparr>)))))"

section \<open>Service for user\<close>

definition s4u_byte_array :: "principal \<Rightarrow> string \<Rightarrow> bytes" where
  "s4u_byte_array user auth_package =
     to_bytes_en Little (p_name_type user) @ concat (map str_bytes (p_components user)) @ str_bytes (p_realm user) @ str_bytes auth_package"

definition pa_for_user_padata_with_auth_package ::
  "kdc_asn1 \<Rightarrow> crypto_prims \<Rightarrow> principal \<Rightarrow> kt_key \<Rightarrow> string \<Rightarrow> exchange_error + pa_data" where
  "pa_for_user_padata_with_auth_package K P user tgt_session_key auth_package =
     (let checksum = kerb_checksum_hmac_md5 P (kt_value tgt_session_key) (s4u_byte_array user auth_package) PA_FOR_USER_CHECKSUM_USAGE in
      rbind (map_err XClient (principal_to_rasn (k_base K) user)) (\<lambda>user_name.
      rbind (map_err XClient (kerberos_string (k_base K) (p_realm user))) (\<lambda>user_realm.
      rbind (map_err XClient (kerberos_string (k_base K) auth_package)) (\<lambda>pkg.
      rbind (map_err XMessage (pa_for_user_encode_der K \<lparr>pfu_user_name = user_name, pfu_user_realm = user_realm,
          pfu_cksum = \<lparr>ck_type = rc4_checksum_type_id, ck_checksum = checksum\<rparr>, pfu_auth_package = pkg\<rparr>)) (\<lambda>v.
        Inr \<lparr>pa_type = PA_FOR_USER, pa_value = v\<rparr>)))))"

definition pa_for_user_padata :: "kdc_asn1 \<Rightarrow> crypto_prims \<Rightarrow> principal \<Rightarrow> kt_key \<Rightarrow> exchange_error + pa_data" where
  "pa_for_user_padata K P user tgt_session_key = pa_for_user_padata_with_auth_package K P user tgt_session_key ''Kerberos''"

definition pa_pac_options_padata :: "kdc_asn1 \<Rightarrow> u32 \<Rightarrow> exchange_error + pa_data" where
  "pa_pac_options_padata K option_bits =
     rbind (map_err XMessage (pac_options_encode_der K (pac_options_from_bits option_bits))) (\<lambda>v.
       Inr \<lparr>pa_type = PA_PAC_OPTIONS, pa_value = v\<rparr>)"

section \<open>TGS requests\<close>

definition build_tgs_req_for_realm_with_confounder ::
  "kdc_asn1 \<Rightarrow> crypto_prims \<Rightarrow> rep_session \<Rightarrow> string \<Rightarrow> principal \<Rightarrow> tgs_req_options \<Rightarrow> system_time \<Rightarrow> u32 \<Rightarrow> bytes \<Rightarrow> exchange_error + built_tgs_req" where
  "build_tgs_req_for_realm_with_confounder K P tgt kdc_realm service opts timestamp cusec confounder =
     (if tq_etypes opts = [] then Inl XEmptyEtypes
      else let A = k_base K in
        rbind (map_err (XClient \<circ> client_ticket_error) (decode_ticket A (rs_ticket tgt))) (\<lambda>t.
        rbind (request_times (tq_now opts) (tq_ticket_lifetime opts) (tq_renew_lifetime opts)) (\<lambda>(till, renew_till).
        rbind (map_err XClient (principal_to_rasn A (rs_client tgt))) (\<lambda>cname.
        rbind (map_err XClient (kerberos_string A kdc_realm)) (\<lambda>realm.
        rbind (map_err XClient (principal_to_rasn A service)) (\<lambda>sname.
        rbind (map_err XClient (client_kerberos_time A till)) (\<lambda>till.
        rbind (traverse (\<lambda>t. map_err XClient (client_kerberos_time A t)) renew_till) (\<lambda>rtime.
        let req_body = \<lparr>rb_kdc_options = kdc_options_from_bits (request_kdc_option_bits (tq_kdc_option_bits opts) (tq_renew_lifetime opts)),
              rb_cname = Some cname, rb_realm = realm, rb_sname = Some sname, rb_from = None, rb_till = till, rb_rtime = rtime,
              rb_nonce = tq_nonce opts, rb_etype = tq_etypes opts, rb_addresses = None, rb_enc_authorization_data = None,
              rb_additional_tickets = (if tq_additional_tickets opts = [] then None else Some (tq_additional_tickets opts))\<rparr>
        in
        rbind (map_err kdc_req_error (encode_kdc_req_body K req_body)) (\<lambda>req_body_der.
        rbind (x_etype_of_key (rs_session_key tgt)) (\<lambda>etype.
        rbind (map_err (XClient \<circ> CliCrypto)
            (ket_checksum P etype (kt_value (rs_session_key tgt)) req_body_der TGS_REQ_AUTHENTICATOR_CHECKSUM_USAGE)) (\<lambda>checksum.
        rbind (map_err XClient (client_kerberos_time A timestamp)) (\<lambda>ctime.
        let auth = \<lparr>au_vno = KRB5_PVNO, au_crealm = tkt_realm t, au_cname = cname,
              au_cksum = Some \<lparr>ck_type = ket_checksum_type_id etype, ck_checksum = checksum\<rparr>,
              au_cusec = uint cusec, au_ctime = ctime, au_subkey = None, au_seq_number = None, au_authorization_data = None\<rparr>
        in
        rbind (map_err (XClient \<circ> client_ap_req_error) (build_ap_req_with_confounder A P t (ap_options_from_bits 0) auth
            (rs_session_key tgt) TGS_REQ_AUTHENTICATOR_USAGE (ed_kvno (tkt_enc_part t)) confounder)) (\<lambda>ap_req.
        rbind (map_err (XClient \<circ> client_ap_req_error) (encode_ap_req A ap_req)) (\<lambda>pa_value.
        let message = kdc_build_tgs_req req_body (Some (\<lparr>pa_type = PA_TGS_REQ, pa_value = pa_value\<rparr> # tq_padata opts)) in
        rbind (map_err kdc_req_error (encode_tgs_req K message)) (\<lambda>der.
          Inr \<lparr>bt_message = message, bt_der = der, bt_client = rs_client tgt, bt_service = service,
               bt_kdc_realm = kdc_realm, bt_nonce = tq_nonce opts\<rparr>)))))))))))))))"

definition build_tgs_req_with_confounder ::
  "kdc_asn1 \<Rightarrow> crypto_prims \<Rightarrow> rep_session \<Rightarrow> principal \<Rightarrow> tgs_req_options \<Rightarrow> system_time \<Rightarrow> u32 \<Rightarrow> bytes \<Rightarrow> exchange_error + built_tgs_req" where
  "build_tgs_req_with_confounder K P tgt service opts timestamp cusec confounder =
     build_tgs_req_for_realm_with_confounder K P tgt (p_realm service) service opts timestamp cusec confounder"

definition build_s4u2self_req_with_confounder ::
  "kdc_asn1 \<Rightarrow> crypto_prims \<Rightarrow> rep_session \<Rightarrow> principal \<Rightarrow> tgs_req_options \<Rightarrow> system_time \<Rightarrow> u32 \<Rightarrow> bytes \<Rightarrow> exchange_error + built_tgs_req" where
  "build_s4u2self_req_with_confounder K P service_tgt user opts timestamp cusec confounder =
     rbind (pa_for_user_padata K P user (rs_session_key service_tgt)) (\<lambda>pa.
     let opts = opts\<lparr>tq_padata := filter (\<lambda>p. pa_type p \<noteq> PA_FOR_USER) (tq_padata opts) @ [pa]\<rparr>;
         service = rs_client service_tgt
     in
     rbind (build_tgs_req_for_realm_with_confounder K P service_tgt (p_realm service) service opts timestamp cusec confounder) (\<lambda>request.
       Inr (request\<lparr>bt_client := user\<rparr>)))"

definition build_s4u2proxy_req_with_confounder ::
  "kdc_asn1 \<Rightarrow> crypto_prims \<Rightarrow> rep_session \<Rightarrow> rep_session \<Rightarrow> principal \<Rightarrow> tgs_req_options \<Rightarrow> system_time \<Rightarrow> u32 \<Rightarrow> bytes \<Rightarrow> exchange_error + built_tgs_req" where
  "build_s4u2proxy_req_with_confounder K P service_tgt evidence target opts timestamp cusec confounder =
     (if \<not> principal_matches (rs_service evidence) (rs_client service_tgt)
      then Inl (XServicePrincipalMismatch (p_name (rs_client service_tgt)) (p_name (rs_service evidence)))
      else rbind (map_err (XClient \<circ> client_ticket_error) (decode_ticket (k_base K) (rs_ticket evidence))) (\<lambda>t.
        let opts = opts\<lparr>tq_kdc_option_bits := tq_kdc_option_bits opts OR KDC_OPTION_CNAME_IN_ADDL_TKT,
                        tq_additional_tickets := tq_additional_tickets opts @ [t]\<rparr>
        in
        rbind (build_tgs_req_for_realm_with_confounder K P service_tgt (p_realm target) target opts timestamp cusec confounder) (\<lambda>request.
          Inr (request\<lparr>bt_client := rs_client evidence\<rparr>))))"

definition build_tgt_renewal_req_with_confounder ::
  "kdc_asn1 \<Rightarrow> crypto_prims \<Rightarrow> rep_session \<Rightarrow> tgs_req_options \<Rightarrow> system_time \<Rightarrow> u32 \<Rightarrow> bytes \<Rightarrow> exchange_error + built_tgs_req" where
  "build_tgt_renewal_req_with_confounder K P tgt opts timestamp cusec confounder =
     rbind (ok_or (tgt_realm tgt) (XInvalidTgtSession (p_name (rs_service tgt)))) (\<lambda>realm.
       build_tgs_req_for_realm_with_confounder K P tgt realm (tgt_service realm) (tgs_with_renewal opts) timestamp cusec confounder)"

definition build_ticket_renewal_req_with_confounder ::
  "kdc_asn1 \<Rightarrow> crypto_prims \<Rightarrow> rep_session \<Rightarrow> tgs_req_options \<Rightarrow> system_time \<Rightarrow> u32 \<Rightarrow> bytes \<Rightarrow> exchange_error + built_tgs_req" where
  "build_ticket_renewal_req_with_confounder K P st opts timestamp cusec confounder =
     build_tgs_req_for_realm_with_confounder K P st (p_realm (rs_service st)) (rs_service st) (tgs_with_renewal opts) timestamp cusec confounder"

section \<open>Errors of the KDC\<close>

fun etype_info2_loop :: "etype_info2_entry list \<Rightarrow> exchange_error + preauth_key_info list" where
  "etype_info2_loop [] = Inr []"
| "etype_info2_loop (e # es) =
     rbind (traverse x_string (ei2_salt e)) (\<lambda>salt.
     rbind (etype_info2_loop es) (\<lambda>infos.
       Inr (\<lparr>pk_etype = ei2_etype e, pk_salt = salt, pk_s2kparams = ei2_s2kparams e\<rparr> # infos)))"

fun etype_info_loop :: "etype_info_entry list \<Rightarrow> exchange_error + preauth_key_info list" where
  "etype_info_loop [] = Inr []"
| "etype_info_loop (e # es) =
     rbind (traverse x_string (ei_salt e)) (\<lambda>salt.
     rbind (etype_info_loop es) (\<lambda>infos.
       Inr (\<lparr>pk_etype = ei_etype e, pk_salt = salt, pk_s2kparams = None\<rparr> # infos)))"

definition preauth_key_info_from_method_data :: "kdc_asn1 \<Rightarrow> pa_data list \<Rightarrow> exchange_error + preauth_key_info list" where
  "preauth_key_info_from_method_data K method_data =
     rbind (rmap (\<lambda>p. rbind (ok_or (c_dec (k_etype_info2 K) (pa_value p)) (XClient (CliDecode ''ETYPE-INFO2''))) etype_info2_loop)
              (filter (\<lambda>p. pa_type p = PA_ETYPE_INFO2) method_data)) (\<lambda>infos2.
     rbind (rmap (\<lambda>p. rbind (ok_or (c_dec (k_etype_info K) (pa_value p)) (XClient (CliDecode ''ETYPE-INFO''))) etype_info_loop)
              (filter (\<lambda>p. pa_type p = PA_ETYPE_INFO) method_data)) (\<lambda>infos.
       Inr (concat infos2 @ concat infos)))"

definition process_kdc_error :: "kdc_asn1 \<Rightarrow> bytes \<Rightarrow> exchange_error + kdc_error" where
  "process_kdc_error K bs =
     rbind (map_err krb_error_error (decode_krb_error K bs)) (\<lambda>e.
     rbind (map_err krb_error_error (krb_error_info e)) (\<lambda>info.
     rbind (map_err krb_error_error (preauth_method_data K e KDC_ERR_PREAUTH_REQUIRED)) (\<lambda>method_data.
     rbind (preauth_key_info_from_method_data K method_data) (\<lambda>infos.
       Inr \<lparr>kd_ctime = kei_ctime info, kd_cusec = kei_cusec info, kd_stime = kei_stime info, kd_susec = kei_susec info,
            kd_error_code = kei_error_code info, kd_text = kei_e_text info, kd_client = kei_client info,
            kd_service = kei_service info, kd_e_data = kei_e_data info, kd_method_data = method_data,
            kd_preauth_key_info = infos\<rparr>))))"

definition supported_etype :: "i32 \<Rightarrow> bool" where
  "supported_etype e \<longleftrightarrow> ket_from_etype_id e \<noteq> None"

fun preauth_select_loop :: "preauth_key_info list \<Rightarrow> i32 list \<Rightarrow> preauth_key_info option" where
  "preauth_select_loop infos [] = None"
| "preauth_select_loop infos (e # es) =
     (if \<not> supported_etype e then preauth_select_loop infos es
      else (case List.find (\<lambda>i. pk_etype i = e) infos of Some i \<Rightarrow> Some i | None \<Rightarrow> preauth_select_loop infos es))"

definition select_preauth_key_info :: "kdc_error \<Rightarrow> i32 list \<Rightarrow> exchange_error + preauth_key_info" where
  "select_preauth_key_info err requested =
     (case preauth_select_loop (kd_preauth_key_info err) requested of
        Some info \<Rightarrow> Inr info
      | None \<Rightarrow>
          (case (kd_preauth_key_info err = [], List.find supported_etype requested) of
             (True, Some e) \<Rightarrow> Inr \<lparr>pk_etype = e, pk_salt = None, pk_s2kparams = None\<rparr>
           | _ \<Rightarrow> Inl (XNoSupportedPreauthEtype requested)))"

section \<open>Reply keys\<close>

definition default_password_salt :: "principal \<Rightarrow> string" where
  "default_password_salt client = p_realm client @ concat (p_components client)"

definition derive_password_reply_key ::
  "crypto_prims \<Rightarrow> principal \<Rightarrow> bytes \<Rightarrow> preauth_key_info \<Rightarrow> exchange_error + kt_key" where
  "derive_password_reply_key P client password info =
     rbind (ok_or (ket_from_etype_id (pk_etype info)) (XClient (CliUnsupportedEtype (pk_etype info)))) (\<lambda>etype.
     let salt = (case pk_salt info of Some s \<Rightarrow> s | None \<Rightarrow> default_password_salt client);
         s2kparams = (case pk_s2kparams info of Some bs \<Rightarrow> hex_encode bs | None \<Rightarrow> ket_default_s2kparams etype)
     in
     rbind (map_err (XClient \<circ> CliCrypto) (ket_string_to_key P etype password (str_bytes salt) s2kparams)) (\<lambda>v.
       Inr \<lparr>kt_etype = pk_etype info, kt_value = v\<rparr>))"

definition select_keytab_reply_key_for_etype ::
  "keytab \<Rightarrow> principal \<Rightarrow> u32 \<Rightarrow> i32 \<Rightarrow> exchange_error + (kt_key \<times> u32)" where
  "select_keytab_reply_key_for_etype kt client kvno etype =
     map_err XKeytab (find_key kt (p_components client) (p_realm client) kvno etype)"

definition select_keytab_reply_key :: "keytab \<Rightarrow> principal \<Rightarrow> preauth_key_info \<Rightarrow> exchange_error + (kt_key \<times> u32)" where
  "select_keytab_reply_key kt client info =
     map_err XKeytab (find_key kt (p_components client) (p_realm client) 0 (pk_etype info))"

definition assumed_preauth_key_info :: "i32 list \<Rightarrow> exchange_error + preauth_key_info" where
  "assumed_preauth_key_info requested =
     ok_or (map_option (\<lambda>e. \<lparr>pk_etype = e, pk_salt = None, pk_s2kparams = None\<rparr>) (List.find supported_etype requested))
       (XNoSupportedPreauthEtype requested)"

text \<open>\<open>find_key\<close> has no error but \<open>NoMatchingKey\<close>; the arm for other errors is kept.\<close>

fun assumed_keytab_loop :: "keytab \<Rightarrow> principal \<Rightarrow> i32 list \<Rightarrow> i32 list \<Rightarrow> exchange_error + (kt_key \<times> u32)" where
  "assumed_keytab_loop kt client requested [] = Inl (XNoSupportedPreauthEtype requested)"
| "assumed_keytab_loop kt client requested (e # es) =
     (case find_key kt (p_components client) (p_realm client) 0 e of
        Inr found \<Rightarrow> Inr found
      | Inl (NoMatchingKey _ _ _ _) \<Rightarrow> assumed_keytab_loop kt client requested es
      | Inl err \<Rightarrow> Inl (XKeytab err))"

definition select_assumed_keytab_reply_key :: "keytab \<Rightarrow> principal \<Rightarrow> as_req_options \<Rightarrow> exchange_error + (kt_key \<times> u32)" where
  "select_assumed_keytab_reply_key kt client opts =
     assumed_keytab_loop kt client (aq_etypes opts) (filter supported_etype (aq_etypes opts))"

definition initial_preauth_probe_options :: "as_req_options \<Rightarrow> as_req_options" where
  "initial_preauth_probe_options opts =
     (if aq_fast_negotiation opts \<and> \<not> list_ex (\<lambda>p. pa_type p = PA_REQ_ENC_PA_REP) (aq_padata opts)
      then opts\<lparr>aq_padata := aq_padata opts @ [\<lparr>pa_type = PA_REQ_ENC_PA_REP, pa_value = []\<rparr>]\<rparr>
      else opts)"

definition as_rep_reply_key_info :: "kdc_asn1 \<Rightarrow> bytes \<Rightarrow> (i32 \<times> u32 option) option" where
  "as_rep_reply_key_info K bs =
     (case decode_as_rep K bs of
        Inl _ \<Rightarrow> None
      | Inr r \<Rightarrow> Some (ed_etype (kr_enc_part r), ed_kvno (kr_enc_part r)))"

section \<open>Replies\<close>

definition padata_contains :: "pa_data list \<Rightarrow> i32 \<Rightarrow> bool" where
  "padata_contains ps t \<longleftrightarrow> list_ex (\<lambda>p. pa_type p = t) ps"

definition as_req_contains_padata :: "built_as_req \<Rightarrow> i32 \<Rightarrow> bool" where
  "as_req_contains_padata r t = (case kq_padata (bq_message r) of None \<Rightarrow> False | Some ps \<Rightarrow> padata_contains ps t)"

definition ticket_flags_contain_bits :: "bool list \<Rightarrow> u32 \<Rightarrow> bool" where
  "ticket_flags_contain_bits flags bits \<longleftrightarrow> from_bytes_en Big (ticket_flags_to_bytes flags) AND bits = bits"

definition validate_as_rep_encrypted_padata ::
  "kdc_asn1 \<Rightarrow> crypto_prims \<Rightarrow> built_as_req \<Rightarrow> enc_kdc_rep_part \<Rightarrow> kt_key \<Rightarrow> exchange_error + unit" where
  "validate_as_rep_encrypted_padata K P request part reply_key =
     (if \<not> as_req_contains_padata request PA_REQ_ENC_PA_REP \<or> \<not> ticket_flags_contain_bits (kx_flags part) TICKET_FLAG_ENC_PA_REP
      then Inr ()
      else rbind (ok_or (kx_encrypted_pa_data part) XInvalidFastNegotiationResponse) (\<lambda>pa.
        if length pa < 2 \<or> \<not> padata_contains pa PA_FX_FAST then Inl XInvalidFastNegotiationResponse
        else rbind (ok_or (List.find (\<lambda>p. pa_type p = PA_REQ_ENC_PA_REP) pa) XInvalidFastNegotiationResponse) (\<lambda>p.
          rbind (map_err XMessage (pa_req_enc_pa_rep_decode_der K (pa_value p))) (\<lambda>checksum.
          rbind (ok_or (ket_from_checksum_type_id (prp_checksum_type checksum)) (XUnsupportedChecksumType (prp_checksum_type checksum))) (\<lambda>etype.
            if \<not> ket_verify_checksum P etype (kt_value reply_key) (bq_der request) (prp_checksum checksum) AS_REQ_CHECKSUM_USAGE
            then Inl XFastNegotiationChecksumMismatch
            else Inr ())))))"

text \<open>The session both reply handlers end with.\<close>

definition rep_session_from ::
  "kdc_asn1 \<Rightarrow> principal \<Rightarrow> principal \<Rightarrow> ticket \<Rightarrow> enc_kdc_rep_part \<Rightarrow> exchange_error + rep_session" where
  "rep_session_from K client service t part =
     rbind (map_err (XClient \<circ> client_ticket_error) (encode_ticket (k_base K) t)) (\<lambda>der.
     rbind (x_system_time (kx_auth_time part)) (\<lambda>auth_time.
     rbind (x_system_time (case kx_start_time part of Some s \<Rightarrow> s | None \<Rightarrow> kx_auth_time part)) (\<lambda>start_time.
     rbind (x_system_time (kx_end_time part)) (\<lambda>end_time.
     rbind (traverse x_system_time (kx_renew_till part)) (\<lambda>renew_till.
     rbind (traverse x_system_time (kx_key_expiration part)) (\<lambda>key_expiration.
       Inr \<lparr>rs_client = client, rs_service = service, rs_session_key = encryption_key_from_rasn (kx_key part),
            rs_ticket = der, rs_ticket_flags = ticket_flags_to_bytes (kx_flags part), rs_auth_time = auth_time,
            rs_start_time = start_time, rs_end_time = end_time, rs_renew_till = renew_till,
            rs_key_expiration = key_expiration\<rparr>))))))"

definition process_as_rep :: "kdc_asn1 \<Rightarrow> crypto_prims \<Rightarrow> built_as_req \<Rightarrow> bytes \<Rightarrow> kt_key \<Rightarrow> exchange_error + rep_session" where
  "process_as_rep K P request bs reply_key =
     (case process_kdc_error K bs of
        Inr err \<Rightarrow> Inl (XKdc err)
      | Inl _ \<Rightarrow>
        rbind (map_err kdc_rep_error (decode_as_rep K bs)) (\<lambda>rep.
        rbind (x_principal (kr_crealm rep) (kr_cname rep)) (\<lambda>client.
        if \<not> principal_matches client (bq_client request)
        then Inl (XClientPrincipalMismatch (p_name (bq_client request)) (p_name client))
        else
        rbind (map_err kdc_rep_error (decrypt_as_rep_enc_part K P rep reply_key)) (\<lambda>part.
        rbind (validate_as_rep_encrypted_padata K P request part reply_key) (\<lambda>_.
        if kx_nonce part \<noteq> bq_nonce request then Inl (XNonceMismatch (bq_nonce request) (kx_nonce part))
        else
        rbind (x_principal (kx_srealm part) (kx_sname part)) (\<lambda>service.
        if \<not> principal_matches service (bq_service request)
        then Inl (XServicePrincipalMismatch (p_name (bq_service request)) (p_name service))
        else
        rbind (x_principal (tkt_realm (kr_ticket rep)) (tkt_sname (kr_ticket rep))) (\<lambda>ticket_service.
        if \<not> principal_matches ticket_service service
        then Inl (XServicePrincipalMismatch (p_name service) (p_name ticket_service))
        else rep_session_from K client service (kr_ticket rep) part)))))))"

definition process_tgs_rep_inner ::
  "kdc_asn1 \<Rightarrow> crypto_prims \<Rightarrow> built_tgs_req \<Rightarrow> bytes \<Rightarrow> kt_key \<Rightarrow> bool \<Rightarrow> exchange_error + rep_session" where
  "process_tgs_rep_inner K P request bs tgs_session_key allow_referral =
     (case process_kdc_error K bs of
        Inr err \<Rightarrow> Inl (XKdc err)
      | Inl _ \<Rightarrow>
        rbind (map_err kdc_rep_error (decode_tgs_rep K bs)) (\<lambda>rep.
        rbind (x_principal (kr_crealm rep) (kr_cname rep)) (\<lambda>client.
        if \<not> principal_matches client (bt_client request)
        then Inl (XClientPrincipalMismatch (p_name (bt_client request)) (p_name client))
        else
        rbind (map_err kdc_rep_error (decrypt_tgs_rep_enc_part K P rep tgs_session_key)) (\<lambda>part.
        if kx_nonce part \<noteq> bt_nonce request then Inl (XNonceMismatch (bt_nonce request) (kx_nonce part))
        else
        rbind (x_principal (kx_srealm part) (kx_sname part)) (\<lambda>service.
        let referral = allow_referral \<and> is_tgt_principal service \<and> \<not> principal_matches service (bt_service request) in
        if \<not> principal_matches service (bt_service request) \<and> \<not> referral
        then Inl (XServicePrincipalMismatch (p_name (bt_service request)) (p_name service))
        else
        rbind (x_principal (tkt_realm (kr_ticket rep)) (tkt_sname (kr_ticket rep))) (\<lambda>ticket_service.
        if \<not> principal_matches ticket_service service
        then Inl (XServicePrincipalMismatch (p_name service) (p_name ticket_service))
        else rep_session_from K client service (kr_ticket rep) part))))))"

definition process_tgs_rep :: "kdc_asn1 \<Rightarrow> crypto_prims \<Rightarrow> built_tgs_req \<Rightarrow> bytes \<Rightarrow> kt_key \<Rightarrow> exchange_error + rep_session" where
  "process_tgs_rep K P request bs key = process_tgs_rep_inner K P request bs key False"

definition process_tgs_rep_with_referral :: "kdc_asn1 \<Rightarrow> crypto_prims \<Rightarrow> built_tgs_req \<Rightarrow> bytes \<Rightarrow> kt_key \<Rightarrow> exchange_error + rep_session" where
  "process_tgs_rep_with_referral K P request bs key = process_tgs_rep_inner K P request bs key True"

section \<open>Effects\<close>

record 'w kdc_env =
  env_now :: "'w \<Rightarrow> system_time \<times> 'w"
  env_fill :: "nat \<Rightarrow> 'w \<Rightarrow> bytes option \<times> 'w"
  env_send :: "string \<Rightarrow> bytes \<Rightarrow> 'w \<Rightarrow> (exchange_error + bytes) \<times> 'w" \<comment> \<open>realm, request\<close>

type_synonym ('w, 'a) io = "'w \<Rightarrow> (exchange_error + 'a) \<times> 'w"

definition io_bind :: "('w, 'a) io \<Rightarrow> ('a \<Rightarrow> ('w, 'b) io) \<Rightarrow> ('w, 'b) io" where
  "io_bind m f w = (case m w of (Inl e, w') \<Rightarrow> (Inl e, w') | (Inr x, w') \<Rightarrow> f x w')"

definition io_of :: "exchange_error + 'a \<Rightarrow> ('w, 'a) io" where
  "io_of r w = (r, w)"

lemma io_bind_simps [simp]:
  "m w = (Inl e, w') \<Longrightarrow> io_bind m f w = (Inl e, w')"
  "m w = (Inr x, w') \<Longrightarrow> io_bind m f w = f x w'"
  by (simp_all add: io_bind_def)

lemma io_bind_of_Inr [simp]: "io_bind (io_of (Inr x)) f = f x"
  by (simp add: io_bind_def io_of_def fun_eq_iff)

lemma io_bind_of_Inl [simp]: "io_bind (io_of (Inl e)) f = io_of (Inl e)"
  by (simp add: io_bind_def io_of_def fun_eq_iff)

lemma io_bind_eq_Inr:
  "io_bind m f w = (Inr y, w'') \<longleftrightarrow> (\<exists>x w'. m w = (Inr x, w') \<and> f x w' = (Inr y, w''))"
  by (auto simp: io_bind_def split: prod.splits sum.splits)

definition current_preauth_time :: "'w kdc_env \<Rightarrow> ('w, system_time \<times> u32) io" where
  "current_preauth_time E w =
     (let (now, w) = env_now E w in
      (rbind (ok_or (duration_since now 0) (XClient CliTimeOverflow)) (\<lambda>elapsed.
         Inr (int (from_secs (elapsed div 1000000000)), word_of_nat (elapsed mod 1000000000 div 1000))), w))"

definition io_confounder :: "'w kdc_env \<Rightarrow> kt_key \<Rightarrow> ('w, bytes) io" where
  "io_confounder E key =
     io_bind (io_of (x_etype_of_key key)) (\<lambda>etype w.
       let (bs, w) = env_fill E (ket_confounder_len etype) w in (ok_or bs (XClient CliRandom), w))"

definition pa_enc_timestamp ::
  "'w kdc_env \<Rightarrow> kdc_asn1 \<Rightarrow> crypto_prims \<Rightarrow> kt_key \<Rightarrow> system_time \<Rightarrow> u32 \<Rightarrow> u32 option \<Rightarrow> ('w, pa_data) io" where
  "pa_enc_timestamp E K P key timestamp cusec kvno =
     io_bind (io_confounder E key) (\<lambda>confounder. io_of (pa_enc_timestamp_with_confounder K P key timestamp cusec confounder kvno))"

definition build_preauthenticated_as_req ::
  "'w kdc_env \<Rightarrow> kdc_asn1 \<Rightarrow> crypto_prims \<Rightarrow> principal \<Rightarrow> principal \<Rightarrow> as_req_options \<Rightarrow> kt_key \<Rightarrow> u32 option \<Rightarrow> ('w, built_as_req) io" where
  "build_preauthenticated_as_req E K P client service opts key kvno =
     io_bind (current_preauth_time E) (\<lambda>(timestamp, cusec).
     io_bind (pa_enc_timestamp E K P key timestamp cusec kvno) (\<lambda>pa.
       io_of (build_as_req K client service
         (opts\<lparr>aq_padata := filter (\<lambda>p. pa_type p \<noteq> PA_ENC_TIMESTAMP) (aq_padata opts) @ [pa]\<rparr>))))"

definition build_preauthenticated_tgt_as_req ::
  "'w kdc_env \<Rightarrow> kdc_asn1 \<Rightarrow> crypto_prims \<Rightarrow> principal \<Rightarrow> as_req_options \<Rightarrow> kt_key \<Rightarrow> u32 option \<Rightarrow> ('w, built_as_req) io" where
  "build_preauthenticated_tgt_as_req E K P client opts key kvno =
     build_preauthenticated_as_req E K P client (tgt_service (p_realm client)) opts key kvno"

text \<open>The TGS builders that read the clock and draw a confounder for the session key share their frame.\<close>

definition with_time_and_confounder ::
  "'w kdc_env \<Rightarrow> kt_key \<Rightarrow> (system_time \<Rightarrow> u32 \<Rightarrow> bytes \<Rightarrow> exchange_error + 'a) \<Rightarrow> ('w, 'a) io" where
  "with_time_and_confounder E key build =
     io_bind (current_preauth_time E) (\<lambda>(timestamp, cusec).
     io_bind (io_confounder E key) (\<lambda>confounder. io_of (build timestamp cusec confounder)))"

definition build_tgs_req_for_realm ::
  "'w kdc_env \<Rightarrow> kdc_asn1 \<Rightarrow> crypto_prims \<Rightarrow> rep_session \<Rightarrow> string \<Rightarrow> principal \<Rightarrow> tgs_req_options \<Rightarrow> ('w, built_tgs_req) io" where
  "build_tgs_req_for_realm E K P tgt kdc_realm service opts =
     with_time_and_confounder E (rs_session_key tgt) (build_tgs_req_for_realm_with_confounder K P tgt kdc_realm service opts)"

definition build_tgs_req ::
  "'w kdc_env \<Rightarrow> kdc_asn1 \<Rightarrow> crypto_prims \<Rightarrow> rep_session \<Rightarrow> principal \<Rightarrow> tgs_req_options \<Rightarrow> ('w, built_tgs_req) io" where
  "build_tgs_req E K P tgt service opts = build_tgs_req_for_realm E K P tgt (p_realm service) service opts"

definition build_s4u2self_req ::
  "'w kdc_env \<Rightarrow> kdc_asn1 \<Rightarrow> crypto_prims \<Rightarrow> rep_session \<Rightarrow> principal \<Rightarrow> tgs_req_options \<Rightarrow> ('w, built_tgs_req) io" where
  "build_s4u2self_req E K P service_tgt user opts =
     with_time_and_confounder E (rs_session_key service_tgt) (build_s4u2self_req_with_confounder K P service_tgt user opts)"

definition build_s4u2proxy_req ::
  "'w kdc_env \<Rightarrow> kdc_asn1 \<Rightarrow> crypto_prims \<Rightarrow> rep_session \<Rightarrow> rep_session \<Rightarrow> principal \<Rightarrow> tgs_req_options \<Rightarrow> ('w, built_tgs_req) io" where
  "build_s4u2proxy_req E K P service_tgt evidence target opts =
     with_time_and_confounder E (rs_session_key service_tgt) (build_s4u2proxy_req_with_confounder K P service_tgt evidence target opts)"

definition build_tgt_renewal_req ::
  "'w kdc_env \<Rightarrow> kdc_asn1 \<Rightarrow> crypto_prims \<Rightarrow> rep_session \<Rightarrow> tgs_req_options \<Rightarrow> ('w, built_tgs_req) io" where
  "build_tgt_renewal_req E K P tgt opts =
     io_bind (io_of (ok_or (tgt_realm tgt) (XInvalidTgtSession (p_name (rs_service tgt))))) (\<lambda>realm.
       build_tgs_req_for_realm E K P tgt realm (tgt_service realm) (tgs_with_renewal opts))"

definition build_ticket_renewal_req ::
  "'w kdc_env \<Rightarrow> kdc_asn1 \<Rightarrow> crypto_prims \<Rightarrow> rep_session \<Rightarrow> tgs_req_options \<Rightarrow> ('w, built_tgs_req) io" where
  "build_ticket_renewal_req E K P st opts =
     build_tgs_req_for_realm E K P st (p_realm (rs_service st)) (rs_service st) (tgs_with_renewal opts)"

section \<open>Exchanges\<close>

definition exchange_as_req ::
  "'w kdc_env \<Rightarrow> kdc_asn1 \<Rightarrow> crypto_prims \<Rightarrow> built_as_req \<Rightarrow> kt_key \<Rightarrow> ('w, rep_session) io" where
  "exchange_as_req E K P request reply_key =
     io_bind (env_send E (p_realm (bq_client request)) (bq_der request)) (\<lambda>response.
       io_of (process_as_rep K P request response reply_key))"

definition exchange_tgs_req ::
  "'w kdc_env \<Rightarrow> kdc_asn1 \<Rightarrow> crypto_prims \<Rightarrow> built_tgs_req \<Rightarrow> kt_key \<Rightarrow> ('w, rep_session) io" where
  "exchange_tgs_req E K P request tgs_session_key =
     io_bind (env_send E (bt_kdc_realm request) (bt_der request)) (\<lambda>response.
       io_of (process_tgs_rep K P request response tgs_session_key))"

definition s4u2self ::
  "'w kdc_env \<Rightarrow> kdc_asn1 \<Rightarrow> crypto_prims \<Rightarrow> rep_session \<Rightarrow> principal \<Rightarrow> tgs_req_options \<Rightarrow> ('w, rep_session) io" where
  "s4u2self E K P service_tgt user opts =
     io_bind (build_s4u2self_req E K P service_tgt user opts) (\<lambda>request.
       exchange_tgs_req E K P request (rs_session_key service_tgt))"

definition s4u2proxy ::
  "'w kdc_env \<Rightarrow> kdc_asn1 \<Rightarrow> crypto_prims \<Rightarrow> rep_session \<Rightarrow> rep_session \<Rightarrow> principal \<Rightarrow> tgs_req_options \<Rightarrow> ('w, rep_session) io" where
  "s4u2proxy E K P service_tgt evidence target opts =
     io_bind (build_s4u2proxy_req E K P service_tgt evidence target opts) (\<lambda>request.
       exchange_tgs_req E K P request (rs_session_key service_tgt))"

definition renew_tgt :: "'w kdc_env \<Rightarrow> kdc_asn1 \<Rightarrow> crypto_prims \<Rightarrow> rep_session \<Rightarrow> tgs_req_options \<Rightarrow> ('w, rep_session) io" where
  "renew_tgt E K P tgt opts =
     io_bind (build_tgt_renewal_req E K P tgt opts) (\<lambda>request. exchange_tgs_req E K P request (rs_session_key tgt))"

definition renew_ticket :: "'w kdc_env \<Rightarrow> kdc_asn1 \<Rightarrow> crypto_prims \<Rightarrow> rep_session \<Rightarrow> tgs_req_options \<Rightarrow> ('w, rep_session) io" where
  "renew_ticket E K P st opts =
     io_bind (build_ticket_renewal_req E K P st opts) (\<lambda>request. exchange_tgs_req E K P request (rs_session_key st))"

section \<open>Login\<close>

definition password_preauth_request ::
  "'w kdc_env \<Rightarrow> kdc_asn1 \<Rightarrow> crypto_prims \<Rightarrow> principal \<Rightarrow> principal \<Rightarrow> bytes \<Rightarrow> as_req_options \<Rightarrow> bytes \<Rightarrow> ('w, built_as_req \<times> kt_key) io" where
  "password_preauth_request E K P client service password opts kdc_error_bytes =
     io_bind (io_of (process_kdc_error K kdc_error_bytes)) (\<lambda>err.
     if kd_error_code err \<noteq> KDC_ERR_PREAUTH_REQUIRED then io_of (Inl (XKdc err))
     else
     io_bind (io_of (select_preauth_key_info err (aq_etypes opts))) (\<lambda>info.
     io_bind (io_of (derive_password_reply_key P client password info)) (\<lambda>reply_key.
     io_bind (build_preauthenticated_as_req E K P client service (initial_preauth_probe_options opts) reply_key None) (\<lambda>request.
       io_of (Inr (request, reply_key))))))"

definition password_initial_as_req ::
  "'w kdc_env \<Rightarrow> kdc_asn1 \<Rightarrow> crypto_prims \<Rightarrow> principal \<Rightarrow> principal \<Rightarrow> bytes \<Rightarrow> as_req_options \<Rightarrow> ('w, built_as_req) io" where
  "password_initial_as_req E K P client service password opts =
     (let opts = initial_preauth_probe_options opts in
      if aq_assume_preauthentication opts then
        io_bind (io_of (assumed_preauth_key_info (aq_etypes opts))) (\<lambda>info.
        io_bind (io_of (derive_password_reply_key P client password info)) (\<lambda>reply_key.
          build_preauthenticated_as_req E K P client service opts reply_key None))
      else io_of (build_as_req K client service opts))"

definition password_initial_as_rep_session ::
  "kdc_asn1 \<Rightarrow> crypto_prims \<Rightarrow> built_as_req \<Rightarrow> bytes \<Rightarrow> principal \<Rightarrow> bytes \<Rightarrow> exchange_error + rep_session option" where
  "password_initial_as_rep_session K P request response client password =
     (case as_rep_reply_key_info K response of
        None \<Rightarrow> Inr None
      | Some (etype, _) \<Rightarrow>
          rbind (derive_password_reply_key P client password \<lparr>pk_etype = etype, pk_salt = None, pk_s2kparams = None\<rparr>) (\<lambda>reply_key.
          rbind (process_as_rep K P request response reply_key) (\<lambda>s. Inr (Some s))))"

definition login_as_service_with_password ::
  "'w kdc_env \<Rightarrow> kdc_asn1 \<Rightarrow> crypto_prims \<Rightarrow> principal \<Rightarrow> principal \<Rightarrow> bytes \<Rightarrow> as_req_options \<Rightarrow> ('w, rep_session) io" where
  "login_as_service_with_password E K P client service password opts =
     io_bind (password_initial_as_req E K P client service password opts) (\<lambda>initial_request.
     io_bind (env_send E (p_realm client) (bq_der initial_request)) (\<lambda>initial_response.
     io_bind (io_of (password_initial_as_rep_session K P initial_request initial_response client password)) (\<lambda>session.
     case session of
       Some s \<Rightarrow> io_of (Inr s)
     | None \<Rightarrow>
         io_bind (password_preauth_request E K P client service password opts initial_response) (\<lambda>(request, reply_key).
         io_bind (env_send E (p_realm (bq_client request)) (bq_der request)) (\<lambda>response.
           io_of (process_as_rep K P request response reply_key))))))"

definition login_tgt_with_password ::
  "'w kdc_env \<Rightarrow> kdc_asn1 \<Rightarrow> crypto_prims \<Rightarrow> principal \<Rightarrow> bytes \<Rightarrow> as_req_options \<Rightarrow> ('w, rep_session) io" where
  "login_tgt_with_password E K P client password opts =
     login_as_service_with_password E K P client (tgt_service (p_realm client)) password opts"

definition keytab_preauth_request ::
  "'w kdc_env \<Rightarrow> kdc_asn1 \<Rightarrow> crypto_prims \<Rightarrow> principal \<Rightarrow> principal \<Rightarrow> keytab \<Rightarrow> as_req_options \<Rightarrow> bytes \<Rightarrow> ('w, built_as_req \<times> kt_key) io" where
  "keytab_preauth_request E K P client service kt opts kdc_error_bytes =
     io_bind (io_of (process_kdc_error K kdc_error_bytes)) (\<lambda>err.
     if kd_error_code err \<noteq> KDC_ERR_PREAUTH_REQUIRED then io_of (Inl (XKdc err))
     else
     io_bind (io_of (select_preauth_key_info err (aq_etypes opts))) (\<lambda>info.
     io_bind (io_of (select_keytab_reply_key kt client info)) (\<lambda>(reply_key, kvno).
     io_bind (build_preauthenticated_as_req E K P client service (initial_preauth_probe_options opts) reply_key (Some kvno)) (\<lambda>request.
       io_of (Inr (request, reply_key))))))"

definition keytab_initial_as_req ::
  "'w kdc_env \<Rightarrow> kdc_asn1 \<Rightarrow> crypto_prims \<Rightarrow> principal \<Rightarrow> principal \<Rightarrow> keytab \<Rightarrow> as_req_options \<Rightarrow> ('w, built_as_req) io" where
  "keytab_initial_as_req E K P client service kt opts =
     (let opts = initial_preauth_probe_options opts in
      if aq_assume_preauthentication opts then
        io_bind (io_of (select_assumed_keytab_reply_key kt client opts)) (\<lambda>(reply_key, kvno).
          build_preauthenticated_as_req E K P client service opts reply_key (Some kvno))
      else io_of (build_as_req K client service opts))"

definition keytab_initial_as_rep_session ::
  "kdc_asn1 \<Rightarrow> crypto_prims \<Rightarrow> built_as_req \<Rightarrow> bytes \<Rightarrow> principal \<Rightarrow> keytab \<Rightarrow> exchange_error + rep_session option" where
  "keytab_initial_as_rep_session K P request response client kt =
     (case as_rep_reply_key_info K response of
        None \<Rightarrow> Inr None
      | Some (etype, kvno) \<Rightarrow>
          rbind (select_keytab_reply_key_for_etype kt client (case kvno of Some k \<Rightarrow> k | None \<Rightarrow> 0) etype) (\<lambda>(reply_key, _).
          rbind (process_as_rep K P request response reply_key) (\<lambda>s. Inr (Some s))))"

definition login_as_service_with_keytab ::
  "'w kdc_env \<Rightarrow> kdc_asn1 \<Rightarrow> crypto_prims \<Rightarrow> principal \<Rightarrow> principal \<Rightarrow> keytab \<Rightarrow> as_req_options \<Rightarrow> ('w, rep_session) io" where
  "login_as_service_with_keytab E K P client service kt opts =
     io_bind (keytab_initial_as_req E K P client service kt opts) (\<lambda>initial_request.
     io_bind (env_send E (p_realm client) (bq_der initial_request)) (\<lambda>initial_response.
     io_bind (io_of (keytab_initial_as_rep_session K P initial_request initial_response client kt)) (\<lambda>session.
     case session of
       Some s \<Rightarrow> io_of (Inr s)
     | None \<Rightarrow>
         io_bind (keytab_preauth_request E K P client service kt opts initial_response) (\<lambda>(request, reply_key).
         io_bind (env_send E (p_realm (bq_client request)) (bq_der request)) (\<lambda>response.
           io_of (process_as_rep K P request response reply_key))))))"

definition login_tgt_with_keytab ::
  "'w kdc_env \<Rightarrow> kdc_asn1 \<Rightarrow> crypto_prims \<Rightarrow> principal \<Rightarrow> keytab \<Rightarrow> as_req_options \<Rightarrow> ('w, rep_session) io" where
  "login_tgt_with_keytab E K P client kt opts =
     login_as_service_with_keytab E K P client (tgt_service (p_realm client)) kt opts"

section \<open>Referrals\<close>

text \<open>\<open>get_service_ticket_with_referral_trace_limit\<close> of \<open>src/client/transport.rs\<close>: follow referral tickets towards
  the realm of the service.  The argument \<open>left\<close> counts the iterations that remain.\<close>

definition DEFAULT_MAX_REFERRALS :: nat where
  "DEFAULT_MAX_REFERRALS = 5"

definition service_realm :: "config \<Rightarrow> principal \<Rightarrow> string option" where
  "service_realm cfg service =
     (if p_components service = [] then None else resolve_realm cfg (last (p_components service)))"

fun referral_loop ::
  "'w kdc_env \<Rightarrow> kdc_asn1 \<Rightarrow> crypto_prims \<Rightarrow> tgs_req_options \<Rightarrow> principal \<Rightarrow> nat \<Rightarrow> nat \<Rightarrow> rep_session \<Rightarrow> string \<Rightarrow> rep_session list
    \<Rightarrow> ('w, rep_session \<times> rep_session list) io" where
  "referral_loop E K P opts service max_referrals 0 current_tgt current_realm trace = io_of (Inl (XMaxReferralDepth max_referrals))"
| "referral_loop E K P opts service max_referrals (Suc left) current_tgt current_realm trace =
     (let requested = (if current_realm = p_realm service then service
                       else principal_new current_realm KRB_NT_SRV_INST [''krbtgt'', p_realm service])
      in
      io_bind (build_tgs_req_for_realm E K P current_tgt current_realm requested opts) (\<lambda>request.
      io_bind (env_send E (bt_kdc_realm request) (bt_der request)) (\<lambda>response.
      io_bind (io_of (process_tgs_rep_with_referral K P request response (rs_session_key current_tgt))) (\<lambda>t.
      if principal_matches (rs_service t) service then io_of (Inr (t, trace))
      else
        case tgt_realm t of
          None \<Rightarrow> io_of (Inl (XServicePrincipalMismatch (p_name service) (p_name (rs_service t))))
        | Some referred \<Rightarrow>
            if referred = current_realm then io_of (Inl (XInvalidReferralTicket (p_name (rs_service t))))
            else if left = 0 then io_of (Inl (XMaxReferralDepth max_referrals))
            else referral_loop E K P opts service max_referrals left t referred (trace @ [t])))))"

definition referral_target :: "config \<Rightarrow> string \<Rightarrow> principal \<Rightarrow> principal" where
  "referral_target cfg current_realm service =
     (if p_realm service = []
      then service\<lparr>p_realm := (case service_realm cfg service of Some r \<Rightarrow> r | None \<Rightarrow> current_realm)\<rparr>
      else service)"

definition get_service_ticket_with_referral_trace_limit ::
  "'w kdc_env \<Rightarrow> kdc_asn1 \<Rightarrow> crypto_prims \<Rightarrow> config \<Rightarrow> rep_session \<Rightarrow> principal \<Rightarrow> tgs_req_options \<Rightarrow> nat \<Rightarrow> ('w, rep_session \<times> rep_session list) io" where
  "get_service_ticket_with_referral_trace_limit E K P cfg tgt service opts max_referrals =
     io_bind (io_of (ok_or (tgt_realm tgt) (XInvalidReferralTicket (p_name (rs_service tgt))))) (\<lambda>current_realm.
       referral_loop E K P opts (referral_target cfg current_realm service) max_referrals (Suc max_referrals) tgt current_realm [])"

end
