(* ===== verification/Client_Exchange_Props.thy ===== *)
theory Client_Exchange_Props
  imports Client_Exchange Exchange_Props
begin

text \<open>
  What the exchanges with a KDC guarantee: a session comes only from a reply that was sealed under the reply key
  for this very request; the reply of a KDC that answers the request is accepted; a login with a password
  succeeds against a KDC that asks for pre-authentication; the KDC can authenticate a TGS request; and following referrals ends.
\<close>

section \<open>A session comes from a sealed reply\<close>

definition sealed_under :: "crypto_prims \<Rightarrow> kerberos_etype \<Rightarrow> kt_key \<Rightarrow> u32 \<Rightarrow> bytes \<Rightarrow> bytes \<Rightarrow> bool" where
  "sealed_under P e key usage m ct \<longleftrightarrow>
     (\<exists>conf. length conf = ket_confounder_len e \<and> ket_encrypt_message_with_confounder P e (kt_value key) m usage conf = Inr ct)"

text \<open>The session is the content of the part and the ticket.\<close>

definition session_of_part :: "kdc_asn1 \<Rightarrow> ticket \<Rightarrow> enc_kdc_rep_part \<Rightarrow> rep_session \<Rightarrow> bool" where
  "session_of_part K t part s \<longleftrightarrow>
     rs_session_key s = encryption_key_from_rasn (kx_key part) \<and> enc_ticket (k_base K) t = Some (rs_ticket s)
   \<and> rs_ticket_flags s = ticket_flags_to_bytes (kx_flags part)
   \<and> system_time_from_kerberos_time (kx_auth_time part) = Inr (rs_auth_time s)
   \<and> system_time_from_kerberos_time (case kx_start_time part of Some x \<Rightarrow> x | None \<Rightarrow> kx_auth_time part) = Inr (rs_start_time s)
   \<and> system_time_from_kerberos_time (kx_end_time part) = Inr (rs_end_time s)
   \<and> traverse system_time_from_kerberos_time (kx_renew_till part) = Inr (rs_renew_till s)
   \<and> traverse system_time_from_kerberos_time (kx_key_expiration part) = Inr (rs_key_expiration s)
   \<and> principal_from_parts (kx_srealm part) (kx_sname part) = Inr (rs_service s)
   \<and> (\<exists>ts. principal_from_parts (tkt_realm t) (tkt_sname t) = Inr ts \<and> principal_matches ts (rs_service s))"

lemma x_conv_eq_Inr:
  "x_principal r n = Inr p \<longleftrightarrow> principal_from_parts r n = Inr p" "x_system_time t = Inr v \<longleftrightarrow> system_time_from_kerberos_time t = Inr v"
  by (simp_all add: x_principal_def x_system_time_def map_err_eq_Inr)

lemma traverse_x_time: "traverse x_system_time v = Inr w \<longleftrightarrow> traverse system_time_from_kerberos_time v = Inr w"
  by (cases v) (simp_all add: rbind_eq_Inr x_conv_eq_Inr)

lemma rep_session_from_eq:
  assumes "principal_from_parts (kx_srealm part) (kx_sname part) = Inr service"
    and "principal_from_parts (tkt_realm t) (tkt_sname t) = Inr ts" and "principal_matches ts service"
  shows "rep_session_from K client service t part = Inr s \<longleftrightarrow> rs_client s = client \<and> rs_service s = service \<and> session_of_part K t part s"
  using assms
  by (cases s) (auto simp: rep_session_from_def session_of_part_def rbind_eq_Inr map_err_eq_Inr encode_ticket_def ok_or_eq_Inr
      x_conv_eq_Inr traverse_x_time)

text \<open>The part of the check that protects the request itself.\<close>

definition request_protected :: "kdc_asn1 \<Rightarrow> crypto_prims \<Rightarrow> built_as_req \<Rightarrow> enc_kdc_rep_part \<Rightarrow> kt_key \<Rightarrow> bool" where
  "request_protected K P req part key \<longleftrightarrow>
     (\<exists>pa p ck e. kx_encrypted_pa_data part = Some pa \<and> p \<in> set pa \<and> pa_type p = PA_REQ_ENC_PA_REP
        \<and> c_dec (k_pa_req_enc_pa_rep K) (pa_value p) = Some ck \<and> ket_from_checksum_type_id (prp_checksum_type ck) = Some e
        \<and> ket_checksum P e (kt_value key) (bq_der req) AS_REQ_CHECKSUM_USAGE = Inr (prp_checksum ck))"

lemma validated_padata:
  assumes "validate_as_rep_encrypted_padata K P req part key = Inr ()"
    and "as_req_contains_padata req PA_REQ_ENC_PA_REP" and "ticket_flags_contain_bits (kx_flags part) TICKET_FLAG_ENC_PA_REP"
  shows "request_protected K P req part key"
proof -
  obtain pa p ck e where pa: "kx_encrypted_pa_data part = Some pa" and p: "List.find (\<lambda>p. pa_type p = PA_REQ_ENC_PA_REP) pa = Some p"
    and ck: "c_dec (k_pa_req_enc_pa_rep K) (pa_value p) = Some ck" "ket_from_checksum_type_id (prp_checksum_type ck) = Some e"
    and ver: "ket_verify_checksum P e (kt_value key) (bq_der req) (prp_checksum ck) AS_REQ_CHECKSUM_USAGE"
    using assms(1) unfolding validate_as_rep_encrypted_padata_def
    by (auto simp: assms(2,3) rbind_eq_Inr ok_or_eq_Inr map_err_eq_Inr pa_req_enc_pa_rep_decode_der_def split: if_splits)
  have "p \<in> set pa \<and> pa_type p = PA_REQ_ENC_PA_REP" using p by (auto simp: find_Some_iff)
  then show ?thesis using pa ck ver unfolding request_protected_def verify_checksum_iff by blast
qed

text \<open>What a KDC does for it (RFC 6806, section 11): when it sets the flag \<open>enc-pa-rep\<close>, it adds the FAST marker and its checksum of the
  request it received, under the reply key.  The client's check then succeeds.\<close>

definition negotiation_answered :: "kdc_asn1 \<Rightarrow> crypto_prims \<Rightarrow> built_as_req \<Rightarrow> enc_kdc_rep_part \<Rightarrow> kt_key \<Rightarrow> bool" where
  "negotiation_answered K P req part key \<longleftrightarrow>
     (ticket_flags_contain_bits (kx_flags part) TICKET_FLAG_ENC_PA_REP \<longrightarrow>
       (\<exists>pa p e c. kx_encrypted_pa_data part = Some pa \<and> padata_contains pa PA_FX_FAST
          \<and> List.find (\<lambda>p. pa_type p = PA_REQ_ENC_PA_REP) pa = Some p \<and> ket_from_etype_id (kt_etype key) = Some e
          \<and> ket_checksum P e (kt_value key) (bq_der req) AS_REQ_CHECKSUM_USAGE = Inr c
          \<and> c_enc (k_pa_req_enc_pa_rep K) \<lparr>prp_checksum_type = ket_checksum_type_id e, prp_checksum = c\<rparr> = Some (pa_value p)))"

lemma two_kinds_of_padata:
  assumes "padata_contains pa s" and "List.find (\<lambda>p. pa_type p = t) pa = Some p" and "s \<noteq> t"
  shows "2 \<le> length pa"
proof -
  obtain q where "q \<in> set pa" "pa_type q = s" using assms(1) by (auto simp: padata_contains_def list_ex_iff)
  moreover have "p \<in> set pa" "pa_type p = t" using assms(2) by (auto simp: find_Some_iff)
  ultimately have "card {p, q} \<le> card (set pa)" "p \<noteq> q" using assms(3) by (auto intro!: card_mono)
  then show ?thesis using card_length [of pa] by simp
qed

lemma negotiation_validated:
  assumes "kdc_asn1_ok K" and "negotiation_answered K P req part key"
  shows "validate_as_rep_encrypted_padata K P req part key = Inr ()"
proof (cases "ticket_flags_contain_bits (kx_flags part) TICKET_FLAG_ENC_PA_REP")
  case True
  then obtain pa p e c where pa: "kx_encrypted_pa_data part = Some pa" "padata_contains pa PA_FX_FAST"
      "List.find (\<lambda>p. pa_type p = PA_REQ_ENC_PA_REP) pa = Some p"
      "ket_checksum P e (kt_value key) (bq_der req) AS_REQ_CHECKSUM_USAGE = Inr c"
      "c_enc (k_pa_req_enc_pa_rep K) \<lparr>prp_checksum_type = ket_checksum_type_id e, prp_checksum = c\<rparr> = Some (pa_value p)"
    using assms(2) unfolding negotiation_answered_def by blast
  have "codec_ok (\<lambda>_. True) (k_pa_req_enc_pa_rep K)" using assms(1) by (simp add: kdc_asn1_ok_def)
  from codec_okD(1) [OF this pa(5)]
  have "pa_req_enc_pa_rep_decode_der K (pa_value p) = Inr \<lparr>prp_checksum_type = ket_checksum_type_id e, prp_checksum = c\<rparr>"
    by (simp add: pa_req_enc_pa_rep_decode_der_def)
  moreover have "ket_from_checksum_type_id (ket_checksum_type_id e) = Some e" using ket_ids_identify by blast
  moreover have "2 \<le> length pa" using two_kinds_of_padata [OF pa(2,3)] by (simp add: PA_FX_FAST_def PA_REQ_ENC_PA_REP_def)
  ultimately show ?thesis using pa(1-4) by (simp add: validate_as_rep_encrypted_padata_def verify_checksum_iff)
qed (simp add: validate_as_rep_encrypted_padata_def)

lemma process_as_repE:
  assumes "process_as_rep K P req bs key = Inr s"
  obtains rep part where "decode_as_rep K bs = Inr rep" and "principal_from_parts (kr_crealm rep) (kr_cname rep) = Inr (rs_client s)"
    and "principal_matches (rs_client s) (bq_client req)" and "decrypt_as_rep_enc_part K P rep key = Inr part"
    and "validate_as_rep_encrypted_padata K P req part key = Inr ()" and "kx_nonce part = bq_nonce req"
    and "principal_matches (rs_service s) (bq_service req)" and "session_of_part K (kr_ticket rep) part s"
proof -
  obtain rep client part service ts where r: "decode_as_rep K bs = Inr rep" "principal_from_parts (kr_crealm rep) (kr_cname rep) = Inr client"
      "principal_matches client (bq_client req)" "decrypt_as_rep_enc_part K P rep key = Inr part"
      "validate_as_rep_encrypted_padata K P req part key = Inr ()" "kx_nonce part = bq_nonce req"
      "principal_from_parts (kx_srealm part) (kx_sname part) = Inr service" "principal_matches service (bq_service req)"
      "principal_from_parts (tkt_realm (kr_ticket rep)) (tkt_sname (kr_ticket rep)) = Inr ts" "principal_matches ts service"
      "rep_session_from K client service (kr_ticket rep) part = Inr s"
    using assms unfolding process_as_rep_def
    by (auto simp: rbind_eq_Inr map_err_eq_Inr x_conv_eq_Inr split: sum.splits if_splits)
  have "rs_client s = client \<and> rs_service s = service \<and> session_of_part K (kr_ticket rep) part s"
    using r(11) unfolding rep_session_from_eq [OF r(7,9,10)] .
  then show thesis using that [OF r(1) _ _ r(4,5,6)] r(2,3,8) by simp
qed

text \<open>C12: what an accepted AS reply guarantees.  The client and the service of the session are those of the request; its
  key, times, flags and service are those of a part that was encrypted under the reply key, for this usage, with the nonce of this
  request; the ticket is the one of the reply and names the same service.  And when request and reply negotiate it, the part
  holds a checksum under the reply key over the very bytes of the request.\<close>

theorem as_rep_authentic:
  assumes "prims_ok P" and "key_fits key e" and "process_as_rep K P req bs key = Inr s"
  shows "principal_matches (rs_client s) (bq_client req) \<and> principal_matches (rs_service s) (bq_service req)
    \<and> (\<exists>rep m part. decode_as_rep K bs = Inr rep \<and> sealed_under P e key 3 m (ed_cipher (kr_enc_part rep))
        \<and> decode_enc_kdc_rep_part K (trim_zero_padded_der m) = Inr part \<and> kx_nonce part = bq_nonce req
        \<and> session_of_part K (kr_ticket rep) part s
        \<and> (as_req_contains_padata req PA_REQ_ENC_PA_REP \<and> ticket_flags_contain_bits (kx_flags part) TICKET_FLAG_ENC_PA_REP
            \<longrightarrow> request_protected K P req part key))"
proof -
  obtain rep part where r: "decode_as_rep K bs = Inr rep" "principal_matches (rs_client s) (bq_client req)"
      "decrypt_as_rep_enc_part K P rep key = Inr part" "validate_as_rep_encrypted_padata K P req part key = Inr ()"
      "kx_nonce part = bq_nonce req" "principal_matches (rs_service s) (bq_service req)" "session_of_part K (kr_ticket rep) part s"
    using assms(3) by (rule process_as_repE)
  obtain m where "sealed_under P e key 3 m (ed_cipher (kr_enc_part rep))" "decode_enc_kdc_rep_part K (trim_zero_padded_der m) = Inr part"
    using decrypted_rep_was_sealed [OF assms(1,2)] r(3) by (fastforce simp: decrypt_as_rep_enc_part_def AS_REP_ENCPART_USAGE_def sealed_under_def)
  then show ?thesis using r validated_padata [OF r(4)] by blast
qed

lemma process_tgs_repE:
  assumes "process_tgs_rep_inner K P req bs key referral = Inr s"
  obtains rep part where "decode_tgs_rep K bs = Inr rep" and "principal_from_parts (kr_crealm rep) (kr_cname rep) = Inr (rs_client s)"
    and "principal_matches (rs_client s) (bt_client req)" and "decrypt_tgs_rep_enc_part K P rep key = Inr part"
    and "kx_nonce part = bt_nonce req"
    and "principal_matches (rs_service s) (bt_service req) \<or> referral \<and> is_tgt_principal (rs_service s)"
    and "session_of_part K (kr_ticket rep) part s"
proof -
  obtain rep client part service ts where r: "decode_tgs_rep K bs = Inr rep" "principal_from_parts (kr_crealm rep) (kr_cname rep) = Inr client"
      "principal_matches client (bt_client req)" "decrypt_tgs_rep_enc_part K P rep key = Inr part" "kx_nonce part = bt_nonce req"
      "principal_from_parts (kx_srealm part) (kx_sname part) = Inr service"
      "principal_matches service (bt_service req) \<or> referral \<and> is_tgt_principal service"
      "principal_from_parts (tkt_realm (kr_ticket rep)) (tkt_sname (kr_ticket rep)) = Inr ts" "principal_matches ts service"
      "rep_session_from K client service (kr_ticket rep) part = Inr s"
    using assms unfolding process_tgs_rep_inner_def
    by (auto simp: rbind_eq_Inr map_err_eq_Inr x_conv_eq_Inr Let_def split: sum.splits if_splits)
  have "rs_client s = client \<and> rs_service s = service \<and> session_of_part K (kr_ticket rep) part s"
    using r(10) unfolding rep_session_from_eq [OF r(6,8,9)] .
  then show thesis using that [OF r(1) _ _ r(4,5)] r(2,3,7) by simp
qed

lemma tgs_rep_sealed:
  assumes "prims_ok P" and "key_fits key e" and "process_tgs_rep_inner K P req bs key referral = Inr s"
  shows "principal_matches (rs_client s) (bt_client req)
    \<and> (principal_matches (rs_service s) (bt_service req) \<or> referral \<and> is_tgt_principal (rs_service s))
    \<and> (\<exists>rep m part. decode_tgs_rep K bs = Inr rep \<and> sealed_under P e key 8 m (ed_cipher (kr_enc_part rep))
        \<and> decode_enc_kdc_rep_part K (trim_zero_padded_der m) = Inr part \<and> kx_nonce part = bt_nonce req
        \<and> session_of_part K (kr_ticket rep) part s)"
proof -
  obtain rep part where r: "decode_tgs_rep K bs = Inr rep" "principal_matches (rs_client s) (bt_client req)"
      "decrypt_tgs_rep_enc_part K P rep key = Inr part" "kx_nonce part = bt_nonce req"
      "principal_matches (rs_service s) (bt_service req) \<or> referral \<and> is_tgt_principal (rs_service s)" "session_of_part K (kr_ticket rep) part s"
    using assms(3) by (rule process_tgs_repE)
  obtain m where "sealed_under P e key 8 m (ed_cipher (kr_enc_part rep))" "decode_enc_kdc_rep_part K (trim_zero_padded_der m) = Inr part"
    using decrypted_rep_was_sealed [OF assms(1,2)] r(3)
    by (fastforce simp: decrypt_tgs_rep_enc_part_def TGS_REP_ENCPART_SESSION_KEY_USAGE_def sealed_under_def)
  then show ?thesis using r by blast
qed

section \<open>The reply of a KDC that answers the request\<close>

definition representable :: "kerberos_time \<Rightarrow> bool" where
  "representable t \<longleftrightarrow> whole_seconds t \<and> (\<exists>v. system_time_from_kerberos_time t = Inr v)"

definition part_representable :: "enc_kdc_rep_part \<Rightarrow> bool" where
  "part_representable p \<longleftrightarrow> representable (kx_auth_time p) \<and> representable (kx_end_time p) \<and> pred_option representable (kx_start_time p)
     \<and> pred_option representable (kx_renew_till p) \<and> pred_option representable (kx_key_expiration p)
     \<and> list_all (\<lambda>(_, t). whole_seconds t) (kx_last_req p)"

text \<open>A reply message (of type \<open>mt\<close>, encoded by \<open>c\<close>) that names client and service consistently around a sealed part.\<close>

definition consistent_reply ::
  "kdc_asn1 \<Rightarrow> kdc_rep codec \<Rightarrow> int \<Rightarrow> principal \<Rightarrow> principal \<Rightarrow> enc_kdc_rep_part \<Rightarrow> encrypted_data \<Rightarrow> bytes \<Rightarrow> bool" where
  "consistent_reply K c mt client service part d bs \<longleftrightarrow>
     (\<exists>rep tb. c_enc c rep = Some bs \<and> kr_pvno rep = 5 \<and> kr_msg_type rep = mt \<and> tkt_vno (kr_ticket rep) = 5 \<and> kr_enc_part rep = d
        \<and> principal_from_parts (kr_crealm rep) (kr_cname rep) = Inr client
        \<and> principal_from_parts (kx_srealm part) (kx_sname part) = Inr service
        \<and> principal_from_parts (tkt_realm (kr_ticket rep)) (tkt_sname (kr_ticket rep)) = Inr service
        \<and> enc_ticket (k_base K) (kr_ticket rep) = Some tb \<and> part_representable part)"

lemma part_representable_whole: "part_representable p \<Longrightarrow> rep_part_whole p"
  by (auto simp: part_representable_def rep_part_whole_def representable_def whole_def pred_option_def)

lemma traverse_representable: "pred_option representable v \<Longrightarrow> \<exists>w. traverse x_system_time v = Inr w"
  by (cases v) (auto simp: x_conv_eq_Inr rbind_eq_Inr representable_def)

lemma principal_matches_refl [simp]: "principal_matches p p"
  by (simp add: principal_matches_def)

lemma rep_session_from_total:
  assumes "part_representable part" and "enc_ticket (k_base K) t = Some tb"
    and "principal_from_parts (kx_srealm part) (kx_sname part) = Inr service"
    and "principal_from_parts (tkt_realm t) (tkt_sname t) = Inr service"
  shows "\<exists>s. rep_session_from K client service t part = Inr s \<and> rs_client s = client \<and> rs_service s = service \<and> session_of_part K t part s"
proof -
  have "\<exists>v. system_time_from_kerberos_time (case kx_start_time part of Some x \<Rightarrow> x | None \<Rightarrow> kx_auth_time part) = Inr v"
    using assms(1) by (auto simp: part_representable_def representable_def pred_option_def split: option.splits)
  then have "\<exists>s. rep_session_from K client service t part = Inr s"
    using assms(1,2) traverse_representable [of "kx_renew_till part"] traverse_representable [of "kx_key_expiration part"]
    by (auto simp: rep_session_from_def encode_ticket_def part_representable_def representable_def rbind_eq_Inr x_conv_eq_Inr map_err_eq_Inr)
  then show ?thesis using rep_session_from_eq [OF assms(3,4)] by auto
qed

lemma not_an_error:
  assumes "c_dec (k_krb_error K) bs = None"
  shows "\<exists>e. process_kdc_error K bs = Inl e"
  using assms by (simp add: process_kdc_error_def decode_krb_error_def)

lemma process_as_rep_complete:
  assumes "prims_ok P" and "kdc_asn1_ok K" and "key_fits key e" and "length conf = ket_confounder_len e"
    and "encrypt_as_rep_enc_part_with_confounder K P part key kvno conf = Inr d"
    and "consistent_reply K (k_as_rep K) 11 client service part d bs"
    and "principal_matches client (bq_client req)" and "principal_matches service (bq_service req)" and "kx_nonce part = bq_nonce req"
    and "validate_as_rep_encrypted_padata K P req part key = Inr ()"
  shows "\<exists>s rep. decode_as_rep K bs = Inr rep \<and> process_as_rep K P req bs key = Inr s \<and> rs_client s = client \<and> rs_service s = service
    \<and> session_of_part K (kr_ticket rep) part s"
proof -
  obtain rep tb where r: "c_enc (k_as_rep K) rep = Some bs" "kr_pvno rep = 5" "kr_msg_type rep = 11" "tkt_vno (kr_ticket rep) = 5"
      "kr_enc_part rep = d" "principal_from_parts (kr_crealm rep) (kr_cname rep) = Inr client"
      "principal_from_parts (kx_srealm part) (kx_sname part) = Inr service"
      "principal_from_parts (tkt_realm (kr_ticket rep)) (tkt_sname (kr_ticket rep)) = Inr service"
      "enc_ticket (k_base K) (kr_ticket rep) = Some tb" "part_representable part"
    using assms(6) by (auto simp: consistent_reply_def)
  obtain s where s: "rep_session_from K client service (kr_ticket rep) part = Inr s" "rs_client s = client" "rs_service s = service"
      "session_of_part K (kr_ticket rep) part s"
    using rep_session_from_total [OF r(10,9,7,8)] by blast
  obtain err where err: "process_kdc_error K bs = Inl err" using not_an_error [OF kdc_asn1_tags(1) [OF assms(2) r(1)]] by blast
  have dec: "decode_as_rep K bs = Inr rep"
    using codec_okD(1) [OF kdc_asn1_okD(8) [OF assms(2)] r(1)] r(2-4)
    by (simp add: decode_as_rep_def validate_as_rep_def validate_kdc_rep_def kdc_validate_integer_def KRB5_PVNO_def KRB_AS_REP_MSG_TYPE_def
        validate_ticket_def validate_integer_def KRB5_TKT_VNO_def)
  have part: "decrypt_as_rep_enc_part K P rep key = Inr part"
    using decrypt_built_as_rep [OF assms(1-4) part_representable_whole [OF r(10)] assms(5)] r(5) by (simp add: decrypt_as_rep_enc_part_def)
  have xs: "x_principal (kr_crealm rep) (kr_cname rep) = Inr client" "x_principal (kx_srealm part) (kx_sname part) = Inr service"
      "x_principal (tkt_realm (kr_ticket rep)) (tkt_sname (kr_ticket rep)) = Inr service"
    using r(6-8) by (simp_all add: x_conv_eq_Inr)
  have "process_as_rep K P req bs key = Inr s"
    unfolding process_as_rep_def by (simp add: err dec xs part assms(7-10) s(1))
  then show ?thesis using s dec by blast
qed

lemma process_tgs_rep_complete:
  assumes "prims_ok P" and "kdc_asn1_ok K" and "key_fits key e" and "length conf = ket_confounder_len e"
    and "encrypt_tgs_rep_enc_part_with_confounder K P part key kvno conf = Inr d"
    and "consistent_reply K (k_tgs_rep K) 13 client service part d bs"
    and "principal_matches client (bt_client req)" and "principal_matches service (bt_service req)" and "kx_nonce part = bt_nonce req"
  shows "\<exists>s rep. decode_tgs_rep K bs = Inr rep \<and> process_tgs_rep_inner K P req bs key referral = Inr s \<and> rs_client s = client
    \<and> rs_service s = service \<and> session_of_part K (kr_ticket rep) part s"
proof -
  obtain rep tb where r: "c_enc (k_tgs_rep K) rep = Some bs" "kr_pvno rep = 5" "kr_msg_type rep = 13" "tkt_vno (kr_ticket rep) = 5"
      "kr_enc_part rep = d" "principal_from_parts (kr_crealm rep) (kr_cname rep) = Inr client"
      "principal_from_parts (kx_srealm part) (kx_sname part) = Inr service"
      "principal_from_parts (tkt_realm (kr_ticket rep)) (tkt_sname (kr_ticket rep)) = Inr service"
      "enc_ticket (k_base K) (kr_ticket rep) = Some tb" "part_representable part"
    using assms(6) by (auto simp: consistent_reply_def)
  obtain s where s: "rep_session_from K client service (kr_ticket rep) part = Inr s" "rs_client s = client" "rs_service s = service"
      "session_of_part K (kr_ticket rep) part s"
    using rep_session_from_total [OF r(10,9,7,8)] by blast
  obtain err where err: "process_kdc_error K bs = Inl err" using not_an_error [OF kdc_asn1_tags(2) [OF assms(2) r(1)]] by blast
  have dec: "decode_tgs_rep K bs = Inr rep"
    using codec_okD(1) [OF kdc_asn1_okD(9) [OF assms(2)] r(1)] r(2-4)
    by (simp add: decode_tgs_rep_def validate_tgs_rep_def validate_kdc_rep_def kdc_validate_integer_def KRB5_PVNO_def KRB_TGS_REP_MSG_TYPE_def
        validate_ticket_def validate_integer_def KRB5_TKT_VNO_def)
  have part: "decrypt_tgs_rep_enc_part K P rep key = Inr part"
    using decrypt_built_tgs_rep [OF assms(1-4) part_representable_whole [OF r(10)] assms(5)] r(5) by (simp add: decrypt_tgs_rep_enc_part_def)
  have xs: "x_principal (kr_crealm rep) (kr_cname rep) = Inr client" "x_principal (kx_srealm part) (kx_sname part) = Inr service"
      "x_principal (tkt_realm (kr_ticket rep)) (tkt_sname (kr_ticket rep)) = Inr service"
    using r(6-8) by (simp_all add: x_conv_eq_Inr)
  have "process_tgs_rep_inner K P req bs key referral = Inr s"
    unfolding process_tgs_rep_inner_def by (simp add: err dec xs part assms(7-9) s(1))
  then show ?thesis using s dec by blast
qed

section \<open>Login with a password\<close>

lemma string_to_key_length:
  assumes P: "prims_ok P" and k: "ket_string_to_key P e secret salt params = Inr k"
  shows "length k = ket_key_len e"
proof (cases e)
  case (Sha1 x)
  obtain n where n: "aes1_derive_key P x (aes1_string_to_pbkdf2 P x secret salt n) KERBEROS_CONSTANT = Inr k"
    using k Sha1 by (auto simp: aes1_string_to_key_def rbind_eq_Inr Let_def)
  have "length (aes1_string_to_pbkdf2 P x secret salt n) = aes1_key_len x" using P by (simp add: aes1_string_to_pbkdf2_def prims_ok_def)
  from aes1_derive_key_length [OF P this, of KERBEROS_CONSTANT] n Sha1 show ?thesis by (auto simp: KERBEROS_CONSTANT_def str_bytes_def)
next
  case (Sha2 x)
  obtain n where n: "aes2_derive_key P x (aes2_string_to_pbkdf2 P x secret (aes2_saltp x salt) n) KERBEROS_CONSTANT = Inr k"
    using k Sha2 by (auto simp: aes2_string_to_key_def rbind_eq_Inr Let_def)
  have "length (aes2_string_to_pbkdf2 P x secret (aes2_saltp x salt) n) = aes2_key_len x" using P by (cases x) (simp_all add: prims_ok_def)
  then show ?thesis using n Sha2 hmac_lengths [OF P]
    by (cases x) (auto simp: aes2_derive_key_def aes2_validate_protocol_key_def check_key_len_if aes2_kdf_hmac_sha2_def
        KERBEROS_CONSTANT_def str_bytes_def Let_def)
next
  case Des3CbcSha1Kd
  obtain f t where f: "nfold (secret @ salt) (21 * 8) = Inr f" and t: "des3_random_to_key f = Inr t"
    and d: "des3_derive_key P t KERBEROS_CONSTANT = Inr k"
    using k Des3CbcSha1Kd by (auto simp: des3_string_to_key_def rbind_eq_Inr split: if_splits)
  have "secret @ salt \<noteq> []" using f by (auto simp: nfold_def)
  then have "length f = 21" using f nfold_length [of "secret @ salt" 21] by auto
  then have "length t = 24" using t des3_random_to_key_length by fastforce
  from des3_derive_key_length [OF P this, of KERBEROS_CONSTANT] d Des3CbcSha1Kd show ?thesis
    by (auto simp: KERBEROS_CONSTANT_def str_bytes_def ket_size_defs)
next
  case Rc4Hmac
  then show ?thesis using P k by (auto simp: rc4_string_to_key_def prims_ok_def ket_size_defs split: if_splits)
qed

lemma derived_key_fits:
  assumes "prims_ok P" and "derive_password_reply_key P client password info = Inr key"
  obtains e where "key_fits key e"
  using assms string_to_key_length [OF assms(1)] that
  by (auto simp: derive_password_reply_key_def rbind_eq_Inr ok_or_eq_Inr map_err_eq_Inr key_fits_def Let_def)

lemma built_as_req_fields:
  assumes "build_as_req K client service opts = Inr req"
  shows "bq_client req = client \<and> bq_service req = service \<and> bq_nonce req = aq_nonce opts
    \<and> kq_padata (bq_message req) = (if aq_padata opts = [] then None else Some (aq_padata opts))
    \<and> rb_nonce (kq_req_body (bq_message req)) = aq_nonce opts \<and> c_enc (k_as_req K) (bq_message req) = Some (bq_der req)"
  using assms by (auto simp: build_as_req_def rbind_eq_Inr map_err_eq_Inr Let_def kdc_build_as_req_def encode_as_req_def ok_or_eq_Inr
      split: if_splits)

text \<open>What the KDC does with the padata of the second request: it opens the time stamp with the client's key.\<close>

definition opens_timestamp :: "kdc_asn1 \<Rightarrow> crypto_prims \<Rightarrow> kt_key \<Rightarrow> pa_data \<Rightarrow> bool" where
  "opens_timestamp K P key p \<longleftrightarrow> pa_type p = PA_ENC_TIMESTAMP
     \<and> (\<exists>d e m ts. c_dec (k_encrypted_data K) (pa_value p) = Some d \<and> ed_etype d = kt_etype key \<and> key_fits key e
          \<and> ket_decrypt_message P e (kt_value key) (ed_cipher d) AS_REQ_PA_ENC_TIMESTAMP_USAGE = Inr m
          \<and> c_dec (k_pa_enc_ts_enc K) (trim_zero_padded_der m) = Some ts)"

lemma client_time_whole:
  assumes "asn1_ok A" and "client_kerberos_time A t = Inr v"
  shows "whole_seconds v"
proof -
  obtain s where "from_timestamp A s 0 = Some v"
    using assms(2) by (auto simp: client_kerberos_time_def rbind_eq_Inr map_err_eq_Inr ok_or_eq_Inr)
  then show ?thesis using asn1_okD(7) [OF assms(1)] by (simp add: whole_seconds_def)
qed

lemma timestamp_opens:
  assumes "prims_ok P" and "kdc_asn1_ok K" and "key_fits key e" and "length conf = ket_confounder_len e"
    and "pa_enc_timestamp_with_confounder K P key t cusec conf kvno = Inr p"
  shows "opens_timestamp K P key p"
proof -
  obtain v m ct pv where v: "client_kerberos_time (k_base K) t = Inr v"
    and m: "c_enc (k_pa_enc_ts_enc K) \<lparr>pet_patimestamp = v, pet_pausec = Some (uint cusec)\<rparr> = Some m"
    and ct: "ket_encrypt_message_with_confounder P e (kt_value key) m AS_REQ_PA_ENC_TIMESTAMP_USAGE conf = Inr ct"
    and pv: "c_enc (k_encrypted_data K) \<lparr>ed_etype = kt_etype key, ed_kvno = kvno, ed_cipher = ct\<rparr> = Some pv"
    and p: "p = \<lparr>pa_type = PA_ENC_TIMESTAMP, pa_value = pv\<rparr>"
    using assms(3,5)
    by (auto simp: pa_enc_timestamp_with_confounder_def rbind_eq_Inr ok_or_eq_Inr map_err_eq_Inr x_etype_of_key_def key_fits_def)
  have "whole_seconds v" by (rule client_time_whole [OF kdc_asn1_okD(1) [OF assms(2)] v])
  then show ?thesis
    using open_sealed_part [OF assms(1,3,4) kdc_asn1_okD(13) [OF assms(2)] m _ ct] codec_okD(1) [OF kdc_asn1_okD(14) [OF assms(2)] pv] assms(3)
    by (fastforce simp: opens_timestamp_def p)
qed

definition fills_exactly :: "'w kdc_env \<Rightarrow> bool" where
  "fills_exactly E \<longleftrightarrow> (\<forall>n w bs w'. env_fill E n w = (Some bs, w') \<longrightarrow> length bs = n)"

lemma io_confounder_length:
  assumes "key_fits key e" and "fills_exactly E" and "io_confounder E key w = (Inr c, w')"
  shows "length c = ket_confounder_len e"
proof -
  obtain bs v where bs: "env_fill E (ket_confounder_len e) w = (bs, v)" by fastforce
  then have "bs = Some c"
    using assms(1,3) by (auto simp: io_confounder_def x_etype_of_key_def key_fits_def ok_or_eq_Inr)
  then show ?thesis using bs assms(2) unfolding fills_exactly_def by blast
qed

lemma preauthenticated_request:
  assumes "prims_ok P" and "kdc_asn1_ok K" and "key_fits key e" and "fills_exactly E"
    and "build_preauthenticated_as_req E K P client service opts key kvno w = (Inr req, w')"
  shows "bq_client req = client \<and> bq_service req = service \<and> bq_nonce req = aq_nonce opts
    \<and> (\<exists>ps. kq_padata (bq_message req) = Some ps \<and> ps \<noteq> [] \<and> opens_timestamp K P key (last ps))"
proof -
  obtain t cusec conf p v v' where c: "io_confounder E key v = (Inr conf, v')"
    and p: "pa_enc_timestamp_with_confounder K P key t cusec conf kvno = Inr p"
    and b: "build_as_req K client service (opts\<lparr>aq_padata := filter (\<lambda>p. pa_type p \<noteq> PA_ENC_TIMESTAMP) (aq_padata opts) @ [p]\<rparr>) = Inr req"
    using assms(5) by (auto simp: build_preauthenticated_as_req_def io_bind_eq_Inr pa_enc_timestamp_def io_of_def)
  note conf = io_confounder_length [OF assms(3,4) c]
  show ?thesis using built_as_req_fields [OF b] timestamp_opens [OF assms(1,2,3) conf p] by simp
qed

text \<open>C4: a login with a password succeeds.  The KDC answers the first request with an error that asks for
  pre-authentication and names an encryption type the client supports.  Then the client derives the key from the password with
  the salt and parameters of the hint, its second request carries a time stamp that opens with that key, and the reply
  the KDC seals under that key with the nonce of the request, for the same client and service, is accepted: the login returns the session
  key, the times and the flags of the sealed part and the encoding of the very ticket that this reply carries.  When the KDC sets the flag
  \<open>enc-pa-rep\<close>, it is assumed to answer the negotiation as it must, with the FAST marker and its checksum of the request
  (\<open>negotiation_answered\<close>).\<close>

theorem password_login_completes:
  assumes "prims_ok P" and "kdc_asn1_ok K" and "fills_exactly E" and "\<not> aq_assume_preauthentication opts"
    and "build_as_req K client service (initial_preauth_probe_options opts) = Inr req1"
    and "env_send E (p_realm client) (bq_der req1) w = (Inr ebytes, w1)"
    and "process_kdc_error K ebytes = Inr err" and "kd_error_code err = KDC_ERR_PREAUTH_REQUIRED" and "c_dec (k_as_rep K) ebytes = None"
    and "select_preauth_key_info err (aq_etypes opts) = Inr info" and "derive_password_reply_key P client password info = Inr key"
    and "build_preauthenticated_as_req E K P client service (initial_preauth_probe_options opts) key None w1 = (Inr req2, w2)"
    and "env_send E (p_realm client) (bq_der req2) w2 = (Inr bs, w3)"
    and "ket_from_etype_id (kt_etype key) = Some e" and "length conf = ket_confounder_len e"
    and "encrypt_as_rep_enc_part_with_confounder K P part key kvno conf = Inr d"
    and "consistent_reply K (k_as_rep K) 11 client service part d bs" and "kx_nonce part = aq_nonce opts"
    and "negotiation_answered K P req2 part key"
  shows "\<exists>s rep ps. login_as_service_with_password E K P client service password opts w = (Inr s, w3)
    \<and> rs_client s = client \<and> rs_service s = service \<and> decode_as_rep K bs = Inr rep \<and> session_of_part K (kr_ticket rep) part s
    \<and> kq_padata (bq_message req2) = Some ps \<and> opens_timestamp K P key (last ps)"
proof -
  have fits: "key_fits key e" using derived_key_fits [OF assms(1,11)] assms(14) by (metis key_fits_def option.inject)
  have probe: "aq_nonce (initial_preauth_probe_options opts) = aq_nonce opts"
    "aq_assume_preauthentication (initial_preauth_probe_options opts) = aq_assume_preauthentication opts"
    by (simp_all add: initial_preauth_probe_options_def)
  note r2 = preauthenticated_request [OF assms(1,2) fits assms(3,12)]
  obtain s rep where s: "process_as_rep K P req2 bs key = Inr s" "rs_client s = client" "rs_service s = service" "decode_as_rep K bs = Inr rep"
      "session_of_part K (kr_ticket rep) part s"
    using process_as_rep_complete [OF assms(1,2) fits assms(15,16,17), of req2] r2 assms(18) negotiation_validated [OF assms(2,19)] probe by auto
  have i: "password_initial_as_req E K P client service password opts w = (Inr req1, w)"
    using assms(4,5) by (simp add: password_initial_as_req_def probe io_of_def Let_def)
  have n: "password_initial_as_rep_session K P req1 ebytes client password = Inr None"
    using assms(9) by (simp add: password_initial_as_rep_session_def as_rep_reply_key_info_def decode_as_rep_def)
  have p: "password_preauth_request E K P client service password opts ebytes w1 = (Inr (req2, key), w2)"
    using assms(7,8,10,11,12) by (simp add: password_preauth_request_def io_of_def)
  have "login_as_service_with_password E K P client service password opts w = (Inr s, w3)"
    unfolding login_as_service_with_password_def using i assms(6,13) n p r2 s(1) by (simp add: io_of_def)
  then show ?thesis using s r2 by auto
qed

section \<open>The KDC can authenticate a TGS request\<close>

lemma traverse_time_whole:
  assumes "asn1_ok A" and "traverse (\<lambda>t. map_err XClient (client_kerberos_time A t)) v = Inr r"
  shows "whole r"
  using assms(2) client_time_whole [OF assms(1)]
  by (cases v) (auto simp: rbind_eq_Inr map_err_eq_Inr whole_def)

text \<open>C13: a TGS request authenticates itself.  The KDC decodes from its bytes the message that was built; the first
  padata holds an AP-REQ with the ticket of the session, whose authenticator opens with the session key under the usage for TGS
  requests, names the client, and carries a checksum that verifies, under the session key, over the encoding of the body; the body
  holds the nonce and the encryption types of the options.  The realm in the authenticator is that of the ticket.\<close>

theorem tgs_req_authenticates:
  assumes "prims_ok P" and "kdc_asn1_ok K" and "key_fits (rs_session_key tgt) e" and "length conf = ket_confounder_len e"
    and "build_tgs_req_for_realm_with_confounder K P tgt kdc_realm service opts ts cusec conf = Inr b"
  shows "\<exists>t p m auth der ck. decode_ticket (k_base K) (rs_ticket tgt) = Inr t
    \<and> c_dec (k_tgs_req K) (bt_der b) = Some (bt_message b)
    \<and> kq_padata (bt_message b) = Some (p # tq_padata opts) \<and> pa_type p = PA_TGS_REQ
    \<and> decode_ap_req (k_base K) (pa_value p) = Inr m \<and> ar_ticket m = t
    \<and> decrypt_ap_req_authenticator (k_base K) P m (rs_session_key tgt) 7 = Inr auth
    \<and> principal_to_rasn (k_base K) (rs_client tgt) = Inr (au_cname auth) \<and> au_crealm auth = tkt_realm t
    \<and> c_enc (k_kdc_req_body K) (kq_req_body (bt_message b)) = Some der
    \<and> au_cksum auth = Some ck \<and> ck_type ck = ket_checksum_type_id e
    \<and> ket_verify_checksum P e (kt_value (rs_session_key tgt)) der (ck_checksum ck) 6
    \<and> rb_nonce (kq_req_body (bt_message b)) = tq_nonce opts \<and> rb_etype (kq_req_body (bt_message b)) = tq_etypes opts"
proof -
  let ?A = "k_base K" and ?k = "rs_session_key tgt"
  note A = kdc_asn1_okD(1) [OF assms(2)]
  obtain t till rtill cname realm sname ktill rtime body der c ctime auth m pv msg der2 where
    t: "decode_ticket ?A (rs_ticket tgt) = Inr t"
    and cname: "principal_to_rasn ?A (rs_client tgt) = Inr cname"
    and till: "client_kerberos_time ?A till = Inr ktill" and rt: "traverse (\<lambda>t. map_err XClient (client_kerberos_time ?A t)) rtill = Inr rtime"
    and body: "body = \<lparr>rb_kdc_options = kdc_options_from_bits (request_kdc_option_bits (tq_kdc_option_bits opts) (tq_renew_lifetime opts)),
              rb_cname = Some cname, rb_realm = realm, rb_sname = Some sname, rb_from = None, rb_till = ktill, rb_rtime = rtime,
              rb_nonce = tq_nonce opts, rb_etype = tq_etypes opts, rb_addresses = None, rb_enc_authorization_data = None,
              rb_additional_tickets = (if tq_additional_tickets opts = [] then None else Some (tq_additional_tickets opts))\<rparr>"
    and der: "c_enc (k_kdc_req_body K) body = Some der"
    and c: "ket_checksum P e (kt_value ?k) der TGS_REQ_AUTHENTICATOR_CHECKSUM_USAGE = Inr c"
    and ctime: "client_kerberos_time ?A ts = Inr ctime"
    and auth: "auth = \<lparr>au_vno = KRB5_PVNO, au_crealm = tkt_realm t, au_cname = cname,
              au_cksum = Some \<lparr>ck_type = ket_checksum_type_id e, ck_checksum = c\<rparr>,
              au_cusec = uint cusec, au_ctime = ctime, au_subkey = None, au_seq_number = None, au_authorization_data = None\<rparr>"
    and m: "build_ap_req_with_confounder ?A P t (ap_options_from_bits 0) auth ?k TGS_REQ_AUTHENTICATOR_USAGE (ed_kvno (tkt_enc_part t)) conf = Inr m"
    and pv: "enc_ap_req ?A m = Some pv"
    and msg: "msg = kdc_build_tgs_req body (Some (\<lparr>pa_type = PA_TGS_REQ, pa_value = pv\<rparr> # tq_padata opts))"
    and der2: "c_enc (k_tgs_req K) msg = Some der2"
    and b: "b = \<lparr>bt_message = msg, bt_der = der2, bt_client = rs_client tgt, bt_service = service,
               bt_kdc_realm = kdc_realm, bt_nonce = tq_nonce opts\<rparr>"
    using assms(3,5)
    by (auto simp: build_tgs_req_for_realm_with_confounder_def Let_def rbind_eq_Inr map_err_eq_Inr x_etype_of_key_def key_fits_def
        encode_kdc_req_body_def encode_ap_req_def encode_tgs_req_def ok_or_eq_Inr split: if_splits)
  have wb: "req_body_whole body"
    using client_time_whole [OF A till] traverse_time_whole [OF A rt] by (simp add: body req_body_whole_def whole_def)
  have "c_dec (k_tgs_req K) der2 = Some msg"
    using codec_okD(1) [OF kdc_asn1_okD(7) [OF assms(2)] der2] wb by (simp add: msg kdc_build_tgs_req_def)
  moreover have "whole_seconds (au_ctime auth)" using client_time_whole [OF A ctime] by (simp add: auth)
  note ap = decrypt_built_ap_req [OF assms(1) A assms(3,4) this m]
  have "decode_ap_req ?A pv = Inr m" using asn1_okD(4) [OF A pv] ap(3) by (simp add: decode_ap_req_def)
  moreover have "ket_verify_checksum P e (kt_value ?k) der c 6" using c by (simp add: verify_checksum_iff TGS_REQ_AUTHENTICATOR_CHECKSUM_USAGE_def)
  ultimately show ?thesis
    using t cname ap(1,2) der by (simp add: b msg kdc_build_tgs_req_def auth body TGS_REQ_AUTHENTICATOR_USAGE_def)
qed

section \<open>Following referrals ends\<close>

text \<open>One hop: a reply that was accepted for a request of the client of \<open>tgt\<close> under its session key.\<close>

definition hop :: "kdc_asn1 \<Rightarrow> crypto_prims \<Rightarrow> rep_session \<Rightarrow> rep_session \<Rightarrow> bool" where
  "hop K P tgt s \<longleftrightarrow> (\<exists>req bs. bt_client req = rs_client tgt \<and> process_tgs_rep_with_referral K P req bs (rs_session_key tgt) = Inr s)"

fun referral_chain :: "kdc_asn1 \<Rightarrow> crypto_prims \<Rightarrow> rep_session \<Rightarrow> rep_session list \<Rightarrow> rep_session \<Rightarrow> bool" where
  "referral_chain K P tgt [] s = hop K P tgt s"
| "referral_chain K P tgt (t # ts) s \<longleftrightarrow> hop K P tgt t \<and> tgt_realm t \<noteq> None \<and> tgt_realm t \<noteq> tgt_realm tgt \<and> referral_chain K P t ts s"

lemma hop_client: "hop K P tgt s \<Longrightarrow> principal_matches (rs_client s) (rs_client tgt)"
  by (auto simp: hop_def process_tgs_rep_with_referral_def elim: process_tgs_repE)

lemma referral_chain_client: "referral_chain K P tgt ts s \<Longrightarrow> principal_matches (rs_client s) (rs_client tgt)"
  by (induction ts arbitrary: tgt) (auto simp: principal_matches_def dest!: hop_client)

lemma built_tgs_req_client:
  "build_tgs_req_for_realm_with_confounder K P tgt kdc_realm service opts ts cusec conf = Inr b \<Longrightarrow> bt_client b = rs_client tgt"
  by (auto simp: build_tgs_req_for_realm_with_confounder_def Let_def rbind_eq_Inr split: if_splits)

lemma built_tgs_req_io_client:
  "build_tgs_req_for_realm E K P tgt kdc_realm service opts w = (Inr b, w') \<Longrightarrow> bt_client b = rs_client tgt"
  by (auto simp: build_tgs_req_for_realm_def with_time_and_confounder_def io_bind_eq_Inr io_of_def dest: built_tgs_req_client)

lemma referral_loop_sound:
  assumes "referral_loop E K P opts service mx n tgt realm trace w = (Inr (s, out), w')" and "tgt_realm tgt = Some realm"
  shows "\<exists>ts. out = trace @ ts \<and> length ts < n \<and> referral_chain K P tgt ts s \<and> principal_matches (rs_service s) service"
  using assms
proof (induction n arbitrary: tgt realm trace w)
  case (Suc n)
  obtain req w1 bs w2 t where b: "build_tgs_req_for_realm E K P tgt realm
        (if realm = p_realm service then service else principal_new realm KRB_NT_SRV_INST [''krbtgt'', p_realm service]) opts w = (Inr req, w1)"
    and r: "process_tgs_rep_with_referral K P req bs (rs_session_key tgt) = Inr t"
    and rest: "(if principal_matches (rs_service t) service then io_of (Inr (t, trace))
      else case tgt_realm t of None \<Rightarrow> io_of (Inl (XServicePrincipalMismatch (p_name service) (p_name (rs_service t))))
        | Some referred \<Rightarrow> if referred = realm then io_of (Inl (XInvalidReferralTicket (p_name (rs_service t))))
            else if n = 0 then io_of (Inl (XMaxReferralDepth mx))
            else referral_loop E K P opts service mx n t referred (trace @ [t])) w2 = (Inr (s, out), w')"
    using Suc.prems(1) by (auto simp: Let_def io_bind_eq_Inr io_of_def)
  have h: "hop K P tgt t" using r built_tgs_req_io_client [OF b] by (auto simp: hop_def)
  show ?case
  proof (cases "principal_matches (rs_service t) service")
    case True
    then show ?thesis using rest h by (auto simp: io_of_def)
  next
    case False
    then obtain referred where re: "tgt_realm t = Some referred" "referred \<noteq> realm"
        "referral_loop E K P opts service mx n t referred (trace @ [t]) w2 = (Inr (s, out), w')"
      using rest by (auto simp: io_of_def split: option.splits if_splits)
    from Suc.IH [OF re(3,1)] obtain ts where ts: "out = (trace @ [t]) @ ts" "length ts < n" "referral_chain K P t ts s"
        "principal_matches (rs_service s) service" by blast
    have "referral_chain K P tgt (t # ts) s" using h re ts(3) Suc.prems(2) by simp
    moreover have "out = trace @ t # ts" "length (t # ts) < Suc n" using ts(1,2) by simp_all
    ultimately show ?thesis using ts(4) by blast
  qed
qed (simp add: io_of_def)

text \<open>The same environment with a count of the messages sent.\<close>

definition counted :: "'w kdc_env \<Rightarrow> ('w \<times> nat) kdc_env" where
  "counted E = \<lparr>env_now = \<lambda>(w, n). let (t, w) = env_now E w in (t, (w, n)),
     env_fill = \<lambda>k (w, n). let (bs, w) = env_fill E k w in (bs, (w, n)),
     env_send = \<lambda>realm req (w, n). let (r, w) = env_send E realm req w in (r, (w, Suc n))\<rparr>"

lemma counted_time: "snd (snd (current_preauth_time (counted E) wn)) = snd wn"
  by (cases wn) (simp add: current_preauth_time_def counted_def Let_def split: prod.splits)

lemma counted_confounder: "snd (snd (io_confounder (counted E) key wn)) = snd wn"
  by (cases wn) (auto simp: io_confounder_def io_bind_def io_of_def counted_def Let_def split: prod.splits sum.splits)

lemma counted_build: "snd (snd (build_tgs_req_for_realm (counted E) K P tgt realm service opts wn)) = snd wn"
proof -
  have c: "snd wn2 = snd wn1" if "io_confounder (counted E) (rs_session_key tgt) wn1 = (r, wn2)" for wn1 r wn2
    using counted_confounder [of E "rs_session_key tgt" wn1] that by simp
  show ?thesis
    using counted_time [of E wn]
    by (auto simp: build_tgs_req_for_realm_def with_time_and_confounder_def io_bind_def io_of_def dest!: c split: prod.splits sum.splits)
qed

lemma counted_send: "snd (snd (env_send (counted E) realm req wn)) = Suc (snd wn)"
  by (cases wn) (simp add: counted_def split: prod.splits)

lemma referral_loop_count: "snd (snd (referral_loop (counted E) K P opts service mx n tgt realm trace wn)) \<le> snd wn + n"
proof (induction n arbitrary: tgt realm trace wn)
  case (Suc n)
  let ?b = "build_tgs_req_for_realm (counted E) K P tgt realm
      (if realm = p_realm service then service else principal_new realm KRB_NT_SRV_INST [''krbtgt'', p_realm service]) opts"
  obtain r1 wn1 where b: "?b wn = (r1, wn1)" by (meson surj_pair)
  have n1: "snd wn1 = snd wn" using counted_build [of E K P tgt realm _ opts wn] b by (metis snd_conv)
  show ?case
  proof (cases r1)
    case (Inl e)
    then show ?thesis using b n1 by (simp add: Let_def)
  next
    case (Inr req)
    obtain r2 wn2 where s: "env_send (counted E) (bt_kdc_realm req) (bt_der req) wn1 = (r2, wn2)" by (meson surj_pair)
    have n2: "snd wn2 = Suc (snd wn)" using counted_send [of E "bt_kdc_realm req" "bt_der req" wn1] s n1 by simp
    have IH: "snd (snd (referral_loop (counted E) K P opts service mx n t rr tr wn2)) \<le> Suc (snd wn + n)" for t rr tr
      using Suc.IH [of t rr tr wn2] n2 by simp
    show ?thesis
      using b s Inr n2 IH
      by (cases r2) (auto simp: Let_def io_bind_def [of "io_of _"] io_of_def split: sum.splits option.splits)
  qed
qed (simp add: io_of_def)

text \<open>C14: following referrals ends, whatever the KDCs answer: at most one request more than the limit is sent.  When a
  ticket is returned, it is for the service that was asked for (in the realm found for it) and for the same client; the referral
  tickets form a chain from the given ticket to it, each accepted under the session key of the one before, each for
  another realm than the one before, and there are no more than the limit.\<close>

theorem referrals_end:
  assumes "tgt_realm tgt = Some realm"
  shows "snd (snd (get_service_ticket_with_referral_trace_limit (counted E) K P cfg tgt service opts mx (w, 0))) \<le> Suc mx
    \<and> (\<forall>s trace w'. get_service_ticket_with_referral_trace_limit E K P cfg tgt service opts mx w = (Inr (s, trace), w') \<longrightarrow>
         length trace \<le> mx \<and> referral_chain K P tgt trace s
       \<and> principal_matches (rs_service s) (referral_target cfg realm service) \<and> principal_matches (rs_client s) (rs_client tgt))"
proof (intro conjI allI impI)
  show "snd (snd (get_service_ticket_with_referral_trace_limit (counted E) K P cfg tgt service opts mx (w, 0))) \<le> Suc mx"
    using referral_loop_count [of E K P opts "referral_target cfg realm service" mx "Suc mx" tgt realm "[]" "(w, 0)"] assms
    by (simp add: get_service_ticket_with_referral_trace_limit_def)
next
  fix s trace w'
  assume "get_service_ticket_with_referral_trace_limit E K P cfg tgt service opts mx w = (Inr (s, trace), w')"
  then have "referral_loop E K P opts (referral_target cfg realm service) mx (Suc mx) tgt realm [] w = (Inr (s, trace), w')"
    using assms by (simp add: get_service_ticket_with_referral_trace_limit_def)
  from referral_loop_sound [OF this assms]
  show "length trace \<le> mx" "referral_chain K P tgt trace s" "principal_matches (rs_service s) (referral_target cfg realm service)"
    "principal_matches (rs_client s) (rs_client tgt)"
    using referral_chain_client by auto
qed

end
