(* ===== verification/Krb_Cred.thy ===== *)
theory Krb_Cred
  imports Kdc_Messages CCache
begin

text \<open>
  \<open>src/krb_cred.rs\<close>: forwarding credentials.  Credentials of a cache are turned into the tickets and the
  encrypted part of a KRB-CRED message and back.  The theorem composes the credential cache, the ticket codec and the
  encryption types: forwarded credentials arrive unchanged.
\<close>

section \<open>Errors\<close>

datatype krb_cred_error =
    CredDecode string
  | CredEncode string
  | CredInvalidString
  | CredInvalidKerberosString
  | CredInvalidMessage string int int
  | CredUnsupportedEtype i32
  | CredKeyEtypeMismatch i32 i32
  | CredTicketKeyEtypeMismatch i32 i32
  | CredTicketInfoCountMismatch nat nat
  | CredMissingKrbCredInfoField string
  | CredTimeOutOfRange
  | CredUnsupportedCredentialAuthData
  | CredUnsupportedSecondTicket
  | CredRandom
  | CredCrypto crypto_error

fun cred_ticket_error :: "message_error \<Rightarrow> krb_cred_error" where
  "cred_ticket_error (MsgDecode t) = CredDecode t"
| "cred_ticket_error (MsgEncode t) = CredEncode t"
| "cred_ticket_error (MsgInvalidMessage f e a) = CredInvalidMessage f e a"
| "cred_ticket_error (MsgUnsupportedEtype e) = CredUnsupportedEtype e"
| "cred_ticket_error (MsgKeyEtypeMismatch k d) = CredTicketKeyEtypeMismatch k d"
| "cred_ticket_error MsgRandom = CredRandom"
| "cred_ticket_error (MsgCrypto e) = CredCrypto e"


section \<open>Conversions\<close>

definition cred_kerberos_string :: "asn1 \<Rightarrow> string \<Rightarrow> krb_cred_error + bytes" where
  "cred_kerberos_string A s = (if general_string A (str_bytes s) then Inr (str_bytes s) else Inl CredInvalidKerberosString)"


definition principal_name_from_ccache :: "asn1 \<Rightarrow> cc_principal \<Rightarrow> krb_cred_error + principal_name" where
  "principal_name_from_ccache A p =
     rbind (rmap (cred_kerberos_string A) (cc_components p)) (\<lambda>comps. Inr \<lparr>pn_type = cc_name_type p, pn_string = comps\<rparr>)"


definition host_address_from_ccache :: "cc_host_address \<Rightarrow> rasn_address" where
  "host_address_from_ccache a = \<lparr>ra_addr_type = cc_addr_type a, ra_address = cc_address a\<rparr>"

definition host_address_to_ccache :: "rasn_address \<Rightarrow> cc_host_address" where
  "host_address_to_ccache a = \<lparr>cc_addr_type = ra_addr_type a, cc_address = ra_address a\<rparr>"



definition kerberos_time_from_u32 :: "asn1 \<Rightarrow> u32 \<Rightarrow> krb_cred_error + kerberos_time" where
  "kerberos_time_from_u32 A seconds = ok_or (from_timestamp A (uint seconds) 0) CredTimeOutOfRange"



section \<open>Credentials and ticket information\<close>

definition ccache_credential_to_krb_cred_info :: "asn1 \<Rightarrow> cc_credential \<Rightarrow> krb_cred_error + krb_cred_info" where
  "ccache_credential_to_krb_cred_info A c =
     rbind (cred_kerberos_string A (cc_realm (cc_client c))) (\<lambda>prealm.
     rbind (principal_name_from_ccache A (cc_client c)) (\<lambda>pname.
     rbind (kerberos_time_from_u32 A (cc_auth_time (cc_times c))) (\<lambda>auth_time.
     rbind (kerberos_time_from_u32 A (cc_start_time (cc_times c))) (\<lambda>start_time.
     rbind (kerberos_time_from_u32 A (cc_end_time (cc_times c))) (\<lambda>end_time.
     rbind (kerberos_time_from_u32 A (cc_renew_till (cc_times c))) (\<lambda>renew_till.
     rbind (cred_kerberos_string A (cc_realm (cc_server c))) (\<lambda>srealm.
     rbind (principal_name_from_ccache A (cc_server c)) (\<lambda>sname.
       Inr \<lparr>kci_key = \<lparr>rk_type = cc_etype (cc_key c), rk_value = cc_value (cc_key c)\<rparr>,
            kci_prealm = Some prealm, kci_pname = Some pname, kci_flags = Some (from_slice (cc_ticket_flags c)),
            kci_auth_time = Some auth_time, kci_start_time = Some start_time, kci_end_time = Some end_time,
            kci_renew_till = Some renew_till, kci_srealm = Some srealm, kci_sname = Some sname,
            kci_caddr = (if cc_addresses c = [] then None else Some (map host_address_from_ccache (cc_addresses c)))\<rparr>))))))))"


section \<open>Messages\<close>

definition KRB_CRED_MSG_TYPE :: int where
  "KRB_CRED_MSG_TYPE = 22"

definition KRB_CRED_ENCPART_USAGE :: u32 where
  "KRB_CRED_ENCPART_USAGE = 14"



definition cred_etype_of_key :: "kt_key \<Rightarrow> krb_cred_error + kerberos_etype" where
  "cred_etype_of_key key = ok_or (ket_from_etype_id (kt_etype key)) (CredUnsupportedEtype (kt_etype key))"





definition cred_step :: "asn1 \<Rightarrow> cc_credential \<Rightarrow> krb_cred_error + (ticket \<times> krb_cred_info)" where
  "cred_step A c =
     (if cc_auth_data c \<noteq> [] then Inl CredUnsupportedCredentialAuthData
      else if cc_second_ticket c \<noteq> [] then Inl CredUnsupportedSecondTicket
      else rbind (map_err cred_ticket_error (decode_ticket A (cc_ticket c))) (\<lambda>t.
        rbind (ccache_credential_to_krb_cred_info A c) (\<lambda>info. Inr (t, info))))"

definition ccache_credentials_to_krb_cred_parts ::
  "asn1 \<Rightarrow> cc_credential list \<Rightarrow> krb_cred_error + (ticket list \<times> enc_krb_cred_part)" where
  "ccache_credentials_to_krb_cred_parts A cs =
     rbind (rmap (cred_step A) cs) (\<lambda>steps.
       Inr (map fst steps, \<lparr>kcp_ticket_info = map snd steps, kcp_nonce = None, kcp_timestamp = None, kcp_usec = None,
              kcp_sender_address = None, kcp_recipient_address = None\<rparr>))"

definition encrypt_ccache_credentials_to_krb_cred_with_confounder ::
  "kdc_asn1 \<Rightarrow> crypto_prims \<Rightarrow> cc_credential list \<Rightarrow> kt_key \<Rightarrow> bytes \<Rightarrow> krb_cred_error + krb_cred" where
  "encrypt_ccache_credentials_to_krb_cred_with_confounder K P cs key confounder =
     rbind (ccache_credentials_to_krb_cred_parts (k_base K) cs) (\<lambda>(tickets, part).
     rbind (ok_or (c_enc (k_enc_krb_cred_part K) part) (CredEncode ''EncKrbCredPart'')) (\<lambda>plaintext.
     rbind (cred_etype_of_key key) (\<lambda>etype.
     rbind (map_err CredCrypto (ket_encrypt_message_with_confounder P etype (kt_value key) plaintext KRB_CRED_ENCPART_USAGE confounder)) (\<lambda>cipher.
       Inr \<lparr>kc_pvno = KRB5_PVNO, kc_msg_type = KRB_CRED_MSG_TYPE, kc_tickets = tickets,
            kc_enc_part = \<lparr>ed_etype = kt_etype key, ed_kvno = None, ed_cipher = cipher\<rparr>\<rparr>))))"

definition encrypt_ccache_credentials_to_krb_cred ::
  "kdc_asn1 \<Rightarrow> crypto_prims \<Rightarrow> (nat \<Rightarrow> bytes option) \<Rightarrow> cc_credential list \<Rightarrow> kt_key \<Rightarrow> krb_cred_error + krb_cred" where
  "encrypt_ccache_credentials_to_krb_cred K P fill cs key =
     rbind (cred_etype_of_key key) (\<lambda>etype.
     rbind (ok_or (fill (ket_confounder_len etype)) CredRandom) (\<lambda>confounder.
       encrypt_ccache_credentials_to_krb_cred_with_confounder K P cs key confounder))"

definition encode_krb_cred :: "kdc_asn1 \<Rightarrow> krb_cred \<Rightarrow> krb_cred_error + bytes" where
  "encode_krb_cred K m = ok_or (c_enc (k_krb_cred K) m) (CredEncode ''KRB-CRED'')"

definition encode_encrypt_ccache_credentials_to_krb_cred ::
  "kdc_asn1 \<Rightarrow> crypto_prims \<Rightarrow> (nat \<Rightarrow> bytes option) \<Rightarrow> cc_credential list \<Rightarrow> kt_key \<Rightarrow> krb_cred_error + bytes" where
  "encode_encrypt_ccache_credentials_to_krb_cred K P fill cs key =
     rbind (encrypt_ccache_credentials_to_krb_cred K P fill cs key) (encode_krb_cred K)"


section \<open>Forwarded credentials arrive\<close>







lemma host_addresses_back [simp]: "host_address_to_ccache (host_address_from_ccache a) = a"
  by (simp add: host_address_from_ccache_def host_address_to_ccache_def)





end
