(* ===== verification/Kdc_Demo.thy ===== *)
theory Kdc_Demo
  imports Client_Exchange_Props Krb_Cred
begin

text \<open>
  Concrete runs of the exchanges with a KDC: a codec with a few messages, the clock at second 1000, random
  bytes that are zero, and a KDC that first asks for pre-authentication.  They show that the
  hypotheses of the theorems on KRB-PRIV, KRB-SAFE, KRB-CRED, the login, the TGS request and referrals can hold together.
\<close>

section \<open>Codecs\<close>

definition no_codec :: "'a codec" where
  "no_codec = \<lparr>c_dec = \<lambda>_. None, c_enc = \<lambda>_. None\<rparr>"

text \<open>The values \<open>x\<close> and \<open>y\<close> with the encodings \<open>[tag, 0]\<close> and \<open>[tag, 1, 0]\<close>.\<close>

definition two_codec :: "u8 \<Rightarrow> 'a \<Rightarrow> 'a \<Rightarrow> 'a codec" where
  "two_codec tag x y = \<lparr>c_dec = \<lambda>bs. if bs = [tag, 0] then Some x else if bs = [tag, 1, 0] then Some y else None,
     c_enc = \<lambda>v. if v = x then Some [tag, 0] else if v = y then Some [tag, 1, 0] else None\<rparr>"

abbreviation one_codec :: "u8 \<Rightarrow> 'a \<Rightarrow> 'a codec" where
  "one_codec tag x \<equiv> two_codec tag x x"

unbundle bit_operations_syntax

lemma no_codec_ok [simp]: "codec_ok good no_codec"
  by (simp add: codec_ok_def no_codec_def)

lemma two_codec_ok:
  assumes "tag AND 0x1f \<noteq> 0x1f"
  shows "codec_ok good (two_codec tag x y)"
  using assms by (auto simp: codec_ok_def two_codec_def top_level_der_end_def der_length_at_def byte_at_def usize_checked_add_def split: if_splits)

lemma two_codec_simps [simp]:
  "c_enc (two_codec tag x y) x = Some [tag, 0]" "c_enc (two_codec tag x y) y = (if y = x then Some [tag, 0] else Some [tag, 1, 0])"
  "c_dec (two_codec tag x y) [tag, 0] = Some x" "c_dec (two_codec tag x y) [tag, 1, 0] = Some y"
  by (simp_all add: two_codec_def)

lemma two_codec_tag: "t \<noteq> tag \<Longrightarrow> c_dec (two_codec tag x y) (t # bs) = None" "c_enc (two_codec tag x y) v = Some bs \<Longrightarrow> \<exists>r. bs = tag # r"
  by (auto simp: two_codec_def split: if_splits)

lemma two_codec_not_empty [simp]: "c_enc (two_codec tag x y) v \<noteq> Some []"
  by (simp add: two_codec_def)

section \<open>Messages\<close>

definition at_second :: "int \<Rightarrow> kerberos_time" where
  "at_second s = \<lparr>kt_seconds = s, kt_subsec_nanos = 0\<rparr>"

definition pw_key :: kt_key where
  "pw_key = \<lparr>kt_etype = 23, kt_value = Md4_digest sample_prims (concat (map (to_bytes_en Little) (encode_utf16 (str_bytes ''a''))))\<rparr>"

abbreviation session_key5 :: kt_key where
  "session_key5 \<equiv> \<lparr>kt_etype = 23, kt_value = replicate 16 5\<rparr>"

lemma pw_key_fits: "key_fits pw_key Rc4Hmac"
  using demo_key_fits [of 0] by (simp add: key_fits_def pw_key_def sample_prims_def)

lemma rc4_sealed:
  assumes "length k = 16"
  shows "rc4_encrypt_message_with_confounder sample_prims k m u (replicate 8 0) = Inr (demo_seal m)"
  using assms by (simp add: rc4_encrypt_message_with_confounder_def rc4_validate_key_def check_key_len_def rc4_hmac_crypt_def hmac_md5_def
      sample_prims_def demo_seal_def Let_def ket_size_defs fit_def comp_def)

lemma pw_sealed: "rc4_encrypt_message_with_confounder sample_prims (kt_value pw_key) m u (replicate 8 0) = Inr (demo_seal m)"
  by (rule rc4_sealed) (simp add: pw_key_def sample_prims_def)

abbreviation dm_client :: principal where
  "dm_client \<equiv> demo_client 0x52"

abbreviation dm_service :: principal where
  "dm_service \<equiv> demo_service 2"

definition kd_cname :: principal_name where
  "kd_cname = \<lparr>pn_type = 1, pn_string = [str_bytes ''a'']\<rparr>"

definition kd_sname :: principal_name where
  "kd_sname = \<lparr>pn_type = 2, pn_string = [str_bytes ''HTTP'']\<rparr>"

definition kd_body :: "u32 \<Rightarrow> kdc_req_body" where
  "kd_body nonce = \<lparr>rb_kdc_options = kdc_options_from_bits 0, rb_cname = Some kd_cname, rb_realm = str_bytes ''R'', rb_sname = Some kd_sname,
     rb_from = None, rb_till = at_second 87400, rb_rtime = None, rb_nonce = nonce, rb_etype = [23], rb_addresses = None,
     rb_enc_authorization_data = None, rb_additional_tickets = None\<rparr>"

definition kd_probe :: pa_data where
  "kd_probe = \<lparr>pa_type = PA_REQ_ENC_PA_REP, pa_value = []\<rparr>"

definition kd_stamp :: pa_data where
  "kd_stamp = \<lparr>pa_type = PA_ENC_TIMESTAMP, pa_value = [0x30, 0]\<rparr>"

definition kd_as_req1 :: kdc_req where
  "kd_as_req1 = kdc_build_as_req (kd_body 7) (Some [kd_probe])"

definition kd_as_req2 :: kdc_req where
  "kd_as_req2 = kdc_build_as_req (kd_body 7) (Some [kd_probe, kd_stamp])"

definition kd_part :: enc_kdc_rep_part where
  "kd_part = \<lparr>kx_key = \<lparr>rk_type = 23, rk_value = replicate 16 5\<rparr>, kx_last_req = [], kx_nonce = 7, kx_key_expiration = None, kx_flags = [],
     kx_auth_time = at_second 1000, kx_start_time = None, kx_end_time = at_second 9000, kx_renew_till = None,
     kx_srealm = str_bytes ''R'', kx_sname = kd_sname, kx_caddr = None, kx_encrypted_pa_data = None\<rparr>"

definition kd_as_rep :: kdc_rep where
  "kd_as_rep = \<lparr>kr_pvno = 5, kr_msg_type = 11, kr_padata = None, kr_crealm = str_bytes ''R'', kr_cname = kd_cname,
     kr_ticket = demo_ticket 2 [], kr_enc_part = \<lparr>ed_etype = 23, ed_kvno = None, ed_cipher = demo_seal [0x79, 0]\<rparr>\<rparr>"

definition kd_error :: krb_error where
  "kd_error = \<lparr>ke_pvno = 5, ke_msg_type = 30, ke_ctime = None, ke_cusec = None, ke_stime = at_second 1000, ke_susec = 0,
     ke_error_code = 25, ke_crealm = None, ke_cname = None, ke_realm = str_bytes ''R'', ke_sname = kd_sname,
     ke_e_text = None, ke_e_data = Some [0x33, 0]\<rparr>"

text \<open>The TGS request for the service \<open>HTTP\<close> with the session the login returned.\<close>

definition kd_auth :: authenticator where
  "kd_auth = \<lparr>au_vno = 5, au_crealm = str_bytes ''R'', au_cname = kd_cname,
     au_cksum = Some \<lparr>ck_type = ket_checksum_type_id Rc4Hmac, ck_checksum = kerb_checksum_hmac_md5 sample_prims (replicate 16 5) [0x34, 0] 6\<rparr>,
     au_cusec = 0, au_ctime = at_second 1000, au_subkey = None, au_seq_number = None, au_authorization_data = None\<rparr>"

definition kd_ap_req :: ap_req where
  "kd_ap_req = \<lparr>ar_pvno = 5, ar_msg_type = 14, ar_ap_options = ap_options_from_bits 0, ar_ticket = demo_ticket 2 [],
     ar_authenticator = \<lparr>ed_etype = 23, ed_kvno = Some 1, ed_cipher = demo_seal [0x62, 0]\<rparr>\<rparr>"

definition kd_tgs_req :: kdc_req where
  "kd_tgs_req = kdc_build_tgs_req (kd_body 9) (Some [\<lparr>pa_type = PA_TGS_REQ, pa_value = [0x6e, 0]\<rparr>])"

definition kd_tgs_rep :: kdc_rep where
  "kd_tgs_rep = \<lparr>kr_pvno = 5, kr_msg_type = 13, kr_padata = None, kr_crealm = str_bytes ''R'', kr_cname = kd_cname,
     kr_ticket = demo_ticket 2 [], kr_enc_part = \<lparr>ed_etype = 23, ed_kvno = None, ed_cipher = demo_seal [0x7a, 0]\<rparr>\<rparr>"

definition kd_base :: asn1 where
  "kd_base = demo_asn1\<lparr>enc_ticket := \<lambda>t. if t = demo_ticket 2 [] then Some [0x61, 0] else None,
     dec_ticket := \<lambda>bs. if bs = [0x61, 0] then Some (demo_ticket 2 []) else None,
     enc_authenticator := c_enc (one_codec 0x62 kd_auth), dec_authenticator := c_dec (one_codec 0x62 kd_auth),
     enc_ap_req := c_enc (one_codec 0x6e kd_ap_req), dec_ap_req := c_dec (one_codec 0x6e kd_ap_req)\<rparr>"

definition kd_priv_options :: enc_krb_priv_part_options where
  "kd_priv_options = priv_with_sequence_number (priv_with_timestamp (priv_options_new (ipv4_host_address [127, 0, 0, 1])) (at_second 1000) 5) 3"

definition kd_safe_body :: krb_safe_body where
  "kd_safe_body = \<lparr>ksb_user_data = [1, 2], ksb_timestamp = None, ksb_usec = None, ksb_seq_number = Some 3,
     ksb_sender_address = ipv4_host_address [127, 0, 0, 1], ksb_recipient_address = None\<rparr>"


definition kd_cred_info :: krb_cred_info where
  "kd_cred_info = \<lparr>kci_key = \<lparr>rk_type = 23, rk_value = replicate 16 5\<rparr>, kci_prealm = Some (str_bytes ''R''), kci_pname = Some kd_cname,
     kci_flags = Some (from_slice [0x40, 0, 0, 0]), kci_auth_time = Some (at_second 1000), kci_start_time = Some (at_second 1000),
     kci_end_time = Some (at_second 9000), kci_renew_till = Some (at_second 0), kci_srealm = Some (str_bytes ''R''), kci_sname = Some kd_sname,
     kci_caddr = Some [\<lparr>ra_addr_type = 2, ra_address = [127, 0, 0, 1]\<rparr>]\<rparr>"

definition kd_cred_part :: enc_krb_cred_part where
  "kd_cred_part = \<lparr>kcp_ticket_info = [kd_cred_info], kcp_nonce = None, kcp_timestamp = None, kcp_usec = None,
     kcp_sender_address = None, kcp_recipient_address = None\<rparr>"

definition kd_cred :: krb_cred where
  "kd_cred = \<lparr>kc_pvno = 5, kc_msg_type = 22, kc_tickets = [demo_ticket 2 []],
     kc_enc_part = \<lparr>ed_etype = 23, ed_kvno = None, ed_cipher = demo_seal [0x7d, 0]\<rparr>\<rparr>"

definition kd :: kdc_asn1 where
  "kd = \<lparr>k_base = kd_base, k_krb_priv = no_codec,
     k_enc_krb_priv_part = one_codec 0x7c (build_enc_krb_priv_part [1, 2, 3] kd_priv_options),
     k_krb_safe = no_codec, k_krb_safe_body = one_codec 0x30 kd_safe_body,
     k_krb_cred = one_codec 0x76 kd_cred, k_enc_krb_cred_part = one_codec 0x7d kd_cred_part,
     k_kdc_req_body = one_codec 0x34 (kd_body 9), k_as_req = two_codec 0x6a kd_as_req1 kd_as_req2,
     k_tgs_req = one_codec 0x6c kd_tgs_req, k_as_rep = one_codec 0x6b kd_as_rep, k_tgs_rep = one_codec 0x6d kd_tgs_rep,
     k_enc_as_rep_part = one_codec 0x79 kd_part, k_enc_tgs_rep_part = one_codec 0x7a (kd_part\<lparr>kx_nonce := 9\<rparr>),
     k_krb_error = one_codec 0x7e kd_error, k_method_data = one_codec 0x33 [\<lparr>pa_type = PA_ETYPE_INFO2, pa_value = [0x32, 0]\<rparr>],
     k_etype_info2 = one_codec 0x32 [\<lparr>ei2_etype = 23, ei2_salt = None, ei2_s2kparams = None\<rparr>], k_etype_info = no_codec,
     k_pa_enc_ts_enc = one_codec 0x31 \<lparr>pet_patimestamp = at_second 1000, pet_pausec = Some 0\<rparr>,
     k_encrypted_data = one_codec 0x30 \<lparr>ed_etype = 23, ed_kvno = None, ed_cipher = demo_seal [0x31, 0]\<rparr>,
     k_pa_for_user = no_codec, k_pa_pac_options = no_codec, k_pa_req_enc_pa_rep = no_codec, k_change_passwd_data = no_codec\<rparr>"

lemma kd_base_ok: "asn1_ok kd_base"
proof -
  have "top_level_der_end [0x63, 0] = Some 2" by (simp add: top_level_der_end_def der_length_at_def byte_at_def usize_checked_add_def)
  moreover have "codec_ok good (one_codec 0x62 kd_auth)" "codec_ok good' (one_codec 0x6e kd_ap_req)" for good good' by (simp_all add: two_codec_ok)
  ultimately show ?thesis
    using demo_asn1_ok codec_okD [of "\<lambda>_. True" "one_codec 0x62 kd_auth"] codec_okD(1) [of "\<lambda>_. True" "one_codec 0x6e kd_ap_req"] two_codec_tag(2)
    unfolding asn1_ok_def kd_base_def by (auto split: if_splits)
qed

lemma other_tag: "t \<noteq> t' \<Longrightarrow> c_enc (two_codec t x y) v = Some bs \<Longrightarrow> c_dec (two_codec t' x' y') bs = None"
  by (auto dest!: two_codec_tag(2) simp: two_codec_tag(1))

lemma kd_ok: "kdc_asn1_ok kd"
  unfolding kdc_asn1_ok_def kd_def kdc_asn1.simps
  by (intro conjI) (auto simp: two_codec_ok kd_base_ok intro: other_tag [rotated])

section \<open>KRB-PRIV, KRB-SAFE and KRB-CRED\<close>

theorem krb_priv_delivers_witness:
  "\<exists>m. build_krb_priv_with_confounder kd sample_prims [1, 2, 3] kd_priv_options session_key5 None (replicate 8 0) = Inr m
    \<and> decrypt_krb_priv_enc_part kd sample_prims m session_key5 = Inr (build_enc_krb_priv_part [1, 2, 3] kd_priv_options)"
proof -
  have "whole (po_timestamp kd_priv_options)"
    by (simp add: kd_priv_options_def priv_with_sequence_number_def priv_with_timestamp_def whole_def whole_seconds_def at_second_def)
  moreover have "c_enc (k_enc_krb_priv_part kd) (build_enc_krb_priv_part [1, 2, 3] kd_priv_options) = Some [0x7c, 0]" by (simp add: kd_def)
  ultimately show ?thesis
    using krb_priv_delivers [OF sample_prims_ok kd_ok demo_key_fits [of 5], of "replicate 8 0" kd_priv_options "[1, 2, 3]" _ None]
    by (auto simp: ket_size_defs)
qed

theorem krb_safe_verifies_iff_witness:
  "\<exists>m. build_krb_safe kd sample_prims kd_safe_body session_key5 = Inr m \<and> verify_krb_safe_checksum kd sample_prims m session_key5 = Inr ()
    \<and> verify_krb_safe_checksum kd sample_prims (m\<lparr>ks_cksum := (ks_cksum m)\<lparr>ck_checksum := []\<rparr>\<rparr>) session_key5 \<noteq> Inr ()"
proof -
  obtain c where c: "ket_checksum sample_prims Rc4Hmac (replicate 16 5) [0x30, 0] KRB_SAFE_CHECKSUM_USAGE = Inr c" "length c = 16"
    using ket_checksum_ok [OF sample_prims_ok, of "replicate 16 5" Rc4Hmac "[0x30, 0]" KRB_SAFE_CHECKSUM_USAGE] by (auto simp: ket_size_defs rc4_hmac_len_def)
  have k: "ket_from_etype_id 23 = Some Rc4Hmac" using demo_key_fits [of 5] by (simp add: key_fits_def)
  have cs: "krb_safe_checksum kd sample_prims kd_safe_body session_key5 = Inr \<lparr>ck_type = ket_checksum_type_id Rc4Hmac, ck_checksum = c\<rparr>"
    using c(1) by (simp add: krb_safe_checksum_def kd_def k)
  then obtain m where m: "build_krb_safe kd sample_prims kd_safe_body session_key5 = Inr m" "ks_body m = kd_safe_body"
    by (auto simp: build_krb_safe_def)
  note w = krb_safe_verifies_iff [OF sample_prims_ok demo_key_fits [of 5], of kd "m\<lparr>ks_cksum := (ks_cksum m)\<lparr>ck_checksum := []\<rparr>\<rparr>"]
  have "c \<noteq> []" using c(2) by auto
  then have "\<lparr>ck_type = ket_checksum_type_id Rc4Hmac, ck_checksum = c\<rparr> \<noteq> (ks_cksum m)\<lparr>ck_checksum := []\<rparr>" by (cases "ks_cksum m") simp
  then show ?thesis using w m cs by auto
qed

lemma str_ok: "utf8_valid (str_bytes ''a'')" "utf8_valid (str_bytes ''R'')" "utf8_valid (str_bytes ''HTTP'')"
  by (simp_all add: str_bytes_def byte_of_char_def in_range_def)


section \<open>A login\<close>

definition kd_options :: as_req_options where
  "kd_options = (as_req_options_new (1000 * NANOS) 7)\<lparr>aq_etypes := [23]\<rparr>"

definition kd_env :: "unit kdc_env" where
  "kd_env = \<lparr>env_now = \<lambda>w. (1000 * NANOS, w), env_fill = \<lambda>n w. (Some (replicate n 0), w),
     env_send = \<lambda>realm der w. (Inr (if der = [0x6a, 0] then [0x7e, 0] else if der = [0x6c, 0] then [0x6d, 0] else [0x6b, 0]), w)\<rparr>"

lemma kd_etype: "ket_from_etype_id 23 = Some Rc4Hmac"
  using demo_key_fits [of 5] by (simp add: key_fits_def)

lemma kd_names:
  "principal_to_rasn kd_base dm_client = Inr kd_cname" "kerberos_string kd_base (p_realm dm_client) = Inr (str_bytes ''R'')"
  "principal_to_rasn kd_base dm_service = Inr kd_sname" "kerberos_string kd_base ''R'' = Inr (str_bytes ''R'')"
  "principal_from_parts (str_bytes ''R'') kd_cname = Inr dm_client" "principal_from_parts (str_bytes ''R'') kd_sname = Inr dm_service"
  using str_ok demo_realms
  by (simp_all add: principal_to_rasn_def kerberos_string_def demo_client_def demo_service_def kd_cname_def kd_sname_def kd_base_def demo_asn1_def
      principal_from_parts_def kerberos_string_to_string_def del: utf8_valid.simps)

lemma kd_times:
  "client_kerberos_time kd_base (1000 * NANOS) = Inr (at_second 1000)" "client_kerberos_time kd_base (87400 * NANOS) = Inr (at_second 87400)"
  "request_times (1000 * NANOS) DEFAULT_TICKET_LIFETIME None = Inr (87400 * NANOS, None)"
  by (simp_all add: client_kerberos_time_def unix_timestamp_parts_def duration_since_def NANOS_def kd_base_def demo_asn1_def at_second_def
      request_times_def st_checked_add_def system_time_in_range_def DEFAULT_TICKET_LIFETIME_def from_secs_def)

lemma kd_second: "system_time_from_kerberos_time (at_second 1000) = Inr (1000 * NANOS)" "system_time_from_kerberos_time (at_second 9000) = Inr (9000 * NANOS)"
  by (simp_all add: at_second_def system_time_from_kerberos_time_whole system_time_in_range_def NANOS_def)

lemma kd_reqs_differ: "kd_as_req1 \<noteq> kd_as_req2" "kd_as_req2 \<noteq> kd_as_req1"
  by (simp_all add: kd_as_req1_def kd_as_req2_def kdc_build_as_req_def)

lemma kd_first_request:
  "build_as_req kd dm_client dm_service (initial_preauth_probe_options kd_options)
     = Inr \<lparr>bq_message = kd_as_req1, bq_der = [0x6a, 0], bq_client = dm_client, bq_service = dm_service, bq_nonce = 7\<rparr>"
proof -
  have "initial_preauth_probe_options kd_options = kd_options\<lparr>aq_padata := [kd_probe]\<rparr>"
    by (simp add: initial_preauth_probe_options_def kd_options_def as_req_options_new_def kd_probe_def)
  moreover have "encode_as_req kd kd_as_req1 = Inr [0x6a, 0]" by (simp add: encode_as_req_def kd_def)
  ultimately show ?thesis
    using kd_names kd_times
    by (simp add: build_as_req_def kd_options_def as_req_options_new_def request_kdc_option_bits_def kd_as_req1_def kd_body_def Let_def)
      (simp add: kd_def)
qed

definition kd_request2 :: built_as_req where
  "kd_request2 = \<lparr>bq_message = kd_as_req2, bq_der = [0x6a, 1, 0], bq_client = dm_client, bq_service = dm_service, bq_nonce = 7\<rparr>"

lemma kd_second_request:
  "build_preauthenticated_as_req kd_env kd sample_prims dm_client dm_service (initial_preauth_probe_options kd_options) pw_key None ()
     = (Inr kd_request2, ())"
proof -
  have base: "k_base kd = kd_base" by (simp add: kd_def)
  have time: "current_preauth_time kd_env () = (Inr (1000 * NANOS, 0), ())"
    by (simp add: current_preauth_time_def kd_env_def duration_since_def NANOS_def from_secs_def)
  have conf: "io_confounder kd_env pw_key () = (Inr (replicate 8 0), ())"
    by (simp add: io_confounder_def x_etype_of_key_def pw_key_def kd_etype kd_env_def ket_size_defs)
  have stamp: "pa_enc_timestamp_with_confounder kd sample_prims pw_key (1000 * NANOS) 0 (replicate 8 0) None = Inr kd_stamp"
    using kd_times(1) pw_sealed
    by (simp add: pa_enc_timestamp_with_confounder_def base x_etype_of_key_def kd_stamp_def) (simp add: pw_key_def kd_etype kd_def)
  have "initial_preauth_probe_options kd_options = kd_options\<lparr>aq_padata := [kd_probe]\<rparr>"
    by (simp add: initial_preauth_probe_options_def kd_options_def as_req_options_new_def kd_probe_def)
  moreover have "pa_type kd_probe \<noteq> PA_ENC_TIMESTAMP" by (simp add: kd_probe_def PA_REQ_ENC_PA_REP_def PA_ENC_TIMESTAMP_def)
  moreover have "build_as_req kd dm_client dm_service (kd_options\<lparr>aq_padata := [kd_probe, kd_stamp]\<rparr>) = Inr kd_request2"
  proof -
    have "encode_as_req kd kd_as_req2 = Inr [0x6a, 1, 0]" by (simp add: encode_as_req_def kd_def kd_reqs_differ)
    then show ?thesis
      using kd_names kd_times
      by (simp add: build_as_req_def base kd_options_def as_req_options_new_def request_kdc_option_bits_def kd_as_req2_def kd_body_def Let_def
          kd_request2_def)
  qed
  ultimately show ?thesis
    using time conf stamp by (simp add: build_preauthenticated_as_req_def pa_enc_timestamp_def io_of_def)
qed

definition kd_kdc_error :: kdc_error where
  "kd_kdc_error = \<lparr>kd_ctime = None, kd_cusec = None, kd_stime = 1000 * NANOS, kd_susec = 0, kd_error_code = 25, kd_text = None,
     kd_client = None, kd_service = dm_service, kd_e_data = Some [0x33, 0],
     kd_method_data = [\<lparr>pa_type = PA_ETYPE_INFO2, pa_value = [0x32, 0]\<rparr>],
     kd_preauth_key_info = [\<lparr>pk_etype = 23, pk_salt = None, pk_s2kparams = None\<rparr>]\<rparr>"

lemma kd_preauth_error: "process_kdc_error kd [0x7e, 0] = Inr kd_kdc_error"
proof -
  have info: "krb_error_info kd_error = Inr \<lparr>kei_ctime = None, kei_cusec = None, kei_stime = 1000 * NANOS, kei_susec = 0,
      kei_error_code = 25, kei_client = None, kei_service = dm_service, kei_e_text = None, kei_e_data = Some [0x33, 0]\<rparr>"
    using kd_names(6) kd_second(1)
    by (simp add: krb_error_info_def kd_error_def km_validate_integer_def KRB5_PVNO_def KRB_ERROR_MSG_TYPE_def km_system_time_def
        km_integer_to_u32_def int_parse_u32_def km_principal_def)
  have "c_dec (k_krb_error kd) [0x7e, 0] = Some kd_error" "c_dec (k_method_data kd) [0x33, 0] = Some [\<lparr>pa_type = PA_ETYPE_INFO2, pa_value = [0x32, 0]\<rparr>]"
    "c_dec (k_etype_info2 kd) [0x32, 0] = Some [\<lparr>ei2_etype = 23, ei2_salt = None, ei2_s2kparams = None\<rparr>]" by (simp_all add: kd_def)
  then show ?thesis
    using info by (simp add: process_kdc_error_def decode_krb_error_def validate_krb_error_def preauth_method_data_def decode_method_data_def
        KDC_ERR_PREAUTH_REQUIRED_def preauth_key_info_from_method_data_def PA_ETYPE_INFO2_def PA_ETYPE_INFO_def kd_kdc_error_def)
qed

lemma kd_reply: "consistent_reply kd (k_as_rep kd) 11 dm_client dm_service kd_part \<lparr>ed_etype = 23, ed_kvno = None, ed_cipher = demo_seal [0x79, 0]\<rparr> [0x6b, 0]"
proof -
  have "part_representable kd_part"
    using kd_second by (auto simp: part_representable_def kd_part_def representable_def whole_seconds_def) (simp_all add: at_second_def)
  moreover have "c_enc (k_as_rep kd) kd_as_rep = Some [0x6b, 0]" "enc_ticket (k_base kd) (demo_ticket 2 []) = Some [0x61, 0]"
    by (simp_all add: kd_def kd_base_def)
  moreover have "demo_ticket 2 [] = \<lparr>tkt_vno = 5, tkt_realm = str_bytes ''R'', tkt_sname = kd_sname,
      tkt_enc_part = \<lparr>ed_etype = 23, ed_kvno = Some 1, ed_cipher = []\<rparr>\<rparr>" by (simp add: demo_ticket_def kd_sname_def)
  ultimately show ?thesis
    unfolding consistent_reply_def using kd_names(5,6)
    by (intro exI [of _ kd_as_rep] exI [of _ "[0x61, 0]"]) (simp add: kd_as_rep_def kd_part_def)
qed

lemma kd_sealed_part:
  "encrypt_as_rep_enc_part_with_confounder kd sample_prims kd_part pw_key None (replicate 8 0) = Inr \<lparr>ed_etype = 23, ed_kvno = None, ed_cipher = demo_seal [0x79, 0]\<rparr>"
  using pw_sealed by (simp add: encrypt_as_rep_enc_part_with_confounder_def encode_enc_as_rep_part_def encrypt_kdc_rep_enc_part_def kdc_etype_of_key_def kd_def)
    (simp add: pw_key_def kd_etype)

lemma be_nat_zeros: "be_nat (map (\<lambda>_. 0) xs) = 0"
  by (induction xs) simp_all

lemma kd_unanswered: "negotiation_answered kd sample_prims req kd_part key"
  by (simp add: be_nat_zeros negotiation_answered_def kd_part_def ticket_flags_contain_bits_def ticket_flags_to_bytes_def raw_slice.simps
      TICKET_FLAG_ENC_PA_REP_def from_bytes_en_def)

lemma kd_no_fast: "validate_as_rep_encrypted_padata kd sample_prims req kd_part key = Inr ()"
  by (rule negotiation_validated [OF kd_ok kd_unanswered])

theorem as_rep_authentic_witness:
  "\<exists>s. process_as_rep kd sample_prims kd_request2 [0x6b, 0] pw_key = Inr s \<and> principal_matches (rs_client s) dm_client
    \<and> principal_matches (rs_service s) dm_service"
proof -
  obtain s where "process_as_rep kd sample_prims kd_request2 [0x6b, 0] pw_key = Inr s"
    using process_as_rep_complete [OF sample_prims_ok kd_ok pw_key_fits _ kd_sealed_part kd_reply, of kd_request2] kd_no_fast
    by (auto simp: kd_request2_def kd_part_def ket_size_defs)
  then show ?thesis using as_rep_authentic [OF sample_prims_ok pw_key_fits] by (fastforce simp: kd_request2_def)
qed

theorem password_login_completes_witness:
  "\<exists>s. login_as_service_with_password kd_env kd sample_prims dm_client dm_service (str_bytes ''a'') kd_options () = (Inr s, ())
    \<and> rs_client s = dm_client \<and> rs_session_key s = session_key5 \<and> rs_ticket s = [0x61, 0]"
proof -
  have fills: "fills_exactly kd_env" by (auto simp: fills_exactly_def kd_env_def)
  have send: "env_send kd_env (p_realm dm_client) [0x6a, 0] () = (Inr [0x7e, 0], ())" "env_send kd_env (p_realm dm_client) [0x6a, 1, 0] () = (Inr [0x6b, 0], ())"
    by (simp_all add: kd_env_def)
  have "derive_password_reply_key sample_prims dm_client (str_bytes ''a'') \<lparr>pk_etype = 23, pk_salt = None, pk_s2kparams = None\<rparr> = Inr pw_key"
    using str_ok(1) by (simp add: derive_password_reply_key_def kd_etype rc4_string_to_key_def pw_key_def Let_def del: utf8_valid.simps)
  moreover have "select_preauth_key_info kd_kdc_error (aq_etypes kd_options) = Inr \<lparr>pk_etype = 23, pk_salt = None, pk_s2kparams = None\<rparr>"
    by (simp add: select_preauth_key_info_def kd_kdc_error_def kd_options_def as_req_options_new_def supported_etype_def kd_etype)
  moreover have "c_dec (k_as_rep kd) [0x7e, 0] = None" by (simp add: kd_def two_codec_def)
  moreover have "\<not> aq_assume_preauthentication kd_options" "kx_nonce kd_part = aq_nonce kd_options" "kd_error_code kd_kdc_error = KDC_ERR_PREAUTH_REQUIRED"
    "ket_from_etype_id (kt_etype pw_key) = Some Rc4Hmac" "length (replicate 8 0 :: bytes) = ket_confounder_len Rc4Hmac"
    by (simp_all add: kd_options_def as_req_options_new_def kd_part_def kd_kdc_error_def KDC_ERR_PREAUTH_REQUIRED_def pw_key_def kd_etype ket_size_defs)
  ultimately obtain s rep where s: "login_as_service_with_password kd_env kd sample_prims dm_client dm_service (str_bytes ''a'') kd_options () = (Inr s, ())"
      "rs_client s = dm_client" "decode_as_rep kd [0x6b, 0] = Inr rep" "session_of_part kd (kr_ticket rep) kd_part s"
    using password_login_completes [OF sample_prims_ok kd_ok fills _ kd_first_request _ kd_preauth_error _ _ _ _ kd_second_request _ _ _
        kd_sealed_part kd_reply _ kd_unanswered] send by (fastforce simp: kd_request2_def)
  have "kr_ticket rep = demo_ticket 2 []" using s(3) by (auto simp: decode_as_rep_def rbind_eq_Inr kd_def kd_as_rep_def)
  then have "rs_ticket s = [0x61, 0]" using s(4) by (simp add: session_of_part_def kd_def kd_base_def)
  moreover have "rs_session_key s = session_key5" using s(4) by (simp add: session_of_part_def kd_part_def encryption_key_from_rasn_def)
  ultimately show ?thesis using s by blast
qed

section \<open>A service ticket\<close>

definition kd_tgt :: rep_session where
  "kd_tgt = \<lparr>rs_client = dm_client, rs_service = tgt_service ''R'', rs_session_key = session_key5, rs_ticket = [0x61, 0],
     rs_ticket_flags = [0, 0, 0, 0], rs_auth_time = 1000 * NANOS, rs_start_time = 1000 * NANOS, rs_end_time = 9000 * NANOS,
     rs_renew_till = None, rs_key_expiration = None\<rparr>"

definition kd_tgs_options :: tgs_req_options where
  "kd_tgs_options = (tgs_req_options_new (1000 * NANOS) 9)\<lparr>tq_etypes := [23]\<rparr>"

definition kd_tgs_request :: built_tgs_req where
  "kd_tgs_request = \<lparr>bt_message = kd_tgs_req, bt_der = [0x6c, 0], bt_client = dm_client, bt_service = dm_service, bt_kdc_realm = ''R'', bt_nonce = 9\<rparr>"

lemma kd_tgs_built:
  "build_tgs_req_for_realm_with_confounder kd sample_prims kd_tgt ''R'' dm_service kd_tgs_options (1000 * NANOS) 0 (replicate 8 0) = Inr kd_tgs_request"
proof -
  have base: "k_base kd = kd_base" by (simp add: kd_def)
  have tkt: "decode_ticket kd_base [0x61, 0] = Inr (demo_ticket 2 [])" "tkt_realm (demo_ticket 2 []) = str_bytes ''R''"
    "ed_kvno (tkt_enc_part (demo_ticket 2 [])) = Some 1"
    by (simp_all add: decode_ticket_def kd_base_def demo_ticket_def validate_ticket_def validate_integer_def KRB5_TKT_VNO_def)
  have enc: "encode_kdc_req_body kd (kd_body 9) = Inr [0x34, 0]" "encode_tgs_req kd kd_tgs_req = Inr [0x6c, 0]"
    by (simp_all add: encode_kdc_req_body_def encode_tgs_req_def kd_def)
  have ck: "ket_checksum sample_prims Rc4Hmac (replicate 16 5) bs u = Inr (kerb_checksum_hmac_md5 sample_prims (replicate 16 5) bs u)" for bs u
    by (simp add: rc4_checksum_def rc4_validate_key_def check_key_len_if ket_size_defs)
  have ap: "build_ap_req_with_confounder kd_base sample_prims (demo_ticket 2 []) (ap_options_from_bits 0) kd_auth session_key5 7 (Some 1) (replicate 8 0) = Inr kd_ap_req"
    by (simp add: build_ap_req_with_confounder_def encode_authenticator_def demo_etype kd_ap_req_def KRB5_PVNO_def KRB_AP_REQ_MSG_TYPE_def)
      (simp add: kd_base_def)
  have apb: "encode_ap_req kd_base kd_ap_req = Inr [0x6e, 0]" by (simp add: encode_ap_req_def kd_base_def)
  show ?thesis
    using kd_names kd_times tkt enc ck ap apb kd_etype
    by (simp add: build_tgs_req_for_realm_with_confounder_def base kd_tgt_def kd_tgs_options_def tgs_req_options_new_def Let_def x_etype_of_key_def
        request_kdc_option_bits_def kd_body_def kd_auth_def KRB5_PVNO_def kd_tgs_req_def kd_tgs_request_def TGS_REQ_AUTHENTICATOR_CHECKSUM_USAGE_def
        TGS_REQ_AUTHENTICATOR_USAGE_def del: ket_checksum.simps)
qed

theorem tgs_req_authenticates_witness:
  "build_tgs_req_for_realm_with_confounder kd sample_prims kd_tgt ''R'' dm_service kd_tgs_options (1000 * NANOS) 0 (replicate 8 0) = Inr kd_tgs_request
   \<and> (\<exists>m auth. decrypt_ap_req_authenticator kd_base sample_prims m session_key5 7 = Inr auth \<and> au_crealm auth = str_bytes ''R'')"
proof -
  have k: "key_fits (rs_session_key kd_tgt) Rc4Hmac" "length (replicate 8 0 :: bytes) = ket_confounder_len Rc4Hmac" "k_base kd = kd_base"
    "rs_session_key kd_tgt = session_key5" "rs_ticket kd_tgt = [0x61, 0]"
    using demo_key_fits [of 5] by (simp_all add: kd_tgt_def ket_size_defs kd_def)
  have "decode_ticket kd_base [0x61, 0] = Inr (demo_ticket 2 [])" "tkt_realm (demo_ticket 2 []) = str_bytes ''R''"
    by (simp_all add: decode_ticket_def kd_base_def demo_ticket_def validate_ticket_def validate_integer_def KRB5_TKT_VNO_def)
  then show ?thesis
    using tgs_req_authenticates [OF sample_prims_ok kd_ok k(1,2) kd_tgs_built] kd_tgs_built unfolding k(3-5) by auto
qed

lemma kd_tgs_reply:
  "consistent_reply kd (k_tgs_rep kd) 13 dm_client dm_service (kd_part\<lparr>kx_nonce := 9\<rparr>) \<lparr>ed_etype = 23, ed_kvno = None, ed_cipher = demo_seal [0x7a, 0]\<rparr> [0x6d, 0]"
proof -
  have "part_representable (kd_part\<lparr>kx_nonce := 9\<rparr>)"
    using kd_second by (auto simp: part_representable_def kd_part_def representable_def whole_seconds_def) (simp_all add: at_second_def)
  moreover have "c_enc (k_tgs_rep kd) kd_tgs_rep = Some [0x6d, 0]" "enc_ticket (k_base kd) (demo_ticket 2 []) = Some [0x61, 0]"
    by (simp_all add: kd_def kd_base_def)
  moreover have "demo_ticket 2 [] = \<lparr>tkt_vno = 5, tkt_realm = str_bytes ''R'', tkt_sname = kd_sname,
      tkt_enc_part = \<lparr>ed_etype = 23, ed_kvno = Some 1, ed_cipher = []\<rparr>\<rparr>" by (simp add: demo_ticket_def kd_sname_def)
  ultimately show ?thesis
    unfolding consistent_reply_def using kd_names(5,6)
    by (intro exI [of _ kd_tgs_rep] exI [of _ "[0x61, 0]"]) (simp add: kd_tgs_rep_def kd_part_def)
qed

definition kd_config :: config where
  "kd_config = config_new (\<lambda>_. None)"

theorem referrals_end_witness:
  "\<exists>s. get_service_ticket_with_referral_trace_limit kd_env kd sample_prims kd_config kd_tgt dm_service kd_tgs_options 5 () = (Inr (s, []), ())
    \<and> principal_matches (rs_service s) dm_service \<and> principal_matches (rs_client s) dm_client
    \<and> snd (snd (get_service_ticket_with_referral_trace_limit (counted kd_env) kd sample_prims kd_config kd_tgt dm_service kd_tgs_options 5 ((), 0))) \<le> 6"
proof -
  have realm: "tgt_realm kd_tgt = Some ''R''"
    by (simp add: tgt_realm_def kd_tgt_def is_tgt_principal_def tgt_service_def principal_new_def eq_ignore_ascii_case_def)
  have target: "referral_target kd_config ''R'' dm_service = dm_service" by (simp add: referral_target_def demo_service_def)
  have time: "current_preauth_time kd_env () = (Inr (1000 * NANOS, 0), ())"
    by (simp add: current_preauth_time_def kd_env_def duration_since_def NANOS_def from_secs_def)
  have conf: "io_confounder kd_env (rs_session_key kd_tgt) () = (Inr (replicate 8 0), ())"
    by (simp add: io_confounder_def x_etype_of_key_def kd_tgt_def kd_etype kd_env_def ket_size_defs)
  have b: "build_tgs_req_for_realm kd_env kd sample_prims kd_tgt ''R'' dm_service kd_tgs_options () = (Inr kd_tgs_request, ())"
    using kd_tgs_built time conf by (simp add: build_tgs_req_for_realm_def with_time_and_confounder_def io_of_def)
  have "encrypt_tgs_rep_enc_part_with_confounder kd sample_prims (kd_part\<lparr>kx_nonce := 9\<rparr>) session_key5 None (replicate 8 0)
      = Inr \<lparr>ed_etype = 23, ed_kvno = None, ed_cipher = demo_seal [0x7a, 0]\<rparr>"
    by (simp add: encrypt_tgs_rep_enc_part_with_confounder_def encode_enc_tgs_rep_part_def encrypt_kdc_rep_enc_part_def kdc_etype_of_key_def kd_etype kd_def)
  then obtain s where s: "process_tgs_rep_inner kd sample_prims kd_tgs_request [0x6d, 0] session_key5 True = Inr s" "rs_service s = dm_service"
    using process_tgs_rep_complete [OF sample_prims_ok kd_ok demo_key_fits [of 5] _ _ kd_tgs_reply, of "replicate 8 0" None kd_tgs_request True]
    by (auto simp: kd_tgs_request_def ket_size_defs)
  have "env_send kd_env (bt_kdc_realm kd_tgs_request) (bt_der kd_tgs_request) () = (Inr [0x6d, 0], ())" by (simp add: kd_env_def kd_tgs_request_def)
  moreover have "p_realm dm_service = ''R''" "rs_session_key kd_tgt = session_key5" by (simp_all add: demo_service_def kd_tgt_def)
  ultimately have "referral_loop kd_env kd sample_prims kd_tgs_options dm_service 5 (Suc 5) kd_tgt ''R'' [] () = (Inr (s, []), ())"
    using b s by (subst referral_loop.simps) (simp add: process_tgs_rep_with_referral_def io_of_def)
  then have r: "get_service_ticket_with_referral_trace_limit kd_env kd sample_prims kd_config kd_tgt dm_service kd_tgs_options 5 () = (Inr (s, []), ())"
    by (simp add: get_service_ticket_with_referral_trace_limit_def realm target)
  have "rs_client kd_tgt = dm_client" by (simp add: kd_tgt_def)
  then show ?thesis
    using referrals_end [OF realm, of kd_env kd sample_prims kd_config dm_service kd_tgs_options 5 "()"] r target by auto
qed

end
