(* ===== verification/Transport.thy ===== *)
theory Transport
  imports Client_Exchange "HOL-Library.Char_ord" "HOL-Library.List_Lexorder" "HOL-Library.Product_Lexorder"
begin

text \<open>
  \<open>src/client/transport.rs\<close>: endpoints of KDCs and password servers, their discovery from the configuration or DNS,
  the framing over UDP and TCP, the fallback from one endpoint or protocol to the next, and the exchanges of
  \<open>Client_Exchange\<close> over this transport.  Sockets, the resolver, environment variables, clock and random generator are the record
  \<open>net_env\<close>.
\<close>

section \<open>Data\<close>

definition DEFAULT_KDC_TIMEOUT :: duration where "DEFAULT_KDC_TIMEOUT = from_secs 5"
definition DEFAULT_TCP_RESPONSE_LIMIT :: nat where "DEFAULT_TCP_RESPONSE_LIMIT = 16 * 1024 * 1024"
definition MAX_UDP_DATAGRAM :: nat where "MAX_UDP_DATAGRAM = 65507"
definition KRB_ERR_RESPONSE_TOO_BIG :: i32 where "KRB_ERR_RESPONSE_TOO_BIG = 52"

datatype kdc_endpoint_source = SrcConfig | SrcDnsSrv

record kdc_endpoint =
  ep_protocol :: kdc_protocol
  ep_host :: string
  ep_port :: u16
  ep_source :: kdc_endpoint_source

record kdc_transport =
  kt_timeout :: duration
  kt_udp_response_limit :: nat
  kt_tcp_response_limit :: nat

definition kdc_transport_new :: kdc_transport where
  "kdc_transport_new = \<lparr>kt_timeout = DEFAULT_KDC_TIMEOUT, kt_udp_response_limit = MAX_UDP_DATAGRAM + 1,
     kt_tcp_response_limit = DEFAULT_TCP_RESPONSE_LIMIT\<rparr>"

record srv_record =
  srv_priority :: u16
  srv_weight :: u16
  srv_target :: string
  srv_port :: u16

text \<open>
  What the transport calls.  \<open>net_udp\<close> sends a datagram and gives the answer; \<open>net_tcp\<close> connects, writes the bytes and
  gives what the peer sends before the time is over, with whether it then closed the stream; both may fail,
  with a time-out (\<open>True\<close>) or otherwise.  \<open>net_srv\<close> and \<open>net_lookup_ip\<close> ask the resolver, which is the given
  server if there is one; \<open>net_srv\<close> fails with \<open>True\<close> when no resolver can be set up.
\<close>

type_synonym address = "string \<times> u16"

record 'w net_env =
  net_now :: "'w \<Rightarrow> system_time \<times> 'w"
  net_fill :: "nat \<Rightarrow> 'w \<Rightarrow> bytes option \<times> 'w"
  net_udp :: "address \<Rightarrow> bytes \<Rightarrow> duration \<Rightarrow> 'w \<Rightarrow> (bool + bytes) \<times> 'w"
  net_tcp :: "address \<Rightarrow> bytes \<Rightarrow> duration \<Rightarrow> 'w \<Rightarrow> (bool + bytes \<times> bool) \<times> 'w"
  net_var :: "string \<Rightarrow> env_var"
  net_srv :: "(ip_addr \<times> u16) option \<Rightarrow> string \<Rightarrow> 'w \<Rightarrow> (bool + srv_record list) \<times> 'w"
  net_lookup_ip :: "(ip_addr \<times> u16) option \<Rightarrow> string \<Rightarrow> 'w \<Rightarrow> (unit + string list) \<times> 'w"

section \<open>Endpoints\<close>

definition parse_kdc_port :: "string \<Rightarrow> string \<Rightarrow> exchange_error + u16" where
  "parse_kdc_port endpoint port = ok_or (map_option word_of_nat (parse_unsigned 16 10 port)) (XInvalidKdcEndpoint endpoint)"

text \<open>\<open>str::rsplit_once\<close> at a single-byte character.\<close>

definition rsplit_once :: "char \<Rightarrow> string \<Rightarrow> (string \<times> string) option" where
  "rsplit_once d s = map_option (\<lambda>(a, b). (rev b, rev a)) (split_once d (rev s))"

definition parse_kdc_endpoint :: "string \<Rightarrow> u16 \<Rightarrow> exchange_error + (string \<times> u16)" where
  "parse_kdc_endpoint value0 default_port =
     (let value1 = trim value0; bad = XInvalidKdcEndpoint value1 in
      if value1 = [] then Inl bad
      else if hd value1 = CHR ''['' then
        (case split_once (CHR '']'') (tl value1) of
           None \<Rightarrow> Inl bad
         | Some (host, sfx) \<Rightarrow>
             if host = [] then Inl bad
             else rbind (if starts_with_char sfx (CHR '':'') then parse_kdc_port value1 (tl sfx)
                         else if sfx = [] then Inr default_port else Inl bad) (\<lambda>port. Inr (host, port)))
      else
        let without_port = (if count_list value1 (CHR '':'') = 1 then Inl bad else Inr (value1, default_port)) in
        (case rsplit_once (CHR '':'') value1 of
           None \<Rightarrow> without_port
         | Some (host, port) \<Rightarrow>
             if host \<noteq> [] \<and> port \<noteq> [] \<and> list_all ascii_digit port \<and> last host \<noteq> CHR '':''
             then rbind (parse_kdc_port value1 port) (\<lambda>p. Inr (host, p))
             else without_port))"

definition endpoint_configured_with_default_port :: "kdc_protocol \<Rightarrow> string \<Rightarrow> u16 \<Rightarrow> exchange_error + kdc_endpoint" where
  "endpoint_configured_with_default_port protocol value0 default_port =
     rbind (parse_kdc_endpoint value0 default_port) (\<lambda>(host, port).
       Inr \<lparr>ep_protocol = protocol, ep_host = host, ep_port = port, ep_source = SrcConfig\<rparr>)"

definition endpoint_configured :: "kdc_protocol \<Rightarrow> string \<Rightarrow> exchange_error + kdc_endpoint" where
  "endpoint_configured protocol value0 = endpoint_configured_with_default_port protocol value0 88"

definition endpoint_authority :: "kdc_endpoint \<Rightarrow> string" where
  "endpoint_authority e =
     (if CHR '':'' \<in> set (ep_host e) \<and> \<not> starts_with_char (ep_host e) (CHR ''['')
      then ''['' @ ep_host e @ '']:'' @ dec_str (unat (ep_port e))
      else ep_host e @ '':'' @ dec_str (unat (ep_port e)))"

section \<open>Sending\<close>

definition non_empty_kdc_response :: "bytes \<Rightarrow> exchange_error + bytes" where
  "non_empty_kdc_response response = (if response = [] then Inl XEmptyKdcResponse else Inr response)"

definition net_error :: "kdc_transport \<Rightarrow> bool \<Rightarrow> exchange_error" where
  "net_error T timed_out = (if timed_out then XTransportTimeout (kt_timeout T) else XIo)"

definition send_udp :: "'w net_env \<Rightarrow> kdc_transport \<Rightarrow> address \<Rightarrow> bytes \<Rightarrow> ('w, bytes) io" where
  "send_udp N T addr request w =
     (if length request > MAX_UDP_DATAGRAM then (Inl (XUdpRequestTooLarge (length request) MAX_UDP_DATAGRAM), w)
      else case net_udp N addr request (kt_timeout T) w of
        (Inl timed_out, w') \<Rightarrow> (Inl (net_error T timed_out), w')
      | (Inr datagram, w') \<Rightarrow> (non_empty_kdc_response (take (kt_udp_response_limit T) datagram), w'))"

definition tcp_response :: "kdc_transport \<Rightarrow> bytes \<Rightarrow> bool \<Rightarrow> exchange_error + bytes" where
  "tcp_response T stream closed =
     (if length stream < 4 then Inl (net_error T (\<not> closed))
      else let response_len = from_bytes_en Big (take 4 stream) :: u32 in
        if unat response_len > kt_tcp_response_limit T then Inl (XTcpResponseTooLarge response_len (kt_tcp_response_limit T))
        else if length stream < 4 + unat response_len then Inl (net_error T (\<not> closed))
        else Inr (take (unat response_len) (drop 4 stream)))"

definition send_tcp :: "'w net_env \<Rightarrow> kdc_transport \<Rightarrow> address \<Rightarrow> bytes \<Rightarrow> ('w, bytes) io" where
  "send_tcp N T addr request w =
     (if length request \<ge> 2 ^ 32 then (Inl (XTcpRequestTooLarge (length request)), w)
      else case net_tcp N addr (to_bytes_en Big (word_of_nat (length request) :: u32) @ request) (kt_timeout T) w of
        (Inl timed_out, w') \<Rightarrow> (Inl (net_error T timed_out), w')
      | (Inr (stream, closed), w') \<Rightarrow> (rbind (tcp_response T stream closed) non_empty_kdc_response, w'))"

definition kdc_error_code :: "kdc_asn1 \<Rightarrow> bytes \<Rightarrow> i32 option" where
  "kdc_error_code K bs = (case decode_krb_error K bs of Inr e \<Rightarrow> Some (ke_error_code e) | Inl _ \<Rightarrow> None)"

definition auto_uses_udp_first :: "config \<Rightarrow> nat \<Rightarrow> bool" where
  "auto_uses_udp_first cfg request_len =
     (let limit = ld_udp_preference_limit (cfg_libdefaults cfg) in limit \<noteq> 1 \<and> sint limit \<ge> 0 \<and> request_len \<le> nat (sint limit))"

definition transport_send :: "'w net_env \<Rightarrow> kdc_asn1 \<Rightarrow> kdc_transport \<Rightarrow> kdc_protocol \<Rightarrow> address \<Rightarrow> bytes \<Rightarrow> ('w, bytes) io" where
  "transport_send N K T protocol addr request w =
     (case protocol of
        Udp \<Rightarrow> send_udp N T addr request w
      | Tcp \<Rightarrow> send_tcp N T addr request w
      | Auto \<Rightarrow>
          (case send_udp N T addr request w of
             (Inr response, w') \<Rightarrow>
               if kdc_error_code K response = Some KRB_ERR_RESPONSE_TOO_BIG then send_tcp N T addr request w' else (Inr response, w')
           | (Inl _, w') \<Rightarrow> send_tcp N T addr request w'))"

fun send_loop ::
  "'w net_env \<Rightarrow> kdc_asn1 \<Rightarrow> kdc_transport \<Rightarrow> string \<Rightarrow> kdc_protocol \<Rightarrow> bytes \<Rightarrow> (string \<times> exchange_error) list \<Rightarrow> kdc_endpoint list
    \<Rightarrow> ('w, bytes) io" where
  "send_loop N K T realm protocol request failures [] w = (Inl (XKdcEndpointFailures realm protocol failures), w)"
| "send_loop N K T realm protocol request failures (e # es) w =
     (case transport_send N K T (ep_protocol e) (ep_host e, ep_port e) request w of
        (Inr response, w') \<Rightarrow> (Inr response, w')
      | (Inl err, w') \<Rightarrow> send_loop N K T realm protocol request (failures @ [(endpoint_authority e, err)]) es w')"

definition send_to_endpoints ::
  "'w net_env \<Rightarrow> kdc_asn1 \<Rightarrow> kdc_transport \<Rightarrow> string \<Rightarrow> kdc_protocol \<Rightarrow> kdc_endpoint list \<Rightarrow> bytes \<Rightarrow> ('w, bytes) io" where
  "send_to_endpoints N K T realm protocol endpoints request =
     (if endpoints = [] then io_of (Inl (XNoKdcEndpoints realm protocol))
      else send_loop N K T realm protocol request [] endpoints)"

section \<open>Discovery\<close>

definition ip_port :: "u16 ip_read" where
  "ip_port s = Option.bind (ip_char (CHR '':'') s) (\<lambda>(_, r).
     map_option (\<lambda>(n, r). (word_of_nat n, r)) (ip_number 10 (length r) 65535 True r))"

definition ip_scope_id :: "string \<Rightarrow> string" where
  "ip_scope_id s =
     (case Option.bind (ip_char (CHR ''%'') s) (\<lambda>(_, r). ip_number 10 (length r) (2 ^ 32 - 1) True r) of
        Some (_, r) \<Rightarrow> r | None \<Rightarrow> s)"

text \<open>\<open>str::parse::<SocketAddr>\<close>.\<close>

definition parse_socket_addr :: "string \<Rightarrow> (ip_addr \<times> u16) option" where
  "parse_socket_addr s =
     (case Option.bind (ip_v4 s) (\<lambda>(a, r). map_option (\<lambda>(port, r). ((V4 a, port), r)) (ip_port r)) of
        Some (x, r) \<Rightarrow> if r = [] then Some x else None
      | None \<Rightarrow>
          (case Option.bind (ip_char (CHR ''['') s) (\<lambda>(_, r). Option.bind (ip_v6 r) (\<lambda>(g, r).
             Option.bind (ip_char (CHR '']'') (ip_scope_id r)) (\<lambda>(_, r). map_option (\<lambda>(port, r). ((V6 g, port), r)) (ip_port r)))) of
             Some (x, r) \<Rightarrow> if r = [] then Some x else None
           | None \<Rightarrow> None))"

definition parse_dns_server :: "string \<Rightarrow> (ip_addr \<times> u16) option" where
  "parse_dns_server value0 =
     (let value1 = trim value0 in
      if value1 = [] then None
      else case parse_socket_addr value1 of
        Some addr \<Rightarrow> Some addr
      | None \<Rightarrow> map_option (\<lambda>ip. (ip, 53)) (parse_ip_addr value1))"

definition dns_server_override :: "'w net_env \<Rightarrow> exchange_error + (ip_addr \<times> u16) option" where
  "dns_server_override N =
     (case net_var N ''RSKRB5_DNS_SERVER'' of
        VarSet value0 \<Rightarrow>
          if trim value0 \<noteq> [] then map_err (\<lambda>_. XDnsResolverConfig) (rbind (ok_or (parse_dns_server value0) ()) (\<lambda>a. Inr (Some a)))
          else Inr None
      | VarNotPresent \<Rightarrow> Inr None
      | VarNotUnicode \<Rightarrow> Inl XDnsResolverConfig)"

definition resolve_dns_endpoint_host ::
  "'w net_env \<Rightarrow> (ip_addr \<times> u16) option \<Rightarrow> string \<Rightarrow> kdc_protocol \<Rightarrow> string \<Rightarrow> ('w, string) io" where
  "resolve_dns_endpoint_host N server realm protocol target w =
     (if parse_ip_addr target \<noteq> None then (Inr target, w)
      else let lookup_name = (if target \<noteq> [] \<and> last target = CHR ''.'' then target else target @ ''.'') in
        case net_lookup_ip N server lookup_name w of
          (Inr (ip # _), w') \<Rightarrow> (Inr ip, w')
        | (_, w') \<Rightarrow> (Inl (XDnsSrvLookup realm protocol), w'))"

fun io_map :: "('a \<Rightarrow> ('w, 'b) io) \<Rightarrow> 'a list \<Rightarrow> ('w, 'b list) io" where
  "io_map f [] = io_of (Inr [])"
| "io_map f (x # xs) = io_bind (f x) (\<lambda>y. io_bind (io_map f xs) (\<lambda>ys. io_of (Inr (y # ys))))"

text \<open>Lower priority first, then higher weight, then target and port.\<close>

definition srv_key :: "srv_record \<Rightarrow> u16 \<times> u16 \<times> string \<times> u16" where
  "srv_key r = (srv_priority r, NOT (srv_weight r), srv_target r, srv_port r)"

definition srv_order :: "srv_record list \<Rightarrow> srv_record list" where
  "srv_order records =
     sort_key srv_key (filter (\<lambda>r. srv_target r \<noteq> [] \<and> srv_target r \<noteq> ''.'')
       (map (srv_target_update (\<lambda>t. rev (dropWhile (\<lambda>c. c = CHR ''.'') (rev t)))) records))"

definition discover_srv_endpoints :: "'w net_env \<Rightarrow> string \<Rightarrow> string \<Rightarrow> kdc_protocol \<Rightarrow> ('w, kdc_endpoint list) io" where
  "discover_srv_endpoints N service realm protocol =
     (let transport = (case protocol of Tcp \<Rightarrow> ''_tcp'' | _ \<Rightarrow> ''_udp'');
          query = service @ ''.'' @ transport @ ''.'' @ realm @ ''.''
      in
      io_bind (io_of (dns_server_override N)) (\<lambda>server w.
        case net_srv N server query w of
          (Inl no_resolver, w') \<Rightarrow> (Inl (if no_resolver then XDnsResolverConfig else XDnsSrvLookup realm protocol), w')
        | (Inr answers, w') \<Rightarrow>
            io_map (\<lambda>r. io_bind (if server \<noteq> None then resolve_dns_endpoint_host N server realm protocol (srv_target r)
                                 else io_of (Inr (srv_target r))) (\<lambda>host.
                io_of (Inr \<lparr>ep_protocol = protocol, ep_host = host, ep_port = srv_port r, ep_source = SrcDnsSrv\<rparr>)))
              (srv_order answers) w'))"

definition discover_kdcs_with_dns :: "'w net_env \<Rightarrow> string \<Rightarrow> kdc_protocol \<Rightarrow> ('w, kdc_endpoint list) io" where
  "discover_kdcs_with_dns N realm protocol =
     io_bind (discover_srv_endpoints N ''_kerberos'' realm protocol) (\<lambda>endpoints.
       if endpoints = [] then io_of (Inl (XNoKdcEndpoints realm protocol)) else io_of (Inr endpoints))"

definition discover_kpasswd_servers_with_dns :: "'w net_env \<Rightarrow> string \<Rightarrow> kdc_protocol \<Rightarrow> ('w, kdc_endpoint list) io" where
  "discover_kpasswd_servers_with_dns N realm protocol w =
     (case discover_srv_endpoints N ''_kpasswd'' realm protocol w of
        (Inr (e # es), w') \<Rightarrow> (Inr (e # es), w')
      | (_, w') \<Rightarrow>
          io_bind (discover_srv_endpoints N ''_kerberos-adm'' realm protocol) (\<lambda>endpoints.
            if endpoints = [] then io_of (Inl (XNoKdcEndpoints realm protocol)) else io_of (Inr endpoints)) w')"

definition discover_kdcs :: "'w net_env \<Rightarrow> config \<Rightarrow> string \<Rightarrow> kdc_protocol \<Rightarrow> ('w, kdc_endpoint list) io" where
  "discover_kdcs N cfg realm protocol =
     (let configured = (case config_realm cfg realm of Some r \<Rightarrow> rlm_kdc r | None \<Rightarrow> []) in
      if configured \<noteq> [] then io_of (rmap (endpoint_configured protocol) configured)
      else if ld_dns_lookup_kdc (cfg_libdefaults cfg) then discover_kdcs_with_dns N realm protocol
      else io_of (Inl (if config_realm cfg realm \<noteq> None then XNoKdcEndpoints realm protocol else XConfig (NoRealm realm))))"

definition discover_kpasswd_servers :: "'w net_env \<Rightarrow> config \<Rightarrow> string \<Rightarrow> kdc_protocol \<Rightarrow> ('w, kdc_endpoint list) io" where
  "discover_kpasswd_servers N cfg realm protocol =
     (let configured = (case config_realm cfg realm of Some r \<Rightarrow> rlm_kpasswd_server r | None \<Rightarrow> []);
          endpoint = (\<lambda>v. endpoint_configured_with_default_port protocol v 464)
      in
      if configured \<noteq> [] then io_of (rmap endpoint configured)
      else if ld_dns_lookup_kdc (cfg_libdefaults cfg) then discover_kpasswd_servers_with_dns N realm protocol
      else io_of (rbind (map_err XConfig (configured_kpasswd_servers cfg realm)) (rmap endpoint)))"

section \<open>Sending to a realm\<close>

definition send_to_realm_explicit ::
  "'w net_env \<Rightarrow> kdc_asn1 \<Rightarrow> kdc_transport \<Rightarrow> config \<Rightarrow> kdc_protocol \<Rightarrow> string \<Rightarrow> bytes \<Rightarrow> ('w, bytes) io" where
  "send_to_realm_explicit N K T cfg protocol realm request =
     io_bind (discover_kdcs N cfg realm protocol) (\<lambda>endpoints. send_to_endpoints N K T realm protocol endpoints request)"

definition send_to_kpasswd_realm_explicit ::
  "'w net_env \<Rightarrow> kdc_asn1 \<Rightarrow> kdc_transport \<Rightarrow> config \<Rightarrow> kdc_protocol \<Rightarrow> string \<Rightarrow> bytes \<Rightarrow> ('w, bytes) io" where
  "send_to_kpasswd_realm_explicit N K T cfg protocol realm request =
     io_bind (discover_kpasswd_servers N cfg realm protocol) (\<lambda>endpoints. send_to_endpoints N K T realm protocol endpoints request)"

text \<open>\<open>send_to_realm_auto\<close> and \<open>send_to_kpasswd_realm_auto\<close> differ only in what they try.\<close>

definition try_auto :: "kdc_asn1 \<Rightarrow> bool \<Rightarrow> (kdc_protocol \<Rightarrow> ('w, bytes) io) \<Rightarrow> ('w, bytes) io" where
  "try_auto K udp_first try w =
     (let (first, second) = (if udp_first then (Udp, Tcp) else (Tcp, Udp)) in
      case try first w of
        (Inr response, w') \<Rightarrow>
          if first = Udp \<and> kdc_error_code K response = Some KRB_ERR_RESPONSE_TOO_BIG then try second w' else (Inr response, w')
      | (Inl _, w') \<Rightarrow> try second w')"

definition send_to_realm_auto ::
  "'w net_env \<Rightarrow> kdc_asn1 \<Rightarrow> kdc_transport \<Rightarrow> config \<Rightarrow> string \<Rightarrow> bytes \<Rightarrow> ('w, bytes) io" where
  "send_to_realm_auto N K T cfg realm request =
     try_auto K (auto_uses_udp_first cfg (length request)) (\<lambda>protocol. send_to_realm_explicit N K T cfg protocol realm request)"

definition send_to_kpasswd_realm_auto ::
  "'w net_env \<Rightarrow> kdc_asn1 \<Rightarrow> kdc_transport \<Rightarrow> config \<Rightarrow> string \<Rightarrow> bytes \<Rightarrow> ('w, bytes) io" where
  "send_to_kpasswd_realm_auto N K T cfg realm request =
     try_auto K (auto_uses_udp_first cfg (length request)) (\<lambda>protocol. send_to_kpasswd_realm_explicit N K T cfg protocol realm request)"

definition send_to_realm ::
  "'w net_env \<Rightarrow> kdc_asn1 \<Rightarrow> kdc_transport \<Rightarrow> config \<Rightarrow> kdc_protocol \<Rightarrow> string \<Rightarrow> bytes \<Rightarrow> ('w, bytes) io" where
  "send_to_realm N K T cfg protocol realm request =
     (if protocol = Auto then send_to_realm_auto N K T cfg realm request
      else send_to_realm_explicit N K T cfg protocol realm request)"

definition send_to_kpasswd_realm ::
  "'w net_env \<Rightarrow> kdc_asn1 \<Rightarrow> kdc_transport \<Rightarrow> config \<Rightarrow> kdc_protocol \<Rightarrow> string \<Rightarrow> bytes \<Rightarrow> ('w, bytes) io" where
  "send_to_kpasswd_realm N K T cfg protocol realm request =
     (if protocol = Auto then send_to_kpasswd_realm_auto N K T cfg realm request
      else send_to_kpasswd_realm_explicit N K T cfg protocol realm request)"

section \<open>Exchanges\<close>

text \<open>The methods of the transport repeat the functions of \<open>src/client.rs\<close>, sending either to the KDCs of
  the realm or to a given address.\<close>

definition realm_env :: "'w net_env \<Rightarrow> kdc_asn1 \<Rightarrow> kdc_transport \<Rightarrow> config \<Rightarrow> kdc_protocol \<Rightarrow> 'w kdc_env" where
  "realm_env N K T cfg protocol =
     \<lparr>env_now = net_now N, env_fill = net_fill N, env_send = send_to_realm N K T cfg protocol\<rparr>"

definition address_env :: "'w net_env \<Rightarrow> kdc_asn1 \<Rightarrow> kdc_transport \<Rightarrow> kdc_protocol \<Rightarrow> address \<Rightarrow> 'w kdc_env" where
  "address_env N K T protocol addr =
     \<lparr>env_now = net_now N, env_fill = net_fill N, env_send = (\<lambda>_. transport_send N K T protocol addr)\<rparr>"

definition exchange_as_req_with_config where
  "exchange_as_req_with_config N K P T cfg protocol request reply_key =
     exchange_as_req (realm_env N K T cfg protocol) K P request reply_key"

definition exchange_as_req_at where
  "exchange_as_req_at N K P T protocol addr request reply_key = exchange_as_req (address_env N K T protocol addr) K P request reply_key"

definition exchange_tgs_req_with_config where
  "exchange_tgs_req_with_config N K P T cfg protocol request key =
     exchange_tgs_req (realm_env N K T cfg protocol) K P request key"

definition exchange_tgs_req_at where
  "exchange_tgs_req_at N K P T protocol addr request key = exchange_tgs_req (address_env N K T protocol addr) K P request key"

definition s4u2self_with_config where
  "s4u2self_with_config N K P T cfg protocol service_tgt user opts = s4u2self (realm_env N K T cfg protocol) K P service_tgt user opts"

definition s4u2self_at where
  "s4u2self_at N K P T protocol addr service_tgt user opts = s4u2self (address_env N K T protocol addr) K P service_tgt user opts"

definition s4u2proxy_with_config where
  "s4u2proxy_with_config N K P T cfg protocol service_tgt evidence target opts =
     s4u2proxy (realm_env N K T cfg protocol) K P service_tgt evidence target opts"

definition s4u2proxy_at where
  "s4u2proxy_at N K P T protocol addr service_tgt evidence target opts =
     s4u2proxy (address_env N K T protocol addr) K P service_tgt evidence target opts"

definition renew_tgt_with_config where
  "renew_tgt_with_config N K P T cfg protocol tgt opts = renew_tgt (realm_env N K T cfg protocol) K P tgt opts"

definition renew_tgt_at where
  "renew_tgt_at N K P T protocol addr tgt opts = renew_tgt (address_env N K T protocol addr) K P tgt opts"

definition renew_ticket_with_config where
  "renew_ticket_with_config N K P T cfg protocol st opts = renew_ticket (realm_env N K T cfg protocol) K P st opts"

definition renew_ticket_at where
  "renew_ticket_at N K P T protocol addr st opts = renew_ticket (address_env N K T protocol addr) K P st opts"

definition get_service_ticket_with_referral_trace where
  "get_service_ticket_with_referral_trace N K P T cfg protocol tgt service opts =
     get_service_ticket_with_referral_trace_limit (realm_env N K T cfg protocol) K P cfg tgt service opts DEFAULT_MAX_REFERRALS"

definition get_service_ticket_with_referrals where
  "get_service_ticket_with_referrals N K P T cfg protocol tgt service opts =
     io_bind (get_service_ticket_with_referral_trace N K P T cfg protocol tgt service opts) (\<lambda>(t, _). io_of (Inr t))"

definition get_service_ticket_with_referrals_limit where
  "get_service_ticket_with_referrals_limit N K P T cfg protocol tgt service opts max_referrals =
     io_bind (get_service_ticket_with_referral_trace_limit (realm_env N K T cfg protocol) K P cfg tgt service opts max_referrals)
       (\<lambda>(t, _). io_of (Inr t))"

definition login_as_service_with_password_config where
  "login_as_service_with_password_config N K P T cfg protocol client service password opts =
     login_as_service_with_password (realm_env N K T cfg protocol) K P client service password opts"

definition login_as_service_with_password_at where
  "login_as_service_with_password_at N K P T protocol addr client service password opts =
     login_as_service_with_password (address_env N K T protocol addr) K P client service password opts"

definition login_tgt_with_password_config where
  "login_tgt_with_password_config N K P T cfg protocol client password opts =
     login_as_service_with_password_config N K P T cfg protocol client (tgt_service (p_realm client)) password opts"

definition login_tgt_with_password_at where
  "login_tgt_with_password_at N K P T protocol addr client password opts =
     login_as_service_with_password_at N K P T protocol addr client (tgt_service (p_realm client)) password opts"

definition login_as_service_with_keytab_config where
  "login_as_service_with_keytab_config N K P T cfg protocol client service kt opts =
     login_as_service_with_keytab (realm_env N K T cfg protocol) K P client service kt opts"

definition login_as_service_with_keytab_at where
  "login_as_service_with_keytab_at N K P T protocol addr client service kt opts =
     login_as_service_with_keytab (address_env N K T protocol addr) K P client service kt opts"

definition login_tgt_with_keytab_config where
  "login_tgt_with_keytab_config N K P T cfg protocol client kt opts =
     login_as_service_with_keytab_config N K P T cfg protocol client (tgt_service (p_realm client)) kt opts"

definition login_tgt_with_keytab_at where
  "login_tgt_with_keytab_at N K P T protocol addr client kt opts =
     login_as_service_with_keytab_at N K P T protocol addr client (tgt_service (p_realm client)) kt opts"

section \<open>Password changes\<close>

definition exchange_kpasswd_request ::
  "'w net_env \<Rightarrow> kdc_asn1 \<Rightarrow> kdc_transport \<Rightarrow> kdc_protocol \<Rightarrow> address \<Rightarrow> kpasswd_request \<Rightarrow> ('w, kpasswd_reply) io" where
  "exchange_kpasswd_request N K T protocol addr request =
     io_bind (io_of (map_err XKadmin (kpasswd_request_encode K request))) (\<lambda>frame.
     io_bind (transport_send N K T protocol addr frame) (\<lambda>response.
       io_of (map_err XKadmin (kpasswd_reply_parse K response))))"

definition exchange_kpasswd_request_with_config ::
  "'w net_env \<Rightarrow> kdc_asn1 \<Rightarrow> kdc_transport \<Rightarrow> config \<Rightarrow> kdc_protocol \<Rightarrow> string \<Rightarrow> kpasswd_request \<Rightarrow> ('w, kpasswd_reply) io" where
  "exchange_kpasswd_request_with_config N K T cfg protocol realm request =
     io_bind (io_of (map_err XKadmin (kpasswd_request_encode K request))) (\<lambda>frame.
     io_bind (send_to_kpasswd_realm N K T cfg protocol realm frame) (\<lambda>response.
       io_of (map_err XKadmin (kpasswd_reply_parse K response))))"

definition checked_result :: "kdc_asn1 \<Rightarrow> crypto_prims \<Rightarrow> kpasswd_reply \<Rightarrow> kt_key \<Rightarrow> exchange_error + change_password_result" where
  "checked_result K P reply reply_key =
     map_err XKadmin (rbind (decrypt_result K P reply reply_key) (\<lambda>result. rbind (ensure_success result) (\<lambda>_. Inr result)))"

definition exchange_kpasswd_result ::
  "'w net_env \<Rightarrow> kdc_asn1 \<Rightarrow> crypto_prims \<Rightarrow> kdc_transport \<Rightarrow> kdc_protocol \<Rightarrow> address \<Rightarrow> kpasswd_request \<Rightarrow> kt_key
    \<Rightarrow> ('w, change_password_result) io" where
  "exchange_kpasswd_result N K P T protocol addr request reply_key =
     io_bind (exchange_kpasswd_request N K T protocol addr request) (\<lambda>reply. io_of (checked_result K P reply reply_key))"

definition exchange_kpasswd_result_with_config ::
  "'w net_env \<Rightarrow> kdc_asn1 \<Rightarrow> crypto_prims \<Rightarrow> kdc_transport \<Rightarrow> config \<Rightarrow> kdc_protocol \<Rightarrow> string \<Rightarrow> kpasswd_request \<Rightarrow> kt_key
    \<Rightarrow> ('w, change_password_result) io" where
  "exchange_kpasswd_result_with_config N K P T cfg protocol realm request reply_key =
     io_bind (exchange_kpasswd_request_with_config N K T cfg protocol realm request) (\<lambda>reply. io_of (checked_result K P reply reply_key))"

end
