(* ===== verification/Client_Options.thy ===== *)
theory Client_Options
  imports Transport Sec_Context
begin

text \<open>
  The builders of the option records: \<open>src/client/options.rs\<close>, \<open>InitiatorContextOptions\<close> of \<open>src/spnego.rs\<close> and
  \<open>TokioKdcTransport\<close> of \<open>src/client/transport.rs\<close>, and what the limits of the transport do.
\<close>

section \<open>Requests to the KDC\<close>

definition as_with_ticket_lifetime :: "as_req_options \<Rightarrow> duration \<Rightarrow> as_req_options" where
  "as_with_ticket_lifetime r x = r\<lparr>aq_ticket_lifetime := x\<rparr>"

definition as_with_renew_lifetime :: "as_req_options \<Rightarrow> duration option \<Rightarrow> as_req_options" where
  "as_with_renew_lifetime r x = r\<lparr>aq_renew_lifetime := x\<rparr>"

definition as_with_etypes :: "as_req_options \<Rightarrow> i32 list \<Rightarrow> as_req_options" where
  "as_with_etypes r x = r\<lparr>aq_etypes := x\<rparr>"

definition as_with_kdc_option_bits :: "as_req_options \<Rightarrow> u32 \<Rightarrow> as_req_options" where
  "as_with_kdc_option_bits r x = r\<lparr>aq_kdc_option_bits := x\<rparr>"

definition as_with_padata :: "as_req_options \<Rightarrow> pa_data list \<Rightarrow> as_req_options" where
  "as_with_padata r x = r\<lparr>aq_padata := x\<rparr>"

definition as_with_assume_preauthentication :: "as_req_options \<Rightarrow> bool \<Rightarrow> as_req_options" where
  "as_with_assume_preauthentication r x = r\<lparr>aq_assume_preauthentication := x\<rparr>"

definition as_with_fast_negotiation :: "as_req_options \<Rightarrow> bool \<Rightarrow> as_req_options" where
  "as_with_fast_negotiation r x = r\<lparr>aq_fast_negotiation := x\<rparr>"

definition tgs_with_ticket_lifetime :: "tgs_req_options \<Rightarrow> duration \<Rightarrow> tgs_req_options" where
  "tgs_with_ticket_lifetime r x = r\<lparr>tq_ticket_lifetime := x\<rparr>"

definition tgs_with_renew_lifetime :: "tgs_req_options \<Rightarrow> duration option \<Rightarrow> tgs_req_options" where
  "tgs_with_renew_lifetime r x = r\<lparr>tq_renew_lifetime := x\<rparr>"

definition tgs_with_etypes :: "tgs_req_options \<Rightarrow> i32 list \<Rightarrow> tgs_req_options" where
  "tgs_with_etypes r x = r\<lparr>tq_etypes := x\<rparr>"

definition tgs_with_kdc_option_bits :: "tgs_req_options \<Rightarrow> u32 \<Rightarrow> tgs_req_options" where
  "tgs_with_kdc_option_bits r x = r\<lparr>tq_kdc_option_bits := x\<rparr>"

definition tgs_with_padata :: "tgs_req_options \<Rightarrow> pa_data list \<Rightarrow> tgs_req_options" where
  "tgs_with_padata r x = r\<lparr>tq_padata := x\<rparr>"

definition tgs_with_additional_tickets :: "tgs_req_options \<Rightarrow> ticket list \<Rightarrow> tgs_req_options" where
  "tgs_with_additional_tickets r x = r\<lparr>tq_additional_tickets := x\<rparr>"

section \<open>AP-REQ and initiator contexts\<close>

definition ap_with_ap_option_bits :: "ap_req_options \<Rightarrow> u32 \<Rightarrow> ap_req_options" where
  "ap_with_ap_option_bits r x = r\<lparr>arq_ap_option_bits := x\<rparr>"

definition ap_with_checksum :: "ap_req_options \<Rightarrow> rasn_checksum option \<Rightarrow> ap_req_options" where
  "ap_with_checksum r x = r\<lparr>arq_checksum := x\<rparr>"

definition ap_with_subkey :: "ap_req_options \<Rightarrow> kt_key option \<Rightarrow> ap_req_options" where
  "ap_with_subkey r x = r\<lparr>arq_subkey := x\<rparr>"

definition ap_with_sequence_number :: "ap_req_options \<Rightarrow> u32 option \<Rightarrow> ap_req_options" where
  "ap_with_sequence_number r x = r\<lparr>arq_sequence_number := x\<rparr>"

definition initiator_with_context_flags :: "initiator_options \<Rightarrow> u32 list \<Rightarrow> initiator_options" where
  "initiator_with_context_flags r x = r\<lparr>io_context_flags := x\<rparr>"

definition initiator_with_ap_option_bits :: "initiator_options \<Rightarrow> u32 \<Rightarrow> initiator_options" where
  "initiator_with_ap_option_bits r x = r\<lparr>io_ap_option_bits := x\<rparr>"

definition initiator_with_subkey :: "initiator_options \<Rightarrow> kt_key option \<Rightarrow> initiator_options" where
  "initiator_with_subkey r x = r\<lparr>io_subkey := x\<rparr>"

definition initiator_with_sequence_number :: "initiator_options \<Rightarrow> u32 option \<Rightarrow> initiator_options" where
  "initiator_with_sequence_number r x = r\<lparr>io_sequence_number := x\<rparr>"

section \<open>Transport\<close>

definition transport_with_timeout :: "kdc_transport \<Rightarrow> duration \<Rightarrow> kdc_transport" where
  "transport_with_timeout r x = r\<lparr>kt_timeout := x\<rparr>"

definition transport_with_udp_response_limit :: "kdc_transport \<Rightarrow> nat \<Rightarrow> kdc_transport" where
  "transport_with_udp_response_limit r x = r\<lparr>kt_udp_response_limit := x\<rparr>"

definition transport_with_tcp_response_limit :: "kdc_transport \<Rightarrow> nat \<Rightarrow> kdc_transport" where
  "transport_with_tcp_response_limit r x = r\<lparr>kt_tcp_response_limit := x\<rparr>"

text \<open>The configured limit of the transport is the bound of every TCP answer, and a limit of zero refuses all.\<close>

lemma tcp_limit_bounds:
  assumes "tcp_response (transport_with_tcp_response_limit T n) stream closed = Inr r"
  shows "length r \<le> n"
  using assms by (auto simp: tcp_response_def transport_with_tcp_response_limit_def Let_def split: if_splits)

end
