(* ===== verification/Client_Sessions.thy ===== *)
theory Client_Sessions
  imports Transport CCache_Ops
begin

text \<open>
  The stateful client of \<open>src/client.rs\<close> (\<open>TokioClient\<close>): the sessions it keeps, when they are valid, renewable or due for a refresh,
  how a new session replaces an old one, and its operations over the transport.  An operation takes and returns the client
  together with the outside world; its result is an error, \<open>None\<close> when an \<open>expect\<close> of the code panics, or a value.
\<close>

unbundle bit_operations_syntax

section \<open>Sessions in time\<close>

definition SESSION_REFRESH_DIVISOR :: nat where
  "SESSION_REFRESH_DIVISOR = 6"

definition session_valid_at :: "rep_session \<Rightarrow> system_time \<Rightarrow> bool" where
  "session_valid_at s now \<longleftrightarrow> rs_start_time s \<le> now \<and> now < rs_end_time s"

definition session_renewable_at :: "rep_session \<Rightarrow> system_time \<Rightarrow> bool" where
  "session_renewable_at s now = (case rs_renew_till s of Some renew_till \<Rightarrow> now < renew_till | None \<Rightarrow> False)"

definition session_usable_at :: "rep_session \<Rightarrow> system_time \<Rightarrow> bool" where
  "session_usable_at s now \<longleftrightarrow> session_valid_at s now \<or> session_renewable_at s now"

definition session_refresh_due_at :: "rep_session \<Rightarrow> system_time \<Rightarrow> bool" where
  "session_refresh_due_at s now =
     (if now \<ge> rs_end_time s then True
      else case duration_since (rs_end_time s) (rs_auth_time s) of
        None \<Rightarrow> True
      | Some lifetime \<Rightarrow>
          if lifetime = 0 then True
          else let remaining = (case duration_since (rs_end_time s) now of Some d \<Rightarrow> d | None \<Rightarrow> 0) in
            remaining \<le> lifetime div SESSION_REFRESH_DIVISOR)"

definition session_refresh_delay_at :: "rep_session \<Rightarrow> system_time \<Rightarrow> duration" where
  "session_refresh_delay_at s now =
     (if session_refresh_due_at s now then 0
      else case duration_since (rs_end_time s) (rs_auth_time s) of
        None \<Rightarrow> 0
      | Some lifetime \<Rightarrow>
          (case st_checked_sub (rs_end_time s) (lifetime div SESSION_REFRESH_DIVISOR) of
             None \<Rightarrow> 0
           | Some refresh_at \<Rightarrow> (case duration_since refresh_at now of Some d \<Rightarrow> d | None \<Rightarrow> 0)))"

definition prefer_current_session_at :: "rep_session \<Rightarrow> rep_session \<Rightarrow> system_time \<Rightarrow> bool" where
  "prefer_current_session_at current candidate now =
     (case (session_valid_at current now, session_valid_at candidate now) of
        (True, False) \<Rightarrow> True
      | (False, True) \<Rightarrow> False
      | _ \<Rightarrow> rs_end_time current \<ge> rs_end_time candidate)"

definition preferred_session_at :: "rep_session option \<Rightarrow> rep_session \<Rightarrow> system_time \<Rightarrow> rep_session" where
  "preferred_session_at current candidate now =
     (case current of
        Some c \<Rightarrow> if prefer_current_session_at c candidate now then c else candidate
      | None \<Rightarrow> candidate)"

definition service_cache_key :: "principal \<Rightarrow> string" where
  "service_cache_key service = p_realm service @ concat (map (\<lambda>c. CHR 0x00 # c) (p_components service))"

section \<open>The client\<close>

datatype client_credentials = Password bytes | KeytabCredential keytab

record tokio_client =
  tc_config :: config
  tc_protocol :: kdc_protocol
  tc_transport :: kdc_transport
  tc_client :: principal
  tc_credentials :: "client_credentials option"
  tc_tgt :: "rep_session option"
  tc_tgt_sessions :: "(string \<times> rep_session) list"
  tc_service_tickets :: "(string \<times> rep_session) list"
  tc_assume_preauthentication :: bool
  tc_fast_negotiation :: bool

record pruned_sessions =
  pr_primary_tgt :: bool
  pr_tgt_sessions :: nat
  pr_service_tickets :: nat

definition pruned_is_empty :: "pruned_sessions \<Rightarrow> bool" where
  "pruned_is_empty p \<longleftrightarrow> \<not> pr_primary_tgt p \<and> pr_tgt_sessions p = 0 \<and> pr_service_tickets p = 0"

definition tokio_client_new :: "config \<Rightarrow> kdc_protocol \<Rightarrow> principal \<Rightarrow> client_credentials option \<Rightarrow> tokio_client" where
  "tokio_client_new cfg protocol client credentials =
     \<lparr>tc_config = cfg, tc_protocol = protocol, tc_transport = kdc_transport_new, tc_client = client, tc_credentials = credentials,
      tc_tgt = None, tc_tgt_sessions = [], tc_service_tickets = [], tc_assume_preauthentication = False, tc_fast_negotiation = True\<rparr>"

definition with_password :: "config \<Rightarrow> kdc_protocol \<Rightarrow> principal \<Rightarrow> bytes \<Rightarrow> tokio_client" where
  "with_password cfg protocol client password = tokio_client_new cfg protocol client (Some (Password password))"

definition with_keytab :: "config \<Rightarrow> kdc_protocol \<Rightarrow> principal \<Rightarrow> keytab \<Rightarrow> tokio_client" where
  "with_keytab cfg protocol client kt = tokio_client_new cfg protocol client (Some (KeytabCredential kt))"

definition with_password_credential :: "tokio_client \<Rightarrow> bytes \<Rightarrow> tokio_client" where
  "with_password_credential c password = c\<lparr>tc_credentials := Some (Password password)\<rparr>"

definition with_keytab_credential :: "tokio_client \<Rightarrow> keytab \<Rightarrow> tokio_client" where
  "with_keytab_credential c kt = c\<lparr>tc_credentials := Some (KeytabCredential kt)\<rparr>"

definition with_transport :: "tokio_client \<Rightarrow> kdc_transport \<Rightarrow> tokio_client" where
  "with_transport c transport = c\<lparr>tc_transport := transport\<rparr>"

definition with_assume_preauthentication :: "tokio_client \<Rightarrow> bool \<Rightarrow> tokio_client" where
  "with_assume_preauthentication c b = c\<lparr>tc_assume_preauthentication := b\<rparr>"

definition with_fast_negotiation :: "tokio_client \<Rightarrow> bool \<Rightarrow> tokio_client" where
  "with_fast_negotiation c b = c\<lparr>tc_fast_negotiation := b\<rparr>"

definition validate_configuration :: "tokio_client \<Rightarrow> exchange_error + unit" where
  "validate_configuration c =
     (if p_components (tc_client c) = [] \<or> [] \<in> set (p_components (tc_client c)) then Inl XMissingClientName
      else if p_realm (tc_client c) = [] then Inl XMissingClientRealm
      else if tc_credentials c = None \<and> tc_tgt c = None then Inl XNoClientCredentials
      else if \<not> ld_dns_lookup_kdc (cfg_libdefaults (tc_config c)) then
        rbind (ok_or (config_realm (tc_config c) (p_realm (tc_client c))) (XNoConfiguredKdc (p_realm (tc_client c)))) (\<lambda>entry.
          if rlm_kdc entry = [] then Inl (XNoConfiguredKdc (p_realm (tc_client c))) else Inr ())
      else Inr ())"

definition is_configured :: "tokio_client \<Rightarrow> bool" where
  "is_configured c \<longleftrightarrow> is_ok (validate_configuration c)"

section \<open>The caches\<close>

text \<open>\<open>BTreeMap\<close>: the entries in ascending order of their keys.\<close>

fun bt_insert :: "'k :: linorder \<Rightarrow> 'v \<Rightarrow> ('k \<times> 'v) list \<Rightarrow> ('k \<times> 'v) list" where
  "bt_insert k v [] = [(k, v)]"
| "bt_insert k v ((k', v') # m) =
     (if k < k' then (k, v) # (k', v') # m else if k = k' then (k, v) # m else (k', v') # bt_insert k v m)"

definition bt_remove :: "'k :: linorder \<Rightarrow> ('k \<times> 'v) list \<Rightarrow> ('k \<times> 'v) list" where
  "bt_remove k m = filter (\<lambda>(k', _). k' \<noteq> k) m"

definition bt_retain :: "('v \<Rightarrow> bool) \<Rightarrow> ('k :: linorder \<times> 'v) list \<Rightarrow> ('k \<times> 'v) list" where
  "bt_retain p m = filter (\<lambda>(_, v). p v) m"

definition cache_service_ticket_at :: "system_time \<Rightarrow> rep_session \<Rightarrow> tokio_client \<Rightarrow> tokio_client" where
  "cache_service_ticket_at now st c =
     (let key = service_cache_key (rs_service st);
          st = preferred_session_at (map_of (tc_service_tickets c) key) st now
      in c\<lparr>tc_service_tickets := bt_insert key st (bt_remove key (tc_service_tickets c))\<rparr>)"

text \<open>The removal of the old entry happens before the insertion; nothing observes the map in between.\<close>

definition cache_tgt_session_at :: "system_time \<Rightarrow> rep_session \<Rightarrow> tokio_client \<Rightarrow> exchange_error + tokio_client" where
  "cache_tgt_session_at now tgt c =
     rbind (ok_or (tgt_realm tgt) (XInvalidTgtSession (p_name (rs_service tgt)))) (\<lambda>realm.
     let selected = preferred_session_at (map_of (tc_tgt_sessions c) realm) tgt now;
         rest = bt_remove realm (tc_tgt_sessions c)
     in if realm = p_realm (tc_client c) then
          let primary = preferred_session_at (tc_tgt c) selected now in
          Inr (c\<lparr>tc_tgt := Some primary, tc_tgt_sessions := bt_insert realm primary rest\<rparr>)
        else Inr (c\<lparr>tc_tgt_sessions := bt_insert realm selected rest\<rparr>))"

definition remove_tgt_session_for_realm :: "string \<Rightarrow> tokio_client \<Rightarrow> rep_session option \<times> tokio_client" where
  "remove_tgt_session_for_realm realm c =
     (let removed = map_of (tc_tgt_sessions c) realm; c' = c\<lparr>tc_tgt_sessions := bt_remove realm (tc_tgt_sessions c)\<rparr> in
      if realm = p_realm (tc_client c)
      then (case removed of Some s \<Rightarrow> Some s | None \<Rightarrow> tc_tgt c, c'\<lparr>tc_tgt := None\<rparr>)
      else (removed, c'))"

definition clear_service_ticket_cache :: "tokio_client \<Rightarrow> tokio_client" where
  "clear_service_ticket_cache c = c\<lparr>tc_service_tickets := []\<rparr>"

definition resolve_service_principal :: "tokio_client \<Rightarrow> principal \<Rightarrow> principal" where
  "resolve_service_principal c service =
     (if p_realm service = []
      then service\<lparr>p_realm := (case service_realm (tc_config c) service of Some r \<Rightarrow> r | None \<Rightarrow> p_realm (tc_client c))\<rparr>
      else service)"

definition cached_service_ticket_at :: "system_time \<Rightarrow> tokio_client \<Rightarrow> principal \<Rightarrow> rep_session option" where
  "cached_service_ticket_at now c service =
     (let service = resolve_service_principal c service in
      case map_of (tc_service_tickets c) (service_cache_key service) of
        None \<Rightarrow> None
      | Some st \<Rightarrow> if \<not> session_valid_at st now then None else Some (st\<lparr>rs_service := service\<rparr>))"

definition remove_cached_service_ticket :: "principal \<Rightarrow> tokio_client \<Rightarrow> rep_session option \<times> tokio_client" where
  "remove_cached_service_ticket service c =
     (let key = service_cache_key (resolve_service_principal c service) in
      (map_of (tc_service_tickets c) key, c\<lparr>tc_service_tickets := bt_remove key (tc_service_tickets c)\<rparr>))"

definition prune_unusable_sessions_at :: "system_time \<Rightarrow> tokio_client \<Rightarrow> pruned_sessions \<times> tokio_client" where
  "prune_unusable_sessions_at now c =
     (let primary = (case tc_tgt c of Some tgt \<Rightarrow> \<not> session_usable_at tgt now | None \<Rightarrow> False);
          sessions = bt_retain (\<lambda>s. session_usable_at s now) (tc_tgt_sessions c);
          tickets = bt_retain (\<lambda>s. session_usable_at s now) (tc_service_tickets c)
      in (\<lparr>pr_primary_tgt = primary, pr_tgt_sessions = length (tc_tgt_sessions c) - length sessions,
           pr_service_tickets = length (tc_service_tickets c) - length tickets\<rparr>,
          c\<lparr>tc_tgt := (if primary then None else tc_tgt c), tc_tgt_sessions := sessions, tc_service_tickets := tickets\<rparr>))"

definition destroy :: "tokio_client \<Rightarrow> tokio_client" where
  "destroy c = c\<lparr>tc_credentials := None, tc_tgt := None, tc_tgt_sessions := [], tc_service_tickets := []\<rparr>"

definition tgt_refresh_due_at :: "system_time \<Rightarrow> tokio_client \<Rightarrow> bool" where
  "tgt_refresh_due_at now c = (case tc_tgt c of None \<Rightarrow> True | Some tgt \<Rightarrow> session_refresh_due_at tgt now)"

section \<open>Credential caches\<close>

definition ccache_principal :: "principal \<Rightarrow> cc_principal" where
  "ccache_principal p = cc_principal_new (p_realm p) (p_name_type p) (p_components p)"

definition client_principal_from_ccache :: "cc_principal \<Rightarrow> principal" where
  "client_principal_from_ccache v = principal_new (cc_realm v) (cc_name_type v) (cc_components v)"

definition same_ccache_client_identity :: "cc_principal \<Rightarrow> cc_principal \<Rightarrow> bool" where
  "same_ccache_client_identity l r \<longleftrightarrow> cc_realm l = cc_realm r \<and> cc_components l = cc_components r"

definition client_time_to_u32_seconds :: "system_time \<Rightarrow> exchange_error + u32" where
  "client_time_to_u32_seconds t =
     rbind (map_err (\<lambda>_. XClient CliTimeOverflow) (unix_timestamp_parts t)) (\<lambda>(seconds, nanos).
       if seconds < 0 \<or> nanos \<noteq> 0 then Inl (XClient CliTimeOverflow)
       else if seconds < 2 ^ 32 then Inr (word_of_int seconds) else Inl (XClient CliTimeOverflow))"

definition system_time_from_u32_seconds :: "u32 \<Rightarrow> system_time" where
  "system_time_from_u32_seconds seconds = int (from_secs (unat seconds))"

definition to_ccache_credential :: "rep_session \<Rightarrow> exchange_error + cc_credential" where
  "to_ccache_credential s =
     rbind (client_time_to_u32_seconds (rs_auth_time s)) (\<lambda>auth.
     rbind (client_time_to_u32_seconds (rs_start_time s)) (\<lambda>start.
     rbind (client_time_to_u32_seconds (rs_end_time s)) (\<lambda>end_t.
     rbind (traverse client_time_to_u32_seconds (rs_renew_till s)) (\<lambda>renew.
       Inr \<lparr>cc_client = ccache_principal (rs_client s), cc_server = ccache_principal (rs_service s),
            cc_key = \<lparr>cc_etype = kt_etype (rs_session_key s), cc_value = kt_value (rs_session_key s)\<rparr>,
            cc_times = \<lparr>cc_auth_time = auth, cc_start_time = start, cc_end_time = end_t,
              cc_renew_till = (case renew of Some r \<Rightarrow> r | None \<Rightarrow> 0)\<rparr>,
            cc_is_skey = False, cc_ticket_flags = rs_ticket_flags s, cc_addresses = [], cc_auth_data = [],
            cc_ticket = rs_ticket s, cc_second_ticket = []\<rparr>))))"

definition ccache_credential_session :: "cc_credential \<Rightarrow> rep_session" where
  "ccache_credential_session c =
     (let auth = system_time_from_u32_seconds (cc_auth_time (cc_times c)) in
      \<lparr>rs_client = client_principal_from_ccache (cc_client c), rs_service = client_principal_from_ccache (cc_server c),
       rs_session_key = \<lparr>kt_etype = cc_etype (cc_key c), kt_value = cc_value (cc_key c)\<rparr>,
       rs_ticket = cc_ticket c, rs_ticket_flags = cc_ticket_flags c, rs_auth_time = auth,
       rs_start_time = (if cc_start_time (cc_times c) = 0 then auth else system_time_from_u32_seconds (cc_start_time (cc_times c))),
       rs_end_time = system_time_from_u32_seconds (cc_end_time (cc_times c)),
       rs_renew_till = (if cc_renew_till (cc_times c) \<noteq> 0 then Some (system_time_from_u32_seconds (cc_renew_till (cc_times c))) else None),
       rs_key_expiration = None\<rparr>)"

text \<open>The clock is read once for the ticket-granting tickets and again for every service ticket (\<open>nows\<close>).\<close>

fun from_ccache_loop :: "cc_principal \<Rightarrow> system_time \<Rightarrow> (nat \<Rightarrow> system_time) \<Rightarrow> cc_credential list \<Rightarrow> tokio_client \<Rightarrow> tokio_client" where
  "from_ccache_loop owner now nows [] c = c"
| "from_ccache_loop owner now nows (cred # creds) c =
     (if \<not> same_ccache_client_identity (cc_client cred) owner then from_ccache_loop owner now nows creds c
      else let session = ccache_credential_session cred in
        if is_tgt_principal (rs_service session)
        then from_ccache_loop owner now nows creds (case cache_tgt_session_at now session c of Inr c' \<Rightarrow> c' | Inl _ \<Rightarrow> c)
        else from_ccache_loop owner now nows creds (cache_service_ticket_at (nows (length creds)) session c))"

definition from_ccache :: "config \<Rightarrow> kdc_protocol \<Rightarrow> system_time \<Rightarrow> (nat \<Rightarrow> system_time) \<Rightarrow> ccache \<Rightarrow> tokio_client" where
  "from_ccache cfg protocol now nows cache =
     from_ccache_loop (cc_default_principal cache) now nows (cc_entries cache)
       (tokio_client_new cfg protocol (client_principal_from_ccache (cc_default_principal cache)) None)"

definition from_tgt_session_at :: "config \<Rightarrow> kdc_protocol \<Rightarrow> system_time \<Rightarrow> rep_session \<Rightarrow> tokio_client" where
  "from_tgt_session_at cfg protocol now tgt =
     (let c = tokio_client_new cfg protocol (rs_client tgt) None in
      case cache_tgt_session_at now tgt c of Inr c' \<Rightarrow> c' | Inl _ \<Rightarrow> c)"

definition ccache_credentials :: "tokio_client \<Rightarrow> exchange_error + cc_credential list" where
  "ccache_credentials c =
     rbind (rmap to_ccache_credential
       (if tc_tgt_sessions c = [] then (case tc_tgt c of Some tgt \<Rightarrow> [tgt] | None \<Rightarrow> []) else map snd (tc_tgt_sessions c))) (\<lambda>tgts.
     rbind (rmap to_ccache_credential (map snd (tc_service_tickets c))) (\<lambda>tickets. Inr (tgts @ tickets)))"

definition upsert_all :: "ccache \<Rightarrow> cc_credential list \<Rightarrow> ccache" where
  "upsert_all cache creds = foldl (\<lambda>cc cred. snd (upsert_credential cc cred)) cache creds"

definition to_ccache :: "tokio_client \<Rightarrow> exchange_error + ccache" where
  "to_ccache c = rbind (ccache_credentials c) (\<lambda>creds. Inr (upsert_all (ccache_new (ccache_principal (tc_client c))) creds))"

text \<open>An error leaves the cache without the entries of the client.\<close>

definition update_ccache :: "tokio_client \<Rightarrow> ccache \<Rightarrow> (exchange_error + unit) \<times> ccache" where
  "update_ccache c cache =
     (let client = ccache_principal (tc_client c);
          cache = snd (remove_entries_for_client (cache\<lparr>cc_default_principal := client\<rparr>) client)
      in case ccache_credentials c of
        Inl e \<Rightarrow> (Inl e, cache)
      | Inr creds \<Rightarrow> (Inr (), upsert_all cache creds))"

definition configured_default_ccache_name :: "config \<Rightarrow> exchange_error + string" where
  "configured_default_ccache_name cfg =
     (let cache_name = ld_default_ccache_name (cfg_libdefaults cfg) in
      if cache_name = [] then Inl XNoDefaultCCacheName else Inr cache_name)"

definition default_ccache_name :: "(string \<Rightarrow> env_var) \<Rightarrow> config \<Rightarrow> exchange_error + string" where
  "default_ccache_name vars cfg =
     (case vars ''KRB5CCNAME'' of
        VarSet cache_name \<Rightarrow> Inr cache_name
      | VarNotPresent \<Rightarrow> configured_default_ccache_name cfg
      | VarNotUnicode \<Rightarrow> Inl (XCCache (DefaultCacheName VarNotUnicode)))"

definition default_client_keytab_name :: "(string \<Rightarrow> env_var) \<Rightarrow> config \<Rightarrow> exchange_error + string" where
  "default_client_keytab_name vars cfg =
     (case vars ''KRB5_CLIENT_KTNAME'' of
        VarSet keytab_name \<Rightarrow> Inr keytab_name
      | VarNotPresent \<Rightarrow> Inr (ld_default_client_keytab_name (cfg_libdefaults cfg))
      | VarNotUnicode \<Rightarrow> Inl XDefaultClientKeytabName)"

section \<open>Operations\<close>

type_synonym ('w, 'a) client_io = "tokio_client \<times> 'w \<Rightarrow> (exchange_error + 'a option) \<times> (tokio_client \<times> 'w)"

definition cbind :: "('w, 'a) client_io \<Rightarrow> ('a \<Rightarrow> ('w, 'b) client_io) \<Rightarrow> ('w, 'b) client_io" where
  "cbind m f s =
     (case m s of (Inl e, s') \<Rightarrow> (Inl e, s') | (Inr None, s') \<Rightarrow> (Inr None, s') | (Inr (Some x), s') \<Rightarrow> f x s')"

definition cof :: "exchange_error + 'a \<Rightarrow> ('w, 'a) client_io" where
  "cof r s = (case r of Inl e \<Rightarrow> (Inl e, s) | Inr x \<Rightarrow> (Inr (Some x), s))"

definition cread :: "(tokio_client \<Rightarrow> ('w, 'a) client_io) \<Rightarrow> ('w, 'a) client_io" where
  "cread f s = f (fst s) s"

definition cmodify :: "(tokio_client \<Rightarrow> tokio_client) \<Rightarrow> ('w, unit) client_io" where
  "cmodify f s = (Inr (Some ()), f (fst s), snd s)"

text \<open>\<open>expect\<close> panics on \<open>None\<close>.\<close>

definition cexpect :: "'a option \<Rightarrow> ('w, 'a) client_io" where
  "cexpect x s = (Inr x, s)"

text \<open>A call that uses the world only, and such a call whose error is matched.\<close>

definition cnet :: "('w, 'a) io \<Rightarrow> ('w, 'a) client_io" where
  "cnet m s = (case m (snd s) of (Inl e, w) \<Rightarrow> (Inl e, fst s, w) | (Inr x, w) \<Rightarrow> (Inr (Some x), fst s, w))"

definition cattempt :: "('w, 'a) io \<Rightarrow> ('w, 'a option) client_io" where
  "cattempt m s = (case m (snd s) of (Inl e, w) \<Rightarrow> (Inr (Some None), fst s, w) | (Inr x, w) \<Rightarrow> (Inr (Some (Some x)), fst s, w))"

definition cnow :: "'w net_env \<Rightarrow> ('w, system_time) client_io" where
  "cnow N = cnet (\<lambda>w. case net_now N w of (t, w) \<Rightarrow> (Inr t, w))"

definition random_nonce :: "'w net_env \<Rightarrow> ('w, u32) client_io" where
  "random_nonce N = cnet (\<lambda>w. case net_fill N 4 w of
     (bs, w) \<Rightarrow> (map_err XClient (rbind (ok_or bs CliRandom) (\<lambda>bs. Inr (from_bytes_en Big bs AND 0x7fffffff))), w))"

definition client_as_req_options :: "'w net_env \<Rightarrow> ('w, as_req_options) client_io" where
  "client_as_req_options N =
     cbind (cnow N) (\<lambda>now. cbind (random_nonce N) (\<lambda>nonce. cread (\<lambda>c. cof (Inr (
       (as_req_options_from_libdefaults now nonce (cfg_libdefaults (tc_config c)))
         \<lparr>aq_assume_preauthentication := tc_assume_preauthentication c, aq_fast_negotiation := tc_fast_negotiation c\<rparr>)))))"

definition client_tgs_req_options :: "'w net_env \<Rightarrow> ('w, tgs_req_options) client_io" where
  "client_tgs_req_options N =
     cbind (cnow N) (\<lambda>now. cbind (random_nonce N) (\<lambda>nonce. cread (\<lambda>c. cof (Inr (
       tgs_req_options_from_libdefaults now nonce (cfg_libdefaults (tc_config c)))))))"

definition cache_service_ticket :: "'w net_env \<Rightarrow> rep_session \<Rightarrow> ('w, unit) client_io" where
  "cache_service_ticket N st = cbind (cnow N) (\<lambda>now. cmodify (cache_service_ticket_at now st))"

definition cache_tgt_session :: "'w net_env \<Rightarrow> rep_session \<Rightarrow> ('w, unit) client_io" where
  "cache_tgt_session N tgt =
     cbind (cnow N) (\<lambda>now. cread (\<lambda>c. cbind (cof (cache_tgt_session_at now tgt c)) (\<lambda>c'. cmodify (\<lambda>_. c'))))"

fun cache_tgt_sessions :: "'w net_env \<Rightarrow> rep_session list \<Rightarrow> ('w, unit) client_io" where
  "cache_tgt_sessions N [] = cof (Inr ())"
| "cache_tgt_sessions N (t # ts) = cbind (cache_tgt_session N t) (\<lambda>_. cache_tgt_sessions N ts)"

definition store_renewed_tgt :: "rep_session \<Rightarrow> bool \<Rightarrow> ('w, rep_session) client_io" where
  "store_renewed_tgt renewed clear_tickets =
     cbind (cof (ok_or (tgt_realm renewed) (XInvalidTgtSession (p_name (rs_service renewed))))) (\<lambda>realm.
     cbind (cmodify (\<lambda>c.
       let c = (if realm = p_realm (tc_client c)
                then (if clear_tickets then c\<lparr>tc_tgt := Some renewed, tc_service_tickets := []\<rparr> else c\<lparr>tc_tgt := Some renewed\<rparr>)
                else c)
       in c\<lparr>tc_tgt_sessions := bt_insert realm renewed (tc_tgt_sessions c)\<rparr>)) (\<lambda>_. cof (Inr renewed)))"

definition renew_tgt_session_for_realm :: "'w net_env \<Rightarrow> kdc_asn1 \<Rightarrow> crypto_prims \<Rightarrow> string \<Rightarrow> ('w, rep_session) client_io" where
  "renew_tgt_session_for_realm N K P realm = cread (\<lambda>c.
     let tgt = (if realm = p_realm (tc_client c)
                then (case tc_tgt c of Some t \<Rightarrow> Some t | None \<Rightarrow> map_of (tc_tgt_sessions c) realm)
                else map_of (tc_tgt_sessions c) realm)
     in
     cbind (cof (ok_or tgt XNoTgtSession)) (\<lambda>tgt.
     cbind (client_tgs_req_options N) (\<lambda>opts.
     cbind (cnet (renew_tgt_with_config N K P (tc_transport c) (tc_config c) (tc_protocol c) tgt opts)) (\<lambda>renewed.
       store_renewed_tgt renewed True))))"

definition client_renew_tgt :: "'w net_env \<Rightarrow> kdc_asn1 \<Rightarrow> crypto_prims \<Rightarrow> ('w, rep_session) client_io" where
  "client_renew_tgt N K P = cread (\<lambda>c.
     cbind (renew_tgt_session_for_realm N K P (p_realm (tc_client c))) (\<lambda>_. cread (\<lambda>c. cexpect (tc_tgt c))))"

definition client_login :: "'w net_env \<Rightarrow> kdc_asn1 \<Rightarrow> crypto_prims \<Rightarrow> ('w, rep_session) client_io" where
  "client_login N K P = cread (\<lambda>c.
     case tc_credentials c of
       None \<Rightarrow>
         (case tc_tgt c of
            None \<Rightarrow> cof (Inl XNoClientCredentials)
          | Some tgt \<Rightarrow>
              cbind (cnow N) (\<lambda>now.
              if session_valid_at tgt now then cread (\<lambda>c. cexpect (tc_tgt c))
              else if session_renewable_at tgt now then client_renew_tgt N K P
              else cof (Inl XNoClientCredentials)))
     | Some credentials \<Rightarrow>
         cbind (client_as_req_options N) (\<lambda>opts.
         cbind (cnet (case credentials of
             Password password \<Rightarrow>
               login_tgt_with_password_config N K P (tc_transport c) (tc_config c) (tc_protocol c) (tc_client c) password opts
           | KeytabCredential kt \<Rightarrow>
               login_tgt_with_keytab_config N K P (tc_transport c) (tc_config c) (tc_protocol c) (tc_client c) kt opts)) (\<lambda>session.
         cbind (cmodify (\<lambda>c. c\<lparr>tc_tgt_sessions := []\<rparr>)) (\<lambda>_.
         cbind (cache_tgt_session N session) (\<lambda>_.
         cbind (cmodify (\<lambda>c. c\<lparr>tc_service_tickets := []\<rparr>)) (\<lambda>_.
           cread (\<lambda>c. cexpect (tc_tgt c))))))))"

definition affirm_login :: "'w net_env \<Rightarrow> kdc_asn1 \<Rightarrow> crypto_prims \<Rightarrow> ('w, rep_session) client_io" where
  "affirm_login N K P = cread (\<lambda>c.
     case tc_tgt c of
       Some tgt \<Rightarrow>
         cbind (cnow N) (\<lambda>now.
         if session_valid_at tgt now then cread (\<lambda>c. cexpect (tc_tgt c))
         else if session_renewable_at tgt now then client_renew_tgt N K P
         else client_login N K P)
     | None \<Rightarrow> client_login N K P)"

definition login_when_credentials :: "'w net_env \<Rightarrow> kdc_asn1 \<Rightarrow> crypto_prims \<Rightarrow> ('w, rep_session) client_io" where
  "login_when_credentials N K P = cread (\<lambda>c. if tc_credentials c = None then cof (Inl XNoClientCredentials) else client_login N K P)"

definition ensure_tgt :: "'w net_env \<Rightarrow> kdc_asn1 \<Rightarrow> crypto_prims \<Rightarrow> ('w, rep_session) client_io" where
  "ensure_tgt N K P = cread (\<lambda>c.
     case tc_tgt c of
       Some tgt \<Rightarrow>
         cbind (cnow N) (\<lambda>now.
         if session_valid_at tgt now \<and> \<not> session_refresh_due_at tgt now then cof (Inr tgt)
         else if session_renewable_at tgt now then client_renew_tgt N K P
         else if session_valid_at tgt now \<and> tc_credentials c = None then cof (Inr tgt)
         else login_when_credentials N K P)
     | None \<Rightarrow> login_when_credentials N K P)"

definition refresh_tgt_if_needed :: "'w net_env \<Rightarrow> kdc_asn1 \<Rightarrow> crypto_prims \<Rightarrow> ('w, rep_session) client_io" where
  "refresh_tgt_if_needed N K P =
     cbind (ensure_tgt N K P) (\<lambda>_. cread (\<lambda>c. cof (ok_or (tc_tgt c) XNoTgtSession)))"

definition renew_cached_tgt_session_for_realm :: "'w net_env \<Rightarrow> kdc_asn1 \<Rightarrow> crypto_prims \<Rightarrow> string \<Rightarrow> ('w, rep_session option) client_io" where
  "renew_cached_tgt_session_for_realm N K P realm = cread (\<lambda>c.
     case map_of (tc_tgt_sessions c) realm of
       None \<Rightarrow> cof (Inr None)
     | Some tgt \<Rightarrow>
         cbind (cnow N) (\<lambda>now.
         if \<not> session_renewable_at tgt now then cof (Inr None)
         else
           cbind (client_tgs_req_options N) (\<lambda>opts.
           cbind (cattempt (renew_tgt_with_config N K P (tc_transport c) (tc_config c) (tc_protocol c) tgt opts)) (\<lambda>renewed.
           case renewed of
             None \<Rightarrow> cof (Inr None)
           | Some renewed \<Rightarrow> cbind (store_renewed_tgt renewed False) (\<lambda>r. cof (Inr (Some r)))))))"

definition cached_tgt_session_for_realm :: "'w net_env \<Rightarrow> string \<Rightarrow> ('w, rep_session option) client_io" where
  "cached_tgt_session_for_realm N realm = cread (\<lambda>c.
     case map_of (tc_tgt_sessions c) realm of
       None \<Rightarrow> cof (Inr None)
     | Some tgt \<Rightarrow> cbind (cnow N) (\<lambda>now. cof (Inr (if session_valid_at tgt now then Some tgt else None))))"

definition tgt_for_service :: "'w net_env \<Rightarrow> kdc_asn1 \<Rightarrow> crypto_prims \<Rightarrow> string \<Rightarrow> ('w, rep_session) client_io" where
  "tgt_for_service N K P realm = cbind (cached_tgt_session_for_realm N realm) (\<lambda>cached. cread (\<lambda>c.
     case cached of
       Some tgt \<Rightarrow> cof (Inr tgt)
     | None \<Rightarrow>
         if realm \<noteq> p_realm (tc_client c) then
           cbind (renew_cached_tgt_session_for_realm N K P realm) (\<lambda>r.
             case r of Some tgt \<Rightarrow> cof (Inr tgt) | None \<Rightarrow> ensure_tgt N K P)
         else ensure_tgt N K P))"

definition acquire_service_ticket :: "'w net_env \<Rightarrow> kdc_asn1 \<Rightarrow> crypto_prims \<Rightarrow> principal \<Rightarrow> ('w, rep_session) client_io" where
  "acquire_service_ticket N K P service =
     cbind (tgt_for_service N K P (p_realm service)) (\<lambda>tgt.
     cbind (client_tgs_req_options N) (\<lambda>opts. cread (\<lambda>c.
     cbind (cnet (get_service_ticket_with_referral_trace N K P (tc_transport c) (tc_config c) (tc_protocol c) tgt service opts)) (\<lambda>(t, trace).
     cbind (cache_tgt_sessions N trace) (\<lambda>_.
     cbind (cache_service_ticket N t) (\<lambda>_. cof (Inr t)))))))"

definition get_service_ticket :: "'w net_env \<Rightarrow> kdc_asn1 \<Rightarrow> crypto_prims \<Rightarrow> principal \<Rightarrow> ('w, rep_session) client_io" where
  "get_service_ticket N K P service0 = cread (\<lambda>c.
     let service = resolve_service_principal c service0 in
     case map_of (tc_service_tickets c) (service_cache_key service) of
       None \<Rightarrow> acquire_service_ticket N K P service
     | Some st \<Rightarrow>
         cbind (cnow N) (\<lambda>now.
         if session_valid_at st now then cof (Inr (st\<lparr>rs_service := service\<rparr>))
         else if session_renewable_at st now then
           cbind (client_tgs_req_options N) (\<lambda>opts.
           cbind (cattempt (renew_ticket_with_config N K P (tc_transport c) (tc_config c) (tc_protocol c) st opts)) (\<lambda>renewed.
           case renewed of
             None \<Rightarrow> acquire_service_ticket N K P service
           | Some renewed \<Rightarrow>
               let renewed = renewed\<lparr>rs_service := service\<rparr> in
               cbind (cache_service_ticket N renewed) (\<lambda>_. cof (Inr renewed))))
         else acquire_service_ticket N K P service))"

definition client_s4u2self_with_options ::
  "'w net_env \<Rightarrow> kdc_asn1 \<Rightarrow> crypto_prims \<Rightarrow> principal \<Rightarrow> tgs_req_options \<Rightarrow> ('w, rep_session) client_io" where
  "client_s4u2self_with_options N K P user opts =
     cbind (ensure_tgt N K P) (\<lambda>service_tgt. cread (\<lambda>c.
       cnet (s4u2self_with_config N K P (tc_transport c) (tc_config c) (tc_protocol c) service_tgt user opts)))"

definition client_s4u2self :: "'w net_env \<Rightarrow> kdc_asn1 \<Rightarrow> crypto_prims \<Rightarrow> principal \<Rightarrow> ('w, rep_session) client_io" where
  "client_s4u2self N K P user = cbind (client_tgs_req_options N) (client_s4u2self_with_options N K P user)"

definition client_s4u2proxy_with_options ::
  "'w net_env \<Rightarrow> kdc_asn1 \<Rightarrow> crypto_prims \<Rightarrow> rep_session \<Rightarrow> principal \<Rightarrow> tgs_req_options \<Rightarrow> ('w, rep_session) client_io" where
  "client_s4u2proxy_with_options N K P evidence target opts =
     cbind (ensure_tgt N K P) (\<lambda>service_tgt. cread (\<lambda>c.
       cnet (s4u2proxy_with_config N K P (tc_transport c) (tc_config c) (tc_protocol c) service_tgt evidence target opts)))"

definition client_s4u2proxy :: "'w net_env \<Rightarrow> kdc_asn1 \<Rightarrow> crypto_prims \<Rightarrow> rep_session \<Rightarrow> principal \<Rightarrow> ('w, rep_session) client_io" where
  "client_s4u2proxy N K P evidence target = cbind (client_tgs_req_options N) (client_s4u2proxy_with_options N K P evidence target)"

text \<open>One round of the background task of \<open>spawn_auto_renewal_with_retry\<close> and whether the task goes on.  The task gives the lock
  on the client away while it waits: \<open>off d\<close> is what the other holders of the lock do in the time \<open>d\<close>.\<close>

definition auto_renewal_delay :: "system_time \<Rightarrow> tokio_client \<Rightarrow> duration" where
  "auto_renewal_delay now c = (case tc_tgt c of Some tgt \<Rightarrow> session_refresh_delay_at tgt now | None \<Rightarrow> 0)"

definition auto_renewal_round ::
  "'w net_env \<Rightarrow> kdc_asn1 \<Rightarrow> crypto_prims \<Rightarrow> (duration \<Rightarrow> tokio_client \<times> 'w \<Rightarrow> tokio_client \<times> 'w) \<Rightarrow> duration
    \<Rightarrow> tokio_client \<times> 'w \<Rightarrow> bool \<times> tokio_client \<times> 'w" where
  "auto_renewal_round N K P off retry_delay s =
     (let (c, w) = s;
          (now, w) = (if tc_tgt c = None then (0, w) else net_now N w);
          (c, w) = off (auto_renewal_delay now c) (c, w)
      in if tc_credentials c = None \<and> tc_tgt c = None then (False, c, w)
         else case refresh_tgt_if_needed N K P (c, w) of
           (Inl _, s) \<Rightarrow> (True, off (max retry_delay 1000000) s)
         | (Inr r, s) \<Rightarrow> (r \<noteq> None, s))"

end
