(* ===== verification/Keyed_Cache.thy ===== *)
theory Keyed_Cache
  imports Keyed_Store
begin

text \<open>
  A keyed store from which keys can also be dropped and whose values can be filtered.  \<open>keyed Q s\<close> says that every value
  of \<open>s\<close> stands under its own key and satisfies \<open>Q\<close>; every operation keeps it.
\<close>

locale keyed_cache = keyed_store key view put
  for key :: "'v \<Rightarrow> 'k" and view :: "'s \<Rightarrow> 'k \<rightharpoonup> 'v" and put :: "'s \<Rightarrow> 'v \<Rightarrow> 's" +
  fixes forget :: "'k \<Rightarrow> 's \<Rightarrow> 's"
    and retain :: "('v \<Rightarrow> bool) \<Rightarrow> 's \<Rightarrow> 's"
    and wf :: "'s \<Rightarrow> bool"
  assumes view_forget: "view (forget k s) = (view s)(k := None)"
    and view_retain: "wf s \<Longrightarrow> view (retain p s) k = (case view s k of Some v \<Rightarrow> if p v then Some v else None | None \<Rightarrow> None)"
    and wf_put: "wf s \<Longrightarrow> wf (put s v)"
    and wf_forget: "wf s \<Longrightarrow> wf (forget k s)"
    and wf_retain: "wf s \<Longrightarrow> wf (retain p s)"
begin

definition keyed :: "('v \<Rightarrow> bool) \<Rightarrow> 's \<Rightarrow> bool" where
  "keyed Q s \<longleftrightarrow> wf s \<and> (\<forall>k v. view s k = Some v \<longrightarrow> key v = k \<and> Q v)"

lemma keyedD: "keyed Q s \<Longrightarrow> view s k = Some v \<Longrightarrow> key v = k \<and> Q v"
  by (simp add: keyed_def)

lemma keyed_mono: "keyed Q s \<Longrightarrow> (\<And>v. Q v \<Longrightarrow> Q' v) \<Longrightarrow> keyed Q' s"
  by (simp add: keyed_def)

lemma keyed_put: "keyed Q s \<Longrightarrow> Q v \<Longrightarrow> keyed Q (put s v)"
  by (simp add: keyed_def view_put wf_put)

lemma keyed_forget: "keyed Q s \<Longrightarrow> keyed Q (forget k s)"
  by (simp add: keyed_def view_forget wf_forget)

lemma keyed_retain: "keyed Q s \<Longrightarrow> keyed (\<lambda>v. Q v \<and> p v) (retain p s)"
  by (auto simp: keyed_def view_retain wf_retain split: option.splits if_splits)

lemma keyed_retained: "keyed Q s \<Longrightarrow> keyed Q (retain p s)"
  using keyed_retain [of Q s p] by (simp add: keyed_def)

text \<open>Forgetting the key of a value before it is inserted makes no difference to what the cache holds.\<close>

lemma view_put_forget: "view (put (forget (key v) s) v) = view (put s v)"
  by (simp add: view_put view_forget)

end

end
