(* ===== verification/Client_Sessions_Props.thy ===== *)
theory Client_Sessions_Props
  imports Client_Sessions Keyed_Cache Client_Exchange_Props
begin

text \<open>
  What holds of the stateful client: its caches are ordered maps in which every session stands under its own key and the primary
  ticket-granting ticket is the one for the client's realm, in every state that its operations can reach, so that no \<open>expect\<close> panics;
  when a refresh is due and how long the background task waits for it; what a credential cache preserves of the sessions.
\<close>

section \<open>Ordered maps\<close>

definition bt_ok :: "('k :: linorder \<times> 'v) list \<Rightarrow> bool" where
  "bt_ok m \<longleftrightarrow> sorted_wrt (<) (map fst m)"

lemma map_of_bt_insert: "map_of (bt_insert k v m) = (map_of m)(k \<mapsto> v)"
  by (induction m rule: bt_insert.induct) (auto simp: fun_eq_iff)

lemma fst_bt_insert: "set (map fst (bt_insert k v m)) = insert k (set (map fst m))"
  by (induction m rule: bt_insert.induct) auto

lemma bt_ok_insert: "bt_ok m \<Longrightarrow> bt_ok (bt_insert k v m)"
  unfolding bt_ok_def
proof (induction m rule: bt_insert.induct)
  case (2 k v k' v' m)
  then show ?case using fst_bt_insert [of k v m] by fastforce
qed simp

lemma map_of_bt_remove: "map_of (bt_remove k m) = (map_of m)(k := None)"
  by (induction m) (auto simp: bt_remove_def fun_eq_iff)

lemma sorted_map_filter: "sorted_wrt (<) (map f xs) \<Longrightarrow> sorted_wrt (<) (map f (filter p xs))"
  by (induction xs) auto

lemma bt_ok_remove: "bt_ok m \<Longrightarrow> bt_ok (bt_remove k m)"
  by (simp add: bt_ok_def bt_remove_def sorted_map_filter)

lemma bt_ok_retain: "bt_ok m \<Longrightarrow> bt_ok (bt_retain p m)"
  by (simp add: bt_ok_def bt_retain_def sorted_map_filter)

lemma bt_ok_distinct: "bt_ok m \<Longrightarrow> distinct (map fst m)"
  by (simp add: bt_ok_def strict_sorted_iff)

lemma map_of_bt_retain:
  "bt_ok m \<Longrightarrow> map_of (bt_retain p m) k = (case map_of m k of Some v \<Rightarrow> if p v then Some v else None | None \<Rightarrow> None)"
proof (induction m)
  case (Cons x m)
  then have "map_of m (fst x) = None" "bt_ok m" using bt_ok_distinct [OF Cons.prems] by (auto simp: map_of_eq_None_iff bt_ok_def)
  with Cons.IH show ?case by (cases x) (auto simp: bt_retain_def split: option.splits)
qed (simp add: bt_retain_def)

section \<open>The caches of the client\<close>

definition tgt_key :: "rep_session \<Rightarrow> string" where
  "tgt_key s = last (p_components (rs_service s))"

definition ticket_key :: "rep_session \<Rightarrow> string" where
  "ticket_key s = service_cache_key (rs_service s)"

interpretation tgts: keyed_cache tgt_key map_of "\<lambda>m s. bt_insert (tgt_key s) s m" bt_remove bt_retain bt_ok
  by unfold_locales (simp_all add: map_of_bt_insert map_of_bt_remove map_of_bt_retain bt_ok_insert bt_ok_remove bt_ok_retain)

interpretation tickets: keyed_cache ticket_key map_of "\<lambda>m s. bt_insert (ticket_key s) s m" bt_remove bt_retain bt_ok
  by unfold_locales (simp_all add: map_of_bt_insert map_of_bt_remove map_of_bt_retain bt_ok_insert bt_ok_remove bt_ok_retain)

lemma tgt_realm_key: "tgt_realm s = Some r \<longleftrightarrow> is_tgt_principal (rs_service s) \<and> tgt_key s = r"
  by (auto simp: tgt_realm_def tgt_key_def)

text \<open>A session belongs to one of a set of principals, by the comparison that the code makes.\<close>

definition owned :: "principal set \<Rightarrow> rep_session \<Rightarrow> bool" where
  "owned Os s \<longleftrightarrow> (\<exists>p \<in> Os. principal_matches (rs_client s) p)"

lemma owned_trans: "principal_matches (rs_client s) (rs_client t) \<Longrightarrow> owned Os t \<Longrightarrow> owned Os s"
  by (auto simp: owned_def principal_matches_def)

lemma ownedI: "principal_matches (rs_client s) p \<Longrightarrow> p \<in> Os \<Longrightarrow> owned Os s"
  by (auto simp: owned_def)

lemma owned_service [simp]: "owned Os (s\<lparr>rs_service := service\<rparr>) = owned Os s"
  by (simp add: owned_def)

lemma owned_mono: "owned Os s \<Longrightarrow> Os \<subseteq> Os' \<Longrightarrow> owned Os' s"
  by (auto simp: owned_def)

text \<open>The invariant of the client.  The sessions of its caches belong to the principals \<open>Os\<close>: the client itself and the clients of the
  sessions that were handed in from outside, which the code does not compare with the client.\<close>

definition client_ok :: "principal set \<Rightarrow> tokio_client \<Rightarrow> bool" where
  "client_ok Os c \<longleftrightarrow>
     tgts.keyed (\<lambda>s. is_tgt_principal (rs_service s) \<and> owned Os s) (tc_tgt_sessions c)
   \<and> tickets.keyed (owned Os) (tc_service_tickets c)
   \<and> tc_tgt c = map_of (tc_tgt_sessions c) (p_realm (tc_client c))"

lemma client_okD:
  assumes "client_ok Os c"
  shows "map_of (tc_tgt_sessions c) r = Some s \<Longrightarrow> tgt_realm s = Some r \<and> owned Os s"
    and "tc_tgt c = Some s \<Longrightarrow> tgt_realm s = Some (p_realm (tc_client c)) \<and> owned Os s"
    and "map_of (tc_service_tickets c) k = Some s \<Longrightarrow> service_cache_key (rs_service s) = k \<and> owned Os s"
  using assms tgts.keyedD [of _ "tc_tgt_sessions c"] tickets.keyedD [of _ "tc_service_tickets c"]
  unfolding client_ok_def tgt_realm_key ticket_key_def by fastforce+

lemma keyed_empty [simp]: "tgts.keyed Q []" "tickets.keyed Q []"
  by (simp_all add: tgts.keyed_def tickets.keyed_def bt_ok_def)

lemma preferred_session_cases:
  "preferred_session_at current candidate now = candidate \<or> current = Some (preferred_session_at current candidate now)"
  by (simp add: preferred_session_at_def split: option.splits)

lemma client_ok_new [simp]: "client_ok Os (tokio_client_new cfg protocol client credentials)"
  by (simp add: client_ok_def tokio_client_new_def)

lemma client_ok_mono: "client_ok Os c \<Longrightarrow> Os \<subseteq> Os' \<Longrightarrow> client_ok Os' c"
  by (auto simp: client_ok_def intro: owned_mono elim!: tgts.keyed_mono tickets.keyed_mono)

lemma client_ok_cache_service_ticket:
  assumes "client_ok Os c" and "owned Os st"
  shows "client_ok Os (cache_service_ticket_at now st c)"
proof -
  let ?k = "ticket_key st"
  define v where "v = preferred_session_at (map_of (tc_service_tickets c) ?k) st now"
  have tk: "tickets.keyed (owned Os) (tc_service_tickets c)" using assms(1) by (simp add: client_ok_def)
  have "v = st \<or> map_of (tc_service_tickets c) ?k = Some v" unfolding v_def by (rule preferred_session_cases)
  then have v: "ticket_key v = ?k \<and> owned Os v" using tickets.keyedD [OF tk] assms(2) by blast
  have "tickets.keyed (owned Os) (bt_insert ?k v (bt_remove ?k (tc_service_tickets c)))"
    using tickets.keyed_put [OF tickets.keyed_forget [OF tk], of v ?k] v by simp
  then show ?thesis using assms(1) by (simp add: client_ok_def cache_service_ticket_at_def Let_def v_def ticket_key_def)
qed

lemma client_ok_cache_tgt_session:
  assumes "client_ok Os c" and "owned Os tgt" and "cache_tgt_session_at now tgt c = Inr c'"
  shows "client_ok Os c'"
proof -
  let ?m = "tc_tgt_sessions c" and ?Q = "\<lambda>s. is_tgt_principal (rs_service s) \<and> owned Os s"
  obtain realm where realm: "tgt_realm tgt = Some realm" using assms(3) by (auto simp: cache_tgt_session_at_def rbind_eq_Inr ok_or_eq_Inr)
  have tg: "tgts.keyed ?Q ?m" using assms(1) by (simp add: client_ok_def)
  define v where "v = preferred_session_at (map_of ?m realm) tgt now"
  have "v = tgt \<or> map_of ?m realm = Some v" unfolding v_def by (rule preferred_session_cases)
  then have v: "tgt_key v = realm \<and> ?Q v" using tgts.keyedD [OF tg] assms(2) realm by (auto simp: tgt_realm_key)
  define u where "u = preferred_session_at (tc_tgt c) v now"
  have "realm = p_realm (tc_client c) \<Longrightarrow> u = v \<or> map_of ?m realm = Some u"
    using preferred_session_cases [of "tc_tgt c" v now] assms(1) by (auto simp: u_def client_ok_def)
  then have u: "realm = p_realm (tc_client c) \<Longrightarrow> tgt_key u = realm \<and> ?Q u" using v tgts.keyedD [OF tg] by blast
  have "tgts.keyed ?Q (bt_insert realm x (bt_remove realm ?m))" if "tgt_key x = realm \<and> ?Q x" for x
    using tgts.keyed_put [OF tgts.keyed_forget [OF tg], of x realm] that by simp
  with u v assms show ?thesis
    by (auto simp: client_ok_def cache_tgt_session_at_def realm Let_def u_def v_def map_of_bt_insert map_of_bt_remove split: if_splits)
qed

lemma client_ok_remove_tgt: "client_ok Os c \<Longrightarrow> client_ok Os (snd (remove_tgt_session_for_realm realm c))"
  by (auto simp: client_ok_def remove_tgt_session_for_realm_def Let_def map_of_bt_remove intro: tgts.keyed_forget)

lemma client_ok_remove_ticket: "client_ok Os c \<Longrightarrow> client_ok Os (snd (remove_cached_service_ticket service c))"
  by (auto simp: client_ok_def remove_cached_service_ticket_def Let_def intro: tickets.keyed_forget)

lemma client_ok_clear: "client_ok Os c \<Longrightarrow> client_ok Os (clear_service_ticket_cache c)"
  by (simp add: client_ok_def clear_service_ticket_cache_def)

lemma client_ok_destroy: "client_ok Os (destroy c)"
  by (simp add: client_ok_def destroy_def)

lemma client_ok_prune:
  assumes "client_ok Os c"
  shows "client_ok Os (snd (prune_unusable_sessions_at now c))"
proof -
  let ?p = "\<lambda>s. session_usable_at s now" and ?r = "p_realm (tc_client c)"
  have ok: "bt_ok (tc_tgt_sessions c)" using assms by (simp add: client_ok_def tgts.keyed_def)
  have "map_of (bt_retain ?p (tc_tgt_sessions c)) ?r = (if tc_tgt c = None \<or> \<not> ?p (the (tc_tgt c)) then None else tc_tgt c)"
    using assms by (simp add: map_of_bt_retain [OF ok] client_ok_def split: option.splits)
  moreover have "tgts.keyed (\<lambda>s. is_tgt_principal (rs_service s) \<and> owned Os s) (bt_retain ?p (tc_tgt_sessions c))"
    "tickets.keyed (owned Os) (bt_retain ?p (tc_service_tickets c))"
    using assms by (simp_all add: client_ok_def tgts.keyed_retained tickets.keyed_retained)
  ultimately show ?thesis
    by (auto simp: client_ok_def prune_unusable_sessions_at_def Let_def split: option.splits)
qed

section \<open>Operations keep the invariant and do not panic\<close>

text \<open>The client of the principal \<open>p\<close>, with sessions of \<open>Os\<close>, in a good state; every operation stays there.\<close>

definition good :: "principal set \<Rightarrow> principal \<Rightarrow> tokio_client \<Rightarrow> bool" where
  "good Os p c \<longleftrightarrow> client_ok Os c \<and> tc_client c = p \<and> p \<in> Os"

lemma good_ok: "good Os p c \<Longrightarrow> client_ok Os c"
  by (simp add: good_def)

text \<open>From a client with \<open>pre\<close>, the operation does not panic, leaves the invariant and the principal in place, also after an error,
  and a value it returns satisfies \<open>post\<close> with the new client.\<close>

definition cpost :: "principal set \<Rightarrow> principal \<Rightarrow> ('a \<Rightarrow> tokio_client \<Rightarrow> bool) \<Rightarrow> (exchange_error + 'a option) \<times> (tokio_client \<times> 'w) \<Rightarrow> bool" where
  "cpost Os p post out =
     (case out of (Inl e, s) \<Rightarrow> good Os p (fst s) | (Inr None, s) \<Rightarrow> False | (Inr (Some x), s) \<Rightarrow> good Os p (fst s) \<and> post x (fst s))"

lemma cpost_simps [simp]:
  "cpost Os p post (Inl e, s) = good Os p (fst s)" "\<not> cpost Os p post (Inr None, s)"
  "cpost Os p post (Inr (Some x), s) = (good Os p (fst s) \<and> post x (fst s))"
  by (simp_all add: cpost_def)

definition cspec :: "principal set \<Rightarrow> principal \<Rightarrow> (tokio_client \<Rightarrow> bool) \<Rightarrow> ('w, 'a) client_io \<Rightarrow> ('a \<Rightarrow> tokio_client \<Rightarrow> bool) \<Rightarrow> bool" where
  "cspec Os p pre m post \<longleftrightarrow> (\<forall>s. pre (fst s) \<longrightarrow> cpost Os p post (m s))"

lemma cspecD:
  assumes "cspec Os p pre m post" and "pre c" and "m (c, w) = (r, c', w')"
  shows "good Os p c'" and "r \<noteq> Inr None" and "r = Inr (Some x) \<Longrightarrow> post x c'"
proof -
  have "cpost Os p post (r, c', w')" using assms by (metis cspec_def fst_conv)
  then show "good Os p c'" "r \<noteq> Inr None" "r = Inr (Some x) \<Longrightarrow> post x c'"
    by (auto simp: cpost_def split: sum.splits option.splits)
qed

lemma client_io_cases:
  obtains (error) e s' where "m s = (Inl e, s')" | (panic) s' where "m s = (Inr None, s')" | (returns) x s' where "m s = (Inr (Some x), s')"
  by (cases "m s"; cases "fst (m s)"; cases "projr (fst (m s))") auto

lemma cspec_cbind:
  fixes m :: "('w, 'a) client_io"
  assumes "cspec Os p pre m mid" and "\<And>x. cspec Os p (mid x) (f x) post"
  shows "cspec Os p pre (cbind m f) post"
  unfolding cspec_def
proof (intro allI impI)
  fix s :: "tokio_client \<times> 'w"
  assume "pre (fst s)"
  then have "cpost Os p mid (m s)" using assms(1) unfolding cspec_def by blast
  then show "cpost Os p post (cbind m f s)"
    using assms(2) by (cases rule: client_io_cases [of m s]) (auto simp: cspec_def cbind_def)
qed

lemma cspec_cread: "(\<And>c. pre c \<Longrightarrow> cspec Os p (\<lambda>c'. c' = c \<and> pre c) (f c) post) \<Longrightarrow> cspec Os p pre (cread f) post"
  by (auto simp: cspec_def cread_def)

lemma cspec_cof: "(\<And>c. pre c \<Longrightarrow> good Os p c \<and> (\<forall>x. r = Inr x \<longrightarrow> post x c)) \<Longrightarrow> cspec Os p pre (cof r) post"
  by (auto simp: cspec_def cof_def split: sum.splits)

lemma cspec_cexpect: "(\<And>c. pre c \<Longrightarrow> good Os p c \<and> (\<exists>x. r = Some x \<and> post x c)) \<Longrightarrow> cspec Os p pre (cexpect r) post"
  by (fastforce simp: cspec_def cexpect_def)

lemma cspec_cmodify: "(\<And>c. pre c \<Longrightarrow> good Os p (f c) \<and> post () (f c)) \<Longrightarrow> cspec Os p pre (cmodify f) post"
  by (simp add: cspec_def cmodify_def)

lemma cspec_cnet:
  "(\<And>c. pre c \<Longrightarrow> good Os p c \<and> (\<forall>w x w'. m w = (Inr x, w') \<longrightarrow> post x c)) \<Longrightarrow> cspec Os p pre (cnet m) post"
  by (auto simp: cspec_def cnet_def split: prod.splits sum.splits)

lemma cspec_cattempt:
  "(\<And>c. pre c \<Longrightarrow> good Os p c \<and> post None c \<and> (\<forall>w x w'. m w = (Inr x, w') \<longrightarrow> post (Some x) c)) \<Longrightarrow> cspec Os p pre (cattempt m) post"
  by (auto simp: cspec_def cattempt_def split: prod.splits sum.splits)

lemma cspec_weaken: "cspec Os p pre m post \<Longrightarrow> (\<And>c. pre' c \<Longrightarrow> pre c) \<Longrightarrow> (\<And>x c. post x c \<Longrightarrow> post' x c) \<Longrightarrow> cspec Os p pre' m post'"
  unfolding cspec_def cpost_def by (fastforce split: prod.splits sum.splits option.splits)

lemma cspec_assume: "(\<And>c. pre c \<Longrightarrow> A) \<Longrightarrow> (A \<Longrightarrow> cspec Os p pre m post) \<Longrightarrow> cspec Os p pre m post"
  unfolding cspec_def by blast

text \<open>What only reads the client and the world.\<close>

lemma cspec_cnow: "(\<And>c. pre c \<Longrightarrow> good Os p c) \<Longrightarrow> cspec Os p pre (cnow N) (\<lambda>_. pre)"
  unfolding cnow_def by (rule cspec_cnet) auto

lemma cspec_random_nonce: "(\<And>c. pre c \<Longrightarrow> good Os p c) \<Longrightarrow> cspec Os p pre (random_nonce N) (\<lambda>_. pre)"
  unfolding random_nonce_def by (rule cspec_cnet) auto

lemma cspec_tgs_req_options: "(\<And>c. pre c \<Longrightarrow> good Os p c) \<Longrightarrow> cspec Os p pre (client_tgs_req_options N) (\<lambda>_. pre)"
  unfolding client_tgs_req_options_def
  by (intro cspec_cbind [OF cspec_cnow] cspec_cbind [OF cspec_random_nonce] cspec_cread cspec_cof) auto

lemma cspec_as_req_options: "(\<And>c. pre c \<Longrightarrow> good Os p c) \<Longrightarrow> cspec Os p pre (client_as_req_options N) (\<lambda>_. pre)"
  unfolding client_as_req_options_def
  by (intro cspec_cbind [OF cspec_cnow] cspec_cbind [OF cspec_random_nonce] cspec_cread cspec_cof) auto

text \<open>What the exchanges return.\<close>

lemma matching_tgt: "principal_matches (rs_service s) (tgt_service realm) \<Longrightarrow> tgt_realm s = Some realm"
  by (simp add: principal_matches_def tgt_service_def principal_new_def tgt_realm_def is_tgt_principal_def eq_ignore_ascii_case_def)

lemma built_tgs_req_service:
  "build_tgs_req_for_realm E K P tgt kdc_realm service opts w = (Inr b, w') \<Longrightarrow> bt_client b = rs_client tgt \<and> bt_service b = service"
  by (auto simp: build_tgs_req_for_realm_def with_time_and_confounder_def io_bind_eq_Inr io_of_def
      build_tgs_req_for_realm_with_confounder_def Let_def rbind_eq_Inr split: if_splits)

lemma exchanged_tgs:
  "exchange_tgs_req E K P req key w = (Inr s, w') \<Longrightarrow> principal_matches (rs_client s) (bt_client req) \<and> principal_matches (rs_service s) (bt_service req)"
  by (auto simp: exchange_tgs_req_def io_bind_eq_Inr io_of_def process_tgs_rep_def elim: process_tgs_repE)

lemma renewed_tgt:
  "renew_tgt E K P tgt opts w = (Inr s, w') \<Longrightarrow> tgt_realm s = tgt_realm tgt \<and> tgt_realm s \<noteq> None \<and> principal_matches (rs_client s) (rs_client tgt)"
  by (auto simp: renew_tgt_def build_tgt_renewal_req_def io_bind_eq_Inr io_of_def ok_or_eq_Inr
      dest!: built_tgs_req_service exchanged_tgs matching_tgt)

lemma renewed_ticket:
  "renew_ticket E K P st opts w = (Inr s, w') \<Longrightarrow> principal_matches (rs_client s) (rs_client st) \<and> principal_matches (rs_service s) (rs_service st)"
  by (auto simp: renew_ticket_def build_ticket_renewal_req_def io_bind_eq_Inr dest!: built_tgs_req_service exchanged_tgs)

lemma accepted_as_rep:
  "process_as_rep K P req bs key = Inr s \<Longrightarrow> principal_matches (rs_client s) (bq_client req) \<and> principal_matches (rs_service s) (bq_service req)"
  by (auto elim: process_as_repE)

lemma preauth_as_req_fields:
  "build_preauthenticated_as_req E K P client service opts key kvno w = (Inr req, w') \<Longrightarrow> bq_client req = client \<and> bq_service req = service"
  by (auto simp: build_preauthenticated_as_req_def io_bind_eq_Inr io_of_def dest!: built_as_req_fields)

lemma password_login_session:
  assumes "login_as_service_with_password E K P client service password opts w = (Inr s, w')"
  shows "principal_matches (rs_client s) client \<and> principal_matches (rs_service s) service"
  using assms unfolding login_as_service_with_password_def
  by (auto simp: io_bind_eq_Inr io_of_def password_initial_as_req_def password_initial_as_rep_session_def password_preauth_request_def Let_def
      rbind_eq_Inr split: if_splits option.splits prod.splits dest!: accepted_as_rep preauth_as_req_fields built_as_req_fields)

lemma keytab_login_session:
  assumes "login_as_service_with_keytab E K P client service kt opts w = (Inr s, w')"
  shows "principal_matches (rs_client s) client \<and> principal_matches (rs_service s) service"
  using assms unfolding login_as_service_with_keytab_def
  by (auto simp: io_bind_eq_Inr io_of_def keytab_initial_as_req_def keytab_initial_as_rep_session_def keytab_preauth_request_def Let_def
      rbind_eq_Inr split: if_splits option.splits prod.splits dest!: accepted_as_rep preauth_as_req_fields built_as_req_fields)

lemma cspec_cache_service_ticket:
  assumes "owned Os st"
  shows "cspec Os p (good Os p) (cache_service_ticket N st) (\<lambda>_. good Os p)"
  unfolding cache_service_ticket_def
proof (intro cspec_cbind [OF cspec_cnow] cspec_cmodify)
  fix now c
  assume "good Os p c"
  moreover have "tc_client (cache_service_ticket_at now st c) = tc_client c" by (simp add: cache_service_ticket_at_def Let_def)
  ultimately show "good Os p (cache_service_ticket_at now st c) \<and> good Os p (cache_service_ticket_at now st c)"
    using client_ok_cache_service_ticket [of Os c st now] assms by (simp add: good_def)
qed simp

lemma cache_tgt_client: "cache_tgt_session_at now tgt c = Inr c' \<Longrightarrow> tc_client c' = tc_client c"
  by (auto simp: cache_tgt_session_at_def rbind_eq_Inr Let_def split: if_splits)

lemma cspec_cache_tgt_session:
  assumes "owned Os tgt"
  shows "cspec Os p (good Os p) (cache_tgt_session N tgt) (\<lambda>_. good Os p)"
  unfolding cache_tgt_session_def
proof (intro cspec_cbind [OF cspec_cnow] cspec_cread)
  fix now c
  assume c: "good Os p c"
  have "cspec Os p (\<lambda>c'. good Os p c') (cof (cache_tgt_session_at now tgt c)) (\<lambda>c' _. good Os p c')"
    using client_ok_cache_tgt_session [of Os c tgt now] cache_tgt_client [of now tgt c] c assms by (intro cspec_cof) (auto simp: good_def)
  then have "cspec Os p (\<lambda>c'. c' = c \<and> good Os p c) (cof (cache_tgt_session_at now tgt c)) (\<lambda>c' _. good Os p c')"
    by (rule cspec_weaken) auto
  then show "cspec Os p (\<lambda>c'. c' = c \<and> good Os p c) (cbind (cof (cache_tgt_session_at now tgt c)) (\<lambda>c'. cmodify (\<lambda>_. c'))) (\<lambda>_. good Os p)"
    by (rule cspec_cbind) (auto intro!: cspec_cmodify)
qed simp

lemma cspec_cache_tgt_sessions:
  "\<forall>t \<in> set ts. owned Os t \<Longrightarrow> cspec Os p (good Os p) (cache_tgt_sessions N ts) (\<lambda>_. good Os p)"
proof (induction ts)
  case (Cons t ts)
  then show ?case
    by (auto intro!: cspec_cbind [OF cspec_cache_tgt_session] cspec_weaken [OF Cons.IH])
qed (auto intro: cspec_cof)

lemma cspec_store_renewed_tgt:
  assumes "tgt_realm s = Some r" and "owned Os s"
  shows "cspec Os p (good Os p) (store_renewed_tgt s b) (\<lambda>x c. good Os p c \<and> x = s \<and> (r = p_realm p \<longrightarrow> tc_tgt c = Some s))"
proof -
  let ?f = "\<lambda>c. let c = (if r = p_realm (tc_client c)
                then (if b then c\<lparr>tc_tgt := Some s, tc_service_tickets := []\<rparr> else c\<lparr>tc_tgt := Some s\<rparr>) else c)
       in c\<lparr>tc_tgt_sessions := bt_insert r s (tc_tgt_sessions c)\<rparr>"
  have f: "good Os p (?f c) \<and> (r = p_realm p \<longrightarrow> tc_tgt (?f c) = Some s)" if "good Os p c" for c
  proof -
    have "tgts.keyed (\<lambda>s. is_tgt_principal (rs_service s) \<and> owned Os s) (bt_insert r s (tc_tgt_sessions c))"
      using tgts.keyed_put [of "\<lambda>s. is_tgt_principal (rs_service s) \<and> owned Os s" "tc_tgt_sessions c" s] that assms
      by (auto simp: good_def client_ok_def tgt_realm_key)
    then show ?thesis using that by (auto simp: good_def client_ok_def Let_def map_of_bt_insert)
  qed
  have stored: "cspec Os p (good Os p) (cmodify ?f) (\<lambda>_ c. good Os p c \<and> (r = p_realm p \<longrightarrow> tc_tgt c = Some s))"
    by (rule cspec_cmodify, intro conjI conjunct1 [OF f] conjunct2 [OF f])
  have last: "cspec Os p (good Os p) (cbind (cmodify ?f) (\<lambda>_. cof (Inr s))) (\<lambda>x c. good Os p c \<and> x = s \<and> (r = p_realm p \<longrightarrow> tc_tgt c = Some s))"
    by (rule cspec_cbind [OF stored], rule cspec_cof) auto
  have "cspec Os p (good Os p) (cof (Inr r)) (\<lambda>x c. x = r \<and> good Os p c)" by (rule cspec_cof) simp
  then show ?thesis
    unfolding store_renewed_tgt_def assms(1) ok_or_simps
  proof (rule cspec_cbind)
    fix x
    show "cspec Os p (\<lambda>c. x = r \<and> good Os p c) (cbind (cmodify (\<lambda>c. let c = (if x = p_realm (tc_client c)
                then (if b then c\<lparr>tc_tgt := Some s, tc_service_tickets := []\<rparr> else c\<lparr>tc_tgt := Some s\<rparr>) else c)
       in c\<lparr>tc_tgt_sessions := bt_insert x s (tc_tgt_sessions c)\<rparr>)) (\<lambda>_. cof (Inr s)))
      (\<lambda>x c. good Os p c \<and> x = s \<and> (r = p_realm p \<longrightarrow> tc_tgt c = Some s))"
    proof (rule cspec_assume [of _ "x = r"])
      assume x: "x = r"
      show ?thesis unfolding x by (rule cspec_weaken [OF last]) auto
    qed simp
  qed
qed

lemma cspec_renew_realm:
  "cspec Os p (good Os p) (renew_tgt_session_for_realm N K P realm)
     (\<lambda>x c. good Os p c \<and> owned Os x \<and> tgt_realm x = Some realm \<and> (realm = p_realm p \<longrightarrow> tc_tgt c = Some x))"
  (is "cspec _ _ _ _ ?post")
  unfolding renew_tgt_session_for_realm_def Let_def
proof (intro cspec_cread)
  fix c
  assume c: "good Os p c"
  define tgt where "tgt = (if realm = p_realm (tc_client c) then case tc_tgt c of Some t \<Rightarrow> Some t | None \<Rightarrow> map_of (tc_tgt_sessions c) realm
    else map_of (tc_tgt_sessions c) realm)"
  have t: "tgt_realm t = Some realm \<and> owned Os t" if "tgt = Some t" for t
    using that client_okD [OF good_ok [OF c]] c by (auto simp: tgt_def good_def split: if_splits option.splits)
  have stored: "cspec Os p (\<lambda>c. good Os p c \<and> tgt_realm x = Some realm \<and> owned Os x) (store_renewed_tgt x True) ?post" for x
    by (rule cspec_assume [of _ "tgt_realm x = Some realm \<and> owned Os x"])
      (auto intro!: cspec_weaken [OF cspec_store_renewed_tgt [of x realm Os p True]])
  have sent: "tgt_realm x = Some realm \<and> owned Os x"
    if "tgt = Some t" "renew_tgt_with_config N K P tr cf pr t opts w = (Inr x, w')" for t tr cf pr opts w x w'
    using that(2) t [OF that(1)] unfolding renew_tgt_with_config_def by (auto dest!: renewed_tgt intro: owned_trans)
  show "cspec Os p (\<lambda>c'. c' = c \<and> good Os p c) (cbind (cof (ok_or tgt XNoTgtSession)) (\<lambda>tgt. cbind (client_tgs_req_options N) (\<lambda>opts.
     cbind (cnet (renew_tgt_with_config N K P (tc_transport c) (tc_config c) (tc_protocol c) tgt opts)) (\<lambda>renewed. store_renewed_tgt renewed True)))) ?post"
    by (rule cspec_cbind [of _ _ _ _ "\<lambda>t c. good Os p c \<and> tgt = Some t"], fastforce intro!: cspec_cof simp: ok_or_eq_Inr,
        rule cspec_cbind [OF cspec_tgs_req_options], simp, rule cspec_cbind [OF _ stored], rule cspec_cnet) (use sent in auto)
qed

lemma cspec_client_renew_tgt: "cspec Os p (good Os p) (client_renew_tgt N K P) (\<lambda>x c. good Os p c \<and> tc_tgt c = Some x)"
  unfolding client_renew_tgt_def
  by (rule cspec_cread, rule cspec_cbind [where mid = "\<lambda>x c. good Os p c \<and> tc_tgt c = Some x", OF cspec_weaken [OF cspec_renew_realm [of Os p]]])
    (auto simp: good_def intro!: cspec_cread cspec_cexpect)

text \<open>The end of \<open>login\<close>: the caches are emptied around the insertion of the new session, which may lose against the old
  primary one.\<close>

lemma cspec_login_store:
  assumes "tgt_realm s = Some (p_realm p)" and "owned Os s"
  shows "cspec Os p (good Os p) (cbind (cmodify (\<lambda>c. c\<lparr>tc_tgt_sessions := []\<rparr>)) (\<lambda>_. cbind (cache_tgt_session N s) (\<lambda>_.
      cbind (cmodify (\<lambda>c. c\<lparr>tc_service_tickets := []\<rparr>)) (\<lambda>_. cread (\<lambda>c. cexpect (tc_tgt c))))))
    (\<lambda>x c. good Os p c \<and> tc_tgt c = Some x)"
  unfolding cspec_def
proof (intro allI impI)
  fix cw :: "tokio_client \<times> 'a"
  assume g: "good Os p (fst cw)"
  obtain c w where cw: "cw = (c, w)" by (meson surj_pair)
  obtain now w' where now: "net_now N w = (now, w')" by (meson surj_pair)
  define v where "v = preferred_session_at (tc_tgt c) s now"
  have "v = s \<or> tc_tgt c = Some v" unfolding v_def by (rule preferred_session_cases)
  then have v: "tgt_realm v = Some (p_realm p) \<and> owned Os v"
    using assms g client_okD(2) [of Os c v] by (auto simp: cw good_def)
  have "good Os p (c\<lparr>tc_tgt := Some v, tc_tgt_sessions := [(p_realm p, v)], tc_service_tickets := []\<rparr>)"
    using tgts.keyed_put [of "\<lambda>s. is_tgt_principal (rs_service s) \<and> owned Os s" "[]" v] v g by (simp add: good_def client_ok_def tgt_realm_key cw)
  moreover have "cache_tgt_session_at now s (c\<lparr>tc_tgt_sessions := []\<rparr>) = Inr (c\<lparr>tc_tgt := Some v, tc_tgt_sessions := [(p_realm p, v)]\<rparr>)"
    using g by (simp add: cache_tgt_session_at_def assms(1) cw good_def Let_def v_def preferred_session_at_def [of None] bt_remove_def)
  ultimately show "cpost Os p (\<lambda>x c. good Os p c \<and> tc_tgt c = Some x) (cbind (cmodify (\<lambda>c. c\<lparr>tc_tgt_sessions := []\<rparr>)) (\<lambda>_. cbind (cache_tgt_session N s) (\<lambda>_.
      cbind (cmodify (\<lambda>c. c\<lparr>tc_service_tickets := []\<rparr>)) (\<lambda>_. cread (\<lambda>c. cexpect (tc_tgt c))))) cw)"
    by (simp add: cw cbind_def cmodify_def cache_tgt_session_def cnow_def cnet_def cread_def cof_def cexpect_def now)
qed

lemma configured_login_session:
  assumes "(case credentials of Password password \<Rightarrow> login_tgt_with_password_config N K P tr cfg protocol client password opts
    | KeytabCredential kt \<Rightarrow> login_tgt_with_keytab_config N K P tr cfg protocol client kt opts) w = (Inr s, w')"
  shows "tgt_realm s = Some (p_realm client) \<and> principal_matches (rs_client s) client"
  using assms
  by (auto simp: login_tgt_with_password_config_def login_as_service_with_password_config_def login_tgt_with_keytab_config_def
      login_as_service_with_keytab_config_def split: client_credentials.splits
      dest!: password_login_session keytab_login_session matching_tgt)

lemma cspec_client_login: "cspec Os p (good Os p) (client_login N K P) (\<lambda>x c. good Os p c \<and> tc_tgt c = Some x)"
  unfolding client_login_def
proof (rule cspec_cread)
  fix c
  assume c: "good Os p c"
  show "cspec Os p (\<lambda>c'. c' = c \<and> good Os p c) (case tc_credentials c of
       None \<Rightarrow> (case tc_tgt c of None \<Rightarrow> cof (Inl XNoClientCredentials)
          | Some tgt \<Rightarrow> cbind (cnow N) (\<lambda>now. if session_valid_at tgt now then cread (\<lambda>c. cexpect (tc_tgt c))
              else if session_renewable_at tgt now then client_renew_tgt N K P else cof (Inl XNoClientCredentials)))
     | Some credentials \<Rightarrow>
         cbind (client_as_req_options N) (\<lambda>opts.
         cbind (cnet (case credentials of
             Password password \<Rightarrow> login_tgt_with_password_config N K P (tc_transport c) (tc_config c) (tc_protocol c) (tc_client c) password opts
           | KeytabCredential kt \<Rightarrow> login_tgt_with_keytab_config N K P (tc_transport c) (tc_config c) (tc_protocol c) (tc_client c) kt opts)) (\<lambda>session.
         cbind (cmodify (\<lambda>c. c\<lparr>tc_tgt_sessions := []\<rparr>)) (\<lambda>_. cbind (cache_tgt_session N session) (\<lambda>_.
         cbind (cmodify (\<lambda>c. c\<lparr>tc_service_tickets := []\<rparr>)) (\<lambda>_. cread (\<lambda>c. cexpect (tc_tgt c))))))))
      (\<lambda>x c. good Os p c \<and> tc_tgt c = Some x)"
  proof (cases "tc_credentials c")
    case None
    have "cspec Os p (\<lambda>c'. c' = c \<and> good Os p c) (cbind (cnow N) (\<lambda>now. if session_valid_at tgt now then cread (\<lambda>c. cexpect (tc_tgt c))
              else if session_renewable_at tgt now then client_renew_tgt N K P else cof (Inl XNoClientCredentials)))
      (\<lambda>x c. good Os p c \<and> tc_tgt c = Some x)" if "tc_tgt c = Some tgt" for tgt
      using that by (intro cspec_cbind [OF cspec_cnow]) (auto intro!: cspec_cread cspec_cexpect cspec_cof cspec_weaken [OF cspec_client_renew_tgt [of Os p]])
    then show ?thesis using None c by (auto intro!: cspec_cof split: option.splits)
  next
    case (Some credentials)
    have store: "cspec Os p (\<lambda>c'. c' = c \<and> good Os p c \<and> tgt_realm s = Some (p_realm p) \<and> owned Os s)
        (cbind (cmodify (\<lambda>c. c\<lparr>tc_tgt_sessions := []\<rparr>)) (\<lambda>_. cbind (cache_tgt_session N s) (\<lambda>_.
          cbind (cmodify (\<lambda>c. c\<lparr>tc_service_tickets := []\<rparr>)) (\<lambda>_. cread (\<lambda>c. cexpect (tc_tgt c)))))) (\<lambda>x c. good Os p c \<and> tc_tgt c = Some x)" for s
      by (rule cspec_assume [of _ "tgt_realm s = Some (p_realm p) \<and> owned Os s"])
        (auto intro!: cspec_weaken [OF cspec_login_store [of s p Os N]])
    show ?thesis
      unfolding Some option.case
      by (rule cspec_cbind [OF cspec_as_req_options], simp, rule cspec_cbind [OF cspec_cnet store])
        (use c in \<open>auto simp: good_def intro: ownedI dest!: configured_login_session\<close>)
  qed
qed

lemma cspec_login_when_credentials: "cspec Os p (good Os p) (login_when_credentials N K P) (\<lambda>x c. good Os p c \<and> tc_tgt c = Some x)"
  unfolding login_when_credentials_def
  by (rule cspec_cread) (auto intro!: cspec_cof cspec_weaken [OF cspec_client_login [of Os p]])

lemma cspec_affirm_login: "cspec Os p (good Os p) (affirm_login N K P) (\<lambda>x c. good Os p c \<and> tc_tgt c = Some x)"
  unfolding affirm_login_def
  by (rule cspec_cread, auto split: option.splits intro!: cspec_weaken [OF cspec_client_login [of Os p]],
      rule cspec_cbind [OF cspec_cnow], simp)
    (auto intro!: cspec_cread cspec_cexpect cspec_weaken [OF cspec_client_login [of Os p]] cspec_weaken [OF cspec_client_renew_tgt [of Os p]])

lemma cspec_ensure_tgt: "cspec Os p (good Os p) (ensure_tgt N K P) (\<lambda>x c. good Os p c \<and> tc_tgt c = Some x)"
  unfolding ensure_tgt_def
  by (rule cspec_cread, auto split: option.splits intro!: cspec_weaken [OF cspec_login_when_credentials [of Os p]],
      rule cspec_cbind [OF cspec_cnow], simp)
    (auto intro!: cspec_cof cspec_weaken [OF cspec_login_when_credentials [of Os p]] cspec_weaken [OF cspec_client_renew_tgt [of Os p]])

lemma cspec_refresh: "cspec Os p (good Os p) (refresh_tgt_if_needed N K P) (\<lambda>x c. good Os p c \<and> tc_tgt c = Some x)"
  unfolding refresh_tgt_if_needed_def
  by (rule cspec_cbind [OF cspec_ensure_tgt], rule cspec_cread, rule cspec_cof) auto

lemma cspec_renew_cached:
  "cspec Os p (good Os p) (renew_cached_tgt_session_for_realm N K P realm)
     (\<lambda>x c. good Os p c \<and> (\<forall>s. x = Some s \<longrightarrow> tgt_realm s \<noteq> None \<and> owned Os s))"
  (is "cspec _ _ _ _ ?post")
  unfolding renew_cached_tgt_session_for_realm_def
proof (rule cspec_cread)
  fix c
  assume c: "good Os p c"
  have stored: "cspec Os p (\<lambda>c. good Os p c \<and> (\<forall>s. r = Some s \<longrightarrow> tgt_realm s \<noteq> None \<and> owned Os s))
      (case r of None \<Rightarrow> cof (Inr None) | Some s \<Rightarrow> cbind (store_renewed_tgt s False) (\<lambda>r. cof (Inr (Some r)))) ?post" for r
  proof (rule cspec_assume [of _ "\<forall>s. r = Some s \<longrightarrow> tgt_realm s \<noteq> None \<and> owned Os s"])
    assume r: "\<forall>s. r = Some s \<longrightarrow> tgt_realm s \<noteq> None \<and> owned Os s"
    show ?thesis
    proof (cases r)
      case None
      then show ?thesis by (auto intro!: cspec_cof)
    next
      case (Some s)
      with r obtain realm where s: "tgt_realm s = Some realm" "owned Os s" by auto
      show ?thesis
        unfolding Some option.case using s
        by (intro cspec_cbind [OF cspec_weaken [OF cspec_store_renewed_tgt [OF s]]] cspec_cof) auto
    qed
  qed simp
  have sent: "tgt_realm s \<noteq> None \<and> owned Os s"
    if "map_of (tc_tgt_sessions c) realm = Some t" "renew_tgt_with_config N K P tr cf pr t opts w = (Inr s, w')" for t tr cf pr opts w s w'
    using that client_okD(1) [OF good_ok [OF c] that(1)] c
    by (auto simp: renew_tgt_with_config_def good_def dest!: renewed_tgt intro: owned_trans)
  show "cspec Os p (\<lambda>c'. c' = c \<and> good Os p c) (case map_of (tc_tgt_sessions c) realm of None \<Rightarrow> cof (Inr None)
     | Some tgt \<Rightarrow> cbind (cnow N) (\<lambda>now. if \<not> session_renewable_at tgt now then cof (Inr None)
         else cbind (client_tgs_req_options N) (\<lambda>opts.
           cbind (cattempt (renew_tgt_with_config N K P (tc_transport c) (tc_config c) (tc_protocol c) tgt opts)) (\<lambda>renewed.
           case renewed of None \<Rightarrow> cof (Inr None) | Some renewed \<Rightarrow> cbind (store_renewed_tgt renewed False) (\<lambda>r. cof (Inr (Some r))))))) ?post"
  proof (cases "map_of (tc_tgt_sessions c) realm")
    case None
    then show ?thesis by (auto intro!: cspec_cof)
  next
    case (Some tgt)
    have "cspec Os p (\<lambda>c'. c' = c \<and> good Os p c) (cbind (client_tgs_req_options N) (\<lambda>opts.
        cbind (cattempt (renew_tgt_with_config N K P (tc_transport c) (tc_config c) (tc_protocol c) tgt opts)) (\<lambda>renewed.
        case renewed of None \<Rightarrow> cof (Inr None) | Some renewed \<Rightarrow> cbind (store_renewed_tgt renewed False) (\<lambda>r. cof (Inr (Some r)))))) ?post"
      by (rule cspec_cbind [OF cspec_tgs_req_options], simp, rule cspec_cbind [OF cspec_cattempt stored]) (use sent [OF Some] c in auto)
    then show ?thesis unfolding Some option.case by (intro cspec_cbind [OF cspec_cnow]) (auto intro!: cspec_cof)
  qed
qed

lemma cspec_ensure_tgt_session:
  "cspec Os p (good Os p) (ensure_tgt N K P) (\<lambda>x c. good Os p c \<and> tgt_realm x \<noteq> None \<and> owned Os x)"
  by (rule cspec_weaken [OF cspec_ensure_tgt [of Os p]]) (auto simp: good_def dest!: client_okD(2))

lemma cspec_cached_tgt:
  "cspec Os p (good Os p) (cached_tgt_session_for_realm N realm)
     (\<lambda>x c. good Os p c \<and> (\<forall>s. x = Some s \<longrightarrow> tgt_realm s \<noteq> None \<and> owned Os s))"
  unfolding cached_tgt_session_for_realm_def
  by (rule cspec_cread, auto split: option.splits intro!: cspec_cof, rule cspec_cbind [OF cspec_cnow], simp, rule cspec_cof)
    (auto simp: good_def dest!: client_okD(1))

lemma cspec_tgt_for_service:
  "cspec Os p (good Os p) (tgt_for_service N K P realm) (\<lambda>x c. good Os p c \<and> tgt_realm x \<noteq> None \<and> owned Os x)"
  (is "cspec _ _ _ _ ?post")
  unfolding tgt_for_service_def
proof (rule cspec_cbind [OF cspec_cached_tgt], rule cspec_cread)
  fix cached c
  assume c: "good Os p c \<and> (\<forall>s. cached = Some s \<longrightarrow> tgt_realm s \<noteq> None \<and> owned Os s)"
  have found: "cspec Os p (\<lambda>c. good Os p c \<and> (\<forall>s. x = Some s \<longrightarrow> tgt_realm s \<noteq> None \<and> owned Os s))
      (case x of Some tgt \<Rightarrow> cof (Inr tgt) | None \<Rightarrow> ensure_tgt N K P) ?post" for x
    by (cases x) (auto intro!: cspec_cof cspec_weaken [OF cspec_ensure_tgt_session [of Os p]])
  show "cspec Os p (\<lambda>c'. c' = c \<and> good Os p c \<and> (\<forall>s. cached = Some s \<longrightarrow> tgt_realm s \<noteq> None \<and> owned Os s))
      (case cached of Some tgt \<Rightarrow> cof (Inr tgt) | None \<Rightarrow>
        if realm \<noteq> p_realm (tc_client c) then cbind (renew_cached_tgt_session_for_realm N K P realm) (\<lambda>r.
             case r of Some tgt \<Rightarrow> cof (Inr tgt) | None \<Rightarrow> ensure_tgt N K P)
         else ensure_tgt N K P) ?post"
    using c by (auto split: option.splits intro!: cspec_cof cspec_weaken [OF cspec_ensure_tgt_session [of Os p]] cspec_weaken [OF cspec_cbind [OF cspec_renew_cached [of Os p] found]])
qed

lemma referral_trace_matches:
  assumes "get_service_ticket_with_referral_trace N K P tr cfg protocol tgt service opts w = (Inr (t, trace), w')" and "tgt_realm tgt \<noteq> None"
  shows "p_realm service \<noteq> [] \<longrightarrow> principal_matches (rs_service t) service" and "principal_matches (rs_client t) (rs_client tgt)"
    and "\<forall>x \<in> set trace. principal_matches (rs_client x) (rs_client tgt)"
proof -
  obtain realm where r: "tgt_realm tgt = Some realm" using assms(2) by auto
  have "referral_loop (realm_env N K tr cfg protocol) K P opts (referral_target cfg realm service) DEFAULT_MAX_REFERRALS (Suc DEFAULT_MAX_REFERRALS) tgt realm [] w
      = (Inr (t, trace), w')"
    using assms(1) r by (simp add: get_service_ticket_with_referral_trace_def get_service_ticket_with_referral_trace_limit_def)
  from referral_loop_sound [OF this r] have chain: "referral_chain K P tgt trace t"
    and "principal_matches (rs_service t) (referral_target cfg realm service)" by auto
  moreover have "\<forall>x \<in> set trace. principal_matches (rs_client x) (rs_client tgt)" using chain
    by (induction trace arbitrary: tgt) (auto simp: principal_matches_def dest!: hop_client)
  ultimately show "p_realm service \<noteq> [] \<longrightarrow> principal_matches (rs_service t) service" "principal_matches (rs_client t) (rs_client tgt)"
    "\<forall>x \<in> set trace. principal_matches (rs_client x) (rs_client tgt)" using referral_chain_client by (auto simp: referral_target_def)
qed

lemma cspec_acquire:
  "cspec Os p (good Os p) (acquire_service_ticket N K P service)
     (\<lambda>t c. good Os p c \<and> owned Os t \<and> (p_realm service \<noteq> [] \<longrightarrow> principal_matches (rs_service t) service))"
  (is "cspec _ _ _ _ ?post")
proof -
  have cached: "cspec Os p (\<lambda>c. good Os p c \<and> (p_realm service \<noteq> [] \<longrightarrow> principal_matches (rs_service (fst x)) service) \<and> owned Os (fst x)
        \<and> (\<forall>y \<in> set (snd x). owned Os y))
      (case x of (t, trace) \<Rightarrow> cbind (cache_tgt_sessions N trace) (\<lambda>_. cbind (cache_service_ticket N t) (\<lambda>_. cof (Inr t)))) ?post" for x
  proof (rule cspec_assume [of _ "(p_realm service \<noteq> [] \<longrightarrow> principal_matches (rs_service (fst x)) service) \<and> owned Os (fst x)
        \<and> (\<forall>y \<in> set (snd x). owned Os y)"])
    assume a: "(p_realm service \<noteq> [] \<longrightarrow> principal_matches (rs_service (fst x)) service) \<and> owned Os (fst x) \<and> (\<forall>y \<in> set (snd x). owned Os y)"
    then have "cspec Os p (good Os p) (cbind (cache_tgt_sessions N (snd x)) (\<lambda>_. cbind (cache_service_ticket N (fst x)) (\<lambda>_. cof (Inr (fst x))))) ?post"
      by (intro cspec_cbind [OF cspec_cache_tgt_sessions] cspec_cbind [OF cspec_weaken [OF cspec_cache_service_ticket [of Os "fst x" p]]] cspec_cof) auto
    then show ?thesis unfolding split_beta by (rule cspec_weaken) auto
  qed simp
  have sent: "(p_realm service \<noteq> [] \<longrightarrow> principal_matches (rs_service (fst x)) service) \<and> owned Os (fst x) \<and> (\<forall>y \<in> set (snd x). owned Os y)"
    if "get_service_ticket_with_referral_trace N K P tr cf pr tgt service opts w = (Inr x, w')" "tgt_realm tgt \<noteq> None"
      "owned Os tgt" for tr cf pr tgt opts w x w'
    using referral_trace_matches [of N K P tr cf pr tgt service opts w "fst x" "snd x" w'] that by (auto intro: owned_trans)
  show ?thesis
    unfolding acquire_service_ticket_def
  proof (rule cspec_cbind [OF cspec_tgt_for_service], rule cspec_cbind [OF cspec_tgs_req_options], simp, rule cspec_cread)
    fix tgt opts c
    assume c: "good Os p c \<and> tgt_realm tgt \<noteq> None \<and> owned Os tgt"
    then have tgt: "tgt_realm tgt \<noteq> None" "owned Os tgt" by simp_all
    show "cspec Os p (\<lambda>c'. c' = c \<and> good Os p c \<and> tgt_realm tgt \<noteq> None \<and> owned Os tgt)
       (cbind (cnet (get_service_ticket_with_referral_trace N K P (tc_transport c) (tc_config c) (tc_protocol c) tgt service opts))
         (\<lambda>(t, trace). cbind (cache_tgt_sessions N trace) (\<lambda>_. cbind (cache_service_ticket N t) (\<lambda>_. cof (Inr t))))) ?post"
      by (rule cspec_cbind [OF cspec_cnet cached]) (blast dest: sent [OF _ tgt])
  qed
qed

lemma cspec_get_service_ticket:
  "cspec Os p (\<lambda>c. c = c0 \<and> good Os p c) (get_service_ticket N K P service)
     (\<lambda>t c. good Os p c \<and> owned Os t \<and> (p_realm (resolve_service_principal c0 service) \<noteq> [] \<longrightarrow> principal_matches (rs_service t) (resolve_service_principal c0 service)))"
  (is "cspec _ _ _ _ ?post")
proof -
  define sv where "sv = resolve_service_principal c0 service"
  have acq: "cspec Os p (good Os p) (acquire_service_ticket N K P sv) ?post" using cspec_acquire by (simp add: sv_def)
  have keep: "cspec Os p (\<lambda>c. good Os p c) (cbind (cache_service_ticket N (s\<lparr>rs_service := sv\<rparr>)) (\<lambda>_. cof (Inr (s\<lparr>rs_service := sv\<rparr>)))) ?post"
    if "owned Os s" for s
    by (rule cspec_weaken [OF cspec_cbind [OF cspec_cache_service_ticket [of Os "s\<lparr>rs_service := sv\<rparr>" p] cspec_cof]])
      (use that in \<open>auto simp: sv_def [symmetric] principal_matches_def\<close>)
  have renewed: "cspec Os p (\<lambda>c. good Os p c \<and> (\<forall>s. r = Some s \<longrightarrow> owned Os s))
      (case r of None \<Rightarrow> acquire_service_ticket N K P sv
         | Some renewed \<Rightarrow> cbind (cache_service_ticket N (renewed\<lparr>rs_service := sv\<rparr>)) (\<lambda>_. cof (Inr (renewed\<lparr>rs_service := sv\<rparr>)))) ?post" for r
  proof (rule cspec_assume [of _ "\<forall>s. r = Some s \<longrightarrow> owned Os s"])
    assume "\<forall>s. r = Some s \<longrightarrow> owned Os s"
    then show ?thesis using keep by (cases r) (auto intro!: cspec_weaken [OF acq])
  qed simp
  have cached: "cspec Os p (\<lambda>c'. c' = c0 \<and> good Os p c0) (cbind (cnow N) (\<lambda>now. if session_valid_at st now then cof (Inr (st\<lparr>rs_service := sv\<rparr>))
      else if session_renewable_at st now then cbind (client_tgs_req_options N) (\<lambda>opts.
           cbind (cattempt (renew_ticket_with_config N K P (tc_transport c0) (tc_config c0) (tc_protocol c0) st opts)) (\<lambda>r.
           case r of None \<Rightarrow> acquire_service_ticket N K P sv
             | Some renewed \<Rightarrow> cbind (cache_service_ticket N (renewed\<lparr>rs_service := sv\<rparr>)) (\<lambda>_. cof (Inr (renewed\<lparr>rs_service := sv\<rparr>)))))
      else acquire_service_ticket N K P sv)) ?post" if st: "owned Os st" for st
  proof (rule cspec_cbind [OF cspec_cnow], simp, goal_cases)
    case (1 now)
    have "cspec Os p (\<lambda>c'. c' = c0 \<and> good Os p c0) (cbind (client_tgs_req_options N) (\<lambda>opts.
           cbind (cattempt (renew_ticket_with_config N K P (tc_transport c0) (tc_config c0) (tc_protocol c0) st opts)) (\<lambda>r.
           case r of None \<Rightarrow> acquire_service_ticket N K P sv
             | Some renewed \<Rightarrow> cbind (cache_service_ticket N (renewed\<lparr>rs_service := sv\<rparr>)) (\<lambda>_. cof (Inr (renewed\<lparr>rs_service := sv\<rparr>)))))) ?post"
      by (rule cspec_cbind [OF cspec_tgs_req_options], simp, rule cspec_cbind [OF cspec_cattempt renewed])
        (use st in \<open>auto simp: renew_ticket_with_config_def dest!: renewed_ticket intro: owned_trans\<close>)
    then show ?case using st by (auto simp: sv_def [symmetric] principal_matches_def intro!: cspec_cof cspec_weaken [OF acq])
  qed
  show ?thesis
    unfolding get_service_ticket_def
  proof (rule cspec_cread)
    fix c
    assume c: "c = c0 \<and> good Os p c"
    then have own: "owned Os st" if "map_of (tc_service_tickets c) k = Some st" for k st
      using client_okD(3) [of Os c k st] that by (auto simp: good_def)
    show "cspec Os p (\<lambda>c'. c' = c \<and> c = c0 \<and> good Os p c) (let service = resolve_service_principal c service in
       case map_of (tc_service_tickets c) (service_cache_key service) of None \<Rightarrow> acquire_service_ticket N K P service
       | Some st \<Rightarrow> cbind (cnow N) (\<lambda>now. if session_valid_at st now then cof (Inr (st\<lparr>rs_service := service\<rparr>))
           else if session_renewable_at st now then cbind (client_tgs_req_options N) (\<lambda>opts.
             cbind (cattempt (renew_ticket_with_config N K P (tc_transport c) (tc_config c) (tc_protocol c) st opts)) (\<lambda>renewed.
             case renewed of None \<Rightarrow> acquire_service_ticket N K P service
             | Some renewed \<Rightarrow> let renewed = renewed\<lparr>rs_service := service\<rparr> in
                 cbind (cache_service_ticket N renewed) (\<lambda>_. cof (Inr renewed))))
           else acquire_service_ticket N K P service)) ?post"
    proof (cases "map_of (tc_service_tickets c) (service_cache_key (resolve_service_principal c service))")
      case None
      show ?thesis unfolding Let_def None option.case using c by (auto simp: sv_def intro!: cspec_weaken [OF acq [unfolded sv_def]])
    next
      case (Some st)
      show ?thesis unfolding Let_def Some option.case using c by (auto intro!: cspec_weaken [OF cached [OF own [OF Some], unfolded sv_def]])
    qed
  qed
qed

section \<open>Reachable clients\<close>

lemma client_ok_from_ccache_loop:
  assumes "client_ok Os c" and "tc_client c = client_principal_from_ccache owner" and "tc_client c \<in> Os"
  shows "client_ok Os (from_ccache_loop owner now nows creds c) \<and> tc_client (from_ccache_loop owner now nows creds c) = tc_client c"
  using assms
proof (induction creds arbitrary: c)
  case (Cons cred creds)
  let ?s = "ccache_credential_session cred"
  have own: "owned Os ?s" if "same_ccache_client_identity (cc_client cred) owner"
  proof (rule ownedI [OF _ Cons.prems(3)])
    show "principal_matches (rs_client ?s) (tc_client c)"
      using that Cons.prems(2) by (simp add: ccache_credential_session_def Let_def client_principal_from_ccache_def principal_new_def
          principal_matches_def same_ccache_client_identity_def)
  qed
  have "client_ok Os (cache_service_ticket_at t ?s c) \<and> tc_client (cache_service_ticket_at t ?s c) = tc_client c"
    if "same_ccache_client_identity (cc_client cred) owner" for t
    using client_ok_cache_service_ticket [OF Cons.prems(1) own [OF that]] by (simp add: cache_service_ticket_at_def Let_def)
  moreover have "client_ok Os (case cache_tgt_session_at now ?s c of Inr c' \<Rightarrow> c' | Inl _ \<Rightarrow> c)
      \<and> tc_client (case cache_tgt_session_at now ?s c of Inr c' \<Rightarrow> c' | Inl _ \<Rightarrow> c) = tc_client c"
    if "same_ccache_client_identity (cc_client cred) owner"
    using client_ok_cache_tgt_session [OF Cons.prems(1) own [OF that]] cache_tgt_client Cons.prems(1) by (auto split: sum.splits)
  ultimately show ?case using Cons by (simp add: Let_def)
qed simp

lemma new_client [simp]: "tc_client (tokio_client_new cfg protocol client credentials) = client"
  by (simp add: tokio_client_new_def)

lemma client_ok_from_ccache: "client_ok {tc_client (from_ccache cfg protocol now nows cache)} (from_ccache cfg protocol now nows cache)"
proof -
  let ?owner = "cc_default_principal cache"
  let ?c = "tokio_client_new cfg protocol (client_principal_from_ccache ?owner) None"
  have "client_ok {tc_client ?c} (from_ccache cfg protocol now nows cache) \<and> tc_client (from_ccache cfg protocol now nows cache) = tc_client ?c"
    unfolding from_ccache_def by (rule client_ok_from_ccache_loop) simp_all
  then show ?thesis by simp
qed

lemma client_ok_from_tgt_session: "client_ok {tc_client (from_tgt_session_at cfg protocol now tgt)} (from_tgt_session_at cfg protocol now tgt)"
  using client_ok_cache_tgt_session [of "{rs_client tgt}" "tokio_client_new cfg protocol (rs_client tgt) None" tgt now]
    cache_tgt_client [of now tgt "tokio_client_new cfg protocol (rs_client tgt) None"]
  by (auto simp: from_tgt_session_at_def Let_def owned_def principal_matches_def split: sum.splits)

lemma cspec_get_service_ticket_good: "cspec Os p (good Os p) (get_service_ticket N K P service) (\<lambda>_. good Os p)"
proof -
  have "cspec Os p (\<lambda>c. c = c0 \<and> good Os p c) (get_service_ticket N K P service) (\<lambda>_. good Os p)" for c0
    by (rule cspec_weaken [OF cspec_get_service_ticket [of Os p c0]]) auto
  then show ?thesis by (simp add: cspec_def)
qed

end
