(* ===== verification/Client_Kpasswd.thy ===== *)
theory Client_Kpasswd
  imports Client_Sessions_Props
begin

text \<open>
  The client side of a password change (\<open>src/client/kpasswd.rs\<close>): the request built from a service ticket for
  \<open>kadmin/changepw\<close>, the check of the AP-REP of the answer, and the change of a password by the stateful client, which
  logs in for the service, sends the request to a kpasswd server of the target's realm and keeps the new password.
\<close>

section \<open>Requests\<close>

record kpasswd_request_options =
  kq_timestamp :: system_time
  kq_cusec :: u32
  kq_sequence_number :: u32
  kq_sender_address :: rasn_address
  kq_recipient_address :: "rasn_address option"

definition kpasswd_request_options_new :: "system_time \<Rightarrow> u32 \<Rightarrow> u32 \<Rightarrow> rasn_address \<Rightarrow> kpasswd_request_options" where
  "kpasswd_request_options_new timestamp cusec sequence_number sender =
     \<lparr>kq_timestamp = timestamp, kq_cusec = cusec, kq_sequence_number = sequence_number, kq_sender_address = sender,
      kq_recipient_address = None\<rparr>"

definition kpasswd_with_recipient_address :: "kpasswd_request_options \<Rightarrow> rasn_address \<Rightarrow> kpasswd_request_options" where
  "kpasswd_with_recipient_address opts a = opts\<lparr>kq_recipient_address := Some a\<rparr>"

record built_kpasswd_request =
  bk_request :: kpasswd_request
  bk_der :: bytes
  bk_reply_key :: kt_key
  bk_ap_req :: built_ap_req

record verified_kpasswd_ap_rep =
  vk_ctime :: system_time
  vk_cusec :: u32
  vk_authenticator_time :: system_time
  vk_subkey :: "kt_key option"
  vk_sequence_number :: "u32 option"

fun x_ap_rep_error :: "message_error \<Rightarrow> exchange_error" where
  "x_ap_rep_error (MsgDecode t) = XClient (CliDecode t)"
| "x_ap_rep_error (MsgEncode t) = XClient (CliEncode t)"
| "x_ap_rep_error (MsgInvalidMessage f e a) = XClient (CliInvalidMessage f e a)"
| "x_ap_rep_error (MsgUnsupportedEtype e) = XClient (CliUnsupportedEtype e)"
| "x_ap_rep_error (MsgKeyEtypeMismatch k d) = XApRepKeyEtypeMismatch k d"
| "x_ap_rep_error MsgRandom = XClient CliRandom"
| "x_ap_rep_error (MsgCrypto e) = XClient (CliCrypto e)"

definition build_kpasswd_ap_req_with_confounder ::
  "asn1 \<Rightarrow> crypto_prims \<Rightarrow> rep_session \<Rightarrow> kt_key \<Rightarrow> kpasswd_request_options \<Rightarrow> bytes \<Rightarrow> exchange_error + built_ap_req" where
  "build_kpasswd_ap_req_with_confounder A P service_ticket reply_key opts confounder =
     map_err XClient (client_build_ap_req_with_confounder A P service_ticket
       (ap_req_options_new\<lparr>arq_subkey := Some reply_key, arq_sequence_number := Some (kq_sequence_number opts)\<rparr>)
       (kq_timestamp opts) (kq_cusec opts) confounder)"

definition kpasswd_krb_priv_options :: "asn1 \<Rightarrow> kpasswd_request_options \<Rightarrow> exchange_error + enc_krb_priv_part_options" where
  "kpasswd_krb_priv_options A opts =
     rbind (map_err XClient (client_kerberos_time A (kq_timestamp opts))) (\<lambda>t.
     let o1 = priv_with_sequence_number (priv_with_timestamp (priv_options_new (kq_sender_address opts)) t (kq_cusec opts))
                (kq_sequence_number opts)
     in Inr (case kq_recipient_address opts of Some a \<Rightarrow> priv_with_recipient_address o1 a | None \<Rightarrow> o1))"

definition built_kpasswd :: "built_ap_req \<Rightarrow> built_change_password_request \<Rightarrow> built_kpasswd_request" where
  "built_kpasswd ap_req built =
     \<lparr>bk_request = bc_request built, bk_der = bc_der built, bk_reply_key = bc_reply_key built, bk_ap_req = ap_req\<rparr>"

definition build_kpasswd_request_with_confounders ::
  "kdc_asn1 \<Rightarrow> crypto_prims \<Rightarrow> rep_session \<Rightarrow> change_passwd_data \<Rightarrow> kt_key \<Rightarrow> kpasswd_request_options \<Rightarrow> bytes \<Rightarrow> bytes
    \<Rightarrow> exchange_error + built_kpasswd_request" where
  "build_kpasswd_request_with_confounders K P service_ticket change_data reply_key opts ap_req_confounder krb_priv_confounder =
     rbind (build_kpasswd_ap_req_with_confounder (k_base K) P service_ticket reply_key opts ap_req_confounder) (\<lambda>ap_req.
     rbind (kpasswd_krb_priv_options (k_base K) opts) (\<lambda>priv_opts.
     rbind (map_err XKadmin (build_change_password_request_with_confounder K P (ba_message ap_req) change_data reply_key
         priv_opts krb_priv_confounder)) (\<lambda>built.
       Inr (built_kpasswd ap_req built))))"

definition net_random :: "'w net_env \<Rightarrow> nat \<Rightarrow> ('w, bytes) io" where
  "net_random N n w = (case net_fill N n w of (bs, w) \<Rightarrow> (ok_or bs (XClient CliRandom), w))"

text \<open>The change data are encoded before the last confounder is drawn.\<close>

definition build_kpasswd_request ::
  "'w net_env \<Rightarrow> kdc_asn1 \<Rightarrow> crypto_prims \<Rightarrow> rep_session \<Rightarrow> change_passwd_data \<Rightarrow> kpasswd_request_options \<Rightarrow> ('w, built_kpasswd_request) io" where
  "build_kpasswd_request N K P service_ticket change_data opts =
     (let id = kt_etype (rs_session_key service_ticket) in
      io_bind (io_of (ok_or (ket_from_etype_id id) (XClient (CliUnsupportedEtype id)))) (\<lambda>etype.
      io_bind (net_random N (ket_key_len etype)) (\<lambda>key.
      let reply_key = \<lparr>kt_etype = id, kt_value = key\<rparr> in
      io_bind (net_random N (ket_confounder_len etype)) (\<lambda>ap_req_confounder.
      io_bind (io_of (build_kpasswd_ap_req_with_confounder (k_base K) P service_ticket reply_key opts ap_req_confounder)) (\<lambda>ap_req.
      io_bind (io_of (kpasswd_krb_priv_options (k_base K) opts)) (\<lambda>priv_opts.
      io_bind (io_of (map_err XKadmin (change_passwd_data_encode_der K change_data))) (\<lambda>_ w.
      case net_fill N (ket_confounder_len etype) w of (bs, w) \<Rightarrow>
        (rbind (map_err XKadmin (build_change_password_request K P (\<lambda>_. bs) (ba_message ap_req) change_data reply_key priv_opts)) (\<lambda>built.
           Inr (built_kpasswd ap_req built)), w))))))))"

section \<open>The answer\<close>

definition verify_kpasswd_ap_rep ::
  "kdc_asn1 \<Rightarrow> crypto_prims \<Rightarrow> kpasswd_reply \<Rightarrow> built_kpasswd_request \<Rightarrow> exchange_error + verified_kpasswd_ap_rep option" where
  "verify_kpasswd_ap_rep K P reply request =
     (if is_krb_error reply then Inr None
      else
        rbind (ok_or (ky_ap_rep reply) XMissingKpasswdApRep) (\<lambda>m.
        rbind (map_err x_ap_rep_error (validate_ap_rep m)) (\<lambda>_.
        rbind (map_err x_ap_rep_error (decrypt_ap_rep_enc_part (k_base K) P m (ba_session_key (bk_ap_req request)))) (\<lambda>enc_part.
        rbind (map_err (\<lambda>_. XClient CliTimeOverflow) (system_time_from_kerberos_time (ep_ctime enc_part))) (\<lambda>ctime.
        rbind (ok_or (int_parse_u32 (ep_cusec enc_part)) (XInvalidUnsignedInteger ''ap-rep.cusec'' (ep_cusec enc_part))) (\<lambda>cusec.
        rbind (ok_or (st_checked_add ctime (from_micros (unat cusec))) (XClient CliTimeOverflow)) (\<lambda>authenticator_time.
          if ctime \<noteq> ba_authenticator_ctime (bk_ap_req request) \<or> cusec \<noteq> ba_authenticator_cusec (bk_ap_req request)
          then Inl (XKpasswdApRepTimestampMismatch (ba_authenticator_time (bk_ap_req request)) authenticator_time)
          else Inr (Some \<lparr>vk_ctime = ctime, vk_cusec = cusec, vk_authenticator_time = authenticator_time,
                 vk_subkey = map_option encryption_key_from_rasn (ep_subkey enc_part),
                 vk_sequence_number = ep_seq_number enc_part\<rparr>))))))))"

section \<open>Changing a password\<close>

definition changepw_service :: "principal \<Rightarrow> principal" where
  "changepw_service target = principal_new (p_realm target) KRB_NT_PRINCIPAL [''kadmin'', ''changepw'']"

definition changepw_ticket :: "'w net_env \<Rightarrow> kdc_asn1 \<Rightarrow> crypto_prims \<Rightarrow> principal \<Rightarrow> ('w, rep_session) client_io" where
  "changepw_ticket N K P service = cread (\<lambda>c.
     case tc_credentials c of
       Some (Password password) \<Rightarrow>
         cbind (client_as_req_options N) (\<lambda>opts.
           cnet (login_as_service_with_password_config N K P (tc_transport c) (tc_config c) (tc_protocol c) (tc_client c) service password opts))
     | Some (KeytabCredential kt) \<Rightarrow>
         cbind (client_as_req_options N) (\<lambda>opts.
           cnet (login_as_service_with_keytab_config N K P (tc_transport c) (tc_config c) (tc_protocol c) (tc_client c) service kt opts))
     | None \<Rightarrow> get_service_ticket N K P service)"

definition is_password :: "client_credentials option \<Rightarrow> bool" where
  "is_password k = (case k of Some (Password _) \<Rightarrow> True | _ \<Rightarrow> False)"

definition kpasswd_result_key :: "verified_kpasswd_ap_rep option \<Rightarrow> built_kpasswd_request \<Rightarrow> kt_key" where
  "kpasswd_result_key verified request =
     (case verified of Some metadata \<Rightarrow> (case vk_subkey metadata of Some key \<Rightarrow> key | None \<Rightarrow> bk_reply_key request) | None \<Rightarrow> bk_reply_key request)"

text \<open>What is done with the answer.\<close>

definition finish_change_password ::
  "kdc_asn1 \<Rightarrow> crypto_prims \<Rightarrow> bool \<Rightarrow> bytes \<Rightarrow> built_kpasswd_request \<Rightarrow> kpasswd_reply \<Rightarrow> ('w, change_password_result) client_io" where
  "finish_change_password K P update_password_credential new_password request reply =
     cbind (cof (verify_kpasswd_ap_rep K P reply request)) (\<lambda>verified.
     cbind (cof (map_err XKadmin (decrypt_result K P reply (kpasswd_result_key verified request)))) (\<lambda>result.
     cbind (cof (map_err XKadmin (ensure_success result))) (\<lambda>_.
     cbind (cmodify (\<lambda>c. if update_password_credential then c\<lparr>tc_credentials := Some (Password new_password)\<rparr> else c)) (\<lambda>_.
       cof (Inr result)))))"

definition change_password_for_with_options ::
  "'w net_env \<Rightarrow> kdc_asn1 \<Rightarrow> crypto_prims \<Rightarrow> principal \<Rightarrow> bytes \<Rightarrow> kpasswd_request_options \<Rightarrow> ('w, change_password_result) client_io" where
  "change_password_for_with_options N K P target new_password opts = cread (\<lambda>c.
     cbind (changepw_ticket N K P (changepw_service target)) (\<lambda>ticket.
     cbind (cof (map_err XKadmin (change_passwd_data_for_target (k_base K) new_password (p_name_type target) (p_components target)
         (p_realm target)))) (\<lambda>change_data.
     cbind (cnet (build_kpasswd_request N K P ticket change_data opts)) (\<lambda>request.
     cbind (cnet (exchange_kpasswd_request_with_config N K (tc_transport c) (tc_config c) (tc_protocol c) (p_realm target)
         (bk_request request))) (\<lambda>reply.
       finish_change_password K P (target = tc_client c \<and> is_password (tc_credentials c)) new_password request reply)))))"

definition client_preauth_time :: "'w net_env \<Rightarrow> kdc_asn1 \<Rightarrow> ('w, system_time \<times> u32) client_io" where
  "client_preauth_time N K = cread (\<lambda>c. cnet (current_preauth_time (realm_env N K (tc_transport c) (tc_config c) (tc_protocol c))))"

definition change_password_for ::
  "'w net_env \<Rightarrow> kdc_asn1 \<Rightarrow> crypto_prims \<Rightarrow> principal \<Rightarrow> bytes \<Rightarrow> rasn_address \<Rightarrow> ('w, change_password_result) client_io" where
  "change_password_for N K P target new_password sender =
     cbind (client_preauth_time N K) (\<lambda>(timestamp, cusec).
     cbind (random_nonce N) (\<lambda>sequence_number.
       change_password_for_with_options N K P target new_password (kpasswd_request_options_new timestamp cusec sequence_number sender)))"

definition change_password ::
  "'w net_env \<Rightarrow> kdc_asn1 \<Rightarrow> crypto_prims \<Rightarrow> bytes \<Rightarrow> rasn_address \<Rightarrow> ('w, change_password_result) client_io" where
  "change_password N K P new_password sender =
     cbind (client_preauth_time N K) (\<lambda>(timestamp, cusec).
     cbind (random_nonce N) (\<lambda>sequence_number. cread (\<lambda>c.
       change_password_for_with_options N K P (tc_client c) new_password (kpasswd_request_options_new timestamp cusec sequence_number sender))))"

definition change_password_with_options ::
  "'w net_env \<Rightarrow> kdc_asn1 \<Rightarrow> crypto_prims \<Rightarrow> bytes \<Rightarrow> kpasswd_request_options \<Rightarrow> ('w, change_password_result) client_io" where
  "change_password_with_options N K P new_password opts = cread (\<lambda>c. change_password_for_with_options N K P (tc_client c) new_password opts)"

end
