(* ===== verification/Client_Props.thy ===== *)
theory Client_Props
  imports Client_Kpasswd
begin

text \<open>
  The properties of the stateful client: the invariant of every state its operations reach, the tickets it hands out, when it
  refreshes, what survives in a credential cache, and what a password change relies on.
\<close>

section \<open>Password changes keep the invariant\<close>

lemma good_credentials [simp]:
  "client_ok Os (c\<lparr>tc_credentials := k\<rparr>) = client_ok Os c" "good Os p (c\<lparr>tc_credentials := k\<rparr>) = good Os p c"
  by (simp_all add: good_def client_ok_def)

lemma cspec_net_good: "cspec Os p (good Os p) (cnet m) (\<lambda>_. good Os p)"
  by (rule cspec_cnet) simp

lemma cspec_of_good: "cspec Os p (good Os p) (cof r) (\<lambda>_. good Os p)"
  by (rule cspec_cof) simp

lemma cspec_changepw_ticket: "cspec Os p (good Os p) (changepw_ticket N K P service) (\<lambda>_. good Os p)"
  unfolding changepw_ticket_def
proof (rule cspec_cread)
  fix c
  assume c: "good Os p c"
  have "cspec Os p (\<lambda>c'. c' = c \<and> good Os p c) (cbind (client_as_req_options N) (\<lambda>opts. cnet (f opts))) (\<lambda>_. good Os p)" for f :: "_ \<Rightarrow> ('a, rep_session) io"
    by (rule cspec_weaken [OF cspec_cbind [OF cspec_as_req_options [of "good Os p" Os p] cspec_net_good]]) auto
  moreover have "cspec Os p (\<lambda>c'. c' = c \<and> good Os p c) (get_service_ticket N K P service) (\<lambda>_. good Os p)"
    by (rule cspec_weaken [OF cspec_get_service_ticket_good]) auto
  ultimately show "cspec Os p (\<lambda>c'. c' = c \<and> good Os p c) (case tc_credentials c of
       Some (Password password) \<Rightarrow> cbind (client_as_req_options N) (\<lambda>opts.
           cnet (login_as_service_with_password_config N K P (tc_transport c) (tc_config c) (tc_protocol c) (tc_client c) service password opts))
     | Some (KeytabCredential kt) \<Rightarrow> cbind (client_as_req_options N) (\<lambda>opts.
           cnet (login_as_service_with_keytab_config N K P (tc_transport c) (tc_config c) (tc_protocol c) (tc_client c) service kt opts))
     | None \<Rightarrow> get_service_ticket N K P service) (\<lambda>_. good Os p)"
    by (simp split: option.splits client_credentials.splits)
qed

lemma cspec_finish: "cspec Os p (good Os p) (finish_change_password K P b new_password request reply) (\<lambda>_. good Os p)"
proof -
  have m: "cspec Os p (good Os p) (cmodify (\<lambda>c. if b then c\<lparr>tc_credentials := Some (Password new_password)\<rparr> else c)) (\<lambda>_. good Os p)"
    by (rule cspec_cmodify) simp
  show ?thesis
    unfolding finish_change_password_def by (rule cspec_cbind [OF cspec_of_good] cspec_cbind [OF m] cspec_of_good)+
qed

lemma cspec_change_password_for:
  "cspec Os p (good Os p) (change_password_for_with_options N K P target new_password opts) (\<lambda>_. good Os p)"
  unfolding change_password_for_with_options_def
proof (rule cspec_cread, rule cspec_cbind)
  show "cspec Os p (\<lambda>c'. c' = c \<and> good Os p c) (changepw_ticket N K P (changepw_service target)) (\<lambda>_. good Os p)" for c
    by (rule cspec_weaken [OF cspec_changepw_ticket]) auto
qed (rule cspec_cbind [OF cspec_of_good] cspec_cbind [OF cspec_net_good] cspec_finish)+

section \<open>Reachable clients\<close>

text \<open>The operations of the client as steps; the outside world may also move on its own.  \<open>ran m s s'\<close>: the operation \<open>m\<close> takes
  \<open>s\<close> to \<open>s'\<close>, with any result.  A step is labelled with the sessions that its caller hands in: \<open>cache_service_ticket\<close> and
  \<open>cache_tgt_session\<close> take any session, also one of another client (an S4U2Self ticket, say), and do not look at its client.\<close>

definition ran :: "('w, 'a) client_io \<Rightarrow> tokio_client \<times> 'w \<Rightarrow> tokio_client \<times> 'w \<Rightarrow> bool" where
  "ran m s s' \<longleftrightarrow> snd (m s) = s'"

inductive client_step :: "'w net_env \<Rightarrow> kdc_asn1 \<Rightarrow> crypto_prims \<Rightarrow> rep_session set \<Rightarrow> tokio_client \<times> 'w \<Rightarrow> tokio_client \<times> 'w \<Rightarrow> bool"
  for N K P where
  world: "client_step N K P {} (c, w) (c, w')"
| password_credential: "client_step N K P {} (c, w) (with_password_credential c password, w)"
| keytab_credential: "client_step N K P {} (c, w) (with_keytab_credential c kt, w)"
| transport: "client_step N K P {} (c, w) (with_transport c tr, w)"
| assume_preauthentication: "client_step N K P {} (c, w) (with_assume_preauthentication c b, w)"
| fast_negotiation: "client_step N K P {} (c, w) (with_fast_negotiation c b, w)"
| remove_tgt: "client_step N K P {} (c, w) (snd (remove_tgt_session_for_realm realm c), w)"
| remove_ticket: "client_step N K P {} (c, w) (snd (remove_cached_service_ticket service c), w)"
| clear_tickets: "client_step N K P {} (c, w) (clear_service_ticket_cache c, w)"
| prune: "client_step N K P {} (c, w) (snd (prune_unusable_sessions_at now c), w)"
| destroyed: "client_step N K P {} (c, w) (destroy c, w)"
| cache_ticket: "ran (cache_service_ticket N st) s s' \<Longrightarrow> client_step N K P {st} s s'"
| cache_tgt: "ran (cache_tgt_session N st) s s' \<Longrightarrow> client_step N K P {st} s s'"
| login: "ran (client_login N K P) s s' \<Longrightarrow> client_step N K P {} s s'"
| affirm: "ran (affirm_login N K P) s s' \<Longrightarrow> client_step N K P {} s s'"
| renew: "ran (client_renew_tgt N K P) s s' \<Longrightarrow> client_step N K P {} s s'"
| renew_realm: "ran (renew_tgt_session_for_realm N K P realm) s s' \<Longrightarrow> client_step N K P {} s s'"
| refresh: "ran (refresh_tgt_if_needed N K P) s s' \<Longrightarrow> client_step N K P {} s s'"
| service_ticket: "ran (get_service_ticket N K P service) s s' \<Longrightarrow> client_step N K P {} s s'"
| s4u_self: "ran (client_s4u2self_with_options N K P user opts) s s' \<Longrightarrow> client_step N K P {} s s'"
| s4u_proxy: "ran (client_s4u2proxy_with_options N K P evidence target opts) s s' \<Longrightarrow> client_step N K P {} s s'"
| passwd: "ran (change_password_for_with_options N K P target new_password kopts) s s' \<Longrightarrow> client_step N K P {} s s'"

text \<open>\<open>H\<close> are the sessions that were handed in on the way.\<close>

inductive client_reachable :: "'w net_env \<Rightarrow> kdc_asn1 \<Rightarrow> crypto_prims \<Rightarrow> rep_session set \<Rightarrow> tokio_client \<times> 'w \<Rightarrow> bool" for N K P where
  new: "client_reachable N K P {} (tokio_client_new cfg protocol client credentials, w)"
| ccache: "client_reachable N K P {} (from_ccache cfg protocol now nows cache, w)"
| tgt_session: "client_reachable N K P {} (from_tgt_session_at cfg protocol now tgt, w)"
| step: "client_reachable N K P H s \<Longrightarrow> client_step N K P H' s s' \<Longrightarrow> client_reachable N K P (H \<union> H') s'"

inductive_cases client_stepE: "client_step N K P H s s'"

lemma cspec_s4u:
  "cspec Os p (good Os p) (client_s4u2self_with_options N K P user opts) (\<lambda>_. good Os p)"
  "cspec Os p (good Os p) (client_s4u2proxy_with_options N K P evidence target opts) (\<lambda>_. good Os p)"
  unfolding client_s4u2self_with_options_def client_s4u2proxy_with_options_def
  by (rule cspec_cbind [OF cspec_ensure_tgt], rule cspec_cread, rule cspec_cnet, simp)+

lemma ran_good:
  fixes m :: "('w, 'a) client_io"
  assumes spec: "cspec Os p (good Os p) m post" and "ran m s s'" and "good Os p (fst s)"
  shows "good Os p (fst s')"
proof -
  obtain c w r c' w' where s: "s = (c, w)" "m s = (r, c', w')" "s' = (c', w')"
    using assms(2) by (cases s, cases "m s", cases s') (auto simp: ran_def)
  then show ?thesis using cspecD(1) [OF spec, of c w r c' w'] assms(3) by simp
qed

lemma good_settings:
  assumes "good Os p c"
  shows "good Os p (with_password_credential c password)" "good Os p (with_keytab_credential c kt)" "good Os p (with_transport c tr)"
    "good Os p (with_assume_preauthentication c b)" "good Os p (with_fast_negotiation c b)"
  using assms by (simp_all add: good_def client_ok_def with_password_credential_def with_keytab_credential_def with_transport_def
      with_assume_preauthentication_def with_fast_negotiation_def)

lemma good_removals:
  assumes "good Os p c"
  shows "good Os p (snd (remove_tgt_session_for_realm realm c))" "good Os p (snd (remove_cached_service_ticket service c))"
    "good Os p (clear_service_ticket_cache c)" "good Os p (snd (prune_unusable_sessions_at now c))" "good Os p (destroy c)"
  using assms client_ok_remove_tgt client_ok_remove_ticket client_ok_clear client_ok_prune client_ok_destroy
  by (auto simp: good_def) (auto simp: remove_tgt_session_for_realm_def remove_cached_service_ticket_def clear_service_ticket_cache_def
      prune_unusable_sessions_at_def destroy_def Let_def)

lemmas ran_goods = ran_good [OF cspec_client_login] ran_good [OF cspec_affirm_login] ran_good [OF cspec_client_renew_tgt]
  ran_good [OF cspec_renew_realm] ran_good [OF cspec_refresh] ran_good [OF cspec_get_service_ticket_good]
  ran_good [OF cspec_s4u(1)] ran_good [OF cspec_s4u(2)] ran_good [OF cspec_change_password_for]

lemma client_step_good:
  assumes "client_step N K P H s s'" and "good Os p (fst s)" and "rs_client ` H \<subseteq> Os"
  shows "good Os p (fst s')"
  using assms
proof (induction rule: client_step.induct)
  case (cache_ticket st s s')
  then have "owned Os st" by (auto simp: owned_def principal_matches_def)
  then show ?case by (rule ran_good [OF cspec_cache_service_ticket cache_ticket(1,2)])
next
  case (cache_tgt st s s')
  then have "owned Os st" by (auto simp: owned_def principal_matches_def)
  then show ?case by (rule ran_good [OF cspec_cache_tgt_session cache_tgt(1,2)])
qed (simp_all add: good_settings good_removals, (erule ran_goods, assumption)+)

text \<open>The principals whose sessions a client may hold: its own, and those of the sessions that were handed in.\<close>

abbreviation owners :: "rep_session set \<Rightarrow> tokio_client \<Rightarrow> principal set" where
  "owners H c \<equiv> insert (tc_client c) (rs_client ` H)"

lemma client_reachable_ok: "client_reachable N K P H s \<Longrightarrow> client_ok (owners H (fst s)) (fst s)"
proof (induction rule: client_reachable.induct)
  case (step H s H' s')
  let ?Os = "owners (H \<union> H') (fst s)"
  have "client_ok ?Os (fst s)" by (rule client_ok_mono [OF step.IH]) auto
  then have "good ?Os (tc_client (fst s)) (fst s')" by (intro client_step_good [OF step.hyps(2)]) (auto simp: good_def)
  then show ?case by (simp add: good_def)
qed (auto simp: client_ok_from_ccache client_ok_from_tgt_session)

lemma client_reachable_good: "client_reachable N K P H (c, w) \<Longrightarrow> good (owners H c) (tc_client c) c"
  using client_reachable_ok by (fastforce simp: good_def)

lemma reachable_spec:
  assumes "client_reachable N K P H (c, w)" and "cspec (owners H c) (tc_client c) (good (owners H c) (tc_client c)) m post"
  shows "fst (m (c, w)) \<noteq> Inr None"
  using cspecD(2) [OF assms(2) client_reachable_good [OF assms(1)], of w "fst (m (c, w))" "fst (snd (m (c, w)))" "snd (snd (m (c, w)))"]
  by simp

text \<open>C3: The invariant of the client.  In every state that the operations reach, whatever the network answers and whatever errors
  occur on the way, both caches are ordered maps; every ticket-granting ticket stands under the realm it is for and every service
  ticket under the key of its service; each of them belongs to the client or to the client of a session that the caller handed to
  \<open>cache_service_ticket\<close> or \<open>cache_tgt_session\<close>, which accept the sessions of any client (so all of them belong to the client when no
  such session was handed in); the primary ticket is the cached one of the client's realm.
  Therefore the \<open>expect\<close> calls of the login, renewal and refresh operations never panic, also after a failed operation.\<close>

theorem client_sessions_invariant:
  assumes "client_reachable N K P H (c, w)"
  shows "sorted_wrt (<) (map fst (tc_tgt_sessions c)) \<and> sorted_wrt (<) (map fst (tc_service_tickets c))
    \<and> (\<forall>r s. map_of (tc_tgt_sessions c) r = Some s \<longrightarrow> tgt_realm s = Some r
        \<and> (principal_matches (rs_client s) (tc_client c) \<or> (\<exists>h \<in> H. principal_matches (rs_client s) (rs_client h))))
    \<and> (\<forall>k s. map_of (tc_service_tickets c) k = Some s \<longrightarrow> service_cache_key (rs_service s) = k
        \<and> (principal_matches (rs_client s) (tc_client c) \<or> (\<exists>h \<in> H. principal_matches (rs_client s) (rs_client h))))
    \<and> tc_tgt c = map_of (tc_tgt_sessions c) (p_realm (tc_client c))
    \<and> fst (client_login N K P (c, w)) \<noteq> Inr None \<and> fst (affirm_login N K P (c, w)) \<noteq> Inr None
    \<and> fst (client_renew_tgt N K P (c, w)) \<noteq> Inr None \<and> fst (renew_tgt_session_for_realm N K P realm (c, w)) \<noteq> Inr None
    \<and> fst (refresh_tgt_if_needed N K P (c, w)) \<noteq> Inr None \<and> fst (get_service_ticket N K P service (c, w)) \<noteq> Inr None
    \<and> fst (change_password_for_with_options N K P target new_password opts (c, w)) \<noteq> Inr None"
proof -
  have ok: "client_ok (owners H c) c" using client_reachable_ok [OF assms] by simp
  note never = reachable_spec [OF assms cspec_client_login] reachable_spec [OF assms cspec_affirm_login]
    reachable_spec [OF assms cspec_client_renew_tgt] reachable_spec [OF assms cspec_renew_realm]
    reachable_spec [OF assms cspec_refresh] reachable_spec [OF assms cspec_get_service_ticket_good]
    reachable_spec [OF assms cspec_change_password_for]
  have own: "owned (owners H c) s \<longleftrightarrow> principal_matches (rs_client s) (tc_client c) \<or> (\<exists>h \<in> H. principal_matches (rs_client s) (rs_client h))" for s
    by (simp add: owned_def)
  have "bt_ok (tc_tgt_sessions c)" "bt_ok (tc_service_tickets c)" "tc_tgt c = map_of (tc_tgt_sessions c) (p_realm (tc_client c))"
    using ok by (simp_all add: client_ok_def tgts.keyed_def tickets.keyed_def)
  then show ?thesis using never client_okD(1) [OF ok, unfolded own] client_okD(3) [OF ok, unfolded own] by (simp add: bt_ok_def)
qed


text \<open>The sessions that were handed in matter: a valid service ticket of another client is handed out under the name of the service.\<close>

lemma foreign_ticket_handed_out:
  assumes "map_of (tc_service_tickets c) (service_cache_key (resolve_service_principal c service)) = None"
    and "service_cache_key (rs_service t) = service_cache_key (resolve_service_principal c service)"
    and "net_now N w = (now, w')" and "session_valid_at t now"
  shows "fst (get_service_ticket N K P service (cache_service_ticket_at now t c, w))
    = Inr (Some (t\<lparr>rs_service := resolve_service_principal c service\<rparr>))"
proof -
  have "resolve_service_principal (cache_service_ticket_at now t c) service = resolve_service_principal c service"
    by (simp add: resolve_service_principal_def cache_service_ticket_at_def Let_def split: option.splits)
  moreover have "map_of (tc_service_tickets (cache_service_ticket_at now t c)) (service_cache_key (rs_service t)) = Some t"
    using assms(1,2) by (simp add: cache_service_ticket_at_def Let_def map_of_bt_insert preferred_session_at_def)
  ultimately show ?thesis
    using assms(2-4) by (simp add: get_service_ticket_def cread_def cbind_def cnow_def cnet_def cof_def Let_def)
qed

section \<open>Refreshing\<close>

lemma refresh_due_iff:
  assumes "rs_auth_time s < rs_end_time s"
  shows "session_refresh_due_at s now \<longleftrightarrow> rs_end_time s - (rs_end_time s - rs_auth_time s) div 6 \<le> now"
proof -
  let ?L = "rs_end_time s - rs_auth_time s"
  have "duration_since (rs_end_time s) (rs_auth_time s) = Some (nat ?L)" using assms by (simp add: duration_since_def)
  moreover have "nat (rs_end_time s - now) \<le> nat ?L div 6 \<longleftrightarrow> rs_end_time s - now \<le> ?L div 6" using assms by linarith
  moreover have "0 \<le> ?L div 6" using assms by (simp add: pos_imp_zdiv_nonneg_iff)
  ultimately show ?thesis using assms
    by (auto simp: session_refresh_due_at_def duration_since_def SESSION_REFRESH_DIVISOR_def Let_def)
qed

text \<open>C24: The background task sleeps exactly as long as needed.  For a session whose times are in the range of the clock, a refresh is
  due exactly in the last sixth of the time between the authentication and the end; the delay that is computed ends exactly when the
  refresh becomes due, it is zero exactly when it is due, and the session has not ended by then.\<close>

theorem refresh_delay_exact:
  assumes "rs_auth_time s < rs_end_time s" and "system_time_in_range (rs_auth_time s)" and "system_time_in_range (rs_end_time s)"
  shows "(session_refresh_due_at s now \<longleftrightarrow> rs_end_time s - (rs_end_time s - rs_auth_time s) div 6 \<le> now)
    \<and> (session_refresh_delay_at s now = 0 \<longleftrightarrow> session_refresh_due_at s now)
    \<and> session_refresh_due_at s (now + int (session_refresh_delay_at s now))
    \<and> (\<forall>t. t < now + int (session_refresh_delay_at s now) \<and> now \<le> t \<longrightarrow> \<not> session_refresh_due_at s t)
    \<and> (\<not> session_refresh_due_at s now \<longrightarrow> now + int (session_refresh_delay_at s now) \<le> rs_end_time s)"
proof -
  let ?L = "rs_end_time s - rs_auth_time s"
  let ?at = "rs_end_time s - ?L div 6"
  have L: "0 < ?L" "0 \<le> ?L div 6" "?L div 6 \<le> ?L" using assms(1) by linarith+
  have "int (nat ?L div 6) = ?L div 6" using L by (simp add: zdiv_int)
  moreover have "duration_since (rs_end_time s) (rs_auth_time s) = Some (nat ?L)" using assms(1) by (simp add: duration_since_def)
  moreover have "system_time_in_range ?at" using assms(2,3) L unfolding system_time_in_range_def by linarith
  ultimately have delay: "session_refresh_delay_at s now = nat (?at - now)"
    using refresh_due_iff [OF assms(1)]
    by (auto simp: session_refresh_delay_at_def st_checked_sub_def duration_since_def SESSION_REFRESH_DIVISOR_def)
  show ?thesis unfolding refresh_due_iff [OF assms(1)] delay using L by auto
qed

text \<open>C27: The refresh window is measured from the authentication time, which a renewal keeps, and not from the start time of the
  ticket.  A ticket that was renewed when five times its new lifetime had passed since the authentication is due for a refresh from its
  first moment on, and so is every ticket that a refresh then brings: the background task does not wait between two rounds.\<close>

theorem renewed_ticket_due_at_once:
  assumes "rs_auth_time s < rs_end_time s"
    and "5 * (rs_end_time s - rs_start_time s) \<le> rs_start_time s - rs_auth_time s" and "session_valid_at s now"
  shows "session_refresh_due_at s now \<and> auto_renewal_delay now (c\<lparr>tc_tgt := Some s\<rparr>) = 0"
proof -
  have le: "6 * (rs_end_time s - rs_start_time s) \<le> rs_end_time s - rs_auth_time s" using assms(2) by simp
  have "rs_end_time s - rs_start_time s \<le> (rs_end_time s - rs_auth_time s) div 6" using zdiv_mono1 [OF le, of 6] by simp
  then have "session_refresh_due_at s now" using assms(3) unfolding refresh_due_iff [OF assms(1)] session_valid_at_def by linarith
  then show ?thesis by (simp add: auto_renewal_delay_def session_refresh_delay_at_def)
qed

text \<open>A client that holds only a valid ticket which cannot be renewed, as one loaded from a credential cache, spins once the
  refresh is due: a round of the background task waits for no time, sends nothing, changes nothing and goes on.\<close>

lemma auto_renewal_spins:
  assumes "tc_tgt c = Some t" and "tc_credentials c = None" and "net_now N w = (n1, w1)" and "net_now N w1 = (n2, w2)"
    and "session_refresh_due_at t n1" and "session_valid_at t n2" and "session_refresh_due_at t n2" and "\<not> session_renewable_at t n2"
    and "off 0 (c, w1) = (c, w1)"
  shows "auto_renewal_round N K P off retry_delay (c, w) = (True, c, w2)"
proof -
  have "refresh_tgt_if_needed N K P (c, w1) = (Inr (Some t), c, w2)"
    using assms by (simp add: refresh_tgt_if_needed_def ensure_tgt_def cbind_def cread_def cof_def cnow_def cnet_def ok_or_def)
  moreover have "auto_renewal_delay n1 c = 0" using assms(1,5) by (simp add: auto_renewal_delay_def session_refresh_delay_at_def)
  ultimately show ?thesis using assms by (simp add: auto_renewal_round_def)
qed

end
