(* ===== verification/Client_Ccache.thy ===== *)
theory Client_Ccache
  imports Client_Props
begin

text \<open>
  Saving the sessions of a client in a credential cache (\<open>to_ccache\<close>) and loading them again (\<open>from_ccache\<close>): what the
  four-byte seconds of the file format and the identity of its credentials keep of them.
\<close>

section \<open>One session\<close>

lemma u32_seconds_read_back:
  assumes "client_time_to_u32_seconds t = Inr u"
  shows "system_time_from_u32_seconds u = t" and "u = 0 \<longleftrightarrow> t = 0"
proof -
  obtain seconds nanos where parts: "unix_timestamp_parts t = Inr (seconds, nanos)" "\<not> (seconds < 0 \<or> nanos \<noteq> 0)" "seconds < 2 ^ 32"
      and u: "u = word_of_int seconds"
    using assms by (auto simp: client_time_to_u32_seconds_def rbind_eq_Inr map_err_eq_Inr split: if_splits)
  have "0 \<le> t \<and> t = seconds * 1000000000"
    using parts by (auto simp: unix_timestamp_parts_def duration_since_def Let_def split: if_splits)
  moreover have "uint u = seconds" using parts(2,3) u by (simp add: uint_word_of_int take_bit_int_eq_self)
  moreover have "u = 0 \<longleftrightarrow> uint u = 0" by (simp add: uint_0_iff)
  ultimately show "system_time_from_u32_seconds u = t" "u = 0 \<longleftrightarrow> t = 0"
    by (simp_all add: system_time_from_u32_seconds_def from_secs_def)
qed

text \<open>The file has no place for the expiry of the client's key.\<close>

definition stored_session :: "rep_session \<Rightarrow> rep_session" where
  "stored_session s = s\<lparr>rs_key_expiration := None\<rparr>"

lemma stored_session_simps [simp]:
  "rs_client (stored_session s) = rs_client s" "rs_service (stored_session s) = rs_service s" "tgt_realm (stored_session s) = tgt_realm s"
  by (simp_all add: stored_session_def tgt_realm_def)

lemma principal_stored [simp]: "client_principal_from_ccache (ccache_principal p) = p"
  by (simp add: client_principal_from_ccache_def ccache_principal_def principal_new_def cc_principal_new_def)

definition storable :: "rep_session \<Rightarrow> bool" where
  "storable s \<longleftrightarrow> (rs_start_time s \<noteq> 0 \<or> rs_auth_time s = 0) \<and> rs_renew_till s \<noteq> Some 0 \<and> p_realm (rs_service s) \<noteq> X_CACHECONF_REALM"

lemma credential_read_back:
  assumes "to_ccache_credential s = Inr cred" and "storable s"
  shows "ccache_credential_session cred = stored_session s \<and> cc_client cred = ccache_principal (rs_client s)
    \<and> cc_server cred = ccache_principal (rs_service s) \<and> \<not> cc_is_config_credential cred"
proof -
  obtain auth start end_t renew where times: "client_time_to_u32_seconds (rs_auth_time s) = Inr auth"
      "client_time_to_u32_seconds (rs_start_time s) = Inr start" "client_time_to_u32_seconds (rs_end_time s) = Inr end_t"
      "traverse client_time_to_u32_seconds (rs_renew_till s) = Inr renew"
    and cred: "cred = \<lparr>cc_client = ccache_principal (rs_client s), cc_server = ccache_principal (rs_service s),
            cc_key = \<lparr>cc_etype = kt_etype (rs_session_key s), cc_value = kt_value (rs_session_key s)\<rparr>,
            cc_times = \<lparr>cc_auth_time = auth, cc_start_time = start, cc_end_time = end_t,
              cc_renew_till = (case renew of Some r \<Rightarrow> r | None \<Rightarrow> 0)\<rparr>,
            cc_is_skey = False, cc_ticket_flags = rs_ticket_flags s, cc_addresses = [], cc_auth_data = [],
            cc_ticket = rs_ticket s, cc_second_ticket = []\<rparr>"
    using assms(1) by (auto simp: to_ccache_credential_def rbind_eq_Inr)
  have r: "(if cc_renew_till (cc_times cred) \<noteq> 0 then Some (system_time_from_u32_seconds (cc_renew_till (cc_times cred))) else None) = rs_renew_till s"
    using times(4) assms(2) by (cases "rs_renew_till s") (auto simp: cred storable_def rbind_eq_Inr dest: u32_seconds_read_back)
  have st: "(if cc_start_time (cc_times cred) = 0 then rs_auth_time s else system_time_from_u32_seconds (cc_start_time (cc_times cred))) = rs_start_time s"
    using u32_seconds_read_back [OF times(1)] u32_seconds_read_back [OF times(2)] assms(2) by (auto simp: storable_def cred)
  have ae: "system_time_from_u32_seconds (cc_auth_time (cc_times cred)) = rs_auth_time s" "system_time_from_u32_seconds (cc_end_time (cc_times cred)) = rs_end_time s"
    using u32_seconds_read_back(1) [OF times(1)] u32_seconds_read_back(1) [OF times(3)] by (simp_all add: cred)
  have "ccache_credential_session cred = stored_session s"
    unfolding ccache_credential_session_def Let_def ae st r
    by (rule rep_session.equality) (simp_all add: cred stored_session_def)
  moreover have "\<not> cc_is_config_credential cred"
    using assms(2) by (simp add: cred storable_def cc_is_config_credential_def cc_parse_config_entry_def ccache_principal_def cc_principal_new_def)
  ultimately show ?thesis by (simp add: cred)
qed

section \<open>Filling the cache\<close>

lemma upsert_all_fresh:
  assumes "distinct (map cred_key creds)" and "\<forall>c \<in> set creds. cred_key c \<notin> cred_key ` set (cc_credentials cc)"
  shows "upsert_all cc creds = cc\<lparr>cc_credentials := cc_credentials cc @ creds\<rparr>"
  using assms
proof (induction creds arbitrary: cc)
  case (Cons c creds)
  have "snd (upsert_credential cc c) = cc\<lparr>cc_credentials := cc_credentials cc @ [c]\<rparr>"
    using Cons.prems by (cases rule: upsert_credential_cases [of cc c]) auto
  moreover have "\<forall>x \<in> set creds. cred_key x \<notin> cred_key ` set (cc_credentials cc @ [c])"
    using Cons.prems by (auto simp: image_iff)
  ultimately show ?case using Cons.IH [of "cc\<lparr>cc_credentials := cc_credentials cc @ [c]\<rparr>"] Cons.prems by (simp add: upsert_all_def)
qed (simp add: upsert_all_def)

lemma distinct_by_server:
  assumes "distinct (map f (map cc_server creds))"
  shows "distinct (map cred_key creds)"
  using assms by (auto simp: distinct_map inj_on_def cred_key_def)

section \<open>Loading it\<close>

lemma bt_insert_last:
  assumes "\<forall>x \<in> set m. fst x < (k :: 'k :: linorder)"
  shows "bt_insert k v m = m @ [(k, v)]" and "bt_remove k m = m" and "map_of m k = None"
  using assms by (induction m) (auto simp: bt_remove_def)

definition same_owner :: "cc_principal \<Rightarrow> rep_session \<Rightarrow> cc_credential \<Rightarrow> bool" where
  "same_owner owner s cred \<longleftrightarrow> same_ccache_client_identity (cc_client cred) owner \<and> ccache_credential_session cred = s"

lemma load_tgts:
  assumes "list_all2 (\<lambda>x cred. same_owner owner (snd x) cred \<and> tgt_realm (snd x) = Some (fst x)) xs creds"
    and "sorted_wrt (<) (map fst (tc_tgt_sessions c @ xs))" and "tc_tgt c = map_of (tc_tgt_sessions c) (p_realm (tc_client c))"
  shows "from_ccache_loop owner now nows (creds @ rest) c = from_ccache_loop owner now nows rest
    (c\<lparr>tc_tgt_sessions := tc_tgt_sessions c @ xs, tc_tgt := map_of (tc_tgt_sessions c @ xs) (p_realm (tc_client c))\<rparr>)"
  using assms
proof (induction xs creds arbitrary: c rule: list_all2_induct)
  case Nil
  then show ?case by (cases c) simp
next
  case (Cons x xs cred creds)
  obtain k s where x: "x = (k, s)" by (meson surj_pair)
  let ?ms = "tc_tgt_sessions c" and ?R = "p_realm (tc_client c)"
  let ?c = "c\<lparr>tc_tgt_sessions := ?ms @ [x], tc_tgt := map_of (?ms @ [x]) ?R\<rparr>"
  have less: "\<forall>y \<in> set ?ms. fst y < k" using Cons.prems(1) x by (auto simp: sorted_wrt_append)
  have tgt: "tgt_realm s = Some k" "is_tgt_principal (rs_service s)" using Cons.hyps(1) x by (auto simp: tgt_realm_def split: if_splits)
  note last = bt_insert_last [OF less]
  have "cache_tgt_session_at now s c = Inr ?c"
  proof (cases "k = ?R")
    case True
    then have "tc_tgt c = None" using Cons.prems(2) last(3) by simp
    then show ?thesis using True last by (simp add: cache_tgt_session_at_def tgt ok_or_def x preferred_session_at_def Let_def map_add_def)
  next
    case False
    then have "map_of (?ms @ [x]) ?R = tc_tgt c" using Cons.prems(2) x by (simp add: map_add_def split: option.splits)
    then have "?c = c\<lparr>tc_tgt_sessions := ?ms @ [x]\<rparr>" by simp
    then show ?thesis using False last by (simp add: cache_tgt_session_at_def tgt ok_or_def x preferred_session_at_def Let_def)
  qed
  then have "from_ccache_loop owner now nows ((cred # creds) @ rest) c = from_ccache_loop owner now nows (creds @ rest) ?c"
    using Cons.hyps(1) x tgt by (simp add: same_owner_def)
  then show ?case using Cons.IH [of ?c] Cons.prems by simp
qed

lemma load_tickets:
  assumes "list_all2 (\<lambda>x cred. same_owner owner (snd x) cred \<and> service_cache_key (rs_service (snd x)) = fst x \<and> \<not> is_tgt_principal (rs_service (snd x)))
      xs creds"
    and "sorted_wrt (<) (map fst (tc_service_tickets c @ xs))"
  shows "from_ccache_loop owner now nows creds c = c\<lparr>tc_service_tickets := tc_service_tickets c @ xs\<rparr>"
  using assms
proof (induction xs creds arbitrary: c rule: list_all2_induct)
  case Nil
  then show ?case by simp
next
  case (Cons x xs cred creds)
  obtain k s where x: "x = (k, s)" by (meson surj_pair)
  let ?ms = "tc_service_tickets c"
  have less: "\<forall>y \<in> set ?ms. fst y < k" using Cons.prems(1) x by (auto simp: sorted_wrt_append)
  have "cache_service_ticket_at t s c = c\<lparr>tc_service_tickets := ?ms @ [x]\<rparr>" for t
    using Cons.hyps(1) bt_insert_last [OF less] by (simp add: cache_service_ticket_at_def x preferred_session_at_def Let_def)
  then have "from_ccache_loop owner now nows (cred # creds) c = from_ccache_loop owner now nows creds (c\<lparr>tc_service_tickets := ?ms @ [x]\<rparr>)"
    using Cons.hyps(1) x by (simp add: same_owner_def)
  then show ?case using Cons.IH [of "c\<lparr>tc_service_tickets := ?ms @ [x]\<rparr>"] Cons.prems by simp
qed

section \<open>The round trip\<close>

lemma stored_list:
  assumes "rmap to_ccache_credential (map snd xs) = Inr creds" and "\<forall>x \<in> set xs. storable (snd x)"
    and "\<forall>x \<in> set xs. Q (fst x) (stored_session (snd x)) \<and> principal_matches (rs_client (snd x)) p"
  shows "list_all2 (\<lambda>x cred. same_owner (ccache_principal p) (snd x) cred \<and> Q (fst x) (snd x)) (map (\<lambda>(k, s). (k, stored_session s)) xs) creds"
    and "map cc_server creds = map (\<lambda>x. ccache_principal (rs_service (snd x))) xs" and "\<forall>cred \<in> set creds. \<not> cc_is_config_credential cred"
proof -
  have r: "list_all2 (\<lambda>x cred. to_ccache_credential (snd x) = Inr cred) xs creds" using assms(1) by (simp add: rmap_eq_Inr list_all2_map1)
  have x: "same_owner (ccache_principal p) (stored_session (snd x)) cred \<and> Q (fst x) (stored_session (snd x))
      \<and> cc_server cred = ccache_principal (rs_service (snd x)) \<and> \<not> cc_is_config_credential cred"
    if "x \<in> set xs" "to_ccache_credential (snd x) = Inr cred" for x cred
    using credential_read_back [OF that(2)] assms(2,3) that(1)
    by (auto simp: same_owner_def same_ccache_client_identity_def ccache_principal_def cc_principal_new_def principal_matches_def)
  have n: "length xs = length creds" using r by (rule list_all2_lengthD)
  have i: "same_owner (ccache_principal p) (stored_session (snd (xs ! i))) (creds ! i) \<and> Q (fst (xs ! i)) (stored_session (snd (xs ! i)))
      \<and> cc_server (creds ! i) = ccache_principal (rs_service (snd (xs ! i))) \<and> \<not> cc_is_config_credential (creds ! i)"
    if "i < length creds" for i
    using x [of "xs ! i" "creds ! i"] list_all2_nthD [OF r, of i] that n by simp
  show "list_all2 (\<lambda>x cred. same_owner (ccache_principal p) (snd x) cred \<and> Q (fst x) (snd x)) (map (\<lambda>(k, s). (k, stored_session s)) xs) creds"
    using i n by (simp add: list_all2_conv_all_nth split_beta)
  show "map cc_server creds = map (\<lambda>x. ccache_principal (rs_service (snd x))) xs"
    using i n by (simp add: list_eq_iff_nth_eq)
  show "\<forall>cred \<in> set creds. \<not> cc_is_config_credential cred"
    using i by (simp add: all_set_conv_all_nth)
qed

lemma distinct_servers:
  assumes "bt_ok xs" and "\<forall>x \<in> set xs. key (rs_service (snd x)) = fst x"
  shows "distinct (map (\<lambda>x. ccache_principal (rs_service (snd x))) xs)"
proof -
  have "distinct (map (\<lambda>x. key (client_principal_from_ccache (ccache_principal (rs_service (snd x))))) xs)"
    using bt_ok_distinct [OF assms(1)] assms(2) by (simp cong: map_cong)
  then have "distinct (map (\<lambda>q. key (client_principal_from_ccache q)) (map (\<lambda>x. ccache_principal (rs_service (snd x))) xs))"
    by (simp add: comp_def)
  then show ?thesis unfolding distinct_map by (rule conjunct1)
qed

lemma map_of_mapped_values: "map_of (map (\<lambda>(k, s). (k, f s)) xs) k = map_option f (map_of xs k)"
  by (induction xs) auto

text \<open>The sessions that survive being stored: they do not start at the epoch, are not renewable until the epoch and are not of the realm of
  configuration entries, and the service tickets are not for \<open>krbtgt\<close> principals, which the loader takes for ticket-granting tickets.\<close>

definition client_storable :: "tokio_client \<Rightarrow> bool" where
  "client_storable c \<longleftrightarrow> (\<forall>x \<in> set (tc_tgt_sessions c) \<union> set (tc_service_tickets c). storable (snd x))
    \<and> (\<forall>x \<in> set (tc_service_tickets c). \<not> is_tgt_principal (rs_service (snd x)))"

text \<open>All cached sessions belong to the client.  The loader skips the credentials of any other client.\<close>

definition own_sessions :: "tokio_client \<Rightarrow> bool" where
  "own_sessions c \<longleftrightarrow> (\<forall>x \<in> set (tc_tgt_sessions c) \<union> set (tc_service_tickets c). principal_matches (rs_client (snd x)) (tc_client c))"

text \<open>This is so when no session of another client was handed in.\<close>

lemma own_sessions_reachable:
  assumes "client_reachable N K P H (c, w)" and "\<forall>h \<in> H. principal_matches (rs_client h) (tc_client c)"
  shows "own_sessions c"
proof -
  have ok: "client_ok (owners H c) c" using client_reachable_ok [OF assms(1)] by simp
  then have bt: "bt_ok (tc_tgt_sessions c)" "bt_ok (tc_service_tickets c)" by (simp_all add: client_ok_def tgts.keyed_def tickets.keyed_def)
  have "principal_matches (rs_client s) (tc_client c)" if "owned (owners H c) s" for s
    using that assms(2) by (auto simp: owned_def principal_matches_def)
  then show ?thesis
    using client_okD(1,3) [OF ok] bt_ok_distinct [OF bt(1)] bt_ok_distinct [OF bt(2)] by (fastforce simp: own_sessions_def)
qed

definition same_sessions :: "tokio_client \<Rightarrow> tokio_client \<Rightarrow> bool" where
  "same_sessions c' c \<longleftrightarrow> tc_client c' = tc_client c \<and> tc_tgt c' = map_option stored_session (tc_tgt c)
    \<and> tc_tgt_sessions c' = map (\<lambda>(r, s). (r, stored_session s)) (tc_tgt_sessions c)
    \<and> tc_service_tickets c' = map (\<lambda>(k, s). (k, stored_session s)) (tc_service_tickets c)"

text \<open>The credentials a client exports are one per session, in their order, all its own, with distinct keys.\<close>

lemma exported_credentials:
  assumes ok: "client_ok Os c" and own: "own_sessions c" and "client_storable c" and "ccache_credentials c = Inr creds"
  obtains tgts tickets where "creds = tgts @ tickets"
    and "list_all2 (\<lambda>x cred. same_owner (ccache_principal (tc_client c)) (snd x) cred \<and> tgt_realm (snd x) = Some (fst x))
      (map (\<lambda>(r, s). (r, stored_session s)) (tc_tgt_sessions c)) tgts"
    and "list_all2 (\<lambda>x cred. same_owner (ccache_principal (tc_client c)) (snd x) cred
        \<and> service_cache_key (rs_service (snd x)) = fst x \<and> \<not> is_tgt_principal (rs_service (snd x)))
      (map (\<lambda>(k, s). (k, stored_session s)) (tc_service_tickets c)) tickets"
    and "distinct (map cred_key creds)" and "\<forall>cred \<in> set creds. \<not> cc_is_config_credential cred"
proof -
  let ?T = "tc_tgt_sessions c" and ?S = "tc_service_tickets c" and ?o = "ccache_principal (tc_client c)"
  have bt: "bt_ok ?T" "bt_ok ?S" and tgt: "tc_tgt c = map_of ?T (p_realm (tc_client c))"
    using ok by (simp_all add: client_ok_def tgts.keyed_def tickets.keyed_def)
  have T: "\<forall>x \<in> set ?T. tgt_realm (stored_session (snd x)) = Some (fst x) \<and> principal_matches (rs_client (snd x)) (tc_client c)"
    using client_okD(1) [OF ok] bt_ok_distinct [OF bt(1)] own by (auto simp: own_sessions_def)
  have S: "\<forall>x \<in> set ?S. (service_cache_key (rs_service (stored_session (snd x))) = fst x \<and> \<not> is_tgt_principal (rs_service (stored_session (snd x))))
      \<and> principal_matches (rs_client (snd x)) (tc_client c)"
    using client_okD(3) [OF ok] bt_ok_distinct [OF bt(2)] assms(3) own by (auto simp: own_sessions_def client_storable_def)
  have sessions: "(if ?T = [] then (case tc_tgt c of Some t \<Rightarrow> [t] | None \<Rightarrow> []) else map snd ?T) = map snd ?T" using tgt by simp
  obtain tgts tickets where creds: "rmap to_ccache_credential (map snd ?T) = Inr tgts" "rmap to_ccache_credential (map snd ?S) = Inr tickets"
      and c: "creds = tgts @ tickets"
    using assms(4) unfolding ccache_credentials_def sessions by (auto simp: rbind_eq_Inr)
  have st: "\<forall>x \<in> set ?T. storable (snd x)" "\<forall>x \<in> set ?S. storable (snd x)" using assms(3) by (auto simp: client_storable_def)
  note tg = stored_list [OF creds(1) st(1) T] and ti = stored_list [OF creds(2) st(2) S]
  have "distinct (map cc_server tgts)" "distinct (map cc_server tickets)"
    using distinct_servers [OF bt(1), of "\<lambda>p. last (p_components p)"] distinct_servers [OF bt(2), of service_cache_key] T S
    by (auto simp: tg(2) ti(2) tgt_realm_def split: if_splits)
  moreover have "set (map cc_server tgts) \<inter> set (map cc_server tickets) = {}"
  proof -
    have "is_tgt_principal (client_principal_from_ccache q)" if "q \<in> set (map cc_server tgts)" for q
      using that T unfolding tg(2) by (fastforce simp: tgt_realm_def split: if_splits)
    moreover have "\<not> is_tgt_principal (client_principal_from_ccache q)" if "q \<in> set (map cc_server tickets)" for q
      using that S unfolding ti(2) by auto
    ultimately show ?thesis by blast
  qed
  ultimately have "distinct (map cred_key creds)" using distinct_by_server [of id "tgts @ tickets"] c by simp
  with that [OF c tg(1) ti(1)] show thesis using tg(3) ti(3) c by auto
qed

text \<open>Entries of other clients are skipped by the loader.\<close>

lemma load_skips:
  assumes "\<forall>cred \<in> set others. \<not> same_ccache_client_identity (cc_client cred) owner"
  shows "from_ccache_loop owner now nows (others @ rest) c = from_ccache_loop owner now nows rest c"
  using assms by (induction others) auto

lemma load_exported:
  assumes ok: "client_ok Os c" and own: "own_sessions c" and "client_storable c" and "ccache_credentials c = Inr creds"
    and "cc_entries cache = others @ creds" and "cc_default_principal cache = ccache_principal (tc_client c)"
    and "\<forall>cred \<in> set others. \<not> same_ccache_client_identity (cc_client cred) (ccache_principal (tc_client c))"
  shows "same_sessions (from_ccache cfg protocol now nows cache) c"
proof -
  let ?T = "tc_tgt_sessions c" and ?S = "tc_service_tickets c" and ?o = "ccache_principal (tc_client c)"
  let ?T' = "map (\<lambda>(r, s). (r, stored_session s)) ?T" and ?S' = "map (\<lambda>(k, s). (k, stored_session s)) ?S"
  have bt: "bt_ok ?T" "bt_ok ?S" and tgt: "tc_tgt c = map_of ?T (p_realm (tc_client c))"
    using ok by (simp_all add: client_ok_def tgts.keyed_def tickets.keyed_def)
  obtain tgts tickets where creds: "creds = tgts @ tickets"
    and tg: "list_all2 (\<lambda>x cred. same_owner ?o (snd x) cred \<and> tgt_realm (snd x) = Some (fst x)) ?T' tgts"
    and ti: "list_all2 (\<lambda>x cred. same_owner ?o (snd x) cred \<and> service_cache_key (rs_service (snd x)) = fst x
      \<and> \<not> is_tgt_principal (rs_service (snd x))) ?S' tickets"
    by (rule exported_credentials [OF assms(1-4)])
  let ?n = "tokio_client_new cfg protocol (tc_client c) None"
  have "from_ccache cfg protocol now nows cache = from_ccache_loop ?o now nows (tgts @ tickets) ?n"
    using assms(5,6) load_skips [OF assms(7)] by (simp add: from_ccache_def creds)
  also have "\<dots> = from_ccache_loop ?o now nows tickets (?n\<lparr>tc_tgt_sessions := ?T', tc_tgt := map_of ?T' (p_realm (tc_client c))\<rparr>)"
    using load_tgts [of ?o ?T' tgts ?n now nows tickets] tg bt(1) by (simp add: tokio_client_new_def bt_ok_def comp_def split_beta)
  also have "\<dots> = ?n\<lparr>tc_tgt_sessions := ?T', tc_tgt := map_of ?T' (p_realm (tc_client c)), tc_service_tickets := ?S'\<rparr>"
    using load_tickets [of ?o ?S' tickets] ti bt(2) by (simp add: tokio_client_new_def bt_ok_def comp_def split_beta)
  finally show ?thesis using tgt by (simp add: same_sessions_def map_of_mapped_values tokio_client_new_def)
qed

text \<open>A client whose sessions are its own, saved in a credential cache and loaded again, has the same client principal, the same primary ticket, the same
  ticket-granting tickets and the same service tickets, in the same order, whatever the time of loading; only the expiry of the key
  is lost.\<close>

lemma client_ccache_roundtrip:
  assumes ok: "client_ok Os c" and own: "own_sessions c" and "client_storable c" and "to_ccache c = Inr cache"
  shows "same_sessions (from_ccache cfg protocol now nows cache) c"
proof -
  obtain creds where creds: "ccache_credentials c = Inr creds" "cache = upsert_all (ccache_new (ccache_principal (tc_client c))) creds"
    using assms(4) by (auto simp: to_ccache_def rbind_eq_Inr)
  obtain "distinct (map cred_key creds)" "\<forall>cred \<in> set creds. \<not> cc_is_config_credential cred"
    by (rule exported_credentials [OF ok own assms(3) creds(1)])
  then have "cc_entries cache = [] @ creds" "cc_default_principal cache = ccache_principal (tc_client c)"
    using upsert_all_fresh [of creds "ccache_new (ccache_principal (tc_client c))"] creds(2)
    by (auto simp: cc_entries_def filter_id_conv ccache_new_def)
  from load_exported [OF ok own assms(3) creds(1) this] show ?thesis by simp
qed

end
