(* ===== verification/Kpasswd_Props.thy ===== *)
theory Kpasswd_Props
  imports Client_Kpasswd
begin

text \<open>
  What holds of password changes: the frames are read back, a request delivers the new password to the server under the keys of the
  exchange, and what the client accepts as an answer.
\<close>

section \<open>Frames\<close>

lemma read_u16_be: "ka_read_u16 (xs @ to_bytes_en Big (w :: u16) @ ys) (length xs) = w"
  by (simp add: ka_read_u16_def)

lemma unat_u16: "n \<le> 65535 \<Longrightarrow> unat (word_of_nat n :: u16) = n"
  by (simp add: unat_of_nat)

lemma top_level_not_empty: "top_level_der_end bs = Some n \<Longrightarrow> bs \<noteq> []"
  by (auto simp: top_level_der_end_def byte_at_def)

lemma parse_header_frame:
  assumes "HEADER_LEN + length first + length body \<le> 65535"
  shows "parse_header (kpasswd_frame_bytes version first body @ rest) =
    Inr \<lparr>kf_message_length = word_of_nat (HEADER_LEN + length first + length body), kf_version = version,
         kf_payload_length = word_of_nat (length first), kf_body = first @ body\<rparr>"
proof -
  let ?n = "HEADER_LEN + length first + length body" and ?bs = "kpasswd_frame_bytes version first body @ rest"
  let ?l = "to_bytes_en Big (word_of_nat ?n :: u16)" and ?v = "to_bytes_en Big version" and ?p = "to_bytes_en Big (word_of_nat (length first) :: u16)"
  have len: "length ?l = 2" "length ?v = 2" "length ?p = 2" by simp_all
  have bs: "?bs = ?l @ ?v @ ?p @ first @ body @ rest" by (simp add: kpasswd_frame_bytes_def)
  have "ka_read_u16 ?bs 0 = word_of_nat ?n" using read_u16_be [of "[]" "word_of_nat ?n"] unfolding bs by simp
  moreover have "ka_read_u16 ?bs 2 = version" using read_u16_be [of ?l version] unfolding bs len by simp
  moreover have "ka_read_u16 ?bs 4 = word_of_nat (length first)" using read_u16_be [of "?l @ ?v" "word_of_nat (length first)"] unfolding bs by simp
  moreover have "unat (word_of_nat ?n :: u16) = ?n" by (rule unat_u16 [OF assms])
  moreover have "drop HEADER_LEN (take ?n ?bs) = first @ body" unfolding bs by (simp add: HEADER_LEN_def)
  moreover have "length ?bs = ?n + length rest" unfolding bs by (simp add: HEADER_LEN_def)
  ultimately show ?thesis by (simp add: parse_header_def Let_def)
qed

lemma request_read_back:
  assumes K: "kdc_asn1_ok K" and enc: "kpasswd_request_encode K r = Inr bs"
    and valid: "ap_req_validate (kr_ap_req r) = Inr ()" "validate_krb_priv (kr_krb_priv r) = Inr ()"
  shows "kpasswd_request_parse K (bs @ rest) = Inr r"
proof -
  obtain a p where a: "encode_ap_req (k_base K) (kr_ap_req r) = Inr a" and p: "encode_krb_priv K (kr_krb_priv r) = Inr p"
      and len: "HEADER_LEN + length a + length p \<le> 65535" and bs: "bs = kpasswd_frame_bytes CHANGE_PASSWORD_REQUEST_VERSION a p"
    using enc by (auto simp: kpasswd_request_encode_def rbind_eq_Inr map_err_eq_Inr Let_def split: if_splits)
  have da: "decode_ap_req (k_base K) a = Inr (kr_ap_req r)" "a \<noteq> []"
    using a asn1_okD(4) [OF kdc_asn1_okD(1) [OF K], of "kr_ap_req r" a] valid(1)
    by (auto simp: encode_ap_req_def decode_ap_req_def ok_or_eq_Inr)
  have cp: "c_enc (k_krb_priv K) (kr_krb_priv r) = Some p" using p by (simp add: encode_krb_priv_def ok_or_eq_Inr)
  have dp: "decode_krb_priv K p = Inr (kr_krb_priv r)" "p \<noteq> []"
    using codec_okD [OF kdc_asn1_okD(2) [OF K] cp TrueI] valid(2) top_level_not_empty by (auto simp: decode_krb_priv_def)
  have "unat (word_of_nat (length a) :: u16) = length a" using len by (intro unat_u16) simp
  then show ?thesis using da dp unfolding bs by (simp add: kpasswd_request_parse_def parse_header_frame [OF len] Let_def)
qed

lemma error_reply_read_back:
  assumes "length body + HEADER_LEN \<le> 65535" and "decode_krb_error K body = Inr e" and "traverse change_password_result_parse (ke_e_data e) = Inr result"
  shows "kpasswd_reply_parse K (kpasswd_frame_bytes CHANGE_PASSWORD_REPLY_VERSION [] body @ rest) =
    Inr \<lparr>ky_message_length = word_of_nat (HEADER_LEN + length body), ky_version = CHANGE_PASSWORD_REPLY_VERSION, ky_ap_rep_length = 0,
         ky_ap_rep = None, ky_krb_priv = None, ky_krb_error = Some e, ky_result = result\<rparr>"
proof -
  have "HEADER_LEN + length [] + length body \<le> 65535" using assms(1) by simp
  then show ?thesis using assms(2,3) by (simp add: kpasswd_reply_parse_def parse_header_frame)
qed


section \<open>Requests deliver the new password\<close>

lemma priv_options_fields:
  assumes "asn1_ok A" and "kpasswd_krb_priv_options A opts = Inr po" and "kq_timestamp opts = int n * NANOS"
  shows "whole (po_timestamp po) \<and> po_seq_number po = Some (kq_sequence_number opts) \<and> po_sender_address po = kq_sender_address opts
    \<and> po_recipient_address po = kq_recipient_address opts \<and> po_usec po = Some (uint (kq_cusec opts))
    \<and> (\<exists>t. po_timestamp po = Some t \<and> kt_seconds t = int n)"
proof -
  obtain t where t: "client_kerberos_time A (int n * NANOS) = Inr t"
    using assms(2,3) by (auto simp: kpasswd_krb_priv_options_def rbind_eq_Inr map_err_eq_Inr)
  have "whole_seconds t \<and> kt_seconds t = int n" using client_time_delivered [OF assms(1) t] by simp
  then show ?thesis using assms(2,3) t
    by (auto simp: kpasswd_krb_priv_options_def priv_with_recipient_address_def priv_with_sequence_number_def
        priv_with_timestamp_def priv_options_new_def whole_def Let_def split: option.splits)
qed

text \<open>C7: A password change request reaches the server with everything it needs.  The frame that is sent, whatever follows it on the
  wire, is parsed to the AP-REQ and the KRB-PRIV message it was made of; the authenticator opens under the session key of the ticket to
  the client, the sequence number and a subkey that is the reply key the client keeps; and under this key the KRB-PRIV message opens to
  exactly the new password and target, with the same time stamp, sequence number and addresses.\<close>

theorem kpasswd_request_delivers:
  assumes "prims_ok P" and "kdc_asn1_ok K" and "key_fits (rs_session_key st) e" and "key_fits reply_key e'"
    and "length conf = ket_confounder_len e" and "length conf' = ket_confounder_len e'" and "principal_text (rs_client st)"
    and "kq_timestamp opts = int n * NANOS"
    and "build_kpasswd_request_with_confounders K P st change_data reply_key opts conf conf' = Inr b"
  shows "\<exists>t auth part ts. kpasswd_request_parse K (bk_der b @ rest) = Inr (bk_request b)
    \<and> decode_ticket (k_base K) (rs_ticket st) = Inr t \<and> ar_ticket (kr_ap_req (bk_request b)) = t
    \<and> decrypt_ap_req_authenticator (k_base K) P (kr_ap_req (bk_request b)) (rs_session_key st) (authenticator_usage_for_ticket t) = Inr auth
    \<and> principal_from_parts (au_crealm auth) (au_cname auth) = Inr (rs_client st)
    \<and> map_option encryption_key_from_rasn (au_subkey auth) = Some (bk_reply_key b) \<and> au_seq_number auth = Some (kq_sequence_number opts)
    \<and> bk_reply_key b = reply_key
    \<and> decrypt_krb_priv_enc_part K P (kr_krb_priv (bk_request b)) (bk_reply_key b) = Inr part
    \<and> change_passwd_data_decode_der K (kpp_user_data part) = Inr change_data
    \<and> kpp_timestamp part = Some ts \<and> kt_seconds ts = int n \<and> kpp_seq_number part = Some (kq_sequence_number opts)
    \<and> kpp_sender_address part = kq_sender_address opts \<and> kpp_recipient_address part = kq_recipient_address opts"
proof -
  let ?ro = "ap_req_options_new\<lparr>arq_subkey := Some reply_key, arq_sequence_number := Some (kq_sequence_number opts)\<rparr>"
  note A = kdc_asn1_okD(1) [OF assms(2)]
  obtain ap po built where ap: "client_build_ap_req_with_confounder (k_base K) P st ?ro (int n * NANOS) (kq_cusec opts) conf = Inr ap"
      and po: "kpasswd_krb_priv_options (k_base K) opts = Inr po"
      and built: "build_change_password_request_with_confounder K P (ba_message ap) change_data reply_key po conf' = Inr built"
      and b: "b = built_kpasswd ap built"
    using assms(8,9) by (auto simp: build_kpasswd_request_with_confounders_def build_kpasswd_ap_req_with_confounder_def rbind_eq_Inr map_err_eq_Inr)
  obtain der priv bs where der: "change_passwd_data_encode_der K change_data = Inr der"
      and priv: "build_krb_priv_with_confounder K P der po reply_key None conf' = Inr priv"
      and bs: "kpasswd_request_encode K \<lparr>kr_ap_req = ba_message ap, kr_krb_priv = priv\<rparr> = Inr bs"
      and r: "built = \<lparr>bc_request = \<lparr>kr_ap_req = ba_message ap, kr_krb_priv = priv\<rparr>, bc_der = bs, bc_reply_key = reply_key\<rparr>"
    using built by (auto simp: build_change_password_request_with_confounder_def build_change_password_request_from_parts_def
        rbind_eq_Inr map_err_eq_Inr Let_def)
  note o = priv_options_fields [OF A po assms(8)]
  note d = decrypt_built_krb_priv [OF assms(1,2,4,6) _ priv]
  obtain t auth where t: "decode_ticket (k_base K) (rs_ticket st) = Inr t" "decode_ap_req (k_base K) (ba_der ap) = Inr (ba_message ap)"
      "ar_ticket (ba_message ap) = t"
      "decrypt_ap_req_authenticator (k_base K) P (ba_message ap) (rs_session_key st) (authenticator_usage_for_ticket t) = Inr auth"
      "principal_from_parts (au_crealm auth) (au_cname auth) = Inr (rs_client st)"
      "au_subkey auth = map_option encryption_key_to_rasn (arq_subkey ?ro)" "au_seq_number auth = arq_sequence_number ?ro"
    by (rule client_build_carries [OF assms(1) A assms(3,5,7) ap])
  have v: "ap_req_validate (ba_message ap) = Inr ()" using t(2) by (auto simp: decode_ap_req_def rbind_eq_Inr)
  have parse: "kpasswd_request_parse K (bs @ rest) = Inr \<lparr>kr_ap_req = ba_message ap, kr_krb_priv = priv\<rparr>"
    by (rule request_read_back [OF assms(2) bs]) (use v d(2) o in simp_all)
  have "change_passwd_data_decode_der K der = Inr change_data"
    using der codec_okD(1) [OF kdc_asn1_okD(16) [OF assms(2)]]
    by (simp add: change_passwd_data_encode_der_def change_passwd_data_decode_der_def ok_or_eq_Inr)
  then show ?thesis using t parse d(1) o by (auto simp: b r built_kpasswd_def build_enc_krb_priv_part_def)
qed

section \<open>Answers\<close>

text \<open>C26: The success of a password change is not authenticated.  A KRB-ERROR answer is neither sealed nor signed and may be made up by
  anyone; when its e-data begins with two zero bytes, the client takes it for the answer to any request, under any keys, reports success
  and replaces the stored password by the new one, which the server may never have seen.\<close>

theorem kpasswd_success_forgeable:
  assumes "decode_krb_error K body = Inr e" and "ke_e_data e = Some (0 # 0 # message)" and "length body \<le> 65529"
  shows "\<exists>reply result. kpasswd_reply_parse K (kpasswd_frame_bytes CHANGE_PASSWORD_REPLY_VERSION [] body) = Inr reply
    \<and> is_success result
    \<and> (\<forall>P request new_password c w. finish_change_password K P True new_password request reply (c, w)
         = (Inr (Some result), c\<lparr>tc_credentials := Some (Password new_password)\<rparr>, w))"
proof -
  let ?result = "\<lparr>cr_code = 0, cr_text = bytes_str (utf8_lossy message)\<rparr>"
  have parse: "change_password_result_parse (0 # 0 # message) = Inr ?result"
    by (simp add: change_password_result_parse_def ka_read_u16_def from_bytes_en_def numeral_2_eq_2)
  define reply where "reply = \<lparr>ky_message_length = word_of_nat (HEADER_LEN + length body), ky_version = CHANGE_PASSWORD_REPLY_VERSION,
    ky_ap_rep_length = 0, ky_ap_rep = None, ky_krb_priv = None, ky_krb_error = Some e, ky_result = Some ?result\<rparr>"
  have "kpasswd_reply_parse K (kpasswd_frame_bytes CHANGE_PASSWORD_REPLY_VERSION [] body) = Inr reply"
    using error_reply_read_back [of body K e "Some ?result" "[]"] assms parse by (simp add: reply_def HEADER_LEN_def)
  moreover have "is_success ?result" by (simp add: is_success_def KPASSWD_SUCCESS_def)
  ultimately show ?thesis
    by (auto simp: finish_change_password_def verify_kpasswd_ap_rep_def is_krb_error_def decrypt_result_def ensure_success_def
        reply_def cbind_def cof_def cmodify_def intro!: exI [of _ reply] exI [of _ ?result])
qed

end
