(* ===== verification/Transport_Props.thy ===== *)
theory Transport_Props
  imports Transport
begin

text \<open>
  What holds of the transport: answers are never empty and never longer than the limits, one endpoint after the other is tried
  until one answers, and the text of an endpoint is read back.
\<close>

section \<open>Answers\<close>

lemma non_empty_response: "non_empty_kdc_response r = Inr r' \<longleftrightarrow> r' = r \<and> r \<noteq> []"
  by (auto simp: non_empty_kdc_response_def)

lemma send_udp_answer:
  "send_udp N T addr request w = (Inr r, w') \<Longrightarrow> r \<noteq> [] \<and> length r \<le> kt_udp_response_limit T \<and> length request \<le> MAX_UDP_DATAGRAM"
  by (auto simp: send_udp_def non_empty_response split: if_splits prod.splits sum.splits)

lemma send_tcp_answer:
  "send_tcp N T addr request w = (Inr r, w') \<Longrightarrow> r \<noteq> [] \<and> length r \<le> kt_tcp_response_limit T \<and> length request < 2 ^ 32"
  by (auto simp: send_tcp_def tcp_response_def non_empty_response rbind_eq_Inr Let_def split: if_splits prod.splits sum.splits)

definition response_limit :: "kdc_transport \<Rightarrow> nat" where
  "response_limit T = max (kt_udp_response_limit T) (kt_tcp_response_limit T)"

lemma transport_send_answer:
  "transport_send N K T protocol addr request w = (Inr r, w') \<Longrightarrow> r \<noteq> [] \<and> length r \<le> response_limit T"
  by (cases protocol) (auto simp: transport_send_def response_limit_def dest!: send_udp_answer send_tcp_answer split: prod.splits sum.splits if_splits)

lemma send_loop_answer:
  "send_loop N K T realm protocol request failures es w = (Inr r, w') \<Longrightarrow> r \<noteq> [] \<and> length r \<le> response_limit T"
proof (induction es arbitrary: failures w)
  case (Cons e es)
  then show ?case
    by (cases "transport_send N K T (ep_protocol e) (ep_host e, ep_port e) request w"; cases "fst (transport_send N K T (ep_protocol e) (ep_host e, ep_port e) request w)")
      (auto dest: transport_send_answer)
qed simp

lemma send_to_endpoints_answer:
  "send_to_endpoints N K T realm protocol es request w = (Inr r, w') \<Longrightarrow> r \<noteq> [] \<and> length r \<le> response_limit T"
  by (auto simp: send_to_endpoints_def io_of_def dest: send_loop_answer split: if_splits)

lemma try_auto_answer: "try_auto K b try w = (Inr r, w') \<Longrightarrow> \<exists>p v v'. try p v = (Inr r, v')"
  by (cases b) (fastforce simp: try_auto_def split: prod.splits sum.splits if_splits)+

lemma try_auto_keeps: "try_auto K b try w = (Inr r, w') \<Longrightarrow> (\<And>p v v'. try p v = (Inr r, v') \<Longrightarrow> Q) \<Longrightarrow> Q"
  by (drule try_auto_answer) blast

text \<open>C23: Every answer a request to a realm returns, over UDP, TCP or automatic choice, from any endpoint, is non-empty and within the
  configured limits, whatever the network delivers.  A stream is read up to the length it announces: a shorter stream is an error and
  bytes behind the announced length are ignored.\<close>

theorem responses_bounded:
  shows "(send_to_realm N K T cfg protocol realm request w = (Inr r, w') \<longrightarrow> r \<noteq> [] \<and> length r \<le> response_limit T)
    \<and> (send_to_kpasswd_realm N K T cfg protocol realm request w = (Inr r, w') \<longrightarrow> r \<noteq> [] \<and> length r \<le> response_limit T)
    \<and> (tcp_response T stream closed = Inr r \<longleftrightarrow> (\<exists>n extra. stream = to_bytes_en Big (n :: u32) @ r @ extra \<and> unat n = length r
         \<and> length r \<le> kt_tcp_response_limit T))"
proof -
  have e: "r \<noteq> [] \<and> length r \<le> response_limit T" if "send_to_realm_explicit N K T cfg p realm request v = (Inr r, v')" for p v v'
    using that by (auto simp: send_to_realm_explicit_def io_bind_eq_Inr dest: send_to_endpoints_answer)
  have k: "r \<noteq> [] \<and> length r \<le> response_limit T" if "send_to_kpasswd_realm_explicit N K T cfg p realm request v = (Inr r, v')" for p v v'
    using that by (auto simp: send_to_kpasswd_realm_explicit_def io_bind_eq_Inr dest: send_to_endpoints_answer)
  have stream: "tcp_response T stream closed = Inr r \<longleftrightarrow> (\<exists>n extra. stream = to_bytes_en Big (n :: u32) @ r @ extra \<and> unat n = length r
      \<and> length r \<le> kt_tcp_response_limit T)"
  proof
    assume a: "tcp_response T stream closed = Inr r"
    define n :: u32 where "n = from_bytes_en Big (take 4 stream)"
    have n: "4 + unat n \<le> length stream" "unat n \<le> kt_tcp_response_limit T" "r = take (unat n) (drop 4 stream)"
      using a by (auto simp: tcp_response_def n_def Let_def split: if_splits)
    have "to_bytes_en Big n = take 4 stream" using n(1) by (simp add: n_def to_from_bytes_en)
    then have "stream = to_bytes_en Big n @ r @ drop (4 + unat n) stream"
      unfolding n(3) by (metis append_take_drop_id drop_drop add.commute)
    then show "\<exists>n extra. stream = to_bytes_en Big (n :: u32) @ r @ extra \<and> unat n = length r \<and> length r \<le> kt_tcp_response_limit T"
      using n by auto
  qed (auto simp: tcp_response_def Let_def)
  have "r \<noteq> [] \<and> length r \<le> response_limit T" if "send_to_realm N K T cfg protocol realm request w = (Inr r, w')"
    using that unfolding send_to_realm_def send_to_realm_auto_def by (cases "protocol = Auto") (simp, erule try_auto_keeps, erule e, simp, erule e)
  moreover have "r \<noteq> [] \<and> length r \<le> response_limit T" if "send_to_kpasswd_realm N K T cfg protocol realm request w = (Inr r, w')"
    using that unfolding send_to_kpasswd_realm_def send_to_kpasswd_realm_auto_def by (cases "protocol = Auto") (simp, erule try_auto_keeps, erule k, simp, erule k)
  ultimately show ?thesis using stream by blast
qed

section \<open>Failover\<close>

text \<open>The failures of endpoints of which none answers.\<close>

fun endpoint_errors ::
  "'w net_env \<Rightarrow> kdc_asn1 \<Rightarrow> kdc_transport \<Rightarrow> bytes \<Rightarrow> kdc_endpoint list \<Rightarrow> 'w \<Rightarrow> ((string \<times> exchange_error) list \<times> 'w) option" where
  "endpoint_errors N K T request [] w = Some ([], w)"
| "endpoint_errors N K T request (e # es) w =
     (case transport_send N K T (ep_protocol e) (ep_host e, ep_port e) request w of
        (Inr _, _) \<Rightarrow> None
      | (Inl err, w') \<Rightarrow> map_option (\<lambda>(fs, w''). ((endpoint_authority e, err) # fs, w'')) (endpoint_errors N K T request es w'))"

lemma send_loop_cases:
  "send_loop N K T realm protocol request failures es w = (case endpoint_errors N K T request es w of
     Some (fs, w') \<Rightarrow> (Inl (XKdcEndpointFailures realm protocol (failures @ fs)), w')
   | None \<Rightarrow> send_loop N K T realm protocol request [] es w)"
proof (induction es arbitrary: failures w)
  case (Cons e es)
  show ?case
  proof (cases "transport_send N K T (ep_protocol e) (ep_host e, ep_port e) request w")
    case (Pair a b)
    then show ?thesis
      using Cons.IH [of "failures @ [(endpoint_authority e, projl a)]" b] Cons.IH [of "[(endpoint_authority e, projl a)]" b]
      by (cases a) (auto split: option.splits)
  qed
qed simp

lemma send_loop_answers:
  "send_loop N K T realm protocol request failures es w = (Inr r, w') \<longleftrightarrow>
     (\<exists>before e after fs v. es = before @ e # after \<and> endpoint_errors N K T request before w = Some (fs, v)
        \<and> transport_send N K T (ep_protocol e) (ep_host e, ep_port e) request v = (Inr r, w'))"
proof (induction es arbitrary: failures w)
  case (Cons e es)
  obtain a v where s: "transport_send N K T (ep_protocol e) (ep_host e, ep_port e) request w = (a, v)" by (meson surj_pair)
  show ?case
  proof (cases a)
    case (Inl err)
    have "(\<exists>before e' after fs u. e # es = before @ e' # after \<and> endpoint_errors N K T request before w = Some (fs, u)
        \<and> transport_send N K T (ep_protocol e') (ep_host e', ep_port e') request u = (Inr r, w'))
      \<longleftrightarrow> (\<exists>before e' after fs u. es = before @ e' # after \<and> endpoint_errors N K T request before v = Some (fs, u)
        \<and> transport_send N K T (ep_protocol e') (ep_host e', ep_port e') request u = (Inr r, w'))" (is "?l \<longleftrightarrow> ?r")
    proof
      assume ?l
      then obtain before e' after fs u where l: "e # es = before @ e' # after" "endpoint_errors N K T request before w = Some (fs, u)"
          "transport_send N K T (ep_protocol e') (ep_host e', ep_port e') request u = (Inr r, w')" by blast
      then show ?r using s Inl by (cases before) auto
    next
      assume ?r
      then obtain before e' after fs u where l: "es = before @ e' # after" "endpoint_errors N K T request before v = Some (fs, u)"
          "transport_send N K T (ep_protocol e') (ep_host e', ep_port e') request u = (Inr r, w')" by blast
      then show ?l using s Inl by (intro exI [of _ "e # before"]) auto
    qed
    then show ?thesis using Cons.IH s Inl by simp
  next
    case (Inr x)
    have "(\<exists>before e' after fs u. e # es = before @ e' # after \<and> endpoint_errors N K T request before w = Some (fs, u)
        \<and> transport_send N K T (ep_protocol e') (ep_host e', ep_port e') request u = (Inr r, w')) \<longleftrightarrow> x = r \<and> v = w'"
    proof (intro iffI; elim exE conjE)
      fix before e' after fs u
      assume "e # es = before @ e' # after" "endpoint_errors N K T request before w = Some (fs, u)"
        "transport_send N K T (ep_protocol e') (ep_host e', ep_port e') request u = (Inr r, w')"
      then show "x = r \<and> v = w'" using s Inr by (cases before) auto
    next
      assume "x = r" "v = w'"
      then show "\<exists>before e' after fs u. e # es = before @ e' # after \<and> endpoint_errors N K T request before w = Some (fs, u)
        \<and> transport_send N K T (ep_protocol e') (ep_host e', ep_port e') request u = (Inr r, w')"
        using s Inr by (intro exI [of _ "[]"]) auto
    qed
    then show ?thesis using s Inr by simp
  qed
qed simp

text \<open>C22: Failover.  A request goes to the endpoints in their order, and the answer is that of the first one that answers after all
  endpoints before it failed; the request fails exactly when all of them did, and then the error lists every endpoint with its own
  failure, in the order they were tried.\<close>

theorem kdc_failover:
  shows "(send_to_endpoints N K T realm protocol endpoints request w = (Inr r, w') \<longleftrightarrow>
      (\<exists>before e after fs v. endpoints = before @ e # after \<and> endpoint_errors N K T request before w = Some (fs, v)
        \<and> transport_send N K T (ep_protocol e) (ep_host e, ep_port e) request v = (Inr r, w')))
    \<and> (send_to_endpoints N K T realm protocol endpoints request w = (Inl err, w') \<longleftrightarrow>
      (if endpoints = [] then err = XNoKdcEndpoints realm protocol \<and> w' = w
       else \<exists>fs. endpoint_errors N K T request endpoints w = Some (fs, w') \<and> err = XKdcEndpointFailures realm protocol fs
         \<and> map fst fs = map endpoint_authority endpoints))"
proof -
  have names: "endpoint_errors N K T request es w = Some (fs, w') \<Longrightarrow> map fst fs = map endpoint_authority es" for es w fs w'
    by (induction es arbitrary: w fs) (auto split: prod.splits sum.splits)
  have total: "\<exists>r v. send_loop N K T realm protocol request [] es w = (Inr r, v)" if "endpoint_errors N K T request es w = None" for es w
    using that by (induction es arbitrary: w) (auto split: prod.splits sum.splits option.splits simp: send_loop_cases [of N K T realm protocol request "[_]"])
  show ?thesis
  proof (cases "endpoints = []")
    case True
    then show ?thesis by (auto simp: send_to_endpoints_def io_of_def)
  next
    case False
    have "send_loop N K T realm protocol request [] endpoints w = (Inl err, w') \<longleftrightarrow>
        (\<exists>fs. endpoint_errors N K T request endpoints w = Some (fs, w') \<and> err = XKdcEndpointFailures realm protocol fs)"
      using send_loop_cases [of N K T realm protocol request "[]" endpoints w] total [of endpoints w]
      by (cases "endpoint_errors N K T request endpoints w") (auto split: prod.splits)
    then show ?thesis using False names [of endpoints w] by (auto simp: send_to_endpoints_def send_loop_answers)
  qed
qed

section \<open>Endpoints as text\<close>

lemma parse_port_dec_str: "parse_kdc_port v (dec_str (unat (p :: u16))) = Inr p"
proof -
  have "unat p < 2 ^ 16" using unsigned_less [of p] by simp
  then have "parse_unsigned 16 10 (dec_str (unat p)) = Some (unat p)"
    using digits_loop_dec [OF dec_str_ascii_digits, of 0 "unat p"] dec_val_dec_str [of "unat p"]
    by (simp add: parse_unsigned_def digits_value_def dec_val_def)
  then show ?thesis by (simp add: parse_kdc_port_def ok_or_def)
qed

lemma digit_char: "ascii_digit c \<Longrightarrow> graphic c \<and> c \<noteq> CHR '':'' \<and> c \<noteq> CHR '']''"
  by (auto simp: ascii_digit_def graphic_def)

text \<open>The text of an endpoint, as it is logged and as it may be configured, is read back to the same host and port, for host names,
  IPv4 addresses and IPv6 addresses, which are put in brackets; the default port is not used.\<close>

lemma endpoint_text_roundtrip:
  assumes "ep_host e \<noteq> []" and "\<forall>c \<in> set (ep_host e). graphic c" and "CHR ''['' \<notin> set (ep_host e)" and "CHR '']'' \<notin> set (ep_host e)"
  shows "parse_kdc_endpoint (endpoint_authority e) default_port = Inr (ep_host e, ep_port e)"
proof -
  let ?h = "ep_host e" and ?p = "dec_str (unat (ep_port e))"
  have p: "\<forall>c \<in> set ?p. graphic c \<and> c \<noteq> CHR '':''" "list_all ascii_digit ?p"
    using dec_str_ascii_digits digit_char by (auto simp: list_all_iff)
  have hd: "hd ?h \<noteq> CHR ''[''" "\<not> starts_with_char ?h (CHR ''['')" using assms(1,3) by (auto simp: starts_with_char_def neq_Nil_conv)
  have g: "graphic (CHR ''['')" "graphic (CHR '']'')" "graphic (CHR '':'')" by (simp_all add: graphic_def)
  have trim: "trim (endpoint_authority e) = endpoint_authority e"
    by (rule trim_graphic) (use assms(2) p g in \<open>auto simp: endpoint_authority_def\<close>)
  show ?thesis
  proof (cases "CHR '':'' \<in> set ?h")
    case True
    then have a: "endpoint_authority e = CHR ''['' # (?h @ CHR '']'' # CHR '':'' # ?p)" using hd by (simp add: endpoint_authority_def)
    have "split_once (CHR '']'') (?h @ CHR '']'' # CHR '':'' # ?p) = Some (?h, CHR '':'' # ?p)"
      using assms(4) by (simp add: split_once_Some)
    then show ?thesis unfolding parse_kdc_endpoint_def trim
      by (simp add: a assms(1) Let_def starts_with_char_def parse_port_dec_str)
  next
    case False
    then have a: "endpoint_authority e = ?h @ CHR '':'' # ?p" by (simp add: endpoint_authority_def)
    have "split_once (CHR '':'') (rev ?p @ CHR '':'' # rev ?h) = Some (rev ?p, rev ?h)" using p(1) by (auto simp: split_once_Some)
    then have "rsplit_once (CHR '':'') (endpoint_authority e) = Some (?h, ?p)" by (simp add: rsplit_once_def a)
    moreover have "last ?h \<noteq> CHR '':''" using False assms(1) by (metis last_in_set)
    moreover have "endpoint_authority e \<noteq> []" "hd (endpoint_authority e) = hd ?h" using assms(1) by (simp_all add: a)
    ultimately show ?thesis unfolding parse_kdc_endpoint_def trim
      using hd assms(1) p(2) by (simp add: Let_def parse_port_dec_str)
  qed
qed

end
