(* ===== verification/Http.thy ===== *)
theory Http
  imports Client_Kpasswd
begin

text \<open>
  HTTP Negotiate: the client wrapper of \<open>src/client/negotiate.rs\<close>, and the helpers, the client-side retry and the service-side
  middleware of \<open>src/http.rs\<close>.  Requests, responses and header values are of the \<open>http\<close> crate; what the code calls of them is
  the record \<open>http_types\<close>, and \<open>http_ok\<close> names what is relied on.
\<close>

section \<open>Requests and responses\<close>

text \<open>The first \<open>Authorization\<close> value of a request and the request with this header replaced, the request with an accepted
  context in its extensions; all \<open>WWW-Authenticate\<close> values of a response and the response with this header replaced, its status,
  an empty response with a status; \<open>to_str\<close>, \<open>from_str\<close> and \<open>from_static\<close> of header values.\<close>

record ('req, 'resp, 'hv) http_types =
  h_authorization :: "'req \<Rightarrow> 'hv option"
  h_set_authorization :: "'hv \<Rightarrow> 'req \<Rightarrow> 'req"
  h_attach :: "accepted_context \<Rightarrow> 'req \<Rightarrow> 'req"
  h_www_authenticate :: "'resp \<Rightarrow> 'hv list"
  h_set_www_authenticate :: "'hv \<Rightarrow> 'resp \<Rightarrow> 'resp"
  h_status :: "'resp \<Rightarrow> nat"
  h_response :: "nat \<Rightarrow> 'resp"
  h_to_str :: "'hv \<Rightarrow> string option"
  h_from_str :: "string \<Rightarrow> 'hv option"
  h_from_static :: "string \<Rightarrow> 'hv"

definition http_ok :: "('req, 'resp, 'hv) http_types \<Rightarrow> bool" where
  "http_ok H \<longleftrightarrow>
     (\<forall>v r. h_authorization H (h_set_authorization H v r) = Some v)
   \<and> (\<forall>v r. h_www_authenticate H (h_set_www_authenticate H v r) = [v] \<and> h_status H (h_set_www_authenticate H v r) = h_status H r)
   \<and> (\<forall>n. h_status H (h_response H n) = n)
   \<and> (\<forall>s. (\<forall>c \<in> set s. graphic c \<or> c = CHR '' '') \<longrightarrow> (\<exists>v. h_from_str H s = Some v \<and> h_to_str H v = Some s))
   \<and> (\<forall>s. (\<forall>c \<in> set s. graphic c \<or> c = CHR '' '') \<longrightarrow> h_to_str H (h_from_static H s) = Some s)"

datatype http_error =
    HMissingAuthorization
  | HMissingWwwAuthenticate
  | HMissingNegotiateChallenge
  | HInvalidHeader
  | HInvalidHeaderValue
  | HSpnego context_error
  | HClient exchange_error
  | HKeytab store_error

datatype 'e tower_error = TowerHttp http_error | TowerInner 'e

datatype 'e negotiate_http_error = NegHttp http_error | NegSender 'e

text \<open>What is wrong with a token, in place of the text that describes it.\<close>

datatype invalid_token = TokenHeader | TokenSpnego spnego_error | TokenContext context_error | TokenInit | TokenApReq

datatype client_negotiate_response =
    NoAuthenticateHeader
  | NoNegotiateChallenge
  | Challenge
  | Accepted "verified_ap_rep option"
  | Rejected
  | InvalidToken invalid_token

record 'resp negotiate_http_response =
  nh_response :: 'resp
  nh_context :: "initiator_context option"
  nh_negotiation :: "client_negotiate_response option"

definition nh_not_negotiated :: "'resp \<Rightarrow> 'resp negotiate_http_response" where
  "nh_not_negotiated response = \<lparr>nh_response = response, nh_context = None, nh_negotiation = None\<rparr>"

definition nh_negotiated :: "'resp \<Rightarrow> initiator_context \<Rightarrow> client_negotiate_response \<Rightarrow> 'resp negotiate_http_response" where
  "nh_negotiated response context negotiation =
     \<lparr>nh_response = response, nh_context = Some context, nh_negotiation = Some negotiation\<rparr>"

definition did_negotiate :: "'resp negotiate_http_response \<Rightarrow> bool" where
  "did_negotiate r \<longleftrightarrow> nh_context r \<noteq> None"

definition http_authorization_header :: "('req, 'resp, 'hv) http_types \<Rightarrow> 'req \<Rightarrow> http_error + string" where
  "http_authorization_header H request =
     rbind (ok_or (h_authorization H request) HMissingAuthorization) (\<lambda>v. ok_or (h_to_str H v) HInvalidHeader)"

definition set_authorization_header :: "('req, 'resp, 'hv) http_types \<Rightarrow> 'req \<Rightarrow> string \<Rightarrow> http_error + 'req" where
  "set_authorization_header H request value0 =
     rbind (ok_or (h_from_str H value0) HInvalidHeaderValue) (\<lambda>v. Inr (h_set_authorization H v request))"

section \<open>Challenges\<close>

definition HTTP_NEGOTIATE :: string where
  "HTTP_NEGOTIATE = ''Negotiate''"

definition is_ascii_whitespace :: "char \<Rightarrow> bool" where
  "is_ascii_whitespace c \<longleftrightarrow> c \<in> {CHR 0x20, CHR 0x09, CHR 0x0A, CHR 0x0C, CHR 0x0D}"

text \<open>One segment, up to a comma outside quotes, and what follows the comma.\<close>

fun www_segment :: "bool \<Rightarrow> bool \<Rightarrow> string \<Rightarrow> string \<times> string" where
  "www_segment quoted escaped [] = ([], [])"
| "www_segment quoted escaped (c # cs) =
     (if escaped then apfst (Cons c) (www_segment quoted False cs)
      else if c = CHR 0x5C \<and> quoted then apfst (Cons c) (www_segment quoted True cs)
      else if c = CHR 0x22 then apfst (Cons c) (www_segment (\<not> quoted) False cs)
      else if c = CHR '','' \<and> \<not> quoted then ([], cs)
      else apfst (Cons c) (www_segment quoted False cs))"

lemma www_segment_rest: "length (snd (www_segment q e s)) \<le> length s - 1"
proof (induction s arbitrary: q e)
  case (Cons c s)
  then show ?case using le_trans [OF Cons.IH, of "length s"] by (simp add: apfst_def map_prod_def split_beta)
qed simp

function www_segments :: "string \<Rightarrow> string list" where
  "www_segments [] = []"
| "www_segments (c # cs) =
     (case www_segment False False (c # cs) of (segment, rest) \<Rightarrow> segment # www_segments (dropWhile is_ascii_whitespace rest))"
  by pat_completeness auto
termination
proof (relation "measure length", goal_cases)
  case (2 c cs segment rest)
  then have "length rest \<le> length cs" using www_segment_rest [of False False "c # cs"] by (metis snd_conv diff_Suc_1 length_Cons)
  then show ?case using length_dropWhile_le [of is_ascii_whitespace rest] by simp
qed simp

definition is_negotiate_challenge :: "string \<Rightarrow> bool" where
  "is_negotiate_challenge challenge \<longleftrightarrow>
     length HTTP_NEGOTIATE \<le> length challenge \<and> eq_ignore_ascii_case (take (length HTTP_NEGOTIATE) challenge) HTTP_NEGOTIATE
   \<and> (let sfx = drop (length HTTP_NEGOTIATE) challenge in sfx = [] \<or> ws_len sfx > 0)"

definition negotiate_challenge :: "string \<Rightarrow> string option" where
  "negotiate_challenge header = find is_negotiate_challenge (map trim (www_segments header))"

text \<open>The loops over the header values end at the first that is not text or holds a challenge.\<close>

fun www_loop :: "('hv \<Rightarrow> string option) \<Rightarrow> bool \<Rightarrow> 'hv list \<Rightarrow> http_error + string" where
  "www_loop to_str seen [] = Inl (if seen then HMissingNegotiateChallenge else HMissingWwwAuthenticate)"
| "www_loop to_str seen (v # vs) =
     (case to_str v of
        None \<Rightarrow> Inl HInvalidHeader
      | Some header \<Rightarrow> (case negotiate_challenge header of Some challenge \<Rightarrow> Inr challenge | None \<Rightarrow> www_loop to_str True vs))"

definition www_authenticate_negotiate_header :: "('req, 'resp, 'hv) http_types \<Rightarrow> 'resp \<Rightarrow> http_error + string" where
  "www_authenticate_negotiate_header H response = www_loop (h_to_str H) False (h_www_authenticate H response)"

definition verify_ap_rep_response ::
  "('req, 'resp, 'hv) http_types \<Rightarrow> asn1 \<Rightarrow> crypto_prims \<Rightarrow> base64 \<Rightarrow> initiator_context \<Rightarrow> 'resp \<Rightarrow> http_error + verified_ap_rep" where
  "verify_ap_rep_response H A P B context response =
     rbind (www_authenticate_negotiate_header H response) (\<lambda>header.
       map_err HSpnego (verify_ap_rep_response_header A P B context header))"

definition negotiate_challenge_is_bare :: "string \<Rightarrow> bool" where
  "negotiate_challenge_is_bare challenge =
     (case split_ws_once challenge of (scheme, rest) \<Rightarrow>
        eq_ignore_ascii_case scheme HTTP_NEGOTIATE \<and> (case rest of None \<Rightarrow> True | Some v \<Rightarrow> trim v = []))"

definition classify_negotiate_challenge ::
  "asn1 \<Rightarrow> crypto_prims \<Rightarrow> base64 \<Rightarrow> initiator_context \<Rightarrow> string \<Rightarrow> client_negotiate_response" where
  "classify_negotiate_challenge A P B context challenge =
     (if negotiate_challenge_is_bare challenge then Challenge
      else case parse_negotiate_header B challenge of
        Inl e \<Rightarrow> InvalidToken (TokenSpnego e)
      | Inr (SpnegoInit _) \<Rightarrow> InvalidToken TokenInit
      | Inr (SpnegoResp response) \<Rightarrow>
          if nr_neg_state response = Some Reject then Rejected
          else if nr_neg_state response \<in> {Some AcceptIncomplete, Some RequestMic} \<and> nr_response_token response = None then Challenge
          else (case nr_response_token response of
            None \<Rightarrow> Accepted None
          | Some response_token \<Rightarrow>
              (case krb5_mech_token_decode response_token of
                 Inl e \<Rightarrow> InvalidToken (TokenSpnego e)
               | Inr krb5 \<Rightarrow>
                   (case k5_token_id krb5 of
                      ApRep \<Rightarrow>
                        (case ic_verify_ap_rep A P context (k5_message krb5) of
                           Inr ap_rep \<Rightarrow> Accepted (Some ap_rep)
                         | Inl e \<Rightarrow> InvalidToken (TokenContext e))
                    | KrbError \<Rightarrow> Rejected
                    | ApReq \<Rightarrow> InvalidToken TokenApReq))))"

fun classify_loop ::
  "('hv \<Rightarrow> string option) \<Rightarrow> (string \<Rightarrow> client_negotiate_response) \<Rightarrow> bool \<Rightarrow> 'hv list \<Rightarrow> client_negotiate_response" where
  "classify_loop to_str classify seen [] = (if seen then NoNegotiateChallenge else NoAuthenticateHeader)"
| "classify_loop to_str classify seen (v # vs) =
     (case to_str v of
        None \<Rightarrow> InvalidToken TokenHeader
      | Some header \<Rightarrow>
          (case negotiate_challenge header of Some challenge \<Rightarrow> classify challenge | None \<Rightarrow> classify_loop to_str classify True vs))"

definition classify_negotiate_response ::
  "('req, 'resp, 'hv) http_types \<Rightarrow> asn1 \<Rightarrow> crypto_prims \<Rightarrow> base64 \<Rightarrow> initiator_context \<Rightarrow> 'resp \<Rightarrow> client_negotiate_response" where
  "classify_negotiate_response H A P B context response =
     classify_loop (h_to_str H) (classify_negotiate_challenge A P B context) False (h_www_authenticate H response)"

definition should_retry_with_negotiate :: "('req, 'resp, 'hv) http_types \<Rightarrow> 'resp \<Rightarrow> http_error + bool" where
  "should_retry_with_negotiate H response =
     (if h_status H response \<noteq> 401 then Inr False
      else case www_authenticate_negotiate_header H response of
        Inr _ \<Rightarrow> Inr True
      | Inl HMissingWwwAuthenticate \<Rightarrow> Inr False
      | Inl HMissingNegotiateChallenge \<Rightarrow> Inr False
      | Inl e \<Rightarrow> Inl e)"

definition challenge_response :: "('req, 'resp, 'hv) http_types \<Rightarrow> 'resp" where
  "challenge_response H = h_set_www_authenticate H (h_from_static H HTTP_NEGOTIATE) (h_response H 401)"

definition response_with_www_authenticate :: "('req, 'resp, 'hv) http_types \<Rightarrow> nat \<Rightarrow> string \<Rightarrow> http_error + 'resp" where
  "response_with_www_authenticate H status header =
     rbind (ok_or (h_from_str H header) HInvalidHeaderValue) (\<lambda>v. Inr (h_set_www_authenticate H v (h_response H status)))"

definition reject_response :: "('req, 'resp, 'hv) http_types \<Rightarrow> base64 \<Rightarrow> http_error + 'resp" where
  "reject_response H B =
     rbind (map_err (\<lambda>e. HSpnego (CtxSpnego e)) (reject_header B)) (\<lambda>header. response_with_www_authenticate H 401 header)"

section \<open>The client\<close>

text \<open>\<open>spnego::init_sec_context\<close> on the clock and the random generator of the environment.\<close>

definition spnego_init ::
  "'w net_env \<Rightarrow> asn1 \<Rightarrow> crypto_prims \<Rightarrow> base64 \<Rightarrow> rep_session \<Rightarrow> initiator_options \<Rightarrow> ('w, initiator_context) io" where
  "spnego_init N A P B st options w =
     (let id = kt_etype (rs_session_key st) in
      case net_now N w of (now, w) \<Rightarrow>
      io_bind (io_of (map_err XContext (current_time now))) (\<lambda>(timestamp, cusec).
      io_bind (if io_sequence_number options = None
               then (\<lambda>w. case net_fill N 4 w of (bs, w) \<Rightarrow>
                 (map_err XContext (rbind (random_sequence_number (\<lambda>_. bs)) (\<lambda>n. Inr (options\<lparr>io_sequence_number := Some n\<rparr>))), w))
               else io_of (Inr options)) (\<lambda>options.
      io_bind (io_of (map_err XContext (ok_or (ket_from_etype_id id) (CtxUnsupportedEtype id)))) (\<lambda>etype.
      io_bind (\<lambda>w. case net_fill N (ket_confounder_len etype) w of (bs, w) \<Rightarrow> (map_err XContext (ok_or bs CtxRandom), w)) (\<lambda>confounder.
        io_of (map_err XContext (init_sec_context_with_confounder A P B st options timestamp cusec confounder)))))) w)"

definition spnego_context_with_options ::
  "'w net_env \<Rightarrow> kdc_asn1 \<Rightarrow> crypto_prims \<Rightarrow> base64 \<Rightarrow> principal \<Rightarrow> initiator_options \<Rightarrow> ('w, initiator_context) client_io" where
  "spnego_context_with_options N K P B service options =
     cbind (get_service_ticket N K P service) (\<lambda>ticket. cnet (spnego_init N (k_base K) P B ticket options))"

definition spnego_context :: "'w net_env \<Rightarrow> kdc_asn1 \<Rightarrow> crypto_prims \<Rightarrow> base64 \<Rightarrow> principal \<Rightarrow> ('w, initiator_context) client_io" where
  "spnego_context N K P B service = spnego_context_with_options N K P B service initiator_options_new"

definition spnego_header :: "'w net_env \<Rightarrow> kdc_asn1 \<Rightarrow> crypto_prims \<Rightarrow> base64 \<Rightarrow> principal \<Rightarrow> ('w, string) client_io" where
  "spnego_header N K P B service = cbind (spnego_context N K P B service) (\<lambda>ctx. cof (Inr (ic_header ctx)))"

definition spnego_header_with_options ::
  "'w net_env \<Rightarrow> kdc_asn1 \<Rightarrow> crypto_prims \<Rightarrow> base64 \<Rightarrow> principal \<Rightarrow> initiator_options \<Rightarrow> ('w, string) client_io" where
  "spnego_header_with_options N K P B service options =
     cbind (spnego_context_with_options N K P B service options) (\<lambda>ctx. cof (Inr (ic_header ctx)))"

text \<open>\<open>NegotiateClient\<close> wraps one \<open>TokioClient\<close> and passes every call on; \<open>BlockingNegotiateClient\<close> runs the same calls to
  their end on a runtime of its own.\<close>

type_synonym negotiate_client = tokio_client

definition negotiate_with_password :: "config \<Rightarrow> principal \<Rightarrow> bytes \<Rightarrow> negotiate_client" where
  "negotiate_with_password cfg client password = with_password cfg Auto client password"

definition negotiate_with_keytab :: "config \<Rightarrow> principal \<Rightarrow> keytab \<Rightarrow> negotiate_client" where
  "negotiate_with_keytab cfg client kt = with_keytab cfg Auto client kt"

definition authorization_context_with_options ::
  "'w net_env \<Rightarrow> kdc_asn1 \<Rightarrow> crypto_prims \<Rightarrow> base64 \<Rightarrow> principal \<Rightarrow> initiator_options \<Rightarrow> ('w, initiator_context) client_io" where
  "authorization_context_with_options N K P B service options = spnego_context_with_options N K P B service options"

definition authorization_context :: "'w net_env \<Rightarrow> kdc_asn1 \<Rightarrow> crypto_prims \<Rightarrow> base64 \<Rightarrow> principal \<Rightarrow> ('w, initiator_context) client_io" where
  "authorization_context N K P B service = spnego_context N K P B service"

definition authorization_context_for_host ::
  "'w net_env \<Rightarrow> kdc_asn1 \<Rightarrow> crypto_prims \<Rightarrow> base64 \<Rightarrow> string \<Rightarrow> string \<Rightarrow> ('w, initiator_context) client_io" where
  "authorization_context_for_host N K P B service host =
     cbind (cof (map_err XPrincipal (host_based_service service host))) (\<lambda>p. authorization_context N K P B p)"

definition negotiate_authorization_header ::
  "'w net_env \<Rightarrow> kdc_asn1 \<Rightarrow> crypto_prims \<Rightarrow> base64 \<Rightarrow> principal \<Rightarrow> ('w, string) client_io" where
  "negotiate_authorization_header N K P B service =
     cbind (authorization_context N K P B service) (\<lambda>ctx. cof (Inr (ic_header ctx)))"

definition authorization_header_for_host ::
  "'w net_env \<Rightarrow> kdc_asn1 \<Rightarrow> crypto_prims \<Rightarrow> base64 \<Rightarrow> string \<Rightarrow> string \<Rightarrow> ('w, string) client_io" where
  "authorization_header_for_host N K P B service host =
     cbind (authorization_context_for_host N K P B service host) (\<lambda>ctx. cof (Inr (ic_header ctx)))"

text \<open>The operations on requests fail with an error of this module, \<open>None\<close> is a panic as before.  The errors of the client
  become \<open>HClient\<close>.\<close>

type_synonym ('w, 'x, 'a) http_io = "tokio_client \<times> 'w \<Rightarrow> ('x + 'a option) \<times> (tokio_client \<times> 'w)"

definition hlift :: "(exchange_error \<Rightarrow> 'x) \<Rightarrow> ('w, 'a) client_io \<Rightarrow> ('w, 'x, 'a) http_io" where
  "hlift f m s = (case m s of (Inl e, s') \<Rightarrow> (Inl (f e), s') | (Inr r, s') \<Rightarrow> (Inr r, s'))"

definition hbind :: "('w, 'x, 'a) http_io \<Rightarrow> ('a \<Rightarrow> ('w, 'x, 'b) http_io) \<Rightarrow> ('w, 'x, 'b) http_io" where
  "hbind m f s =
     (case m s of (Inl e, s') \<Rightarrow> (Inl e, s') | (Inr None, s') \<Rightarrow> (Inr None, s') | (Inr (Some x), s') \<Rightarrow> f x s')"

definition hof :: "'x + 'a \<Rightarrow> ('w, 'x, 'a) http_io" where
  "hof r s = (case r of Inl e \<Rightarrow> (Inl e, s) | Inr x \<Rightarrow> (Inr (Some x), s))"

text \<open>The request with its header is the second component of the result.\<close>

definition authorize_request_context_with_options ::
  "('req, 'resp, 'hv) http_types \<Rightarrow> 'w net_env \<Rightarrow> kdc_asn1 \<Rightarrow> crypto_prims \<Rightarrow> base64 \<Rightarrow> 'req \<Rightarrow> principal \<Rightarrow> initiator_options
    \<Rightarrow> ('w, http_error, initiator_context \<times> 'req) http_io" where
  "authorize_request_context_with_options H N K P B request service options =
     hbind (hlift HClient (spnego_context_with_options N K P B service options)) (\<lambda>context.
     hbind (hof (set_authorization_header H request (ic_header context))) (\<lambda>request. hof (Inr (context, request))))"

definition authorize_request_context ::
  "('req, 'resp, 'hv) http_types \<Rightarrow> 'w net_env \<Rightarrow> kdc_asn1 \<Rightarrow> crypto_prims \<Rightarrow> base64 \<Rightarrow> 'req \<Rightarrow> principal
    \<Rightarrow> ('w, http_error, initiator_context \<times> 'req) http_io" where
  "authorize_request_context H N K P B request service =
     authorize_request_context_with_options H N K P B request service initiator_options_new"

definition authorize_request ::
  "('req, 'resp, 'hv) http_types \<Rightarrow> 'w net_env \<Rightarrow> kdc_asn1 \<Rightarrow> crypto_prims \<Rightarrow> base64 \<Rightarrow> 'req \<Rightarrow> principal \<Rightarrow> ('w, http_error, 'req) http_io" where
  "authorize_request H N K P B request service =
     hbind (authorize_request_context H N K P B request service) (\<lambda>(_, request). hof (Inr request))"

text \<open>\<open>make_request\<close> and \<open>send_request\<close> of the caller act on the world.\<close>

definition hworld :: "('w \<Rightarrow> ('x + 'a) \<times> 'w) \<Rightarrow> ('w, 'x, 'a) http_io" where
  "hworld m s = (case m (snd s) of (Inl e, w) \<Rightarrow> (Inl e, fst s, w) | (Inr x, w) \<Rightarrow> (Inr (Some x), fst s, w))"

definition send_with_negotiate_options ::
  "('req, 'resp, 'hv) http_types \<Rightarrow> 'w net_env \<Rightarrow> kdc_asn1 \<Rightarrow> crypto_prims \<Rightarrow> base64 \<Rightarrow> principal \<Rightarrow> initiator_options
    \<Rightarrow> ('w \<Rightarrow> 'req \<times> 'w) \<Rightarrow> ('req \<Rightarrow> 'w \<Rightarrow> ('e + 'resp) \<times> 'w) \<Rightarrow> ('w, 'e negotiate_http_error, 'resp negotiate_http_response) http_io" where
  "send_with_negotiate_options H N K P B service options make_request send_request =
     (let make = hworld (\<lambda>w. case make_request w of (r, w) \<Rightarrow> (Inr r, w));
          send = (\<lambda>r. hworld (\<lambda>w. case send_request r w of (out, w) \<Rightarrow> (map_err NegSender out, w)))
      in
      hbind make (\<lambda>request. hbind (send request) (\<lambda>first.
      hbind (hof (map_err NegHttp (should_retry_with_negotiate H first))) (\<lambda>retry.
      if \<not> retry then hof (Inr (nh_not_negotiated first))
      else
        hbind make (\<lambda>request.
        hbind (hlift (\<lambda>e. NegHttp (HClient e)) (authorization_context_with_options N K P B service options)) (\<lambda>context.
        hbind (hof (map_err NegHttp (set_authorization_header H request (ic_header context)))) (\<lambda>request.
        hbind (send request) (\<lambda>response.
          hof (Inr (nh_negotiated response context (classify_negotiate_response H (k_base K) P B context response)))))))))))"

definition send_with_negotiate ::
  "('req, 'resp, 'hv) http_types \<Rightarrow> 'w net_env \<Rightarrow> kdc_asn1 \<Rightarrow> crypto_prims \<Rightarrow> base64 \<Rightarrow> principal
    \<Rightarrow> ('w \<Rightarrow> 'req \<times> 'w) \<Rightarrow> ('req \<Rightarrow> 'w \<Rightarrow> ('e + 'resp) \<times> 'w) \<Rightarrow> ('w, 'e negotiate_http_error, 'resp negotiate_http_response) http_io" where
  "send_with_negotiate H N K P B service make_request send_request =
     send_with_negotiate_options H N K P B service initiator_options_new make_request send_request"

section \<open>The service\<close>

definition accept_request ::
  "('req, 'resp, 'hv) http_types \<Rightarrow> asn1 \<Rightarrow> crypto_prims \<Rightarrow> claims_codec \<Rightarrow> base64 \<Rightarrow> validator \<Rightarrow> cache_store \<Rightarrow> system_time \<Rightarrow> system_time
    \<Rightarrow> 'req \<Rightarrow> (http_error + accepted_context \<times> 'req) \<times> validator \<times> cache_store" where
  "accept_request H A P Z B v S c1 c2 request =
     (case http_authorization_header H request of
        Inl e \<Rightarrow> (Inl e, v, S)
      | Inr header \<Rightarrow>
          (case accept_sec_context_header A P Z B v S c1 c2 header of
             (Inl e, v', S') \<Rightarrow> (Inl (HSpnego e), v', S')
           | (Inr acc, v', S') \<Rightarrow> (Inr (acc, h_attach H acc request), v', S')))"

record validator_options =
  vo_max_clock_skew :: "duration option"
  vo_now :: "system_time option"
  vo_keytab_principal :: "string list option"
  vo_client_address :: "host_address option"
  vo_require_client_address :: bool
  vo_shared_replay_cache :: "cache_ref option"

text \<open>\<open>SharedReplayCache::new\<close> makes the fresh cache \<open>r\<close>.\<close>

definition validator_options_default :: "cache_ref \<Rightarrow> validator_options" where
  "validator_options_default r = \<lparr>vo_max_clock_skew = None, vo_now = None, vo_keytab_principal = None, vo_client_address = None,
     vo_require_client_address = False, vo_shared_replay_cache = Some r\<rparr>"

definition validator_build :: "validator_options \<Rightarrow> keytab \<Rightarrow> validator" where
  "validator_build o1 kt =
     (let v = validator_new kt;
          v = (case vo_now o1 of Some now \<Rightarrow> with_now v now | None \<Rightarrow> v);
          v = (case vo_max_clock_skew o1 of Some d \<Rightarrow> with_max_clock_skew v d | None \<Rightarrow> v);
          v = (case vo_keytab_principal o1 of Some p \<Rightarrow> with_keytab_principal v p | None \<Rightarrow> v);
          v = (case vo_client_address o1 of Some a \<Rightarrow> with_client_address v a | None \<Rightarrow> v);
          v = (case vo_shared_replay_cache o1 of Some r \<Rightarrow> with_shared_replay_cache v r | None \<Rightarrow> v)
      in require_client_address v (vo_require_client_address o1))"

record negotiate_response_options =
  no_emit_ap_rep :: bool
  no_ap_rep_options :: ap_rep_options
  no_reject_invalid :: bool

definition negotiate_response_options_default :: negotiate_response_options where
  "negotiate_response_options_default = \<lparr>no_emit_ap_rep = True,
     no_ap_rep_options = \<lparr>aro_subkey = None, aro_sequence_number = None, aro_kvno = None\<rparr>, no_reject_invalid = True\<rparr>"

record negotiate_layer =
  nl_keytab :: keytab
  nl_validator :: validator_options
  nl_response :: negotiate_response_options

definition layer_new :: "cache_ref \<Rightarrow> keytab \<Rightarrow> negotiate_layer" where
  "layer_new r kt = \<lparr>nl_keytab = kt, nl_validator = validator_options_default r, nl_response = negotiate_response_options_default\<rparr>"

definition layer_with_now :: "negotiate_layer \<Rightarrow> system_time \<Rightarrow> negotiate_layer" where
  "layer_with_now l now = l\<lparr>nl_validator := (nl_validator l)\<lparr>vo_now := Some now\<rparr>\<rparr>"

definition layer_with_max_clock_skew :: "negotiate_layer \<Rightarrow> duration \<Rightarrow> negotiate_layer" where
  "layer_with_max_clock_skew l d = l\<lparr>nl_validator := (nl_validator l)\<lparr>vo_max_clock_skew := Some d\<rparr>\<rparr>"

definition layer_with_keytab_principal :: "negotiate_layer \<Rightarrow> string list \<Rightarrow> negotiate_layer" where
  "layer_with_keytab_principal l p = l\<lparr>nl_validator := (nl_validator l)\<lparr>vo_keytab_principal := Some p\<rparr>\<rparr>"

definition layer_with_client_address :: "negotiate_layer \<Rightarrow> host_address \<Rightarrow> negotiate_layer" where
  "layer_with_client_address l a = l\<lparr>nl_validator := (nl_validator l)\<lparr>vo_client_address := Some a\<rparr>\<rparr>"

definition layer_require_client_address :: "negotiate_layer \<Rightarrow> bool \<Rightarrow> negotiate_layer" where
  "layer_require_client_address l b = l\<lparr>nl_validator := (nl_validator l)\<lparr>vo_require_client_address := b\<rparr>\<rparr>"

definition layer_with_shared_replay_cache :: "negotiate_layer \<Rightarrow> cache_ref \<Rightarrow> negotiate_layer" where
  "layer_with_shared_replay_cache l r = l\<lparr>nl_validator := (nl_validator l)\<lparr>vo_shared_replay_cache := Some r\<rparr>\<rparr>"

definition layer_without_shared_replay_cache :: "negotiate_layer \<Rightarrow> negotiate_layer" where
  "layer_without_shared_replay_cache l = l\<lparr>nl_validator := (nl_validator l)\<lparr>vo_shared_replay_cache := None\<rparr>\<rparr>"

definition layer_with_ap_rep :: "negotiate_layer \<Rightarrow> bool \<Rightarrow> negotiate_layer" where
  "layer_with_ap_rep l b = l\<lparr>nl_response := (nl_response l)\<lparr>no_emit_ap_rep := b\<rparr>\<rparr>"

definition layer_with_ap_rep_options :: "negotiate_layer \<Rightarrow> ap_rep_options \<Rightarrow> negotiate_layer" where
  "layer_with_ap_rep_options l ro = l\<lparr>nl_response := (nl_response l)\<lparr>no_ap_rep_options := ro\<rparr>\<rparr>"

definition layer_with_reject_invalid :: "negotiate_layer \<Rightarrow> bool \<Rightarrow> negotiate_layer" where
  "layer_with_reject_invalid l b = l\<lparr>nl_response := (nl_response l)\<lparr>no_reject_invalid := b\<rparr>\<rparr>"

text \<open>The service keeps a validator and the options; the inner service, with whatever state it has, is a function on the world.\<close>

record negotiate_service =
  ns_validator :: validator
  ns_response :: negotiate_response_options

definition layer_service :: "negotiate_layer \<Rightarrow> negotiate_service" where
  "layer_service l = \<lparr>ns_validator = validator_build (nl_validator l) (nl_keytab l), ns_response = nl_response l\<rparr>"

definition service_new :: "cache_ref \<Rightarrow> keytab \<Rightarrow> negotiate_service" where
  "service_new r kt = layer_service (layer_new r kt)"

definition negotiate_call ::
  "('req, 'resp, 'hv) http_types \<Rightarrow> asn1 \<Rightarrow> crypto_prims \<Rightarrow> claims_codec \<Rightarrow> base64 \<Rightarrow> (nat \<Rightarrow> bytes option)
    \<Rightarrow> ('req \<Rightarrow> 'w \<Rightarrow> ('e + 'resp) \<times> 'w) \<Rightarrow> system_time \<Rightarrow> system_time \<Rightarrow> 'req
    \<Rightarrow> negotiate_service \<times> cache_store \<times> 'w \<Rightarrow> ('e tower_error + 'resp) \<times> (negotiate_service \<times> cache_store \<times> 'w)" where
  "negotiate_call H A P Z B fill inner c1 c2 request s =
     (case s of (svc, S, w) \<Rightarrow>
      case accept_request H A P Z B (ns_validator svc) S c1 c2 request of
        (Inl e, v', S') \<Rightarrow>
          (let svc' = svc\<lparr>ns_validator := v'\<rparr> in
           case e of
             HMissingAuthorization \<Rightarrow> (Inr (challenge_response H), svc', S', w)
           | HInvalidHeader \<Rightarrow> (Inr (challenge_response H), svc', S', w)
           | HSpnego _ \<Rightarrow>
               (Inr (if no_reject_invalid (ns_response svc)
                     then (case reject_response H B of Inr r \<Rightarrow> r | Inl _ \<Rightarrow> challenge_response H)
                     else challenge_response H), svc', S', w)
           | other \<Rightarrow> (Inl (TowerHttp other), svc', S', w))
      | (Inr (acc, request'), v', S') \<Rightarrow>
          (let svc' = svc\<lparr>ns_validator := v'\<rparr> in
           case (if no_emit_ap_rep (ns_response svc)
                 then rbind (map_err (\<lambda>e. TowerHttp (HSpnego e)) (ap_rep_response_header A P B fill acc (no_ap_rep_options (ns_response svc))))
                        (\<lambda>header. Inr (Some header))
                 else Inr None) of
             Inl e \<Rightarrow> (Inl e, svc', S', w)
           | Inr ap_rep_header \<Rightarrow>
               (case inner request' w of
                  (Inl e, w') \<Rightarrow> (Inl (TowerInner e), svc', S', w')
                | (Inr response, w') \<Rightarrow>
                    (case ap_rep_header of
                       None \<Rightarrow> (Inr response, svc', S', w')
                     | Some header \<Rightarrow>
                         (rbind (ok_or (h_from_str H header) (TowerHttp HInvalidHeaderValue)) (\<lambda>v.
                            Inr (h_set_www_authenticate H v response)), svc', S', w')))))"

end
