(* ===== verification/Http_Props.thy ===== *)
theory Http_Props
  imports Http
begin

text \<open>
  What holds of HTTP Negotiate: challenges are found in lists of challenges, the middleware passes on only requests it accepted,
  and a client and a service that use the two sides of the module authenticate each other.
\<close>

section \<open>Challenges\<close>

text \<open>A challenge as it may stand in a list: quotes are closed and commas are inside them.\<close>

fun challenge_text :: "bool \<Rightarrow> bool \<Rightarrow> string \<Rightarrow> bool" where
  "challenge_text quoted escaped [] \<longleftrightarrow> \<not> quoted"
| "challenge_text quoted escaped (c # cs) \<longleftrightarrow>
     (if escaped then challenge_text quoted False cs
      else if c = CHR 0x5C \<and> quoted then challenge_text quoted True cs
      else if c = CHR 0x22 then challenge_text (\<not> quoted) False cs
      else if c = CHR '','' \<and> \<not> quoted then False
      else challenge_text quoted False cs)"

lemma www_segment_text:
  assumes "challenge_text q e s" and "\<not> q \<longrightarrow> \<not> e"
  shows "www_segment q e s = (s, []) \<and> www_segment q e (s @ CHR '','' # rest) = (s, rest)"
  using assms by (induction q e s rule: challenge_text.induct) (auto split: if_splits)

fun challenge_list :: "string list \<Rightarrow> string" where
  "challenge_list [] = []"
| "challenge_list [s] = s"
| "challenge_list (s # ss) = s @ '', '' @ challenge_list ss"

lemma www_segments_joined:
  assumes "\<forall>s \<in> set cs. s \<noteq> [] \<and> \<not> is_ascii_whitespace (hd s) \<and> challenge_text False False s"
  shows "www_segments (challenge_list cs) = cs"
  using assms
proof (induction cs rule: challenge_list.induct)
  case (2 s)
  then show ?case using www_segment_text [of False False s "[]"] by (cases s) auto
next
  case (3 s s' cs)
  then obtain c r where s: "s = c # r" by (cases s) auto
  let ?rest = "challenge_list (s' # cs)"
  have "?rest \<noteq> [] \<and> \<not> is_ascii_whitespace (hd ?rest)" using "3.prems" by (cases cs) (auto simp: hd_append)
  then have "dropWhile is_ascii_whitespace (CHR '' '' # ?rest) = ?rest" by (cases ?rest) (auto simp: is_ascii_whitespace_def)
  moreover have "challenge_text False False s" using "3.prems" by simp
  then have "www_segment False False (s @ CHR '','' # CHR '' '' # ?rest) = (s, CHR '' '' # ?rest)"
    using www_segment_text [of False False s "CHR '' '' # ?rest"] by blast
  then have "www_segment False False (c # r @ CHR '','' # CHR '' '' # ?rest) = (s, CHR '' '' # ?rest)" unfolding s by (simp del: www_segment.simps)
  moreover have "challenge_list (s # s' # cs) = c # r @ CHR '','' # CHR '' '' # ?rest" by (simp add: s)
  ultimately show ?case using "3.IH" "3.prems" by (simp del: www_segment.simps challenge_list.simps)
qed simp

text \<open>C25: A \<open>WWW-Authenticate\<close> value that lists challenges, each with closed quotes and with its commas inside quotes, is taken apart into
  exactly these challenges, and the challenge that is answered is the first one for the Negotiate scheme; commas, scheme names and
  escaped quotes inside quoted parameters do not mislead it.\<close>

theorem challenges_found:
  assumes "\<forall>s \<in> set cs. s \<noteq> [] \<and> \<not> is_ascii_whitespace (hd s) \<and> challenge_text False False s"
  shows "www_segments (challenge_list cs) = cs \<and> negotiate_challenge (challenge_list cs) = find is_negotiate_challenge (map trim cs)"
  using www_segments_joined [OF assms] by (simp add: negotiate_challenge_def)

section \<open>Headers on the wire\<close>

lemma http_okD:
  assumes "http_ok H"
  shows "h_authorization H (h_set_authorization H v r) = Some v"
    and "h_www_authenticate H (h_set_www_authenticate H v q) = [v]" and "h_status H (h_set_www_authenticate H v q) = h_status H q"
    and "h_status H (h_response H n) = n"
    and "\<forall>c \<in> set s. graphic c \<or> c = CHR '' '' \<Longrightarrow> \<exists>v. h_from_str H s = Some v \<and> h_to_str H v = Some s"
    and "\<forall>c \<in> set s. graphic c \<or> c = CHR '' '' \<Longrightarrow> h_to_str H (h_from_static H s) = Some s"
  using assms unfolding http_ok_def by blast+

text \<open>The alphabet of the encoding has no comma, quote or backslash.\<close>

definition b64_plain :: "base64 \<Rightarrow> bool" where
  "b64_plain B \<longleftrightarrow> (\<forall>bs. \<forall>c \<in> set (b64_encode B bs). c \<notin> {CHR '','', CHR 0x22, CHR 0x5C})"

lemma plain_challenge_text:
  "\<forall>c \<in> set s. c \<notin> {CHR '','', CHR 0x22, CHR 0x5C} \<Longrightarrow> challenge_text False False s"
  by (induction s) auto

lemma trim_spaced:
  assumes "\<forall>c \<in> set a. graphic c" and "\<forall>c \<in> set b. graphic c" and "a \<noteq> []" and "b \<noteq> []"
  shows "trim (a @ CHR '' '' # b) = a @ CHR '' '' # b"
proof -
  have keep: "trim_end (a' @ CHR '' '' # b) = a' @ CHR '' '' # b" if "\<forall>c \<in> set a'. graphic c" for a'
    using that
  proof (induction a')
    case Nil
    obtain d b' where b: "b = d # b'" using assms(4) by (cases b) auto
    have ws: "ws_len (CHR '' '' # b) = 1" by (cases b; cases "tl b") (simp_all add: ws_len_def)
    have "trim_start (CHR '' '' # b) = b" using ws assms(2) b by (subst trim_start.simps) (simp add: trim_start_graphic)
    moreover have "trim_end b = b" using assms(2) by (induction b) (simp_all add: trim_start_graphic)
    ultimately show ?case using assms(4) by simp
  qed (simp add: trim_start_graphic)
  have "trim_start (a @ CHR '' '' # b) = a @ CHR '' '' # b" using assms(1,3) by (cases a) (simp_all add: trim_start_graphic)
  then show ?thesis using keep [OF assms(1)] by (simp add: trim_def)
qed

lemma negotiate_value_found:
  assumes "b64_ok B" and "b64_plain B" and "parse_negotiate_header B (''Negotiate '' @ b64_encode B bs) = Inr tok"
  shows "negotiate_challenge (''Negotiate '' @ b64_encode B bs) = Some (''Negotiate '' @ b64_encode B bs)"
    and "\<forall>c \<in> set (''Negotiate '' @ b64_encode B bs). graphic c \<or> c = CHR '' ''"
    and "\<not> negotiate_challenge_is_bare (''Negotiate '' @ b64_encode B bs)"
proof -
  let ?t = "b64_encode B bs"
  have h: "''Negotiate '' @ ?t = ''Negotiate'' @ CHR '' '' # ?t" by simp
  have g: "\<forall>c \<in> set ''Negotiate''. graphic c" by (simp add: graphic_def)
  have t: "\<forall>c \<in> set ?t. graphic c" "\<forall>c \<in> set ?t. c \<notin> {CHR '','', CHR 0x22, CHR 0x5C}"
    using assms unfolding b64_ok_def b64_plain_def by blast+
  have split: "split_ws_once (''Negotiate '' @ ?t) = (''Negotiate'', Some ?t)" unfolding h by (rule split_ws_once_space [OF g])
  have ne: "?t \<noteq> []" using assms(3) unfolding parse_negotiate_header_def split Let_def by (auto simp: trim_graphic)
  have seg: "www_segments (''Negotiate '' @ ?t) = [''Negotiate '' @ ?t]"
    using www_segments_joined [of "[''Negotiate '' @ ?t]"] t(2) by (simp add: is_ascii_whitespace_def plain_challenge_text)
  have "trim (''Negotiate '' @ ?t) = ''Negotiate '' @ ?t" unfolding h by (rule trim_spaced [OF g t(1) _ ne]) simp
  moreover have "ws_len (CHR '' '' # ?t) = 1" by (cases ?t; cases "tl ?t") (simp_all add: ws_len_def)
  then have "is_negotiate_challenge (''Negotiate '' @ ?t)" by (simp add: is_negotiate_challenge_def HTTP_NEGOTIATE_def eq_ignore_ascii_case_def)
  ultimately show "negotiate_challenge (''Negotiate '' @ ?t) = Some (''Negotiate '' @ ?t)" unfolding negotiate_challenge_def seg by simp
  show "\<forall>c \<in> set (''Negotiate '' @ ?t). graphic c \<or> c = CHR '' ''" using t(1) by (simp add: graphic_def)
  show "\<not> negotiate_challenge_is_bare (''Negotiate '' @ ?t)"
    unfolding negotiate_challenge_is_bare_def split using ne trim_graphic [OF t(1)] by simp
qed

lemma bare_challenge_found: "negotiate_challenge ''Negotiate'' = Some ''Negotiate''"
proof -
  have "www_segments ''Negotiate'' = [''Negotiate'']" using www_segments_joined [of "[''Negotiate'']"] by (simp add: is_ascii_whitespace_def)
  moreover have "trim ''Negotiate'' = ''Negotiate''" by (rule trim_graphic) (simp add: graphic_def)
  ultimately show ?thesis
    by (simp only: negotiate_challenge_def list.map) (simp add: is_negotiate_challenge_def HTTP_NEGOTIATE_def eq_ignore_ascii_case_def)
qed

lemma challenge_response_retried:
  assumes "http_ok H"
  shows "h_status H (challenge_response H) = 401 \<and> should_retry_with_negotiate H (challenge_response H) = Inr True"
proof -
  have "h_to_str H (h_from_static H ''Negotiate'') = Some ''Negotiate''" by (rule http_okD(6) [OF assms]) (simp add: graphic_def)
  then show ?thesis
    by (simp add: challenge_response_def should_retry_with_negotiate_def www_authenticate_negotiate_header_def http_okD [OF assms] HTTP_NEGOTIATE_def
        bare_challenge_found)
qed

section \<open>The middleware\<close>

text \<open>The request is accepted by the validator of the service, with the context \<open>acc\<close>.\<close>

definition request_accepted ::
  "('req, 'resp, 'hv) http_types \<Rightarrow> asn1 \<Rightarrow> crypto_prims \<Rightarrow> claims_codec \<Rightarrow> base64 \<Rightarrow> system_time \<Rightarrow> system_time \<Rightarrow> 'req
    \<Rightarrow> negotiate_service \<Rightarrow> cache_store \<Rightarrow> accepted_context \<Rightarrow> validator \<Rightarrow> cache_store \<Rightarrow> bool" where
  "request_accepted H A P Z B c1 c2 request svc S acc v' S' \<longleftrightarrow>
     (\<exists>header. http_authorization_header H request = Inr header
        \<and> accept_sec_context_header A P Z B (ns_validator svc) S c1 c2 header = (Inr acc, v', S'))"

lemma accept_request_iff:
  "accept_request H A P Z B (ns_validator svc) S c1 c2 request = (Inr (acc, request'), v', S') \<longleftrightarrow>
     request_accepted H A P Z B c1 c2 request svc S acc v' S' \<and> request' = h_attach H acc request"
  by (auto simp: accept_request_def request_accepted_def split: sum.splits prod.splits)

lemma accept_request_error:
  assumes "accept_request H A P Z B v S c1 c2 request = (Inl e, v', S')"
  shows "e = HMissingAuthorization \<or> e = HInvalidHeader \<or> (\<exists>x. e = HSpnego x)"
  using assms by (auto simp: accept_request_def http_authorization_header_def rbind_eq_Inl ok_or_def split: sum.splits prod.splits option.splits)

lemma refusals_401:
  assumes "http_ok H"
  shows "\<exists>v. h_status H (challenge_response H) = 401 \<and> h_www_authenticate H (challenge_response H) = [v]"
    and "reject_response H B = Inr r \<Longrightarrow> \<exists>v. h_status H r = 401 \<and> h_www_authenticate H r = [v]"
  by (auto simp: challenge_response_def reject_response_def response_with_www_authenticate_def rbind_eq_Inr http_okD [OF assms])

text \<open>C6: The middleware guards the service behind it.  A request without an acceptable Negotiate token is answered with status 401 and one
  \<open>WWW-Authenticate\<close> value, the same answer whatever the inner service would do, which is not called.  A request that the validator
  accepts is passed on exactly once, with the accepted context attached, after the answer token was made, or at once when none is wanted;
  if the token cannot be made, the call ends with an HTTP error, not with a response, and the inner service is not called either.\<close>

theorem middleware_guards:
  assumes "http_ok H"
  shows "((\<nexists>acc v' S'. request_accepted H A P Z B c1 c2 request svc S acc v' S') \<longrightarrow>
      (\<exists>resp v v' S'. h_status H resp = 401 \<and> h_www_authenticate H resp = [v]
        \<and> (\<forall>inner. negotiate_call H A P Z B fill inner c1 c2 request (svc, S, w) = (Inr resp, svc\<lparr>ns_validator := v'\<rparr>, S', w))))
    \<and> (\<forall>acc v' S'. request_accepted H A P Z B c1 c2 request svc S acc v' S' \<longrightarrow>
      (if no_emit_ap_rep (ns_response svc) \<longrightarrow> is_ok (ap_rep_response_header A P B fill acc (no_ap_rep_options (ns_response svc)))
       then \<forall>inner. snd (negotiate_call H A P Z B fill inner c1 c2 request (svc, S, w))
              = (svc\<lparr>ns_validator := v'\<rparr>, S', snd (inner (h_attach H acc request) w))
       else \<exists>e. \<forall>inner. negotiate_call H A P Z B fill inner c1 c2 request (svc, S, w) = (Inl (TowerHttp e), svc\<lparr>ns_validator := v'\<rparr>, S', w)))"
proof (intro conjI impI allI)
  assume no: "\<nexists>acc v' S'. request_accepted H A P Z B c1 c2 request svc S acc v' S'"
  obtain a v' S' where call: "accept_request H A P Z B (ns_validator svc) S c1 c2 request = (a, v', S')"
    by (cases "accept_request H A P Z B (ns_validator svc) S c1 c2 request") auto
  have "a \<noteq> Inr (acc, q)" for acc q using no call accept_request_iff [of H A P Z B svc S c1 c2 request acc q v' S'] by metis
  then obtain e where e: "a = Inl e" by (metis sum.exhaust_sel surj_pair)
  let ?r = "if \<exists>x. e = HSpnego x then (if no_reject_invalid (ns_response svc)
      then (case reject_response H B of Inr r \<Rightarrow> r | Inl _ \<Rightarrow> challenge_response H) else challenge_response H) else challenge_response H"
  have "negotiate_call H A P Z B fill inner c1 c2 request (svc, S, w) = (Inr ?r, svc\<lparr>ns_validator := v'\<rparr>, S', w)" for inner
    using accept_request_error [of H A P Z B "ns_validator svc" S c1 c2 request e v' S'] call e by (auto simp: negotiate_call_def Let_def)
  moreover have "\<exists>v. h_status H ?r = 401 \<and> h_www_authenticate H ?r = [v]"
    using refusals_401 [OF assms] by (auto split: sum.splits)
  ultimately show "\<exists>resp v v' S'. h_status H resp = 401 \<and> h_www_authenticate H resp = [v]
      \<and> (\<forall>inner. negotiate_call H A P Z B fill inner c1 c2 request (svc, S, w) = (Inr resp, svc\<lparr>ns_validator := v'\<rparr>, S', w))" by blast
next
  fix acc v' S'
  assume "request_accepted H A P Z B c1 c2 request svc S acc v' S'"
  then have "accept_request H A P Z B (ns_validator svc) S c1 c2 request = (Inr (acc, h_attach H acc request), v', S')"
    by (simp add: accept_request_iff)
  then show "if no_emit_ap_rep (ns_response svc) \<longrightarrow> is_ok (ap_rep_response_header A P B fill acc (no_ap_rep_options (ns_response svc)))
       then \<forall>inner. snd (negotiate_call H A P Z B fill inner c1 c2 request (svc, S, w))
              = (svc\<lparr>ns_validator := v'\<rparr>, S', snd (inner (h_attach H acc request) w))
       else \<exists>e. \<forall>inner. negotiate_call H A P Z B fill inner c1 c2 request (svc, S, w) = (Inl (TowerHttp e), svc\<lparr>ns_validator := v'\<rparr>, S', w)"
    by (cases "ap_rep_response_header A P B fill acc (no_ap_rep_options (ns_response svc))")
      (auto simp: negotiate_call_def is_ok_def Let_def split: sum.splits prod.splits option.splits)
qed

section \<open>Client and service together\<close>

lemma http_first:
  assumes "http_ok H" and "b64_ok B" and "b64_plain B"
    and "init_sec_context A P B fs fc now st opts = Inr ctx"
    and "accept_sec_context_header A P Z B v S c1 c2 (ic_header ctx) = (Inr acc, v', S')"
    and "h_authorization H request = None"
  shows "negotiate_call H A P Z B fill inner c1 c2 request (svc, S'', w) = (Inr (challenge_response H), svc, S'', w)"
    and "\<exists>x. set_authorization_header H request (ic_header ctx) = Inr (h_set_authorization H x request) \<and> h_to_str H x = Some (ic_header ctx)"
proof -
  show "negotiate_call H A P Z B fill inner c1 c2 request (svc, S'', w) = (Inr (challenge_response H), svc, S'', w)"
    using assms(6) by (simp add: negotiate_call_def accept_request_def http_authorization_header_def ok_or_def Let_def)
  obtain bs where ctx: "ic_header ctx = ''Negotiate '' @ b64_encode B bs"
    using assms(4) by (auto simp: init_sec_context_def init_sec_context_with_confounder_def negotiate_header_def rbind_eq_Inr map_err_eq_Inr Let_def)
  obtain tk where tk: "parse_negotiate_header B (''Negotiate '' @ b64_encode B bs) = Inr tk"
    using assms(5) unfolding ctx accept_sec_context_header_def by (auto simp: rbind_eq_Inr split: sum.splits)
  obtain x where "h_from_str H (ic_header ctx) = Some x" "h_to_str H x = Some (ic_header ctx)"
    using http_okD(5) [OF assms(1)] negotiate_value_found(2) [OF assms(2,3) tk] unfolding ctx by blast
  then show "\<exists>x. set_authorization_header H request (ic_header ctx) = Inr (h_set_authorization H x request) \<and> h_to_str H x = Some (ic_header ctx)"
    by (intro exI [of _ x]) (simp add: set_authorization_header_def)
qed

lemma http_exchange:
  assumes "http_ok H" and "b64_ok B" and "b64_plain B"
    and "init_sec_context A P B fs fc now st opts = Inr ctx"
    and "accept_sec_context_header A P Z B (ns_validator svc) S c1 c2 (ic_header ctx) = (Inr acc, v', S')"
    and "no_emit_ap_rep (ns_response svc)" and "ket_from_etype_id (kt_etype (va_session_key (ac_ap_req acc))) = Some e"
    and "fill (ket_confounder_len e) = Some conf"
    and "va_build_ap_rep_with_confounder A P (ac_ap_req acc) conf (no_ap_rep_options (ns_response svc)) = Inr rep"
    and "rep \<noteq> []" and "length rep < 2 ^ 63" and "ic_verify_ap_rep A P ctx rep = Inr r"
    and "h_authorization H request = None"
  shows "\<exists>request'. set_authorization_header H request (ic_header ctx) = Inr request'
        \<and> (\<forall>resp w'. inner (h_attach H acc request') w = (Inr resp, w') \<longrightarrow>
            (\<exists>resp'. negotiate_call H A P Z B fill inner c1 c2 request' (svc, S, w) = (Inr resp', svc\<lparr>ns_validator := v'\<rparr>, S', w')
               \<and> classify_negotiate_response H A P B ctx resp' = Accepted (Some r)))"
proof -
  obtain v where set: "set_authorization_header H request (ic_header ctx) = Inr (h_set_authorization H v request)"
      and v: "h_to_str H v = Some (ic_header ctx)" using http_first(2) [OF assms(1-5,13)] by blast
  let ?q = "h_set_authorization H v request"
  have acc: "request_accepted H A P Z B c1 c2 ?q svc S acc v' S'"
    using assms(5) by (simp add: request_accepted_def http_authorization_header_def http_okD [OF assms(1)] v)
  obtain tok h where tok: "krb5_mech_token_encode (krb5_mech_token_new ApRep rep) = Inr tok"
    and h: "response_token_header B (neg_resp_with_response_token neg_resp_accept_completed tok) = Inr h"
    and p: "parse_negotiate_header B h = Inr (SpnegoResp (neg_resp_with_response_token neg_resp_accept_completed tok))"
    and kd: "krb5_mech_token_decode tok = Inr (krb5_mech_token_new ApRep rep)"
    using ap_rep_header_delivered [OF assms(2,10,11)] .
  obtain bs' where h': "h = ''Negotiate '' @ b64_encode B bs'" using h by (auto simp: response_token_header_def rbind_eq_Inr)
  note found = negotiate_value_found [OF assms(2,3) p [unfolded h'], folded h']
  obtain x where x: "h_from_str H h = Some x" "h_to_str H x = Some h" using http_okD(5) [OF assms(1) found(2)] by blast
  have hdr: "ap_rep_response_header A P B fill acc (no_ap_rep_options (ns_response svc)) = Inr h"
    using assms(7-9) tok h by (simp add: ap_rep_response_header_def ap_rep_response_header_with_confounder_def)
  have "classify_negotiate_challenge A P B ctx h = Accepted (Some r)"
    using found(3) p kd assms(12)
    by (simp add: classify_negotiate_challenge_def neg_resp_with_response_token_def neg_resp_accept_completed_def krb5_mech_token_new_def)
  then have cl: "classify_negotiate_response H A P B ctx (h_set_www_authenticate H x resp) = Accepted (Some r)" for resp
    by (simp add: classify_negotiate_response_def http_okD [OF assms(1)] x found(1))
  have "negotiate_call H A P Z B fill inner c1 c2 ?q (svc, S, w) = (Inr (h_set_www_authenticate H x resp), svc\<lparr>ns_validator := v'\<rparr>, S', w')"
    if "inner (h_attach H acc ?q) w = (Inr resp, w')" for resp w'
  proof -
    have "accept_request H A P Z B (ns_validator svc) S c1 c2 ?q = (Inr (acc, h_attach H acc ?q), v', S')"
      using acc by (simp add: accept_request_iff)
    then show ?thesis using that assms(6) hdr x(1) by (simp add: negotiate_call_def Let_def)
  qed
  then show ?thesis using set cl by blast
qed

lemma answer_token_verified:
  assumes A: "asn1_ok A" and B: "b64_ok B"
    and rep: "va_build_ap_rep_with_confounder A P va conf ro = Inr rep" "length rep < 2 ^ 63"
    and h: "ap_rep_response_header_with_confounder A P B \<lparr>ac_ap_req = va\<rparr> conf ro = Inr h"
    and r: "verify_ap_rep_response_header A P B ctx h = Inr r"
  shows "ic_verify_ap_rep A P ctx rep = Inr r" and "rep \<noteq> []"
proof -
  obtain m where "enc_ap_rep A m = Some rep"
    using rep(1) by (auto simp: va_build_ap_rep_with_confounder_def rbind_eq_Inr map_err_eq_Inr encode_ap_rep_def ok_or_eq_Inr)
  then show ne: "rep \<noteq> []" using asn1_okD(5) [OF A] by blast
  obtain tok h' where t: "krb5_mech_token_encode (krb5_mech_token_new ApRep rep) = Inr tok"
    "response_token_header B (neg_resp_with_response_token neg_resp_accept_completed tok) = Inr h'"
    "parse_negotiate_header B h' = Inr (SpnegoResp (neg_resp_with_response_token neg_resp_accept_completed tok))"
    "krb5_mech_token_decode tok = Inr (krb5_mech_token_new ApRep rep)"
    using ap_rep_header_delivered [OF B ne rep(2)] .
  have "h' = h" using h rep(1) t(1,2) by (simp add: ap_rep_response_header_with_confounder_def)
  then show "ic_verify_ap_rep A P ctx rep = Inr r"
    using r t(3,4) by (simp add: verify_ap_rep_response_header_def neg_resp_with_response_token_def krb5_mech_token_new_def)
qed

text \<open>C2: HTTP Negotiate completes.  A client with a session whose ticket was sealed with the key of the service, and a service behind the
  middleware that has this key, in the time window of the ticket and with no replay entry.  A request without a token is answered with a
  challenge on which the client retries; the second request carries the token of the client's context and reaches the inner service, as a
  request of exactly this client; and when the inner service answers, the token the middleware adds to the answer is found by the client,
  which classifies the exchange as accepted and learns the service's sub-key and sequence number.  The session key must not be of type
  des3-cbc-sha1-kd.\<close>

theorem http_negotiate_completes:
  assumes "http_ok H" and "b64_plain B" and "prims_ok P" and "asn1_ok A" and "b64_ok B"
    and "key_fits (rs_session_key st) e" and "e \<noteq> Des3CbcSha1Kd" and "principal_text (rs_client st)"
    and "\<forall>n bs. fc n = Some bs \<longrightarrow> length bs = n" and "issued_ticket A P st svc skey kvno part"
    and "init_sec_context A P B fs fc now st opts = Inr ctx" and "length (ic_ap_req_der ctx) < 2 ^ 63"
    and "acceptor_ready (ns_validator service) c1 c2 svc skey kvno part (ic_authenticator_time ctx)"
    and "check_pac A P Z part skey = Inr pac"
    and "active_cache (ns_validator service) S = Some cache" and "cache (request_key (rs_client st) ctx svc) = None"
    and "no_emit_ap_rep (ns_response service)" and "fill (ket_confounder_len e) = Some conf" and "length conf = ket_confounder_len e"
    and "h_authorization H request = None"
  shows "\<exists>acc v' S' request'. va_client (ac_ap_req acc) = rs_client st \<and> va_session_key (ac_ap_req acc) = rs_session_key st
    \<and> va_authenticator_ctime (ac_ap_req acc) = ic_authenticator_ctime ctx \<and> va_authenticator_cusec (ac_ap_req acc) = ic_authenticator_cusec ctx
    \<and> negotiate_call H A P Z B fill inner c1 c2 request (service, S, w) = (Inr (challenge_response H), service, S, w)
    \<and> should_retry_with_negotiate H (challenge_response H) = Inr True
    \<and> set_authorization_header H request (ic_header ctx) = Inr request'
    \<and> (\<forall>rep resp w'. va_build_ap_rep_with_confounder A P (ac_ap_req acc) conf (no_ap_rep_options (ns_response service)) = Inr rep
          \<and> length rep < 2 ^ 63 \<and> inner (h_attach H acc request') w = (Inr resp, w') \<longrightarrow>
        (\<exists>resp' r. negotiate_call H A P Z B fill inner c1 c2 request' (service, S, w) = (Inr resp', service\<lparr>ns_validator := v'\<rparr>, S', w')
           \<and> classify_negotiate_response H A P B ctx resp' = Accepted (Some r)
           \<and> vr_subkey r = aro_subkey (no_ap_rep_options (ns_response service))
           \<and> vr_sequence_number r = aro_sequence_number (no_ap_rep_options (ns_response service))))"
proof -
  let ?ro = "no_ap_rep_options (ns_response service)"
  obtain t m auth where req: "carries_request A P B st opts ctx t m auth"
    using init_sec_context_carries [OF assms(3,4,6,8) _ assms(11)] assms(9) by blast
  obtain va v' S' where acc: "accept_sec_context_header A P Z B (ns_validator service) S c1 c2 (ic_header ctx) = (Inr \<lparr>ac_ap_req = va\<rparr>, v', S')"
    and va: "va_client va = rs_client st" "va_session_key va = rs_session_key st"
      "va_authenticator_ctime va = ic_authenticator_ctime ctx" "va_authenticator_cusec va = ic_authenticator_cusec ctx"
    using token_accepted [OF assms(3-5) req assms(10,12-16)] .
  have k: "ket_from_etype_id (kt_etype (va_session_key (ac_ap_req \<lparr>ac_ap_req = va\<rparr>))) = Some e" using assms(6) va(2) by (simp add: key_fits_def)
  note first = http_first [OF assms(1,5,2,11) acc assms(20)]
  obtain request' where set: "set_authorization_header H request (ic_header ctx) = Inr request'" using first(2) by blast
  have "\<exists>resp' r. negotiate_call H A P Z B fill inner c1 c2 request' (service, S, w) = (Inr resp', service\<lparr>ns_validator := v'\<rparr>, S', w')
           \<and> classify_negotiate_response H A P B ctx resp' = Accepted (Some r)
           \<and> vr_subkey r = aro_subkey ?ro \<and> vr_sequence_number r = aro_sequence_number ?ro"
    if rep: "va_build_ap_rep_with_confounder A P va conf ?ro = Inr rep" "length rep < 2 ^ 63"
      and inner: "inner (h_attach H \<lparr>ac_ap_req = va\<rparr> request') w = (Inr resp, w')" for rep resp w'
  proof -
    obtain h r where h: "ap_rep_response_header_with_confounder A P B \<lparr>ac_ap_req = va\<rparr> conf ?ro = Inr h"
      and r: "verify_ap_rep_response_header A P B ctx h = Inr r" "vr_subkey r = aro_subkey ?ro" "vr_sequence_number r = aro_sequence_number ?ro"
      using answer_verified [OF assms(3-7) req va(2-4) assms(19) rep] by blast
    note v = answer_token_verified [OF assms(4,5) rep h r(1)]
    show ?thesis
      using http_exchange [where fill = fill and w = w and inner = inner, OF assms(1,5,2,11) acc assms(17) k assms(18) _ v(2) rep(2) v(1) assms(20)] rep(1) set inner r(2,3)
      by fastforce
  qed
  then show ?thesis using va first set challenge_response_retried [OF assms(1)]
    by (intro exI [of _ "\<lparr>ac_ap_req = va\<rparr>"] exI [of _ v'] exI [of _ S'] exI [of _ request']) simp
qed

end
