(* ===== verification/Client_Demo.thy ===== *)
theory Client_Demo
  imports Client_Ccache Kpasswd_Props Transport_Props Http_Props Kdc_Demo
begin

text \<open>
  Concrete runs of the stateful client, the password change, the transport and HTTP Negotiate.  They show that the hypotheses of the
  theorems on them can hold together.
\<close>

section \<open>A client with sessions\<close>

definition cd_net :: "unit net_env" where
  "cd_net = \<lparr>net_now = \<lambda>w. (2000 * NANOS, w), net_fill = \<lambda>n w. (Some (replicate n 0), w), net_udp = \<lambda>_ _ _ w. (Inl True, w),
     net_tcp = \<lambda>_ _ _ w. (Inr ([0, 0, 0, 2, 0x7e, 0], True), w), net_var = \<lambda>_. VarNotPresent, net_srv = \<lambda>_ _ w. (Inl True, w),
     net_lookup_ip = \<lambda>_ _ w. (Inl (), w)\<rparr>"

lemma cd_now [simp]: "net_now cd_net w = (2000 * NANOS, w)"
  by (simp add: cd_net_def)

abbreviation cd_config :: config where
  "cd_config \<equiv> config_new (\<lambda>_. None)"

definition cd_session :: "principal \<Rightarrow> rep_session" where
  "cd_session service = \<lparr>rs_client = dm_client, rs_service = service, rs_session_key = session_key5, rs_ticket = [0x61, 0],
     rs_ticket_flags = [0, 0, 0, 0], rs_auth_time = 1000 * NANOS, rs_start_time = 1000 * NANOS, rs_end_time = 9000 * NANOS,
     rs_renew_till = None, rs_key_expiration = Some (5000 * NANOS)\<rparr>"

definition cd_new :: tokio_client where
  "cd_new = tokio_client_new cd_config Tcp dm_client None"

definition cd_tgt_client :: tokio_client where
  "cd_tgt_client = cd_new\<lparr>tc_tgt := Some (cd_session (tgt_service ''R'')), tc_tgt_sessions := [(''R'', cd_session (tgt_service ''R''))]\<rparr>"

definition cd_client :: tokio_client where
  "cd_client = cd_tgt_client\<lparr>tc_service_tickets := [(service_cache_key dm_service, cd_session dm_service)]\<rparr>"

lemma cd_tgt: "is_tgt_principal (tgt_service ''R'')" "tgt_realm (cd_session (tgt_service ''R'')) = Some ''R''"
  by (simp_all add: cd_session_def tgt_realm_def is_tgt_principal_def tgt_service_def principal_new_def eq_ignore_ascii_case_def)

lemma cd_reachable: "client_reachable cd_net kd sample_prims {cd_session (tgt_service ''R''), cd_session dm_service} (cd_client, ())"
proof -
  have realm: "p_realm dm_client = ''R''" by (simp add: demo_client_def demo_realms)
  have "cache_tgt_session cd_net (cd_session (tgt_service ''R'')) (cd_new, ()) = (Inr (Some ()), cd_tgt_client, ())"
    using realm by (simp add: cache_tgt_session_def cbind_def cread_def cof_def cmodify_def cnow_def cnet_def cd_net_def cache_tgt_session_at_def
        cd_tgt ok_or_def preferred_session_at_def bt_remove_def Let_def cd_tgt_client_def cd_new_def tokio_client_new_def)
  then have t: "client_step cd_net kd sample_prims {cd_session (tgt_service ''R'')} (cd_new, ()) (cd_tgt_client, ())"
    by (intro client_step.cache_tgt) (simp add: ran_def)
  have "rs_service (cd_session s) = s" for s by (simp add: cd_session_def)
  then have "cache_service_ticket cd_net (cd_session dm_service) (cd_tgt_client, ()) = (Inr (Some ()), cd_client, ())"
    by (simp add: cache_service_ticket_def cbind_def cmodify_def cnow_def cnet_def cd_net_def cache_service_ticket_at_def
        preferred_session_at_def bt_remove_def Let_def cd_client_def cd_tgt_client_def cd_new_def tokio_client_new_def)
  then have "client_step cd_net kd sample_prims {cd_session dm_service} (cd_tgt_client, ()) (cd_client, ())"
    by (intro client_step.cache_ticket) (simp add: ran_def)
  then show ?thesis
    using client_reachable.step [OF client_reachable.step [OF client_reachable.new t [unfolded cd_new_def]]] by fastforce
qed

theorem client_sessions_invariant_witness:
  "tc_tgt cd_client = Some (cd_session (tgt_service ''R'')) \<and> map_of (tc_tgt_sessions cd_client) ''R'' = tc_tgt cd_client
   \<and> fst (client_login cd_net kd sample_prims (cd_client, ())) \<noteq> Inr None"
  using client_sessions_invariant [OF cd_reachable] demo_realms
  by (simp add: cd_client_def cd_tgt_client_def cd_new_def tokio_client_new_def demo_client_def)


theorem refresh_delay_exact_witness:
  "session_refresh_delay_at (cd_session dm_service) (2000 * NANOS) \<noteq> 0
   \<and> session_refresh_due_at (cd_session dm_service) (2000 * NANOS + int (session_refresh_delay_at (cd_session dm_service) (2000 * NANOS)))"
  using refresh_delay_exact [of "cd_session dm_service" "2000 * NANOS"] by (simp add: cd_session_def system_time_in_range_def NANOS_def)

theorem renewed_ticket_due_at_once_witness:
  "session_refresh_due_at ((cd_session dm_service)\<lparr>rs_auth_time := 0, rs_start_time := 90000 * NANOS, rs_end_time := 99000 * NANOS\<rparr>) (90000 * NANOS)"
  using renewed_ticket_due_at_once [of "(cd_session dm_service)\<lparr>rs_auth_time := 0, rs_start_time := 90000 * NANOS, rs_end_time := 99000 * NANOS\<rparr>"
      "90000 * NANOS"]
  by (simp add: session_valid_at_def NANOS_def)

section \<open>The transport\<close>

definition cd_endpoint :: kdc_endpoint where
  "cd_endpoint = \<lparr>ep_protocol = Auto, ep_host = ''fe80::1'', ep_port = 88, ep_source = SrcConfig\<rparr>"

lemma cd_answer: "transport_send cd_net kd kdc_transport_new p addr [1] () = (if p = Udp then Inl (XTransportTimeout DEFAULT_KDC_TIMEOUT) else Inr [0x7e, 0], ())"
proof -
  have u: "send_udp cd_net kdc_transport_new addr [1] () = (Inl (XTransportTimeout DEFAULT_KDC_TIMEOUT), ())"
    by (simp add: send_udp_def MAX_UDP_DATAGRAM_def cd_net_def net_error_def kdc_transport_new_def)
  have n: "from_bytes_en Big [0, 0, 0, 2] = (2 :: u32)" by (simp add: from_bytes_en_def)
  have t: "send_tcp cd_net kdc_transport_new addr [1] () = (Inr [0x7e, 0], ())"
    by (simp add: send_tcp_def cd_net_def tcp_response_def n Let_def non_empty_kdc_response_def kdc_transport_new_def DEFAULT_TCP_RESPONSE_LIMIT_def)
  show ?thesis using u t by (cases p) (simp_all add: transport_send_def)
qed

lemma endpoint_text_roundtrip_witness: "parse_kdc_endpoint (endpoint_authority cd_endpoint) 750 = Inr (''fe80::1'', 88)"
  using endpoint_text_roundtrip [of cd_endpoint 750] by (simp add: cd_endpoint_def graphic_def)

theorem kdc_failover_witness:
  "send_to_endpoints cd_net kd kdc_transport_new ''R'' Auto [cd_endpoint\<lparr>ep_protocol := Udp\<rparr>, cd_endpoint] [1] () = (Inr [0x7e, 0], ())"
proof -
  have "\<exists>before e after fs v. [cd_endpoint\<lparr>ep_protocol := Udp\<rparr>, cd_endpoint] = before @ e # after
      \<and> endpoint_errors cd_net kd kdc_transport_new [1] before () = Some (fs, v)
      \<and> transport_send cd_net kd kdc_transport_new (ep_protocol e) (ep_host e, ep_port e) [1] v = (Inr [0x7e, 0], ())"
    by (rule exI [of _ "[cd_endpoint\<lparr>ep_protocol := Udp\<rparr>]"], rule exI [of _ cd_endpoint]) (simp add: cd_answer, simp add: cd_endpoint_def)
  then show ?thesis using kdc_failover [of cd_net kd kdc_transport_new "''R''" Auto "[cd_endpoint\<lparr>ep_protocol := Udp\<rparr>, cd_endpoint]" "[1]" "()" "[0x7e, 0]" "()"] by blast
qed

theorem responses_bounded_witness:
  "tcp_response kdc_transport_new [0, 0, 0, 1, 7, 8] True = Inr [7]"
proof -
  have "[0, 0, 0, 1, 7, 8] = to_bytes_en Big (1 :: u32) @ [7] @ [8 :: u8]" by code_simp
  then have "\<exists>n extra. [0, 0, 0, 1, 7, 8] = to_bytes_en Big (n :: u32) @ [7] @ extra \<and> unat n = length [7 :: u8]
      \<and> length [7 :: u8] \<le> kt_tcp_response_limit kdc_transport_new"
    by (intro exI [of _ "1 :: u32"] exI [of _ "[8]"]) (simp add: kdc_transport_new_def DEFAULT_TCP_RESPONSE_LIMIT_def)
  then show ?thesis
    by (rule responses_bounded [where N = cd_net and K = kd and T = kdc_transport_new and stream = "[0, 0, 0, 1, 7, 8]" and closed = True and r = "[7]",
          THEN conjunct2, THEN conjunct2, THEN iffD2])
qed


section \<open>Password changes\<close>

definition cd_success :: krb_error where
  "cd_success = kd_error\<lparr>ke_e_data := Some [0, 0, 0x6f, 0x6b]\<rparr>"

theorem kpasswd_success_forgeable_witness:
  "\<exists>reply result. kpasswd_reply_parse (kd\<lparr>k_krb_error := one_codec 0x7e cd_success\<rparr>) [0, 8, 0, 1, 0, 0, 0x7e, 0] = Inr reply
     \<and> is_success result
     \<and> (\<forall>request. finish_change_password (kd\<lparr>k_krb_error := one_codec 0x7e cd_success\<rparr>) sample_prims True [0x62] request reply (cd_client, ())
          = (Inr (Some result), cd_client\<lparr>tc_credentials := Some (Password [0x62])\<rparr>, ()))"
proof -
  let ?K = "kd\<lparr>k_krb_error := one_codec 0x7e cd_success\<rparr>"
  have "validate_krb_error cd_success = Inr ()"
    using kd_names(6) kd_second(1)
    by (simp add: validate_krb_error_def krb_error_info_def cd_success_def kd_error_def km_validate_integer_def KRB5_PVNO_def KRB_ERROR_MSG_TYPE_def
        km_system_time_def km_integer_to_u32_def int_parse_u32_def km_principal_def)
  then have d: "decode_krb_error ?K [0x7e, 0] = Inr cd_success" by (simp add: decode_krb_error_def)
  have "kpasswd_frame_bytes CHANGE_PASSWORD_REPLY_VERSION [] [0x7e, 0] = [0, 8, 0, 1, 0, 0, 0x7e, 0]" by code_simp
  then show ?thesis using kpasswd_success_forgeable [where 'a = unit, OF d, of "[0x6f, 0x6b]"] by (simp add: cd_success_def) blast
qed

text \<open>A request for the new password \<open>b\<close>.\<close>

definition cd_reply_key :: kt_key where
  "cd_reply_key = \<lparr>kt_etype = 23, kt_value = replicate 16 6\<rparr>"

definition cd_kpasswd_options :: kpasswd_request_options where
  "cd_kpasswd_options = kpasswd_request_options_new (1000 * NANOS) 0 9 (ipv4_host_address [127, 0, 0, 1])"

definition cd_auth :: authenticator where
  "cd_auth = \<lparr>au_vno = 5, au_crealm = str_bytes ''R'', au_cname = kd_cname, au_cksum = None, au_cusec = 0, au_ctime = at_second 1000,
     au_subkey = Some (encryption_key_to_rasn cd_reply_key), au_seq_number = Some 9, au_authorization_data = None\<rparr>"

definition cd_priv_part :: enc_krb_priv_part where
  "cd_priv_part = \<lparr>kpp_user_data = [0x30, 0], kpp_timestamp = Some (at_second 1000), kpp_usec = Some 0, kpp_seq_number = Some 9,
     kpp_sender_address = ipv4_host_address [127, 0, 0, 1], kpp_recipient_address = None\<rparr>"

definition cd_priv :: krb_priv where
  "cd_priv = \<lparr>kp_pvno = KRB_PRIV_PVNO, kp_msg_type = KRB_PRIV_MSG_TYPE,
     kp_enc_part = \<lparr>ed_etype = 23, ed_kvno = None, ed_cipher = demo_seal [0x7c, 0]\<rparr>\<rparr>"

definition cd_base :: asn1 where
  "cd_base = kd_base\<lparr>enc_authenticator := c_enc (one_codec 0x62 cd_auth), dec_authenticator := c_dec (one_codec 0x62 cd_auth)\<rparr>"

definition cd_kdc :: kdc_asn1 where
  "cd_kdc = kd\<lparr>k_base := cd_base, k_krb_priv := one_codec 0x75 cd_priv, k_enc_krb_priv_part := one_codec 0x7c cd_priv_part,
     k_change_passwd_data := one_codec 0x30 (change_passwd_data_new [0x62])\<rparr>"

lemma cd_kdc_ok: "kdc_asn1_ok cd_kdc"
proof -
  have "codec_ok good (one_codec 0x62 cd_auth)" for good by (simp add: two_codec_ok)
  then have "asn1_ok cd_base"
    using kd_base_ok codec_okD [of "\<lambda>_. True" "one_codec 0x62 cd_auth"] unfolding asn1_ok_def cd_base_def by auto
  then show ?thesis using kd_ok unfolding kdc_asn1_ok_def cd_kdc_def by (simp add: two_codec_ok)
qed

lemma cd_base_kd:
  "principal_to_rasn cd_base dm_client = Inr kd_cname" "kerberos_string cd_base (p_realm dm_client) = Inr (str_bytes ''R'')"
  "client_kerberos_time cd_base (1000 * NANOS) = Inr (at_second 1000)" "encode_ap_req cd_base m = encode_ap_req kd_base m"
  "decode_ticket cd_base bs = decode_ticket kd_base bs"
proof -
  have "general_string cd_base = general_string kd_base" "from_timestamp cd_base = from_timestamp kd_base"
    "enc_ap_req cd_base = enc_ap_req kd_base" "dec_ticket cd_base = dec_ticket kd_base" by (simp_all add: cd_base_def)
  moreover from this have "kerberos_string_list cd_base ss = kerberos_string_list kd_base ss" for ss
    by (induction ss) (simp_all add: kerberos_string_def)
  ultimately show "principal_to_rasn cd_base dm_client = Inr kd_cname" "kerberos_string cd_base (p_realm dm_client) = Inr (str_bytes ''R'')"
    "client_kerberos_time cd_base (1000 * NANOS) = Inr (at_second 1000)" "encode_ap_req cd_base m = encode_ap_req kd_base m"
    "decode_ticket cd_base bs = decode_ticket kd_base bs"
    using kd_names(1,2) kd_times(1)
    by (simp_all add: principal_to_rasn_def kerberos_string_def client_kerberos_time_def encode_ap_req_def decode_ticket_def)
qed

lemma cd_built: "\<exists>b. build_kpasswd_request_with_confounders cd_kdc sample_prims (cd_session dm_service) (change_passwd_data_new [0x62]) cd_reply_key
    cd_kpasswd_options (replicate 8 0) (replicate 8 0) = Inr b"
proof -
  have base: "k_base cd_kdc = cd_base" by (simp add: cd_kdc_def)
  have tkt: "decode_ticket cd_base [0x61, 0] = Inr (demo_ticket 2 [])" "ed_kvno (tkt_enc_part (demo_ticket 2 [])) = Some 1"
    by (simp_all add: cd_base_kd) (simp_all add: decode_ticket_def kd_base_def demo_ticket_def validate_ticket_def validate_integer_def KRB5_TKT_VNO_def)
  have ap: "build_ap_req_with_confounder cd_base sample_prims (demo_ticket 2 []) (ap_options_from_bits 0) cd_auth session_key5 u (Some 1) (replicate 8 0)
      = Inr kd_ap_req" for u
    by (simp add: build_ap_req_with_confounder_def encode_authenticator_def demo_etype kd_ap_req_def KRB5_PVNO_def KRB_AP_REQ_MSG_TYPE_def)
      (simp add: cd_base_def)
  have der: "encode_ap_req cd_base kd_ap_req = Inr [0x6e, 0]" unfolding cd_base_kd by (simp add: encode_ap_req_def kd_base_def)
  have sealed: "rc4_encrypt_message_with_confounder sample_prims (kt_value cd_reply_key) m u (replicate 8 0) = Inr (demo_seal m)" for m u
    by (rule rc4_sealed) (simp add: cd_reply_key_def)
  have po: "kpasswd_krb_priv_options cd_base cd_kpasswd_options
      = Inr (priv_with_sequence_number (priv_with_timestamp (priv_options_new (ipv4_host_address [127, 0, 0, 1])) (at_second 1000) 0) 9)" (is "_ = Inr ?po")
    by (simp add: kpasswd_krb_priv_options_def cd_kpasswd_options_def kpasswd_request_options_new_def cd_base_kd)
  have part: "build_enc_krb_priv_part [0x30, 0] ?po = cd_priv_part"
    by (simp add: build_enc_krb_priv_part_def cd_priv_part_def priv_with_sequence_number_def priv_with_timestamp_def priv_options_new_def)
  have "etype_of_key cd_reply_key = Inr Rc4Hmac" using demo_etype [of 6] by (simp add: cd_reply_key_def)
  then have priv: "build_krb_priv_with_confounder cd_kdc sample_prims [0x30, 0] ?po cd_reply_key None (replicate 8 0) = Inr cd_priv"
    using sealed part by (simp add: build_krb_priv_with_confounder_def encode_enc_krb_priv_part_def encrypt_krb_priv_enc_part_def)
      (simp add: cd_kdc_def cd_priv_def cd_reply_key_def sealed)
  have time: "st_checked_add (1000 * NANOS) (from_micros (unat (0 :: u32))) = Some (1000 * NANOS)"
    by (simp add: st_checked_add_def system_time_in_range_def from_micros_def NANOS_def)
  have frame: "\<exists>bs. kpasswd_request_encode cd_kdc \<lparr>kr_ap_req = kd_ap_req, kr_krb_priv = cd_priv\<rparr> = Inr bs"
    by (simp add: kpasswd_request_encode_def base der encode_krb_priv_def HEADER_LEN_def Let_def) (simp add: cd_kdc_def)
  have cd: "change_passwd_data_encode_der cd_kdc (change_passwd_data_new [0x62]) = Inr [0x30, 0]"
    by (simp add: change_passwd_data_encode_der_def cd_kdc_def)
  have "\<exists>b. client_build_ap_req_with_confounder cd_base sample_prims (cd_session dm_service)
      (ap_req_options_new\<lparr>arq_subkey := Some cd_reply_key, arq_sequence_number := Some 9\<rparr>) (1000 * NANOS) 0 (replicate 8 0) = Inr b \<and> ba_message b = kd_ap_req"
    using cd_base_kd tkt der ap [unfolded cd_auth_def] time
    by (simp add: client_build_ap_req_with_confounder_def cd_session_def ap_req_options_new_def KRB5_PVNO_def Let_def)
  then show ?thesis
    using po priv frame cd
    by (auto simp: build_kpasswd_request_with_confounders_def build_kpasswd_ap_req_with_confounder_def base cd_kpasswd_options_def
        kpasswd_request_options_new_def build_change_password_request_with_confounder_def build_change_password_request_from_parts_def Let_def)
qed

theorem kpasswd_request_delivers_witness:
  "\<exists>b part. build_kpasswd_request_with_confounders cd_kdc sample_prims (cd_session dm_service) (change_passwd_data_new [0x62]) cd_reply_key
      cd_kpasswd_options (replicate 8 0) (replicate 8 0) = Inr b
    \<and> kpasswd_request_parse cd_kdc (bk_der b @ [1, 2, 3]) = Inr (bk_request b)
    \<and> decrypt_krb_priv_enc_part cd_kdc sample_prims (kr_krb_priv (bk_request b)) cd_reply_key = Inr part
    \<and> change_passwd_data_decode_der cd_kdc (kpp_user_data part) = Inr (change_passwd_data_new [0x62])"
proof -
  obtain b where b: "build_kpasswd_request_with_confounders cd_kdc sample_prims (cd_session dm_service) (change_passwd_data_new [0x62]) cd_reply_key
      cd_kpasswd_options (replicate 8 0) (replicate 8 0) = Inr b" using cd_built by blast
  have k: "key_fits (rs_session_key (cd_session dm_service)) Rc4Hmac" "key_fits cd_reply_key Rc4Hmac"
    using demo_key_fits [of 5] demo_key_fits [of 6] by (simp_all add: cd_session_def cd_reply_key_def)
  have nm: "principal_text (rs_client (cd_session dm_service))"
    using demo_utf8 demo_realms by (simp add: cd_session_def principal_text_def demo_client_def del: utf8_valid.simps)
  have t: "kq_timestamp cd_kpasswd_options = int 1000 * NANOS" by (simp add: cd_kpasswd_options_def kpasswd_request_options_new_def)
  have len: "length (replicate 8 0 :: bytes) = ket_confounder_len Rc4Hmac" by (simp add: ket_size_defs)
  show ?thesis using kpasswd_request_delivers [OF sample_prims_ok cd_kdc_ok k len len nm t b, of "[1, 2, 3]"] b by auto
qed

section \<open>HTTP\<close>

theorem challenges_found_witness:
  "negotiate_challenge ''Basic realm=\"a, Negotiate x\", negotiate YQ==, Digest'' = Some ''negotiate YQ==''"
proof -
  let ?cs = "[''Basic realm=\"a, Negotiate x\"'', ''negotiate YQ=='', ''Digest'']"
  have "\<forall>s \<in> set ?cs. s \<noteq> [] \<and> \<not> is_ascii_whitespace (hd s) \<and> challenge_text False False s" by (simp add: is_ascii_whitespace_def)
  then have "negotiate_challenge (challenge_list ?cs) = find is_negotiate_challenge (map trim ?cs)" using challenges_found [of ?cs] by blast
  moreover have "find is_negotiate_challenge (map trim ?cs) = Some ''negotiate YQ==''" by code_simp
  ultimately show ?thesis by simp
qed

definition cd_http :: "(string option, nat \<times> string list, string) http_types" where
  "cd_http = \<lparr>h_authorization = \<lambda>r. r, h_set_authorization = \<lambda>v _. Some v, h_attach = \<lambda>_ r. r, h_www_authenticate = snd,
     h_set_www_authenticate = \<lambda>v r. (fst r, [v]), h_status = fst, h_response = \<lambda>n. (n, []), h_to_str = Some, h_from_str = Some, h_from_static = \<lambda>s. s\<rparr>"

lemma cd_http_ok: "http_ok cd_http"
  by (simp add: http_ok_def cd_http_def)

theorem middleware_guards_witness:
  "\<exists>resp v v' S'. h_status cd_http resp = 401 \<and> h_www_authenticate cd_http resp = [v]
     \<and> (\<forall>inner. negotiate_call cd_http demo_asn1 sample_prims no_claims hexish demo_fill inner demo_time demo_time None
          (\<lparr>ns_validator = demo_validator, ns_response = negotiate_response_options_default\<rparr>, \<lambda>r. shared_from_cache Map.empty, ())
        = (Inr resp, \<lparr>ns_validator = v', ns_response = negotiate_response_options_default\<rparr>, S', ()))"
proof -
  have "\<not> request_accepted cd_http demo_asn1 sample_prims no_claims hexish demo_time demo_time None
      \<lparr>ns_validator = demo_validator, ns_response = negotiate_response_options_default\<rparr> (\<lambda>r. shared_from_cache Map.empty) acc v' S'" for acc v' S'
    by (simp add: request_accepted_def http_authorization_header_def cd_http_def ok_or_def)
  then show ?thesis
    using middleware_guards [OF cd_http_ok, where svc = "\<lparr>ns_validator = demo_validator, ns_response = negotiate_response_options_default\<rparr>"
        and A = demo_asn1 and P = sample_prims and Z = no_claims and B = hexish and ?c1.0 = demo_time and ?c2.0 = demo_time and request = None
        and S = "\<lambda>r. shared_from_cache Map.empty" and fill = demo_fill and w = "()"]
    by simp
qed


lemma hexish_plain: "b64_plain hexish"
proof -
  have "c \<notin> {CHR '','', CHR 0x22, CHR 0x5C}" if "c \<in> set (hexish_encode bs)" for c bs
  proof -
    from that obtain b where "b \<in> set bs" "c = char_of (65 + unat b div 16) \<or> c = char_of (65 + unat b mod 16)" by (auto simp: hexish_encode_def)
    moreover have "unat b div 16 < 16" "unat b mod 16 < 16" using unat_byte_lt [of b] by simp_all
    ultimately obtain n :: nat where n: "n < 16" "c = char_of (65 + n)" by blast
    have "of_char c = 65 + n" using n by (simp add: of_char_of take_bit_nat_eq_self)
    then show ?thesis using n(1) by auto
  qed
  then show ?thesis by (simp add: b64_plain_def hexish_def)
qed

definition cd_service :: negotiate_service where
  "cd_service = \<lparr>ns_validator = demo_validator, ns_response = negotiate_response_options_default\<lparr>no_ap_rep_options :=
     \<lparr>aro_subkey = Some \<lparr>kt_etype = 23, kt_value = replicate 16 9\<rparr>, aro_sequence_number = Some 8, aro_kvno = None\<rparr>\<rparr>\<rparr>"

theorem http_negotiate_completes_witness:
  "\<exists>ctx request' resp' r s'. init_sec_context demo_asn1 sample_prims hexish demo_fill demo_fill demo_time demo_session demo_options = Inr ctx
    \<and> set_authorization_header cd_http None (ic_header ctx) = Inr request'
    \<and> negotiate_call cd_http demo_asn1 sample_prims no_claims hexish demo_fill (\<lambda>q w. (Inr (200, []), w :: unit) :: (unit + _) \<times> _) demo_time demo_time request'
        (cd_service, \<lambda>r. shared_from_cache Map.empty, ()) = (Inr resp', s')
    \<and> classify_negotiate_response cd_http demo_asn1 sample_prims hexish ctx resp' = Accepted (Some r) \<and> vr_sequence_number r = Some 8"
  (is "\<exists>ctx request' resp' r s'. ?I ctx \<and> _")
proof -
  let ?ro = "\<lparr>aro_subkey = Some \<lparr>kt_etype = 23, kt_value = replicate 16 9\<rparr>, aro_sequence_number = Some 8, aro_kvno = None\<rparr>"
  let ?inner = "(\<lambda>q w. (Inr (200, []), w :: unit)) :: string option \<Rightarrow> unit \<Rightarrow> (unit + nat \<times> string list) \<times> unit"
  have s: "ns_validator cd_service = demo_validator" "no_ap_rep_options (ns_response cd_service) = ?ro" "no_emit_ap_rep (ns_response cd_service)"
    by (simp_all add: cd_service_def negotiate_response_options_default_def)
  obtain ctx where ctx: "?I ctx" "ic_ap_req_der ctx = demo_der 2 0x52" "ic_authenticator_time ctx = demo_time"
    "ic_authenticator_ctime ctx = demo_time" "ic_authenticator_cusec ctx = 0"
    using demo_init .
  have k: "key_fits (rs_session_key demo_session) Rc4Hmac" using demo_key_fits [of 5] by (simp add: demo_session_def)
  have nm: "principal_text (rs_client demo_session)"
    using demo_utf8 demo_realms by (simp add: demo_session_def principal_text_def demo_client_def del: utf8_valid.simps)
  have ready: "acceptor_ready (ns_validator cd_service) demo_time demo_time (demo_service 2) \<lparr>kt_etype = 23, kt_value = replicate 16 6\<rparr> (Some 1) demo_part (ic_authenticator_time ctx)"
    using demo_ok [of "0x52" 2] demo_find_key ctx(3)
    by (auto simp: s acceptor_ready_def ap_req_ok_def validate_ticket_times_Inr demo_checked_def in_range_def keytab_components_def validator_new_def
        demo_service_def validator_now_def)
  have fill: "\<forall>n bs. demo_fill n = Some bs \<longrightarrow> length bs = n" by (simp add: demo_fill_def)
  have pac: "check_pac demo_asn1 sample_prims no_claims demo_part \<lparr>kt_etype = 23, kt_value = replicate 16 6\<rparr> = Inr None"
    by (simp add: check_pac_def demo_part_def)
  have len: "length (ic_ap_req_der ctx) < 2 ^ 63" by (simp add: ctx(2) demo_der_def)
  have cache: "active_cache (ns_validator cd_service) (\<lambda>r. shared_from_cache Map.empty) = Some Map.empty" using demo_cache by (simp add: s)
  have conf: "demo_fill (ket_confounder_len Rc4Hmac) = Some (replicate 8 0)" "length (replicate 8 0 :: bytes) = ket_confounder_len Rc4Hmac"
    by (simp_all add: demo_fill_def ket_size_defs)
  have auth: "h_authorization cd_http None = None" by (simp add: cd_http_def)
  have ne: "Rc4Hmac \<noteq> Des3CbcSha1Kd" and none: "Map.empty (request_key (rs_client demo_session) ctx (demo_service 2)) = None" by simp_all
  obtain acc v' S' request' where acc: "va_session_key (ac_ap_req acc) = rs_session_key demo_session"
      "va_authenticator_ctime (ac_ap_req acc) = ic_authenticator_ctime ctx" "va_authenticator_cusec (ac_ap_req acc) = ic_authenticator_cusec ctx"
    and set: "set_authorization_header cd_http None (ic_header ctx) = Inr request'"
    and fin: "\<forall>rep resp w'. va_build_ap_rep_with_confounder demo_asn1 sample_prims (ac_ap_req acc) (replicate 8 0) (no_ap_rep_options (ns_response cd_service)) = Inr rep
        \<and> length rep < 2 ^ 63 \<and> ?inner (h_attach cd_http acc request') () = (Inr resp, w') \<longrightarrow>
        (\<exists>resp' r. negotiate_call cd_http demo_asn1 sample_prims no_claims hexish demo_fill ?inner demo_time demo_time request'
            (cd_service, \<lambda>r. shared_from_cache Map.empty, ()) = (Inr resp', cd_service\<lparr>ns_validator := v'\<rparr>, S', w')
          \<and> classify_negotiate_response cd_http demo_asn1 sample_prims hexish ctx resp' = Accepted (Some r)
          \<and> vr_subkey r = aro_subkey (no_ap_rep_options (ns_response cd_service))
          \<and> vr_sequence_number r = aro_sequence_number (no_ap_rep_options (ns_response cd_service)))"
    using http_negotiate_completes [where inner = ?inner and w = "()" and fill = demo_fill,
        OF cd_http_ok hexish_plain sample_prims_ok demo_asn1_ok hexish_ok k ne nm fill demo_issued ctx(1) len ready pac cache none s(3) conf auth]
    by blast
  have "va_build_ap_rep_with_confounder demo_asn1 sample_prims (ac_ap_req acc) (replicate 8 0) (no_ap_rep_options (ns_response cd_service)) = Inr (0x6f # demo_seal [0x7b, 0])"
    unfolding s using acc ctx(4,5) by (simp add: demo_answer demo_session_def)
  then have "\<exists>resp' r. negotiate_call cd_http demo_asn1 sample_prims no_claims hexish demo_fill ?inner demo_time demo_time request'
            (cd_service, \<lambda>r. shared_from_cache Map.empty, ()) = (Inr resp', cd_service\<lparr>ns_validator := v'\<rparr>, S', ())
          \<and> classify_negotiate_response cd_http demo_asn1 sample_prims hexish ctx resp' = Accepted (Some r) \<and> vr_sequence_number r = Some 8"
    using fin [rule_format, of "0x6f # demo_seal [0x7b, 0]" "(200, [])" "()"] s(2) by auto
  then show ?thesis using ctx(1) set by blast
qed

end
