(* ===== verification/Stores.thy ===== *)
theory Stores
  imports Keytab CCache_Format CCache_Ops Etypes Krb_Time
begin

text \<open>
  Keytabs and credential caches as files: loading and saving by path, by name and by the name in an environment variable
  (\<open>src/keytab.rs\<close>, \<open>src/ccache.rs\<close>), and keytab entries that are derived from a password.  What was saved under a name is
  loaded under this name, also through the primary file of a \<open>DIR:\<close> collection.
\<close>

section \<open>Writing and environment variables\<close>

definition write_file :: "'w file_env \<Rightarrow> string \<Rightarrow> bytes \<Rightarrow> 'w \<Rightarrow> (store_error + unit) \<times> 'w" where
  "write_file F path bs w = (case fe_write F path bs w of (r, w) \<Rightarrow> (map_err Io r, w))"

definition env_name :: "(env_var \<Rightarrow> store_error) \<Rightarrow> env_var \<Rightarrow> store_error + string" where
  "env_name err v = (case v of VarSet name \<Rightarrow> Inr name | _ \<Rightarrow> Inl (err v))"

section \<open>Keytab files\<close>

fun keytab_file_path :: "keytab_name \<Rightarrow> string" where
  "keytab_file_path (KeytabFile path) = path"

definition keytab_load :: "'w file_env \<Rightarrow> bool \<Rightarrow> string \<Rightarrow> 'w \<Rightarrow> store_error + keytab" where
  "keytab_load F le path w = rbind (file_bytes F path w) (keytab_parse le)"

definition keytab_load_name :: "'w file_env \<Rightarrow> bool \<Rightarrow> string \<Rightarrow> 'w \<Rightarrow> store_error + keytab" where
  "keytab_load_name F le name w =
     rbind (keytab_name_parse (fe_environment F) name) (\<lambda>n. keytab_load F le (keytab_file_path n) w)"

definition keytab_load_from_env :: "'w file_env \<Rightarrow> bool \<Rightarrow> 'w \<Rightarrow> store_error + keytab" where
  "keytab_load_from_env F le w =
     rbind (env_name DefaultKeytabName (fe_var F ''KRB5_KTNAME'')) (\<lambda>name. keytab_load_name F le name w)"

definition keytab_save :: "'w file_env \<Rightarrow> bool \<Rightarrow> keytab \<Rightarrow> string \<Rightarrow> 'w \<Rightarrow> (store_error + unit) \<times> 'w" where
  "keytab_save F le kt path w = (case keytab_to_bytes le kt of Inl e \<Rightarrow> (Inl e, w) | Inr bs \<Rightarrow> write_file F path bs w)"

definition keytab_save_name :: "'w file_env \<Rightarrow> bool \<Rightarrow> keytab \<Rightarrow> string \<Rightarrow> 'w \<Rightarrow> (store_error + unit) \<times> 'w" where
  "keytab_save_name F le kt name w =
     (case keytab_name_parse (fe_environment F) name of
        Inl e \<Rightarrow> (Inl e, w) | Inr n \<Rightarrow> keytab_save F le kt (keytab_file_path n) w)"

definition keytab_save_to_env :: "'w file_env \<Rightarrow> bool \<Rightarrow> keytab \<Rightarrow> 'w \<Rightarrow> (store_error + unit) \<times> 'w" where
  "keytab_save_to_env F le kt w =
     (case env_name DefaultKeytabName (fe_var F ''KRB5_KTNAME'') of
        Inl e \<Rightarrow> (Inl e, w) | Inr name \<Rightarrow> keytab_save_name F le kt name w)"

definition default_keytab_name :: "'w file_env \<Rightarrow> string \<Rightarrow> store_error + string" where
  "default_keytab_name F configured_name =
     (case fe_var F ''KRB5_KTNAME'' of
        VarSet keytab_name \<Rightarrow> Inr keytab_name
      | VarNotPresent \<Rightarrow> Inr configured_name
      | VarNotUnicode \<Rightarrow> Inl (DefaultKeytabName VarNotUnicode))"

section \<open>Keytab entries\<close>

definition kt_system_time :: "kt_entry \<Rightarrow> system_time" where
  "kt_system_time entry = int (from_secs (unat (kt_timestamp entry)))"

definition kt_time_to_u32_seconds :: "system_time \<Rightarrow> store_error + u32" where
  "kt_time_to_u32_seconds t =
     rbind (ok_or (duration_since t 0) TimestampBeforeUnixEpoch) (\<lambda>d.
       let seconds = d div 1000000000 in if seconds < 2 ^ 32 then Inr (of_nat seconds) else Inl TimestampOverflow)"

definition add_entry_from_password ::
  "crypto_prims \<Rightarrow> keytab \<Rightarrow> kt_principal \<Rightarrow> bytes \<Rightarrow> system_time \<Rightarrow> u8 \<Rightarrow> i32 \<Rightarrow> store_error + keytab" where
  "add_entry_from_password P kt prin password timestamp kvno etype =
     rbind (ok_or (ket_from_etype_id etype) (UnsupportedEtype etype)) (\<lambda>etype_impl.
     rbind (map_err (\<lambda>_. CryptoError) (ket_string_to_key P etype_impl password (str_bytes (kt_default_password_salt prin))
       (ket_default_s2kparams etype_impl))) (\<lambda>key.
     rbind (kt_time_to_u32_seconds timestamp) (\<lambda>timestamp.
       Inr (kt\<lparr>kt_entries := kt_entries kt @ [\<lparr>kt_principal = prin, kt_timestamp = timestamp, kt_kvno8 = kvno,
         kt_key = \<lparr>kt_etype = etype, kt_value = key\<rparr>, kt_kvno = ucast kvno\<rparr>]\<rparr>))))"

definition add_entry_from_password_name ::
  "crypto_prims \<Rightarrow> keytab \<Rightarrow> string \<Rightarrow> string \<Rightarrow> bytes \<Rightarrow> system_time \<Rightarrow> u8 \<Rightarrow> i32 \<Rightarrow> store_error + keytab" where
  "add_entry_from_password_name P kt principal_name realm password timestamp kvno etype =
     rbind (kt_principal_from_name realm 1 principal_name) (\<lambda>prin.
       add_entry_from_password P kt prin password timestamp kvno etype)"

record kt_metadata =
  km_principal :: string
  km_realm :: string
  km_components :: "string list"
  km_name_type :: i32
  km_timestamp :: u32
  km_kvno8 :: u8
  km_kvno :: u32
  km_etype :: i32
  km_key_length :: nat

definition kt_metadata_from_entry :: "kt_entry \<Rightarrow> kt_metadata" where
  "kt_metadata_from_entry entry =
     \<lparr>km_principal = kt_principal_string (kt_principal entry), km_realm = kt_realm (kt_principal entry),
      km_components = kt_components (kt_principal entry), km_name_type = kt_name_type (kt_principal entry),
      km_timestamp = kt_timestamp entry, km_kvno8 = kt_kvno8 entry, km_kvno = kt_kvno entry,
      km_etype = kt_etype (kt_key entry), km_key_length = length (kt_value (kt_key entry))\<rparr>"

definition entry_metadata :: "keytab \<Rightarrow> kt_metadata list" where
  "entry_metadata kt = map kt_metadata_from_entry (kt_entries kt)"

section \<open>Credential cache files\<close>

definition ccache_load :: "'w file_env \<Rightarrow> bool \<Rightarrow> string \<Rightarrow> 'w \<Rightarrow> store_error + ccache" where
  "ccache_load F le path w = rbind (file_bytes F path w) (ccache_parse le)"

definition ccache_load_name :: "'w file_env \<Rightarrow> bool \<Rightarrow> string \<Rightarrow> 'w \<Rightarrow> (store_error + ccache) \<times> 'w" where
  "ccache_load_name F le name w =
     (case file_path_from_cache_name F name w of
        (Inl e, w) \<Rightarrow> (Inl e, w) | (Inr path, w) \<Rightarrow> (ccache_load F le path w, w))"

definition ccache_load_from_env :: "'w file_env \<Rightarrow> bool \<Rightarrow> 'w \<Rightarrow> (store_error + ccache) \<times> 'w" where
  "ccache_load_from_env F le w =
     (case env_name DefaultCacheName (fe_var F ''KRB5CCNAME'') of
        Inl e \<Rightarrow> (Inl e, w) | Inr name \<Rightarrow> ccache_load_name F le name w)"

definition ccache_save :: "'w file_env \<Rightarrow> bool \<Rightarrow> ccache \<Rightarrow> string \<Rightarrow> 'w \<Rightarrow> (store_error + unit) \<times> 'w" where
  "ccache_save F le cc path w = (case ccache_to_bytes le cc of Inl e \<Rightarrow> (Inl e, w) | Inr bs \<Rightarrow> write_file F path bs w)"

definition ccache_save_name :: "'w file_env \<Rightarrow> bool \<Rightarrow> ccache \<Rightarrow> string \<Rightarrow> 'w \<Rightarrow> (store_error + unit) \<times> 'w" where
  "ccache_save_name F le cc name w =
     (case file_path_from_cache_name F name w of
        (Inl e, w) \<Rightarrow> (Inl e, w) | (Inr path, w) \<Rightarrow> ccache_save F le cc path w)"

definition ccache_save_to_env :: "'w file_env \<Rightarrow> bool \<Rightarrow> ccache \<Rightarrow> 'w \<Rightarrow> (store_error + unit) \<times> 'w" where
  "ccache_save_to_env F le cc w =
     (case env_name DefaultCacheName (fe_var F ''KRB5CCNAME'') of
        Inl e \<Rightarrow> (Inl e, w) | Inr name \<Rightarrow> ccache_save_name F le cc name w)"

section \<open>What was saved is loaded\<close>

lemma map_err_Inr_unit [simp]: "map_err f r = Inr () \<longleftrightarrow> r = Inr ()"
  by (cases r) auto

lemma write_file_Inr: "write_file F path bs w = (Inr (), w') \<longleftrightarrow> fe_write F path bs w = (Inr (), w')"
  by (auto simp: write_file_def split: prod.splits)

lemma keytab_saved_loads:
  assumes "files_ok F" and "keytab_ok kt" and "keytab_save F le kt path w = (Inr (), w')"
    and "\<forall>bs. keytab_to_bytes le kt = Inr bs \<longrightarrow> length bs < 2 ^ 64"
  shows "keytab_load F le path w' = Inr kt"
proof -
  have nonneg: "kt_etypes_nonneg kt" and bs: "fe_write F path (KEYTAB_FIRST_BYTE # kt_version kt #
      concat (map (kt_enc_entry (kt_version kt) (kt_endian_for_version le (kt_version kt))) (kt_entries kt))) w = (Inr (), w')"
    using assms(3) by (auto simp: keytab_save_def keytab_to_bytes_cases [OF assms(2)] write_file_Inr split: if_splits)
  show ?thesis using files_ok_written(1) [OF assms(1) bs] keytab_parse_enc [OF assms(2), of le] assms(4) nonneg
    by (simp add: keytab_load_def file_bytes_def keytab_to_bytes_cases [OF assms(2)])
qed

lemma ccache_saved_loads:
  assumes "files_ok F" and "ccache_ok cc" and "length (ccache_enc le cc) < 2 ^ 64" and "ccache_save F le cc path w = (Inr (), w')"
  shows "ccache_load F le path w' = Inr cc"
proof -
  have "fe_write F path (ccache_enc le cc) w = (Inr (), w')"
    using assms(4) by (simp add: ccache_save_def ccache_to_bytes_enc [OF assms(2)] write_file_Inr)
  from files_ok_written(1) [OF assms(1) this] show ?thesis
    using ccache_parse_enc [OF assms(2,3)] by (simp add: ccache_load_def file_bytes_def)
qed

text \<open>The name resolves to the same path after the file at this path was written.\<close>

lemma cache_name_stable:
  assumes "files_ok F" and "file_path_from_cache_name F name w = (Inr path, w1)" and "fe_write F path bs w1 = (Inr (), w2)"
  shows "file_path_from_cache_name F name w2 = (Inr path, w2)"
proof (cases "dir_collection_path name")
  case None
  with assms(2) show ?thesis by (simp add: file_path_from_cache_name_def)
next
  case (Some dir)
  then have "dir_collection_primary_path F dir w = (Inr path, w1)" using assms(2) by (simp add: file_path_from_cache_name_def)
  from dir_collection_confined [OF assms(1) this] assms(3) have "dir_collection_primary_path F dir w2 = (Inr path, w2)" by blast
  with Some show ?thesis by (simp add: file_path_from_cache_name_def)
qed

lemma ccache_saved_by_name_loads:
  assumes "files_ok F" and "ccache_ok cc" and "length (ccache_enc le cc) < 2 ^ 64" and "ccache_save_name F le cc name w = (Inr (), w')"
  shows "ccache_load_name F le name w' = (Inr cc, w')"
proof -
  obtain path w1 where p: "file_path_from_cache_name F name w = (Inr path, w1)" "ccache_save F le cc path w1 = (Inr (), w')"
    using assms(4) by (auto simp: ccache_save_name_def split: prod.splits sum.splits)
  then have "fe_write F path (ccache_enc le cc) w1 = (Inr (), w')"
    by (simp add: ccache_save_def ccache_to_bytes_enc [OF assms(2)] write_file_Inr)
  from cache_name_stable [OF assms(1) p(1) this] show ?thesis
    using ccache_saved_loads [OF assms(1-3) p(2)] by (simp add: ccache_load_name_def)
qed

section \<open>Entries from passwords\<close>

lemma kt_select_snoc:
  "kt_select comps realm kvno etype (es @ [e]) sel =
     (let s = kt_select comps realm kvno etype es sel in
      if kt_entry_matches comps realm kvno etype e
      then (case s of Some current \<Rightarrow> if kt_timestamp current \<ge> kt_timestamp e then s else Some e | None \<Rightarrow> Some e) else s)"
  by (induction es arbitrary: sel) (simp_all add: Let_def)

lemma kt_select_in: "kt_select comps realm kvno etype es sel = Some x \<Longrightarrow> sel = Some x \<or> x \<in> set es"
  by (induction es arbitrary: sel) (auto split: if_splits option.splits)

text \<open>The newest entry of a keytab is the one just added, when every other entry for the principal is older.\<close>

lemma added_entry_found:
  assumes "add_entry_from_password P kt p password t kvno etype = Inr kt'"
    and "kt_time_to_u32_seconds t = Inr s" and "\<forall>e \<in> set (kt_entries kt). kt_timestamp e < s" and "v = 0 \<or> v = ucast kvno"
  shows "\<exists>e key. ket_from_etype_id etype = Some e
    \<and> ket_string_to_key P e password (str_bytes (kt_default_password_salt p)) (ket_default_s2kparams e) = Inr key
    \<and> find_key kt' (kt_components p) (kt_realm p) v etype = Inr (\<lparr>kt_etype = etype, kt_value = key\<rparr>, ucast kvno)"
proof -
  obtain e key where e: "ket_from_etype_id etype = Some e"
      "ket_string_to_key P e password (str_bytes (kt_default_password_salt p)) (ket_default_s2kparams e) = Inr key"
      "kt' = kt\<lparr>kt_entries := kt_entries kt @ [\<lparr>kt_principal = p, kt_timestamp = s, kt_kvno8 = kvno,
         kt_key = \<lparr>kt_etype = etype, kt_value = key\<rparr>, kt_kvno = ucast kvno\<rparr>]\<rparr>"
    using assms(1,2) by (auto simp: add_entry_from_password_def rbind_eq_Inr map_err_eq_Inr ok_or_eq_Inr)
  have "kt_timestamp x < s" if "kt_select (kt_components p) (kt_realm p) v etype (kt_entries kt) None = Some x" for x
    using kt_select_in [OF that] assms(3) by auto
  then have "kt_select (kt_components p) (kt_realm p) v etype (kt_entries kt') None = Some (last (kt_entries kt'))"
    using assms(4) by (auto simp: e(3) kt_select_snoc kt_entry_matches_iff Let_def not_le split: option.splits)
  then show ?thesis using e by (simp add: find_key_def)
qed

end
