(* ===== verification/Client_Files.thy ===== *)
theory Client_Files
  imports Stores Client_Ccache Http
begin

text \<open>
  The functions that open a file around those of the other theories: configurations (\<open>src/config.rs\<close>), clients from keytabs and
  credential caches and their saving (\<open>src/client.rs\<close>, \<open>src/client/negotiate.rs\<close>), and acceptors from keytabs (\<open>src/service.rs\<close>,
  \<open>src/http.rs\<close>).  A client that is saved under a name is the one that is loaded under it; updating a cache file keeps what belongs
  to others.
\<close>

section \<open>Configuration files\<close>

definition config_read :: "'w file_env \<Rightarrow> 'w \<Rightarrow> string \<Rightarrow> config_error + string" where
  "config_read F w path = map_err ConfigIo (read_to_string F path w)"

definition config_load :: "'w file_env \<Rightarrow> string \<Rightarrow> 'w \<Rightarrow> config_error + config" where
  "config_load F path w = rbind (config_read F w path) (config_parse (fe_environment F))"

definition config_load_paths :: "'w file_env \<Rightarrow> string list \<Rightarrow> 'w \<Rightarrow> config_error + config" where
  "config_load_paths F paths w =
     rbind (rmap (\<lambda>p. if p = [] then Inr (p, []) else rbind (config_read F w p) (\<lambda>s. Inr (p, s))) paths)
       (load_paths (fe_environment F))"

text \<open>\<open>std::env::split_paths\<close> on Unix.\<close>

definition config_load_from_env :: "'w file_env \<Rightarrow> 'w \<Rightarrow> config_error + config" where
  "config_load_from_env F w =
     rbind (ok_or (fe_var_os F ''KRB5_CONFIG'') DefaultConfigName) (\<lambda>value. config_load_paths F (split_on (CHR '':'') value) w)"

definition PLATFORM_DEFAULT_CONFIG_PATHS :: "string list" where
  "PLATFORM_DEFAULT_CONFIG_PATHS = [''/etc/krb5.conf'']"

definition existing_default_config_paths :: "'w file_env \<Rightarrow> string list \<Rightarrow> 'w \<Rightarrow> string list" where
  "existing_default_config_paths F paths w = filter (\<lambda>p. fe_is_file F p w) paths"

definition config_load_default_paths :: "'w file_env \<Rightarrow> string list \<Rightarrow> 'w \<Rightarrow> config_error + config" where
  "config_load_default_paths F paths w =
     (let paths = existing_default_config_paths F paths w in
      if paths = [] then Inl NoDefaultConfig else config_load_paths F paths w)"

definition config_load_default :: "'w file_env \<Rightarrow> 'w \<Rightarrow> config_error + config" where
  "config_load_default F w =
     (if fe_var_os F ''KRB5_CONFIG'' \<noteq> None then config_load_from_env F w
      else config_load_default_paths F PLATFORM_DEFAULT_CONFIG_PATHS w)"

definition config_load_default_or_parse :: "'w file_env \<Rightarrow> string \<Rightarrow> 'w \<Rightarrow> config_error + config" where
  "config_load_default_or_parse F embedded w =
     (if fe_var_os F ''KRB5_CONFIG'' \<noteq> None then config_load_from_env F w
      else case config_load_default_paths F PLATFORM_DEFAULT_CONFIG_PATHS w of
          Inr c \<Rightarrow> Inr c
        | Inl e \<Rightarrow> if e = NoDefaultConfig then config_parse (fe_environment F) embedded else Inl e)"

section \<open>Clients from files\<close>

definition with_keytab_name ::
  "'w file_env \<Rightarrow> bool \<Rightarrow> config \<Rightarrow> kdc_protocol \<Rightarrow> principal \<Rightarrow> string \<Rightarrow> 'w \<Rightarrow> exchange_error + tokio_client" where
  "with_keytab_name F le cfg protocol client name w =
     rbind (map_err XKeytab (keytab_load_name F le name w)) (\<lambda>kt. Inr (with_keytab cfg protocol client kt))"

definition with_client_keytab_from_config ::
  "'w file_env \<Rightarrow> bool \<Rightarrow> config \<Rightarrow> kdc_protocol \<Rightarrow> principal \<Rightarrow> 'w \<Rightarrow> exchange_error + tokio_client" where
  "with_client_keytab_from_config F le cfg protocol client w =
     with_keytab_name F le cfg protocol client (ld_default_client_keytab_name (cfg_libdefaults cfg)) w"

definition with_client_keytab_from_default ::
  "'w file_env \<Rightarrow> bool \<Rightarrow> config \<Rightarrow> kdc_protocol \<Rightarrow> principal \<Rightarrow> 'w \<Rightarrow> exchange_error + tokio_client" where
  "with_client_keytab_from_default F le cfg protocol client w =
     rbind (default_client_keytab_name (fe_var F) cfg) (\<lambda>name. with_keytab_name F le cfg protocol client name w)"

definition with_client_keytab_from_env ::
  "'w file_env \<Rightarrow> bool \<Rightarrow> config \<Rightarrow> kdc_protocol \<Rightarrow> principal \<Rightarrow> 'w \<Rightarrow> exchange_error + tokio_client" where
  "with_client_keytab_from_env F le cfg protocol client w =
     (case fe_var F ''KRB5_CLIENT_KTNAME'' of
        VarSet name \<Rightarrow> with_keytab_name F le cfg protocol client name w
      | _ \<Rightarrow> Inl XDefaultClientKeytabName)"

definition with_keytab_from_env ::
  "'w file_env \<Rightarrow> bool \<Rightarrow> config \<Rightarrow> kdc_protocol \<Rightarrow> principal \<Rightarrow> 'w \<Rightarrow> exchange_error + tokio_client" where
  "with_keytab_from_env F le cfg protocol client w =
     rbind (map_err XKeytab (keytab_load_from_env F le w)) (\<lambda>kt. Inr (with_keytab cfg protocol client kt))"

text \<open>The clock that \<open>from_ccache\<close> reads is the pair \<open>now\<close>, \<open>nows\<close>.\<close>

definition from_ccache_name ::
  "'w file_env \<Rightarrow> bool \<Rightarrow> config \<Rightarrow> kdc_protocol \<Rightarrow> system_time \<Rightarrow> (nat \<Rightarrow> system_time) \<Rightarrow> string \<Rightarrow> 'w
    \<Rightarrow> (exchange_error + tokio_client) \<times> 'w" where
  "from_ccache_name F le cfg protocol now nows name w =
     (case ccache_load_name F le name w of
        (r, w) \<Rightarrow> (rbind (map_err XCCache r) (\<lambda>cache. Inr (from_ccache cfg protocol now nows cache)), w))"

definition from_default_ccache_name ::
  "'w file_env \<Rightarrow> bool \<Rightarrow> config \<Rightarrow> kdc_protocol \<Rightarrow> system_time \<Rightarrow> (nat \<Rightarrow> system_time) \<Rightarrow> 'w \<Rightarrow> (exchange_error + tokio_client) \<times> 'w" where
  "from_default_ccache_name F le cfg protocol now nows w =
     (case configured_default_ccache_name cfg of
        Inl e \<Rightarrow> (Inl e, w) | Inr name \<Rightarrow> from_ccache_name F le cfg protocol now nows name w)"

definition from_default_ccache ::
  "'w file_env \<Rightarrow> bool \<Rightarrow> config \<Rightarrow> kdc_protocol \<Rightarrow> system_time \<Rightarrow> (nat \<Rightarrow> system_time) \<Rightarrow> 'w \<Rightarrow> (exchange_error + tokio_client) \<times> 'w" where
  "from_default_ccache F le cfg protocol now nows w =
     (case default_ccache_name (fe_var F) cfg of
        Inl e \<Rightarrow> (Inl e, w) | Inr name \<Rightarrow> from_ccache_name F le cfg protocol now nows name w)"

definition from_ccache_env ::
  "'w file_env \<Rightarrow> bool \<Rightarrow> config \<Rightarrow> kdc_protocol \<Rightarrow> system_time \<Rightarrow> (nat \<Rightarrow> system_time) \<Rightarrow> 'w \<Rightarrow> (exchange_error + tokio_client) \<times> 'w" where
  "from_ccache_env F le cfg protocol now nows w =
     (case ccache_load_from_env F le w of
        (r, w) \<Rightarrow> (rbind (map_err XCCache r) (\<lambda>cache. Inr (from_ccache cfg protocol now nows cache)), w))"

section \<open>Saving clients\<close>

definition client_save_with ::
  "(ccache \<Rightarrow> 'w \<Rightarrow> (store_error + unit) \<times> 'w) \<Rightarrow> tokio_client \<Rightarrow> 'w \<Rightarrow> (exchange_error + unit) \<times> 'w" where
  "client_save_with save c w =
     (case to_ccache c of Inl e \<Rightarrow> (Inl e, w) | Inr cache \<Rightarrow> (case save cache w of (r, w) \<Rightarrow> (map_err XCCache r, w)))"

definition save_ccache :: "'w file_env \<Rightarrow> bool \<Rightarrow> tokio_client \<Rightarrow> string \<Rightarrow> 'w \<Rightarrow> (exchange_error + unit) \<times> 'w" where
  "save_ccache F le c path w = client_save_with (\<lambda>cache. ccache_save F le cache path) c w"

definition save_ccache_name :: "'w file_env \<Rightarrow> bool \<Rightarrow> tokio_client \<Rightarrow> string \<Rightarrow> 'w \<Rightarrow> (exchange_error + unit) \<times> 'w" where
  "save_ccache_name F le c name w = client_save_with (\<lambda>cache. ccache_save_name F le cache name) c w"

definition save_default_ccache_name :: "'w file_env \<Rightarrow> bool \<Rightarrow> tokio_client \<Rightarrow> 'w \<Rightarrow> (exchange_error + unit) \<times> 'w" where
  "save_default_ccache_name F le c w =
     (case configured_default_ccache_name (tc_config c) of Inl e \<Rightarrow> (Inl e, w) | Inr name \<Rightarrow> save_ccache_name F le c name w)"

definition save_default_ccache :: "'w file_env \<Rightarrow> bool \<Rightarrow> tokio_client \<Rightarrow> 'w \<Rightarrow> (exchange_error + unit) \<times> 'w" where
  "save_default_ccache F le c w =
     (case default_ccache_name (fe_var F) (tc_config c) of Inl e \<Rightarrow> (Inl e, w) | Inr name \<Rightarrow> save_ccache_name F le c name w)"

definition update_ccache_file :: "'w file_env \<Rightarrow> bool \<Rightarrow> tokio_client \<Rightarrow> string \<Rightarrow> 'w \<Rightarrow> (exchange_error + unit) \<times> 'w" where
  "update_ccache_file F le c path w =
     (case (case ccache_load F le path w of
              Inr cache \<Rightarrow> Inr cache
            | Inl (Io NotFound) \<Rightarrow> Inr (ccache_new (ccache_principal (tc_client c)))
            | Inl error \<Rightarrow> Inl (XCCache error)) of
        Inl e \<Rightarrow> (Inl e, w)
      | Inr cache \<Rightarrow>
          (case update_ccache c cache of
             (Inl e, _) \<Rightarrow> (Inl e, w)
           | (Inr _, cache) \<Rightarrow> (case ccache_save F le cache path w of (r, w) \<Rightarrow> (map_err XCCache r, w))))"

definition update_ccache_name :: "'w file_env \<Rightarrow> bool \<Rightarrow> tokio_client \<Rightarrow> string \<Rightarrow> 'w \<Rightarrow> (exchange_error + unit) \<times> 'w" where
  "update_ccache_name F le c name w =
     (case file_path_from_cache_name F name w of
        (Inl e, w) \<Rightarrow> (Inl (XCCache e), w) | (Inr path, w) \<Rightarrow> update_ccache_file F le c path w)"

definition update_default_ccache_name :: "'w file_env \<Rightarrow> bool \<Rightarrow> tokio_client \<Rightarrow> 'w \<Rightarrow> (exchange_error + unit) \<times> 'w" where
  "update_default_ccache_name F le c w =
     (case configured_default_ccache_name (tc_config c) of Inl e \<Rightarrow> (Inl e, w) | Inr name \<Rightarrow> update_ccache_name F le c name w)"

definition update_default_ccache :: "'w file_env \<Rightarrow> bool \<Rightarrow> tokio_client \<Rightarrow> 'w \<Rightarrow> (exchange_error + unit) \<times> 'w" where
  "update_default_ccache F le c w =
     (case default_ccache_name (fe_var F) (tc_config c) of Inl e \<Rightarrow> (Inl e, w) | Inr name \<Rightarrow> update_ccache_name F le c name w)"

section \<open>Acceptors and Negotiate clients from files\<close>

definition validator_from_keytab_name :: "'w file_env \<Rightarrow> bool \<Rightarrow> string \<Rightarrow> 'w \<Rightarrow> service_error + validator" where
  "validator_from_keytab_name F le name w = rbind (map_err SvcKeytab (keytab_load_name F le name w)) (\<lambda>kt. Inr (validator_new kt))"

definition validator_from_default_keytab_name :: "'w file_env \<Rightarrow> bool \<Rightarrow> config \<Rightarrow> 'w \<Rightarrow> service_error + validator" where
  "validator_from_default_keytab_name F le cfg w = validator_from_keytab_name F le (ld_default_keytab_name (cfg_libdefaults cfg)) w"

definition validator_from_default_keytab :: "'w file_env \<Rightarrow> bool \<Rightarrow> config \<Rightarrow> 'w \<Rightarrow> service_error + validator" where
  "validator_from_default_keytab F le cfg w =
     rbind (map_err SvcKeytab (default_keytab_name F (ld_default_keytab_name (cfg_libdefaults cfg)))) (\<lambda>name.
       validator_from_keytab_name F le name w)"

definition validator_from_keytab_env :: "'w file_env \<Rightarrow> bool \<Rightarrow> 'w \<Rightarrow> service_error + validator" where
  "validator_from_keytab_env F le w = rbind (map_err SvcKeytab (keytab_load_from_env F le w)) (\<lambda>kt. Inr (validator_new kt))"

definition layer_from_keytab_name :: "'w file_env \<Rightarrow> bool \<Rightarrow> cache_ref \<Rightarrow> string \<Rightarrow> 'w \<Rightarrow> http_error + negotiate_layer" where
  "layer_from_keytab_name F le r name w = rbind (map_err HKeytab (keytab_load_name F le name w)) (\<lambda>kt. Inr (layer_new r kt))"

definition layer_from_default_keytab_name :: "'w file_env \<Rightarrow> bool \<Rightarrow> cache_ref \<Rightarrow> config \<Rightarrow> 'w \<Rightarrow> http_error + negotiate_layer" where
  "layer_from_default_keytab_name F le r cfg w = layer_from_keytab_name F le r (ld_default_keytab_name (cfg_libdefaults cfg)) w"

definition layer_from_default_keytab :: "'w file_env \<Rightarrow> bool \<Rightarrow> cache_ref \<Rightarrow> config \<Rightarrow> 'w \<Rightarrow> http_error + negotiate_layer" where
  "layer_from_default_keytab F le r cfg w =
     rbind (map_err HKeytab (default_keytab_name F (ld_default_keytab_name (cfg_libdefaults cfg)))) (\<lambda>name.
       layer_from_keytab_name F le r name w)"

definition layer_from_keytab_env :: "'w file_env \<Rightarrow> bool \<Rightarrow> cache_ref \<Rightarrow> 'w \<Rightarrow> http_error + negotiate_layer" where
  "layer_from_keytab_env F le r w = rbind (map_err HKeytab (keytab_load_from_env F le w)) (\<lambda>kt. Inr (layer_new r kt))"

definition service_from_keytab_name :: "'w file_env \<Rightarrow> bool \<Rightarrow> cache_ref \<Rightarrow> string \<Rightarrow> 'w \<Rightarrow> http_error + negotiate_service" where
  "service_from_keytab_name F le r name w = rbind (layer_from_keytab_name F le r name w) (\<lambda>l. Inr (layer_service l))"

definition service_from_default_keytab :: "'w file_env \<Rightarrow> bool \<Rightarrow> cache_ref \<Rightarrow> config \<Rightarrow> 'w \<Rightarrow> http_error + negotiate_service" where
  "service_from_default_keytab F le r cfg w = rbind (layer_from_default_keytab F le r cfg w) (\<lambda>l. Inr (layer_service l))"

definition negotiate_with_keytab_name ::
  "'w file_env \<Rightarrow> bool \<Rightarrow> config \<Rightarrow> principal \<Rightarrow> string \<Rightarrow> 'w \<Rightarrow> exchange_error + negotiate_client" where
  "negotiate_with_keytab_name F le cfg client name w = with_keytab_name F le cfg Auto client name w"

definition negotiate_from_ccache_name ::
  "'w file_env \<Rightarrow> bool \<Rightarrow> config \<Rightarrow> system_time \<Rightarrow> (nat \<Rightarrow> system_time) \<Rightarrow> string \<Rightarrow> 'w \<Rightarrow> (exchange_error + negotiate_client) \<times> 'w" where
  "negotiate_from_ccache_name F le cfg now nows name w = from_ccache_name F le cfg Auto now nows name w"

definition negotiate_from_default_ccache ::
  "'w file_env \<Rightarrow> bool \<Rightarrow> config \<Rightarrow> system_time \<Rightarrow> (nat \<Rightarrow> system_time) \<Rightarrow> 'w \<Rightarrow> (exchange_error + negotiate_client) \<times> 'w" where
  "negotiate_from_default_ccache F le cfg now nows w = from_default_ccache F le cfg Auto now nows w"

definition negotiate_from_ccache_env ::
  "'w file_env \<Rightarrow> bool \<Rightarrow> config \<Rightarrow> system_time \<Rightarrow> (nat \<Rightarrow> system_time) \<Rightarrow> 'w \<Rightarrow> (exchange_error + negotiate_client) \<times> 'w" where
  "negotiate_from_ccache_env F le cfg now nows w = from_ccache_env F le cfg Auto now nows w"

section \<open>Requests through the Negotiate clients\<close>

definition authorize_request_context_with_negotiate_client_options ::
  "('req, 'resp, 'hv) http_types \<Rightarrow> 'w net_env \<Rightarrow> kdc_asn1 \<Rightarrow> crypto_prims \<Rightarrow> base64 \<Rightarrow> 'req \<Rightarrow> principal \<Rightarrow> initiator_options
    \<Rightarrow> ('w, http_error, initiator_context \<times> 'req) http_io" where
  "authorize_request_context_with_negotiate_client_options H N K P B request service options =
     hbind (hlift HClient (authorization_context_with_options N K P B service options)) (\<lambda>context.
     hbind (hof (set_authorization_header H request (ic_header context))) (\<lambda>request. hof (Inr (context, request))))"

definition authorize_request_context_with_negotiate_client ::
  "('req, 'resp, 'hv) http_types \<Rightarrow> 'w net_env \<Rightarrow> kdc_asn1 \<Rightarrow> crypto_prims \<Rightarrow> base64 \<Rightarrow> 'req \<Rightarrow> principal
    \<Rightarrow> ('w, http_error, initiator_context \<times> 'req) http_io" where
  "authorize_request_context_with_negotiate_client H N K P B request service =
     hbind (hlift HClient (authorization_context N K P B service)) (\<lambda>context.
     hbind (hof (set_authorization_header H request (ic_header context))) (\<lambda>request. hof (Inr (context, request))))"

text \<open>The blocking variants have the same bodies; the client runs its future to the end on its own runtime.\<close>

definition send_with_blocking_negotiate_options ::
  "('req, 'resp, 'hv) http_types \<Rightarrow> 'w net_env \<Rightarrow> kdc_asn1 \<Rightarrow> crypto_prims \<Rightarrow> base64 \<Rightarrow> principal \<Rightarrow> initiator_options
    \<Rightarrow> ('w \<Rightarrow> 'req \<times> 'w) \<Rightarrow> ('req \<Rightarrow> 'w \<Rightarrow> ('e + 'resp) \<times> 'w) \<Rightarrow> ('w, 'e negotiate_http_error, 'resp negotiate_http_response) http_io" where
  "send_with_blocking_negotiate_options H N K P B service options make_request send_request =
     send_with_negotiate_options H N K P B service options make_request send_request"

definition send_with_blocking_negotiate ::
  "('req, 'resp, 'hv) http_types \<Rightarrow> 'w net_env \<Rightarrow> kdc_asn1 \<Rightarrow> crypto_prims \<Rightarrow> base64 \<Rightarrow> principal
    \<Rightarrow> ('w \<Rightarrow> 'req \<times> 'w) \<Rightarrow> ('req \<Rightarrow> 'w \<Rightarrow> ('e + 'resp) \<times> 'w) \<Rightarrow> ('w, 'e negotiate_http_error, 'resp negotiate_http_response) http_io" where
  "send_with_blocking_negotiate H N K P B service make_request send_request =
     send_with_blocking_negotiate_options H N K P B service initiator_options_new make_request send_request"

section \<open>What is saved is loaded\<close>

lemma save_with_Inr:
  "client_save_with save c w = (Inr (), w') \<longleftrightarrow> (\<exists>cache. to_ccache c = Inr cache \<and> save cache w = (Inr (), w'))"
  by (auto simp: client_save_with_def split: sum.splits prod.splits)

text \<open>C9: A client is persistent.  When a client in any state it can reach has been saved under a cache name, loading this name, also
  through the primary file of a \<open>DIR:\<close> collection, which the saving may have created, gives a client with the same principal, primary
  ticket, ticket-granting tickets and service tickets, in the same order; only the expiry of the key is lost.  The cached sessions must
  all belong to the client (\<open>own_sessions\<close>), since the caller may also have cached a session of another client and the loader drops
  that one; this holds when no such session was handed in (\<open>own_sessions_reachable\<close>).  They must be storable and the cache within the
  limits of the file format.\<close>

theorem client_persisted:
  assumes "files_ok F" and "client_reachable N K P H (c, v)" and "own_sessions c" and "client_storable c"
    and "to_ccache c = Inr cache" and "ccache_ok cache" and "length (ccache_enc le cache) < 2 ^ 64"
    and "save_ccache_name F le c name w = (Inr (), w')"
  shows "\<exists>c'. from_ccache_name F le cfg protocol now nows name w' = (Inr c', w') \<and> same_sessions c' c"
proof -
  have "ccache_save_name F le cache name w = (Inr (), w')"
    using assms(5,8) by (auto simp: save_ccache_name_def save_with_Inr)
  from ccache_saved_by_name_loads [OF assms(1,6,7) this]
  have "from_ccache_name F le cfg protocol now nows name w' = (Inr (from_ccache cfg protocol now nows cache), w')"
    by (simp add: from_ccache_name_def)
  moreover have "client_ok (owners H c) c" using client_reachable_ok [OF assms(2)] by simp
  ultimately show ?thesis using client_ccache_roundtrip [OF _ assms(3,4,5)] by blast
qed

section \<open>Updating a cache file\<close>

definition foreign :: "cc_principal \<Rightarrow> cc_credential \<Rightarrow> bool" where
  "foreign client cred \<longleftrightarrow> cc_is_config_credential cred \<or> \<not> cc_same_principal_identity (cc_client cred) client"

lemma foreign_implies: "foreign client = (\<lambda>cred. cc_same_principal_identity (cc_client cred) client \<longrightarrow> cc_is_config_credential cred)"
  by (auto simp: foreign_def)

lemma config_by_server: "cc_server a = cc_server b \<Longrightarrow> cc_is_config_credential a \<longleftrightarrow> cc_is_config_credential b"
  by (simp add: cc_is_config_credential_def cc_parse_config_entry_def Let_def)

text \<open>The updated cache holds exactly what did not belong to the client, followed by the client's own credentials.\<close>

lemma update_ccache_exact:
  assumes "client_ok Os c" and "own_sessions c" and "client_storable c" and "update_ccache c cc = (Inr (), cc')"
  shows "\<exists>creds. ccache_credentials c = Inr creds \<and> cc_default_principal cc' = ccache_principal (tc_client c)
    \<and> cc_credentials cc' = filter (foreign (ccache_principal (tc_client c))) (cc_credentials cc) @ creds
    \<and> (\<forall>cred \<in> set creds. \<not> foreign (ccache_principal (tc_client c)) cred)"
proof -
  let ?o = "ccache_principal (tc_client c)"
  let ?kept = "filter (foreign ?o) (cc_credentials cc)"
  obtain creds where creds: "ccache_credentials c = Inr creds" and
      "cc' = upsert_all (snd (remove_entries_for_client (cc\<lparr>cc_default_principal := ?o\<rparr>) ?o)) creds"
    using assms(4) by (auto simp: update_ccache_def Let_def split: sum.splits)
  then have cc': "cc' = upsert_all (cc\<lparr>cc_default_principal := ?o, cc_credentials := ?kept\<rparr>) creds"
    by (simp add: remove_entries_for_client_def cc_remove_loop_filter Let_def foreign_implies)
  obtain tgts tickets where e: "creds = tgts @ tickets" "distinct (map cred_key creds)" "\<forall>cred \<in> set creds. \<not> cc_is_config_credential cred"
    and "list_all2 (\<lambda>x cred. same_owner ?o (snd x) cred \<and> tgt_realm (snd x) = Some (fst x))
      (map (\<lambda>(r, s). (r, stored_session s)) (tc_tgt_sessions c)) tgts"
    and "list_all2 (\<lambda>x cred. same_owner ?o (snd x) cred \<and> service_cache_key (rs_service (snd x)) = fst x
      \<and> \<not> is_tgt_principal (rs_service (snd x))) (map (\<lambda>(k, s). (k, stored_session s)) (tc_service_tickets c)) tickets"
    by (rule exported_credentials [OF assms(1-3) creds])
  then have own: "\<forall>cred \<in> set creds. cc_same_principal_identity (cc_client cred) ?o"
    by (fastforce simp: same_owner_def same_ccache_client_identity_def cc_same_principal_identity_def in_set_conv_nth list_all2_conv_all_nth)
  have "cred_key cred \<noteq> cred_key x" if "cred \<in> set creds" "foreign ?o x" for cred x
    using that own e(3) config_by_server [of cred x] by (auto simp: foreign_def cred_key_def)
  then have "cc' = cc\<lparr>cc_default_principal := ?o, cc_credentials := ?kept @ creds\<rparr>"
    using upsert_all_fresh [OF e(2), of "cc\<lparr>cc_default_principal := ?o, cc_credentials := ?kept\<rparr>"] cc' by fastforce
  then show ?thesis using creds own e(3) by (auto simp: foreign_def)
qed

text \<open>C10: Updating a cache file keeps what is not the client's.  After \<open>update_ccache_file\<close> on an existing cache, by a client all of
  whose cached sessions are its own (\<open>own_sessions\<close>, which holds when the caller cached no session of another client: such a session
  would replace that client's credential for the same server), the file holds every configuration entry and every credential of
  another client, unchanged and in the same order, followed by the client's own credentials; loading it gives the client with the same
  sessions.  The sessions must be storable and the updated cache within the limits of the file format.\<close>

theorem update_ccache_file_keeps:
  assumes "files_ok F" and "client_reachable N K P H (c, v)" and "own_sessions c" and "client_storable c" and "ccache_load F le path w = Inr cc"
    and "ccache_ok (snd (update_ccache c cc))" and "length (ccache_enc le (snd (update_ccache c cc))) < 2 ^ 64"
    and "update_ccache_file F le c path w = (Inr (), w')"
  shows "\<exists>cc' creds. ccache_load F le path w' = Inr cc' \<and> ccache_credentials c = Inr creds
    \<and> cc_credentials cc' = filter (foreign (ccache_principal (tc_client c))) (cc_credentials cc) @ creds
    \<and> config_entries cc' = config_entries cc
    \<and> same_sessions (from_ccache cfg protocol now nows cc') c"
proof -
  let ?o = "ccache_principal (tc_client c)"
  have ok: "client_ok (owners H c) c" using client_reachable_ok [OF assms(2)] by simp
  obtain cc' where u: "update_ccache c cc = (Inr (), cc')" "ccache_save F le cc' path w = (Inr (), w')"
    using assms(5,8) by (auto simp: update_ccache_file_def split: sum.splits prod.splits)
  have load: "ccache_load F le path w' = Inr cc'"
    using ccache_saved_loads [OF assms(1) _ _ u(2)] assms(6,7) by (simp add: u(1))
  obtain creds where c: "ccache_credentials c = Inr creds" "cc_default_principal cc' = ?o"
      "cc_credentials cc' = filter (foreign ?o) (cc_credentials cc) @ creds" "\<forall>cred \<in> set creds. \<not> foreign ?o cred"
    using update_ccache_exact [OF ok assms(3,4) u(1)] by blast
  have "config_entries cc' = config_entries cc"
    using c(4) by (auto simp: config_entries_def c(3) List.map_filter_def foreign_def cc_is_config_credential_def intro!: arg_cong [where f = "map _"]
        filter_cong)
  moreover have "same_sessions (from_ccache cfg protocol now nows cc') c"
  proof (rule load_exported [OF ok assms(3,4) c(1) _ c(2)])
    show "cc_entries cc' = filter (\<lambda>cred. \<not> cc_is_config_credential cred) (filter (foreign ?o) (cc_credentials cc)) @ creds"
      using c(4) by (auto simp: cc_entries_def c(3) foreign_def filter_id_conv)
  qed (auto simp: foreign_def same_ccache_client_identity_def cc_same_principal_identity_def)
  ultimately show ?thesis using load c by blast
qed

section \<open>Keytabs from passwords\<close>

lemma kt_salt: "kt_default_password_salt p = kt_realm p @ concat (kt_components p)"
proof -
  have "foldl (\<lambda>salt c. salt @ c) s cs = s @ concat cs" for s and cs :: "string list" by (induction cs arbitrary: s) auto
  then show ?thesis by (simp add: kt_default_password_salt_def)
qed

text \<open>C11: A keytab entry that was derived from a password stands for the password.  For a principal of the same name and realm as the
  client, the key that a login with the keytab selects is the key that a login with the password derives, when the KDC gives
  neither salt nor parameters and the entries before are older.\<close>

theorem keytab_entry_is_password:
  assumes "add_entry_from_password P kt p password t kvno etype = Inr kt'" and "kt_time_to_u32_seconds t = Inr s"
    and "\<forall>e \<in> set (kt_entries kt). kt_timestamp e < s"
    and "kt_realm p = p_realm client" and "kt_components p = p_components client"
    and "pk_etype info = etype" and "pk_salt info = None" and "pk_s2kparams info = None"
  shows "\<exists>key. derive_password_reply_key P client password info = Inr key
    \<and> select_keytab_reply_key kt' client info = Inr (key, ucast kvno)"
proof -
  obtain e key where e: "ket_from_etype_id etype = Some e"
      "ket_string_to_key P e password (str_bytes (kt_default_password_salt p)) (ket_default_s2kparams e) = Inr key"
      "find_key kt' (kt_components p) (kt_realm p) 0 etype = Inr (\<lparr>kt_etype = etype, kt_value = key\<rparr>, ucast kvno)"
    using added_entry_found [OF assms(1-3), of 0] by blast
  then show ?thesis using assms(4-8)
    by (simp add: derive_password_reply_key_def select_keytab_reply_key_def default_password_salt_def kt_salt)
qed

section \<open>Builders of the middleware service\<close>

definition service_with_now :: "negotiate_service \<Rightarrow> system_time \<Rightarrow> negotiate_service" where
  "service_with_now s now = s\<lparr>ns_validator := with_now (ns_validator s) now\<rparr>"

definition service_with_max_clock_skew :: "negotiate_service \<Rightarrow> duration \<Rightarrow> negotiate_service" where
  "service_with_max_clock_skew s d = s\<lparr>ns_validator := with_max_clock_skew (ns_validator s) d\<rparr>"

definition service_with_keytab_principal :: "negotiate_service \<Rightarrow> string list \<Rightarrow> negotiate_service" where
  "service_with_keytab_principal s p = s\<lparr>ns_validator := with_keytab_principal (ns_validator s) p\<rparr>"

definition service_with_client_address :: "negotiate_service \<Rightarrow> host_address \<Rightarrow> negotiate_service" where
  "service_with_client_address s a = s\<lparr>ns_validator := with_client_address (ns_validator s) a\<rparr>"

definition service_require_client_address :: "negotiate_service \<Rightarrow> bool \<Rightarrow> negotiate_service" where
  "service_require_client_address s b = s\<lparr>ns_validator := require_client_address (ns_validator s) b\<rparr>"

definition service_with_shared_replay_cache :: "negotiate_service \<Rightarrow> cache_ref \<Rightarrow> negotiate_service" where
  "service_with_shared_replay_cache s r = s\<lparr>ns_validator := with_shared_replay_cache (ns_validator s) r\<rparr>"

definition service_without_shared_replay_cache :: "negotiate_service \<Rightarrow> negotiate_service" where
  "service_without_shared_replay_cache s = s\<lparr>ns_validator := without_shared_replay_cache (ns_validator s)\<rparr>"

definition service_with_ap_rep :: "negotiate_service \<Rightarrow> bool \<Rightarrow> negotiate_service" where
  "service_with_ap_rep s b = s\<lparr>ns_response := (ns_response s)\<lparr>no_emit_ap_rep := b\<rparr>\<rparr>"

definition service_with_ap_rep_options :: "negotiate_service \<Rightarrow> ap_rep_options \<Rightarrow> negotiate_service" where
  "service_with_ap_rep_options s ro = s\<lparr>ns_response := (ns_response s)\<lparr>no_ap_rep_options := ro\<rparr>\<rparr>"

definition service_with_reject_invalid :: "negotiate_service \<Rightarrow> bool \<Rightarrow> negotiate_service" where
  "service_with_reject_invalid s b = s\<lparr>ns_response := (ns_response s)\<lparr>no_reject_invalid := b\<rparr>\<rparr>"

text \<open>Configuring the layer and then making the service is the same as making the service and then configuring it.\<close>

lemma validator_build_fields:
  "validator_build o1 kt = \<lparr>sv_keytab = kt, sv_max_clock_skew = (case vo_max_clock_skew o1 of Some d \<Rightarrow> d | None \<Rightarrow> DEFAULT_MAX_CLOCK_SKEW),
     sv_now = vo_now o1, sv_keytab_principal = vo_keytab_principal o1, sv_client_address = vo_client_address o1,
     sv_require_client_address = vo_require_client_address o1, sv_replay_cache = replay_cache_new,
     sv_shared_replay_cache = vo_shared_replay_cache o1\<rparr>"
  by (cases "vo_max_clock_skew o1"; cases "vo_now o1"; cases "vo_keytab_principal o1"; cases "vo_client_address o1"; cases "vo_shared_replay_cache o1")
    (simp_all add: validator_build_def Let_def validator_new_def with_now_def with_max_clock_skew_def with_keytab_principal_def
      with_client_address_def require_client_address_def with_shared_replay_cache_def)

lemma layer_service_commute:
  "layer_service (layer_with_now l now) = service_with_now (layer_service l) now"
  "layer_service (layer_with_max_clock_skew l d) = service_with_max_clock_skew (layer_service l) d"
  "layer_service (layer_with_keytab_principal l p) = service_with_keytab_principal (layer_service l) p"
  "layer_service (layer_with_client_address l a) = service_with_client_address (layer_service l) a"
  "layer_service (layer_require_client_address l b) = service_require_client_address (layer_service l) b"
  "layer_service (layer_with_shared_replay_cache l r) = service_with_shared_replay_cache (layer_service l) r"
  "layer_service (layer_without_shared_replay_cache l) = service_without_shared_replay_cache (layer_service l)"
  by (simp_all add: layer_service_def validator_build_fields layer_with_now_def service_with_now_def with_now_def
      layer_with_max_clock_skew_def service_with_max_clock_skew_def with_max_clock_skew_def
      layer_with_keytab_principal_def service_with_keytab_principal_def with_keytab_principal_def
      layer_with_client_address_def service_with_client_address_def with_client_address_def
      layer_require_client_address_def service_require_client_address_def require_client_address_def
      layer_with_shared_replay_cache_def service_with_shared_replay_cache_def with_shared_replay_cache_def
      layer_without_shared_replay_cache_def service_without_shared_replay_cache_def without_shared_replay_cache_def)

end
