(* ===== verification/Client_Diagnostics.thy ===== *)
theory Client_Diagnostics
  imports Client_Files
begin

text \<open>
  \<open>TokioClient::diagnostics\<close> of \<open>src/client.rs\<close>: what the report says about a client, and when it finds nothing.  The texts of the
  errors are the constructors of \<open>diagnostic\<close>.
\<close>

datatype diagnostic =
    DiagConfiguration exchange_error
  | DiagEnctype string i32 \<comment> \<open>the field of the configuration and the type that the keytab lacks\<close>
  | DiagKdcs kdc_protocol exchange_error

record client_diagnostics =
  dg_client :: string
  dg_realm :: string
  dg_protocol :: string
  dg_credential_source :: string
  dg_has_tgt :: bool
  dg_tgt_session_count :: nat
  dg_service_ticket_cache_count :: nat
  dg_default_tkt_enctypes :: "i32 list"
  dg_preferred_preauth_types :: "i32 list"
  dg_keytab_enctypes :: "i32 list"
  dg_udp_kdcs :: "string list"
  dg_tcp_kdcs :: "string list"
  dg_errors :: "diagnostic list"

definition diagnostics_is_ok :: "client_diagnostics \<Rightarrow> bool" where
  "diagnostics_is_ok d \<longleftrightarrow> dg_errors d = []"

fun credential_source :: "client_credentials option \<Rightarrow> string" where
  "credential_source (Some (Password _)) = ''password''"
| "credential_source (Some (KeytabCredential _)) = ''keytab''"
| "credential_source None = ''none''"

fun protocol_label :: "kdc_protocol \<Rightarrow> string" where
  "protocol_label Udp = ''UDP''"
| "protocol_label Tcp = ''TCP''"
| "protocol_label Auto = ''Auto''"

definition keytab_realm_enctypes :: "keytab \<Rightarrow> string \<Rightarrow> i32 list" where
  "keytab_realm_enctypes kt realm =
     remdups_adj (sort_key sint (map (\<lambda>e. kt_etype (kt_key e)) (filter (\<lambda>e. kt_realm (kt_principal e) = realm) (kt_entries kt))))"

definition record_keytab_enctype_diagnostics :: "diagnostic list \<Rightarrow> i32 list \<Rightarrow> i32 list \<Rightarrow> string \<Rightarrow> diagnostic list" where
  "record_keytab_enctype_diagnostics errors keytab_enctypes configured field =
     errors @ map (DiagEnctype field) (filter (\<lambda>etype. etype \<notin> set keytab_enctypes) configured)"

definition diagnostic_kdc_endpoints ::
  "'w net_env \<Rightarrow> tokio_client \<Rightarrow> kdc_protocol \<Rightarrow> diagnostic list \<Rightarrow> 'w \<Rightarrow> string list \<times> diagnostic list \<times> 'w" where
  "diagnostic_kdc_endpoints N c protocol errors w =
     (case discover_kdcs N (tc_config c) (p_realm (tc_client c)) protocol w of
        (Inr endpoints, w) \<Rightarrow> (map endpoint_authority endpoints, errors, w)
      | (Inl error, w) \<Rightarrow> ([], errors @ [DiagKdcs protocol error], w))"

definition diagnostics :: "'w net_env \<Rightarrow> tokio_client \<Rightarrow> 'w \<Rightarrow> client_diagnostics \<times> 'w" where
  "diagnostics N c w =
     (let defaults = cfg_libdefaults (tc_config c);
          errors = (case validate_configuration c of Inl e \<Rightarrow> [DiagConfiguration e] | Inr _ \<Rightarrow> []);
          (enctypes, errors) = (case tc_credentials c of
              Some (KeytabCredential kt) \<Rightarrow>
                (let enctypes = keytab_realm_enctypes kt (p_realm (tc_client c));
                     errors = record_keytab_enctype_diagnostics errors enctypes (ld_default_tkt_enctype_ids defaults) ''default_tkt_enctypes''
                 in (enctypes, record_keytab_enctype_diagnostics errors enctypes (ld_preferred_preauth_types defaults) ''preferred_preauth_types''))
            | _ \<Rightarrow> ([], errors));
          (udp, errors, w) = diagnostic_kdc_endpoints N c Udp errors w;
          (tcp, errors, w) = diagnostic_kdc_endpoints N c Tcp errors w
      in (\<lparr>dg_client = p_name (tc_client c), dg_realm = p_realm (tc_client c), dg_protocol = protocol_label (tc_protocol c),
           dg_credential_source = credential_source (tc_credentials c), dg_has_tgt = (tc_tgt c \<noteq> None),
           dg_tgt_session_count = length (tc_tgt_sessions c), dg_service_ticket_cache_count = length (tc_service_tickets c),
           dg_default_tkt_enctypes = ld_default_tkt_enctype_ids defaults, dg_preferred_preauth_types = ld_preferred_preauth_types defaults,
           dg_keytab_enctypes = enctypes, dg_udp_kdcs = udp, dg_tcp_kdcs = tcp, dg_errors = errors\<rparr>, w))"

section \<open>When nothing is found\<close>

lemma set_remdups_sort: "set (keytab_realm_enctypes kt realm) =
    {kt_etype (kt_key e) |e. e \<in> set (kt_entries kt) \<and> kt_realm (kt_principal e) = realm}"
  by (auto simp: keytab_realm_enctypes_def)

lemma record_none: "record_keytab_enctype_diagnostics errors have want field = [] \<longleftrightarrow> errors = [] \<and> set want \<subseteq> set have"
  by (auto simp: record_keytab_enctype_diagnostics_def filter_empty_conv)

text \<open>What is found without the network, in front of what the discovery of KDCs adds.\<close>

definition local_errors :: "tokio_client \<Rightarrow> diagnostic list" where
  "local_errors c =
     (let defaults = cfg_libdefaults (tc_config c);
          errors = (case validate_configuration c of Inl e \<Rightarrow> [DiagConfiguration e] | Inr _ \<Rightarrow> [])
      in case tc_credentials c of
          Some (KeytabCredential kt) \<Rightarrow>
            (let enctypes = keytab_realm_enctypes kt (p_realm (tc_client c));
                 errors = record_keytab_enctype_diagnostics errors enctypes (ld_default_tkt_enctype_ids defaults) ''default_tkt_enctypes''
             in record_keytab_enctype_diagnostics errors enctypes (ld_preferred_preauth_types defaults) ''preferred_preauth_types'')
        | _ \<Rightarrow> errors)"

lemma diagnostics_errors:
  obtains w1 where "dg_errors (fst (diagnostics N c w)) = local_errors c
    @ (case discover_kdcs N (tc_config c) (p_realm (tc_client c)) Udp w of (Inl e, _) \<Rightarrow> [DiagKdcs Udp e] | _ \<Rightarrow> [])
    @ (case discover_kdcs N (tc_config c) (p_realm (tc_client c)) Tcp w1 of (Inl e, _) \<Rightarrow> [DiagKdcs Tcp e] | _ \<Rightarrow> [])"
proof -
  let ?D = "discover_kdcs N (tc_config c) (p_realm (tc_client c))"
  have k: "fst (snd (diagnostic_kdc_endpoints N c p errors w)) = errors @ (case ?D p w of (Inl e, _) \<Rightarrow> [DiagKdcs p e] | _ \<Rightarrow> [])"
    for p errors w by (simp add: diagnostic_kdc_endpoints_def split: prod.splits sum.splits)
  let ?w = "snd (snd (diagnostic_kdc_endpoints N c Udp (local_errors c) w))"
  have "dg_errors (fst (diagnostics N c w)) = fst (snd (diagnostic_kdc_endpoints N c Tcp (fst (snd (diagnostic_kdc_endpoints N c Udp (local_errors c) w))) ?w))"
    by (cases "tc_credentials c"; cases "the (tc_credentials c)") (simp_all add: diagnostics_def local_errors_def Let_def split_beta)
  then show thesis using that [of ?w] by (simp add: k)
qed

lemma diagnostics_none:
  assumes "diagnostics_is_ok (fst (diagnostics N c w))"
  shows "is_configured c \<and> is_ok (fst (discover_kdcs N (tc_config c) (p_realm (tc_client c)) Udp w))
    \<and> (\<forall>kt. tc_credentials c = Some (KeytabCredential kt) \<longrightarrow>
        set (ld_default_tkt_enctype_ids (cfg_libdefaults (tc_config c))) \<subseteq> set (keytab_realm_enctypes kt (p_realm (tc_client c))))"
proof -
  obtain w1 where e: "dg_errors (fst (diagnostics N c w)) = local_errors c
    @ (case discover_kdcs N (tc_config c) (p_realm (tc_client c)) Udp w of (Inl e, _) \<Rightarrow> [DiagKdcs Udp e] | _ \<Rightarrow> [])
    @ (case discover_kdcs N (tc_config c) (p_realm (tc_client c)) Tcp w1 of (Inl e, _) \<Rightarrow> [DiagKdcs Tcp e] | _ \<Rightarrow> [])"
    by (rule diagnostics_errors)
  have none: "local_errors c = []" "is_ok (fst (discover_kdcs N (tc_config c) (p_realm (tc_client c)) Udp w))"
    using assms unfolding diagnostics_is_ok_def e by (simp_all add: is_ok_def split: prod.splits sum.splits)
  moreover have "is_configured c"
    using none(1) by (cases "tc_credentials c"; cases "the (tc_credentials c)")
      (auto simp: local_errors_def Let_def record_none is_configured_def is_ok_def split: sum.splits)
  ultimately show ?thesis by (auto simp: local_errors_def Let_def record_none)
qed

text \<open>C28: The diagnostics compare the encryption types of the keytab with the configured pre-authentication types, which are numbers of
  another kind.  With the default \<open>preferred_preauth_types\<close> no client whose keytab holds keys of supported encryption types passes,
  however well it works, whatever the network answers: the report always says that the type 15 is missing from the keytab.\<close>

theorem diagnostics_reject_keytabs:
  assumes "tc_credentials c = Some (KeytabCredential kt)"
    and "ld_preferred_preauth_types (cfg_libdefaults (tc_config c)) = DEFAULT_PREAUTH_TYPES"
    and "\<forall>e \<in> set (kt_entries kt). ket_from_etype_id (kt_etype (kt_key e)) \<noteq> None"
  shows "DiagEnctype ''preferred_preauth_types'' 15 \<in> set (dg_errors (fst (diagnostics N c w)))
    \<and> \<not> diagnostics_is_ok (fst (diagnostics N c w))"
proof -
  have "ket_from_etype_id 15 = None" by code_simp
  then have "15 \<notin> set (keytab_realm_enctypes kt (p_realm (tc_client c)))"
    using assms(3) by (auto simp: set_remdups_sort)
  then have "DiagEnctype ''preferred_preauth_types'' 15 \<in> set (local_errors c)"
    using assms(1,2) by (simp add: local_errors_def Let_def record_keytab_enctype_diagnostics_def DEFAULT_PREAUTH_TYPES_def)
  moreover obtain w1 where e: "dg_errors (fst (diagnostics N c w)) = local_errors c
    @ (case discover_kdcs N (tc_config c) (p_realm (tc_client c)) Udp w of (Inl e, _) \<Rightarrow> [DiagKdcs Udp e] | _ \<Rightarrow> [])
    @ (case discover_kdcs N (tc_config c) (p_realm (tc_client c)) Tcp w1 of (Inl e, _) \<Rightarrow> [DiagKdcs Tcp e] | _ \<Rightarrow> [])"
    by (rule diagnostics_errors)
  ultimately have "DiagEnctype ''preferred_preauth_types'' 15 \<in> set (dg_errors (fst (diagnostics N c w)))" by simp
  then show ?thesis by (auto simp: diagnostics_is_ok_def)
qed

end
