(* ===== verification/Client_Files_Demo.thy ===== *)
theory Client_Files_Demo
  imports Client_Demo Client_Diagnostics
begin

text \<open>
  Concrete runs on a file system that is a map: the client of \<open>Client_Demo\<close> is saved to a \<open>DIR:\<close> collection that does not exist yet, and
  written into a cache file of another client; a keytab is made from a password; a client with a keytab is diagnosed.
\<close>

definition cd_files :: "(path_component list \<rightharpoonup> bytes) file_env" where
  "cd_files = map_files (\<lambda>_. None)"

lemma cd_files_ok: "files_ok cd_files"
  by (simp add: cd_files_def map_files_ok)

section \<open>The credentials of the client\<close>

definition cd_cred :: "principal \<Rightarrow> cc_credential" where
  "cd_cred s = \<lparr>cc_client = ccache_principal dm_client, cc_server = ccache_principal s,
     cc_key = \<lparr>cc_etype = kt_etype session_key5, cc_value = kt_value session_key5\<rparr>,
     cc_times = \<lparr>cc_auth_time = 1000, cc_start_time = 1000, cc_end_time = 9000, cc_renew_till = 0\<rparr>,
     cc_is_skey = False, cc_ticket_flags = [0, 0, 0, 0], cc_addresses = [], cc_auth_data = [],
     cc_ticket = [0x61, 0], cc_second_ticket = []\<rparr>"

abbreviation cd_creds :: "cc_credential list" where
  "cd_creds \<equiv> [cd_cred (tgt_service ''R''), cd_cred dm_service]"

lemma cd_to_cred: "to_ccache_credential (cd_session s) = Inr (cd_cred s)"
proof -
  have "client_time_to_u32_seconds (n * NANOS) = Inr (word_of_int n)" if "n \<in> {1000, 9000}" for n
    using that by (auto simp: client_time_to_u32_seconds_def unix_timestamp_parts_def duration_since_def NANOS_def)
  then show ?thesis by (simp add: to_ccache_credential_def cd_session_def cd_cred_def)
qed

lemma cd_credentials: "ccache_credentials cd_client = Inr cd_creds"
  by (simp add: ccache_credentials_def cd_client_def cd_tgt_client_def cd_to_cred)

lemma cd_services: "ccache_principal (tgt_service ''R'') \<noteq> ccache_principal dm_service"
  by (simp add: ccache_principal_def cc_principal_new_def tgt_service_def principal_new_def demo_service_def)

lemma cd_upsert:
  assumes "\<forall>x \<in> set (cc_credentials cc). cc_client x \<noteq> ccache_principal dm_client"
  shows "upsert_all cc cd_creds = cc\<lparr>cc_credentials := cc_credentials cc @ cd_creds\<rparr>"
  using assms cd_services by (intro upsert_all_fresh) (auto simp: cred_key_def cd_cred_def)

lemma cd_client_of: "tc_client cd_client = dm_client"
  by (simp add: cd_client_def cd_tgt_client_def cd_new_def tokio_client_new_def)

abbreviation cd_cache :: ccache where
  "cd_cache \<equiv> (ccache_new (ccache_principal dm_client))\<lparr>cc_credentials := cd_creds\<rparr>"

lemma cd_to_ccache: "to_ccache cd_client = Inr cd_cache"
  using cd_upsert [of "ccache_new (ccache_principal dm_client)"] by (simp add: to_ccache_def cd_credentials cd_client_of ccache_new_def)

lemma cd_client_storable: "client_storable cd_client"
proof -
  have "storable (cd_session s)" if "p_realm s = ''R''" for s using that by (simp add: storable_def cd_session_def NANOS_def X_CACHECONF_REALM_def)
  moreover have "p_realm (tgt_service ''R'') = ''R''" "p_realm dm_service = ''R''" using demo_realms by (simp_all add: tgt_service_def principal_new_def demo_service_def)
  moreover have "\<not> is_tgt_principal (rs_service (cd_session dm_service))" by (simp add: cd_session_def is_tgt_principal_def demo_service_def)
  ultimately show ?thesis by (simp add: client_storable_def cd_client_def cd_tgt_client_def)
qed

lemma cd_own_sessions: "own_sessions cd_client"
  by (rule own_sessions_reachable [OF cd_reachable]) (simp add: cd_client_of, simp add: cd_session_def principal_matches_def)

lemma cd_principals_ok:
  "cc_principal_ok 4 (ccache_principal dm_client)" "cc_principal_ok 4 (ccache_principal dm_service)" "cc_principal_ok 4 (ccache_principal (tgt_service ''R''))"
  by (simp_all add: ccache_principal_def cc_principal_new_def cc_principal_ok_def cc_string_ok_def demo_client_def demo_service_def
      tgt_service_def principal_new_def demo_realms)

lemma cd_creds_ok: "list_all (cc_credential_ok 4) cd_creds"
  using cd_principals_ok by (simp add: cc_credential_ok_def cd_cred_def type_ok_def data_ok_def)

lemmas cd_enc_defs = ccache_enc_def cc_enc_header_def cc_enc_field_def cc_enc_principal_def cc_enc_credential_def cc_enc_tagged_def Let_def
  cd_cred_def ccache_principal_def cc_principal_new_def demo_client_def demo_service_def tgt_service_def principal_new_def cc_enc_data_def

section \<open>Saving and loading\<close>

lemma cd_cache_ok: "ccache_ok cd_cache" and cd_cache_small: "length (ccache_enc True cd_cache) < 2 ^ 64"
  using cd_principals_ok cd_creds_ok by (simp_all add: ccache_ok_def ccache_new_def) (simp add: cd_enc_defs)

theorem client_persisted_witness:
  "\<exists>w' c'. save_ccache_name cd_files True cd_client ''DIR:/d'' Map.empty = (Inr (), w')
    \<and> from_ccache_name cd_files True cd_config Udp 0 (\<lambda>_. 0) ''DIR:/d'' w' = (Inr c', w') \<and> same_sessions c' cd_client"
proof -
  have d: "dir_collection_path ''DIR:/d'' = Some ''/d''" by code_simp
  have e: "expand_path_tokens (fe_environment cd_files) ''/d'' = ''/d''" by (simp add: expand_path_tokens_def)
  have "\<exists>w'. save_ccache_name cd_files True cd_client ''DIR:/d'' Map.empty = (Inr (), w')"
    by (simp add: save_ccache_name_def client_save_with_def cd_to_ccache ccache_save_name_def file_path_from_cache_name_def d
        dir_collection_primary_path_def e Let_def read_to_string_def cd_files_def map_files_def ccache_save_def
        ccache_to_bytes_enc [OF cd_cache_ok] write_file_def)
  then obtain w' where w': "save_ccache_name cd_files True cd_client ''DIR:/d'' Map.empty = (Inr (), w')" by blast
  from client_persisted [OF cd_files_ok cd_reachable cd_own_sessions cd_client_storable cd_to_ccache cd_cache_ok cd_cache_small w'] w' show ?thesis by blast
qed

lemma cd_updated:
  "update_ccache cd_client ex_fmt_cc = (Inr (), ex_fmt_cc\<lparr>cc_default_principal := ccache_principal dm_client,
     cc_credentials := cc_credentials ex_fmt_cc @ cd_creds\<rparr>)"
proof -
  have "foreign (ccache_principal dm_client) x \<and> cc_client x \<noteq> ccache_principal dm_client" if "x \<in> set (cc_credentials ex_fmt_cc)" for x
    using that by (auto simp: ex_fmt_cc_def foreign_def cc_same_principal_identity_def ccache_principal_def cc_principal_new_def demo_client_def)
  then show ?thesis using cd_upsert [of "ex_fmt_cc\<lparr>cc_default_principal := ccache_principal dm_client\<rparr>"]
    by (simp add: update_ccache_def Let_def remove_entries_for_client_def cc_remove_loop_filter cd_client_of cd_credentials
        filter_True foreign_implies [symmetric] filter_id_conv)
qed

theorem update_ccache_file_keeps_witness:
  "\<exists>w' cc'. update_ccache_file cd_files True cd_client ''/c'' [path_components ''/c'' \<mapsto> ccache_enc True ex_fmt_cc] = (Inr (), w')
    \<and> ccache_load cd_files True ''/c'' w' = Inr cc' \<and> config_entries cc' = config_entries ex_fmt_cc
    \<and> same_sessions (from_ccache cd_config Udp 0 (\<lambda>_. 0) cc') cd_client"
proof -
  let ?w = "[path_components ''/c'' \<mapsto> ccache_enc True ex_fmt_cc]" and ?cc = "snd (update_ccache cd_client ex_fmt_cc)"
  have load: "ccache_load cd_files True ''/c'' ?w = Inr ex_fmt_cc"
    using ex_fmt_cc_parse by (simp add: ccache_load_def file_bytes_def cd_files_def map_files_def)
  have ok: "ccache_ok ?cc" unfolding cd_updated using ex_fmt_cc_ok cd_creds_ok cd_principals_ok
    by (simp add: ccache_ok_def ex_fmt_cc_def)
  have small: "length (ccache_enc True ?cc) < 2 ^ 64" unfolding cd_updated by (simp add: ex_fmt_cc_def) (simp add: cd_enc_defs)
  have "\<exists>w'. update_ccache_file cd_files True cd_client ''/c'' ?w = (Inr (), w')"
    unfolding update_ccache_file_def load
    using ccache_to_bytes_enc [OF ok] by (simp add: cd_updated ccache_save_def write_file_def) (simp add: cd_files_def map_files_def)
  then obtain w' where w': "update_ccache_file cd_files True cd_client ''/c'' ?w = (Inr (), w')" by blast
  from update_ccache_file_keeps [OF cd_files_ok cd_reachable cd_own_sessions cd_client_storable load ok small w', of cd_config Udp 0 "\<lambda>_. 0"] w'
  show ?thesis by blast
qed

section \<open>A keytab from a password\<close>

theorem keytab_entry_is_password_witness:
  "\<exists>kt key. add_entry_from_password sample_prims keytab_new (kt_principal_new (p_realm dm_client) 1 (p_components dm_client)) [112, 119] (5 * NANOS) 3 18 = Inr kt
    \<and> derive_password_reply_key sample_prims dm_client [112, 119] \<lparr>pk_etype = 18, pk_salt = None, pk_s2kparams = None\<rparr> = Inr key
    \<and> select_keytab_reply_key kt dm_client \<lparr>pk_etype = 18, pk_salt = None, pk_s2kparams = None\<rparr> = Inr (key, 3)"
proof -
  let ?p = "kt_principal_new (p_realm dm_client) 1 (p_components dm_client)"
  have t: "kt_time_to_u32_seconds (5 * NANOS) = Inr 5"
    by (simp add: kt_time_to_u32_seconds_def duration_since_def NANOS_def Let_def)
  obtain e where e: "ket_from_etype_id 18 = Some e" by (simp add: ket_from_etype_id_def aes1_from_etype_id_def or_else_def)
  have "utf8_valid [112, 119]" by code_simp
  then obtain k where "ket_string_to_key sample_prims e [112, 119] (str_bytes (kt_default_password_salt ?p)) (ket_default_s2kparams e) = Inr k"
    using ket_string_to_key_default [OF sample_prims_ok, of "[112, 119]" e] by auto
  then obtain kt where kt: "add_entry_from_password sample_prims keytab_new ?p [112, 119] (5 * NANOS) 3 18 = Inr kt"
    by (simp add: add_entry_from_password_def e t)
  then show ?thesis
    using keytab_entry_is_password [OF kt t, of dm_client "\<lparr>pk_etype = 18, pk_salt = None, pk_s2kparams = None\<rparr>"]
    by (simp add: keytab_new_def kt_principal_new_def)
qed

section \<open>Diagnostics\<close>

theorem diagnostics_reject_keytabs_witness:
  "\<not> diagnostics_is_ok (fst (diagnostics cd_net (with_keytab (config_new Map.empty) Udp dm_client ex_keytab) ()))"
proof -
  let ?c = "with_keytab (config_new Map.empty) Udp dm_client ex_keytab"
  have "ket_from_etype_id 18 \<noteq> None" by code_simp
  then have "\<forall>e \<in> set (kt_entries ex_keytab). ket_from_etype_id (kt_etype (kt_key e)) \<noteq> None"
    by (simp add: ex_keytab_def ex_entry_def)
  moreover have "tc_credentials ?c = Some (KeytabCredential ex_keytab)" by (simp add: with_keytab_def tokio_client_new_def)
  moreover have "ld_preferred_preauth_types (cfg_libdefaults (tc_config ?c)) = DEFAULT_PREAUTH_TYPES"
    by (simp add: with_keytab_def tokio_client_new_def config_new_def lib_defaults_new_def refresh_enctype_ids_def)
  ultimately show ?thesis by (intro diagnostics_reject_keytabs [THEN conjunct2])
qed

end
