(* ===== verification/Spec2Isabelle.thy ===== *)
theory Spec2Isabelle
  imports Keytab CCache_Format CCache_Ops Gss_Tokens Exchange_Props Client_Principal Config_Props Kdc_Demo Client_Options Client_Files_Demo
begin

text \<open>
  \<^bold>\<open>Verification library for rskrb5\<close>, a Kerberos 5 client and service library in Rust.

  \<^bold>\<open>The program.\<close>  Key material comes from keytab files (\<open>src/keytab.rs\<close>) and credential caches
  (\<open>src/ccache.rs\<close>), whose names are resolved by \<open>src/file_name.rs\<close>.  \<open>src/crypto.rs\<close> implements the encryption
  types over primitives of external crates.  \<open>src/ticket.rs\<close>, \<open>src/ap_req.rs\<close> and \<open>src/ap_rep.rs\<close> seal and
  open the messages of the AP exchange; \<open>src/service.rs\<close> is the acceptor with its replay cache; \<open>src/pac.rs\<close>
  parses and verifies the privilege certificate inside a ticket; \<open>src/spnego.rs\<close> wraps the exchange for HTTP and
  offers per-message protection.  \<open>src/client.rs\<close> and \<open>src/client/\<close> obtain tickets from a KDC, keep them in session caches,
  renew them and change passwords; \<open>src/http.rs\<close> joins both sides to HTTP.  \<open>src/config.rs\<close> reads the configuration.

  \<^bold>\<open>Theories.\<close>
  \<^item> \<^verbatim>\<open>Krb_Prelude\<close>: bytes, words, slices, UTF-8, results (\<open>'e + 'a\<close>, \<open>Inl\<close> the error) and their
    combinators (\<open>rbind\<close> is the question-mark operator); \<^verbatim>\<open>Krb_Time\<close>: \<open>SystemTime\<close> as nanoseconds.
  \<^item> \<^verbatim>\<open>Byte_Cursor\<close>, \<^verbatim>\<open>File_Name\<close>, \<^verbatim>\<open>Keytab\<close>, \<^verbatim>\<open>CCache\<close>, \<^verbatim>\<open>CCache_Format\<close>, \<^verbatim>\<open>CCache_Ops\<close>: the two file
    formats and the operations on the stores; \<^verbatim>\<open>Keyed_Store\<close> is the locale of a keyed container that the
    cache interprets.  Parsing and writing are inverse in both directions; lookups return the newest key;
    insertion refines a map update.
  \<^item> \<^verbatim>\<open>Block_Modes\<close>, \<^verbatim>\<open>Nfold\<close>, \<^verbatim>\<open>Crypto_Prims\<close>, \<^verbatim>\<open>Etypes\<close>, \<^verbatim>\<open>Etype_Props\<close>: CBC and ciphertext stealing, n-fold, key
    derivation and the encryption types of \<open>KerberosEtype\<close>.  The locale \<open>message_cipher\<close> is the contract
    (decryption inverts encryption and accepts nothing else), interpreted on every encryption type.
    The block ciphers and hashes are the parameter \<open>P\<close> with the laws \<open>prims_ok\<close>.
  \<^item> \<^verbatim>\<open>Unicode_Text\<close>, \<^verbatim>\<open>Spnego_Der\<close>, \<^verbatim>\<open>Spnego\<close>, \<^verbatim>\<open>Spnego_Props\<close>, \<^verbatim>\<open>Gss_Tokens\<close>: the DER reader and writer of
    \<open>src/spnego/der.rs\<close>, negotiation tokens and headers, MIC and wrap tokens.  Base64 is the parameter \<open>B\<close>.
  \<^item> \<^verbatim>\<open>Krb_Messages\<close>, \<^verbatim>\<open>Ap_Exchange\<close>: the ASN.1 messages as records, the DER codec of the crate \<open>rasn\<close> as the
    parameter \<open>A\<close> with the laws \<open>asn1_ok\<close>, and the sealing and opening of tickets, AP-REQ and AP-REP.
  \<^item> \<^verbatim>\<open>Pac_Ndr\<close>, \<^verbatim>\<open>Pac\<close>, \<^verbatim>\<open>Pac_Props\<close>: the bounded reader, NDR, every PAC buffer, signatures; a small program
    logic for the readers (\<open>pspec\<close>, and \<open>preads\<close> for the bytes that a value was read from) gives the well-formedness of what is parsed.  The claims compressions are the
    parameter \<open>Z\<close>.
  \<^item> \<^verbatim>\<open>Service\<close>, \<^verbatim>\<open>Service_Props\<close>: the acceptor as a handler over an explicit store of replay caches, its exact
    acceptance condition and the step relation \<open>svc_step\<close> of validators that share a cache.
  \<^item> \<^verbatim>\<open>Sec_Context\<close>, \<^verbatim>\<open>Exchange_Props\<close>: initiator and acceptor contexts and the end-to-end theorem that
    mutual authentication succeeds, with a small concrete exchange for the witnesses.

  \<^item> \<^verbatim>\<open>Client_Principal\<close> (\<open>src/client/principal.rs\<close>): principal names with escapes and host-based services;
    \<^verbatim>\<open>Config_Text\<close>, \<^verbatim>\<open>Config\<close>, \<^verbatim>\<open>Config_Props\<close> (\<open>src/config.rs\<close>): the parser of \<open>krb5.conf\<close>, its values, and the resolution of
    realms and servers; a parsed configuration is traced back to the lines of the file.
  \<^item> \<^verbatim>\<open>Krb_Wire\<close>, \<^verbatim>\<open>Krb_Protected\<close>, \<^verbatim>\<open>Krb_Cred\<close>, \<^verbatim>\<open>Kdc_Messages\<close>, \<^verbatim>\<open>Kadmin\<close>: the other messages (\<open>src/messages.rs\<close>,
    \<open>src/krb_priv.rs\<close>, \<open>src/krb_safe.rs\<close>, \<open>src/krb_cred.rs\<close>, \<open>src/kdc_req.rs\<close>, \<open>src/kdc_rep.rs\<close>, \<open>src/krb_error.rs\<close>,
    \<open>src/kadmin.rs\<close>).  The codec is the parameter \<open>K\<close>, which extends \<open>A\<close>, with the laws \<open>kdc_asn1_ok\<close>.
  \<^item> \<^verbatim>\<open>Client_Exchange\<close>, \<^verbatim>\<open>Client_Exchange_Props\<close>, \<^verbatim>\<open>Kdc_Demo\<close>: the AS and TGS exchanges of \<open>src/client.rs\<close> with pre-authentication, S4U,
    renewals and referrals: what an accepted reply guarantees, what a request authenticates, that logins complete and
    referrals end; a concrete KDC serves as the witness.
  \<^item> \<^verbatim>\<open>Transport\<close>, \<^verbatim>\<open>Transport_Props\<close> (\<open>src/client/transport.rs\<close>): endpoints, discovery, framing, failover and fallback of protocols.
    Sockets, resolver, clock, random bytes and environment variables are the fields of \<open>net_env\<close>, functions on a
    world state of any type, so the theorems hold for every behaviour of the network.
  \<^item> \<^verbatim>\<open>Keyed_Cache\<close>, \<^verbatim>\<open>Client_Sessions\<close>, \<^verbatim>\<open>Client_Sessions_Props\<close>, \<^verbatim>\<open>Client_Kpasswd\<close>, \<^verbatim>\<open>Client_Props\<close>, \<^verbatim>\<open>Client_Ccache\<close>: \<open>TokioClient\<close> as
    the record \<open>tokio_client\<close> and its operations on client and world.  A result is an error or an optional value; \<open>None\<close> is the
    panic of an \<open>expect\<close>.  The locale \<open>keyed_cache\<close> extends \<open>keyed_store\<close> and is interpreted on both session caches; the
    step relation \<open>client_step\<close> has every operation that changes the client, and its invariant excludes the panics.  A step is labelled
    with the sessions its caller hands in, because \<open>cache_service_ticket\<close> and \<open>cache_tgt_session\<close> take those of any client: every cached
    session belongs to the client or to the client of one of these.
    Export to a credential cache and import are inverse for a client that holds only its own sessions (\<open>own_sessions\<close>).  \<^verbatim>\<open>Kpasswd_Props\<close> follows a password change through
    \<open>src/client/kpasswd.rs\<close> and \<open>src/kadmin.rs\<close>.
  \<^item> \<^verbatim>\<open>Http\<close>, \<^verbatim>\<open>Http_Props\<close> (\<open>src/http.rs\<close>, \<open>src/client/negotiate.rs\<close>): challenge parsing, the client's retry, the middleware around an
    arbitrary inner service, and the theorem that a whole HTTP exchange completes.  Requests and responses are the
    parameter \<open>H\<close> with the laws \<open>http_ok\<close>; \<open>b64_plain\<close> says that Base64 text has no comma, quote or backslash.
    \<^verbatim>\<open>Client_Demo\<close> holds the concrete clients, networks and responses of the witnesses.
  \<^item> \<^verbatim>\<open>Files\<close>, \<^verbatim>\<open>Stores\<close>, \<^verbatim>\<open>Client_Files\<close>, \<^verbatim>\<open>Client_Diagnostics\<close>, \<^verbatim>\<open>Client_Options\<close>, \<^verbatim>\<open>Client_Files_Demo\<close>: the functions that open files around the
    others.  The operating system is the record \<open>file_env\<close>; \<open>files_ok\<close> says that a written file is read back and that files at
    other paths stay as they are.  A client that holds its own sessions and is saved under a name is loaded from it, its update of a cache file keeps what
    belongs to others, a keytab entry made from a password stands for the password; the report of
    \<open>TokioClient::diagnostics\<close>; the builders of the options.

  \<^bold>\<open>Conventions.\<close>  A \<open>usize\<close> is a natural number with the bound \<open>2 ^ 64\<close> written out in the checked operations;
  fixed-width integers are words.  Randomness and the clock are arguments.  Loops are structural or have a
  measure; the only fuel is that of \<open>find_pac_loop\<close>, the size of the authorization data plus one, which \<open>find_pac_terminates\<close>
  shows to be enough.  Text is a list of bytes as characters, as Rust strings are UTF-8.

  \<^bold>\<open>Not modelled.\<close>  What happens behind the operating system calls: sockets, the DNS resolver and the file system are parameters, and
  permissions, links and concurrent writers of a file are outside \<open>files_ok\<close>; the JSON snapshots (text of \<open>serde_json\<close>) and the
  \<open>Debug\<close> and \<open>Display\<close> texts other than those the code computes with; the async runtime (futures are run to their end, the
  other holders of a client lock are the argument \<open>off\<close> of the background task) with the handles of its tasks, and
  \<open>BlockingNegotiateClient\<close>, which runs the calls of \<open>NegotiateClient\<close> on its own runtime; the tables and reports under
  \<open>src/evaluation\<close>, which no part of the library calls.  The crates (block ciphers, hashes, DER codec of \<open>rasn\<close>, base64,
  compression, calendar, \<open>http\<close>) are parameters.
\<close>

end
